(* ===== verification/Prelude.thy ===== *)
theory Prelude
  imports Main "HOL-Library.Word" "HOL-Library.AList"
begin

text \<open>
  What every component shares: JavaScript's numbers restricted to integers, its 32-bit
  operators, byte arrays with out-of-range reads, array slices, and the two lemma
  collections the proofs run on.

  A JavaScript number is modelled as an \<^typ>\<open>int\<close>. Every number this program computes is an
  integer of absolute value below \<open>2 ^ 53\<close>, where the double arithmetic of the language is
  exact. The operators \<open>&\<close>, \<open>|\<close>, \<open>^\<close>, \<open>~\<close>, \<open><<\<close>, \<open>>>\<close> and \<open>>>>\<close> convert to 32 bits first; they
  are written over \<open>32 word\<close>, with the signed or unsigned reading of the result that
  the language prescribes.
\<close>

unbundle bit_operations_syntax

named_theorems js_arith \<open>readings of the 32-bit operators as integer arithmetic\<close>
named_theorems in_range \<open>facts that bound bytes, words and offsets\<close>

section \<open>The 32-bit operators\<close>

type_synonym u32 = "32 word"

definition js_and :: "int \<Rightarrow> int \<Rightarrow> int" where
  "js_and a b = sint ((word_of_int a :: u32) AND word_of_int b)"

definition js_or :: "int \<Rightarrow> int \<Rightarrow> int" where
  "js_or a b = sint ((word_of_int a :: u32) OR word_of_int b)"

definition js_xor :: "int \<Rightarrow> int \<Rightarrow> int" where
  "js_xor a b = sint ((word_of_int a :: u32) XOR word_of_int b)"

definition js_not :: "int \<Rightarrow> int" where
  "js_not a = sint (NOT (word_of_int a :: u32))"

definition js_shl :: "int \<Rightarrow> int \<Rightarrow> int" where
  "js_shl a n = sint (push_bit (nat (n mod 32)) (word_of_int a :: u32))"

definition js_shr :: "int \<Rightarrow> int \<Rightarrow> int" where
  "js_shr a n = sint (signed_drop_bit (nat (n mod 32)) (word_of_int a :: u32))"

definition js_ushr :: "int \<Rightarrow> int \<Rightarrow> int" where
  "js_ushr a n = uint (drop_bit (nat (n mod 32)) (word_of_int a :: u32))"

lemma sint_u32_of_int: "sint (word_of_int a :: u32) = signed_take_bit 31 a"
  by (simp add: sint_uint uint_word_of_int_eq signed_take_bit_take_bit)

lemma js_and_int: "js_and a b = signed_take_bit 31 (a AND b)"
  unfolding js_and_def by (simp flip: sint_u32_of_int add: of_int_and_eq)

lemma js_or_int: "js_or a b = signed_take_bit 31 (a OR b)"
  unfolding js_or_def by (simp flip: sint_u32_of_int add: of_int_or_eq)

lemma js_xor_int: "js_xor a b = signed_take_bit 31 (a XOR b)"
  unfolding js_xor_def by (simp flip: sint_u32_of_int add: of_int_xor_eq)

lemma js_not_int: "js_not a = signed_take_bit 31 (NOT a)"
  unfolding js_not_def by (simp flip: sint_u32_of_int add: of_int_not_eq)

lemma js_shl_int: "js_shl a n = signed_take_bit 31 (push_bit (nat (n mod 32)) a)"
  unfolding js_shl_def by (simp flip: sint_u32_of_int add: push_bit_eq_mult)

lemma js_shr_int: "js_shr a n = drop_bit (nat (n mod 32)) (signed_take_bit 31 a)"
  by (simp add: js_shr_def sint_signed_drop_bit_eq sint_u32_of_int)

lemma js_ushr_int: "js_ushr a n = drop_bit (nat (n mod 32)) (take_bit 32 a)"
  by (simp add: js_ushr_def unsigned_drop_bit_eq uint_word_of_int_eq)

lemmas js_ops_int = js_and_int js_or_int js_xor_int js_not_int js_shl_int js_shr_int js_ushr_int


lemma signed_take_bit_31_id: "0 \<le> a \<Longrightarrow> a < 2147483648 \<Longrightarrow> signed_take_bit 31 (a :: int) = a"
  by (simp add: signed_take_bit_int_eq_self)

lemma take_bit_32_id: "0 \<le> a \<Longrightarrow> a < 4294967296 \<Longrightarrow> take_bit 32 (a :: int) = a"
  by (simp add: take_bit_int_eq_self)

lemma js_and_nonneg:
  assumes "0 \<le> b" "b < 2147483648"
  shows "js_and a b = a AND b"
proof -
  have "0 \<le> a AND b" "a AND b \<le> b"
    using assms by (simp_all add: AND_upper2)
  with assms show ?thesis
    by (simp add: js_and_int signed_take_bit_31_id)
qed

lemma js_and_low:
  assumes "k \<le> 31"
  shows "js_and a (2 ^ k - 1) = a mod 2 ^ k"
proof -
  have "(2 :: int) ^ k \<le> 2 ^ 31"
    using assms by (intro power_increasing) auto
  then have "js_and a (2 ^ k - 1) = a AND (2 ^ k - 1)"
    by (intro js_and_nonneg) auto
  then show ?thesis
    by (simp add: and_exp_eq_0_iff_not_bit mask_eq_exp_minus_1 [symmetric] take_bit_eq_mask [symmetric]
        take_bit_eq_mod)
qed

lemma js_and_mask1 [js_arith]: "js_and a 1 = a mod 2"
  using js_and_low [of 1 a] by simp

lemma js_and_mask2 [js_arith]: "js_and a 3 = a mod 4"
  using js_and_low [of 2 a] by simp

lemma js_and_mask3 [js_arith]: "js_and a 7 = a mod 8"
  using js_and_low [of 3 a] by simp

lemma js_and_mask4 [js_arith]: "js_and a 15 = a mod 16"
  using js_and_low [of 4 a] by simp

lemma js_and_mask5 [js_arith]: "js_and a 31 = a mod 32"
  using js_and_low [of 5 a] by simp

lemma js_and_mask6 [js_arith]: "js_and a 63 = a mod 64"
  using js_and_low [of 6 a] by simp

lemma js_and_mask7 [js_arith]: "js_and a 127 = a mod 128"
  using js_and_low [of 7 a] by simp

lemma js_and_mask8 [js_arith]: "js_and a 255 = a mod 256"
  using js_and_low [of 8 a] by simp

lemma js_and_mask12 [js_arith]: "js_and a 4095 = a mod 4096"
  using js_and_low [of 12 a] by simp

lemma js_and_mask13 [js_arith]: "js_and a 8191 = a mod 8192"
  using js_and_low [of 13 a] by simp

lemma js_and_mask14 [js_arith]: "js_and a 16383 = a mod 16384"
  using js_and_low [of 14 a] by simp

lemma js_and_mask16 [js_arith]: "js_and a 65535 = a mod 65536"
  using js_and_low [of 16 a] by simp

lemma js_and_mask20 [js_arith]: "js_and a 1048575 = a mod 1048576"
  using js_and_low [of 20 a] by simp

lemma and_shifted_mask: "a AND push_bit k (2 ^ n - 1 :: int) = a div 2 ^ k mod 2 ^ n * 2 ^ k"
proof -
  have "a AND push_bit k (mask n :: int) = push_bit k (take_bit n (drop_bit k a))"
    by (rule bit_eqI)
       (auto simp: bit_and_iff bit_push_bit_iff bit_mask_iff bit_take_bit_iff bit_drop_bit_eq)
  then show ?thesis
    by (simp add: mask_eq_exp_minus_1 take_bit_eq_mod drop_bit_eq_div push_bit_eq_mult)
qed

text \<open>A mask of \<open>n\<close> bits from bit \<open>k\<close> on reads a bit field, still in its place.\<close>

lemma js_and_field:
  assumes "m = (2 ^ n - 1) * 2 ^ k" "0 \<le> m" "m < 2147483648"
  shows "js_and a m = a div 2 ^ k mod 2 ^ n * 2 ^ k"
proof -
  have "m = push_bit k (2 ^ n - 1)"
    using assms(1) by (simp add: push_bit_eq_mult)
  then show ?thesis
    using assms(2,3) and_shifted_mask [of a k n] by (simp add: js_and_nonneg)
qed

lemma js_ushr_nonneg:
  assumes "0 \<le> a" "a < 4294967296" "0 \<le> n" "n < 32"
  shows "js_ushr a n = a div 2 ^ nat n"
  using assms by (simp add: js_ushr_int take_bit_32_id drop_bit_eq_div)

lemma js_shr_nonneg:
  assumes "0 \<le> a" "a < 2147483648" "0 \<le> n" "n < 32"
  shows "js_shr a n = a div 2 ^ nat n"
  using assms by (simp add: js_shr_int signed_take_bit_31_id drop_bit_eq_div)

lemma js_shl_nonneg:
  assumes "0 \<le> a" "a * 2 ^ nat n < 2147483648" "0 \<le> n" "n < 32"
  shows "js_shl a n = a * 2 ^ nat n"
  using assms by (simp add: js_shl_int signed_take_bit_31_id push_bit_eq_mult)

lemma or_disjoint_add:
  assumes "0 \<le> b" "b < 2 ^ n"
  shows "(a * 2 ^ n) OR b = a * 2 ^ n + (b :: int)"
proof -
  have "take_bit n b = b"
    using assms by (simp add: take_bit_int_eq_self)
  then have "push_bit n a OR b = concat_bit n b a"
    by (simp add: concat_bit_def or.commute)
  also have "\<dots> = b + push_bit n a"
    using \<open>take_bit n b = b\<close> by (simp add: concat_bit_eq)
  finally show ?thesis
    by (simp add: push_bit_eq_mult)
qed

lemma js_or_word:
  assumes "0 \<le> a" "a < 256" "0 \<le> b" "b < 256"
  shows "js_or (js_shl a 8) b = 256 * a + b"
proof -
  have "(a * 2 ^ 8) OR b = a * 2 ^ 8 + b"
    using assms by (intro or_disjoint_add) auto
  then show ?thesis
    using assms by (simp add: js_shl_nonneg js_or_int signed_take_bit_31_id)
qed

lemma drop_bit_bounds:
  assumes "0 \<le> (a :: int)"
  shows "0 \<le> drop_bit n a" "drop_bit n a \<le> a"
  using assms zdiv_mono2 [of a 1 "2 ^ n"] by (simp_all add: drop_bit_eq_div pos_imp_zdiv_nonneg_iff)

section \<open>Byte arrays\<close>

text \<open>
  A byte array is a list of integers. The program reads it as \<open>bytes[i] ?? d\<close>: the element
  inside the array, the default \<open>d\<close> outside. A bare \<open>bytes[i]\<close> under a bit operator or a
  comparison with a non-zero number behaves as \<open>bytes[i] ?? 0\<close> does.
\<close>

type_synonym bytes = "int list"

definition is_bytes :: "bytes \<Rightarrow> bool" where
  "is_bytes bs = list_all (\<lambda>b. 0 \<le> b \<and> b < 256) bs"

definition byteOr :: "int \<Rightarrow> bytes \<Rightarrow> int \<Rightarrow> int" where
  "byteOr d bs i = (if 0 \<le> i \<and> i < int (length bs) then bs ! nat i else d)"

abbreviation byteAt :: "bytes \<Rightarrow> int \<Rightarrow> int" where
  "byteAt \<equiv> byteOr 0"

text \<open>
  An assignment \<open>bytes[i] = v\<close>: in place inside the array, extending it at or past its end. A
  negative index sets a property and leaves the elements alone.
\<close>

definition storeAt :: "bytes \<Rightarrow> int \<Rightarrow> int \<Rightarrow> bytes" where
  "storeAt bs i v =
     (if i < 0 then bs
      else if i < int (length bs) then bs[nat i := v]
      else bs @ replicate (nat i - length bs) 0 @ [v])"

text \<open>\<open>xs.slice(from, to)\<close>: negative positions count from the end, both are clamped.\<close>

definition slicePos :: "int \<Rightarrow> int \<Rightarrow> int" where
  "slicePos n k = (if k < 0 then max (n + k) 0 else min k n)"

definition jsSlice :: "'a list \<Rightarrow> int \<Rightarrow> int \<Rightarrow> 'a list" where
  "jsSlice xs from to =
     (let n = int (length xs); s = slicePos n from; e = slicePos n to
      in take (nat (e - s)) (drop (nat s) xs))"

lemma is_bytes_iff: "is_bytes bs \<longleftrightarrow> (\<forall>b\<in>set bs. 0 \<le> b \<and> b < 256)"
  by (simp add: is_bytes_def list_all_iff)

lemma is_bytes_Nil [simp]: "is_bytes []"
  by (simp add: is_bytes_def)

lemma is_bytes_Cons [simp]: "is_bytes (b # bs) \<longleftrightarrow> 0 \<le> b \<and> b < 256 \<and> is_bytes bs"
  by (auto simp: is_bytes_def)

lemma is_bytes_append [simp]: "is_bytes (xs @ ys) \<longleftrightarrow> is_bytes xs \<and> is_bytes ys"
  by (auto simp: is_bytes_def)

lemma byteAt_range [in_range]:
  assumes "is_bytes bs"
  shows "0 \<le> byteAt bs i" "byteAt bs i < 256"
proof -
  have "0 \<le> byteAt bs i \<and> byteAt bs i < 256"
  proof (cases "0 \<le> i \<and> i < int (length bs)")
    case True
    then have "bs ! nat i \<in> set bs" by (simp add: nat_less_iff)
    with assms True show ?thesis by (auto simp: byteOr_def is_bytes_iff)
  next
    case False
    then show ?thesis by (auto simp: byteOr_def)
  qed
  then show "0 \<le> byteAt bs i" "byteAt bs i < 256" by simp_all
qed

lemma byteOr_inside: "0 \<le> i \<Longrightarrow> i < int (length bs) \<Longrightarrow> byteOr d bs i = byteAt bs i"
  by (simp add: byteOr_def)

lemma length_storeAt [simp]:
  "i < int (length bs) \<Longrightarrow> length (storeAt bs i v) = length bs"
  by (simp add: storeAt_def)

lemma byteOr_storeAt:
  assumes "0 \<le> i" "i < int (length bs)"
  shows "byteOr d (storeAt bs i v) j = (if j = i then v else byteOr d bs j)"
  using assms by (auto simp: byteOr_def storeAt_def nth_list_update nat_eq_iff2)

lemma is_bytes_update: "is_bytes bs \<Longrightarrow> 0 \<le> v \<Longrightarrow> v < 256 \<Longrightarrow> is_bytes (bs[k := v])"
  by (auto simp: is_bytes_iff dest!: set_update_subset_insert [THEN subsetD])

lemma is_bytes_replicate: "0 \<le> v \<Longrightarrow> v < 256 \<Longrightarrow> is_bytes (replicate n v)"
  by (simp add: is_bytes_iff)

lemma is_bytes_storeAt:
  assumes "is_bytes bs" "0 \<le> v" "v < 256"
  shows "is_bytes (storeAt bs i v)"
  using assms by (simp add: storeAt_def is_bytes_update is_bytes_replicate)

lemma storeAt_same:
  assumes "0 \<le> i" "i < int (length bs)" "v = byteAt bs i"
  shows "storeAt bs i v = bs"
  using assms by (simp add: storeAt_def byteOr_def)

lemma bytes_eqI:
  assumes "length xs = length ys" "\<And>i. 0 \<le> i \<Longrightarrow> i < int (length ys) \<Longrightarrow> byteAt xs i = byteAt ys i"
  shows "xs = ys"
proof (rule nth_equalityI)
  show "length xs = length ys" by (rule assms(1))
next
  fix k assume "k < length xs"
  then show "xs ! k = ys ! k"
    using assms(1) assms(2) [of "int k"] by (simp add: byteOr_def)
qed

lemma jsSlice_inside:
  assumes "0 \<le> o'" "0 \<le> n" "o' + n \<le> int (length xs)"
  shows "jsSlice xs o' (o' + n) = take (nat n) (drop (nat o') xs)"
  using assms by (simp add: jsSlice_def slicePos_def Let_def)

lemma jsSlice_split:
  assumes "0 \<le> o'" "0 \<le> n" "0 \<le> k" "o' + n + k \<le> int (length xs)"
  shows "jsSlice xs o' (o' + (n + k)) = jsSlice xs o' (o' + n) @ jsSlice xs (o' + n) (o' + n + k)"
proof -
  have "nat (n + k) = nat n + nat k" "nat (o' + n) = nat o' + nat n"
    using assms by linarith+
  then show ?thesis
    using assms jsSlice_inside [of o' "n + k" xs] jsSlice_inside [of o' n xs]
      jsSlice_inside [of "o' + n" k xs]
    by (simp only: take_add drop_drop) (simp add: add.commute)
qed

lemma length_jsSlice_inside:
  assumes "0 \<le> o'" "0 \<le> n" "o' + n \<le> int (length xs)"
  shows "length (jsSlice xs o' (o' + n)) = nat n"
  using assms by (simp add: jsSlice_inside)

lemma set_jsSlice: "set (jsSlice xs from to) \<subseteq> set xs"
  by (auto simp: jsSlice_def Let_def dest!: in_set_takeD in_set_dropD)

lemma is_bytes_jsSlice: "is_bytes bs \<Longrightarrow> is_bytes (jsSlice bs from to)"
  using set_jsSlice [of bs] by (auto simp: is_bytes_iff)

lemma jsSlice_Cons:
  assumes "0 \<le> o'" "0 < n" "o' + n \<le> int (length xs)"
  shows "jsSlice xs o' (o' + n) = xs ! nat o' # jsSlice xs (o' + 1) (o' + 1 + (n - 1))"
proof -
  have "nat o' < length xs" using assms by linarith
  then have "drop (nat o') xs = xs ! nat o' # drop (Suc (nat o')) xs"
    by (simp add: Cons_nth_drop_Suc)
  moreover have "nat (o' + 1) = Suc (nat o')" "nat n = Suc (nat (n - 1))"
    using assms by linarith+
  ultimately show ?thesis
    using assms jsSlice_inside [of o' n xs] jsSlice_inside [of "o' + 1" "n - 1" xs] by simp
qed

lemma jsSlice_empty [simp]: "jsSlice xs o' o' = []"
  by (simp add: jsSlice_def)

section \<open>Writing a run of bytes\<close>

text \<open>The loop \<open>bytes[off + index] = values[index]\<close>.\<close>

fun storeBytes :: "bytes \<Rightarrow> int \<Rightarrow> bytes \<Rightarrow> bytes" where
  "storeBytes bs off [] = bs"
| "storeBytes bs off (v # vs) = storeBytes (storeAt bs off v) (off + 1) vs"

lemma length_storeBytes [simp]:
  "off + int (length vs) \<le> int (length bs) \<Longrightarrow> length (storeBytes bs off vs) = length bs"
  by (induction bs off vs rule: storeBytes.induct) auto

lemma byteOr_storeBytes:
  "0 \<le> off \<Longrightarrow> off + int (length vs) \<le> int (length bs)
   \<Longrightarrow> byteOr d (storeBytes bs off vs) j
       = (if off \<le> j \<and> j < off + int (length vs) then vs ! nat (j - off) else byteOr d bs j)"
proof (induction bs off vs rule: storeBytes.induct)
  case (1 bs off)
  then show ?case by simp
next
  case (2 bs off v vs)
  have "byteOr d (storeBytes (storeAt bs off v) (off + 1) vs) j
      = (if off + 1 \<le> j \<and> j < off + 1 + int (length vs) then vs ! nat (j - (off + 1))
         else if j = off then v else byteOr d bs j)"
    using 2 by (simp add: byteOr_storeAt)
  moreover have "nat (j - off) = Suc (nat (j - (off + 1)))" if "off + 1 \<le> j"
    using that by linarith
  ultimately show ?case by (auto simp: not_le)
qed

lemma is_bytes_storeBytes: "is_bytes bs \<Longrightarrow> is_bytes vs \<Longrightarrow> is_bytes (storeBytes bs off vs)"
  by (induction bs off vs rule: storeBytes.induct) (auto intro: is_bytes_storeAt)

lemma nth_jsSlice:
  assumes "0 \<le> off" "0 \<le> n" "off + n \<le> int (length xs)" "int k < n"
  shows "jsSlice xs off (off + n) ! k = xs ! (nat off + k)"
  using assms by (simp add: jsSlice_inside)

lemma byteAt_jsSlice:
  assumes "0 \<le> off" "0 \<le> n" "off + n \<le> int (length bs)" "off \<le> j" "j < off + n"
  shows "jsSlice bs off (off + n) ! nat (j - off) = byteAt bs j"
proof -
  have "nat off + nat (j - off) = nat j" using assms by linarith
  then show ?thesis
    using assms nth_jsSlice [of off n bs "nat (j - off)"] by (simp add: byteOr_def)
qed

lemma jsSlice_eqI:
  assumes "length bs = length bs'" "0 \<le> off" "0 \<le> n" "off + n \<le> int (length bs)"
    "\<And>j. off \<le> j \<Longrightarrow> j < off + n \<Longrightarrow> byteAt bs j = byteAt bs' j"
  shows "jsSlice bs off (off + n) = jsSlice bs' off (off + n)"
proof (rule nth_equalityI)
  show "length (jsSlice bs off (off + n)) = length (jsSlice bs' off (off + n))"
    using assms by (simp add: length_jsSlice_inside)
next
  fix k assume "k < length (jsSlice bs off (off + n))"
  then have k: "int k < n" using assms by (simp add: length_jsSlice_inside)
  have "nat off + k = nat (off + int k)" using assms(2) by linarith
  then show "jsSlice bs off (off + n) ! k = jsSlice bs' off (off + n) ! k"
    using assms k assms(5) [of "off + int k"] by (simp add: nth_jsSlice byteOr_def)
qed

lemma storeBytes_slice_id:
  assumes "0 \<le> off" "0 \<le> n" "off + n \<le> int (length bs)"
  shows "storeBytes bs off (jsSlice bs off (off + n)) = bs"
proof (rule bytes_eqI)
  have len: "int (length (jsSlice bs off (off + n))) = n"
    using assms by (simp add: length_jsSlice_inside)
  show "length (storeBytes bs off (jsSlice bs off (off + n))) = length bs"
    using assms len by simp
  fix j assume "0 \<le> j" "j < int (length bs)"
  then show "byteAt (storeBytes bs off (jsSlice bs off (off + n))) j = byteAt bs j"
    using assms len byteAt_jsSlice [OF assms] by (simp add: byteOr_storeBytes)
qed

lemma slice_storeBytes:
  assumes "0 \<le> off" "off + int (length vs) \<le> int (length bs)"
  shows "jsSlice (storeBytes bs off vs) off (off + int (length vs)) = vs"
proof (rule nth_equalityI)
  show "length (jsSlice (storeBytes bs off vs) off (off + int (length vs))) = length vs"
    using assms by (simp add: length_jsSlice_inside)
next
  fix k assume "k < length (jsSlice (storeBytes bs off vs) off (off + int (length vs)))"
  then have k: "k < length vs" using assms by (simp add: length_jsSlice_inside)
  then have "jsSlice (storeBytes bs off vs) off (off + int (length vs)) ! k
      = byteAt (storeBytes bs off vs) (off + int k)"
    using assms byteAt_jsSlice [of off "int (length vs)" "storeBytes bs off vs" "off + int k"] by simp
  also have "\<dots> = vs ! k"
    using assms k by (simp add: byteOr_storeBytes)
  finally show "jsSlice (storeBytes bs off vs) off (off + int (length vs)) ! k = vs ! k" .
qed

lemma byteAt_append_left: "0 \<le> i \<Longrightarrow> i < int (length xs) \<Longrightarrow> byteAt (xs @ ys) i = byteAt xs i"
  by (simp add: byteOr_def nth_append nat_less_iff)

lemma byteAt_append_right: "int (length xs) \<le> i \<Longrightarrow> byteAt (xs @ ys) i = byteAt ys (i - int (length xs))"
proof -
  assume "int (length xs) \<le> i"
  then have "nat i - length xs = nat (i - int (length xs))" "\<not> nat i < length xs" by linarith+
  then show ?thesis using \<open>int (length xs) \<le> i\<close> by (auto simp: byteOr_def nth_append)
qed

end
