(* ===== verification/JsText.thy ===== *)
theory JsText
  imports Prelude
begin

text \<open>
  The string operations the program uses, over \<^typ>\<open>string\<close>. A string holds code units below
  256: the inputs that matter here are packet bytes, addresses and hexadecimal text, and
  no operation below gives a code unit from 256 on a meaning that one below 256 cannot have
  (it is neither a digit, nor a separator, nor a letter of an address), except the exotic
  Unicode spaces of \<open>trim\<close> and \<open>\s\<close>, which are outside the model.
\<close>

section \<open>Characters\<close>

definition codeOf :: "char \<Rightarrow> int" where
  "codeOf c = of_char c"

text \<open>The class \<open>\s\<close> of regular expressions, and what \<open>trim\<close> strips.\<close>

definition isJsSpace :: "char \<Rightarrow> bool" where
  "isJsSpace c \<longleftrightarrow> codeOf c \<in> {9, 10, 11, 12, 13, 32, 160}"

definition isDecDigit :: "char \<Rightarrow> bool" where
  "isDecDigit c \<longleftrightarrow> 48 \<le> codeOf c \<and> codeOf c \<le> 57"

definition isHexDigit :: "char \<Rightarrow> bool" where
  "isHexDigit c \<longleftrightarrow> (48 \<le> codeOf c \<and> codeOf c \<le> 57) \<or> (65 \<le> codeOf c \<and> codeOf c \<le> 70)
     \<or> (97 \<le> codeOf c \<and> codeOf c \<le> 102)"

definition digitVal :: "char \<Rightarrow> int" where
  "digitVal c = (if codeOf c \<le> 57 then codeOf c - 48
     else if codeOf c \<le> 70 then codeOf c - 55 else codeOf c - 87)"

definition digitChar :: "nat \<Rightarrow> char" where
  "digitChar d = char_of (if d < 10 then 48 + d else 87 + d)"

text \<open>The class \<open>[\s,:;|_-]\<close> that hexadecimal input may be broken up with.\<close>

definition isHexSeparator :: "char \<Rightarrow> bool" where
  "isHexSeparator c \<longleftrightarrow> isJsSpace c \<or> c \<in> set '',:;|_-''"

lemma codeOf_nat: "codeOf c = int (of_char c)"
  by (simp add: codeOf_def of_nat_of_char)

lemma codeOf_char_of [simp]: "codeOf (char_of (n :: nat)) = int (n mod 256)"
  by (simp add: codeOf_nat)

lemma codeOf_eq_iff: "codeOf c = codeOf d \<longleftrightarrow> c = d"
  by (simp add: codeOf_nat)

lemma codeOf_range [in_range]: "0 \<le> codeOf c" "codeOf c < 256"
  by (simp_all add: codeOf_nat)

lemma char_eq_code: "c = d \<longleftrightarrow> codeOf c = codeOf d"
  by (simp add: codeOf_eq_iff)

lemma codeOf_digitChar: "d < 16 \<Longrightarrow> codeOf (digitChar d) = (if d < 10 then 48 + int d else 87 + int d)"
  by (simp add: digitChar_def)

lemma isHexDigit_digitChar [simp]: "d < 16 \<Longrightarrow> isHexDigit (digitChar d)"
  by (auto simp: isHexDigit_def codeOf_digitChar)

lemma isDecDigit_digitChar [simp]: "d < 10 \<Longrightarrow> isDecDigit (digitChar d)"
  by (auto simp: isDecDigit_def codeOf_digitChar)

lemma digitVal_digitChar [simp]: "d < 16 \<Longrightarrow> digitVal (digitChar d) = int d"
  by (auto simp: digitVal_def codeOf_digitChar)

lemma isDecDigit_hex: "isDecDigit c \<Longrightarrow> isHexDigit c"
  by (simp add: isDecDigit_def isHexDigit_def)

lemma hex_not_space: "isHexDigit c \<Longrightarrow> \<not> isJsSpace c"
  by (auto simp: isHexDigit_def isJsSpace_def)

lemma hex_not_separator:
  assumes "isHexDigit c"
  shows "\<not> isHexSeparator c"
  using assms by (auto simp: isHexSeparator_def hex_not_space isHexDigit_def char_eq_code codeOf_def)

lemma hex_not_char:
  assumes "isHexDigit c"
  shows "c \<noteq> CHR ''x''" "c \<noteq> CHR ''X''" "c \<noteq> CHR '':''" "c \<noteq> CHR ''|''" "c \<noteq> CHR ''.''"
    "c \<noteq> CHR ''-''" "c \<noteq> CHR 0x0A" "c \<noteq> CHR 0x0D" "c \<noteq> CHR '' ''"
  using assms by (auto simp: isHexDigit_def codeOf_def)

lemma digitVal_range:
  assumes "isHexDigit c"
  shows "0 \<le> digitVal c" "digitVal c < 16"
  using assms by (auto simp: isHexDigit_def digitVal_def)

section \<open>Numbers as text\<close>

text \<open>\<open>x.toString(b)\<close> for an integer; \<open>String(x)\<close> is the decimal case.\<close>

fun digitsIn :: "nat \<Rightarrow> nat \<Rightarrow> nat list" where
  "digitsIn b n = (if b < 2 \<or> n < b then [n] else digitsIn b (n div b) @ [n mod b])"

declare digitsIn.simps [simp del]

definition radixText :: "nat \<Rightarrow> int \<Rightarrow> string" where
  "radixText b x = (if x < 0 then CHR ''-'' # map digitChar (digitsIn b (nat (- x)))
     else map digitChar (digitsIn b (nat x)))"

abbreviation decText :: "int \<Rightarrow> string" where
  "decText \<equiv> radixText 10"

abbreviation hexText :: "int \<Rightarrow> string" where
  "hexText \<equiv> radixText 16"

definition padStart :: "nat \<Rightarrow> char \<Rightarrow> string \<Rightarrow> string" where
  "padStart n c s = replicate (n - length s) c @ s"

text \<open>
  \<open>Number(s)\<close> on a run of decimal digits, \<open>Number.parseInt(s, 16)\<close> on a run of hexadecimal
  digits. Beyond \<open>2 ^ 53\<close> the language rounds the first; the callers reject such values.
\<close>

definition parseRadix :: "int \<Rightarrow> string \<Rightarrow> int" where
  "parseRadix b s = foldl (\<lambda>a c. a * b + digitVal c) 0 s"

lemma parseRadix_snoc: "parseRadix b (s @ [c]) = parseRadix b s * b + digitVal c"
  by (simp add: parseRadix_def)

lemma digitsIn_less: "2 \<le> b \<Longrightarrow> \<forall>d\<in>set (digitsIn b n). d < b"
proof (induction b n rule: digitsIn.induct)
  case (1 b n)
  then show ?case
    by (subst digitsIn.simps) auto
qed

lemma parseRadix_digitsIn:
  "2 \<le> b \<Longrightarrow> b \<le> 16 \<Longrightarrow> parseRadix (int b) (map digitChar (digitsIn b n)) = int n"
proof (induction b n rule: digitsIn.induct)
  case (1 b n)
  show ?case
  proof (cases "n < b")
    case True
    with 1 show ?thesis by (subst digitsIn.simps) (simp add: parseRadix_def)
  next
    case False
    have "n mod b < b" using 1 by simp
    then have "n mod b < 16" using 1 by linarith
    with False 1 show ?thesis
      by (subst digitsIn.simps) (simp add: parseRadix_snoc flip: of_nat_mult of_nat_add)
  qed
qed

lemma parseRadix_radixText:
  assumes "2 \<le> b" "b \<le> 16" "0 \<le> x"
  shows "parseRadix (int b) (radixText b x) = x"
  using assms by (simp add: radixText_def parseRadix_digitsIn)

lemma parseRadix_zeros: "parseRadix b (replicate n (CHR ''0'') @ s) = parseRadix b s"
proof -
  have "foldl (\<lambda>a c. a * b + digitVal c) 0 (replicate n (CHR ''0'')) = 0"
    by (induction n) (simp_all add: digitVal_def codeOf_def)
  then show ?thesis by (simp add: parseRadix_def)
qed

lemma parseRadix_padStart [simp]: "parseRadix b (padStart n (CHR ''0'') s) = parseRadix b s"
  by (simp add: padStart_def parseRadix_zeros)

lemma digitsIn_length: "2 \<le> b \<Longrightarrow> n < b ^ k \<Longrightarrow> 0 < k \<Longrightarrow> length (digitsIn b n) \<le> k"
proof (induction b n arbitrary: k rule: digitsIn.induct)
  case (1 b n)
  show ?case
  proof (cases "n < b")
    case True
    with 1 show ?thesis by (subst digitsIn.simps) simp
  next
    case False
    then obtain j where k: "k = Suc j" "0 < j"
      using 1 by (cases k; cases "k = 1") auto
    with 1 False have "n div b < b ^ j"
      by (simp add: div_less_iff_less_mult mult.commute)
    with 1 False k have "length (digitsIn b (n div b)) \<le> j" by simp
    with False 1 k show ?thesis by (subst digitsIn.simps) simp
  qed
qed

lemma digitsIn_nonempty [simp]: "digitsIn b n \<noteq> []"
  by (subst digitsIn.simps) simp

lemma radixText_length:
  assumes "2 \<le> b" "0 \<le> x" "x < int b ^ k" "0 < k"
  shows "length (radixText b x) \<le> k"
proof -
  have "nat x < b ^ k"
    using assms by (metis nat_less_iff of_nat_power)
  with assms show ?thesis by (simp add: radixText_def digitsIn_length)
qed

lemma radixText_nonempty [simp]: "radixText b x \<noteq> []"
  by (simp add: radixText_def)

lemma hexText_digits: "0 \<le> x \<Longrightarrow> list_all isHexDigit (hexText x)"
  using digitsIn_less [of 16 "nat x"] by (auto simp: radixText_def list_all_iff)

lemma decText_digits: "0 \<le> x \<Longrightarrow> list_all isDecDigit (decText x)"
  using digitsIn_less [of 10 "nat x"] by (auto simp: radixText_def list_all_iff)

lemma padStart_length: "length (padStart n c s) = max n (length s)"
  by (simp add: padStart_def)

lemma padStart_hex: "list_all isHexDigit s \<Longrightarrow> list_all isHexDigit (padStart n (CHR ''0'') s)"
  by (auto simp: padStart_def list_all_iff isHexDigit_def codeOf_def)

section \<open>Splitting, joining, trimming\<close>

definition jsTrim :: "string \<Rightarrow> string" where
  "jsTrim s = rev (dropWhile isJsSpace (rev (dropWhile isJsSpace s)))"

definition consHead :: "char \<Rightarrow> string list \<Rightarrow> string list" where
  "consHead c ws = (case ws of [] \<Rightarrow> [[c]] | w # ws' \<Rightarrow> (c # w) # ws')"

text \<open>\<open>s.split(c)\<close> for a one-character separator.\<close>

fun splitOn :: "char \<Rightarrow> string \<Rightarrow> string list" where
  "splitOn c [] = [[]]"
| "splitOn c (x # xs) = (if x = c then [] # splitOn c xs else consHead x (splitOn c xs))"

text \<open>\<open>s.split(sep)\<close> for a longer separator: matches are found from the left and do not overlap.\<close>

function splitStr :: "string \<Rightarrow> string \<Rightarrow> string list" where
  "splitStr sep [] = [[]]"
| "splitStr sep (x # xs) =
     (if sep \<noteq> [] \<and> take (length sep) (x # xs) = sep then [] # splitStr sep (drop (length sep) (x # xs))
      else consHead x (splitStr sep xs))"
  by pat_completeness auto
termination
  by (relation "measure (\<lambda>(sep, s). length s)") auto

text \<open>\<open>s.split(/\r?\n/)\<close>.\<close>

fun splitLines :: "string \<Rightarrow> string list" where
  "splitLines [] = [[]]"
| "splitLines (x # xs) =
     (if x = CHR 0x0A then [] # splitLines xs
      else if x = CHR 0x0D \<and> take 1 xs = [CHR 0x0A] then [] # splitLines (drop 1 xs)
      else consHead x (splitLines xs))"

fun joinWith :: "string \<Rightarrow> string list \<Rightarrow> string" where
  "joinWith sep [] = []"
| "joinWith sep [w] = w"
| "joinWith sep (w # ws) = w @ sep @ joinWith sep ws"

text \<open>\<open>s.includes(sub)\<close>.\<close>

fun includesText :: "string \<Rightarrow> string \<Rightarrow> bool" where
  "includesText sub [] \<longleftrightarrow> sub = []"
| "includesText sub (x # xs) \<longleftrightarrow> take (length sub) (x # xs) = sub \<or> includesText sub xs"

text \<open>\<open>s.replace(/0x/gi, "")\<close>.\<close>

fun drop0x :: "string \<Rightarrow> string" where
  "drop0x (a # b # cs) =
     (if a = CHR ''0'' \<and> (b = CHR ''x'' \<or> b = CHR ''X'') then drop0x cs else a # drop0x (b # cs))"
| "drop0x cs = cs"

text \<open>\<open>s.match(/.{1,2}/g) ?? []\<close>: pairs of characters, a line terminator ending a pair.\<close>

definition isLineEnd :: "char \<Rightarrow> bool" where
  "isLineEnd c \<longleftrightarrow> c = CHR 0x0A \<or> c = CHR 0x0D"

fun matchPairs :: "string \<Rightarrow> string list" where
  "matchPairs [] = []"
| "matchPairs [a] = (if isLineEnd a then [] else [[a]])"
| "matchPairs (a # b # cs) =
     (if isLineEnd a then matchPairs (b # cs)
      else if isLineEnd b then [a] # matchPairs cs
      else [a, b] # matchPairs cs)"

lemma jsTrim_id:
  assumes "list_all (\<lambda>c. \<not> isJsSpace c) s"
  shows "jsTrim s = s"
proof -
  have *: "dropWhile isJsSpace t = t" if "list_all (\<lambda>c. \<not> isJsSpace c) t" for t
    using that by (cases t) auto
  show ?thesis
    using assms by (simp add: jsTrim_def * list_all_rev)
qed

lemma splitOn_nonempty [simp]: "splitOn c s \<noteq> []"
  by (cases s) (auto simp: consHead_def split: list.split)

lemma splitOn_no_sep: "c \<notin> set w \<Longrightarrow> splitOn c w = [w]"
  by (induction w) (auto simp: consHead_def)

lemma splitOn_append_sep: "c \<notin> set w \<Longrightarrow> splitOn c (w @ c # s) = w # splitOn c s"
  by (induction w) (auto simp: consHead_def)

lemma splitOn_joinWith:
  "ws \<noteq> [] \<Longrightarrow> \<forall>w\<in>set ws. c \<notin> set w \<Longrightarrow> splitOn c (joinWith [c] ws) = ws"
  by (induction "[c]" ws rule: joinWith.induct) (simp_all add: splitOn_no_sep splitOn_append_sep)

lemma splitLines_no_end:
  "list_all (\<lambda>c. c \<noteq> CHR 0x0A \<and> c \<noteq> CHR 0x0D) w \<Longrightarrow> splitLines w = [w]"
  by (induction w) (auto simp: consHead_def)

lemma splitLines_append_end:
  "list_all (\<lambda>c. c \<noteq> CHR 0x0A \<and> c \<noteq> CHR 0x0D) w
   \<Longrightarrow> splitLines (w @ CHR 0x0A # s) = w # splitLines s"
  by (induction w) (auto simp: consHead_def)

lemma splitLines_joinWith:
  "ws \<noteq> [] \<Longrightarrow> \<forall>w\<in>set ws. list_all (\<lambda>c. c \<noteq> CHR 0x0A \<and> c \<noteq> CHR 0x0D) w
   \<Longrightarrow> splitLines (joinWith [CHR 0x0A] ws) = ws"
  by (induction "[CHR 0x0A]" ws rule: joinWith.induct)
    (simp_all add: splitLines_no_end splitLines_append_end)

lemma joinWith_set: "set (joinWith sep ws) \<subseteq> set sep \<union> (\<Union>w\<in>set ws. set w)"
  by (induction sep ws rule: joinWith.induct) auto

lemma filter_joinWith:
  "filter P sep = [] \<Longrightarrow> filter P (joinWith sep ws) = concat (map (filter P) ws)"
  by (induction sep ws rule: joinWith.induct) simp_all

lemma drop0x_id: "CHR ''x'' \<notin> set s \<Longrightarrow> CHR ''X'' \<notin> set s \<Longrightarrow> drop0x s = s"
  by (induction s rule: drop0x.induct) auto

end
