(* ===== verification/PacketBytes.thy ===== *)
theory PacketBytes
  imports JsText
begin

text \<open>
  The lowest layer of \<open>rawPacketModel.ts\<close>: range checks, big-endian reads, Base64 and the
  hexadecimal text form of a packet, with the round trips between bytes and either text.
\<close>

section \<open>Reads\<close>

definition RAW_PACKET_MAX_BYTES :: int where
  "RAW_PACKET_MAX_BYTES = 9212"

definition RAW_PACKET_BYTES_PER_LINE :: int where
  "RAW_PACKET_BYTES_PER_LINE = 16"

definition rawPacketWord :: "bytes \<Rightarrow> int \<Rightarrow> int" where
  "rawPacketWord bs off = js_or (js_shl (byteAt bs off) 8) (byteAt bs (off + 1))"

definition rawPacketHasBytes :: "bytes \<Rightarrow> int \<Rightarrow> int \<Rightarrow> bool" where
  "rawPacketHasBytes bs off len \<longleftrightarrow> off \<ge> 0 \<and> len > 0 \<and> off + len \<le> int (length bs)"

text \<open>The loop \<open>value = value * 256 + byte\<close>, by the number of bytes still to read.\<close>

fun numberFrom :: "bytes \<Rightarrow> int \<Rightarrow> nat \<Rightarrow> int \<Rightarrow> int" where
  "numberFrom bs off 0 v = v"
| "numberFrom bs off (Suc n) v = numberFrom bs (off + 1) n (v * 256 + byteAt bs off)"

definition rawPacketNumberValue :: "bytes \<Rightarrow> int \<Rightarrow> int \<Rightarrow> int" where
  "rawPacketNumberValue bs off len = numberFrom bs off (nat len) 0"

lemma rawPacketWord_eq:
  assumes "is_bytes bs"
  shows "rawPacketWord bs off = 256 * byteAt bs off + byteAt bs (off + 1)"
  using byteAt_range [OF assms] by (simp add: rawPacketWord_def js_or_word)

lemma rawPacketWord_range [in_range]:
  assumes "is_bytes bs"
  shows "0 \<le> rawPacketWord bs off" "rawPacketWord bs off < 65536"
  using byteAt_range [OF assms, of off] byteAt_range [OF assms, of "off + 1"]
  by (simp_all add: rawPacketWord_eq [OF assms])

lemma rawPacketWord_cong:
  "byteAt bs off = byteAt bs' off \<Longrightarrow> byteAt bs (off + 1) = byteAt bs' (off + 1)
   \<Longrightarrow> rawPacketWord bs off = rawPacketWord bs' off"
  by (simp add: rawPacketWord_def)

lemma hasBytesD:
  assumes "rawPacketHasBytes bs off len"
  shows "0 \<le> off" "0 < len" "off + len \<le> int (length bs)" "off < int (length bs)"
  using assms by (auto simp: rawPacketHasBytes_def)

lemma hasBytes_length_cong:
  "length bs = length bs' \<Longrightarrow> rawPacketHasBytes bs = rawPacketHasBytes bs'"
  by (auto simp: rawPacketHasBytes_def fun_eq_iff)

lemma numberFrom_slice:
  "0 \<le> off \<Longrightarrow> off + int n \<le> int (length bs)
   \<Longrightarrow> numberFrom bs off n v = foldl (\<lambda>a b. a * 256 + b) v (jsSlice bs off (off + int n))"
proof (induction n arbitrary: off v)
  case 0
  then show ?case by simp
next
  case (Suc n)
  then have "jsSlice bs off (off + int (Suc n)) = byteAt bs off # jsSlice bs (off + 1) (off + 1 + int n)"
    using jsSlice_Cons [of off "int (Suc n)" bs] by (simp add: byteOr_def)
  with Suc.IH [of "off + 1"] Suc.prems show ?case by simp
qed

lemma numberFrom_range:
  "is_bytes bs \<Longrightarrow> 0 \<le> v \<Longrightarrow> 0 \<le> numberFrom bs off n v \<and> numberFrom bs off n v < (v + 1) * 256 ^ n"
proof (induction n arbitrary: off v)
  case 0
  then show ?case by simp
next
  case (Suc n)
  let ?v = "v * 256 + byteAt bs off"
  have b: "0 \<le> ?v" "?v + 1 \<le> (v + 1) * 256"
    using Suc.prems byteAt_range [OF Suc.prems(1), of off] by simp_all
  then have "(?v + 1) * 256 ^ n \<le> (v + 1) * 256 * 256 ^ n"
    by (intro mult_right_mono) simp_all
  moreover have "0 \<le> numberFrom bs (off + 1) n ?v \<and> numberFrom bs (off + 1) n ?v < (?v + 1) * 256 ^ n"
    using Suc.IH [OF Suc.prems(1) b(1)] .
  ultimately have "0 \<le> numberFrom bs (off + 1) n ?v \<and> numberFrom bs (off + 1) n ?v < (v + 1) * 256 * 256 ^ n"
    by linarith
  then show ?case by (simp add: algebra_simps)
qed

lemma rawPacketNumberValue_range [in_range]:
  assumes "is_bytes bs"
  shows "0 \<le> rawPacketNumberValue bs off len" "rawPacketNumberValue bs off len < 256 ^ nat len"
  using numberFrom_range [OF assms, of 0 off "nat len"] by (simp_all add: rawPacketNumberValue_def)

lemma rawPacketNumberValue_2:
  "is_bytes bs \<Longrightarrow> rawPacketNumberValue bs off 2 = rawPacketWord bs off"
  by (simp add: rawPacketNumberValue_def rawPacketWord_eq numeral_eq_Suc)

section \<open>Base64\<close>

text \<open>
  \<open>btoa\<close> and \<open>atob\<close> of the browser, on strings of code units below 256. \<open>atob\<close> drops ASCII
  whitespace, then up to two trailing \<open>=\<close> of a text whose length is a multiple of four, and
  fails on a character outside the alphabet or on a length that leaves one sextet over.
\<close>

definition b64Char :: "int \<Rightarrow> char" where
  "b64Char v = char_of (nat (if v < 26 then v + 65 else if v < 52 then v + 71
     else if v < 62 then v - 4 else if v = 62 then 43 else 47))"

definition b64Val :: "char \<Rightarrow> int option" where
  "b64Val c = (let n = codeOf c in
     if 65 \<le> n \<and> n \<le> 90 then Some (n - 65)
     else if 97 \<le> n \<and> n \<le> 122 then Some (n - 71)
     else if 48 \<le> n \<and> n \<le> 57 then Some (n + 4)
     else if n = 43 then Some 62 else if n = 47 then Some 63 else None)"

fun encodeSextets :: "int list \<Rightarrow> string" where
  "encodeSextets [] = []"
| "encodeSextets [a] = [b64Char (a div 4), b64Char (a mod 4 * 16), CHR ''='', CHR ''='']"
| "encodeSextets [a, b] =
     [b64Char (a div 4), b64Char (a mod 4 * 16 + b div 16), b64Char (b mod 16 * 4), CHR ''='']"
| "encodeSextets (a # b # c # rest) =
     b64Char (a div 4) # b64Char (a mod 4 * 16 + b div 16) # b64Char (b mod 16 * 4 + c div 64)
       # b64Char (c mod 64) # encodeSextets rest"

fun decodeSextets :: "int list \<Rightarrow> int list" where
  "decodeSextets (a # b # c # d # rest) =
     (a * 4 + b div 16) # (b mod 16 * 16 + c div 4) # (c mod 4 * 64 + d) # decodeSextets rest"
| "decodeSextets [a, b, c] = [a * 4 + b div 16, b mod 16 * 16 + c div 4]"
| "decodeSextets [a, b] = [a * 4 + b div 16]"
| "decodeSextets _ = []"

definition btoa :: "string \<Rightarrow> string" where
  "btoa s = encodeSextets (map codeOf s)"

definition isAsciiSpace :: "char \<Rightarrow> bool" where
  "isAsciiSpace c \<longleftrightarrow> codeOf c \<in> {9, 10, 12, 13, 32}"

definition dropPadding :: "string \<Rightarrow> string" where
  "dropPadding s =
     (if length s mod 4 = 0 then
        (if drop (length s - 2) s = ''=='' then take (length s - 2) s
         else if drop (length s - 1) s = ''='' then take (length s - 1) s else s)
      else s)"

definition atob :: "string \<Rightarrow> string option" where
  "atob s =
     (let t = dropPadding (filter (\<lambda>c. \<not> isAsciiSpace c) s)
      in if length t mod 4 = 1 \<or> list_ex (\<lambda>c. b64Val c = None) t then None
         else Some (map (\<lambda>v. char_of (nat v)) (decodeSextets (map (\<lambda>c. the (b64Val c)) t))))"

text \<open>An absent or empty text gives no bytes, and so does one that \<open>atob\<close> rejects.\<close>

definition rawPacketBytesFromBase64 :: "string option \<Rightarrow> bytes" where
  "rawPacketBytesFromBase64 value =
     (case value of
        None \<Rightarrow> []
      | Some v \<Rightarrow> if v = [] then [] else (case atob v of None \<Rightarrow> [] | Some s \<Rightarrow> map codeOf s))"

text \<open>The sextets and the padding of an encoded text, to relate the two directions.\<close>

fun sextetsOf :: "int list \<Rightarrow> int list" where
  "sextetsOf [] = []"
| "sextetsOf [a] = [a div 4, a mod 4 * 16]"
| "sextetsOf [a, b] = [a div 4, a mod 4 * 16 + b div 16, b mod 16 * 4]"
| "sextetsOf (a # b # c # rest) =
     a div 4 # (a mod 4 * 16 + b div 16) # (b mod 16 * 4 + c div 64) # c mod 64 # sextetsOf rest"

fun paddingOf :: "int list \<Rightarrow> nat" where
  "paddingOf [] = 0"
| "paddingOf [a] = 2"
| "paddingOf [a, b] = 1"
| "paddingOf (a # b # c # rest) = paddingOf rest"

lemma encodeSextets_split:
  "encodeSextets bs = map b64Char (sextetsOf bs) @ replicate (paddingOf bs) (CHR ''='')"
  by (induction bs rule: encodeSextets.induct) (simp_all add: numeral_eq_Suc)

lemma sextets_padding_length:
  "(length (sextetsOf bs) + paddingOf bs) mod 4 = 0 \<and> paddingOf bs \<le> 2"
proof (induction bs rule: sextetsOf.induct)
  case (4 a b c rest)
  have "(n + 4) mod 4 = n mod 4" for n :: nat by simp
  from this [of "length (sextetsOf rest) + paddingOf rest"] 4 show ?case
    by (simp add: add.commute)
qed simp_all

lemma sextetsOf_range: "is_bytes bs \<Longrightarrow> \<forall>v\<in>set (sextetsOf bs). 0 \<le> v \<and> v < 64"
  by (induction bs rule: sextetsOf.induct) auto

lemma decode_sextetsOf: "is_bytes bs \<Longrightarrow> decodeSextets (sextetsOf bs) = bs"
  by (induction bs rule: sextetsOf.induct) auto

lemma codeOf_b64Char:
  assumes "0 \<le> v" "v < 64"
  shows "codeOf (b64Char v) = (if v < 26 then v + 65 else if v < 52 then v + 71
     else if v < 62 then v - 4 else if v = 62 then 43 else 47)"
  using assms by (simp add: b64Char_def)

lemma b64Val_b64Char: "0 \<le> v \<Longrightarrow> v < 64 \<Longrightarrow> b64Val (b64Char v) = Some v"
  by (simp add: b64Val_def codeOf_b64Char Let_def)

lemma b64Char_plain:
  assumes "0 \<le> v" "v < 64"
  shows "b64Char v \<noteq> CHR ''=''" "\<not> isAsciiSpace (b64Char v)"
proof -
  have "codeOf (b64Char v) \<noteq> codeOf (CHR ''='')"
    using assms by (auto simp: codeOf_b64Char) (simp_all add: codeOf_def)
  then show "b64Char v \<noteq> CHR ''=''" by auto
  show "\<not> isAsciiSpace (b64Char v)"
    using assms by (auto simp: isAsciiSpace_def codeOf_b64Char)
qed

lemma dropPadding_append:
  assumes "(length s + k) mod 4 = 0" "k \<le> 2" "CHR ''='' \<notin> set s"
  shows "dropPadding (s @ replicate k (CHR ''='')) = s"
proof (cases k)
  case 0
  have "CHR ''='' \<notin> set (drop n s)" for n
    using assms(3) set_drop_subset [of n s] by blast
  then have "drop (length s - 2) s \<noteq> ''==''" "drop (length s - 1) s \<noteq> ''=''"
    by (metis list.set_intros(1))+
  with 0 assms show ?thesis by (simp add: dropPadding_def)
next
  case (Suc j)
  show ?thesis
  proof (cases j)
    case 0
    with Suc assms(1) have "s \<noteq> []" by auto
    then obtain t c where "s = t @ [c]" by (cases s rule: rev_cases) auto
    with Suc 0 assms show ?thesis by (auto simp: dropPadding_def)
  next
    case (Suc i)
    with \<open>k = Suc j\<close> assms(2) have "k = 2" by simp
    with assms show ?thesis by (simp add: dropPadding_def numeral_2_eq_2)
  qed
qed

lemma atob_encode:
  assumes "is_bytes bs"
  shows "atob (encodeSextets bs) = Some (map (\<lambda>v. char_of (nat v)) bs)"
proof -
  let ?s = "map b64Char (sextetsOf bs)"
  note r = sextetsOf_range [OF assms]
  have eq: "CHR ''='' \<notin> set ?s"
    using r b64Char_plain(1) by force
  have "\<forall>c\<in>set (encodeSextets bs). \<not> isAsciiSpace c"
    using r b64Char_plain(2) by (auto simp: encodeSextets_split isAsciiSpace_def codeOf_def)
  then have "filter (\<lambda>c. \<not> isAsciiSpace c) (encodeSextets bs) = encodeSextets bs"
    by (simp add: filter_True)
  moreover have "dropPadding (encodeSextets bs) = ?s"
    using sextets_padding_length [of bs] eq by (simp add: encodeSextets_split dropPadding_append)
  moreover have "length ?s mod 4 \<noteq> 1"
    using sextets_padding_length [of bs] by (simp, presburger)
  moreover have "\<not> list_ex (\<lambda>c. b64Val c = None) ?s"
    using r by (auto simp: list_ex_iff b64Val_b64Char)
  moreover have "map (\<lambda>c. the (b64Val c)) ?s = sextetsOf bs"
    using r by (auto simp: b64Val_b64Char intro!: map_idI)
  ultimately show ?thesis
    using decode_sextetsOf [OF assms] by (simp add: atob_def Let_def)
qed

lemma map_codeOf_char_of:
  "is_bytes bs \<Longrightarrow> map codeOf (map (\<lambda>v. char_of (nat v)) bs) = bs"
  by (auto simp: is_bytes_iff intro!: map_idI)

lemma bytesFromBase64_encode:
  assumes "is_bytes bs"
  shows "rawPacketBytesFromBase64 (Some (encodeSextets bs)) = bs"
proof (cases bs)
  case Nil
  then show ?thesis by (simp add: rawPacketBytesFromBase64_def)
next
  case (Cons b cs)
  then have "encodeSextets bs \<noteq> []"
    by (cases cs; cases "tl cs") auto
  then show ?thesis
    using assms by (simp add: rawPacketBytesFromBase64_def atob_encode map_codeOf_char_of del: map_map)
qed

lemma is_bytes_fromBase64 [in_range]: "is_bytes (rawPacketBytesFromBase64 v)"
  by (auto simp: rawPacketBytesFromBase64_def is_bytes_iff codeOf_range split: option.splits)

end
