(* ===== verification/HexText.thy ===== *)
theory HexText
  imports PacketBytes
begin

text \<open>
  The hexadecimal text form of a packet: \<open>formatRawPacketHex\<close> prints sixteen bytes a line,
  \<open>compactRawPacketHex\<close> reads a text back that may carry line offsets, \<open>0x\<close> prefixes and
  separators, \<open>rawPacketHexError\<close> validates it, and \<open>rawPacketHexSelectionRange\<close> finds the
  characters of a byte range. Printing and reading back are inverse to each other.
\<close>

section \<open>Printing\<close>

definition hexByte :: "int \<Rightarrow> string" where
  "hexByte b = padStart 2 (CHR ''0'') (hexText b)"

definition hexLine :: "bytes \<Rightarrow> string" where
  "hexLine bs = joinWith '' '' (map hexByte bs)"

text \<open>The loop over \<open>offset = 0, 16, 32, ...\<close>, by the bytes that are left.\<close>

function hexLines :: "bytes \<Rightarrow> string list" where
  "hexLines bs = (if bs = [] then []
     else hexLine (take (nat RAW_PACKET_BYTES_PER_LINE) bs)
       # hexLines (drop (nat RAW_PACKET_BYTES_PER_LINE) bs))"
  by pat_completeness auto
termination
  by (relation "measure length") (auto simp: RAW_PACKET_BYTES_PER_LINE_def)

declare hexLines.simps [simp del]

definition formatRawPacketHex :: "bytes \<Rightarrow> string" where
  "formatRawPacketHex bs = joinWith [CHR 0x0A] (hexLines bs)"

section \<open>Reading\<close>

text \<open>
  \<open>line.replace(/^\s*[0-9a-fA-F]{4,8}\s*[:|]\s*/, "")\<close>. Hexadecimal digits are no spaces and
  neither are \<open>:\<close> and \<open>|\<close>, so the greedy match is the only one: it needs a run of
  four to eight digits.
\<close>

definition stripLineOffset :: "string \<Rightarrow> string" where
  "stripLineOffset line =
     (let rest = dropWhile isJsSpace line;
          digits = takeWhile isHexDigit rest;
          after = dropWhile isJsSpace (dropWhile isHexDigit rest)
      in if 4 \<le> length digits \<and> length digits \<le> 8
            \<and> (take 1 after = '':'' \<or> take 1 after = ''|'')
         then dropWhile isJsSpace (drop 1 after) else line)"

definition compactRawPacketHex :: "string \<Rightarrow> string" where
  "compactRawPacketHex value =
     (let withoutOffsets = joinWith '' '' (map stripLineOffset (splitLines value))
      in filter (\<lambda>c. \<not> isHexSeparator c) (drop0x withoutOffsets))"

definition rawPacketHexError :: "string \<Rightarrow> string option" where
  "rawPacketHexError value =
     (let compact = compactRawPacketHex value in
      if length compact = 0 then Some ''Raw packet hex is empty.''
      else if list_ex (\<lambda>c. \<not> isHexDigit c) compact
        then Some ''Raw packet hex must contain only hex bytes.''
      else if length compact mod 2 \<noteq> 0 then Some ''Raw packet hex must contain whole bytes.''
      else if int (length compact) > 2 * RAW_PACKET_MAX_BYTES
        then Some (''Raw packet exceeds '' @ decText RAW_PACKET_MAX_BYTES @ '' bytes.'')
      else None)"

definition rawPacketHexByteCount :: "string \<Rightarrow> int" where
  "rawPacketHexByteCount value =
     (let compact = compactRawPacketHex value in
      if length compact = 0 \<or> list_ex (\<lambda>c. \<not> isHexDigit c) compact then 0
      else int (length compact) div 2)"

text \<open>
  \<open>Number.parseInt(s, 16)\<close>: a sign and a \<open>0x\<close> may precede the longest run of digits; no digit
  at all is \<open>NaN\<close>, here \<open>None\<close>.
\<close>

definition parseIntHex :: "string \<Rightarrow> int option" where
  "parseIntHex s =
     (let t = dropWhile isJsSpace s;
          signed = take 1 t = ''-'' \<or> take 1 t = ''+'';
          u = (if signed then drop 1 t else t);
          v = (if take 2 u = ''0x'' \<or> take 2 u = ''0X'' then drop 2 u else u);
          digits = takeWhile isHexDigit v
      in if digits = [] then None
         else Some (if take 1 t = ''-'' then - parseRadix 16 digits else parseRadix 16 digits))"

text \<open>The loop over \<open>index = 0, 2, 4, ...\<close> that cuts a compact text into pairs.\<close>

fun hexPairs :: "string \<Rightarrow> string list" where
  "hexPairs [] = []"
| "hexPairs [a] = [[a]]"
| "hexPairs (a # b # cs) = [a, b] # hexPairs cs"

text \<open>\<open>String.fromCharCode\<close> keeps the low 16 bits and reads \<open>NaN\<close> as 0; here only 0 to 255 occur.\<close>

definition rawPacketHexToBase64 :: "string \<Rightarrow> string" where
  "rawPacketHexToBase64 value =
     btoa (map (\<lambda>p. char_of (nat (case parseIntHex p of None \<Rightarrow> 0 | Some n \<Rightarrow> n)))
       (hexPairs (compactRawPacketHex value)))"

definition rawPacketBytesFromHex :: "string \<Rightarrow> bytes option" where
  "rawPacketBytesFromHex value =
     (if rawPacketHexError value \<noteq> None then None
      else Some (map (\<lambda>p. case parseIntHex p of None \<Rightarrow> 0 | Some n \<Rightarrow> n)
             (hexPairs (compactRawPacketHex value))))"

section \<open>Selecting a byte range\<close>

definition rawPacketHexCharacter :: "char \<Rightarrow> bool" where
  "rawPacketHexCharacter c =
     (let code = codeOf c in (code \<ge> 48 \<and> code \<le> 57) \<or> (code \<ge> 65 \<and> code \<le> 70)
        \<or> (code \<ge> 97 \<and> code \<le> 102))"

fun selectionFrom :: "string \<Rightarrow> int \<Rightarrow> int \<Rightarrow> int \<Rightarrow> int \<Rightarrow> int option \<Rightarrow> (int \<times> int) option" where
  "selectionFrom [] characterIndex nibble targetStart targetEnd start = None"
| "selectionFrom (c # cs) characterIndex nibble targetStart targetEnd start =
     (if \<not> rawPacketHexCharacter c
      then selectionFrom cs (characterIndex + 1) nibble targetStart targetEnd start
      else
        let start' = (if nibble = targetStart then Some characterIndex else start);
            nibble' = nibble + 1
        in if nibble' = targetEnd
           then map_option (\<lambda>s. (s, characterIndex + 1)) start'
           else selectionFrom cs (characterIndex + 1) nibble' targetStart targetEnd start')"

text \<open>The pair is \<open>start\<close> and \<open>end\<close> of the selected characters.\<close>

definition rawPacketHexSelectionRange :: "string \<Rightarrow> int \<Rightarrow> int \<Rightarrow> (int \<times> int) option" where
  "rawPacketHexSelectionRange value byteOffset byteLength =
     (if byteOffset < 0 \<or> byteLength \<le> 0 then None
      else selectionFrom value 0 0 (byteOffset * 2) ((byteOffset + byteLength) * 2) None)"

section \<open>Round trips\<close>

lemma hexByte_digits: "0 \<le> b \<Longrightarrow> list_all isHexDigit (hexByte b)"
  by (simp add: hexByte_def padStart_hex hexText_digits)

lemma hexByte_length:
  assumes "0 \<le> b" "b < 256"
  shows "length (hexByte b) = 2"
  using radixText_length [of 16 b 2] assms by (simp add: hexByte_def padStart_length)

lemma hexByte_value: "0 \<le> b \<Longrightarrow> parseRadix 16 (hexByte b) = b"
  using parseRadix_radixText [of 16 b] by (simp add: hexByte_def)

lemma parseIntHex_digits:
  assumes "list_all isHexDigit s" "s \<noteq> []"
  shows "parseIntHex s = Some (parseRadix 16 s)"
proof -
  have nosp: "dropWhile isJsSpace s = s"
    using assms by (cases s) (auto dest: hex_not_space)
  have tw: "takeWhile isHexDigit s = s"
    using assms(1) by (simp add: takeWhile_eq_all_conv list_all_iff)
  have "take 1 s \<noteq> ''-''" "take 1 s \<noteq> ''+''" "take 2 s \<noteq> ''0x''" "take 2 s \<noteq> ''0X''"
    using assms by (cases s; cases "tl s"; auto simp: isHexDigit_def codeOf_def)+
  then show ?thesis
    using assms(2) by (simp add: parseIntHex_def Let_def nosp tw)
qed

lemma hexPairs_concat:
  "\<forall>w\<in>set ws. length w = 2 \<Longrightarrow> hexPairs (concat ws) = ws"
proof (induction ws)
  case Nil
  then show ?case by simp
next
  case (Cons w ws)
  then obtain a b where "w = [a, b]"
    by (auto simp: length_Suc_conv numeral_2_eq_2)
  with Cons show ?case by simp
qed

lemma concat_hexBytes_digits: "is_bytes bs \<Longrightarrow> list_all isHexDigit (concat (map hexByte bs))"
  by (induction bs) (simp_all add: hexByte_digits)

lemma concat_hexBytes_length: "is_bytes bs \<Longrightarrow> length (concat (map hexByte bs)) = 2 * length bs"
  by (induction bs) (simp_all add: hexByte_length)

lemma hexLine_chars: "is_bytes bs \<Longrightarrow> c \<in> set (hexLine bs) \<Longrightarrow> isHexDigit c \<or> c = CHR '' ''"
  using joinWith_set [of "'' ''" "map hexByte bs"] hexByte_digits
  by (fastforce simp: hexLine_def is_bytes_iff list_all_iff)

lemma sep_space [simp]: "isHexSeparator (CHR '' '')"
  by (simp add: isHexSeparator_def isJsSpace_def codeOf_def)

lemma filter_hexLine:
  assumes "is_bytes bs"
  shows "filter (\<lambda>c. \<not> isHexSeparator c) (hexLine bs) = concat (map hexByte bs)"
proof -
  have eq: "map (filter (\<lambda>c. \<not> isHexSeparator c)) (map hexByte bs) = map hexByte bs"
    using assms hexByte_digits
    by (auto simp: is_bytes_iff list_all_iff hex_not_separator intro!: filter_True)
  have "filter (\<lambda>c. \<not> isHexSeparator c) (hexLine bs)
      = concat (map (filter (\<lambda>c. \<not> isHexSeparator c)) (map hexByte bs))"
    unfolding hexLine_def by (rule filter_joinWith) simp
  then show ?thesis by (simp only: eq)
qed

lemma stripLineOffset_hexLine:
  assumes "is_bytes bs" "bs \<noteq> []"
  shows "stripLineOffset (hexLine bs) = hexLine bs"
proof -
  obtain b cs where bs: "bs = b # cs" using assms(2) by (cases bs) auto
  then have "length (hexByte b) = 2" "list_all isHexDigit (hexByte b)"
    using assms(1) by (simp_all add: hexByte_length hexByte_digits)
  then obtain x y where xy: "hexByte b = [x, y]" "isHexDigit x" "isHexDigit y"
    by (auto simp: length_Suc_conv numeral_2_eq_2)
  have "\<not> isHexDigit (CHR '' '')" by (simp add: isHexDigit_def codeOf_def)
  with xy have "length (takeWhile isHexDigit (hexLine bs)) \<le> 2"
    by (cases cs) (simp_all add: hexLine_def bs)
  moreover have "dropWhile isJsSpace (hexLine bs) = hexLine bs"
    using xy by (cases cs) (simp_all add: hexLine_def bs hex_not_space)
  ultimately show ?thesis by (simp add: stripLineOffset_def Let_def)
qed

lemma hexLines_induct_facts:
  "is_bytes bs \<Longrightarrow>
     (\<forall>l\<in>set (hexLines bs). (\<exists>cs. is_bytes cs \<and> cs \<noteq> [] \<and> l = hexLine cs))
     \<and> concat (map (filter (\<lambda>c. \<not> isHexSeparator c)) (hexLines bs)) = concat (map hexByte bs)"
proof (induction bs rule: hexLines.induct)
  case (1 bs)
  show ?case
  proof (cases "bs = []")
    case True
    then show ?thesis by (simp add: hexLines.simps)
  next
    case False
    let ?t = "take (nat RAW_PACKET_BYTES_PER_LINE) bs"
    let ?d = "drop (nat RAW_PACKET_BYTES_PER_LINE) bs"
    have td: "is_bytes ?t" "is_bytes ?d" "?t \<noteq> []"
      using "1.prems" False
      by (auto simp: is_bytes_iff RAW_PACKET_BYTES_PER_LINE_def dest: in_set_takeD in_set_dropD)
    have "map hexByte bs = map hexByte ?t @ map hexByte ?d"
      by (simp flip: map_append)
    with False td "1.IH" [OF False td(2)] show ?thesis
      by (subst (1 2) hexLines.simps) (auto simp: filter_hexLine)
  qed
qed

lemma hexLines_nonempty: "bs \<noteq> [] \<Longrightarrow> hexLines bs \<noteq> []"
  by (simp add: hexLines.simps)

lemma compact_format:
  assumes "is_bytes bs" "bs \<noteq> []"
  shows "compactRawPacketHex (formatRawPacketHex bs) = concat (map hexByte bs)"
proof -
  let ?ls = "hexLines bs"
  have lines: "\<exists>cs. is_bytes cs \<and> cs \<noteq> [] \<and> l = hexLine cs" if "l \<in> set ?ls" for l
    using hexLines_induct_facts [OF assms(1)] that by blast
  have chars: "isHexDigit c \<or> c = CHR '' ''" if "l \<in> set ?ls" "c \<in> set l" for l c
    using lines [OF that(1)] that(2) hexLine_chars by blast
  have "splitLines (formatRawPacketHex bs) = ?ls"
    unfolding formatRawPacketHex_def
    using chars hex_not_char
    by (intro splitLines_joinWith hexLines_nonempty assms(2) ballI) (force simp: list_all_iff)
  moreover have "map stripLineOffset ?ls = ?ls"
    using lines stripLineOffset_hexLine by (intro map_idI) blast
  moreover have "drop0x (joinWith '' '' ?ls) = joinWith '' '' ?ls"
  proof (rule drop0x_id)
    have ok: "isHexDigit c \<or> c = CHR '' ''" if "c \<in> set (joinWith '' '' ?ls)" for c
      using subsetD [OF joinWith_set that] chars by auto
    show "CHR ''x'' \<notin> set (joinWith '' '' ?ls)"
      using ok [of "CHR ''x''"] by (auto simp: isHexDigit_def codeOf_def)
    show "CHR ''X'' \<notin> set (joinWith '' '' ?ls)"
      using ok [of "CHR ''X''"] by (auto simp: isHexDigit_def codeOf_def)
  qed
  moreover have "filter (\<lambda>c. \<not> isHexSeparator c) (joinWith '' '' ?ls)
      = concat (map (filter (\<lambda>c. \<not> isHexSeparator c)) ?ls)"
    by (rule filter_joinWith) simp
  ultimately show ?thesis
    using hexLines_induct_facts [OF assms(1)] by (simp only: compactRawPacketHex_def Let_def)
qed

lemma hexError_format:
  assumes "is_bytes bs" "bs \<noteq> []" "int (length bs) \<le> RAW_PACKET_MAX_BYTES"
  shows "rawPacketHexError (formatRawPacketHex bs) = None"
proof -
  let ?c = "concat (map hexByte bs)"
  have "\<not> list_ex (\<lambda>c. \<not> isHexDigit c) ?c"
    using concat_hexBytes_digits [OF assms(1)] by (simp add: list_ex_iff list_all_iff)
  moreover have "length ?c = 2 * length bs" "length bs \<noteq> 0"
    using assms(2) by (simp_all only: concat_hexBytes_length [OF assms(1)]) simp
  ultimately show ?thesis
    using assms(3) unfolding rawPacketHexError_def compact_format [OF assms(1,2)] Let_def by simp
qed

lemma parse_hexBytes:
  assumes "is_bytes bs"
  shows "map (\<lambda>p. case parseIntHex p of None \<Rightarrow> 0 | Some n \<Rightarrow> n) (hexPairs (concat (map hexByte bs))) = bs"
proof -
  have "hexPairs (concat (map hexByte bs)) = map hexByte bs"
    using assms by (intro hexPairs_concat) (auto simp: is_bytes_iff hexByte_length)
  moreover have "parseIntHex (hexByte b) = Some b" if "b \<in> set bs" for b
  proof -
    have b: "0 \<le> b" "b < 256" using assms that by (auto simp: is_bytes_iff)
    then have "hexByte b \<noteq> []" using hexByte_length by fastforce
    with b show ?thesis by (simp add: parseIntHex_digits hexByte_digits hexByte_value)
  qed
  ultimately show ?thesis by (simp add: map_idI)
qed

lemma hexToBase64_format:
  assumes "is_bytes bs" "bs \<noteq> []"
  shows "rawPacketHexToBase64 (formatRawPacketHex bs) = encodeSextets bs"
proof -
  have "map (\<lambda>p. char_of (nat (case parseIntHex p of None \<Rightarrow> 0 | Some n \<Rightarrow> n)))
      (hexPairs (concat (map hexByte bs))) = map (\<lambda>v. char_of (nat v)) bs"
    using arg_cong [OF parse_hexBytes [OF assms(1)], of "map (\<lambda>v. char_of (nat v))"]
    by (simp add: comp_def)
  then show ?thesis
    using map_codeOf_char_of [OF assms(1)]
    by (simp add: rawPacketHexToBase64_def compact_format assms btoa_def del: map_map)
qed

lemma bytesFromHex_format:
  assumes "is_bytes bs" "bs \<noteq> []" "int (length bs) \<le> RAW_PACKET_MAX_BYTES"
  shows "rawPacketBytesFromHex (formatRawPacketHex bs) = Some bs"
  using assms by (simp add: rawPacketBytesFromHex_def hexError_format compact_format parse_hexBytes)

end
