(* ===== verification/FieldCodec.thy ===== *)
theory FieldCodec
  imports HexText
begin

text \<open>
  The five display formats of a packet field (\<open>hex\<close>, \<open>ipv4\<close>, \<open>ipv6\<close>, \<open>mac\<close>, \<open>number\<close>) and
  the masked number: for each a printer from bytes and a parser to bytes. The locale
  \<open>field_codec\<close> states what the row builder and the field editor rely on.
\<close>

datatype RawPacketFieldFormat = FmtHex | FmtIpv4 | FmtIpv6 | FmtMac | FmtNumber

record RawPacketFieldRow =
  row_id :: string
  row_layer :: string
  row_field :: string
  row_offset :: int
  row_length :: int
  row_format :: RawPacketFieldFormat
  row_value :: string
  row_mask :: "int option"
  row_shift :: "int option"

section \<open>MAC addresses\<close>

definition formatPacketMac :: "bytes \<Rightarrow> int \<Rightarrow> string" where
  "formatPacketMac bs off = joinWith '':'' (map hexByte (jsSlice bs off (off + 6)))"

definition parsePacketMac :: "string \<Rightarrow> bytes option" where
  "parsePacketMac value =
     (let compact = map (\<lambda>c. if c = CHR ''-'' \<or> c = CHR ''.'' then CHR '':'' else c) (jsTrim value);
          parts = (if CHR '':'' \<in> set compact then splitOn (CHR '':'') compact else matchPairs compact)
      in if length parts \<noteq> 6 \<or> list_ex (\<lambda>p. \<not> (length p = 2 \<and> list_all isHexDigit p)) parts then None
         else Some (map (parseRadix 16) parts))"

section \<open>IPv4 addresses\<close>

definition formatPacketIpv4 :: "bytes \<Rightarrow> int \<Rightarrow> string" where
  "formatPacketIpv4 bs off = joinWith ''.'' (map decText (jsSlice bs off (off + 4)))"

text \<open>One part of the address, \<open>NaN\<close> (here \<open>None\<close>) unless it is one to three digits.\<close>

definition parseOctet :: "string \<Rightarrow> int option" where
  "parseOctet part =
     (if 1 \<le> length part \<and> length part \<le> 3 \<and> list_all isDecDigit part
      then Some (parseRadix 10 part) else None)"

definition badOctet :: "int option \<Rightarrow> bool" where
  "badOctet b \<longleftrightarrow> (case b of None \<Rightarrow> True | Some v \<Rightarrow> v < 0 \<or> v > 255)"

definition parsePacketIpv4 :: "string \<Rightarrow> bytes option" where
  "parsePacketIpv4 value =
     (let parts = splitOn (CHR ''.'') (jsTrim value) in
      if length parts \<noteq> 4 then None
      else let octets = map parseOctet parts
           in if list_ex badOctet octets then None else Some (map the octets))"

section \<open>IPv6 addresses\<close>

definition formatPacketIpv6 :: "bytes \<Rightarrow> int \<Rightarrow> string" where
  "formatPacketIpv6 bs off =
     joinWith '':'' (map (\<lambda>index. padStart 4 (CHR ''0'') (hexText (rawPacketWord bs (off + index))))
       [0, 2, 4, 6, 8, 10, 12, 14])"

text \<open>The groups of an address with a \<open>::\<close>, the missing ones filled in with \<open>0\<close>.\<close>

definition expandIpv6Groups :: "string \<Rightarrow> string list option" where
  "expandIpv6Groups trimmed =
     (let parts = splitStr ''::'' trimmed in
      if length parts \<noteq> 2 then None
      else
        let left = (if parts ! 0 \<noteq> [] then splitOn (CHR '':'') (parts ! 0) else []);
            right = (if parts ! 1 \<noteq> [] then splitOn (CHR '':'') (parts ! 1) else [])
        in if list_ex (\<lambda>g. g = []) (left @ right) then None
           else
             let missing = 8 - int (length left) - int (length right)
             in if missing < 1 then None else Some (left @ replicate (nat missing) ''0'' @ right))"

definition parsePacketIpv6 :: "string \<Rightarrow> bytes option" where
  "parsePacketIpv6 value =
     (let trimmed = jsTrim value in
      if CHR '':'' \<notin> set trimmed then None
      else case (if includesText ''::'' trimmed then expandIpv6Groups trimmed
                 else Some (splitOn (CHR '':'') trimmed)) of
             None \<Rightarrow> None
           | Some groups \<Rightarrow>
               if length groups \<noteq> 8
                  \<or> list_ex (\<lambda>g. \<not> (1 \<le> length g \<and> length g \<le> 4 \<and> list_all isHexDigit g)) groups
               then None
               else Some (concat (map (\<lambda>g. let word = parseRadix 16 g
                      in [js_and (js_shr word 8) 255, js_and word 255]) groups)))"

section \<open>Hexadecimal fields\<close>

definition formatPacketHexField :: "bytes \<Rightarrow> int \<Rightarrow> int \<Rightarrow> string" where
  "formatPacketHexField bs off len = concat (map hexByte (jsSlice bs off (off + len)))"

definition parsePacketHexField :: "string \<Rightarrow> int \<Rightarrow> bytes option" where
  "parsePacketHexField value len =
     (let compact = filter (\<lambda>c. \<not> isHexSeparator c) (drop0x (jsTrim value)) in
      if int (length compact) \<noteq> len * 2 \<or> list_ex (\<lambda>c. \<not> isHexDigit c) compact then None
      else Some (map (parseRadix 16) (hexPairs compact)))"

section \<open>Numbers\<close>

definition formatPacketNumberField :: "bytes \<Rightarrow> int \<Rightarrow> int \<Rightarrow> string" where
  "formatPacketNumberField bs off len = decText (rawPacketNumberValue bs off len)"

text \<open>The loop from \<open>index = length - 1\<close> down to 0.\<close>

fun numberToBytes :: "nat \<Rightarrow> int \<Rightarrow> bytes" where
  "numberToBytes 0 remaining = []"
| "numberToBytes (Suc n) remaining = numberToBytes n (remaining div 256) @ [js_and remaining 255]"

definition packetNumberToBytes :: "int \<Rightarrow> int \<Rightarrow> bytes" where
  "packetNumberToBytes value len = numberToBytes (nat len) value"

definition MAX_SAFE_INTEGER :: int where
  "MAX_SAFE_INTEGER = 2 ^ 53 - 1"

definition parsePacketNumberField :: "string \<Rightarrow> int \<Rightarrow> bytes option" where
  "parsePacketNumberField value len =
     (let trimmed = jsTrim value in
      if trimmed = [] \<or> \<not> list_all isDecDigit trimmed then None
      else
        let parsed = parseRadix 10 trimmed; upper = 256 ^ nat len - 1
        in if parsed > MAX_SAFE_INTEGER \<or> parsed < 0 \<or> parsed > upper then None
           else Some (packetNumberToBytes parsed len))"

section \<open>Masked numbers\<close>

definition shiftOf :: "RawPacketFieldRow \<Rightarrow> int" where
  "shiftOf row = (case row_shift row of None \<Rightarrow> 0 | Some s \<Rightarrow> s)"

definition rawPacketMaskedMax :: "RawPacketFieldRow \<Rightarrow> int option" where
  "rawPacketMaskedMax row =
     (case row_mask row of None \<Rightarrow> None | Some m \<Rightarrow> Some (js_ushr (js_ushr m (shiftOf row)) 0))"

definition formatPacketMaskedNumberField :: "bytes \<Rightarrow> int \<Rightarrow> int \<Rightarrow> int \<Rightarrow> int \<Rightarrow> string" where
  "formatPacketMaskedNumberField bs off len maskBits shift =
     (let rawValue = js_ushr (rawPacketNumberValue bs off len) 0
      in decText (js_ushr (js_ushr (js_and rawValue maskBits) shift) 0))"

definition parsePacketMaskedNumberField :: "RawPacketFieldRow \<Rightarrow> string \<Rightarrow> bytes \<Rightarrow> bytes option" where
  "parsePacketMaskedNumberField row value currentBytes =
     (if row_mask row = None \<or> row_format row \<noteq> FmtNumber
         \<or> \<not> rawPacketHasBytes currentBytes (row_offset row) (row_length row) then None
      else
        let trimmed = jsTrim value in
        if trimmed = [] \<or> \<not> list_all isDecDigit trimmed then None
        else
          let parsed = parseRadix 10 trimmed;
              shift = shiftOf row;
              maskBits = js_ushr (the (row_mask row)) 0
          in case rawPacketMaskedMax row of
               None \<Rightarrow> None
             | Some upper \<Rightarrow>
                 if parsed > MAX_SAFE_INTEGER \<or> parsed < 0 \<or> parsed > upper then None
                 else
                   let current = js_ushr (rawPacketNumberValue currentBytes (row_offset row) (row_length row)) 0;
                       next = js_ushr (js_or (js_and current (js_ushr (js_not maskBits) 0))
                                             (js_and (js_shl parsed shift) maskBits)) 0
                   in Some (packetNumberToBytes next (row_length row)))"

section \<open>Dispatch on the format\<close>

definition parseRawPacketFieldValue :: "RawPacketFieldRow \<Rightarrow> string \<Rightarrow> bytes \<Rightarrow> bytes option" where
  "parseRawPacketFieldValue row value currentBytes =
     (if row_mask row \<noteq> None then parsePacketMaskedNumberField row value currentBytes
      else case row_format row of
             FmtMac \<Rightarrow> parsePacketMac value
           | FmtIpv4 \<Rightarrow> parsePacketIpv4 value
           | FmtIpv6 \<Rightarrow> parsePacketIpv6 value
           | FmtNumber \<Rightarrow> parsePacketNumberField value (row_length row)
           | FmtHex \<Rightarrow> parsePacketHexField value (row_length row))"

text \<open>
  The texts of the error messages. The bound of a number is printed exactly up to six bytes;
  rows have at most four.
\<close>

definition rawPacketFieldError :: "RawPacketFieldRow \<Rightarrow> string \<Rightarrow> bytes \<Rightarrow> string option" where
  "rawPacketFieldError row value currentBytes =
     (if parseRawPacketFieldValue row value currentBytes \<noteq> None then None
      else case row_format row of
             FmtMac \<Rightarrow> Some ''Expected MAC address, for example aa:bb:cc:dd:ee:ff.''
           | FmtIpv4 \<Rightarrow> Some ''Expected IPv4 address, for example 16.0.0.1.''
           | FmtIpv6 \<Rightarrow> Some ''Expected IPv6 address, for example 2001:db8::1.''
           | FmtNumber \<Rightarrow> Some (''Expected decimal 0-''
               @ decText (case rawPacketMaskedMax row of None \<Rightarrow> 256 ^ nat (row_length row) - 1 | Some m \<Rightarrow> m)
               @ ''.'')
           | FmtHex \<Rightarrow> Some (''Expected '' @ decText (row_length row * 2) @ '' hex characters.''))"

section \<open>The contract of a codec\<close>

text \<open>
  What the editor relies on: a displayed field parses back to the bytes it shows, and whatever
  parses is a run of bytes of the field's width. The consequences for editing are proved once.
\<close>

locale field_codec =
  fixes parse :: "string \<Rightarrow> bytes option"
    and display :: "bytes \<Rightarrow> int \<Rightarrow> string"
    and width :: int
  assumes width_pos: "0 < width"
    and parse_display: "is_bytes bs \<Longrightarrow> rawPacketHasBytes bs off width
      \<Longrightarrow> parse (display bs off) = Some (jsSlice bs off (off + width))"
    and parse_bytes: "parse s = Some out \<Longrightarrow> is_bytes out \<and> int (length out) = width"
begin

lemma edit_identity:
  assumes "is_bytes bs" "rawPacketHasBytes bs off width"
  shows "storeBytes bs off (the (parse (display bs off))) = bs"
  using assms hasBytesD [OF assms(2)] by (simp add: parse_display storeBytes_slice_id)

lemma edit_readback:
  assumes "is_bytes bs" "rawPacketHasBytes bs off width" "parse s = Some out"
  shows "parse (display (storeBytes bs off out) off) = Some out"
proof -
  note h = hasBytesD [OF assms(2)]
  from parse_bytes [OF assms(3)] have out: "is_bytes out" "int (length out) = width" by auto
  with h have "length (storeBytes bs off out) = length bs" by simp
  then have "rawPacketHasBytes (storeBytes bs off out) off width"
    using assms(2) by (simp add: rawPacketHasBytes_def)
  moreover have "is_bytes (storeBytes bs off out)"
    using assms(1) out(1) by (rule is_bytes_storeBytes)
  ultimately show ?thesis
    using slice_storeBytes [of off out bs] h out(2) by (simp add: parse_display)
qed

lemma edit_frame:
  assumes "rawPacketHasBytes bs off width" "parse s = Some out" "j < off \<or> off + width \<le> j"
  shows "byteAt (storeBytes bs off out) j = byteAt bs j"
  using assms hasBytesD [OF assms(1)] parse_bytes [OF assms(2)] by (auto simp: byteOr_storeBytes)

lemma display_determines_bytes:
  assumes "is_bytes bs" "rawPacketHasBytes bs off width" "is_bytes cs" "rawPacketHasBytes cs off' width"
    "display bs off = display cs off'"
  shows "jsSlice bs off (off + width) = jsSlice cs off' (off' + width)"
  using assms parse_display by (metis option.inject)

end

section \<open>The codecs meet the contract\<close>

lemma parseRadix_range:
  assumes "list_all isHexDigit s"
  shows "0 \<le> parseRadix 16 s \<and> parseRadix 16 s < 16 ^ length s"
  using assms
proof (induction s rule: rev_induct)
  case Nil
  then show ?case by (simp add: parseRadix_def)
next
  case (snoc c s)
  then have "0 \<le> digitVal c" "digitVal c < 16"
    by (simp_all add: digitVal_range)
  with snoc show ?case by (simp add: parseRadix_snoc)
qed

lemma parseRadix_map_bytes:
  assumes "\<forall>p\<in>set ps. length p = 2 \<and> list_all isHexDigit p"
  shows "is_bytes (map (parseRadix 16) ps)"
  using assms parseRadix_range by (fastforce simp: is_bytes_iff)

lemma slice_bytes_range:
  assumes "is_bytes bs" "b \<in> set (jsSlice bs lo hi)"
  shows "0 \<le> b" "b < 256"
  using assms is_bytes_jsSlice [of bs lo hi] by (auto simp: is_bytes_iff)

lemma map_parse_hexByte:
  "is_bytes bs \<Longrightarrow> map (parseRadix 16) (map hexByte bs) = bs"
  by (auto simp: is_bytes_iff hexByte_value intro!: map_idI)

lemma hexByte_no_char:
  assumes "0 \<le> b" "c \<in> set (hexByte b)"
  shows "isHexDigit c"
  using hexByte_digits [OF assms(1)] assms(2) by (simp add: list_all_iff)

lemma joined_chars:
  assumes "\<forall>w\<in>set ws. list_all isHexDigit w" "c \<in> set (joinWith [sep] ws)"
  shows "isHexDigit c \<or> c = sep"
  using subsetD [OF joinWith_set assms(2)] assms(1) by (auto simp: list_all_iff)

lemma address_char_not_space:
  "isHexDigit c \<or> c = CHR '':'' \<or> c = CHR ''.'' \<Longrightarrow> \<not> isJsSpace c"
  by (auto simp: isJsSpace_def isHexDigit_def codeOf_def)

lemma address_trim:
  "(\<And>c. c \<in> set s \<Longrightarrow> isHexDigit c \<or> c = CHR '':'' \<or> c = CHR ''.'') \<Longrightarrow> jsTrim s = s"
  by (rule jsTrim_id) (auto simp: list_all_iff dest!: address_char_not_space)

lemma length_slice_hasBytes:
  "rawPacketHasBytes bs off n \<Longrightarrow> length (jsSlice bs off (off + n)) = nat n"
  using hasBytesD [of bs off n] by (simp add: length_jsSlice_inside)

lemma parse_formatMac:
  assumes "is_bytes bs" "rawPacketHasBytes bs off 6"
  shows "parsePacketMac (formatPacketMac bs off) = Some (jsSlice bs off (off + 6))"
proof -
  let ?sl = "jsSlice bs off (off + 6)"
  let ?s = "formatPacketMac bs off"
  have sl: "is_bytes ?sl" "length ?sl = 6"
    using assms by (simp_all add: is_bytes_jsSlice length_slice_hasBytes)
  have hex: "\<forall>w\<in>set (map hexByte ?sl). list_all isHexDigit w"
    using sl(1) by (auto simp: is_bytes_iff hexByte_digits)
  have chars: "isHexDigit c \<or> c = CHR '':''" if "c \<in> set ?s" for c
    using joined_chars [OF hex] that by (simp add: formatPacketMac_def)
  have "jsTrim ?s = ?s"
    using chars by (intro address_trim) blast
  moreover have "map (\<lambda>c. if c = CHR ''-'' \<or> c = CHR ''.'' then CHR '':'' else c) ?s = ?s"
    using chars hex_not_char(5,6) by (intro map_idI) auto
  moreover have "CHR '':'' \<in> set ?s"
    using sl(2) by (cases ?sl; cases "tl ?sl") (auto simp: formatPacketMac_def)
  moreover have "splitOn (CHR '':'') ?s = map hexByte ?sl"
    unfolding formatPacketMac_def
  proof (rule splitOn_joinWith)
    show "map hexByte ?sl \<noteq> []" using sl(2) by auto
    show "\<forall>w\<in>set (map hexByte ?sl). CHR '':'' \<notin> set w"
      using hex hex_not_char(3) unfolding list_all_iff by blast
  qed
  moreover have "\<not> list_ex (\<lambda>p. \<not> (length p = 2 \<and> list_all isHexDigit p)) (map hexByte ?sl)"
    using sl(1) by (auto simp: list_ex_iff is_bytes_iff hexByte_length hexByte_digits)
  ultimately show ?thesis
    using sl map_parse_hexByte [OF sl(1)] by (simp only: parsePacketMac_def Let_def) simp
qed

interpretation mac: field_codec parsePacketMac formatPacketMac 6
proof
  show "(0 :: int) < 6" by simp
next
  fix bs off assume "is_bytes bs" "rawPacketHasBytes bs off 6"
  then show "parsePacketMac (formatPacketMac bs off) = Some (jsSlice bs off (off + 6))"
    by (rule parse_formatMac)
next
  fix s out assume "parsePacketMac s = Some out"
  then show "is_bytes out \<and> int (length out) = 6"
    by (auto simp: parsePacketMac_def Let_def list_ex_iff intro!: parseRadix_map_bytes split: if_splits)
qed

lemma parseOctet_decText:
  assumes "0 \<le> b" "b < 256"
  shows "parseOctet (decText b) = Some b"
proof -
  have "decText b \<noteq> []" by simp
  then have "1 \<le> length (decText b)" by (cases "decText b") auto
  then show ?thesis
    using decText_digits [of b] radixText_length [of 10 b 3] assms parseRadix_radixText [of 10 b]
    by (simp add: parseOctet_def)
qed

lemma dec_text_hex: "0 \<le> x \<Longrightarrow> list_all isHexDigit (decText x)"
  using decText_digits [of x] by (auto simp: list_all_iff isDecDigit_hex)

lemma parse_formatIpv4:
  assumes "is_bytes bs" "rawPacketHasBytes bs off 4"
  shows "parsePacketIpv4 (formatPacketIpv4 bs off) = Some (jsSlice bs off (off + 4))"
proof -
  let ?sl = "jsSlice bs off (off + 4)"
  let ?s = "formatPacketIpv4 bs off"
  let ?ws = "map decText ?sl"
  have sl: "length ?sl = 4" "\<And>b. b \<in> set ?sl \<Longrightarrow> 0 \<le> b \<and> b < 256"
    using assms is_bytes_jsSlice [OF assms(1)] by (auto simp: length_slice_hasBytes is_bytes_iff)
  have hex: "\<forall>w\<in>set ?ws. list_all isHexDigit w"
    using sl(2) by (auto simp: dec_text_hex)
  have trim: "jsTrim ?s = ?s"
    using joined_chars [OF hex, of _ "CHR ''.''"] by (intro address_trim) (auto simp: formatPacketIpv4_def)
  have split: "splitOn (CHR ''.'') ?s = ?ws"
    unfolding formatPacketIpv4_def
  proof (rule splitOn_joinWith)
    show "?ws \<noteq> []" using sl(1) by auto
    show "\<forall>w\<in>set ?ws. CHR ''.'' \<notin> set w"
      using hex hex_not_char(5) unfolding list_all_iff by blast
  qed
  have read: "map parseOctet ?ws = map Some ?sl"
    using sl(2) parseOctet_decText by simp
  have good: "\<not> list_ex badOctet (map Some ?sl)"
    using sl(2) by (force simp: list_ex_iff badOctet_def)
  have len: "length ?ws = 4" using sl(1) by simp
  show ?thesis
    unfolding parsePacketIpv4_def Let_def trim split read
    using len good by (simp add: comp_def)
qed

lemma parseIpv4_bytes:
  assumes "parsePacketIpv4 s = Some out"
  shows "is_bytes out \<and> int (length out) = 4"
proof -
  define octets where "octets = map parseOctet (splitOn (CHR ''.'') (jsTrim s))"
  from assms have len: "length octets = 4" and ok: "\<not> list_ex badOctet octets"
    and out: "out = map the octets"
    unfolding parsePacketIpv4_def Let_def octets_def by (auto split: if_splits)
  have "0 \<le> the b \<and> the b < 256" if "b \<in> set octets" for b
  proof -
    have "\<not> badOctet b" using ok that by (auto simp: list_ex_iff)
    then show ?thesis by (cases b) (auto simp: badOctet_def)
  qed
  with out len show ?thesis by (simp add: is_bytes_iff)
qed

interpretation ipv4: field_codec parsePacketIpv4 formatPacketIpv4 4
  by unfold_locales (auto simp: parse_formatIpv4 dest: parseIpv4_bytes)

text \<open>IPv6 text: eight groups of four digits, in which no \<open>::\<close> can occur.\<close>

lemma includes_double_colon_word:
  "CHR '':'' \<notin> set w \<Longrightarrow> includesText ''::'' (w @ s) = includesText ''::'' s"
  by (induction w) auto

lemma no_double_colon:
  "\<forall>w\<in>set ws. w \<noteq> [] \<and> CHR '':'' \<notin> set w \<Longrightarrow> \<not> includesText ''::'' (joinWith '':'' ws)"
proof (induction "'':''" ws rule: joinWith.induct)
  case 1
  then show ?case by simp
next
  case (2 w)
  then show ?case using includes_double_colon_word [of w "[]"] by simp
next
  case (3 w v ws)
  have "take 1 (joinWith '':'' (v # ws)) \<noteq> '':''"
    using 3(2) by (cases v; cases ws) auto
  with 3 show ?case
    by (simp add: includes_double_colon_word)
qed

definition hexGroup :: "int \<Rightarrow> string" where
  "hexGroup w = padStart 4 (CHR ''0'') (hexText w)"

lemma hexGroup_facts:
  assumes "0 \<le> w" "w < 65536"
  shows "list_all isHexDigit (hexGroup w)" "length (hexGroup w) = 4" "parseRadix 16 (hexGroup w) = w"
  using radixText_length [of 16 w 4] hexText_digits [of w] parseRadix_radixText [of 16 w] assms
  by (simp_all add: hexGroup_def padStart_length padStart_hex)

lemma word_bytes:
  assumes "is_bytes bs"
  shows "[js_and (js_shr (rawPacketWord bs off) 8) 255, js_and (rawPacketWord bs off) 255]
    = [byteAt bs off, byteAt bs (off + 1)]"
proof -
  note r = rawPacketWord_range [OF assms, of off]
  have "js_shr (rawPacketWord bs off) 8 = rawPacketWord bs off div 256"
    using r by (simp add: js_shr_nonneg)
  moreover have "rawPacketWord bs off div 256 = byteAt bs off"
    "rawPacketWord bs off mod 256 = byteAt bs (off + 1)"
    using byteAt_range [OF assms, of off] byteAt_range [OF assms, of "off + 1"]
    by (simp_all add: rawPacketWord_eq [OF assms])
  ultimately show ?thesis
    using byteAt_range [OF assms, of off] by (simp add: js_and_mask8)
qed

lemma jsSlice_bytes:
  assumes "0 \<le> off" "off + int n \<le> int (length bs)"
  shows "jsSlice bs off (off + int n) = map (\<lambda>k. byteAt bs (off + int k)) [0..<n]"
proof (rule nth_equalityI)
  show "length (jsSlice bs off (off + int n)) = length (map (\<lambda>k. byteAt bs (off + int k)) [0..<n])"
    using assms by (simp add: length_jsSlice_inside)
next
  fix k assume "k < length (jsSlice bs off (off + int n))"
  then have "k < n" using assms by (simp add: length_jsSlice_inside)
  with assms show "jsSlice bs off (off + int n) ! k = map (\<lambda>k. byteAt bs (off + int k)) [0..<n] ! k"
    using byteAt_jsSlice [of off "int n" bs "off + int k"] by simp
qed

lemma parse_formatIpv6:
  assumes "is_bytes bs" "rawPacketHasBytes bs off 16"
  shows "parsePacketIpv6 (formatPacketIpv6 bs off) = Some (jsSlice bs off (off + 16))"
proof -
  let ?ks = "[0, 2, 4, 6, 8, 10, 12, 14] :: int list"
  let ?ws = "map (\<lambda>k. hexGroup (rawPacketWord bs (off + k))) ?ks"
  let ?s = "formatPacketIpv6 bs off"
  have s: "?s = joinWith '':'' ?ws"
    by (simp add: formatPacketIpv6_def hexGroup_def)
  have w: "list_all isHexDigit (hexGroup (rawPacketWord bs k))" "length (hexGroup (rawPacketWord bs k)) = 4"
    "parseRadix 16 (hexGroup (rawPacketWord bs k)) = rawPacketWord bs k" for k
    using rawPacketWord_range [OF assms(1), of k] by (simp_all add: hexGroup_facts)
  have hex: "\<forall>w\<in>set ?ws. list_all isHexDigit w" and len: "\<forall>w\<in>set ?ws. length w = 4"
    using w by auto
  have colon: "CHR '':'' \<notin> set w" if "w \<in> set ?ws" for w
    using hex that hex_not_char(3) unfolding list_all_iff by blast
  have trim: "jsTrim ?s = ?s"
    using joined_chars [OF hex, of _ "CHR '':''"] unfolding s by (intro address_trim) auto
  have mem: "CHR '':'' \<in> set ?s" by (simp add: s)
  have no: "\<not> includesText ''::'' ?s"
    unfolding s using colon len by (intro no_double_colon) (metis list.size(3) zero_neq_numeral)
  have split: "splitOn (CHR '':'') ?s = ?ws"
    unfolding s using colon by (intro splitOn_joinWith) auto
  have good: "\<not> list_ex (\<lambda>g. \<not> (1 \<le> length g \<and> length g \<le> 4 \<and> list_all isHexDigit g)) ?ws"
    using hex len by (simp add: list_ex_iff)
  have out: "concat (map (\<lambda>g. let word = parseRadix 16 g
        in [js_and (js_shr word 8) 255, js_and word 255]) ?ws) = jsSlice bs off (off + 16)"
    using hasBytesD [OF assms(2)] jsSlice_bytes [of off 16 bs]
    by (simp add: Let_def w word_bytes [OF assms(1)] upt_rec add.assoc)
  show ?thesis
    unfolding parsePacketIpv6_def Let_def [of "jsTrim ?s"] trim
    using mem no good out by (simp add: split)
qed

lemma parseIpv6_bytes:
  assumes "parsePacketIpv6 s = Some out"
  shows "is_bytes out \<and> int (length out) = 16"
proof -
  define f where "f = (\<lambda>g. let word = parseRadix 16 g in [js_and (js_shr word 8) 255, js_and word 255])"
  from assms obtain groups where out: "out = concat (map f groups)" and len: "length groups = 8"
    unfolding parsePacketIpv6_def f_def Let_def [of "jsTrim s"]
    by (auto split: if_splits option.splits)
  have "is_bytes (concat (map f gs))" for gs
    by (induction gs) (simp_all add: f_def Let_def js_and_mask8)
  moreover have "length (concat (map f gs)) = 2 * length gs" for gs
    by (induction gs) (simp_all add: f_def Let_def)
  ultimately show ?thesis using out len by simp
qed

interpretation ipv6: field_codec parsePacketIpv6 formatPacketIpv6 16
  by unfold_locales (auto simp: parse_formatIpv6 dest: parseIpv6_bytes)

lemma parse_formatHex:
  assumes "is_bytes bs" "rawPacketHasBytes bs off len"
  shows "parsePacketHexField (formatPacketHexField bs off len) len = Some (jsSlice bs off (off + len))"
proof -
  let ?sl = "jsSlice bs off (off + len)"
  let ?s = "concat (map hexByte ?sl)"
  have sl: "is_bytes ?sl" "length ?sl = nat len" "0 < len"
    using assms hasBytesD [OF assms(2)] by (simp_all add: is_bytes_jsSlice length_slice_hasBytes)
  have hex: "list_all isHexDigit ?s" using sl(1) by (rule concat_hexBytes_digits)
  have trim: "jsTrim ?s = ?s"
    using hex by (intro address_trim) (auto simp: list_all_iff)
  have drop: "drop0x ?s = ?s"
    using hex hex_not_char(1,2) unfolding list_all_iff by (intro drop0x_id) blast+
  have filt: "filter (\<lambda>c. \<not> isHexSeparator c) ?s = ?s"
    using hex by (intro filter_True) (auto simp: list_all_iff hex_not_separator)
  have pairs: "hexPairs ?s = map hexByte ?sl"
    using sl(1) by (intro hexPairs_concat) (auto simp: is_bytes_iff hexByte_length)
  have "\<not> list_ex (\<lambda>c. \<not> isHexDigit c) ?s"
    using hex by (auto simp: list_ex_iff list_all_iff)
  moreover have "int (length ?s) = len * 2"
    using sl(2,3) concat_hexBytes_length [OF sl(1)] by simp
  ultimately show ?thesis
    unfolding parsePacketHexField_def formatPacketHexField_def trim drop filt Let_def pairs
    using map_parse_hexByte [OF sl(1)] by simp
qed

lemma hexPairs_length: "even (length s) \<Longrightarrow> length (hexPairs s) = length s div 2"
  by (induction s rule: hexPairs.induct) auto

lemma hexPairs_digits:
  "even (length s) \<Longrightarrow> list_all isHexDigit s
   \<Longrightarrow> list_all (\<lambda>p. length p = 2 \<and> list_all isHexDigit p) (hexPairs s)"
proof (induction s rule: hexPairs.induct)
  case (3 a b cs)
  then have "even (length cs)" "list_all isHexDigit cs" "isHexDigit a" "isHexDigit b" by simp_all
  with "3.IH" show ?case by simp
qed simp_all

lemma parseHex_bytes:
  assumes "parsePacketHexField s len = Some out"
  shows "is_bytes out \<and> int (length out) = len"
proof -
  define c where "c = filter (\<lambda>c. \<not> isHexSeparator c) (drop0x (jsTrim s))"
  have "\<not> (int (length c) \<noteq> len * 2 \<or> list_ex (\<lambda>c. \<not> isHexDigit c) c)
      \<and> out = map (parseRadix 16) (hexPairs c)"
    using assms unfolding parsePacketHexField_def Let_def c_def [symmetric]
    by (simp split: if_split_asm)
  then have l: "int (length c) = len * 2" and hex: "list_all isHexDigit c"
    and out: "out = map (parseRadix 16) (hexPairs c)"
    by (simp_all add: list_ex_iff list_all_iff)
  from l have e: "even (length c)" by presburger
  have "is_bytes out"
    unfolding out using hexPairs_digits [OF e hex] by (intro parseRadix_map_bytes) (simp add: list_all_iff)
  moreover have "length out = length c div 2"
    unfolding out using hexPairs_length [OF e] by simp
  ultimately show ?thesis using l by simp
qed

lemma hex_codec:
  "0 < len \<Longrightarrow> field_codec (\<lambda>s. parsePacketHexField s len) (\<lambda>bs off. formatPacketHexField bs off len) len"
  by unfold_locales (auto simp: parse_formatHex dest: parseHex_bytes)

lemma numberToBytes_facts:
  "is_bytes (numberToBytes n v) \<and> length (numberToBytes n v) = n"
  by (induction n arbitrary: v) (simp_all add: js_and_mask8)

lemma numberFrom_snoc:
  "numberFrom bs off (Suc n) v = numberFrom bs off n v * 256 + byteAt bs (off + int n)"
proof (induction n arbitrary: off v)
  case 0
  then show ?case by simp
next
  case (Suc n)
  have "numberFrom bs off (Suc (Suc n)) v = numberFrom bs (off + 1) (Suc n) (v * 256 + byteAt bs off)"
    by simp
  also have "\<dots> = numberFrom bs (off + 1) n (v * 256 + byteAt bs off) * 256 + byteAt bs (off + 1 + int n)"
    by (rule Suc.IH)
  finally show ?case by (simp add: add.assoc)
qed

lemma numberToBytes_numberFrom:
  assumes "is_bytes bs"
  shows "numberToBytes n (numberFrom bs off n 0) = map (\<lambda>k. byteAt bs (off + int k)) [0..<n]"
proof (induction n)
  case 0
  then show ?case by simp
next
  case (Suc n)
  have "(numberFrom bs off n 0 * 256 + byteAt bs (off + int n)) div 256 = numberFrom bs off n 0"
    "(numberFrom bs off n 0 * 256 + byteAt bs (off + int n)) mod 256 = byteAt bs (off + int n)"
    using byteAt_range [OF assms, of "off + int n"] by simp_all
  with Suc show ?case
    by (simp add: js_and_mask8 del: numberFrom.simps(2)) (simp add: numberFrom_snoc js_and_mask8 del: numberFrom.simps(2))
qed

lemma numberToBytes_value:
  assumes "is_bytes bs" "rawPacketHasBytes bs off len"
  shows "packetNumberToBytes (rawPacketNumberValue bs off len) len = jsSlice bs off (off + len)"
  using hasBytesD [OF assms(2)] numberToBytes_numberFrom [OF assms(1)] jsSlice_bytes [of off "nat len" bs]
  by (simp add: packetNumberToBytes_def rawPacketNumberValue_def)

lemma parse_formatNumber:
  assumes "is_bytes bs" "rawPacketHasBytes bs off len" "len \<le> 6"
  shows "parsePacketNumberField (formatPacketNumberField bs off len) len = Some (jsSlice bs off (off + len))"
proof -
  let ?v = "rawPacketNumberValue bs off len"
  let ?s = "decText ?v"
  note r = rawPacketNumberValue_range [OF assms(1), of off len]
  have dec: "list_all isDecDigit ?s" using r by (simp add: decText_digits)
  have trim: "jsTrim ?s = ?s"
    using dec by (intro address_trim) (auto simp: list_all_iff isDecDigit_hex)
  have "(256 :: int) ^ nat len \<le> 256 ^ 6"
    using assms(3) by (intro power_increasing) auto
  then have safe: "?v \<le> MAX_SAFE_INTEGER"
    using r by (simp add: MAX_SAFE_INTEGER_def)
  show ?thesis
    unfolding parsePacketNumberField_def formatPacketNumberField_def trim Let_def
    using r dec safe parseRadix_radixText [of 10 ?v] numberToBytes_value [OF assms(1,2)] by simp
qed

lemma parseNumber_bytes:
  "parsePacketNumberField s len = Some out \<Longrightarrow> 0 \<le> len \<Longrightarrow> is_bytes out \<and> int (length out) = len"
  using numberToBytes_facts
  by (auto simp: parsePacketNumberField_def Let_def packetNumberToBytes_def split: if_splits)

lemma number_codec:
  "0 < len \<Longrightarrow> len \<le> 6
   \<Longrightarrow> field_codec (\<lambda>s. parsePacketNumberField s len) (\<lambda>bs off. formatPacketNumberField bs off len) len"
  by unfold_locales (auto simp: parse_formatNumber dest: parseNumber_bytes)

text \<open>
  Masked numbers. A mask is well placed when it fits 32 bits and has no bit below its shift;
  every mask of the row builder is.
\<close>

definition maskOk :: "int \<Rightarrow> int \<Rightarrow> bool" where
  "maskOk m s \<longleftrightarrow> 0 \<le> m \<and> m < 4294967296 \<and> 0 \<le> s \<and> s < 32 \<and> m mod 2 ^ nat s = 0"

lemma maskOk_bits: "maskOk m s \<Longrightarrow> i < nat s \<Longrightarrow> \<not> bit m i"
proof -
  assume "maskOk m s" "i < nat s"
  then have "take_bit (nat s) m = 0" by (simp add: maskOk_def take_bit_eq_mod)
  then have "\<not> bit (take_bit (nat s) m) i" by simp
  with \<open>i < nat s\<close> show "\<not> bit m i" by (simp add: bit_take_bit_iff)
qed

lemma js_u32: "0 \<le> a \<Longrightarrow> a < 4294967296 \<Longrightarrow> js_ushr a 0 = a"
  by (simp add: js_ushr_nonneg)

lemma signed_low: "i < 32 \<Longrightarrow> bit (signed_take_bit 31 (a :: int)) i = bit a i"
proof -
  assume "i < 32"
  then have "min 31 i = i" by simp
  then show ?thesis by (simp add: bit_signed_take_bit_iff)
qed

lemma masked_next:
  assumes "0 \<le> m" "m < 4294967296" "0 \<le> s" "s < 32"
  shows "js_ushr (js_or (js_and c (js_ushr (js_not (js_ushr m 0)) 0)) (js_and (js_shl p s) (js_ushr m 0))) 0
    = take_bit 32 ((c AND NOT m) OR (push_bit (nat s) p AND m))"
  unfolding js_u32 [OF assms(1,2)]
proof (rule bit_eqI)
  fix i
  show "bit (js_ushr (js_or (js_and c (js_ushr (js_not m) 0)) (js_and (js_shl p s) m)) 0) i
    = bit (take_bit 32 ((c AND NOT m) OR (push_bit (nat s) p AND m))) i"
    using assms(3,4)
    by (auto simp: js_ops_int bit_take_bit_iff bit_or_iff bit_and_iff bit_not_iff signed_low
        bit_push_bit_iff)
qed

lemma masked_shown:
  assumes "0 \<le> c" "c < 4294967296" "maskOk m s"
  shows "js_ushr (js_ushr (js_and (js_ushr c 0) m) s) 0 = drop_bit (nat s) (c AND m)"
proof -
  have s: "0 \<le> s" "s < 32" using assms(3) by (simp_all add: maskOk_def)
  have c: "js_ushr c 0 = c" using assms(1,2) by (rule js_u32)
  have m: "take_bit 32 m = m" using assms(3) by (simp add: maskOk_def take_bit_32_id)
  have "take_bit 32 (js_and c m) = c AND m"
  proof (rule bit_eqI)
    fix i
    have "bit m i \<longleftrightarrow> i < 32 \<and> bit m i"
      using m by (metis bit_take_bit_iff)
    then show "bit (take_bit 32 (js_and c m)) i = bit (c AND m) i"
      by (auto simp: js_and_int bit_take_bit_iff bit_and_iff signed_low)
  qed
  then have "js_ushr (js_and c m) s = drop_bit (nat s) (c AND m)"
    using s by (simp add: js_ushr_int)
  moreover have "0 \<le> drop_bit (nat s) (c AND m)" "drop_bit (nat s) (c AND m) \<le> c AND m"
    using assms(1) by (intro drop_bit_bounds; simp)+
  moreover have "c AND m \<le> c" using assms(1) by (simp add: AND_upper1)
  ultimately show ?thesis using c assms(2) by (simp add: js_u32)
qed

lemma masked_rewrite:
  assumes "maskOk m s" "0 \<le> c" "c < 4294967296"
  shows "take_bit 32 ((c AND NOT m) OR (push_bit (nat s) (drop_bit (nat s) (c AND m)) AND m)) = c"
proof -
  have "push_bit (nat s) (drop_bit (nat s) (c AND m)) AND m = c AND m"
  proof (rule bit_eqI)
    fix i
    show "bit (push_bit (nat s) (drop_bit (nat s) (c AND m)) AND m) i = bit (c AND m) i"
      using maskOk_bits [OF assms(1), of i]
      by (cases "i < nat s") (simp_all add: bit_and_iff bit_push_bit_iff bit_drop_bit_eq)
  qed
  moreover have "(c AND NOT m) OR (c AND m) = c"
    by (rule bit_eqI) (auto simp: bit_and_iff bit_or_iff bit_not_iff)
  ultimately show ?thesis using assms(2,3) by (simp add: take_bit_32_id)
qed

definition maskedRow :: "RawPacketFieldRow \<Rightarrow> int \<Rightarrow> int \<Rightarrow> bool" where
  "maskedRow row m s \<longleftrightarrow> row_mask row = Some m \<and> row_shift row = Some s \<and> row_format row = FmtNumber
     \<and> maskOk m s \<and> row_length row \<le> 4"

lemma number_u32:
  assumes "is_bytes bs" "len \<le> 4"
  shows "0 \<le> rawPacketNumberValue bs off len" "rawPacketNumberValue bs off len < 4294967296"
proof -
  have "(256 :: int) ^ nat len \<le> 256 ^ 4"
    using assms(2) by (intro power_increasing) auto
  then show "0 \<le> rawPacketNumberValue bs off len" "rawPacketNumberValue bs off len < 4294967296"
    using rawPacketNumberValue_range [OF assms(1), of off len] by simp_all
qed

lemma masked_upper:
  assumes "maskedRow row m s"
  shows "rawPacketMaskedMax row = Some (drop_bit (nat s) m)" "drop_bit (nat s) m < 4294967296"
proof -
  have m: "0 \<le> m" "m < 4294967296" "0 \<le> s" "s < 32" "row_mask row = Some m" "shiftOf row = s"
    using assms by (simp_all add: maskedRow_def maskOk_def shiftOf_def)
  have "drop_bit (nat s) m \<le> m" "0 \<le> drop_bit (nat s) m"
    using m(1) by (simp_all add: drop_bit_bounds)
  moreover have "js_ushr m s = drop_bit (nat s) m"
    using m by (simp add: js_ushr_int take_bit_32_id)
  ultimately show "rawPacketMaskedMax row = Some (drop_bit (nat s) m)" "drop_bit (nat s) m < 4294967296"
    using m by (simp_all add: rawPacketMaskedMax_def js_u32)
qed

text \<open>
  The write of a masked number in one equation: a decimal text of a value no wider than the
  mask is accepted and replaces the bits of the mask, keeping the others.
\<close>

lemma parseMasked_decimal:
  assumes "is_bytes bs" "maskedRow row m s" "rawPacketHasBytes bs (row_offset row) (row_length row)"
    and "0 \<le> p" "p \<le> drop_bit (nat s) m"
    and "c = rawPacketNumberValue bs (row_offset row) (row_length row)"
    and "nxt = take_bit 32 ((c AND NOT m) OR (push_bit (nat s) p AND m))"
  shows "parsePacketMaskedNumberField row (decText p) bs = Some (packetNumberToBytes nxt (row_length row))"
proof -
  have row: "row_mask row = Some m" "shiftOf row = s" "row_format row = FmtNumber"
    "row_length row \<le> 4" and m: "0 \<le> m" "m < 4294967296" "0 \<le> s" "s < 32"
    using assms(2) by (simp_all add: maskedRow_def maskOk_def shiftOf_def)
  have c: "js_ushr c 0 = c"
    using number_u32 [OF assms(1) row(4), of "row_offset row"] by (simp add: assms(6) js_u32)
  have mm: "js_ushr m 0 = m" using m by (simp add: js_u32)
  have nxt: "js_ushr (js_or (js_and c (js_ushr (js_not m) 0)) (js_and (js_shl p s) m)) 0 = nxt"
    using masked_next [OF m, of c p] unfolding mm assms(7) .
  have trim: "jsTrim (decText p) = decText p"
    using decText_digits [OF assms(4)] by (intro address_trim) (auto simp: list_all_iff isDecDigit_hex)
  have val: "parseRadix 10 (decText p) = p"
    using parseRadix_radixText [of 10 p] assms(4) by simp
  have safe: "\<not> p > MAX_SAFE_INTEGER" "\<not> p < 0"
    using assms(4,5) masked_upper(2) [OF assms(2)] by (simp_all add: MAX_SAFE_INTEGER_def)
  show ?thesis
    unfolding parsePacketMaskedNumberField_def trim Let_def val masked_upper(1) [OF assms(2)] row
      assms(6) [symmetric] option.sel mm c nxt
    using decText_digits [OF assms(4)] assms(3,5) safe by simp
qed

lemma parse_formatMasked:
  assumes "is_bytes bs" "maskedRow row m s" "rawPacketHasBytes bs (row_offset row) (row_length row)"
  shows "parsePacketMaskedNumberField row
      (formatPacketMaskedNumberField bs (row_offset row) (row_length row) m s) bs
    = Some (jsSlice bs (row_offset row) (row_offset row + row_length row))"
proof -
  define c where "c = rawPacketNumberValue bs (row_offset row) (row_length row)"
  define p where "p = drop_bit (nat s) (c AND m)"
  have row: "maskOk m s" "row_length row \<le> 4" and m: "0 \<le> m"
    using assms(2) by (simp_all add: maskedRow_def maskOk_def)
  have c: "0 \<le> c" "c < 4294967296"
    using number_u32 [OF assms(1) row(2)] by (simp_all add: c_def)
  have shown: "formatPacketMaskedNumberField bs (row_offset row) (row_length row) m s = decText p"
    using masked_shown [OF c row(1)] by (simp add: formatPacketMaskedNumberField_def Let_def c_def p_def)
  have "0 \<le> c AND m" "c AND m \<le> m"
    using c m by (simp_all add: AND_upper2)
  then have "0 \<le> p" "p \<le> drop_bit (nat s) m"
    unfolding p_def drop_bit_eq_div by (simp_all add: pos_imp_zdiv_nonneg_iff zdiv_mono1)
  from parseMasked_decimal [OF assms this c_def refl]
  show ?thesis
    unfolding shown p_def masked_rewrite [OF row(1) c]
    by (simp add: c_def numberToBytes_value [OF assms(1,3)])
qed

end
