(* ===== verification/LinkLayer.thy ===== *)
theory LinkLayer
  imports FieldCodec
begin

text \<open>
  The streams the editors work on and the link layer of the dissectors: the skipping of VLAN
  tags and MPLS labels that every outer dissector starts with, MAC addresses, EtherType, VLAN
  tag, MPLS label and ARP. A dissector returns \<open>null\<close> (\<open>None\<close>) or an object (a record); the
  locale \<open>packet_target\<close> is the contract its clients rely on, which write field variables
  into the packet at the offset the object names.
\<close>

section \<open>Streams\<close>

text \<open>The stream object, restricted to the property the dissectors read.\<close>

record RawStream =
  packet_binary_base64 :: "string option"

definition streamBytes :: "RawStream option \<Rightarrow> bytes" where
  "streamBytes stream =
     rawPacketBytesFromBase64 (case stream of None \<Rightarrow> None | Some s \<Rightarrow> packet_binary_base64 s)"

lemma is_bytes_stream [in_range]: "is_bytes (streamBytes s)"
  by (simp add: streamBytes_def is_bytes_fromBase64)

text \<open>
  The interface of a dissector: a field it finds lies inside the packet. From it follow the
  facts a write through the field needs.
\<close>

locale packet_target =
  fixes find :: "RawStream option \<Rightarrow> 'a option"
    and fieldOffset :: "'a \<Rightarrow> int"
    and fieldWidth :: "'a \<Rightarrow> int"
  assumes inside: "find s = Some t \<Longrightarrow> rawPacketHasBytes (streamBytes s) (fieldOffset t) (fieldWidth t)"
begin

lemma nothing_in_empty: "streamBytes s = [] \<Longrightarrow> find s = None"
  using inside [of s] by (cases "find s") (auto simp: rawPacketHasBytes_def)

lemma write_length:
  "find s = Some t \<Longrightarrow> int (length vs) = fieldWidth t
   \<Longrightarrow> length (storeBytes (streamBytes s) (fieldOffset t) vs) = length (streamBytes s)"
  using hasBytesD [OF inside] by simp

lemma write_reads_back:
  "find s = Some t \<Longrightarrow> int (length vs) = fieldWidth t
   \<Longrightarrow> jsSlice (storeBytes (streamBytes s) (fieldOffset t) vs) (fieldOffset t)
         (fieldOffset t + fieldWidth t) = vs"
  using hasBytesD [OF inside] slice_storeBytes [of "fieldOffset t" vs "streamBytes s"] by simp

lemma write_frame:
  "find s = Some t \<Longrightarrow> int (length vs) = fieldWidth t
   \<Longrightarrow> j < fieldOffset t \<or> fieldOffset t + fieldWidth t \<le> j
   \<Longrightarrow> byteAt (storeBytes (streamBytes s) (fieldOffset t) vs) j = byteAt (streamBytes s) j"
  using hasBytesD [OF inside] by (auto simp: byteOr_storeBytes)

end

section \<open>VLAN tags and MPLS labels\<close>

definition isVlanType :: "int \<Rightarrow> bool" where
  "isVlanType etherType \<longleftrightarrow> etherType = 0x8100 \<or> etherType = 0x88a8 \<or> etherType = 0x9100 \<or> etherType = 0x9200"

definition isMplsType :: "int \<Rightarrow> bool" where
  "isMplsType etherType \<longleftrightarrow> etherType = 0x8847 \<or> etherType = 0x8848"

text \<open>
  The loop over the tags, by \<open>4 - vlanIndex\<close>. The result is the pair of \<open>etherType\<close> and offset.
\<close>

fun skipVlanTags :: "nat \<Rightarrow> bytes \<Rightarrow> int \<Rightarrow> int \<Rightarrow> int \<times> int" where
  "skipVlanTags 0 bs etherType off = (etherType, off)"
| "skipVlanTags (Suc n) bs etherType off =
     (if isVlanType etherType \<and> rawPacketHasBytes bs off 4
      then skipVlanTags n bs (rawPacketWord bs (off + 2)) (off + 4)
      else (etherType, off))"

text \<open>The loop over the labels, by \<open>8 - mplsIndex\<close>: it stops after the bottom of the stack.\<close>

fun skipMplsLabels :: "nat \<Rightarrow> bytes \<Rightarrow> int \<Rightarrow> int" where
  "skipMplsLabels 0 bs off = off"
| "skipMplsLabels (Suc n) bs off =
     (if rawPacketHasBytes bs off 4
      then if js_and (byteAt bs (off + 2)) 1 = 1 then off + 4 else skipMplsLabels n bs (off + 4)
      else off)"

lemma skipVlanTags_offset: "off \<le> snd (skipVlanTags n bs et off) \<and> snd (skipVlanTags n bs et off) \<le> off + 4 * int n"
proof (induction n bs et off rule: skipVlanTags.induct)
  case (1 bs et off)
  then show ?case by simp
next
  case (2 n bs et off)
  then show ?case by (cases "isVlanType et \<and> rawPacketHasBytes bs off 4") auto
qed

lemma skipMplsLabels_offset: "off \<le> skipMplsLabels n bs off \<and> skipMplsLabels n bs off \<le> off + 4 * int n"
proof (induction n bs off rule: skipMplsLabels.induct)
  case (1 bs off)
  then show ?case by simp
next
  case (2 n bs off)
  then show ?case
    by (cases "rawPacketHasBytes bs off 4"; cases "js_and (byteAt bs (off + 2)) 1 = 1") auto
qed

lemma skipVlanTags_inside:
  "off \<le> int (length bs) \<Longrightarrow> snd (skipVlanTags n bs et off) \<le> int (length bs)"
proof (induction n bs et off rule: skipVlanTags.induct)
  case (2 n bs et off)
  then show ?case by (auto simp: rawPacketHasBytes_def)
qed simp

section \<open>MAC addresses and EtherType\<close>

datatype MacSide = DstMac | SrcMac

record MacAddressTarget =
  mac_address :: string
  mac_offset :: int

definition rawOuterMacAddressTarget :: "RawStream option \<Rightarrow> MacSide \<Rightarrow> MacAddressTarget option" where
  "rawOuterMacAddressTarget stream side =
     (let bs = streamBytes stream; offset = (if side = DstMac then 0 else 6)
      in if \<not> rawPacketHasBytes bs offset 6 then None
         else Some \<lparr>mac_address = formatPacketMac bs offset, mac_offset = offset\<rparr>)"

record EtherTypeTarget =
  ety_bytes :: bytes
  ety_etherType :: int
  ety_offset :: int

definition rawOuterEtherTypeTarget :: "RawStream option \<Rightarrow> EtherTypeTarget option" where
  "rawOuterEtherTypeTarget stream =
     (let bs = streamBytes stream in
      if \<not> rawPacketHasBytes bs 12 2 then None
      else
        let etherType = rawPacketWord bs 12 in
        if isVlanType etherType then None
        else Some \<lparr>ety_bytes = bs, ety_etherType = etherType, ety_offset = 12\<rparr>)"

interpretation mac_target: packet_target "\<lambda>s. rawOuterMacAddressTarget s side" mac_offset "\<lambda>t. 6" for side
  by unfold_locales (auto simp: rawOuterMacAddressTarget_def Let_def split: if_splits)

interpretation ethertype_target: packet_target rawOuterEtherTypeTarget ety_offset "\<lambda>t. 2"
  by unfold_locales (auto simp: rawOuterEtherTypeTarget_def Let_def split: if_splits)

section \<open>MPLS labels\<close>

record MplsLabelTarget =
  mpls_bytes :: bytes
  mpls_bottomOfStack :: bool
  mpls_label :: int
  mpls_offset :: int
  mpls_trafficClass :: int
  mpls_ttl :: int

definition mplsLabelAt :: "bytes \<Rightarrow> int \<Rightarrow> MplsLabelTarget" where
  "mplsLabelAt bs offset =
     (let word = rawPacketNumberValue bs offset 4
      in \<lparr>mpls_bytes = bs,
          mpls_bottomOfStack = (js_and (js_ushr word 8) 0x01 = 1),
          mpls_label = js_and (js_ushr word 12) 0xfffff,
          mpls_offset = offset,
          mpls_trafficClass = js_and (js_ushr word 9) 0x07,
          mpls_ttl = js_and word 0xff\<rparr>)"

text \<open>The loop \<open>for (labelIndex = 1; labelIndex <= 8 && ...)\<close>, by \<open>9 - labelIndex\<close>.\<close>

fun findMplsLabel :: "nat \<Rightarrow> bytes \<Rightarrow> int \<Rightarrow> int \<Rightarrow> int \<Rightarrow> MplsLabelTarget option" where
  "findMplsLabel 0 bs labelIndex index offset = None"
| "findMplsLabel (Suc n) bs labelIndex index offset =
     (if \<not> rawPacketHasBytes bs offset 4 then None
      else
        let target = mplsLabelAt bs offset in
        if labelIndex = index then Some target
        else if mpls_bottomOfStack target then None
        else findMplsLabel n bs (labelIndex + 1) index (offset + 4))"

definition rawMplsLabelTarget :: "RawStream option \<Rightarrow> int \<Rightarrow> MplsLabelTarget option" where
  "rawMplsLabelTarget stream index =
     (let bs = streamBytes stream in
      if int (length bs) < 18 \<or> \<not> rawPacketHasBytes bs 12 2 then None
      else
        let (etherType, offset) = skipVlanTags 4 bs (rawPacketWord bs 12) 14 in
        if \<not> isMplsType etherType then None
        else findMplsLabel 8 bs 1 index offset)"

lemma mplsLabelAt_simps [simp]: "mpls_offset (mplsLabelAt bs off) = off" "mpls_bytes (mplsLabelAt bs off) = bs"
  by (simp_all add: mplsLabelAt_def Let_def)

lemma findMplsLabel_inside:
  "findMplsLabel n bs k index off = Some t
   \<Longrightarrow> t = mplsLabelAt bs (mpls_offset t) \<and> rawPacketHasBytes bs (mpls_offset t) 4"
  by (induction n bs k index off rule: findMplsLabel.induct) (auto simp: Let_def split: if_splits)

lemma findMplsLabel_offset:
  "findMplsLabel n bs k index off = Some t \<Longrightarrow> mpls_offset t = off + 4 * (index - k)"
proof (induction n bs k index off rule: findMplsLabel.induct)
  case (2 n bs k index off)
  then show ?case by (auto simp: Let_def split: if_split_asm)
qed simp

interpretation mpls_target: packet_target "\<lambda>s. rawMplsLabelTarget s index" mpls_offset "\<lambda>t. 4" for index
  by unfold_locales
    (auto simp: rawMplsLabelTarget_def Let_def split: if_splits prod.splits dest: findMplsLabel_inside)

section \<open>VLAN tags\<close>

record VlanTagTarget =
  vlan_cfi :: int
  vlan_etherType :: int
  vlan_nextEtherType :: int
  vlan_priority :: int
  vlan_tci :: int
  vlan_tciOffset :: int
  vlan_vlanId :: int

definition vlanTagAt :: "bytes \<Rightarrow> int \<Rightarrow> int \<Rightarrow> VlanTagTarget" where
  "vlanTagAt bs etherType tciOffset =
     (let tci = rawPacketWord bs tciOffset
      in \<lparr>vlan_cfi = js_and (js_ushr tci 12) 0x01,
          vlan_etherType = etherType,
          vlan_nextEtherType = rawPacketWord bs (tciOffset + 2),
          vlan_priority = js_and (js_ushr tci 13) 0x07,
          vlan_tci = tci,
          vlan_tciOffset = tciOffset,
          vlan_vlanId = js_and tci 0x0fff\<rparr>)"

text \<open>The loop \<open>for (vlanIndex = 1; vlanIndex <= 4 && ...)\<close>, by \<open>5 - vlanIndex\<close>.\<close>

fun findVlanTag :: "nat \<Rightarrow> bytes \<Rightarrow> int \<Rightarrow> int \<Rightarrow> int \<Rightarrow> int \<Rightarrow> VlanTagTarget option" where
  "findVlanTag 0 bs vlanIndex index etherType tciOffset = None"
| "findVlanTag (Suc n) bs vlanIndex index etherType tciOffset =
     (if \<not> rawPacketHasBytes bs tciOffset 4 then None
      else if \<not> isVlanType etherType then None
      else
        let target = vlanTagAt bs etherType tciOffset in
        if vlanIndex = index then Some target
        else findVlanTag n bs (vlanIndex + 1) index (vlan_nextEtherType target) (tciOffset + 4))"

definition rawVlanTagTarget :: "RawStream option \<Rightarrow> int \<Rightarrow> VlanTagTarget option" where
  "rawVlanTagTarget stream index =
     (let bs = streamBytes stream in
      if int (length bs) < 18 \<or> \<not> rawPacketHasBytes bs 12 2 then None
      else findVlanTag 4 bs 1 index (rawPacketWord bs 12) 14)"

lemma vlanTagAt_simps [simp]: "vlan_tciOffset (vlanTagAt bs et off) = off"
  by (simp add: vlanTagAt_def Let_def)

lemma findVlanTag_at:
  "findVlanTag n bs k index et off = Some t
   \<Longrightarrow> vlan_tciOffset t = off + 4 * (index - k) \<and> rawPacketHasBytes bs (vlan_tciOffset t) 4
     \<and> isVlanType (vlan_etherType t) \<and> t = vlanTagAt bs (vlan_etherType t) (vlan_tciOffset t)"
proof (induction n bs k index et off rule: findVlanTag.induct)
  case (2 n bs k index et off)
  then show ?case by (auto simp: Let_def vlanTagAt_def split: if_split_asm)
qed simp

interpretation vlan_target: packet_target "\<lambda>s. rawVlanTagTarget s index" vlan_tciOffset "\<lambda>t. 4" for index
  by unfold_locales (auto simp: rawVlanTagTarget_def Let_def split: if_splits dest: findVlanTag_at)

section \<open>ARP\<close>

record ArpTarget =
  arp_arpOffset :: int
  arp_bytes :: bytes
  arp_operation :: int
  arp_operationOffset :: int
  arp_senderIp :: string
  arp_senderIpOffset :: int
  arp_senderMac :: string
  arp_senderMacOffset :: int
  arp_targetIp :: string
  arp_targetIpOffset :: int
  arp_targetMac :: string
  arp_targetMacOffset :: int

definition arpAt :: "bytes \<Rightarrow> int \<Rightarrow> ArpTarget" where
  "arpAt bs arpOffset =
     \<lparr>arp_arpOffset = arpOffset,
      arp_bytes = bs,
      arp_operation = rawPacketWord bs (arpOffset + 6),
      arp_operationOffset = arpOffset + 6,
      arp_senderIp = formatPacketIpv4 bs (arpOffset + 14),
      arp_senderIpOffset = arpOffset + 14,
      arp_senderMac = formatPacketMac bs (arpOffset + 8),
      arp_senderMacOffset = arpOffset + 8,
      arp_targetIp = formatPacketIpv4 bs (arpOffset + 24),
      arp_targetIpOffset = arpOffset + 24,
      arp_targetMac = formatPacketMac bs (arpOffset + 18),
      arp_targetMacOffset = arpOffset + 18\<rparr>"

definition isEthernetIpv4Arp :: "bytes \<Rightarrow> int \<Rightarrow> bool" where
  "isEthernetIpv4Arp bs arpOffset \<longleftrightarrow>
     rawPacketWord bs arpOffset = 1 \<and> rawPacketWord bs (arpOffset + 2) = 0x0800
     \<and> byteAt bs (arpOffset + 4) = 6 \<and> byteAt bs (arpOffset + 5) = 4"

definition rawArpTarget :: "RawStream option \<Rightarrow> ArpTarget option" where
  "rawArpTarget stream =
     (let bs = streamBytes stream in
      if int (length bs) < 42 \<or> \<not> rawPacketHasBytes bs 12 2 then None
      else
        let (etherType, arpOffset) = skipVlanTags 4 bs (rawPacketWord bs 12) 14 in
        if etherType \<noteq> 0x0806 \<or> \<not> rawPacketHasBytes bs arpOffset 28 then None
        else if \<not> isEthernetIpv4Arp bs arpOffset then None
        else Some (arpAt bs arpOffset))"

lemma rawArpTarget_at:
  assumes "rawArpTarget s = Some t"
  shows "t = arpAt (streamBytes s) (arp_arpOffset t)"
    "rawPacketHasBytes (streamBytes s) (arp_arpOffset t) 28"
    "isEthernetIpv4Arp (streamBytes s) (arp_arpOffset t)"
  using assms by (auto simp: rawArpTarget_def Let_def arpAt_def split: if_splits prod.splits)

lemma hasBytes_within:
  "rawPacketHasBytes bs off n \<Longrightarrow> off \<le> off' \<Longrightarrow> 0 < k \<Longrightarrow> off' + k \<le> off + n
   \<Longrightarrow> rawPacketHasBytes bs off' k"
  by (simp add: rawPacketHasBytes_def)

interpretation arp_target: packet_target rawArpTarget arp_arpOffset "\<lambda>t. 28"
  by unfold_locales (rule rawArpTarget_at)

end
