(* ===== verification/NetworkLayer.thy ===== *)
theory NetworkLayer
  imports LinkLayer
begin

text \<open>
  The outer network layer: the IPv4 header behind VLAN tags and MPLS labels, the walk over its
  options, the outer IPv6 header, and the walks over the chain of IPv6 extension headers and
  over the options of the hop-by-hop, destination and mobility headers among them.
\<close>

section \<open>The outer IPv4 header\<close>

record Ipv4Target =
  v4_bytes :: bytes
  v4_l3Length :: int
  v4_l3Offset :: int
  v4_protocol :: int

definition nibbleHigh :: "bytes \<Rightarrow> int \<Rightarrow> int" where
  "nibbleHigh bs off = js_shr (byteAt bs off) 4"

definition nibbleLow :: "bytes \<Rightarrow> int \<Rightarrow> int" where
  "nibbleLow bs off = js_and (byteAt bs off) 0x0f"

text \<open>
  The first half that \<open>rawOuterIpv4Target\<close> and \<open>ipv4RouterAlertTarget\<close> share: the EtherType and
  the network offset behind the tags and labels.
\<close>

definition outerIpv4L3 :: "bytes \<Rightarrow> int \<times> int" where
  "outerIpv4L3 bs =
     (let (etherType, l3Offset) = skipVlanTags 4 bs (rawPacketWord bs 12) 14
      in if isMplsType etherType \<and> rawPacketHasBytes bs l3Offset 4
         then let l3Offset = skipMplsLabels 8 bs l3Offset
              in (if nibbleHigh bs l3Offset = 4 then 0x0800 else etherType, l3Offset)
         else (etherType, l3Offset))"

definition rawOuterIpv4Target :: "RawStream option \<Rightarrow> Ipv4Target option" where
  "rawOuterIpv4Target stream =
     (let bs = streamBytes stream in
      if int (length bs) < 34 \<or> \<not> rawPacketHasBytes bs 12 2 then None
      else
        let (etherType, l3Offset) = outerIpv4L3 bs in
        if etherType \<noteq> 0x0800 \<or> \<not> rawPacketHasBytes bs l3Offset 20 \<or> nibbleHigh bs l3Offset \<noteq> 4 then None
        else
          let headerLength = nibbleLow bs l3Offset * 4 in
          if headerLength < 20 \<or> headerLength > 60 \<or> \<not> rawPacketHasBytes bs l3Offset headerLength then None
          else Some \<lparr>v4_bytes = bs, v4_l3Length = headerLength, v4_l3Offset = l3Offset,
                     v4_protocol = byteAt bs (l3Offset + 9)\<rparr>)"

lemma rawOuterIpv4TargetD:
  assumes "rawOuterIpv4Target s = Some t"
  shows "v4_bytes t = streamBytes s"
    "rawPacketHasBytes (streamBytes s) (v4_l3Offset t) (v4_l3Length t)"
    "20 \<le> v4_l3Length t" "v4_l3Length t \<le> 60"
    "nibbleHigh (streamBytes s) (v4_l3Offset t) = 4"
    "v4_l3Length t = nibbleLow (streamBytes s) (v4_l3Offset t) * 4"
    "v4_protocol t = byteAt (streamBytes s) (v4_l3Offset t + 9)"
  using assms by (auto simp: rawOuterIpv4Target_def Let_def split: if_splits prod.splits)

interpretation ipv4_target: packet_target rawOuterIpv4Target v4_l3Offset v4_l3Length
  by unfold_locales (rule rawOuterIpv4TargetD)

section \<open>IPv4 options\<close>

record Ipv4RouterAlert =
  ra4_ipv4Offset :: int
  ra4_value :: int
  ra4_valueOffset :: int

record Ipv4OptionType =
  opt4_ipv4Offset :: int
  opt4_optionType :: int
  opt4_typeOffset :: int

text \<open>
  Both walks cut the option area into options: end (0) stops, no-operation (1) is one byte,
  every other option carries its length in its second byte. The router alert walk goes on to
  the next option, the option type walk returns the first.
\<close>

definition optionFits :: "bytes \<Rightarrow> int \<Rightarrow> int \<Rightarrow> bool" where
  "optionFits bs optionOffset optionsEnd \<longleftrightarrow>
     rawPacketHasBytes bs optionOffset 2
     \<and> 2 \<le> byteAt bs (optionOffset + 1)
     \<and> optionOffset + byteAt bs (optionOffset + 1) \<le> optionsEnd
     \<and> rawPacketHasBytes bs optionOffset (byteAt bs (optionOffset + 1))"

fun findRouterAlert4 :: "nat \<Rightarrow> bytes \<Rightarrow> int \<Rightarrow> int \<Rightarrow> int \<Rightarrow> Ipv4RouterAlert option" where
  "findRouterAlert4 0 bs l3Offset optionOffset optionsEnd = None"
| "findRouterAlert4 (Suc n) bs l3Offset optionOffset optionsEnd =
     (if optionOffset \<ge> optionsEnd then None
      else
        let optionType = byteAt bs optionOffset in
        if optionType = 0 then None
        else if optionType = 1 then findRouterAlert4 n bs l3Offset (optionOffset + 1) optionsEnd
        else if \<not> optionFits bs optionOffset optionsEnd then None
        else
          let optionLength = byteAt bs (optionOffset + 1) in
          if optionType = 0x94 \<and> optionLength = 4
          then Some \<lparr>ra4_ipv4Offset = l3Offset, ra4_value = rawPacketWord bs (optionOffset + 2),
                     ra4_valueOffset = optionOffset + 2\<rparr>
          else findRouterAlert4 n bs l3Offset (optionOffset + optionLength) optionsEnd)"

definition ipv4RouterAlertTarget :: "RawStream option \<Rightarrow> Ipv4RouterAlert option" where
  "ipv4RouterAlertTarget stream =
     (let bs = streamBytes stream in
      if int (length bs) < 34 \<or> \<not> rawPacketHasBytes bs 12 2 then None
      else
        let (etherType, l3Offset) = outerIpv4L3 bs in
        if etherType \<noteq> 0x0800 \<or> \<not> rawPacketHasBytes bs l3Offset 20 \<or> nibbleHigh bs l3Offset \<noteq> 4 then None
        else
          let headerLength = nibbleLow bs l3Offset * 4 in
          if headerLength \<le> 20 \<or> headerLength > 60 \<or> \<not> rawPacketHasBytes bs l3Offset headerLength then None
          else findRouterAlert4 16 bs l3Offset (l3Offset + 20) (l3Offset + headerLength))"

fun findOptionType4 :: "nat \<Rightarrow> bytes \<Rightarrow> int \<Rightarrow> int \<Rightarrow> int \<Rightarrow> Ipv4OptionType option" where
  "findOptionType4 0 bs l3Offset optionOffset optionsEnd = None"
| "findOptionType4 (Suc n) bs l3Offset optionOffset optionsEnd =
     (if optionOffset \<ge> optionsEnd then None
      else
        let optionType = byteAt bs optionOffset in
        if optionType = 0 then None
        else if optionType = 1 then findOptionType4 n bs l3Offset (optionOffset + 1) optionsEnd
        else if \<not> optionFits bs optionOffset optionsEnd then None
        else Some \<lparr>opt4_ipv4Offset = l3Offset, opt4_optionType = optionType,
                   opt4_typeOffset = optionOffset\<rparr>)"

definition ipv4OptionTypeTarget :: "RawStream option \<Rightarrow> Ipv4OptionType option" where
  "ipv4OptionTypeTarget stream =
     (case rawOuterIpv4Target stream of
        None \<Rightarrow> None
      | Some target \<Rightarrow>
          if v4_l3Length target \<le> 20 then None
          else findOptionType4 16 (v4_bytes target) (v4_l3Offset target) (v4_l3Offset target + 20)
                 (v4_l3Offset target + v4_l3Length target))"

lemma findRouterAlert4_at:
  "findRouterAlert4 n bs l3 off end = Some t
   \<Longrightarrow> ra4_ipv4Offset t = l3 \<and> off + 2 \<le> ra4_valueOffset t \<and> ra4_valueOffset t + 2 \<le> end
     \<and> rawPacketHasBytes bs (ra4_valueOffset t - 2) 4
     \<and> byteAt bs (ra4_valueOffset t - 2) = 0x94 \<and> byteAt bs (ra4_valueOffset t - 1) = 4
     \<and> ra4_value t = rawPacketWord bs (ra4_valueOffset t)"
proof (induction n arbitrary: off)
  case (Suc n)
  from Suc.IH [of "off + 1"] Suc.IH [of "off + byteAt bs (off + 1)"] Suc.prems show ?case
    by (simp add: Let_def optionFits_def split: if_split_asm) (force simp: add.commute)+
qed simp

lemma ipv4RouterAlertTargetD:
  assumes "ipv4RouterAlertTarget s = Some t"
  shows "rawPacketHasBytes (streamBytes s) (ra4_valueOffset t - 2) 4"
    "ra4_ipv4Offset t + 22 \<le> ra4_valueOffset t"
    "ra4_valueOffset t + 2 \<le> ra4_ipv4Offset t + 60"
    "byteAt (streamBytes s) (ra4_valueOffset t - 2) = 0x94"
    "byteAt (streamBytes s) (ra4_valueOffset t - 1) = 4"
    "ra4_value t = rawPacketWord (streamBytes s) (ra4_valueOffset t)"
  using assms
  by (auto simp: ipv4RouterAlertTarget_def Let_def split: if_splits prod.splits dest!: findRouterAlert4_at)

interpretation router_alert4: packet_target ipv4RouterAlertTarget ra4_valueOffset "\<lambda>t. 2"
  by unfold_locales (rule hasBytes_within, erule ipv4RouterAlertTargetD(1), simp_all)

lemma findOptionType4_at:
  "findOptionType4 n bs l3 off end = Some t
   \<Longrightarrow> opt4_ipv4Offset t = l3 \<and> off \<le> opt4_typeOffset t \<and> opt4_typeOffset t < end
     \<and> optionFits bs (opt4_typeOffset t) end
     \<and> opt4_optionType t = byteAt bs (opt4_typeOffset t) \<and> opt4_optionType t \<notin> {0, 1}"
proof (induction n arbitrary: off)
  case (Suc n)
  from Suc.IH [of "off + 1"] Suc.prems show ?case
    by (simp add: Let_def split: if_split_asm) auto
qed simp

interpretation option_type4: packet_target ipv4OptionTypeTarget opt4_typeOffset "\<lambda>t. 1"
proof unfold_locales
  fix s t
  assume "ipv4OptionTypeTarget s = Some t"
  then show "rawPacketHasBytes (streamBytes s) (opt4_typeOffset t) 1"
    by (auto simp: ipv4OptionTypeTarget_def optionFits_def split: option.splits if_splits
        dest!: findOptionType4_at rawOuterIpv4TargetD(1)) (simp add: rawPacketHasBytes_def)
qed

section \<open>The outer IPv6 header and its extension headers\<close>

definition outerIpv6L3 :: "bytes \<Rightarrow> (int \<times> int) option" where
  "outerIpv6L3 bs =
     (let (etherType, l3Offset) = skipVlanTags 4 bs (rawPacketWord bs 12) 14
      in if isMplsType etherType \<and> rawPacketHasBytes bs l3Offset 4
         then let l3Offset = skipMplsLabels 8 bs l3Offset
              in if \<not> rawPacketHasBytes bs l3Offset 1 then None
                 else Some (if nibbleHigh bs l3Offset = 6 then 0x86dd else etherType, l3Offset)
         else Some (etherType, l3Offset))"

definition rawOuterIpv6Offset :: "bytes \<Rightarrow> int option" where
  "rawOuterIpv6Offset bs =
     (if int (length bs) < 54 \<or> \<not> rawPacketHasBytes bs 12 2 then None
      else case outerIpv6L3 bs of
             None \<Rightarrow> None
           | Some (etherType, l3Offset) \<Rightarrow>
               if etherType \<noteq> 0x86dd \<or> \<not> rawPacketHasBytes bs l3Offset 40 \<or> nibbleHigh bs l3Offset \<noteq> 6
               then None else Some l3Offset)"

record Ipv6Target =
  v6_bytes :: bytes
  v6_l3Offset :: int
  v6_nextHeader :: int

definition rawOuterIpv6Target :: "RawStream option \<Rightarrow> Ipv6Target option" where
  "rawOuterIpv6Target stream =
     (let bs = streamBytes stream in
      case rawOuterIpv6Offset bs of
        None \<Rightarrow> None
      | Some l3Offset \<Rightarrow>
          Some \<lparr>v6_bytes = bs, v6_l3Offset = l3Offset, v6_nextHeader = byteOr 59 bs (l3Offset + 6)\<rparr>)"

text \<open>
  The length of an extension header: fragment 8, authentication header in four-byte units
  plus two, hop-by-hop, routing, destination and mobility in eight-byte units plus one.
\<close>

definition rawIpv6ExtensionHeaderLength :: "bytes \<Rightarrow> int \<Rightarrow> int \<Rightarrow> int option" where
  "rawIpv6ExtensionHeaderLength bs header offset =
     (if header \<notin> {0, 43, 44, 51, 60, 135} then None
      else if header = 44 then (if rawPacketHasBytes bs offset 8 then Some 8 else None)
      else if header = 51 then
        (if \<not> rawPacketHasBytes bs offset 12 then None
         else let ahLength = (byteAt bs (offset + 1) + 2) * 4
              in if ahLength \<ge> 12 \<and> rawPacketHasBytes bs offset ahLength then Some ahLength else None)
      else if \<not> rawPacketHasBytes bs offset 8 then None
      else let len = (byteAt bs (offset + 1) + 1) * 8
           in if len \<ge> 8 \<and> rawPacketHasBytes bs offset len then Some len else None)"

lemma rawOuterIpv6Offset_at:
  assumes "rawOuterIpv6Offset bs = Some off"
  shows "rawPacketHasBytes bs off 40" "nibbleHigh bs off = 6" "14 \<le> off"
proof -
  have "14 \<le> off'" if "skipVlanTags 4 bs et 14 = (et', off')" for et et' off'
    using skipVlanTags_offset [of 14 4 bs et] that by simp
  moreover have "off' \<le> skipMplsLabels 8 bs off'" for off'
    using skipMplsLabels_offset [of off' 8 bs] by simp
  ultimately show "rawPacketHasBytes bs off 40" "nibbleHigh bs off = 6" "14 \<le> off"
    using assms
    by (auto simp: rawOuterIpv6Offset_def outerIpv6L3_def Let_def split: if_splits option.splits prod.splits)
       (meson order_trans)
qed

lemma extensionLength_at:
  assumes "rawIpv6ExtensionHeaderLength bs header off = Some len"
  shows "8 \<le> len" "rawPacketHasBytes bs off len" "header \<in> {0, 43, 44, 51, 60, 135}"
  using assms by (auto simp: rawIpv6ExtensionHeaderLength_def Let_def split: if_splits)

interpretation ipv6_target: packet_target rawOuterIpv6Target v6_l3Offset "\<lambda>t. 40"
  by unfold_locales (auto simp: rawOuterIpv6Target_def Let_def split: option.splits dest: rawOuterIpv6Offset_at)

end
