(* ===== verification/Ipv6Extensions.thy ===== *)
theory Ipv6Extensions
  imports NetworkLayer
begin

text \<open>
  The walks over the chain of IPv6 extension headers: to a header of a given type, to an option
  of the hop-by-hop, destination and mobility headers, to the upper layer; and the fields of
  the fragment, authentication and routing headers.
\<close>

section \<open>The walk to a header\<close>

record Ipv6ExtensionTarget =
  ext_bytes :: bytes
  ext_length :: int
  ext_offset :: int

fun findExtensionHeader :: "nat \<Rightarrow> bytes \<Rightarrow> int \<Rightarrow> int \<Rightarrow> int \<Rightarrow> Ipv6ExtensionTarget option" where
  "findExtensionHeader 0 bs targetHeader nextHeader extensionOffset = None"
| "findExtensionHeader (Suc n) bs targetHeader nextHeader extensionOffset =
     (case rawIpv6ExtensionHeaderLength bs nextHeader extensionOffset of
        None \<Rightarrow> None
      | Some extensionLength \<Rightarrow>
          if nextHeader = targetHeader
          then Some \<lparr>ext_bytes = bs, ext_length = extensionLength, ext_offset = extensionOffset\<rparr>
          else findExtensionHeader n bs targetHeader (byteOr 59 bs extensionOffset)
                 (extensionOffset + extensionLength))"

definition rawIpv6ExtensionHeaderTarget :: "RawStream option \<Rightarrow> int \<Rightarrow> Ipv6ExtensionTarget option" where
  "rawIpv6ExtensionHeaderTarget stream targetHeader =
     (let bs = streamBytes stream in
      case rawOuterIpv6Offset bs of
        None \<Rightarrow> None
      | Some l3Offset \<Rightarrow>
          findExtensionHeader 8 bs targetHeader (byteOr 59 bs (l3Offset + 6)) (l3Offset + 40))"

lemma findExtensionHeader_at:
  "findExtensionHeader n bs h next off = Some t
   \<Longrightarrow> ext_bytes t = bs \<and> off \<le> ext_offset t
     \<and> rawIpv6ExtensionHeaderLength bs h (ext_offset t) = Some (ext_length t)"
proof (induction n arbitrary: "next" off)
  case (Suc n)
  show ?case
  proof (cases "rawIpv6ExtensionHeaderLength bs next off")
    case None
    with Suc.prems show ?thesis by simp
  next
    case (Some len)
    with Suc.IH [of "byteOr 59 bs off" "off + len"] Suc.prems extensionLength_at [OF Some]
    show ?thesis by (cases "next = h") auto
  qed
qed simp

lemma rawIpv6ExtensionHeaderTargetD:
  assumes "rawIpv6ExtensionHeaderTarget s h = Some t"
  shows "ext_bytes t = streamBytes s"
    "rawIpv6ExtensionHeaderLength (streamBytes s) h (ext_offset t) = Some (ext_length t)"
    "rawPacketHasBytes (streamBytes s) (ext_offset t) (ext_length t)"
    "54 \<le> ext_offset t" "8 \<le> ext_length t"
  using assms
  by (auto simp: rawIpv6ExtensionHeaderTarget_def Let_def split: option.splits
      dest!: findExtensionHeader_at dest: extensionLength_at rawOuterIpv6Offset_at(3))

interpretation extension_target: packet_target "\<lambda>s. rawIpv6ExtensionHeaderTarget s h" ext_offset ext_length for h
  by unfold_locales (rule rawIpv6ExtensionHeaderTargetD)

section \<open>Options of an extension header\<close>

text \<open>
  The option loop has three exits: an option found, \<open>return null\<close> at a malformed option, and
  the end of the options, after which the walk goes on with the next header.
\<close>

datatype 'a walk = Found 'a | Abort | Ended

record Ipv6OptionValue =
  opt6_value :: int
  opt6_valueOffset :: int

record Ipv6OptionType =
  opt6_optionType :: int
  opt6_typeOffset :: int

definition option6Fits :: "bytes \<Rightarrow> int \<Rightarrow> int \<Rightarrow> bool" where
  "option6Fits bs optionOffset optionsEnd \<longleftrightarrow>
     2 \<le> byteAt bs (optionOffset + 1) + 2
     \<and> optionOffset + (byteAt bs (optionOffset + 1) + 2) \<le> optionsEnd
     \<and> rawPacketHasBytes bs optionOffset (byteAt bs (optionOffset + 1) + 2)"

fun findOption6 :: "nat \<Rightarrow> bytes \<Rightarrow> int \<Rightarrow> int \<Rightarrow> int \<Rightarrow> int \<Rightarrow> Ipv6OptionValue walk" where
  "findOption6 0 bs targetType targetLength optionOffset optionsEnd = Ended"
| "findOption6 (Suc n) bs targetType targetLength optionOffset optionsEnd =
     (if optionOffset \<ge> optionsEnd then Ended
      else
        let optionType = byteAt bs optionOffset in
        if optionType = 0 then findOption6 n bs targetType targetLength (optionOffset + 1) optionsEnd
        else if \<not> rawPacketHasBytes bs optionOffset 2 then Abort
        else if \<not> option6Fits bs optionOffset optionsEnd then Abort
        else
          let optionLength = byteAt bs (optionOffset + 1) in
          if optionType = targetType \<and> optionLength = targetLength
          then Found \<lparr>opt6_value = rawPacketNumberValue bs (optionOffset + 2) optionLength,
                      opt6_valueOffset = optionOffset + 2\<rparr>
          else findOption6 n bs targetType targetLength (optionOffset + (optionLength + 2)) optionsEnd)"

fun findOptionType6 :: "nat \<Rightarrow> bytes \<Rightarrow> int \<Rightarrow> int \<Rightarrow> Ipv6OptionType walk" where
  "findOptionType6 0 bs optionOffset optionsEnd = Ended"
| "findOptionType6 (Suc n) bs optionOffset optionsEnd =
     (if optionOffset \<ge> optionsEnd then Ended
      else
        let optionType = byteAt bs optionOffset in
        if optionType = 0 then findOptionType6 n bs (optionOffset + 1) optionsEnd
        else if \<not> rawPacketHasBytes bs optionOffset 2 then Abort
        else if \<not> option6Fits bs optionOffset optionsEnd then Abort
        else Found \<lparr>opt6_optionType = optionType, opt6_typeOffset = optionOffset\<rparr>)"

text \<open>
  The walk both option finders make, with the option loop as a parameter: fragment,
  authentication and routing headers are stepped over, the options of the others are searched,
  anything else ends the walk with \<open>null\<close>.
\<close>

fun walkOptionHeaders :: "(int \<Rightarrow> int \<Rightarrow> 'a walk) \<Rightarrow> nat \<Rightarrow> bytes \<Rightarrow> int \<Rightarrow> int \<Rightarrow> 'a option" where
  "walkOptionHeaders search 0 bs nextHeader extensionOffset = None"
| "walkOptionHeaders search (Suc n) bs nextHeader extensionOffset =
     (if nextHeader = 44 then
        (if \<not> rawPacketHasBytes bs extensionOffset 8 then None
         else walkOptionHeaders search n bs (byteOr 59 bs extensionOffset) (extensionOffset + 8))
      else if nextHeader = 51 then
        (if \<not> rawPacketHasBytes bs extensionOffset 12 then None
         else
           let ahLength = (byteAt bs (extensionOffset + 1) + 2) * 4 in
           if ahLength < 12 \<or> \<not> rawPacketHasBytes bs extensionOffset ahLength then None
           else walkOptionHeaders search n bs (byteOr 59 bs extensionOffset) (extensionOffset + ahLength))
      else if nextHeader = 43 then
        (case rawIpv6ExtensionHeaderLength bs nextHeader extensionOffset of
           None \<Rightarrow> None
         | Some routingLength \<Rightarrow>
             walkOptionHeaders search n bs (byteOr 59 bs extensionOffset) (extensionOffset + routingLength))
      else if nextHeader \<noteq> 0 \<and> nextHeader \<noteq> 60 \<and> nextHeader \<noteq> 135 then None
      else if \<not> rawPacketHasBytes bs extensionOffset 8 then None
      else
        let extensionLength = (byteAt bs (extensionOffset + 1) + 1) * 8 in
        if extensionLength < 8 \<or> \<not> rawPacketHasBytes bs extensionOffset extensionLength then None
        else
          case search (extensionOffset + 2) (extensionOffset + extensionLength) of
            Found t \<Rightarrow> Some t
          | Abort \<Rightarrow> None
          | Ended \<Rightarrow>
              walkOptionHeaders search n bs (byteOr 59 bs extensionOffset)
                (extensionOffset + extensionLength))"

definition ipv6ExtensionOptionTarget :: "RawStream option \<Rightarrow> int \<Rightarrow> int \<Rightarrow> Ipv6OptionValue option" where
  "ipv6ExtensionOptionTarget stream targetType targetLength =
     (let bs = streamBytes stream in
      case rawOuterIpv6Offset bs of
        None \<Rightarrow> None
      | Some l3Offset \<Rightarrow>
          walkOptionHeaders (findOption6 16 bs targetType targetLength) 8 bs
            (byteOr 59 bs (l3Offset + 6)) (l3Offset + 40))"

definition ipv6ExtensionOptionTypeTarget :: "RawStream option \<Rightarrow> Ipv6OptionType option" where
  "ipv6ExtensionOptionTypeTarget stream =
     (let bs = streamBytes stream in
      case rawOuterIpv6Offset bs of
        None \<Rightarrow> None
      | Some l3Offset \<Rightarrow>
          walkOptionHeaders (findOptionType6 16 bs) 8 bs (byteOr 59 bs (l3Offset + 6)) (l3Offset + 40))"

definition ipv6RouterAlertTarget :: "RawStream option \<Rightarrow> Ipv6OptionValue option" where
  "ipv6RouterAlertTarget stream = ipv6ExtensionOptionTarget stream 5 2"

definition ipv6JumboPayloadTarget :: "RawStream option \<Rightarrow> Ipv6OptionValue option" where
  "ipv6JumboPayloadTarget stream = ipv6ExtensionOptionTarget stream 0xc2 4"

text \<open>
  The walk written with the one length function of the extension headers: the inlined length
  computations of the walk agree with it.
\<close>

fun walkByLength :: "(int \<Rightarrow> int \<Rightarrow> 'a walk) \<Rightarrow> nat \<Rightarrow> bytes \<Rightarrow> int \<Rightarrow> int \<Rightarrow> 'a option" where
  "walkByLength search 0 bs nextHeader off = None"
| "walkByLength search (Suc n) bs nextHeader off =
     (case rawIpv6ExtensionHeaderLength bs nextHeader off of
        None \<Rightarrow> None
      | Some len \<Rightarrow>
          case (if nextHeader \<in> {43, 44, 51} then Ended else search (off + 2) (off + len)) of
            Found t \<Rightarrow> Some t
          | Abort \<Rightarrow> None
          | Ended \<Rightarrow> walkByLength search n bs (byteOr 59 bs off) (off + len))"

lemma walkOptionHeaders_by_length:
  "walkOptionHeaders search n bs h off = walkByLength search n bs h off"
proof (induction n arbitrary: h off)
  case (Suc n)
  then show ?case
    by (auto simp: rawIpv6ExtensionHeaderLength_def Let_def not_le split: walk.split)
qed simp

lemma walkByLength_found:
  assumes "walkByLength search n bs h off = Some t"
  obtains k len where "off \<le> k" "search (k + 2) (k + len) = Found t" "rawPacketHasBytes bs k len"
  using assms
proof (induction n arbitrary: h off thesis)
  case (Suc n)
  show ?case
  proof (cases "rawIpv6ExtensionHeaderLength bs h off")
    case None
    with Suc.prems show ?thesis by simp
  next
    case (Some len)
    note at = extensionLength_at [OF Some]
    show ?thesis
    proof (cases "if h \<in> {43, 44, 51} then Ended else search (off + 2) (off + len)")
      case (Found u)
      with Some Suc.prems at show ?thesis by (auto split: if_split_asm)
    next
      case Abort
      with Some Suc.prems show ?thesis by simp
    next
      case Ended
      with Some Suc.prems have "walkByLength search n bs (byteOr 59 bs off) (off + len) = Some t" by simp
      then obtain k l where "off + len \<le> k" "search (k + 2) (k + l) = Found t" "rawPacketHasBytes bs k l"
        using Suc.IH by blast
      then show ?thesis using Suc.prems(1) [of k l] at(1) by simp
    qed
  qed
qed simp

lemma findOption6_at:
  "findOption6 n bs ty len off end = Found t
   \<Longrightarrow> \<exists>p. off \<le> p \<and> p + (len + 2) \<le> end \<and> opt6_valueOffset t = p + 2
       \<and> rawPacketHasBytes bs p (len + 2) \<and> byteAt bs p = ty \<and> byteAt bs (p + 1) = len
       \<and> opt6_value t = rawPacketNumberValue bs (p + 2) len"
proof (induction n arbitrary: off)
  case (Suc n)
  let ?len = "byteAt bs (off + 1)"
  have step: ?case if le: "off \<le> off'" and rec: "findOption6 n bs ty len off' end = Found t" for off'
  proof -
    obtain p where "off' \<le> p" "p + (len + 2) \<le> end \<and> opt6_valueOffset t = p + 2
        \<and> rawPacketHasBytes bs p (len + 2) \<and> byteAt bs p = ty \<and> byteAt bs (p + 1) = len
        \<and> opt6_value t = rawPacketNumberValue bs (p + 2) len"
      using Suc.IH [OF rec] by blast
    then show ?thesis using le by (intro exI [of _ p]) simp
  qed
  consider "byteAt bs off = 0" | "byteAt bs off \<noteq> 0" "byteAt bs off = ty" "?len = len"
    | "byteAt bs off \<noteq> 0" "\<not> (byteAt bs off = ty \<and> ?len = len)"
    by blast
  then show ?case
  proof cases
    case 1
    with Suc.prems show ?thesis by (intro step [of "off + 1"]) (simp_all split: if_split_asm)
  next
    case 2
    with Suc.prems show ?thesis
      by (intro exI [of _ off]) (auto simp: option6Fits_def split: if_split_asm)
  next
    case 3
    with Suc.prems show ?thesis
      by (intro step [of "off + (?len + 2)"]) (auto simp: option6Fits_def Let_def split: if_split_asm)
  qed
qed simp

lemma findOptionType6_at:
  "findOptionType6 n bs off end = Found t
   \<Longrightarrow> off \<le> opt6_typeOffset t \<and> option6Fits bs (opt6_typeOffset t) end
     \<and> opt6_optionType t = byteAt bs (opt6_typeOffset t) \<and> opt6_optionType t \<noteq> 0"
proof (induction n arbitrary: off)
  case (Suc n)
  from Suc.IH [of "off + 1"] Suc.prems show ?case
    by (simp add: Let_def split: if_split_asm) auto
qed simp

lemma ipv6ExtensionOptionTargetD:
  assumes "ipv6ExtensionOptionTarget s ty len = Some t"
  shows "rawPacketHasBytes (streamBytes s) (opt6_valueOffset t - 2) (len + 2)"
    "byteAt (streamBytes s) (opt6_valueOffset t - 2) = ty"
    "byteAt (streamBytes s) (opt6_valueOffset t - 1) = len"
    "opt6_value t = rawPacketNumberValue (streamBytes s) (opt6_valueOffset t) len"
    "58 \<le> opt6_valueOffset t"
proof -
  obtain l3 where l3: "rawOuterIpv6Offset (streamBytes s) = Some l3"
    and w: "walkByLength (findOption6 16 (streamBytes s) ty len) 8 (streamBytes s)
      (byteOr 59 (streamBytes s) (l3 + 6)) (l3 + 40) = Some t"
    using assms
    by (auto simp: ipv6ExtensionOptionTarget_def Let_def walkOptionHeaders_by_length split: option.splits)
  obtain k n where k: "l3 + 40 \<le> k" "findOption6 16 (streamBytes s) ty len (k + 2) (k + n) = Found t"
    by (rule walkByLength_found [OF w])
  obtain p where p: "k + 2 \<le> p" "opt6_valueOffset t = p + 2"
    "rawPacketHasBytes (streamBytes s) p (len + 2)" "byteAt (streamBytes s) p = ty"
    "byteAt (streamBytes s) (p + 1) = len"
    "opt6_value t = rawPacketNumberValue (streamBytes s) (p + 2) len"
    using findOption6_at [OF k(2)] by blast
  have 1: "p + 2 - 2 = p" "p + 2 - 1 = p + 1" by simp_all
  show "rawPacketHasBytes (streamBytes s) (opt6_valueOffset t - 2) (len + 2)"
    "byteAt (streamBytes s) (opt6_valueOffset t - 2) = ty"
    "byteAt (streamBytes s) (opt6_valueOffset t - 1) = len"
    "opt6_value t = rawPacketNumberValue (streamBytes s) (opt6_valueOffset t) len"
    "58 \<le> opt6_valueOffset t"
    using p k(1) rawOuterIpv6Offset_at(3) [OF l3] unfolding p(2) 1 by simp_all
qed

interpretation router_alert6: packet_target ipv6RouterAlertTarget opt6_valueOffset "\<lambda>t. 2"
  by unfold_locales (auto simp: ipv6RouterAlertTarget_def dest!: ipv6ExtensionOptionTargetD(1)
      simp: rawPacketHasBytes_def)

interpretation jumbo_payload: packet_target ipv6JumboPayloadTarget opt6_valueOffset "\<lambda>t. 4"
  by unfold_locales (auto simp: ipv6JumboPayloadTarget_def dest!: ipv6ExtensionOptionTargetD(1)
      simp: rawPacketHasBytes_def)

interpretation option_type6: packet_target ipv6ExtensionOptionTypeTarget opt6_typeOffset "\<lambda>t. 1"
proof unfold_locales
  fix s t
  assume "ipv6ExtensionOptionTypeTarget s = Some t"
  then obtain l3 where "walkByLength (findOptionType6 16 (streamBytes s)) 8 (streamBytes s)
      (byteOr 59 (streamBytes s) (l3 + 6)) (l3 + 40) = Some t"
    by (auto simp: ipv6ExtensionOptionTypeTarget_def Let_def walkOptionHeaders_by_length split: option.splits)
  then obtain k n where "findOptionType6 16 (streamBytes s) (k + 2) (k + n) = Found t"
    by (rule walkByLength_found)
  from findOptionType6_at [OF this]
  show "rawPacketHasBytes (streamBytes s) (opt6_typeOffset t) 1"
    by (auto simp: option6Fits_def rawPacketHasBytes_def)
qed

section \<open>Fields of the fragment, authentication and routing headers\<close>

record Ipv6FragmentTarget =
  frag_fragmentOffset :: int
  frag_fragmentWordOffset :: int
  frag_identification :: int
  frag_identificationOffset :: int
  frag_moreFragments :: int
  frag_reservedBits :: int

definition ipv6FragmentHeaderTarget :: "RawStream option \<Rightarrow> Ipv6FragmentTarget option" where
  "ipv6FragmentHeaderTarget stream =
     (case rawIpv6ExtensionHeaderTarget stream 44 of
        None \<Rightarrow> None
      | Some target \<Rightarrow>
          let fragmentWordOffset = ext_offset target + 2;
              fragmentWord = rawPacketWord (ext_bytes target) fragmentWordOffset
          in Some \<lparr>frag_fragmentOffset = js_ushr (js_and fragmentWord 0xfff8) 3,
                   frag_fragmentWordOffset = fragmentWordOffset,
                   frag_identification = rawPacketNumberValue (ext_bytes target) (ext_offset target + 4) 4,
                   frag_identificationOffset = ext_offset target + 4,
                   frag_moreFragments = js_and fragmentWord 0x0001,
                   frag_reservedBits = js_ushr (js_and fragmentWord 0x0006) 1\<rparr>)"

record Ipv6AhTarget =
  ah_sequence :: int
  ah_sequenceOffset :: int
  ah_spi :: int
  ah_spiOffset :: int

definition ipv6AhHeaderTarget :: "RawStream option \<Rightarrow> Ipv6AhTarget option" where
  "ipv6AhHeaderTarget stream =
     (case rawIpv6ExtensionHeaderTarget stream 51 of
        None \<Rightarrow> None
      | Some target \<Rightarrow>
          Some \<lparr>ah_sequence = rawPacketNumberValue (ext_bytes target) (ext_offset target + 8) 4,
                ah_sequenceOffset = ext_offset target + 8,
                ah_spi = rawPacketNumberValue (ext_bytes target) (ext_offset target + 4) 4,
                ah_spiOffset = ext_offset target + 4\<rparr>)"

record Ipv6RoutingTarget =
  rt_routingType :: int
  rt_routingTypeOffset :: int
  rt_segmentsLeft :: int
  rt_segmentsLeftOffset :: int

definition ipv6RoutingHeaderTarget :: "RawStream option \<Rightarrow> Ipv6RoutingTarget option" where
  "ipv6RoutingHeaderTarget stream =
     (case rawIpv6ExtensionHeaderTarget stream 43 of
        None \<Rightarrow> None
      | Some target \<Rightarrow>
          if ext_length target < 8 then None
          else Some \<lparr>rt_routingType = rawPacketNumberValue (ext_bytes target) (ext_offset target + 2) 1,
                     rt_routingTypeOffset = ext_offset target + 2,
                     rt_segmentsLeft = rawPacketNumberValue (ext_bytes target) (ext_offset target + 3) 1,
                     rt_segmentsLeftOffset = ext_offset target + 3\<rparr>)"

lemma ah_length_12:
  "rawIpv6ExtensionHeaderLength bs 51 off = Some len \<Longrightarrow> 12 \<le> len"
  by (auto simp: rawIpv6ExtensionHeaderLength_def Let_def split: if_splits)

text \<open>Every field of a header lies inside it.\<close>

lemma extension_field_inside:
  assumes "rawIpv6ExtensionHeaderTarget s h = Some e" "0 \<le> k" "0 < n" "k + n \<le> 8 \<or> h = 51 \<and> k + n \<le> 12"
  shows "rawPacketHasBytes (streamBytes s) (ext_offset e + k) n"
proof -
  note at = rawIpv6ExtensionHeaderTargetD [OF assms(1)]
  have "k + n \<le> ext_length e"
    using assms(4) at(2,5) ah_length_12 by fastforce
  then show ?thesis
    using at(3) assms(2,3) by (auto intro: hasBytes_within)
qed

interpretation fragment_word: packet_target ipv6FragmentHeaderTarget frag_fragmentWordOffset "\<lambda>t. 2"
  by unfold_locales
    (auto simp: ipv6FragmentHeaderTarget_def Let_def extension_field_inside split: option.splits)

interpretation fragment_id: packet_target ipv6FragmentHeaderTarget frag_identificationOffset "\<lambda>t. 4"
  by unfold_locales
    (auto simp: ipv6FragmentHeaderTarget_def Let_def extension_field_inside split: option.splits)

interpretation ah_spi_target: packet_target ipv6AhHeaderTarget ah_spiOffset "\<lambda>t. 4"
  by unfold_locales (auto simp: ipv6AhHeaderTarget_def extension_field_inside split: option.splits)

interpretation ah_sequence_target: packet_target ipv6AhHeaderTarget ah_sequenceOffset "\<lambda>t. 4"
  by unfold_locales (auto simp: ipv6AhHeaderTarget_def extension_field_inside split: option.splits)

interpretation routing_type: packet_target ipv6RoutingHeaderTarget rt_routingTypeOffset "\<lambda>t. 1"
  by unfold_locales
    (auto simp: ipv6RoutingHeaderTarget_def extension_field_inside split: option.splits if_splits)

interpretation segments_left: packet_target ipv6RoutingHeaderTarget rt_segmentsLeftOffset "\<lambda>t. 1"
  by unfold_locales
    (auto simp: ipv6RoutingHeaderTarget_def extension_field_inside split: option.splits if_splits)

section \<open>Which editors a stream offers\<close>

definition isAdvancedIpv4RouterAlertStream :: "RawStream option \<Rightarrow> bool" where
  "isAdvancedIpv4RouterAlertStream stream \<longleftrightarrow> ipv4RouterAlertTarget stream \<noteq> None"

definition isAdvancedIpv4OptionTypeStream :: "RawStream option \<Rightarrow> bool" where
  "isAdvancedIpv4OptionTypeStream stream \<longleftrightarrow> ipv4OptionTypeTarget stream \<noteq> None"

definition isAdvancedIpv6RouterAlertStream :: "RawStream option \<Rightarrow> bool" where
  "isAdvancedIpv6RouterAlertStream stream \<longleftrightarrow> ipv6RouterAlertTarget stream \<noteq> None"

definition isAdvancedIpv6ExtensionOptionTypeStream :: "RawStream option \<Rightarrow> bool" where
  "isAdvancedIpv6ExtensionOptionTypeStream stream \<longleftrightarrow> ipv6ExtensionOptionTypeTarget stream \<noteq> None"

definition isAdvancedIpv6JumboPayloadStream :: "RawStream option \<Rightarrow> bool" where
  "isAdvancedIpv6JumboPayloadStream stream \<longleftrightarrow> ipv6JumboPayloadTarget stream \<noteq> None"

definition isAdvancedIpv6FragmentStream :: "RawStream option \<Rightarrow> bool" where
  "isAdvancedIpv6FragmentStream stream \<longleftrightarrow> ipv6FragmentHeaderTarget stream \<noteq> None"

definition isAdvancedIpv6AhStream :: "RawStream option \<Rightarrow> bool" where
  "isAdvancedIpv6AhStream stream \<longleftrightarrow> ipv6AhHeaderTarget stream \<noteq> None"

definition isAdvancedIpv6RoutingStream :: "RawStream option \<Rightarrow> bool" where
  "isAdvancedIpv6RoutingStream stream \<longleftrightarrow> ipv6RoutingHeaderTarget stream \<noteq> None"

end
