(* ===== verification/TransportLayer.thy ===== *)
theory TransportLayer
  imports Ipv6Extensions
begin

text \<open>
  The outer transport layer: UDP, TCP and SCTP over IPv4 or over IPv6 behind its extension
  headers, the checksum instruction a field variable needs, and the TCP options.
\<close>

section \<open>The upper layer of the outer network header\<close>

record Ipv6L4Target =
  l46_bytes :: bytes
  l46_l3Offset :: int
  l46_offset :: int

fun findUpperLayer :: "nat \<Rightarrow> bytes \<Rightarrow> int \<Rightarrow> int \<Rightarrow> int \<Rightarrow> int option" where
  "findUpperLayer 0 bs targetHeader nextHeader l4Offset = None"
| "findUpperLayer (Suc n) bs targetHeader nextHeader l4Offset =
     (if nextHeader = targetHeader then Some l4Offset
      else case rawIpv6ExtensionHeaderLength bs nextHeader l4Offset of
             None \<Rightarrow> None
           | Some extensionLength \<Rightarrow>
               findUpperLayer n bs targetHeader (byteOr 59 bs l4Offset) (l4Offset + extensionLength))"

definition rawOuterIpv6L4Target :: "RawStream option \<Rightarrow> int \<Rightarrow> Ipv6L4Target option" where
  "rawOuterIpv6L4Target stream targetHeader =
     (let bs = streamBytes stream in
      case rawOuterIpv6Offset bs of
        None \<Rightarrow> None
      | Some l3Offset \<Rightarrow>
          case findUpperLayer 8 bs targetHeader (byteOr 59 bs (l3Offset + 6)) (l3Offset + 40) of
            None \<Rightarrow> None
          | Some l4Offset \<Rightarrow>
              Some \<lparr>l46_bytes = bs, l46_l3Offset = l3Offset, l46_offset = l4Offset\<rparr>)"

record Ipv4L4Target =
  l44_bytes :: bytes
  l44_l3Length :: int
  l44_l3Offset :: int
  l44_offset :: int

definition rawOuterIpv4L4Target :: "RawStream option \<Rightarrow> int \<Rightarrow> Ipv4L4Target option" where
  "rawOuterIpv4L4Target stream protocol =
     (case rawOuterIpv4Target stream of
        None \<Rightarrow> None
      | Some target \<Rightarrow>
          if v4_protocol target \<noteq> protocol then None
          else Some \<lparr>l44_bytes = v4_bytes target, l44_l3Length = v4_l3Length target,
                     l44_l3Offset = v4_l3Offset target,
                     l44_offset = v4_l3Offset target + v4_l3Length target\<rparr>)"

lemma findUpperLayer_le: "findUpperLayer n bs h next off = Some t \<Longrightarrow> off \<le> t"
proof (induction n arbitrary: "next" off)
  case (Suc n)
  then show ?case
    by (auto split: if_split_asm option.splits dest!: Suc.IH dest: extensionLength_at(1))
qed simp

lemma rawOuterIpv6L4TargetD:
  assumes "rawOuterIpv6L4Target s h = Some t"
  shows "l46_bytes t = streamBytes s" "54 \<le> l46_offset t" "l46_l3Offset t + 40 \<le> l46_offset t"
    "rawOuterIpv6Offset (streamBytes s) = Some (l46_l3Offset t)"
  using assms
  by (auto simp: rawOuterIpv6L4Target_def Let_def split: option.splits
      dest!: findUpperLayer_le dest: rawOuterIpv6Offset_at(3))

lemma rawOuterIpv4L4TargetD:
  assumes "rawOuterIpv4L4Target s protocol = Some t"
  shows "l44_bytes t = streamBytes s" "l44_offset t = l44_l3Offset t + l44_l3Length t"
    "rawPacketHasBytes (streamBytes s) (l44_l3Offset t) (l44_l3Length t)"
    "byteAt (streamBytes s) (l44_l3Offset t + 9) = protocol"
    "20 \<le> l44_l3Length t" "l44_l3Length t \<le> 60"
  using assms
  by (auto simp: rawOuterIpv4L4Target_def split: option.splits if_splits dest: rawOuterIpv4TargetD)

section \<open>Transport headers\<close>

text \<open>
  The instruction appended to a field engine program: \<open>fix_checksum_hw\<close> with its lengths and
  the transport type (11 for UDP, 13 for TCP), or \<open>fix_checksum_ipv4\<close> at an offset.
\<close>

datatype ChecksumInstruction =
  FixChecksumHw (hw_l2_len: int) (hw_l3_len: int) (hw_l4_type: int)
| FixChecksumIpv4 (ipv4_pkt_offset: int)

record TransportTarget =
  tr_bytes :: bytes
  tr_checksumInstruction :: ChecksumInstruction
  tr_l3Offset :: int
  tr_offset :: int

definition rawOuterTransportTarget :: "RawStream option \<Rightarrow> int \<Rightarrow> int \<Rightarrow> int \<Rightarrow> TransportTarget option" where
  "rawOuterTransportTarget stream protocol l4Type minHeaderLength =
     (let onIpv6 =
            (case rawOuterIpv6L4Target stream protocol of
               None \<Rightarrow> None
             | Some t \<Rightarrow>
                 if rawPacketHasBytes (l46_bytes t) (l46_offset t) minHeaderLength
                 then Some \<lparr>tr_bytes = l46_bytes t,
                            tr_checksumInstruction = FixChecksumHw (l46_l3Offset t) 40 l4Type,
                            tr_l3Offset = l46_l3Offset t, tr_offset = l46_offset t\<rparr>
                 else None)
      in case rawOuterIpv4L4Target stream protocol of
           None \<Rightarrow> onIpv6
         | Some t \<Rightarrow>
             if rawPacketHasBytes (l44_bytes t) (l44_offset t) minHeaderLength
             then Some \<lparr>tr_bytes = l44_bytes t,
                        tr_checksumInstruction = FixChecksumHw (l44_l3Offset t) (l44_l3Length t) l4Type,
                        tr_l3Offset = l44_l3Offset t, tr_offset = l44_offset t\<rparr>
             else onIpv6)"

record SctpTarget =
  sctp_bytes :: bytes
  sctp_l3Offset :: int
  sctp_offset :: int

definition rawOuterSctpTarget :: "RawStream option \<Rightarrow> int \<Rightarrow> SctpTarget option" where
  "rawOuterSctpTarget stream minHeaderLength =
     (let onIpv6 =
            (case rawOuterIpv6L4Target stream 132 of
               None \<Rightarrow> None
             | Some t \<Rightarrow>
                 if rawPacketHasBytes (l46_bytes t) (l46_offset t) minHeaderLength
                 then Some \<lparr>sctp_bytes = l46_bytes t, sctp_l3Offset = l46_l3Offset t,
                            sctp_offset = l46_offset t\<rparr>
                 else None)
      in case rawOuterIpv4L4Target stream 132 of
           None \<Rightarrow> onIpv6
         | Some t \<Rightarrow>
             if rawPacketHasBytes (l44_bytes t) (l44_offset t) minHeaderLength
             then Some \<lparr>sctp_bytes = l44_bytes t, sctp_l3Offset = l44_l3Offset t,
                        sctp_offset = l44_offset t\<rparr>
             else onIpv6)"

record TcpTarget =
  tcp_bytes :: bytes
  tcp_l3Length :: int
  tcp_l3Offset :: int
  tcp_offset :: int

definition rawOuterTcpTarget :: "RawStream option \<Rightarrow> TcpTarget option" where
  "rawOuterTcpTarget stream =
     (case rawOuterIpv4L4Target stream 6 of
        Some t \<Rightarrow> Some \<lparr>tcp_bytes = l44_bytes t, tcp_l3Length = l44_l3Length t,
                        tcp_l3Offset = l44_l3Offset t, tcp_offset = l44_offset t\<rparr>
      | None \<Rightarrow>
          map_option (\<lambda>t. \<lparr>tcp_bytes = l46_bytes t, tcp_l3Length = 40,
                           tcp_l3Offset = l46_l3Offset t, tcp_offset = l46_offset t\<rparr>)
            (rawOuterIpv6L4Target stream 6))"

text \<open>The optional \<open>limit\<close> is an \<open>option\<close>: \<open>undefined\<close> is \<open>None\<close>.\<close>

definition tcpHeaderLength :: "bytes \<Rightarrow> int \<Rightarrow> int" where
  "tcpHeaderLength bs tcpOffset = js_ushr (byteAt bs (tcpOffset + 12)) 4 * 4"

definition rawPacketTcpHeaderOffset :: "bytes \<Rightarrow> int \<Rightarrow> int option \<Rightarrow> int option" where
  "rawPacketTcpHeaderOffset bs tcpOffset limit =
     (if \<not> rawPacketHasBytes bs tcpOffset 20 then None
      else
        let headerLength = tcpHeaderLength bs tcpOffset in
        if headerLength < 20 \<or> headerLength > 60 \<or> \<not> rawPacketHasBytes bs tcpOffset headerLength then None
        else if (case limit of None \<Rightarrow> False | Some l \<Rightarrow> tcpOffset + headerLength > l) then None
        else Some tcpOffset)"

definition rawOuterTcpFixedHeaderTarget :: "RawStream option \<Rightarrow> TcpTarget option" where
  "rawOuterTcpFixedHeaderTarget stream =
     (case rawOuterTcpTarget stream of
        None \<Rightarrow> None
      | Some target \<Rightarrow>
          case rawPacketTcpHeaderOffset (tcp_bytes target) (tcp_offset target) None of
            None \<Rightarrow> None
          | Some tcpOffset \<Rightarrow> Some (target\<lparr>tcp_offset := tcpOffset\<rparr>))"

definition rawOuterIpv6TransportTarget :: "RawStream option \<Rightarrow> int \<Rightarrow> TransportTarget option" where
  "rawOuterIpv6TransportTarget stream l4Type =
     (let targetHeader = (if l4Type = 11 then 17 else 6);
          minHeaderLength = (if l4Type = 11 then 8 else 20)
      in case rawOuterIpv6L4Target stream targetHeader of
           None \<Rightarrow> None
         | Some target \<Rightarrow>
             if \<not> rawPacketHasBytes (l46_bytes target) (l46_offset target) minHeaderLength then None
             else if l4Type = 13
               \<and> rawPacketTcpHeaderOffset (l46_bytes target) (l46_offset target) None = None then None
             else Some \<lparr>tr_bytes = l46_bytes target,
                        tr_checksumInstruction = FixChecksumHw (l46_l3Offset target) 40 l4Type,
                        tr_l3Offset = l46_l3Offset target, tr_offset = l46_offset target\<rparr>)"

lemma tcpHeaderOffset_at:
  "rawPacketTcpHeaderOffset bs off limit = Some t
   \<Longrightarrow> t = off \<and> rawPacketHasBytes bs off (tcpHeaderLength bs off) \<and> 20 \<le> tcpHeaderLength bs off
     \<and> tcpHeaderLength bs off \<le> 60 \<and> (\<forall>l. limit = Some l \<longrightarrow> off + tcpHeaderLength bs off \<le> l)"
  by (auto simp: rawPacketTcpHeaderOffset_def Let_def split: if_splits option.splits)

lemma rawOuterTransportTargetD:
  assumes "rawOuterTransportTarget s protocol ty n = Some t"
  shows "tr_bytes t = streamBytes s" "rawPacketHasBytes (streamBytes s) (tr_offset t) n"
    "\<exists>len. tr_checksumInstruction t = FixChecksumHw (tr_l3Offset t) len ty
       \<and> tr_l3Offset t + len \<le> tr_offset t"
  using assms
  by (auto simp: rawOuterTransportTarget_def Let_def split: option.splits if_splits
      dest: rawOuterIpv4L4TargetD rawOuterIpv6L4TargetD)

interpretation transport_target:
  packet_target "\<lambda>s. rawOuterTransportTarget s protocol ty n" tr_offset "\<lambda>t. n" for protocol ty n
  by unfold_locales (rule rawOuterTransportTargetD)

interpretation transport6_target: packet_target "\<lambda>s. rawOuterIpv6TransportTarget s ty" tr_offset "\<lambda>t. 8" for ty
proof unfold_locales
  fix s t
  assume "rawOuterIpv6TransportTarget s ty = Some t"
  then show "rawPacketHasBytes (streamBytes s) (tr_offset t) 8"
    by (auto simp: rawOuterIpv6TransportTarget_def Let_def split: option.splits if_splits
        dest!: rawOuterIpv6L4TargetD(1)) (auto simp: rawPacketHasBytes_def)
qed

interpretation sctp_target: packet_target "\<lambda>s. rawOuterSctpTarget s n" sctp_offset "\<lambda>t. n" for n
  by unfold_locales (auto simp: rawOuterSctpTarget_def Let_def split: option.splits if_splits
      dest: rawOuterIpv4L4TargetD(1) rawOuterIpv6L4TargetD(1))

lemma rawOuterTcpTarget_bytes: "rawOuterTcpTarget s = Some t \<Longrightarrow> tcp_bytes t = streamBytes s"
  by (auto simp: rawOuterTcpTarget_def split: option.splits
      dest: rawOuterIpv4L4TargetD(1) rawOuterIpv6L4TargetD(1))

lemma rawOuterTcpFixedHeaderTargetD:
  assumes "rawOuterTcpFixedHeaderTarget s = Some t"
  shows "rawPacketHasBytes (streamBytes s) (tcp_offset t) (tcpHeaderLength (streamBytes s) (tcp_offset t))"
    "20 \<le> tcpHeaderLength (streamBytes s) (tcp_offset t)"
    "tcpHeaderLength (streamBytes s) (tcp_offset t) \<le> 60"
  using assms
  by (auto simp: rawOuterTcpFixedHeaderTarget_def split: option.splits
      dest!: rawOuterTcpTarget_bytes tcpHeaderOffset_at)

interpretation tcp_target: packet_target rawOuterTcpFixedHeaderTarget tcp_offset "\<lambda>t. 20"
  by unfold_locales (rule hasBytes_within, erule rawOuterTcpFixedHeaderTargetD(1),
      simp_all add: rawOuterTcpFixedHeaderTargetD(2))

section \<open>TCP options\<close>

datatype RawTcpOptionTargetName =
  Mss | SackLeftEdge | SackRightEdge | Sack2LeftEdge | Sack2RightEdge | Sack3LeftEdge
| Sack3RightEdge | Sack4LeftEdge | Sack4RightEdge | TimestampValue | TimestampEcho | WindowScale

record TcpOptionTarget = TcpTarget +
  tcpopt_maxLimit :: int
  tcpopt_size :: int
  tcpopt_value :: int
  tcpopt_valueOffset :: int

definition isSackTarget :: "RawTcpOptionTargetName \<Rightarrow> bool" where
  "isSackTarget name \<longleftrightarrow> name \<in> {SackLeftEdge, SackRightEdge, Sack2LeftEdge, Sack2RightEdge,
     Sack3LeftEdge, Sack3RightEdge, Sack4LeftEdge, Sack4RightEdge}"

definition sackBlockIndex :: "RawTcpOptionTargetName \<Rightarrow> int" where
  "sackBlockIndex name =
     (if name = Sack2LeftEdge \<or> name = Sack2RightEdge then 1
      else if name = Sack3LeftEdge \<or> name = Sack3RightEdge then 2
      else if name = Sack4LeftEdge \<or> name = Sack4RightEdge then 3 else 0)"

definition isLeftEdge :: "RawTcpOptionTargetName \<Rightarrow> bool" where
  "isLeftEdge name \<longleftrightarrow> name \<in> {SackLeftEdge, Sack2LeftEdge, Sack3LeftEdge, Sack4LeftEdge}"

definition tcpOptionAt :: "TcpTarget \<Rightarrow> int \<Rightarrow> int \<Rightarrow> int \<Rightarrow> TcpOptionTarget" where
  "tcpOptionAt target maxLimit width valueOffset =
     TcpTarget.extend target
       \<lparr>tcpopt_maxLimit = maxLimit, tcpopt_size = width,
        tcpopt_value = rawPacketNumberValue (tcp_bytes target) valueOffset width,
        tcpopt_valueOffset = valueOffset\<rparr>"

fun findTcpOption :: "nat \<Rightarrow> TcpTarget \<Rightarrow> RawTcpOptionTargetName \<Rightarrow> int \<Rightarrow> int \<Rightarrow> TcpOptionTarget option" where
  "findTcpOption 0 target name optionOffset optionsEnd = None"
| "findTcpOption (Suc n) target name optionOffset optionsEnd =
     (if optionOffset \<ge> optionsEnd then None
      else
        let kind = byteAt (tcp_bytes target) optionOffset in
        if kind = 0 then None
        else if kind = 1 then findTcpOption n target name (optionOffset + 1) optionsEnd
        else if \<not> optionFits (tcp_bytes target) optionOffset optionsEnd then None
        else
          let optionLength = byteAt (tcp_bytes target) (optionOffset + 1);
              continue = findTcpOption n target name (optionOffset + optionLength) optionsEnd
          in if kind = 2 \<and> optionLength = 4 \<and> name = Mss
             then Some (tcpOptionAt target 65535 2 (optionOffset + 2))
             else if kind = 3 \<and> optionLength = 3 \<and> name = WindowScale
             then Some (tcpOptionAt target 255 1 (optionOffset + 2))
             else if kind = 5 \<and> optionLength \<ge> 10 \<and> isSackTarget name then
               (let blockIndex = sackBlockIndex name in
                if optionLength < 2 + ((blockIndex + 1) * 8) then continue
                else Some (tcpOptionAt target 4294967295 4
                       (optionOffset + 2 + (blockIndex * 8) + (if isLeftEdge name then 0 else 4))))
             else if kind = 8 \<and> optionLength = 10 \<and> (name = TimestampValue \<or> name = TimestampEcho)
             then Some (tcpOptionAt target 4294967295 4
                    (optionOffset + (if name = TimestampValue then 2 else 6)))
             else continue)"

definition rawTcpOptionValueTarget :: "RawStream option \<Rightarrow> RawTcpOptionTargetName \<Rightarrow> TcpOptionTarget option" where
  "rawTcpOptionValueTarget stream targetName =
     (case rawOuterTcpTarget stream of
        None \<Rightarrow> None
      | Some target \<Rightarrow>
          if \<not> rawPacketHasBytes (tcp_bytes target) (tcp_offset target) 20 then None
          else
            let headerLength = tcpHeaderLength (tcp_bytes target) (tcp_offset target) in
            if headerLength < 20 \<or> headerLength > 60
               \<or> \<not> rawPacketHasBytes (tcp_bytes target) (tcp_offset target) headerLength then None
            else findTcpOption 40 target targetName (tcp_offset target + 20)
                   (tcp_offset target + headerLength))"

lemma tcpOptionAt_simps [simp]:
  "tcpopt_valueOffset (tcpOptionAt t m n off) = off"
  "tcpopt_size (tcpOptionAt t m n off) = n"
  "tcpopt_maxLimit (tcpOptionAt t m n off) = m"
  "tcpopt_value (tcpOptionAt t m n off) = rawPacketNumberValue (tcp_bytes t) off n"
  "tcp_offset (tcpOptionAt t m n off) = tcp_offset t"
  "tcp_bytes (tcpOptionAt t m n off) = tcp_bytes t"
  by (simp_all add: tcpOptionAt_def TcpTarget.defs)

text \<open>The value of an option lies in the option area and has the stated size and maximum.\<close>

definition tcpOptionSound :: "TcpTarget \<Rightarrow> int \<Rightarrow> int \<Rightarrow> TcpOptionTarget \<Rightarrow> bool" where
  "tcpOptionSound target from to t \<longleftrightarrow>
     tcpopt_size t \<in> {1, 2, 4} \<and> tcpopt_maxLimit t = 256 ^ nat (tcpopt_size t) - 1
     \<and> from + 2 \<le> tcpopt_valueOffset t \<and> tcpopt_valueOffset t + tcpopt_size t \<le> to
     \<and> tcpopt_value t = rawPacketNumberValue (tcp_bytes target) (tcpopt_valueOffset t) (tcpopt_size t)
     \<and> tcp_offset t = tcp_offset target \<and> tcp_bytes t = tcp_bytes target"

lemma tcpOptionSound_mono:
  "tcpOptionSound target from' to t \<Longrightarrow> from \<le> from' \<Longrightarrow> tcpOptionSound target from to t"
  by (simp add: tcpOptionSound_def)

lemma sackBlock_range: "0 \<le> sackBlockIndex name" "sackBlockIndex name \<le> 3"
  by (simp_all add: sackBlockIndex_def)

lemma five_way:
  assumes "(if A then Some a else if B then Some b else if C then (if D then cont else Some c)
      else if E then Some d else cont) = Some t"
    and "cont = Some t \<Longrightarrow> P t" "A \<Longrightarrow> P a" "B \<Longrightarrow> P b" "\<not> D \<Longrightarrow> P c" "E \<Longrightarrow> P d"
  shows "P t"
  using assms by (simp split: if_split_asm)

lemma findTcpOption_sound:
  "findTcpOption n target name off end = Some t \<Longrightarrow> tcpOptionSound target off end t"
proof (induction n arbitrary: off)
  case (Suc n)
  let ?kind = "byteAt (tcp_bytes target) off"
  let ?len = "byteAt (tcp_bytes target) (off + 1)"
  have step: ?case if rec: "findTcpOption n target name off' end = Some t" and le: "off \<le> off'" for off'
    using tcpOptionSound_mono [OF Suc.IH [OF rec] le] .
  show ?case
  proof (cases "?kind = 1")
    case True
    with Suc.prems show ?thesis by (intro step [of "off + 1"]) (simp_all split: if_split_asm)
  next
    case False
    from Suc.prems have "off < end"
      by (simp split: if_split_asm)
    with Suc.prems False have "?kind \<noteq> 0"
      by (intro notI) (simp add: Let_def)
    have "optionFits (tcp_bytes target) off end"
      using Suc.prems False \<open>off < end\<close> \<open>?kind \<noteq> 0\<close>
      by (cases "optionFits (tcp_bytes target) off end") (simp_all add: Let_def split del: if_split)
    note fits = this \<open>?kind \<noteq> 0\<close> \<open>off < end\<close>
    have continue: "tcpOptionSound target off end t" if "findTcpOption n target name (off + ?len) end = Some t"
      using that fits by (intro step [of "off + ?len"]) (simp_all add: optionFits_def)
    have here: "tcpOptionSound target off end (tcpOptionAt target m k p)"
      if "k \<in> {1, 2, 4}" "m = 256 ^ nat k - 1" "off + 2 \<le> p" "p + k \<le> off + ?len" for m k p
      using that fits by (simp add: tcpOptionSound_def optionFits_def)
    note b = sackBlock_range [of name]
    have eq:
      "(if ?kind = 2 \<and> ?len = 4 \<and> name = Mss then Some (tcpOptionAt target 65535 2 (off + 2))
        else if ?kind = 3 \<and> ?len = 3 \<and> name = WindowScale then Some (tcpOptionAt target 255 1 (off + 2))
        else if ?kind = 5 \<and> ?len \<ge> 10 \<and> isSackTarget name then
          (if ?len < 2 + ((sackBlockIndex name + 1) * 8)
           then findTcpOption n target name (off + ?len) end
           else Some (tcpOptionAt target 4294967295 4
                  (off + 2 + (sackBlockIndex name * 8) + (if isLeftEdge name then 0 else 4))))
        else if ?kind = 8 \<and> ?len = 10 \<and> (name = TimestampValue \<or> name = TimestampEcho)
        then Some (tcpOptionAt target 4294967295 4 (off + (if name = TimestampValue then 2 else 6)))
        else findTcpOption n target name (off + ?len) end) = Some t"
      using Suc.prems False fits unfolding findTcpOption.simps Let_def
      by (simp add: not_le split del: if_split)
    show ?thesis
    proof (rule five_way [OF eq])
      assume "findTcpOption n target name (off + ?len) end = Some t"
      then show ?thesis by (rule continue)
    next
      assume "?kind = 2 \<and> ?len = 4 \<and> name = Mss"
      then show "tcpOptionSound target off end (tcpOptionAt target 65535 2 (off + 2))"
        by (intro here) simp_all
    next
      assume "?kind = 3 \<and> ?len = 3 \<and> name = WindowScale"
      then show "tcpOptionSound target off end (tcpOptionAt target 255 1 (off + 2))"
        by (intro here) simp_all
    next
      assume "\<not> ?len < 2 + ((sackBlockIndex name + 1) * 8)"
      then show "tcpOptionSound target off end (tcpOptionAt target 4294967295 4
          (off + 2 + (sackBlockIndex name * 8) + (if isLeftEdge name then 0 else 4)))"
        using b by (intro here) simp_all
    next
      assume "?kind = 8 \<and> ?len = 10 \<and> (name = TimestampValue \<or> name = TimestampEcho)"
      then show "tcpOptionSound target off end (tcpOptionAt target 4294967295 4
          (off + (if name = TimestampValue then 2 else 6)))"
        by (intro here) simp_all
    qed
  qed
qed simp

lemma rawTcpOptionValueTargetD:
  assumes "rawTcpOptionValueTarget s name = Some t"
  shows "rawPacketHasBytes (streamBytes s) (tcpopt_valueOffset t) (tcpopt_size t)"
    "tcpopt_size t \<in> {1, 2, 4}" "tcpopt_maxLimit t = 256 ^ nat (tcpopt_size t) - 1"
    "tcp_offset t + 22 \<le> tcpopt_valueOffset t"
    "tcpopt_valueOffset t + tcpopt_size t \<le> tcp_offset t + tcpHeaderLength (streamBytes s) (tcp_offset t)"
    "tcpopt_value t = rawPacketNumberValue (streamBytes s) (tcpopt_valueOffset t) (tcpopt_size t)"
proof -
  obtain target where t: "rawOuterTcpTarget s = Some target"
    and fits: "rawPacketHasBytes (tcp_bytes target) (tcp_offset target)
      (tcpHeaderLength (tcp_bytes target) (tcp_offset target))"
    and f: "findTcpOption 40 target name (tcp_offset target + 20)
      (tcp_offset target + tcpHeaderLength (tcp_bytes target) (tcp_offset target)) = Some t"
    using assms by (auto simp: rawTcpOptionValueTarget_def Let_def split: option.splits if_splits)
  note sound = findTcpOption_sound [OF f, unfolded tcpOptionSound_def]
  note b = rawOuterTcpTarget_bytes [OF t]
  show "rawPacketHasBytes (streamBytes s) (tcpopt_valueOffset t) (tcpopt_size t)"
    using sound fits unfolding b by (auto simp: rawPacketHasBytes_def)
  show "tcpopt_size t \<in> {1, 2, 4}" "tcpopt_maxLimit t = 256 ^ nat (tcpopt_size t) - 1"
    "tcp_offset t + 22 \<le> tcpopt_valueOffset t"
    "tcpopt_valueOffset t + tcpopt_size t \<le> tcp_offset t + tcpHeaderLength (streamBytes s) (tcp_offset t)"
    "tcpopt_value t = rawPacketNumberValue (streamBytes s) (tcpopt_valueOffset t) (tcpopt_size t)"
    using sound unfolding b by simp_all
qed

interpretation tcp_option_target:
  packet_target "\<lambda>s. rawTcpOptionValueTarget s name" tcpopt_valueOffset tcpopt_size for name
  by unfold_locales (rule rawTcpOptionValueTargetD)

end
