(* ===== verification/Tunnels.thy ===== *)
theory Tunnels
  imports TransportLayer
begin

text \<open>
  The tunnels the outer packet may carry: VXLAN (UDP ports 4789 and 8472), GTP-U (UDP port 2152,
  with its optional word and extension headers) and GRE, and the dissectors for the inner
  packet of each.
\<close>

section \<open>Inner Ethernet and IP headers\<close>

record InnerPayload =
  pay_etherType :: int
  pay_payloadOffset :: int

definition rawInnerEthernetPayloadOffset :: "bytes \<Rightarrow> int \<Rightarrow> InnerPayload option" where
  "rawInnerEthernetPayloadOffset bs ethernetOffset =
     (if \<not> rawPacketHasBytes bs ethernetOffset 14 then None
      else
        let (etherType, payloadOffset) =
              skipVlanTags 4 bs (rawPacketWord bs (ethernetOffset + 12)) (ethernetOffset + 14)
        in Some \<lparr>pay_etherType = etherType, pay_payloadOffset = payloadOffset\<rparr>)"

text \<open>
  The properties a tunnel target gains when its inner packet is IPv4 or IPv6; a target
  without them has no \<open>innerIpVersion\<close> property.
\<close>

record InnerIpv4 =
  in4_innerIpHeaderLength :: int
  in4_innerIpOffset :: int
  in4_innerIpv4Dst :: string
  in4_innerIpv4DstOffset :: int
  in4_innerIpv4Protocol :: int
  in4_innerIpv4Src :: string
  in4_innerIpv4SrcOffset :: int
  in4_innerIpv4Ttl :: int
  in4_innerIpv4TtlOffset :: int
  in4_innerTcpOffset :: "int option"
  in4_innerUdpDstPort :: "int option"
  in4_innerUdpOffset :: "int option"
  in4_innerUdpSrcPort :: "int option"

record InnerIpv6 =
  in6_innerIpHeaderLength :: int
  in6_innerIpOffset :: int
  in6_innerIpv6Dst :: string
  in6_innerIpv6DstOffset :: int
  in6_innerIpv6HopLimit :: int
  in6_innerIpv6HopLimitOffset :: int
  in6_innerIpv6Src :: string
  in6_innerIpv6SrcOffset :: int
  in6_innerTcpOffset :: "int option"
  in6_innerUdpDstPort :: "int option"
  in6_innerUdpOffset :: "int option"
  in6_innerUdpSrcPort :: "int option"

datatype InnerIp = NoInnerIp | IsInnerIpv4 InnerIpv4 | IsInnerIpv6 InnerIpv6

definition innerIpv4At :: "bytes \<Rightarrow> int \<Rightarrow> int \<Rightarrow> int \<Rightarrow> InnerIpv4" where
  "innerIpv4At bs ipOffset headerLength end =
     (let innerUdpOffset =
            (if byteAt bs (ipOffset + 9) = 17 \<and> rawPacketHasBytes bs (ipOffset + headerLength) 8
                \<and> ipOffset + headerLength + 8 \<le> end
             then Some (ipOffset + headerLength) else None);
          innerTcpOffset =
            (if byteAt bs (ipOffset + 9) = 6
             then rawPacketTcpHeaderOffset bs (ipOffset + headerLength) (Some end) else None)
      in \<lparr>in4_innerIpHeaderLength = headerLength,
          in4_innerIpOffset = ipOffset,
          in4_innerIpv4Dst = formatPacketIpv4 bs (ipOffset + 16),
          in4_innerIpv4DstOffset = ipOffset + 16,
          in4_innerIpv4Protocol = byteAt bs (ipOffset + 9),
          in4_innerIpv4Src = formatPacketIpv4 bs (ipOffset + 12),
          in4_innerIpv4SrcOffset = ipOffset + 12,
          in4_innerIpv4Ttl = byteAt bs (ipOffset + 8),
          in4_innerIpv4TtlOffset = ipOffset + 8,
          in4_innerTcpOffset = innerTcpOffset,
          in4_innerUdpDstPort = map_option (\<lambda>p. rawPacketWord bs (p + 2)) innerUdpOffset,
          in4_innerUdpOffset = innerUdpOffset,
          in4_innerUdpSrcPort = map_option (\<lambda>p. rawPacketWord bs p) innerUdpOffset\<rparr>)"

definition innerIpv6At :: "bytes \<Rightarrow> int \<Rightarrow> int \<Rightarrow> InnerIpv6" where
  "innerIpv6At bs ipOffset end =
     (let innerUdpOffset =
            (if byteAt bs (ipOffset + 6) = 17 \<and> rawPacketHasBytes bs (ipOffset + 40) 8
                \<and> ipOffset + 48 \<le> end
             then Some (ipOffset + 40) else None);
          innerTcpOffset =
            (if byteAt bs (ipOffset + 6) = 6
             then rawPacketTcpHeaderOffset bs (ipOffset + 40) (Some end) else None)
      in \<lparr>in6_innerIpHeaderLength = 40,
          in6_innerIpOffset = ipOffset,
          in6_innerIpv6Dst = formatPacketIpv6 bs (ipOffset + 24),
          in6_innerIpv6DstOffset = ipOffset + 24,
          in6_innerIpv6HopLimit = byteAt bs (ipOffset + 7),
          in6_innerIpv6HopLimitOffset = ipOffset + 7,
          in6_innerIpv6Src = formatPacketIpv6 bs (ipOffset + 8),
          in6_innerIpv6SrcOffset = ipOffset + 8,
          in6_innerTcpOffset = innerTcpOffset,
          in6_innerUdpDstPort = map_option (\<lambda>p. rawPacketWord bs (p + 2)) innerUdpOffset,
          in6_innerUdpOffset = innerUdpOffset,
          in6_innerUdpSrcPort = map_option (\<lambda>p. rawPacketWord bs p) innerUdpOffset\<rparr>)"

definition innerIpv4Fits :: "bytes \<Rightarrow> int \<Rightarrow> int \<Rightarrow> bool" where
  "innerIpv4Fits bs ipOffset end \<longleftrightarrow>
     (let headerLength = nibbleLow bs ipOffset * 4
      in 20 \<le> headerLength \<and> headerLength \<le> 60 \<and> rawPacketHasBytes bs ipOffset headerLength
         \<and> ipOffset + headerLength \<le> end)"

section \<open>VXLAN\<close>

record VxlanTarget =
  vx_bytes :: bytes
  vx_innerEthernetOffset :: int
  vx_vni :: int
  vx_vniOffset :: int
  vx_vxlanOffset :: int
  vx_inner :: InnerIp

definition vxlanInner :: "bytes \<Rightarrow> int \<Rightarrow> int \<Rightarrow> InnerIp" where
  "vxlanInner bs innerEthernetOffset udpEnd =
     (case rawInnerEthernetPayloadOffset bs innerEthernetOffset of
        None \<Rightarrow> NoInnerIp
      | Some payload \<Rightarrow>
          let ip = pay_payloadOffset payload in
          if ip \<ge> udpEnd then NoInnerIp
          else if pay_etherType payload = 0x0800 \<and> rawPacketHasBytes bs ip 20 \<and> nibbleHigh bs ip = 4
               \<and> innerIpv4Fits bs ip udpEnd
          then IsInnerIpv4 (innerIpv4At bs ip (nibbleLow bs ip * 4) udpEnd)
          else if pay_etherType payload = 0x86dd \<and> rawPacketHasBytes bs ip 40 \<and> nibbleHigh bs ip = 6
               \<and> ip + 40 \<le> udpEnd
          then IsInnerIpv6 (innerIpv6At bs ip udpEnd)
          else NoInnerIp)"

definition isVxlanPort :: "int \<Rightarrow> bool" where
  "isVxlanPort port \<longleftrightarrow> port = 4789 \<or> port = 8472"

definition rawVxlanTarget :: "RawStream option \<Rightarrow> VxlanTarget option" where
  "rawVxlanTarget stream =
     (case rawOuterTransportTarget stream 17 11 16 of
        None \<Rightarrow> None
      | Some target \<Rightarrow>
          let bs = tr_bytes target; offset = tr_offset target in
          if \<not> rawPacketHasBytes bs offset 16 then None
          else if \<not> isVxlanPort (rawPacketWord bs offset) \<and> \<not> isVxlanPort (rawPacketWord bs (offset + 2))
          then None
          else
            let udpLength = rawPacketWord bs (offset + 4);
                udpEnd = (if udpLength = 0 then int (length bs) else offset + udpLength);
                vxlanOffset = offset + 8
            in if vxlanOffset + 8 > udpEnd \<or> \<not> rawPacketHasBytes bs vxlanOffset 8 then None
               else Some \<lparr>vx_bytes = bs,
                          vx_innerEthernetOffset = vxlanOffset + 8,
                          vx_vni = rawPacketNumberValue bs (vxlanOffset + 4) 3,
                          vx_vniOffset = vxlanOffset + 4,
                          vx_vxlanOffset = vxlanOffset,
                          vx_inner = vxlanInner bs (vxlanOffset + 8) udpEnd\<rparr>)"

text \<open>The filters on a tunnel's inner packet; VXLAN and GTP-U have the same ones.\<close>

definition innerIsIpv4 :: "InnerIp \<Rightarrow> bool" where
  "innerIsIpv4 inner = (case inner of IsInnerIpv4 i \<Rightarrow> True | _ \<Rightarrow> False)"

definition innerIsIpv6 :: "InnerIp \<Rightarrow> bool" where
  "innerIsIpv6 inner = (case inner of IsInnerIpv6 i \<Rightarrow> True | _ \<Rightarrow> False)"

definition innerUdpOffset :: "InnerIp \<Rightarrow> int option" where
  "innerUdpOffset inner =
     (case inner of NoInnerIp \<Rightarrow> None | IsInnerIpv4 i \<Rightarrow> in4_innerUdpOffset i | IsInnerIpv6 i \<Rightarrow> in6_innerUdpOffset i)"

definition innerTcpOffset :: "InnerIp \<Rightarrow> int option" where
  "innerTcpOffset inner =
     (case inner of NoInnerIp \<Rightarrow> None | IsInnerIpv4 i \<Rightarrow> in4_innerTcpOffset i | IsInnerIpv6 i \<Rightarrow> in6_innerTcpOffset i)"

definition innerIpv4Protocol :: "InnerIp \<Rightarrow> int" where
  "innerIpv4Protocol inner = (case inner of IsInnerIpv4 i \<Rightarrow> in4_innerIpv4Protocol i | _ \<Rightarrow> 0)"

definition keepIf :: "('a \<Rightarrow> bool) \<Rightarrow> 'a option \<Rightarrow> 'a option" where
  "keepIf p x = (case x of None \<Rightarrow> None | Some t \<Rightarrow> if p t then Some t else None)"

definition editableIpv4Address :: "InnerIp \<Rightarrow> bool" where
  "editableIpv4Address inner \<longleftrightarrow>
     innerUdpOffset inner \<noteq> None \<or> innerTcpOffset inner \<noteq> None
     \<or> (innerIpv4Protocol inner \<noteq> 6 \<and> innerIpv4Protocol inner \<noteq> 17)"

definition rawVxlanInnerIpv4UdpTarget :: "RawStream option \<Rightarrow> VxlanTarget option" where
  "rawVxlanInnerIpv4UdpTarget stream =
     keepIf (\<lambda>t. innerIsIpv4 (vx_inner t) \<and> innerUdpOffset (vx_inner t) \<noteq> None) (rawVxlanTarget stream)"

definition rawVxlanInnerIpv4TcpTarget :: "RawStream option \<Rightarrow> VxlanTarget option" where
  "rawVxlanInnerIpv4TcpTarget stream =
     keepIf (\<lambda>t. innerIsIpv4 (vx_inner t) \<and> innerTcpOffset (vx_inner t) \<noteq> None) (rawVxlanTarget stream)"

definition rawVxlanInnerIpv4Target :: "RawStream option \<Rightarrow> VxlanTarget option" where
  "rawVxlanInnerIpv4Target stream = keepIf (\<lambda>t. innerIsIpv4 (vx_inner t)) (rawVxlanTarget stream)"

definition rawVxlanInnerIpv4AddressTarget :: "RawStream option \<Rightarrow> VxlanTarget option" where
  "rawVxlanInnerIpv4AddressTarget stream =
     keepIf (\<lambda>t. editableIpv4Address (vx_inner t)) (rawVxlanInnerIpv4Target stream)"

definition rawVxlanInnerIpv6UdpTarget :: "RawStream option \<Rightarrow> VxlanTarget option" where
  "rawVxlanInnerIpv6UdpTarget stream =
     keepIf (\<lambda>t. innerIsIpv6 (vx_inner t) \<and> innerUdpOffset (vx_inner t) \<noteq> None) (rawVxlanTarget stream)"

definition rawVxlanInnerIpv6TcpTarget :: "RawStream option \<Rightarrow> VxlanTarget option" where
  "rawVxlanInnerIpv6TcpTarget stream =
     keepIf (\<lambda>t. innerIsIpv6 (vx_inner t) \<and> innerTcpOffset (vx_inner t) \<noteq> None) (rawVxlanTarget stream)"

definition rawVxlanInnerIpv6Target :: "RawStream option \<Rightarrow> VxlanTarget option" where
  "rawVxlanInnerIpv6Target stream = keepIf (\<lambda>t. innerIsIpv6 (vx_inner t)) (rawVxlanTarget stream)"

definition rawVxlanInnerIpv6AddressTarget :: "RawStream option \<Rightarrow> VxlanTarget option" where
  "rawVxlanInnerIpv6AddressTarget stream =
     (case rawVxlanInnerIpv6UdpTarget stream of
        Some t \<Rightarrow> Some t
      | None \<Rightarrow> rawVxlanInnerIpv6TcpTarget stream)"

definition rawVxlanInnerEthernetTarget :: "RawStream option \<Rightarrow> VxlanTarget option" where
  "rawVxlanInnerEthernetTarget stream =
     keepIf (\<lambda>t. rawPacketHasBytes (vx_bytes t) (vx_innerEthernetOffset t) 14) (rawVxlanTarget stream)"

text \<open>The spread \<open>{...rawTarget, cfi, ...}\<close> is the pair of the target and the tag (the ARP packet).\<close>

definition rawVxlanInnerVlanTagTarget :: "RawStream option \<Rightarrow> int \<Rightarrow> (VxlanTarget \<times> VlanTagTarget) option" where
  "rawVxlanInnerVlanTagTarget stream index =
     (case rawVxlanInnerEthernetTarget stream of
        None \<Rightarrow> None
      | Some rawTarget \<Rightarrow>
          let bs = vx_bytes rawTarget; ethernetOffset = vx_innerEthernetOffset rawTarget in
          if \<not> rawPacketHasBytes bs (ethernetOffset + 12) 2 then None
          else map_option (\<lambda>tag. (rawTarget, tag))
                 (findVlanTag 4 bs 1 index (rawPacketWord bs (ethernetOffset + 12)) (ethernetOffset + 14)))"

definition rawVxlanInnerArpTarget :: "RawStream option \<Rightarrow> (VxlanTarget \<times> ArpTarget) option" where
  "rawVxlanInnerArpTarget stream =
     (case rawVxlanInnerEthernetTarget stream of
        None \<Rightarrow> None
      | Some rawTarget \<Rightarrow>
          let bs = vx_bytes rawTarget in
          case rawInnerEthernetPayloadOffset bs (vx_innerEthernetOffset rawTarget) of
            None \<Rightarrow> None
          | Some payload \<Rightarrow>
              if pay_etherType payload \<noteq> 0x0806 \<or> \<not> rawPacketHasBytes bs (pay_payloadOffset payload) 28 then None
              else if \<not> isEthernetIpv4Arp bs (pay_payloadOffset payload) then None
              else Some (rawTarget, arpAt bs (pay_payloadOffset payload)))"

section \<open>Soundness of the inner targets\<close>

lemma keepIfD: "keepIf p x = Some t \<Longrightarrow> x = Some t \<and> p t"
  by (auto simp: keepIf_def split: option.splits if_splits)

text \<open>
  A sound inner target: the IP header lies between the tunnel header and the end of the
  tunnel, and so do the UDP and TCP headers it names.
\<close>

definition innerSound :: "bytes \<Rightarrow> int \<Rightarrow> int \<Rightarrow> InnerIp \<Rightarrow> bool" where
  "innerSound bs from to inner \<longleftrightarrow>
     (case inner of
        NoInnerIp \<Rightarrow> True
      | IsInnerIpv4 i \<Rightarrow>
          from \<le> in4_innerIpOffset i \<and> nibbleHigh bs (in4_innerIpOffset i) = 4
          \<and> 20 \<le> in4_innerIpHeaderLength i \<and> in4_innerIpHeaderLength i \<le> 60
          \<and> in4_innerIpOffset i + in4_innerIpHeaderLength i \<le> to
          \<and> rawPacketHasBytes bs (in4_innerIpOffset i) (in4_innerIpHeaderLength i)
          \<and> in4_innerIpv4SrcOffset i = in4_innerIpOffset i + 12
          \<and> in4_innerIpv4DstOffset i = in4_innerIpOffset i + 16
          \<and> in4_innerIpv4TtlOffset i = in4_innerIpOffset i + 8
      | IsInnerIpv6 i \<Rightarrow>
          from \<le> in6_innerIpOffset i \<and> nibbleHigh bs (in6_innerIpOffset i) = 6
          \<and> in6_innerIpHeaderLength i = 40 \<and> in6_innerIpOffset i + 40 \<le> to
          \<and> rawPacketHasBytes bs (in6_innerIpOffset i) 40
          \<and> in6_innerIpv6SrcOffset i = in6_innerIpOffset i + 8
          \<and> in6_innerIpv6DstOffset i = in6_innerIpOffset i + 24
          \<and> in6_innerIpv6HopLimitOffset i = in6_innerIpOffset i + 7)
     \<and> (\<forall>p. innerUdpOffset inner = Some p \<longrightarrow> from \<le> p \<and> p + 8 \<le> to \<and> rawPacketHasBytes bs p 8)
     \<and> (\<forall>p. innerTcpOffset inner = Some p \<longrightarrow>
           from \<le> p \<and> p + tcpHeaderLength bs p \<le> to \<and> 20 \<le> tcpHeaderLength bs p
           \<and> rawPacketHasBytes bs p (tcpHeaderLength bs p))"

lemma innerSound_none [simp]: "innerSound bs from to NoInnerIp"
  by (simp add: innerSound_def innerUdpOffset_def innerTcpOffset_def)

lemma innerIpv4At_sound:
  assumes "innerIpv4Fits bs ip to" "nibbleHigh bs ip = 4" "from \<le> ip"
  shows "innerSound bs from to (IsInnerIpv4 (innerIpv4At bs ip (nibbleLow bs ip * 4) to))"
  using assms
  by (auto simp: innerSound_def innerIpv4At_def innerUdpOffset_def innerTcpOffset_def Let_def
      innerIpv4Fits_def split: if_splits dest!: tcpHeaderOffset_at)

lemma innerIpv6At_sound:
  assumes "rawPacketHasBytes bs ip 40" "ip + 40 \<le> to" "nibbleHigh bs ip = 6" "from \<le> ip"
  shows "innerSound bs from to (IsInnerIpv6 (innerIpv6At bs ip to))"
  using assms
  by (auto simp: innerSound_def innerIpv6At_def innerUdpOffset_def innerTcpOffset_def Let_def
      split: if_splits dest!: tcpHeaderOffset_at)

lemma innerEthernet_offset:
  "rawInnerEthernetPayloadOffset bs off = Some p
   \<Longrightarrow> off + 14 \<le> pay_payloadOffset p \<and> pay_payloadOffset p \<le> off + 30
     \<and> rawPacketHasBytes bs off 14"
  using skipVlanTags_offset [of "off + 14" 4 bs "rawPacketWord bs (off + 12)"]
  by (auto simp: rawInnerEthernetPayloadOffset_def split: if_splits prod.splits)

lemma vxlanInner_sound: "innerSound bs (off + 14) to (vxlanInner bs off to)"
proof (cases "rawInnerEthernetPayloadOffset bs off")
  case None
  then show ?thesis by (simp add: vxlanInner_def)
next
  case (Some p)
  have from_le: "off + 14 \<le> pay_payloadOffset p"
    using innerEthernet_offset [OF Some] by simp
  show ?thesis
    using Some from_le
    by (simp add: vxlanInner_def Let_def innerIpv4At_sound innerIpv6At_sound)
qed

lemma rawVxlanTargetD:
  assumes "rawVxlanTarget s = Some t"
  shows "vx_bytes t = streamBytes s"
    "rawPacketHasBytes (streamBytes s) (vx_vxlanOffset t) 8"
    "vx_vniOffset t = vx_vxlanOffset t + 4" "vx_innerEthernetOffset t = vx_vxlanOffset t + 8"
    "vx_vni t = rawPacketNumberValue (streamBytes s) (vx_vxlanOffset t + 4) 3"
    "\<exists>to. vx_inner t = vxlanInner (streamBytes s) (vx_vxlanOffset t + 8) to"
  using assms
  by (auto simp: rawVxlanTarget_def Let_def split: option.splits if_splits dest!: rawOuterTransportTargetD(1))

lemma rawVxlanTarget_inner:
  assumes "rawVxlanTarget s = Some t"
  shows "\<exists>to. innerSound (streamBytes s) (vx_vxlanOffset t + 22) to (vx_inner t)"
proof -
  obtain to where "vx_inner t = vxlanInner (streamBytes s) (vx_vxlanOffset t + 8) to"
    using rawVxlanTargetD(6) [OF assms] by blast
  then show ?thesis
    using vxlanInner_sound [of "streamBytes s" "vx_vxlanOffset t + 8" to] by (intro exI [of _ to]) (simp add: add.commute)
qed

interpretation vni_target: packet_target rawVxlanTarget vx_vniOffset "\<lambda>t. 3"
proof unfold_locales
  fix s t
  assume "rawVxlanTarget s = Some t"
  note d = rawVxlanTargetD(2,3) [OF this]
  show "rawPacketHasBytes (streamBytes s) (vx_vniOffset t) 3"
    by (rule hasBytes_within [OF d(1)]) (simp_all add: d(2))
qed

interpretation vxlan_inner_mac: packet_target rawVxlanInnerEthernetTarget vx_innerEthernetOffset "\<lambda>t. 14"
  by unfold_locales (auto simp: rawVxlanInnerEthernetTarget_def dest!: keepIfD dest: rawVxlanTargetD(1))

interpretation vxlan_inner_vlan:
  packet_target "\<lambda>s. rawVxlanInnerVlanTagTarget s index" "\<lambda>t. vlan_tciOffset (snd t)" "\<lambda>t. 4" for index
  by unfold_locales
    (auto simp: rawVxlanInnerVlanTagTarget_def rawVxlanInnerEthernetTarget_def Let_def
      split: option.splits if_splits dest!: keepIfD findVlanTag_at dest: rawVxlanTargetD(1))

lemma arpAt_offset [simp]: "arp_arpOffset (arpAt bs off) = off"
  by (simp add: arpAt_def)

interpretation vxlan_inner_arp:
  packet_target rawVxlanInnerArpTarget "\<lambda>t. arp_arpOffset (snd t)" "\<lambda>t. 28"
  by unfold_locales
    (auto simp: rawVxlanInnerArpTarget_def rawVxlanInnerEthernetTarget_def Let_def
      split: option.splits if_splits dest!: keepIfD dest: rawVxlanTargetD(1))

end
