(* ===== verification/GtpuGre.thy ===== *)
theory GtpuGre
  imports Tunnels
begin

text \<open>
  GTP-U: the header, its optional word with sequence number, N-PDU number and first extension
  type, the loop over extension headers, and the inner packet. GRE: the header with its
  optional checksum, key and sequence words, and the inner packet.
\<close>

section \<open>GTP-U\<close>

record GtpuTarget =
  gu_bytes :: bytes
  gu_checksumInstruction :: ChecksumInstruction
  gu_extensionUdpPort :: "int option"
  gu_extensionUdpPortOffset :: "int option"
  gu_flags :: int
  gu_gtpuOffset :: int
  gu_messageEnd :: int
  gu_messageLength :: int
  gu_messageType :: int
  gu_nextExtensionHeaderOffset :: "int option"
  gu_npdu :: "int option"
  gu_npduOffset :: "int option"
  gu_payloadOffset :: int
  gu_sequence :: "int option"
  gu_sequenceOffset :: "int option"
  gu_teid :: int
  gu_teidOffset :: int
  gu_inner :: InnerIp

text \<open>
  The loop over the extension headers, by \<open>8 - extensionIndex\<close>: a header of type \<open>0x40\<close> gives
  the UDP port, a malformed header ends the loop. The result is the offset of the UDP port, if
  any, and the payload offset.
\<close>

fun gtpuExtensions :: "nat \<Rightarrow> bytes \<Rightarrow> int \<Rightarrow> int \<Rightarrow> int \<Rightarrow> int option \<Rightarrow> int option \<times> int" where
  "gtpuExtensions 0 bs messageEnd nextExtensionHeader payloadOffset udpPortOffset = (udpPortOffset, payloadOffset)"
| "gtpuExtensions (Suc n) bs messageEnd nextExtensionHeader payloadOffset udpPortOffset =
     (if nextExtensionHeader = 0 then (udpPortOffset, payloadOffset)
      else if payloadOffset + 1 > messageEnd \<or> \<not> rawPacketHasBytes bs payloadOffset 1
      then (udpPortOffset, payloadOffset)
      else
        let extensionByteLength = byteAt bs payloadOffset * 4 in
        if extensionByteLength < 4 \<or> payloadOffset + extensionByteLength > messageEnd
           \<or> \<not> rawPacketHasBytes bs payloadOffset extensionByteLength
        then (udpPortOffset, payloadOffset)
        else gtpuExtensions n bs messageEnd (byteAt bs (payloadOffset + extensionByteLength - 1))
               (payloadOffset + extensionByteLength)
               (if nextExtensionHeader = 0x40 \<and> extensionByteLength \<ge> 4
                then Some (payloadOffset + 1) else udpPortOffset))"

definition gtpuInner :: "bytes \<Rightarrow> int \<Rightarrow> int \<Rightarrow> InnerIp" where
  "gtpuInner bs payloadOffset messageEnd =
     (if payloadOffset \<ge> messageEnd \<or> \<not> rawPacketHasBytes bs payloadOffset 1 then NoInnerIp
      else if nibbleHigh bs payloadOffset = 4 \<and> rawPacketHasBytes bs payloadOffset 20
           \<and> innerIpv4Fits bs payloadOffset messageEnd
      then IsInnerIpv4 (innerIpv4At bs payloadOffset (nibbleLow bs payloadOffset * 4) messageEnd)
      else if nibbleHigh bs payloadOffset = 6 \<and> rawPacketHasBytes bs payloadOffset 40
           \<and> payloadOffset + 40 \<le> messageEnd
      then IsInnerIpv6 (innerIpv6At bs payloadOffset messageEnd)
      else NoInnerIp)"

text \<open>
  The target of a header at \<open>gtpuOffset\<close> whose message ends at \<open>messageEnd\<close>. The optional word
  follows the header when one of the three flags is set; a message that ends inside it gives a
  target without optional fields.
\<close>

definition gtpuTargetAt :: "bytes \<Rightarrow> ChecksumInstruction \<Rightarrow> int \<Rightarrow> int \<Rightarrow> int \<Rightarrow> GtpuTarget" where
  "gtpuTargetAt bs instruction gtpuOffset messageLength messageEnd =
     (let flags = byteAt bs gtpuOffset;
          optional = gtpuOffset + 8;
          base = \<lparr>gu_bytes = bs, gu_checksumInstruction = instruction, gu_extensionUdpPort = None,
                  gu_extensionUdpPortOffset = None, gu_flags = flags, gu_gtpuOffset = gtpuOffset,
                  gu_messageEnd = messageEnd, gu_messageLength = messageLength,
                  gu_messageType = byteAt bs (gtpuOffset + 1), gu_nextExtensionHeaderOffset = None,
                  gu_npdu = None, gu_npduOffset = None, gu_payloadOffset = optional,
                  gu_sequence = None, gu_sequenceOffset = None,
                  gu_teid = rawPacketNumberValue bs (gtpuOffset + 4) 4, gu_teidOffset = gtpuOffset + 4,
                  gu_inner = NoInnerIp\<rparr>
      in if js_and flags 0x07 \<noteq> 0 then
           (if optional + 4 > messageEnd \<or> \<not> rawPacketHasBytes bs optional 4 then base
            else
              let (udpPortOffset, payloadOffset) =
                    gtpuExtensions 8 bs messageEnd (byteAt bs (optional + 3)) (optional + 4) None
              in base\<lparr>gu_extensionUdpPort := map_option (\<lambda>p. rawPacketWord bs p) udpPortOffset,
                      gu_extensionUdpPortOffset := udpPortOffset,
                      gu_nextExtensionHeaderOffset := Some (optional + 3),
                      gu_npdu := Some (byteAt bs (optional + 2)),
                      gu_npduOffset := Some (optional + 2),
                      gu_payloadOffset := payloadOffset,
                      gu_sequence := Some (rawPacketWord bs optional),
                      gu_sequenceOffset := Some optional,
                      gu_inner := gtpuInner bs payloadOffset messageEnd\<rparr>)
         else base\<lparr>gu_inner := gtpuInner bs optional messageEnd\<rparr>)"

definition rawGtpuTarget :: "RawStream option \<Rightarrow> GtpuTarget option" where
  "rawGtpuTarget stream =
     (case rawOuterTransportTarget stream 17 11 16 of
        None \<Rightarrow> None
      | Some target \<Rightarrow>
          let bs = tr_bytes target; offset = tr_offset target in
          if \<not> rawPacketHasBytes bs offset 16 then None
          else if rawPacketWord bs offset \<noteq> 2152 \<and> rawPacketWord bs (offset + 2) \<noteq> 2152 then None
          else
            let udpLength = rawPacketWord bs (offset + 4);
                udpEnd = (if udpLength = 0 then int (length bs) else offset + udpLength);
                gtpuOffset = offset + 8
            in if udpEnd > int (length bs) \<or> gtpuOffset + 8 > udpEnd \<or> \<not> rawPacketHasBytes bs gtpuOffset 8
               then None
               else
                 let flags = byteAt bs gtpuOffset in
                 if js_ushr flags 5 \<noteq> 1 \<or> js_and flags 0x10 = 0 then None
                 else
                   let messageLength = rawPacketWord bs (gtpuOffset + 2);
                       messageEnd = (if messageLength = 0 then udpEnd else gtpuOffset + 8 + messageLength)
                   in if messageEnd > udpEnd \<or> messageEnd > int (length bs) then None
                      else Some (gtpuTargetAt bs (tr_checksumInstruction target) gtpuOffset
                                   messageLength messageEnd))"

definition rawGtpuInnerIpv4UdpTarget :: "RawStream option \<Rightarrow> GtpuTarget option" where
  "rawGtpuInnerIpv4UdpTarget stream =
     keepIf (\<lambda>t. innerIsIpv4 (gu_inner t) \<and> innerUdpOffset (gu_inner t) \<noteq> None) (rawGtpuTarget stream)"

definition rawGtpuInnerIpv4TcpTarget :: "RawStream option \<Rightarrow> GtpuTarget option" where
  "rawGtpuInnerIpv4TcpTarget stream =
     keepIf (\<lambda>t. innerIsIpv4 (gu_inner t) \<and> innerTcpOffset (gu_inner t) \<noteq> None) (rawGtpuTarget stream)"

definition rawGtpuInnerIpv4Target :: "RawStream option \<Rightarrow> GtpuTarget option" where
  "rawGtpuInnerIpv4Target stream = keepIf (\<lambda>t. innerIsIpv4 (gu_inner t)) (rawGtpuTarget stream)"

definition rawGtpuInnerIpv4AddressTarget :: "RawStream option \<Rightarrow> GtpuTarget option" where
  "rawGtpuInnerIpv4AddressTarget stream =
     keepIf (\<lambda>t. editableIpv4Address (gu_inner t)) (rawGtpuInnerIpv4Target stream)"

definition rawGtpuInnerIpv6UdpTarget :: "RawStream option \<Rightarrow> GtpuTarget option" where
  "rawGtpuInnerIpv6UdpTarget stream =
     keepIf (\<lambda>t. innerIsIpv6 (gu_inner t) \<and> innerUdpOffset (gu_inner t) \<noteq> None) (rawGtpuTarget stream)"

definition rawGtpuInnerIpv6TcpTarget :: "RawStream option \<Rightarrow> GtpuTarget option" where
  "rawGtpuInnerIpv6TcpTarget stream =
     keepIf (\<lambda>t. innerIsIpv6 (gu_inner t) \<and> innerTcpOffset (gu_inner t) \<noteq> None) (rawGtpuTarget stream)"

definition rawGtpuInnerIpv6Target :: "RawStream option \<Rightarrow> GtpuTarget option" where
  "rawGtpuInnerIpv6Target stream = keepIf (\<lambda>t. innerIsIpv6 (gu_inner t)) (rawGtpuTarget stream)"

definition rawGtpuInnerIpv6AddressTarget :: "RawStream option \<Rightarrow> GtpuTarget option" where
  "rawGtpuInnerIpv6AddressTarget stream =
     (case rawGtpuInnerIpv6UdpTarget stream of
        Some t \<Rightarrow> Some t
      | None \<Rightarrow> rawGtpuInnerIpv6TcpTarget stream)"

lemma gtpuExtensions_sound:
  "gtpuExtensions n bs end next off udp = (udp', off') \<Longrightarrow> is_bytes bs \<Longrightarrow> off \<le> end
   \<Longrightarrow> (udp = None \<or> (\<exists>p. udp = Some p \<and> lo < p \<and> p + 3 \<le> off \<and> rawPacketHasBytes bs p 3))
   \<Longrightarrow> lo \<le> off
   \<Longrightarrow> off \<le> off' \<and> off' \<le> end
     \<and> (udp' = None \<or> (\<exists>p. udp' = Some p \<and> lo < p \<and> p + 3 \<le> off' \<and> rawPacketHasBytes bs p 3))"
proof (induction n arbitrary: "next" off udp)
  case (Suc n)
  let ?k = "byteAt bs off * 4"
  show ?case
  proof (cases "next = 0 \<or> off + 1 > end \<or> \<not> rawPacketHasBytes bs off 1 \<or> ?k < 4 \<or> off + ?k > end
      \<or> \<not> rawPacketHasBytes bs off ?k")
    case True
    with Suc.prems show ?thesis by (auto simp: Let_def split: if_split_asm)
  next
    case False
    then have rec: "gtpuExtensions n bs end (byteAt bs (off + ?k - 1)) (off + ?k)
        (if next = 0x40 \<and> ?k \<ge> 4 then Some (off + 1) else udp) = (udp', off')"
      using Suc.prems(1) by (simp add: Let_def split del: if_split)
    have here: "lo < off + 1" "off + 1 + 3 \<le> off + ?k" "rawPacketHasBytes bs (off + 1) 3"
      using False Suc.prems(5) by (auto simp: rawPacketHasBytes_def)
    have "off \<le> off + ?k" "off + ?k \<le> end" "lo \<le> off + ?k"
      using False Suc.prems(5) by auto
    moreover have "(if next = 0x40 \<and> ?k \<ge> 4 then Some (off + 1) else udp) = None
      \<or> (\<exists>p. (if next = 0x40 \<and> ?k \<ge> 4 then Some (off + 1) else udp) = Some p
             \<and> lo < p \<and> p + 3 \<le> off + ?k \<and> rawPacketHasBytes bs p 3)"
      using here Suc.prems(4) False by (cases "next = 0x40") auto
    ultimately show ?thesis
      using Suc.IH [OF rec Suc.prems(2)] by auto
  qed
qed auto

lemma gtpuInner_sound: "from \<le> off \<Longrightarrow> innerSound bs from to (gtpuInner bs off to)"
  by (simp add: gtpuInner_def innerIpv4At_sound innerIpv6At_sound)

text \<open>A sound GTP-U target: every field it names lies inside the message.\<close>

definition gtpuSound :: "bytes \<Rightarrow> GtpuTarget \<Rightarrow> bool" where
  "gtpuSound bs t \<longleftrightarrow>
     gu_bytes t = bs \<and> rawPacketHasBytes bs (gu_gtpuOffset t) 8
     \<and> gu_teidOffset t = gu_gtpuOffset t + 4
     \<and> gu_teid t = rawPacketNumberValue bs (gu_teidOffset t) 4
     \<and> gu_gtpuOffset t + 8 \<le> gu_payloadOffset t \<and> gu_payloadOffset t \<le> gu_messageEnd t
     \<and> gu_messageEnd t \<le> int (length bs)
     \<and> (\<forall>p. gu_sequenceOffset t = Some p \<longrightarrow> rawPacketHasBytes bs p 4 \<and> p + 4 \<le> gu_payloadOffset t)
     \<and> (\<forall>p. gu_extensionUdpPortOffset t = Some p \<longrightarrow> rawPacketHasBytes bs p 3 \<and> p + 3 \<le> gu_payloadOffset t)
     \<and> innerSound bs (gu_payloadOffset t) (gu_messageEnd t) (gu_inner t)"

lemma gtpuTargetAt_sound:
  assumes "is_bytes bs" "rawPacketHasBytes bs off 8" "off + 8 \<le> end" "end \<le> int (length bs)"
  shows "gtpuSound bs (gtpuTargetAt bs instruction off len end)"
proof (cases "js_and (byteAt bs off) 0x07 \<noteq> 0 \<and> off + 8 + 4 \<le> end \<and> rawPacketHasBytes bs (off + 8) 4")
  case True
  obtain udp pay where e: "gtpuExtensions 8 bs end (byteAt bs (off + 8 + 3)) (off + 8 + 4) None = (udp, pay)"
    by (cases "gtpuExtensions 8 bs end (byteAt bs (off + 8 + 3)) (off + 8 + 4) None")
  have "off + 8 + 4 \<le> pay \<and> pay \<le> end \<and> (udp = None
      \<or> (\<exists>p. udp = Some p \<and> off + 8 + 4 < p \<and> p + 3 \<le> pay \<and> rawPacketHasBytes bs p 3))"
    using True by (intro gtpuExtensions_sound [OF e assms(1)]) auto
  then show ?thesis
    using True assms gtpuInner_sound [of pay pay bs "end"] e
    by (auto simp: gtpuTargetAt_def Let_def gtpuSound_def)
next
  case False
  then show ?thesis
    using assms gtpuInner_sound [of "off + 8" "off + 8" bs "end"]
    by (auto simp: gtpuTargetAt_def Let_def gtpuSound_def)
qed

lemma rawGtpuTarget_sound:
  assumes "rawGtpuTarget s = Some t"
  shows "gtpuSound (streamBytes s) t"
proof -
  obtain target where o: "rawOuterTransportTarget s 17 11 16 = Some target"
    using assms by (auto simp: rawGtpuTarget_def split: option.splits)
  note b = rawOuterTransportTargetD(1) [OF o]
  have len: "0 \<le> rawPacketWord (streamBytes s) k" for k
    using rawPacketWord_range(1) [OF is_bytes_stream] .
  show ?thesis
    using assms len unfolding rawGtpuTarget_def o
    by (auto simp: Let_def b split: if_splits intro!: gtpuTargetAt_sound is_bytes_stream)
qed

interpretation teid_target: packet_target rawGtpuTarget gu_teidOffset "\<lambda>t. 4"
proof unfold_locales
  fix s t
  assume "rawGtpuTarget s = Some t"
  note d = rawGtpuTarget_sound [OF this, unfolded gtpuSound_def]
  show "rawPacketHasBytes (streamBytes s) (gu_teidOffset t) 4"
    by (rule hasBytes_within [of _ "gu_gtpuOffset t" 8]) (use d in simp_all)
qed

section \<open>GRE\<close>

record RawGreTarget =
  gre_bytes :: bytes
  gre_checksumPresent :: bool
  gre_flags :: int
  gre_greOffset :: int
  gre_keyOffset :: "int option"
  gre_keyPresent :: bool
  gre_l3Offset :: int
  gre_payloadOffset :: int
  gre_protocolType :: int
  gre_sequenceOffset :: "int option"
  gre_sequencePresent :: bool

text \<open>
  One optional word: absent it costs nothing, present it has to lie in the packet. The result
  is \<open>None\<close> for the early return, otherwise the offset behind it.
\<close>

definition optionalWord :: "bytes \<Rightarrow> bool \<Rightarrow> int \<Rightarrow> int option" where
  "optionalWord bs present offset =
     (if \<not> present then Some offset
      else if \<not> rawPacketHasBytes bs offset 4 then None else Some (offset + 4))"

definition rawGreTargetFromOffset :: "bytes \<Rightarrow> int \<Rightarrow> int \<Rightarrow> RawGreTarget option" where
  "rawGreTargetFromOffset bs l3Offset greOffset =
     (if \<not> rawPacketHasBytes bs greOffset 4 then None
      else
        let flags = rawPacketWord bs greOffset;
            checksumPresent = (js_and flags 0x8000 \<noteq> 0);
            routingPresent = (js_and flags 0x4000 \<noteq> 0);
            keyPresent = (js_and flags 0x2000 \<noteq> 0);
            sequencePresent = (js_and flags 0x1000 \<noteq> 0);
            version = js_and flags 0x0007
        in if routingPresent \<or> version \<noteq> 0 then None
           else case optionalWord bs checksumPresent (greOffset + 4) of
                  None \<Rightarrow> None
                | Some afterChecksum \<Rightarrow>
                    case optionalWord bs keyPresent afterChecksum of
                      None \<Rightarrow> None
                    | Some afterKey \<Rightarrow>
                        case optionalWord bs sequencePresent afterKey of
                          None \<Rightarrow> None
                        | Some payloadOffset \<Rightarrow>
                            Some \<lparr>gre_bytes = bs, gre_checksumPresent = checksumPresent,
                                  gre_flags = flags, gre_greOffset = greOffset,
                                  gre_keyOffset = (if keyPresent then Some afterChecksum else None),
                                  gre_keyPresent = keyPresent, gre_l3Offset = l3Offset,
                                  gre_payloadOffset = payloadOffset,
                                  gre_protocolType = rawPacketWord bs (greOffset + 2),
                                  gre_sequenceOffset = (if sequencePresent then Some afterKey else None),
                                  gre_sequencePresent = sequencePresent\<rparr>)"

definition rawOuterGreTarget :: "RawStream option \<Rightarrow> RawGreTarget option" where
  "rawOuterGreTarget stream =
     (case rawOuterIpv4L4Target stream 47 of
        Some t \<Rightarrow> rawGreTargetFromOffset (l44_bytes t) (l44_l3Offset t) (l44_offset t)
      | None \<Rightarrow>
          case rawOuterIpv6L4Target stream 47 of
            Some t \<Rightarrow> rawGreTargetFromOffset (l46_bytes t) (l46_l3Offset t) (l46_offset t)
          | None \<Rightarrow> None)"

datatype GreField = GreKey | GreSequence

record GreOptionTarget = RawGreTarget +
  greopt_offset :: int
  greopt_value :: int

definition rawGreOptionTarget :: "RawStream option \<Rightarrow> GreField \<Rightarrow> GreOptionTarget option" where
  "rawGreOptionTarget stream field =
     (case rawOuterGreTarget stream of
        None \<Rightarrow> None
      | Some target \<Rightarrow>
          if gre_checksumPresent target then None
          else case (if field = GreKey then gre_keyOffset target else gre_sequenceOffset target) of
                 None \<Rightarrow> None
               | Some offset \<Rightarrow>
                   if \<not> rawPacketHasBytes (gre_bytes target) offset 4 then None
                   else Some (RawGreTarget.extend target
                          \<lparr>greopt_offset = offset,
                           greopt_value = rawPacketNumberValue (gre_bytes target) offset 4\<rparr>))"

record GreInnerTarget = RawGreTarget +
  grein_innerL3Length :: int
  grein_innerL3Offset :: int
  grein_innerProtocol :: int

definition rawGreInnerIpv4Target :: "RawStream option \<Rightarrow> bool \<Rightarrow> GreInnerTarget option" where
  "rawGreInnerIpv4Target stream requireUdp =
     (case rawOuterGreTarget stream of
        None \<Rightarrow> None
      | Some target \<Rightarrow>
          let bs = gre_bytes target; ip = gre_payloadOffset target in
          if gre_checksumPresent target \<or> gre_protocolType target \<noteq> 0x0800 \<or> \<not> rawPacketHasBytes bs ip 20
          then None
          else
            let version = js_ushr (byteAt bs ip) 4; l3Length = nibbleLow bs ip * 4 in
            if version \<noteq> 4 \<or> l3Length < 20 \<or> l3Length > 60 \<or> \<not> rawPacketHasBytes bs ip l3Length then None
            else
              let protocol = byteAt bs (ip + 9) in
              if requireUdp \<and> protocol \<noteq> 17 then None
              else Some (RawGreTarget.extend target
                     \<lparr>grein_innerL3Length = l3Length, grein_innerL3Offset = ip,
                      grein_innerProtocol = protocol\<rparr>))"

text \<open>
  The upper layer a target is extended by: nothing, \<open>{...target, udpOffset}\<close> or
  \<open>{...target, tcpOffset}\<close>.
\<close>

datatype GreUpper = NoUpper | UdpAt int | TcpAt int

definition rawGreInnerIpv4UdpTarget :: "RawStream option \<Rightarrow> (GreInnerTarget \<times> GreUpper) option" where
  "rawGreInnerIpv4UdpTarget stream =
     (case rawGreInnerIpv4Target stream True of
        None \<Rightarrow> None
      | Some target \<Rightarrow>
          let udpOffset = grein_innerL3Offset target + grein_innerL3Length target in
          if \<not> rawPacketHasBytes (gre_bytes target) udpOffset 8 then None
          else Some (target, UdpAt udpOffset))"

definition rawGreInnerIpv4TcpTarget :: "RawStream option \<Rightarrow> (GreInnerTarget \<times> GreUpper) option" where
  "rawGreInnerIpv4TcpTarget stream =
     (case rawGreInnerIpv4Target stream False of
        None \<Rightarrow> None
      | Some target \<Rightarrow>
          if grein_innerProtocol target \<noteq> 6 then None
          else case rawPacketTcpHeaderOffset (gre_bytes target)
                      (grein_innerL3Offset target + grein_innerL3Length target) None of
                 None \<Rightarrow> None
               | Some tcpOffset \<Rightarrow> Some (target, TcpAt tcpOffset))"

definition rawGreInnerIpv4AddressTarget :: "RawStream option \<Rightarrow> (GreInnerTarget \<times> GreUpper) option" where
  "rawGreInnerIpv4AddressTarget stream =
     (case rawGreInnerIpv4Target stream False of
        None \<Rightarrow> None
      | Some target \<Rightarrow>
          if grein_innerProtocol target = 17 then rawGreInnerIpv4UdpTarget stream
          else if grein_innerProtocol target = 6 then rawGreInnerIpv4TcpTarget stream
          else Some (target, NoUpper))"

record GreInnerIpv6Target = GreInnerTarget +
  grein6_innerIpv6Dst :: string
  grein6_innerIpv6DstOffset :: int
  grein6_innerIpv6HopLimit :: int
  grein6_innerIpv6HopLimitOffset :: int
  grein6_innerIpv6Src :: string
  grein6_innerIpv6SrcOffset :: int

definition rawGreInnerIpv6Target :: "RawStream option \<Rightarrow> bool \<Rightarrow> GreInnerIpv6Target option" where
  "rawGreInnerIpv6Target stream requireUdp =
     (case rawOuterGreTarget stream of
        None \<Rightarrow> None
      | Some target \<Rightarrow>
          let bs = gre_bytes target; ip = gre_payloadOffset target in
          if gre_checksumPresent target \<or> gre_protocolType target \<noteq> 0x86dd \<or> \<not> rawPacketHasBytes bs ip 40
          then None
          else if js_ushr (byteAt bs ip) 4 \<noteq> 6 then None
          else
            let protocol = byteAt bs (ip + 6) in
            if requireUdp \<and> protocol \<noteq> 17 then None
            else Some (GreInnerTarget.extend
                   (RawGreTarget.extend target
                      \<lparr>grein_innerL3Length = 40, grein_innerL3Offset = ip, grein_innerProtocol = protocol\<rparr>)
                   \<lparr>grein6_innerIpv6Dst = formatPacketIpv6 bs (ip + 24),
                    grein6_innerIpv6DstOffset = ip + 24,
                    grein6_innerIpv6HopLimit = byteAt bs (ip + 7),
                    grein6_innerIpv6HopLimitOffset = ip + 7,
                    grein6_innerIpv6Src = formatPacketIpv6 bs (ip + 8),
                    grein6_innerIpv6SrcOffset = ip + 8\<rparr>))"

record GreInnerIpv6UdpTarget = GreInnerIpv6Target +
  grein6_innerUdpDstPort :: int
  grein6_innerUdpSrcPort :: int
  grein6_udpOffset :: int

definition rawGreInnerIpv6UdpTarget :: "RawStream option \<Rightarrow> GreInnerIpv6UdpTarget option" where
  "rawGreInnerIpv6UdpTarget stream =
     (case rawGreInnerIpv6Target stream True of
        None \<Rightarrow> None
      | Some target \<Rightarrow>
          let udpOffset = grein_innerL3Offset target + grein_innerL3Length target in
          if \<not> rawPacketHasBytes (gre_bytes target) udpOffset 8 then None
          else Some (GreInnerIpv6Target.extend target
                 \<lparr>grein6_innerUdpDstPort = rawPacketWord (gre_bytes target) (udpOffset + 2),
                  grein6_innerUdpSrcPort = rawPacketWord (gre_bytes target) udpOffset,
                  grein6_udpOffset = udpOffset\<rparr>))"

definition rawGreInnerIpv6TcpTarget :: "RawStream option \<Rightarrow> (GreInnerIpv6Target \<times> int) option" where
  "rawGreInnerIpv6TcpTarget stream =
     (case rawGreInnerIpv6Target stream False of
        None \<Rightarrow> None
      | Some target \<Rightarrow>
          if grein_innerProtocol target \<noteq> 6 then None
          else case rawPacketTcpHeaderOffset (gre_bytes target)
                      (grein_innerL3Offset target + grein_innerL3Length target) None of
                 None \<Rightarrow> None
               | Some tcpOffset \<Rightarrow> Some (target, tcpOffset))"

definition rawGreInnerChecksumInstruction :: "GreInnerTarget \<Rightarrow> int \<Rightarrow> ChecksumInstruction" where
  "rawGreInnerChecksumInstruction target l4Type =
     FixChecksumHw (grein_innerL3Offset target) (grein_innerL3Length target) l4Type"

definition rawGreInnerIpv4ChecksumInstruction :: "GreInnerTarget \<times> GreUpper \<Rightarrow> ChecksumInstruction" where
  "rawGreInnerIpv4ChecksumInstruction inner =
     (case inner of (target, upper) \<Rightarrow>
        if grein_innerProtocol target = 17 then rawGreInnerChecksumInstruction target 11
        else if grein_innerProtocol target = 6 \<and> (case upper of TcpAt _ \<Rightarrow> True | _ \<Rightarrow> False)
        then FixChecksumHw (grein_innerL3Offset target) (grein_innerL3Length target) 13
        else FixChecksumIpv4 (grein_innerL3Offset target))"

lemma optionalWord_le: "optionalWord bs p off = Some off' \<Longrightarrow> off' = (if p then off + 4 else off)
    \<and> (p \<longrightarrow> rawPacketHasBytes bs off 4)"
  by (auto simp: optionalWord_def split: if_splits)

lemma rawGreTargetFromOffsetD:
  assumes "rawGreTargetFromOffset bs l3 off = Some t"
  shows "gre_bytes t = bs" "gre_greOffset t = off" "rawPacketHasBytes bs off 4"
    "gre_payloadOffset t = off + 4 + (if gre_checksumPresent t then 4 else 0)
       + (if gre_keyPresent t then 4 else 0) + (if gre_sequencePresent t then 4 else 0)"
    "gre_payloadOffset t \<le> int (length bs)"
    "gre_keyOffset t = Some k \<Longrightarrow> rawPacketHasBytes bs k 4"
    "gre_sequenceOffset t = Some k \<Longrightarrow> rawPacketHasBytes bs k 4"
  using assms
  by (auto simp: rawGreTargetFromOffset_def Let_def split: if_splits option.splits dest!: optionalWord_le)
     (auto simp: rawPacketHasBytes_def)

lemma rawOuterGreTarget_from:
  assumes "rawOuterGreTarget s = Some t"
  obtains l3 off where "rawGreTargetFromOffset (streamBytes s) l3 off = Some t"
  using assms
  by (auto simp: rawOuterGreTarget_def split: option.splits
      dest: rawOuterIpv4L4TargetD(1) rawOuterIpv6L4TargetD(1))

lemma rawOuterGreTarget_bytes: "rawOuterGreTarget s = Some t \<Longrightarrow> gre_bytes t = streamBytes s"
  by (erule rawOuterGreTarget_from) (rule rawGreTargetFromOffsetD)

interpretation gre_target: packet_target rawOuterGreTarget gre_greOffset "\<lambda>t. 4"
proof unfold_locales
  fix s t
  assume "rawOuterGreTarget s = Some t"
  then obtain l3 off where "rawGreTargetFromOffset (streamBytes s) l3 off = Some t"
    by (rule rawOuterGreTarget_from)
  from rawGreTargetFromOffsetD(2,3) [OF this]
  show "rawPacketHasBytes (streamBytes s) (gre_greOffset t) 4" by simp
qed

interpretation gre_option_target: packet_target "\<lambda>s. rawGreOptionTarget s field" greopt_offset "\<lambda>t. 4" for field
  by unfold_locales
    (auto simp: rawGreOptionTarget_def RawGreTarget.defs split: option.splits if_splits
      dest!: rawOuterGreTarget_bytes)

interpretation gre_inner4_target:
  packet_target "\<lambda>s. rawGreInnerIpv4Target s u" grein_innerL3Offset grein_innerL3Length for u
  by unfold_locales
    (auto simp: rawGreInnerIpv4Target_def RawGreTarget.defs Let_def split: option.splits if_splits
      dest!: rawOuterGreTarget_bytes)

interpretation gre_inner6_target:
  packet_target "\<lambda>s. rawGreInnerIpv6Target s u" grein_innerL3Offset "\<lambda>t. 40" for u
  by unfold_locales
    (auto simp: rawGreInnerIpv6Target_def RawGreTarget.defs GreInnerTarget.defs Let_def
      split: option.splits if_splits dest!: rawOuterGreTarget_bytes)

end
