(* ===== verification/PacketWalk.thy ===== *)
theory PacketWalk
  imports GtpuGre
begin

text \<open>
  The structure walk of the checksum repair: header lengths and ends of packets, the payload
  offsets of tunnels, and the mutually recursive walk over IPv4, IPv6, GRE and UDP tunnels that
  three of the collectors share.
\<close>

section \<open>Headers\<close>

definition rawIpv4HeaderLengthAt :: "bytes \<Rightarrow> int \<Rightarrow> int option" where
  "rawIpv4HeaderLengthAt bs offset =
     (if \<not> rawPacketHasBytes bs offset 20 \<or> js_ushr (byteAt bs offset) 4 \<noteq> 4 then None
      else
        let headerLength = nibbleLow bs offset * 4 in
        if headerLength < 20 \<or> headerLength > 60 \<or> \<not> rawPacketHasBytes bs offset headerLength then None
        else Some headerLength)"

record EthernetL3 =
  eth_etherType :: int
  eth_l3Offset :: int

definition rawPacketEthernetL3Target :: "bytes \<Rightarrow> int \<Rightarrow> EthernetL3 option" where
  "rawPacketEthernetL3Target bs ethernetOffset =
     (if \<not> rawPacketHasBytes bs ethernetOffset 14 then None
      else
        let (etherType, l3Offset) =
              skipVlanTags 4 bs (rawPacketWord bs (ethernetOffset + 12)) (ethernetOffset + 14)
        in if isMplsType etherType \<and> rawPacketHasBytes bs l3Offset 4 then
             (let l3Offset = skipMplsLabels 8 bs l3Offset;
                  version = js_ushr (byteAt bs l3Offset) 4
              in Some \<lparr>eth_etherType =
                         (if version = 4 then 0x0800 else if version = 6 then 0x86dd else etherType),
                       eth_l3Offset = l3Offset\<rparr>)
           else Some \<lparr>eth_etherType = etherType, eth_l3Offset = l3Offset\<rparr>)"

definition rawIpv4PacketEnd :: "bytes \<Rightarrow> int \<Rightarrow> int \<Rightarrow> int" where
  "rawIpv4PacketEnd bs ipv4Offset headerLength =
     (let totalLength = rawPacketWord bs (ipv4Offset + 2)
      in if totalLength \<ge> headerLength \<and> rawPacketHasBytes bs ipv4Offset totalLength
         then ipv4Offset + totalLength else int (length bs))"

definition rawIpv6PacketEnd :: "bytes \<Rightarrow> int \<Rightarrow> int" where
  "rawIpv6PacketEnd bs ipv6Offset =
     (if \<not> rawPacketHasBytes bs ipv6Offset 40 then int (length bs)
      else
        let payloadLength = rawPacketWord bs (ipv6Offset + 4)
        in if payloadLength > 0 \<and> rawPacketHasBytes bs ipv6Offset (40 + payloadLength)
           then ipv6Offset + 40 + payloadLength else int (length bs))"

record UdpTarget =
  udp_destinationPort :: int
  udp_end :: int
  udp_payloadOffset :: int
  udp_sourcePort :: int

text \<open>The callers without a limit pass the number of bytes.\<close>

definition rawPacketUdpTarget :: "bytes \<Rightarrow> int \<Rightarrow> int \<Rightarrow> UdpTarget option" where
  "rawPacketUdpTarget bs udpOffset limit =
     (if \<not> rawPacketHasBytes bs udpOffset 8 \<or> udpOffset + 8 > limit then None
      else
        let udpLength = rawPacketWord bs (udpOffset + 4);
            end = (if udpLength = 0 then limit else udpOffset + udpLength)
        in if end > limit \<or> end > int (length bs) \<or> end < udpOffset + 8 then None
           else Some \<lparr>udp_destinationPort = rawPacketWord bs (udpOffset + 2), udp_end = end,
                      udp_payloadOffset = udpOffset + 8, udp_sourcePort = rawPacketWord bs udpOffset\<rparr>)"

record UpperLayer =
  up_limit :: int
  up_offset :: int

fun findUpperWithin :: "nat \<Rightarrow> bytes \<Rightarrow> int \<Rightarrow> int \<Rightarrow> int \<Rightarrow> int \<Rightarrow> UpperLayer option" where
  "findUpperWithin 0 bs limit protocol nextHeader offset = None"
| "findUpperWithin (Suc n) bs limit protocol nextHeader offset =
     (if nextHeader = protocol then
        (if rawPacketHasBytes bs offset 1 \<and> offset < limit
         then Some \<lparr>up_limit = limit, up_offset = offset\<rparr> else None)
      else case rawIpv6ExtensionHeaderLength bs nextHeader offset of
             None \<Rightarrow> None
           | Some extensionLength \<Rightarrow>
               if offset + extensionLength > limit then None
               else findUpperWithin n bs limit protocol (byteOr 59 bs offset) (offset + extensionLength))"

definition rawPacketIpv6L4Offset :: "bytes \<Rightarrow> int \<Rightarrow> int \<Rightarrow> UpperLayer option" where
  "rawPacketIpv6L4Offset bs ipv6Offset protocol =
     (if \<not> rawPacketHasBytes bs ipv6Offset 40 \<or> js_ushr (byteAt bs ipv6Offset) 4 \<noteq> 6 then None
      else findUpperWithin 8 bs (rawIpv6PacketEnd bs ipv6Offset) protocol
             (byteOr 59 bs (ipv6Offset + 6)) (ipv6Offset + 40))"

record GrePayload =
  grep_payloadOffset :: int
  grep_protocolType :: int

definition rawPacketGrePayloadTarget :: "bytes \<Rightarrow> int \<Rightarrow> GrePayload option" where
  "rawPacketGrePayloadTarget bs greOffset =
     (if \<not> rawPacketHasBytes bs greOffset 4 then None
      else
        let flags = rawPacketWord bs greOffset in
        if js_and flags 0x4000 \<noteq> 0 \<or> js_and flags 0x0007 \<noteq> 0 then None
        else case optionalWord bs (js_and flags 0x8000 \<noteq> 0) (greOffset + 4) of
               None \<Rightarrow> None
             | Some afterChecksum \<Rightarrow>
                 case optionalWord bs (js_and flags 0x2000 \<noteq> 0) afterChecksum of
                   None \<Rightarrow> None
                 | Some afterKey \<Rightarrow>
                     case optionalWord bs (js_and flags 0x1000 \<noteq> 0) afterKey of
                       None \<Rightarrow> None
                     | Some payloadOffset \<Rightarrow>
                         Some \<lparr>grep_payloadOffset = payloadOffset,
                               grep_protocolType = rawPacketWord bs (greOffset + 2)\<rparr>)"

fun skipGtpuExtensions :: "nat \<Rightarrow> bytes \<Rightarrow> int \<Rightarrow> int \<Rightarrow> int \<Rightarrow> int option" where
  "skipGtpuExtensions 0 bs messageEnd nextExtensionHeader payloadOffset = Some payloadOffset"
| "skipGtpuExtensions (Suc n) bs messageEnd nextExtensionHeader payloadOffset =
     (if nextExtensionHeader = 0 then Some payloadOffset
      else if \<not> rawPacketHasBytes bs payloadOffset 1 \<or> payloadOffset + 1 > messageEnd then None
      else
        let extensionByteLength = byteAt bs payloadOffset * 4 in
        if extensionByteLength < 4 \<or> \<not> rawPacketHasBytes bs payloadOffset extensionByteLength
           \<or> payloadOffset + extensionByteLength > messageEnd then None
        else skipGtpuExtensions n bs messageEnd (byteAt bs (payloadOffset + extensionByteLength - 1))
               (payloadOffset + extensionByteLength))"

definition rawPacketGtpuPayloadOffset :: "bytes \<Rightarrow> int \<Rightarrow> int \<Rightarrow> int option" where
  "rawPacketGtpuPayloadOffset bs gtpuOffset limit =
     (if \<not> rawPacketHasBytes bs gtpuOffset 8 \<or> gtpuOffset + 8 > limit then None
      else
        let flags = byteAt bs gtpuOffset in
        if js_ushr flags 5 \<noteq> 1 \<or> js_and flags 0x10 = 0 then None
        else
          let messageLength = rawPacketWord bs (gtpuOffset + 2);
              messageEnd = (if messageLength = 0 then limit else gtpuOffset + 8 + messageLength);
              optional = gtpuOffset + 8
          in if messageEnd > limit \<or> messageEnd > int (length bs) then None
             else if js_and flags 0x07 \<noteq> 0
               \<and> (\<not> rawPacketHasBytes bs optional 4 \<or> optional + 4 > messageEnd) then None
             else
               case (if js_and flags 0x07 \<noteq> 0
                     then skipGtpuExtensions 8 bs messageEnd (byteAt bs (optional + 3)) (optional + 4)
                     else skipGtpuExtensions 8 bs messageEnd 0 optional) of
                 None \<Rightarrow> None
               | Some payloadOffset \<Rightarrow> if payloadOffset < messageEnd then Some payloadOffset else None)"

definition rawPacketIpv4IsFragmented :: "bytes \<Rightarrow> int \<Rightarrow> bool" where
  "rawPacketIpv4IsFragmented bs ipv4Offset \<longleftrightarrow> js_and (rawPacketWord bs (ipv4Offset + 6)) 0x3fff \<noteq> 0"

section \<open>Every step goes forward\<close>

lemma ipv4HeaderLengthD:
  assumes "rawIpv4HeaderLengthAt bs off = Some h"
  shows "20 \<le> h" "h \<le> 60" "rawPacketHasBytes bs off h" "h = nibbleLow bs off * 4"
  using assms by (auto simp: rawIpv4HeaderLengthAt_def Let_def split: if_splits)

lemma ethernetL3D:
  assumes "rawPacketEthernetL3Target bs off = Some e"
  shows "off + 14 \<le> eth_l3Offset e" "rawPacketHasBytes bs off 14"
proof -
  obtain et l3 where v: "skipVlanTags 4 bs (rawPacketWord bs (off + 12)) (off + 14) = (et, l3)"
    by (cases "skipVlanTags 4 bs (rawPacketWord bs (off + 12)) (off + 14)")
  have l3: "off + 14 \<le> l3" "l3 \<le> skipMplsLabels 8 bs l3"
    using skipVlanTags_offset [of "off + 14" 4 bs "rawPacketWord bs (off + 12)"] v
      skipMplsLabels_offset [of l3 8 bs] by simp_all
  have "eth_l3Offset e \<in> {l3, skipMplsLabels 8 bs l3}"
    using assms v by (auto simp: rawPacketEthernetL3Target_def Let_def split: if_split_asm)
  then show "off + 14 \<le> eth_l3Offset e" using l3 by auto
  show "rawPacketHasBytes bs off 14"
    using assms by (simp add: rawPacketEthernetL3Target_def split: if_split_asm)
qed

lemma udpTargetD:
  assumes "rawPacketUdpTarget bs off limit = Some u"
  shows "udp_payloadOffset u = off + 8" "rawPacketHasBytes bs off 8" "off + 8 \<le> udp_end u"
    "udp_end u \<le> limit" "udp_end u \<le> int (length bs)"
  using assms by (auto simp: rawPacketUdpTarget_def Let_def split: if_splits)

lemma grePayloadD:
  assumes "rawPacketGrePayloadTarget bs off = Some g"
  shows "off + 4 \<le> grep_payloadOffset g" "rawPacketHasBytes bs off 4"
  using assms
  by (auto simp: rawPacketGrePayloadTarget_def Let_def split: if_splits option.splits dest!: optionalWord_le)

lemma skipGtpuExtensions_le: "skipGtpuExtensions n bs end next off = Some p \<Longrightarrow> off \<le> p"
proof (induction n arbitrary: "next" off)
  case (Suc n)
  then show ?case
    by (auto simp: Let_def split: if_split_asm dest!: Suc.IH)
qed simp

lemma gtpuPayloadD:
  assumes "rawPacketGtpuPayloadOffset bs off limit = Some p"
  shows "off + 8 \<le> p" "rawPacketHasBytes bs off 8" "p < limit" "p < int (length bs)"
proof -
  obtain k where "skipGtpuExtensions 8 bs (if rawPacketWord bs (off + 2) = 0 then limit
      else off + 8 + rawPacketWord bs (off + 2)) k (off + 8) = Some p
    \<or> skipGtpuExtensions 8 bs (if rawPacketWord bs (off + 2) = 0 then limit
      else off + 8 + rawPacketWord bs (off + 2)) k (off + 8 + 4) = Some p"
    using assms by (auto simp: rawPacketGtpuPayloadOffset_def Let_def split: if_splits option.splits)
  then show "off + 8 \<le> p"
    by (auto dest!: skipGtpuExtensions_le)
  show "rawPacketHasBytes bs off 8" "p < limit" "p < int (length bs)"
    using assms by (auto simp: rawPacketGtpuPayloadOffset_def Let_def split: if_splits option.splits)
qed

lemma findUpperWithinD:
  "findUpperWithin n bs limit protocol next off = Some u
   \<Longrightarrow> off \<le> up_offset u \<and> up_limit u = limit \<and> up_offset u < limit \<and> rawPacketHasBytes bs (up_offset u) 1"
proof (induction n arbitrary: "next" off)
  case (Suc n)
  then show ?case
    by (auto split: if_split_asm option.splits dest!: Suc.IH dest: extensionLength_at(1))
qed simp

lemma ipv6PacketEnd_le: "rawIpv6PacketEnd bs off \<le> int (length bs)"
  by (auto simp: rawIpv6PacketEnd_def Let_def rawPacketHasBytes_def)

lemma ipv6L4D:
  assumes "rawPacketIpv6L4Offset bs off protocol = Some u"
  shows "off + 40 \<le> up_offset u" "up_offset u < up_limit u" "rawPacketHasBytes bs off 40"
    "up_limit u = rawIpv6PacketEnd bs off" "up_limit u \<le> int (length bs)"
    "rawPacketHasBytes bs (up_offset u) 1"
  using assms ipv6PacketEnd_le [of bs off]
  by (auto simp: rawPacketIpv6L4Offset_def split: if_splits dest!: findUpperWithinD)

end
