(* ===== verification/Collectors.thy ===== *)
theory Collectors
  imports PacketWalk
begin

text \<open>
  The collectors of checksum targets. A collector fills a map while it walks the packet and
  returns the map's values in insertion order. Here the walk returns the entries it sets, in
  order, and the map is the association list that \<open>AList.update\<close> builds: an entry set again
  keeps its place and takes the new value, as in a JavaScript \<open>Map\<close>.

  The ICMP, SCTP and transport collectors are the same walk with different leaves. The walk
  takes them as two functions: \<open>leaf4 protocol ipOffset l4Offset limit\<close> is what an IPv4 header
  adds before its payload is followed, \<open>leaf6 ipv6Offset\<close> what an IPv6 header adds. The GRE
  collector adds entries at GRE headers and has its own walk.
\<close>

section \<open>Maps in insertion order\<close>

definition mapValues :: "('k \<times> 'v) list \<Rightarrow> 'v list" where
  "mapValues entries = map snd (foldl (\<lambda>m e. AList.update (fst e) (snd e) m) [] entries)"

lemma set_update: "set (AList.update k v m) \<subseteq> insert (k, v) (set m)"
  by (induction m) auto

lemma set_mapFold:
  "set (foldl (\<lambda>m e. AList.update (fst e) (snd e) m) m entries) \<subseteq> set m \<union> set entries"
proof (induction entries arbitrary: m)
  case (Cons e es)
  have "set (foldl (\<lambda>m e. AList.update (fst e) (snd e) m) (AList.update (fst e) (snd e) m) es)
      \<subseteq> set (AList.update (fst e) (snd e) m) \<union> set es"
    by (rule Cons.IH)
  with set_update [of "fst e" "snd e" m] show ?case by auto
qed simp

lemma set_mapValues: "set (mapValues entries) \<subseteq> snd ` set entries"
  unfolding mapValues_def set_map
  using set_mapFold [of "[]" entries] by (intro image_mono) simp

section \<open>The shared walk\<close>

definition isVxlanUdp :: "UdpTarget \<Rightarrow> bool" where
  "isVxlanUdp udp \<longleftrightarrow> udp_sourcePort udp = 4789 \<or> udp_destinationPort udp = 4789
     \<or> udp_sourcePort udp = 8472 \<or> udp_destinationPort udp = 8472"

definition isGtpuUdp :: "UdpTarget \<Rightarrow> bool" where
  "isGtpuUdp udp \<longleftrightarrow> udp_sourcePort udp = 2152 \<or> udp_destinationPort udp = 2152"

text \<open>
  The IPv4 header a collector goes into: well formed, not a fragment, complete. The result is
  the protocol, the offset behind the header and the end of the packet.
\<close>

definition enterIpv4 :: "bytes \<Rightarrow> int \<Rightarrow> (int \<times> int \<times> int) option" where
  "enterIpv4 bs ipv4Offset =
     (case rawIpv4HeaderLengthAt bs ipv4Offset of
        None \<Rightarrow> None
      | Some headerLength \<Rightarrow>
          if rawPacketIpv4IsFragmented bs ipv4Offset then None
          else
            let totalLength = rawPacketWord bs (ipv4Offset + 2) in
            if totalLength < headerLength \<or> \<not> rawPacketHasBytes bs ipv4Offset totalLength then None
            else Some (byteAt bs (ipv4Offset + 9), ipv4Offset + headerLength, ipv4Offset + totalLength))"

lemma enterIpv4D:
  assumes "enterIpv4 bs off = Some (protocol, l4, limit)"
  shows "off + 20 \<le> l4" "l4 \<le> limit" "limit \<le> int (length bs)" "0 \<le> off" "off < int (length bs)"
    "\<exists>h. rawIpv4HeaderLengthAt bs off = Some h \<and> l4 = off + h"
  using assms
  by (auto simp: enterIpv4_def Let_def rawPacketHasBytes_def split: option.splits if_splits
      dest: ipv4HeaderLengthD(1))

text \<open>Every call is made at a larger offset, and every call of the recursion inside the packet.\<close>

definition bytesLeft :: "bytes \<Rightarrow> int \<Rightarrow> nat" where
  "bytesLeft bs off = nat (int (length bs) - off)"

lemma bytesLeft_less: "rawPacketHasBytes bs off n \<Longrightarrow> off < off' \<Longrightarrow> bytesLeft bs off' < bytesLeft bs off"
  by (auto simp: bytesLeft_def rawPacketHasBytes_def)

lemma enterIpv4_less: "enterIpv4 bs off = Some (p, l4, limit) \<Longrightarrow> bytesLeft bs l4 < bytesLeft bs off"
  using enterIpv4D [of bs off p l4 limit] by (auto simp: bytesLeft_def)

lemma gre_less: "rawPacketGrePayloadTarget bs off = Some g \<Longrightarrow> bytesLeft bs (grep_payloadOffset g) < bytesLeft bs off"
  using grePayloadD [of bs off g] by (auto intro!: bytesLeft_less [of bs off 4])

lemma vxlan_less:
  "rawPacketUdpTarget bs off limit = Some u \<Longrightarrow> rawPacketEthernetL3Target bs (udp_payloadOffset u + 8) = Some e
   \<Longrightarrow> bytesLeft bs (eth_l3Offset e) < bytesLeft bs off"
  using udpTargetD [of bs off limit u] ethernetL3D [of bs "udp_payloadOffset u + 8" e]
  by (auto intro!: bytesLeft_less [of bs off 8])

lemma gtpu_less:
  "rawPacketUdpTarget bs off limit = Some u
   \<Longrightarrow> rawPacketGtpuPayloadOffset bs (udp_payloadOffset u) (udp_end u) = Some p
   \<Longrightarrow> bytesLeft bs p < bytesLeft bs off"
  using udpTargetD [of bs off limit u] gtpuPayloadD [of bs "udp_payloadOffset u" "udp_end u" p]
  by (auto intro!: bytesLeft_less [of bs off 8])

lemma ipv6_less:
  "rawPacketIpv6L4Offset bs off protocol = Some u \<Longrightarrow> bytesLeft bs (up_offset u) < bytesLeft bs off"
  using ipv6L4D [of bs off protocol u] by (auto intro!: bytesLeft_less [of bs off 40])

lemmas walk_less = enterIpv4_less gre_less vxlan_less gtpu_less ipv6_less

function (sequential)
  processGre :: "(int \<Rightarrow> int \<Rightarrow> int \<Rightarrow> int \<Rightarrow> 'e list) \<Rightarrow> (int \<Rightarrow> 'e list) \<Rightarrow> bytes \<Rightarrow> int \<Rightarrow> 'e list"
and processUdpTunnels :: "(int \<Rightarrow> int \<Rightarrow> int \<Rightarrow> int \<Rightarrow> 'e list) \<Rightarrow> (int \<Rightarrow> 'e list) \<Rightarrow> bytes \<Rightarrow> int \<Rightarrow> int \<Rightarrow> 'e list"
and processIpv4 :: "(int \<Rightarrow> int \<Rightarrow> int \<Rightarrow> int \<Rightarrow> 'e list) \<Rightarrow> (int \<Rightarrow> 'e list) \<Rightarrow> bytes \<Rightarrow> int \<Rightarrow> 'e list"
and processIpv6 :: "(int \<Rightarrow> int \<Rightarrow> int \<Rightarrow> int \<Rightarrow> 'e list) \<Rightarrow> (int \<Rightarrow> 'e list) \<Rightarrow> bytes \<Rightarrow> int \<Rightarrow> 'e list"
where
  "processGre leaf4 leaf6 bs greOffset =
     (case rawPacketGrePayloadTarget bs greOffset of
        None \<Rightarrow> []
      | Some gre \<Rightarrow>
          if grep_protocolType gre = 0x0800 then processIpv4 leaf4 leaf6 bs (grep_payloadOffset gre)
          else if grep_protocolType gre = 0x86dd then processIpv6 leaf4 leaf6 bs (grep_payloadOffset gre)
          else [])"
| "processUdpTunnels leaf4 leaf6 bs udpOffset limit =
     (case rawPacketUdpTarget bs udpOffset limit of
        None \<Rightarrow> []
      | Some udp \<Rightarrow>
          (if isVxlanUdp udp then
             (case rawPacketEthernetL3Target bs (udp_payloadOffset udp + 8) of
                None \<Rightarrow> []
              | Some innerL3 \<Rightarrow>
                  if eth_etherType innerL3 = 0x0800 then processIpv4 leaf4 leaf6 bs (eth_l3Offset innerL3)
                  else if eth_etherType innerL3 = 0x86dd then processIpv6 leaf4 leaf6 bs (eth_l3Offset innerL3)
                  else [])
           else [])
          @ (if isGtpuUdp udp then
               (case rawPacketGtpuPayloadOffset bs (udp_payloadOffset udp) (udp_end udp) of
                  None \<Rightarrow> []
                | Some gtpuPayloadOffset \<Rightarrow>
                    if js_ushr (byteAt bs gtpuPayloadOffset) 4 = 4
                    then processIpv4 leaf4 leaf6 bs gtpuPayloadOffset
                    else if js_ushr (byteAt bs gtpuPayloadOffset) 4 = 6
                    then processIpv6 leaf4 leaf6 bs gtpuPayloadOffset
                    else [])
             else []))"
| "processIpv4 leaf4 leaf6 bs ipv4Offset =
     (case enterIpv4 bs ipv4Offset of
        None \<Rightarrow> []
      | Some (protocol, l4Offset, limit) \<Rightarrow>
          leaf4 protocol ipv4Offset l4Offset limit
          @ (if protocol = 47 then processGre leaf4 leaf6 bs l4Offset
             else if protocol = 17 then processUdpTunnels leaf4 leaf6 bs l4Offset limit
             else []))"
| "processIpv6 leaf4 leaf6 bs ipv6Offset =
     (if \<not> rawPacketHasBytes bs ipv6Offset 40 \<or> js_ushr (byteAt bs ipv6Offset) 4 \<noteq> 6 then []
      else
        leaf6 ipv6Offset
        @ (case rawPacketIpv6L4Offset bs ipv6Offset 17 of
             None \<Rightarrow> []
           | Some udpTarget \<Rightarrow>
               processUdpTunnels leaf4 leaf6 bs (up_offset udpTarget) (up_limit udpTarget))
        @ (case rawPacketIpv6L4Offset bs ipv6Offset 47 of
             None \<Rightarrow> []
           | Some greTarget \<Rightarrow> processGre leaf4 leaf6 bs (up_offset greTarget)))"
  by pat_completeness auto

termination
  by (relation "measure (\<lambda>x. case x of
        Inl (Inl (l4, l6, bs, off)) \<Rightarrow> bytesLeft bs off
      | Inl (Inr (l4, l6, bs, off, limit)) \<Rightarrow> bytesLeft bs off
      | Inr (Inl (l4, l6, bs, off)) \<Rightarrow> bytesLeft bs off
      | Inr (Inr (l4, l6, bs, off)) \<Rightarrow> bytesLeft bs off)")
    (auto simp: walk_less)

declare processGre.simps [simp del] processUdpTunnels.simps [simp del] processIpv4.simps [simp del]
  processIpv6.simps [simp del]

text \<open>The start of every collector: the outer Ethernet header.\<close>

definition walkPacket :: "(int \<Rightarrow> int \<Rightarrow> int \<Rightarrow> int \<Rightarrow> 'e list) \<Rightarrow> (int \<Rightarrow> 'e list) \<Rightarrow> bytes \<Rightarrow> 'e list" where
  "walkPacket leaf4 leaf6 bs =
     (case rawPacketEthernetL3Target bs 0 of
        None \<Rightarrow> []
      | Some outer \<Rightarrow>
          if eth_etherType outer = 0x0800 then processIpv4 leaf4 leaf6 bs (eth_l3Offset outer)
          else if eth_etherType outer = 0x86dd then processIpv6 leaf4 leaf6 bs (eth_l3Offset outer)
          else [])"


section \<open>What the walk reaches\<close>

lemma mem_case_option:
  "e \<in> set (case x of None \<Rightarrow> [] | Some y \<Rightarrow> f y) \<longleftrightarrow> (\<exists>y. x = Some y \<and> e \<in> set (f y))"
  by (cases x) auto

lemma mem_if: "e \<in> set (if c then xs else ys) \<longleftrightarrow> (c \<longrightarrow> e \<in> set xs) \<and> (\<not> c \<longrightarrow> e \<in> set ys)"
  by simp

lemmas mem_emitted = mem_case_option mem_if set_append Un_iff

lemma processGre_mem:
  assumes "e \<in> set (processGre leaf4 leaf6 bs off)"
  obtains off' where "off + 4 \<le> off'" "bytesLeft bs off' < bytesLeft bs off"
    "e \<in> set (processIpv4 leaf4 leaf6 bs off') \<or> e \<in> set (processIpv6 leaf4 leaf6 bs off')"
proof (cases "rawPacketGrePayloadTarget bs off")
  case None
  with assms show ?thesis by (simp add: processGre.simps)
next
  case (Some g)
  with assms grePayloadD(1) [OF Some] gre_less [OF Some] that [of "grep_payloadOffset g"] show ?thesis
    by (simp add: processGre.simps [of _ _ bs off] split: if_split_asm)
qed

lemma processUdpTunnels_mem:
  assumes "e \<in> set (processUdpTunnels leaf4 leaf6 bs off limit)"
  obtains off' where "off + 8 \<le> off'" "bytesLeft bs off' < bytesLeft bs off"
    "e \<in> set (processIpv4 leaf4 leaf6 bs off') \<or> e \<in> set (processIpv6 leaf4 leaf6 bs off')"
proof (cases "rawPacketUdpTarget bs off limit")
  case None
  with assms show ?thesis by (simp add: processUdpTunnels.simps)
next
  case (Some u)
  note u = udpTargetD(1) [OF Some]
  consider (vxlan) e' where "rawPacketEthernetL3Target bs (udp_payloadOffset u + 8) = Some e'"
      "e \<in> set (processIpv4 leaf4 leaf6 bs (eth_l3Offset e')) \<or> e \<in> set (processIpv6 leaf4 leaf6 bs (eth_l3Offset e'))"
    | (gtpu) p where "rawPacketGtpuPayloadOffset bs (udp_payloadOffset u) (udp_end u) = Some p"
      "e \<in> set (processIpv4 leaf4 leaf6 bs p) \<or> e \<in> set (processIpv6 leaf4 leaf6 bs p)"
    using assms Some unfolding processUdpTunnels.simps [of _ _ bs off] mem_emitted by auto
  then show ?thesis
  proof cases
    case vxlan
    with vxlan_less [OF Some vxlan(1)] ethernetL3D(1) [OF vxlan(1)] u that [of "eth_l3Offset e'"]
    show ?thesis by simp
  next
    case gtpu
    with gtpu_less [OF Some gtpu(1)] gtpuPayloadD(1) [OF gtpu(1)] u that [of p] show ?thesis by simp
  qed
qed

lemma processIpv4_mem:
  assumes "e \<in> set (processIpv4 leaf4 leaf6 bs off)"
  obtains protocol l4 limit where "enterIpv4 bs off = Some (protocol, l4, limit)"
    "e \<in> set (leaf4 protocol off l4 limit) \<or> e \<in> set (processGre leaf4 leaf6 bs l4)
     \<or> e \<in> set (processUdpTunnels leaf4 leaf6 bs l4 limit)"
proof (cases "enterIpv4 bs off")
  case None
  with assms show ?thesis by (simp add: processIpv4.simps)
next
  case (Some x)
  obtain protocol l4 limit where x: "x = (protocol, l4, limit)" by (cases x)
  with assms Some that [of protocol l4 limit] show ?thesis
    by (auto simp: processIpv4.simps [of _ _ bs off] split: if_split_asm)
qed

lemma processIpv6_mem:
  assumes "e \<in> set (processIpv6 leaf4 leaf6 bs off)"
  obtains "rawPacketHasBytes bs off 40" "e \<in> set (leaf6 off)"
  | off' limit where "rawPacketHasBytes bs off 40" "off + 40 \<le> off'" "bytesLeft bs off' < bytesLeft bs off"
      "e \<in> set (processGre leaf4 leaf6 bs off') \<or> e \<in> set (processUdpTunnels leaf4 leaf6 bs off' limit)"
proof -
  have h: "rawPacketHasBytes bs off 40"
    using assms by (simp add: processIpv6.simps split: if_split_asm)
  from assms consider (leaf) "e \<in> set (leaf6 off)"
    | (next_header) protocol u where "rawPacketIpv6L4Offset bs off protocol = Some u"
      "e \<in> set (processGre leaf4 leaf6 bs (up_offset u))
       \<or> e \<in> set (processUdpTunnels leaf4 leaf6 bs (up_offset u) (up_limit u))"
    unfolding processIpv6.simps [of _ _ bs off] mem_emitted using h by auto
  then show ?thesis
  proof cases
    case leaf
    from that(1) [OF h leaf] show ?thesis .
  next
    case next_header
    from that(2) [OF h ipv6L4D(1) [OF next_header(1)] ipv6_less [OF next_header(1)] next_header(2)]
    show ?thesis .
  qed
qed

text \<open>
  The contract of a collector's leaves: what a header at some offset adds lies behind that
  header and is \<open>ok\<close>. The walk then adds nothing else.
\<close>

locale checksum_walk =
  fixes leaf4 :: "bytes \<Rightarrow> int \<Rightarrow> int \<Rightarrow> int \<Rightarrow> int \<Rightarrow> ('k \<times> 't) list"
    and leaf6 :: "bytes \<Rightarrow> int \<Rightarrow> ('k \<times> 't) list"
    and place :: "'k \<times> 't \<Rightarrow> int"
    and ok :: "bytes \<Rightarrow> 'k \<times> 't \<Rightarrow> bool"
  assumes leaf4_ok: "enterIpv4 bs ip = Some (protocol, l4, limit) \<Longrightarrow> e \<in> set (leaf4 bs protocol ip l4 limit)
      \<Longrightarrow> ok bs e \<and> l4 \<le> place e"
    and leaf6_ok: "rawPacketHasBytes bs ip 40 \<Longrightarrow> e \<in> set (leaf6 bs ip) \<Longrightarrow> ok bs e \<and> ip + 40 \<le> place e"
begin

lemma process_ok:
  "(e \<in> set (processGre (leaf4 bs) (leaf6 bs) bs off) \<longrightarrow> ok bs e \<and> off \<le> place e)
   \<and> (\<forall>limit. e \<in> set (processUdpTunnels (leaf4 bs) (leaf6 bs) bs off limit) \<longrightarrow> ok bs e \<and> off \<le> place e)
   \<and> (e \<in> set (processIpv4 (leaf4 bs) (leaf6 bs) bs off) \<longrightarrow> ok bs e
        \<and> (\<exists>h. rawIpv4HeaderLengthAt bs off = Some h \<and> off + h \<le> place e))
   \<and> (e \<in> set (processIpv6 (leaf4 bs) (leaf6 bs) bs off) \<longrightarrow> ok bs e \<and> off + 40 \<le> place e)"
proof (induction "bytesLeft bs off" arbitrary: off rule: less_induct)
  case less
  have down: "ok bs e \<and> off' \<le> place e"
    if "bytesLeft bs off' < bytesLeft bs off"
      "e \<in> set (processIpv4 (leaf4 bs) (leaf6 bs) bs off') \<or> e \<in> set (processIpv6 (leaf4 bs) (leaf6 bs) bs off')"
    for off'
    using less [OF that(1)] that(2) by (auto dest: ipv4HeaderLengthD(1))
  have up: "ok bs e \<and> off' \<le> place e"
    if "bytesLeft bs off' < bytesLeft bs off"
      "e \<in> set (processGre (leaf4 bs) (leaf6 bs) bs off')
       \<or> e \<in> set (processUdpTunnels (leaf4 bs) (leaf6 bs) bs off' limit)"
    for off' limit
    using less [OF that(1)] that(2) by blast
  show ?case
  proof (intro conjI allI impI)
    assume "e \<in> set (processGre (leaf4 bs) (leaf6 bs) bs off)"
    then obtain off' where "off + 4 \<le> off'" "ok bs e \<and> off' \<le> place e"
      by (rule processGre_mem) (rule that, assumption, rule down)
    then show "ok bs e" "off \<le> place e" by simp_all
  next
    fix limit
    assume "e \<in> set (processUdpTunnels (leaf4 bs) (leaf6 bs) bs off limit)"
    then obtain off' where "off + 8 \<le> off'" "ok bs e \<and> off' \<le> place e"
      by (rule processUdpTunnels_mem) (rule that, assumption, rule down)
    then show "ok bs e" "off \<le> place e" by simp_all
  next
    assume "e \<in> set (processIpv4 (leaf4 bs) (leaf6 bs) bs off)"
    then obtain protocol l4 limit where v4: "enterIpv4 bs off = Some (protocol, l4, limit)"
      "e \<in> set (leaf4 bs protocol off l4 limit) \<or> e \<in> set (processGre (leaf4 bs) (leaf6 bs) bs l4)
       \<or> e \<in> set (processUdpTunnels (leaf4 bs) (leaf6 bs) bs l4 limit)"
      by (rule processIpv4_mem)
    then have "ok bs e \<and> l4 \<le> place e"
      using leaf4_ok [OF v4(1)] up [OF enterIpv4_less [OF v4(1)], of limit] by blast
    with enterIpv4D(6) [OF v4(1)]
    show "ok bs e" "\<exists>h. rawIpv4HeaderLengthAt bs off = Some h \<and> off + h \<le> place e" by auto
  next
    assume "e \<in> set (processIpv6 (leaf4 bs) (leaf6 bs) bs off)"
    then have "ok bs e \<and> off + 40 \<le> place e"
    proof (cases rule: processIpv6_mem)
      case 1
      then show ?thesis by (rule leaf6_ok)
    next
      case (2 off' limit)
      with up [OF 2(3,4)] show ?thesis by auto
    qed
    then show "ok bs e" "off + 40 \<le> place e" by simp_all
  qed
qed

lemma walk_ok:
  assumes "e \<in> set (walkPacket (leaf4 bs) (leaf6 bs) bs)"
  shows "ok bs e" "34 \<le> place e"
proof -
  obtain o' where o: "rawPacketEthernetL3Target bs 0 = Some o'"
    using assms by (cases "rawPacketEthernetL3Target bs 0") (simp_all add: walkPacket_def)
  have "14 \<le> eth_l3Offset o'" using ethernetL3D(1) [OF o] by simp
  moreover have "e \<in> set (processIpv4 (leaf4 bs) (leaf6 bs) bs (eth_l3Offset o'))
    \<or> e \<in> set (processIpv6 (leaf4 bs) (leaf6 bs) bs (eth_l3Offset o'))"
    using assms o by (auto simp: walkPacket_def split: if_split_asm)
  ultimately show "ok bs e" "34 \<le> place e"
    using process_ok [of e bs "eth_l3Offset o'"] by (auto dest: ipv4HeaderLengthD(1))
qed

text \<open>Behind a well-formed outer IPv4 header nothing is added inside that header.\<close>

lemma walk_behind_outer_ipv4:
  assumes "e \<in> set (walkPacket (leaf4 bs) (leaf6 bs) bs)" "rawPacketEthernetL3Target bs 0 = Some o'"
    "eth_etherType o' = 0x0800" "rawIpv4HeaderLengthAt bs (eth_l3Offset o') = Some h"
  shows "eth_l3Offset o' + h \<le> place e"
  using assms process_ok [of e bs "eth_l3Offset o'"] by (auto simp: walkPacket_def)

lemma collected:
  assumes "t \<in> set (mapValues (walkPacket (leaf4 bs) (leaf6 bs) bs))"
  shows "\<exists>e. t = snd e \<and> e \<in> set (walkPacket (leaf4 bs) (leaf6 bs) bs) \<and> ok bs e \<and> 34 \<le> place e"
proof -
  obtain e where "t = snd e" "e \<in> set (walkPacket (leaf4 bs) (leaf6 bs) bs)"
    using subsetD [OF set_mapValues assms] by blast
  with walk_ok [OF this(2)] show ?thesis by blast
qed

end

section \<open>IPv4 headers\<close>

text \<open>
  This collector goes one tunnel deep and follows IPv4 only: it returns the offsets of the outer
  IPv4 header and of the IPv4 header in its GRE, VXLAN or GTP-U payload. The set of offsets in
  insertion order is the list with later duplicates removed.
\<close>

definition addIpv4Offset :: "bytes \<Rightarrow> int \<Rightarrow> int list" where
  "addIpv4Offset bs offset = (if rawIpv4HeaderLengthAt bs offset = None then [] else [offset])"

definition ipv4InGre :: "bytes \<Rightarrow> int \<Rightarrow> int list" where
  "ipv4InGre bs greOffset =
     (case rawPacketGrePayloadTarget bs greOffset of
        None \<Rightarrow> []
      | Some gre \<Rightarrow>
          if grep_protocolType gre = 0x0800 then addIpv4Offset bs (grep_payloadOffset gre) else [])"

definition ipv4InUdpTunnels :: "bytes \<Rightarrow> int \<Rightarrow> int \<Rightarrow> int list" where
  "ipv4InUdpTunnels bs udpOffset limit =
     (case rawPacketUdpTarget bs udpOffset limit of
        None \<Rightarrow> []
      | Some udp \<Rightarrow>
          (if isVxlanUdp udp then
             (case rawPacketEthernetL3Target bs (udp_payloadOffset udp + 8) of
                None \<Rightarrow> []
              | Some innerL3 \<Rightarrow>
                  if eth_etherType innerL3 = 0x0800 then addIpv4Offset bs (eth_l3Offset innerL3) else [])
           else [])
          @ (if isGtpuUdp udp then
               (case rawPacketGtpuPayloadOffset bs (udp_payloadOffset udp) (udp_end udp) of
                  None \<Rightarrow> []
                | Some gtpuPayloadOffset \<Rightarrow> addIpv4Offset bs gtpuPayloadOffset)
             else []))"

text \<open>\<open>new Set\<close> keeps the first insertion of each element.\<close>

definition insertionOrder :: "'a list \<Rightarrow> 'a list" where
  "insertionOrder xs = foldl (\<lambda>acc x. if x \<in> set acc then acc else acc @ [x]) [] xs"

definition collectRawPacketIpv4HeaderOffsets :: "bytes \<Rightarrow> int list" where
  "collectRawPacketIpv4HeaderOffsets bs =
     insertionOrder
       (case rawPacketEthernetL3Target bs 0 of
          None \<Rightarrow> []
        | Some outer \<Rightarrow>
            let l3Offset = eth_l3Offset outer in
            if eth_etherType outer = 0x0800 then
              (case rawIpv4HeaderLengthAt bs l3Offset of
                 None \<Rightarrow> []
               | Some headerLength \<Rightarrow>
                   addIpv4Offset bs l3Offset
                   @ (if byteAt bs (l3Offset + 9) = 47 then ipv4InGre bs (l3Offset + headerLength)
                      else if byteAt bs (l3Offset + 9) = 17
                      then ipv4InUdpTunnels bs (l3Offset + headerLength)
                             (rawIpv4PacketEnd bs l3Offset headerLength)
                      else []))
            else if eth_etherType outer = 0x86dd \<and> rawPacketHasBytes bs l3Offset 40 then
              (case rawPacketIpv6L4Offset bs l3Offset 47 of
                 None \<Rightarrow> [] | Some greTarget \<Rightarrow> ipv4InGre bs (up_offset greTarget))
              @ (case rawPacketIpv6L4Offset bs l3Offset 17 of
                   None \<Rightarrow> []
                 | Some udpTarget \<Rightarrow> ipv4InUdpTunnels bs (up_offset udpTarget) (up_limit udpTarget))
            else [])"

section \<open>ICMP\<close>

record RawPacketIcmpChecksumTarget =
  icmp_checksumOffset :: int
  icmp_icmpOffset :: int
  icmp_ipOffset :: int
  icmp_ipVersion :: int
  icmp_length :: int

text \<open>The map's key \<open>ipVersion:icmpOffset\<close> is the pair of the two.\<close>

definition addIcmpTarget :: "bytes \<Rightarrow> int \<Rightarrow> int \<Rightarrow> int \<Rightarrow> int
    \<Rightarrow> ((int \<times> int) \<times> RawPacketIcmpChecksumTarget) list" where
  "addIcmpTarget bs ipVersion ipOffset icmpOffset limit =
     (if limit > int (length bs) \<or> icmpOffset + 4 > limit \<or> \<not> rawPacketHasBytes bs icmpOffset 4 then []
      else [((ipVersion, icmpOffset),
             \<lparr>icmp_checksumOffset = icmpOffset + 2, icmp_icmpOffset = icmpOffset, icmp_ipOffset = ipOffset,
              icmp_ipVersion = ipVersion, icmp_length = limit - icmpOffset\<rparr>)])"

definition icmpLeaf4 :: "bytes \<Rightarrow> int \<Rightarrow> int \<Rightarrow> int \<Rightarrow> int
    \<Rightarrow> ((int \<times> int) \<times> RawPacketIcmpChecksumTarget) list" where
  "icmpLeaf4 bs protocol ipv4Offset l4Offset limit =
     (if protocol = 1 then addIcmpTarget bs 4 ipv4Offset l4Offset limit else [])"

definition icmpLeaf6 :: "bytes \<Rightarrow> int \<Rightarrow> ((int \<times> int) \<times> RawPacketIcmpChecksumTarget) list" where
  "icmpLeaf6 bs ipv6Offset =
     (case rawPacketIpv6L4Offset bs ipv6Offset 58 of
        None \<Rightarrow> []
      | Some icmpTarget \<Rightarrow> addIcmpTarget bs 6 ipv6Offset (up_offset icmpTarget) (up_limit icmpTarget))"

definition collectRawPacketIcmpChecksumTargets :: "bytes \<Rightarrow> RawPacketIcmpChecksumTarget list" where
  "collectRawPacketIcmpChecksumTargets bs = mapValues (walkPacket (icmpLeaf4 bs) (icmpLeaf6 bs) bs)"

section \<open>SCTP\<close>

record RawPacketSctpChecksumTarget =
  sctpt_checksumOffset :: int
  sctpt_length :: int
  sctpt_sctpOffset :: int

definition addSctpTarget :: "bytes \<Rightarrow> int \<Rightarrow> int \<Rightarrow> (int \<times> RawPacketSctpChecksumTarget) list" where
  "addSctpTarget bs sctpOffset limit =
     (if limit > int (length bs) \<or> sctpOffset + 12 > limit \<or> \<not> rawPacketHasBytes bs sctpOffset 12 then []
      else [(sctpOffset,
             \<lparr>sctpt_checksumOffset = sctpOffset + 8, sctpt_length = limit - sctpOffset,
              sctpt_sctpOffset = sctpOffset\<rparr>)])"

definition sctpLeaf4 :: "bytes \<Rightarrow> int \<Rightarrow> int \<Rightarrow> int \<Rightarrow> int \<Rightarrow> (int \<times> RawPacketSctpChecksumTarget) list" where
  "sctpLeaf4 bs protocol ipv4Offset l4Offset limit =
     (if protocol = 132 then addSctpTarget bs l4Offset limit else [])"

definition sctpLeaf6 :: "bytes \<Rightarrow> int \<Rightarrow> (int \<times> RawPacketSctpChecksumTarget) list" where
  "sctpLeaf6 bs ipv6Offset =
     (case rawPacketIpv6L4Offset bs ipv6Offset 132 of
        None \<Rightarrow> []
      | Some sctpTarget \<Rightarrow> addSctpTarget bs (up_offset sctpTarget) (up_limit sctpTarget))"

definition collectRawPacketSctpChecksumTargets :: "bytes \<Rightarrow> RawPacketSctpChecksumTarget list" where
  "collectRawPacketSctpChecksumTargets bs = mapValues (walkPacket (sctpLeaf4 bs) (sctpLeaf6 bs) bs)"

section \<open>TCP and UDP\<close>

record RawPacketTransportChecksumTarget =
  trt_checksumOffset :: int
  trt_ipOffset :: int
  trt_ipVersion :: int
  trt_l4Offset :: int
  trt_length :: int
  trt_protocol :: int

definition addTransportTarget :: "bytes \<Rightarrow> int \<Rightarrow> int \<Rightarrow> int \<Rightarrow> int \<Rightarrow> int
    \<Rightarrow> ((int \<times> int) \<times> RawPacketTransportChecksumTarget) list" where
  "addTransportTarget bs ipVersion ipOffset protocol l4Offset limit =
     (if limit > int (length bs) \<or> l4Offset \<ge> limit then []
      else if protocol = 17 then
        (case rawPacketUdpTarget bs l4Offset limit of
           None \<Rightarrow> []
         | Some udp \<Rightarrow>
             if ipVersion = 4 \<and> rawPacketWord bs (l4Offset + 6) = 0 then []
             else [((protocol, l4Offset),
                    \<lparr>trt_checksumOffset = l4Offset + 6, trt_ipOffset = ipOffset, trt_ipVersion = ipVersion,
                     trt_l4Offset = l4Offset, trt_length = udp_end udp - l4Offset,
                     trt_protocol = protocol\<rparr>)])
      else
        (case rawPacketTcpHeaderOffset bs l4Offset (Some limit) of
           None \<Rightarrow> []
         | Some tcpOffset \<Rightarrow>
             [((protocol, l4Offset),
               \<lparr>trt_checksumOffset = l4Offset + 16, trt_ipOffset = ipOffset, trt_ipVersion = ipVersion,
                trt_l4Offset = l4Offset, trt_length = limit - l4Offset, trt_protocol = protocol\<rparr>)]))"

definition transportLeaf4 :: "bytes \<Rightarrow> int \<Rightarrow> int \<Rightarrow> int \<Rightarrow> int
    \<Rightarrow> ((int \<times> int) \<times> RawPacketTransportChecksumTarget) list" where
  "transportLeaf4 bs protocol ipv4Offset l4Offset limit =
     (if protocol = 6 \<or> protocol = 17 then addTransportTarget bs 4 ipv4Offset protocol l4Offset limit else [])"

definition transportLeaf6 :: "bytes \<Rightarrow> int \<Rightarrow> ((int \<times> int) \<times> RawPacketTransportChecksumTarget) list" where
  "transportLeaf6 bs ipv6Offset =
     (case rawPacketIpv6L4Offset bs ipv6Offset 6 of
        None \<Rightarrow> []
      | Some tcpTarget \<Rightarrow> addTransportTarget bs 6 ipv6Offset 6 (up_offset tcpTarget) (up_limit tcpTarget))
     @ (case rawPacketIpv6L4Offset bs ipv6Offset 17 of
          None \<Rightarrow> []
        | Some udpTarget \<Rightarrow> addTransportTarget bs 6 ipv6Offset 17 (up_offset udpTarget) (up_limit udpTarget))"

definition collectRawPacketTransportChecksumTargets :: "bytes \<Rightarrow> RawPacketTransportChecksumTarget list" where
  "collectRawPacketTransportChecksumTargets bs =
     mapValues (walkPacket (transportLeaf4 bs) (transportLeaf6 bs) bs)"

section \<open>The collectors keep the contract\<close>

definition icmpSound :: "bytes \<Rightarrow> (int \<times> int) \<times> RawPacketIcmpChecksumTarget \<Rightarrow> bool" where
  "icmpSound bs e \<longleftrightarrow>
     (let t = snd e in
      fst e = (icmp_ipVersion t, icmp_icmpOffset t) \<and> icmp_ipVersion t \<in> {4, 6}
      \<and> icmp_checksumOffset t = icmp_icmpOffset t + 2 \<and> 4 \<le> icmp_length t
      \<and> rawPacketHasBytes bs (icmp_icmpOffset t) (icmp_length t)
      \<and> 0 \<le> icmp_ipOffset t
      \<and> icmp_ipOffset t + (if icmp_ipVersion t = 6 then 40 else 20) \<le> icmp_icmpOffset t)"

definition sctpSound :: "bytes \<Rightarrow> int \<times> RawPacketSctpChecksumTarget \<Rightarrow> bool" where
  "sctpSound bs e \<longleftrightarrow>
     (let t = snd e in
      fst e = sctpt_sctpOffset t \<and> sctpt_checksumOffset t = sctpt_sctpOffset t + 8 \<and> 12 \<le> sctpt_length t
      \<and> rawPacketHasBytes bs (sctpt_sctpOffset t) (sctpt_length t))"

definition transportSound :: "bytes \<Rightarrow> (int \<times> int) \<times> RawPacketTransportChecksumTarget \<Rightarrow> bool" where
  "transportSound bs e \<longleftrightarrow>
     (let t = snd e in
      fst e = (trt_protocol t, trt_l4Offset t) \<and> trt_ipVersion t \<in> {4, 6} \<and> trt_protocol t \<in> {6, 17}
      \<and> trt_checksumOffset t = trt_l4Offset t + (if trt_protocol t = 17 then 6 else 16)
      \<and> (if trt_protocol t = 17 then 8 else 20) \<le> trt_length t
      \<and> rawPacketHasBytes bs (trt_l4Offset t) (trt_length t)
      \<and> 0 \<le> trt_ipOffset t
      \<and> trt_ipOffset t + (if trt_ipVersion t = 6 then 40 else 20) \<le> trt_l4Offset t)"

lemma addIcmpTarget_sound:
  assumes "e \<in> set (addIcmpTarget bs v ip off limit)" "v \<in> {4, 6}" "0 \<le> ip"
    "ip + (if v = 6 then 40 else 20) \<le> off"
  shows "icmpSound bs e \<and> icmp_icmpOffset (snd e) = off"
  using assms by (auto simp: addIcmpTarget_def icmpSound_def rawPacketHasBytes_def split: if_split_asm)

lemma addSctpTarget_sound:
  assumes "e \<in> set (addSctpTarget bs off limit)"
  shows "sctpSound bs e \<and> sctpt_sctpOffset (snd e) = off"
  using assms by (auto simp: addSctpTarget_def sctpSound_def rawPacketHasBytes_def split: if_split_asm)

lemma addTransportTarget_sound:
  assumes "e \<in> set (addTransportTarget bs v ip protocol off limit)" "v \<in> {4, 6}" "protocol \<in> {6, 17}"
    "0 \<le> ip" "ip + (if v = 6 then 40 else 20) \<le> off"
  shows "transportSound bs e \<and> trt_l4Offset (snd e) = off"
proof (cases "protocol = 17")
  case True
  with assms(1) obtain u where "rawPacketUdpTarget bs off limit = Some u"
    by (cases "rawPacketUdpTarget bs off limit") (simp_all add: addTransportTarget_def split: if_split_asm)
  with True assms udpTargetD [OF this] show ?thesis
    by (auto simp: addTransportTarget_def transportSound_def rawPacketHasBytes_def split: if_split_asm)
next
  case False
  with assms(1) obtain p where "rawPacketTcpHeaderOffset bs off (Some limit) = Some p"
    by (cases "rawPacketTcpHeaderOffset bs off (Some limit)")
       (simp_all add: addTransportTarget_def split: if_split_asm)
  with False assms tcpHeaderOffset_at [OF this] show ?thesis
    by (auto simp: addTransportTarget_def transportSound_def rawPacketHasBytes_def split: if_split_asm)
qed

interpretation icmp_walk: checksum_walk icmpLeaf4 icmpLeaf6 "\<lambda>e. icmp_icmpOffset (snd e)" icmpSound
proof unfold_locales
  fix bs ip protocol l4 limit and e :: "(int \<times> int) \<times> RawPacketIcmpChecksumTarget"
  assume v4: "enterIpv4 bs ip = Some (protocol, l4, limit)" and "e \<in> set (icmpLeaf4 bs protocol ip l4 limit)"
  then show "icmpSound bs e \<and> l4 \<le> icmp_icmpOffset (snd e)"
    using addIcmpTarget_sound [of e bs 4 ip l4 limit] enterIpv4D [OF v4]
    by (simp add: icmpLeaf4_def split: if_split_asm)
next
  fix bs ip and e :: "(int \<times> int) \<times> RawPacketIcmpChecksumTarget"
  assume "rawPacketHasBytes bs ip 40" "e \<in> set (icmpLeaf6 bs ip)"
  then obtain u where u: "rawPacketIpv6L4Offset bs ip 58 = Some u"
    "e \<in> set (addIcmpTarget bs 6 ip (up_offset u) (up_limit u))"
    unfolding icmpLeaf6_def mem_emitted by blast
  then show "icmpSound bs e \<and> ip + 40 \<le> icmp_icmpOffset (snd e)"
    using addIcmpTarget_sound [OF u(2)] ipv6L4D [OF u(1)] by (simp add: rawPacketHasBytes_def)
qed

interpretation sctp_walk: checksum_walk sctpLeaf4 sctpLeaf6 "\<lambda>e. sctpt_sctpOffset (snd e)" sctpSound
proof unfold_locales
  fix bs ip protocol l4 limit and e :: "int \<times> RawPacketSctpChecksumTarget"
  assume "e \<in> set (sctpLeaf4 bs protocol ip l4 limit)"
  then show "sctpSound bs e \<and> l4 \<le> sctpt_sctpOffset (snd e)"
    using addSctpTarget_sound [of e bs l4 limit] by (simp add: sctpLeaf4_def split: if_split_asm)
next
  fix bs ip and e :: "int \<times> RawPacketSctpChecksumTarget"
  assume "e \<in> set (sctpLeaf6 bs ip)"
  then obtain u where u: "rawPacketIpv6L4Offset bs ip 132 = Some u"
    "e \<in> set (addSctpTarget bs (up_offset u) (up_limit u))"
    unfolding sctpLeaf6_def mem_emitted by blast
  then show "sctpSound bs e \<and> ip + 40 \<le> sctpt_sctpOffset (snd e)"
    using addSctpTarget_sound [OF u(2)] ipv6L4D [OF u(1)] by simp
qed

interpretation transport_walk:
  checksum_walk transportLeaf4 transportLeaf6 "\<lambda>e. trt_l4Offset (snd e)" transportSound
proof unfold_locales
  fix bs ip protocol l4 limit and e :: "(int \<times> int) \<times> RawPacketTransportChecksumTarget"
  assume v4: "enterIpv4 bs ip = Some (protocol, l4, limit)" and "e \<in> set (transportLeaf4 bs protocol ip l4 limit)"
  then show "transportSound bs e \<and> l4 \<le> trt_l4Offset (snd e)"
    using addTransportTarget_sound [of e bs 4 ip protocol l4 limit] enterIpv4D [OF v4]
    by (auto simp: transportLeaf4_def split: if_split_asm)
next
  fix bs ip and e :: "(int \<times> int) \<times> RawPacketTransportChecksumTarget"
  assume "rawPacketHasBytes bs ip 40" "e \<in> set (transportLeaf6 bs ip)"
  then obtain u protocol where u: "rawPacketIpv6L4Offset bs ip protocol = Some u" "protocol \<in> {6, 17}"
    "e \<in> set (addTransportTarget bs 6 ip protocol (up_offset u) (up_limit u))"
    unfolding transportLeaf6_def mem_emitted by blast
  then show "transportSound bs e \<and> ip + 40 \<le> trt_l4Offset (snd e)"
    using addTransportTarget_sound [OF u(3)] ipv6L4D [OF u(1)] by (auto simp: rawPacketHasBytes_def)
qed

end
