(* ===== verification/GreCollector.thy ===== *)
theory GreCollector
  imports Collectors
begin

text \<open>
  The collector of GRE checksum targets. Its walk visits the same headers as the shared one, but
  it adds entries at the GRE headers, it passes the end of the packet down to them, and over
  IPv6 it takes GRE before UDP.
\<close>

record RawPacketGreChecksumTarget =
  gret_checksumOffset :: int
  gret_greOffset :: int
  gret_length :: int

definition addGreTarget :: "bytes \<Rightarrow> int \<Rightarrow> int \<Rightarrow> (int \<times> RawPacketGreChecksumTarget) list" where
  "addGreTarget bs greOffset limit =
     (if limit > int (length bs) \<or> greOffset + 8 > limit \<or> \<not> rawPacketHasBytes bs greOffset 8
         \<or> js_and (rawPacketWord bs greOffset) 0x8000 = 0 then []
      else [(greOffset,
             \<lparr>gret_checksumOffset = greOffset + 4, gret_greOffset = greOffset,
              gret_length = limit - greOffset\<rparr>)])"

function (sequential)
  greProcessGre :: "bytes \<Rightarrow> int \<Rightarrow> int \<Rightarrow> (int \<times> RawPacketGreChecksumTarget) list"
and greProcessUdpTunnels :: "bytes \<Rightarrow> int \<Rightarrow> int \<Rightarrow> (int \<times> RawPacketGreChecksumTarget) list"
and greProcessIpv4 :: "bytes \<Rightarrow> int \<Rightarrow> (int \<times> RawPacketGreChecksumTarget) list"
and greProcessIpv6 :: "bytes \<Rightarrow> int \<Rightarrow> (int \<times> RawPacketGreChecksumTarget) list"
where
  "greProcessGre bs greOffset limit =
     (case rawPacketGrePayloadTarget bs greOffset of
        None \<Rightarrow> []
      | Some gre \<Rightarrow>
          if grep_payloadOffset gre \<ge> limit then []
          else
            addGreTarget bs greOffset limit
            @ (if grep_protocolType gre = 0x0800 then greProcessIpv4 bs (grep_payloadOffset gre)
               else if grep_protocolType gre = 0x86dd then greProcessIpv6 bs (grep_payloadOffset gre)
               else []))"
| "greProcessUdpTunnels bs udpOffset limit =
     (case rawPacketUdpTarget bs udpOffset limit of
        None \<Rightarrow> []
      | Some udp \<Rightarrow>
          (if isVxlanUdp udp then
             (case rawPacketEthernetL3Target bs (udp_payloadOffset udp + 8) of
                None \<Rightarrow> []
              | Some innerL3 \<Rightarrow>
                  if eth_etherType innerL3 = 0x0800 then greProcessIpv4 bs (eth_l3Offset innerL3)
                  else if eth_etherType innerL3 = 0x86dd then greProcessIpv6 bs (eth_l3Offset innerL3)
                  else [])
           else [])
          @ (if isGtpuUdp udp then
               (case rawPacketGtpuPayloadOffset bs (udp_payloadOffset udp) (udp_end udp) of
                  None \<Rightarrow> []
                | Some gtpuPayloadOffset \<Rightarrow>
                    if js_ushr (byteAt bs gtpuPayloadOffset) 4 = 4 then greProcessIpv4 bs gtpuPayloadOffset
                    else if js_ushr (byteAt bs gtpuPayloadOffset) 4 = 6 then greProcessIpv6 bs gtpuPayloadOffset
                    else [])
             else []))"
| "greProcessIpv4 bs ipv4Offset =
     (case enterIpv4 bs ipv4Offset of
        None \<Rightarrow> []
      | Some (protocol, l4Offset, limit) \<Rightarrow>
          if protocol = 47 then greProcessGre bs l4Offset limit
          else if protocol = 17 then greProcessUdpTunnels bs l4Offset limit
          else [])"
| "greProcessIpv6 bs ipv6Offset =
     (if \<not> rawPacketHasBytes bs ipv6Offset 40 \<or> js_ushr (byteAt bs ipv6Offset) 4 \<noteq> 6 then []
      else
        (case rawPacketIpv6L4Offset bs ipv6Offset 47 of
           None \<Rightarrow> []
         | Some greTarget \<Rightarrow> greProcessGre bs (up_offset greTarget) (up_limit greTarget))
        @ (case rawPacketIpv6L4Offset bs ipv6Offset 17 of
             None \<Rightarrow> []
           | Some udpTarget \<Rightarrow> greProcessUdpTunnels bs (up_offset udpTarget) (up_limit udpTarget)))"
  by pat_completeness auto

termination
  by (relation "measure (\<lambda>x. case x of
        Inl (Inl (bs, off, limit)) \<Rightarrow> bytesLeft bs off
      | Inl (Inr (bs, off, limit)) \<Rightarrow> bytesLeft bs off
      | Inr (Inl (bs, off)) \<Rightarrow> bytesLeft bs off
      | Inr (Inr (bs, off)) \<Rightarrow> bytesLeft bs off)")
    (auto simp: walk_less)

declare greProcessGre.simps [simp del] greProcessUdpTunnels.simps [simp del]
  greProcessIpv4.simps [simp del] greProcessIpv6.simps [simp del]

definition collectRawPacketGreChecksumTargets :: "bytes \<Rightarrow> RawPacketGreChecksumTarget list" where
  "collectRawPacketGreChecksumTargets bs =
     mapValues
       (case rawPacketEthernetL3Target bs 0 of
          None \<Rightarrow> []
        | Some outer \<Rightarrow>
            if eth_etherType outer = 0x0800 then greProcessIpv4 bs (eth_l3Offset outer)
            else if eth_etherType outer = 0x86dd then greProcessIpv6 bs (eth_l3Offset outer)
            else [])"

section \<open>Its entries lie in the packet\<close>

definition greSound :: "bytes \<Rightarrow> int \<times> RawPacketGreChecksumTarget \<Rightarrow> bool" where
  "greSound bs e \<longleftrightarrow>
     (let t = snd e in
      fst e = gret_greOffset t \<and> gret_checksumOffset t = gret_greOffset t + 4 \<and> 8 \<le> gret_length t
      \<and> rawPacketHasBytes bs (gret_greOffset t) (gret_length t))"

lemma addGreTarget_sound:
  assumes "e \<in> set (addGreTarget bs off limit)"
  shows "greSound bs e \<and> gret_greOffset (snd e) = off"
  using assms by (auto simp: addGreTarget_def greSound_def rawPacketHasBytes_def split: if_split_asm)

lemma greProcess_ok:
  "(\<forall>limit. e \<in> set (greProcessGre bs off limit) \<longrightarrow> greSound bs e \<and> off \<le> gret_greOffset (snd e))
   \<and> (\<forall>limit. e \<in> set (greProcessUdpTunnels bs off limit) \<longrightarrow> greSound bs e \<and> off \<le> gret_greOffset (snd e))
   \<and> (e \<in> set (greProcessIpv4 bs off) \<longrightarrow> greSound bs e
        \<and> (\<exists>h. rawIpv4HeaderLengthAt bs off = Some h \<and> off + h \<le> gret_greOffset (snd e)))
   \<and> (e \<in> set (greProcessIpv6 bs off) \<longrightarrow> greSound bs e \<and> off + 40 \<le> gret_greOffset (snd e))"
proof (induction "bytesLeft bs off" arbitrary: off rule: less_induct)
  case less
  let ?P = "\<lambda>off'. greSound bs e \<and> off' \<le> gret_greOffset (snd e)"
  have down: "?P off'"
    if "bytesLeft bs off' < bytesLeft bs off" "e \<in> set (greProcessIpv4 bs off') \<or> e \<in> set (greProcessIpv6 bs off')"
    for off'
    using less [OF that(1)] that(2) by (auto dest: ipv4HeaderLengthD(1))
  have up: "?P off'"
    if "bytesLeft bs off' < bytesLeft bs off"
      "e \<in> set (greProcessGre bs off' limit) \<or> e \<in> set (greProcessUdpTunnels bs off' limit)"
    for off' limit
    using less [OF that(1)] that(2) by blast
  show ?case
  proof (intro conjI allI impI)
    fix limit
    assume e: "e \<in> set (greProcessGre bs off limit)"
    then obtain g where g: "rawPacketGrePayloadTarget bs off = Some g"
      "e \<in> set (addGreTarget bs off limit) \<or> e \<in> set (greProcessIpv4 bs (grep_payloadOffset g))
       \<or> e \<in> set (greProcessIpv6 bs (grep_payloadOffset g))"
      unfolding greProcessGre.simps [of bs off] mem_emitted by auto
    then have "?P off"
      using addGreTarget_sound [of e bs off limit] down [OF gre_less [OF g(1)]] grePayloadD(1) [OF g(1)]
      by auto
    then show "greSound bs e" "off \<le> gret_greOffset (snd e)" by simp_all
  next
    fix limit
    assume "e \<in> set (greProcessUdpTunnels bs off limit)"
    then obtain u where u: "rawPacketUdpTarget bs off limit = Some u"
      "(\<exists>e'. rawPacketEthernetL3Target bs (udp_payloadOffset u + 8) = Some e'
          \<and> (e \<in> set (greProcessIpv4 bs (eth_l3Offset e')) \<or> e \<in> set (greProcessIpv6 bs (eth_l3Offset e'))))
       \<or> (\<exists>p. rawPacketGtpuPayloadOffset bs (udp_payloadOffset u) (udp_end u) = Some p
          \<and> (e \<in> set (greProcessIpv4 bs p) \<or> e \<in> set (greProcessIpv6 bs p)))"
      unfolding greProcessUdpTunnels.simps [of bs off] mem_emitted by auto
    from u(2) have "?P off"
    proof (elim disjE exE conjE)
      fix e'
      assume l3: "rawPacketEthernetL3Target bs (udp_payloadOffset u + 8) = Some e'"
        and m: "e \<in> set (greProcessIpv4 bs (eth_l3Offset e'))"
      from down [OF vxlan_less [OF u(1) l3]] m ethernetL3D(1) [OF l3] udpTargetD(1) [OF u(1)]
      show "?P off" by auto
    next
      fix e'
      assume l3: "rawPacketEthernetL3Target bs (udp_payloadOffset u + 8) = Some e'"
        and m: "e \<in> set (greProcessIpv6 bs (eth_l3Offset e'))"
      from down [OF vxlan_less [OF u(1) l3]] m ethernetL3D(1) [OF l3] udpTargetD(1) [OF u(1)]
      show "?P off" by auto
    next
      fix p
      assume p: "rawPacketGtpuPayloadOffset bs (udp_payloadOffset u) (udp_end u) = Some p"
        and m: "e \<in> set (greProcessIpv4 bs p)"
      from down [OF gtpu_less [OF u(1) p]] m gtpuPayloadD(1) [OF p] udpTargetD(1) [OF u(1)]
      show "?P off" by auto
    next
      fix p
      assume p: "rawPacketGtpuPayloadOffset bs (udp_payloadOffset u) (udp_end u) = Some p"
        and m: "e \<in> set (greProcessIpv6 bs p)"
      from down [OF gtpu_less [OF u(1) p]] m gtpuPayloadD(1) [OF p] udpTargetD(1) [OF u(1)]
      show "?P off" by auto
    qed
    then show "greSound bs e" "off \<le> gret_greOffset (snd e)" by simp_all
  next
    assume e: "e \<in> set (greProcessIpv4 bs off)"
    then obtain protocol l4 limit where v4: "enterIpv4 bs off = Some (protocol, l4, limit)"
      by (cases "enterIpv4 bs off") (auto simp: greProcessIpv4.simps [of bs off])
    with e have "e \<in> set (greProcessGre bs l4 limit) \<or> e \<in> set (greProcessUdpTunnels bs l4 limit)"
      by (simp add: greProcessIpv4.simps [of bs off] split: if_split_asm)
    from up [OF enterIpv4_less [OF v4] this] have "?P l4" .
    with enterIpv4D(6) [OF v4]
    show "greSound bs e" "\<exists>h. rawIpv4HeaderLengthAt bs off = Some h \<and> off + h \<le> gret_greOffset (snd e)"
      by auto
  next
    assume "e \<in> set (greProcessIpv6 bs off)"
    then obtain u protocol where u: "rawPacketIpv6L4Offset bs off protocol = Some u"
      "e \<in> set (greProcessGre bs (up_offset u) (up_limit u))
       \<or> e \<in> set (greProcessUdpTunnels bs (up_offset u) (up_limit u))"
      unfolding greProcessIpv6.simps [of bs off] mem_emitted by auto
    from up [OF ipv6_less [OF u(1)] u(2)] ipv6L4D(1) [OF u(1)]
    show "greSound bs e" "off + 40 \<le> gret_greOffset (snd e)" by auto
  qed
qed

lemma collectGre_sound:
  assumes "t \<in> set (collectRawPacketGreChecksumTargets bs)"
  shows "greSound bs (gret_greOffset t, t)" "34 \<le> gret_greOffset t"
    "rawPacketEthernetL3Target bs 0 = Some o' \<Longrightarrow> eth_etherType o' = 0x0800
     \<Longrightarrow> rawIpv4HeaderLengthAt bs (eth_l3Offset o') = Some h \<Longrightarrow> eth_l3Offset o' + h \<le> gret_greOffset t"
proof -
  let ?entries = "case rawPacketEthernetL3Target bs 0 of None \<Rightarrow> []
      | Some outer \<Rightarrow>
          if eth_etherType outer = 0x0800 then greProcessIpv4 bs (eth_l3Offset outer)
          else if eth_etherType outer = 0x86dd then greProcessIpv6 bs (eth_l3Offset outer) else []"
  obtain e where m: "t = snd e" "e \<in> set ?entries"
    using subsetD [OF set_mapValues assms [unfolded collectRawPacketGreChecksumTargets_def]] by blast
  from m(2) obtain o'' where "rawPacketEthernetL3Target bs 0 = Some o''"
    "eth_etherType o'' = 0x0800 \<and> e \<in> set (greProcessIpv4 bs (eth_l3Offset o''))
     \<or> eth_etherType o'' \<noteq> 0x0800 \<and> e \<in> set (greProcessIpv6 bs (eth_l3Offset o''))"
    unfolding mem_emitted by auto
  note e = m(1) this
  have s: "greSound bs e" "34 \<le> gret_greOffset (snd e)"
    using e(3) greProcess_ok [of e bs "eth_l3Offset o''"] ethernetL3D(1) [OF e(2)]
    by (auto dest: ipv4HeaderLengthD(1))
  then show "greSound bs (gret_greOffset t, t)" "34 \<le> gret_greOffset t"
    using e(1) by (simp_all add: greSound_def Let_def)
  show "eth_l3Offset o' + h \<le> gret_greOffset t"
    if "rawPacketEthernetL3Target bs 0 = Some o'" "eth_etherType o' = 0x0800"
      "rawIpv4HeaderLengthAt bs (eth_l3Offset o') = Some h"
    using that e greProcess_ok [of e bs "eth_l3Offset o''"] by auto
qed

end
