(* ===== verification/Checksums.thy ===== *)
theory Checksums
  imports GreCollector
begin

text \<open>
  The checksum computations: the one's complement sum of IPv4, ICMP, TCP, UDP and GRE, and the
  CRC-32C of SCTP. The sums are related to residues modulo 65535, on which the check of a
  repaired packet rests.
\<close>

section \<open>Folding the carry\<close>

text \<open>
  The loop \<open>while (sum > 0xffff) sum = (sum & 0xffff) + (sum >>> 16)\<close>. It ends for every
  number; on the numbers below \<open>2 ^ 32\<close> that occur it is the arithmetic fold.
\<close>

definition carryStep :: "int \<Rightarrow> int" where
  "carryStep acc = js_and acc 0xffff + js_ushr acc 16"

lemma carryStep_nonneg: "0 \<le> carryStep s"
  by (simp add: carryStep_def js_and_mask16 js_ushr_int drop_bit_eq_div take_bit_eq_mod)

lemma carryStep_bound: "carryStep s \<le> 131070"
proof -
  have "s mod 4294967296 div 65536 \<le> 65535"
    using pos_mod_bound [of 4294967296 s] by linarith
  then show ?thesis
    by (simp add: carryStep_def js_and_mask16 js_ushr_int drop_bit_eq_div take_bit_eq_mod)
qed

lemma carryStep_eq: "0 \<le> s \<Longrightarrow> s < 4294967296 \<Longrightarrow> carryStep s = s mod 65536 + s div 65536"
  by (simp add: carryStep_def js_and_mask16 js_ushr_int drop_bit_eq_div take_bit_eq_mod)

lemma carryStep_less:
  assumes "65535 < s"
  shows "carryStep s < s"
proof (cases "s < 4294967296")
  case True
  have "s = 65536 * (s div 65536) + s mod 65536" by simp
  moreover have "1 \<le> s div 65536" using assms by linarith
  ultimately show ?thesis using carryStep_eq [of s] True assms by linarith
next
  case False
  then show ?thesis using carryStep_bound [of s] by linarith
qed

function foldCarry :: "int \<Rightarrow> int" where
  "foldCarry acc = (if acc > 0xffff then foldCarry (carryStep acc) else acc)"
  by pat_completeness auto
termination
  by (relation "measure nat") (auto dest: carryStep_less)

declare foldCarry.simps [simp del]

section \<open>The checks and the sums\<close>

text \<open>The check \<open>rawPacketOnesComplementClosure\<close>, by the number of words still to read.\<close>

fun closureLoop :: "nat \<Rightarrow> bytes \<Rightarrow> int \<Rightarrow> int \<Rightarrow> int \<Rightarrow> int" where
  "closureLoop 0 bs end cursor acc = acc"
| "closureLoop (Suc n) bs end cursor acc =
     (if \<not> cursor < end then acc
      else
        let high = byteAt bs cursor;
            low = (if cursor + 1 < end then byteAt bs (cursor + 1) else 0)
        in closureLoop n bs end (cursor + 2) (carryStep (acc + (js_shl high 8 + low))))"

definition rawPacketOnesComplementClosure :: "bytes \<Rightarrow> int \<Rightarrow> int \<Rightarrow> int" where
  "rawPacketOnesComplementClosure bs offset len =
     js_and (carryStep (closureLoop (nat len) bs (offset + len) offset 0)) 0xffff"

text \<open>The loop of \<open>rawIpv4HeaderChecksum\<close>: the word at 10 is skipped.\<close>

fun headerSumLoop :: "nat \<Rightarrow> bytes \<Rightarrow> int \<Rightarrow> int \<Rightarrow> int \<Rightarrow> int \<Rightarrow> int" where
  "headerSumLoop 0 bs offset headerLength cursor acc = acc"
| "headerSumLoop (Suc n) bs offset headerLength cursor acc =
     (if \<not> cursor < headerLength then acc
      else headerSumLoop n bs offset headerLength (cursor + 2)
        (if cursor = 10 then acc
         else foldCarry (acc + js_or (js_shl (byteAt bs (offset + cursor)) 8) (byteAt bs (offset + cursor + 1)))))"

definition rawIpv4HeaderChecksum :: "bytes \<Rightarrow> int \<Rightarrow> int \<Rightarrow> int" where
  "rawIpv4HeaderChecksum bs offset headerLength =
     js_and (js_not (headerSumLoop (nat headerLength) bs offset headerLength 0 0)) 0xffff"

text \<open>
  The loop of \<open>rawChecksumAddBytes\<close>. The word at \<open>skipOffset\<close> counts as zero. The low byte of the
  last word is read from the packet also when the length is odd.
\<close>

fun addBytesLoop :: "nat \<Rightarrow> bytes \<Rightarrow> int \<Rightarrow> int \<Rightarrow> int option \<Rightarrow> int \<Rightarrow> int \<Rightarrow> int" where
  "addBytesLoop 0 bs start len skipOffset cursor acc = acc"
| "addBytesLoop (Suc n) bs start len skipOffset cursor acc =
     (if \<not> cursor < len then acc
      else
        let absoluteOffset = start + cursor;
            high = (if skipOffset = Some absoluteOffset then 0 else byteAt bs absoluteOffset);
            low = (if skipOffset = Some absoluteOffset then 0 else byteAt bs (absoluteOffset + 1))
        in addBytesLoop n bs start len skipOffset (cursor + 2) (foldCarry (acc + js_or (js_shl high 8) low)))"

definition rawChecksumAddBytes :: "bytes \<Rightarrow> int \<Rightarrow> int \<Rightarrow> int \<Rightarrow> int option \<Rightarrow> int" where
  "rawChecksumAddBytes bs start len initial skipOffset = addBytesLoop (nat len) bs start len skipOffset 0 initial"

definition rawTransportChecksum :: "bytes \<Rightarrow> RawPacketTransportChecksumTarget \<Rightarrow> int" where
  "rawTransportChecksum bs target =
     (let pseudo =
            (if trt_ipVersion target = 4
             then rawChecksumAddBytes bs (trt_ipOffset target + 12) 8 0 None
                  + trt_protocol target + trt_length target
             else rawChecksumAddBytes bs (trt_ipOffset target + 8) 32 0 None
                  + js_and (js_ushr (trt_length target) 16) 0xffff
                  + js_and (trt_length target) 0xffff + trt_protocol target);
          acc = rawChecksumAddBytes bs (trt_l4Offset target) (trt_length target) (foldCarry pseudo)
                  (Some (trt_checksumOffset target));
          checksum = js_and (js_not acc) 0xffff
      in if trt_protocol target = 17 \<and> checksum = 0 then 0xffff else checksum)"

definition rawIcmpChecksum :: "bytes \<Rightarrow> RawPacketIcmpChecksumTarget \<Rightarrow> int" where
  "rawIcmpChecksum bs target =
     (let pseudo =
            (if icmp_ipVersion target = 6
             then foldCarry (rawChecksumAddBytes bs (icmp_ipOffset target + 8) 32 0 None
                    + js_and (js_ushr (icmp_length target) 16) 0xffff
                    + js_and (icmp_length target) 0xffff + 58)
             else 0)
      in js_and (js_not (rawChecksumAddBytes bs (icmp_icmpOffset target) (icmp_length target) pseudo
           (Some (icmp_checksumOffset target)))) 0xffff)"

text \<open>The inner loop of CRC-32C over the bits of an octet, and the outer one over the octets.\<close>

fun crcBits :: "nat \<Rightarrow> int \<Rightarrow> int" where
  "crcBits 0 crc = crc"
| "crcBits (Suc n) crc =
     crcBits n (if js_and crc 1 \<noteq> 0 then js_ushr (js_xor (js_ushr crc 1) 0x82f63b78) 0
                else js_ushr (js_ushr crc 1) 0)"

fun crcLoop :: "nat \<Rightarrow> bytes \<Rightarrow> int \<Rightarrow> int \<Rightarrow> int \<Rightarrow> int" where
  "crcLoop 0 bs offset checksumOffset crc = crc"
| "crcLoop (Suc n) bs offset checksumOffset crc =
     (let octet = (if offset \<ge> checksumOffset \<and> offset < checksumOffset + 4 then 0 else byteAt bs offset)
      in crcLoop n bs (offset + 1) checksumOffset (crcBits 8 (js_ushr (js_xor crc octet) 0)))"

definition rawSctpCrc32c :: "bytes \<Rightarrow> RawPacketSctpChecksumTarget \<Rightarrow> int" where
  "rawSctpCrc32c bs target =
     js_ushr (js_not (crcLoop (nat (sctpt_length target)) bs (sctpt_sctpOffset target)
        (sctpt_checksumOffset target) 0xffffffff)) 0"

definition rawGreChecksum :: "bytes \<Rightarrow> RawPacketGreChecksumTarget \<Rightarrow> int" where
  "rawGreChecksum bs target =
     js_and (js_not (rawChecksumAddBytes bs (gret_greOffset target) (gret_length target) 0
        (Some (gret_checksumOffset target)))) 0xffff"

section \<open>Residues modulo 65535\<close>

text \<open>
  A folded sum is known by its residue: \<open>norm16 s\<close> is the number from 0 to 65535 with the residue
  of \<open>s\<close> that is zero only for \<open>s = 0\<close>.
\<close>

definition norm16 :: "int \<Rightarrow> int" where
  "norm16 s = (if s = 0 then 0 else (s - 1) mod 65535 + 1)"

lemma norm16_range: "0 \<le> s \<Longrightarrow> 0 \<le> norm16 s \<and> norm16 s \<le> 65535"
proof -
  have "(s - 1) mod 65535 < 65535" "0 \<le> (s - 1) mod 65535" by simp_all
  then show ?thesis by (auto simp: norm16_def)
qed

lemma norm16_id: "0 \<le> s \<Longrightarrow> s \<le> 65535 \<Longrightarrow> norm16 s = s"
  by (simp add: norm16_def)

lemma norm16_carry:
  assumes "0 \<le> s" "s < 4294967296"
  shows "norm16 (carryStep s) = norm16 s"
proof -
  have s: "s = 65536 * (s div 65536) + s mod 65536" by simp
  have q: "carryStep s = s - 65535 * (s div 65536)"
    using carryStep_eq [OF assms] s by linarith
  have "(s - 1 - 65535 * (s div 65536)) mod 65535 = (s - 1) mod 65535"
    using mod_mult_self2 [of "s - 1" 65535 "- (s div 65536)"] by simp
  moreover have "carryStep s = 0 \<longleftrightarrow> s = 0"
    using carryStep_eq [OF assms] assms(1)
    by (metis add_nonneg_eq_0_iff div_pos_pos_trivial mod_div_trivial mod_pos_pos_trivial
        pos_imp_zdiv_nonneg_iff pos_mod_sign s mult_zero_right add_0 zero_less_numeral)
  ultimately show ?thesis
    by (simp add: norm16_def q algebra_simps)
qed

lemma norm16_add: "0 \<le> a \<Longrightarrow> 0 \<le> b \<Longrightarrow> norm16 (norm16 a + b) = norm16 (a + b)"
proof -
  assume ab: "0 \<le> a" "0 \<le> b"
  show ?thesis
  proof (cases "a = 0")
    case True
    then show ?thesis by (simp add: norm16_def)
  next
    case False
    then have pos: "norm16 a = (a - 1) mod 65535 + 1" "0 < a" using ab by (simp_all add: norm16_def)
    have "((a - 1) mod 65535 + b) mod 65535 = (a - 1 + b) mod 65535" by (rule mod_add_left_eq)
    moreover have "0 < norm16 a + b" "0 < a + b"
      using pos ab pos_mod_sign [of 65535 "a - 1"] by linarith+
    moreover have eq: "norm16 a + b - 1 = (a - 1) mod 65535 + b"
      using pos(1) by simp
    moreover have "a - 1 + b = a + b - 1" by simp
    ultimately show ?thesis
      unfolding norm16_def [of "norm16 a + b"] norm16_def [of "a + b"] eq by simp
  qed
qed

lemma foldCarry_norm:
  assumes "0 \<le> s" "s < 4294967296"
  shows "foldCarry s = norm16 s"
  using assms
proof (induction s rule: foldCarry.induct)
  case (1 s)
  show ?case
  proof (cases "s > 65535")
    case True
    have "carryStep s < 4294967296" using carryStep_bound [of s] by linarith
    with 1 True carryStep_nonneg [of s] norm16_carry [of s] show ?thesis
      by (simp add: foldCarry.simps [of s])
  next
    case False
    with 1 show ?thesis by (simp add: foldCarry.simps [of s] norm16_id)
  qed
qed

section \<open>Sums of words\<close>

text \<open>
  The specification of a sum: the big-endian words from \<open>start\<close> on, the word at \<open>skip\<close> counting
  as zero.
\<close>

definition wordUnless :: "bytes \<Rightarrow> int option \<Rightarrow> int \<Rightarrow> int" where
  "wordUnless bs skip p = (if skip = Some p then 0 else rawPacketWord bs p)"

fun wordSum :: "bytes \<Rightarrow> int option \<Rightarrow> int \<Rightarrow> nat \<Rightarrow> int" where
  "wordSum bs skip start 0 = 0"
| "wordSum bs skip start (Suc n) = wordUnless bs skip start + wordSum bs skip (start + 2) n"

lemma wordUnless_range: "is_bytes bs \<Longrightarrow> 0 \<le> wordUnless bs skip p \<and> wordUnless bs skip p \<le> 65535"
  using rawPacketWord_range [of bs p] by (auto simp: wordUnless_def)

lemma wordSum_nonneg: "is_bytes bs \<Longrightarrow> 0 \<le> wordSum bs skip start n"
  using wordUnless_range by (induction n arbitrary: start) (simp_all add: add_nonneg_nonneg)

lemma wordSum_cong:
  "(\<And>p. start \<le> p \<Longrightarrow> p < start + 2 * int n \<Longrightarrow> 2 dvd (p - start)
      \<Longrightarrow> wordUnless bs skip p = wordUnless bs' skip' p)
   \<Longrightarrow> wordSum bs skip start n = wordSum bs' skip' start n"
proof (induction n arbitrary: start)
  case (Suc n)
  have "wordSum bs skip (start + 2) n = wordSum bs' skip' (start + 2) n"
  proof (rule Suc.IH)
    fix p assume p: "start + 2 \<le> p" "p < start + 2 + 2 * int n" "2 dvd (p - (start + 2))"
    then have "2 dvd (p - start)" by presburger
    with p show "wordUnless bs skip p = wordUnless bs' skip' p" by (intro Suc.prems) auto
  qed
  then show ?case using Suc.prems [of start] by simp
qed simp

lemma wordSum_skip:
  "start \<le> p \<Longrightarrow> p < start + 2 * int n \<Longrightarrow> 2 dvd (p - start)
   \<Longrightarrow> wordSum bs None start n = wordSum bs (Some p) start n + rawPacketWord bs p"
proof (induction n arbitrary: start)
  case (Suc n)
  show ?case
  proof (cases "p = start")
    case True
    have "wordSum bs None (start + 2) n = wordSum bs (Some p) (start + 2) n"
      by (rule wordSum_cong) (auto simp: wordUnless_def True)
    then show ?thesis using True by (simp add: wordUnless_def)
  next
    case False
    have "start + 2 \<le> p" "2 dvd (p - (start + 2))" using False Suc.prems by presburger+
    with Suc.IH [of "start + 2"] Suc.prems False show ?thesis by (simp add: wordUnless_def)
  qed
qed simp

lemma word_or_eq:
  assumes "is_bytes bs"
  shows "js_or (js_shl (byteAt bs p) 8) (byteAt bs (p + 1)) = rawPacketWord bs p"
    "js_shl (byteAt bs p) 8 + byteAt bs (p + 1) = rawPacketWord bs p"
proof -
  show "js_or (js_shl (byteAt bs p) 8) (byteAt bs (p + 1)) = rawPacketWord bs p"
    by (simp add: rawPacketWord_def)
  have "js_shl (byteAt bs p) 8 = 256 * byteAt bs p"
    using byteAt_range [OF assms, of p] by (simp add: js_shl_nonneg)
  then show "js_shl (byteAt bs p) 8 + byteAt bs (p + 1) = rawPacketWord bs p"
    by (simp add: rawPacketWord_eq [OF assms])
qed

lemma js_or_zero: "js_or (js_shl 0 8) 0 = 0"
  by (simp add: js_or_int js_shl_int)

text \<open>The number of words a loop reads of what is left.\<close>

definition wordsIn :: "int \<Rightarrow> nat" where
  "wordsIn k = nat ((k + 1) div 2)"

lemma wordsIn_step: "0 < k \<Longrightarrow> wordsIn k = Suc (wordsIn (k - 2))"
proof -
  assume "0 < k"
  then have "(k + 1) div 2 = (k - 2 + 1) div 2 + 1" "0 \<le> (k - 2 + 1) div 2" by presburger+
  then show ?thesis by (simp add: wordsIn_def nat_add_distrib)
qed

lemma wordsIn_done: "k \<le> 0 \<Longrightarrow> wordsIn k = 0"
  by (simp add: wordsIn_def)

lemma addBytesLoop_norm:
  assumes "is_bytes bs"
  shows "wordsIn (len - cursor) \<le> n \<Longrightarrow> 0 \<le> acc \<Longrightarrow> acc \<le> 65535
    \<Longrightarrow> addBytesLoop n bs start len skip cursor acc
        = norm16 (acc + wordSum bs skip (start + cursor) (wordsIn (len - cursor)))"
proof (induction n arbitrary: cursor acc)
  case 0
  then show ?case by (simp add: norm16_id)
next
  case (Suc n)
  show ?case
  proof (cases "cursor < len")
    case False
    with Suc.prems show ?thesis by (simp add: wordsIn_done norm16_id)
  next
    case True
    let ?p = "start + cursor"
    let ?w = "wordUnless bs skip ?p"
    note w = wordUnless_range [OF assms, of skip ?p]
    have f: "foldCarry (acc + ?w) = norm16 (acc + ?w)"
      using Suc.prems w by (intro foldCarry_norm) linarith+
    have r: "0 \<le> norm16 (acc + ?w)" "norm16 (acc + ?w) \<le> 65535"
      using norm16_range [of "acc + ?w"] Suc.prems w by linarith+
    have k: "wordsIn (len - cursor) = Suc (wordsIn (len - (cursor + 2)))"
      using wordsIn_step [of "len - cursor"] True by (simp add: algebra_simps)
    have step: "addBytesLoop (Suc n) bs start len skip cursor acc
        = addBytesLoop n bs start len skip (cursor + 2) (foldCarry (acc + ?w))"
      using True by (simp add: Let_def wordUnless_def js_or_zero word_or_eq [OF assms])
    also have "\<dots> = norm16 (norm16 (acc + ?w) + wordSum bs skip (start + (cursor + 2)) (wordsIn (len - (cursor + 2))))"
      unfolding f using Suc.prems(1) k r by (intro Suc.IH) simp_all
    also have "\<dots> = norm16 (acc + ?w + wordSum bs skip (start + (cursor + 2)) (wordsIn (len - (cursor + 2))))"
      using Suc.prems w wordSum_nonneg [OF assms] by (intro norm16_add) simp_all
    finally show ?thesis by (simp add: k algebra_simps)
  qed
qed

lemma wordsIn_le: "wordsIn k \<le> nat k"
  by (cases "k \<le> 0") (auto simp: wordsIn_def)

lemma checksumAddBytes_norm:
  assumes "is_bytes bs" "0 \<le> acc" "acc \<le> 65535"
  shows "rawChecksumAddBytes bs start len acc skip = norm16 (acc + wordSum bs skip start (wordsIn len))"
  using addBytesLoop_norm [OF assms(1), of len 0 "nat len" acc start skip] assms wordsIn_le [of len]
  by (simp add: rawChecksumAddBytes_def)

lemma headerSumLoop_norm:
  assumes "is_bytes bs"
  shows "wordsIn (h - cursor) \<le> n \<Longrightarrow> 0 \<le> acc \<Longrightarrow> acc \<le> 65535
    \<Longrightarrow> headerSumLoop n bs off h cursor acc
        = norm16 (acc + wordSum bs (Some (off + 10)) (off + cursor) (wordsIn (h - cursor)))"
proof (induction n arbitrary: cursor acc)
  case 0
  then show ?case by (simp add: norm16_id)
next
  case (Suc n)
  show ?case
  proof (cases "cursor < h")
    case False
    with Suc.prems show ?thesis by (simp add: wordsIn_done norm16_id)
  next
    case True
    let ?w = "wordUnless bs (Some (off + 10)) (off + cursor)"
    note w = wordUnless_range [OF assms, of "Some (off + 10)" "off + cursor"]
    have f: "foldCarry (acc + ?w) = norm16 (acc + ?w)"
      using Suc.prems w by (intro foldCarry_norm) linarith+
    have r: "0 \<le> norm16 (acc + ?w)" "norm16 (acc + ?w) \<le> 65535"
      using norm16_range [of "acc + ?w"] Suc.prems w by linarith+
    have k: "wordsIn (h - cursor) = Suc (wordsIn (h - (cursor + 2)))"
      using wordsIn_step [of "h - cursor"] True by (simp add: algebra_simps)
    have "(if cursor = 10 then acc else foldCarry (acc + rawPacketWord bs (off + cursor))) = norm16 (acc + ?w)"
      using f Suc.prems by (cases "cursor = 10") (simp_all add: wordUnless_def norm16_id)
    then have "headerSumLoop (Suc n) bs off h cursor acc
        = headerSumLoop n bs off h (cursor + 2) (norm16 (acc + ?w))"
      using True unfolding headerSumLoop.simps word_or_eq [OF assms] by (simp split del: if_split)
    also have "\<dots> = norm16 (norm16 (acc + ?w)
        + wordSum bs (Some (off + 10)) (off + (cursor + 2)) (wordsIn (h - (cursor + 2))))"
      using Suc.prems(1) k r by (intro Suc.IH) simp_all
    also have "\<dots> = norm16 (acc + ?w
        + wordSum bs (Some (off + 10)) (off + (cursor + 2)) (wordsIn (h - (cursor + 2))))"
      using Suc.prems w wordSum_nonneg [OF assms] by (intro norm16_add) simp_all
    finally show ?thesis by (simp add: k algebra_simps)
  qed
qed

lemma complement16: "0 \<le> s \<Longrightarrow> s \<le> 65535 \<Longrightarrow> js_and (js_not s) 0xffff = 65535 - s"
proof -
  assume s: "0 \<le> s" "s \<le> 65535"
  have "js_not s = - s - 1"
    using s by (simp add: js_not_int not_int_def signed_take_bit_int_eq_self)
  moreover have "(- s - 1) mod 65536 = 65535 - s"
  proof -
    have "(- s - 1) mod 65536 = (- s - 1 + 65536) mod 65536" by (rule mod_add_self2 [symmetric])
    then show ?thesis using s by simp
  qed
  ultimately show ?thesis by (simp add: js_and_mask16)
qed

lemma ipv4HeaderChecksum_norm:
  assumes "is_bytes bs"
  shows "rawIpv4HeaderChecksum bs off h = 65535 - norm16 (wordSum bs (Some (off + 10)) off (wordsIn h))"
  using headerSumLoop_norm [OF assms, of h 0 "nat h" 0 off] wordsIn_le [of h]
    norm16_range [OF wordSum_nonneg [OF assms], of "Some (off + 10)" off "wordsIn h"]
  by (simp add: rawIpv4HeaderChecksum_def complement16)

section \<open>The closure check\<close>

lemma carryStep_small:
  assumes "0 \<le> s" "s \<le> 131073"
  shows "carryStep s \<le> 65537"
proof -
  have "s = 65536 * (s div 65536) + s mod 65536" by simp
  moreover have "carryStep s = s mod 65536 + s div 65536" using assms by (intro carryStep_eq) auto
  moreover have "s mod 65536 < 65536" by simp
  ultimately show ?thesis using assms by linarith
qed

lemma closureLoop_norm:
  assumes "is_bytes bs" "2 dvd (end - cursor)"
  shows "wordsIn (end - cursor) \<le> n \<Longrightarrow> 0 \<le> acc \<Longrightarrow> acc \<le> 65537
    \<Longrightarrow> 0 \<le> closureLoop n bs end cursor acc \<and> closureLoop n bs end cursor acc \<le> 65537
      \<and> norm16 (closureLoop n bs end cursor acc) = norm16 (acc + wordSum bs None cursor (wordsIn (end - cursor)))"
  using assms(2)
proof (induction n arbitrary: cursor acc)
  case 0
  then show ?case by simp
next
  case (Suc n)
  show ?case
  proof (cases "cursor < end")
    case False
    with Suc.prems show ?thesis by (simp add: wordsIn_done)
  next
    case True
    have in2: "cursor + 1 < end" using True Suc.prems(4) by presburger
    let ?w = "wordUnless bs None cursor"
    note w = wordUnless_range [OF assms(1), of None cursor]
    have k: "wordsIn (end - cursor) = Suc (wordsIn (end - (cursor + 2)))"
      using wordsIn_step [of "end - cursor"] True by (simp add: algebra_simps)
    let ?acc = "carryStep (acc + ?w)"
    have r: "0 \<le> ?acc" "?acc \<le> 65537"
      using carryStep_nonneg carryStep_small [of "acc + ?w"] Suc.prems w by auto
    have n: "norm16 ?acc = norm16 (acc + ?w)"
      using Suc.prems w by (intro norm16_carry) linarith+
    have d: "2 dvd (end - (cursor + 2))" using Suc.prems(4) by presburger
    have step: "closureLoop (Suc n) bs end cursor acc = closureLoop n bs end (cursor + 2) ?acc"
      using True in2 by (simp add: Let_def wordUnless_def word_or_eq [OF assms(1)])
    have "norm16 (?acc + wordSum bs None (cursor + 2) (wordsIn (end - (cursor + 2))))
        = norm16 (norm16 ?acc + wordSum bs None (cursor + 2) (wordsIn (end - (cursor + 2))))"
      using r wordSum_nonneg [OF assms(1)] by (intro norm16_add [symmetric]) simp_all
    also have "\<dots> = norm16 (acc + ?w + wordSum bs None (cursor + 2) (wordsIn (end - (cursor + 2))))"
      unfolding n using Suc.prems w wordSum_nonneg [OF assms(1)] by (intro norm16_add) simp_all
    finally show ?thesis
      unfolding step using Suc.IH [OF _ r d] Suc.prems(1) k by (simp add: algebra_simps)
  qed
qed

lemma closure_norm:
  assumes "is_bytes bs" "2 dvd len" "0 \<le> len"
  shows "rawPacketOnesComplementClosure bs off len = norm16 (wordSum bs None off (wordsIn len))"
proof -
  let ?c = "closureLoop (nat len) bs (off + len) off 0"
  have c: "0 \<le> ?c" "?c \<le> 65537" "norm16 ?c = norm16 (wordSum bs None off (wordsIn len))"
    using closureLoop_norm [OF assms(1), of "off + len" off "nat len" 0] assms(2) wordsIn_le [of len] by simp_all
  have e: "carryStep ?c = ?c mod 65536 + ?c div 65536"
    using c by (intro carryStep_eq) linarith+
  have s: "?c = 65536 * (?c div 65536) + ?c mod 65536" by simp
  then have "carryStep ?c \<le> 65535"
    using c(1,2) e pos_mod_bound [of 65536 ?c] by (cases "?c < 65536") linarith+
  then have "js_and (carryStep ?c) 0xffff = norm16 (carryStep ?c)"
    using carryStep_nonneg [of ?c] by (simp add: js_and_mask16 norm16_id)
  also have "\<dots> = norm16 ?c" using c(1,2) by (intro norm16_carry) linarith+
  finally show ?thesis using c(3) by (simp add: rawPacketOnesComplementClosure_def)
qed

text \<open>A sum closes when its complement stands in the skipped word.\<close>

lemma norm16_closes: "0 \<le> s \<Longrightarrow> norm16 (s + (65535 - norm16 s)) = 65535"
proof -
  assume s: "0 \<le> s"
  have r: "0 \<le> norm16 s" "norm16 s \<le> 65535" using norm16_range [OF s] by simp_all
  have "norm16 (norm16 s + (65535 - norm16 s)) = norm16 (s + (65535 - norm16 s))"
    using r s by (intro norm16_add) simp_all
  then show ?thesis by (simp add: norm16_id)
qed

lemma header_closes:
  assumes "is_bytes bs" "2 dvd h" "12 \<le> h" "rawPacketWord bs (off + 10) = rawIpv4HeaderChecksum bs off h"
  shows "rawPacketOnesComplementClosure bs off h = 0xffff"
proof -
  have n: "int (wordsIn h) * 2 \<ge> h" using assms(3) by (simp add: wordsIn_def)
  have "wordSum bs None off (wordsIn h) = wordSum bs (Some (off + 10)) off (wordsIn h) + rawPacketWord bs (off + 10)"
    using assms(3) n by (intro wordSum_skip) auto
  then show ?thesis
    using assms norm16_closes [OF wordSum_nonneg [OF assms(1)]]
    by (simp add: closure_norm ipv4HeaderChecksum_norm)
qed

end
