(* ===== verification/Repair.thy ===== *)
theory Repair
  imports Checksums
begin

text \<open>
  The repair of checksums: five passes over the packet, each with its collector, and the order
  \<open>repairRawPacketChecksums\<close> runs them in. The locale \<open>repair_pass\<close> is the contract of a pass; the
  facts that hold of every pass are proved once in it.
\<close>

section \<open>The passes\<close>

definition storeChecksum :: "bytes \<Rightarrow> int \<Rightarrow> int \<Rightarrow> bytes" where
  "storeChecksum bs offset checksum =
     storeAt (storeAt bs offset (js_and (js_ushr checksum 8) 0xff)) (offset + 1) (js_and checksum 0xff)"

definition repairIpv4Step :: "bytes \<Rightarrow> int \<Rightarrow> bytes" where
  "repairIpv4Step repaired offset =
     (case rawIpv4HeaderLengthAt repaired offset of
        None \<Rightarrow> repaired
      | Some headerLength \<Rightarrow>
          if \<not> rawPacketHasBytes repaired (offset + 10) 2 then repaired
          else storeChecksum repaired (offset + 10) (rawIpv4HeaderChecksum repaired offset headerLength))"

definition repairRawPacketIpv4Checksums :: "bytes \<Rightarrow> bytes" where
  "repairRawPacketIpv4Checksums bs = foldl repairIpv4Step bs (collectRawPacketIpv4HeaderOffsets bs)"

definition repairSctpStep :: "bytes \<Rightarrow> RawPacketSctpChecksumTarget \<Rightarrow> bytes" where
  "repairSctpStep repaired target =
     (let off = sctpt_checksumOffset target in
      if \<not> rawPacketHasBytes repaired off 4 then repaired
      else
        let checksum = rawSctpCrc32c repaired target in
        storeAt (storeAt (storeAt (storeAt repaired off (js_and checksum 0xff))
          (off + 1) (js_and (js_ushr checksum 8) 0xff))
          (off + 2) (js_and (js_ushr checksum 16) 0xff))
          (off + 3) (js_and (js_ushr checksum 24) 0xff))"

definition repairRawPacketSctpChecksums :: "bytes \<Rightarrow> bytes" where
  "repairRawPacketSctpChecksums bs = foldl repairSctpStep bs (collectRawPacketSctpChecksumTargets bs)"

definition repairIcmpStep :: "bytes \<Rightarrow> RawPacketIcmpChecksumTarget \<Rightarrow> bytes" where
  "repairIcmpStep repaired target =
     (if \<not> rawPacketHasBytes repaired (icmp_checksumOffset target) 2 then repaired
      else storeChecksum repaired (icmp_checksumOffset target) (rawIcmpChecksum repaired target))"

definition repairRawPacketIcmpChecksums :: "bytes \<Rightarrow> bytes" where
  "repairRawPacketIcmpChecksums bs = foldl repairIcmpStep bs (collectRawPacketIcmpChecksumTargets bs)"

definition repairGreStep :: "bytes \<Rightarrow> RawPacketGreChecksumTarget \<Rightarrow> bytes" where
  "repairGreStep repaired target =
     (if \<not> rawPacketHasBytes repaired (gret_checksumOffset target) 2 then repaired
      else storeChecksum repaired (gret_checksumOffset target) (rawGreChecksum repaired target))"

definition repairRawPacketGreChecksums :: "bytes \<Rightarrow> bytes" where
  "repairRawPacketGreChecksums bs = foldl repairGreStep bs (collectRawPacketGreChecksumTargets bs)"

definition repairTransportStep :: "bytes \<Rightarrow> RawPacketTransportChecksumTarget \<Rightarrow> bytes" where
  "repairTransportStep repaired target =
     (if \<not> rawPacketHasBytes repaired (trt_checksumOffset target) 2 then repaired
      else storeChecksum repaired (trt_checksumOffset target) (rawTransportChecksum repaired target))"

definition repairRawPacketTransportChecksums :: "bytes \<Rightarrow> bytes" where
  "repairRawPacketTransportChecksums bs =
     foldl repairTransportStep bs (collectRawPacketTransportChecksumTargets bs)"

definition repairRawPacketChecksums :: "bytes \<Rightarrow> bytes" where
  "repairRawPacketChecksums bs =
     (let withIpv4 = repairRawPacketIpv4Checksums bs;
          withIcmp = repairRawPacketIcmpChecksums withIpv4;
          withSctp = repairRawPacketSctpChecksums withIcmp;
          withTransport = repairRawPacketTransportChecksums withSctp;
          withGre = repairRawPacketGreChecksums withTransport
      in repairRawPacketTransportChecksums withGre)"

section \<open>The contract of a pass\<close>

text \<open>
  \<open>field\<close> and \<open>width\<close> say where a target's checksum stands, \<open>good\<close> that it is the right one,
  \<open>depends bs t\<close> which bytes decide whether it is, and \<open>wf\<close> how a target's offsets lie to each other.
\<close>

locale repair_pass =
  fixes collect :: "bytes \<Rightarrow> 't list"
    and step :: "bytes \<Rightarrow> 't \<Rightarrow> bytes"
    and field :: "'t \<Rightarrow> int"
    and width :: int
    and good :: "bytes \<Rightarrow> 't \<Rightarrow> bool"
    and depends :: "bytes \<Rightarrow> 't \<Rightarrow> int \<Rightarrow> bool"
    and wf :: "'t \<Rightarrow> bool"
  assumes step_length: "length (step bs t) = length bs"
    and step_bytes: "is_bytes bs \<Longrightarrow> is_bytes (step bs t)"
    and step_frame: "j < field t \<or> field t + width \<le> j \<Longrightarrow> byteAt (step bs t) j = byteAt bs j"
    and step_good: "is_bytes bs \<Longrightarrow> wf t \<Longrightarrow> rawPacketHasBytes bs (field t) width \<Longrightarrow> good (step bs t) t"
    and good_step: "is_bytes bs \<Longrightarrow> good bs t \<Longrightarrow> step bs t = bs"
    and depends_cong: "wf t \<Longrightarrow> length bs' = length bs \<Longrightarrow> (\<And>j. depends bs t j \<Longrightarrow> byteAt bs' j = byteAt bs j)
      \<Longrightarrow> good bs' t = good bs t \<and> depends bs' t = depends bs t"
    and own_depends: "wf t \<Longrightarrow> depends (step bs t) t j \<Longrightarrow> depends bs t j"
    and collect_field: "t \<in> set (collect bs) \<Longrightarrow> wf t \<and> rawPacketHasBytes bs (field t) width"
begin

lemma pass_length: "length (foldl step bs ts) = length bs"
  by (induction ts arbitrary: bs) (simp_all add: step_length)

lemma pass_bytes: "is_bytes bs \<Longrightarrow> is_bytes (foldl step bs ts)"
  by (induction ts arbitrary: bs) (simp_all add: step_bytes)

lemma pass_frame:
  "(\<And>t. t \<in> set ts \<Longrightarrow> j < field t \<or> field t + width \<le> j) \<Longrightarrow> byteAt (foldl step bs ts) j = byteAt bs j"
  by (induction ts arbitrary: bs) (simp_all add: step_frame)

lemma pass_id: "is_bytes bs \<Longrightarrow> (\<And>t. t \<in> set ts \<Longrightarrow> good bs t) \<Longrightarrow> foldl step bs ts = bs"
  by (induction ts) (simp_all add: good_step)

text \<open>Two targets are separate when neither's field decides over the other.\<close>

definition separate :: "bytes \<Rightarrow> 't \<Rightarrow> 't \<Rightarrow> bool" where
  "separate bs t t' \<longleftrightarrow>
     (\<forall>j. field t' \<le> j \<and> j < field t' + width \<longrightarrow> \<not> depends bs t j)
     \<and> (\<forall>j. field t \<le> j \<and> j < field t + width \<longrightarrow> \<not> depends bs t' j)"

lemma separate_step:
  assumes "separate bs t t'" "wf t'"
  shows "good (step bs t) t' = good bs t'" "depends (step bs t) t' = depends bs t'"
proof -
  have "byteAt (step bs t) j = byteAt bs j" if "depends bs t' j" for j
    using assms(1) that unfolding separate_def by (intro step_frame) (meson not_le)
  from depends_cong [OF assms(2) step_length this] show "good (step bs t) t' = good bs t'"
    "depends (step bs t) t' = depends bs t'" by simp_all
qed

lemma separate_sym: "separate bs t t' = separate bs t' t"
  by (auto simp: separate_def)

lemma separate_preserved:
  "separate bs t u \<Longrightarrow> separate bs t v \<Longrightarrow> separate bs u v \<Longrightarrow> wf u \<Longrightarrow> wf v \<Longrightarrow> separate (step bs t) u v"
  using separate_step(2) [of bs t u] separate_step(2) [of bs t v] by (simp add: separate_def [of "step bs t"])
    (simp add: separate_def)

lemma good_later:
  "good bs t \<Longrightarrow> sorted_wrt (separate bs) (t # ts) \<Longrightarrow> \<forall>u\<in>set (t # ts). wf u \<Longrightarrow> good (foldl step bs ts) t"
proof (induction ts arbitrary: bs)
  case (Cons u us)
  have u: "separate bs u t" "sorted_wrt (separate bs) us" "\<forall>v\<in>set us. separate bs t v \<and> separate bs u v"
    using Cons.prems(2) separate_sym by auto
  note wf = Cons.prems(3)
  have "good (step bs u) t" using separate_step(1) [OF u(1)] Cons.prems(1) wf by simp
  moreover have "sorted_wrt (separate (step bs u)) us"
    using u(2,3) wf by (induction us) (auto intro: separate_preserved)
  moreover have "\<forall>v\<in>set us. separate (step bs u) t v"
    using u(1,3) wf by (auto intro: separate_preserved)
  ultimately show ?case using Cons.IH [of "step bs u"] wf by simp
qed simp

lemma pass_good:
  "is_bytes bs \<Longrightarrow> sorted_wrt (separate bs) ts \<Longrightarrow> (\<And>t. t \<in> set ts \<Longrightarrow> wf t \<and> rawPacketHasBytes bs (field t) width)
   \<Longrightarrow> t \<in> set ts \<Longrightarrow> good (foldl step bs ts) t"
proof (induction ts arbitrary: bs)
  case (Cons u us)
  have wf: "\<forall>v\<in>set (u # us). wf v" using Cons.prems(3) by simp
  have u: "good (step bs u) u" using Cons.prems(1,3) step_good by simp
  have us: "sorted_wrt (separate (step bs u)) us"
    using Cons.prems(2) wf by (induction us) (auto intro: separate_preserved)
  have all: "sorted_wrt (separate (step bs u)) (u # us)"
  proof -
    have "separate (step bs u) u v" if "v \<in> set us" for v
    proof -
      have v: "separate bs u v" using Cons.prems(2) that by simp
      have "depends (step bs u) v = depends bs v" using separate_step(2) [OF v] wf that by simp
      moreover have "depends (step bs u) u j \<Longrightarrow> depends bs u j" for j
        using own_depends Cons.prems(3) by simp
      ultimately show ?thesis using v by (auto simp: separate_def)
    qed
    with us show ?thesis by simp
  qed
  show ?case
  proof (cases "t = u")
    case True
    with good_later [OF u all wf] show ?thesis by simp
  next
    case False
    with Cons.IH [OF step_bytes [OF Cons.prems(1)] us] Cons.prems(3,4)
    show ?thesis by (simp add: hasBytes_length_cong [OF step_length])
  qed
qed simp

text \<open>The whole pass.\<close>

lemma repaired_length: "length (foldl step bs (collect bs)) = length bs"
  by (rule pass_length)

lemma repaired_bytes: "is_bytes bs \<Longrightarrow> is_bytes (foldl step bs (collect bs))"
  by (rule pass_bytes)

lemma repaired_good:
  "is_bytes bs \<Longrightarrow> sorted_wrt (separate bs) (collect bs) \<Longrightarrow> t \<in> set (collect bs)
   \<Longrightarrow> good (foldl step bs (collect bs)) t"
  using pass_good collect_field by blast

lemma repaired_single:
  "is_bytes bs \<Longrightarrow> collect bs = [t] \<Longrightarrow> good (foldl step bs (collect bs)) t"
  using repaired_good [of bs t] by simp

lemma repaired_id:
  "is_bytes bs \<Longrightarrow> (\<And>t. t \<in> set (collect bs) \<Longrightarrow> good bs t) \<Longrightarrow> foldl step bs (collect bs) = bs"
  by (rule pass_id)

lemma repaired_frame:
  "(\<And>t. t \<in> set (collect bs) \<Longrightarrow> j < field t \<or> field t + width \<le> j)
   \<Longrightarrow> byteAt (foldl step bs (collect bs)) j = byteAt bs j"
  by (rule pass_frame)

end

section \<open>Storing a checksum\<close>

lemma length_storeChecksum [simp]:
  "rawPacketHasBytes bs off 2 \<Longrightarrow> length (storeChecksum bs off c) = length bs"
  by (simp add: storeChecksum_def rawPacketHasBytes_def)

lemma low_byte: "0 \<le> js_and c 0xff \<and> js_and c 0xff < 256"
  by (simp add: js_and_mask8)

lemma is_bytes_storeChecksum: "is_bytes bs \<Longrightarrow> is_bytes (storeChecksum bs off c)"
  using low_byte [of c] low_byte [of "js_ushr c 8"] by (simp add: storeChecksum_def is_bytes_storeAt)

lemma byteAt_storeChecksum:
  "rawPacketHasBytes bs off 2
   \<Longrightarrow> byteAt (storeChecksum bs off c) j
     = (if j = off then js_and (js_ushr c 8) 0xff else if j = off + 1 then js_and c 0xff else byteAt bs j)"
  by (simp add: storeChecksum_def byteOr_storeAt rawPacketHasBytes_def)

lemma word_storeChecksum:
  assumes "is_bytes bs" "rawPacketHasBytes bs off 2" "0 \<le> c" "c \<le> 65535"
  shows "rawPacketWord (storeChecksum bs off c) off = c"
proof -
  have "rawPacketWord (storeChecksum bs off c) off = 256 * js_and (js_ushr c 8) 0xff + js_and c 0xff"
    using byteAt_storeChecksum [OF assms(2)] by (simp add: rawPacketWord_eq is_bytes_storeChecksum assms(1))
  also have "\<dots> = 256 * (c div 256 mod 256) + c mod 256"
    using assms(3,4) by (simp add: js_and_mask8 js_ushr_nonneg)
  also have "\<dots> = c" using assms(3,4) by simp
  finally show ?thesis .
qed

lemma storeChecksum_same:
  assumes "is_bytes bs" "rawPacketHasBytes bs off 2" "rawPacketWord bs off = c"
  shows "storeChecksum bs off c = bs"
proof (rule bytes_eqI)
  show "length (storeChecksum bs off c) = length bs" using assms(2) by simp
  fix j assume "0 \<le> j" "j < int (length bs)"
  note r = byteAt_range [OF assms(1), of off] byteAt_range [OF assms(1), of "off + 1"]
  have "c = 256 * byteAt bs off + byteAt bs (off + 1)" using assms(3) by (simp add: rawPacketWord_eq [OF assms(1)])
  then have "c div 256 = byteAt bs off" "c mod 256 = byteAt bs (off + 1)" "0 \<le> c" "c < 4294967296"
    using r by simp_all
  then show "byteAt (storeChecksum bs off c) j = byteAt bs j"
    using r by (simp add: byteAt_storeChecksum [OF assms(2)] js_and_mask8 js_ushr_nonneg)
qed

section \<open>What a checksum depends on\<close>

lemma addBytesLoop_cong:
  "(\<And>p. start + cursor \<le> p \<Longrightarrow> p < start + len \<Longrightarrow> 2 dvd (p - (start + cursor)) \<Longrightarrow> skip \<noteq> Some p
      \<Longrightarrow> byteAt bs p = byteAt bs' p \<and> byteAt bs (p + 1) = byteAt bs' (p + 1))
   \<Longrightarrow> addBytesLoop n bs start len skip cursor acc = addBytesLoop n bs' start len skip cursor acc"
proof (induction n arbitrary: cursor acc)
  case (Suc n)
  show ?case
  proof (cases "cursor < len")
    case True
    have eq: "skip \<noteq> Some (start + cursor) \<Longrightarrow> byteAt bs (start + cursor) = byteAt bs' (start + cursor)
        \<and> byteAt bs (start + cursor + 1) = byteAt bs' (start + cursor + 1)"
      using Suc.prems [of "start + cursor"] True by simp
    have IH: "addBytesLoop n bs start len skip (cursor + 2) a = addBytesLoop n bs' start len skip (cursor + 2) a" for a
    proof (rule Suc.IH)
      fix p assume p: "start + (cursor + 2) \<le> p" "p < start + len" "2 dvd (p - (start + (cursor + 2)))" "skip \<noteq> Some p"
      then have "2 dvd (p - (start + cursor))" by presburger
      with p show "byteAt bs p = byteAt bs' p \<and> byteAt bs (p + 1) = byteAt bs' (p + 1)"
        by (intro Suc.prems) auto
    qed
    have hl: "(if skip = Some (start + cursor) then 0 else byteAt bs (start + cursor))
        = (if skip = Some (start + cursor) then 0 else byteAt bs' (start + cursor))"
      "(if skip = Some (start + cursor) then 0 else byteAt bs (start + cursor + 1))
        = (if skip = Some (start + cursor) then 0 else byteAt bs' (start + cursor + 1))"
      using eq by simp_all
    show ?thesis unfolding addBytesLoop.simps Let_def hl IH ..
  qed simp
qed simp

lemma headerSumLoop_cong:
  "(\<And>j. off \<le> j \<Longrightarrow> j < off + h \<Longrightarrow> j \<noteq> off + 10 \<Longrightarrow> j \<noteq> off + 11 \<Longrightarrow> byteAt bs j = byteAt bs' j)
   \<Longrightarrow> 2 dvd h \<Longrightarrow> 2 dvd cursor \<Longrightarrow> 0 \<le> cursor
   \<Longrightarrow> headerSumLoop n bs off h cursor acc = headerSumLoop n bs' off h cursor acc"
proof (induction n arbitrary: cursor acc)
  case (Suc n)
  have "byteAt bs (off + cursor) = byteAt bs' (off + cursor)
      \<and> byteAt bs (off + cursor + 1) = byteAt bs' (off + cursor + 1)" if "cursor < h" "cursor \<noteq> 10"
  proof -
    have "cursor + 1 < h" "cursor \<noteq> 9" "cursor \<noteq> 11" using that Suc.prems(2,3) by presburger+
    with that Suc.prems(4) show ?thesis
      using Suc.prems(1) [of "off + cursor"] Suc.prems(1) [of "off + cursor + 1"] by simp
  qed
  moreover have "headerSumLoop n bs off h (cursor + 2) a = headerSumLoop n bs' off h (cursor + 2) a" for a
    using Suc.prems by (intro Suc.IH) simp_all
  ultimately show ?case by simp
qed simp

lemma crcLoop_cong:
  "(\<And>j. off \<le> j \<Longrightarrow> j < off + int n \<Longrightarrow> j < c \<or> c + 4 \<le> j \<Longrightarrow> byteAt bs j = byteAt bs' j)
   \<Longrightarrow> crcLoop n bs off c crc = crcLoop n bs' off c crc"
proof (induction n arbitrary: off crc)
  case (Suc n)
  have "(if off \<ge> c \<and> off < c + 4 then 0 else byteAt bs off) = (if off \<ge> c \<and> off < c + 4 then 0 else byteAt bs' off)"
    using Suc.prems [of off] by auto
  moreover have "crcLoop n bs (off + 1) c a = crcLoop n bs' (off + 1) c a" for a
    using Suc.prems by (intro Suc.IH) simp
  ultimately show ?case by (simp add: Let_def)
qed simp

text \<open>The bytes a sum over \<open>len\<close> bytes from \<open>start\<close> reads: a last odd byte takes its successor along.\<close>

definition summed :: "int \<Rightarrow> int \<Rightarrow> int \<Rightarrow> bool" where
  "summed start len j \<longleftrightarrow> start \<le> j \<and> j < start + 2 * int (wordsIn len)"

lemma summed_inside: "start \<le> j \<Longrightarrow> j < start + len \<Longrightarrow> summed start len j"
  by (auto simp: summed_def wordsIn_def)

lemma checksumAddBytes_cong:
  assumes "\<And>j. summed start len j \<Longrightarrow> skip \<noteq> Some j \<Longrightarrow> skip \<noteq> Some (j - 1) \<Longrightarrow> byteAt bs j = byteAt bs' j"
    "\<And>s. skip = Some s \<Longrightarrow> 2 dvd (s - start)"
  shows "rawChecksumAddBytes bs start len acc skip = rawChecksumAddBytes bs' start len acc skip"
  unfolding rawChecksumAddBytes_def
proof (rule addBytesLoop_cong)
  fix p assume p: "start + 0 \<le> p" "p < start + len" "2 dvd (p - (start + 0))" "skip \<noteq> Some p"
  obtain q where "p - (start + 0) = 2 * q" using p(3) by (rule dvdE)
  then have q: "p = start + 2 * q" "0 \<le> q" "2 * q < len" using p(1,2) by auto
  then have "summed start len p" "summed start len (p + 1)"
    by (simp_all add: summed_def wordsIn_def) presburger+
  moreover have "skip \<noteq> Some (p + k)" if "\<not> 2 dvd k" for k
  proof
    assume "skip = Some (p + k)"
    then have "2 dvd (p + k - start)" by (rule assms(2))
    with p(3) that show False by presburger
  qed
  from this [of 1] this [of "- 1"] have "skip \<noteq> Some (p + 1)" "skip \<noteq> Some (p - 1)" by simp_all
  ultimately show "byteAt bs p = byteAt bs' p \<and> byteAt bs (p + 1) = byteAt bs' (p + 1)"
    using assms(1) [of p] assms(1) [of "p + 1"] p(4) by simp
qed

lemma checksumAddBytes_cong_skip:
  assumes "s = start + 2 * k" "\<And>j. summed start len j \<Longrightarrow> j \<noteq> s \<Longrightarrow> j \<noteq> s + 1 \<Longrightarrow> byteAt bs j = byteAt bs' j"
  shows "rawChecksumAddBytes bs start len acc (Some s) = rawChecksumAddBytes bs' start len acc (Some s)"
proof (rule checksumAddBytes_cong)
  fix j assume "summed start len j" "Some s \<noteq> Some j" "Some s \<noteq> Some (j - 1)"
  then show "byteAt bs j = byteAt bs' j" using assms(2) [of j] by auto
next
  fix u assume "Some s = Some u"
  then have "u - start = 2 * k" using assms(1) by simp
  then show "2 dvd (u - start)" by (rule dvdI)
qed

lemma checksumAddBytes_cong_all:
  "(\<And>j. summed start len j \<Longrightarrow> byteAt bs j = byteAt bs' j)
   \<Longrightarrow> rawChecksumAddBytes bs start len acc None = rawChecksumAddBytes bs' start len acc None"
  by (rule checksumAddBytes_cong) auto

section \<open>The five passes keep the contract\<close>

lemma hasBytes_storeChecksum_cong:
  "rawPacketHasBytes bs off 2 \<Longrightarrow> rawPacketHasBytes (storeChecksum bs off c) = rawPacketHasBytes bs"
  by (rule hasBytes_length_cong) simp

lemma word_range16: "0 \<le> js_and c 0xffff \<and> js_and c 0xffff \<le> 65535"
  using pos_mod_bound [of 65536 c] by (simp add: js_and_mask16)

text \<open>IPv4.\<close>

definition ipv4Good :: "bytes \<Rightarrow> int \<Rightarrow> bool" where
  "ipv4Good bs off \<longleftrightarrow>
     (case rawIpv4HeaderLengthAt bs off of
        None \<Rightarrow> True
      | Some h \<Rightarrow> rawPacketWord bs (off + 10) = rawIpv4HeaderChecksum bs off h)"

definition ipv4Depends :: "bytes \<Rightarrow> int \<Rightarrow> int \<Rightarrow> bool" where
  "ipv4Depends bs off j \<longleftrightarrow>
     j = off \<or> (\<exists>h. rawIpv4HeaderLengthAt bs off = Some h \<and> off \<le> j \<and> j < off + h)"

lemma ipv4HeaderLength_cong:
  "length bs' = length bs \<Longrightarrow> byteAt bs' off = byteAt bs off
   \<Longrightarrow> rawIpv4HeaderLengthAt bs' off = rawIpv4HeaderLengthAt bs off"
  by (simp add: rawIpv4HeaderLengthAt_def nibbleLow_def hasBytes_length_cong [of bs' bs])

lemma ipv4HeaderChecksum_cong:
  assumes "2 dvd h" "\<And>j. off \<le> j \<Longrightarrow> j < off + h \<Longrightarrow> j \<noteq> off + 10 \<Longrightarrow> j \<noteq> off + 11 \<Longrightarrow> byteAt bs j = byteAt bs' j"
  shows "rawIpv4HeaderChecksum bs off h = rawIpv4HeaderChecksum bs' off h"
  unfolding rawIpv4HeaderChecksum_def
  using headerSumLoop_cong [of off h bs bs' 0 "nat h" 0] assms by simp

lemma headerLength_even: "rawIpv4HeaderLengthAt bs off = Some h \<Longrightarrow> 2 dvd h"
  by (drule ipv4HeaderLengthD(4)) simp

lemma repairIpv4Step_cases:
  assumes "rawIpv4HeaderLengthAt bs off = Some h"
  shows "rawPacketHasBytes bs (off + 10) 2"
    "repairIpv4Step bs off = storeChecksum bs (off + 10) (rawIpv4HeaderChecksum bs off h)"
proof -
  show "rawPacketHasBytes bs (off + 10) 2"
    using ipv4HeaderLengthD(1,3) [OF assms] by (auto simp: rawPacketHasBytes_def)
  then show "repairIpv4Step bs off = storeChecksum bs (off + 10) (rawIpv4HeaderChecksum bs off h)"
    using assms by (simp add: repairIpv4Step_def)
qed

lemma repairIpv4Step_length: "length (repairIpv4Step bs off) = length bs"
  by (simp add: repairIpv4Step_def split: option.split)

lemma repairIpv4Step_frame:
  "j < off + 10 \<or> off + 10 + 2 \<le> j \<Longrightarrow> byteAt (repairIpv4Step bs off) j = byteAt bs j"
  by (auto simp: repairIpv4Step_def byteAt_storeChecksum split: option.split)

lemma insertionOrder_set: "set (insertionOrder xs) \<subseteq> set xs"
proof -
  have "set (foldl (\<lambda>acc x. if x \<in> set acc then acc else acc @ [x]) ys xs) \<subseteq> set ys \<union> set xs" for ys
  proof (induction xs arbitrary: ys)
    case (Cons x xs)
    from Cons.IH [of ys] Cons.IH [of "ys @ [x]"] show ?case by auto
  qed simp
  from this [of "[]"] show ?thesis by (simp add: insertionOrder_def)
qed

lemma collectIpv4_header:
  assumes "off \<in> set (collectRawPacketIpv4HeaderOffsets bs)"
  shows "rawIpv4HeaderLengthAt bs off \<noteq> None"
proof -
  have a: "x \<in> set (addIpv4Offset bs y) \<Longrightarrow> rawIpv4HeaderLengthAt bs x \<noteq> None" for x y
    by (simp add: addIpv4Offset_def split: if_split_asm)
  have g: "x \<in> set (ipv4InGre bs y) \<Longrightarrow> rawIpv4HeaderLengthAt bs x \<noteq> None" for x y
    unfolding ipv4InGre_def mem_emitted using a by auto
  have u: "x \<in> set (ipv4InUdpTunnels bs y z) \<Longrightarrow> rawIpv4HeaderLengthAt bs x \<noteq> None" for x y z
    unfolding ipv4InUdpTunnels_def mem_emitted using a by auto
  show ?thesis
    using subsetD [OF insertionOrder_set assms [unfolded collectRawPacketIpv4HeaderOffsets_def]] a g u
    unfolding Let_def mem_emitted by auto
qed

interpretation ipv4_pass: repair_pass collectRawPacketIpv4HeaderOffsets repairIpv4Step "\<lambda>off. off + 10" 2
    ipv4Good ipv4Depends "\<lambda>off. True"
proof unfold_locales
  fix bs :: bytes and off :: int
  show "length (repairIpv4Step bs off) = length bs" by (rule repairIpv4Step_length)
next
  fix bs :: bytes and off :: int
  assume "is_bytes bs"
  then show "is_bytes (repairIpv4Step bs off)"
    by (simp add: repairIpv4Step_def is_bytes_storeChecksum split: option.split)
next
  fix j off :: int and bs :: bytes
  assume "j < off + 10 \<or> off + 10 + 2 \<le> j"
  then show "byteAt (repairIpv4Step bs off) j = byteAt bs j" by (rule repairIpv4Step_frame)
next
  fix bs :: bytes and off :: int
  assume b: "is_bytes bs"
  show "ipv4Good (repairIpv4Step bs off) off"
  proof (cases "rawIpv4HeaderLengthAt bs off")
    case None
    then show ?thesis by (simp add: ipv4Good_def repairIpv4Step_def)
  next
    case (Some h)
    note s = repairIpv4Step_cases [OF Some]
    have "rawIpv4HeaderLengthAt (repairIpv4Step bs off) off = Some h"
      using ipv4HeaderLength_cong [OF repairIpv4Step_length repairIpv4Step_frame] Some by simp
    moreover have "rawPacketWord (repairIpv4Step bs off) (off + 10) = rawIpv4HeaderChecksum bs off h"
      unfolding s(2) using word_range16 by (intro word_storeChecksum [OF b s(1)]) (simp_all add: rawIpv4HeaderChecksum_def)
    moreover have "rawIpv4HeaderChecksum bs off h = rawIpv4HeaderChecksum (repairIpv4Step bs off) off h"
      by (rule ipv4HeaderChecksum_cong [OF headerLength_even [OF Some]], rule repairIpv4Step_frame [symmetric]) linarith
    ultimately show ?thesis by (simp add: ipv4Good_def)
  qed
next
  fix bs :: bytes and off :: int
  assume "is_bytes bs" "ipv4Good bs off"
  then show "repairIpv4Step bs off = bs"
    by (cases "rawIpv4HeaderLengthAt bs off")
       (simp_all add: repairIpv4Step_cases ipv4Good_def storeChecksum_same, simp add: repairIpv4Step_def)
next
  fix bs' bs :: bytes and off :: int
  assume l: "length bs' = length bs" and d: "\<And>j. ipv4Depends bs off j \<Longrightarrow> byteAt bs' j = byteAt bs j"
  have h: "rawIpv4HeaderLengthAt bs' off = rawIpv4HeaderLengthAt bs off"
    using ipv4HeaderLength_cong [OF l] d by (simp add: ipv4Depends_def)
  have "ipv4Good bs' off = ipv4Good bs off"
  proof (cases "rawIpv4HeaderLengthAt bs off")
    case None
    with h show ?thesis by (simp add: ipv4Good_def)
  next
    case (Some k)
    have eq: "byteAt bs' j = byteAt bs j" if "off \<le> j" "j < off + k" for j
      using d that Some by (auto simp: ipv4Depends_def)
    have "rawIpv4HeaderChecksum bs' off k = rawIpv4HeaderChecksum bs off k"
      using eq by (intro ipv4HeaderChecksum_cong headerLength_even [OF Some]) auto
    moreover have "rawPacketWord bs' (off + 10) = rawPacketWord bs (off + 10)"
      using eq [of "off + 10"] eq [of "off + 10 + 1"] ipv4HeaderLengthD(1) [OF Some]
      by (intro rawPacketWord_cong) auto
    ultimately show ?thesis using h Some by (simp add: ipv4Good_def)
  qed
  then show "ipv4Good bs' off = ipv4Good bs off \<and> ipv4Depends bs' off = ipv4Depends bs off"
    using h by (simp add: ipv4Depends_def fun_eq_iff)
next
  fix bs :: bytes and off j :: int
  assume "ipv4Depends (repairIpv4Step bs off) off j"
  then show "ipv4Depends bs off j"
    using ipv4HeaderLength_cong [OF repairIpv4Step_length [of bs off] repairIpv4Step_frame, of off]
    by (simp add: ipv4Depends_def)
next
  fix bs :: bytes and off :: int
  assume "off \<in> set (collectRawPacketIpv4HeaderOffsets bs)"
  then show "True \<and> rawPacketHasBytes bs (off + 10) 2"
    using collectIpv4_header repairIpv4Step_cases(1) by blast
qed

end
