(* ===== verification/RepairPasses.thy ===== *)
theory RepairPasses
  imports Repair
begin

text \<open>
  The ICMP, SCTP, GRE and transport passes keep the contract \<open>repair_pass\<close>: the bytes each
  checksum depends on, and the interpretation of the contract.
\<close>

lemma word_agree:
  "byteAt bs' off = byteAt bs off \<Longrightarrow> byteAt bs' (off + 1) = byteAt bs (off + 1)
   \<Longrightarrow> rawPacketWord bs' off = rawPacketWord bs off"
  by (rule rawPacketWord_cong)

section \<open>ICMP\<close>

definition icmpGood :: "bytes \<Rightarrow> RawPacketIcmpChecksumTarget \<Rightarrow> bool" where
  "icmpGood bs t \<longleftrightarrow> rawPacketHasBytes bs (icmp_checksumOffset t) 2
     \<longrightarrow> rawPacketWord bs (icmp_checksumOffset t) = rawIcmpChecksum bs t"

definition icmpDepends :: "RawPacketIcmpChecksumTarget \<Rightarrow> int \<Rightarrow> bool" where
  "icmpDepends t j \<longleftrightarrow>
     (icmp_ipVersion t = 6 \<and> summed (icmp_ipOffset t + 8) 32 j)
     \<or> summed (icmp_icmpOffset t) (icmp_length t) j
     \<or> j = icmp_checksumOffset t \<or> j = icmp_checksumOffset t + 1"

definition icmpWf :: "RawPacketIcmpChecksumTarget \<Rightarrow> bool" where
  "icmpWf t \<longleftrightarrow> icmp_checksumOffset t = icmp_icmpOffset t + 2
     \<and> (icmp_ipVersion t = 6 \<longrightarrow> icmp_ipOffset t + 40 \<le> icmp_icmpOffset t)"

lemma summed_32: "summed start 32 j \<longleftrightarrow> start \<le> j \<and> j < start + 32"
  by (simp add: summed_def wordsIn_def)

lemma summed_8: "summed start 8 j \<longleftrightarrow> start \<le> j \<and> j < start + 8"
  by (simp add: summed_def wordsIn_def)

lemma rawIcmpChecksum_cong:
  assumes "icmpWf t" "\<And>j. icmpDepends t j \<Longrightarrow> j \<noteq> icmp_checksumOffset t \<Longrightarrow> j \<noteq> icmp_checksumOffset t + 1
      \<Longrightarrow> byteAt bs j = byteAt bs' j"
  shows "rawIcmpChecksum bs t = rawIcmpChecksum bs' t"
proof -
  have "rawChecksumAddBytes bs (icmp_icmpOffset t) (icmp_length t) a (Some (icmp_checksumOffset t))
      = rawChecksumAddBytes bs' (icmp_icmpOffset t) (icmp_length t) a (Some (icmp_checksumOffset t))" for a
    using assms by (intro checksumAddBytes_cong_skip [of _ _ 1]) (auto simp: icmpDepends_def icmpWf_def)
  moreover have "rawChecksumAddBytes bs (icmp_ipOffset t + 8) 32 0 None
      = rawChecksumAddBytes bs' (icmp_ipOffset t + 8) 32 0 None" if "icmp_ipVersion t = 6"
    using assms that by (intro checksumAddBytes_cong_all) (auto simp: icmpDepends_def icmpWf_def summed_32)
  ultimately show ?thesis by (simp add: rawIcmpChecksum_def Let_def)
qed

interpretation icmp_pass: repair_pass collectRawPacketIcmpChecksumTargets repairIcmpStep icmp_checksumOffset 2
    icmpGood "\<lambda>bs. icmpDepends" icmpWf
proof unfold_locales
  fix bs :: bytes and t :: RawPacketIcmpChecksumTarget
  show "length (repairIcmpStep bs t) = length bs" by (simp add: repairIcmpStep_def)
next
  fix bs :: bytes and t :: RawPacketIcmpChecksumTarget
  assume "is_bytes bs"
  then show "is_bytes (repairIcmpStep bs t)" by (simp add: repairIcmpStep_def is_bytes_storeChecksum)
next
  fix j :: int and bs :: bytes and t :: RawPacketIcmpChecksumTarget
  assume "j < icmp_checksumOffset t \<or> icmp_checksumOffset t + 2 \<le> j"
  then show "byteAt (repairIcmpStep bs t) j = byteAt bs j"
    by (auto simp: repairIcmpStep_def byteAt_storeChecksum)
next
  fix bs :: bytes and t :: RawPacketIcmpChecksumTarget
  assume b: "is_bytes bs" and w: "icmpWf t" and h: "rawPacketHasBytes bs (icmp_checksumOffset t) 2"
  let ?bs = "storeChecksum bs (icmp_checksumOffset t) (rawIcmpChecksum bs t)"
  have "rawIcmpChecksum ?bs t = rawIcmpChecksum bs t"
    using w by (rule rawIcmpChecksum_cong) (simp add: byteAt_storeChecksum [OF h])
  moreover have "rawPacketWord ?bs (icmp_checksumOffset t) = rawIcmpChecksum bs t"
    using word_range16 by (intro word_storeChecksum [OF b h]) (simp_all add: rawIcmpChecksum_def)
  ultimately show "icmpGood (repairIcmpStep bs t) t"
    using h by (simp add: icmpGood_def repairIcmpStep_def)
next
  fix bs :: bytes and t :: RawPacketIcmpChecksumTarget
  assume "is_bytes bs" "icmpGood bs t"
  then show "repairIcmpStep bs t = bs" by (simp add: repairIcmpStep_def icmpGood_def storeChecksum_same)
next
  fix bs' bs :: bytes and t :: RawPacketIcmpChecksumTarget
  assume w: "icmpWf t" and l: "length bs' = length bs" and d: "\<And>j. icmpDepends t j \<Longrightarrow> byteAt bs' j = byteAt bs j"
  have "rawIcmpChecksum bs' t = rawIcmpChecksum bs t"
    using w by (rule rawIcmpChecksum_cong) (rule d)
  moreover have "rawPacketWord bs' (icmp_checksumOffset t) = rawPacketWord bs (icmp_checksumOffset t)"
    by (intro word_agree d) (simp_all add: icmpDepends_def)
  ultimately show "icmpGood bs' t = icmpGood bs t \<and> icmpDepends t = icmpDepends t"
    by (simp add: icmpGood_def hasBytes_length_cong [OF l])
next
  fix bs :: bytes and t :: RawPacketIcmpChecksumTarget
  assume "t \<in> set (collectRawPacketIcmpChecksumTargets bs)"
  then obtain e where "t = snd e" "icmpSound bs e"
    by (auto simp: collectRawPacketIcmpChecksumTargets_def dest!: icmp_walk.collected)
  then show "icmpWf t \<and> rawPacketHasBytes bs (icmp_checksumOffset t) 2"
    by (auto simp: icmpSound_def icmpWf_def Let_def rawPacketHasBytes_def)
qed

section \<open>GRE\<close>

definition greGood :: "bytes \<Rightarrow> RawPacketGreChecksumTarget \<Rightarrow> bool" where
  "greGood bs t \<longleftrightarrow> rawPacketHasBytes bs (gret_checksumOffset t) 2
     \<longrightarrow> rawPacketWord bs (gret_checksumOffset t) = rawGreChecksum bs t"

definition greDepends :: "RawPacketGreChecksumTarget \<Rightarrow> int \<Rightarrow> bool" where
  "greDepends t j \<longleftrightarrow> summed (gret_greOffset t) (gret_length t) j
     \<or> j = gret_checksumOffset t \<or> j = gret_checksumOffset t + 1"

definition greWf :: "RawPacketGreChecksumTarget \<Rightarrow> bool" where
  "greWf t \<longleftrightarrow> gret_checksumOffset t = gret_greOffset t + 4"

lemma rawGreChecksum_cong:
  assumes "greWf t" "\<And>j. greDepends t j \<Longrightarrow> j \<noteq> gret_checksumOffset t \<Longrightarrow> j \<noteq> gret_checksumOffset t + 1
      \<Longrightarrow> byteAt bs j = byteAt bs' j"
  shows "rawGreChecksum bs t = rawGreChecksum bs' t"
proof -
  have "rawChecksumAddBytes bs (gret_greOffset t) (gret_length t) 0 (Some (gret_checksumOffset t))
      = rawChecksumAddBytes bs' (gret_greOffset t) (gret_length t) 0 (Some (gret_checksumOffset t))"
    using assms by (intro checksumAddBytes_cong_skip [of _ _ 2]) (auto simp: greDepends_def greWf_def)
  then show ?thesis by (simp add: rawGreChecksum_def)
qed

interpretation gre_pass: repair_pass collectRawPacketGreChecksumTargets repairGreStep gret_checksumOffset 2
    greGood "\<lambda>bs. greDepends" greWf
proof unfold_locales
  fix bs :: bytes and t :: RawPacketGreChecksumTarget
  show "length (repairGreStep bs t) = length bs" by (simp add: repairGreStep_def)
next
  fix bs :: bytes and t :: RawPacketGreChecksumTarget
  assume "is_bytes bs"
  then show "is_bytes (repairGreStep bs t)" by (simp add: repairGreStep_def is_bytes_storeChecksum)
next
  fix j :: int and bs :: bytes and t :: RawPacketGreChecksumTarget
  assume "j < gret_checksumOffset t \<or> gret_checksumOffset t + 2 \<le> j"
  then show "byteAt (repairGreStep bs t) j = byteAt bs j"
    by (auto simp: repairGreStep_def byteAt_storeChecksum)
next
  fix bs :: bytes and t :: RawPacketGreChecksumTarget
  assume b: "is_bytes bs" and w: "greWf t" and h: "rawPacketHasBytes bs (gret_checksumOffset t) 2"
  let ?bs = "storeChecksum bs (gret_checksumOffset t) (rawGreChecksum bs t)"
  have "rawGreChecksum ?bs t = rawGreChecksum bs t"
    using w by (rule rawGreChecksum_cong) (simp add: byteAt_storeChecksum [OF h])
  moreover have "rawPacketWord ?bs (gret_checksumOffset t) = rawGreChecksum bs t"
    using word_range16 by (intro word_storeChecksum [OF b h]) (simp_all add: rawGreChecksum_def)
  ultimately show "greGood (repairGreStep bs t) t"
    using h by (simp add: greGood_def repairGreStep_def)
next
  fix bs :: bytes and t :: RawPacketGreChecksumTarget
  assume "is_bytes bs" "greGood bs t"
  then show "repairGreStep bs t = bs" by (simp add: repairGreStep_def greGood_def storeChecksum_same)
next
  fix bs' bs :: bytes and t :: RawPacketGreChecksumTarget
  assume w: "greWf t" and l: "length bs' = length bs" and d: "\<And>j. greDepends t j \<Longrightarrow> byteAt bs' j = byteAt bs j"
  have "rawGreChecksum bs' t = rawGreChecksum bs t"
    using w by (rule rawGreChecksum_cong) (rule d)
  moreover have "rawPacketWord bs' (gret_checksumOffset t) = rawPacketWord bs (gret_checksumOffset t)"
    by (intro word_agree d) (simp_all add: greDepends_def)
  ultimately show "greGood bs' t = greGood bs t \<and> greDepends t = greDepends t"
    by (simp add: greGood_def hasBytes_length_cong [OF l])
next
  fix bs :: bytes and t :: RawPacketGreChecksumTarget
  assume "t \<in> set (collectRawPacketGreChecksumTargets bs)"
  from collectGre_sound(1) [OF this]
  show "greWf t \<and> rawPacketHasBytes bs (gret_checksumOffset t) 2"
    by (auto simp: greSound_def greWf_def Let_def rawPacketHasBytes_def)
qed

section \<open>Transport\<close>

definition transportGood :: "bytes \<Rightarrow> RawPacketTransportChecksumTarget \<Rightarrow> bool" where
  "transportGood bs t \<longleftrightarrow> rawPacketHasBytes bs (trt_checksumOffset t) 2
     \<longrightarrow> rawPacketWord bs (trt_checksumOffset t) = rawTransportChecksum bs t"

definition transportDepends :: "RawPacketTransportChecksumTarget \<Rightarrow> int \<Rightarrow> bool" where
  "transportDepends t j \<longleftrightarrow>
     (if trt_ipVersion t = 4 then summed (trt_ipOffset t + 12) 8 j else summed (trt_ipOffset t + 8) 32 j)
     \<or> summed (trt_l4Offset t) (trt_length t) j
     \<or> j = trt_checksumOffset t \<or> j = trt_checksumOffset t + 1"

definition transportWf :: "RawPacketTransportChecksumTarget \<Rightarrow> bool" where
  "transportWf t \<longleftrightarrow> trt_checksumOffset t = trt_l4Offset t + (if trt_protocol t = 17 then 6 else 16)
     \<and> trt_ipOffset t + (if trt_ipVersion t = 4 then 20 else 40) \<le> trt_l4Offset t"

lemma rawTransportChecksum_cong:
  assumes "transportWf t" "\<And>j. transportDepends t j \<Longrightarrow> j \<noteq> trt_checksumOffset t \<Longrightarrow> j \<noteq> trt_checksumOffset t + 1
      \<Longrightarrow> byteAt bs j = byteAt bs' j"
  shows "rawTransportChecksum bs t = rawTransportChecksum bs' t"
proof -
  have "rawChecksumAddBytes bs (trt_l4Offset t) (trt_length t) a (Some (trt_checksumOffset t))
      = rawChecksumAddBytes bs' (trt_l4Offset t) (trt_length t) a (Some (trt_checksumOffset t))" for a
    using assms by (intro checksumAddBytes_cong_skip [of _ _ "if trt_protocol t = 17 then 3 else 8"])
      (simp_all add: transportDepends_def transportWf_def)
  moreover have "rawChecksumAddBytes bs (trt_ipOffset t + 12) 8 0 None
      = rawChecksumAddBytes bs' (trt_ipOffset t + 12) 8 0 None" if "trt_ipVersion t = 4"
    using assms that by (intro checksumAddBytes_cong_all)
      (auto simp: transportDepends_def transportWf_def summed_8 split: if_split_asm)
  moreover have "rawChecksumAddBytes bs (trt_ipOffset t + 8) 32 0 None
      = rawChecksumAddBytes bs' (trt_ipOffset t + 8) 32 0 None" if "trt_ipVersion t \<noteq> 4"
    using assms that by (intro checksumAddBytes_cong_all)
      (auto simp: transportDepends_def transportWf_def summed_32 split: if_split_asm)
  ultimately show ?thesis
    by (cases "trt_ipVersion t = 4") (simp_all add: rawTransportChecksum_def Let_def split del: if_split)
qed

lemma rawTransportChecksum_range: "0 \<le> rawTransportChecksum bs t \<and> rawTransportChecksum bs t \<le> 65535"
  using word_range16 by (auto simp: rawTransportChecksum_def Let_def)

interpretation transport_pass:
  repair_pass collectRawPacketTransportChecksumTargets repairTransportStep trt_checksumOffset 2
    transportGood "\<lambda>bs. transportDepends" transportWf
proof unfold_locales
  fix bs :: bytes and t :: RawPacketTransportChecksumTarget
  show "length (repairTransportStep bs t) = length bs" by (simp add: repairTransportStep_def)
next
  fix bs :: bytes and t :: RawPacketTransportChecksumTarget
  assume "is_bytes bs"
  then show "is_bytes (repairTransportStep bs t)" by (simp add: repairTransportStep_def is_bytes_storeChecksum)
next
  fix j :: int and bs :: bytes and t :: RawPacketTransportChecksumTarget
  assume "j < trt_checksumOffset t \<or> trt_checksumOffset t + 2 \<le> j"
  then show "byteAt (repairTransportStep bs t) j = byteAt bs j"
    by (auto simp: repairTransportStep_def byteAt_storeChecksum)
next
  fix bs :: bytes and t :: RawPacketTransportChecksumTarget
  assume b: "is_bytes bs" and w: "transportWf t" and h: "rawPacketHasBytes bs (trt_checksumOffset t) 2"
  let ?bs = "storeChecksum bs (trt_checksumOffset t) (rawTransportChecksum bs t)"
  have "rawTransportChecksum ?bs t = rawTransportChecksum bs t"
    using w by (rule rawTransportChecksum_cong) (simp add: byteAt_storeChecksum [OF h])
  moreover have "rawPacketWord ?bs (trt_checksumOffset t) = rawTransportChecksum bs t"
    using rawTransportChecksum_range by (intro word_storeChecksum [OF b h]) simp_all
  ultimately show "transportGood (repairTransportStep bs t) t"
    using h by (simp add: transportGood_def repairTransportStep_def)
next
  fix bs :: bytes and t :: RawPacketTransportChecksumTarget
  assume "is_bytes bs" "transportGood bs t"
  then show "repairTransportStep bs t = bs"
    by (simp add: repairTransportStep_def transportGood_def storeChecksum_same)
next
  fix bs' bs :: bytes and t :: RawPacketTransportChecksumTarget
  assume w: "transportWf t" and l: "length bs' = length bs"
    and d: "\<And>j. transportDepends t j \<Longrightarrow> byteAt bs' j = byteAt bs j"
  have "rawTransportChecksum bs' t = rawTransportChecksum bs t"
    using w by (rule rawTransportChecksum_cong) (rule d)
  moreover have "rawPacketWord bs' (trt_checksumOffset t) = rawPacketWord bs (trt_checksumOffset t)"
    by (intro word_agree d) (simp_all add: transportDepends_def)
  ultimately show "transportGood bs' t = transportGood bs t \<and> transportDepends t = transportDepends t"
    by (simp add: transportGood_def hasBytes_length_cong [OF l])
next
  fix bs :: bytes and t :: RawPacketTransportChecksumTarget
  assume "t \<in> set (collectRawPacketTransportChecksumTargets bs)"
  then obtain e where "t = snd e" "transportSound bs e"
    by (auto simp: collectRawPacketTransportChecksumTargets_def dest!: transport_walk.collected)
  then show "transportWf t \<and> rawPacketHasBytes bs (trt_checksumOffset t) 2"
    by (auto simp: transportSound_def transportWf_def Let_def rawPacketHasBytes_def)
qed

section \<open>SCTP\<close>

definition sctpFieldIs :: "bytes \<Rightarrow> int \<Rightarrow> int \<Rightarrow> bool" where
  "sctpFieldIs bs off c \<longleftrightarrow> byteAt bs off = js_and c 0xff \<and> byteAt bs (off + 1) = js_and (js_ushr c 8) 0xff
     \<and> byteAt bs (off + 2) = js_and (js_ushr c 16) 0xff \<and> byteAt bs (off + 3) = js_and (js_ushr c 24) 0xff"

definition sctpGood :: "bytes \<Rightarrow> RawPacketSctpChecksumTarget \<Rightarrow> bool" where
  "sctpGood bs t \<longleftrightarrow> rawPacketHasBytes bs (sctpt_checksumOffset t) 4
     \<longrightarrow> sctpFieldIs bs (sctpt_checksumOffset t) (rawSctpCrc32c bs t)"

definition sctpDepends :: "RawPacketSctpChecksumTarget \<Rightarrow> int \<Rightarrow> bool" where
  "sctpDepends t j \<longleftrightarrow>
     (sctpt_sctpOffset t \<le> j \<and> j < sctpt_sctpOffset t + sctpt_length t)
     \<or> (sctpt_checksumOffset t \<le> j \<and> j < sctpt_checksumOffset t + 4)"

definition storeCrc :: "bytes \<Rightarrow> int \<Rightarrow> int \<Rightarrow> bytes" where
  "storeCrc bs off c =
     storeAt (storeAt (storeAt (storeAt bs off (js_and c 0xff))
       (off + 1) (js_and (js_ushr c 8) 0xff)) (off + 2) (js_and (js_ushr c 16) 0xff))
       (off + 3) (js_and (js_ushr c 24) 0xff)"

lemma repairSctpStep_eq:
  "repairSctpStep bs t = (if rawPacketHasBytes bs (sctpt_checksumOffset t) 4
     then storeCrc bs (sctpt_checksumOffset t) (rawSctpCrc32c bs t) else bs)"
  by (simp add: repairSctpStep_def storeCrc_def Let_def)

lemma length_storeCrc [simp]: "rawPacketHasBytes bs off 4 \<Longrightarrow> length (storeCrc bs off c) = length bs"
  by (simp add: storeCrc_def rawPacketHasBytes_def)

lemma byteAt_storeCrc:
  "rawPacketHasBytes bs off 4 \<Longrightarrow> byteAt (storeCrc bs off c) j
     = (if j = off then js_and c 0xff else if j = off + 1 then js_and (js_ushr c 8) 0xff
        else if j = off + 2 then js_and (js_ushr c 16) 0xff
        else if j = off + 3 then js_and (js_ushr c 24) 0xff else byteAt bs j)"
  by (simp add: storeCrc_def byteOr_storeAt rawPacketHasBytes_def)

lemma is_bytes_storeCrc: "is_bytes bs \<Longrightarrow> is_bytes (storeCrc bs off c)"
  using low_byte by (simp add: storeCrc_def is_bytes_storeAt)

lemma rawSctpCrc32c_cong:
  assumes "\<And>j. sctpDepends t j \<Longrightarrow> j < sctpt_checksumOffset t \<or> sctpt_checksumOffset t + 4 \<le> j
      \<Longrightarrow> byteAt bs j = byteAt bs' j"
  shows "rawSctpCrc32c bs t = rawSctpCrc32c bs' t"
  unfolding rawSctpCrc32c_def
  using assms by (intro arg_cong [where f = "\<lambda>x. js_ushr (js_not x) 0"] crcLoop_cong)
    (auto simp: sctpDepends_def split: if_split_asm)

interpretation sctp_pass: repair_pass collectRawPacketSctpChecksumTargets repairSctpStep sctpt_checksumOffset 4
    sctpGood "\<lambda>bs. sctpDepends" "\<lambda>t. True"
proof unfold_locales
  fix bs :: bytes and t :: RawPacketSctpChecksumTarget
  show "length (repairSctpStep bs t) = length bs" by (simp add: repairSctpStep_eq)
next
  fix bs :: bytes and t :: RawPacketSctpChecksumTarget
  assume "is_bytes bs"
  then show "is_bytes (repairSctpStep bs t)" by (simp add: repairSctpStep_eq is_bytes_storeCrc)
next
  fix j :: int and bs :: bytes and t :: RawPacketSctpChecksumTarget
  assume "j < sctpt_checksumOffset t \<or> sctpt_checksumOffset t + 4 \<le> j"
  then show "byteAt (repairSctpStep bs t) j = byteAt bs j"
    by (auto simp: repairSctpStep_eq byteAt_storeCrc)
next
  fix bs :: bytes and t :: RawPacketSctpChecksumTarget
  assume h: "rawPacketHasBytes bs (sctpt_checksumOffset t) 4"
  let ?bs = "storeCrc bs (sctpt_checksumOffset t) (rawSctpCrc32c bs t)"
  have "rawSctpCrc32c ?bs t = rawSctpCrc32c bs t"
    by (rule rawSctpCrc32c_cong) (auto simp: byteAt_storeCrc [OF h])
  then show "sctpGood (repairSctpStep bs t) t"
    using h by (simp add: sctpGood_def repairSctpStep_eq sctpFieldIs_def byteAt_storeCrc)
next
  fix bs :: bytes and t :: RawPacketSctpChecksumTarget
  assume b: "is_bytes bs" and g: "sctpGood bs t"
  show "repairSctpStep bs t = bs"
  proof (cases "rawPacketHasBytes bs (sctpt_checksumOffset t) 4")
    case True
    with g have "byteAt (storeCrc bs (sctpt_checksumOffset t) (rawSctpCrc32c bs t)) j = byteAt bs j" for j
      by (simp add: sctpGood_def sctpFieldIs_def byteAt_storeCrc)
    with True have "storeCrc bs (sctpt_checksumOffset t) (rawSctpCrc32c bs t) = bs"
      by (intro bytes_eqI) simp_all
    with True show ?thesis by (simp add: repairSctpStep_eq)
  qed (simp add: repairSctpStep_eq)
next
  fix bs' bs :: bytes and t :: RawPacketSctpChecksumTarget
  assume l: "length bs' = length bs" and d: "\<And>j. sctpDepends t j \<Longrightarrow> byteAt bs' j = byteAt bs j"
  have "rawSctpCrc32c bs' t = rawSctpCrc32c bs t"
    by (rule rawSctpCrc32c_cong) (rule d)
  moreover have "sctpFieldIs bs' (sctpt_checksumOffset t) c = sctpFieldIs bs (sctpt_checksumOffset t) c" for c
    using d by (simp add: sctpFieldIs_def sctpDepends_def)
  ultimately show "sctpGood bs' t = sctpGood bs t \<and> sctpDepends t = sctpDepends t"
    by (simp add: sctpGood_def hasBytes_length_cong [OF l])
next
  fix bs :: bytes and t :: RawPacketSctpChecksumTarget
  assume "t \<in> set (collectRawPacketSctpChecksumTargets bs)"
  then obtain e where "t = snd e" "sctpSound bs e"
    by (auto simp: collectRawPacketSctpChecksumTargets_def dest!: sctp_walk.collected)
  then show "True \<and> rawPacketHasBytes bs (sctpt_checksumOffset t) 4"
    by (auto simp: sctpSound_def Let_def rawPacketHasBytes_def)
qed

end
