(* ===== verification/RepairCorrect.thy ===== *)
theory RepairCorrect
  imports RepairPasses
begin

text \<open>
  What the whole repair guarantees: the packet keeps its length, its bytes stay bytes, the outer
  IPv4 header closes, a packet whose checksums are right is left alone, and transport
  checksums are right afterwards when the packet has one of them or two nested ones. The ICMPv4
  echo dissector, which trusts only ICMP messages that close, is here too.
\<close>

section \<open>Length and bytes\<close>

lemmas pass_defs = repairRawPacketIpv4Checksums_def repairRawPacketIcmpChecksums_def
  repairRawPacketSctpChecksums_def repairRawPacketTransportChecksums_def repairRawPacketGreChecksums_def

lemmas passes_length = ipv4_pass.repaired_length icmp_pass.repaired_length sctp_pass.repaired_length
  transport_pass.repaired_length gre_pass.repaired_length

lemmas passes_bytes = ipv4_pass.repaired_bytes icmp_pass.repaired_bytes sctp_pass.repaired_bytes
  transport_pass.repaired_bytes gre_pass.repaired_bytes

lemma repair_length: "length (repairRawPacketChecksums bs) = length bs"
  by (simp add: repairRawPacketChecksums_def Let_def pass_defs passes_length)

lemma repair_bytes: "is_bytes bs \<Longrightarrow> is_bytes (repairRawPacketChecksums bs)"
  by (simp add: repairRawPacketChecksums_def Let_def pass_defs passes_bytes)

section \<open>A correct packet is left alone\<close>

text \<open>Every checksum the collectors find is the one that would be computed.\<close>

definition allGood :: "bytes \<Rightarrow> bool" where
  "allGood bs \<longleftrightarrow>
     list_all (ipv4Good bs) (collectRawPacketIpv4HeaderOffsets bs)
     \<and> list_all (icmpGood bs) (collectRawPacketIcmpChecksumTargets bs)
     \<and> list_all (sctpGood bs) (collectRawPacketSctpChecksumTargets bs)
     \<and> list_all (transportGood bs) (collectRawPacketTransportChecksumTargets bs)
     \<and> list_all (greGood bs) (collectRawPacketGreChecksumTargets bs)"

lemma repair_id:
  assumes "is_bytes bs" "allGood bs"
  shows "repairRawPacketChecksums bs = bs"
  using assms
  by (simp add: repairRawPacketChecksums_def Let_def pass_defs allGood_def list_all_iff
      ipv4_pass.repaired_id icmp_pass.repaired_id sctp_pass.repaired_id transport_pass.repaired_id
      gre_pass.repaired_id)

section \<open>The outer headers are read the same after the repair\<close>

lemma skipVlanTags_cong:
  "length bs' = length bs \<Longrightarrow> (\<And>j. j < snd (skipVlanTags n bs et off) \<Longrightarrow> byteAt bs' j = byteAt bs j)
   \<Longrightarrow> skipVlanTags n bs' et off = skipVlanTags n bs et off"
proof (induction n arbitrary: et off)
  case (Suc n)
  show ?case
  proof (cases "isVlanType et \<and> rawPacketHasBytes bs off 4")
    case True
    have "rawPacketWord bs' (off + 2) = rawPacketWord bs (off + 2)"
      using True skipVlanTags_offset [of "off + 4" n bs "rawPacketWord bs (off + 2)"]
      by (intro rawPacketWord_cong Suc.prems(2)) auto
    with True Suc.IH [OF Suc.prems(1), of "rawPacketWord bs (off + 2)" "off + 4"] Suc.prems show ?thesis
      by (simp add: hasBytes_length_cong [OF Suc.prems(1)])
  next
    case False
    then have "\<not> (isVlanType et \<and> rawPacketHasBytes bs' off 4)"
      by (simp add: hasBytes_length_cong [OF Suc.prems(1)])
    with False show ?thesis by (simp only: skipVlanTags.simps if_False)
  qed
qed simp

lemma skipMplsLabels_cong:
  "length bs' = length bs \<Longrightarrow> (\<And>j. j < skipMplsLabels n bs off \<Longrightarrow> byteAt bs' j = byteAt bs j)
   \<Longrightarrow> skipMplsLabels n bs' off = skipMplsLabels n bs off"
proof (induction n arbitrary: off)
  case (Suc n)
  show ?case
  proof (cases "rawPacketHasBytes bs off 4")
    case True
    have "byteAt bs' (off + 2) = byteAt bs (off + 2)"
      using True skipMplsLabels_offset [of "off + 4" n bs] by (intro Suc.prems(2)) auto
    with True Suc.IH [OF Suc.prems(1), of "off + 4"] Suc.prems show ?thesis
      by (simp add: hasBytes_length_cong [OF Suc.prems(1)])
  qed (simp add: hasBytes_length_cong [OF Suc.prems(1)])
qed simp

lemma ethernetL3_cong:
  assumes l: "length bs' = length bs" and e: "rawPacketEthernetL3Target bs off = Some e"
    and eq: "\<And>j. j \<le> eth_l3Offset e \<Longrightarrow> byteAt bs' j = byteAt bs j"
  shows "rawPacketEthernetL3Target bs' off = Some e"
proof -
  note h = hasBytes_length_cong [OF l]
  obtain et l3 where v: "skipVlanTags 4 bs (rawPacketWord bs (off + 12)) (off + 14) = (et, l3)"
    by (cases "skipVlanTags 4 bs (rawPacketWord bs (off + 12)) (off + 14)")
  have le: "off + 14 \<le> l3" "l3 \<le> skipMplsLabels 8 bs l3"
    using skipVlanTags_offset [of "off + 14" 4 bs "rawPacketWord bs (off + 12)"] v
      skipMplsLabels_offset [of l3 8 bs] by simp_all
  have "eth_l3Offset e = l3 \<or> eth_l3Offset e = skipMplsLabels 8 bs l3"
    using e v by (auto simp: rawPacketEthernetL3Target_def Let_def split: if_split_asm)
  then have upto: "l3 \<le> eth_l3Offset e" using le by auto
  have w: "rawPacketWord bs' (off + 12) = rawPacketWord bs (off + 12)"
    using le upto by (intro rawPacketWord_cong eq) simp_all
  have v': "skipVlanTags 4 bs' (rawPacketWord bs' (off + 12)) (off + 14) = (et, l3)"
    unfolding w using v upto by (subst skipVlanTags_cong [OF l]) (simp_all add: eq)
  show ?thesis
  proof (cases "isMplsType et \<and> rawPacketHasBytes bs l3 4")
    case True
    have m: "eth_l3Offset e = skipMplsLabels 8 bs l3"
      using True e v by (auto simp: rawPacketEthernetL3Target_def Let_def split: if_split_asm)
    have m': "skipMplsLabels 8 bs' l3 = skipMplsLabels 8 bs l3"
      by (rule skipMplsLabels_cong [OF l]) (simp add: eq m)
    show ?thesis
      using e True v v' m' eq [of "skipMplsLabels 8 bs l3"] m
      by (simp add: rawPacketEthernetL3Target_def Let_def h split: if_split_asm)
  next
    case False
    then show ?thesis
      using e v v' by (auto simp: rawPacketEthernetL3Target_def Let_def h split: if_split_asm)
  qed
qed

section \<open>The outer IPv4 header\<close>

lemma insertionOrder_Cons: "\<exists>ys. insertionOrder (x # xs) = x # ys \<and> set ys \<subseteq> set xs"
proof -
  have "\<exists>ys. foldl (\<lambda>acc x. if x \<in> set acc then acc else acc @ [x]) (x # zs) xs = x # zs @ ys
      \<and> set ys \<subseteq> set xs" for zs
  proof (induction xs arbitrary: zs)
    case (Cons y xs)
    from Cons.IH [of zs] Cons.IH [of "zs @ [y]"] show ?case by auto
  qed simp
  from this [of "[]"] show ?thesis by (simp add: insertionOrder_def)
qed

lemma ipv4InGre_behind: "x \<in> set (ipv4InGre bs off) \<Longrightarrow> off \<le> x"
  unfolding ipv4InGre_def mem_emitted addIpv4Offset_def by (auto dest: grePayloadD(1))

lemma ipv4InUdpTunnels_behind: "x \<in> set (ipv4InUdpTunnels bs off limit) \<Longrightarrow> off \<le> x"
  unfolding ipv4InUdpTunnels_def mem_emitted addIpv4Offset_def
  by (auto dest!: udpTargetD(1) ethernetL3D(1) gtpuPayloadD(1))

definition outerIpv4 :: "bytes \<Rightarrow> int \<Rightarrow> int \<Rightarrow> bool" where
  "outerIpv4 bs off h \<longleftrightarrow>
     (case rawPacketEthernetL3Target bs 0 of
        None \<Rightarrow> False
      | Some e \<Rightarrow> eth_etherType e = 0x0800 \<and> eth_l3Offset e = off)
     \<and> rawIpv4HeaderLengthAt bs off = Some h"

lemma outerIpv4D:
  assumes "outerIpv4 bs off h"
  obtains e where "rawPacketEthernetL3Target bs 0 = Some e" "eth_etherType e = 0x0800"
    "eth_l3Offset e = off" "rawIpv4HeaderLengthAt bs off = Some h"
  using assms by (auto simp: outerIpv4_def split: option.splits)

lemma collectIpv4_outer:
  assumes "outerIpv4 bs off h"
  shows "\<exists>rest. collectRawPacketIpv4HeaderOffsets bs = off # rest \<and> (\<forall>x\<in>set rest. off + h \<le> x)"
proof -
  obtain e where e: "rawPacketEthernetL3Target bs 0 = Some e" "eth_etherType e = 0x0800"
    "eth_l3Offset e = off" "rawIpv4HeaderLengthAt bs off = Some h" using assms by (rule outerIpv4D)
  define rest where "rest = (if byteAt bs (off + 9) = 47 then ipv4InGre bs (off + h)
      else if byteAt bs (off + 9) = 17 then ipv4InUdpTunnels bs (off + h) (rawIpv4PacketEnd bs off h) else [])"
  have "collectRawPacketIpv4HeaderOffsets bs = insertionOrder (off # rest)"
    using e by (simp add: collectRawPacketIpv4HeaderOffsets_def Let_def addIpv4Offset_def rest_def
        split del: if_split)
  moreover have "\<forall>x\<in>set rest. off + h \<le> x"
    unfolding rest_def by (auto dest: ipv4InGre_behind ipv4InUdpTunnels_behind split: if_split_asm)
  ultimately show ?thesis using insertionOrder_Cons [of off rest] by auto
qed

text \<open>The state of the repair that matters to the outer header.\<close>

definition headerKept :: "bytes \<Rightarrow> int \<Rightarrow> int \<Rightarrow> bytes \<Rightarrow> bool" where
  "headerKept bs off h bs' \<longleftrightarrow>
     is_bytes bs' \<and> length bs' = length bs \<and> ipv4Good bs' off
     \<and> (\<forall>j < off + h. j \<noteq> off + 10 \<longrightarrow> j \<noteq> off + 11 \<longrightarrow> byteAt bs' j = byteAt bs j)"

lemma headerKept_outer:
  assumes "outerIpv4 bs off h" "headerKept bs off h bs'"
  shows "outerIpv4 bs' off h"
proof -
  obtain e where e: "rawPacketEthernetL3Target bs 0 = Some e" "eth_etherType e = 0x0800"
    "eth_l3Offset e = off" "rawIpv4HeaderLengthAt bs off = Some h" using assms(1) by (rule outerIpv4D)
  note k = assms(2) [unfolded headerKept_def]
  have "20 \<le> h" using ipv4HeaderLengthD(1) [OF e(4)] .
  then have "rawPacketEthernetL3Target bs' 0 = Some e"
    using k e(3) by (intro ethernetL3_cong [OF _ e(1)]) auto
  moreover have "rawIpv4HeaderLengthAt bs' off = Some h"
    using k \<open>20 \<le> h\<close> e(4) ipv4HeaderLength_cong [of bs' bs off] by simp
  ultimately show ?thesis using e by (simp add: outerIpv4_def)
qed

text \<open>A pass whose fields lie behind the header keeps it.\<close>

lemma headerKept_pass:
  assumes "outerIpv4 bs off h" "headerKept bs off h b" "is_bytes b'" "length b' = length b"
    "\<And>j. j < off + h \<Longrightarrow> byteAt b' j = byteAt b j"
  shows "headerKept bs off h b'"
proof -
  note k = assms(2) [unfolded headerKept_def]
  have "outerIpv4 b off h" by (rule headerKept_outer [OF assms(1,2)])
  then obtain e where "rawIpv4HeaderLengthAt b off = Some h" by (rule outerIpv4D)
  then have "ipv4Depends b off j \<Longrightarrow> j < off + h" for j
    using ipv4HeaderLengthD(1) [of b off h] by (auto simp: ipv4Depends_def)
  then have "ipv4Good b' off"
    using ipv4_pass.depends_cong [where t = off and bs' = b' and bs = b] assms(4,5) k by simp
  then show ?thesis using k assms(3-5) by (simp add: headerKept_def)
qed

lemma ipv4_pass_keeps:
  assumes "outerIpv4 bs off h" "is_bytes bs"
  shows "headerKept bs off h (repairRawPacketIpv4Checksums bs)"
proof -
  obtain rest where rest: "collectRawPacketIpv4HeaderOffsets bs = off # rest" "\<forall>x\<in>set rest. off + h \<le> x"
    using collectIpv4_outer [OF assms(1)] by blast
  obtain e where h: "rawIpv4HeaderLengthAt bs off = Some h" using assms(1) by (rule outerIpv4D)
  let ?b = "repairIpv4Step bs off"
  have b: "is_bytes ?b" "length ?b = length bs"
    using ipv4_pass.step_bytes [OF assms(2)] ipv4_pass.step_length by blast+
  have good: "ipv4Good ?b off"
    using ipv4_pass.step_good [OF assms(2) TrueI] repairIpv4Step_cases(1) [OF h] by simp
  have kept: "headerKept bs off h ?b"
    unfolding headerKept_def using b good by (auto intro!: repairIpv4Step_frame)
  have frame: "byteAt (foldl repairIpv4Step ?b rest) j = byteAt ?b j" if "j < off + h" for j
    using rest(2) that by (intro ipv4_pass.pass_frame) force
  show ?thesis
    unfolding repairRawPacketIpv4Checksums_def rest(1) foldl.simps
    by (rule headerKept_pass [OF assms(1) kept ipv4_pass.pass_bytes [OF b(1)] ipv4_pass.pass_length frame])
qed

text \<open>The fields of the other passes lie behind the outer header.\<close>

lemma collectIcmp_behind:
  assumes "outerIpv4 b off h" "t \<in> set (collectRawPacketIcmpChecksumTargets b)"
  shows "off + h \<le> icmp_checksumOffset t"
proof -
  from assms(1) obtain e where e: "rawPacketEthernetL3Target b 0 = Some e" "eth_etherType e = 0x0800"
    "eth_l3Offset e = off" "rawIpv4HeaderLengthAt b (eth_l3Offset e) = Some h" by (auto elim: outerIpv4D)
  from icmp_walk.collected [OF assms(2) [unfolded collectRawPacketIcmpChecksumTargets_def]]
  obtain x where x: "t = snd x" "x \<in> set (walkPacket (icmpLeaf4 b) (icmpLeaf6 b) b)" "icmpSound b x" by blast
  from icmp_walk.walk_behind_outer_ipv4 [OF x(2) e(1,2,4)] x(1,3) e(3) show ?thesis
    by (simp add: icmpSound_def Let_def split: if_split_asm)
qed

lemma collectSctp_behind:
  assumes "outerIpv4 b off h" "t \<in> set (collectRawPacketSctpChecksumTargets b)"
  shows "off + h \<le> sctpt_checksumOffset t"
proof -
  from assms(1) obtain e where e: "rawPacketEthernetL3Target b 0 = Some e" "eth_etherType e = 0x0800"
    "eth_l3Offset e = off" "rawIpv4HeaderLengthAt b (eth_l3Offset e) = Some h" by (auto elim: outerIpv4D)
  from sctp_walk.collected [OF assms(2) [unfolded collectRawPacketSctpChecksumTargets_def]]
  obtain x where x: "t = snd x" "x \<in> set (walkPacket (sctpLeaf4 b) (sctpLeaf6 b) b)" "sctpSound b x" by blast
  from sctp_walk.walk_behind_outer_ipv4 [OF x(2) e(1,2,4)] x(1,3) e(3) show ?thesis
    by (simp add: sctpSound_def Let_def split: if_split_asm)
qed

lemma collectTransport_behind:
  assumes "outerIpv4 b off h" "t \<in> set (collectRawPacketTransportChecksumTargets b)"
  shows "off + h \<le> trt_checksumOffset t"
proof -
  from assms(1) obtain e where e: "rawPacketEthernetL3Target b 0 = Some e" "eth_etherType e = 0x0800"
    "eth_l3Offset e = off" "rawIpv4HeaderLengthAt b (eth_l3Offset e) = Some h" by (auto elim: outerIpv4D)
  from transport_walk.collected [OF assms(2) [unfolded collectRawPacketTransportChecksumTargets_def]]
  obtain x where x: "t = snd x" "x \<in> set (walkPacket (transportLeaf4 b) (transportLeaf6 b) b)" "transportSound b x" by blast
  from transport_walk.walk_behind_outer_ipv4 [OF x(2) e(1,2,4)] x(1,3) e(3) show ?thesis
    by (simp add: transportSound_def Let_def split: if_split_asm)
qed

lemma collectGre_behind:
  "outerIpv4 b off h \<Longrightarrow> t \<in> set (collectRawPacketGreChecksumTargets b) \<Longrightarrow> off + h \<le> gret_checksumOffset t"
  using collectGre_sound(1) [of t b] collectGre_sound(3) [of t b _ h]
  by (auto simp: greSound_def Let_def elim!: outerIpv4D)

lemma later_passes_keep:
  assumes "outerIpv4 bs off h" "headerKept bs off h b"
  shows "headerKept bs off h (repairRawPacketIcmpChecksums b)"
    "headerKept bs off h (repairRawPacketSctpChecksums b)"
    "headerKept bs off h (repairRawPacketTransportChecksums b)"
    "headerKept bs off h (repairRawPacketGreChecksums b)"
proof -
  have b: "is_bytes b" using assms(2) by (simp add: headerKept_def)
  have o: "outerIpv4 b off h" by (rule headerKept_outer [OF assms])
  note keeps = headerKept_pass [OF assms] 
  show "headerKept bs off h (repairRawPacketIcmpChecksums b)"
    unfolding repairRawPacketIcmpChecksums_def
    using collectIcmp_behind [OF o]
    by (intro keeps icmp_pass.repaired_bytes icmp_pass.repaired_length icmp_pass.repaired_frame b) force
  show "headerKept bs off h (repairRawPacketSctpChecksums b)"
    unfolding repairRawPacketSctpChecksums_def
    using collectSctp_behind [OF o]
    by (intro keeps sctp_pass.repaired_bytes sctp_pass.repaired_length sctp_pass.repaired_frame b) force
  show "headerKept bs off h (repairRawPacketTransportChecksums b)"
    unfolding repairRawPacketTransportChecksums_def
    using collectTransport_behind [OF o]
    by (intro keeps transport_pass.repaired_bytes transport_pass.repaired_length
        transport_pass.repaired_frame b) force
  show "headerKept bs off h (repairRawPacketGreChecksums b)"
    unfolding repairRawPacketGreChecksums_def
    using collectGre_behind [OF o]
    by (intro keeps gre_pass.repaired_bytes gre_pass.repaired_length gre_pass.repaired_frame b) force
qed

lemma repair_keeps_header:
  assumes "is_bytes bs" "outerIpv4 bs off h"
  shows "headerKept bs off h (repairRawPacketChecksums bs)"
  unfolding repairRawPacketChecksums_def Let_def
  by (intro later_passes_keep ipv4_pass_keeps assms)

text \<open>After the repair the outer header has its checksum, and closes.\<close>

lemma outer_header_word:
  assumes "is_bytes bs" "outerIpv4 bs off h"
  shows "outerIpv4 (repairRawPacketChecksums bs) off h"
    "rawPacketWord (repairRawPacketChecksums bs) (off + 10) = rawIpv4HeaderChecksum (repairRawPacketChecksums bs) off h"
    "rawIpv4HeaderLengthAt (repairRawPacketChecksums bs) off = Some h"
proof -
  have k: "headerKept bs off h (repairRawPacketChecksums bs)" by (rule repair_keeps_header [OF assms])
  show o: "outerIpv4 (repairRawPacketChecksums bs) off h" by (rule headerKept_outer [OF assms(2) k])
  then show h: "rawIpv4HeaderLengthAt (repairRawPacketChecksums bs) off = Some h" by (rule outerIpv4D)
  with k show "rawPacketWord (repairRawPacketChecksums bs) (off + 10)
      = rawIpv4HeaderChecksum (repairRawPacketChecksums bs) off h"
    by (simp add: headerKept_def ipv4Good_def)
qed

lemma outer_header_closes:
  assumes "is_bytes bs" "outerIpv4 bs off h"
  shows "rawPacketOnesComplementClosure (repairRawPacketChecksums bs) off h = 0xffff"
  using repair_bytes [OF assms(1)] headerLength_even [OF outer_header_word(3) [OF assms]]
    ipv4HeaderLengthD(1) [OF outer_header_word(3) [OF assms]] outer_header_word(2) [OF assms]
  by (intro header_closes) auto

end
