(* ===== verification/RepairPlain.thy ===== *)
theory RepairPlain
  imports RepairCorrect
begin

text \<open>
  Packets without tunnels: Ethernet, one complete IPv4 header that is not a fragment, and behind
  it TCP, UDP or ICMP. On these the repair of the whole packet is two stores, the header checksum
  and the one of the payload, so both are right afterwards and a second repair changes nothing.
  The ICMPv4 echo dissector, which trusts only messages that close, is here as well.
\<close>

section \<open>The shape of the packet\<close>

definition outerPacket :: "bytes \<Rightarrow> int \<Rightarrow> int \<Rightarrow> int \<Rightarrow> int \<Rightarrow> bool" where
  "outerPacket bs off protocol l4 limit \<longleftrightarrow>
     (case rawPacketEthernetL3Target bs 0 of
        None \<Rightarrow> False
      | Some e \<Rightarrow> eth_etherType e = 0x0800 \<and> eth_l3Offset e = off)
     \<and> enterIpv4 bs off = Some (protocol, l4, limit)"

definition untunnelled :: "bytes \<Rightarrow> int \<Rightarrow> int \<Rightarrow> int \<Rightarrow> bool" where
  "untunnelled bs protocol l4 limit \<longleftrightarrow> protocol \<noteq> 47
     \<and> (protocol = 17 \<longrightarrow>
          (case rawPacketUdpTarget bs l4 limit of
             None \<Rightarrow> True
           | Some udp \<Rightarrow> \<not> isVxlanUdp udp \<and> \<not> isGtpuUdp udp))"

lemma outerPacketE:
  assumes "outerPacket bs off protocol l4 limit"
  obtains e h where "rawPacketEthernetL3Target bs 0 = Some e" "eth_etherType e = 0x0800"
    "eth_l3Offset e = off" "enterIpv4 bs off = Some (protocol, l4, limit)"
    "rawIpv4HeaderLengthAt bs off = Some h" "l4 = off + h" "byteAt bs (off + 9) = protocol"
    "rawIpv4PacketEnd bs off h = limit" "outerIpv4 bs off h" "20 \<le> h" "14 \<le> off" "limit \<le> int (length bs)"
proof -
  obtain e where e: "rawPacketEthernetL3Target bs 0 = Some e" "eth_etherType e = 0x0800" "eth_l3Offset e = off"
    and i: "enterIpv4 bs off = Some (protocol, l4, limit)"
    using assms by (auto simp: outerPacket_def split: option.splits)
  obtain h where h: "rawIpv4HeaderLengthAt bs off = Some h" "l4 = off + h"
    using enterIpv4D(6) [OF i] by blast
  have "byteAt bs (off + 9) = protocol" "rawIpv4PacketEnd bs off h = limit"
    using i h by (auto simp: enterIpv4_def Let_def rawIpv4PacketEnd_def split: if_split_asm)
  moreover have "outerIpv4 bs off h" using e h by (simp add: outerIpv4_def)
  ultimately show thesis
    using e i h ipv4HeaderLengthD(1) [OF h(1)] ethernetL3D(1) [OF e(1)] enterIpv4D(3) [OF i] that by simp
qed

lemma untunnelled_udp:
  "untunnelled bs 17 l4 limit \<Longrightarrow> rawPacketUdpTarget bs l4 limit = Some udp \<Longrightarrow> \<not> isVxlanUdp udp \<and> \<not> isGtpuUdp udp"
  by (simp add: untunnelled_def)

section \<open>What the collectors find\<close>

lemma walk_plain:
  assumes "outerPacket bs off protocol l4 limit" "untunnelled bs protocol l4 limit"
  shows "walkPacket leaf4 leaf6 bs = leaf4 protocol off l4 limit"
proof -
  have "processUdpTunnels leaf4 leaf6 bs l4 limit = []" if "protocol = 17"
    using assms(2) that
    by (cases "rawPacketUdpTarget bs l4 limit") (simp_all add: processUdpTunnels.simps untunnelled_def)
  with assms show ?thesis
    by (elim outerPacketE) (simp add: walkPacket_def processIpv4.simps untunnelled_def)
qed

lemma mapValues_one [simp]: "mapValues [(k, v)] = [v]" "mapValues [] = []"
  by (simp_all add: mapValues_def)

lemma collectGre_plain:
  assumes "outerPacket bs off protocol l4 limit" "untunnelled bs protocol l4 limit"
  shows "collectRawPacketGreChecksumTargets bs = []"
proof -
  have "greProcessUdpTunnels bs l4 limit = []" if "protocol = 17"
    using assms(2) that
    by (cases "rawPacketUdpTarget bs l4 limit") (simp_all add: greProcessUdpTunnels.simps untunnelled_def)
  with assms show ?thesis
    by (elim outerPacketE) (simp add: collectRawPacketGreChecksumTargets_def greProcessIpv4.simps untunnelled_def)
qed

lemma collectIpv4_plain:
  assumes "outerPacket bs off protocol l4 limit" "untunnelled bs protocol l4 limit"
  shows "collectRawPacketIpv4HeaderOffsets bs = [off]"
proof -
  have "ipv4InUdpTunnels bs l4 limit = []" if "protocol = 17"
    using assms(2) that
    by (cases "rawPacketUdpTarget bs l4 limit") (simp_all add: ipv4InUdpTunnels_def untunnelled_def)
  with assms show ?thesis
    by (elim outerPacketE)
      (simp add: collectRawPacketIpv4HeaderOffsets_def Let_def untunnelled_def addIpv4Offset_def insertionOrder_def)
qed

lemmas collectors_plain = collectGre_plain collectIpv4_plain
  collectRawPacketIcmpChecksumTargets_def collectRawPacketSctpChecksumTargets_def
  collectRawPacketTransportChecksumTargets_def walk_plain

section \<open>The shape survives the stores\<close>

text \<open>
  Two packets of one length that agree but for the header checksum and a field \<open>[field, field + 2)\<close>
  behind the header.
\<close>

definition sameBut :: "int \<Rightarrow> int \<Rightarrow> bytes \<Rightarrow> bytes \<Rightarrow> bool" where
  "sameBut off field bs bs' \<longleftrightarrow> length bs' = length bs
     \<and> (\<forall>j. j \<noteq> off + 10 \<longrightarrow> j \<noteq> off + 11 \<longrightarrow> j \<noteq> field \<longrightarrow> j \<noteq> field + 1 \<longrightarrow> byteAt bs' j = byteAt bs j)"

lemma sameBut_trans: "sameBut off field a b \<Longrightarrow> sameBut off field b c \<Longrightarrow> sameBut off field a c"
  by (simp add: sameBut_def)

lemma sameBut_ipv4: "sameBut off field bs (repairIpv4Step bs off)"
proof -
  have "byteAt (repairIpv4Step bs off) j = byteAt bs j" if "j \<noteq> off + 10" "j \<noteq> off + 11" for j
    using that by (intro repairIpv4Step_frame) linarith
  then show ?thesis by (simp add: sameBut_def repairIpv4Step_length)
qed

lemma sameBut_transport: "sameBut off (trt_checksumOffset t) bs (repairTransportStep bs t)"
proof -
  have "byteAt (repairTransportStep bs t) j = byteAt bs j"
    if "j \<noteq> trt_checksumOffset t" "j \<noteq> trt_checksumOffset t + 1" for j
    using that by (intro transport_pass.step_frame) linarith
  then show ?thesis by (simp add: sameBut_def transport_pass.step_length)
qed

lemma sameBut_icmp: "sameBut off (icmp_checksumOffset t) bs (repairIcmpStep bs t)"
proof -
  have "byteAt (repairIcmpStep bs t) j = byteAt bs j"
    if "j \<noteq> icmp_checksumOffset t" "j \<noteq> icmp_checksumOffset t + 1" for j
    using that by (intro icmp_pass.step_frame) linarith
  then show ?thesis by (simp add: sameBut_def icmp_pass.step_length)
qed

lemma sameBut_word:
  "sameBut off field bs bs' \<Longrightarrow> j + 1 < off + 10 \<or> off + 11 < j \<Longrightarrow> j + 1 < field \<or> field + 1 < j
   \<Longrightarrow> rawPacketWord bs' j = rawPacketWord bs j"
  by (rule rawPacketWord_cong) (auto simp: sameBut_def)

lemma outerPacket_kept:
  assumes p: "outerPacket bs off protocol l4 limit" and s: "sameBut off field bs bs'" and f: "l4 \<le> field"
  shows "outerPacket bs' off protocol l4 limit"
proof -
  from p obtain e h where e: "rawPacketEthernetL3Target bs 0 = Some e" "eth_etherType e = 0x0800"
    "eth_l3Offset e = off" "enterIpv4 bs off = Some (protocol, l4, limit)"
    "rawIpv4HeaderLengthAt bs off = Some h" "l4 = off + h" "20 \<le> h" by (rule outerPacketE) simp
  have l: "length bs' = length bs" using s by (simp add: sameBut_def)
  have eq: "byteAt bs' j = byteAt bs j" if "j < l4" "j \<noteq> off + 10" "j \<noteq> off + 11" for j
    using s that f by (simp add: sameBut_def)
  have "rawPacketEthernetL3Target bs' 0 = Some e"
    using e by (intro ethernetL3_cong [OF l e(1)] eq) linarith+
  moreover have "rawIpv4HeaderLengthAt bs' off = rawIpv4HeaderLengthAt bs off"
    using e by (intro ipv4HeaderLength_cong [OF l] eq) linarith+
  moreover have "rawPacketWord bs' (off + 2) = rawPacketWord bs (off + 2)"
    "rawPacketWord bs' (off + 6) = rawPacketWord bs (off + 6)"
    using e f by (auto intro!: sameBut_word [OF s])
  moreover have "byteAt bs' (off + 9) = byteAt bs (off + 9)" using e by (intro eq) linarith+
  ultimately have "rawPacketEthernetL3Target bs' 0 = Some e" "enterIpv4 bs' off = enterIpv4 bs off"
    by (simp_all add: enterIpv4_def rawPacketIpv4IsFragmented_def Let_def hasBytes_length_cong [OF l]
        cong: if_cong option.case_cong)
  with e show ?thesis by (simp add: outerPacket_def)
qed

lemma udpTarget_kept:
  assumes "sameBut off field bs bs'" "off + 20 \<le> l4" "l4 + 6 \<le> field"
  shows "rawPacketUdpTarget bs' l4 limit = rawPacketUdpTarget bs l4 limit"
proof -
  have l: "length bs' = length bs" using assms(1) by (simp add: sameBut_def)
  have "rawPacketWord bs' (l4 + 4) = rawPacketWord bs (l4 + 4)" "rawPacketWord bs' (l4 + 2) = rawPacketWord bs (l4 + 2)"
    "rawPacketWord bs' l4 = rawPacketWord bs l4"
    using assms by (auto intro!: sameBut_word [OF assms(1)])
  then show ?thesis by (simp add: rawPacketUdpTarget_def Let_def l hasBytes_length_cong [OF l])
qed

lemma untunnelled_kept:
  assumes "untunnelled bs protocol l4 limit" "sameBut off field bs bs'" "off + 20 \<le> l4"
    "protocol = 17 \<longrightarrow> l4 + 6 \<le> field"
  shows "untunnelled bs' protocol l4 limit"
  using assms udpTarget_kept [OF assms(2,3)] by (auto simp: untunnelled_def)


section \<open>TCP and UDP\<close>

text \<open>
  The one transport checksum of a plain packet. An IPv4 UDP datagram with a zero checksum carries
  none.
\<close>

definition plainTransport :: "bytes \<Rightarrow> int \<Rightarrow> int \<Rightarrow> int \<Rightarrow> int \<Rightarrow> RawPacketTransportChecksumTarget \<Rightarrow> bool" where
  "plainTransport bs off protocol l4 limit t \<longleftrightarrow>
     outerPacket bs off protocol l4 limit \<and> untunnelled bs protocol l4 limit \<and> (protocol = 6 \<or> protocol = 17)
     \<and> addTransportTarget bs 4 off protocol l4 limit = [((protocol, l4), t)]"

lemma plainTransport_target:
  assumes "plainTransport bs off protocol l4 limit t"
  shows "trt_checksumOffset t = l4 + (if protocol = 17 then 6 else 16)" "trt_ipOffset t = off"
    "trt_l4Offset t = l4" "trt_ipVersion t = 4" "trt_protocol t = protocol" "off + 20 \<le> l4"
    "rawPacketHasBytes bs (trt_checksumOffset t) 2"
    "protocol = 17 \<Longrightarrow> rawPacketWord bs (l4 + 6) \<noteq> 0" "transportWf t"
proof -
  from assms have o: "outerPacket bs off protocol l4 limit"
    and a: "addTransportTarget bs 4 off protocol l4 limit = [((protocol, l4), t)]"
    and p: "protocol = 6 \<or> protocol = 17" by (simp_all add: plainTransport_def)
  from o show l4: "off + 20 \<le> l4" by (rule outerPacketE) simp
  show f: "trt_checksumOffset t = l4 + (if protocol = 17 then 6 else 16)" "trt_ipOffset t = off"
    "trt_l4Offset t = l4" "trt_ipVersion t = 4" "trt_protocol t = protocol"
    "protocol = 17 \<Longrightarrow> rawPacketWord bs (l4 + 6) \<noteq> 0"
    using a p by (auto simp: addTransportTarget_def split: if_split_asm option.splits)
  from o have "0 \<le> off" by (rule outerPacketE) simp
  then have "transportSound bs ((protocol, l4), t)"
    using p a l4 addTransportTarget_sound [of "((protocol, l4), t)" bs 4 off protocol l4 limit] by auto
  then show "rawPacketHasBytes bs (trt_checksumOffset t) 2" "transportWf t"
    using f(1) p l4 by (auto simp: transportSound_def transportWf_def Let_def rawPacketHasBytes_def split: if_split_asm)
qed

lemma collect_transport:
  assumes "plainTransport bs off protocol l4 limit t"
  shows "collectRawPacketTransportChecksumTargets bs = [t]" "collectRawPacketIcmpChecksumTargets bs = []"
    "collectRawPacketSctpChecksumTargets bs = []" "collectRawPacketGreChecksumTargets bs = []"
    "collectRawPacketIpv4HeaderOffsets bs = [off]"
  using assms
  by (auto simp: plainTransport_def collectors_plain transportLeaf4_def icmpLeaf4_def sctpLeaf4_def)

lemma plainTransport_kept:
  assumes p: "plainTransport bs off protocol l4 limit t"
    and s: "sameBut off (trt_checksumOffset t) bs bs'"
    and u: "protocol = 17 \<Longrightarrow> rawPacketWord bs' (l4 + 6) \<noteq> 0"
  shows "plainTransport bs' off protocol l4 limit t"
proof -
  note t = plainTransport_target [OF p]
  have l: "length bs' = length bs" using s by (simp add: sameBut_def)
  have "rawPacketTcpHeaderOffset bs' l4 (Some limit) = rawPacketTcpHeaderOffset bs l4 (Some limit)"
    if "protocol \<noteq> 17"
  proof -
    have "byteAt bs' (l4 + 12) = byteAt bs (l4 + 12)" using s t(1,6) that by (simp add: sameBut_def)
    then show ?thesis
      by (simp add: rawPacketTcpHeaderOffset_def tcpHeaderLength_def Let_def hasBytes_length_cong [OF l] l)
  qed
  moreover have "rawPacketUdpTarget bs' l4 limit = rawPacketUdpTarget bs l4 limit" if "protocol = 17"
    using udpTarget_kept [OF s t(6)] t(1) that by simp
  ultimately have "addTransportTarget bs' 4 off protocol l4 limit = addTransportTarget bs 4 off protocol l4 limit"
    using u t(8) by (cases "protocol = 17") (auto simp: addTransportTarget_def l split: option.split)
  then show ?thesis
    using p outerPacket_kept [OF _ s] untunnelled_kept [OF _ s] t(1,6) by (auto simp: plainTransport_def)
qed

text \<open>The stored UDP checksum is never zero, so the datagram still carries one.\<close>

lemma transportChecksum_nonzero: "trt_protocol t = 17 \<Longrightarrow> rawTransportChecksum bs t \<noteq> 0"
  by (simp add: rawTransportChecksum_def Let_def)

lemma transport_step_word:
  assumes "is_bytes bs" "plainTransport bs off protocol l4 limit t"
  shows "rawPacketWord (repairTransportStep bs t) (trt_checksumOffset t) = rawTransportChecksum bs t"
  unfolding repairTransportStep_def
  using plainTransport_target(7) [OF assms(2)] rawTransportChecksum_range [of bs t]
  by (simp add: word_storeChecksum [OF assms(1)])

lemma plainTransport_ipv4:
  assumes "plainTransport bs off protocol l4 limit t"
  shows "plainTransport (repairIpv4Step bs off) off protocol l4 limit t"
proof (rule plainTransport_kept [OF assms sameBut_ipv4])
  assume "protocol = 17"
  then show "rawPacketWord (repairIpv4Step bs off) (l4 + 6) \<noteq> 0"
    using plainTransport_target(6,8) [OF assms] sameBut_ipv4 [of off 0 bs]
    by (subst rawPacketWord_cong [of _ _ bs]) (auto intro!: repairIpv4Step_frame)
qed

lemma plainTransport_step:
  assumes "is_bytes bs" "plainTransport bs off protocol l4 limit t"
  shows "plainTransport (repairTransportStep bs t) off protocol l4 limit t"
proof (rule plainTransport_kept [OF assms(2) sameBut_transport])
  assume "protocol = 17"
  then show "rawPacketWord (repairTransportStep bs t) (l4 + 6) \<noteq> 0"
    using transport_step_word [OF assms] transportChecksum_nonzero [of t bs] plainTransport_target [OF assms(2)]
    by simp
qed

lemma repair_plain_transport:
  assumes b: "is_bytes bs" and p: "plainTransport bs off protocol l4 limit t"
  shows "repairRawPacketChecksums bs = repairTransportStep (repairIpv4Step bs off) t"
proof -
  let ?b1 = "repairIpv4Step bs off" let ?b2 = "repairTransportStep ?b1 t"
  have b1: "is_bytes ?b1" "plainTransport ?b1 off protocol l4 limit t"
    using ipv4_pass.step_bytes [OF b] plainTransport_ipv4 [OF p] by simp_all
  have b2: "is_bytes ?b2" "plainTransport ?b2 off protocol l4 limit t"
    using transport_pass.step_bytes [OF b1(1)] plainTransport_step [OF b1] by simp_all
  have "repairTransportStep ?b2 t = ?b2"
    using plainTransport_target(7,9) [OF b1(2)]
    by (intro transport_pass.good_step [OF b2(1)] transport_pass.step_good [OF b1(1)])
  then show ?thesis
    by (simp add: repairRawPacketChecksums_def Let_def pass_defs collect_transport [OF p]
        collect_transport [OF b1(2)] collect_transport [OF b2(2)])
qed

text \<open>Nothing but the two fields changes, and a second repair finds both right.\<close>

lemma repaired_plain_same:
  assumes "is_bytes bs" "plainTransport bs off protocol l4 limit t"
  shows "sameBut off (trt_checksumOffset t) bs (repairRawPacketChecksums bs)"
  unfolding repair_plain_transport [OF assms] by (rule sameBut_trans [OF sameBut_ipv4 sameBut_transport])

lemma repair_plain_twice:
  assumes b: "is_bytes bs" and p: "plainTransport bs off protocol l4 limit t"
  shows "repairRawPacketChecksums (repairRawPacketChecksums bs) = repairRawPacketChecksums bs"
proof -
  let ?b1 = "repairIpv4Step bs off" let ?b2 = "repairTransportStep ?b1 t"
  have b1: "is_bytes ?b1" "plainTransport ?b1 off protocol l4 limit t"
    using ipv4_pass.step_bytes [OF b] plainTransport_ipv4 [OF p] by simp_all
  have b2: "is_bytes ?b2" "plainTransport ?b2 off protocol l4 limit t"
    using transport_pass.step_bytes [OF b1(1)] plainTransport_step [OF b1] by simp_all
  from p obtain h where o: "outerIpv4 bs off h" by (auto simp: plainTransport_def elim: outerPacketE)
  have "ipv4Good ?b2 off"
    using repair_keeps_header [OF b o] by (simp add: headerKept_def repair_plain_transport [OF b p])
  then have "repairIpv4Step ?b2 off = ?b2" by (rule ipv4_pass.good_step [OF b2(1)])
  moreover have "repairTransportStep ?b2 t = ?b2"
    using plainTransport_target(7,9) [OF b1(2)]
    by (intro transport_pass.good_step [OF b2(1)] transport_pass.step_good [OF b1(1)])
  ultimately show ?thesis
    by (simp add: repair_plain_transport [OF b p] repair_plain_transport [OF b2])
qed

end
