(* ===== verification/Closing.thy ===== *)
theory Closing
  imports RepairPlain
begin

text \<open>
  What a receiver checks: the ones' complement sum over the pseudo header and the segment, or over
  the ICMP message, with the stored checksum in it, is \<open>0xffff\<close>. The ICMPv4 echo dissector,
  which trusts only messages that close, and what it finds in a repaired packet.
\<close>

section \<open>Sums over buffers\<close>

lemma wordSum_shift:
  "(\<And>j. start \<le> j \<Longrightarrow> j < start + 2 * int n \<Longrightarrow> byteAt xs j = byteAt ys (j + d))
   \<Longrightarrow> wordSum xs None start n = wordSum ys None (start + d) n"
proof (induction n arbitrary: start)
  case (Suc n)
  have "rawPacketWord xs start = rawPacketWord ys (start + d)"
    using Suc.prems [of start] Suc.prems [of "start + 1"] by (simp add: rawPacketWord_def algebra_simps)
  moreover have "wordSum xs None (start + 2) n = wordSum ys None (start + 2 + d) n"
    by (rule Suc.IH) (simp add: Suc.prems)
  ultimately show ?case by (simp add: wordUnless_def algebra_simps)
qed simp

lemma wordSum_split: "wordSum bs None start (m + n) = wordSum bs None start m + wordSum bs None (start + 2 * int m) n"
  by (induction m arbitrary: start) (simp_all add: algebra_simps)

text \<open>A sum closes when the complement of the rest stands in the field, or \<open>0xffff\<close> for zero.\<close>

lemma sum_closes:
  assumes b: "is_bytes bs" and p: "0 \<le> p"
    and f: "start \<le> field" "field < start + 2 * int n" "2 dvd (field - start)"
    and w: "rawPacketWord bs field = 65535 - norm16 (p + wordSum bs (Some field) start n)
      \<or> rawPacketWord bs field = 65535 \<and> norm16 (p + wordSum bs (Some field) start n) = 65535"
  shows "norm16 (p + wordSum bs None start n) = 65535"
proof -
  let ?s = "p + wordSum bs (Some field) start n"
  have s: "0 \<le> ?s" using p wordSum_nonneg [OF b] by simp
  have split: "p + wordSum bs None start n = ?s + rawPacketWord bs field"
    using wordSum_skip [OF f] by simp
  from w show ?thesis
  proof
    assume "rawPacketWord bs field = 65535 - norm16 ?s"
    then show ?thesis unfolding split using norm16_closes [OF s] by simp
  next
    assume a: "rawPacketWord bs field = 65535 \<and> norm16 ?s = 65535"
    have "norm16 (?s + 65535) = norm16 (norm16 ?s + 65535)" using s by (simp add: norm16_add)
    also have "\<dots> = 65535" using a by (simp add: norm16_def)
    finally show ?thesis unfolding split using a by simp
  qed
qed

section \<open>The closure\<close>

lemma byteAt_take: "0 \<le> j \<Longrightarrow> byteAt (take (nat e) bs) j = (if j < e then byteAt bs j else 0)"
  by (auto simp: byteOr_def split: if_splits)

lemma is_bytes_take: "is_bytes bs \<Longrightarrow> is_bytes (take n bs)"
  by (auto simp: is_bytes_iff dest: in_set_takeD)

text \<open>The closure of a message of odd length too: the missing byte counts as zero.\<close>

lemma closureLoop_cong:
  assumes "\<And>j. cursor \<le> j \<Longrightarrow> j < end \<Longrightarrow> byteAt bs j = byteAt ys j"
    "end' = end \<or> end' = end + 1 \<and> \<not> 2 dvd (end - cursor) \<and> byteAt ys end = 0"
  shows "closureLoop n bs end cursor acc = closureLoop n ys end' cursor acc"
  using assms
proof (induction n arbitrary: cursor acc)
  case (Suc n)
  show ?case
  proof (cases "cursor < end")
    case False
    with Suc.prems(2) show ?thesis by (cases "cursor = end") auto
  next
    case True
    have "closureLoop n bs end (cursor + 2) b = closureLoop n ys end' (cursor + 2) b" for b
      using Suc.prems by (intro Suc.IH) (auto simp: algebra_simps)
    moreover have "(if cursor + 1 < end then byteAt bs (cursor + 1) else 0)
        = (if cursor + 1 < end' then byteAt ys (cursor + 1) else 0)"
    proof (cases "cursor + 1 < end")
      case True
      then show ?thesis using Suc.prems by auto
    next
      case False
      then have "cursor + 1 = end" using \<open>cursor < end\<close> by simp
      then show ?thesis using Suc.prems(2) by auto
    qed
    ultimately show ?thesis
      using True Suc.prems by (auto simp: Let_def)
  qed
qed simp

lemma closure_take:
  assumes "is_bytes bs" "0 \<le> len" "0 \<le> off"
  shows "rawPacketOnesComplementClosure bs off len
    = norm16 (wordSum (take (nat (off + len)) bs) None off (wordsIn len))"
proof -
  let ?ys = "take (nat (off + len)) bs"
  let ?len = "len + (if 2 dvd len then 0 else 1)"
  have even: "2 dvd ?len" by simp
  have fuel: "closureLoop (nat len) bs (off + len) off 0 = closureLoop (nat len) ?ys (off + ?len) off 0"
    by (rule closureLoop_cong) (use assms in \<open>auto simp: byteAt_take\<close>)
  have words: "wordsIn ?len = wordsIn len"
  proof (cases "2 dvd len")
    case False
    then have "(len + 1 + 1) div 2 = (len + 1) div 2" by presburger
    with False show ?thesis by (simp add: wordsIn_def)
  qed simp
  note both = closureLoop_norm [OF is_bytes_take [OF assms(1)], of "off + ?len" off _ 0 "nat (off + len)"]
  let ?c = "closureLoop (nat len) ?ys (off + ?len) off 0" and ?d = "closureLoop (nat ?len) ?ys (off + ?len) off 0"
  have c: "0 \<le> ?c" "?c \<le> 65537" "norm16 ?c = norm16 (wordSum ?ys None off (wordsIn ?len))"
    using both [of "nat len"] even words wordsIn_le [of len] by simp_all
  have "js_and (carryStep ?c) 0xffff = norm16 ?c"
  proof -
    have e: "carryStep ?c = ?c mod 65536 + ?c div 65536"
      using c by (intro carryStep_eq) linarith+
    have s: "?c = 65536 * (?c div 65536) + ?c mod 65536" by simp
    have "carryStep ?c \<le> 65535"
      using c(1,2) e s pos_mod_bound [of 65536 ?c] by (cases "?c < 65536") linarith+
    then have "js_and (carryStep ?c) 0xffff = norm16 (carryStep ?c)"
      using carryStep_nonneg [of ?c] by (simp add: js_and_mask16 norm16_id)
    also have "\<dots> = norm16 ?c" using c(1,2) by (intro norm16_carry) linarith+
    finally show ?thesis .
  qed
  then show ?thesis
    using c(3) words by (simp add: rawPacketOnesComplementClosure_def fuel)
qed

text \<open>The byte behind a range of odd length, which the loop of the repair reads as the second half of the last word.\<close>

definition tailByte :: "bytes \<Rightarrow> int \<Rightarrow> int \<Rightarrow> int" where
  "tailByte bs off len = (if 2 dvd len then 0 else byteAt bs (off + len))"

lemma tailByte_range: "is_bytes bs \<Longrightarrow> 0 \<le> tailByte bs off len \<and> tailByte bs off len \<le> 255"
  using byteAt_range [of bs "off + len"] by (auto simp: tailByte_def)

lemma wordSum_cut:
  assumes "is_bytes bs" "0 \<le> off" "0 \<le> len"
  shows "wordSum (take (nat (off + len)) bs) None off (wordsIn len) = wordSum bs None off (wordsIn len) - tailByte bs off len"
proof -
  let ?cut = "take (nat (off + len)) bs"
  define m where "m = nat (len div 2)"
  have len: "len = 2 * int m + (if 2 dvd len then 0 else 1)" using assms(3) by (simp add: m_def)
  have below: "byteAt ?cut j = byteAt bs j" if "off \<le> j" "j < off + len" for j
    using that assms(2) by (simp add: byteAt_take)
  have "wordSum ?cut None off m = wordSum bs None (off + 0) m"
  proof (rule wordSum_shift)
    fix j
    assume "off \<le> j" "j < off + 2 * int m"
    moreover have "2 * int m \<le> len" by (simp add: m_def assms(3))
    ultimately show "byteAt ?cut j = byteAt bs (j + 0)" using below by simp
  qed
  moreover have "wordsIn len = m + (if 2 dvd len then 0 else 1)" using len by (simp add: wordsIn_def split: if_split_asm)
  moreover have "rawPacketWord ?cut (off + 2 * int m) = rawPacketWord bs (off + 2 * int m) - byteAt bs (off + len)"
    if "\<not> 2 dvd len"
  proof -
    have e: "off + 2 * int m + 1 = off + len" using len that by simp
    have c: "byteAt ?cut (off + 2 * int m) = byteAt bs (off + 2 * int m)" using below e by simp
    have "byteAt ?cut (off + len) = 0" using assms(2,3) by (simp add: byteAt_take)
    then have d: "byteAt ?cut (off + 2 * int m + 1) = 0" unfolding e .
    show ?thesis unfolding rawPacketWord_eq [OF is_bytes_take [OF assms(1)]] rawPacketWord_eq [OF assms(1)] c d unfolding e by simp
  qed
  ultimately show ?thesis by (simp add: wordSum_split tailByte_def wordUnless_def)
qed

lemma closure_tail:
  assumes "is_bytes bs" "0 \<le> off" "0 \<le> len"
  shows "rawPacketOnesComplementClosure bs off len = norm16 (wordSum bs None off (wordsIn len) - tailByte bs off len)"
  using closure_take [OF assms(1,3,2)] wordSum_cut [OF assms] by simp

text \<open>A sum that closes still closes without the tail only if the tail is zero.\<close>

lemma norm16_full:
  assumes "0 \<le> s"
  shows "norm16 s = 65535 \<longleftrightarrow> s \<noteq> 0 \<and> s mod 65535 = 0"
proof -
  have "(s - 1) mod 65535 = 65534 \<longleftrightarrow> s mod 65535 = 0"
  proof
    assume "(s - 1) mod 65535 = 65534"
    then have "(s - 1 + 1) mod 65535 = (65534 + 1) mod 65535" by (metis mod_add_left_eq)
    then show "s mod 65535 = 0" by simp
  next
    assume "s mod 65535 = 0"
    then have "(s - 1) mod 65535 = (0 - 1) mod 65535" by (metis mod_diff_left_eq)
    then show "(s - 1) mod 65535 = 65534" by simp
  qed
  then show ?thesis by (auto simp: norm16_def)
qed

lemma closes_without_tail:
  assumes "norm16 s = 65535" "0 \<le> s" "0 \<le> tail" "tail \<le> 255"
  shows "norm16 (s - tail) = 65535 \<longleftrightarrow> tail = 0"
proof (cases "tail = 0")
  case False
  have s: "s \<noteq> 0" "s mod 65535 = 0" using assms(1) norm16_full [OF assms(2)] by simp_all
  have "s = 65535 * (s div 65535)" using s(2) by (metis mult_div_mod_eq add.right_neutral)
  with s(1) assms(2) have "65535 \<le> s" by (cases "s div 65535 \<le> 0") linarith+
  then have t: "0 \<le> s - tail" using assms(4) by simp
  have "(s - tail) mod 65535 = (0 - tail) mod 65535" using s(2) by (metis mod_diff_left_eq)
  moreover have "(0 - tail) mod 65535 = 65535 - tail" using assms(3,4) False by (simp add: zmod_zminus1_eq_if)
  ultimately show ?thesis using norm16_full [OF t] False assms(3,4) by simp
qed (use assms in simp)


lemma sameBut_tail:
  assumes "sameBut off field bs bs'" "off + 20 \<le> p" "field + 1 < p + len" "0 \<le> len"
  shows "tailByte bs' p len = tailByte bs p len"
proof -
  have "p + len \<noteq> off + 10" "p + len \<noteq> off + 11" "p + len \<noteq> field" "p + len \<noteq> field + 1"
    using assms(2-4) by linarith+
  then show ?thesis using assms(1) by (simp add: tailByte_def sameBut_def)
qed

section \<open>The transport checksum\<close>

text \<open>The buffer RFC 793 and RFC 768 sum over IPv4: addresses, zero, protocol, length, segment.\<close>

definition pseudoPacket :: "bytes \<Rightarrow> RawPacketTransportChecksumTarget \<Rightarrow> bytes" where
  "pseudoPacket bs t =
     jsSlice bs (trt_ipOffset t + 12) (trt_ipOffset t + 12 + 8)
     @ [0, trt_protocol t, trt_length t div 256, trt_length t mod 256]
     @ jsSlice bs (trt_l4Offset t) (trt_l4Offset t + trt_length t)"

lemma byteAt_slice:
  "0 \<le> off \<Longrightarrow> 0 \<le> n \<Longrightarrow> off + n \<le> int (length bs) \<Longrightarrow> 0 \<le> j \<Longrightarrow> j < n
   \<Longrightarrow> byteAt (jsSlice bs off (off + n)) j = byteAt bs (j + off)"
  using byteAt_jsSlice [of off n bs "j + off"] by (simp add: byteOr_def length_jsSlice_inside)

lemma wordSum_append:
  assumes "length xs = 2 * m"
  shows "wordSum (xs @ ys) None 0 (m + n) = wordSum xs None 0 m + wordSum ys None 0 n"
proof -
  have "wordSum (xs @ ys) None 0 m = wordSum xs None (0 + 0) m"
    using assms by (intro wordSum_shift) (simp add: byteAt_append_left)
  moreover have "wordSum ys None 0 n = wordSum (xs @ ys) None (0 + 2 * int m) n"
    using assms by (intro wordSum_shift) (simp add: byteAt_append_right)
  ultimately show ?thesis by (simp add: wordSum_split)
qed

lemma wordSum_slice:
  assumes "0 \<le> off" "off + 2 * int n \<le> int (length bs)"
  shows "wordSum (jsSlice bs off (off + 2 * int n)) None 0 n = wordSum bs None off n"
  using wordSum_shift [of 0 n "jsSlice bs off (off + 2 * int n)" bs off] assms by (simp add: byteAt_slice)

lemma wordsIn_add:
  assumes "0 \<le> k"
  shows "wordsIn (2 * int m + k) = m + wordsIn k"
proof -
  have "(2 * int m + k + 1) div 2 = int m + (k + 1) div 2" by presburger
  moreover have "0 \<le> (k + 1) div 2" using assms by simp
  ultimately show ?thesis by (simp add: wordsIn_def nat_add_distrib)
qed

lemma wordSum_segment:
  assumes "is_bytes bs" "0 \<le> off" "0 \<le> len" "off + len \<le> int (length bs)"
  shows "wordSum (jsSlice bs off (off + len)) None 0 (wordsIn len) = wordSum bs None off (wordsIn len) - tailByte bs off len"
proof -
  have "byteAt (jsSlice bs off (off + len)) j = byteAt (take (nat (off + len)) bs) (j + off)" if "0 \<le> j" for j
    using that assms byteAt_slice [OF assms(2-4) that] length_jsSlice_inside [of off len bs]
    by (cases "j < len") (simp_all add: byteAt_take, simp add: byteOr_def)
  then have "wordSum (jsSlice bs off (off + len)) None 0 (wordsIn len) = wordSum (take (nat (off + len)) bs) None (0 + off) (wordsIn len)"
    by (intro wordSum_shift) simp
  then show ?thesis using wordSum_cut [OF assms(1-3)] by simp
qed

lemma wordSum_pseudo:
  assumes b: "is_bytes bs" and ip: "0 \<le> trt_ipOffset t" "trt_ipOffset t + 20 \<le> int (length bs)"
    and len: "0 \<le> trt_length t" "trt_length t \<le> 65535"
    and l4: "0 \<le> trt_l4Offset t" "trt_l4Offset t + trt_length t \<le> int (length bs)"
    and p: "0 \<le> trt_protocol t" "trt_protocol t \<le> 255"
  shows "wordSum (pseudoPacket bs t) None 0 (6 + wordsIn (trt_length t))
    = wordSum bs None (trt_ipOffset t + 12) 4 + trt_protocol t + trt_length t
      + wordSum bs None (trt_l4Offset t) (wordsIn (trt_length t)) - tailByte bs (trt_l4Offset t) (trt_length t)"
proof -
  let ?m = "[0, trt_protocol t, trt_length t div 256, trt_length t mod 256]"
  define n where "n = wordsIn (trt_length t)"
  have "is_bytes ?m" using len p by (simp add: is_bytes_iff) linarith
  then have "rawPacketWord ?m 0 = trt_protocol t" "rawPacketWord ?m 2 = trt_length t"
    by (simp_all add: rawPacketWord_eq byteOr_def)
  then have m: "wordSum ?m None 0 2 = trt_protocol t + trt_length t"
    by (simp add: numeral_2_eq_2 wordUnless_def)
  have a: "length (jsSlice bs (trt_ipOffset t + 12) (trt_ipOffset t + 12 + 8)) = 2 * 4"
    "wordSum (jsSlice bs (trt_ipOffset t + 12) (trt_ipOffset t + 12 + 8)) None 0 4 = wordSum bs None (trt_ipOffset t + 12) 4"
    using ip length_jsSlice_inside [of "trt_ipOffset t + 12" 8 bs] wordSum_slice [of "trt_ipOffset t + 12" 4 bs]
    by simp_all
  have "wordSum (pseudoPacket bs t) None 0 (4 + (2 + n))
      = wordSum bs None (trt_ipOffset t + 12) 4
        + (wordSum ?m None 0 2 + wordSum (jsSlice bs (trt_l4Offset t) (trt_l4Offset t + trt_length t)) None 0 n)"
    unfolding pseudoPacket_def
    by (subst wordSum_append [OF a(1)], subst wordSum_append) (simp_all only: a(2), simp)
  then show ?thesis using m wordSum_segment [OF b l4(1) len(1) l4(2)] by (simp add: n_def)
qed

lemma transportChecksum_norm:
  assumes b: "is_bytes bs" and v: "trt_ipVersion t = 4"
    and p: "0 \<le> trt_protocol t" "trt_protocol t \<le> 255" and len: "0 \<le> trt_length t" "trt_length t \<le> 65535"
    and s: "s = wordSum bs None (trt_ipOffset t + 12) 4 + trt_protocol t + trt_length t
      + wordSum bs (Some (trt_checksumOffset t)) (trt_l4Offset t) (wordsIn (trt_length t))"
  shows "rawTransportChecksum bs t =
    (if trt_protocol t = 17 \<and> norm16 s = 65535 then 65535 else 65535 - norm16 s)"
proof -
  let ?a = "wordSum bs None (trt_ipOffset t + 12) 4"
  let ?s = "wordSum bs (Some (trt_checksumOffset t)) (trt_l4Offset t) (wordsIn (trt_length t))"
  have nn: "0 \<le> ?a" "0 \<le> ?s" using wordSum_nonneg [OF b] by blast+
  have a: "rawChecksumAddBytes bs (trt_ipOffset t + 12) 8 0 None = norm16 ?a"
    using checksumAddBytes_norm [OF b, of 0 "trt_ipOffset t + 12" 8 None] by (simp add: wordsIn_def)
  have r: "0 \<le> norm16 ?a" "norm16 ?a \<le> 65535" using norm16_range [OF nn(1)] by simp_all
  let ?p = "norm16 ?a + trt_protocol t + trt_length t"
  have f: "foldCarry ?p = norm16 ?p" using r p len by (intro foldCarry_norm) linarith+
  have "0 \<le> norm16 ?p" "norm16 ?p \<le> 65535" using norm16_range [of ?p] r p len by linarith+
  then have "rawChecksumAddBytes bs (trt_l4Offset t) (trt_length t) (foldCarry ?p) (Some (trt_checksumOffset t))
      = norm16 (norm16 ?p + ?s)"
    unfolding f by (rule checksumAddBytes_norm [OF b])
  also have "\<dots> = norm16 (norm16 ?a + (trt_protocol t + trt_length t + ?s))"
    using r p len nn by (subst norm16_add) (simp_all add: algebra_simps)
  also have "\<dots> = norm16 s"
    unfolding s using p len nn by (subst norm16_add) (simp_all add: algebra_simps)
  finally have acc: "rawChecksumAddBytes bs (trt_l4Offset t) (trt_length t) (foldCarry ?p)
      (Some (trt_checksumOffset t)) = norm16 s" .
  have "0 \<le> norm16 s" "norm16 s \<le> 65535" using norm16_range [of s] nn p len s by linarith+
  then show ?thesis
    by (auto simp: rawTransportChecksum_def Let_def v a acc complement16)
qed

text \<open>What the store leaves behind closes over the pseudo packet.\<close>

lemma plainTransport_bounds:
  assumes b: "is_bytes bs" and "plainTransport bs off protocol l4 limit t"
  shows "0 \<le> off" "off + 20 \<le> l4" "l4 + trt_length t \<le> int (length bs)" "trt_length t \<le> 65535"
    "(if protocol = 17 then 8 else 20) \<le> trt_length t" "protocol = 6 \<or> protocol = 17"
proof -
  from assms have o: "outerPacket bs off protocol l4 limit" and p: "protocol = 6 \<or> protocol = 17"
    and a: "addTransportTarget bs 4 off protocol l4 limit = [((protocol, l4), t)]"
    by (simp_all add: plainTransport_def)
  from o have off: "0 \<le> off" "off + 20 \<le> l4" and e: "enterIpv4 bs off = Some (protocol, l4, limit)"
    and li: "limit \<le> int (length bs)" by (auto elim: outerPacketE)
  have s: "transportSound bs ((protocol, l4), t)"
    using a p off addTransportTarget_sound [of "((protocol, l4), t)" bs 4 off protocol l4 limit] by auto
  have "limit \<le> off + 65535"
    using e rawPacketWord_range [OF b, of "off + 2"] by (auto simp: enterIpv4_def Let_def split: option.splits if_split_asm)
  moreover have "l4 + trt_length t \<le> limit"
    using a by (auto simp: addTransportTarget_def split: if_split_asm option.splits dest: udpTargetD(4))
  ultimately show "0 \<le> off" "off + 20 \<le> l4" "l4 + trt_length t \<le> int (length bs)" "trt_length t \<le> 65535"
    "(if protocol = 17 then 8 else 20) \<le> trt_length t" "protocol = 6 \<or> protocol = 17"
    using off p s li by (auto simp: transportSound_def Let_def)
qed

lemma transport_step_closes_iff:
  assumes b: "is_bytes bs" and p: "plainTransport bs off protocol l4 limit t"
  shows "rawPacketOnesComplementClosure (pseudoPacket (repairTransportStep bs t) t) 0 (12 + trt_length t) = 0xffff
    \<longleftrightarrow> tailByte bs l4 (trt_length t) = 0"
proof -
  let ?b = "repairTransportStep bs t"
  have b': "is_bytes ?b" using transport_pass.step_bytes [OF b] .
  have p': "plainTransport ?b off protocol l4 limit t" by (rule plainTransport_step [OF b p])
  note t = plainTransport_target [OF p'] and l = plainTransport_bounds [OF b' p']
  let ?n = "wordsIn (trt_length t)"
  let ?a = "wordSum ?b None (off + 12) 4 + protocol + trt_length t"
  let ?s = "?a + wordSum ?b (Some (trt_checksumOffset t)) l4 ?n"
  have len: "8 \<le> trt_length t" using l(5) by (simp split: if_split_asm)
  have n: "trt_length t \<le> 2 * int ?n" using len by (simp add: wordsIn_def)
  have a: "0 \<le> ?a" using wordSum_nonneg [OF b', of None "off + 12" 4] l(5,6) len by auto
  have "rawTransportChecksum ?b t = rawTransportChecksum bs t"
    using t(7,9) sameBut_transport [of off t bs]
    by (intro rawTransportChecksum_cong) (auto intro!: transport_pass.step_frame)
  then have w: "rawPacketWord ?b (trt_checksumOffset t) =
      (if protocol = 17 \<and> norm16 ?s = 65535 then 65535 else 65535 - norm16 ?s)"
    using transport_step_word [OF b p] transportChecksum_norm [OF b' t(4) _ _ _ l(4) refl] t l(5,6) by auto
  let ?S = "?a + wordSum ?b None l4 ?n"
  have S: "norm16 ?S = 65535"
    using w t(1) n l(5,6) by (intro sum_closes [OF b' a, where field = "trt_checksumOffset t"]) (auto split: if_split_asm)
  have S0: "0 \<le> ?S" using a wordSum_nonneg [OF b', of None l4 ?n] by linarith
  have same: "tailByte ?b l4 (trt_length t) = tailByte bs l4 (trt_length t)"
    using t(1,6) l(5,6) by (intro sameBut_tail [OF sameBut_transport [of off t bs]]) (auto split: if_split_asm)
  have "is_bytes (pseudoPacket ?b t)"
    using l(4-6) t(5) by (auto simp: pseudoPacket_def is_bytes_jsSlice [OF b'] split: if_split_asm)
  moreover have "int (length (pseudoPacket ?b t)) = 12 + trt_length t"
    using l t length_jsSlice_inside [of "off + 12" 8 ?b] length_jsSlice_inside [of l4 "trt_length t" ?b] len
    by (simp add: pseudoPacket_def)
  then have "tailByte (pseudoPacket ?b t) 0 (12 + trt_length t) = 0" by (simp add: tailByte_def byteOr_def)
  moreover have "wordsIn (12 + trt_length t) = 6 + ?n" using wordsIn_add [of "trt_length t" 6] len by simp
  moreover have "wordSum (pseudoPacket ?b t) None 0 (6 + ?n) = ?S - tailByte ?b l4 (trt_length t)"
    using l t len by (subst wordSum_pseudo [OF b']) auto
  ultimately have "rawPacketOnesComplementClosure (pseudoPacket ?b t) 0 (12 + trt_length t)
      = norm16 (?S - tailByte ?b l4 (trt_length t))"
    using closure_tail [of "pseudoPacket ?b t" 0 "12 + trt_length t"] len by simp
  then show ?thesis
    using closes_without_tail [OF S S0] tailByte_range [OF b', of l4 "trt_length t"] same by simp
qed


lemma repaired_transport_iff:
  assumes b: "is_bytes bs" and p: "plainTransport bs off protocol l4 limit t"
  shows "rawPacketOnesComplementClosure (pseudoPacket (repairRawPacketChecksums bs) t) 0 (12 + trt_length t) = 0xffff
    \<longleftrightarrow> 2 dvd trt_length t \<or> byteAt bs (l4 + trt_length t) = 0"
proof -
  have "tailByte (repairIpv4Step bs off) l4 (trt_length t) = tailByte bs l4 (trt_length t)"
    using plainTransport_bounds [OF b p] plainTransport_target(1) [OF p]
    by (intro sameBut_tail [OF sameBut_ipv4 [of off "trt_checksumOffset t"]]) (auto split: if_split_asm)
  then show ?thesis
    unfolding repair_plain_transport [OF assms]
      transport_step_closes_iff [OF ipv4_pass.step_bytes [OF b] plainTransport_ipv4 [OF p]]
    by (simp add: tailByte_def)
qed

section \<open>ICMP\<close>

definition plainIcmp :: "bytes \<Rightarrow> int \<Rightarrow> int \<Rightarrow> int \<Rightarrow> RawPacketIcmpChecksumTarget \<Rightarrow> bool" where
  "plainIcmp bs off l4 limit t \<longleftrightarrow>
     outerPacket bs off 1 l4 limit \<and> addIcmpTarget bs 4 off l4 limit = [((4, l4), t)]"

lemma plainIcmp_target:
  assumes "plainIcmp bs off l4 limit t"
  shows "icmp_checksumOffset t = l4 + 2" "icmp_ipOffset t = off" "icmp_icmpOffset t = l4"
    "icmp_ipVersion t = 4" "icmp_length t = limit - l4" "off + 20 \<le> l4" "0 \<le> off" "4 \<le> limit - l4"
    "limit \<le> int (length bs)" "rawPacketHasBytes bs (icmp_checksumOffset t) 2" "icmpWf t"
  using assms
  by (auto simp: plainIcmp_def addIcmpTarget_def icmpWf_def rawPacketHasBytes_def split: if_split_asm
      elim: outerPacketE)

lemma collect_icmp:
  assumes "plainIcmp bs off l4 limit t"
  shows "collectRawPacketTransportChecksumTargets bs = []" "collectRawPacketIcmpChecksumTargets bs = [t]"
    "collectRawPacketSctpChecksumTargets bs = []" "collectRawPacketGreChecksumTargets bs = []"
    "collectRawPacketIpv4HeaderOffsets bs = [off]"
  using assms
  by (auto simp: plainIcmp_def collectors_plain untunnelled_def transportLeaf4_def icmpLeaf4_def sctpLeaf4_def)

lemma plainIcmp_kept:
  assumes p: "plainIcmp bs off l4 limit t" and s: "sameBut off (icmp_checksumOffset t) bs bs'"
  shows "plainIcmp bs' off l4 limit t"
proof -
  have l: "length bs' = length bs" using s by (simp add: sameBut_def)
  show ?thesis
    using p outerPacket_kept [OF _ s] plainIcmp_target(1) [OF p]
    by (simp add: plainIcmp_def addIcmpTarget_def l hasBytes_length_cong [OF l])
qed

lemma repair_plain_icmp:
  assumes b: "is_bytes bs" and p: "plainIcmp bs off l4 limit t"
  shows "repairRawPacketChecksums bs = repairIcmpStep (repairIpv4Step bs off) t"
proof -
  let ?b1 = "repairIpv4Step bs off" let ?b2 = "repairIcmpStep ?b1 t"
  have p1: "plainIcmp ?b1 off l4 limit t" by (rule plainIcmp_kept [OF p sameBut_ipv4])
  have p2: "plainIcmp ?b2 off l4 limit t" by (rule plainIcmp_kept [OF p1 sameBut_icmp])
  show ?thesis
    by (simp add: repairRawPacketChecksums_def Let_def pass_defs collect_icmp [OF p]
        collect_icmp [OF p1] collect_icmp [OF p2])
qed

lemma icmp_step_closes_iff:
  assumes b: "is_bytes bs" and p: "plainIcmp bs off l4 limit t"
  shows "rawPacketOnesComplementClosure (repairIcmpStep bs t) l4 (icmp_length t) = 0xffff
    \<longleftrightarrow> tailByte bs l4 (icmp_length t) = 0"
proof -
  let ?b = "repairIcmpStep bs t"
  let ?n = "wordsIn (icmp_length t)" let ?s = "wordSum ?b (Some (icmp_checksumOffset t)) l4 ?n"
  let ?S = "wordSum ?b None l4 ?n"
  have b': "is_bytes ?b" using icmp_pass.step_bytes [OF b] .
  have p': "plainIcmp ?b off l4 limit t" by (rule plainIcmp_kept [OF p sameBut_icmp])
  note t = plainIcmp_target [OF p']
  have n: "icmp_length t \<le> 2 * int ?n" using t(5,8) by (simp add: wordsIn_def)
  have r: "0 \<le> norm16 ?s" "norm16 ?s \<le> 65535" using norm16_range [OF wordSum_nonneg [OF b']] by blast+
  have "icmpGood ?b t"
    using icmp_pass.step_good [OF b t(11)] plainIcmp_target(10) [OF p] by simp
  then have "rawPacketWord ?b (icmp_checksumOffset t) = rawIcmpChecksum ?b t"
    using t(10) by (simp add: icmpGood_def)
  also have "\<dots> = 65535 - norm16 ?s"
    using checksumAddBytes_norm [OF b', of 0 l4 "icmp_length t" "Some (icmp_checksumOffset t)"] t(3,4) r
    by (simp add: rawIcmpChecksum_def Let_def complement16)
  finally have "norm16 (0 + ?S) = 65535"
    using t(1,5,8) n by (intro sum_closes [OF b', where field = "icmp_checksumOffset t"]) auto
  then have S: "norm16 ?S = 65535" by simp
  have "rawPacketOnesComplementClosure ?b l4 (icmp_length t) = norm16 (?S - tailByte ?b l4 (icmp_length t))"
    using t(5-8) by (intro closure_tail [OF b']) auto
  moreover have "tailByte ?b l4 (icmp_length t) = tailByte bs l4 (icmp_length t)"
    using t by (intro sameBut_tail [OF sameBut_icmp [of off t bs]]) auto
  ultimately show ?thesis
    using closes_without_tail [OF S wordSum_nonneg [OF b']] tailByte_range [OF b', of l4 "icmp_length t"] by simp
qed

section \<open>The ICMPv4 echo dissector\<close>

record Icmpv4EchoTarget =
  echo4_checksum :: int
  echo4_checksumOffset :: int
  echo4_code :: int
  echo4_codeOffset :: int
  echo4_identifier :: int
  echo4_identifierOffset :: int
  echo4_offset :: int
  echo4_sequence :: int
  echo4_sequenceOffset :: int
  echo4_type :: int
  echo4_typeOffset :: int

definition echoAccepts :: "bytes \<Rightarrow> RawPacketIcmpChecksumTarget \<Rightarrow> bool" where
  "echoAccepts bs target \<longleftrightarrow>
     \<not> (icmp_ipVersion target \<noteq> 4 \<or> icmp_length target < 8 \<or> \<not> rawPacketHasBytes bs (icmp_icmpOffset target) 8)
     \<and> \<not> (byteAt bs (icmp_icmpOffset target) \<noteq> 0 \<and> byteAt bs (icmp_icmpOffset target) \<noteq> 8)
     \<and> \<not> rawPacketOnesComplementClosure bs (icmp_icmpOffset target) (icmp_length target) \<noteq> 0xffff"

definition echoAt :: "bytes \<Rightarrow> RawPacketIcmpChecksumTarget \<Rightarrow> Icmpv4EchoTarget" where
  "echoAt bs target =
     (let offset = icmp_icmpOffset target
      in \<lparr>echo4_checksum = rawPacketWord bs (icmp_checksumOffset target),
          echo4_checksumOffset = icmp_checksumOffset target,
          echo4_code = byteAt bs (offset + 1), echo4_codeOffset = offset + 1,
          echo4_identifier = rawPacketWord bs (offset + 4), echo4_identifierOffset = offset + 4,
          echo4_offset = offset,
          echo4_sequence = rawPacketWord bs (offset + 6), echo4_sequenceOffset = offset + 6,
          echo4_type = byteAt bs offset, echo4_typeOffset = offset\<rparr>)"

definition icmpv4EchoRawTarget :: "RawStream option \<Rightarrow> Icmpv4EchoTarget option" where
  "icmpv4EchoRawTarget stream =
     (let bs = streamBytes stream
      in map_option (echoAt bs) (find (echoAccepts bs) (collectRawPacketIcmpChecksumTargets bs)))"

lemma icmpv4EchoRawTargetD:
  assumes "icmpv4EchoRawTarget s = Some e"
  shows "rawPacketHasBytes (streamBytes s) (echo4_offset e) 8" "echo4_checksumOffset e = echo4_offset e + 2"
proof -
  let ?bs = "streamBytes s"
  obtain t where t: "t \<in> set (collectRawPacketIcmpChecksumTargets ?bs)" "echoAccepts ?bs t" "e = echoAt ?bs t"
    using assms by (auto simp: icmpv4EchoRawTarget_def Let_def find_Some_iff dest: nth_mem)
  then have "icmp_checksumOffset t = icmp_icmpOffset t + 2" "rawPacketHasBytes ?bs (icmp_icmpOffset t) 8"
    using icmp_walk.collected [OF t(1) [unfolded collectRawPacketIcmpChecksumTargets_def]]
    by (auto simp: icmpSound_def Let_def echoAccepts_def)
  then show "rawPacketHasBytes ?bs (echo4_offset e) 8" "echo4_checksumOffset e = echo4_offset e + 2"
    using t(3) by (simp_all add: echoAt_def Let_def)
qed

interpretation echo4_target: packet_target icmpv4EchoRawTarget echo4_offset "\<lambda>t. 8"
  by unfold_locales (auto dest: icmpv4EchoRawTargetD(1))

lemma echo_after_repair_iff:
  assumes b: "is_bytes bs" and p: "plainIcmp bs off l4 limit t" and e: "8 \<le> icmp_length t"
    and ty: "byteAt bs l4 = 0 \<or> byteAt bs l4 = 8" and s: "streamBytes s = repairRawPacketChecksums bs"
  shows "if 2 dvd icmp_length t \<or> byteAt bs (l4 + icmp_length t) = 0
    then \<exists>e. icmpv4EchoRawTarget s = Some e \<and> echo4_offset e = l4 else icmpv4EchoRawTarget s = None"
proof -
  let ?b1 = "repairIpv4Step bs off" let ?b2 = "repairIcmpStep ?b1 t"
  have p1: "plainIcmp ?b1 off l4 limit t" by (rule plainIcmp_kept [OF p sameBut_ipv4])
  have p2: "plainIcmp ?b2 off l4 limit t" by (rule plainIcmp_kept [OF p1 sameBut_icmp])
  have r: "streamBytes s = ?b2" using repair_plain_icmp [OF b p] s by simp
  note t = plainIcmp_target [OF p2]
  have "tailByte ?b1 l4 (icmp_length t) = tailByte bs l4 (icmp_length t)"
    using t by (intro sameBut_tail [OF sameBut_ipv4 [of off "icmp_checksumOffset t"]]) auto
  then have c: "rawPacketOnesComplementClosure ?b2 l4 (icmp_length t) = 0xffff
      \<longleftrightarrow> 2 dvd icmp_length t \<or> byteAt bs (l4 + icmp_length t) = 0"
    unfolding icmp_step_closes_iff [OF ipv4_pass.step_bytes [OF b] p1] by (simp add: tailByte_def)
  have "byteAt ?b2 l4 = byteAt bs l4"
    using t sameBut_trans [OF sameBut_ipv4 sameBut_icmp, of off t bs] by (simp add: sameBut_def)
  then have "echoAccepts ?b2 t \<longleftrightarrow> 2 dvd icmp_length t \<or> byteAt bs (l4 + icmp_length t) = 0"
    using ty e t c by (auto simp: echoAccepts_def rawPacketHasBytes_def)
  then show ?thesis
    using t(3) by (simp add: icmpv4EchoRawTarget_def r collect_icmp [OF p2] echoAt_def Let_def)
qed

end
