(* ===== verification/DnsDhcp.thy ===== *)
theory DnsDhcp
  imports TransportLayer
begin

text \<open>
  DNS names, the first DNS question and the first answer, and DHCP with its option table.
\<close>

section \<open>DNS names\<close>

text \<open>
  The loop over the labels, by \<open>64 - labelIndex\<close>: \<open>offset\<close> is where the name starts, \<open>cursor\<close>
  the current label. The result is the offset behind the name.
\<close>

fun dnsNameFrom :: "nat \<Rightarrow> bytes \<Rightarrow> int \<Rightarrow> bool \<Rightarrow> int \<Rightarrow> int option" where
  "dnsNameFrom 0 bs offset allowCompressionPointer cursor = None"
| "dnsNameFrom (Suc n) bs offset allowCompressionPointer cursor =
     (if \<not> rawPacketHasBytes bs cursor 1 then None
      else
        let labelLength = byteAt bs cursor in
        if js_and labelLength 0xc0 = 0xc0 then
          (if allowCompressionPointer \<and> rawPacketHasBytes bs cursor 2 then Some (cursor + 2) else None)
        else if labelLength = 0 then Some (cursor + 1)
        else if js_and labelLength 0xc0 \<noteq> 0 \<or> labelLength > 63 then None
        else if \<not> rawPacketHasBytes bs (cursor + 1) labelLength then None
        else if cursor + 1 + labelLength - offset > 255 then None
        else dnsNameFrom n bs offset allowCompressionPointer (cursor + 1 + labelLength))"

definition rawDnsNameEnd :: "bytes \<Rightarrow> int \<Rightarrow> bool \<Rightarrow> int option" where
  "rawDnsNameEnd bs offset allowCompressionPointer = dnsNameFrom 64 bs offset allowCompressionPointer offset"

text \<open>
  The wire form of a name: labels of one to 63 bytes, each behind its length, and the empty
  label of the root.
\<close>

definition labelOk :: "bytes \<Rightarrow> bool" where
  "labelOk label \<longleftrightarrow> is_bytes label \<and> label \<noteq> [] \<and> length label \<le> 63"

fun dnsLabels :: "bytes list \<Rightarrow> bytes" where
  "dnsLabels [] = []"
| "dnsLabels (l # ls) = int (length l) # l @ dnsLabels ls"

definition dnsName :: "bytes list \<Rightarrow> bytes" where
  "dnsName ls = dnsLabels ls @ [0]"

section \<open>A name is found exactly where one is written\<close>

lemma js_and_c0: "js_and l 0xc0 = l div 64 mod 4 * 64"
  using js_and_field [of "0xc0" 2 6 l] by simp

lemma hasBytes_append_mid:
  "0 < n \<Longrightarrow> rawPacketHasBytes (pre @ mid @ post) (int (length pre)) n \<longleftrightarrow> n \<le> int (length mid) + int (length post)"
  by (auto simp: rawPacketHasBytes_def)

lemma dnsNameFrom_print:
  assumes "list_all labelOk ls" "length ls < n" "off \<le> int (length pre)"
    "int (length pre) + int (length (dnsLabels ls)) - off \<le> 255"
  shows "dnsNameFrom n (pre @ dnsName ls @ post) off ptr (int (length pre))
    = Some (int (length pre) + int (length (dnsName ls)))"
  using assms
proof (induction ls arbitrary: n pre)
  case Nil
  then show ?case
    by (cases n) (simp_all add: dnsName_def rawPacketHasBytes_def byteAt_append_right js_and_mask1
        byteOr_def js_and_c0 Let_def)
next
  case (Cons l ls)
  obtain m where n: "n = Suc m" "length ls < m" using Cons.prems(2) by (cases n) auto
  let ?bs = "pre @ dnsName (l # ls) @ post"
  have l: "0 < length l" "length l \<le> 63" "list_all labelOk ls"
    using Cons.prems(1) by (simp_all add: labelOk_def [of l])
  have b: "byteAt ?bs (int (length pre)) = int (length l)"
    by (simp add: byteAt_append_right dnsName_def byteOr_def)
  have c0: "js_and (int (length l)) 0xc0 = 0" using l(2) by (simp add: js_and_c0)
  have eq: "?bs = (pre @ int (length l) # l) @ dnsName ls @ post" by (simp add: dnsName_def)
  have "dnsNameFrom m ((pre @ int (length l) # l) @ dnsName ls @ post) off ptr
      (int (length (pre @ int (length l) # l)))
    = Some (int (length (pre @ int (length l) # l)) + int (length (dnsName ls)))"
    using Cons.prems l n by (intro Cons.IH) (simp_all add: algebra_simps)
  moreover have "rawPacketHasBytes ?bs (int (length pre)) 1"
    "rawPacketHasBytes ?bs (int (length pre) + 1) (int (length l))"
    using l by (simp_all add: rawPacketHasBytes_def dnsName_def)
  moreover have "int (length pre) + 1 + int (length l) - off \<le> 255" using Cons.prems(4) by simp
  ultimately show ?case
    unfolding n(1) using l b c0 eq by (simp add: Let_def algebra_simps dnsName_def)
qed

lemma dnsNameFrom_parse:
  assumes "is_bytes bs" "dnsNameFrom n bs off False c = Some e"
  shows "\<exists>ls. list_all labelOk ls \<and> length ls < n \<and> rawPacketHasBytes bs c (e - c)
    \<and> jsSlice bs c e = dnsName ls \<and> (ls = [] \<or> e - 1 - off \<le> 255)"
  using assms(2)
proof (induction n arbitrary: c)
  case (Suc n)
  let ?l = "byteAt bs c"
  have l: "0 \<le> ?l" "?l < 256" using byteAt_range [OF assms(1)] by auto
  have c: "rawPacketHasBytes bs c 1" using Suc.prems by (simp split: if_split_asm)
  note cb = hasBytesD [OF c]
  show ?case
  proof (cases "?l = 0")
    case True
    with Suc.prems c have e: "e = c + 1" by (simp add: js_and_c0)
    have "jsSlice bs c (c + 1) = [0]"
      using jsSlice_Cons [of c 1 bs] cb True by (simp add: byteOr_def)
    then show ?thesis using c e by (intro exI [of _ "[]"]) (simp add: dnsName_def)
  next
    case False
    with Suc.prems c have s: "?l \<le> 63" "rawPacketHasBytes bs (c + 1) ?l" "c + 1 + ?l - off \<le> 255"
      "dnsNameFrom n bs off False (c + 1 + ?l) = Some e"
      by (simp_all add: Let_def split: if_split_asm)
    from Suc.IH [OF s(4)] obtain ls where ls: "list_all labelOk ls" "length ls < n"
      "rawPacketHasBytes bs (c + 1 + ?l) (e - (c + 1 + ?l))" "jsSlice bs (c + 1 + ?l) e = dnsName ls"
      "ls = [] \<or> e - 1 - off \<le> 255" by blast
    note eb = hasBytesD [OF ls(3)]
    define lab where "lab = jsSlice bs (c + 1) (c + 1 + ?l)"
    have lab: "length lab = nat ?l" "is_bytes lab"
      using length_jsSlice_inside [of "c + 1" ?l bs] hasBytesD [OF s(2)] is_bytes_jsSlice [OF assms(1)]
      by (simp_all add: lab_def)
    have "jsSlice bs c e = ?l # jsSlice bs (c + 1) (c + 1 + (e - c - 1))"
      using jsSlice_Cons [of c "e - c" bs] cb eb l by (simp add: byteOr_def)
    also have "jsSlice bs (c + 1) (c + 1 + (e - c - 1)) = lab @ jsSlice bs (c + 1 + ?l) e"
      unfolding lab_def using jsSlice_split [of "c + 1" ?l "e - (c + 1 + ?l)" bs] cb eb l by simp
    finally have sl: "jsSlice bs c e = dnsName (lab # ls)"
      using ls(4) lab l by (simp add: dnsName_def)
    have "ls = [] \<Longrightarrow> e = c + 1 + ?l + 1"
    proof -
      assume "ls = []"
      then have "length (jsSlice bs (c + 1 + ?l) (c + 1 + ?l + (e - (c + 1 + ?l)))) = 1"
        using ls(4) by (simp add: dnsName_def)
      then show ?thesis using length_jsSlice_inside [of "c + 1 + ?l" "e - (c + 1 + ?l)" bs] eb by simp
    qed
    then have "e - 1 - off \<le> 255" using ls(5) s(3) by auto
    moreover have "rawPacketHasBytes bs c (e - c)" using cb eb l by (simp add: rawPacketHasBytes_def)
    moreover have "labelOk lab" using lab l False s(1) by (auto simp: labelOk_def nat_le_iff)
    ultimately show ?thesis using ls(1,2) sl by (intro exI [of _ "lab # ls"]) simp
  qed
qed simp

section \<open>Questions and answers\<close>

record DnsQueryTarget =
  dns_additionalCount :: int
  dns_additionalCountOffset :: int
  dns_answerCount :: int
  dns_answerCountOffset :: int
  dns_authorityCount :: int
  dns_authorityCountOffset :: int
  dns_bytes :: bytes
  dns_checksumInstruction :: ChecksumInstruction
  dns_flags :: int
  dns_flagsOffset :: int
  dns_payloadOffset :: int
  dns_questionCount :: int
  dns_questionCountOffset :: int
  dns_queryClass :: int
  dns_queryClassOffset :: int
  dns_queryNameFirstByte :: int
  dns_queryNameFirstByteOffset :: "int option"
  dns_queryNameLength :: int
  dns_queryType :: int
  dns_queryTypeOffset :: int
  dns_transactionId :: int
  dns_transactionIdOffset :: int
  dns_udpOffset :: int

definition rawDnsQueryTarget :: "RawStream option \<Rightarrow> DnsQueryTarget option" where
  "rawDnsQueryTarget stream =
     (case rawOuterTransportTarget stream 17 11 8 of
        None \<Rightarrow> None
      | Some target \<Rightarrow>
          let bs = tr_bytes target; udpOffset = tr_offset target in
          if \<not> rawPacketHasBytes bs udpOffset 20 then None
          else if rawPacketWord bs udpOffset \<noteq> 53 \<and> rawPacketWord bs (udpOffset + 2) \<noteq> 53 then None
          else
            let udpLength = rawPacketWord bs (udpOffset + 4); payloadOffset = udpOffset + 8 in
            if udpLength \<noteq> 0 \<and> udpLength < 20 then None
            else if \<not> rawPacketHasBytes bs payloadOffset 12 then None
            else
              let questionCount = rawPacketWord bs (payloadOffset + 4);
                  queryNameOffset = payloadOffset + 12
              in if questionCount < 1 then None
                 else case rawDnsNameEnd bs queryNameOffset False of
                        None \<Rightarrow> None
                      | Some queryNameEnd \<Rightarrow>
                          if \<not> rawPacketHasBytes bs queryNameEnd 4 then None
                          else if udpLength \<noteq> 0 \<and> queryNameEnd + 4 > udpOffset + udpLength then None
                          else Some
                            \<lparr>dns_additionalCount = rawPacketWord bs (payloadOffset + 10),
                             dns_additionalCountOffset = payloadOffset + 10,
                             dns_answerCount = rawPacketWord bs (payloadOffset + 6),
                             dns_answerCountOffset = payloadOffset + 6,
                             dns_authorityCount = rawPacketWord bs (payloadOffset + 8),
                             dns_authorityCountOffset = payloadOffset + 8,
                             dns_bytes = bs,
                             dns_checksumInstruction = tr_checksumInstruction target,
                             dns_flags = rawPacketWord bs (payloadOffset + 2),
                             dns_flagsOffset = payloadOffset + 2,
                             dns_payloadOffset = payloadOffset,
                             dns_questionCount = questionCount,
                             dns_questionCountOffset = payloadOffset + 4,
                             dns_queryClass = rawPacketWord bs (queryNameEnd + 2),
                             dns_queryClassOffset = queryNameEnd + 2,
                             dns_queryNameFirstByte = byteAt bs (queryNameOffset + 1),
                             dns_queryNameFirstByteOffset =
                               (if byteAt bs queryNameOffset > 0
                                   \<and> rawPacketHasBytes bs (queryNameOffset + 1) 1
                                then Some (queryNameOffset + 1) else None),
                             dns_queryNameLength = queryNameEnd - queryNameOffset,
                             dns_queryType = rawPacketWord bs queryNameEnd,
                             dns_queryTypeOffset = queryNameEnd,
                             dns_transactionId = rawPacketWord bs payloadOffset,
                             dns_transactionIdOffset = payloadOffset,
                             dns_udpOffset = udpOffset\<rparr>)"

record DnsAnswerTarget =
  ans_answerClass :: int
  ans_answerClassOffset :: int
  ans_answerIpv4 :: "string option"
  ans_answerIpv4Offset :: "int option"
  ans_answerLength :: int
  ans_answerTtl :: int
  ans_answerTtlOffset :: int
  ans_answerType :: int
  ans_answerTypeOffset :: int
  ans_checksumInstruction :: ChecksumInstruction

text \<open>The loop over the questions, by the number still to skip.\<close>

fun skipDnsQuestions :: "nat \<Rightarrow> bytes \<Rightarrow> int \<Rightarrow> int \<Rightarrow> int option" where
  "skipDnsQuestions 0 bs udpEnd cursor = Some cursor"
| "skipDnsQuestions (Suc n) bs udpEnd cursor =
     (case rawDnsNameEnd bs cursor False of
        None \<Rightarrow> None
      | Some nameEnd \<Rightarrow>
          if \<not> rawPacketHasBytes bs nameEnd 4 then None
          else if nameEnd + 4 > udpEnd then None
          else skipDnsQuestions n bs udpEnd (nameEnd + 4))"

definition rawDnsAnswerTarget :: "RawStream option \<Rightarrow> DnsAnswerTarget option" where
  "rawDnsAnswerTarget stream =
     (case rawDnsQueryTarget stream of
        None \<Rightarrow> None
      | Some query \<Rightarrow>
          let bs = dns_bytes query; payloadOffset = dns_payloadOffset query;
              answerCount = rawPacketWord bs (payloadOffset + 6);
              udpLength = rawPacketWord bs (dns_udpOffset query + 4);
              udpEnd = (if udpLength = 0 then int (length bs) else dns_udpOffset query + udpLength);
              questionCount = rawPacketWord bs (payloadOffset + 4)
          in if answerCount < 1 then None
             else case skipDnsQuestions (nat (min questionCount 8)) bs udpEnd (payloadOffset + 12) of
                    None \<Rightarrow> None
                  | Some cursor \<Rightarrow>
                      case rawDnsNameEnd bs cursor True of
                        None \<Rightarrow> None
                      | Some answerNameEnd \<Rightarrow>
                          if \<not> rawPacketHasBytes bs answerNameEnd 10 then None
                          else
                            let answerLength = rawPacketWord bs (answerNameEnd + 8);
                                rdata = answerNameEnd + 10;
                                isA = (rawPacketWord bs answerNameEnd = 1 \<and> answerLength = 4)
                            in if \<not> rawPacketHasBytes bs rdata answerLength \<or> rdata + answerLength > udpEnd
                               then None
                               else Some
                                 \<lparr>ans_answerClass = rawPacketWord bs (answerNameEnd + 2),
                                  ans_answerClassOffset = answerNameEnd + 2,
                                  ans_answerIpv4 = (if isA then Some (formatPacketIpv4 bs rdata) else None),
                                  ans_answerIpv4Offset = (if isA then Some rdata else None),
                                  ans_answerLength = answerLength,
                                  ans_answerTtl = rawPacketNumberValue bs (answerNameEnd + 4) 4,
                                  ans_answerTtlOffset = answerNameEnd + 4,
                                  ans_answerType = rawPacketWord bs answerNameEnd,
                                  ans_answerTypeOffset = answerNameEnd,
                                  ans_checksumInstruction = dns_checksumInstruction query\<rparr>)"

section \<open>DHCP\<close>

record RawDhcpOptionTarget =
  dopt_length :: int
  dopt_offset :: int

text \<open>
  The loop over the options, by \<open>64 - optionIndex\<close>. The table is a map with the first
  occurrence of every code; every \<open>break\<close> returns the table read so far.
\<close>

fun dhcpOptions :: "nat \<Rightarrow> bytes \<Rightarrow> int \<Rightarrow> int \<Rightarrow> (int \<Rightarrow> RawDhcpOptionTarget option) \<Rightarrow> int \<Rightarrow> RawDhcpOptionTarget option" where
  "dhcpOptions 0 bs udpEnd optionOffset options = options"
| "dhcpOptions (Suc n) bs udpEnd optionOffset options =
     (if \<not> rawPacketHasBytes bs optionOffset 1 then options
      else if optionOffset \<ge> udpEnd then options
      else
        let optionCode = byteAt bs optionOffset in
        if optionCode = 255 then options
        else if optionCode = 0 then dhcpOptions n bs udpEnd (optionOffset + 1) options
        else if \<not> rawPacketHasBytes bs optionOffset 2 then options
        else
          let optionLength = byteAt bs (optionOffset + 1); dataOffset = optionOffset + 2 in
          if \<not> rawPacketHasBytes bs dataOffset optionLength \<or> dataOffset + optionLength > udpEnd then options
          else dhcpOptions n bs udpEnd (dataOffset + optionLength)
                 (if options optionCode \<noteq> None then options
                  else options(optionCode \<mapsto> \<lparr>dopt_length = optionLength, dopt_offset = dataOffset\<rparr>)))"

record DhcpTarget =
  dhcp_bytes :: bytes
  dhcp_checksumInstruction :: ChecksumInstruction
  dhcp_clientIp :: string
  dhcp_clientIpOffset :: int
  dhcp_clientMac :: string
  dhcp_clientMacOffset :: int
  dhcp_flags :: int
  dhcp_flagsOffset :: int
  dhcp_clientIdentifierOption :: "RawDhcpOptionTarget option"
  dhcp_hostnameOption :: "RawDhcpOptionTarget option"
  dhcp_hops :: int
  dhcp_hopsOffset :: int
  dhcp_leaseTimeOption :: "RawDhcpOptionTarget option"
  dhcp_messageTypeOption :: "RawDhcpOptionTarget option"
  dhcp_operation :: int
  dhcp_operationOffset :: int
  dhcp_payloadOffset :: int
  dhcp_parameterRequestOption :: "RawDhcpOptionTarget option"
  dhcp_rebindingTimeOption :: "RawDhcpOptionTarget option"
  dhcp_relayIp :: string
  dhcp_relayIpOffset :: int
  dhcp_renewalTimeOption :: "RawDhcpOptionTarget option"
  dhcp_requestedIpOption :: "RawDhcpOptionTarget option"
  dhcp_seconds :: int
  dhcp_secondsOffset :: int
  dhcp_serverIdOption :: "RawDhcpOptionTarget option"
  dhcp_serverIp :: string
  dhcp_serverIpOffset :: int
  dhcp_xid :: int
  dhcp_xidOffset :: int
  dhcp_yourIp :: string
  dhcp_yourIpOffset :: int

definition optionValue :: "(int \<Rightarrow> RawDhcpOptionTarget option) \<Rightarrow> int \<Rightarrow> int \<Rightarrow> RawDhcpOptionTarget option" where
  "optionValue options code len =
     (case options code of None \<Rightarrow> None | Some opt \<Rightarrow> if dopt_length opt = len then Some opt else None)"

definition variableOption :: "(int \<Rightarrow> RawDhcpOptionTarget option) \<Rightarrow> int \<Rightarrow> RawDhcpOptionTarget option" where
  "variableOption options code =
     (case options code of None \<Rightarrow> None | Some opt \<Rightarrow> if dopt_length opt > 0 then Some opt else None)"

definition dhcpTargetAt :: "bytes \<Rightarrow> ChecksumInstruction \<Rightarrow> int
    \<Rightarrow> (int \<Rightarrow> RawDhcpOptionTarget option) \<Rightarrow> DhcpTarget" where
  "dhcpTargetAt bs instruction payloadOffset options =
     \<lparr>dhcp_bytes = bs,
      dhcp_checksumInstruction = instruction,
      dhcp_clientIp = formatPacketIpv4 bs (payloadOffset + 12),
      dhcp_clientIpOffset = payloadOffset + 12,
      dhcp_clientMac = formatPacketMac bs (payloadOffset + 28),
      dhcp_clientMacOffset = payloadOffset + 28,
      dhcp_flags = rawPacketWord bs (payloadOffset + 10),
      dhcp_flagsOffset = payloadOffset + 10,
      dhcp_clientIdentifierOption = variableOption options 61,
      dhcp_hostnameOption = variableOption options 12,
      dhcp_hops = byteAt bs (payloadOffset + 3),
      dhcp_hopsOffset = payloadOffset + 3,
      dhcp_leaseTimeOption = optionValue options 51 4,
      dhcp_messageTypeOption = optionValue options 53 1,
      dhcp_operation = byteAt bs payloadOffset,
      dhcp_operationOffset = payloadOffset,
      dhcp_payloadOffset = payloadOffset,
      dhcp_parameterRequestOption = variableOption options 55,
      dhcp_rebindingTimeOption = optionValue options 59 4,
      dhcp_relayIp = formatPacketIpv4 bs (payloadOffset + 24),
      dhcp_relayIpOffset = payloadOffset + 24,
      dhcp_renewalTimeOption = optionValue options 58 4,
      dhcp_requestedIpOption = optionValue options 50 4,
      dhcp_seconds = rawPacketWord bs (payloadOffset + 8),
      dhcp_secondsOffset = payloadOffset + 8,
      dhcp_serverIdOption = optionValue options 54 4,
      dhcp_serverIp = formatPacketIpv4 bs (payloadOffset + 20),
      dhcp_serverIpOffset = payloadOffset + 20,
      dhcp_xid = rawPacketNumberValue bs (payloadOffset + 4) 4,
      dhcp_xidOffset = payloadOffset + 4,
      dhcp_yourIp = formatPacketIpv4 bs (payloadOffset + 16),
      dhcp_yourIpOffset = payloadOffset + 16\<rparr>"

definition rawDhcpTarget :: "RawStream option \<Rightarrow> DhcpTarget option" where
  "rawDhcpTarget stream =
     (case rawOuterTransportTarget stream 17 11 8 of
        None \<Rightarrow> None
      | Some target \<Rightarrow>
          let bs = tr_bytes target; udpOffset = tr_offset target;
              sourcePort = rawPacketWord bs udpOffset;
              destinationPort = rawPacketWord bs (udpOffset + 2);
              payloadOffset = udpOffset + 8;
              udpLength = rawPacketWord bs (udpOffset + 4);
              udpEnd = (if udpLength = 0 then int (length bs) else udpOffset + udpLength)
          in if \<not> rawPacketHasBytes bs udpOffset 8 then None
             else if \<not> ((sourcePort = 67 \<and> destinationPort = 68) \<or> (sourcePort = 68 \<and> destinationPort = 67))
             then None
             else if \<not> rawPacketHasBytes bs payloadOffset 240 then None
             else if byteAt bs (payloadOffset + 2) < 6
               \<or> formatPacketHexField bs (payloadOffset + 236) 4 \<noteq> ''63825363'' then None
             else if payloadOffset + 240 > udpEnd then None
             else
               Some (dhcpTargetAt bs (tr_checksumInstruction target) payloadOffset
                       (dhcpOptions 64 bs udpEnd (payloadOffset + 240) (\<lambda>_. None))))"

section \<open>Soundness and completeness of the option table\<close>

text \<open>The wire form of a list of options, and where each of them stands.\<close>

definition dhcpOptionOk :: "int \<times> bytes \<Rightarrow> bool" where
  "dhcpOptionOk opt \<longleftrightarrow> fst opt \<noteq> 0 \<and> fst opt \<noteq> 255 \<and> snd opt \<noteq> []"

fun dhcpWire :: "(int \<times> bytes) list \<Rightarrow> bytes" where
  "dhcpWire [] = []"
| "dhcpWire ((code, data) # opts) = code # int (length data) # data @ dhcpWire opts"

fun dhcpPlaces :: "int \<Rightarrow> (int \<times> bytes) list \<Rightarrow> (int \<times> RawDhcpOptionTarget) list" where
  "dhcpPlaces p [] = []"
| "dhcpPlaces p ((code, data) # opts) =
     (code, \<lparr>dopt_length = int (length data), dopt_offset = p + 2\<rparr>)
       # dhcpPlaces (p + 2 + int (length data)) opts"

lemma dhcpOptions_print:
  assumes "list_all dhcpOptionOk os" "length os < n"
    "int (length pre) + int (length (dhcpWire os)) < udpEnd"
  shows "dhcpOptions n (pre @ dhcpWire os @ 255 # post) udpEnd (int (length pre)) table
    = map_of (dhcpPlaces (int (length pre)) os) ++ table"
  using assms
proof (induction os arbitrary: n pre table)
  case Nil
  then show ?case
    by (cases n) (simp_all add: byteAt_append_right rawPacketHasBytes_def byteOr_def)
next
  case (Cons opt os)
  obtain code data where opt: "opt = (code, data)" by (cases opt)
  obtain m where n: "n = Suc m" "length os < m" using Cons.prems(2) by (cases n) auto
  have ok: "code \<noteq> 0" "code \<noteq> 255" "data \<noteq> []" "list_all dhcpOptionOk os"
    using Cons.prems(1) by (simp_all add: opt dhcpOptionOk_def [of "(code, data)"])
  let ?pre = "pre @ code # int (length data) # data"
  let ?bs = "pre @ dhcpWire (opt # os) @ 255 # post"
  have eq: "?bs = ?pre @ dhcpWire os @ 255 # post" by (simp add: opt)
  define table' where "table' = (if table code \<noteq> None then table
    else table(code \<mapsto> \<lparr>dopt_length = int (length data), dopt_offset = int (length pre) + 2\<rparr>))"
  have len: "int (length ?pre) = int (length pre) + 2 + int (length data)" by simp
  have IH: "dhcpOptions m (?pre @ dhcpWire os @ 255 # post) udpEnd (int (length ?pre)) table'
    = map_of (dhcpPlaces (int (length ?pre)) os) ++ table'"
    using Cons.prems(3) opt by (intro Cons.IH [OF ok(4) n(2)]) simp
  have b: "byteAt ?bs (int (length pre)) = code" "byteAt ?bs (int (length pre) + 1) = int (length data)"
    by (simp_all add: byteAt_append_right opt) (simp_all add: byteOr_def)
  have h: "rawPacketHasBytes ?bs (int (length pre)) 1" "rawPacketHasBytes ?bs (int (length pre)) 2"
    "rawPacketHasBytes ?bs (int (length pre) + 2) (int (length data))"
    using ok(3) by (simp_all add: rawPacketHasBytes_def opt)
  have u: "\<not> int (length pre) \<ge> udpEnd" "\<not> int (length pre) + 2 + int (length data) > udpEnd"
    using Cons.prems(3) opt by simp_all
  have "dhcpOptions n ?bs udpEnd (int (length pre)) table
      = dhcpOptions m ?bs udpEnd (int (length pre) + 2 + int (length data)) table'"
    unfolding n(1) table'_def using b h u ok by (simp add: Let_def split del: if_split)
  also have "\<dots> = map_of (dhcpPlaces (int (length ?pre)) os) ++ table'"
    using IH unfolding eq len .
  also have "\<dots> = map_of (dhcpPlaces (int (length pre)) (opt # os)) ++ table"
    by (rule ext) (auto simp: opt table'_def map_add_def algebra_simps split: option.splits)
  finally show ?case .
qed

lemma dhcpOptions_sound:
  "dhcpOptions n bs udpEnd off table code = Some opt
   \<Longrightarrow> table code = Some opt
     \<or> (off + 2 \<le> dopt_offset opt \<and> rawPacketHasBytes bs (dopt_offset opt) (dopt_length opt)
        \<and> dopt_offset opt + dopt_length opt \<le> udpEnd)"
proof (induction n arbitrary: off table)
  case (Suc n)
  let ?len = "byteAt bs (off + 1)"
  consider "table code = Some opt"
    | "dhcpOptions n bs udpEnd (off + 1) table code = Some opt"
    | t where "rawPacketHasBytes bs (off + 2) ?len" "off + 2 + ?len \<le> udpEnd"
      "dhcpOptions n bs udpEnd (off + 2 + ?len) t code = Some opt"
      "t = table \<or> t = table(byteAt bs off \<mapsto> \<lparr>dopt_length = ?len, dopt_offset = off + 2\<rparr>)"
    using Suc.prems by (simp add: Let_def not_less split: if_split_asm)
  then show ?case
  proof cases
    case 1
    then show ?thesis by simp
  next
    case 2
    from Suc.IH [OF this] show ?thesis by auto
  next
    case 3
    from Suc.IH [OF 3(3)] 3(1,2,4) hasBytesD(2) [OF 3(1)] show ?thesis
      by (auto split: if_split_asm)
  qed
qed simp

text \<open>An option without data ends the walk: the options behind it are not seen.\<close>

lemma dhcpOptions_empty_option:
  assumes "byteAt bs (off + 1) = 0"
  shows "dhcpOptions (Suc n) bs udpEnd off table =
    (if rawPacketHasBytes bs off 1 \<and> off < udpEnd \<and> byteAt bs off = 0
     then dhcpOptions n bs udpEnd (off + 1) table else table)"
  using assms by (auto simp: Let_def rawPacketHasBytes_def)

section \<open>The targets lie in the packet\<close>

lemma dnsNameFrom_le:
  "dnsNameFrom n bs off ptr c = Some e \<Longrightarrow> is_bytes bs \<Longrightarrow> c < e \<and> e \<le> int (length bs)"
proof (induction n arbitrary: c)
  case (Suc n)
  have l: "0 \<le> byteAt bs c" by (rule byteAt_range [OF Suc.prems(2)])
  from Suc.prems l Suc.IH [of "c + 1 + byteAt bs c"] show ?case
    by (auto simp: Let_def rawPacketHasBytes_def split: if_split_asm)
qed simp

lemma rawDnsNameEnd_le:
  "rawDnsNameEnd bs off ptr = Some e \<Longrightarrow> is_bytes bs \<Longrightarrow> off < e \<and> e \<le> int (length bs)"
  by (simp add: rawDnsNameEnd_def dnsNameFrom_le)

interpretation dns_query_type: packet_target rawDnsQueryTarget dns_queryTypeOffset "\<lambda>t. 4"
proof unfold_locales
  fix s t
  assume a: "rawDnsQueryTarget s = Some t"
  then obtain target where "rawOuterTransportTarget s 17 11 8 = Some target"
    by (auto simp: rawDnsQueryTarget_def split: option.splits)
  note b = rawOuterTransportTargetD(1) [OF this] this
  show "rawPacketHasBytes (streamBytes s) (dns_queryTypeOffset t) 4"
    using a by (auto simp: rawDnsQueryTarget_def Let_def b split: if_splits option.splits)
qed

lemma rawDnsQueryTarget_bytes: "rawDnsQueryTarget s = Some t \<Longrightarrow> dns_bytes t = streamBytes s"
  by (auto simp: rawDnsQueryTarget_def Let_def split: if_splits option.splits
      dest!: rawOuterTransportTargetD(1))

interpretation dns_answer: packet_target rawDnsAnswerTarget ans_answerTypeOffset "\<lambda>t. 10"
  by unfold_locales (auto simp: rawDnsAnswerTarget_def Let_def split: if_splits option.splits
      dest!: rawDnsQueryTarget_bytes)

interpretation dhcp_target: packet_target rawDhcpTarget dhcp_payloadOffset "\<lambda>t. 240"
proof unfold_locales
  fix s t
  assume a: "rawDhcpTarget s = Some t"
  then obtain target where "rawOuterTransportTarget s 17 11 8 = Some target"
    by (auto simp: rawDhcpTarget_def split: option.splits)
  note b = rawOuterTransportTargetD(1) [OF this] this
  show "rawPacketHasBytes (streamBytes s) (dhcp_payloadOffset t) 240"
    using a unfolding rawDhcpTarget_def
    by (auto simp: Let_def b dhcpTargetAt_def split: if_split_asm)
qed

end
