(* ===== verification/Icmpv6Targets.thy ===== *)
theory Icmpv6Targets
  imports TransportLayer
begin

text \<open>
  The ICMPv6 dissectors: echo, neighbour discovery target address, router advertisement fields
  and prefix information, neighbour advertisement flags, and the link-layer address option.
\<close>

definition icmpv6RawTarget :: "RawStream option \<Rightarrow> Ipv6L4Target option" where
  "icmpv6RawTarget stream =
     (case rawOuterIpv6L4Target stream 58 of
        None \<Rightarrow> None
      | Some target \<Rightarrow>
          if \<not> rawPacketHasBytes (l46_bytes target) (l46_offset target) 4 then None else Some target)"

record Icmpv6EchoTarget = Ipv6L4Target +
  echo6_code :: int
  echo6_codeOffset :: int
  echo6_identifier :: int
  echo6_identifierOffset :: int
  echo6_sequence :: int
  echo6_sequenceOffset :: int
  echo6_type :: int
  echo6_typeOffset :: int

definition icmpv6EchoRawTarget :: "RawStream option \<Rightarrow> Icmpv6EchoTarget option" where
  "icmpv6EchoRawTarget stream =
     (case icmpv6RawTarget stream of
        None \<Rightarrow> None
      | Some target \<Rightarrow>
          let bs = l46_bytes target; off = l46_offset target in
          if \<not> rawPacketHasBytes bs off 8 then None
          else
            let type = byteAt bs off in
            if type \<noteq> 128 \<and> type \<noteq> 129 then None
            else Some (Ipv6L4Target.extend target
                   \<lparr>echo6_code = byteAt bs (off + 1), echo6_codeOffset = off + 1,
                    echo6_identifier = rawPacketWord bs (off + 4), echo6_identifierOffset = off + 4,
                    echo6_sequence = rawPacketWord bs (off + 6), echo6_sequenceOffset = off + 6,
                    echo6_type = type, echo6_typeOffset = off\<rparr>))"

record NdTargetAddress =
  nd_address :: string
  nd_l3Offset :: int
  nd_valueOffset :: int

definition icmpv6NdTargetAddressTarget :: "RawStream option \<Rightarrow> NdTargetAddress option" where
  "icmpv6NdTargetAddressTarget stream =
     (case icmpv6RawTarget stream of
        None \<Rightarrow> None
      | Some target \<Rightarrow>
          let bs = l46_bytes target; off = l46_offset target in
          if \<not> rawPacketHasBytes bs off 24 then None
          else
            let type = byteAt bs off in
            if type \<noteq> 135 \<and> type \<noteq> 136 then None
            else Some \<lparr>nd_address = formatPacketIpv6 bs (off + 8), nd_l3Offset = l46_l3Offset target,
                       nd_valueOffset = off + 8\<rparr>)"

record RaFixedTarget =
  ra_currentHopLimit :: int
  ra_currentHopLimitOffset :: int
  ra_flagsOffset :: int
  ra_l3Offset :: int
  ra_managedFlag :: int
  ra_otherFlag :: int
  ra_reachableTime :: int
  ra_reachableTimeOffset :: int
  ra_retransTimer :: int
  ra_retransTimerOffset :: int
  ra_routerLifetime :: int
  ra_routerLifetimeOffset :: int

definition icmpv6RaFixedTarget :: "RawStream option \<Rightarrow> RaFixedTarget option" where
  "icmpv6RaFixedTarget stream =
     (case icmpv6RawTarget stream of
        None \<Rightarrow> None
      | Some target \<Rightarrow>
          let bs = l46_bytes target; off = l46_offset target in
          if \<not> rawPacketHasBytes bs off 16 then None
          else if byteAt bs off \<noteq> 134 then None
          else
            let flags = byteAt bs (off + 5) in
            Some \<lparr>ra_currentHopLimit = rawPacketNumberValue bs (off + 4) 1,
                  ra_currentHopLimitOffset = off + 4,
                  ra_flagsOffset = off + 5,
                  ra_l3Offset = l46_l3Offset target,
                  ra_managedFlag = js_ushr (js_and flags 0x80) 7,
                  ra_otherFlag = js_ushr (js_and flags 0x40) 6,
                  ra_reachableTime = rawPacketNumberValue bs (off + 8) 4,
                  ra_reachableTimeOffset = off + 8,
                  ra_retransTimer = rawPacketNumberValue bs (off + 12) 4,
                  ra_retransTimerOffset = off + 12,
                  ra_routerLifetime = rawPacketNumberValue bs (off + 6) 2,
                  ra_routerLifetimeOffset = off + 6\<rparr>)"

section \<open>Options\<close>

record RaPrefixInfo =
  pi_autonomousFlag :: int
  pi_flagsOffset :: int
  pi_l3Offset :: int
  pi_onLinkFlag :: int
  pi_prefix :: string
  pi_prefixLength :: int
  pi_prefixLengthOffset :: int
  pi_prefixOffset :: int
  pi_preferredLifetime :: int
  pi_preferredLifetimeOffset :: int
  pi_validLifetime :: int
  pi_validLifetimeOffset :: int

definition prefixInfoAt :: "bytes \<Rightarrow> int \<Rightarrow> int \<Rightarrow> RaPrefixInfo" where
  "prefixInfoAt bs l3Offset optionOffset =
     (let flags = byteAt bs (optionOffset + 3)
      in \<lparr>pi_autonomousFlag = js_ushr (js_and flags 0x40) 6,
          pi_flagsOffset = optionOffset + 3,
          pi_l3Offset = l3Offset,
          pi_onLinkFlag = js_ushr (js_and flags 0x80) 7,
          pi_prefix = formatPacketIpv6 bs (optionOffset + 16),
          pi_prefixLength = byteAt bs (optionOffset + 2),
          pi_prefixLengthOffset = optionOffset + 2,
          pi_prefixOffset = optionOffset + 16,
          pi_preferredLifetime = rawPacketNumberValue bs (optionOffset + 8) 4,
          pi_preferredLifetimeOffset = optionOffset + 8,
          pi_validLifetime = rawPacketNumberValue bs (optionOffset + 4) 4,
          pi_validLifetimeOffset = optionOffset + 4\<rparr>)"

record LinkLayerOption =
  ll_l3Offset :: int
  ll_mac :: string
  ll_optionType :: int
  ll_valueOffset :: int

text \<open>
  Both option loops step over options of eight-byte units and take the first that is wanted;
  \<open>wanted\<close> is the condition on the type and the length.
\<close>

fun findNdOption :: "nat \<Rightarrow> bytes \<Rightarrow> (int \<Rightarrow> int \<Rightarrow> bool) \<Rightarrow> int \<Rightarrow> int option" where
  "findNdOption 0 bs wanted optionOffset = None"
| "findNdOption (Suc n) bs wanted optionOffset =
     (if \<not> rawPacketHasBytes bs optionOffset 2 then None
      else
        let optionType = byteAt bs optionOffset;
            optionLength = byteAt bs (optionOffset + 1) * 8
        in if optionLength < 2 \<or> \<not> rawPacketHasBytes bs optionOffset optionLength then None
           else if wanted optionType optionLength then Some optionOffset
           else findNdOption n bs wanted (optionOffset + optionLength))"

definition icmpv6RaPrefixInfoTarget :: "RawStream option \<Rightarrow> RaPrefixInfo option" where
  "icmpv6RaPrefixInfoTarget stream =
     (case icmpv6RawTarget stream of
        None \<Rightarrow> None
      | Some target \<Rightarrow>
          let bs = l46_bytes target; off = l46_offset target in
          if \<not> rawPacketHasBytes bs off 16 \<or> byteAt bs off \<noteq> 134 then None
          else map_option (prefixInfoAt bs (l46_l3Offset target))
                 (findNdOption 8 bs (\<lambda>ty len. ty = 3 \<and> len \<ge> 32) (off + 16)))"

record NaFlagsTarget =
  na_flagsOffset :: int
  na_l3Offset :: int
  na_overrideFlag :: int
  na_routerFlag :: int
  na_solicitedFlag :: int

definition icmpv6NaFlagsTarget :: "RawStream option \<Rightarrow> NaFlagsTarget option" where
  "icmpv6NaFlagsTarget stream =
     (case icmpv6RawTarget stream of
        None \<Rightarrow> None
      | Some target \<Rightarrow>
          let bs = l46_bytes target; off = l46_offset target in
          if \<not> rawPacketHasBytes bs off 24 \<or> byteAt bs off \<noteq> 136 then None
          else
            let flags = rawPacketNumberValue bs (off + 4) 4 in
            Some \<lparr>na_flagsOffset = off + 4,
                  na_l3Offset = l46_l3Offset target,
                  na_overrideFlag = js_ushr (js_and flags 0x20000000) 29,
                  na_routerFlag = js_ushr (js_and flags 0x80000000) 31,
                  na_solicitedFlag = js_ushr (js_and flags 0x40000000) 30\<rparr>)"

definition icmpv6OptionOffset :: "int \<Rightarrow> int \<Rightarrow> int option" where
  "icmpv6OptionOffset type icmpv6Offset =
     (if type = 135 \<or> type = 136 then Some (icmpv6Offset + 24)
      else if type = 133 then Some (icmpv6Offset + 8)
      else if type = 134 then Some (icmpv6Offset + 16)
      else None)"

definition icmpv6LinkLayerOptionMacTarget :: "RawStream option \<Rightarrow> LinkLayerOption option" where
  "icmpv6LinkLayerOptionMacTarget stream =
     (case icmpv6RawTarget stream of
        None \<Rightarrow> None
      | Some target \<Rightarrow>
          let bs = l46_bytes target; off = l46_offset target in
          case icmpv6OptionOffset (byteAt bs off) off of
            None \<Rightarrow> None
          | Some optionStartOffset \<Rightarrow>
              map_option (\<lambda>optionOffset.
                  \<lparr>ll_l3Offset = l46_l3Offset target,
                   ll_mac = formatPacketMac bs (optionOffset + 2),
                   ll_optionType = byteAt bs optionOffset,
                   ll_valueOffset = optionOffset + 2\<rparr>)
                (findNdOption 8 bs (\<lambda>ty len. (ty = 1 \<or> ty = 2) \<and> len \<ge> 8) optionStartOffset))"

section \<open>Soundness\<close>

lemma icmpv6RawTargetD:
  assumes "icmpv6RawTarget s = Some t"
  shows "l46_bytes t = streamBytes s" "rawPacketHasBytes (streamBytes s) (l46_offset t) 4"
  using assms by (auto simp: icmpv6RawTarget_def split: option.splits if_splits dest!: rawOuterIpv6L4TargetD(1))

lemma findNdOption_at:
  "findNdOption n bs wanted off = Some p
   \<Longrightarrow> off \<le> p \<and> wanted (byteAt bs p) (byteAt bs (p + 1) * 8)
     \<and> rawPacketHasBytes bs p (byteAt bs (p + 1) * 8)"
proof (induction n arbitrary: off)
  case (Suc n)
  from Suc.IH [of "off + byteAt bs (off + 1) * 8"] Suc.prems show ?case
    by (auto simp: Let_def split: if_split_asm)
qed simp

interpretation echo6_target: packet_target icmpv6EchoRawTarget echo6_typeOffset "\<lambda>t. 8"
  by unfold_locales (auto simp: icmpv6EchoRawTarget_def Let_def Ipv6L4Target.defs
      split: option.splits if_splits dest!: icmpv6RawTargetD(1))

interpretation nd_target_address: packet_target icmpv6NdTargetAddressTarget nd_valueOffset "\<lambda>t. 16"
  by unfold_locales (auto simp: icmpv6NdTargetAddressTarget_def Let_def
      split: option.splits if_splits dest!: icmpv6RawTargetD(1) intro: hasBytes_within)

interpretation ra_fixed: packet_target icmpv6RaFixedTarget ra_currentHopLimitOffset "\<lambda>t. 12"
  by unfold_locales (auto simp: icmpv6RaFixedTarget_def Let_def
      split: option.splits if_splits dest!: icmpv6RawTargetD(1) intro: hasBytes_within)

interpretation na_flags: packet_target icmpv6NaFlagsTarget na_flagsOffset "\<lambda>t. 4"
  by unfold_locales (auto simp: icmpv6NaFlagsTarget_def Let_def
      split: option.splits if_splits dest!: icmpv6RawTargetD(1) intro: hasBytes_within)

interpretation ra_prefix: packet_target icmpv6RaPrefixInfoTarget pi_prefixOffset "\<lambda>t. 16"
  by unfold_locales (auto simp: icmpv6RaPrefixInfoTarget_def Let_def prefixInfoAt_def
      split: option.splits if_splits dest!: icmpv6RawTargetD(1) findNdOption_at intro: hasBytes_within)

interpretation link_layer_option: packet_target icmpv6LinkLayerOptionMacTarget ll_valueOffset "\<lambda>t. 6"
  by unfold_locales (auto simp: icmpv6LinkLayerOptionMacTarget_def Let_def
      split: option.splits if_splits dest!: icmpv6RawTargetD(1) findNdOption_at intro: hasBytes_within)

end
