(* ===== verification/Samples.thy ===== *)
theory Samples
  imports Closing GtpuGre DnsDhcp Icmpv6Targets
begin

text \<open>
  Concrete packets on which the properties are exercised, and the stream that carries a packet.
\<close>

definition streamOf :: "bytes \<Rightarrow> RawStream option" where
  "streamOf bs = Some \<lparr>packet_binary_base64 = Some (encodeSextets bs)\<rparr>"

lemma streamOf_bytes: "is_bytes bs \<Longrightarrow> streamBytes (streamOf bs) = bs"
  by (simp add: streamOf_def streamBytes_def bytesFromBase64_encode)

text \<open>Ethernet, IPv4 without checksum, TCP without checksum, four bytes of data.\<close>

definition sampleTcp :: bytes where
  "sampleTcp = [2,0,0,0,0,1, 2,0,0,0,0,2, 8,0,
     0x45,0,0,44, 0,1,0,0, 64,6,0,0, 10,0,0,1, 10,0,0,2,
     0x04,0xd2, 0,80, 0,0,0,1, 0,0,0,0, 0x50,2,0xff,0xff, 0,0, 0,0, 1,2,3,4]"

definition sampleTcpTarget :: RawPacketTransportChecksumTarget where
  "sampleTcpTarget = \<lparr>trt_checksumOffset = 50, trt_ipOffset = 14, trt_ipVersion = 4, trt_l4Offset = 34,
     trt_length = 24, trt_protocol = 6\<rparr>"

lemma sampleTcp_bytes: "is_bytes sampleTcp" by code_simp

lemma sampleTcp_plain: "plainTransport sampleTcp 14 6 34 58 sampleTcpTarget" by code_simp

lemma sampleTcp_outer: "outerIpv4 sampleTcp 14 20" by code_simp

text \<open>A UDP datagram with one byte of data, and the padding of a short frame behind it.\<close>

definition samplePadded :: bytes where
  "samplePadded = [2,0,0,0,0,1, 2,0,0,0,0,2, 8,0,
     0x45,0,0,29, 0,1,0,0, 64,17,0,0, 10,0,0,1, 10,0,0,2,
     0x04,0xd2, 0,80, 0,9, 0x12,0x34, 1, 7,7,7]"

definition samplePaddedTarget :: RawPacketTransportChecksumTarget where
  "samplePaddedTarget = \<lparr>trt_checksumOffset = 40, trt_ipOffset = 14, trt_ipVersion = 4, trt_l4Offset = 34,
     trt_length = 9, trt_protocol = 17\<rparr>"

lemma samplePadded_bytes: "is_bytes samplePadded" by code_simp

lemma samplePadded_plain: "plainTransport samplePadded 14 17 34 43 samplePaddedTarget" by code_simp

text \<open>An ICMP echo request with a wrong checksum.\<close>

definition sampleEcho :: bytes where
  "sampleEcho = [2,0,0,0,0,1, 2,0,0,0,0,2, 8,0,
     0x45,0,0,30, 0,1,0,0, 64,1,0,0, 10,0,0,1, 10,0,0,2,
     8,0, 0,0, 0,7, 0,1, 0x61,0x62]"

definition sampleEchoTarget :: RawPacketIcmpChecksumTarget where
  "sampleEchoTarget = \<lparr>icmp_checksumOffset = 36, icmp_icmpOffset = 34, icmp_ipOffset = 14, icmp_ipVersion = 4,
     icmp_length = 10\<rparr>"

lemma sampleEcho_bytes: "is_bytes sampleEcho" by code_simp

lemma sampleEcho_plain: "plainIcmp sampleEcho 14 34 44 sampleEchoTarget" by code_simp

text \<open>The repaired echo request: every checksum in it is right.\<close>

definition sampleGood :: bytes where
  "sampleGood = [2,0,0,0,0,1, 2,0,0,0,0,2, 8,0,
     0x45,0,0,30, 0,1,0,0, 64,1,102,220, 10,0,0,1, 10,0,0,2,
     8,0, 150,149, 0,7, 0,1, 0x61,0x62]"

lemma sampleGood_bytes: "is_bytes sampleGood" by code_simp

lemma sampleGood_all: "allGood sampleGood" by code_simp

end
