(* ===== verification/RepairProperties.thy ===== *)
theory RepairProperties
  imports Samples
begin

text \<open>
  The properties of the checksum repair, its sums and its collectors, each with a concrete packet
  it applies to.
\<close>

section \<open>The repair\<close>

text \<open>
  C1. The repair of a packet keeps its length, and a list of bytes stays a list of bytes, for every
  packet, whatever headers and tunnels it has.
\<close>

theorem repair_keeps_shape:
  assumes "is_bytes bs"
  shows "length (repairRawPacketChecksums bs) = length bs \<and> is_bytes (repairRawPacketChecksums bs)"
  using repair_bytes [OF assms] by (simp add: repair_length)

theorem repair_keeps_shape_witness: "length (repairRawPacketChecksums sampleTcp) = 58"
  using repair_keeps_shape [OF sampleTcp_bytes] by (simp add: sampleTcp_def)

text \<open>
  C2. Whatever follows an outer IPv4 header, after the repair the header closes (its words sum
  to 0xffff), is found at the same place with the same length, and differs from the header before
  only in its checksum field. The six passes, some of which run over nested packets, do not
  disturb it.
\<close>

theorem repaired_outer_header:
  assumes "is_bytes bs" "outerIpv4 bs off h"
  shows "rawPacketOnesComplementClosure (repairRawPacketChecksums bs) off h = 0xffff
    \<and> outerIpv4 (repairRawPacketChecksums bs) off h
    \<and> (\<forall>j. j < off + h \<and> j \<noteq> off + 10 \<and> j \<noteq> off + 11
        \<longrightarrow> byteAt (repairRawPacketChecksums bs) j = byteAt bs j)"
  using outer_header_closes [OF assms] outer_header_word(1) [OF assms] repair_keeps_header [OF assms]
  by (simp add: headerKept_def)

theorem repaired_outer_header_witness:
  "rawPacketOnesComplementClosure (repairRawPacketChecksums sampleTcp) 14 20 = 0xffff"
  using repaired_outer_header [OF sampleTcp_bytes sampleTcp_outer] by simp

text \<open>
  C3. An IPv4 packet without tunnels, complete and not a fragment, with TCP or with UDP that uses its checksum: after
  the repair the ones' complement sum over the pseudo header of RFC 793 and the segment, with the stored checksum in
  it, is 0xffff, exactly when the segment has even length or no other byte than zero follows it in the packet. The
  loop of the repair takes that byte for the padding of the last word.
\<close>

theorem repaired_transport_closes:
  assumes "is_bytes bs" "plainTransport bs off protocol l4 limit t"
  shows "rawPacketOnesComplementClosure (pseudoPacket (repairRawPacketChecksums bs) t) 0 (12 + trt_length t) = 0xffff
    \<longleftrightarrow> 2 dvd trt_length t \<or> byteAt bs (l4 + trt_length t) = 0"
  by (rule repaired_transport_iff [OF assms])

theorem repaired_transport_closes_witness:
  "rawPacketOnesComplementClosure (pseudoPacket (repairRawPacketChecksums sampleTcp) sampleTcpTarget) 0 36 = 0xffff"
  using repaired_transport_closes [OF sampleTcp_bytes sampleTcp_plain] by (simp add: sampleTcpTarget_def)

text \<open>
  C4. Repairing a packet without tunnels that carries TCP or UDP is idempotent, and it changes
  nothing but the two checksum fields.
\<close>

theorem repair_plain_idempotent:
  assumes "is_bytes bs" "plainTransport bs off protocol l4 limit t"
  shows "repairRawPacketChecksums (repairRawPacketChecksums bs) = repairRawPacketChecksums bs
    \<and> (\<forall>j. j \<noteq> off + 10 \<and> j \<noteq> off + 11 \<and> j \<noteq> trt_checksumOffset t \<and> j \<noteq> trt_checksumOffset t + 1
        \<longrightarrow> byteAt (repairRawPacketChecksums bs) j = byteAt bs j)"
  using repaired_plain_same [OF assms] repair_plain_twice [OF assms] by (simp add: sameBut_def)

theorem repair_plain_idempotent_witness:
  "repairRawPacketChecksums (repairRawPacketChecksums sampleTcp) = repairRawPacketChecksums sampleTcp"
  using repair_plain_idempotent [OF sampleTcp_bytes sampleTcp_plain] by simp

text \<open>
  A packet whose checksums are all right, of every kind and at every nesting level the
  collectors reach, is left alone.
\<close>

theorem repair_fixpoint:
  assumes "is_bytes bs" "allGood bs"
  shows "repairRawPacketChecksums bs = bs"
  using assms by (rule repair_id)

theorem repair_fixpoint_witness: "repairRawPacketChecksums sampleGood = sampleGood"
  by (rule repair_fixpoint [OF sampleGood_bytes sampleGood_all])

text \<open>
  C5. An ICMP echo message in such a packet is recognised after the repair, whatever its checksum was before, if its
  length is even or no other byte than zero follows it; otherwise it is not recognised, for the dissector pads the last
  word with zero.
\<close>

theorem repaired_echo_recognised:
  assumes "is_bytes bs" "plainIcmp bs off l4 limit t" "8 \<le> icmp_length t"
    and "byteAt bs l4 = 0 \<or> byteAt bs l4 = 8" and "streamBytes s = repairRawPacketChecksums bs"
  shows "if 2 dvd icmp_length t \<or> byteAt bs (l4 + icmp_length t) = 0
    then \<exists>e. icmpv4EchoRawTarget s = Some e \<and> echo4_offset e = l4 else icmpv4EchoRawTarget s = None"
  using assms by (rule echo_after_repair_iff)

theorem repaired_echo_recognised_witness:
  "\<exists>e. icmpv4EchoRawTarget (streamOf (repairRawPacketChecksums sampleEcho)) = Some e \<and> echo4_offset e = 34"
proof -
  have l: "8 \<le> icmp_length sampleEchoTarget" "2 dvd icmp_length sampleEchoTarget" by (simp_all add: sampleEchoTarget_def)
  have t: "byteAt sampleEcho 34 = 0 \<or> byteAt sampleEcho 34 = 8" by code_simp
  have "streamBytes (streamOf (repairRawPacketChecksums sampleEcho)) = repairRawPacketChecksums sampleEcho"
    by (intro streamOf_bytes repair_bytes sampleEcho_bytes)
  from repaired_echo_recognised [OF sampleEcho_bytes sampleEcho_plain l(1) t this] l(2) show ?thesis by simp
qed

text \<open>A datagram of nine bytes with a padding byte behind it stays open.\<close>

lemma padded_datagram_open:
  "rawPacketOnesComplementClosure (pseudoPacket (repairRawPacketChecksums samplePadded) samplePaddedTarget) 0 21 \<noteq> 0xffff"
proof -
  have "byteAt samplePadded 43 = 7" by code_simp
  then show ?thesis
    using repaired_transport_iff [OF samplePadded_bytes samplePadded_plain] by (simp add: samplePaddedTarget_def)
qed

section \<open>The sums\<close>

text \<open>
  C6. The header checksum, a loop of 32-bit shifts, masks and carry folds, is the ones' complement
  of the sum of the header's other words, reduced modulo 65535 with zero only for a zero sum.
\<close>

theorem ipv4_checksum_reference:
  assumes "is_bytes bs"
  shows "rawIpv4HeaderChecksum bs off h = 65535 - norm16 (wordSum bs (Some (off + 10)) off (wordsIn h))"
  using assms by (rule ipv4HeaderChecksum_norm)

theorem ipv4_checksum_reference_witness: "rawIpv4HeaderChecksum sampleTcp 14 20 = 0x66c9"
  unfolding ipv4_checksum_reference [OF sampleTcp_bytes] by code_simp

text \<open>
  The summation loop of the transport, ICMP and GRE checksums, which folds the carries after
  each word, gives the same as one reduction of the whole sum, with the checksum field counted as zero.
\<close>

theorem checksum_add_reference:
  assumes "is_bytes bs" "0 \<le> acc" "acc \<le> 65535"
  shows "rawChecksumAddBytes bs start len acc skip = norm16 (acc + wordSum bs skip start (wordsIn len))"
  using assms by (rule checksumAddBytes_norm)

theorem checksum_add_reference_witness:
  "rawChecksumAddBytes sampleEcho 34 10 0 (Some 36) = norm16 (0 + wordSum sampleEcho (Some 36) 34 5)"
  using checksum_add_reference [OF sampleEcho_bytes, of 0 34 10 "Some 36"] by (simp add: wordsIn_def)

section \<open>The collectors\<close>

text \<open>
  C7. Every transport checksum the collector finds, at any depth of GRE, VXLAN and GTP-U nesting,
  belongs to TCP or UDP, lies wholly in the packet behind its IP header and the outer
  Ethernet and IP headers, and has its field at offset 6 (UDP) or 16 (TCP).
\<close>

theorem transport_targets_inside:
  assumes "t \<in> set (collectRawPacketTransportChecksumTargets bs)"
  shows "trt_protocol t \<in> {6, 17}
    \<and> trt_checksumOffset t = trt_l4Offset t + (if trt_protocol t = 17 then 6 else 16)
    \<and> (if trt_protocol t = 17 then 8 else 20) \<le> trt_length t
    \<and> rawPacketHasBytes bs (trt_l4Offset t) (trt_length t)
    \<and> trt_ipOffset t + (if trt_ipVersion t = 6 then 40 else 20) \<le> trt_l4Offset t \<and> 34 \<le> trt_l4Offset t"
  using transport_walk.collected [OF assms [unfolded collectRawPacketTransportChecksumTargets_def]]
  by (auto simp: transportSound_def Let_def)

theorem transport_targets_inside_witness: "rawPacketHasBytes sampleTcp 34 24"
  using transport_targets_inside [of sampleTcpTarget sampleTcp] collect_transport(1) [OF sampleTcp_plain]
  by (simp add: sampleTcpTarget_def)

end
