(* ===== verification/FieldRows.thy ===== *)
theory FieldRows
  imports FieldCodec
begin

text \<open>
  The rows of the packet field table. The code pushes rows on a list it closes over; here every
  helper returns the rows it pushes, in order, and its caller appends them. An early return ends
  the list. This theory has the helpers \<open>add\<close> and \<open>addMaskedNumber\<close>, what it means for a row to
  be right, and the DNS and DHCP rows.
\<close>

section \<open>One row\<close>

definition addRow :: "bytes \<Rightarrow> string \<Rightarrow> string \<Rightarrow> int \<Rightarrow> int \<Rightarrow> RawPacketFieldFormat \<Rightarrow> string
    \<Rightarrow> int option \<Rightarrow> int option \<Rightarrow> RawPacketFieldRow list" where
  "addRow bs layer field offset len format value maskBits shift =
     (if \<not> rawPacketHasBytes bs offset len then []
      else [\<lparr>row_id = layer @ '':'' @ field @ '':'' @ decText offset @ '':'' @ decText len,
             row_layer = layer, row_field = field, row_offset = offset, row_length = len,
             row_format = format, row_value = value, row_mask = maskBits, row_shift = shift\<rparr>])"

definition addNumber :: "bytes \<Rightarrow> string \<Rightarrow> string \<Rightarrow> int \<Rightarrow> int \<Rightarrow> RawPacketFieldRow list" where
  "addNumber bs layer field offset len =
     addRow bs layer field offset len FmtNumber (formatPacketNumberField bs offset len) None None"

definition addHex :: "bytes \<Rightarrow> string \<Rightarrow> string \<Rightarrow> int \<Rightarrow> int \<Rightarrow> RawPacketFieldRow list" where
  "addHex bs layer field offset len =
     addRow bs layer field offset len FmtHex (formatPacketHexField bs offset len) None None"

definition addMac :: "bytes \<Rightarrow> string \<Rightarrow> string \<Rightarrow> int \<Rightarrow> RawPacketFieldRow list" where
  "addMac bs layer field offset =
     addRow bs layer field offset 6 FmtMac (formatPacketMac bs offset) None None"

definition addIpv4 :: "bytes \<Rightarrow> string \<Rightarrow> string \<Rightarrow> int \<Rightarrow> RawPacketFieldRow list" where
  "addIpv4 bs layer field offset =
     addRow bs layer field offset 4 FmtIpv4 (formatPacketIpv4 bs offset) None None"

definition addIpv6 :: "bytes \<Rightarrow> string \<Rightarrow> string \<Rightarrow> int \<Rightarrow> RawPacketFieldRow list" where
  "addIpv6 bs layer field offset =
     addRow bs layer field offset 16 FmtIpv6 (formatPacketIpv6 bs offset) None None"

definition addMaskedNumber :: "bytes \<Rightarrow> string \<Rightarrow> string \<Rightarrow> int \<Rightarrow> int \<Rightarrow> int \<Rightarrow> int \<Rightarrow> RawPacketFieldRow list" where
  "addMaskedNumber bs layer field offset len maskBits shift =
     addRow bs layer field offset len FmtNumber (formatPacketMaskedNumberField bs offset len maskBits shift)
       (Some maskBits) (Some shift)"

section \<open>What a row promises\<close>

text \<open>
  A row lies in the packet, its identifier names its place, its text parses back to the bytes
  it stands for, and a number is narrow enough to be read and printed exactly: what the field
  editor relies on.
\<close>

definition numberRowOk :: "RawPacketFieldRow \<Rightarrow> bool" where
  "numberRowOk row \<longleftrightarrow>
     (row_format row = FmtNumber \<longrightarrow> row_length row \<le> 6)
     \<and> (case row_mask row of None \<Rightarrow> True | Some m \<Rightarrow> maskedRow row m (shiftOf row))"

definition rowOk :: "bytes \<Rightarrow> RawPacketFieldRow \<Rightarrow> bool" where
  "rowOk bs row \<longleftrightarrow>
     rawPacketHasBytes bs (row_offset row) (row_length row)
     \<and> parseRawPacketFieldValue row (row_value row) bs
         = Some (jsSlice bs (row_offset row) (row_offset row + row_length row))
     \<and> row_id row = row_layer row @ '':'' @ row_field row @ '':'' @ decText (row_offset row) @ '':''
         @ decText (row_length row)
     \<and> numberRowOk row"

definition rowsOk :: "bytes \<Rightarrow> RawPacketFieldRow list \<Rightarrow> bool" where
  "rowsOk bs rows \<longleftrightarrow> list_all (rowOk bs) rows"

named_theorems rows_ok

lemma rowsOk_Nil [rows_ok]: "rowsOk bs []"
  by (simp add: rowsOk_def)

lemma rowsOk_append [rows_ok]: "rowsOk bs (xs @ ys) \<longleftrightarrow> rowsOk bs xs \<and> rowsOk bs ys"
  by (simp add: rowsOk_def)

lemma rowsOk_concat [rows_ok]: "rowsOk bs (concat xss) \<longleftrightarrow> (\<forall>xs\<in>set xss. rowsOk bs xs)"
  by (auto simp: rowsOk_def list_all_iff)

lemma rowsOk_row:
  assumes "rawPacketHasBytes bs offset len \<Longrightarrow> rowOk bs
      \<lparr>row_id = layer @ '':'' @ field @ '':'' @ decText offset @ '':'' @ decText len,
       row_layer = layer, row_field = field, row_offset = offset, row_length = len,
       row_format = format, row_value = value, row_mask = maskBits, row_shift = shift\<rparr>"
  shows "rowsOk bs (addRow bs layer field offset len format value maskBits shift)"
  using assms by (simp add: rowsOk_def addRow_def)

lemma addNumber_ok [rows_ok]: "is_bytes bs \<Longrightarrow> len \<le> 6 \<Longrightarrow> rowsOk bs (addNumber bs layer field offset len)"
  unfolding addNumber_def
  by (rule rowsOk_row) (simp add: rowOk_def numberRowOk_def parseRawPacketFieldValue_def parse_formatNumber)

lemma addHex_ok [rows_ok]: "is_bytes bs \<Longrightarrow> rowsOk bs (addHex bs layer field offset len)"
  unfolding addHex_def
  by (rule rowsOk_row) (simp add: rowOk_def numberRowOk_def parseRawPacketFieldValue_def parse_formatHex)

lemma addMac_ok [rows_ok]: "is_bytes bs \<Longrightarrow> rowsOk bs (addMac bs layer field offset)"
  unfolding addMac_def
  by (rule rowsOk_row) (simp add: rowOk_def numberRowOk_def parseRawPacketFieldValue_def mac.parse_display)

lemma addIpv4_ok [rows_ok]: "is_bytes bs \<Longrightarrow> rowsOk bs (addIpv4 bs layer field offset)"
  unfolding addIpv4_def
  by (rule rowsOk_row) (simp add: rowOk_def numberRowOk_def parseRawPacketFieldValue_def ipv4.parse_display)

lemma addIpv6_ok [rows_ok]: "is_bytes bs \<Longrightarrow> rowsOk bs (addIpv6 bs layer field offset)"
  unfolding addIpv6_def
  by (rule rowsOk_row) (simp add: rowOk_def numberRowOk_def parseRawPacketFieldValue_def ipv6.parse_display)

lemma addMaskedNumber_ok [rows_ok]:
  assumes "is_bytes bs" "len \<le> 4" "maskOk maskBits shift"
  shows "rowsOk bs (addMaskedNumber bs layer field offset len maskBits shift)"
  unfolding addMaskedNumber_def
proof (rule rowsOk_row)
  let ?row = "\<lparr>row_id = layer @ '':'' @ field @ '':'' @ decText offset @ '':'' @ decText len,
       row_layer = layer, row_field = field, row_offset = offset, row_length = len, row_format = FmtNumber,
       row_value = formatPacketMaskedNumberField bs offset len maskBits shift,
       row_mask = Some maskBits, row_shift = Some shift\<rparr>"
  assume "rawPacketHasBytes bs offset len"
  then show "rowOk bs ?row"
    using parse_formatMasked [OF assms(1), of ?row maskBits shift] assms(2,3)
    by (simp add: rowOk_def numberRowOk_def parseRawPacketFieldValue_def maskedRow_def shiftOf_def)
qed

lemma rowsOk_if [rows_ok]: "rowsOk bs (if c then xs else ys) \<longleftrightarrow> (c \<longrightarrow> rowsOk bs xs) \<and> (\<not> c \<longrightarrow> rowsOk bs ys)"
  by simp

section \<open>DNS\<close>

text \<open>
  The table's own walk over a name, by \<open>64 - labelIndex\<close>. Unlike \<open>rawDnsNameEnd\<close> it always follows
  the end of a name into a compression pointer and sets no bound on the name's length.
\<close>

fun skipDnsName :: "nat \<Rightarrow> bytes \<Rightarrow> int \<Rightarrow> int option" where
  "skipDnsName 0 bs cursor = None"
| "skipDnsName (Suc n) bs cursor =
     (if \<not> rawPacketHasBytes bs cursor 1 then None
      else
        let labelLength = byteAt bs cursor in
        if js_and labelLength 0xc0 = 0xc0
        then (if rawPacketHasBytes bs cursor 2 then Some (cursor + 2) else None)
        else if js_and labelLength 0xc0 \<noteq> 0 \<or> labelLength > 63 then None
        else if labelLength = 0 then Some (cursor + 1)
        else if \<not> rawPacketHasBytes bs (cursor + 1) labelLength then None
        else skipDnsName n bs (cursor + 1 + labelLength))"

definition dnsHeaderRows :: "bytes \<Rightarrow> int \<Rightarrow> RawPacketFieldRow list" where
  "dnsHeaderRows bs dnsOffset =
     addNumber bs ''DNS'' ''Transaction ID'' dnsOffset 2
     @ addHex bs ''DNS'' ''Flags'' (dnsOffset + 2) 2
     @ addMaskedNumber bs ''DNS'' ''Response'' (dnsOffset + 2) 2 0x8000 15
     @ addMaskedNumber bs ''DNS'' ''Opcode'' (dnsOffset + 2) 2 0x7800 11
     @ addMaskedNumber bs ''DNS'' ''Authoritative answer'' (dnsOffset + 2) 2 0x0400 10
     @ addMaskedNumber bs ''DNS'' ''Truncated'' (dnsOffset + 2) 2 0x0200 9
     @ addMaskedNumber bs ''DNS'' ''Recursion desired'' (dnsOffset + 2) 2 0x0100 8
     @ addMaskedNumber bs ''DNS'' ''Recursion available'' (dnsOffset + 2) 2 0x0080 7
     @ addMaskedNumber bs ''DNS'' ''Reserved flags'' (dnsOffset + 2) 2 0x0070 4
     @ addMaskedNumber bs ''DNS'' ''Response code'' (dnsOffset + 2) 2 0x000f 0
     @ addNumber bs ''DNS'' ''Questions'' (dnsOffset + 4) 2
     @ addNumber bs ''DNS'' ''Answers'' (dnsOffset + 6) 2
     @ addNumber bs ''DNS'' ''Authority RRs'' (dnsOffset + 8) 2
     @ addNumber bs ''DNS'' ''Additional RRs'' (dnsOffset + 10) 2"

text \<open>
  The questions, by the number still to show: the rows, and the cursor behind the questions, or
  \<open>None\<close> where the code returns from \<open>addDnsRows\<close>.
\<close>

definition numberedLayer :: "string \<Rightarrow> int \<Rightarrow> string" where
  "numberedLayer base index = (if index = 0 then base else base @ '' '' @ decText (index + 1))"

definition dnsNameRow :: "bytes \<Rightarrow> string \<Rightarrow> int \<Rightarrow> int \<Rightarrow> RawPacketFieldRow list" where
  "dnsNameRow bs layer cursor nameLength =
     (if nameLength > 0 \<and> nameLength \<le> 255 then addHex bs layer ''Name'' cursor nameLength else [])"

fun dnsQuestionRows :: "nat \<Rightarrow> bytes \<Rightarrow> int \<Rightarrow> int \<Rightarrow> RawPacketFieldRow list \<times> int option" where
  "dnsQuestionRows 0 bs questionIndex cursor = ([], Some cursor)"
| "dnsQuestionRows (Suc n) bs questionIndex cursor =
     (let questionLayer = numberedLayer ''DNS Question'' questionIndex in
      case skipDnsName 64 bs cursor of
        None \<Rightarrow> ([], None)
      | Some nameEnd \<Rightarrow>
          let name = dnsNameRow bs questionLayer cursor (nameEnd - cursor) in
          if \<not> rawPacketHasBytes bs nameEnd 4 then (name, None)
          else
            let (rest, end) = dnsQuestionRows n bs (questionIndex + 1) (nameEnd + 4)
            in (name
                @ addNumber bs questionLayer ''Type'' nameEnd 2
                @ addNumber bs questionLayer ''Class'' (nameEnd + 2) 2
                @ rest, end))"

fun dnsAnswerRows :: "nat \<Rightarrow> bytes \<Rightarrow> int \<Rightarrow> int \<Rightarrow> RawPacketFieldRow list" where
  "dnsAnswerRows 0 bs answerIndex cursor = []"
| "dnsAnswerRows (Suc n) bs answerIndex cursor =
     (let answerLayer = numberedLayer ''DNS Answer'' answerIndex in
      case skipDnsName 64 bs cursor of
        None \<Rightarrow> []
      | Some nameEnd \<Rightarrow>
          if \<not> rawPacketHasBytes bs nameEnd 10 then []
          else
            let answerType = rawPacketWord bs nameEnd;
                answerLength = rawPacketWord bs (nameEnd + 8);
                rdataOffset = nameEnd + 10
            in dnsNameRow bs answerLayer cursor (nameEnd - cursor)
               @ addNumber bs answerLayer ''Type'' nameEnd 2
               @ addNumber bs answerLayer ''Class'' (nameEnd + 2) 2
               @ addNumber bs answerLayer ''TTL'' (nameEnd + 4) 4
               @ addNumber bs answerLayer ''RDLENGTH'' (nameEnd + 8) 2
               @ (if \<not> rawPacketHasBytes bs rdataOffset answerLength then []
                  else
                    (if answerType = 1 \<and> answerLength = 4 then addIpv4 bs answerLayer ''IPv4'' rdataOffset
                     else if answerLength > 0 \<and> answerLength \<le> 64
                     then addHex bs answerLayer ''RDATA'' rdataOffset answerLength
                     else [])
                    @ dnsAnswerRows n bs (answerIndex + 1) (rdataOffset + answerLength)))"

definition addDnsRows :: "bytes \<Rightarrow> int \<Rightarrow> RawPacketFieldRow list" where
  "addDnsRows bs dnsOffset =
     (if \<not> rawPacketHasBytes bs dnsOffset 12 then []
      else
        let questionCount = rawPacketWord bs (dnsOffset + 4);
            answerCount = rawPacketWord bs (dnsOffset + 6);
            (questions, end) = dnsQuestionRows (nat (min questionCount 8)) bs 0 (dnsOffset + 12)
        in dnsHeaderRows bs dnsOffset @ questions
           @ (case end of
                None \<Rightarrow> []
              | Some cursor \<Rightarrow> dnsAnswerRows (nat (min answerCount 4)) bs 0 cursor))"

lemma dnsHeaderRows_ok [rows_ok]: "is_bytes bs \<Longrightarrow> rowsOk bs (dnsHeaderRows bs off)"
  by (simp add: dnsHeaderRows_def rows_ok maskOk_def)

lemma dnsNameRow_ok [rows_ok]: "is_bytes bs \<Longrightarrow> rowsOk bs (dnsNameRow bs layer off len)"
  by (simp add: dnsNameRow_def rows_ok)

lemma dnsQuestionRows_ok:
  "is_bytes bs \<Longrightarrow> dnsQuestionRows n bs k off = (rows, end) \<Longrightarrow> rowsOk bs rows"
  by (induction n arbitrary: k off rows "end")
    (auto simp: rows_ok Let_def split: option.splits prod.splits if_splits)

lemma dnsAnswerRows_ok [rows_ok]: "is_bytes bs \<Longrightarrow> rowsOk bs (dnsAnswerRows n bs k off)"
  by (induction n arbitrary: k off) (simp_all add: rows_ok Let_def split: option.split)

lemma addDnsRows_ok [rows_ok]: "is_bytes bs \<Longrightarrow> rowsOk bs (addDnsRows bs off)"
  by (auto simp: addDnsRows_def rows_ok Let_def split: option.split prod.split dest: dnsQuestionRows_ok)

section \<open>DHCP\<close>

definition dhcpHeaderRows :: "bytes \<Rightarrow> int \<Rightarrow> RawPacketFieldRow list" where
  "dhcpHeaderRows bs dhcpOffset =
     addNumber bs ''DHCP'' ''Operation'' dhcpOffset 1
     @ addNumber bs ''DHCP'' ''Hardware type'' (dhcpOffset + 1) 1
     @ addNumber bs ''DHCP'' ''Hardware length'' (dhcpOffset + 2) 1
     @ addNumber bs ''DHCP'' ''Hops'' (dhcpOffset + 3) 1
     @ addHex bs ''DHCP'' ''XID'' (dhcpOffset + 4) 4
     @ addNumber bs ''DHCP'' ''Seconds'' (dhcpOffset + 8) 2
     @ addHex bs ''DHCP'' ''Flags'' (dhcpOffset + 10) 2
     @ addMaskedNumber bs ''DHCP'' ''Broadcast flag'' (dhcpOffset + 10) 2 0x8000 15
     @ addMaskedNumber bs ''DHCP'' ''Reserved flags'' (dhcpOffset + 10) 2 0x7fff 0
     @ addIpv4 bs ''DHCP'' ''Client IP'' (dhcpOffset + 12)
     @ addIpv4 bs ''DHCP'' ''Your IP'' (dhcpOffset + 16)
     @ addIpv4 bs ''DHCP'' ''Server IP'' (dhcpOffset + 20)
     @ addIpv4 bs ''DHCP'' ''Relay IP'' (dhcpOffset + 24)
     @ (if byteAt bs (dhcpOffset + 2) \<ge> 6 then addMac bs ''DHCP'' ''Client MAC'' (dhcpOffset + 28) else [])"

definition dhcpOptionRows :: "bytes \<Rightarrow> string \<Rightarrow> int \<Rightarrow> int \<Rightarrow> int \<Rightarrow> RawPacketFieldRow list" where
  "dhcpOptionRows bs optionLayer optionCode optionLength dataOffset =
     (if optionCode = 53 \<and> optionLength = 1 then addNumber bs optionLayer ''Message type'' dataOffset 1
      else if optionCode = 50 \<and> optionLength = 4 then addIpv4 bs optionLayer ''Requested IP'' dataOffset
      else if optionCode = 54 \<and> optionLength = 4 then addIpv4 bs optionLayer ''Server identifier'' dataOffset
      else if optionCode = 51 \<and> optionLength = 4 then addNumber bs optionLayer ''Lease time'' dataOffset 4
      else if optionCode = 58 \<and> optionLength = 4 then addNumber bs optionLayer ''Renewal time'' dataOffset 4
      else if optionCode = 59 \<and> optionLength = 4 then addNumber bs optionLayer ''Rebinding time'' dataOffset 4
      else if (optionCode = 12 \<or> optionCode = 55 \<or> optionCode = 61) \<and> optionLength > 0 \<and> optionLength \<le> 64
      then addHex bs optionLayer
             (if optionCode = 12 then ''Hostname''
              else if optionCode = 55 then ''Parameter request list'' else ''Client identifier'')
             dataOffset optionLength
      else if optionLength > 0 \<and> optionLength \<le> 64 then addHex bs optionLayer ''Data'' dataOffset optionLength
      else [])"

text \<open>The loop over the options, by \<open>64 - optionIndex\<close>.\<close>

fun dhcpOptionsRows :: "nat \<Rightarrow> bytes \<Rightarrow> int \<Rightarrow> RawPacketFieldRow list" where
  "dhcpOptionsRows 0 bs optionOffset = []"
| "dhcpOptionsRows (Suc n) bs optionOffset =
     (if \<not> rawPacketHasBytes bs optionOffset 1 then []
      else
        let optionCode = byteAt bs optionOffset in
        if optionCode = 255 then addNumber bs ''DHCP Option End'' ''Code'' optionOffset 1
        else if optionCode = 0 then dhcpOptionsRows n bs (optionOffset + 1)
        else if \<not> rawPacketHasBytes bs optionOffset 2 then []
        else
          let optionLength = byteAt bs (optionOffset + 1);
              dataOffset = optionOffset + 2
          in if \<not> rawPacketHasBytes bs dataOffset optionLength then []
             else
               let optionLayer = ''DHCP Option '' @ decText optionCode
               in addNumber bs optionLayer ''Code'' optionOffset 1
                  @ addNumber bs optionLayer ''Length'' (optionOffset + 1) 1
                  @ dhcpOptionRows bs optionLayer optionCode optionLength dataOffset
                  @ dhcpOptionsRows n bs (dataOffset + optionLength))"

definition addDhcpRows :: "bytes \<Rightarrow> int \<Rightarrow> RawPacketFieldRow list" where
  "addDhcpRows bs dhcpOffset =
     (if \<not> rawPacketHasBytes bs dhcpOffset 44 then []
      else
        dhcpHeaderRows bs dhcpOffset
        @ (if \<not> rawPacketHasBytes bs (dhcpOffset + 236) 4 then []
           else
             addHex bs ''DHCP'' ''Magic cookie'' (dhcpOffset + 236) 4
             @ (if formatPacketHexField bs (dhcpOffset + 236) 4 \<noteq> ''63825363'' then []
                else dhcpOptionsRows 64 bs (dhcpOffset + 240))))"

lemma dhcpHeaderRows_ok [rows_ok]: "is_bytes bs \<Longrightarrow> rowsOk bs (dhcpHeaderRows bs off)"
  by (simp add: dhcpHeaderRows_def rows_ok maskOk_def)

lemma dhcpOptionRows_ok [rows_ok]: "is_bytes bs \<Longrightarrow> rowsOk bs (dhcpOptionRows bs layer code len off)"
  by (simp add: dhcpOptionRows_def rows_ok)

lemma dhcpOptionsRows_ok [rows_ok]: "is_bytes bs \<Longrightarrow> rowsOk bs (dhcpOptionsRows n bs off)"
  by (induction n arbitrary: off) (simp_all add: rows_ok Let_def)

lemma addDhcpRows_ok [rows_ok]: "is_bytes bs \<Longrightarrow> rowsOk bs (addDhcpRows bs off)"
  by (simp add: addDhcpRows_def rows_ok)

end
