(* ===== verification/LayerRows.thy ===== *)
theory LayerRows
  imports FieldRows NetworkLayer
begin

text \<open>
  The rows of the upper layers that hold no further packet: TCP with its options, SCTP, ICMP and
  ICMPv6 with its options.
\<close>

section \<open>TCP\<close>

text \<open>The loop over the blocks of a SACK option, by the number still to show.\<close>

fun sackRows :: "nat \<Rightarrow> bytes \<Rightarrow> string \<Rightarrow> int \<Rightarrow> int \<Rightarrow> RawPacketFieldRow list" where
  "sackRows 0 bs optionLayer optionOffset blockIndex = []"
| "sackRows (Suc n) bs optionLayer optionOffset blockIndex =
     (let blockOffset = optionOffset + 2 + blockIndex * 8
      in addNumber bs optionLayer (''SACK '' @ decText (blockIndex + 1) @ '' left edge'') blockOffset 4
         @ addNumber bs optionLayer (''SACK '' @ decText (blockIndex + 1) @ '' right edge'') (blockOffset + 4) 4
         @ sackRows n bs optionLayer optionOffset (blockIndex + 1))"

definition tcpOptionRow :: "bytes \<Rightarrow> string \<Rightarrow> int \<Rightarrow> int \<Rightarrow> int \<Rightarrow> RawPacketFieldRow list" where
  "tcpOptionRow bs optionLayer kind optionOffset optionLength =
     (if kind = 2 \<and> optionLength = 4 then addNumber bs optionLayer ''MSS'' (optionOffset + 2) 2
      else if kind = 3 \<and> optionLength = 3 then addNumber bs optionLayer ''Window Scale'' (optionOffset + 2) 1
      else if kind = 4 \<and> optionLength = 2 then addHex bs optionLayer ''SACK Permitted'' optionOffset 2
      else if kind = 5 \<and> optionLength \<ge> 10
      then sackRows (nat ((optionLength - 2) div 8)) bs optionLayer optionOffset 0
      else if kind = 8 \<and> optionLength = 10
      then addNumber bs optionLayer ''Timestamp value'' (optionOffset + 2) 4
           @ addNumber bs optionLayer ''Timestamp echo'' (optionOffset + 6) 4
      else if optionLength > 2 \<and> optionLength \<le> 32
      then addHex bs optionLayer ''Data'' (optionOffset + 2) (optionLength - 2)
      else [])"

text \<open>The loop \<open>while (optionOffset < optionsEnd && optionIndex < 32)\<close>, by \<open>32 - optionIndex\<close>.\<close>

fun tcpOptionRows :: "nat \<Rightarrow> bytes \<Rightarrow> string \<Rightarrow> int \<Rightarrow> int \<Rightarrow> int \<Rightarrow> RawPacketFieldRow list" where
  "tcpOptionRows 0 bs layer optionIndex optionOffset optionsEnd = []"
| "tcpOptionRows (Suc n) bs layer optionIndex optionOffset optionsEnd =
     (if \<not> optionOffset < optionsEnd then []
      else if \<not> rawPacketHasBytes bs optionOffset 1 then []
      else
        let kind = byteAt bs optionOffset;
            optionLayer = numberedLayer layer optionIndex
        in addNumber bs optionLayer ''Kind'' optionOffset 1
           @ (if kind = 0 then []
              else if kind = 1 then tcpOptionRows n bs layer (optionIndex + 1) (optionOffset + 1) optionsEnd
              else if \<not> rawPacketHasBytes bs optionOffset 2 then []
              else
                let optionLength = byteAt bs (optionOffset + 1) in
                if optionLength < 2 \<or> optionOffset + optionLength > optionsEnd
                   \<or> \<not> rawPacketHasBytes bs optionOffset optionLength then []
                else
                  addNumber bs optionLayer ''Length'' (optionOffset + 1) 1
                  @ tcpOptionRow bs optionLayer kind optionOffset optionLength
                  @ tcpOptionRows n bs layer (optionIndex + 1) (optionOffset + optionLength) optionsEnd))"

definition addTcpOptionRows :: "bytes \<Rightarrow> int \<Rightarrow> int \<Rightarrow> string \<Rightarrow> RawPacketFieldRow list" where
  "addTcpOptionRows bs optionsOffset optionsEnd layer = tcpOptionRows 32 bs layer 0 optionsOffset optionsEnd"

definition addTcpRows :: "bytes \<Rightarrow> int \<Rightarrow> string \<Rightarrow> RawPacketFieldRow list" where
  "addTcpRows bs l4Offset layer =
     (if \<not> rawPacketHasBytes bs l4Offset 20 then []
      else
        let headerLength = js_shr (byteAt bs (l4Offset + 12)) 4 * 4
        in addNumber bs layer ''Source port'' l4Offset 2
           @ addNumber bs layer ''Destination port'' (l4Offset + 2) 2
           @ addNumber bs layer ''Sequence'' (l4Offset + 4) 4
           @ addNumber bs layer ''Acknowledge'' (l4Offset + 8) 4
           @ addMaskedNumber bs layer ''Data offset'' (l4Offset + 12) 1 0xf0 4
           @ addMaskedNumber bs layer ''Reserved'' (l4Offset + 12) 1 0x0f 0
           @ addHex bs layer ''Flags'' (l4Offset + 13) 1
           @ addMaskedNumber bs layer ''URG flag'' (l4Offset + 13) 1 0x20 5
           @ addMaskedNumber bs layer ''ACK flag'' (l4Offset + 13) 1 0x10 4
           @ addMaskedNumber bs layer ''PSH flag'' (l4Offset + 13) 1 0x08 3
           @ addMaskedNumber bs layer ''RST flag'' (l4Offset + 13) 1 0x04 2
           @ addMaskedNumber bs layer ''SYN flag'' (l4Offset + 13) 1 0x02 1
           @ addMaskedNumber bs layer ''FIN flag'' (l4Offset + 13) 1 0x01 0
           @ addNumber bs layer ''Window'' (l4Offset + 14) 2
           @ addHex bs layer ''Checksum'' (l4Offset + 16) 2
           @ addNumber bs layer ''Urgent pointer'' (l4Offset + 18) 2
           @ (if headerLength > 20 \<and> rawPacketHasBytes bs l4Offset headerLength
              then addTcpOptionRows bs (l4Offset + 20) (l4Offset + headerLength)
                     (if layer = ''TCP'' then ''TCP Options'' else layer @ '' Options'')
              else []))"

lemma sackRows_ok [rows_ok]: "is_bytes bs \<Longrightarrow> rowsOk bs (sackRows n bs layer off k)"
  by (induction n arbitrary: k) (simp_all add: rows_ok Let_def)

lemma tcpOptionRow_ok [rows_ok]: "is_bytes bs \<Longrightarrow> rowsOk bs (tcpOptionRow bs layer kind off len)"
  by (simp add: tcpOptionRow_def rows_ok)

lemma tcpOptionRows_ok [rows_ok]: "is_bytes bs \<Longrightarrow> rowsOk bs (tcpOptionRows n bs layer k off end)"
  by (induction n arbitrary: k off) (simp_all add: rows_ok Let_def)

lemma addTcpRows_ok [rows_ok]: "is_bytes bs \<Longrightarrow> rowsOk bs (addTcpRows bs off layer)"
  by (simp add: addTcpRows_def addTcpOptionRows_def rows_ok maskOk_def Let_def)

section \<open>SCTP\<close>

definition sctpDataRows :: "bytes \<Rightarrow> string \<Rightarrow> int \<Rightarrow> RawPacketFieldRow list" where
  "sctpDataRows bs dataLayer chunkOffset =
     addMaskedNumber bs dataLayer ''Reserved flags'' (chunkOffset + 1) 1 0xf0 4
     @ addMaskedNumber bs dataLayer ''Immediate SACK'' (chunkOffset + 1) 1 0x08 3
     @ addMaskedNumber bs dataLayer ''Unordered'' (chunkOffset + 1) 1 0x04 2
     @ addMaskedNumber bs dataLayer ''Beginning fragment'' (chunkOffset + 1) 1 0x02 1
     @ addMaskedNumber bs dataLayer ''Ending fragment'' (chunkOffset + 1) 1 0x01 0
     @ addNumber bs dataLayer ''TSN'' (chunkOffset + 4) 4
     @ addNumber bs dataLayer ''Stream ID'' (chunkOffset + 8) 2
     @ addNumber bs dataLayer ''Stream sequence'' (chunkOffset + 10) 2
     @ addNumber bs dataLayer ''Payload protocol ID'' (chunkOffset + 12) 4"

definition addSctpRows :: "bytes \<Rightarrow> int \<Rightarrow> string \<Rightarrow> string \<Rightarrow> string \<Rightarrow> RawPacketFieldRow list" where
  "addSctpRows bs l4Offset layer dataLayer genericChunkLayer =
     (if \<not> rawPacketHasBytes bs l4Offset 12 then []
      else
        let chunkOffset = l4Offset + 12;
            chunkType = byteAt bs chunkOffset;
            chunkLayer = (if chunkType = 0 then dataLayer else genericChunkLayer)
        in addNumber bs layer ''Source port'' l4Offset 2
           @ addNumber bs layer ''Destination port'' (l4Offset + 2) 2
           @ addNumber bs layer ''Verification tag'' (l4Offset + 4) 4
           @ addHex bs layer ''Checksum'' (l4Offset + 8) 4
           @ (if \<not> rawPacketHasBytes bs chunkOffset 4 then []
              else
                addNumber bs chunkLayer ''Chunk type'' chunkOffset 1
                @ addNumber bs chunkLayer ''Flags'' (chunkOffset + 1) 1
                @ addNumber bs chunkLayer ''Length'' (chunkOffset + 2) 2
                @ (if chunkType = 0 \<and> rawPacketHasBytes bs chunkOffset 16
                   then sctpDataRows bs dataLayer chunkOffset else [])))"

lemma addSctpRows_ok [rows_ok]: "is_bytes bs \<Longrightarrow> rowsOk bs (addSctpRows bs off layer dataLayer chunkLayer)"
  by (simp add: addSctpRows_def sctpDataRows_def rows_ok maskOk_def Let_def)

section \<open>ICMP\<close>

text \<open>
  The map \<open>optionLayerCounts\<close> from the layer of an option to the number of options shown under
  it; the second and later ones are numbered.
\<close>

type_synonym layer_counts = "string \<Rightarrow> int"

definition countLayer :: "layer_counts \<Rightarrow> string \<Rightarrow> int \<times> layer_counts" where
  "countLayer counts name = (let count = counts name + 1 in (count, counts(name := count)))"

definition icmpv6OptionLayer :: "string \<Rightarrow> int \<Rightarrow> string" where
  "icmpv6OptionLayer layer optionType =
     (if optionType = 1 then layer @ '' Source Link-Layer Option''
      else if optionType = 2 then layer @ '' Target Link-Layer Option''
      else if optionType = 3 then layer @ '' Prefix Information Option''
      else layer @ '' Option '' @ decText optionType)"

definition icmpv6OptionRows :: "bytes \<Rightarrow> string \<Rightarrow> int \<Rightarrow> int \<Rightarrow> int \<Rightarrow> RawPacketFieldRow list" where
  "icmpv6OptionRows bs optionLayer optionType optionLength cursor =
     addNumber bs optionLayer ''Type'' cursor 1
     @ addNumber bs optionLayer ''Length'' (cursor + 1) 1
     @ (if (optionType = 1 \<or> optionType = 2) \<and> optionLength \<ge> 8
        then addMac bs optionLayer ''Link-layer address'' (cursor + 2)
        else if optionType = 3 \<and> optionLength \<ge> 32
        then addNumber bs optionLayer ''Prefix length'' (cursor + 2) 1
             @ addMaskedNumber bs optionLayer ''On-link flag'' (cursor + 3) 1 0x80 7
             @ addMaskedNumber bs optionLayer ''Autonomous flag'' (cursor + 3) 1 0x40 6
             @ addNumber bs optionLayer ''Valid lifetime'' (cursor + 4) 4
             @ addNumber bs optionLayer ''Preferred lifetime'' (cursor + 8) 4
             @ addHex bs optionLayer ''Reserved'' (cursor + 12) 4
             @ addIpv6 bs optionLayer ''Prefix'' (cursor + 16)
        else if optionLength > 2 \<and> optionLength \<le> 64
        then addHex bs optionLayer ''Data'' (cursor + 2) (optionLength - 2)
        else [])"

text \<open>The loop over the options, by \<open>8 - optionIndex\<close>.\<close>

fun icmpv6OptionsRows :: "nat \<Rightarrow> bytes \<Rightarrow> string \<Rightarrow> layer_counts \<Rightarrow> int \<Rightarrow> RawPacketFieldRow list" where
  "icmpv6OptionsRows 0 bs layer counts cursor = []"
| "icmpv6OptionsRows (Suc n) bs layer counts cursor =
     (if \<not> rawPacketHasBytes bs cursor 2 then []
      else
        let optionType = byteAt bs cursor;
            optionLengthUnits = byteAt bs (cursor + 1);
            optionLength = optionLengthUnits * 8
        in if optionLengthUnits = 0 \<or> optionLength < 2 \<or> \<not> rawPacketHasBytes bs cursor optionLength then []
           else
             let baseOptionLayer = icmpv6OptionLayer layer optionType;
                 (optionLayerCount, counts') = countLayer counts baseOptionLayer;
                 optionLayer = (if optionLayerCount > 1
                   then baseOptionLayer @ '' '' @ decText optionLayerCount else baseOptionLayer)
             in icmpv6OptionRows bs optionLayer optionType optionLength cursor
                @ icmpv6OptionsRows n bs layer counts' (cursor + optionLength))"

definition addIcmpv6OptionRows :: "bytes \<Rightarrow> string \<Rightarrow> int \<Rightarrow> RawPacketFieldRow list" where
  "addIcmpv6OptionRows bs layer optionOffset = icmpv6OptionsRows 8 bs layer (\<lambda>name. 0) optionOffset"

definition neighbourRows :: "bytes \<Rightarrow> string \<Rightarrow> int \<Rightarrow> int \<Rightarrow> RawPacketFieldRow list" where
  "neighbourRows bs layer type l4Offset =
     (if type = 135 then addHex bs layer ''Reserved'' (l4Offset + 4) 4
      else
        addMaskedNumber bs layer ''Router flag'' (l4Offset + 4) 4 0x80000000 31
        @ addMaskedNumber bs layer ''Solicited flag'' (l4Offset + 4) 4 0x40000000 30
        @ addMaskedNumber bs layer ''Override flag'' (l4Offset + 4) 4 0x20000000 29
        @ addMaskedNumber bs layer ''Reserved flags'' (l4Offset + 4) 4 0x1fffffff 0)
     @ addIpv6 bs layer ''Target address'' (l4Offset + 8)
     @ addIcmpv6OptionRows bs layer (l4Offset + 24)"

definition routerAdvertisementRows :: "bytes \<Rightarrow> string \<Rightarrow> int \<Rightarrow> RawPacketFieldRow list" where
  "routerAdvertisementRows bs layer l4Offset =
     addNumber bs layer ''Current hop limit'' (l4Offset + 4) 1
     @ addMaskedNumber bs layer ''Managed flag'' (l4Offset + 5) 1 0x80 7
     @ addMaskedNumber bs layer ''Other flag'' (l4Offset + 5) 1 0x40 6
     @ addNumber bs layer ''Router lifetime'' (l4Offset + 6) 2
     @ addNumber bs layer ''Reachable time'' (l4Offset + 8) 4
     @ addNumber bs layer ''Retrans timer'' (l4Offset + 12) 4
     @ addIcmpv6OptionRows bs layer (l4Offset + 16)"

definition addIcmpRows :: "bytes \<Rightarrow> string \<Rightarrow> int \<Rightarrow> RawPacketFieldRow list" where
  "addIcmpRows bs layer l4Offset =
     (if \<not> rawPacketHasBytes bs l4Offset 4 then []
      else
        let type = byteAt bs l4Offset;
            isIcmpv6 = includesText ''ICMPv6'' layer
        in addNumber bs layer ''Type'' l4Offset 1
           @ addNumber bs layer ''Code'' (l4Offset + 1) 1
           @ addHex bs layer ''Checksum'' (l4Offset + 2) 2
           @ (if rawPacketHasBytes bs l4Offset 8 \<and> (type = 0 \<or> type = 8 \<or> type = 128 \<or> type = 129)
              then addNumber bs layer ''Identifier'' (l4Offset + 4) 2
                   @ addNumber bs layer ''Sequence'' (l4Offset + 6) 2
              else [])
           @ (if \<not> isIcmpv6 then []
              else
                (if (type = 135 \<or> type = 136) \<and> rawPacketHasBytes bs l4Offset 24
                 then neighbourRows bs layer type l4Offset else [])
                @ (if type = 133 \<and> rawPacketHasBytes bs l4Offset 8
                   then addHex bs layer ''Reserved'' (l4Offset + 4) 4
                        @ addIcmpv6OptionRows bs layer (l4Offset + 8)
                   else [])
                @ (if type = 134 \<and> rawPacketHasBytes bs l4Offset 16
                   then routerAdvertisementRows bs layer l4Offset else [])))"

lemma icmpv6OptionRows_ok [rows_ok]: "is_bytes bs \<Longrightarrow> rowsOk bs (icmpv6OptionRows bs layer ty len off)"
  by (simp add: icmpv6OptionRows_def rows_ok maskOk_def)

lemma icmpv6OptionsRows_ok [rows_ok]: "is_bytes bs \<Longrightarrow> rowsOk bs (icmpv6OptionsRows n bs layer counts off)"
  by (induction n arbitrary: counts off) (simp_all add: rows_ok Let_def split: prod.split)

lemma addIcmpv6OptionRows_ok [rows_ok]: "is_bytes bs \<Longrightarrow> rowsOk bs (addIcmpv6OptionRows bs layer off)"
  by (simp add: addIcmpv6OptionRows_def rows_ok)

lemma neighbourRows_ok [rows_ok]: "is_bytes bs \<Longrightarrow> rowsOk bs (neighbourRows bs layer ty off)"
  by (simp add: neighbourRows_def rows_ok maskOk_def)

lemma routerAdvertisementRows_ok [rows_ok]: "is_bytes bs \<Longrightarrow> rowsOk bs (routerAdvertisementRows bs layer off)"
  by (simp add: routerAdvertisementRows_def rows_ok maskOk_def)

lemma addIcmpRows_ok [rows_ok]: "is_bytes bs \<Longrightarrow> rowsOk bs (addIcmpRows bs layer off)"
  by (simp add: addIcmpRows_def rows_ok Let_def)

text \<open>
  The rows of the headers that lead to a further packet, without what follows them: IPv6 with
  its extension headers, IPv4 with its options, GRE, ARP, VLAN and MPLS, VXLAN and GTP-U.
\<close>

definition prefixedLayer :: "string \<Rightarrow> string \<Rightarrow> string" where
  "prefixedLayer l4Prefix name = (if l4Prefix \<noteq> [] then l4Prefix @ '' '' @ name else name)"

section \<open>IPv6\<close>

definition ipv6ExtensionLayerName :: "int \<Rightarrow> string" where
  "ipv6ExtensionLayerName header =
     (if header = 0 then ''Hop-by-Hop''
      else if header = 43 then ''Routing''
      else if header = 44 then ''Fragment''
      else if header = 51 then ''AH''
      else if header = 60 then ''Destination Options''
      else if header = 135 then ''Mobility''
      else ''Extension '' @ decText header)"

definition isIpv6VariableLengthExtension :: "int \<Rightarrow> bool" where
  "isIpv6VariableLengthExtension header \<longleftrightarrow> header = 0 \<or> header = 43 \<or> header = 60 \<or> header = 135"

definition extensionLayer :: "string \<Rightarrow> layer_counts \<Rightarrow> string \<Rightarrow> string \<times> layer_counts" where
  "extensionLayer l4Prefix counts name =
     (let (count, counts') = countLayer counts name;
          suffix = (if count > 1 then '' '' @ decText count else [])
      in (if l4Prefix \<noteq> [] then l4Prefix @ '' IPv6 '' @ name @ suffix else ''IPv6 '' @ name @ suffix, counts'))"

definition ipv6OptionRow :: "bytes \<Rightarrow> string \<Rightarrow> int \<Rightarrow> int \<Rightarrow> int \<Rightarrow> RawPacketFieldRow list" where
  "ipv6OptionRow bs optionLayer optionType optionLength optionDataOffset =
     (if optionType = 1 \<and> optionLength > 0 then addHex bs optionLayer ''Padding'' optionDataOffset optionLength
      else if optionType = 5 \<and> optionLength = 2
      then addNumber bs optionLayer ''Router alert value'' optionDataOffset 2
      else if optionType = 0xc2 \<and> optionLength = 4
      then addNumber bs optionLayer ''Jumbo payload length'' optionDataOffset 4
      else if optionLength > 0 \<and> optionLength \<le> 64 then addHex bs optionLayer ''Data'' optionDataOffset optionLength
      else [])"

text \<open>The loop \<open>for (optionIndex = 1; optionIndex <= 16 && ...)\<close>, by \<open>17 - optionIndex\<close>.\<close>

fun ipv6OptionRows :: "nat \<Rightarrow> bytes \<Rightarrow> string \<Rightarrow> int \<Rightarrow> int \<Rightarrow> int \<Rightarrow> RawPacketFieldRow list" where
  "ipv6OptionRows 0 bs layer optionIndex optionOffset optionsEnd = []"
| "ipv6OptionRows (Suc n) bs layer optionIndex optionOffset optionsEnd =
     (if \<not> optionOffset < optionsEnd then []
      else if \<not> rawPacketHasBytes bs optionOffset 1 then []
      else
        let optionType = byteAt bs optionOffset;
            optionLayer = layer @ '' Option '' @ decText optionIndex
        in addNumber bs optionLayer ''Type'' optionOffset 1
           @ addMaskedNumber bs optionLayer ''Action'' optionOffset 1 0xc0 6
           @ addMaskedNumber bs optionLayer ''Change en route'' optionOffset 1 0x20 5
           @ addMaskedNumber bs optionLayer ''Option number'' optionOffset 1 0x1f 0
           @ (if optionType = 0
              then ipv6OptionRows n bs layer (optionIndex + 1) (optionOffset + 1) optionsEnd
              else if \<not> rawPacketHasBytes bs optionOffset 2 then []
              else
                let optionLength = byteAt bs (optionOffset + 1);
                    optionTotalLength = optionLength + 2
                in if optionTotalLength < 2 \<or> optionOffset + optionTotalLength > optionsEnd
                      \<or> \<not> rawPacketHasBytes bs optionOffset optionTotalLength then []
                   else
                     addNumber bs optionLayer ''Length'' (optionOffset + 1) 1
                     @ ipv6OptionRow bs optionLayer optionType optionLength (optionOffset + 2)
                     @ ipv6OptionRows n bs layer (optionIndex + 1) (optionOffset + optionTotalLength) optionsEnd))"

definition addIpv6ExtensionOptionRows :: "bytes \<Rightarrow> string \<Rightarrow> int \<Rightarrow> int \<Rightarrow> RawPacketFieldRow list" where
  "addIpv6ExtensionOptionRows bs layer optionsOffset optionsLength =
     ipv6OptionRows 16 bs layer 1 optionsOffset (optionsOffset + optionsLength)"

definition ipv6HeaderRows :: "bytes \<Rightarrow> string \<Rightarrow> int \<Rightarrow> RawPacketFieldRow list" where
  "ipv6HeaderRows bs layer ipv6Offset =
     addMaskedNumber bs layer ''Version'' ipv6Offset 4 0xf0000000 28
     @ addMaskedNumber bs layer ''Traffic class'' ipv6Offset 4 0x0ff00000 20
     @ addMaskedNumber bs layer ''Flow label'' ipv6Offset 4 0x000fffff 0
     @ addNumber bs layer ''Payload length'' (ipv6Offset + 4) 2
     @ addNumber bs layer ''Next header'' (ipv6Offset + 6) 1
     @ addNumber bs layer ''Hop limit'' (ipv6Offset + 7) 1
     @ addIpv6 bs layer ''Source'' (ipv6Offset + 8)
     @ addIpv6 bs layer ''Destination'' (ipv6Offset + 24)"

definition fragmentRows :: "bytes \<Rightarrow> string \<Rightarrow> int \<Rightarrow> RawPacketFieldRow list" where
  "fragmentRows bs fragmentLayer l4Offset =
     addNumber bs fragmentLayer ''Next header'' l4Offset 1
     @ addHex bs fragmentLayer ''Reserved'' (l4Offset + 1) 1
     @ addMaskedNumber bs fragmentLayer ''Fragment offset'' (l4Offset + 2) 2 0xfff8 3
     @ addMaskedNumber bs fragmentLayer ''Reserved bits'' (l4Offset + 2) 2 0x0006 1
     @ addMaskedNumber bs fragmentLayer ''More fragments'' (l4Offset + 2) 2 0x0001 0
     @ addHex bs fragmentLayer ''Identification'' (l4Offset + 4) 4"

definition ahRows :: "bytes \<Rightarrow> string \<Rightarrow> int \<Rightarrow> RawPacketFieldRow list" where
  "ahRows bs ahLayer l4Offset =
     addNumber bs ahLayer ''Next header'' l4Offset 1
     @ addNumber bs ahLayer ''Payload length'' (l4Offset + 1) 1
     @ addHex bs ahLayer ''Reserved'' (l4Offset + 2) 2
     @ addHex bs ahLayer ''SPI'' (l4Offset + 4) 4
     @ addNumber bs ahLayer ''Sequence'' (l4Offset + 8) 4"

definition routingRows :: "bytes \<Rightarrow> string \<Rightarrow> int \<Rightarrow> int \<Rightarrow> RawPacketFieldRow list" where
  "routingRows bs routingLayer l4Offset routingHeaderLength =
     addNumber bs routingLayer ''Next header'' l4Offset 1
     @ addNumber bs routingLayer ''Header extension length'' (l4Offset + 1) 1
     @ addNumber bs routingLayer ''Routing type'' (l4Offset + 2) 1
     @ addNumber bs routingLayer ''Segments left'' (l4Offset + 3) 1
     @ (if routingHeaderLength > 4 \<and> routingHeaderLength \<le> 64
        then addHex bs routingLayer ''Data'' (l4Offset + 4) (routingHeaderLength - 4) else [])"

definition optionHeaderRows :: "bytes \<Rightarrow> string \<Rightarrow> int \<Rightarrow> int \<Rightarrow> RawPacketFieldRow list" where
  "optionHeaderRows bs optionLayer l4Offset extensionHeaderLength =
     addNumber bs optionLayer ''Next header'' l4Offset 1
     @ addNumber bs optionLayer ''Header extension length'' (l4Offset + 1) 1
     @ (if extensionHeaderLength > 2 \<and> extensionHeaderLength \<le> 32
        then addHex bs optionLayer ''Options'' (l4Offset + 2) (extensionHeaderLength - 2) else [])
     @ addIpv6ExtensionOptionRows bs optionLayer (l4Offset + 2) (extensionHeaderLength - 2)"

text \<open>
  The loop over the extension headers, by \<open>8 - extensionIndex\<close>: the rows, and the protocol and the
  offset of what follows, or \<open>None\<close> where \<open>addIpv6Rows\<close> returns without following.
\<close>

fun ipv6ExtensionRows :: "nat \<Rightarrow> bytes \<Rightarrow> string \<Rightarrow> layer_counts \<Rightarrow> int \<Rightarrow> int
    \<Rightarrow> RawPacketFieldRow list \<times> (int \<times> int) option" where
  "ipv6ExtensionRows 0 bs l4Prefix counts nextHeader l4Offset = ([], Some (nextHeader, l4Offset))"
| "ipv6ExtensionRows (Suc n) bs l4Prefix counts nextHeader l4Offset =
     (let (extLayer, counts') = extensionLayer l4Prefix counts (ipv6ExtensionLayerName nextHeader);
          continue = (\<lambda>rows step.
            let (rest, end) = ipv6ExtensionRows n bs l4Prefix counts' (byteOr 59 bs l4Offset) (l4Offset + step)
            in (rows @ rest, end))
      in if nextHeader = 59 \<or> nextHeader = 50 then ([], None)
         else if nextHeader = 44 then
           (if \<not> rawPacketHasBytes bs l4Offset 8 then ([], None)
            else continue (fragmentRows bs extLayer l4Offset) 8)
         else if nextHeader = 51 then
           (if \<not> rawPacketHasBytes bs l4Offset 12 then ([], None)
            else
              let ahLength = (byteAt bs (l4Offset + 1) + 2) * 4 in
              if ahLength < 12 \<or> \<not> rawPacketHasBytes bs l4Offset ahLength then ([], None)
              else continue (ahRows bs extLayer l4Offset) ahLength)
         else if nextHeader = 43 then
           (if \<not> rawPacketHasBytes bs l4Offset 8 then ([], None)
            else
              case rawIpv6ExtensionHeaderLength bs nextHeader l4Offset of
                None \<Rightarrow> ([], None)
              | Some routingHeaderLength \<Rightarrow>
                  continue (routingRows bs extLayer l4Offset routingHeaderLength) routingHeaderLength)
         else if isIpv6VariableLengthExtension nextHeader then
           (if \<not> rawPacketHasBytes bs l4Offset 2 then ([], None)
            else
              let extensionHeaderLength = (byteAt bs (l4Offset + 1) + 1) * 8 in
              if extensionHeaderLength < 8 \<or> \<not> rawPacketHasBytes bs l4Offset extensionHeaderLength
              then ([], None)
              else continue (optionHeaderRows bs extLayer l4Offset extensionHeaderLength) extensionHeaderLength)
         else ([], Some (nextHeader, l4Offset)))"

lemma ipv6OptionRow_ok [rows_ok]: "is_bytes bs \<Longrightarrow> rowsOk bs (ipv6OptionRow bs layer ty len off)"
  by (simp add: ipv6OptionRow_def rows_ok)

lemma ipv6OptionRows_ok [rows_ok]: "is_bytes bs \<Longrightarrow> rowsOk bs (ipv6OptionRows n bs layer k off end)"
  by (induction n arbitrary: k off) (simp_all add: rows_ok maskOk_def Let_def)

lemma ipv6HeaderRows_ok [rows_ok]: "is_bytes bs \<Longrightarrow> rowsOk bs (ipv6HeaderRows bs layer off)"
  by (simp add: ipv6HeaderRows_def rows_ok maskOk_def)

lemma extensionHeaderRows_ok [rows_ok]:
  assumes "is_bytes bs"
  shows "rowsOk bs (fragmentRows bs layer off)" "rowsOk bs (ahRows bs layer off)"
    "rowsOk bs (routingRows bs layer off len)" "rowsOk bs (optionHeaderRows bs layer off len)"
  using assms
  by (simp_all add: fragmentRows_def ahRows_def routingRows_def optionHeaderRows_def
      addIpv6ExtensionOptionRows_def rows_ok maskOk_def)

lemma ipv6ExtensionRows_ok:
  "is_bytes bs \<Longrightarrow> ipv6ExtensionRows n bs l4Prefix counts h off = (rows, end) \<Longrightarrow> rowsOk bs rows"
proof (induction n arbitrary: counts h off rows "end")
  case (Suc n)
  then show ?case
    by (auto simp: rows_ok Let_def split: option.splits prod.splits if_splits)
qed (simp add: rows_ok)

lemma ipv6ExtensionRows_forward:
  "ipv6ExtensionRows n bs l4Prefix counts h off = (rows, Some (h', off')) \<Longrightarrow> off \<le> off'"
proof (induction n arbitrary: counts h off rows)
  case (Suc n)
  from Suc.prems show ?case
    by (auto simp: Let_def split: option.splits prod.splits if_splits
        dest!: Suc.IH dest: extensionLength_at)
qed simp

section \<open>IPv4\<close>

fun ipv4OptionRows :: "nat \<Rightarrow> bytes \<Rightarrow> string \<Rightarrow> int \<Rightarrow> int \<Rightarrow> int \<Rightarrow> RawPacketFieldRow list" where
  "ipv4OptionRows 0 bs layer optionIndex optionOffset optionsEnd = []"
| "ipv4OptionRows (Suc n) bs layer optionIndex optionOffset optionsEnd =
     (if \<not> optionOffset < optionsEnd then []
      else if \<not> rawPacketHasBytes bs optionOffset 1 then []
      else
        let optionType = byteAt bs optionOffset;
            optionLayer = layer @ '' Option '' @ decText optionIndex
        in addNumber bs optionLayer ''Type'' optionOffset 1
           @ addMaskedNumber bs optionLayer ''Copied flag'' optionOffset 1 0x80 7
           @ addMaskedNumber bs optionLayer ''Class'' optionOffset 1 0x60 5
           @ addMaskedNumber bs optionLayer ''Option number'' optionOffset 1 0x1f 0
           @ (if optionType = 0 then []
              else if optionType = 1
              then ipv4OptionRows n bs layer (optionIndex + 1) (optionOffset + 1) optionsEnd
              else if \<not> rawPacketHasBytes bs optionOffset 2 then []
              else
                let optionLength = byteAt bs (optionOffset + 1) in
                if optionLength < 2 \<or> optionOffset + optionLength > optionsEnd
                   \<or> \<not> rawPacketHasBytes bs optionOffset optionLength then []
                else
                  let optionDataOffset = optionOffset + 2;
                      optionDataLength = optionLength - 2
                  in addNumber bs optionLayer ''Length'' (optionOffset + 1) 1
                     @ (if optionType = 0x94 \<and> optionDataLength = 2
                        then addNumber bs optionLayer ''Router alert value'' optionDataOffset 2
                        else if optionDataLength > 0 \<and> optionDataLength \<le> 64
                        then addHex bs optionLayer ''Data'' optionDataOffset optionDataLength
                        else [])
                     @ ipv4OptionRows n bs layer (optionIndex + 1) (optionOffset + optionLength) optionsEnd))"

definition addIpv4OptionRows :: "bytes \<Rightarrow> string \<Rightarrow> int \<Rightarrow> int \<Rightarrow> RawPacketFieldRow list" where
  "addIpv4OptionRows bs layer optionsOffset optionsLength =
     ipv4OptionRows 16 bs layer 1 optionsOffset (optionsOffset + optionsLength)"

definition ipv4HeaderRows :: "bytes \<Rightarrow> string \<Rightarrow> int \<Rightarrow> int \<Rightarrow> RawPacketFieldRow list" where
  "ipv4HeaderRows bs layer ipv4Offset ipv4HeaderLength =
     addMaskedNumber bs layer ''Version'' ipv4Offset 1 0xf0 4
     @ addMaskedNumber bs layer ''Header length'' ipv4Offset 1 0x0f 0
     @ addMaskedNumber bs layer ''DSCP'' (ipv4Offset + 1) 1 0xfc 2
     @ addMaskedNumber bs layer ''ECN'' (ipv4Offset + 1) 1 0x03 0
     @ addNumber bs layer ''Total length'' (ipv4Offset + 2) 2
     @ addHex bs layer ''Identification'' (ipv4Offset + 4) 2
     @ addMaskedNumber bs layer ''Reserved flag'' (ipv4Offset + 6) 2 0x8000 15
     @ addMaskedNumber bs layer ''Don't fragment'' (ipv4Offset + 6) 2 0x4000 14
     @ addMaskedNumber bs layer ''More fragments'' (ipv4Offset + 6) 2 0x2000 13
     @ addMaskedNumber bs layer ''Fragment offset'' (ipv4Offset + 6) 2 0x1fff 0
     @ addNumber bs layer ''TTL'' (ipv4Offset + 8) 1
     @ addNumber bs layer ''Protocol'' (ipv4Offset + 9) 1
     @ addHex bs layer ''Checksum'' (ipv4Offset + 10) 2
     @ addIpv4 bs layer ''Source'' (ipv4Offset + 12)
     @ addIpv4 bs layer ''Destination'' (ipv4Offset + 16)
     @ (if ipv4HeaderLength > 20
        then addHex bs (layer @ '' Options'') ''Options'' (ipv4Offset + 20) (ipv4HeaderLength - 20)
             @ addIpv4OptionRows bs layer (ipv4Offset + 20) (ipv4HeaderLength - 20)
        else [])"

lemma ipv4OptionRows_ok [rows_ok]: "is_bytes bs \<Longrightarrow> rowsOk bs (ipv4OptionRows n bs layer k off end)"
  by (induction n arbitrary: k off) (simp_all add: rows_ok maskOk_def Let_def)

lemma ipv4HeaderRows_ok [rows_ok]: "is_bytes bs \<Longrightarrow> rowsOk bs (ipv4HeaderRows bs layer off h)"
  by (simp add: ipv4HeaderRows_def addIpv4OptionRows_def rows_ok maskOk_def)

end
