(* ===== verification/FieldTable.thy ===== *)
theory FieldTable
  imports LayerRows Collectors
begin

text \<open>
  The packet field table itself: \<open>buildRawPacketFieldRows\<close> and the local functions that follow a
  header into the packet it carries (UDP, VXLAN, GTP-U, GRE, the inner Ethernet frame, IPv4 and
  IPv6). They call each other, as in the code; every call moves on in the packet, so the number
  of bytes left (doubled, for the one dispatcher that passes its offset on) is the measure.
\<close>

section \<open>VLAN and MPLS\<close>

definition vlanLayerName :: "string \<Rightarrow> int \<Rightarrow> string" where
  "vlanLayerName prefix vlanIndex =
     prefix @ (if vlanIndex = 0 then ''802.1Q'' else if vlanIndex = 1 then ''802.1Q Inner''
               else ''802.1Q '' @ decText (vlanIndex + 1))"

definition vlanTagRows :: "bytes \<Rightarrow> string \<Rightarrow> int \<Rightarrow> RawPacketFieldRow list" where
  "vlanTagRows bs layer l3Offset =
     addHex bs layer ''TCI'' l3Offset 2
     @ addMaskedNumber bs layer ''Priority'' l3Offset 2 0xe000 13
     @ addMaskedNumber bs layer ''CFI'' l3Offset 2 0x1000 12
     @ addMaskedNumber bs layer ''VLAN ID'' l3Offset 2 0x0fff 0
     @ addHex bs layer ''Inner EtherType'' (l3Offset + 2) 2"

text \<open>
  The VLAN loop, by \<open>4 - vlanIndex\<close>: the rows, and the EtherType and the offset it ends with.
  \<open>prefix\<close> is empty for the outer frame and ends in a blank for an inner one.
\<close>

fun vlanRows :: "nat \<Rightarrow> bytes \<Rightarrow> string \<Rightarrow> int \<Rightarrow> int \<Rightarrow> int \<Rightarrow> RawPacketFieldRow list \<times> int \<times> int" where
  "vlanRows 0 bs prefix vlanIndex etherType l3Offset = ([], etherType, l3Offset)"
| "vlanRows (Suc n) bs prefix vlanIndex etherType l3Offset =
     (if isVlanType etherType \<and> rawPacketHasBytes bs l3Offset 4 then
        let (rows, next) =
          vlanRows n bs prefix (vlanIndex + 1) (rawPacketWord bs (l3Offset + 2)) (l3Offset + 4)
        in (vlanTagRows bs (vlanLayerName prefix vlanIndex) l3Offset @ rows, next)
      else ([], etherType, l3Offset))"

definition mplsLabelRows :: "bytes \<Rightarrow> string \<Rightarrow> int \<Rightarrow> RawPacketFieldRow list" where
  "mplsLabelRows bs layer l3Offset =
     addHex bs layer ''Header'' l3Offset 4
     @ addMaskedNumber bs layer ''Label'' l3Offset 4 0xfffff000 12
     @ addMaskedNumber bs layer ''Traffic class'' l3Offset 4 0x00000e00 9
     @ addMaskedNumber bs layer ''Bottom of stack'' l3Offset 4 0x00000100 8
     @ addNumber bs layer ''TTL'' (l3Offset + 3) 1"

text \<open>The MPLS loop, by \<open>8 - mplsIndex\<close>: the rows and the offset behind the label stack.\<close>

fun mplsRows :: "nat \<Rightarrow> bytes \<Rightarrow> int \<Rightarrow> int \<Rightarrow> RawPacketFieldRow list \<times> int" where
  "mplsRows 0 bs mplsIndex l3Offset = ([], l3Offset)"
| "mplsRows (Suc n) bs mplsIndex l3Offset =
     (if \<not> rawPacketHasBytes bs l3Offset 4 then ([], l3Offset)
      else
        let layer = (if mplsIndex = 0 then ''MPLS'' else ''MPLS '' @ decText (mplsIndex + 1));
            rows = mplsLabelRows bs layer l3Offset
        in if js_and (byteAt bs (l3Offset + 2)) 0x01 = 1 then (rows, l3Offset + 4)
           else let (rest, next) = mplsRows n bs (mplsIndex + 1) (l3Offset + 4) in (rows @ rest, next))"

section \<open>ARP, GRE, VXLAN and GTP-U\<close>

definition addArpRows :: "bytes \<Rightarrow> int \<Rightarrow> string \<Rightarrow> RawPacketFieldRow list" where
  "addArpRows bs arpOffset layer =
     (if \<not> rawPacketHasBytes bs arpOffset 28 then []
      else
        addNumber bs layer ''Hardware type'' arpOffset 2
        @ addHex bs layer ''Protocol type'' (arpOffset + 2) 2
        @ addNumber bs layer ''Hardware size'' (arpOffset + 4) 1
        @ addNumber bs layer ''Protocol size'' (arpOffset + 5) 1
        @ addNumber bs layer ''Operation'' (arpOffset + 6) 2
        @ addMac bs layer ''Sender MAC'' (arpOffset + 8)
        @ addIpv4 bs layer ''Sender IP'' (arpOffset + 14)
        @ addMac bs layer ''Target MAC'' (arpOffset + 18)
        @ addIpv4 bs layer ''Target IP'' (arpOffset + 24))"

definition greFlagRows :: "bytes \<Rightarrow> int \<Rightarrow> RawPacketFieldRow list" where
  "greFlagRows bs greOffset =
     addHex bs ''GRE'' ''Flags/version'' greOffset 2
     @ addMaskedNumber bs ''GRE'' ''Checksum present'' greOffset 2 0x8000 15
     @ addMaskedNumber bs ''GRE'' ''Routing present'' greOffset 2 0x4000 14
     @ addMaskedNumber bs ''GRE'' ''Key present'' greOffset 2 0x2000 13
     @ addMaskedNumber bs ''GRE'' ''Sequence present'' greOffset 2 0x1000 12
     @ addMaskedNumber bs ''GRE'' ''Strict source route'' greOffset 2 0x0800 11
     @ addMaskedNumber bs ''GRE'' ''Recursion control'' greOffset 2 0x0700 8
     @ addMaskedNumber bs ''GRE'' ''Reserved flags'' greOffset 2 0x00f8 3
     @ addMaskedNumber bs ''GRE'' ''Version'' greOffset 2 0x0007 0
     @ addHex bs ''GRE'' ''Protocol type'' (greOffset + 2) 2"

text \<open>The optional words of a GRE header: the rows and the offset of the payload.\<close>

definition greOptionalRows :: "bytes \<Rightarrow> int \<Rightarrow> int \<Rightarrow> RawPacketFieldRow list \<times> int" where
  "greOptionalRows bs flags off =
     (let (checksum, p1) = (if js_and flags 0x8000 \<noteq> 0 \<and> rawPacketHasBytes bs off 4
            then (addHex bs ''GRE'' ''Checksum'' off 2 @ addHex bs ''GRE'' ''Reserved'' (off + 2) 2, off + 4)
            else ([], off));
          (key, p2) = (if js_and flags 0x2000 \<noteq> 0 \<and> rawPacketHasBytes bs p1 4
            then (addNumber bs ''GRE'' ''Key'' p1 4, p1 + 4) else ([], p1));
          (seq, p3) = (if js_and flags 0x1000 \<noteq> 0 \<and> rawPacketHasBytes bs p2 4
            then (addNumber bs ''GRE'' ''Sequence'' p2 4, p2 + 4) else ([], p2))
      in (checksum @ key @ seq, p3))"

definition vxlanHeaderRows :: "bytes \<Rightarrow> int \<Rightarrow> RawPacketFieldRow list" where
  "vxlanHeaderRows bs vxlanOffset =
     addHex bs ''VXLAN'' ''Flags'' vxlanOffset 1
     @ addMaskedNumber bs ''VXLAN'' ''I flag'' vxlanOffset 1 0x08 3
     @ addHex bs ''VXLAN'' ''Reserved'' (vxlanOffset + 1) 3
     @ addNumber bs ''VXLAN'' ''VNI'' (vxlanOffset + 4) 3
     @ addHex bs ''VXLAN'' ''Reserved 2'' (vxlanOffset + 7) 1"

definition gtpuHeaderRows :: "bytes \<Rightarrow> int \<Rightarrow> RawPacketFieldRow list" where
  "gtpuHeaderRows bs gtpuOffset =
     addHex bs ''GTP-U'' ''Flags'' gtpuOffset 1
     @ addMaskedNumber bs ''GTP-U'' ''Version'' gtpuOffset 1 0xe0 5
     @ addMaskedNumber bs ''GTP-U'' ''Protocol type'' gtpuOffset 1 0x10 4
     @ addMaskedNumber bs ''GTP-U'' ''Reserved flag'' gtpuOffset 1 0x08 3
     @ addMaskedNumber bs ''GTP-U'' ''Extension header present'' gtpuOffset 1 0x04 2
     @ addMaskedNumber bs ''GTP-U'' ''Sequence present'' gtpuOffset 1 0x02 1
     @ addMaskedNumber bs ''GTP-U'' ''N-PDU present'' gtpuOffset 1 0x01 0
     @ addNumber bs ''GTP-U'' ''Message type'' (gtpuOffset + 1) 1
     @ addNumber bs ''GTP-U'' ''Message length'' (gtpuOffset + 2) 2
     @ addHex bs ''GTP-U'' ''TEID'' (gtpuOffset + 4) 4"

definition gtpuOptionalRows :: "bytes \<Rightarrow> int \<Rightarrow> int \<Rightarrow> RawPacketFieldRow list \<times> int \<times> int" where
  "gtpuOptionalRows bs flags payloadOffset =
     (if js_and flags 0x07 \<noteq> 0 \<and> rawPacketHasBytes bs payloadOffset 4 then
        (addNumber bs ''GTP-U'' ''Sequence'' payloadOffset 2
         @ addNumber bs ''GTP-U'' ''N-PDU'' (payloadOffset + 2) 1
         @ addHex bs ''GTP-U'' ''Next extension header'' (payloadOffset + 3) 1,
         byteAt bs (payloadOffset + 3), payloadOffset + 4)
      else ([], 0, payloadOffset))"

definition gtpuExtensionHeaderRows :: "bytes \<Rightarrow> int \<Rightarrow> int \<Rightarrow> int \<Rightarrow> RawPacketFieldRow list" where
  "gtpuExtensionHeaderRows bs nextExtensionHeader payloadOffset extensionByteLength =
     (let extLayer = (if nextExtensionHeader = 0x40 then ''GTP-U UDP Port Extension''
            else ''GTP-U Extension 0x'' @ hexByte nextExtensionHeader)
      in addNumber bs extLayer ''Length'' payloadOffset 1
         @ (if nextExtensionHeader = 0x40 \<and> extensionByteLength \<ge> 4
            then addNumber bs extLayer ''UDP port'' (payloadOffset + 1) 2
            else if extensionByteLength > 2
            then addHex bs extLayer ''Payload'' (payloadOffset + 1) (extensionByteLength - 2)
            else [])
         @ addHex bs extLayer ''Next extension header'' (payloadOffset + extensionByteLength - 1) 1)"

text \<open>
  The loop over GTP-U extension headers, by \<open>8 - extensionIndex\<close>: the rows, and the offset of the
  inner packet, or \<open>None\<close> where the code returns.
\<close>

fun gtpuExtensionRows :: "nat \<Rightarrow> bytes \<Rightarrow> int \<Rightarrow> int \<Rightarrow> RawPacketFieldRow list \<times> int option" where
  "gtpuExtensionRows 0 bs nextExtensionHeader payloadOffset = ([], Some payloadOffset)"
| "gtpuExtensionRows (Suc n) bs nextExtensionHeader payloadOffset =
     (if nextExtensionHeader = 0 then ([], Some payloadOffset)
      else if \<not> rawPacketHasBytes bs payloadOffset 1 then ([], None)
      else
        let extensionByteLength = byteAt bs payloadOffset * 4 in
        if extensionByteLength < 4 \<or> \<not> rawPacketHasBytes bs payloadOffset extensionByteLength then ([], None)
        else
          let (rest, end) = gtpuExtensionRows n bs (byteAt bs (payloadOffset + extensionByteLength - 1))
                (payloadOffset + extensionByteLength)
          in (gtpuExtensionHeaderRows bs nextExtensionHeader payloadOffset extensionByteLength @ rest, end))"

definition etherRows :: "bytes \<Rightarrow> string \<Rightarrow> int \<Rightarrow> RawPacketFieldRow list" where
  "etherRows bs layer off =
     addMac bs layer ''Destination'' off
     @ addMac bs layer ''Source'' (off + 6)
     @ addHex bs layer ''EtherType'' (off + 12) 2"

definition udpHeaderRows :: "bytes \<Rightarrow> string \<Rightarrow> int \<Rightarrow> RawPacketFieldRow list" where
  "udpHeaderRows bs layer l4Offset =
     addNumber bs layer ''Source port'' l4Offset 2
     @ addNumber bs layer ''Destination port'' (l4Offset + 2) 2
     @ addNumber bs layer ''Length'' (l4Offset + 4) 2
     @ addHex bs layer ''Checksum'' (l4Offset + 6) 2"

lemma vlanRows_ok: "is_bytes bs \<Longrightarrow> vlanRows n bs prefix k ty off = (rows, end) \<Longrightarrow> rowsOk bs rows"
  by (induction n arbitrary: k ty off rows "end")
    (auto simp: vlanTagRows_def rows_ok maskOk_def split: if_splits prod.splits)

lemma vlanRows_forward: "vlanRows n bs prefix k ty off = (rows, ty', off') \<Longrightarrow> off \<le> off'"
  by (induction n arbitrary: k ty off rows ty' off') (fastforce split: if_splits prod.splits)+

lemma mplsRows_ok: "is_bytes bs \<Longrightarrow> mplsRows n bs k off = (rows, end) \<Longrightarrow> rowsOk bs rows"
  by (induction n arbitrary: k off rows "end")
    (auto simp: mplsLabelRows_def rows_ok maskOk_def Let_def split: if_splits prod.splits)

lemma greOptionalRows_ok: "is_bytes bs \<Longrightarrow> greOptionalRows bs flags off = (rows, end) \<Longrightarrow> rowsOk bs rows"
  by (auto simp: greOptionalRows_def rows_ok Let_def split: if_splits)

lemma greOptionalRows_forward: "greOptionalRows bs flags off = (rows, off') \<Longrightarrow> off \<le> off'"
  by (auto simp: greOptionalRows_def Let_def split: if_splits)

lemma gtpuOptionalRows_ok:
  "is_bytes bs \<Longrightarrow> gtpuOptionalRows bs flags off = (rows, next, off') \<Longrightarrow> rowsOk bs rows"
  by (auto simp: gtpuOptionalRows_def rows_ok split: if_splits)

lemma gtpuOptionalRows_forward: "gtpuOptionalRows bs flags off = (rows, next, off') \<Longrightarrow> off \<le> off'"
  by (auto simp: gtpuOptionalRows_def split: if_splits)

lemma gtpuExtensionRows_ok: "is_bytes bs \<Longrightarrow> gtpuExtensionRows n bs next off = (rows, end) \<Longrightarrow> rowsOk bs rows"
  by (induction n arbitrary: "next" off rows "end")
    (auto simp: gtpuExtensionHeaderRows_def rows_ok Let_def split: if_splits prod.splits)

lemma gtpuExtensionRows_forward: "gtpuExtensionRows n bs next off = (rows, Some off') \<Longrightarrow> off \<le> off'"
  by (induction n arbitrary: "next" off rows off') (fastforce simp: Let_def split: if_splits prod.splits)+

lemma headerRows_ok [rows_ok]:
  assumes "is_bytes bs"
  shows "rowsOk bs (addArpRows bs off layer)" "rowsOk bs (greFlagRows bs off)" "rowsOk bs (vxlanHeaderRows bs off)"
    "rowsOk bs (gtpuHeaderRows bs off)" "rowsOk bs (etherRows bs layer off)" "rowsOk bs (udpHeaderRows bs layer off)"
  using assms
  by (simp_all add: addArpRows_def greFlagRows_def vxlanHeaderRows_def gtpuHeaderRows_def etherRows_def
      udpHeaderRows_def rows_ok maskOk_def)

section \<open>Following a header into its payload\<close>

lemma rows_less:
  "rawPacketHasBytes bs off n \<Longrightarrow> off < off' \<Longrightarrow> Suc (2 * bytesLeft bs off') < 2 * bytesLeft bs off"
  using bytesLeft_less [of bs off n off'] by linarith

lemmas rows_forward = vlanRows_forward greOptionalRows_forward gtpuOptionalRows_forward
  gtpuExtensionRows_forward ipv6ExtensionRows_forward

function (sequential)
  addUdpRows :: "bytes \<Rightarrow> int \<Rightarrow> string \<Rightarrow> RawPacketFieldRow list"
and addVxlanRows :: "bytes \<Rightarrow> int \<Rightarrow> RawPacketFieldRow list"
and addGtpuRows :: "bytes \<Rightarrow> int \<Rightarrow> RawPacketFieldRow list"
and addEthernetFrameRows :: "bytes \<Rightarrow> int \<Rightarrow> string \<Rightarrow> RawPacketFieldRow list"
and addGreRows :: "bytes \<Rightarrow> int \<Rightarrow> RawPacketFieldRow list"
and addIpv6L4Rows :: "bytes \<Rightarrow> int \<Rightarrow> int \<Rightarrow> (string \<Rightarrow> string) \<Rightarrow> RawPacketFieldRow list"
and addIpv6Rows :: "bytes \<Rightarrow> int \<Rightarrow> string \<Rightarrow> string \<Rightarrow> RawPacketFieldRow list"
and addIpv4Rows :: "bytes \<Rightarrow> int \<Rightarrow> string \<Rightarrow> string \<Rightarrow> RawPacketFieldRow list"
where
  "addUdpRows bs l4Offset layer =
     (if \<not> rawPacketHasBytes bs l4Offset 8 then []
      else
        let sourcePort = rawPacketWord bs l4Offset;
            destinationPort = rawPacketWord bs (l4Offset + 2);
            onPort = (\<lambda>port. layer = ''UDP'' \<and> (sourcePort = port \<or> destinationPort = port))
        in udpHeaderRows bs layer l4Offset
           @ (if onPort 4789 \<or> onPort 8472 then addVxlanRows bs (l4Offset + 8) else [])
           @ (if onPort 2152 then addGtpuRows bs (l4Offset + 8) else [])
           @ (if onPort 53 then addDnsRows bs (l4Offset + 8) else [])
           @ (if onPort 67 \<or> onPort 68 then addDhcpRows bs (l4Offset + 8) else []))"
| "addVxlanRows bs vxlanOffset =
     (if \<not> rawPacketHasBytes bs vxlanOffset 8 then []
      else vxlanHeaderRows bs vxlanOffset @ addEthernetFrameRows bs (vxlanOffset + 8) ''VXLAN Inner'')"
| "addGtpuRows bs gtpuOffset =
     (if \<not> rawPacketHasBytes bs gtpuOffset 8 then []
      else
        let (optional, nextExtensionHeader, off) =
              gtpuOptionalRows bs (byteAt bs gtpuOffset) (gtpuOffset + 8);
            (extensions, payload) = gtpuExtensionRows 8 bs nextExtensionHeader off
        in gtpuHeaderRows bs gtpuOffset @ optional @ extensions
           @ (case payload of
                None \<Rightarrow> []
              | Some payloadOffset \<Rightarrow>
                  let innerVersion = js_shr (byteAt bs payloadOffset) 4 in
                  (if innerVersion = 4
                   then addIpv4Rows bs payloadOffset ''GTP-U Inner IPv4'' ''GTP-U Inner'' else [])
                  @ (if innerVersion = 6
                     then addIpv6Rows bs payloadOffset ''GTP-U Inner IPv6'' ''GTP-U Inner'' else [])))"
| "addEthernetFrameRows bs etherOffset prefix =
     (if \<not> rawPacketHasBytes bs etherOffset 14 then []
      else
        let (vlans, nestedEtherType, nestedL3Offset) =
              vlanRows 4 bs (prefix @ '' '') 0 (rawPacketWord bs (etherOffset + 12)) (etherOffset + 14)
        in etherRows bs (prefix @ '' Ethernet'') etherOffset @ vlans
           @ (if nestedEtherType = 0x0800
              then addIpv4Rows bs nestedL3Offset (prefix @ '' IPv4'') prefix else [])
           @ (if nestedEtherType = 0x86dd
              then addIpv6Rows bs nestedL3Offset (prefix @ '' IPv6'') prefix else [])
           @ (if nestedEtherType = 0x0806 then addArpRows bs nestedL3Offset (prefix @ '' ARP'') else []))"
| "addGreRows bs greOffset =
     (if \<not> rawPacketHasBytes bs greOffset 4 then []
      else
        let protocolType = rawPacketWord bs (greOffset + 2);
            (optional, payloadOffset) = greOptionalRows bs (rawPacketWord bs greOffset) (greOffset + 4)
        in greFlagRows bs greOffset @ optional
           @ (if protocolType = 0x0800 then addIpv4Rows bs payloadOffset ''Inner IPv4'' ''Inner'' else [])
           @ (if protocolType = 0x86dd then addIpv6Rows bs payloadOffset ''Inner IPv6'' ''Inner'' else []))"
| "addIpv6L4Rows bs nextHeader l4Offset l4Layer =
     (if nextHeader = 17 then addUdpRows bs l4Offset (l4Layer ''UDP'') else [])
     @ (if nextHeader = 6 then addTcpRows bs l4Offset (l4Layer ''TCP'') else [])
     @ (if nextHeader = 58 then addIcmpRows bs (l4Layer ''ICMPv6'') l4Offset else [])
     @ (if nextHeader = 132
        then addSctpRows bs l4Offset (l4Layer ''SCTP'') (l4Layer ''SCTP DATA'') (l4Layer ''SCTP Chunk'')
        else [])
     @ (if nextHeader = 47 then addGreRows bs l4Offset else [])"
| "addIpv6Rows bs ipv6Offset layer l4Prefix =
     (if \<not> rawPacketHasBytes bs ipv6Offset 40 then []
      else
        let (extensions, payload) = ipv6ExtensionRows 8 bs l4Prefix (\<lambda>name. 0)
              (byteAt bs (ipv6Offset + 6)) (ipv6Offset + 40)
        in ipv6HeaderRows bs layer ipv6Offset @ extensions
           @ (case payload of
                None \<Rightarrow> []
              | Some (nextHeader, l4Offset) \<Rightarrow> addIpv6L4Rows bs nextHeader l4Offset (prefixedLayer l4Prefix)))"
| "addIpv4Rows bs ipv4Offset layer l4Prefix =
     (if \<not> rawPacketHasBytes bs ipv4Offset 20 then []
      else
        let ipv4HeaderLength = js_and (byteAt bs ipv4Offset) 0x0f * 4 in
        if ipv4HeaderLength < 20 \<or> \<not> rawPacketHasBytes bs ipv4Offset ipv4HeaderLength then []
        else
          let l4Protocol = byteAt bs (ipv4Offset + 9);
              l4Offset = ipv4Offset + ipv4HeaderLength;
              l4Layer = prefixedLayer l4Prefix
          in ipv4HeaderRows bs layer ipv4Offset ipv4HeaderLength
             @ (if l4Protocol = 17 then addUdpRows bs l4Offset (l4Layer ''UDP'') else [])
             @ (if l4Protocol = 6 then addTcpRows bs l4Offset (l4Layer ''TCP'') else [])
             @ (if l4Protocol = 1 then addIcmpRows bs (l4Layer ''ICMP'') l4Offset else [])
             @ (if l4Protocol = 132
                then addSctpRows bs l4Offset (l4Layer ''SCTP'') (l4Layer ''SCTP DATA'') (l4Layer ''SCTP Chunk'')
                else [])
             @ (if l4Protocol = 47 then addGreRows bs l4Offset else []))"
  by pat_completeness auto

termination
  by (relation "measure (case_sum
        (case_sum
          (case_sum (\<lambda>(bs, off, _). 2 * bytesLeft bs off) (\<lambda>(bs, off). 2 * bytesLeft bs off))
          (case_sum (\<lambda>(bs, off). 2 * bytesLeft bs off) (\<lambda>(bs, off, _). 2 * bytesLeft bs off)))
        (case_sum
          (case_sum (\<lambda>(bs, off). 2 * bytesLeft bs off) (\<lambda>(bs, _, off, _). 2 * bytesLeft bs off + 1))
          (case_sum (\<lambda>(bs, off, _). 2 * bytesLeft bs off) (\<lambda>(bs, off, _). 2 * bytesLeft bs off))))")
    (auto intro!: bytesLeft_less rows_less dest!: rows_forward [OF sym])


declare addUdpRows.simps [simp del] addVxlanRows.simps [simp del] addGtpuRows.simps [simp del]
  addEthernetFrameRows.simps [simp del] addGreRows.simps [simp del] addIpv6L4Rows.simps [simp del]
  addIpv6Rows.simps [simp del] addIpv4Rows.simps [simp del]

definition buildRawPacketFieldRows :: "bytes \<Rightarrow> RawPacketFieldRow list" where
  "buildRawPacketFieldRows bs =
     (if length bs < 14 then []
      else
        let (vlans, etherType, l3Offset) = vlanRows 4 bs [] 0 (rawPacketWord bs 12) 14;
            (labels, next) =
              (if isMplsType etherType \<and> rawPacketHasBytes bs l3Offset 4
               then
                 let (rows, l3Offset') = mplsRows 8 bs 0 l3Offset;
                     version = js_shr (byteAt bs l3Offset') 4
                 in (rows, if version = 4 then Some (0x0800, l3Offset')
                           else if version = 6 then Some (0x86dd, l3Offset')
                           else None)
               else ([], Some (etherType, l3Offset)))
        in etherRows bs ''Ethernet'' 0 @ vlans @ labels
           @ (case next of
                None \<Rightarrow> []
              | Some (l3Type, l3) \<Rightarrow>
                  if l3Type = 0x0806 \<and> rawPacketHasBytes bs l3 28 then addArpRows bs l3 ''ARP''
                  else if l3Type = 0x86dd then addIpv6Rows bs l3 ''IPv6'' []
                  else if l3Type = 0x0800 then addIpv4Rows bs l3 ''IPv4'' []
                  else []))"

section \<open>Every row is right\<close>

lemma layerRows_ok:
  "is_bytes bs \<Longrightarrow> rowsOk bs (addUdpRows bs off layer)"
  "is_bytes bs \<Longrightarrow> rowsOk bs (addVxlanRows bs off)"
  "is_bytes bs \<Longrightarrow> rowsOk bs (addGtpuRows bs off)"
  "is_bytes bs \<Longrightarrow> rowsOk bs (addEthernetFrameRows bs off prefix)"
  "is_bytes bs \<Longrightarrow> rowsOk bs (addGreRows bs off)"
  "is_bytes bs \<Longrightarrow> rowsOk bs (addIpv6L4Rows bs h off naming)"
  "is_bytes bs \<Longrightarrow> rowsOk bs (addIpv6Rows bs off layer l4Prefix)"
  "is_bytes bs \<Longrightarrow> rowsOk bs (addIpv4Rows bs off layer l4Prefix)"
proof (induction bs off layer and bs off and bs off and bs off prefix and bs off
    and bs h off naming and bs off layer l4Prefix and bs off layer l4Prefix
    rule: addUdpRows_addVxlanRows_addGtpuRows_addEthernetFrameRows_addGreRows_addIpv6L4Rows_addIpv6Rows_addIpv4Rows.induct)
  case (1 bs off layer)
  then show ?case by (simp add: addUdpRows.simps [of bs off] rows_ok Let_def)
next
  case (2 bs off)
  then show ?case by (simp add: addVxlanRows.simps [of bs off] rows_ok)
next
  case (3 bs off)
  then show ?case
    by (auto simp: addGtpuRows.simps [of bs off] rows_ok Let_def split: prod.split option.split
        intro: gtpuOptionalRows_ok gtpuExtensionRows_ok)
next
  case (4 bs off prefix)
  then show ?case
    by (auto simp: addEthernetFrameRows.simps [of bs off] rows_ok Let_def split: prod.split intro: vlanRows_ok)
next
  case (5 bs off)
  then show ?case
    by (auto simp: addGreRows.simps [of bs off] rows_ok Let_def split: prod.split intro: greOptionalRows_ok)
next
  case (6 bs h off naming)
  then show ?case by (simp add: addIpv6L4Rows.simps [of bs h] rows_ok)
next
  case (7 bs off layer l4Prefix)
  then show ?case
    by (auto simp: addIpv6Rows.simps [of bs off] rows_ok Let_def split: prod.split option.split
        intro: ipv6ExtensionRows_ok)
next
  case (8 bs off layer l4Prefix)
  then show ?case by (simp add: addIpv4Rows.simps [of bs off] rows_ok Let_def)
qed

lemma buildRawPacketFieldRows_ok: "is_bytes bs \<Longrightarrow> rowsOk bs (buildRawPacketFieldRows bs)"
  by (auto simp: buildRawPacketFieldRows_def rows_ok layerRows_ok Let_def split: prod.splits option.splits if_splits
      intro: vlanRows_ok mplsRows_ok)

section \<open>The table and the dissector walk the same way\<close>

lemma vlanRows_skip: "snd (vlanRows n bs prefix k et off) = skipVlanTags n bs et off"
proof (induction n arbitrary: k et off)
  case (Suc n)
  from Suc.IH [of "k + 1" "rawPacketWord bs (off + 2)" "off + 4"] show ?case by (auto split: prod.split)
qed simp

lemma mplsRows_skip: "snd (mplsRows n bs k off) = skipMplsLabels n bs off"
proof (induction n arbitrary: k off)
  case (Suc n)
  from Suc.IH [of "k + 1" "off + 4"] show ?case by (auto simp: Let_def split: prod.split)
qed simp

lemma version_nibble: "is_bytes bs \<Longrightarrow> js_shr (byteAt bs off) 4 = js_ushr (byteAt bs off) 4"
  using byteAt_range [of bs off] by (simp add: js_shr_nonneg js_ushr_nonneg)

text \<open>Behind the link layer the table starts where the checksum repair starts.\<close>

lemma table_outer:
  assumes "is_bytes bs" "rawPacketEthernetL3Target bs 0 = Some e" "eth_etherType e = 0x0800 \<or> eth_etherType e = 0x86dd"
  shows "\<exists>front. buildRawPacketFieldRows bs = front @
    (if eth_etherType e = 0x0800 then addIpv4Rows bs (eth_l3Offset e) ''IPv4'' []
     else addIpv6Rows bs (eth_l3Offset e) ''IPv6'' [])"
proof -
  have n: "\<not> length bs < 14"
    using assms(2) by (auto simp: rawPacketEthernetL3Target_def rawPacketHasBytes_def split: if_split_asm)
  obtain vlans et l3 where v: "vlanRows 4 bs [] 0 (rawPacketWord bs 12) 14 = (vlans, et, l3)" by (metis prod_cases3)
  then have s: "skipVlanTags 4 bs (rawPacketWord bs 12) 14 = (et, l3)"
    using vlanRows_skip [of 4 bs "[]" 0 "rawPacketWord bs 12" 14] by simp
  obtain labels l3' where m: "mplsRows 8 bs 0 l3 = (labels, l3')" by (metis surj_pair)
  then have ms: "skipMplsLabels 8 bs l3 = l3'" using mplsRows_skip [of 8 bs 0 l3] by simp
  have e: "e = (if isMplsType et \<and> rawPacketHasBytes bs l3 4
      then \<lparr>eth_etherType = (if js_ushr (byteAt bs l3') 4 = 4 then 0x0800
              else if js_ushr (byteAt bs l3') 4 = 6 then 0x86dd else et), eth_l3Offset = l3'\<rparr>
      else \<lparr>eth_etherType = et, eth_l3Offset = l3\<rparr>)"
    using assms(2) s ms by (auto simp: rawPacketEthernetL3Target_def Let_def split: if_split_asm)
  show ?thesis
    using assms(3) n v m e
    by (auto simp: buildRawPacketFieldRows_def Let_def version_nibble [OF assms(1)] isMplsType_def split: if_splits)
qed

end
