(* ===== verification/FieldEdit.thy ===== *)
theory FieldEdit
  imports FieldTable RepairCorrect DnsDhcp
begin

text \<open>
  Editing a row of the packet field table: \<open>applyRawPacketFieldEdit\<close> reads the draft, parses the
  new text of the row, writes the bytes, repairs the checksums and prints the packet again.
\<close>

datatype RawPacketFieldApplyResult =
    FieldApplied (nextHex: string) (statusText: string)
  | FieldRejected (errorText: string)

definition applyRawPacketFieldEdit :: "string \<Rightarrow> RawPacketFieldRow \<Rightarrow> string \<Rightarrow> RawPacketFieldApplyResult" where
  "applyRawPacketFieldEdit rawPacketDraft row value =
     (case rawPacketBytesFromHex rawPacketDraft of
        None \<Rightarrow> FieldRejected ''Raw packet bytes are not valid for this field.''
      | Some bs \<Rightarrow>
          if \<not> rawPacketHasBytes bs (row_offset row) (row_length row)
          then FieldRejected ''Raw packet bytes are not valid for this field.''
          else
            case parseRawPacketFieldValue row value bs of
              None \<Rightarrow> FieldRejected (case rawPacketFieldError row value bs of
                Some e \<Rightarrow> e | None \<Rightarrow> ''Invalid field value.'')
            | Some fieldBytes \<Rightarrow>
                let patchedBytes = storeBytes bs (row_offset row) fieldBytes
                in FieldApplied (formatRawPacketHex (repairRawPacketChecksums patchedBytes))
                     (row_layer row @ '' '' @ row_field row @ '' updated at byte ''
                      @ decText (row_offset row) @ ''. Apply raw to save this packet.''))"

section \<open>The draft\<close>

lemma bytesFromHex_bytes:
  assumes "rawPacketBytesFromHex v = Some bs"
  shows "is_bytes bs" "bs \<noteq> []" "int (length bs) \<le> RAW_PACKET_MAX_BYTES"
proof -
  define c where "c = compactRawPacketHex v"
  have e: "rawPacketHexError v = None"
    and bs: "bs = map (\<lambda>p. case parseIntHex p of None \<Rightarrow> 0 | Some n \<Rightarrow> n) (hexPairs c)"
    using assms by (simp_all add: rawPacketBytesFromHex_def c_def split: if_split_asm)
  then have c: "c \<noteq> []" "list_all isHexDigit c" "even (length c)" "int (length c) \<le> 2 * RAW_PACKET_MAX_BYTES"
    unfolding rawPacketHexError_def c_def [symmetric] Let_def
    by (auto simp: list_ex_iff list_all_iff split: if_split_asm)
  have pairs: "length p = 2 \<and> list_all isHexDigit p" if "p \<in> set (hexPairs c)" for p
    using hexPairs_digits [OF c(3,2)] that by (auto simp: list_all_iff)
  have "map (\<lambda>p. case parseIntHex p of None \<Rightarrow> 0 | Some n \<Rightarrow> n) (hexPairs c) = map (parseRadix 16) (hexPairs c)"
  proof (rule map_cong [OF refl])
    fix p assume "p \<in> set (hexPairs c)"
    then have "list_all isHexDigit p" "p \<noteq> []" using pairs by fastforce+
    then show "(case parseIntHex p of None \<Rightarrow> 0 | Some n \<Rightarrow> n) = parseRadix 16 p"
      by (simp add: parseIntHex_digits)
  qed
  with bs have bs': "bs = map (parseRadix 16) (hexPairs c)" by simp
  show "is_bytes bs"
    unfolding bs' using pairs by (intro parseRadix_map_bytes) (auto simp: list_all_iff)
  have "length bs = length c div 2" unfolding bs' using hexPairs_length [OF c(3)] by simp
  then have l: "2 * length bs = length c" using c(3) by simp
  then show "bs \<noteq> []" "int (length bs) \<le> RAW_PACKET_MAX_BYTES" using c(1,4) by auto
qed

section \<open>The parsed bytes\<close>

lemma parse_row_bytes:
  assumes "is_bytes bs" "rowOk bs row" "parseRawPacketFieldValue row v bs = Some out"
  shows "is_bytes out \<and> int (length out) = row_length row"
proof (cases "row_mask row = None")
  case False
  have "0 \<le> row_length row" using assms(2) hasBytesD by (fastforce simp: rowOk_def)
  then show ?thesis
    using assms(3) False numberToBytes_facts
    by (auto simp: parseRawPacketFieldValue_def parsePacketMaskedNumberField_def packetNumberToBytes_def Let_def
        split: if_split_asm option.split_asm)
next
  case True
  have h: "rawPacketHasBytes bs (row_offset row) (row_length row)" using assms(2) by (simp add: rowOk_def)
  have shown: "parseRawPacketFieldValue row (row_value row) bs
      = Some (jsSlice bs (row_offset row) (row_offset row + row_length row))"
    using assms(2) by (simp add: rowOk_def)
  note l = length_slice_hasBytes [OF h]
  show ?thesis
    using assms(3) shown True l hasBytesD [OF h] mac.parse_bytes ipv4.parse_bytes ipv6.parse_bytes
      parseHex_bytes parseNumber_bytes
    by (cases "row_format row") (fastforce simp: parseRawPacketFieldValue_def)+
qed

text \<open>
  The bound that the error message of a number row prints is the exact one: a text is rejected
  just when it is no run of decimal digits or its value is larger.
\<close>

definition numberBound :: "RawPacketFieldRow \<Rightarrow> int" where
  "numberBound row = (case rawPacketMaskedMax row of None \<Rightarrow> 256 ^ nat (row_length row) - 1 | Some m \<Rightarrow> m)"

lemma digits_nonneg: "list_all isDecDigit s \<Longrightarrow> 0 \<le> parseRadix 10 s"
proof (induction s rule: rev_induct)
  case (snoc c s)
  then show ?case by (auto simp: parseRadix_snoc digitVal_def isDecDigit_def)
qed (simp add: parseRadix_def)

lemma number_row_rejects:
  assumes "rowOk bs row" "row_format row = FmtNumber"
  shows "parseRawPacketFieldValue row v bs = None \<longleftrightarrow>
    \<not> (jsTrim v \<noteq> [] \<and> list_all isDecDigit (jsTrim v) \<and> parseRadix 10 (jsTrim v) \<le> numberBound row)"
proof (cases "row_mask row")
  case None
  have l: "row_length row \<le> 6" using assms by (simp add: rowOk_def numberRowOk_def)
  have "(256 :: int) ^ nat (row_length row) \<le> 256 ^ 6" using l by (intro power_increasing) auto
  then have "(256 :: int) ^ nat (row_length row) - 1 \<le> MAX_SAFE_INTEGER" by (simp add: MAX_SAFE_INTEGER_def)
  with None assms(2) show ?thesis
    using digits_nonneg [of "jsTrim v"]
    by (auto simp: parseRawPacketFieldValue_def parsePacketNumberField_def numberBound_def rawPacketMaskedMax_def Let_def)
next
  case (Some m)
  have m: "maskedRow row m (shiftOf row)" using assms Some by (simp add: rowOk_def numberRowOk_def)
  have "numberBound row < 4294967296" "rawPacketMaskedMax row = Some (numberBound row)"
    using masked_upper [OF m] by (simp_all add: numberBound_def)
  moreover have "rawPacketHasBytes bs (row_offset row) (row_length row)" using assms(1) by (simp add: rowOk_def)
  ultimately show ?thesis
    using Some assms(2) digits_nonneg [of "jsTrim v"]
    by (auto simp: parseRawPacketFieldValue_def parsePacketMaskedNumberField_def Let_def MAX_SAFE_INTEGER_def)
qed

section \<open>Edits of the table\<close>

text \<open>An edit of a row that the table shows for the packet of the draft.\<close>

definition editedBytes :: "bytes \<Rightarrow> RawPacketFieldRow \<Rightarrow> bytes \<Rightarrow> bytes" where
  "editedBytes bs row out = repairRawPacketChecksums (storeBytes bs (row_offset row) out)"

lemma table_row_ok: "is_bytes bs \<Longrightarrow> row \<in> set (buildRawPacketFieldRows bs) \<Longrightarrow> rowOk bs row"
  using buildRawPacketFieldRows_ok by (auto simp: rowsOk_def list_all_iff)

lemma edit_accepted:
  assumes "rawPacketBytesFromHex draft = Some bs" "row \<in> set (buildRawPacketFieldRows bs)"
    and "parseRawPacketFieldValue row v bs = Some out"
  shows "\<exists>status. applyRawPacketFieldEdit draft row v = FieldApplied (formatRawPacketHex (editedBytes bs row out)) status"
    "rawPacketBytesFromHex (formatRawPacketHex (editedBytes bs row out)) = Some (editedBytes bs row out)"
    "is_bytes out" "rawPacketHasBytes bs (row_offset row) (int (length out))"
proof -
  note b = bytesFromHex_bytes [OF assms(1)]
  have ok: "rowOk bs row" by (rule table_row_ok [OF b(1) assms(2)])
  have out: "is_bytes out" "int (length out) = row_length row"
    using parse_row_bytes [OF b(1) ok assms(3)] by auto
  have h: "rawPacketHasBytes bs (row_offset row) (row_length row)" using ok by (simp add: rowOk_def)
  then have fits: "row_offset row + int (length out) \<le> int (length bs)" using hasBytesD [OF h] out(2) by simp
  show "\<exists>status. applyRawPacketFieldEdit draft row v = FieldApplied (formatRawPacketHex (editedBytes bs row out)) status"
    using assms h fits by (simp add: applyRawPacketFieldEdit_def editedBytes_def)
  have "is_bytes (editedBytes bs row out)" "length (editedBytes bs row out) = length bs"
    unfolding editedBytes_def using b(1) out(1) fits
    by (auto simp: repair_length intro!: repair_bytes is_bytes_storeBytes)
  with b show "rawPacketBytesFromHex (formatRawPacketHex (editedBytes bs row out)) = Some (editedBytes bs row out)"
    by (intro bytesFromHex_format) auto
  show "is_bytes out" "rawPacketHasBytes bs (row_offset row) (int (length out))" using out h by simp_all
qed

lemma edit_refused:
  assumes "rawPacketBytesFromHex draft = Some bs" "rawPacketHasBytes bs (row_offset row) (row_length row)"
    and "parseRawPacketFieldValue row v bs = None"
  shows "\<exists>e. rawPacketFieldError row v bs = Some e \<and> applyRawPacketFieldEdit draft row v = FieldRejected e"
  using assms
  by (cases "row_format row") (simp_all add: applyRawPacketFieldEdit_def rawPacketFieldError_def)

lemma edit_shown_value:
  assumes "rawPacketBytesFromHex draft = Some bs" "row \<in> set (buildRawPacketFieldRows bs)"
  shows "parseRawPacketFieldValue row (row_value row) bs
      = Some (jsSlice bs (row_offset row) (row_offset row + row_length row))"
    "editedBytes bs row (jsSlice bs (row_offset row) (row_offset row + row_length row)) = repairRawPacketChecksums bs"
proof -
  have ok: "rowOk bs row" by (rule table_row_ok [OF bytesFromHex_bytes(1) [OF assms(1)] assms(2)])
  then show "parseRawPacketFieldValue row (row_value row) bs
      = Some (jsSlice bs (row_offset row) (row_offset row + row_length row))" by (simp add: rowOk_def)
  have h: "rawPacketHasBytes bs (row_offset row) (row_length row)" using ok by (simp add: rowOk_def)
  show "editedBytes bs row (jsSlice bs (row_offset row) (row_offset row + row_length row)) = repairRawPacketChecksums bs"
    using hasBytesD [OF h] by (simp add: editedBytes_def storeBytes_slice_id)
qed

text \<open>
  The bytes of an edit up to the end of the outer IPv4 header: the written field and, where the
  header is still an IPv4 header, a right checksum; all else as before.
\<close>

lemma edit_outer_header:
  assumes "is_bytes bs" "is_bytes out" "rawPacketHasBytes bs (row_offset row) (int (length out))"
    and "outerIpv4 (storeBytes bs (row_offset row) out) off h" "j < off + h" "j \<noteq> off + 10" "j \<noteq> off + 11"
  shows "byteAt (editedBytes bs row out) j
    = (if row_offset row \<le> j \<and> j < row_offset row + int (length out) then out ! nat (j - row_offset row)
       else byteAt bs j)"
proof -
  have k: "headerKept (storeBytes bs (row_offset row) out) off h (editedBytes bs row out)"
    unfolding editedBytes_def using assms by (intro repair_keeps_header is_bytes_storeBytes)
  then have "byteAt (editedBytes bs row out) j = byteAt (storeBytes bs (row_offset row) out) j"
    using assms(5-7) by (simp add: headerKept_def)
  then show ?thesis using hasBytesD [OF assms(3)] by (simp add: byteOr_storeBytes)
qed


section \<open>The checksum row\<close>

lemma outer_header_rows:
  assumes "is_bytes bs" "outerIpv4 bs off h"
  shows "set (ipv4HeaderRows bs ''IPv4'' off h) \<subseteq> set (buildRawPacketFieldRows bs)"
    "20 \<le> h" "rawPacketHasBytes bs off h"
proof -
  obtain e where e: "rawPacketEthernetL3Target bs 0 = Some e" "eth_etherType e = 0x0800"
    "eth_l3Offset e = off" "rawIpv4HeaderLengthAt bs off = Some h" using assms(2) by (rule outerIpv4D)
  have r: "rawPacketHasBytes bs off 20" "js_and (byteAt bs off) 15 * 4 = h" "20 \<le> h" "rawPacketHasBytes bs off h"
    using e(4) by (auto simp: rawIpv4HeaderLengthAt_def nibbleLow_def Let_def split: if_splits)
  have "set (ipv4HeaderRows bs ''IPv4'' off h) \<subseteq> set (addIpv4Rows bs off ''IPv4'' [])"
    using r by (simp add: addIpv4Rows.simps [of bs off] Let_def split del: if_split)
  moreover have "set (addIpv4Rows bs off ''IPv4'' []) \<subseteq> set (buildRawPacketFieldRows bs)"
    using table_outer [OF assms(1) e(1)] e(2,3) by auto
  ultimately show "set (ipv4HeaderRows bs ''IPv4'' off h) \<subseteq> set (buildRawPacketFieldRows bs)" by blast
  show "20 \<le> h" "rawPacketHasBytes bs off h" using r by simp_all
qed

lemma outer_checksum_row:
  assumes "is_bytes bs" "outerIpv4 bs off h"
  shows "\<exists>row \<in> set (buildRawPacketFieldRows bs). row_layer row = ''IPv4'' \<and> row_field row = ''Checksum''
    \<and> row_offset row = off + 10 \<and> row_length row = 2 \<and> row_value row = formatPacketHexField bs (off + 10) 2"
proof -
  have c: "rawPacketHasBytes bs (off + 10) 2"
    using outer_header_rows(2,3) [OF assms] by (auto simp: rawPacketHasBytes_def)
  have "set (addHex bs ''IPv4'' ''Checksum'' (off + 10) 2) \<subseteq> set (ipv4HeaderRows bs ''IPv4'' off h)"
    by (simp only: ipv4HeaderRows_def set_append) blast
  moreover obtain row where "addHex bs ''IPv4'' ''Checksum'' (off + 10) 2 = [row]"
    "row_layer row = ''IPv4''" "row_field row = ''Checksum''" "row_offset row = off + 10" "row_length row = 2"
    "row_value row = formatPacketHexField bs (off + 10) 2"
    using c by (simp add: addHex_def addRow_def)
  ultimately show ?thesis using outer_header_rows(1) [OF assms] by auto
qed

section \<open>Names of the table and of the dissector\<close>

text \<open>Where the dissector accepts a DNS name, the table ends the name at the same place.\<close>

lemma skipDnsName_accepted: "dnsNameFrom n bs off pointers c = Some e \<Longrightarrow> skipDnsName n bs c = Some e"
proof (induction n arbitrary: c)
  case (Suc n)
  have "js_and 0 0xc0 = 0" by (simp add: js_and_int)
  with Suc show ?case by (auto simp: Let_def split: if_splits)
qed simp

end
