(* ===== verification/TargetMatch.thy ===== *)
theory TargetMatch
  imports FieldCodec
begin

text \<open>
  Which field-engine template a row of the packet field table offers to vary the field:
  \<open>rawPacketFieldAdvancedVmTarget\<close> scores the ready templates that write into the field by the
  words their names share with the row, and takes the best.
\<close>

text \<open>The parts of \<open>AdvancedVmTargetRow\<close> that the choice reads.\<close>

record AdvancedVmTargetRow =
  vmt_name :: string
  vmt_label :: string
  vmt_variables :: string
  vmt_ready :: bool
  vmt_writeOffsetValues :: "int list"

section \<open>Words\<close>

definition isLowerCase :: "char \<Rightarrow> bool" where
  "isLowerCase c \<longleftrightarrow> 97 \<le> codeOf c \<and> codeOf c \<le> 122"

definition isUpperCase :: "char \<Rightarrow> bool" where
  "isUpperCase c \<longleftrightarrow> 65 \<le> codeOf c \<and> codeOf c \<le> 90"

text \<open>\<open>replace(/([a-z])([A-Z])/g, "$1 $2")\<close>: an upper case letter starts no further match.\<close>

fun splitCamelCase :: "string \<Rightarrow> string" where
  "splitCamelCase [] = []"
| "splitCamelCase [c] = [c]"
| "splitCamelCase (c # d # s) =
     (if isLowerCase c \<and> isUpperCase d then c # CHR '' '' # splitCamelCase (d # s)
      else c # splitCamelCase (d # s))"

text \<open>\<open>toLowerCase\<close> on letters A to Z; it maps no other character to a letter or digit of a word.\<close>

definition toLowerCase :: "string \<Rightarrow> string" where
  "toLowerCase s = map (\<lambda>c. if isUpperCase c then char_of (nat (codeOf c + 32)) else c) s"

text \<open>\<open>replace(/don't/g, "dont")\<close>\<close>

fun replaceDont :: "string \<Rightarrow> string" where
  "replaceDont [] = []"
| "replaceDont (c # s) =
     (if take 5 (c # s) = ''don'' @ [CHR 0x27] @ ''t'' then ''dont'' @ replaceDont (drop 4 s)
      else c # replaceDont s)"

definition isWordChar :: "char \<Rightarrow> bool" where
  "isWordChar c \<longleftrightarrow> isLowerCase c \<or> isDecDigit c"

text \<open>\<open>split(/[^a-z0-9]+/).filter(Boolean)\<close>: the runs of letters and digits.\<close>

fun wordRuns :: "string \<Rightarrow> string list" where
  "wordRuns [] = [[]]"
| "wordRuns (c # s) = (if isWordChar c then consHead c (wordRuns s) else [] # wordRuns s)"

definition splitWords :: "string \<Rightarrow> string list" where
  "splitWords s = filter (\<lambda>w. w \<noteq> []) (wordRuns s)"

text \<open>A \<open>Set\<close> of tokens, in the order of insertion.\<close>

definition addToken :: "string \<Rightarrow> string list \<Rightarrow> string list" where
  "addToken token tokens = (if token \<in> set tokens then tokens else tokens @ [token])"

definition normalizedToken :: "string \<Rightarrow> string" where
  "normalizedToken token =
     (if token \<noteq> [] \<and> last token = CHR ''s'' \<and> length token > 3 then butlast token else token)"

definition addTokenForms :: "string list \<Rightarrow> string \<Rightarrow> string list" where
  "addTokenForms tokens token =
     (let t = normalizedToken token;
          extra = (if t = ''source'' then [''src'']
            else if t = ''destination'' then [''dst'']
            else if t = ''acknowledge'' then [''ack'']
            else if t = ''identification'' then [''id'']
            else if t = ''tc'' then [''traffic'', ''class'']
            else [])
      in foldl (\<lambda>acc x. addToken x acc) tokens (t # extra))"

definition addPairToken :: "string \<Rightarrow> string \<Rightarrow> string \<Rightarrow> string list \<Rightarrow> string list" where
  "addPairToken a b joined tokens = (if a \<in> set tokens \<and> b \<in> set tokens then addToken joined tokens else tokens)"

definition rawPacketFieldTargetTokens :: "string \<Rightarrow> string list" where
  "rawPacketFieldTargetTokens value =
     (let baseTokens = splitWords (replaceDont (toLowerCase (splitCamelCase value)));
          tokens = foldl addTokenForms [] baseTokens
      in addPairToken ''more'' ''fragment'' ''mf''
           (addPairToken ''dont'' ''fragment'' ''df''
             (addPairToken ''traffic'' ''class'' ''tc'' tokens)))"

section \<open>Scores\<close>

definition specificFlagRawPacketTargetTokens :: "string list" where
  "specificFlagRawPacketTargetTokens =
     [''ack'', ''autonomous'', ''authoritative'', ''available'', ''beginning'', ''broadcast'', ''change'',
      ''copied'', ''df'', ''desired'', ''ending'', ''fin'', ''i'', ''immediate'', ''managed'', ''mf'', ''on'',
      ''other'', ''override'', ''psh'', ''reserved'', ''response'', ''router'', ''rst'', ''solicited'', ''syn'',
      ''truncated'', ''unordered'', ''urg'']"

definition strongRawPacketTargetTokens :: "string list" where
  "strongRawPacketTargetTokens =
     [''ack'', ''autonomous'', ''authoritative'', ''available'', ''beginning'', ''broadcast'', ''cfi'', ''class'',
      ''code'', ''copied'', ''dei'', ''desired'', ''df'', ''dscp'', ''dst'', ''ecn'', ''ending'', ''fin'',
      ''fragment'', ''id'', ''identifier'', ''immediate'', ''label'', ''link'', ''mac'', ''managed'', ''mf'',
      ''number'', ''offset'', ''on'', ''opcode'', ''override'', ''other'', ''prefix'', ''priority'', ''psh'',
      ''recursion'', ''reserved'', ''response'', ''rst'', ''router'', ''sack'', ''solicited'', ''src'', ''syn'',
      ''tc'', ''teid'', ''traffic'', ''truncated'', ''ttl'', ''unordered'', ''urg'', ''vlan'', ''vni'']"

definition targetTokens :: "AdvancedVmTargetRow \<Rightarrow> string list" where
  "targetTokens targetRow = rawPacketFieldTargetTokens
     (vmt_name targetRow @ '' '' @ vmt_label targetRow @ '' '' @ vmt_variables targetRow)"

definition rawPacketFieldTargetScore :: "string list \<Rightarrow> AdvancedVmTargetRow \<Rightarrow> int" where
  "rawPacketFieldTargetScore rowTokens targetRow =
     sum_list (map (\<lambda>token. if token \<in> set (targetTokens targetRow)
       then (if token \<in> set strongRawPacketTargetTokens then 4 else 1) else 0) rowTokens)"

definition rawPacketFieldTargetSpecificTokensMatch :: "string list \<Rightarrow> AdvancedVmTargetRow \<Rightarrow> bool" where
  "rawPacketFieldTargetSpecificTokensMatch fieldTokens targetRow =
     (let tokens = targetTokens targetRow in
      if length fieldTokens = 1 \<and> ''option'' \<in> set fieldTokens \<and> ''option'' \<in> set tokens then False
      else
        let isFragmentFlagField =
              ''df'' \<in> set fieldTokens \<or> ''mf'' \<in> set fieldTokens \<or> ''reserved'' \<in> set fieldTokens
        in if isFragmentFlagField \<and> ''fragment'' \<in> set tokens \<and> ''offset'' \<in> set tokens then False
           else if \<not> ''flag'' \<in> set tokens then True
           else
             let specificTokens = filter (\<lambda>token. token \<in> set tokens) specificFlagRawPacketTargetTokens
             in if specificTokens = [] then True
                else list_ex (\<lambda>token. token \<in> set fieldTokens) specificTokens)"

section \<open>The choice\<close>

record TargetCandidate =
  cand_fieldScore :: int
  cand_index :: int
  cand_score :: int
  cand_targetRow :: AdvancedVmTargetRow

text \<open>The comparison of the sort: negative where \<open>left\<close> comes first.\<close>

definition compareCandidates :: "TargetCandidate \<Rightarrow> TargetCandidate \<Rightarrow> int" where
  "compareCandidates left right =
     (let scores = cand_score right - cand_score left;
          widths = int (length (vmt_writeOffsetValues (cand_targetRow left)))
            - int (length (vmt_writeOffsetValues (cand_targetRow right)))
      in if scores \<noteq> 0 then scores else if widths \<noteq> 0 then widths
         else cand_index left - cand_index right)"

text \<open>\<open>Array.prototype.sort\<close>: stable. Two candidates never compare equal, so the order is the only one.\<close>

fun insertCandidate :: "TargetCandidate \<Rightarrow> TargetCandidate list \<Rightarrow> TargetCandidate list" where
  "insertCandidate c [] = [c]"
| "insertCandidate c (d # ds) =
     (if compareCandidates c d \<le> 0 then c # d # ds else d # insertCandidate c ds)"

fun sortCandidates :: "TargetCandidate list \<Rightarrow> TargetCandidate list" where
  "sortCandidates [] = []"
| "sortCandidates (c # cs) = insertCandidate c (sortCandidates cs)"

definition writesInto :: "RawPacketFieldRow \<Rightarrow> AdvancedVmTargetRow \<Rightarrow> bool" where
  "writesInto row targetRow \<longleftrightarrow>
     vmt_ready targetRow
     \<and> list_ex (\<lambda>offset. offset \<ge> row_offset row \<and> offset < row_offset row + row_length row)
         (vmt_writeOffsetValues targetRow)"

definition targetCandidates :: "RawPacketFieldRow \<Rightarrow> AdvancedVmTargetRow list \<Rightarrow> TargetCandidate list" where
  "targetCandidates row targetRows =
     (let fieldTokens = rawPacketFieldTargetTokens (row_field row);
          rowTokens = rawPacketFieldTargetTokens (row_layer row @ '' '' @ row_field row);
          scored = map (\<lambda>(index, targetRow).
            \<lparr>cand_fieldScore = rawPacketFieldTargetScore fieldTokens targetRow, cand_index = int index,
             cand_score = rawPacketFieldTargetScore rowTokens targetRow, cand_targetRow = targetRow\<rparr>)
            (enumerate 0 (filter (writesInto row) targetRows))
      in filter (\<lambda>candidate. cand_fieldScore candidate > 0
           \<and> rawPacketFieldTargetSpecificTokensMatch fieldTokens (cand_targetRow candidate)) scored)"

definition rawPacketFieldAdvancedVmTarget :: "RawPacketFieldRow \<Rightarrow> AdvancedVmTargetRow list \<Rightarrow> AdvancedVmTargetRow option" where
  "rawPacketFieldAdvancedVmTarget row targetRows =
     (case sortCandidates (targetCandidates row targetRows) of
        [] \<Rightarrow> None
      | bestCandidate # rest \<Rightarrow> Some (cand_targetRow bestCandidate))"

section \<open>The best candidate wins\<close>

lemma insertCandidate_set [simp]: "set (insertCandidate c cs) = insert c (set cs)"
  by (induction cs) auto

lemma sortCandidates_set [simp]: "set (sortCandidates cs) = set cs"
  by (induction cs) simp_all

lemma compareCandidates_total: "compareCandidates a b \<le> 0 \<or> compareCandidates b a \<le> 0"
  by (auto simp: compareCandidates_def Let_def)

lemma compareCandidates_trans: "compareCandidates a b \<le> 0 \<Longrightarrow> compareCandidates b c \<le> 0 \<Longrightarrow> compareCandidates a c \<le> 0"
  by (auto simp: compareCandidates_def Let_def split: if_split_asm)

lemma insertCandidate_sorted:
  "sorted_wrt (\<lambda>a b. compareCandidates a b \<le> 0) cs \<Longrightarrow> sorted_wrt (\<lambda>a b. compareCandidates a b \<le> 0) (insertCandidate c cs)"
proof (induction cs)
  case (Cons d ds)
  then show ?case
    using compareCandidates_total [of c d] by (auto intro: compareCandidates_trans)
qed simp

lemma sortCandidates_sorted: "sorted_wrt (\<lambda>a b. compareCandidates a b \<le> 0) (sortCandidates cs)"
  by (induction cs) (simp_all add: insertCandidate_sorted)

lemma enumerate_mem: "(i, t) \<in> set (enumerate n xs) \<Longrightarrow> t \<in> set xs"
  by (auto simp: in_set_enumerate_eq)

lemma enumerate_has: "t \<in> set xs \<Longrightarrow> \<exists>i. (i, t) \<in> set (enumerate 0 xs)"
  unfolding in_set_enumerate_eq by (auto simp: in_set_conv_nth)

lemma candidate_facts:
  assumes "c \<in> set (targetCandidates row rows)"
  shows "cand_targetRow c \<in> set rows" "writesInto row (cand_targetRow c)"
    "cand_fieldScore c = rawPacketFieldTargetScore (rawPacketFieldTargetTokens (row_field row)) (cand_targetRow c)"
    "0 < cand_fieldScore c"
    "cand_score c = rawPacketFieldTargetScore (rawPacketFieldTargetTokens (row_layer row @ '' '' @ row_field row))
       (cand_targetRow c)"
    "rawPacketFieldTargetSpecificTokensMatch (rawPacketFieldTargetTokens (row_field row)) (cand_targetRow c)"
  using assms by (auto simp: targetCandidates_def Let_def dest!: enumerate_mem)

lemma candidate_of:
  assumes "t \<in> set rows" "writesInto row t"
    and "0 < rawPacketFieldTargetScore (rawPacketFieldTargetTokens (row_field row)) t"
    and "rawPacketFieldTargetSpecificTokensMatch (rawPacketFieldTargetTokens (row_field row)) t"
  shows "\<exists>c \<in> set (targetCandidates row rows). cand_targetRow c = t"
proof -
  obtain i where "(i, t) \<in> set (enumerate 0 (filter (writesInto row) rows))"
    using enumerate_has [of t "filter (writesInto row) rows"] assms(1,2) by auto
  with assms(3,4) show ?thesis
    by (auto simp: targetCandidates_def Let_def intro!: bexI [of _ "(i, t)"])
qed

lemma target_is_best:
  assumes "rawPacketFieldAdvancedVmTarget row rows = Some t"
  obtains c where "c \<in> set (targetCandidates row rows)" "cand_targetRow c = t"
    "\<forall>d \<in> set (targetCandidates row rows). compareCandidates c d \<le> 0"
proof -
  obtain c rest where s: "sortCandidates (targetCandidates row rows) = c # rest" "cand_targetRow c = t"
    using assms by (auto simp: rawPacketFieldAdvancedVmTarget_def split: list.splits)
  have m: "set (targetCandidates row rows) = insert c (set rest)"
    using sortCandidates_set [of "targetCandidates row rows"] s(1) by simp
  have "\<forall>d \<in> insert c (set rest). compareCandidates c d \<le> 0"
    using sortCandidates_sorted [of "targetCandidates row rows"] s(1) by (auto simp: compareCandidates_def)
  with m have "\<forall>d \<in> set (targetCandidates row rows). compareCandidates c d \<le> 0" by simp
  moreover have "c \<in> set (targetCandidates row rows)" using m by simp
  ultimately show ?thesis using s(2) by (intro that)
qed

lemma insertCandidate_nonempty [simp]: "insertCandidate c cs \<noteq> []"
  by (cases cs) auto

lemma no_target_iff: "rawPacketFieldAdvancedVmTarget row rows = None \<longleftrightarrow> targetCandidates row rows = []"
  by (cases "targetCandidates row rows")
    (auto simp: rawPacketFieldAdvancedVmTarget_def split: list.split)

end
