(* ===== verification/PacketPreview.thy ===== *)
theory PacketPreview
  imports HexText LinkLayer
begin

text \<open>
  The text the packet editor starts from: the packet the stream stores, or else the preview the
  backend rendered, by its lines, its base64 form or its run of hexadecimal digits.
\<close>

record ProfilePacketPreview =
  preview_binary_base64 :: string
  preview_hex :: string
  preview_hex_lines :: "string list"

definition previewRawPacketHex :: "ProfilePacketPreview option \<Rightarrow> string" where
  "previewRawPacketHex preview =
     (case preview of
        None \<Rightarrow> []
      | Some p \<Rightarrow>
          if preview_hex_lines p \<noteq> [] then joinWith [CHR 0x0A] (preview_hex_lines p)
          else if preview_binary_base64 p \<noteq> []
          then formatRawPacketHex (rawPacketBytesFromBase64 (Some (preview_binary_base64 p)))
          else if preview_hex p \<noteq> [] then joinWith '' '' (matchPairs (preview_hex p))
          else [])"

definition streamRawPacketHex :: "RawStream option \<Rightarrow> ProfilePacketPreview option \<Rightarrow> string" where
  "streamRawPacketHex stream preview =
     (case stream of
        None \<Rightarrow> previewRawPacketHex preview
      | Some s \<Rightarrow>
          (case packet_binary_base64 s of
             None \<Rightarrow> previewRawPacketHex preview
           | Some text \<Rightarrow>
               if text \<noteq> [] then formatRawPacketHex (rawPacketBytesFromBase64 (Some text))
               else previewRawPacketHex preview))"

lemma matchPairs_digits: "list_all isHexDigit s \<Longrightarrow> matchPairs s = hexPairs s"
proof (induction s rule: matchPairs.induct)
  case (3 a b cs)
  moreover have "\<not> isLineEnd c" if "isHexDigit c" for c
    using that by (auto simp: isLineEnd_def isHexDigit_def codeOf_def)
  ultimately show ?case by simp
qed (auto simp: isLineEnd_def isHexDigit_def codeOf_def)

lemma preview_hex_line:
  assumes "is_bytes bs"
  shows "joinWith '' '' (matchPairs (concat (map hexByte bs))) = hexLine bs"
proof -
  have "matchPairs (concat (map hexByte bs)) = map hexByte bs"
    using matchPairs_digits [OF concat_hexBytes_digits [OF assms]] assms
    by (auto simp: is_bytes_iff hexByte_length intro!: hexPairs_concat)
  then show ?thesis by (simp add: hexLine_def)
qed

lemma bytesFromHex_line:
  assumes "is_bytes bs" "bs \<noteq> []" "int (length bs) \<le> RAW_PACKET_MAX_BYTES"
  shows "rawPacketBytesFromHex (hexLine bs) = Some bs"
proof -
  let ?c = "concat (map hexByte bs)"
  have "splitLines (hexLine bs) = [hexLine bs]"
    using hexLine_chars [OF assms(1)] hex_not_char
    by (intro splitLines_no_end) (force simp: list_all_iff)
  moreover have "drop0x (hexLine bs) = hexLine bs"
    using hexLine_chars [OF assms(1), of "CHR ''x''"] hexLine_chars [OF assms(1), of "CHR ''X''"]
    by (intro drop0x_id) (auto simp: isHexDigit_def codeOf_def)
  ultimately have c: "compactRawPacketHex (hexLine bs) = ?c"
    using assms by (simp add: compactRawPacketHex_def Let_def stripLineOffset_hexLine filter_hexLine)
  have "length ?c = 2 * length bs" by (rule concat_hexBytes_length [OF assms(1)])
  with assms(2,3) have "rawPacketHexError (hexLine bs) = None"
    unfolding rawPacketHexError_def c Let_def
    using concat_hexBytes_digits [OF assms(1)] by (simp add: list_ex_iff list_all_iff)
  then show ?thesis
    by (simp add: rawPacketBytesFromHex_def c parse_hexBytes [OF assms(1)])
qed

text \<open>The editor's text of a stored or previewed packet reads back as the packet.\<close>

lemma stream_text_bytes:
  assumes "is_bytes bs" "bs \<noteq> []" "int (length bs) \<le> RAW_PACKET_MAX_BYTES"
  shows "rawPacketBytesFromHex (streamRawPacketHex (Some \<lparr>packet_binary_base64 = Some (encodeSextets bs)\<rparr>) p) = Some bs"
    "rawPacketBytesFromHex (streamRawPacketHex None
       (Some \<lparr>preview_binary_base64 = encodeSextets bs, preview_hex = h, preview_hex_lines = []\<rparr>)) = Some bs"
    "rawPacketBytesFromHex (streamRawPacketHex None
       (Some \<lparr>preview_binary_base64 = [], preview_hex = concat (map hexByte bs), preview_hex_lines = []\<rparr>)) = Some bs"
    "rawPacketBytesFromHex (streamRawPacketHex None
       (Some \<lparr>preview_binary_base64 = b, preview_hex = h, preview_hex_lines = hexLines bs\<rparr>)) = Some bs"
proof -
  have e: "encodeSextets bs \<noteq> []" using assms(2) by (cases bs rule: encodeSextets.cases) auto
  have c: "concat (map hexByte bs) \<noteq> []"
    using concat_hexBytes_length [OF assms(1)] assms(2) by fastforce
  show "rawPacketBytesFromHex (streamRawPacketHex (Some \<lparr>packet_binary_base64 = Some (encodeSextets bs)\<rparr>) p) = Some bs"
    using e by (simp add: streamRawPacketHex_def bytesFromBase64_encode assms(1) bytesFromHex_format [OF assms])
  show "rawPacketBytesFromHex (streamRawPacketHex None
       (Some \<lparr>preview_binary_base64 = encodeSextets bs, preview_hex = h, preview_hex_lines = []\<rparr>)) = Some bs"
    using e by (simp add: streamRawPacketHex_def previewRawPacketHex_def bytesFromBase64_encode assms(1)
        bytesFromHex_format [OF assms])
  show "rawPacketBytesFromHex (streamRawPacketHex None
       (Some \<lparr>preview_binary_base64 = [], preview_hex = concat (map hexByte bs), preview_hex_lines = []\<rparr>)) = Some bs"
    using c bytesFromHex_line [OF assms]
    by (simp add: streamRawPacketHex_def previewRawPacketHex_def preview_hex_line [OF assms(1)] del: concat_eq_Nil_conv)
  show "rawPacketBytesFromHex (streamRawPacketHex None
       (Some \<lparr>preview_binary_base64 = b, preview_hex = h, preview_hex_lines = hexLines bs\<rparr>)) = Some bs"
    using hexLines_nonempty [OF assms(2)] bytesFromHex_format [OF assms]
    by (simp add: streamRawPacketHex_def previewRawPacketHex_def formatRawPacketHex_def)
qed

end
