(* ===== verification/TableProperties.thy ===== *)
theory TableProperties
  imports RepairProperties FieldEdit TargetMatch PacketPreview
begin

text \<open>
  The properties of the packet editor: its text forms, the field table, the edits of a row and
  the template offered for a row.
\<close>

section \<open>A row to try them on\<close>

definition sampleTtlRow :: RawPacketFieldRow where
  "sampleTtlRow = \<lparr>row_id = ''IPv4:TTL:22:1'', row_layer = ''IPv4'', row_field = ''TTL'', row_offset = 22,
     row_length = 1, row_format = FmtNumber, row_value = ''64'', row_mask = None, row_shift = None\<rparr>"

lemma sampleTtlRow_shown: "sampleTtlRow \<in> set (buildRawPacketFieldRows sampleTcp)"
proof -
  have "addNumber sampleTcp ''IPv4'' ''TTL'' (14 + 8) 1 = [sampleTtlRow]" by code_simp
  then have "sampleTtlRow \<in> set (addNumber sampleTcp ''IPv4'' ''TTL'' (14 + 8) 1)" by simp
  then have "sampleTtlRow \<in> set (ipv4HeaderRows sampleTcp ''IPv4'' 14 20)"
    by (simp only: ipv4HeaderRows_def set_append) blast
  then show ?thesis using outer_header_rows(1) [OF sampleTcp_bytes sampleTcp_outer] by blast
qed

definition sampleDraft :: string where
  "sampleDraft = formatRawPacketHex sampleTcp"

lemma sampleTcp_size: "sampleTcp \<noteq> []" "int (length sampleTcp) \<le> RAW_PACKET_MAX_BYTES"
  by (simp_all add: sampleTcp_def RAW_PACKET_MAX_BYTES_def)

lemma sampleDraft_bytes: "rawPacketBytesFromHex sampleDraft = Some sampleTcp"
  unfolding sampleDraft_def by (rule bytesFromHex_format [OF sampleTcp_bytes sampleTcp_size])

lemma sampleTtl_parse: "parseRawPacketFieldValue sampleTtlRow ''9'' sampleTcp = Some [9]"
  by code_simp

section \<open>The text of a packet\<close>

text \<open>
  C8. The hexadecimal text the editor prints for a packet reads back as the packet, and the text
  saved from it, in base64, decodes to the same bytes: for every packet of 1 to 9212 bytes.
\<close>

theorem packet_text_roundtrip:
  assumes "is_bytes bs" "bs \<noteq> []" "int (length bs) \<le> RAW_PACKET_MAX_BYTES"
  shows "rawPacketBytesFromHex (formatRawPacketHex bs) = Some bs
    \<and> rawPacketHexError (formatRawPacketHex bs) = None
    \<and> rawPacketBytesFromBase64 (Some (rawPacketHexToBase64 (formatRawPacketHex bs))) = bs"
  using assms by (simp add: bytesFromHex_format hexError_format hexToBase64_format bytesFromBase64_encode)

theorem packet_text_roundtrip_witness:
  "rawPacketBytesFromBase64 (Some (rawPacketHexToBase64 (formatRawPacketHex sampleTcp))) = sampleTcp"
  using packet_text_roundtrip [OF sampleTcp_bytes sampleTcp_size] by simp

text \<open>
  C9. What the editor accepts is a packet: whatever text is in the editor, if it is accepted its
  bytes are in range, there is at least one and there are at most 9212, and the normal form
  printed for them reads back the same.
\<close>

theorem accepted_text_is_packet:
  assumes "rawPacketHexError v = None"
  shows "\<exists>bs. rawPacketBytesFromHex v = Some bs \<and> is_bytes bs \<and> 1 \<le> length bs \<and> length bs \<le> 9212
    \<and> rawPacketBytesFromHex (formatRawPacketHex bs) = Some bs"
proof -
  obtain bs where bs: "rawPacketBytesFromHex v = Some bs"
    using assms by (simp add: rawPacketBytesFromHex_def)
  note b = bytesFromHex_bytes [OF bs]
  with bs bytesFromHex_format [OF b] show ?thesis
    by (auto simp: RAW_PACKET_MAX_BYTES_def Suc_le_eq)
qed

theorem accepted_text_is_packet_witness:
  "\<exists>bs. rawPacketBytesFromHex ''0000: de-AD 0xbe,ef'' = Some bs \<and> 1 \<le> length bs"
proof -
  have "rawPacketHexError ''0000: de-AD 0xbe,ef'' = None" by code_simp
  from accepted_text_is_packet [OF this] show ?thesis by blast
qed

text \<open>
  Whether the packet comes from the stream, from the base64 form of a preview, from its
  digits or from its lines, the editor starts with a text of that packet.
\<close>

theorem editor_starts_with_packet:
  assumes "is_bytes bs" "bs \<noteq> []" "int (length bs) \<le> RAW_PACKET_MAX_BYTES"
  shows "rawPacketBytesFromHex (streamRawPacketHex (streamOf bs) p) = Some bs
    \<and> rawPacketBytesFromHex (streamRawPacketHex None
        (Some \<lparr>preview_binary_base64 = encodeSextets bs, preview_hex = h, preview_hex_lines = []\<rparr>)) = Some bs
    \<and> rawPacketBytesFromHex (streamRawPacketHex None
        (Some \<lparr>preview_binary_base64 = [], preview_hex = concat (map hexByte bs), preview_hex_lines = []\<rparr>)) = Some bs
    \<and> rawPacketBytesFromHex (streamRawPacketHex None
        (Some \<lparr>preview_binary_base64 = b, preview_hex = h, preview_hex_lines = hexLines bs\<rparr>)) = Some bs"
  unfolding streamOf_def using stream_text_bytes [OF assms] by simp

theorem editor_starts_with_packet_witness:
  "rawPacketBytesFromHex (streamRawPacketHex (streamOf sampleTcp) None) = Some sampleTcp"
  using editor_starts_with_packet [OF sampleTcp_bytes sampleTcp_size] by simp

section \<open>The field table\<close>

text \<open>
  C10. Every row of the table, of whatever layer and at whatever depth of tunnels, lies inside the
  packet, and its text parses back to exactly the bytes it stands for. Its identifier is layer,
  field, offset and length.
\<close>

theorem table_rows_faithful:
  assumes "is_bytes bs" "row \<in> set (buildRawPacketFieldRows bs)"
  shows "0 \<le> row_offset row \<and> 0 < row_length row \<and> row_offset row + row_length row \<le> int (length bs)
    \<and> parseRawPacketFieldValue row (row_value row) bs
        = Some (jsSlice bs (row_offset row) (row_offset row + row_length row))
    \<and> row_id row = row_layer row @ '':'' @ row_field row @ '':'' @ decText (row_offset row) @ '':''
        @ decText (row_length row)"
  using table_row_ok [OF assms] by (auto simp: rowOk_def dest: hasBytesD)

theorem table_rows_faithful_witness: "parseRawPacketFieldValue sampleTtlRow ''64'' sampleTcp = Some [64]"
proof -
  have "row_value sampleTtlRow = ''64''"
    "jsSlice sampleTcp (row_offset sampleTtlRow) (row_offset sampleTtlRow + row_length sampleTtlRow) = [64]"
    by code_simp+
  then show ?thesis using table_rows_faithful [OF sampleTcp_bytes sampleTtlRow_shown] by simp
qed

text \<open>
  C11. Behind Ethernet, VLAN tags and MPLS labels the table shows the network layer at the very
  offset where the checksum repair and the other dissectors find it.
\<close>

theorem table_agrees_with_dissector:
  assumes "is_bytes bs" "rawPacketEthernetL3Target bs 0 = Some e"
    and "eth_etherType e = 0x0800 \<or> eth_etherType e = 0x86dd"
  shows "\<exists>front. buildRawPacketFieldRows bs = front @
    (if eth_etherType e = 0x0800 then addIpv4Rows bs (eth_l3Offset e) ''IPv4'' []
     else addIpv6Rows bs (eth_l3Offset e) ''IPv6'' [])"
  using assms by (rule table_outer)

theorem table_agrees_with_dissector_witness:
  "\<exists>front. buildRawPacketFieldRows sampleTcp = front @ addIpv4Rows sampleTcp 14 ''IPv4'' []"
proof -
  obtain e where "rawPacketEthernetL3Target sampleTcp 0 = Some e" "eth_etherType e = 0x0800" "eth_l3Offset e = 14"
    using sampleTcp_outer by (rule outerIpv4D)
  then show ?thesis using table_agrees_with_dissector [OF sampleTcp_bytes, of e] by simp
qed

text \<open>
  After a repair the table has a row for the outer IPv4 checksum, and what it shows is the
  checksum of the header.
\<close>

theorem repaired_table_checksum:
  assumes "is_bytes bs" "outerIpv4 bs off h"
  shows "\<exists>row \<in> set (buildRawPacketFieldRows (repairRawPacketChecksums bs)).
      row_layer row = ''IPv4'' \<and> row_field row = ''Checksum'' \<and> row_offset row = off + 10
      \<and> row_value row = formatPacketHexField (repairRawPacketChecksums bs) (off + 10) 2
      \<and> rawPacketWord (repairRawPacketChecksums bs) (off + 10)
          = rawIpv4HeaderChecksum (repairRawPacketChecksums bs) off h"
  using outer_checksum_row [OF repair_bytes [OF assms(1)] outer_header_word(1) [OF assms]]
    outer_header_word(2) [OF assms] by auto

theorem repaired_table_checksum_witness:
  "\<exists>row \<in> set (buildRawPacketFieldRows (repairRawPacketChecksums sampleTcp)). row_offset row = 24"
  using repaired_table_checksum [OF sampleTcp_bytes sampleTcp_outer] by auto

text \<open>
  Where the dissector accepts a DNS name, with or without compression pointers, the table
  ends the name at the same byte, so the fields behind it are shown in the right place.
\<close>

theorem table_dns_names_agree:
  assumes "rawDnsNameEnd bs off pointers = Some e"
  shows "skipDnsName 64 bs off = Some e"
  using assms unfolding rawDnsNameEnd_def by (rule skipDnsName_accepted)

theorem table_dns_names_agree_witness: "skipDnsName 64 [3, 119, 119, 119, 0] 0 = Some 5"
  by (rule table_dns_names_agree [of _ _ False]) code_simp

section \<open>Editing a row\<close>

text \<open>
  C12. Writing the shown text of a row back changes nothing: the edit is accepted and gives the
  packet with its checksums repaired.
\<close>

theorem edit_shown_text:
  assumes "rawPacketBytesFromHex draft = Some bs" "row \<in> set (buildRawPacketFieldRows bs)"
  shows "\<exists>status. applyRawPacketFieldEdit draft row (row_value row)
    = FieldApplied (formatRawPacketHex (repairRawPacketChecksums bs)) status"
  using edit_accepted(1) [OF assms edit_shown_value(1) [OF assms]] edit_shown_value(2) [OF assms] by simp

theorem edit_shown_text_witness:
  "\<exists>status. applyRawPacketFieldEdit sampleDraft sampleTtlRow ''64''
    = FieldApplied (formatRawPacketHex (repairRawPacketChecksums sampleTcp)) status"
  using edit_shown_text [OF sampleDraft_bytes sampleTtlRow_shown] by (simp add: sampleTtlRow_def)

text \<open>
  C13. An edit of the outer IPv4 header, or of a header before it, of any format: the new draft
  reads back as a packet of the old length; as long as the packet is still IPv4 at that place,
  the field holds the written bytes, the header checksum closes, and no other byte up to the
  end of the header has changed. The row is clear of the checksum itself.
\<close>

theorem edit_outer_field:
  assumes "rawPacketBytesFromHex draft = Some bs" "row \<in> set (buildRawPacketFieldRows bs)"
    and "parseRawPacketFieldValue row v bs = Some out"
    and "outerIpv4 (storeBytes bs (row_offset row) out) off h"
  shows "\<exists>hex status next. applyRawPacketFieldEdit draft row v = FieldApplied hex status
    \<and> rawPacketBytesFromHex hex = Some next \<and> length next = length bs
    \<and> rawPacketOnesComplementClosure next off h = 0xffff
    \<and> (\<forall>j. j < off + h \<and> j \<noteq> off + 10 \<and> j \<noteq> off + 11 \<longrightarrow> byteAt next j
        = (if row_offset row \<le> j \<and> j < row_offset row + row_length row then out ! nat (j - row_offset row)
           else byteAt bs j))"
proof -
  note a = edit_accepted [OF assms(1-3)]
  note b = bytesFromHex_bytes [OF assms(1)]
  have out: "int (length out) = row_length row"
    using parse_row_bytes [OF b(1) table_row_ok [OF b(1) assms(2)] assms(3)] by simp
  have p: "is_bytes (storeBytes bs (row_offset row) out)" by (rule is_bytes_storeBytes [OF b(1) a(3)])
  have "length (editedBytes bs row out) = length bs"
    using hasBytesD [OF a(4)] by (simp add: editedBytes_def repair_length)
  moreover have "rawPacketOnesComplementClosure (editedBytes bs row out) off h = 0xffff"
    unfolding editedBytes_def by (rule outer_header_closes [OF p assms(4)])
  ultimately show ?thesis
    using a(1,2) edit_outer_header [OF b(1) a(3,4) assms(4)] out by auto
qed

theorem edit_outer_field_witness:
  "\<exists>hex status next. applyRawPacketFieldEdit sampleDraft sampleTtlRow ''9'' = FieldApplied hex status
    \<and> rawPacketBytesFromHex hex = Some next \<and> byteAt next 22 = 9"
proof -
  have o: "outerIpv4 (storeBytes sampleTcp (row_offset sampleTtlRow) [9]) 14 20" by code_simp
  from edit_outer_field [OF sampleDraft_bytes sampleTtlRow_shown sampleTtl_parse o] obtain hex status "next" where
    n: "applyRawPacketFieldEdit sampleDraft sampleTtlRow ''9'' = FieldApplied hex status"
      "rawPacketBytesFromHex hex = Some next"
      "\<forall>j. j < 14 + 20 \<and> j \<noteq> 14 + 10 \<and> j \<noteq> 14 + 11 \<longrightarrow> byteAt next j
        = (if row_offset sampleTtlRow \<le> j \<and> j < row_offset sampleTtlRow + row_length sampleTtlRow
           then [9] ! nat (j - row_offset sampleTtlRow) else byteAt sampleTcp j)"
    by blast
  from n(3) have "byteAt next 22 = 9" by (auto simp: sampleTtlRow_def)
  with n(1,2) show ?thesis by blast
qed

text \<open>
  C14. The bound in the error message of a number row is exact: a text is refused just when it is
  not a run of decimal digits (blanks around it aside) or its value is beyond the bound, and the
  message names that bound. For a part of a byte or word the bound is that of the part.
\<close>

theorem number_edit_errors:
  assumes "rawPacketBytesFromHex draft = Some bs" "row \<in> set (buildRawPacketFieldRows bs)"
    and "row_format row = FmtNumber"
  shows "applyRawPacketFieldEdit draft row v = FieldRejected (''Expected decimal 0-'' @ decText (numberBound row) @ ''.'')
    \<longleftrightarrow> \<not> (jsTrim v \<noteq> [] \<and> list_all isDecDigit (jsTrim v) \<and> parseRadix 10 (jsTrim v) \<le> numberBound row)"
proof -
  have ok: "rowOk bs row" by (rule table_row_ok [OF bytesFromHex_bytes(1) [OF assms(1)] assms(2)])
  have iff: "parseRawPacketFieldValue row v bs = None \<longleftrightarrow>
    \<not> (jsTrim v \<noteq> [] \<and> list_all isDecDigit (jsTrim v) \<and> parseRadix 10 (jsTrim v) \<le> numberBound row)"
    by (rule number_row_rejects [OF ok assms(3)])
  show ?thesis
  proof (cases "parseRawPacketFieldValue row v bs")
    case None
    then have "applyRawPacketFieldEdit draft row v = FieldRejected (''Expected decimal 0-'' @ decText (numberBound row) @ ''.'')"
      using edit_refused [OF assms(1) _ None] ok assms(3)
      by (auto simp: rowOk_def rawPacketFieldError_def numberBound_def)
    with iff None show ?thesis by simp
  next
    case (Some out)
    then show ?thesis using iff edit_accepted(1) [OF assms(1,2) Some] by auto
  qed
qed

theorem number_edit_errors_witness:
  "applyRawPacketFieldEdit sampleDraft sampleTtlRow ''256'' = FieldRejected ''Expected decimal 0-255.''"
proof -
  have "numberBound sampleTtlRow = 255" "decText 255 = ''255''"
    "\<not> (jsTrim ''256'' \<noteq> [] \<and> list_all isDecDigit (jsTrim ''256'') \<and> parseRadix 10 (jsTrim ''256'') \<le> 255)"
    "row_format sampleTtlRow = FmtNumber" by code_simp+
  with number_edit_errors [OF sampleDraft_bytes sampleTtlRow_shown, of "''256''"] show ?thesis by simp
qed

section \<open>The template of a row\<close>

text \<open>
  C15. The template offered to vary the field of a row is one of the ready templates that write
  into the field and share a word with it, and none of those has a higher score, or the same
  score and fewer written bytes.
\<close>

theorem offered_template_is_best:
  assumes "rawPacketFieldAdvancedVmTarget row rows = Some t"
  shows "t \<in> set rows \<and> writesInto row t
    \<and> 0 < rawPacketFieldTargetScore (rawPacketFieldTargetTokens (row_field row)) t
    \<and> (\<forall>u \<in> set rows. writesInto row u
        \<and> 0 < rawPacketFieldTargetScore (rawPacketFieldTargetTokens (row_field row)) u
        \<and> rawPacketFieldTargetSpecificTokensMatch (rawPacketFieldTargetTokens (row_field row)) u
        \<longrightarrow> (let rowTokens = rawPacketFieldTargetTokens (row_layer row @ '' '' @ row_field row) in
             rawPacketFieldTargetScore rowTokens u < rawPacketFieldTargetScore rowTokens t
             \<or> (rawPacketFieldTargetScore rowTokens u = rawPacketFieldTargetScore rowTokens t
                 \<and> length (vmt_writeOffsetValues t) \<le> length (vmt_writeOffsetValues u))))"
proof -
  obtain c where c: "c \<in> set (targetCandidates row rows)" "cand_targetRow c = t"
    "\<forall>d \<in> set (targetCandidates row rows). compareCandidates c d \<le> 0"
    using assms by (rule target_is_best)
  note f = candidate_facts [OF c(1)]
  have "rawPacketFieldTargetScore (rawPacketFieldTargetTokens (row_layer row @ '' '' @ row_field row)) u
        < cand_score c
      \<or> (rawPacketFieldTargetScore (rawPacketFieldTargetTokens (row_layer row @ '' '' @ row_field row)) u = cand_score c
          \<and> length (vmt_writeOffsetValues t) \<le> length (vmt_writeOffsetValues u))"
    if u: "u \<in> set rows" "writesInto row u"
      "0 < rawPacketFieldTargetScore (rawPacketFieldTargetTokens (row_field row)) u"
      "rawPacketFieldTargetSpecificTokensMatch (rawPacketFieldTargetTokens (row_field row)) u" for u
  proof -
    obtain d where d: "d \<in> set (targetCandidates row rows)" "cand_targetRow d = u"
      using candidate_of [OF u] by blast
    have "compareCandidates c d \<le> 0" using c(3) d(1) by simp
    then show ?thesis
      using candidate_facts(5) [OF d(1)] d(2) c(2)
      by (auto simp: compareCandidates_def Let_def split: if_split_asm)
  qed
  then show ?thesis using f c(2) by (auto simp: Let_def)
qed

definition sampleTemplates :: "AdvancedVmTargetRow list" where
  "sampleTemplates =
     [\<lparr>vmt_name = ''ipv4_tos'', vmt_label = ''IPv4 TOS'', vmt_variables = ''tos'', vmt_ready = True,
       vmt_writeOffsetValues = [15]\<rparr>,
      \<lparr>vmt_name = ''ttl_sweep'', vmt_label = ''IPv4 TTL'', vmt_variables = ''ttl'', vmt_ready = True,
       vmt_writeOffsetValues = [22]\<rparr>]"

theorem offered_template_is_best_witness:
  "rawPacketFieldAdvancedVmTarget sampleTtlRow sampleTemplates = Some (sampleTemplates ! 1)
   \<and> writesInto sampleTtlRow (sampleTemplates ! 1)"
proof -
  have t: "rawPacketFieldAdvancedVmTarget sampleTtlRow sampleTemplates = Some (sampleTemplates ! 1)" by code_simp
  with offered_template_is_best [OF t] show ?thesis by simp
qed

text \<open>
  No template is offered just when no ready template writes into the field, shares a word
  with its name and passes the check on flag names.
\<close>

theorem no_template_offered:
  "rawPacketFieldAdvancedVmTarget row rows = None \<longleftrightarrow>
     (\<nexists>t. t \<in> set rows \<and> writesInto row t
        \<and> 0 < rawPacketFieldTargetScore (rawPacketFieldTargetTokens (row_field row)) t
        \<and> rawPacketFieldTargetSpecificTokensMatch (rawPacketFieldTargetTokens (row_field row)) t)"
proof
  assume "rawPacketFieldAdvancedVmTarget row rows = None"
  then have "targetCandidates row rows = []" by (simp add: no_target_iff)
  with candidate_of [of _ rows row] show "\<nexists>t. t \<in> set rows \<and> writesInto row t
        \<and> 0 < rawPacketFieldTargetScore (rawPacketFieldTargetTokens (row_field row)) t
        \<and> rawPacketFieldTargetSpecificTokensMatch (rawPacketFieldTargetTokens (row_field row)) t" by auto
next
  assume none: "\<nexists>t. t \<in> set rows \<and> writesInto row t
        \<and> 0 < rawPacketFieldTargetScore (rawPacketFieldTargetTokens (row_field row)) t
        \<and> rawPacketFieldTargetSpecificTokensMatch (rawPacketFieldTargetTokens (row_field row)) t"
  have "c \<notin> set (targetCandidates row rows)" for c
    using none candidate_facts [of c row rows] by auto
  then have "set (targetCandidates row rows) = {}" by (intro equals0I) (rule notE)
  then show "rawPacketFieldAdvancedVmTarget row rows = None" by (simp only: no_target_iff set_empty)
qed

end
