(* ===== verification/JsCollections.thy ===== *)
theory JsCollections
  imports JsText "HOL-Library.List_Lexorder" "HOL-Library.Char_ord"
begin

text \<open>
  Sets, maps and early returns of the run components: \<open>new Set(xs)\<close> in the order of insertion,
  sorted comparison of two lists as sets, \<open>new Map(pairs)\<close>, and chains of checks of which the
  first that fails gives the message.
\<close>

section \<open>Sets in the order of insertion\<close>

definition setOf :: "'a list \<Rightarrow> 'a list" where
  "setOf xs = rev (remdups (rev xs))"

lemma set_setOf [simp]: "set (setOf xs) = set xs"
  by (simp add: setOf_def)

lemma distinct_setOf [simp]: "distinct (setOf xs)"
  by (simp add: setOf_def)

lemma setOf_size: "length (setOf xs) = length xs \<longleftrightarrow> distinct xs"
  using card_distinct distinct_card by (auto simp: setOf_def length_remdups_card_conv)

lemma setOf_eq_Nil [simp]: "setOf xs = [] \<longleftrightarrow> xs = []"
  by (simp add: setOf_def)

text \<open>The elements of a \<open>Set\<close>, sorted.\<close>

definition sortedSet :: "('a :: linorder) list \<Rightarrow> 'a list" where
  "sortedSet xs = sort (setOf xs)"

lemma set_sortedSet [simp]: "set (sortedSet xs) = set xs"
  by (simp add: sortedSet_def)

lemma sortedSet_sorted: "sorted (sortedSet xs)" "distinct (sortedSet xs)"
  by (simp_all add: sortedSet_def)

lemma sortedSet_eq_iff: "sortedSet xs = sortedSet ys \<longleftrightarrow> set xs = set ys"
proof
  assume "sortedSet xs = sortedSet ys"
  then show "set xs = set ys" by (metis set_sortedSet)
next
  assume "set xs = set ys"
  then show "sortedSet xs = sortedSet ys"
    using sortedSet_sorted [of xs] sortedSet_sorted [of ys] by (intro sorted_distinct_set_unique) auto
qed

text \<open>The comparison by length and position.\<close>

definition sameElements :: "'a list \<Rightarrow> 'a list \<Rightarrow> bool" where
  "sameElements xs ys \<longleftrightarrow> length xs = length ys \<and> list_all (\<lambda>(x, y). x = y) (zip xs ys)"

lemma sameElements_eq [simp]: "sameElements xs ys \<longleftrightarrow> xs = ys"
proof -
  have "length xs = length ys \<Longrightarrow> list_all (\<lambda>(x, y). x = y) (zip xs ys) \<longleftrightarrow> xs = ys"
    by (induction xs ys rule: list_induct2) auto
  then show ?thesis by (auto simp: sameElements_def)
qed

section \<open>Maps\<close>

text \<open>\<open>new Map(pairs)\<close>: of two pairs with one key the later counts.\<close>

definition mapFrom :: "('k \<times> 'v) list \<Rightarrow> 'k \<Rightarrow> 'v option" where
  "mapFrom pairs = map_of (rev pairs)"

lemma mapFrom_mem: "mapFrom pairs k = Some v \<Longrightarrow> (k, v) \<in> set pairs"
  by (auto simp: mapFrom_def dest: map_of_SomeD)

lemma mapFrom_unique: "distinct (map fst pairs) \<Longrightarrow> mapFrom pairs k = Some v \<longleftrightarrow> (k, v) \<in> set pairs"
  by (simp add: mapFrom_def rev_map [symmetric])

section \<open>Early returns\<close>

text \<open>\<open>if (condition) return message;\<close>, a chain of them, and a loop of them: \<open>None\<close> goes on.\<close>

definition failIf :: "bool \<Rightarrow> 'e \<Rightarrow> 'e option" where
  "failIf condition message = (if condition then Some message else None)"

fun firstError :: "'e option list \<Rightarrow> 'e option" where
  "firstError [] = None"
| "firstError (None # es) = firstError es"
| "firstError (Some e # es) = Some e"

definition firstErrorOf :: "('a \<Rightarrow> 'e option) \<Rightarrow> 'a list \<Rightarrow> 'e option" where
  "firstErrorOf check xs = firstError (map check xs)"

lemma failIf_None [simp]: "failIf c m = None \<longleftrightarrow> \<not> c"
  by (simp add: failIf_def)

lemma firstError_None: "firstError es = None \<longleftrightarrow> (\<forall>e\<in>set es. e = None)"
  by (induction es rule: firstError.induct) auto

lemma firstErrorOf_None: "firstErrorOf check xs = None \<longleftrightarrow> (\<forall>x\<in>set xs. check x = None)"
  by (auto simp: firstErrorOf_def firstError_None)

lemma firstError_Some: "firstError es = Some e \<Longrightarrow> Some e \<in> set es"
  by (induction es rule: firstError.induct) auto

text \<open>The same in a function whose result is a message or a value.\<close>

definition returnIf :: "bool \<Rightarrow> 'e \<Rightarrow> 'e + 'b \<Rightarrow> 'e + 'b" where
  "returnIf condition message rest = (if condition then Inl message else rest)"

lemma returnIf_Inr [simp]: "returnIf c m rest = Inr y \<longleftrightarrow> \<not> c \<and> rest = Inr y"
  by (simp add: returnIf_def)

text \<open>A loop that collects a value from each element and returns at the first message.\<close>

fun collectOrReturn :: "('a \<Rightarrow> 'e + 'b) \<Rightarrow> 'a list \<Rightarrow> 'e + 'b list" where
  "collectOrReturn f [] = Inr []"
| "collectOrReturn f (x # xs) =
     (case f x of
        Inl e \<Rightarrow> Inl e
      | Inr y \<Rightarrow> (case collectOrReturn f xs of Inl e \<Rightarrow> Inl e | Inr ys \<Rightarrow> Inr (y # ys)))"

lemma collectOrReturn_Inr: "collectOrReturn f xs = Inr ys \<longleftrightarrow> list_all2 (\<lambda>x y. f x = Inr y) xs ys"
proof (induction xs arbitrary: ys)
  case (Cons x xs)
  show ?case
    by (cases "f x"; cases "collectOrReturn f xs"; cases ys) (auto simp: Cons.IH [symmetric])
qed auto

lemma collectOrReturn_ok: "(\<exists>ys. collectOrReturn f xs = Inr ys) \<longleftrightarrow> (\<forall>x\<in>set xs. \<exists>y. f x = Inr y)"
  by (induction xs) (auto split: sum.splits)

lemma collectOrReturn_map: "(\<And>x y. x \<in> set xs \<Longrightarrow> f x = Inr y \<Longrightarrow> y = g x)
   \<Longrightarrow> collectOrReturn f xs = Inr ys \<Longrightarrow> ys = map g xs"
  by (induction xs arbitrary: ys) (auto split: sum.splits)

lemma collectOrReturn_iff:
  assumes "\<And>x y. x \<in> set xs \<Longrightarrow> f x = Inr y \<longleftrightarrow> P x \<and> y = g x"
  shows "collectOrReturn f xs = Inr ys \<longleftrightarrow> (\<forall>x\<in>set xs. P x) \<and> ys = map g xs"
proof -
  have "collectOrReturn f xs = Inr ys \<longleftrightarrow> list_all2 (\<lambda>x y. P x \<and> y = g x) xs ys"
    unfolding collectOrReturn_Inr using assms by (intro list.rel_cong) auto
  also have "\<dots> \<longleftrightarrow> (\<forall>x\<in>set xs. P x) \<and> ys = map g xs"
    by (induction xs arbitrary: ys) (auto simp: list_all2_Cons1)
  finally show ?thesis .
qed

section \<open>Folding to an extreme\<close>

text \<open>\<open>xs.reduce((best, x) => better(x, best) ? x : best)\<close> of a list that is not empty.\<close>

definition reduceTo :: "('a \<Rightarrow> 'a \<Rightarrow> bool) \<Rightarrow> 'a list \<Rightarrow> 'a option" where
  "reduceTo better xs =
     (case xs of [] \<Rightarrow> None | x # rest \<Rightarrow> Some (foldl (\<lambda>best y. if better y best then y else best) x rest))"

lemma find_append: "List.find P (xs @ ys) = (case List.find P xs of None \<Rightarrow> List.find P ys | Some x \<Rightarrow> Some x)"
  by (induction xs) auto

lemma find_single: "P x \<Longrightarrow> List.find P [x] = Some x"
  by simp

lemma find_map: "List.find P (map f xs) = map_option f (List.find (P \<circ> f) xs)"
  by (induction xs) auto

lemma reduceTo_None [simp]: "reduceTo better xs = None \<longleftrightarrow> xs = []"
  by (cases xs) (simp_all add: reduceTo_def)

lemma foldl_best:
  fixes key :: "'a \<Rightarrow> 'b :: linorder"
  assumes "\<And>a b. better a b \<longleftrightarrow> key a < key b"
  shows "foldl (\<lambda>best y. if better y best then y else best) x ys \<in> insert x (set ys)
    \<and> (\<forall>z\<in>insert x (set ys). key (foldl (\<lambda>best y. if better y best then y else best) x ys) \<le> key z)"
proof (induction ys arbitrary: x)
  case (Cons y ys)
  let ?m = "if better y x then y else x"
  from Cons.IH [of ?m] assms [of y x] show ?case
    by (cases "better y x") (auto dest: order_trans [OF _ less_imp_le])
qed simp

lemma reduceTo_least:
  fixes key :: "'a \<Rightarrow> 'b :: linorder"
  assumes "\<And>a b. better a b \<longleftrightarrow> key a < key b" "reduceTo better xs = Some m"
  shows "m \<in> set xs" "\<forall>z\<in>set xs. key m \<le> key z"
proof -
  obtain x rest where xs: "xs = x # rest" using assms(2) by (cases xs) (auto simp: reduceTo_def)
  then have m: "m = foldl (\<lambda>best y. if better y best then y else best) x rest"
    using assms(2) by (simp add: reduceTo_def)
  show "m \<in> set xs" "\<forall>z\<in>set xs. key m \<le> key z"
    using foldl_best [of better key x rest, OF assms(1)] unfolding m xs by simp_all
qed

text \<open>The fold takes the first of the best.\<close>

lemma foldl_first_best:
  fixes key :: "'a \<Rightarrow> 'b :: linorder"
  assumes "\<And>a b. better a b \<longleftrightarrow> key a < key b"
  shows "Some (foldl (\<lambda>best y. if better y best then y else best) x ys)
    = List.find (\<lambda>a. \<forall>b\<in>insert x (set ys). key a \<le> key b) (x # ys)"
proof (induction ys rule: rev_induct)
  case (snoc y ys)
  let ?m = "foldl (\<lambda>best y. if better y best then y else best) x ys"
  have m: "?m \<in> insert x (set ys)" "\<forall>z\<in>insert x (set ys). key ?m \<le> key z"
    using foldl_best [of better key x ys, OF assms] by simp_all
  show ?case
  proof (cases "better y ?m")
    case True
    have none: "List.find (\<lambda>a. \<forall>b\<in>insert x (set (ys @ [y])). key a \<le> key b) (x # ys) = None"
      using True m(2) assms by (force simp: find_None_iff)
    have best: "\<forall>z\<in>insert x (set (ys @ [y])). key y \<le> key z"
      using True m(2) assms by (auto dest: less_imp_le order_trans)
    have "List.find (\<lambda>a. \<forall>b\<in>insert x (set (ys @ [y])). key a \<le> key b) ((x # ys) @ [y]) = Some y"
      unfolding find_append none option.case by (rule find_single) (rule best)
    then show ?thesis using True by simp
  next
    case False
    then have y: "key ?m \<le> key y" by (simp add: assms)
    have "(\<forall>b\<in>insert x (set (ys @ [y])). key a \<le> key b) \<longleftrightarrow> (\<forall>b\<in>insert x (set ys). key a \<le> key b)"
      if "a \<in> insert x (set ys)" for a
      using y m that by (auto intro: order_trans)
    then have same: "List.find (\<lambda>a. \<forall>b\<in>insert x (set (ys @ [y])). key a \<le> key b) (x # ys) = Some ?m"
      unfolding snoc by (intro find_cong) auto
    have "List.find (\<lambda>a. \<forall>b\<in>insert x (set (ys @ [y])). key a \<le> key b) ((x # ys) @ [y]) = Some ?m"
      unfolding find_append same by simp
    with False show ?thesis by simp
  qed
qed simp

lemma reduceTo_first:
  fixes key :: "'a \<Rightarrow> 'b :: linorder"
  assumes "\<And>a b. better a b \<longleftrightarrow> key a < key b"
  shows "reduceTo better xs = List.find (\<lambda>a. \<forall>b\<in>set xs. key a \<le> key b) xs"
proof (cases xs)
  case (Cons x rest)
  then show ?thesis using foldl_first_best [of better key x rest, OF assms] by (simp add: reduceTo_def)
qed (simp add: reduceTo_def)

section \<open>Machines that take events\<close>

text \<open>
  Parts of the page that change by events: a state, a function that handles an event, and a fact
  about the state and the events so far that every event keeps.
\<close>

locale event_machine =
  fixes handle :: "'e \<Rightarrow> 's \<Rightarrow> 's"
    and initial :: 's
    and holds :: "'e list \<Rightarrow> 's \<Rightarrow> bool"
  assumes holds_initial: "holds [] initial"
    and holds_event: "holds events s \<Longrightarrow> s = fold handle events initial \<Longrightarrow> holds (events @ [e]) (handle e s)"
begin

lemma always: "holds events (fold handle events initial)"
  by (induction events rule: rev_induct) (simp_all add: holds_initial holds_event)

end

text \<open>The last event of a kind, by the events before it, and only events that keep what it set after it.\<close>

definition lastly :: "('e list \<Rightarrow> 'e \<Rightarrow> bool) \<Rightarrow> ('e \<Rightarrow> bool) \<Rightarrow> 'e list \<Rightarrow> bool" where
  "lastly sets keeps events \<longleftrightarrow> (\<exists>before e after. events = before @ e # after \<and> sets before e \<and> list_all keeps after)"

lemma lastly_Nil [simp]: "\<not> lastly sets keeps []"
  by (simp add: lastly_def)

lemma lastly_snoc [simp]:
  "lastly sets keeps (events @ [e]) \<longleftrightarrow> sets events e \<or> keeps e \<and> lastly sets keeps events"
proof
  assume "lastly sets keeps (events @ [e])"
  then obtain before f after where s: "events @ [e] = before @ f # after" "sets before f" "list_all keeps after"
    by (auto simp: lastly_def)
  then show "sets events e \<or> keeps e \<and> lastly sets keeps events"
    by (cases after rule: rev_cases) (auto simp: lastly_def)
next
  assume "sets events e \<or> keeps e \<and> lastly sets keeps events"
  then show "lastly sets keeps (events @ [e])"
  proof
    assume "sets events e"
    then have "events @ [e] = events @ e # [] \<and> sets events e \<and> list_all keeps []" by simp
    then show ?thesis unfolding lastly_def by blast
  next
    assume "keeps e \<and> lastly sets keeps events"
    then obtain before f after where "events = before @ f # after" "sets before f" "list_all keeps after" "keeps e"
      by (auto simp: lastly_def)
    then have "events @ [e] = before @ f # (after @ [e]) \<and> sets before f \<and> list_all keeps (after @ [e])" by simp
    then show ?thesis unfolding lastly_def by blast
  qed
qed

end
