(* ===== verification/RunSession.thy ===== *)
theory RunSession
  imports JsCollections
begin

text \<open>
  The records of a persisted traffic run (\<open>api.ts\<close>), without the fields that nothing here reads,
  and the comparisons of \<open>runReport.ts\<close> on them. A \<open>Record<number, ...>\<close> is an association list from ports: its keys are the decimal texts
  of port numbers, so the test that every key is a finite number always holds and is left out.
\<close>

section \<open>Records\<close>

datatype TrafficRunState = RunRunning | RunPaused | RunStopped | RunMixed | RunUnknown

datatype TrafficPortState = PortRunning | PortPaused | PortStopped | PortUnknown

datatype MutationOperation = OpStart | OpStop | OpPause | OpResume | OpUpdate

datatype CompletionMode = ModeDirect | ModeRecovered | ModeReplayed | ModeHardStop

datatype CleanupCompletion = OperatorStop | CleanupHardStop | CleanupObserved

type_synonym port_states = "(int \<times> TrafficPortState) list"

record TrafficMutationEvidence =
  mut_intent_nonce :: string
  mut_operation :: MutationOperation
  mut_completion_mode :: CompletionMode
  mut_ports :: "int list"
  mut_baseline_port_states :: port_states
  mut_desired_port_states :: port_states
  mut_baseline_acquired_ports :: "int list"
  mut_prepared_at :: string
  mut_completed_at :: string
  mut_acquisition_restored :: bool
  mut_wal_cleared :: bool

record TrafficCleanupEvidence =
  cln_completion :: CleanupCompletion
  cln_completed_at :: string
  cln_final_port_states :: port_states
  cln_intent_nonce :: "string option"
  cln_acquisition_restored :: "bool option"
  cln_wal_cleared :: bool

record TrafficSessionGroup =
  grp_group_id :: "string option"
  grp_run_id :: "string option"
  grp_ports :: "int list"
  grp_profile_path :: string
  grp_start_multiplier :: "string option"
  grp_multiplier :: string
  grp_started_at :: "string option"
  grp_ended_at :: "string option"
  grp_hard_stop_at :: "string option"
  grp_start_evidence :: "TrafficMutationEvidence option"
  grp_cleanup_evidence :: "TrafficCleanupEvidence option"
  grp_state :: TrafficRunState
  grp_port_states :: port_states
  grp_updated_at :: string

record TrafficSession =
  ses_id :: string
  ses_revision :: int
  ses_evidence_version :: "int option"
  ses_state :: TrafficRunState
  ses_started_at :: string
  ses_updated_at :: string
  ses_ended_at :: "string option"
  ses_groups :: "TrafficSessionGroup list"
  ses_completed_groups :: "TrafficSessionGroup list"
  ses_mutation_evidence :: "TrafficMutationEvidence list"

section \<open>Comparisons\<close>

definition exactNumberSequence :: "int list \<Rightarrow> int list \<Rightarrow> bool" where
  "exactNumberSequence left right = sameElements left right"

definition exactTextSet :: "string list \<Rightarrow> string list \<Rightarrow> bool" where
  "exactTextSet left right = sameElements (sortedSet left) (sortedSet right)"

definition hasUniquePorts :: "int list \<Rightarrow> bool" where
  "hasUniquePorts ports \<longleftrightarrow> length (setOf ports) = length ports"

definition exactPortSet :: "int list \<Rightarrow> int list \<Rightarrow> bool" where
  "exactPortSet left right = sameElements (sortedSet left) (sortedSet right)"

definition exactStoppedPortStates :: "port_states \<Rightarrow> int list \<Rightarrow> bool" where
  "exactStoppedPortStates portStates ports \<longleftrightarrow>
     exactPortSet (map fst portStates) ports
     \<and> list_all (\<lambda>port. map_of portStates port = Some PortStopped) ports"

definition exactRunningPortStates :: "port_states \<Rightarrow> int list \<Rightarrow> bool" where
  "exactRunningPortStates portStates ports \<longleftrightarrow>
     exactPortSet (map fst portStates) ports
     \<and> list_all (\<lambda>port. map_of portStates port = Some PortRunning) ports"

definition exactPortStateRecord :: "port_states \<Rightarrow> port_states \<Rightarrow> bool" where
  "exactPortStateRecord left right \<longleftrightarrow>
     exactPortSet (map fst left) (map fst right)
     \<and> list_all (\<lambda>port. map_of left port = map_of right port) (map fst left)"

definition exactMutationEvidence :: "TrafficMutationEvidence \<Rightarrow> TrafficMutationEvidence \<Rightarrow> bool" where
  "exactMutationEvidence left right \<longleftrightarrow>
     mut_intent_nonce left = mut_intent_nonce right
     \<and> mut_operation left = mut_operation right
     \<and> mut_completion_mode left = mut_completion_mode right
     \<and> exactNumberSequence (mut_ports left) (mut_ports right)
     \<and> exactPortStateRecord (mut_baseline_port_states left) (mut_baseline_port_states right)
     \<and> exactPortStateRecord (mut_desired_port_states left) (mut_desired_port_states right)
     \<and> exactNumberSequence (mut_baseline_acquired_ports left) (mut_baseline_acquired_ports right)
     \<and> mut_prepared_at left = mut_prepared_at right
     \<and> mut_completed_at left = mut_completed_at right
     \<and> mut_acquisition_restored left = mut_acquisition_restored right
     \<and> mut_wal_cleared left = mut_wal_cleared right"

text \<open>
  \<open>new Date(text).getTime()\<close>, in milliseconds: how a text that is not in the format of the
  ECMAScript standard is read is left to the engine, so the reading is a parameter. \<open>None\<close> is \<open>NaN\<close>.
\<close>

type_synonym date_reader = "string \<Rightarrow> int option"

definition timestampMilliseconds :: "date_reader \<Rightarrow> string option \<Rightarrow> int option" where
  "timestampMilliseconds getTime value =
     (case value of None \<Rightarrow> None | Some text \<Rightarrow> if jsTrim text = [] then None else getTime text)"

lemma timestamp_None [simp]: "timestampMilliseconds getTime None = None"
  by (simp add: timestampMilliseconds_def)

abbreviation time_of :: "date_reader \<Rightarrow> string \<Rightarrow> int option" where
  "time_of getTime text \<equiv> timestampMilliseconds getTime (Some text)"

section \<open>What the comparisons decide\<close>

lemma exactTextSet_iff [simp]: "exactTextSet left right \<longleftrightarrow> set left = set right"
  by (simp add: exactTextSet_def sortedSet_eq_iff)

lemma exactPortSet_iff [simp]: "exactPortSet left right \<longleftrightarrow> set left = set right"
  by (simp add: exactPortSet_def sortedSet_eq_iff)

lemma hasUniquePorts_iff [simp]: "hasUniquePorts ports \<longleftrightarrow> distinct ports"
  by (simp add: hasUniquePorts_def setOf_size)

lemma exactNumberSequence_iff [simp]: "exactNumberSequence left right \<longleftrightarrow> left = right"
  by (simp add: exactNumberSequence_def)

text \<open>Two port state records are the same map; the order of their keys does not matter.\<close>

lemma exactPortStateRecord_iff [simp]: "exactPortStateRecord left right \<longleftrightarrow> map_of left = map_of right"
proof
  assume l: "exactPortStateRecord left right"
  show "map_of left = map_of right"
  proof
    fix port
    have keys: "fst ` set left = fst ` set right"
      and all: "\<forall>p\<in>fst ` set left. map_of left p = map_of right p"
      using l unfolding exactPortStateRecord_def exactPortSet_iff list_all_iff set_map by blast+
    show "map_of left port = map_of right port"
    proof (cases "port \<in> fst ` set left")
      case False
      then have "map_of left port = None" "map_of right port = None"
        using keys by (simp_all add: map_of_eq_None_iff)
      then show ?thesis by simp
    qed (use all in blast)
  qed
next
  assume e: "map_of left = map_of right"
  have "fst ` set left = fst ` set right"
    using arg_cong [OF e, of dom] by (simp add: dom_map_of_conv_image_fst)
  with e show "exactPortStateRecord left right" by (simp add: exactPortStateRecord_def list_all_iff)
qed

lemma exactStoppedPortStates_iff:
  "exactStoppedPortStates portStates ports
   \<longleftrightarrow> (\<forall>port. map_of portStates port = (if port \<in> set ports then Some PortStopped else None))"
  by (auto simp: exactStoppedPortStates_def list_all_iff map_of_eq_None_iff dom_map_of_conv_image_fst
      split: if_splits) (metis domI dom_map_of_conv_image_fst)

end
