(* ===== verification/RunEvidence.thy ===== *)
theory RunEvidence
  imports RunSession
begin

text \<open>
  The authentication of a persisted run (\<open>runReport.ts\<close>, \<open>mutationLedgerError\<close> to
  \<open>persistedTrafficEvidence\<close>): every run group must trace back to exactly one start mutation of the
  ledger and, for a closed run, to exactly one operator stop.
\<close>

section \<open>Results\<close>

datatype RunReportVerdict = VerdictPass | VerdictWarn | VerdictFail | VerdictUnknown

record 'd TrexResult =
  rsp_ok :: bool
  rsp_data :: "'d option"
  rsp_blocker :: "string option"
  rsp_error :: "string option"

text \<open>The two results that the evidence makes.\<close>

definition acceptedResult :: "'d \<Rightarrow> 'd TrexResult" where
  "acceptedResult data = \<lparr>rsp_ok = True, rsp_data = Some data, rsp_blocker = None, rsp_error = None\<rparr>"

definition blockedResult :: "string \<Rightarrow> 'd TrexResult" where
  "blockedResult message = \<lparr>rsp_ok = False, rsp_data = None, rsp_blocker = Some message, rsp_error = None\<rparr>"

record RunReportStopEvidence =
  stop_result :: "TrafficCleanupEvidence option list TrexResult option"
  stop_verdict :: RunReportVerdict
  stop_detail :: string

definition failedStartEvidence :: "string \<Rightarrow> 'd TrexResult" where
  "failedStartEvidence detail = blockedResult (''Persisted start evidence failed verification: '' @ detail)"

definition failedStopEvidence :: "string \<Rightarrow> RunReportStopEvidence" where
  "failedStopEvidence detail =
     (let message = ''Persisted stop evidence failed verification: '' @ detail
      in \<lparr>stop_result = Some (blockedResult message), stop_verdict = VerdictFail, stop_detail = message\<rparr>)"

definition incompleteStopEvidence :: "string \<Rightarrow> RunReportStopEvidence" where
  "incompleteStopEvidence detail = \<lparr>stop_result = None, stop_verdict = VerdictWarn, stop_detail = detail\<rparr>"

definition groupName :: "TrafficSessionGroup \<Rightarrow> string" where
  "groupName grp = ''group '' @ (case grp_group_id grp of None \<Rightarrow> ''-'' | Some i \<Rightarrow> i)"

section \<open>The ledger\<close>

definition mutationTimeError :: "date_reader \<Rightarrow> TrafficMutationEvidence \<Rightarrow> string option" where
  "mutationTimeError getTime mutation =
     (case (time_of getTime (mut_prepared_at mutation), time_of getTime (mut_completed_at mutation)) of
        (Some preparedAt, Some completedAt) \<Rightarrow>
          failIf (preparedAt > completedAt)
            (''intent '' @ mut_intent_nonce mutation @ '' completes before it is prepared'')
      | _ \<Rightarrow> Some (''intent '' @ mut_intent_nonce mutation @ '' has an invalid timestamp''))"

definition mutationLedgerError :: "date_reader \<Rightarrow> TrafficSession \<Rightarrow> string option" where
  "mutationLedgerError getTime session =
     (let nonces = map mut_intent_nonce (ses_mutation_evidence session) in
      firstError
        [failIf (list_ex (\<lambda>nonce. jsTrim nonce = []) nonces) ''mutation intent nonces must be non-empty'',
         failIf (length (setOf nonces) \<noteq> length nonces) ''mutation intent nonces must be globally unique'',
         firstErrorOf (mutationTimeError getTime) (ses_mutation_evidence session)])"

section \<open>Starts\<close>

definition sessionTimeError :: "date_reader \<Rightarrow> TrafficSession \<Rightarrow> string option" where
  "sessionTimeError getTime session =
     (case (time_of getTime (ses_started_at session), time_of getTime (ses_updated_at session)) of
        (Some sessionStartedAt, Some sessionUpdatedAt) \<Rightarrow>
          firstError
            [failIf (sessionUpdatedAt < sessionStartedAt) ''session updated_at precedes session started_at'',
             (case ses_ended_at session of
                None \<Rightarrow> None
              | Some text \<Rightarrow>
                  (case time_of getTime text of
                     None \<Rightarrow> Some ''session ended_at must be a valid timestamp''
                   | Some sessionEndedAt \<Rightarrow>
                       failIf (sessionEndedAt < sessionStartedAt \<or> sessionUpdatedAt < sessionEndedAt)
                         ''session end/update timestamps are not monotonic''))]
      | _ \<Rightarrow> Some ''session start/update timestamps must be valid'')"

definition startMutationExact :: "TrafficMutationEvidence \<Rightarrow> TrafficSessionGroup \<Rightarrow> bool" where
  "startMutationExact mutation grp \<longleftrightarrow>
     mut_operation mutation = OpStart
     \<and> mut_completion_mode mutation \<noteq> ModeHardStop
     \<and> hasUniquePorts (grp_ports grp)
     \<and> hasUniquePorts (mut_ports mutation)
     \<and> exactPortSet (mut_ports mutation) (grp_ports grp)
     \<and> exactRunningPortStates (mut_desired_port_states mutation) (mut_ports mutation)
     \<and> mut_acquisition_restored mutation
     \<and> mut_wal_cleared mutation"

definition groupEndError :: "date_reader \<Rightarrow> TrafficSessionGroup \<Rightarrow> int \<Rightarrow> int \<Rightarrow> string option" where
  "groupEndError getTime grp groupStartedAt groupUpdatedAt =
     firstError
       [(case grp_ended_at grp of
           None \<Rightarrow> None
         | Some text \<Rightarrow>
             (case time_of getTime text of
                None \<Rightarrow> Some (groupName grp @ '' has an invalid ended_at timestamp'')
              | Some groupEndedAt \<Rightarrow>
                  firstError
                    [failIf (groupEndedAt < groupStartedAt) (groupName grp @ '' has an invalid ended_at timestamp''),
                     failIf (groupUpdatedAt < groupEndedAt) (groupName grp @ '' updated_at precedes ended_at'')])),
        (case grp_hard_stop_at grp of
           None \<Rightarrow> None
         | Some text \<Rightarrow>
             (case time_of getTime text of
                None \<Rightarrow> Some (groupName grp @ '' has an invalid hard_stop_at timestamp'')
              | Some hardStopAt \<Rightarrow>
                  failIf (hardStopAt < groupStartedAt) (groupName grp @ '' has an invalid hard_stop_at timestamp'')))]"

text \<open>One pass of the loop over the groups: the nonce, the completion and its time in milliseconds.\<close>

record CompletedStart =
  start_nonce :: string
  start_at :: string
  start_timestamp :: int

definition startOfGroup :: "date_reader \<Rightarrow> (string \<Rightarrow> TrafficMutationEvidence option)
    \<Rightarrow> TrafficSessionGroup \<Rightarrow> string + CompletedStart" where
  "startOfGroup getTime mutationByNonce grp =
     (case (grp_start_evidence grp, grp_run_id grp) of
        (Some startEvidence, Some run_id) \<Rightarrow>
          returnIf (jsTrim run_id = [] \<or> mut_intent_nonce startEvidence \<noteq> run_id)
            (groupName grp @ '' has no exact start nonce'')
          (case mutationByNonce run_id of
             None \<Rightarrow> Inl (groupName grp @ '' start evidence does not match one exact mutation'')
           | Some mutation \<Rightarrow>
               returnIf (\<not> exactMutationEvidence startEvidence mutation)
                 (groupName grp @ '' start evidence does not match one exact mutation'')
               (returnIf (\<not> startMutationExact mutation grp)
                 (''intent '' @ mut_intent_nonce mutation @ '' is not an exact completed start mutation'')
               (case (time_of getTime (mut_completed_at mutation),
                      timestampMilliseconds getTime (grp_started_at grp),
                      time_of getTime (grp_updated_at grp)) of
                  (Some completedAt, Some groupStartedAt, Some groupUpdatedAt) \<Rightarrow>
                    returnIf (grp_started_at grp \<noteq> Some (mut_completed_at mutation))
                      (groupName grp @ '' has inconsistent start timestamps'')
                    (returnIf (groupUpdatedAt < groupStartedAt)
                      (groupName grp @ '' updated_at precedes started_at'')
                    (case groupEndError getTime grp groupStartedAt groupUpdatedAt of
                       Some e \<Rightarrow> Inl e
                     | None \<Rightarrow> Inr \<lparr>start_nonce = run_id, start_at = mut_completed_at mutation,
                                      start_timestamp = completedAt\<rparr>))
                | _ \<Rightarrow> Inl (groupName grp @ '' has inconsistent start timestamps''))))
      | _ \<Rightarrow> Inl (groupName grp @ '' has no exact start nonce''))"

definition noncesOf :: "MutationOperation \<Rightarrow> TrafficSession \<Rightarrow> string list" where
  "noncesOf operation session =
     map mut_intent_nonce (filter (\<lambda>mutation. mut_operation mutation = operation) (ses_mutation_evidence session))"

definition earlierStart :: "CompletedStart \<Rightarrow> CompletedStart \<Rightarrow> bool" where
  "earlierStart candidate earliest \<longleftrightarrow> start_timestamp candidate < start_timestamp earliest"

text \<open>
  The result is the message, or the completion time of every group in the order of the groups. The
  code keeps them in a \<open>Map\<close> keyed by the group objects, which are distinct objects.
\<close>

definition validateStartEvidence :: "date_reader \<Rightarrow> TrafficSession \<Rightarrow> TrafficSessionGroup list
    \<Rightarrow> (string \<Rightarrow> TrafficMutationEvidence option) \<Rightarrow> string + int list" where
  "validateStartEvidence getTime session groups mutationByNonce =
     returnIf (groups = []) ''canonical traffic session has no run groups''
     (case sessionTimeError getTime session of
        Some e \<Rightarrow> Inl e
      | None \<Rightarrow>
          (case collectOrReturn (startOfGroup getTime mutationByNonce) groups of
             Inl e \<Rightarrow> Inl e
           | Inr starts \<Rightarrow>
               let groupStartNonces = map start_nonce starts in
               returnIf (length (setOf groupStartNonces) \<noteq> length groupStartNonces)
                 ''run-group start intent nonces must be unique''
               (returnIf (\<not> exactTextSet groupStartNonces (noncesOf OpStart session))
                 ''start mutation nonce set does not exactly match the run-group start nonce set''
               (returnIf (Some (ses_started_at session) \<noteq> map_option start_at (reduceTo earlierStart starts))
                 ''session started_at does not match the earliest start completion''
               (Inr (map start_timestamp starts))))))"

section \<open>Stops\<close>

definition runStateText :: "TrafficRunState \<Rightarrow> string" where
  "runStateText state =
     (case state of RunRunning \<Rightarrow> ''running'' | RunPaused \<Rightarrow> ''paused'' | RunStopped \<Rightarrow> ''stopped''
      | RunMixed \<Rightarrow> ''mixed'' | RunUnknown \<Rightarrow> ''unknown'')"

definition completionText :: "TrafficCleanupEvidence option \<Rightarrow> string" where
  "completionText cleanup =
     (case cleanup of None \<Rightarrow> ''missing''
      | Some c \<Rightarrow>
          (case cln_completion c of OperatorStop \<Rightarrow> ''operator_stop'' | CleanupHardStop \<Rightarrow> ''hard_stop''
           | CleanupObserved \<Rightarrow> ''observed''))"

definition cleanupIs :: "CleanupCompletion \<Rightarrow> TrafficSessionGroup \<Rightarrow> bool" where
  "cleanupIs completion grp \<longleftrightarrow>
     (case grp_cleanup_evidence grp of None \<Rightarrow> False | Some c \<Rightarrow> cln_completion c = completion)"

definition exactStopMutation :: "TrafficMutationEvidence \<Rightarrow> TrafficSessionGroup list \<Rightarrow> bool" where
  "exactStopMutation mutation groups \<longleftrightarrow>
     (let targetPorts = concat (map grp_ports groups) in
      mut_operation mutation = OpStop
      \<and> mut_completion_mode mutation \<noteq> ModeHardStop
      \<and> hasUniquePorts (mut_ports mutation)
      \<and> hasUniquePorts targetPorts
      \<and> exactPortSet (mut_ports mutation) targetPorts
      \<and> exactStoppedPortStates (mut_desired_port_states mutation) (mut_ports mutation)
      \<and> mut_acquisition_restored mutation
      \<and> mut_wal_cleared mutation)"

definition hardStopSeen :: "TrafficSession \<Rightarrow> TrafficSessionGroup list \<Rightarrow> bool" where
  "hardStopSeen session groups \<longleftrightarrow>
     list_ex (cleanupIs CleanupHardStop) groups
     \<or> list_ex (\<lambda>mutation. mut_operation mutation = OpStop \<and> mut_completion_mode mutation = ModeHardStop)
         (ses_mutation_evidence session)"

text \<open>The first loop, over the groups with the completion time of their start.\<close>

definition cleanupTimelineError :: "date_reader \<Rightarrow> TrafficSessionGroup \<times> int \<Rightarrow> string option" where
  "cleanupTimelineError getTime timed =
     (case timed of (grp, startCompletedAt) \<Rightarrow>
       (case grp_cleanup_evidence grp of
          None \<Rightarrow> None
        | Some cleanup \<Rightarrow>
            (case time_of getTime (cln_completed_at cleanup) of
               None \<Rightarrow> Some (groupName grp @ '' has a non-monotonic cleanup timeline'')
             | Some cleanupCompletedAt \<Rightarrow>
                 failIf (cleanupCompletedAt < startCompletedAt
                         \<or> grp_ended_at grp \<noteq> Some (cln_completed_at cleanup))
                   (groupName grp @ '' has a non-monotonic cleanup timeline''))))"

definition operatorStopNonce :: "TrafficSessionGroup \<Rightarrow> string + string" where
  "operatorStopNonce grp =
     (case Option.bind (grp_cleanup_evidence grp) cln_intent_nonce of
        None \<Rightarrow> Inl (groupName grp @ '' has no operator-stop intent nonce'')
      | Some nonce \<Rightarrow>
          returnIf (jsTrim nonce = []) (groupName grp @ '' has no operator-stop intent nonce'') (Inr nonce))"

definition groupNotStopped :: "TrafficSessionGroup \<Rightarrow> bool" where
  "groupNotStopped grp \<longleftrightarrow>
     grp_ports grp = []
     \<or> grp_state grp \<noteq> RunStopped
     \<or> grp_hard_stop_at grp \<noteq> None
     \<or> \<not> exactStoppedPortStates (grp_port_states grp) (grp_ports grp)"

text \<open>The last loop over the groups: the intent, the group, the completion and its time.\<close>

record CompletedStop =
  stop_nonce :: string
  stop_group :: TrafficSessionGroup
  stop_at :: string
  stop_timestamp :: int

definition stopOfGroup :: "date_reader \<Rightarrow> (string \<Rightarrow> TrafficMutationEvidence option)
    \<Rightarrow> TrafficSessionGroup \<times> int \<Rightarrow> string + CompletedStop" where
  "stopOfGroup getTime mutationByNonce timed =
     (case timed of (grp, startCompletedAt) \<Rightarrow>
       (case operatorStopNonce grp of
          Inl e \<Rightarrow> Inl e
        | Inr nonce \<Rightarrow>
            let cleanup = the (grp_cleanup_evidence grp) in
            returnIf (cln_acquisition_restored cleanup \<noteq> Some True
                      \<or> \<not> cln_wal_cleared cleanup
                      \<or> \<not> exactStoppedPortStates (cln_final_port_states cleanup) (grp_ports grp))
              (groupName grp @ '' has incomplete cleanup evidence'')
            (case time_of getTime (cln_completed_at cleanup) of
               None \<Rightarrow> Inl (groupName grp @ '' has inconsistent cleanup timestamps'')
             | Some completionTimestamp \<Rightarrow>
                 returnIf (grp_ended_at grp \<noteq> Some (cln_completed_at cleanup))
                   (groupName grp @ '' has inconsistent cleanup timestamps'')
                 (case mutationByNonce nonce of
                    None \<Rightarrow> Inl (''intent '' @ nonce @ '' does not reference one stop mutation'')
                  | Some mutation \<Rightarrow>
                      returnIf (mut_operation mutation \<noteq> OpStop)
                        (''intent '' @ nonce @ '' does not reference one stop mutation'')
                      (returnIf (cln_completed_at cleanup \<noteq> mut_completed_at mutation)
                        (''intent '' @ nonce @ '' has mismatched completion timestamps'')
                      (case time_of getTime (mut_prepared_at mutation) of
                         None \<Rightarrow> Inl (''intent '' @ nonce @ '' is prepared before its corresponding start completes'')
                       | Some preparedAt \<Rightarrow>
                           returnIf (preparedAt < startCompletedAt)
                             (''intent '' @ nonce @ '' is prepared before its corresponding start completes'')
                           (Inr \<lparr>stop_nonce = nonce, stop_group = grp, stop_at = cln_completed_at cleanup,
                                 stop_timestamp = completionTimestamp\<rparr>)))))))"

text \<open>The \<open>Map\<close> from an intent to the groups it stopped, in the order of the first group of each.\<close>

definition groupsByIntent :: "CompletedStop list \<Rightarrow> (string \<times> TrafficSessionGroup list) list" where
  "groupsByIntent stops =
     map (\<lambda>nonce. (nonce, map stop_group (filter (\<lambda>stop. stop_nonce stop = nonce) stops)))
       (setOf (map stop_nonce stops))"

definition intentError :: "(string \<Rightarrow> TrafficMutationEvidence option) \<Rightarrow> string \<times> TrafficSessionGroup list \<Rightarrow> string option" where
  "intentError mutationByNonce intent =
     (case intent of (nonce, groups) \<Rightarrow>
       (case mutationByNonce nonce of
          None \<Rightarrow> Some (''intent '' @ nonce @ '' is not an exact completed stop mutation'')
        | Some mutation \<Rightarrow>
            failIf (\<not> exactStopMutation mutation groups)
              (''intent '' @ nonce @ '' is not an exact completed stop mutation'')))"

definition laterStop :: "CompletedStop \<Rightarrow> CompletedStop \<Rightarrow> bool" where
  "laterStop candidate latest \<longleftrightarrow> stop_timestamp candidate > stop_timestamp latest"

text \<open>The end of \<open>validateStopEvidence\<close>: the operator stop of every group, one by one.\<close>

definition validateOperatorStops :: "date_reader \<Rightarrow> TrafficSession \<Rightarrow> TrafficSessionGroup list
    \<Rightarrow> (string \<Rightarrow> TrafficMutationEvidence option) \<Rightarrow> int list \<Rightarrow> RunReportStopEvidence" where
  "validateOperatorStops getTime session groups mutationByNonce startCompletions =
     (case collectOrReturn (stopOfGroup getTime mutationByNonce) (zip groups startCompletions) of
        Inl e \<Rightarrow> failedStopEvidence e
      | Inr stops \<Rightarrow>
          (case firstErrorOf (intentError mutationByNonce) (groupsByIntent stops) of
             Some e \<Rightarrow> failedStopEvidence e
           | None \<Rightarrow>
               if ses_ended_at session \<noteq> map_option stop_at (reduceTo laterStop stops)
               then failedStopEvidence ''session ended_at does not match the final operator-stop completion''
               else \<lparr>stop_result = Some (acceptedResult (map grp_cleanup_evidence groups)),
                     stop_verdict = VerdictPass, stop_detail = ''Exact operator-stop evidence verified''\<rparr>))"

definition validateStopEvidence :: "date_reader \<Rightarrow> TrafficSession \<Rightarrow> TrafficSessionGroup list
    \<Rightarrow> (string \<Rightarrow> TrafficMutationEvidence option) \<Rightarrow> int list \<Rightarrow> RunReportStopEvidence" where
  "validateStopEvidence getTime session groups mutationByNonce startCompletions =
     (if hardStopSeen session groups then failedStopEvidence ''hard_stop cleanup is not an operator stop''
      else
        case firstErrorOf (cleanupTimelineError getTime) (zip groups startCompletions) of
          Some e \<Rightarrow> failedStopEvidence e
        | None \<Rightarrow>
            (case collectOrReturn operatorStopNonce (filter (cleanupIs OperatorStop) groups) of
               Inl e \<Rightarrow> failedStopEvidence e
             | Inr operatorStopNonces \<Rightarrow>
                 if \<not> exactTextSet operatorStopNonces (noncesOf OpStop session)
                 then failedStopEvidence
                   ''stop mutation nonce set does not exactly match the operator-stop cleanup nonce set''
                 else if ses_state session \<noteq> RunStopped
                 then incompleteStopEvidence (''Canonical traffic session is '' @ runStateText (ses_state session)
                   @ ''; exact operator-stop evidence is not available'')
                 else if timestampMilliseconds getTime (ses_ended_at session) = None
                 then failedStopEvidence ''the stopped session has no valid ended_at timestamp''
                 else
                   (case List.find groupNotStopped groups of
                      Some grp \<Rightarrow> failedStopEvidence (groupName grp @ '' is not fully stopped'')
                    | None \<Rightarrow>
                        (case List.find (\<lambda>grp. \<not> cleanupIs OperatorStop grp) groups of
                           Some grp \<Rightarrow> incompleteStopEvidence
                             (''Group '' @ (case grp_group_id grp of None \<Rightarrow> ''-'' | Some i \<Rightarrow> i)
                              @ '' cleanup evidence is '' @ completionText (grp_cleanup_evidence grp)
                              @ '', not operator_stop'')
                         | None \<Rightarrow> validateOperatorStops getTime session groups mutationByNonce startCompletions))))"

end
