(* ===== verification/RunAuthority.thy ===== *)
theory RunAuthority
  imports RunEvidence
begin

text \<open>
  Which session the page speaks for: the traffic session of the run report
  (\<open>trafficRunAuthority.ts\<close>), the authority to start, change or stop traffic (\<open>App.tsx\<close>), and the
  evidence of the run report, which rests on the attached session.
\<close>

section \<open>Snapshots of the runtime\<close>

datatype PortOwnership = OwnedManaged | OwnedExternal | OwnedNone

record TrafficPortRuntime =
  prt_port :: int
  prt_state :: TrafficPortState
  prt_ownership :: PortOwnership

record TrafficPlanGroup =
  plan_id :: string
  plan_name :: string
  plan_ports :: "int list"
  plan_profile_path :: string

record TrafficRuntimeSnapshot =
  rts_groups :: "TrafficPlanGroup list"
  rts_session :: "TrafficSession option"
  rts_port_states :: "TrafficPortRuntime list"

record RunReportTrafficSession =
  rrs_session :: TrafficSession
  rrs_captureCompletedAt :: "string option"

definition trafficSessionRunGroups :: "TrafficSession \<Rightarrow> TrafficSessionGroup list" where
  "trafficSessionRunGroups session = ses_completed_groups session @ ses_groups session"

definition trafficSessionPorts :: "TrafficSession \<Rightarrow> int list" where
  "trafficSessionPorts session = sortedSet (concat (map grp_ports (trafficSessionRunGroups session)))"

definition trafficSessionProfiles :: "TrafficSession \<Rightarrow> string list" where
  "trafficSessionProfiles session = setOf (map grp_profile_path (trafficSessionRunGroups session))"

definition trafficSessionRateLabel :: "TrafficSession \<Rightarrow> string" where
  "trafficSessionRateLabel session =
     (let rates = setOf (map (\<lambda>g. case grp_start_multiplier g of None \<Rightarrow> grp_multiplier g | Some m \<Rightarrow> m)
            (trafficSessionRunGroups session))
      in if rates = [] then ''-'' else if length rates = 1 then hd rates else ''Mixed'')"

text \<open>The assignments of a \<open>Map\<close> from ports to profiles; a later assignment replaces an earlier one.\<close>

definition assignPorts :: "int list \<Rightarrow> string \<Rightarrow> (int \<Rightarrow> string option) \<Rightarrow> int \<Rightarrow> string option" where
  "assignPorts ports profile assignments = foldl (\<lambda>m port. m(port \<mapsto> profile)) assignments ports"

definition trafficProfileByPort :: "TrafficRuntimeSnapshot option \<Rightarrow> int \<Rightarrow> string option" where
  "trafficProfileByPort snapshot =
     (case snapshot of
        None \<Rightarrow> Map.empty
      | Some s \<Rightarrow>
          let planned = foldl (\<lambda>m g. assignPorts (plan_ports g) (plan_profile_path g) m) Map.empty (rts_groups s)
          in (case rts_session s of
                None \<Rightarrow> planned
              | Some session \<Rightarrow>
                  foldl (\<lambda>m g. if grp_state g = RunStopped then m
                               else assignPorts (grp_ports g) (grp_profile_path g) m)
                    planned (ses_groups session)))"

section \<open>The session of the report\<close>

definition synchronizeRunReportTrafficSession :: "RunReportTrafficSession option \<Rightarrow> TrafficRuntimeSnapshot
    \<Rightarrow> RunReportTrafficSession option" where
  "synchronizeRunReportTrafficSession current snapshot =
     (case rts_session snapshot of
        None \<Rightarrow> None
      | Some session \<Rightarrow>
          if ses_evidence_version session \<noteq> Some 1 \<or> ses_revision session < 1 then None
          else Some \<lparr>rrs_session = session,
                     rrs_captureCompletedAt =
                       (case current of
                          None \<Rightarrow> None
                        | Some c \<Rightarrow> if ses_id (rrs_session c) = ses_id session then rrs_captureCompletedAt c else None)\<rparr>)"

text \<open>
  The state of \<open>App.tsx\<close> that these functions keep: the session the page is bound to
  (\<open>trafficSessionAuthorityRef\<close>), the last runtime snapshot (\<open>trafficRuntime\<close>) and the session of
  the report (\<open>trafficRunSession\<close>).
\<close>

record PageSession =
  page_authority :: "string option"
  page_runtime :: "TrafficRuntimeSnapshot option"
  page_runSession :: "RunReportTrafficSession option"

definition applyTrafficRuntimeSnapshot :: "TrafficRuntimeSnapshot \<Rightarrow> PageSession \<Rightarrow> PageSession" where
  "applyTrafficRuntimeSnapshot snapshot page =
     \<lparr>page_authority =
        (case rts_session snapshot of
           None \<Rightarrow> None
         | Some session \<Rightarrow> if ses_state session \<noteq> RunStopped then Some (ses_id session) else None),
      page_runtime = Some snapshot,
      page_runSession = synchronizeRunReportTrafficSession (page_runSession page) snapshot\<rparr>"

definition applyTrafficSessionResponse :: "TrafficSession \<Rightarrow> PageSession \<Rightarrow> PageSession" where
  "applyTrafficSessionResponse session page =
     \<lparr>page_authority = (if ses_state session \<noteq> RunStopped then Some (ses_id session) else None),
      page_runtime = map_option (\<lambda>current. current\<lparr>rts_session := Some session\<rparr>) (page_runtime page),
      page_runSession = Some
        \<lparr>rrs_session = session,
         rrs_captureCompletedAt =
           (case page_runSession page of
              None \<Rightarrow> None
            | Some c \<Rightarrow> if ses_id (rrs_session c) = ses_id session then rrs_captureCompletedAt c else None)\<rparr>\<rparr>"

text \<open>
  A saved capture: its completion is the modified time of the file when the reader of dates accepts
  it, otherwise the clock. The report keeps a later completion it already has; the empty text counts
  as none.
\<close>

definition captureCompletion :: "date_reader \<Rightarrow> string option \<Rightarrow> string \<Rightarrow> string" where
  "captureCompletion getTime modifiedTimestamp now =
     (case modifiedTimestamp of
        None \<Rightarrow> now
      | Some text \<Rightarrow> if text \<noteq> [] \<and> getTime text \<noteq> None then text else now)"

definition captureSaved :: "date_reader \<Rightarrow> string \<Rightarrow> PageSession \<Rightarrow> PageSession" where
  "captureSaved getTime captureCompletedAt page =
     (case page_runSession page of
        None \<Rightarrow> page
      | Some current \<Rightarrow>
          let keep = (case rrs_captureCompletedAt current of
                None \<Rightarrow> False
              | Some text \<Rightarrow>
                  text \<noteq> []
                  \<and> (case (getTime text, getTime captureCompletedAt) of
                       (Some old, Some new) \<Rightarrow> old \<ge> new
                     | _ \<Rightarrow> False))
          in if keep then page
             else page\<lparr>page_runSession := Some (current\<lparr>rrs_captureCompletedAt := Some captureCompletedAt\<rparr>)\<rparr>)"

definition disconnectPage :: "PageSession \<Rightarrow> PageSession" where
  "disconnectPage page = \<lparr>page_authority = None, page_runtime = None, page_runSession = None\<rparr>"

text \<open>
  The \<open>session\<close> object in the data of an accepted command, with the fields that are texts;
  \<open>None\<close> when the data is null or has no such object.
\<close>

record CommandSession =
  cmd_id :: "string option"
  cmd_state :: "string option"

type_synonym command_data = "CommandSession option"

definition commandTrafficSessionId :: "command_data \<Rightarrow> string option" where
  "commandTrafficSessionId data =
     (case Option.bind data cmd_id of None \<Rightarrow> None | Some i \<Rightarrow> if jsTrim i \<noteq> [] then Some i else None)"

definition commandTrafficSessionState :: "command_data \<Rightarrow> string option" where
  "commandTrafficSessionState data = Option.bind data cmd_state"

datatype ControlAction = ControlStop | ControlPause | ControlResume

text \<open>The session the page is bound to after an accepted control, stop-all or rate command.\<close>

definition controlAccepted :: "ControlAction \<Rightarrow> command_data \<Rightarrow> PageSession \<Rightarrow> PageSession" where
  "controlAccepted action data page =
     (if action = ControlStop \<and> commandTrafficSessionState data = Some ''stopped''
      then page\<lparr>page_authority := None\<rparr>
      else case commandTrafficSessionId data of
             None \<Rightarrow> page
           | Some responseSessionId \<Rightarrow> page\<lparr>page_authority := Some responseSessionId\<rparr>)"

definition stopAllAccepted :: "PageSession \<Rightarrow> PageSession" where
  "stopAllAccepted page = page\<lparr>page_authority := None\<rparr>"

definition updateAccepted :: "command_data \<Rightarrow> PageSession \<Rightarrow> PageSession" where
  "updateAccepted data page =
     (case commandTrafficSessionId data of
        None \<Rightarrow> page
      | Some responseSessionId \<Rightarrow> page\<lparr>page_authority := Some responseSessionId\<rparr>)"

definition connectRequested :: "PageSession \<Rightarrow> PageSession" where
  "connectRequested page = page\<lparr>page_authority := None\<rparr>"

definition startAuthorized :: "string option \<Rightarrow> PageSession \<Rightarrow> PageSession" where
  "startAuthorized sessionId page = (if sessionId = None then page\<lparr>page_authority := None\<rparr> else page)"

section \<open>Authority to change traffic\<close>

definition activeManagedSessionPorts :: "TrafficSession \<Rightarrow> int list" where
  "activeManagedSessionPorts session =
     sortedSet (concat (map (\<lambda>g. filter (\<lambda>port.
         let state = map_of (grp_port_states g) port in state = Some PortRunning \<or> state = Some PortPaused)
       (grp_ports g)) (ses_groups session)))"

text \<open>The answer of the backend to \<open>fetchTrafficRuntime\<close>.\<close>

type_synonym RuntimeResponse = "TrafficRuntimeSnapshot TrexResult"

text \<open>A refused command: its blocker and its message.\<close>

record CommandRefusal =
  ref_blocker :: string
  ref_error :: string

definition portsLabel :: "int list option \<Rightarrow> string" where
  "portsLabel ports =
     (case ports of
        None \<Rightarrow> ''all ports''
      | Some ps \<Rightarrow>
          if length ps = 1 then ''port '' @ decText (hd ps)
          else ''ports '' @ joinWith '', '' (map decText ps))"

definition runtimeUnavailable :: "RuntimeResponse \<Rightarrow> CommandRefusal" where
  "runtimeUnavailable runtime =
     \<lparr>ref_blocker = (case rsp_blocker runtime of None \<Rightarrow> ''traffic_runtime_unavailable'' | Some b \<Rightarrow> b),
      ref_error = (case rsp_error runtime of
         None \<Rightarrow> ''Unable to read the current traffic runtime authority'' | Some e \<Rightarrow> e)\<rparr>"

definition resolveTrafficMutationAuthority :: "RuntimeResponse \<Rightarrow> int list option \<Rightarrow> string option
    \<Rightarrow> CommandRefusal + (int list \<times> string)" where
  "resolveTrafficMutationAuthority runtime requestedPorts expectedSessionId =
     (case expectedSessionId of
        None \<Rightarrow> Inl \<lparr>ref_blocker = ''traffic_session_authority_unbound'',
          ref_error = ''This page is not bound to an active traffic session; reload before controlling traffic''\<rparr>
      | Some expected \<Rightarrow>
          (case (rsp_ok runtime, rsp_data runtime) of
             (True, Some snapshot) \<Rightarrow>
               (case rts_session snapshot of
                  None \<Rightarrow> Inl \<lparr>ref_blocker = ''traffic_session_not_active'',
                    ref_error = ''No active managed traffic session is available''\<rparr>
                | Some session \<Rightarrow>
                    returnIf (ses_state session \<noteq> RunRunning \<and> ses_state session \<noteq> RunPaused
                              \<and> ses_state session \<noteq> RunMixed)
                      \<lparr>ref_blocker = ''traffic_session_not_active'',
                       ref_error = ''No active managed traffic session is available''\<rparr>
                    (returnIf (ses_id session \<noteq> expected)
                      \<lparr>ref_blocker = ''traffic_session_id_conflict'',
                       ref_error = ''The active traffic session changed in another page; reload before controlling it''\<rparr>
                    (let ownedPorts = activeManagedSessionPorts session;
                         ports = (case requestedPorts of None \<Rightarrow> ownedPorts | Some requested \<Rightarrow> sortedSet requested)
                     in returnIf (ports = [] \<or> list_ex (\<lambda>port. port \<notin> set ownedPorts) ports)
                          \<lparr>ref_blocker = ''traffic_session_port_mismatch'',
                           ref_error = ''Requested '' @ portsLabel (Some ports)
                             @ '' are not owned by the active managed traffic session''\<rparr>
                        (Inr (ports, ses_id session)))))
           | _ \<Rightarrow> Inl (runtimeUnavailable runtime)))"

definition resolveTrafficStartAuthority :: "RuntimeResponse \<Rightarrow> string option \<Rightarrow> CommandRefusal + string option" where
  "resolveTrafficStartAuthority runtime expectedSessionId =
     (case (rsp_ok runtime, rsp_data runtime) of
        (True, Some snapshot) \<Rightarrow>
          (case rts_session snapshot of
             None \<Rightarrow> Inr None
           | Some session \<Rightarrow>
               if ses_state session = RunStopped then Inr None
               else
                 returnIf (ses_state session = RunUnknown)
                   \<lparr>ref_blocker = ''traffic_session_reconciliation_required'',
                    ref_error = ''The current traffic session has unknown live state; reconcile it before starting traffic''\<rparr>
                 (case expectedSessionId of
                    None \<Rightarrow> Inl \<lparr>ref_blocker = ''traffic_session_authority_unbound'',
                      ref_error = ''This page is not bound to the active traffic session; reload before adding traffic''\<rparr>
                  | Some expected \<Rightarrow>
                      returnIf (ses_id session \<noteq> expected)
                        \<lparr>ref_blocker = ''traffic_session_id_conflict'',
                         ref_error = ''The active traffic session changed in another page; reload before adding traffic''\<rparr>
                      (Inr (Some (ses_id session)))))
      | _ \<Rightarrow> Inl (runtimeUnavailable runtime))"

section \<open>The evidence of the report\<close>

text \<open>
  The data of the start of the report: what the start command answered, or the start evidence of the
  groups.
\<close>

datatype 'r ReportedStart = StartCommand 'r | StartEvidence "TrafficMutationEvidence option list"

record 'r RunReportTrafficEvidence =
  ev_startResult :: "'r ReportedStart TrexResult option"
  ev_stopEvidence :: RunReportStopEvidence

definition persistedTrafficEvidence :: "date_reader \<Rightarrow> RunReportTrafficSession option
    \<Rightarrow> 'r ReportedStart TrexResult option \<Rightarrow> 'r RunReportTrafficEvidence" where
  "persistedTrafficEvidence getTime trafficSession fallbackStartResult =
     (case trafficSession of
        None \<Rightarrow> \<lparr>ev_startResult = fallbackStartResult,
          ev_stopEvidence = \<lparr>stop_result = None, stop_verdict = VerdictUnknown,
            stop_detail = ''No canonical traffic session is attached''\<rparr>\<rparr>
      | Some attached \<Rightarrow>
          let session = rrs_session attached in
          if ses_evidence_version session \<noteq> Some 1
          then \<lparr>ev_startResult = None,
            ev_stopEvidence = incompleteStopEvidence
              ''Canonical traffic session has no versioned stop evidence or authenticated start chain''\<rparr>
          else
            let groups = trafficSessionRunGroups session in
            (case mutationLedgerError getTime session of
               Some ledgerError \<Rightarrow> \<lparr>ev_startResult = Some (failedStartEvidence ledgerError),
                 ev_stopEvidence = failedStopEvidence ledgerError\<rparr>
             | None \<Rightarrow>
                 let mutationByNonce = mapFrom (map (\<lambda>m. (mut_intent_nonce m, m)) (ses_mutation_evidence session))
                 in (case validateStartEvidence getTime session groups mutationByNonce of
                       Inl startError \<Rightarrow> \<lparr>ev_startResult = Some (failedStartEvidence startError),
                         ev_stopEvidence = failedStopEvidence (''start evidence chain is invalid: '' @ startError)\<rparr>
                     | Inr completions \<Rightarrow>
                         \<lparr>ev_startResult = Some (acceptedResult (StartEvidence (map grp_start_evidence groups))),
                          ev_stopEvidence = validateStopEvidence getTime session groups mutationByNonce completions\<rparr>)))"

end
