(* ===== verification/RunVerified.thy ===== *)
theory RunVerified
  imports RunAuthority
begin

text \<open>
  What a passing stop verdict means. \<open>verifiedRun\<close> states it without loops and early returns: a
  sound ledger, one start mutation for each run group and no others, one operator stop behind each
  group and no others, and times in order. The verdict is pass exactly for these sessions.
\<close>

section \<open>The ledger\<close>

definition mutationTimesOk :: "date_reader \<Rightarrow> TrafficMutationEvidence \<Rightarrow> bool" where
  "mutationTimesOk getTime m \<longleftrightarrow>
     (\<exists>p c. time_of getTime (mut_prepared_at m) = Some p \<and> time_of getTime (mut_completed_at m) = Some c \<and> p \<le> c)"

definition ledgerSound :: "date_reader \<Rightarrow> TrafficSession \<Rightarrow> bool" where
  "ledgerSound getTime session \<longleftrightarrow>
     distinct (map mut_intent_nonce (ses_mutation_evidence session))
     \<and> (\<forall>m\<in>set (ses_mutation_evidence session). jsTrim (mut_intent_nonce m) \<noteq> [] \<and> mutationTimesOk getTime m)"

lemma mutationTimeError_None: "mutationTimeError getTime m = None \<longleftrightarrow> mutationTimesOk getTime m"
  by (auto simp: mutationTimeError_def mutationTimesOk_def split: option.splits)

lemma mutationLedgerError_None: "mutationLedgerError getTime session = None \<longleftrightarrow> ledgerSound getTime session"
  by (auto simp: mutationLedgerError_def ledgerSound_def Let_def firstError_None firstErrorOf_None
      mutationTimeError_None setOf_size [symmetric] list_ex_iff)

definition byNonce :: "TrafficSession \<Rightarrow> string \<Rightarrow> TrafficMutationEvidence option" where
  "byNonce session = mapFrom (map (\<lambda>m. (mut_intent_nonce m, m)) (ses_mutation_evidence session))"

lemma byNonce_iff:
  "ledgerSound getTime session
   \<Longrightarrow> byNonce session n = Some m \<longleftrightarrow> m \<in> set (ses_mutation_evidence session) \<and> mut_intent_nonce m = n"
  by (auto simp: byNonce_def ledgerSound_def mapFrom_unique comp_def)

lemma noncesOf_set: "n \<in> set (noncesOf op session)
   \<longleftrightarrow> (\<exists>m\<in>set (ses_mutation_evidence session). mut_operation m = op \<and> mut_intent_nonce m = n)"
  by (auto simp: noncesOf_def)

section \<open>Starts\<close>

definition groupTimesOk :: "date_reader \<Rightarrow> TrafficSessionGroup \<Rightarrow> bool" where
  "groupTimesOk getTime g \<longleftrightarrow>
     (\<exists>s u. timestampMilliseconds getTime (grp_started_at g) = Some s \<and> time_of getTime (grp_updated_at g) = Some u
        \<and> s \<le> u
        \<and> (\<forall>text. grp_ended_at g = Some text \<longrightarrow> (\<exists>e. time_of getTime text = Some e \<and> s \<le> e \<and> e \<le> u))
        \<and> (\<forall>text. grp_hard_stop_at g = Some text \<longrightarrow> (\<exists>h. time_of getTime text = Some h \<and> s \<le> h)))"

text \<open>The group was started by the mutation \<open>m\<close>, completed at the time \<open>t\<close>.\<close>

definition startedBy :: "date_reader \<Rightarrow> TrafficSessionGroup \<Rightarrow> TrafficMutationEvidence \<Rightarrow> int \<Rightarrow> bool" where
  "startedBy getTime g m t \<longleftrightarrow>
     grp_run_id g = Some (mut_intent_nonce m)
     \<and> (\<exists>e. grp_start_evidence g = Some e \<and> exactMutationEvidence e m)
     \<and> startMutationExact m g
     \<and> grp_started_at g = Some (mut_completed_at m)
     \<and> time_of getTime (mut_completed_at m) = Some t
     \<and> groupTimesOk getTime g"

lemma groupEndError_None:
  "groupEndError getTime g s u = None
   \<longleftrightarrow> (\<forall>text. grp_ended_at g = Some text \<longrightarrow> (\<exists>e. time_of getTime text = Some e \<and> s \<le> e \<and> e \<le> u))
     \<and> (\<forall>text. grp_hard_stop_at g = Some text \<longrightarrow> (\<exists>h. time_of getTime text = Some h \<and> s \<le> h))"
  by (auto simp: groupEndError_def firstError_None not_less split: option.splits)

lemma startOfGroup_Inr:
  assumes "ledgerSound getTime session"
  shows "startOfGroup getTime (byNonce session) g = Inr s
    \<longleftrightarrow> (\<exists>m t. m \<in> set (ses_mutation_evidence session) \<and> startedBy getTime g m t
        \<and> s = \<lparr>start_nonce = mut_intent_nonce m, start_at = mut_completed_at m, start_timestamp = t\<rparr>)"
proof -
  have blank: "jsTrim (mut_intent_nonce m) \<noteq> []" if "m \<in> set (ses_mutation_evidence session)" for m
    using assms that by (simp add: ledgerSound_def)
  show ?thesis
  proof
    assume "startOfGroup getTime (byNonce session) g = Inr s"
    then show "\<exists>m t. m \<in> set (ses_mutation_evidence session) \<and> startedBy getTime g m t
        \<and> s = \<lparr>start_nonce = mut_intent_nonce m, start_at = mut_completed_at m, start_timestamp = t\<rparr>"
      using byNonce_iff [OF assms]
      by (auto simp: startOfGroup_def startedBy_def groupTimesOk_def groupEndError_None not_less
          split: option.splits)
  next
    assume "\<exists>m t. m \<in> set (ses_mutation_evidence session) \<and> startedBy getTime g m t
        \<and> s = \<lparr>start_nonce = mut_intent_nonce m, start_at = mut_completed_at m, start_timestamp = t\<rparr>"
    then obtain m t where m: "m \<in> set (ses_mutation_evidence session)" "startedBy getTime g m t"
      and s: "s = \<lparr>start_nonce = mut_intent_nonce m, start_at = mut_completed_at m, start_timestamp = t\<rparr>"
      by blast
    have n: "byNonce session (mut_intent_nonce m) = Some m"
      using byNonce_iff [OF assms] m(1) by simp
    obtain e where e: "grp_start_evidence g = Some e" "exactMutationEvidence e m"
      using m(2) by (auto simp: startedBy_def)
    then have en: "mut_intent_nonce e = mut_intent_nonce m" by (simp add: exactMutationEvidence_def)
    obtain s0 u0 where su: "timestampMilliseconds getTime (grp_started_at g) = Some s0"
      "time_of getTime (grp_updated_at g) = Some u0" "s0 \<le> u0" "groupEndError getTime g s0 u0 = None"
      using m(2) unfolding startedBy_def groupTimesOk_def groupEndError_None by blast
    have r: "grp_run_id g = Some (mut_intent_nonce m)" "startMutationExact m g"
      "grp_started_at g = Some (mut_completed_at m)" "time_of getTime (mut_completed_at m) = Some t"
      using m(2) by (simp_all add: startedBy_def)
    show "startOfGroup getTime (byNonce session) g = Inr s"
      unfolding startOfGroup_def e(1) r(1) option.case prod.case n en s
      using blank [OF m(1)] e(2) r(2) su r(3,4) by simp
  qed
qed

text \<open>The time a group started, and whether a mutation of the ledger started it.\<close>

definition startTime :: "date_reader \<Rightarrow> TrafficSessionGroup \<Rightarrow> int" where
  "startTime getTime g = the (timestampMilliseconds getTime (grp_started_at g))"

definition traceableStart :: "date_reader \<Rightarrow> TrafficSession \<Rightarrow> TrafficSessionGroup \<Rightarrow> bool" where
  "traceableStart getTime session g \<longleftrightarrow>
     (\<exists>m\<in>set (ses_mutation_evidence session). startedBy getTime g m (startTime getTime g))"

definition sessionTimesOk :: "date_reader \<Rightarrow> TrafficSession \<Rightarrow> bool" where
  "sessionTimesOk getTime session \<longleftrightarrow>
     (\<exists>s u. time_of getTime (ses_started_at session) = Some s \<and> time_of getTime (ses_updated_at session) = Some u
        \<and> s \<le> u
        \<and> (\<forall>text. ses_ended_at session = Some text \<longrightarrow> (\<exists>e. time_of getTime text = Some e \<and> s \<le> e \<and> e \<le> u)))"

text \<open>The first of the elements whose key is least.\<close>

definition firstLeast :: "('a \<Rightarrow> int) \<Rightarrow> 'a list \<Rightarrow> 'a option" where
  "firstLeast key xs = List.find (\<lambda>x. \<forall>y\<in>set xs. key x \<le> key y) xs"

definition verifiedStarts :: "date_reader \<Rightarrow> TrafficSession \<Rightarrow> TrafficSessionGroup list \<Rightarrow> bool" where
  "verifiedStarts getTime session groups \<longleftrightarrow>
     groups \<noteq> []
     \<and> sessionTimesOk getTime session
     \<and> (\<forall>g\<in>set groups. traceableStart getTime session g)
     \<and> distinct (map grp_run_id groups)
     \<and> (\<forall>m\<in>set (ses_mutation_evidence session). mut_operation m = OpStart
          \<longrightarrow> (\<exists>g\<in>set groups. grp_run_id g = Some (mut_intent_nonce m)))
     \<and> Option.bind (firstLeast (startTime getTime) groups) grp_started_at = Some (ses_started_at session)"

lemma sessionTimeError_None: "sessionTimeError getTime session = None \<longleftrightarrow> sessionTimesOk getTime session"
  by (auto simp: sessionTimeError_def sessionTimesOk_def firstError_None not_less split: option.splits)

definition startRecord :: "date_reader \<Rightarrow> TrafficSessionGroup \<Rightarrow> CompletedStart" where
  "startRecord getTime g =
     \<lparr>start_nonce = the (grp_run_id g), start_at = the (grp_started_at g), start_timestamp = startTime getTime g\<rparr>"

lemma startedBy_record: "startedBy getTime g m t \<Longrightarrow>
   t = startTime getTime g
   \<and> \<lparr>start_nonce = mut_intent_nonce m, start_at = mut_completed_at m, start_timestamp = t\<rparr> = startRecord getTime g"
  by (simp add: startedBy_def startTime_def startRecord_def)

lemma startOfGroup_record:
  "ledgerSound getTime session
   \<Longrightarrow> startOfGroup getTime (byNonce session) g = Inr s
     \<longleftrightarrow> traceableStart getTime session g \<and> s = startRecord getTime g"
  unfolding startOfGroup_Inr traceableStart_def by (metis startedBy_record)

lemma traceableStart_fields:
  "traceableStart getTime session g
   \<Longrightarrow> (\<exists>n. grp_run_id g = Some n \<and> n \<in> set (noncesOf OpStart session)) \<and> grp_started_at g \<noteq> None"
  by (auto simp: traceableStart_def noncesOf_set startedBy_def startMutationExact_def)

lemma reduceTo_firstLeast:
  "(\<And>a b. better a b \<longleftrightarrow> key a < key b) \<Longrightarrow> reduceTo better xs = firstLeast key xs"
  unfolding firstLeast_def by (rule reduceTo_first)

lemma firstLeast_map: "firstLeast key (map f xs) = map_option f (firstLeast (key \<circ> f) xs)"
  by (simp add: firstLeast_def find_map comp_def)

lemma firstLeast_mem: "firstLeast key xs = Some x \<Longrightarrow> x \<in> set xs \<and> (\<forall>y\<in>set xs. key x \<le> key y)"
  by (auto simp: firstLeast_def find_Some_iff)

lemma validateStart_Inr:
  assumes ledger: "ledgerSound getTime session"
  shows "validateStartEvidence getTime session groups (byNonce session) = Inr ts
    \<longleftrightarrow> verifiedStarts getTime session groups \<and> ts = map (startTime getTime) groups"
proof (cases "\<forall>g\<in>set groups. traceableStart getTime session g")
  case True
  let ?starts = "map (startRecord getTime) groups"
  have starts: "collectOrReturn (startOfGroup getTime (byNonce session)) groups = Inr ?starts"
    using True startOfGroup_record [OF ledger] by (intro collectOrReturn_iff [THEN iffD2]) auto
  have run: "map (Some \<circ> start_nonce \<circ> startRecord getTime) groups = map grp_run_id groups"
    using True by (auto simp: startRecord_def dest!: traceableStart_fields)
  have nonces: "distinct (map start_nonce ?starts) \<longleftrightarrow> distinct (map grp_run_id groups)"
    unfolding run [symmetric] by (simp add: comp_assoc distinct_map inj_on_def comp_def)
  have covered: "set (map start_nonce ?starts) = set (noncesOf OpStart session)
      \<longleftrightarrow> (\<forall>m\<in>set (ses_mutation_evidence session). mut_operation m = OpStart
          \<longrightarrow> (\<exists>g\<in>set groups. grp_run_id g = Some (mut_intent_nonce m)))" (is "?l \<longleftrightarrow> ?r")
  proof -
    have some: "grp_run_id g = Some n \<longleftrightarrow> start_nonce (startRecord getTime g) = n" if "g \<in> set groups" for g n
      using traceableStart_fields [of getTime session g] True that by (auto simp: startRecord_def)
    have "set (map start_nonce ?starts) \<subseteq> set (noncesOf OpStart session)"
      using True by (auto simp: startRecord_def dest!: traceableStart_fields)
    then have "?l \<longleftrightarrow> set (noncesOf OpStart session) \<subseteq> set (map start_nonce ?starts)" by blast
    also have "\<dots> \<longleftrightarrow> ?r" using some by (fastforce simp: subset_iff noncesOf_set image_iff)
    finally show ?thesis .
  qed
  have first: "Some (ses_started_at session) = map_option start_at (reduceTo earlierStart ?starts)
      \<longleftrightarrow> Option.bind (firstLeast (startTime getTime) groups) grp_started_at = Some (ses_started_at session)"
    (is "?a \<longleftrightarrow> ?b")
  proof -
    have key: "start_timestamp \<circ> startRecord getTime = startTime getTime" by (auto simp: startRecord_def)
    have f: "reduceTo earlierStart ?starts = map_option (startRecord getTime) (firstLeast (startTime getTime) groups)"
      unfolding reduceTo_firstLeast [of earlierStart start_timestamp, OF earlierStart_def] firstLeast_map key ..
    show ?thesis
    proof (cases "firstLeast (startTime getTime) groups")
      case (Some g)
      then have "traceableStart getTime session g" using True firstLeast_mem by metis
      then have "grp_started_at g \<noteq> None" using traceableStart_fields by blast
      then show ?thesis unfolding f Some by (auto simp: startRecord_def)
    qed (simp add: f)
  qed
  have times: "map start_timestamp ?starts = map (startTime getTime) groups"
    by (simp add: startRecord_def)
  show ?thesis
    unfolding validateStartEvidence_def verifiedStarts_def starts sum.case Let_def returnIf_Inr setOf_size
      exactTextSet_iff nonces covered first [symmetric] times sessionTimeError_None [symmetric]
    using True by (auto split: option.splits)
next
  case False
  have "collectOrReturn (startOfGroup getTime (byNonce session)) groups \<noteq> Inr starts" for starts
    using False startOfGroup_record [OF ledger]
      collectOrReturn_iff [where f = "startOfGroup getTime (byNonce session)"
        and P = "traceableStart getTime session" and g = "startRecord getTime" and xs = groups and ys = starts]
    by blast
  then have "validateStartEvidence getTime session groups (byNonce session) \<noteq> Inr ts"
    by (auto simp: validateStartEvidence_def split: option.splits sum.splits)
  moreover have "\<not> verifiedStarts getTime session groups" using False by (simp add: verifiedStarts_def)
  ultimately show ?thesis by simp
qed

end
