(* ===== verification/RunStopped.thy ===== *)
theory RunStopped
  imports RunVerified
begin

text \<open>
  The stops of a verified run: the operator stop of every group, the stop mutations of the ledger
  and no others, and the end of the session. \<open>verifiedRun\<close> puts the ledger, the starts and the
  stops together; \<open>validateStop_pass\<close> is the equivalence with the chain of checks of the code.
\<close>

section \<open>Stops\<close>

definition stopIntent :: "TrafficSessionGroup \<Rightarrow> string option" where
  "stopIntent g = Option.bind (grp_cleanup_evidence g) cln_intent_nonce"

definition stopTime :: "date_reader \<Rightarrow> TrafficSessionGroup \<Rightarrow> int" where
  "stopTime getTime g = the (timestampMilliseconds getTime (grp_ended_at g))"

text \<open>The group was stopped by the mutation \<open>m\<close>, prepared after its start had completed.\<close>

definition stoppedBy :: "date_reader \<Rightarrow> TrafficSessionGroup \<Rightarrow> TrafficMutationEvidence \<Rightarrow> bool" where
  "stoppedBy getTime g m \<longleftrightarrow>
     mut_operation m = OpStop
     \<and> grp_ended_at g = Some (mut_completed_at m)
     \<and> (\<exists>p. time_of getTime (mut_prepared_at m) = Some p \<and> startTime getTime g \<le> p)
     \<and> (\<exists>c. grp_cleanup_evidence g = Some c
          \<and> cln_completion c = OperatorStop
          \<and> cln_intent_nonce c = Some (mut_intent_nonce m)
          \<and> cln_completed_at c = mut_completed_at m
          \<and> cln_acquisition_restored c = Some True
          \<and> cln_wal_cleared c
          \<and> exactStoppedPortStates (cln_final_port_states c) (grp_ports g))"

definition traceableStop :: "date_reader \<Rightarrow> TrafficSession \<Rightarrow> TrafficSessionGroup \<Rightarrow> bool" where
  "traceableStop getTime session g \<longleftrightarrow>
     \<not> groupNotStopped g \<and> (\<exists>m\<in>set (ses_mutation_evidence session). stoppedBy getTime g m)"

definition stoppedGroups :: "string \<Rightarrow> TrafficSessionGroup list \<Rightarrow> TrafficSessionGroup list" where
  "stoppedGroups nonce groups = filter (\<lambda>g. stopIntent g = Some nonce) groups"

definition verifiedStops :: "date_reader \<Rightarrow> TrafficSession \<Rightarrow> TrafficSessionGroup list \<Rightarrow> bool" where
  "verifiedStops getTime session groups \<longleftrightarrow>
     ses_state session = RunStopped
     \<and> (\<forall>g\<in>set groups. traceableStop getTime session g)
     \<and> (\<forall>m\<in>set (ses_mutation_evidence session). mut_operation m = OpStop
          \<longrightarrow> stoppedGroups (mut_intent_nonce m) groups \<noteq> []
            \<and> exactStopMutation m (stoppedGroups (mut_intent_nonce m) groups))
     \<and> Option.bind (firstLeast (\<lambda>g. - stopTime getTime g) groups) grp_ended_at = ses_ended_at session"

definition verifiedRun :: "date_reader \<Rightarrow> TrafficSession \<Rightarrow> bool" where
  "verifiedRun getTime session \<longleftrightarrow>
     ses_evidence_version session = Some 1
     \<and> ledgerSound getTime session
     \<and> verifiedStarts getTime session (trafficSessionRunGroups session)
     \<and> verifiedStops getTime session (trafficSessionRunGroups session)"

lemma verdict_simps [simp]:
  "stop_verdict (failedStopEvidence detail) = VerdictFail"
  "stop_verdict (incompleteStopEvidence detail) = VerdictWarn"
  by (simp_all add: failedStopEvidence_def incompleteStopEvidence_def Let_def)

section \<open>One group\<close>

definition stopRecord :: "date_reader \<Rightarrow> TrafficSessionGroup \<Rightarrow> CompletedStop" where
  "stopRecord getTime g =
     \<lparr>stop_nonce = the (stopIntent g), stop_group = g, stop_at = the (grp_ended_at g),
      stop_timestamp = stopTime getTime g\<rparr>"

lemma operatorStopNonce_Inr:
  "operatorStopNonce g = Inr n \<longleftrightarrow> stopIntent g = Some n \<and> jsTrim n \<noteq> []"
  by (auto simp: operatorStopNonce_def stopIntent_def split: option.splits)

lemma stopOfGroup_Inr:
  assumes ledger: "ledgerSound getTime session" and own: "cleanupIs OperatorStop g"
  shows "stopOfGroup getTime (byNonce session) (g, startTime getTime g) = Inr s
    \<longleftrightarrow> (\<exists>m\<in>set (ses_mutation_evidence session). stoppedBy getTime g m) \<and> s = stopRecord getTime g"
proof
  obtain c where c: "grp_cleanup_evidence g = Some c" "cln_completion c = OperatorStop"
    using own by (auto simp: cleanupIs_def split: option.splits)
  {
    assume "stopOfGroup getTime (byNonce session) (g, startTime getTime g) = Inr s"
    then show "(\<exists>m\<in>set (ses_mutation_evidence session). stoppedBy getTime g m) \<and> s = stopRecord getTime g"
      using c byNonce_iff [OF ledger]
      by (auto simp: stopOfGroup_def Let_def operatorStopNonce_Inr stoppedBy_def stopRecord_def stopTime_def
          stopIntent_def not_less split: option.splits sum.splits)
  next
    assume r: "(\<exists>m\<in>set (ses_mutation_evidence session). stoppedBy getTime g m) \<and> s = stopRecord getTime g"
    then obtain m p where m: "m \<in> set (ses_mutation_evidence session)" "stoppedBy getTime g m"
      and p: "time_of getTime (mut_prepared_at m) = Some p" "startTime getTime g \<le> p"
      by (auto simp: stoppedBy_def)
    have sound: "jsTrim (mut_intent_nonce m) \<noteq> []" "mutationTimesOk getTime m"
      using ledger m(1) by (auto simp: ledgerSound_def)
    then obtain t where t: "time_of getTime (mut_completed_at m) = Some t" by (auto simp: mutationTimesOk_def)
    have n: "byNonce session (mut_intent_nonce m) = Some m" using byNonce_iff [OF ledger] m(1) by simp
    have i: "stopIntent g = Some (mut_intent_nonce m)" using m(2) by (auto simp: stoppedBy_def stopIntent_def)
    then have o: "operatorStopNonce g = Inr (mut_intent_nonce m)" using sound(1) by (simp add: operatorStopNonce_Inr)
    show "stopOfGroup getTime (byNonce session) (g, startTime getTime g) = Inr s"
      using m(2) c n i t p r
      by (auto simp: stopOfGroup_def Let_def o stoppedBy_def stopRecord_def stopTime_def returnIf_def
          timestampMilliseconds_def split: option.splits if_splits)
  }
qed

lemma stoppedBy_time:
  assumes "ledgerSound getTime session" "m \<in> set (ses_mutation_evidence session)" "stoppedBy getTime g m"
  shows "time_of getTime (mut_completed_at m) = Some (stopTime getTime g) \<and> startTime getTime g \<le> stopTime getTime g"
proof -
  have "mutationTimesOk getTime m" using assms(1,2) by (simp add: ledgerSound_def)
  then obtain p c where "time_of getTime (mut_prepared_at m) = Some p"
    "time_of getTime (mut_completed_at m) = Some c" "p \<le> c"
    by (auto simp: mutationTimesOk_def)
  with assms(3) show ?thesis by (auto simp: stoppedBy_def stopTime_def)
qed

lemma stoppedBy_timeline:
  assumes "ledgerSound getTime session" "m \<in> set (ses_mutation_evidence session)" "stoppedBy getTime g m"
  shows "cleanupTimelineError getTime (g, startTime getTime g) = None"
  using stoppedBy_time [OF assms] assms(3)
  by (auto simp: cleanupTimelineError_def stoppedBy_def)

lemma stoppedBy_operator: "stoppedBy getTime g m \<Longrightarrow> cleanupIs OperatorStop g \<and> \<not> cleanupIs CleanupHardStop g"
  by (auto simp: stoppedBy_def cleanupIs_def)

lemma stoppedBy_intent: "stoppedBy getTime g m \<Longrightarrow> stopIntent g = Some (mut_intent_nonce m)"
  by (auto simp: stoppedBy_def stopIntent_def)

section \<open>The whole check\<close>

lemma zip_startTime: "zip groups (map f groups) = map (\<lambda>g. (g, f g)) groups"
  by (induction groups) auto

lemma groupsByIntent_records:
  assumes "\<forall>g\<in>set groups. stopIntent g \<noteq> None"
  shows "(n, gs) \<in> set (groupsByIntent (map (stopRecord getTime) groups))
    \<longleftrightarrow> gs = stoppedGroups n groups \<and> stoppedGroups n groups \<noteq> []"
proof -
  have "filter (\<lambda>g. the (stopIntent g) = n) groups = stoppedGroups n groups" for n
    unfolding stoppedGroups_def using assms by (intro filter_cong) auto
  then have f: "map stop_group (filter (\<lambda>s. stop_nonce s = n) (map (stopRecord getTime) groups)) = stoppedGroups n groups"
    for n by (simp add: filter_map comp_def stopRecord_def)
  have "n \<in> set (map stop_nonce (map (stopRecord getTime) groups)) \<longleftrightarrow> stoppedGroups n groups \<noteq> []"
    using assms by (force simp: stopRecord_def stoppedGroups_def filter_empty_conv image_iff)
  then show ?thesis
    unfolding groupsByIntent_def using f [of n] by auto
qed

lemma intentError_None: "intentError lookup (n, gs) = None \<longleftrightarrow> (\<exists>m. lookup n = Some m \<and> exactStopMutation m gs)"
  by (auto simp: intentError_def split: option.splits)

lemma lastStop:
  assumes "\<forall>g\<in>set groups. grp_ended_at g \<noteq> None"
  shows "map_option stop_at (reduceTo laterStop (map (stopRecord getTime) groups))
    = Option.bind (firstLeast (\<lambda>g. - stopTime getTime g) groups) grp_ended_at"
proof -
  have key: "(\<lambda>s. - stop_timestamp s) \<circ> stopRecord getTime = (\<lambda>g. - stopTime getTime g)"
    by (auto simp: stopRecord_def)
  have "reduceTo laterStop (map (stopRecord getTime) groups)
      = map_option (stopRecord getTime) (firstLeast (\<lambda>g. - stopTime getTime g) groups)"
    unfolding key [symmetric] firstLeast_map [symmetric]
    by (rule reduceTo_firstLeast) (simp add: laterStop_def)
  then show ?thesis
  proof (cases "firstLeast (\<lambda>g. - stopTime getTime g) groups")
    case (Some g)
    then have "grp_ended_at g \<noteq> None" using assms firstLeast_mem by metis
    with Some \<open>reduceTo _ _ = _\<close> show ?thesis by (auto simp: stopRecord_def)
  qed simp
qed

lemma operatorStops_pass:
  assumes ledger: "ledgerSound getTime session"
    and own: "\<forall>g\<in>set groups. cleanupIs OperatorStop g"
  shows "stop_verdict (validateOperatorStops getTime session groups (byNonce session) (map (startTime getTime) groups))
      = VerdictPass
    \<longleftrightarrow> (\<forall>g\<in>set groups. \<exists>m\<in>set (ses_mutation_evidence session). stoppedBy getTime g m)
      \<and> (\<forall>m\<in>set (ses_mutation_evidence session). stoppedGroups (mut_intent_nonce m) groups \<noteq> []
          \<longrightarrow> exactStopMutation m (stoppedGroups (mut_intent_nonce m) groups))
      \<and> Option.bind (firstLeast (\<lambda>g. - stopTime getTime g) groups) grp_ended_at = ses_ended_at session"
    (is "_ = VerdictPass \<longleftrightarrow> ?all \<and> ?intents \<and> ?end")
proof (cases ?all)
  case True
  have stops: "collectOrReturn (stopOfGroup getTime (byNonce session)) (zip groups (map (startTime getTime) groups))
      = Inr (map (stopRecord getTime) groups)"
    unfolding zip_startTime collectOrReturn_Inr list_all2_map1 list_all2_map2
    using True own stopOfGroup_Inr [OF ledger] by (auto simp: list_all2_same)
  have ended: "\<forall>g\<in>set groups. grp_ended_at g \<noteq> None"
    using True by (auto simp: stoppedBy_def)
  have some: "\<forall>g\<in>set groups. stopIntent g \<noteq> None"
    using True by (auto dest!: stoppedBy_intent)
  have found: "\<exists>m\<in>set (ses_mutation_evidence session). mut_intent_nonce m = n" if "stoppedGroups n groups \<noteq> []" for n
    using that True by (fastforce simp: stoppedGroups_def filter_empty_conv dest!: stoppedBy_intent)
  have intents: "firstErrorOf (intentError (byNonce session)) (groupsByIntent (map (stopRecord getTime) groups)) = None
      \<longleftrightarrow> ?intents"
  proof -
    have "firstErrorOf (intentError (byNonce session)) (groupsByIntent (map (stopRecord getTime) groups)) = None
        \<longleftrightarrow> (\<forall>n gs. (n, gs) \<in> set (groupsByIntent (map (stopRecord getTime) groups))
              \<longrightarrow> intentError (byNonce session) (n, gs) = None)"
      by (simp add: firstErrorOf_None Ball_def)
    also have "\<dots> \<longleftrightarrow> (\<forall>n. stoppedGroups n groups \<noteq> []
        \<longrightarrow> (\<exists>m. byNonce session n = Some m \<and> exactStopMutation m (stoppedGroups n groups)))"
      by (simp add: groupsByIntent_records [OF some] intentError_None)
    also have "\<dots> \<longleftrightarrow> ?intents"
    proof (intro iffI ballI allI impI)
      fix m assume m: "m \<in> set (ses_mutation_evidence session)" "stoppedGroups (mut_intent_nonce m) groups \<noteq> []"
        and all: "\<forall>n. stoppedGroups n groups \<noteq> []
          \<longrightarrow> (\<exists>m. byNonce session n = Some m \<and> exactStopMutation m (stoppedGroups n groups))"
      from all m(2) obtain m' where m': "byNonce session (mut_intent_nonce m) = Some m'"
        "exactStopMutation m' (stoppedGroups (mut_intent_nonce m) groups)" by blast
      moreover have "byNonce session (mut_intent_nonce m) = Some m" using byNonce_iff [OF ledger] m(1) by simp
      ultimately show "exactStopMutation m (stoppedGroups (mut_intent_nonce m) groups)" by simp
    next
      fix n assume n: "stoppedGroups n groups \<noteq> []" and i: ?intents
      from found [OF n] obtain m where m: "m \<in> set (ses_mutation_evidence session)" "mut_intent_nonce m = n" by blast
      have "byNonce session n = Some m" using byNonce_iff [OF ledger] m by simp
      with i m n show "\<exists>m. byNonce session n = Some m \<and> exactStopMutation m (stoppedGroups n groups)" by auto
    qed
    finally show ?thesis .
  qed
  show ?thesis
    unfolding validateOperatorStops_def stops sum.case lastStop [OF ended]
    using True intents by (auto split: option.splits)
next
  case False
  then obtain g where g: "g \<in> set groups"
      "\<not> (\<exists>m\<in>set (ses_mutation_evidence session). stoppedBy getTime g m)" by blast
  have "collectOrReturn (stopOfGroup getTime (byNonce session)) (zip groups (map (startTime getTime) groups)) \<noteq> Inr ss"
    for ss
    unfolding zip_startTime
    using g own stopOfGroup_Inr [OF ledger]
      collectOrReturn_ok [of "stopOfGroup getTime (byNonce session)" "map (\<lambda>g. (g, startTime getTime g)) groups"]
    by fastforce
  with False show ?thesis
    by (auto simp: validateOperatorStops_def split: sum.splits)
qed

text \<open>The intents of the operator stops are all of the ledger: stated over the groups.\<close>

lemma collect_operatorStopNonce:
  "collectOrReturn operatorStopNonce groups = Inr ns
   \<longleftrightarrow> (\<forall>g\<in>set groups. \<exists>n. stopIntent g = Some n \<and> jsTrim n \<noteq> []) \<and> ns = map (the \<circ> stopIntent) groups"
  by (rule collectOrReturn_iff) (auto simp: operatorStopNonce_Inr)

lemma verifiedStops_hard: "verifiedStops getTime session groups \<Longrightarrow> \<not> hardStopSeen session groups"
  unfolding verifiedStops_def hardStopSeen_def list_ex_iff traceableStop_def exactStopMutation_def Let_def
  using stoppedBy_operator by blast

lemma verifiedStops_intents:
  assumes "verifiedStops getTime session groups"
  shows "set (map (the \<circ> stopIntent) groups) = set (noncesOf OpStop session)"
proof
  show "set (map (the \<circ> stopIntent) groups) \<subseteq> set (noncesOf OpStop session)"
  proof
    fix n assume "n \<in> set (map (the \<circ> stopIntent) groups)"
    then obtain g where g: "g \<in> set groups" "n = the (stopIntent g)" by auto
    then obtain m where "m \<in> set (ses_mutation_evidence session)" "stoppedBy getTime g m"
      using assms by (auto simp: verifiedStops_def traceableStop_def)
    with g show "n \<in> set (noncesOf OpStop session)"
      unfolding noncesOf_set by (auto simp: stoppedBy_def stopIntent_def)
  qed
  have "n \<in> set (map (the \<circ> stopIntent) groups)" if "stoppedGroups n groups \<noteq> []" for n
    using that by (force simp: stoppedGroups_def filter_empty_conv)
  then show "set (noncesOf OpStop session) \<subseteq> set (map (the \<circ> stopIntent) groups)"
    using assms unfolding subset_iff noncesOf_set verifiedStops_def by blast
qed

lemma stoppedGroups_stop:
  assumes ledger: "ledgerSound getTime session"
    and stopped: "\<forall>g\<in>set groups. \<exists>m\<in>set (ses_mutation_evidence session). stoppedBy getTime g m"
    and m: "m \<in> set (ses_mutation_evidence session)" "stoppedGroups (mut_intent_nonce m) groups \<noteq> []"
  shows "mut_operation m = OpStop"
proof -
  obtain g where g: "g \<in> set groups" "stopIntent g = Some (mut_intent_nonce m)"
    using m(2) by (auto simp: stoppedGroups_def filter_empty_conv)
  then obtain m' where m': "m' \<in> set (ses_mutation_evidence session)" "stoppedBy getTime g m'" using stopped by blast
  then have "mut_intent_nonce m' = mut_intent_nonce m" using g(2) stoppedBy_intent by fastforce
  then have "m' = m" using byNonce_iff [OF ledger] m(1) m'(1) by (metis option.inject)
  with m'(2) show ?thesis by (simp add: stoppedBy_def)
qed

lemma validateStop_pass:
  assumes ledger: "ledgerSound getTime session" and some: "groups \<noteq> []"
  shows "stop_verdict (validateStopEvidence getTime session groups (byNonce session) (map (startTime getTime) groups))
      = VerdictPass \<longleftrightarrow> verifiedStops getTime session groups"
proof
  assume v: "verifiedStops getTime session groups"
  have stopped: "\<forall>g\<in>set groups. \<exists>m\<in>set (ses_mutation_evidence session). stoppedBy getTime g m"
    and running: "\<forall>g\<in>set groups. \<not> groupNotStopped g"
    using v by (simp_all add: verifiedStops_def traceableStop_def)
  have own: "\<forall>g\<in>set groups. cleanupIs OperatorStop g" using stopped stoppedBy_operator by blast
  then have all: "filter (cleanupIs OperatorStop) groups = groups" by (simp add: filter_id_conv)
  have times: "firstErrorOf (cleanupTimelineError getTime) (zip groups (map (startTime getTime) groups)) = None"
    unfolding firstErrorOf_None zip_startTime using stopped stoppedBy_timeline [OF ledger] by auto
  have nonces: "collectOrReturn operatorStopNonce groups = Inr (map (the \<circ> stopIntent) groups)"
    unfolding collect_operatorStopNonce using stopped ledger by (fastforce simp: ledgerSound_def dest: stoppedBy_intent)
  have last: "Option.bind (firstLeast (\<lambda>g. - stopTime getTime g) groups) grp_ended_at = ses_ended_at session"
    using v by (simp add: verifiedStops_def)
  have "timestampMilliseconds getTime (ses_ended_at session) \<noteq> None"
  proof -
    have "firstLeast (\<lambda>g. - stopTime getTime g) groups \<noteq> None"
      using some reduceTo_firstLeast [of "\<lambda>a b. - stopTime getTime a < - stopTime getTime b" "\<lambda>g. - stopTime getTime g" groups]
      by (metis reduceTo_None)
    then obtain g where g: "firstLeast (\<lambda>g. - stopTime getTime g) groups = Some g" by blast
    then have "g \<in> set groups" using firstLeast_mem by metis
    then obtain m where m: "m \<in> set (ses_mutation_evidence session)" "stoppedBy getTime g m" using stopped by blast
    then have "grp_ended_at g = Some (mut_completed_at m)" by (simp add: stoppedBy_def)
    with last g stoppedBy_time [OF ledger m] show ?thesis by auto
  qed
  moreover have "stop_verdict (validateOperatorStops getTime session groups (byNonce session)
      (map (startTime getTime) groups)) = VerdictPass"
    unfolding operatorStops_pass [OF ledger own]
    using v stopped stoppedGroups_stop [OF ledger stopped] by (simp add: verifiedStops_def)
  moreover have "List.find groupNotStopped groups = None" "List.find (\<lambda>g. \<not> cleanupIs OperatorStop g) groups = None"
    using running own by (simp_all add: find_None_iff)
  ultimately show "stop_verdict (validateStopEvidence getTime session groups (byNonce session)
      (map (startTime getTime) groups)) = VerdictPass"
    unfolding validateStopEvidence_def times all nonces option.case sum.case exactTextSet_iff verifiedStops_intents [OF v]
    using verifiedStops_hard [OF v] v by (simp add: verifiedStops_def)
next
  assume pass: "stop_verdict (validateStopEvidence getTime session groups (byNonce session)
      (map (startTime getTime) groups)) = VerdictPass"
  then obtain ns where ns: "collectOrReturn operatorStopNonce (filter (cleanupIs OperatorStop) groups) = Inr ns"
    and covered: "set ns = set (noncesOf OpStop session)" and state: "ses_state session = RunStopped"
    and own: "\<forall>g\<in>set groups. cleanupIs OperatorStop g" and run: "\<forall>g\<in>set groups. \<not> groupNotStopped g"
    and ops: "stop_verdict (validateOperatorStops getTime session groups (byNonce session)
      (map (startTime getTime) groups)) = VerdictPass"
    by (auto simp: validateStopEvidence_def find_None_iff split: if_splits option.splits sum.splits)
  have all: "filter (cleanupIs OperatorStop) groups = groups" using own by (simp add: filter_id_conv)
  have "stoppedGroups (mut_intent_nonce m) groups \<noteq> []"
    if "m \<in> set (ses_mutation_evidence session)" "mut_operation m = OpStop" for m
  proof -
    have "mut_intent_nonce m \<in> set ns" unfolding covered noncesOf_set using that by blast
    then show ?thesis using ns unfolding all collect_operatorStopNonce
      by (force simp: stoppedGroups_def filter_empty_conv)
  qed
  then show "verifiedStops getTime session groups"
    using state run ops unfolding verifiedStops_def traceableStop_def operatorStops_pass [OF ledger own] by blast
qed

text \<open>The stop verdict of the persisted evidence: pass exactly for a verified run.\<close>

lemma evidence_pass:
  "stop_verdict (ev_stopEvidence (persistedTrafficEvidence getTime (Some attached) fallback)) = VerdictPass
   \<longleftrightarrow> verifiedRun getTime (rrs_session attached)"
proof (cases "ses_evidence_version (rrs_session attached) = Some 1 \<and> ledgerSound getTime (rrs_session attached)")
  case True
  let ?session = "rrs_session attached"
  let ?groups = "trafficSessionRunGroups ?session"
  have b: "mapFrom (map (\<lambda>m. (mut_intent_nonce m, m)) (ses_mutation_evidence ?session)) = byNonce ?session"
    by (simp add: byNonce_def)
  have e: "ev_stopEvidence (persistedTrafficEvidence getTime (Some attached) fallback)
    = (case validateStartEvidence getTime ?session ?groups (byNonce ?session) of
         Inl startError \<Rightarrow> failedStopEvidence (''start evidence chain is invalid: '' @ startError)
       | Inr ts \<Rightarrow> validateStopEvidence getTime ?session ?groups (byNonce ?session) ts)"
    using True unfolding persistedTrafficEvidence_def
    by (simp add: Let_def b mutationLedgerError_None [symmetric] split: sum.splits)
  show ?thesis
  proof (cases "validateStartEvidence getTime ?session ?groups (byNonce ?session)")
    case (Inl msg)
    then have "\<not> verifiedStarts getTime ?session ?groups"
      using validateStart_Inr [of getTime ?session ?groups] True by fastforce
    then show ?thesis unfolding e Inl by (simp add: verifiedRun_def)
  next
    case (Inr ts)
    then have s: "verifiedStarts getTime ?session ?groups" "ts = map (startTime getTime) ?groups"
      using validateStart_Inr [of getTime ?session ?groups] True by blast+
    then have "?groups \<noteq> []" by (simp add: verifiedStarts_def)
    then show ?thesis unfolding e Inr sum.case s(2)
      using validateStop_pass True s(1) by (simp add: verifiedRun_def)
  qed
next
  case False
  then have "mutationLedgerError getTime (rrs_session attached) \<noteq> None
      \<or> ses_evidence_version (rrs_session attached) \<noteq> Some 1" unfolding mutationLedgerError_None by blast
  then have "stop_verdict (ev_stopEvidence (persistedTrafficEvidence getTime (Some attached) fallback)) \<noteq> VerdictPass"
    by (auto simp: persistedTrafficEvidence_def Let_def)
  with False show ?thesis unfolding verifiedRun_def by blast
qed

end
