(* ===== verification/RunPage.thy ===== *)
theory RunPage
  imports RunStopped
begin

text \<open>
  The page as a state machine: what it does when a snapshot of the runtime arrives, a command is
  accepted, a capture is saved, or the connection changes, in any order. The facts hold in every
  state the page can reach.
\<close>

section \<open>Events\<close>

datatype PageEvent =
    SnapshotArrives TrafficRuntimeSnapshot
  | SessionReturned TrafficSession
  | ControlAccepted ControlAction command_data
  | StopAllAccepted
  | UpdateAccepted command_data
  | StartAuthorized "string option"
  | CaptureFileSaved "string option" string
  | ConnectRequested
  | Disconnected

fun pageEvent :: "date_reader \<Rightarrow> PageEvent \<Rightarrow> PageSession \<Rightarrow> PageSession" where
  "pageEvent getTime (SnapshotArrives snapshot) page = applyTrafficRuntimeSnapshot snapshot page"
| "pageEvent getTime (SessionReturned session) page = applyTrafficSessionResponse session page"
| "pageEvent getTime (ControlAccepted action data) page = controlAccepted action data page"
| "pageEvent getTime StopAllAccepted page = stopAllAccepted page"
| "pageEvent getTime (UpdateAccepted data) page = updateAccepted data page"
| "pageEvent getTime (StartAuthorized sessionId) page = startAuthorized sessionId page"
| "pageEvent getTime (CaptureFileSaved modified now) page =
     captureSaved getTime (captureCompletion getTime modified now) page"
| "pageEvent getTime ConnectRequested page = connectRequested page"
| "pageEvent getTime Disconnected page = disconnectPage page"

definition initialPage :: PageSession where
  "initialPage = \<lparr>page_authority = None, page_runtime = None, page_runSession = None\<rparr>"

text \<open>The states the page reaches, with the events that led there.\<close>

inductive pageReaches :: "date_reader \<Rightarrow> PageEvent list \<Rightarrow> PageSession \<Rightarrow> bool" for getTime where
  start: "pageReaches getTime [] initialPage"
| event: "pageReaches getTime events page \<Longrightarrow> pageReaches getTime (events @ [e]) (pageEvent getTime e page)"

inductive_simps pageReaches_Nil [simp]: "pageReaches getTime [] page"
inductive_cases pageReaches_snocE: "pageReaches getTime (events @ [e]) page"

lemma pageReaches_run: "pageReaches getTime events (fold (pageEvent getTime) events initialPage)"
  by (induction events rule: rev_induct) (auto intro: pageReaches.intros)

lemma pageReaches_iff: "pageReaches getTime events page \<longleftrightarrow> page = fold (pageEvent getTime) events initialPage"
proof
  show "pageReaches getTime events page \<Longrightarrow> page = fold (pageEvent getTime) events initialPage"
    by (induction rule: pageReaches.induct) simp_all
qed (use pageReaches_run in blast)

section \<open>One session\<close>

text \<open>The runtime shown and the session of the report are the same session.\<close>

definition oneSession :: "PageSession \<Rightarrow> bool" where
  "oneSession page \<longleftrightarrow>
     (\<forall>snapshot run. page_runtime page = Some snapshot \<longrightarrow> page_runSession page = Some run
        \<longrightarrow> rts_session snapshot = Some (rrs_session run))"

lemma captureSaved_session:
  "page_runtime (captureSaved getTime c page) = page_runtime page"
  "page_authority (captureSaved getTime c page) = page_authority page"
  "map_option rrs_session (page_runSession (captureSaved getTime c page)) = map_option rrs_session (page_runSession page)"
  by (auto simp: captureSaved_def Let_def split: option.splits)

lemmas authority_defs = controlAccepted_def stopAllAccepted_def updateAccepted_def connectRequested_def
  startAuthorized_def disconnectPage_def

lemma commands_keep_session:
  "page_runtime (controlAccepted action data page) = page_runtime page"
  "page_runSession (controlAccepted action data page) = page_runSession page"
  "page_runtime (stopAllAccepted page) = page_runtime page"
  "page_runSession (stopAllAccepted page) = page_runSession page"
  "page_runtime (updateAccepted data page) = page_runtime page"
  "page_runSession (updateAccepted data page) = page_runSession page"
  "page_runtime (connectRequested page) = page_runtime page"
  "page_runSession (connectRequested page) = page_runSession page"
  "page_runtime (startAuthorized sessionId page) = page_runtime page"
  "page_runSession (startAuthorized sessionId page) = page_runSession page"
  by (auto simp: authority_defs split: option.splits)

lemma synchronize_session:
  "synchronizeRunReportTrafficSession current snapshot = Some run \<Longrightarrow> rts_session snapshot = Some (rrs_session run)"
  by (auto simp: synchronizeRunReportTrafficSession_def split: option.splits if_splits)

lemma oneSession_event: "oneSession page \<Longrightarrow> oneSession (pageEvent getTime e page)"
proof (cases e)
  case (CaptureFileSaved modified now)
  assume "oneSession page"
  then show ?thesis
    using captureSaved_session(1,3) [of getTime "captureCompletion getTime modified now" page] CaptureFileSaved
    by (cases "page_runSession page") (auto simp: oneSession_def)
qed (auto simp: oneSession_def commands_keep_session applyTrafficRuntimeSnapshot_def applyTrafficSessionResponse_def
    disconnectPage_def dest: synchronize_session)

interpretation one_session: event_machine "pageEvent getTime" initialPage "\<lambda>events. oneSession" for getTime
  by unfold_locales (simp add: oneSession_def initialPage_def, rule oneSession_event)

lemma reached_oneSession: "pageReaches getTime events page \<Longrightarrow> oneSession page"
  using one_session.always by (simp add: pageReaches_iff)

section \<open>Authority\<close>

text \<open>The session an event binds the page to.\<close>

fun announces :: "PageEvent \<Rightarrow> string option" where
  "announces (SnapshotArrives snapshot) =
     (case rts_session snapshot of None \<Rightarrow> None | Some s \<Rightarrow> if ses_state s \<noteq> RunStopped then Some (ses_id s) else None)"
| "announces (SessionReturned s) = (if ses_state s \<noteq> RunStopped then Some (ses_id s) else None)"
| "announces (ControlAccepted action data) = commandTrafficSessionId data"
| "announces (UpdateAccepted data) = commandTrafficSessionId data"
| "announces _ = None"

text \<open>An event that does not touch the authority.\<close>

fun keepsAuthority :: "PageEvent \<Rightarrow> bool" where
  "keepsAuthority (ControlAccepted action data) \<longleftrightarrow>
     commandTrafficSessionId data = None \<and> \<not> (action = ControlStop \<and> commandTrafficSessionState data = Some ''stopped'')"
| "keepsAuthority (UpdateAccepted data) \<longleftrightarrow> commandTrafficSessionId data = None"
| "keepsAuthority (StartAuthorized sessionId) \<longleftrightarrow> sessionId \<noteq> None"
| "keepsAuthority (CaptureFileSaved modified now) \<longleftrightarrow> True"
| "keepsAuthority _ \<longleftrightarrow> False"

lemma event_authority:
  "page_authority (pageEvent getTime e page) = Some i
   \<Longrightarrow> announces e = Some i \<or> keepsAuthority e \<and> page_authority page = Some i"
  by (cases e) (auto simp: authority_defs applyTrafficRuntimeSnapshot_def applyTrafficSessionResponse_def
      captureSaved_session split: option.splits if_splits)

interpretation authority: event_machine "pageEvent getTime" initialPage
  "\<lambda>events page. \<forall>i. page_authority page = Some i
     \<longrightarrow> lastly (\<lambda>before e. announces e = Some i) keepsAuthority events" for getTime
  by unfold_locales (auto simp: initialPage_def dest!: event_authority)

lemma reached_authority:
  "pageReaches getTime events page \<Longrightarrow> page_authority page = Some i
   \<Longrightarrow> lastly (\<lambda>before e. announces e = Some i) keepsAuthority events"
  using authority.always by (simp add: pageReaches_iff)

section \<open>The completed capture\<close>

text \<open>The session of the report, and the capture completion the report shows for it.\<close>

definition reportSession :: "PageSession \<Rightarrow> string option" where
  "reportSession page = map_option (ses_id \<circ> rrs_session) (page_runSession page)"

definition reportCapture :: "PageSession \<Rightarrow> string option" where
  "reportCapture page = Option.bind (page_runSession page) rrs_captureCompletedAt"

text \<open>An event after which the report is still about the session \<open>i\<close>.\<close>

fun staysWith :: "string \<Rightarrow> PageEvent \<Rightarrow> bool" where
  "staysWith i (SnapshotArrives snapshot) \<longleftrightarrow> map_option ses_id (rts_session snapshot) = Some i"
| "staysWith i (SessionReturned session) \<longleftrightarrow> ses_id session = i"
| "staysWith i Disconnected \<longleftrightarrow> False"
| "staysWith i _ \<longleftrightarrow> True"

lemma event_session:
  "reportSession (pageEvent getTime e page) = Some i \<Longrightarrow> staysWith i e"
  by (cases e) (auto simp: reportSession_def applyTrafficRuntimeSnapshot_def applyTrafficSessionResponse_def
      disconnectPage_def dest: synchronize_session)

lemma reportSession_same:
  "(\<exists>run. page_runSession page = Some run \<and> ses_id (rrs_session run) = i) \<longleftrightarrow> reportSession page = Some i"
  by (auto simp: reportSession_def)

lemma captureSaved_capture:
  "reportCapture (captureSaved getTime c page) = Some t
   \<Longrightarrow> t = c \<and> reportSession page \<noteq> None \<or> reportCapture page = Some t"
  by (auto simp: captureSaved_def reportCapture_def reportSession_def Let_def split: option.splits if_splits)

text \<open>The event that set the capture completion.\<close>

definition savesCapture :: "date_reader \<Rightarrow> PageEvent \<Rightarrow> string \<Rightarrow> bool" where
  "savesCapture getTime e c \<longleftrightarrow>
     (\<exists>modified now. e = CaptureFileSaved modified now \<and> captureCompletion getTime modified now = c)"

lemma captureSaved_reportSession [simp]: "reportSession (captureSaved getTime c page) = reportSession page"
  using captureSaved_session(3) [of getTime c page]
  by (cases "page_runSession page"; cases "page_runSession (captureSaved getTime c page)")
     (auto simp: reportSession_def)

lemma reportSession_commands:
  "reportSession (controlAccepted action data page) = reportSession page"
  "reportSession (stopAllAccepted page) = reportSession page"
  "reportSession (updateAccepted data page) = reportSession page"
  "reportSession (connectRequested page) = reportSession page"
  "reportSession (startAuthorized sessionId page) = reportSession page"
  "reportCapture (controlAccepted action data page) = reportCapture page"
  "reportCapture (stopAllAccepted page) = reportCapture page"
  "reportCapture (updateAccepted data page) = reportCapture page"
  "reportCapture (connectRequested page) = reportCapture page"
  "reportCapture (startAuthorized sessionId page) = reportCapture page"
  by (simp_all add: reportSession_def reportCapture_def commands_keep_session)

lemma event_capture:
  assumes "reportSession (pageEvent getTime e page) = Some i" "reportCapture (pageEvent getTime e page) = Some c"
  shows "reportSession page = Some i \<and> (savesCapture getTime e c \<or> reportCapture page = Some c)"
proof (cases e)
  case (SnapshotArrives snapshot)
  with assms show ?thesis
    by (auto simp: applyTrafficRuntimeSnapshot_def synchronizeRunReportTrafficSession_def reportSession_def
        reportCapture_def split: option.splits if_splits)
next
  case (SessionReturned session)
  with assms show ?thesis
    by (auto simp: applyTrafficSessionResponse_def reportSession_def reportCapture_def split: option.splits if_splits)
next
  case (CaptureFileSaved modified now)
  with assms show ?thesis
    using captureSaved_capture [of getTime "captureCompletion getTime modified now" page c]
    by (auto simp: savesCapture_def)
qed (use assms in \<open>auto simp: reportSession_commands commands_keep_session disconnectPage_def reportCapture_def\<close>)

text \<open>The last capture was saved while the report was about the session \<open>i\<close>, and it has been since.\<close>

definition capturedFor :: "date_reader \<Rightarrow> string \<Rightarrow> string \<Rightarrow> PageEvent list \<Rightarrow> bool" where
  "capturedFor getTime i c =
     lastly (\<lambda>before e. savesCapture getTime e c
               \<and> reportSession (fold (pageEvent getTime) before initialPage) = Some i) (staysWith i)"

lemma capturedFor_event:
  assumes "\<forall>i c. reportSession page = Some i \<longrightarrow> reportCapture page = Some c \<longrightarrow> capturedFor getTime i c events"
    and "page = fold (pageEvent getTime) events initialPage"
    and "reportSession (pageEvent getTime e page) = Some i" "reportCapture (pageEvent getTime e page) = Some c"
  shows "capturedFor getTime i c (events @ [e])"
  using event_capture [OF assms(3,4)] event_session [OF assms(3)] assms(1,2)
  unfolding capturedFor_def lastly_snoc by blast

interpretation capture: event_machine "pageEvent getTime" initialPage
  "\<lambda>events page. \<forall>i c. reportSession page = Some i \<longrightarrow> reportCapture page = Some c
     \<longrightarrow> capturedFor getTime i c events" for getTime
  by unfold_locales (simp add: reportSession_def initialPage_def, blast intro: capturedFor_event)

lemma reached_capture:
  "pageReaches getTime events page \<Longrightarrow> reportSession page = Some i \<Longrightarrow> reportCapture page = Some c
   \<Longrightarrow> capturedFor getTime i c events"
  using capture.always by (simp add: pageReaches_iff)

text \<open>Within one session the completion never goes back.\<close>

fun clockOk :: "date_reader \<Rightarrow> PageEvent \<Rightarrow> bool" where
  "clockOk getTime (CaptureFileSaved modified now) \<longleftrightarrow> getTime now \<noteq> None"
| "clockOk getTime _ \<longleftrightarrow> True"

lemma captureCompletion_read:
  "getTime now \<noteq> None \<Longrightarrow> getTime (captureCompletion getTime modified now) \<noteq> None"
  by (auto simp: captureCompletion_def split: option.splits)

lemma captureSaved_later:
  assumes "getTime c = Some new" "getTime [] = None" "reportCapture page = Some old" "getTime old = Some t"
  shows "\<exists>next t'. reportCapture (captureSaved getTime c page) = Some next \<and> getTime next = Some t' \<and> t \<le> t'"
proof -
  obtain run where r: "page_runSession page = Some run" "rrs_captureCompletedAt run = Some old"
    using assms(3) by (cases "page_runSession page") (auto simp: reportCapture_def)
  have "old \<noteq> []" using assms(2,4) by auto
  then show ?thesis using assms r by (auto simp: captureSaved_def reportCapture_def Let_def)
qed

lemma event_monotone:
  assumes "clockOk getTime e" "getTime [] = None"
    and same: "reportSession page = Some i" "reportSession (pageEvent getTime e page) = Some i"
    and old: "reportCapture page = Some old" "getTime old = Some t"
  shows "\<exists>next t'. reportCapture (pageEvent getTime e page) = Some next \<and> getTime next = Some t' \<and> t \<le> t'"
proof (cases e)
  case (SnapshotArrives snapshot)
  with same old show ?thesis
    by (auto simp: applyTrafficRuntimeSnapshot_def synchronizeRunReportTrafficSession_def reportSession_def
        reportCapture_def split: option.splits if_splits)
next
  case (SessionReturned session)
  with same old show ?thesis
    by (auto simp: applyTrafficSessionResponse_def reportSession_def reportCapture_def split: option.splits if_splits)
next
  case (CaptureFileSaved modified now)
  then obtain new where "getTime (captureCompletion getTime modified now) = Some new"
    using assms(1) captureCompletion_read [of getTime now modified] by auto
  from captureSaved_later [OF this assms(2) old] CaptureFileSaved show ?thesis by simp
qed (use assms in \<open>auto simp: reportSession_commands disconnectPage_def reportSession_def\<close>)

section \<open>Commands\<close>

lemma activePorts_mem: "p \<in> set (activeManagedSessionPorts session)
   \<longleftrightarrow> (\<exists>g\<in>set (ses_groups session). p \<in> set (grp_ports g)
        \<and> (map_of (grp_port_states g) p = Some PortRunning \<or> map_of (grp_port_states g) p = Some PortPaused))"
  by (auto simp: activeManagedSessionPorts_def Let_def)

lemma activePorts_sorted: "sorted (activeManagedSessionPorts session)" "distinct (activeManagedSessionPorts session)"
  by (simp_all add: activeManagedSessionPorts_def sortedSet_sorted)

text \<open>The session a control or rate command may change, as the runtime reports it.\<close>

definition controllable :: "RuntimeResponse \<Rightarrow> TrafficSession \<Rightarrow> bool" where
  "controllable runtime session \<longleftrightarrow>
     rsp_ok runtime
     \<and> (\<exists>snapshot. rsp_data runtime = Some snapshot \<and> rts_session snapshot = Some session)
     \<and> ses_state session \<in> {RunRunning, RunPaused, RunMixed}"

text \<open>The ports a command takes: all active ports, or the requested ones.\<close>

definition commandPorts :: "TrafficSession \<Rightarrow> int list option \<Rightarrow> int list" where
  "commandPorts session requested =
     (case requested of None \<Rightarrow> activeManagedSessionPorts session | Some ps \<Rightarrow> sortedSet ps)"

lemma commandPorts_sorted: "sorted (commandPorts session requested)" "distinct (commandPorts session requested)"
  by (simp_all add: commandPorts_def activePorts_sorted sortedSet_sorted split: option.split)

lemma mutationAuthority_Inr:
  "resolveTrafficMutationAuthority runtime requested expected = Inr (ports, i)
   \<longleftrightarrow> (\<exists>session. controllable runtime session \<and> expected = Some (ses_id session) \<and> i = ses_id session
        \<and> ports = commandPorts session requested \<and> ports \<noteq> []
        \<and> set ports \<subseteq> set (activeManagedSessionPorts session))"
  unfolding resolveTrafficMutationAuthority_def controllable_def commandPorts_def
  by (auto simp: list_ex_iff Let_def split: option.splits bool.splits)

lemma startAuthority_Inr:
  "resolveTrafficStartAuthority runtime expected = Inr r
   \<longleftrightarrow> rsp_ok runtime \<and> (\<exists>snapshot. rsp_data runtime = Some snapshot
        \<and> (case rts_session snapshot of
             None \<Rightarrow> r = None
           | Some session \<Rightarrow>
               if ses_state session = RunStopped then r = None
               else ses_state session \<noteq> RunUnknown \<and> expected = Some (ses_id session) \<and> r = expected))"
  unfolding resolveTrafficStartAuthority_def
  by (auto split: option.splits bool.splits)

end
