(* ===== verification/RunSamples.thy ===== *)
theory RunSamples
  imports RunPage
begin

text \<open>
  Sample runs for the witnesses: a finished run of one group on the ports 0 and 1, the same run
  while it is going on, and one that was ended by a hard stop. The reader of dates takes a decimal
  text for a time in milliseconds, and no other text.
\<close>

definition sampleTime :: date_reader where
  "sampleTime text =
     (if text \<noteq> [] \<and> list_all (\<lambda>c. 48 \<le> (of_char c :: nat) \<and> (of_char c :: nat) \<le> 57) text
      then Some (foldl (\<lambda>n c. 10 * n + (of_char c - 48)) 0 text) else None)"

definition sampleStart :: TrafficMutationEvidence where
  "sampleStart =
     \<lparr>mut_intent_nonce = ''start-1'', mut_operation = OpStart, mut_completion_mode = ModeDirect,
      mut_ports = [0, 1], mut_baseline_port_states = [(0, PortStopped), (1, PortStopped)],
      mut_desired_port_states = [(0, PortRunning), (1, PortRunning)], mut_baseline_acquired_ports = [],
      mut_prepared_at = ''100'', mut_completed_at = ''110'', mut_acquisition_restored = True,
      mut_wal_cleared = True\<rparr>"

definition sampleStop :: TrafficMutationEvidence where
  "sampleStop =
     \<lparr>mut_intent_nonce = ''stop-1'', mut_operation = OpStop, mut_completion_mode = ModeDirect,
      mut_ports = [1, 0], mut_baseline_port_states = [(0, PortRunning), (1, PortRunning)],
      mut_desired_port_states = [(0, PortStopped), (1, PortStopped)], mut_baseline_acquired_ports = [],
      mut_prepared_at = ''200'', mut_completed_at = ''210'', mut_acquisition_restored = True,
      mut_wal_cleared = True\<rparr>"

definition sampleCleanup :: TrafficCleanupEvidence where
  "sampleCleanup =
     \<lparr>cln_completion = OperatorStop, cln_completed_at = ''210'',
      cln_final_port_states = [(0, PortStopped), (1, PortStopped)], cln_intent_nonce = Some ''stop-1'',
      cln_acquisition_restored = Some True, cln_wal_cleared = True\<rparr>"

definition sampleGroup :: TrafficSessionGroup where
  "sampleGroup =
     \<lparr>grp_group_id = Some ''a'', grp_run_id = Some ''start-1'', grp_ports = [0, 1],
      grp_profile_path = ''udp.py'', grp_start_multiplier = Some ''10%'', grp_multiplier = ''10%'',
      grp_started_at = Some ''110'', grp_ended_at = Some ''210'', grp_hard_stop_at = None,
      grp_start_evidence = Some sampleStart, grp_cleanup_evidence = Some sampleCleanup,
      grp_state = RunStopped, grp_port_states = [(0, PortStopped), (1, PortStopped)],
      grp_updated_at = ''220''\<rparr>"

definition sampleSession :: TrafficSession where
  "sampleSession =
     \<lparr>ses_id = ''s1'', ses_revision = 4, ses_evidence_version = Some 1, ses_state = RunStopped,
      ses_started_at = ''110'', ses_updated_at = ''220'', ses_ended_at = Some ''210'', ses_groups = [],
      ses_completed_groups = [sampleGroup], ses_mutation_evidence = [sampleStart, sampleStop]\<rparr>"

text \<open>The run before it is stopped.\<close>

definition goingGroup :: TrafficSessionGroup where
  "goingGroup = sampleGroup\<lparr>grp_ended_at := None, grp_cleanup_evidence := None, grp_state := RunRunning,
     grp_port_states := [(0, PortRunning), (1, PortPaused)]\<rparr>"

definition goingSession :: TrafficSession where
  "goingSession = sampleSession\<lparr>ses_state := RunRunning, ses_ended_at := None, ses_groups := [goingGroup],
     ses_completed_groups := [], ses_mutation_evidence := [sampleStart]\<rparr>"

text \<open>The run ended by a hard stop.\<close>

definition hardSession :: TrafficSession where
  "hardSession = sampleSession\<lparr>ses_completed_groups :=
     [sampleGroup\<lparr>grp_cleanup_evidence := Some (sampleCleanup\<lparr>cln_completion := CleanupHardStop\<rparr>)\<rparr>]\<rparr>"

definition reportOf :: "TrafficSession \<Rightarrow> RunReportTrafficSession" where
  "reportOf session = \<lparr>rrs_session = session, rrs_captureCompletedAt = None\<rparr>"

lemma reportOf_session [simp]: "rrs_session (reportOf session) = session"
  by (simp add: reportOf_def)

definition snapshotOf :: "TrafficSession \<Rightarrow> TrafficRuntimeSnapshot" where
  "snapshotOf session = \<lparr>rts_groups = [], rts_session = Some session, rts_port_states = []\<rparr>"

lemmas sample_defs = sampleStart_def sampleStop_def sampleCleanup_def sampleGroup_def sampleSession_def
  goingGroup_def goingSession_def hardSession_def reportOf_def snapshotOf_def

lemma sample_pass:
  "stop_verdict (ev_stopEvidence (persistedTrafficEvidence sampleTime (Some (reportOf sampleSession))
     (None :: unit ReportedStart TrexResult option))) = VerdictPass"
  by code_simp

lemma going_warns:
  "ev_stopEvidence (persistedTrafficEvidence sampleTime (Some (reportOf goingSession)) (None :: unit ReportedStart TrexResult option))
   = incompleteStopEvidence (''Canonical traffic session is running; exact operator-stop evidence is not available'')"
  by code_simp

lemma sample_verified: "verifiedRun sampleTime sampleSession"
  using sample_pass unfolding evidence_pass reportOf_session .

lemma sample_group: "sampleGroup \<in> set (trafficSessionRunGroups sampleSession)"
  by (simp add: trafficSessionRunGroups_def sampleSession_def)

end
