(* ===== verification/RunProperties.thy ===== *)
theory RunProperties
  imports RunSamples
begin

text \<open>
  The properties of the run components: what a passing stop verdict certifies, how the verdict and
  the reported result go together, and what holds of the page in every state it can reach.
\<close>

section \<open>Lemmas\<close>

lemma verified_group:
  assumes "verifiedRun getTime session" "g \<in> set (trafficSessionRunGroups session)"
  obtains m m' where "m \<in> set (ses_mutation_evidence session)" "startedBy getTime g m (startTime getTime g)"
    "m' \<in> set (ses_mutation_evidence session)" "stoppedBy getTime g m'" "\<not> groupNotStopped g"
    "exactStopMutation m' (stoppedGroups (mut_intent_nonce m') (trafficSessionRunGroups session))"
    "g \<in> set (stoppedGroups (mut_intent_nonce m') (trafficSessionRunGroups session))"
proof -
  obtain m where m: "m \<in> set (ses_mutation_evidence session)" "startedBy getTime g m (startTime getTime g)"
    using assms by (auto simp: verifiedRun_def verifiedStarts_def traceableStart_def)
  obtain m' where m': "m' \<in> set (ses_mutation_evidence session)" "stoppedBy getTime g m'" "\<not> groupNotStopped g"
    using assms by (auto simp: verifiedRun_def verifiedStops_def traceableStop_def)
  then have "mut_operation m' = OpStop" by (simp add: stoppedBy_def)
  with m'(1) assms(1) have "exactStopMutation m' (stoppedGroups (mut_intent_nonce m') (trafficSessionRunGroups session))"
    by (simp add: verifiedRun_def verifiedStops_def)
  moreover have "g \<in> set (stoppedGroups (mut_intent_nonce m') (trafficSessionRunGroups session))"
    using assms(2) stoppedBy_intent [OF m'(2)] by (simp add: stoppedGroups_def)
  ultimately show ?thesis using that m m' by blast
qed

lemma startMutation_ports: "startMutationExact m g \<Longrightarrow> set (mut_ports m) = set (grp_ports g)"
  by (simp add: startMutationExact_def)

lemma stopMutation_ports:
  "exactStopMutation m groups \<Longrightarrow> set (mut_ports m) = (\<Union>g\<in>set groups. set (grp_ports g))"
  by (simp add: exactStopMutation_def Let_def)

text \<open>The three kinds of stop evidence.\<close>

definition stopOutcome :: "TrafficSessionGroup list \<Rightarrow> RunReportStopEvidence \<Rightarrow> bool" where
  "stopOutcome groups e \<longleftrightarrow>
     (case stop_result e of
        Some result \<Rightarrow>
          stop_verdict e = VerdictPass \<and> result = acceptedResult (map grp_cleanup_evidence groups)
          \<or> stop_verdict e = VerdictFail \<and> result = blockedResult (stop_detail e)
      | None \<Rightarrow> stop_verdict e = VerdictWarn)"

lemma stopOutcome_simps [simp]:
  "stopOutcome groups (failedStopEvidence detail)"
  "stopOutcome groups (incompleteStopEvidence detail)"
  "stopOutcome groups \<lparr>stop_result = Some (acceptedResult (map grp_cleanup_evidence groups)),
     stop_verdict = VerdictPass, stop_detail = detail\<rparr>"
  by (simp_all add: stopOutcome_def failedStopEvidence_def incompleteStopEvidence_def Let_def)

lemma validateOperatorStops_outcome: "stopOutcome groups (validateOperatorStops getTime session groups lookup ts)"
  by (simp add: validateOperatorStops_def split: sum.split option.split)

lemma validateStop_outcome: "stopOutcome groups (validateStopEvidence getTime session groups lookup ts)"
  by (simp add: validateStopEvidence_def validateOperatorStops_outcome split: sum.split option.split)

lemma evidence_outcome:
  "stopOutcome (trafficSessionRunGroups (rrs_session attached))
     (ev_stopEvidence (persistedTrafficEvidence getTime (Some attached) fallback))"
  by (simp add: persistedTrafficEvidence_def Let_def validateStop_outcome split: sum.split option.split)

section \<open>Verdicts\<close>

text \<open>
  C16. The stop verdict of the run report is pass exactly when a session is attached that is a
  verified run: of evidence version 1, with a ledger of distinct nonces and ordered times, one start
  mutation behind each run group and no others, one operator stop behind each group and no others,
  and the start and end of the session those of the first start and the last stop.
\<close>

theorem stop_verdict_exact:
  "stop_verdict (ev_stopEvidence (persistedTrafficEvidence getTime trafficSession fallback)) = VerdictPass
   \<longleftrightarrow> (\<exists>attached. trafficSession = Some attached \<and> verifiedRun getTime (rrs_session attached))"
proof (cases trafficSession)
  case None
  then show ?thesis by (simp add: persistedTrafficEvidence_def)
next
  case (Some attached)
  then show ?thesis using evidence_pass [of getTime attached fallback] by simp
qed

text \<open>
  C17. In a run whose stop verdict is pass every group was started by a start mutation of the ledger
  on exactly its ports and stopped by a stop mutation that covers its ports, neither a hard stop; the
  stop was prepared after the start completed, and every port of the group, and no other, is
  recorded as stopped.
\<close>

theorem passed_run_traced:
  assumes "stop_verdict (ev_stopEvidence (persistedTrafficEvidence getTime (Some attached) fallback)) = VerdictPass"
    "g \<in> set (trafficSessionRunGroups (rrs_session attached))"
  shows "\<exists>m\<in>set (ses_mutation_evidence (rrs_session attached)). \<exists>m'\<in>set (ses_mutation_evidence (rrs_session attached)).
      mut_operation m = OpStart \<and> mut_operation m' = OpStop
      \<and> mut_completion_mode m \<noteq> ModeHardStop \<and> mut_completion_mode m' \<noteq> ModeHardStop
      \<and> grp_run_id g = Some (mut_intent_nonce m) \<and> stopIntent g = Some (mut_intent_nonce m')
      \<and> set (mut_ports m) = set (grp_ports g) \<and> set (grp_ports g) \<subseteq> set (mut_ports m')
      \<and> (\<exists>started prepared stopped. time_of getTime (mut_completed_at m) = Some started
           \<and> time_of getTime (mut_prepared_at m') = Some prepared
           \<and> time_of getTime (mut_completed_at m') = Some stopped \<and> started \<le> prepared \<and> prepared \<le> stopped)
      \<and> (\<forall>port. map_of (grp_port_states g) port = (if port \<in> set (grp_ports g) then Some PortStopped else None))"
proof -
  have v: "verifiedRun getTime (rrs_session attached)" using assms(1) evidence_pass by blast
  obtain m m' where m: "m \<in> set (ses_mutation_evidence (rrs_session attached))"
      "startedBy getTime g m (startTime getTime g)"
    and m': "m' \<in> set (ses_mutation_evidence (rrs_session attached))" "stoppedBy getTime g m'" "\<not> groupNotStopped g"
      "exactStopMutation m' (stoppedGroups (mut_intent_nonce m') (trafficSessionRunGroups (rrs_session attached)))"
      "g \<in> set (stoppedGroups (mut_intent_nonce m') (trafficSessionRunGroups (rrs_session attached)))"
    by (rule verified_group [OF v assms(2)])
  have "mutationTimesOk getTime m'" using v m'(1) by (simp add: verifiedRun_def ledgerSound_def)
  then obtain p c where t: "time_of getTime (mut_prepared_at m') = Some p" "time_of getTime (mut_completed_at m') = Some c"
    "p \<le> c" by (auto simp: mutationTimesOk_def)
  have s: "startTime getTime g \<le> p" using m'(2) t(1) by (auto simp: stoppedBy_def)
  have states: "\<forall>port. map_of (grp_port_states g) port = (if port \<in> set (grp_ports g) then Some PortStopped else None)"
    using m'(3) by (simp add: groupNotStopped_def exactStoppedPortStates_iff)
  have ops: "mut_operation m = OpStart" "mut_completion_mode m \<noteq> ModeHardStop" "set (mut_ports m) = set (grp_ports g)"
    "grp_run_id g = Some (mut_intent_nonce m)" "time_of getTime (mut_completed_at m) = Some (startTime getTime g)"
    using m(2) by (simp_all add: startedBy_def startMutationExact_def)
  have ops': "mut_operation m' = OpStop" "mut_completion_mode m' \<noteq> ModeHardStop" "set (grp_ports g) \<subseteq> set (mut_ports m')"
    "stopIntent g = Some (mut_intent_nonce m')"
    using m'(4,5) stopMutation_ports [OF m'(4)] stoppedBy_intent [OF m'(2)]
    by (auto simp: exactStopMutation_def Let_def)
  show ?thesis using m(1) m'(1) ops ops' t s states by blast
qed

lemma passed_run_traced_witness:
  "\<exists>m\<in>set (ses_mutation_evidence sampleSession). \<exists>m'\<in>set (ses_mutation_evidence sampleSession).
     mut_operation m = OpStart \<and> mut_operation m' = OpStop \<and> set (mut_ports m) = {0, 1} \<and> {0, 1} \<subseteq> set (mut_ports m')"
proof -
  have ports: "set (grp_ports sampleGroup) = {0, 1}" by (simp add: sampleGroup_def)
  show ?thesis
    using passed_run_traced [OF sample_pass, unfolded reportOf_session, OF sample_group] unfolding ports by blast
qed

text \<open>
  C18. In a run whose stop verdict is pass every start mutation of the ledger started one run group,
  and the groups a stop mutation stopped share no port and have together exactly its ports.
\<close>

theorem passed_ledger_accounted:
  assumes "stop_verdict (ev_stopEvidence (persistedTrafficEvidence getTime (Some attached) fallback)) = VerdictPass"
    "m \<in> set (ses_mutation_evidence (rrs_session attached))"
  shows "(mut_operation m = OpStart
      \<longrightarrow> (\<exists>!g. g \<in> set (trafficSessionRunGroups (rrs_session attached)) \<and> grp_run_id g = Some (mut_intent_nonce m)))
    \<and> (mut_operation m = OpStop
      \<longrightarrow> distinct (concat (map grp_ports (stoppedGroups (mut_intent_nonce m) (trafficSessionRunGroups (rrs_session attached)))))
        \<and> set (mut_ports m)
          = (\<Union>g\<in>set (stoppedGroups (mut_intent_nonce m) (trafficSessionRunGroups (rrs_session attached))). set (grp_ports g)))"
proof -
  let ?groups = "trafficSessionRunGroups (rrs_session attached)"
  have v: "verifiedRun getTime (rrs_session attached)" using assms(1) evidence_pass by blast
  then have one: "inj_on grp_run_id (set ?groups)"
    by (simp add: verifiedRun_def verifiedStarts_def distinct_map)
  have "\<exists>!g. g \<in> set ?groups \<and> grp_run_id g = Some (mut_intent_nonce m)" if start: "mut_operation m = OpStart"
  proof -
    obtain g where "g \<in> set ?groups" "grp_run_id g = Some (mut_intent_nonce m)"
      using v assms(2) start unfolding verifiedRun_def verifiedStarts_def by blast
    then show ?thesis using one unfolding inj_on_def by metis
  qed
  moreover have "distinct (concat (map grp_ports (stoppedGroups (mut_intent_nonce m) ?groups)))
      \<and> set (mut_ports m) = (\<Union>g\<in>set (stoppedGroups (mut_intent_nonce m) ?groups). set (grp_ports g))"
    if "mut_operation m = OpStop"
  proof -
    have e: "exactStopMutation m (stoppedGroups (mut_intent_nonce m) ?groups)"
      using v assms(2) that by (simp add: verifiedRun_def verifiedStops_def)
    then have "distinct (concat (map grp_ports (stoppedGroups (mut_intent_nonce m) ?groups)))"
      by (simp add: exactStopMutation_def Let_def)
    with stopMutation_ports [OF e] show ?thesis by blast
  qed
  ultimately show ?thesis by blast
qed

lemma passed_ledger_accounted_witness:
  "\<exists>!g. g \<in> set (trafficSessionRunGroups sampleSession) \<and> grp_run_id g = Some ''start-1''"
proof -
  have "sampleStart \<in> set (ses_mutation_evidence sampleSession)" by (simp add: sampleSession_def)
  from passed_ledger_accounted [OF sample_pass, unfolded reportOf_session, OF this]
  show ?thesis by (simp add: sampleStart_def)
qed

text \<open>
  The result that the report shows for the stop agrees with its verdict: data exactly for pass, a
  message exactly for fail, and no result for the other two verdicts.
\<close>

theorem stop_result_agrees:
  "let stop = ev_stopEvidence (persistedTrafficEvidence getTime trafficSession fallback)
   in case stop_result stop of
        Some result \<Rightarrow>
          (stop_verdict stop = VerdictPass
           \<and> (\<exists>attached. trafficSession = Some attached \<and> result = acceptedResult
                 (map grp_cleanup_evidence (trafficSessionRunGroups (rrs_session attached)))))
          \<or> (stop_verdict stop = VerdictFail \<and> result = blockedResult (stop_detail stop))
      | None \<Rightarrow> stop_verdict stop = VerdictWarn
          \<or> stop_verdict stop = VerdictUnknown \<and> trafficSession = None"
proof (cases trafficSession)
  case (Some attached)
  then show ?thesis using evidence_outcome [of attached getTime fallback]
    by (auto simp: stopOutcome_def Let_def split: option.splits)
qed (simp add: persistedTrafficEvidence_def)

text \<open>
  A session of evidence version 1 that shows a hard stop, in the cleanup of a group or in a stop
  mutation of the ledger, fails the stop verdict.
\<close>

theorem hard_stop_fails:
  assumes "ses_evidence_version (rrs_session attached) = Some 1"
    "hardStopSeen (rrs_session attached) (trafficSessionRunGroups (rrs_session attached))"
  shows "stop_verdict (ev_stopEvidence (persistedTrafficEvidence getTime (Some attached) fallback)) = VerdictFail"
  using assms by (simp add: persistedTrafficEvidence_def Let_def validateStopEvidence_def split: sum.split option.split)

lemma hard_stop_fails_witness:
  "stop_verdict (ev_stopEvidence (persistedTrafficEvidence sampleTime (Some (reportOf hardSession)) (None :: unit ReportedStart TrexResult option)))
   = VerdictFail"
  by (rule hard_stop_fails) (simp_all add: reportOf_def hardSession_def sampleSession_def hardStopSeen_def
      trafficSessionRunGroups_def cleanupIs_def sampleGroup_def sampleCleanup_def)

text \<open>
  While a run with a sound ledger and sound starts goes on, that is no group has cleanup evidence,
  no stop is in the ledger and the session is not stopped, the stop verdict is a warning that names
  the state of the session, and the start is reported as accepted.
\<close>

theorem going_run_warns:
  assumes "ses_evidence_version (rrs_session attached) = Some 1"
    "ledgerSound getTime (rrs_session attached)"
    "verifiedStarts getTime (rrs_session attached) (trafficSessionRunGroups (rrs_session attached))"
    "\<forall>g\<in>set (trafficSessionRunGroups (rrs_session attached)). grp_cleanup_evidence g = None"
    "noncesOf OpStop (rrs_session attached) = []" "ses_state (rrs_session attached) \<noteq> RunStopped"
  shows "persistedTrafficEvidence getTime (Some attached) fallback =
    \<lparr>ev_startResult = Some (acceptedResult (StartEvidence (map grp_start_evidence (trafficSessionRunGroups (rrs_session attached))))),
     ev_stopEvidence = incompleteStopEvidence (''Canonical traffic session is ''
       @ runStateText (ses_state (rrs_session attached)) @ ''; exact operator-stop evidence is not available'')\<rparr>"
proof -
  let ?session = "rrs_session attached"
  let ?groups = "trafficSessionRunGroups ?session"
  have starts: "validateStartEvidence getTime ?session ?groups (byNonce ?session) = Inr (map (startTime getTime) ?groups)"
    using validateStart_Inr [OF assms(2)] assms(3) by blast
  have ledger: "mutationLedgerError getTime ?session = None" using assms(2) by (simp add: mutationLedgerError_None)
  have none: "filter (cleanupIs OperatorStop) ?groups = []" "\<not> list_ex (cleanupIs CleanupHardStop) ?groups"
    using assms(4) by (auto simp: cleanupIs_def filter_empty_conv list_ex_iff)
  have hard: "\<not> hardStopSeen ?session ?groups"
    using none(2) assms(5) by (auto simp: hardStopSeen_def list_ex_iff noncesOf_def filter_empty_conv)
  have times: "firstErrorOf (cleanupTimelineError getTime) (zip ?groups (map (startTime getTime) ?groups)) = None"
    unfolding firstErrorOf_None zip_startTime using assms(4) by (auto simp: cleanupTimelineError_def)
  have stop: "validateStopEvidence getTime ?session ?groups (byNonce ?session) (map (startTime getTime) ?groups)
    = incompleteStopEvidence (''Canonical traffic session is '' @ runStateText (ses_state ?session)
        @ ''; exact operator-stop evidence is not available'')"
    using hard times none(1) assms(5,6) by (simp add: validateStopEvidence_def)
  have b: "mapFrom (map (\<lambda>m. (mut_intent_nonce m, m)) (ses_mutation_evidence ?session)) = byNonce ?session"
    by (simp add: byNonce_def)
  show ?thesis
    unfolding persistedTrafficEvidence_def Let_def option.case b starts ledger sum.case stop using assms(1) by simp
qed

lemma going_run_warns_witness:
  "stop_verdict (ev_stopEvidence (persistedTrafficEvidence sampleTime (Some (reportOf goingSession)) (None :: unit ReportedStart TrexResult option)))
   = VerdictWarn"
proof -
  have v: "ses_evidence_version goingSession = Some 1" "noncesOf OpStop goingSession = []"
    "ses_state goingSession \<noteq> RunStopped" by code_simp+
  have l: "ledgerSound sampleTime goingSession" unfolding mutationLedgerError_None [symmetric] by code_simp
  have "validateStartEvidence sampleTime goingSession (trafficSessionRunGroups goingSession) (byNonce goingSession)
      = Inr [110]" by code_simp
  then have s: "verifiedStarts sampleTime goingSession (trafficSessionRunGroups goingSession)"
    using validateStart_Inr [OF l] by blast
  have g: "\<forall>g\<in>set (trafficSessionRunGroups goingSession). grp_cleanup_evidence g = None" by code_simp
  from going_run_warns [where attached = "reportOf goingSession" and fallback = "None :: unit ReportedStart TrexResult option", unfolded reportOf_session, OF v(1) l s g v(2,3)]
  show ?thesis by (simp only: RunReportTrafficEvidence.select_convs verdict_simps)
qed

section \<open>The page\<close>

text \<open>
  C19. In every state the page can reach, the session of the report is the session of the runtime the
  page shows.
\<close>

theorem page_shows_one_session:
  assumes "pageReaches getTime events page" "page_runtime page = Some snapshot" "page_runSession page = Some run"
  shows "rts_session snapshot = Some (rrs_session run)"
  using reached_oneSession [OF assms(1)] assms(2,3) by (simp add: oneSession_def)

lemma page_shows_one_session_witness:
  "rts_session (snapshotOf goingSession) = Some goingSession"
proof -
  have r: "pageReaches sampleTime [SnapshotArrives (snapshotOf goingSession)]
      (pageEvent sampleTime (SnapshotArrives (snapshotOf goingSession)) initialPage)"
    by (simp add: pageReaches_iff)
  have "page_runSession (pageEvent sampleTime (SnapshotArrives (snapshotOf goingSession)) initialPage)
      = Some (reportOf goingSession)"
    by code_simp
  from page_shows_one_session [OF r _ this] show ?thesis
    by (simp add: applyTrafficRuntimeSnapshot_def reportOf_def)
qed

text \<open>
  C20. The completion of a capture that the report shows was saved while the report was about the same
  session, and since then the report has been about no other session.
\<close>

theorem capture_of_this_session:
  assumes "pageReaches getTime events page" "reportSession page = Some i" "reportCapture page = Some c"
  shows "\<exists>before e after page'. events = before @ e # after \<and> savesCapture getTime e c
    \<and> pageReaches getTime before page' \<and> reportSession page' = Some i \<and> list_all (staysWith i) after"
  using reached_capture [OF assms] pageReaches_run unfolding capturedFor_def lastly_def by blast

definition sampleEvents :: "PageEvent list" where
  "sampleEvents = [SnapshotArrives (snapshotOf goingSession), CaptureFileSaved (Some ''150'') ''160'',
     SnapshotArrives (snapshotOf sampleSession)]"

lemma capture_of_this_session_witness:
  "\<exists>before e after. sampleEvents = before @ e # after \<and> savesCapture sampleTime e ''150''
     \<and> list_all (staysWith ''s1'') after"
proof -
  have "reportSession (fold (pageEvent sampleTime) sampleEvents initialPage) = Some ''s1''"
    "reportCapture (fold (pageEvent sampleTime) sampleEvents initialPage) = Some ''150''" by code_simp+
  from capture_of_this_session [OF pageReaches_run this] show ?thesis by blast
qed

text \<open>
  No event moves the completion of the capture back: while the report stays with one session, and
  the clock gives readable times, the time of the completion does not decrease.
\<close>

theorem capture_never_back:
  assumes "clockOk getTime e" "getTime [] = None"
    "reportSession page = Some i" "reportSession (pageEvent getTime e page) = Some i"
    "reportCapture page = Some old" "getTime old = Some t"
  shows "\<exists>new t'. reportCapture (pageEvent getTime e page) = Some new \<and> getTime new = Some t' \<and> t \<le> t'"
  using assms by (rule event_monotone)

lemma capture_never_back_witness:
  "\<exists>new t'. reportCapture (pageEvent sampleTime (CaptureFileSaved (Some ''120'') ''170'')
      (fold (pageEvent sampleTime) sampleEvents initialPage)) = Some new \<and> sampleTime new = Some t' \<and> 150 \<le> t'"
proof (rule capture_never_back)
  show "reportSession (fold (pageEvent sampleTime) sampleEvents initialPage) = Some ''s1''"
    "reportSession (pageEvent sampleTime (CaptureFileSaved (Some ''120'') ''170'')
      (fold (pageEvent sampleTime) sampleEvents initialPage)) = Some ''s1''"
    "reportCapture (fold (pageEvent sampleTime) sampleEvents initialPage) = Some ''150''"
    "sampleTime ''150'' = Some 150" "sampleTime [] = None"
    "clockOk sampleTime (CaptureFileSaved (Some ''120'') ''170'')" by code_simp+
qed

text \<open>
  C21. A control or rate command goes out exactly for the session the page is bound to, when the runtime
  reports it as running, paused or mixed, and for a nonempty sorted list of its active ports without
  repetitions: the requested ports, or all of them.
\<close>

theorem command_authority_exact:
  "resolveTrafficMutationAuthority runtime requested expected = Inr (ports, i)
   \<longleftrightarrow> (\<exists>session. controllable runtime session \<and> expected = Some (ses_id session) \<and> i = ses_id session
        \<and> ports \<noteq> [] \<and> sorted ports \<and> distinct ports
        \<and> (\<forall>p. p \<in> set ports \<longrightarrow> p \<in> set (activeManagedSessionPorts session))
        \<and> set ports = set (case requested of None \<Rightarrow> activeManagedSessionPorts session | Some ps \<Rightarrow> ps))"
  (is "?l \<longleftrightarrow> ?r")
proof
  assume ?l
  then obtain session where s: "controllable runtime session" "expected = Some (ses_id session)" "i = ses_id session"
      "ports = commandPorts session requested" "ports \<noteq> []" "set ports \<subseteq> set (activeManagedSessionPorts session)"
    by (auto simp: mutationAuthority_Inr)
  have "set ports = set (case requested of None \<Rightarrow> activeManagedSessionPorts session | Some ps \<Rightarrow> ps)"
    unfolding s(4) by (simp add: commandPorts_def split: option.split)
  moreover have "sorted ports" "distinct ports" unfolding s(4) by (rule commandPorts_sorted)+
  ultimately show ?r using s by blast
next
  assume ?r
  then obtain session where s: "controllable runtime session" "expected = Some (ses_id session)" "i = ses_id session"
      "ports \<noteq> []" "sorted ports" "distinct ports" "set ports \<subseteq> set (activeManagedSessionPorts session)"
      "set ports = set (case requested of None \<Rightarrow> activeManagedSessionPorts session | Some ps \<Rightarrow> ps)"
    by blast
  have "set (commandPorts session requested) = set ports"
    unfolding s(8) by (simp add: commandPorts_def split: option.split)
  then have "ports = commandPorts session requested"
    using s(5,6) commandPorts_sorted by (intro sorted_distinct_set_unique) auto
  with s show ?l by (auto simp: mutationAuthority_Inr)
qed

lemma command_authority_exact_witness:
  "resolveTrafficMutationAuthority \<lparr>rsp_ok = True, rsp_data = Some (snapshotOf goingSession), rsp_blocker = None,
      rsp_error = None\<rparr> (Some [1, 0, 1]) (Some ''s1'') = Inr ([0, 1], ''s1'')"
proof -
  have p: "activeManagedSessionPorts goingSession = [0, 1]" by code_simp
  show ?thesis
    by (rule command_authority_exact [THEN iffD2], rule exI [of _ goingSession])
       (simp add: p, auto simp: controllable_def snapshotOf_def goingSession_def sampleSession_def)
qed

text \<open>
  C22. The session of a command that the page sends was announced to the page by the backend, in a
  snapshot or in the answer to an accepted command, and nothing since then has unbound the page or
  bound it to another session; so after a stop of everything, a new connection or a disconnect the
  page sends no control command.
\<close>

theorem commands_only_announced_sessions:
  assumes "pageReaches getTime events page"
    "resolveTrafficMutationAuthority runtime requested (page_authority page) = Inr (ports, i)"
  shows "\<exists>before e after. events = before @ e # after \<and> announces e = Some i \<and> list_all keepsAuthority after"
  using assms(2) reached_authority [OF assms(1)] by (auto simp: mutationAuthority_Inr lastly_def)

lemma commands_only_announced_sessions_witness:
  "\<exists>before e after. [SnapshotArrives (snapshotOf goingSession), CaptureFileSaved None ''160''] = before @ e # after
     \<and> announces e = Some ''s1'' \<and> list_all keepsAuthority after"
proof (rule commands_only_announced_sessions [OF pageReaches_run [of sampleTime]])
  show "resolveTrafficMutationAuthority \<lparr>rsp_ok = True, rsp_data = Some (snapshotOf goingSession), rsp_blocker = None,
      rsp_error = None\<rparr> None (page_authority (fold (pageEvent sampleTime)
      [SnapshotArrives (snapshotOf goingSession), CaptureFileSaved None ''160''] initialPage)) = Inr ([0, 1], ''s1'')"
    by code_simp
qed

text \<open>
  C23. When a start of traffic from a state of the page is allowed, either the runtime has no live
  session and a new one may begin, or the start joins the one live session, its state is known, and it
  is the session that the backend announced to this page.
\<close>

theorem start_joins_announced_session:
  assumes "pageReaches getTime events page"
    "resolveTrafficStartAuthority runtime (page_authority page) = Inr r"
  shows "\<exists>snapshot. rsp_ok runtime \<and> rsp_data runtime = Some snapshot
    \<and> (r = None \<and> (\<forall>session. rts_session snapshot = Some session \<longrightarrow> ses_state session = RunStopped)
      \<or> (\<exists>session before e after. rts_session snapshot = Some session \<and> r = Some (ses_id session)
           \<and> ses_state session \<noteq> RunStopped \<and> ses_state session \<noteq> RunUnknown
           \<and> events = before @ e # after \<and> announces e = Some (ses_id session) \<and> list_all keepsAuthority after))"
proof -
  obtain snapshot where s: "rsp_ok runtime" "rsp_data runtime = Some snapshot"
    and c: "case rts_session snapshot of
             None \<Rightarrow> r = None
           | Some session \<Rightarrow>
               if ses_state session = RunStopped then r = None
               else ses_state session \<noteq> RunUnknown \<and> page_authority page = Some (ses_id session)
                 \<and> r = page_authority page"
    using assms(2) unfolding startAuthority_Inr by blast
  show ?thesis
  proof (cases "\<exists>session. rts_session snapshot = Some session \<and> ses_state session \<noteq> RunStopped")
    case True
    then obtain session where t: "rts_session snapshot = Some session" "ses_state session \<noteq> RunStopped" by blast
    with c have u: "ses_state session \<noteq> RunUnknown" "page_authority page = Some (ses_id session)"
      "r = Some (ses_id session)" by auto
    from reached_authority [OF assms(1) u(2)] show ?thesis using s t u unfolding lastly_def by blast
  next
    case False
    with c have "r = None" by (auto split: option.splits)
    with False s show ?thesis by blast
  qed
qed

lemma start_joins_announced_session_witness:
  "\<exists>before e after. [SnapshotArrives (snapshotOf goingSession)] = before @ e # after
     \<and> announces e = Some ''s1'' \<and> list_all keepsAuthority after"
proof -
  have "resolveTrafficStartAuthority \<lparr>rsp_ok = True, rsp_data = Some (snapshotOf goingSession), rsp_blocker = None,
      rsp_error = None\<rparr> (page_authority (fold (pageEvent sampleTime)
      [SnapshotArrives (snapshotOf goingSession)] initialPage)) = Inr (Some ''s1'')"
    by code_simp
  from start_joins_announced_session [OF pageReaches_run this] show ?thesis
    by (auto simp: snapshotOf_def)
qed

end
