(* ===== verification/CaptureBuffer.thy ===== *)
theory CaptureBuffer
  imports JsCollections "HOL-Library.Sublist"
begin

text \<open>
  The monitor buffer of captured packets (\<open>capturePacketBuffer.ts\<close>): at most 2000 packets and 8 MiB
  by the estimate of the code, the newest first to be kept. The lengths of the texts are all that the
  estimate reads of them.
\<close>

section \<open>Packets and their size\<close>

record DecodedField =
  field_name :: string
  field_value :: string

record DecodedLayer =
  layer_name :: string
  layer_fields :: "DecodedField list"

record TrexCapturePacket =
  cap_index :: int
  cap_mode :: string
  cap_destination :: string
  cap_source :: string
  cap_type :: string
  cap_info :: string
  cap_binary_base64 :: string
  cap_hex_preview :: string
  cap_decoded_layers :: "DecodedLayer list option"

definition CAPTURE_PACKET_RETENTION_MAX_COUNT :: nat where
  "CAPTURE_PACKET_RETENTION_MAX_COUNT = 2000"

definition CAPTURE_PACKET_RETENTION_MAX_BYTES :: nat where
  "CAPTURE_PACKET_RETENTION_MAX_BYTES = 8 * 1024 * 1024"

definition retainedPacketBytes :: "TrexCapturePacket \<Rightarrow> nat" where
  "retainedPacketBytes packet =
     (let characters =
            length (cap_binary_base64 packet) + length (cap_hex_preview packet) + length (cap_destination packet)
            + length (cap_source packet) + length (cap_type packet) + length (cap_mode packet)
            + length (cap_info packet);
          layers = (case cap_decoded_layers packet of None \<Rightarrow> [] | Some ls \<Rightarrow> ls);
          total = foldl (\<lambda>n layer. foldl (\<lambda>n field. n + (length (field_name field) + length (field_value field)))
                    (n + length (layer_name layer)) (layer_fields layer)) characters layers
      in total * 2 + 256)"

section \<open>Appending\<close>

record CapturePacketBuffer =
  dropped :: nat
  packets :: "TrexCapturePacket list"

text \<open>
  The loop from the newest candidate back, with what it has kept, the newest first, and the bytes of
  that: it skips a packet that alone is too large and stops when the next one does not fit.
\<close>

fun retainPackets :: "TrexCapturePacket list \<Rightarrow> TrexCapturePacket list \<Rightarrow> nat \<Rightarrow> TrexCapturePacket list" where
  "retainPackets [] retained retainedBytes = retained"
| "retainPackets (packet # older) retained retainedBytes =
     (if length retained \<ge> CAPTURE_PACKET_RETENTION_MAX_COUNT then retained
      else
        let packetBytes = retainedPacketBytes packet in
        if packetBytes > CAPTURE_PACKET_RETENTION_MAX_BYTES then retainPackets older retained retainedBytes
        else if retainedBytes + packetBytes > CAPTURE_PACKET_RETENTION_MAX_BYTES then retained
        else retainPackets older (retained @ [packet]) (retainedBytes + packetBytes))"

definition appendCapturePackets :: "CapturePacketBuffer \<Rightarrow> TrexCapturePacket list \<Rightarrow> CapturePacketBuffer" where
  "appendCapturePackets current incoming =
     (if incoming = [] then current
      else
        let candidates = packets current @ incoming;
            retained = rev (retainPackets (rev candidates) [] 0)
        in \<lparr>dropped = dropped current + length candidates - length retained, packets = retained\<rparr>)"

section \<open>The longest run of packets that fits\<close>

definition packetsSize :: "TrexCapturePacket list \<Rightarrow> nat" where
  "packetsSize ps = sum_list (map retainedPacketBytes ps)"

definition fitsBuffer :: "TrexCapturePacket list \<Rightarrow> bool" where
  "fitsBuffer ps \<longleftrightarrow>
     length ps \<le> CAPTURE_PACKET_RETENTION_MAX_COUNT \<and> packetsSize ps \<le> CAPTURE_PACKET_RETENTION_MAX_BYTES"

definition smallPacket :: "TrexCapturePacket \<Rightarrow> bool" where
  "smallPacket packet \<longleftrightarrow> retainedPacketBytes packet \<le> CAPTURE_PACKET_RETENTION_MAX_BYTES"

text \<open>\<open>kept\<close> is the longest suffix of \<open>ps\<close> that fits.\<close>

definition longestFit :: "TrexCapturePacket list \<Rightarrow> TrexCapturePacket list \<Rightarrow> bool" where
  "longestFit ps kept \<longleftrightarrow>
     suffix kept ps \<and> fitsBuffer kept \<and> (\<forall>longer. suffix longer ps \<longrightarrow> fitsBuffer longer \<longrightarrow> suffix longer kept)"

lemma packetsSize_simps [simp]:
  "packetsSize [] = 0" "packetsSize (p # ps) = retainedPacketBytes p + packetsSize ps"
  "packetsSize (ps @ qs) = packetsSize ps + packetsSize qs" "packetsSize (rev ps) = packetsSize ps"
  by (simp_all add: packetsSize_def rev_map [symmetric] sum_list_rev)

lemma fitsBuffer_suffix: "fitsBuffer ps \<Longrightarrow> suffix qs ps \<Longrightarrow> fitsBuffer qs"
  by (auto simp: fitsBuffer_def suffix_def)

lemma fitsBuffer_Nil [simp]: "fitsBuffer []"
  by (simp add: fitsBuffer_def)

lemma fitsBuffer_small: "fitsBuffer ps \<Longrightarrow> p \<in> set ps \<Longrightarrow> smallPacket p"
  by (auto simp: fitsBuffer_def smallPacket_def in_set_conv_decomp)

lemma longestFit_unique: "longestFit ps kept \<Longrightarrow> longestFit ps kept' \<Longrightarrow> kept = kept'"
  unfolding longestFit_def by (meson suffix_order.antisym)

lemma longestFit_all: "fitsBuffer ps \<Longrightarrow> longestFit ps ps"
  by (simp add: longestFit_def)

lemma longestFit_stop:
  assumes "fitsBuffer kept" "\<not> fitsBuffer (p # kept)"
  shows "longestFit (ps @ p # kept) kept"
proof -
  have "suffix longer kept" if "suffix longer (ps @ p # kept)" "fitsBuffer longer" for longer
  proof (rule ccontr)
    assume n: "\<not> suffix longer kept"
    have "suffix (p # kept) (ps @ p # kept)" by (simp add: suffix_def)
    with that(1) have "suffix longer (p # kept) \<or> suffix (p # kept) longer" by (rule suffix_same_cases)
    with n have "suffix (p # kept) longer" by (auto simp: suffix_Cons)
    with that(2) assms(2) fitsBuffer_suffix show False by blast
  qed
  moreover have "suffix kept (ps @ p # kept)" by (simp add: suffix_def)
  ultimately show ?thesis using assms(1) by (simp add: longestFit_def)
qed

lemma retain_longest:
  "fitsBuffer kept \<Longrightarrow> bytes = packetsSize kept
   \<Longrightarrow> longestFit (rev (filter smallPacket older) @ rev kept) (rev (retainPackets older kept bytes))"
proof (induction older arbitrary: kept bytes)
  case Nil
  then show ?case by (simp add: longestFit_all fitsBuffer_def)
next
  case (Cons p older)
  have rev: "fitsBuffer (rev kept)" using Cons.prems by (simp add: fitsBuffer_def)
  consider "length kept \<ge> CAPTURE_PACKET_RETENTION_MAX_COUNT"
    | "length kept < CAPTURE_PACKET_RETENTION_MAX_COUNT" "\<not> smallPacket p"
    | "length kept < CAPTURE_PACKET_RETENTION_MAX_COUNT" "smallPacket p"
      "bytes + retainedPacketBytes p > CAPTURE_PACKET_RETENTION_MAX_BYTES"
    | "length kept < CAPTURE_PACKET_RETENTION_MAX_COUNT" "smallPacket p"
      "bytes + retainedPacketBytes p \<le> CAPTURE_PACKET_RETENTION_MAX_BYTES"
    by linarith
  then show ?case
  proof cases
    case 1
    show ?thesis
    proof (cases "filter smallPacket (p # older) = []")
      case True
      then show ?thesis using 1 rev longestFit_all by simp
    next
      case False
      then obtain q qs where q: "filter smallPacket (p # older) = q # qs" by (cases "filter smallPacket (p # older)") auto
      have "\<not> fitsBuffer (q # rev kept)" using 1 by (simp add: fitsBuffer_def)
      from longestFit_stop [OF rev this, of "rev qs"] show ?thesis unfolding q using 1 by simp
    qed
  next
    case 2
    then show ?thesis using Cons.IH [OF Cons.prems] by (simp add: smallPacket_def not_le)
  next
    case 3
    then have "\<not> fitsBuffer (p # rev kept)" using Cons.prems by (simp add: fitsBuffer_def)
    from longestFit_stop [OF rev this, of "rev (filter smallPacket older)"] 3 show ?thesis
      by (simp add: smallPacket_def [of p])
  next
    case 4
    then have "fitsBuffer (kept @ [p])" "bytes + retainedPacketBytes p = packetsSize (kept @ [p])"
      using Cons.prems by (simp_all add: fitsBuffer_def)
    from Cons.IH [OF this] 4 show ?thesis by (simp add: smallPacket_def not_less)
  qed
qed

lemma append_longest:
  "incoming \<noteq> [] \<Longrightarrow> longestFit (filter smallPacket (packets b @ incoming)) (packets (appendCapturePackets b incoming))"
  using retain_longest [of "[]" 0 "rev (packets b @ incoming)"]
  by (simp add: appendCapturePackets_def Let_def rev_filter)

lemma longestFit_length: "longestFit (filter P ps) kept \<Longrightarrow> length kept \<le> length ps"
  using suffix_length_le length_filter_le le_trans unfolding longestFit_def by metis

section \<open>Buffers the page reaches\<close>

definition emptyBuffer :: CapturePacketBuffer where
  "emptyBuffer = \<lparr>dropped = 0, packets = []\<rparr>"

text \<open>The buffer after a sequence of arrivals, since it was emptied.\<close>

definition bufferAfter :: "TrexCapturePacket list list \<Rightarrow> CapturePacketBuffer" where
  "bufferAfter arrivals = fold (\<lambda>incoming b. appendCapturePackets b incoming) arrivals emptyBuffer"

lemma longestFit_extend:
  assumes "longestFit ps kept"
  shows "longestFit (kept @ qs) new \<longleftrightarrow> longestFit (ps @ qs) new"
proof -
  have same: "suffix s (kept @ qs)" if "suffix s (ps @ qs)" "fitsBuffer s" for s
  proof (cases "suffix s qs")
    case True
    then show ?thesis by (simp add: suffix_appendI)
  next
    case False
    have "suffix qs (ps @ qs)" by (simp add: suffix_def)
    with that(1) False have "suffix qs s" using suffix_same_cases by blast
    then obtain t where t: "s = t @ qs" by (auto simp: suffix_def)
    with that have "suffix t ps" by simp
    moreover have "fitsBuffer t"
      using that(2) t by (simp add: fitsBuffer_def)
    ultimately have "suffix t kept" using assms by (simp add: longestFit_def)
    with t show ?thesis by simp
  qed
  have "suffix (kept @ qs) (ps @ qs)" using assms by (simp add: longestFit_def)
  then have "suffix s (kept @ qs) \<Longrightarrow> suffix s (ps @ qs)" for s using suffix_order.trans by blast
  with same show ?thesis unfolding longestFit_def by blast
qed

definition bufferOk :: "TrexCapturePacket list list \<Rightarrow> CapturePacketBuffer \<Rightarrow> bool" where
  "bufferOk arrivals b \<longleftrightarrow>
     longestFit (filter smallPacket (concat arrivals)) (packets b)
     \<and> dropped b + length (packets b) = length (concat arrivals)"

lemma bufferOk_arrival:
  assumes "bufferOk arrivals b"
  shows "bufferOk (arrivals @ [incoming]) (appendCapturePackets b incoming)"
proof (cases "incoming = []")
  case True
  then show ?thesis using assms by (simp add: appendCapturePackets_def bufferOk_def)
next
  case False
  let ?new = "packets (appendCapturePackets b incoming)"
  from assms have fit: "longestFit (filter smallPacket (concat arrivals)) (packets b)"
    and count: "dropped b + length (packets b) = length (concat arrivals)" by (simp_all add: bufferOk_def)
  have small: "filter smallPacket (packets b) = packets b"
    using fit fitsBuffer_small [of "packets b"] by (simp add: longestFit_def filter_id_conv)
  have "longestFit (packets b @ filter smallPacket incoming) ?new"
    using append_longest [OF False, of b] small by simp
  then have "longestFit (filter smallPacket (concat (arrivals @ [incoming]))) ?new"
    using longestFit_extend [OF fit] by simp
  moreover have "length ?new \<le> length (packets b @ incoming)"
    using append_longest [OF False, of b] by (rule longestFit_length)
  then have "dropped (appendCapturePackets b incoming) + length ?new = length (concat (arrivals @ [incoming]))"
    using False count by (simp add: appendCapturePackets_def Let_def)
  ultimately show ?thesis by (simp add: bufferOk_def)
qed

interpretation buffer: event_machine "\<lambda>incoming b. appendCapturePackets b incoming" emptyBuffer bufferOk
  by unfold_locales (simp add: bufferOk_def emptyBuffer_def longestFit_all, rule bufferOk_arrival)

lemma bufferAfter_ok: "bufferOk arrivals (bufferAfter arrivals)"
  unfolding bufferAfter_def by (rule buffer.always)

end
