(* ===== verification/RunReport.thy ===== *)
theory RunReport
  imports RunAuthority
begin

text \<open>
  Parts of the run report (\<open>runReport.ts\<close>) that no number formatting enters: the capture files of the
  run, the verdicts and how the conclusion and the assessment of a template are put together, and the
  table cells of the Markdown and CSV texts.
\<close>

section \<open>The capture files of the run\<close>

record RunReportCaptureFile =
  file_name :: string
  file_modified_time :: "string option"
  file_generated_at :: "string option"

datatype CaptureScope = ActiveRunWindow | ClosedRunWindow | InvalidRunWindow | NoRunSession

record RunCaptureFileEvidence =
  rce_files :: "RunReportCaptureFile list"
  rce_inventoryCount :: nat
  rce_scope :: CaptureScope
  rce_windowEnd :: "string option"
  rce_windowStart :: "string option"

definition captureFileTimestamp :: "date_reader \<Rightarrow> RunReportCaptureFile \<Rightarrow> int option" where
  "captureFileTimestamp getTime file =
     (case timestampMilliseconds getTime (file_generated_at file) of
        None \<Rightarrow> timestampMilliseconds getTime (file_modified_time file)
      | Some t \<Rightarrow> Some t)"

text \<open>The end of the session, or the end of the capture when that is later.\<close>

definition captureWindowEnd :: "date_reader \<Rightarrow> RunReportTrafficSession \<Rightarrow> string \<Rightarrow> string" where
  "captureWindowEnd getTime trafficSession generatedAt =
     (let primaryWindowEnd = (case ses_ended_at (rrs_session trafficSession) of None \<Rightarrow> generatedAt | Some t \<Rightarrow> t)
      in case (time_of getTime primaryWindowEnd, timestampMilliseconds getTime (rrs_captureCompletedAt trafficSession)) of
           (Some primaryEndTimestamp, Some captureCompletedTimestamp) \<Rightarrow>
             if captureCompletedTimestamp > primaryEndTimestamp
             then (case rrs_captureCompletedAt trafficSession of None \<Rightarrow> primaryWindowEnd | Some c \<Rightarrow> c)
             else primaryWindowEnd
         | _ \<Rightarrow> primaryWindowEnd)"

definition runCaptureFileEvidence :: "date_reader \<Rightarrow> RunReportCaptureFile list \<Rightarrow> RunReportTrafficSession option
    \<Rightarrow> string \<Rightarrow> RunCaptureFileEvidence" where
  "runCaptureFileEvidence getTime files trafficSession generatedAt =
     (case trafficSession of
        None \<Rightarrow> \<lparr>rce_files = [], rce_inventoryCount = length files, rce_scope = NoRunSession,
                 rce_windowEnd = None, rce_windowStart = None\<rparr>
      | Some run \<Rightarrow>
          let windowStart = ses_started_at (rrs_session run);
              windowEnd = captureWindowEnd getTime run generatedAt;
              invalid = \<lparr>rce_files = [], rce_inventoryCount = length files, rce_scope = InvalidRunWindow,
                         rce_windowEnd = Some windowEnd, rce_windowStart = Some windowStart\<rparr>
          in (case (time_of getTime windowStart, time_of getTime windowEnd) of
                (Some startTimestamp, Some endTimestamp) \<Rightarrow>
                  if endTimestamp < startTimestamp then invalid
                  else
                    \<lparr>rce_files = filter (\<lambda>file. case captureFileTimestamp getTime file of None \<Rightarrow> False
                         | Some fileTimestamp \<Rightarrow> fileTimestamp \<ge> startTimestamp \<and> fileTimestamp \<le> endTimestamp) files,
                     rce_inventoryCount = length files,
                     rce_scope = (case ses_ended_at (rrs_session run) of
                        None \<Rightarrow> ActiveRunWindow | Some t \<Rightarrow> if t = [] then ActiveRunWindow else ClosedRunWindow),
                     rce_windowEnd = Some windowEnd, rce_windowStart = Some windowStart\<rparr>
              | _ \<Rightarrow> invalid))"

text \<open>The end of the window is the later of the two times.\<close>

lemma captureWindowEnd_time:
  "time_of getTime (captureWindowEnd getTime run generatedAt) =
     (let primary = time_of getTime (case ses_ended_at (rrs_session run) of None \<Rightarrow> generatedAt | Some t \<Rightarrow> t)
      in case timestampMilliseconds getTime (rrs_captureCompletedAt run) of
           None \<Rightarrow> primary
         | Some captured \<Rightarrow> map_option (\<lambda>p. max p captured) primary)"
  by (auto simp: captureWindowEnd_def Let_def max_def split: option.splits if_splits)

section \<open>Verdicts\<close>

definition verdictWeight :: "RunReportVerdict \<Rightarrow> nat" where
  "verdictWeight verdict =
     (if verdict = VerdictFail then 3 else if verdict = VerdictWarn then 2
      else if verdict = VerdictUnknown then 1 else 0)"

definition highestVerdict :: "RunReportVerdict list \<Rightarrow> RunReportVerdict" where
  "highestVerdict verdicts =
     foldl (\<lambda>highest verdict. if verdictWeight verdict > verdictWeight highest then verdict else highest)
       VerdictPass verdicts"

lemma verdictWeight_inj [simp]: "verdictWeight a = verdictWeight b \<longleftrightarrow> a = b"
  by (cases a; cases b) (simp_all add: verdictWeight_def)

instantiation RunReportVerdict :: linorder
begin

definition less_eq_RunReportVerdict :: "RunReportVerdict \<Rightarrow> RunReportVerdict \<Rightarrow> bool" where
  "less_eq_RunReportVerdict a b \<longleftrightarrow> verdictWeight a \<le> verdictWeight b"

definition less_RunReportVerdict :: "RunReportVerdict \<Rightarrow> RunReportVerdict \<Rightarrow> bool" where
  "less_RunReportVerdict a b \<longleftrightarrow> verdictWeight a < verdictWeight b"

instance
  by standard (auto simp: less_eq_RunReportVerdict_def less_RunReportVerdict_def)

end

text \<open>Pass, unknown, warn, fail: the verdict of a list is its greatest, pass when it is empty.\<close>

lemma verdict_order: "VerdictPass \<le> v" "VerdictPass < VerdictUnknown" "VerdictUnknown < VerdictWarn" "VerdictWarn < VerdictFail"
  by (simp_all add: less_eq_RunReportVerdict_def less_RunReportVerdict_def verdictWeight_def)

lemma highestVerdict_fold:
  "foldl (\<lambda>highest verdict. if verdictWeight verdict > verdictWeight highest then verdict else highest) v vs
   = Max (insert v (set vs))"
proof (induction vs arbitrary: v)
  case (Cons w vs)
  have "(if verdictWeight w > verdictWeight v then w else v) = max v w"
    by (simp add: max_def less_eq_RunReportVerdict_def)
  then show ?case using Cons.IH [of "max v w"] by (cases "vs = []") (simp_all add: ac_simps)
qed simp

lemma highestVerdict_Max: "highestVerdict vs = Max (insert VerdictPass (set vs))"
  unfolding highestVerdict_def by (rule highestVerdict_fold)

lemma highestVerdict_two: "highestVerdict [a, b] = max a b"
  using verdict_order(1) [of "max a b"] by (simp add: highestVerdict_Max max.absorb2)

section \<open>Conclusion and template\<close>

record RunReportMetric =
  metric_label :: string
  metric_value :: string

record RunReportCheck =
  check_label :: string
  check_status :: RunReportVerdict
  check_detail :: string

datatype RunReportTemplateId = TemplateStandard | TemplateThroughput | TemplateLatency | TemplateCapture

record RunReportTemplate =
  template_id :: RunReportTemplateId
  template_label :: string
  template_summary :: string

record RunReportTemplateAssessment =
  assess_id :: RunReportTemplateId
  assess_label :: string
  assess_summary :: string
  assess_verdict :: RunReportVerdict
  assess_reasons :: "string list"
  assess_criteria :: "RunReportCheck list"

record RunReportConclusion =
  concl_verdict :: RunReportVerdict
  concl_title :: string
  concl_summary :: string
  concl_reasons :: "string list"
  concl_evidence :: "RunReportMetric list"
  concl_checks :: "RunReportCheck list"

definition runReportTemplates :: "RunReportTemplate list" where
  "runReportTemplates =
     [\<lparr>template_id = TemplateStandard, template_label = ''Operational Snapshot'',
       template_summary = ''Balanced run evidence for start/stop, counters, latency, capture, and logs.''\<rparr>,
      \<lparr>template_id = TemplateThroughput, template_label = ''Throughput Validation'',
       template_summary = ''Treat rate balance, packet delta, drops, queue pressure, and port errors as acceptance gates.''\<rparr>,
      \<lparr>template_id = TemplateLatency, template_label = ''Latency Validation'',
       template_summary = ''Require latency evidence and correlate latency errors with drops and queue pressure.''\<rparr>,
      \<lparr>template_id = TemplateCapture, template_label = ''Capture Troubleshooting'',
       template_summary = ''Require packet or PCAP evidence and highlight recorder/decode coverage.''\<rparr>]"

definition runReportTemplateById :: "RunReportTemplateId option \<Rightarrow> RunReportTemplate" where
  "runReportTemplateById i =
     (case List.find (\<lambda>template. Some (template_id template) = i) runReportTemplates of
        None \<Rightarrow> hd runReportTemplates
      | Some template \<Rightarrow> template)"

definition templateVerdictTitle :: "RunReportTemplate \<Rightarrow> RunReportVerdict \<Rightarrow> string" where
  "templateVerdictTitle template verdict =
     template_label template
     @ (if verdict = VerdictPass then '' Pass'' else if verdict = VerdictFail then '' Fail''
        else if verdict = VerdictWarn then '' Warning'' else '' Missing Evidence'')"

definition conclusionWithTemplate :: "RunReportConclusion \<Rightarrow> RunReportTemplate \<Rightarrow> RunReportTemplateAssessment
    \<Rightarrow> RunReportConclusion" where
  "conclusionWithTemplate conclusion template assessment =
     (let templateCheck = \<lparr>check_label = ''Report template'', check_status = assess_verdict assessment,
            check_detail = assess_label assessment @ '': '' @ assess_summary assessment\<rparr>;
          verdict = highestVerdict [concl_verdict conclusion, assess_verdict assessment];
          raises = verdictWeight (assess_verdict assessment) > verdictWeight (concl_verdict conclusion);
          reasons = take 10 (setOf
            (if template_id template = TemplateStandard \<and> \<not> raises
             then concl_reasons conclusion @ assess_reasons assessment
             else assess_reasons assessment @ concl_reasons conclusion))
      in conclusion\<lparr>
           concl_verdict := verdict,
           concl_title := (if raises then templateVerdictTitle template (assess_verdict assessment) else concl_title conclusion),
           concl_summary := (if raises then assess_summary assessment else concl_summary conclusion),
           concl_reasons := (if reasons \<noteq> [] then reasons else concl_reasons conclusion),
           concl_checks := concl_checks conclusion @ [templateCheck]\<rparr>)"

section \<open>Table cells\<close>

text \<open>\<open>value.replace(/\|/g, "\\|").replace(/\n/g, " ")\<close>\<close>

definition markdownCell :: "string \<Rightarrow> string" where
  "markdownCell value =
     map (\<lambda>c. if c = CHR 0x0A then CHR '' '' else c)
       (concat (map (\<lambda>c. if c = CHR ''|'' then [CHR 0x5C, CHR ''|''] else [c]) value))"

definition markdownTable :: "(string \<times> string) list \<Rightarrow> string" where
  "markdownTable rows =
     joinWith [CHR 0x0A]
       ([''| Field | Value |'', ''| --- | --- |'']
        @ map (\<lambda>(field, value). ''| '' @ markdownCell field @ '' | '' @ markdownCell value @ '' |'') rows)"

text \<open>
  A value is \<open>None\<close> for null and undefined, otherwise the text that \<open>String\<close> or \<open>JSON.stringify\<close> makes
  of it.
\<close>

definition csvEscape :: "string \<Rightarrow> string" where
  "csvEscape text = concat (map (\<lambda>c. if c = CHR 0x22 then [CHR 0x22, CHR 0x22] else [c]) text)"

definition csvSpecial :: "char \<Rightarrow> bool" where
  "csvSpecial c \<longleftrightarrow> c = CHR 0x22 \<or> c = CHR '','' \<or> c = CHR 0x0A \<or> c = CHR 0x0D"

definition csvCell :: "string option \<Rightarrow> string" where
  "csvCell value =
     (case value of
        None \<Rightarrow> []
      | Some text \<Rightarrow>
          let escaped = csvEscape text in
          if list_ex csvSpecial escaped then CHR 0x22 # escaped @ [CHR 0x22] else escaped)"

definition csvRows :: "string option list list \<Rightarrow> string" where
  "csvRows rows = joinWith [CHR 0x0A] (map (\<lambda>row. joinWith '','' (map csvCell row)) rows) @ [CHR 0x0A]"

section \<open>Reading CSV back\<close>

text \<open>
  A reader after RFC 4180 with line feeds: a field that begins with a quotation mark goes on to the
  next single quotation mark, any other one to the next comma or line feed.
\<close>

fun csvQuoted :: "string \<Rightarrow> string \<times> string" where
  "csvQuoted (c # d # s) =
     (if c \<noteq> CHR 0x22 then (case csvQuoted (d # s) of (text, rest) \<Rightarrow> (c # text, rest))
      else if d = CHR 0x22 then (case csvQuoted s of (text, rest) \<Rightarrow> (CHR 0x22 # text, rest))
      else ([], d # s))"
| "csvQuoted [c] = (if c = CHR 0x22 then ([], []) else ([c], []))"
| "csvQuoted [] = ([], [])"

definition csvPlain :: "char \<Rightarrow> bool" where
  "csvPlain c \<longleftrightarrow> c \<noteq> CHR '','' \<and> c \<noteq> CHR 0x0A"

definition csvField :: "string \<Rightarrow> string \<times> string" where
  "csvField s =
     (case s of
        [] \<Rightarrow> ([], [])
      | c # r \<Rightarrow> if c = CHR 0x22 then csvQuoted r else (takeWhile csvPlain s, dropWhile csvPlain s))"

lemma csvQuoted_shorter: "csvQuoted s = (w, rest) \<Longrightarrow> length rest \<le> length s"
  by (induction s arbitrary: w rest rule: csvQuoted.induct) (auto split: if_splits prod.splits)

lemma csvField_shorter:
  assumes "csvField s = (w, rest)"
  shows "length rest \<le> length s"
proof (cases s)
  case (Cons c r)
  show ?thesis
  proof (cases "c = CHR 0x22")
    case True
    then have "csvQuoted r = (w, rest)" using assms Cons by (simp add: csvField_def)
    from csvQuoted_shorter [OF this] Cons show ?thesis by simp
  next
    case False
    then have "rest = dropWhile csvPlain s" using assms Cons unfolding csvField_def by simp
    then show ?thesis by (simp only: length_dropWhile_le)
  qed
qed (use assms in \<open>simp add: csvField_def\<close>)

function (sequential) csvRecords :: "string \<Rightarrow> string list list" where
  "csvRecords s =
     (case csvField s of
        (field, []) \<Rightarrow> [[field]]
      | (field, c # rest) \<Rightarrow>
          if c = CHR '',''
          then (case csvRecords rest of [] \<Rightarrow> [[field]] | record # records \<Rightarrow> (field # record) # records)
          else if rest = [] then [[field]] else [field] # csvRecords rest)"
  by pat_completeness auto

termination
  by (relation "measure length") (auto dest!: csvField_shorter [OF sym])

declare csvRecords.simps [simp del]

lemma csvField_shorterD: "(field, c # rest) = csvField s \<Longrightarrow> length rest < length s"
  using csvField_shorter [of s field "c # rest"] by simp

lemma csvQuoted_escape:
  "d \<noteq> CHR 0x22 \<Longrightarrow> csvQuoted (csvEscape w @ CHR 0x22 # d # s) = (w, d # s)"
proof (induction w)
  case (Cons c w)
  obtain e u where "csvEscape w @ CHR 0x22 # d # s = e # u"
    by (cases "csvEscape w @ CHR 0x22 # d # s") auto
  with Cons show ?case by (cases "c = CHR 0x22") (simp_all add: csvEscape_def)
qed (simp add: csvEscape_def)

lemma csvEscape_special: "list_ex csvSpecial (csvEscape w) \<longleftrightarrow> list_ex csvSpecial w"
  by (induction w) (auto simp: csvEscape_def csvSpecial_def)

lemma csvEscape_plain: "\<not> list_ex csvSpecial w \<Longrightarrow> csvEscape w = w"
  by (induction w) (auto simp: csvEscape_def csvSpecial_def)

lemma csvField_plain:
  assumes "list_all csvPlain w" "CHR 0x22 \<notin> set w" "\<not> csvPlain d" "d \<noteq> CHR 0x22"
  shows "csvField (w @ d # s) = (w, d # s)"
proof -
  have "takeWhile csvPlain (w @ d # s) = w" "dropWhile csvPlain (w @ d # s) = d # s"
    using assms(1,3) by (simp_all add: list_all_iff)
  moreover obtain c r where "w @ d # s = c # r" "c \<noteq> CHR 0x22"
    using assms(2,4) by (cases w) auto
  ultimately show ?thesis by (simp add: csvField_def)
qed

definition csvText :: "string option \<Rightarrow> string" where
  "csvText value = (case value of None \<Rightarrow> [] | Some w \<Rightarrow> w)"

lemma csvField_cell:
  assumes "d = CHR '','' \<or> d = CHR 0x0A"
  shows "csvField (csvCell v @ d # s) = (csvText v, d # s)"
proof -
  have d: "\<not> csvPlain d" "d \<noteq> CHR 0x22" using assms by (auto simp: csvPlain_def)
  show ?thesis
  proof (cases v)
    case None
    then show ?thesis using csvField_plain [OF _ _ d, of "[]"] by (simp add: csvCell_def csvText_def)
  next
    case (Some w)
    show ?thesis
    proof (cases "list_ex csvSpecial w")
      case True
      then show ?thesis
        using Some csvQuoted_escape [OF d(2)] by (simp add: csvCell_def csvText_def Let_def csvEscape_special csvField_def)
    next
      case False
      then have "list_all csvPlain w" "CHR 0x22 \<notin> set w"
        by (auto simp: list_ex_iff list_all_iff csvSpecial_def csvPlain_def)
      then show ?thesis
        using Some False csvField_plain [OF _ _ d] by (simp add: csvCell_def csvText_def Let_def csvEscape_special csvEscape_plain)
    qed
  qed
qed

lemma csvRecords_row:
  "row \<noteq> [] \<Longrightarrow> csvRecords (joinWith '','' (map csvCell row) @ CHR 0x0A # s)
    = map csvText row # (if s = [] then [] else csvRecords s)"
proof (induction row rule: induct_list012)
  case (2 v)
  then show ?case using csvField_cell [of "CHR 0x0A" v s] by (simp add: csvRecords.simps [of "csvCell v @ _"])
next
  case (3 v w row)
  let ?r = "joinWith '','' (map csvCell (w # row)) @ CHR 0x0A # s"
  have "csvField (csvCell v @ CHR '','' # ?r) = (csvText v, CHR '','' # ?r)"
    by (rule csvField_cell) simp
  then show ?case using 3 by (simp add: csvRecords.simps [of "csvCell v @ _"])
qed simp

lemma csvRecords_rows:
  "rows \<noteq> [] \<Longrightarrow> \<forall>row\<in>set rows. row \<noteq> [] \<Longrightarrow> csvRecords (csvRows rows) = map (map csvText) rows"
proof (induction rows rule: induct_list012)
  case (2 row)
  then show ?case using csvRecords_row [of row "[]"] by (simp add: csvRows_def)
next
  case (3 row row' rows)
  have "csvRows (row # row' # rows) = joinWith '','' (map csvCell row) @ CHR 0x0A # csvRows (row' # rows)"
    by (simp add: csvRows_def)
  moreover have "csvRows (row' # rows) \<noteq> []" by (simp add: csvRows_def)
  ultimately show ?case using 3 csvRecords_row [of row "csvRows (row' # rows)"] by simp
qed simp

end
