(* ===== verification/PortControls.thy ===== *)
theory PortControls
  imports RunAuthority
begin

text \<open>
  What the page offers for a port or a planned group: the control state of a port
  (\<open>portControlState.ts\<close>), the runtime controls (\<open>runtimeCapability.ts\<close>), and the link check and
  runtime view of a group (\<open>portPairPlanModel.ts\<close>, without the multiplier, which is number printing).
\<close>

section \<open>Ports\<close>

text \<open>The values of a JSON object that are read here; a number is only compared with 0 and 1.\<close>

datatype JsonScalar = JsonBool bool | JsonNumber int | JsonText string | JsonNull | JsonOther

record TrexPortRecord =
  port_id :: int
  port_acquired :: bool
  port_info :: "(string \<times> JsonScalar) list"

record TrexPortsSnapshot =
  snap_acquired_ports :: "int list"
  snap_ports :: "TrexPortRecord list"

record SystemOverview =
  ov_probe_ok :: bool
  ov_trex_ports :: "TrexPortsSnapshot TrexResult"

definition snapshotData :: "SystemOverview option \<Rightarrow> TrexPortsSnapshot option" where
  "snapshotData overview = Option.bind overview (\<lambda>o'. rsp_data (ov_trex_ports o'))"

definition portIsLocallyAcquired :: "TrexPortRecord option \<Rightarrow> SystemOverview option \<Rightarrow> bool" where
  "portIsLocallyAcquired port overview =
     (case port of
        None \<Rightarrow> False
      | Some p \<Rightarrow>
          let snapshotAcquired = (case snapshotData overview of None \<Rightarrow> False
                | Some d \<Rightarrow> port_id p \<in> set (snap_acquired_ports d))
          in port_acquired p \<or> snapshotAcquired)"

definition portHasSnapshot :: "TrexPortRecord option \<Rightarrow> SystemOverview option \<Rightarrow> bool" where
  "portHasSnapshot port overview =
     (case (port, overview) of
        (Some p, Some o') \<Rightarrow>
          if \<not> rsp_ok (ov_trex_ports o') then False
          else (case rsp_data (ov_trex_ports o') of None \<Rightarrow> False
                | Some d \<Rightarrow> list_ex (\<lambda>r. port_id r = port_id p) (snap_ports d))
      | _ \<Rightarrow> False)"

definition portControlDisabledReason :: "string option \<Rightarrow> bool \<Rightarrow> bool \<Rightarrow> string option" where
  "portControlDisabledReason activeCommand hasPortSnapshot portAcquired =
     (if \<not> hasPortSnapshot then Some ''Waiting for a real TRex port response''
      else if \<not> portAcquired then Some ''Port attributes require an acquired port''
      else if activeCommand \<noteq> None then Some ''Waiting for the current port command to finish''
      else None)"

record PortControlState =
  pcs_acquired :: bool
  pcs_disabledReason :: "string option"
  pcs_editable :: bool
  pcs_hasSnapshot :: bool

definition portControlState :: "TrexPortRecord option \<Rightarrow> SystemOverview option \<Rightarrow> string option \<Rightarrow> PortControlState" where
  "portControlState port overview activeCommand =
     (let acquired = portIsLocallyAcquired port overview;
          hasSnapshot = portHasSnapshot port overview;
          disabledReason = portControlDisabledReason activeCommand hasSnapshot acquired
      in \<lparr>pcs_acquired = acquired, pcs_disabledReason = disabledReason, pcs_editable = (disabledReason = None),
          pcs_hasSnapshot = hasSnapshot\<rparr>)"

definition runtimeControlDisabledReason :: "SystemOverview option \<Rightarrow> string option" where
  "runtimeControlDisabledReason overview =
     (case overview of
        None \<Rightarrow> Some ''Connect to TRex RPC to use runtime controls.''
      | Some o' \<Rightarrow>
          if \<not> ov_probe_ok o' then Some ''Connect to TRex RPC to use runtime controls.''
          else (case (rsp_ok (ov_trex_ports o'), rsp_data (ov_trex_ports o')) of
                  (True, Some d) \<Rightarrow>
                    if snap_ports d = [] then Some ''No TRex ports are available.'' else None
                | _ \<Rightarrow> Some ''TRex port inventory is unavailable.''))"

section \<open>Links\<close>

datatype PortLinkState = LinkUp | LinkDown | LinkUnknown

text \<open>\<open>toUpperCase\<close> on the letters a to z; no other character becomes one of the words below.\<close>

definition toUpperCase :: "string \<Rightarrow> string" where
  "toUpperCase s = map (\<lambda>c. if 97 \<le> codeOf c \<and> codeOf c \<le> 122 then char_of (nat (codeOf c - 32)) else c) s"

definition LINK_UP_VALUES :: "string list" where
  "LINK_UP_VALUES = [''1'', ''ACTIVE'', ''ON'', ''TRUE'', ''UP'', ''YES'']"

definition LINK_DOWN_VALUES :: "string list" where
  "LINK_DOWN_VALUES = [''0'', ''DOWN'', ''FALSE'', ''INACTIVE'', ''NO'', ''OFF'']"

definition portLinkState :: "TrexPortRecord list \<Rightarrow> int \<Rightarrow> PortLinkState" where
  "portLinkState portRecords portId =
     (case List.find (\<lambda>candidate. port_id candidate = portId) portRecords of
        None \<Rightarrow> LinkUnknown
      | Some record \<Rightarrow>
          (case (case map_of (port_info record) ''link'' of
                   None \<Rightarrow> map_of (port_info record) ''link_status''
                 | Some v \<Rightarrow> if v = JsonNull then map_of (port_info record) ''link_status'' else Some v) of
             Some (JsonBool value) \<Rightarrow> if value then LinkUp else LinkDown
           | Some (JsonNumber value) \<Rightarrow> if value = 1 then LinkUp else if value = 0 then LinkDown else LinkUnknown
           | Some (JsonText value) \<Rightarrow>
               let normalized = toUpperCase (jsTrim value) in
               if normalized \<in> set LINK_UP_VALUES then LinkUp
               else if normalized \<in> set LINK_DOWN_VALUES then LinkDown else LinkUnknown
           | _ \<Rightarrow> LinkUnknown))"

definition linkStateText :: "PortLinkState \<Rightarrow> string" where
  "linkStateText state = (case state of LinkUp \<Rightarrow> ''UP'' | LinkDown \<Rightarrow> ''DOWN'' | LinkUnknown \<Rightarrow> ''UNKNOWN'')"

definition trafficGroupLinkBlocker :: "TrexPortRecord list \<Rightarrow> int list \<Rightarrow> string option" where
  "trafficGroupLinkBlocker portRecords ports =
     (let blocked = filter (\<lambda>(port, state). state \<noteq> LinkUp) (map (\<lambda>port. (port, portLinkState portRecords port)) ports)
      in if blocked = [] then None
         else Some (''Traffic start requires every group link UP; ''
           @ joinWith '', '' (map (\<lambda>(port, state). ''P'' @ decText port @ '' '' @ linkStateText state) blocked) @ ''.''))"

section \<open>The runtime of a planned group\<close>

record TrafficGroupRuntimeView =
  view_ownership :: PortOwnership
  view_sessionId :: "string option"
  view_state :: TrafficRunState

definition samePorts :: "int list \<Rightarrow> int list \<Rightarrow> bool" where
  "samePorts left right \<longleftrightarrow> length left = length right \<and> list_all (\<lambda>port. port \<in> set right) left"

definition runState :: "TrafficPortState \<Rightarrow> TrafficRunState" where
  "runState state = (case state of PortRunning \<Rightarrow> RunRunning | PortPaused \<Rightarrow> RunPaused | PortStopped \<Rightarrow> RunStopped
     | PortUnknown \<Rightarrow> RunUnknown)"

definition aggregatePortState :: "TrafficRunState list \<Rightarrow> TrafficRunState" where
  "aggregatePortState states =
     (if states = [] \<or> RunUnknown \<in> set states then RunUnknown
      else if length (setOf states) = 1 then hd states else RunMixed)"

definition trafficGroupRuntimeView :: "TrafficRuntimeSnapshot \<Rightarrow> TrafficPlanGroup \<Rightarrow> TrafficGroupRuntimeView" where
  "trafficGroupRuntimeView runtime grp =
     (let portStateById = mapFrom (map (\<lambda>row. (prt_port row, row)) (rts_port_states runtime));
          runtimePorts = List.map_filter portStateById (plan_ports grp);
          ownership = (if list_ex (\<lambda>row. prt_ownership row = OwnedExternal) runtimePorts then OwnedExternal
                       else if list_ex (\<lambda>row. prt_ownership row = OwnedManaged) runtimePorts then OwnedManaged
                       else OwnedNone);
          sessionGroup = (case rts_session runtime of None \<Rightarrow> None
            | Some session \<Rightarrow> List.find (\<lambda>candidate. grp_group_id candidate = Some (plan_id grp)
                \<or> grp_group_id candidate = None \<and> samePorts (grp_ports candidate) (plan_ports grp)) (ses_groups session))
      in \<lparr>view_ownership = ownership,
          view_sessionId = (if sessionGroup = None then None else map_option ses_id (rts_session runtime)),
          view_state = (case sessionGroup of Some g \<Rightarrow> grp_state g
             | None \<Rightarrow> aggregatePortState (map (\<lambda>row. runState (prt_state row)) runtimePorts))\<rparr>)"

section \<open>Lemmas\<close>

lemma setOf_single: "length (setOf xs) = 1 \<longleftrightarrow> (\<exists>x. set xs = {x})"
proof
  assume "length (setOf xs) = 1"
  then obtain x where "setOf xs = [x]" by (auto simp: length_Suc_conv)
  then have "set xs = {x}" using set_setOf [of xs] by simp
  then show "\<exists>x. set xs = {x}" ..
next
  assume "\<exists>x. set xs = {x}"
  then have "card (set (setOf xs)) = 1" by auto
  then show "length (setOf xs) = 1" by (simp only: distinct_card [OF distinct_setOf])
qed

text \<open>The state of a group of ports: one known state of them all, mixed for several, unknown if any is.\<close>

lemma aggregatePortState_iff:
  "aggregatePortState states = s \<longleftrightarrow>
     (if states = [] \<or> RunUnknown \<in> set states then s = RunUnknown
      else if \<exists>x. set states = {x} then set states = {s} else s = RunMixed)"
  unfolding aggregatePortState_def setOf_single
  by (cases states) auto

text \<open>For two lists without repetitions, one of them may be in any order.\<close>

lemma samePorts_set:
  assumes "distinct left" "distinct right"
  shows "samePorts left right \<longleftrightarrow> set left = set right"
proof
  assume "samePorts left right"
  then have "set left \<subseteq> set right" "card (set left) = card (set right)"
    using assms by (auto simp: samePorts_def list_all_iff distinct_card)
  then show "set left = set right" by (simp add: card_subset_eq)
next
  assume e: "set left = set right"
  then have "card (set left) = card (set right)" by simp
  then have "length left = length right" unfolding distinct_card [OF assms(1)] distinct_card [OF assms(2)] .
  with e show "samePorts left right" by (simp add: samePorts_def list_all_iff)
qed

lemma portControl_editable:
  "pcs_editable (portControlState port overview activeCommand)
   \<longleftrightarrow> portHasSnapshot port overview \<and> portIsLocallyAcquired port overview \<and> activeCommand = None"
  by (simp add: portControlState_def portControlDisabledReason_def Let_def)

lemma linkBlocker_None:
  "trafficGroupLinkBlocker portRecords ports = None \<longleftrightarrow> (\<forall>p\<in>set ports. portLinkState portRecords p = LinkUp)"
  by (auto simp: trafficGroupLinkBlocker_def Let_def filter_empty_conv)

end
