(* ===== verification/PayloadPattern.thy ===== *)
theory PayloadPattern
  imports HexText
begin

text \<open>
  The import of a payload pattern from a text file (\<open>payloadPatternModel.ts\<close>): the text without
  prefixes and separators, the check of it, and what a file selection does to the panel. A file that
  cannot be read is \<open>None\<close>.
\<close>

definition PAYLOAD_PATTERN_MAX_HEX_CHARS :: nat where
  "PAYLOAD_PATTERN_MAX_HEX_CHARS = 1024"

definition compactPayloadPattern :: "string \<Rightarrow> string" where
  "compactPayloadPattern value = filter (\<lambda>c. \<not> isHexSeparator c) (drop0x value)"

definition payloadPatternImportError :: "string \<Rightarrow> string option" where
  "payloadPatternImportError value =
     (if length value > PAYLOAD_PATTERN_MAX_HEX_CHARS
      then Some (''Payload pattern cannot exceed '' @ decText (int PAYLOAD_PATTERN_MAX_HEX_CHARS) @ '' hex characters.'')
      else if list_ex (\<lambda>c. \<not> isHexDigit c) value then Some ''Payload pattern must contain only hex bytes.''
      else if length value mod 2 \<noteq> 0 then Some ''Payload pattern must contain whole hex bytes.''
      else None)"

datatype PayloadPatternImportStatus = PatternOk string | PatternError string

text \<open>The pattern, when there is one, and the status.\<close>

type_synonym PayloadPatternImportResult = "string option \<times> PayloadPatternImportStatus"

definition payloadPatternFileImportResult :: "string \<Rightarrow> string \<Rightarrow> PayloadPatternImportResult" where
  "payloadPatternFileImportResult content fileName =
     (let pattern = compactPayloadPattern content in
      case payloadPatternImportError pattern of
        Some error \<Rightarrow> (None, PatternError error)
      | None \<Rightarrow> (Some pattern, PatternOk (''Loaded '' @ fileName)))"

definition payloadPatternFileReadErrorAction :: PayloadPatternImportResult where
  "payloadPatternFileReadErrorAction = (None, PatternError ''Payload pattern file could not be read.'')"

text \<open>The panel: the pattern of the stream, the status, and whether the file input holds a file.\<close>

record PatternPanel =
  panel_pattern :: string
  panel_status :: "PayloadPatternImportStatus option"
  panel_fileChosen :: bool

definition runPayloadPatternFileImportAction :: "PayloadPatternImportResult \<Rightarrow> PatternPanel \<Rightarrow> bool \<times> PatternPanel" where
  "runPayloadPatternFileImportAction result panel =
     (case fst result of
        None \<Rightarrow> (False, panel\<lparr>panel_status := Some (snd result)\<rparr>)
      | Some pattern \<Rightarrow> (True, panel\<lparr>panel_pattern := pattern, panel_status := Some (snd result)\<rparr>))"

text \<open>The file that was selected: its name, and its content when it can be read.\<close>

type_synonym SelectedFile = "string \<times> string option"

definition runPayloadPatternFileSelection :: "SelectedFile option \<Rightarrow> bool \<Rightarrow> PatternPanel \<Rightarrow> bool \<times> PatternPanel" where
  "runPayloadPatternFileSelection file canApplyPattern panel =
     (let (done, panel') =
        (case file of
           None \<Rightarrow> (False, panel)
         | Some (name, content) \<Rightarrow>
             if \<not> canApplyPattern then (False, panel)
             else (case content of
                     Some c \<Rightarrow> runPayloadPatternFileImportAction (payloadPatternFileImportResult c name) panel
                   | None \<Rightarrow> runPayloadPatternFileImportAction payloadPatternFileReadErrorAction panel))
      in (done, panel'\<lparr>panel_fileChosen := False\<rparr>))"

section \<open>Lemmas\<close>

definition patternOk :: "string \<Rightarrow> bool" where
  "patternOk s \<longleftrightarrow> length s \<le> 1024 \<and> list_all isHexDigit s \<and> even (length s)"

lemma importError_None: "payloadPatternImportError s = None \<longleftrightarrow> patternOk s"
  by (auto simp: payloadPatternImportError_def patternOk_def PAYLOAD_PATTERN_MAX_HEX_CHARS_def list_ex_iff list_all_iff)

text \<open>A byte as a file may note it: a prefix or none, two digits of either case, and separators behind it.\<close>

type_synonym NotedByte = "string \<times> char \<times> char \<times> string"

definition notedText :: "NotedByte list \<Rightarrow> string" where
  "notedText noted = concat (map (\<lambda>(prefix, high, low, sep). prefix @ [high, low] @ sep) noted)"

definition notedDigits :: "NotedByte list \<Rightarrow> string" where
  "notedDigits noted = concat (map (\<lambda>(prefix, high, low, sep). [high, low]) noted)"

definition notedByte :: "NotedByte \<Rightarrow> bool" where
  "notedByte b \<longleftrightarrow>
     (case b of (prefix, high, low, sep) \<Rightarrow>
        (prefix = [] \<or> prefix = ''0x'' \<or> prefix = ''0X'') \<and> isHexDigit high \<and> isHexDigit low \<and> list_all isHexSeparator sep)"

definition noX :: "string \<Rightarrow> bool" where
  "noX s \<longleftrightarrow> CHR ''x'' \<notin> set s \<and> CHR ''X'' \<notin> set s"

lemma drop0x_append: "noX s \<Longrightarrow> noX (take 1 t) \<Longrightarrow> drop0x (s @ t) = s @ drop0x t"
proof (induction s)
  case (Cons c s)
  then have "drop0x (s @ t) = s @ drop0x t" by (simp add: noX_def)
  then show ?case using Cons.prems by (cases "s @ t"; cases s; cases t) (auto simp: noX_def)
qed simp

lemma noX_byte:
  assumes "notedByte (prefix, high, low, sep)"
  shows "noX ([high, low] @ sep)"
proof -
  have "\<not> isHexSeparator (CHR ''x'')" "\<not> isHexSeparator (CHR ''X'')"
    by (simp_all add: isHexSeparator_def isJsSpace_def codeOf_def)
  moreover have "c \<noteq> CHR ''x'' \<and> c \<noteq> CHR ''X''" if "isHexDigit c" for c
    using that hex_not_char(1,2) by blast
  ultimately show ?thesis using assms by (auto simp: notedByte_def noX_def list_all_iff)
qed

lemma noX_start:
  assumes "list_all notedByte noted"
  shows "noX (take 1 (notedText noted))"
proof (cases noted)
  case (Cons b bs)
  obtain prefix high low sep where b: "b = (prefix, high, low, sep)" by (cases b)
  then have "notedByte (prefix, high, low, sep)" using assms Cons by simp
  then show ?thesis using noX_byte [of prefix high low sep] by (auto simp: Cons b notedText_def notedByte_def noX_def)
qed (simp add: notedText_def noX_def)

lemma drop0x_noted:
  "list_all notedByte noted \<Longrightarrow> drop0x (notedText noted) = concat (map (\<lambda>(prefix, high, low, sep). [high, low] @ sep) noted)"
proof (induction noted)
  case (Cons b noted)
  obtain prefix high low sep where b: "b = (prefix, high, low, sep)" by (cases b)
  with Cons.prems have p: "notedByte (prefix, high, low, sep)" "list_all notedByte noted" by simp_all
  have "drop0x (([high, low] @ sep) @ notedText noted) = ([high, low] @ sep) @ drop0x (notedText noted)"
    by (rule drop0x_append [OF noX_byte [OF p(1)] noX_start [OF p(2)]])
  moreover have "notedText (b # noted) = prefix @ ([high, low] @ sep) @ notedText noted"
    by (simp add: b notedText_def)
  moreover have "drop0x (prefix @ s) = drop0x s" for s using p(1) by (auto simp: notedByte_def)
  ultimately show ?case using Cons.IH [OF p(2)] by (simp add: b)
qed (simp add: notedText_def)

lemma compact_noted:
  assumes "list_all notedByte noted" "list_all isHexSeparator lead"
  shows "compactPayloadPattern (lead @ notedText noted) = notedDigits noted"
proof -
  have "\<not> isHexSeparator (CHR ''x'')" "\<not> isHexSeparator (CHR ''X'')"
    by (simp_all add: isHexSeparator_def isJsSpace_def codeOf_def)
  then have "noX lead" using assms(2) by (auto simp: noX_def list_all_iff)
  then have d: "drop0x (lead @ notedText noted) = lead @ concat (map (\<lambda>(prefix, high, low, sep). [high, low] @ sep) noted)"
    using drop0x_append noX_start drop0x_noted assms(1) by simp
  have "filter (\<lambda>c. \<not> isHexSeparator c) ([high, low] @ sep) = [high, low]" if "notedByte (prefix, high, low, sep)"
    for prefix high low sep
    using that hex_not_separator by (auto simp: notedByte_def list_all_iff filter_empty_conv)
  then have "filter (\<lambda>c. \<not> isHexSeparator c) (concat (map (\<lambda>(prefix, high, low, sep). [high, low] @ sep) noted)) = notedDigits noted"
    using assms(1) by (induction noted) (auto simp: notedDigits_def)
  then show ?thesis
    using assms(2) by (simp add: compactPayloadPattern_def d list_all_iff filter_empty_conv)
qed

lemma noted_pattern: "list_all notedByte noted \<Longrightarrow> length noted \<le> 512 \<Longrightarrow> patternOk (notedDigits noted)"
proof -
  assume a: "list_all notedByte noted" "length noted \<le> 512"
  have "length (notedDigits noted) = 2 * length noted" by (induction noted) (auto simp: notedDigits_def)
  moreover have "list_all isHexDigit (notedDigits noted)"
    using a(1) by (induction noted) (auto simp: notedDigits_def notedByte_def)
  ultimately show ?thesis using a(2) by (simp add: patternOk_def)
qed

end
