(* ===== verification/PageProperties.thy ===== *)
theory PageProperties
  imports CaptureBuffer RunReport PortControls PayloadPattern RunSamples
begin

text \<open>
  The properties of the smaller parts of the page: the capture buffer, the capture files and the
  conclusion of the run report, its CSV text, and the import of a payload pattern.
\<close>

section \<open>The capture buffer\<close>

text \<open>
  C24. The capture buffer keeps the longest run of the newest packets that fits in 2000 packets and 8
  MiB, packets that alone are larger left out, and counts every other packet that arrived as dropped.
\<close>

theorem buffer_keeps_newest:
  "longestFit (filter smallPacket (concat arrivals)) (packets (bufferAfter arrivals))
   \<and> length (packets (bufferAfter arrivals)) \<le> 2000
   \<and> packetsSize (packets (bufferAfter arrivals)) \<le> 8388608
   \<and> dropped (bufferAfter arrivals) + length (packets (bufferAfter arrivals)) = length (concat arrivals)"
  using bufferAfter_ok [of arrivals]
  by (simp add: bufferOk_def longestFit_def fitsBuffer_def CAPTURE_PACKET_RETENTION_MAX_COUNT_def
      CAPTURE_PACKET_RETENTION_MAX_BYTES_def)

text \<open>
  C25. The buffer does not depend on how the packets were split into arrivals: it is the buffer of one
  arrival of them all.
\<close>

theorem buffer_ignores_batches:
  "bufferAfter arrivals = appendCapturePackets emptyBuffer (concat arrivals)"
proof -
  have one: "bufferOk [concat arrivals] (appendCapturePackets emptyBuffer (concat arrivals))"
    using bufferAfter_ok [of "[concat arrivals]"] by (simp add: bufferAfter_def)
  then have "packets (bufferAfter arrivals) = packets (appendCapturePackets emptyBuffer (concat arrivals))"
    using bufferAfter_ok [of arrivals] by (auto simp: bufferOk_def intro: longestFit_unique)
  moreover from this have "dropped (bufferAfter arrivals) = dropped (appendCapturePackets emptyBuffer (concat arrivals))"
    using one bufferAfter_ok [of arrivals] by (simp add: bufferOk_def)
  ultimately show ?thesis by simp
qed

section \<open>The run report\<close>

text \<open>
  The report lists exactly the capture files whose time lies between the start of the session and
  its end, or the completion of its capture when that is later.
\<close>

theorem report_lists_run_captures:
  assumes "time_of getTime (ses_started_at (rrs_session run)) = Some start"
    "time_of getTime (case ses_ended_at (rrs_session run) of None \<Rightarrow> generatedAt | Some t \<Rightarrow> t) = Some finish"
    "until = (case timestampMilliseconds getTime (rrs_captureCompletedAt run) of None \<Rightarrow> finish | Some c \<Rightarrow> max finish c)"
    "start \<le> until"
  shows "rce_files (runCaptureFileEvidence getTime files (Some run) generatedAt)
    = filter (\<lambda>file. \<exists>t. captureFileTimestamp getTime file = Some t \<and> start \<le> t \<and> t \<le> until) files"
proof -
  have "time_of getTime (captureWindowEnd getTime run generatedAt) = Some until"
    using assms(2,3) by (simp add: captureWindowEnd_time Let_def split: option.splits)
  then show ?thesis
    using assms(1,4) by (auto simp: runCaptureFileEvidence_def Let_def intro!: filter_cong split: option.split)
qed

definition sampleFiles :: "RunReportCaptureFile list" where
  "sampleFiles =
     [\<lparr>file_name = ''old.pcap'', file_modified_time = Some ''90'', file_generated_at = None\<rparr>,
      \<lparr>file_name = ''run.pcap'', file_modified_time = Some ''999'', file_generated_at = Some ''150''\<rparr>,
      \<lparr>file_name = ''late.pcap'', file_modified_time = Some ''225'', file_generated_at = None\<rparr>]"

lemma report_lists_run_captures_witness:
  "map file_name (rce_files (runCaptureFileEvidence sampleTime sampleFiles
      (Some \<lparr>rrs_session = sampleSession, rrs_captureCompletedAt = Some ''230''\<rparr>) ''500'')) = [''run.pcap'', ''late.pcap'']"
proof -
  let ?run = "\<lparr>rrs_session = sampleSession, rrs_captureCompletedAt = Some ''230''\<rparr>"
  have t: "time_of sampleTime (ses_started_at (rrs_session ?run)) = Some 110"
    "time_of sampleTime (case ses_ended_at (rrs_session ?run) of None \<Rightarrow> ''500'' | Some t \<Rightarrow> t) = Some 210"
    "230 = (case timestampMilliseconds sampleTime (rrs_captureCompletedAt ?run) of None \<Rightarrow> 210 | Some c \<Rightarrow> max 210 c)"
    by code_simp+
  have times: "map (captureFileTimestamp sampleTime) sampleFiles = [Some 90, Some 150, Some 225]" by code_simp
  show ?thesis
    unfolding report_lists_run_captures [OF t, of sampleFiles, simplified] using times by (simp add: sampleFiles_def)
qed

text \<open>
  The conclusion with a template has the worse of the two verdicts, takes title and summary from
  the template only when its verdict is the worse one, and gives at most ten distinct reasons: all of
  both when there are no more than ten.
\<close>

theorem conclusion_takes_worse_verdict:
  fixes conclusion assessment template
  defines "r \<equiv> conclusionWithTemplate conclusion template assessment"
  shows "concl_verdict r = max (concl_verdict conclusion) (assess_verdict assessment)
    \<and> concl_title r = (if concl_verdict conclusion < assess_verdict assessment
        then templateVerdictTitle template (assess_verdict assessment) else concl_title conclusion)
    \<and> concl_summary r = (if concl_verdict conclusion < assess_verdict assessment
        then assess_summary assessment else concl_summary conclusion)
    \<and> distinct (concl_reasons r) \<and> length (concl_reasons r) \<le> 10
    \<and> set (concl_reasons r) \<subseteq> set (concl_reasons conclusion) \<union> set (assess_reasons assessment)
    \<and> (length (concl_reasons r) = 10
       \<or> set (concl_reasons r) = set (concl_reasons conclusion) \<union> set (assess_reasons assessment))"
proof -
  let ?raises = "verdictWeight (assess_verdict assessment) > verdictWeight (concl_verdict conclusion)"
  define all where "all = (if template_id template = TemplateStandard \<and> \<not> ?raises
    then concl_reasons conclusion @ assess_reasons assessment
    else assess_reasons assessment @ concl_reasons conclusion)"
  have set_all: "set all = set (concl_reasons conclusion) \<union> set (assess_reasons assessment)"
    by (auto simp: all_def)
  have raises: "?raises \<longleftrightarrow> concl_verdict conclusion < assess_verdict assessment"
    by (simp add: less_RunReportVerdict_def)
  have fields: "concl_verdict r = max (concl_verdict conclusion) (assess_verdict assessment)"
    "concl_title r = (if ?raises then templateVerdictTitle template (assess_verdict assessment) else concl_title conclusion)"
    "concl_summary r = (if ?raises then assess_summary assessment else concl_summary conclusion)"
    "concl_reasons r = (if take 10 (setOf all) \<noteq> [] then take 10 (setOf all) else concl_reasons conclusion)"
    unfolding r_def conclusionWithTemplate_def highestVerdict_two Let_def all_def by simp_all
  have reasons: "concl_reasons r = take 10 (setOf all)"
  proof (cases "all = []")
    case True
    then have "concl_reasons conclusion = []" using set_all by auto
    with True fields(4) show ?thesis by simp
  qed (use fields(4) in simp)
  have "length (concl_reasons r) = 10 \<or> concl_reasons r = setOf all" unfolding reasons by (simp add: min_def)
  then have "length (concl_reasons r) = 10 \<or> set (concl_reasons r) = set all" by fastforce
  moreover have "distinct (concl_reasons r)" "length (concl_reasons r) \<le> 10" "set (concl_reasons r) \<subseteq> set all"
    unfolding reasons using set_take_subset [of 10 "setOf all"] by simp_all
  ultimately show ?thesis using fields(1-3) unfolding set_all raises by blast
qed

text \<open>
  C26. The CSV text of a report reads back, by the rules of RFC 4180, as the cells it was made of, null
  as the empty text, whatever quotation marks, commas and line ends the cells hold.
\<close>

theorem csv_roundtrip:
  assumes "rows \<noteq> []" "\<forall>row\<in>set rows. row \<noteq> []"
  shows "csvRecords (csvRows rows) = map (map csvText) rows"
  using assms by (rule csvRecords_rows)

lemma csv_roundtrip_witness:
  "csvRecords (csvRows [[Some ''a,b'', None], [Some [CHR 0x22, CHR 0x0A], Some ''c'']])
   = [[''a,b'', ''''], [[CHR 0x22, CHR 0x0A], ''c'']]"
  by (subst csv_roundtrip) (simp_all add: csvText_def)

section \<open>The payload pattern\<close>



text \<open>
  Whatever file is selected, the pattern of the panel stays what it was or becomes a hexadecimal
  text of at most 1024 digits and of whole bytes, the input is cleared, and the selection reports
  success exactly when a file could be applied, was read, and passed the check.
\<close>

theorem payload_import_checked:
  "\<not> panel_fileChosen (snd (runPayloadPatternFileSelection file canApply panel))
   \<and> (fst (runPayloadPatternFileSelection file canApply panel)
      \<longleftrightarrow> canApply \<and> (\<exists>name content. file = Some (name, Some content) \<and> patternOk (compactPayloadPattern content)))
   \<and> (panel_pattern (snd (runPayloadPatternFileSelection file canApply panel)) = panel_pattern panel
      \<or> patternOk (panel_pattern (snd (runPayloadPatternFileSelection file canApply panel))))"
proof -
  have r: "payloadPatternFileImportResult c n
      = (if patternOk (compactPayloadPattern c) then (Some (compactPayloadPattern c), PatternOk (''Loaded '' @ n))
         else (None, PatternError (the (payloadPatternImportError (compactPayloadPattern c)))))" for c n
    using importError_None [of "compactPayloadPattern c"]
    by (auto simp: payloadPatternFileImportResult_def Let_def split: option.split)
  show ?thesis
    by (auto simp: runPayloadPatternFileSelection_def runPayloadPatternFileImportAction_def r
        payloadPatternFileReadErrorAction_def Let_def split: option.split)
qed

end
