(* ===== verification/JsNumbers.thy ===== *)
theory JsNumbers
  imports PacketBytes
begin

text \<open>
  Numbers read from text: \<open>Number.parseInt\<close>, \<open>Number(s)\<close> and the unit counts of
  \<open>scalarValueModel.ts\<close>. The text of a number may denote any decimal fraction, and the language
  rounds it to a double; the rounding is written out, since the callers cut the result to an
  integer afterwards. A result that is \<open>NaN\<close> or infinite is \<open>None\<close>: every caller treats the two
  alike, by \<open>isFinite\<close> or \<open>isInteger\<close>.
\<close>

section \<open>Rounding to a double\<close>

fun bitLength :: "int \<Rightarrow> int" where
  "bitLength n = (if n \<le> 0 then 0 else 1 + bitLength (n div 2))"

declare bitLength.simps [simp del]

text \<open>
  The pair \<open>(m, s)\<close> of \<open>nearestDouble p q\<close> denotes the double \<open>m / 2 ^ s\<close> nearest to \<open>p / q\<close>, ties
  to even: \<open>s\<close> is chosen so that the quotient has 53 binary digits. Subnormal numbers are left
  out; they are cut to 0 like the fractions next to them.
\<close>

definition scaledRatio :: "int \<Rightarrow> int \<Rightarrow> int \<Rightarrow> int \<times> int" where
  "scaledRatio p q s = (if s \<ge> 0 then (p * 2 ^ nat s, q) else (p, q * 2 ^ nat (- s)))"

definition nearestDouble :: "int \<Rightarrow> int \<Rightarrow> int \<times> int" where
  "nearestDouble p q =
     (let s0 = 53 - (bitLength p - bitLength q);
          (a0, b0) = scaledRatio p q s0;
          s = (if a0 div b0 \<ge> 2 ^ 53 then s0 - 1 else s0);
          (a, b) = scaledRatio p q s;
          k = a div b; r = a mod b
      in (if 2 * r > b \<or> 2 * r = b \<and> odd k then k + 1 else k, s))"

text \<open>The integer part of a double, \<open>None\<close> beyond the largest one.\<close>

definition truncDouble :: "int \<times> int \<Rightarrow> int option" where
  "truncDouble d =
     (let (m, s) = d; v = (if s \<ge> 0 then m div 2 ^ nat s else m * 2 ^ nat (- s))
      in if v \<ge> 2 ^ 1024 then None else Some v)"

text \<open>A whole number below \<open>2 ^ 53\<close> is a double itself.\<close>

definition wholeDouble :: "int \<Rightarrow> int option" where
  "wholeDouble n = (if n < 2 ^ 53 then Some n else truncDouble (nearestDouble n 1))"

definition truncRatio :: "int \<Rightarrow> int \<Rightarrow> int option" where
  "truncRatio p q = (if q = 1 then wholeDouble p else truncDouble (nearestDouble p q))"

definition withSign :: "bool \<Rightarrow> int option \<Rightarrow> int option" where
  "withSign negative v = map_option (\<lambda>n. if negative then - n else n) v"

section \<open>Reading numbers\<close>

text \<open>\<open>Number.parseInt(s, radix)\<close> for the radix 10 and 16: spaces, a sign, then the longest run of digits.\<close>

definition digitOf :: "int \<Rightarrow> char \<Rightarrow> bool" where
  "digitOf radix c \<longleftrightarrow> (if radix = 16 then isHexDigit c else isDecDigit c)"

definition signOf :: "string \<Rightarrow> bool \<times> string" where
  "signOf s = (case s of [] \<Rightarrow> (False, s)
     | c # t \<Rightarrow> if c = CHR ''-'' then (True, t) else if c = CHR ''+'' then (False, t) else (False, s))"

definition dropHexPrefix :: "string \<Rightarrow> string" where
  "dropHexPrefix s = (if take 2 s = ''0x'' \<or> take 2 s = ''0X'' then drop 2 s else s)"

definition jsParseInt :: "int \<Rightarrow> string \<Rightarrow> int option" where
  "jsParseInt radix s =
     (let (negative, unsigned) = signOf (dropWhile isJsSpace s);
          digits = takeWhile (digitOf radix) (if radix = 16 then dropHexPrefix unsigned else unsigned)
      in if digits = [] then None
         else withSign negative (wholeDouble (parseRadix radix digits)))"

text \<open>A decimal literal \<open>12\<close>, \<open>1.5\<close>, \<open>.5\<close>, \<open>1.\<close> or \<open>1.5e-3\<close> as a ratio of whole numbers.\<close>

definition exponentPart :: "string \<Rightarrow> int option" where
  "exponentPart s = (case s of [] \<Rightarrow> Some 0
     | c # t \<Rightarrow>
         (let (negative, digits) = signOf t in
          if (c = CHR ''e'' \<or> c = CHR ''E'') \<and> digits \<noteq> [] \<and> list_all isDecDigit digits
          then Some (if negative then - parseRadix 10 digits else parseRadix 10 digits)
          else None))"

definition decimalLiteral :: "string \<Rightarrow> (int \<times> int) option" where
  "decimalLiteral s =
     (let whole = takeWhile isDecDigit s; rest = dropWhile isDecDigit s;
          point = (take 1 rest = ''.'');
          fraction = (if point then takeWhile isDecDigit (drop 1 rest) else []);
          exponent = (if point then dropWhile isDecDigit (drop 1 rest) else rest)
      in if whole @ fraction = [] then None
         else case exponentPart exponent of
                None \<Rightarrow> None
              | Some e \<Rightarrow>
                  let m = parseRadix 10 (whole @ fraction); k = e - int (length fraction)
                  in Some (if k \<ge> 0 then (m * 10 ^ nat k, 1) else (m, 10 ^ nat (- k))))"

text \<open>The integers \<open>0x\<close>, \<open>0o\<close> and \<open>0b\<close> of \<open>Number(s)\<close>, without a sign.\<close>

definition radixLiteral :: "string \<Rightarrow> int option" where
  "radixLiteral s =
     (let prefix = take 2 s; digits = drop 2 s;
          radix = (if prefix = ''0x'' \<or> prefix = ''0X'' then 16
                   else if prefix = ''0o'' \<or> prefix = ''0O'' then 8
                   else if prefix = ''0b'' \<or> prefix = ''0B'' then 2 else 0)
      in if radix = 0 \<or> digits = [] \<or> \<not> list_all (\<lambda>c. isHexDigit c \<and> digitVal c < radix) digits then None
         else Some (parseRadix radix digits))"

text \<open>\<open>Math.trunc(Number(s))\<close> for a trimmed text that is not empty.\<close>

definition truncNumber :: "string \<Rightarrow> int option" where
  "truncNumber s =
     (case radixLiteral s of
        Some n \<Rightarrow> wholeDouble n
      | None \<Rightarrow>
          (let (negative, unsigned) = signOf s in
           case decimalLiteral unsigned of
             None \<Rightarrow> None
           | Some (p, q) \<Rightarrow> withSign negative (truncRatio p q)))"

section \<open>Unit counts\<close>

text \<open>A count of the form is a number, or a text such as \<open>16\<close>, \<open>4k\<close> or \<open>1.5m\<close>.\<close>

datatype UnitCount = CountNumber int | CountText string

definition boundedCount :: "int \<Rightarrow> int" where
  "boundedCount value = min 100000000 (max 2 value)"

definition unitMultiplier :: "string \<Rightarrow> int option" where
  "unitMultiplier unit =
     (if unit = [] then Some 1
      else if unit = ''k'' \<or> unit = ''K'' then Some 1000
      else if unit = ''m'' \<or> unit = ''M'' then Some 1000000
      else if unit = ''g'' \<or> unit = ''G'' then Some 1000000000 else None)"

text \<open>The groups of \<open>/^(\d+(?:\.\d+)?)\s*([kmg])?$/i\<close>: the number and the multiplier of the unit.\<close>

definition unitMatch :: "string \<Rightarrow> (string \<times> int) option" where
  "unitMatch s =
     (let whole = takeWhile isDecDigit s; rest = dropWhile isDecDigit s;
          fraction = (if take 1 rest = ''.'' then takeWhile isDecDigit (drop 1 rest) else []);
          number = (if fraction = [] then whole else whole @ ''.'' @ fraction);
          unit = dropWhile isJsSpace (drop (length number) s)
      in if whole = [] then None else map_option (Pair number) (unitMultiplier unit))"

text \<open>\<open>Number.parseFloat(number) * multiplier\<close>, cut to an integer: two roundings.\<close>

definition scaledDouble :: "int \<times> int \<Rightarrow> int \<Rightarrow> int option" where
  "scaledDouble d multiplier =
     (let (m, s) = d
      in truncDouble (if s \<ge> 0 then nearestDouble (m * multiplier) (2 ^ nat s)
           else nearestDouble (m * multiplier * 2 ^ nat (- s)) 1))"

definition unitProduct :: "string \<Rightarrow> int \<Rightarrow> int option" where
  "unitProduct number multiplier =
     (case decimalLiteral number of
        None \<Rightarrow> None
      | Some (p, q) \<Rightarrow>
          if q = 1 \<and> p * multiplier < 2 ^ 53 then Some (p * multiplier)
          else scaledDouble (nearestDouble p q) multiplier)"

definition largeUnitCountNumber :: "UnitCount \<Rightarrow> int \<Rightarrow> int" where
  "largeUnitCountNumber value fallback =
     (case value of
        CountNumber n \<Rightarrow> boundedCount n
      | CountText t \<Rightarrow>
          (case unitMatch (jsTrim t) of
             None \<Rightarrow> fallback
           | Some (number, multiplier) \<Rightarrow>
               (case unitProduct number multiplier of
                  None \<Rightarrow> fallback
                | Some parsed \<Rightarrow> boundedCount parsed)))"

lemma boundedCount_range [in_range]: "2 \<le> boundedCount v" "boundedCount v \<le> 100000000"
  by (simp_all add: boundedCount_def)

lemma boundedCount_id: "2 \<le> v \<Longrightarrow> v \<le> 100000000 \<Longrightarrow> boundedCount v = v"
  by (simp add: boundedCount_def)

lemma largeUnitCount_range [in_range]:
  assumes "2 \<le> fallback" "fallback \<le> 100000000"
  shows "2 \<le> largeUnitCountNumber v fallback" "largeUnitCountNumber v fallback \<le> 100000000"
  using assms boundedCount_range
  by (auto simp: largeUnitCountNumber_def split: UnitCount.split option.split)

section \<open>Reading back what the program prints\<close>

lemma digitOf_space: "digitOf radix c \<Longrightarrow> \<not> isJsSpace c"
  using hex_not_space isDecDigit_hex by (auto simp: digitOf_def split: if_splits)

lemma digitOf_sign:
  assumes "digitOf radix c"
  shows "c \<noteq> CHR ''-''" "c \<noteq> CHR ''+''" "c \<noteq> CHR ''x''" "c \<noteq> CHR ''X''"
  using assms by (auto simp: digitOf_def isHexDigit_def isDecDigit_def codeOf_def split: if_splits)

lemma parseInt_digits:
  assumes "s \<noteq> []" "list_all (digitOf radix) s"
  shows "jsParseInt radix s = withSign False (wholeDouble (parseRadix radix s))"
proof -
  obtain c t where s: "s = c # t" using assms(1) by (cases s) auto
  with assms(2) have c: "digitOf radix c" and t: "list_all (digitOf radix) t" by auto
  have "dropWhile isJsSpace s = s"
    using s digitOf_space [OF c] by simp
  moreover have "signOf s = (False, s)"
    using s digitOf_sign [OF c] by (simp add: signOf_def)
  moreover have "dropHexPrefix s = s"
    using s t digitOf_sign(3,4) by (cases t) (auto simp: dropHexPrefix_def)
  moreover have "\<forall>c\<in>set s. digitOf radix c"
    using assms(2) by (simp add: list_all_iff)
  ultimately show ?thesis
    using assms(1) unfolding jsParseInt_def Let_def
    by (cases "radix = 16") (simp_all add: takeWhile_eq_all_conv [THEN iffD2])
qed

lemma withSign_small: "0 \<le> v \<Longrightarrow> v < 2 ^ 53 \<Longrightarrow> withSign False (wholeDouble v) = Some v"
  by (simp add: withSign_def wholeDouble_def)

lemma parseInt_decText:
  assumes "0 \<le> v" "v < 2 ^ 53"
  shows "jsParseInt 10 (decText v) = Some v"
proof -
  have "list_all (digitOf 10) (decText v)"
    using decText_digits [OF assms(1)] by (simp add: digitOf_def [abs_def])
  with assms show ?thesis
    using parseRadix_radixText [of 10 v] by (simp add: parseInt_digits withSign_small)
qed

lemma parseInt_hexDigits:
  assumes "s \<noteq> []" "list_all isHexDigit s" "parseRadix 16 s = v" "0 \<le> v" "v < 2 ^ 53"
  shows "jsParseInt 16 s = Some v"
  using assms by (simp add: parseInt_digits digitOf_def [abs_def] withSign_small)

end
