(* ===== verification/FlowVars.thy ===== *)
theory FlowVars
  imports JsNumbers TransportLayer
begin

text \<open>
  The programs of the TRex field engine that the templates produce: a body is a JavaScript
  object with a list of instructions, each of them an object again. Objects are association
  lists in the order of the source's literals, values are numbers, strings, booleans, arrays
  and objects; a number is whole, or \<open>VmFraction m s\<close> for the double \<open>m / 2 ^ s\<close>, or infinite.
  The predicate \<open>bodySound\<close> is what a template promises for a packet: its variables are within
  their bounds, and each write hits the packet where the variable's initial value already
  stands, so that the first packet of the stream is the packet itself.
\<close>

section \<open>Values, objects, bodies\<close>

datatype VmValue =
  VmNumber int
| VmFraction int int
| VmInfinity
| VmText string
| VmBool bool
| VmNull
| VmArray "VmValue list"
| VmObject "(string \<times> VmValue) list"

type_synonym VmRecord = "(string \<times> VmValue) list"

type_synonym AdvancedVmBody = VmRecord

definition vmBody :: "VmValue list \<Rightarrow> string \<Rightarrow> AdvancedVmBody" where
  "vmBody instructions splitByVar =
     [(''instructions'', VmArray instructions), (''split_by_var'', VmText splitByVar)]"

definition advancedVmDefaultBody :: AdvancedVmBody where
  "advancedVmDefaultBody = [(''instructions'', VmArray []), (''split_by_var'', VmText [])]"

text \<open>\<open>Array.isArray(body.instructions) ? body.instructions : []\<close>.\<close>

definition bodyInstructions :: "AdvancedVmBody \<Rightarrow> VmValue list" where
  "bodyInstructions body = (case map_of body ''instructions'' of Some (VmArray xs) \<Rightarrow> xs | _ \<Rightarrow> [])"

lemma bodyInstructions_vmBody [simp]: "bodyInstructions (vmBody is v) = is"
  by (simp add: bodyInstructions_def vmBody_def)

lemma bodyInstructions_default [simp]: "bodyInstructions advancedVmDefaultBody = []"
  by (simp add: bodyInstructions_def advancedVmDefaultBody_def)

section \<open>Instructions\<close>

text \<open>The object literals the builders repeat, by the properties that differ.\<close>

definition flowVar :: "string \<Rightarrow> string \<Rightarrow> int \<Rightarrow> int \<Rightarrow> int \<Rightarrow> int \<Rightarrow> int \<Rightarrow> VmValue" where
  "flowVar name op sz initValue minValue maxValue step = VmObject
     [(''init_value'', VmNumber initValue), (''max_value'', VmNumber maxValue),
      (''min_value'', VmNumber minValue), (''name'', VmText name), (''op'', VmText op),
      (''size'', VmNumber sz), (''step'', VmNumber step), (''type'', VmText ''flow_var'')]"

definition writeFlowVar :: "string \<Rightarrow> int \<Rightarrow> int \<Rightarrow> VmValue" where
  "writeFlowVar name addValue pktOffset = VmObject
     [(''add_value'', VmNumber addValue), (''is_big_endian'', VmBool True), (''name'', VmText name),
      (''pkt_offset'', VmNumber pktOffset), (''type'', VmText ''write_flow_var'')]"

text \<open>The five-tuple templates leave \<open>add_value\<close> out.\<close>

definition writePlainFlowVar :: "string \<Rightarrow> int \<Rightarrow> VmValue" where
  "writePlainFlowVar name pktOffset = VmObject
     [(''is_big_endian'', VmBool True), (''name'', VmText name),
      (''pkt_offset'', VmNumber pktOffset), (''type'', VmText ''write_flow_var'')]"

definition writeMaskFlowVar :: "string \<Rightarrow> int \<Rightarrow> int \<Rightarrow> int \<Rightarrow> int \<Rightarrow> VmValue" where
  "writeMaskFlowVar name castSize pktOffset mask' shift = VmObject
     [(''add_value'', VmNumber 0), (''is_big_endian'', VmBool True), (''mask'', VmNumber mask'),
      (''name'', VmText name), (''pkt_cast_size'', VmNumber castSize),
      (''pkt_offset'', VmNumber pktOffset), (''shift'', VmNumber shift),
      (''type'', VmText ''write_mask_flow_var'')]"

definition fixChecksumHw :: "int \<Rightarrow> int \<Rightarrow> int \<Rightarrow> VmValue" where
  "fixChecksumHw l2 l3 l4Type = VmObject
     [(''l2_len'', VmNumber l2), (''l3_len'', VmNumber l3), (''l4_type'', VmNumber l4Type),
      (''type'', VmText ''fix_checksum_hw'')]"

definition fixChecksumIpv4 :: "int \<Rightarrow> VmValue" where
  "fixChecksumIpv4 pktOffset = VmObject
     [(''pkt_offset'', VmNumber pktOffset), (''type'', VmText ''fix_checksum_ipv4'')]"

definition fixChecksumIcmpv6 :: "int \<Rightarrow> int \<Rightarrow> VmValue" where
  "fixChecksumIcmpv6 l2 l3 = VmObject
     [(''l2_len'', VmNumber l2), (''l3_len'', VmNumber l3), (''type'', VmText ''fix_checksum_icmpv6'')]"

text \<open>The instruction object that a dissector carries.\<close>

definition checksumObject :: "ChecksumInstruction \<Rightarrow> VmValue" where
  "checksumObject c = (case c of
     FixChecksumHw l2 l3 l4Type \<Rightarrow> fixChecksumHw l2 l3 l4Type
   | FixChecksumIpv4 pktOffset \<Rightarrow> fixChecksumIpv4 pktOffset)"

text \<open>\<open>...(checksumInstruction ? [checksumInstruction] : [])\<close>.\<close>

definition optionalInstruction :: "VmValue option \<Rightarrow> VmValue list" where
  "optionalInstruction c = (case c of None \<Rightarrow> [] | Some i \<Rightarrow> [i])"

section \<open>Counting variables\<close>

record NumberBounds =
  bounds_min :: int
  bounds_max :: int

definition advancedNumberBounds :: "int \<Rightarrow> int \<Rightarrow> int \<Rightarrow> int \<Rightarrow> string \<Rightarrow> NumberBounds" where
  "advancedNumberBounds initValue count step maxLimit operation =
     (if operation = ''dec''
      then \<lparr>bounds_min = max 0 (initValue - (count - 1) * step), bounds_max = min maxLimit initValue\<rparr>
      else if operation = ''random'' then \<lparr>bounds_min = 0, bounds_max = maxLimit\<rparr>
      else \<lparr>bounds_min = initValue, bounds_max = min maxLimit (initValue + (count - 1) * step)\<rparr>)"

record AdvancedNumberWriteSpec =
  nw_checksumInstruction :: "VmValue option"
  nw_count :: int
  nw_initValue :: int
  nw_maxLimit :: int
  nw_name :: string
  nw_pktOffset :: int
  nw_size :: int
  nw_step :: int

definition advancedNumberWriteInstructions :: "AdvancedNumberWriteSpec \<Rightarrow> VmValue list" where
  "advancedNumberWriteInstructions spec =
     (let bounds = advancedNumberBounds (nw_initValue spec) (nw_count spec) (nw_step spec)
            (nw_maxLimit spec) ''inc''
      in [flowVar (nw_name spec) ''inc'' (nw_size spec) (nw_initValue spec) (bounds_min bounds)
            (bounds_max bounds) (nw_step spec),
          writeFlowVar (nw_name spec) 0 (nw_pktOffset spec)])"

definition buildAdvancedNumberWriteVmBody :: "AdvancedNumberWriteSpec \<Rightarrow> AdvancedVmBody" where
  "buildAdvancedNumberWriteVmBody spec =
     vmBody (advancedNumberWriteInstructions spec @ optionalInstruction (nw_checksumInstruction spec))
       (nw_name spec)"

section \<open>What an instruction says\<close>

text \<open>The properties of an instruction that matter for the packet, read off the object. An instruction that writes in
  another way, or at no number, is an \<open>UnknownWrite\<close>.\<close>

datatype InstructionView =
  VarView string int int int int int
| WriteView string int
| MaskView string int int int int
| UnknownWrite
| OtherView

definition numberProperty :: "VmRecord \<Rightarrow> string \<Rightarrow> int" where
  "numberProperty r f = (case map_of r f of Some (VmNumber n) \<Rightarrow> n | _ \<Rightarrow> 0)"

definition textProperty :: "VmRecord \<Rightarrow> string \<Rightarrow> string" where
  "textProperty r f = (case map_of r f of Some (VmText t) \<Rightarrow> t | _ \<Rightarrow> [])"

definition viewOf :: "VmValue \<Rightarrow> InstructionView" where
  "viewOf i = (case i of
     VmObject r \<Rightarrow>
       (let t = textProperty r ''type''; name = textProperty r ''name'' in
        if t = ''flow_var''
        then VarView name (numberProperty r ''size'') (numberProperty r ''init_value'')
               (numberProperty r ''min_value'') (numberProperty r ''max_value'') (numberProperty r ''step'')
        else if take 5 t \<noteq> ''write'' then OtherView
        else case map_of r ''pkt_offset'' of
               Some (VmNumber off) \<Rightarrow>
                 if t = ''write_flow_var'' then WriteView name off
                 else if t = ''write_mask_flow_var''
                 then MaskView name (numberProperty r ''pkt_cast_size'') off
                        (numberProperty r ''mask'') (numberProperty r ''shift'')
                 else UnknownWrite
             | _ \<Rightarrow> UnknownWrite)
   | _ \<Rightarrow> OtherView)"

lemma viewOf_flowVar [simp]: "viewOf (flowVar n op sz i lo hi st) = VarView n sz i lo hi st"
  by (simp add: viewOf_def flowVar_def textProperty_def numberProperty_def Let_def)

lemma viewOf_write [simp]:
  "viewOf (writeFlowVar n a off) = WriteView n off" "viewOf (writePlainFlowVar n off) = WriteView n off"
  by (simp_all add: viewOf_def writeFlowVar_def writePlainFlowVar_def textProperty_def numberProperty_def Let_def)

lemma viewOf_mask [simp]: "viewOf (writeMaskFlowVar n c off m s) = MaskView n c off m s"
  by (simp add: viewOf_def writeMaskFlowVar_def textProperty_def numberProperty_def Let_def)

lemma viewOf_fix [simp]:
  "viewOf (fixChecksumHw a b c) = OtherView" "viewOf (fixChecksumIpv4 a) = OtherView"
  "viewOf (fixChecksumIcmpv6 a b) = OtherView" "viewOf (checksumObject d) = OtherView"
  by (auto simp: viewOf_def fixChecksumHw_def fixChecksumIpv4_def fixChecksumIcmpv6_def checksumObject_def
      textProperty_def numberProperty_def Let_def split: ChecksumInstruction.split)

section \<open>Sound programs\<close>

text \<open>The variable a write refers to: its size, initial and greatest value.\<close>

fun declaredVar :: "InstructionView list \<Rightarrow> string \<Rightarrow> (int \<times> int \<times> int) option" where
  "declaredVar [] n = None"
| "declaredVar (VarView m sz i lo hi st # vs) n = (if m = n then Some (sz, i, hi) else declaredVar vs n)"
| "declaredVar (v # vs) n = declaredVar vs n"

definition instructionSound :: "bytes \<Rightarrow> InstructionView list \<Rightarrow> InstructionView \<Rightarrow> bool" where
  "instructionSound bs vs v =
     (case v of
        VarView n sz i lo hi st \<Rightarrow> 0 \<le> lo \<and> lo \<le> i \<and> i \<le> hi \<and> hi < 256 ^ nat sz \<and> 1 \<le> st
      | WriteView n off \<Rightarrow>
          (case declaredVar vs n of
             None \<Rightarrow> False
           | Some (sz, i, hi) \<Rightarrow> rawPacketHasBytes bs off sz \<and> rawPacketNumberValue bs off sz = i)
      | MaskView n castSize off m s \<Rightarrow>
          (case declaredVar vs n of
             None \<Rightarrow> False
           | Some (sz, i, hi) \<Rightarrow>
               rawPacketHasBytes bs off castSize \<and> 0 \<le> s
               \<and> (rawPacketNumberValue bs off castSize AND m) div 2 ^ nat s = i
               \<and> hi * 2 ^ nat s \<le> m)
      | UnknownWrite \<Rightarrow> False
      | OtherView \<Rightarrow> True)"

definition bodySound :: "bytes \<Rightarrow> AdvancedVmBody \<Rightarrow> bool" where
  "bodySound bs body \<longleftrightarrow>
     (let vs = map viewOf (bodyInstructions body)
      in list_all (instructionSound bs vs) vs
         \<and> declaredVar vs (textProperty body ''split_by_var'') \<noteq> None)"

lemma splitProperty_vmBody [simp]: "textProperty (vmBody is v) ''split_by_var'' = v"
  by (simp add: textProperty_def vmBody_def)

text \<open>What follows a variable and its write only repairs checksums.\<close>

definition repairs :: "VmValue list \<Rightarrow> bool" where
  "repairs rest \<longleftrightarrow> list_all (\<lambda>i. viewOf i = OtherView) rest"

lemma repairs_simps [simp]:
  "repairs []" "repairs (i # rest) \<longleftrightarrow> viewOf i = OtherView \<and> repairs rest"
  "repairs (xs @ ys) \<longleftrightarrow> repairs xs \<and> repairs ys"
  "repairs (optionalInstruction None)" "repairs (optionalInstruction (Some i)) \<longleftrightarrow> viewOf i = OtherView"
  by (simp_all add: repairs_def optionalInstruction_def)

lemma repairs_sound: "repairs rest \<Longrightarrow> list_all (instructionSound bs vs) (map viewOf rest)"
  by (auto simp: repairs_def instructionSound_def list_all_iff)

text \<open>One counting variable, written as a number.\<close>

lemma number_body_sound:
  assumes "repairs rest" "rawPacketHasBytes bs off sz" "rawPacketNumberValue bs off sz = i"
    "0 \<le> lo" "lo \<le> i" "i \<le> hi" "hi < 256 ^ nat sz" "1 \<le> st"
    "write \<in> {writeFlowVar n a off, writePlainFlowVar n off}"
  shows "bodySound bs (vmBody (flowVar n op sz i lo hi st # write # rest) n)"
  using assms repairs_sound [OF assms(1)]
  by (auto simp: bodySound_def instructionSound_def Let_def)

text \<open>One counting variable, written into a bit field.\<close>

lemma masked_body_sound:
  assumes "repairs rest" "rawPacketHasBytes bs off castSize" "0 \<le> s"
    "(rawPacketNumberValue bs off castSize AND m) div 2 ^ nat s = i" "hi * 2 ^ nat s \<le> m"
    "0 \<le> lo" "lo \<le> i" "i \<le> hi" "hi < 256 ^ nat sz" "1 \<le> st"
  shows "bodySound bs (vmBody (flowVar n op sz i lo hi st # writeMaskFlowVar n castSize off m s # rest) n)"
  using assms repairs_sound [OF assms(1)]
  by (auto simp: bodySound_def instructionSound_def Let_def)

lemma number_write_sound:
  assumes "repairs (optionalInstruction (nw_checksumInstruction spec))"
    "rawPacketHasBytes bs (nw_pktOffset spec) (nw_size spec)"
    "rawPacketNumberValue bs (nw_pktOffset spec) (nw_size spec) = nw_initValue spec"
    "0 \<le> nw_initValue spec" "nw_initValue spec \<le> nw_maxLimit spec"
    "nw_maxLimit spec < 256 ^ nat (nw_size spec)" "1 \<le> nw_count spec" "1 \<le> nw_step spec"
  shows "bodySound bs (buildAdvancedNumberWriteVmBody spec)"
proof -
  have "0 \<le> (nw_count spec - 1) * nw_step spec" using assms by simp
  then show ?thesis
    using assms unfolding buildAdvancedNumberWriteVmBody_def advancedNumberWriteInstructions_def
    by (auto simp: advancedNumberBounds_def Let_def intro!: number_body_sound)
qed

text \<open>The same for one, two and four bytes of the packet, as the dissectors read them.\<close>

lemma rawPacketNumberValue_1: "rawPacketNumberValue bs off 1 = byteAt bs off"
  by (simp add: rawPacketNumberValue_def)

lemma byte_write_sound:
  assumes "is_bytes bs" "repairs (optionalInstruction c)" "rawPacketHasBytes bs off 1" "i = byteAt bs off"
    "1 \<le> count" "1 \<le> step"
  shows "bodySound bs (buildAdvancedNumberWriteVmBody
    \<lparr>nw_checksumInstruction = c, nw_count = count, nw_initValue = i, nw_maxLimit = 255, nw_name = n,
     nw_pktOffset = off, nw_size = 1, nw_step = step\<rparr>)"
  using assms byteAt_range [OF assms(1), of off]
  by (intro number_write_sound) (simp_all add: rawPacketNumberValue_1)

lemma word_write_sound:
  assumes "is_bytes bs" "repairs (optionalInstruction c)" "rawPacketHasBytes bs off 2" "i = rawPacketWord bs off"
    "1 \<le> count" "1 \<le> step"
  shows "bodySound bs (buildAdvancedNumberWriteVmBody
    \<lparr>nw_checksumInstruction = c, nw_count = count, nw_initValue = i, nw_maxLimit = 65535, nw_name = n,
     nw_pktOffset = off, nw_size = 2, nw_step = step\<rparr>)"
  using assms rawPacketWord_range [OF assms(1), of off]
  by (intro number_write_sound) (simp_all add: rawPacketNumberValue_2)

lemma long_write_sound:
  assumes "is_bytes bs" "repairs (optionalInstruction c)" "rawPacketHasBytes bs off 4"
    "i = rawPacketNumberValue bs off 4" "1 \<le> count" "1 \<le> step"
  shows "bodySound bs (buildAdvancedNumberWriteVmBody
    \<lparr>nw_checksumInstruction = c, nw_count = count, nw_initValue = i, nw_maxLimit = 4294967295, nw_name = n,
     nw_pktOffset = off, nw_size = 4, nw_step = step\<rparr>)"
  using assms rawPacketNumberValue_range [OF assms(1), of off 4]
  by (intro number_write_sound) simp_all

text \<open>A bit field of \<open>n\<close> bits from bit \<open>s\<close> on.\<close>

lemma field_body_sound:
  assumes "repairs rest" "rawPacketHasBytes bs off castSize" "0 \<le> s" "m = (2 ^ n - 1) * 2 ^ nat s"
    "rawPacketNumberValue bs off castSize div 2 ^ nat s mod 2 ^ n = i" "hi \<le> 2 ^ n - 1"
    "0 \<le> lo" "lo \<le> i" "i \<le> hi" "hi < 256 ^ nat sz" "1 \<le> st"
  shows "bodySound bs (vmBody (flowVar v op sz i lo hi st # writeMaskFlowVar v castSize off m s # rest) v)"
proof (rule masked_body_sound)
  have "m = push_bit (nat s) (2 ^ n - 1)"
    by (simp add: assms(4) push_bit_eq_mult)
  then show "(rawPacketNumberValue bs off castSize AND m) div 2 ^ nat s = i"
    using assms(5) by (simp add: and_shifted_mask)
  show "hi * 2 ^ nat s \<le> m"
    unfolding assms(4) using assms(6) by (intro mult_right_mono) simp_all
qed (use assms in simp_all)

text \<open>The body of one variable and its write, with what follows them.\<close>

definition numberBody ::
  "string \<Rightarrow> string \<Rightarrow> int \<Rightarrow> int \<Rightarrow> int \<Rightarrow> int \<Rightarrow> int \<Rightarrow> int \<Rightarrow> VmValue list \<Rightarrow> AdvancedVmBody" where
  "numberBody name op sz initValue minValue maxValue step pktOffset rest =
     vmBody (flowVar name op sz initValue minValue maxValue step # writeFlowVar name 0 pktOffset # rest) name"

definition maskedBody ::
  "string \<Rightarrow> string \<Rightarrow> int \<Rightarrow> int \<Rightarrow> int \<Rightarrow> int \<Rightarrow> int \<Rightarrow> int \<Rightarrow> int \<Rightarrow> int \<Rightarrow> int \<Rightarrow> VmValue list \<Rightarrow> AdvancedVmBody" where
  "maskedBody name op sz initValue minValue maxValue step castSize pktOffset mask' shift rest =
     vmBody (flowVar name op sz initValue minValue maxValue step
       # writeMaskFlowVar name castSize pktOffset mask' shift # rest) name"

lemma numberBody_sound:
  assumes "repairs rest" "rawPacketHasBytes bs off sz" "rawPacketNumberValue bs off sz = i"
    "0 \<le> lo" "lo \<le> i" "i \<le> hi" "hi < 256 ^ nat sz" "1 \<le> st"
  shows "bodySound bs (numberBody n op sz i lo hi st off rest)"
  unfolding numberBody_def by (rule number_body_sound [OF assms, where a = 0]) simp

lemma maskedBody_sound:
  assumes "repairs rest" "rawPacketHasBytes bs off castSize" "0 \<le> s" "m = (2 ^ n - 1) * 2 ^ nat s"
    "rawPacketNumberValue bs off castSize div 2 ^ nat s mod 2 ^ n = i" "hi \<le> 2 ^ n - 1"
    "0 \<le> lo" "lo \<le> i" "i \<le> hi" "hi < 256 ^ nat sz" "1 \<le> st"
  shows "bodySound bs (maskedBody v op sz i lo hi st castSize off m s rest)"
  unfolding maskedBody_def by (rule field_body_sound [OF assms])

text \<open>Counting up from the value of the packet, as long as the field allows.\<close>

lemma byteBody_sound:
  assumes "is_bytes bs" "repairs rest" "rawPacketHasBytes bs off 1" "i = byteAt bs off" "0 < count" "1 \<le> st"
  shows "bodySound bs (numberBody n op 1 i i (min 255 (i + count - 1)) st off rest)"
  using assms byteAt_range [OF assms(1), of off]
  by (intro numberBody_sound) (simp_all add: rawPacketNumberValue_1)

lemma wordBody_sound:
  assumes "is_bytes bs" "repairs rest" "rawPacketHasBytes bs off 2" "i = rawPacketWord bs off" "0 < count" "1 \<le> st"
  shows "bodySound bs (numberBody n op 2 i i (min 65535 (i + count - 1)) st off rest)"
  using assms rawPacketWord_range [OF assms(1), of off]
  by (intro numberBody_sound) (simp_all add: rawPacketNumberValue_2)

lemma longBody_sound:
  assumes "is_bytes bs" "repairs rest" "rawPacketHasBytes bs off 4" "i = rawPacketNumberValue bs off 4"
    "0 < count" "1 \<le> st"
  shows "bodySound bs (numberBody n op 4 i i (min 4294967295 (i + count - 1)) st off rest)"
  using assms rawPacketNumberValue_range [OF assms(1), of off 4]
  by (intro numberBody_sound) simp_all

section \<open>Programs of several variables\<close>

text \<open>A variable and the write that follows it, as views.\<close>

definition writePair :: "bytes \<Rightarrow> string \<Rightarrow> VmValue list \<Rightarrow> bool" where
  "writePair bs n xs \<longleftrightarrow>
     (\<exists>sz i lo hi st off.
        map viewOf xs = [VarView n sz i lo hi st, WriteView n off]
        \<and> 0 \<le> lo \<and> lo \<le> i \<and> i \<le> hi \<and> hi < 256 ^ nat sz \<and> 1 \<le> st
        \<and> rawPacketHasBytes bs off sz \<and> rawPacketNumberValue bs off sz = i)"

lemma declared_pair:
  "map viewOf xs = [VarView n sz i lo hi st, WriteView n off]
   \<Longrightarrow> declaredVar (map viewOf xs @ vs) m = (if n = m then Some (sz, i, hi) else declaredVar vs m)"
  by simp

fun pairedViews :: "bytes \<Rightarrow> (string \<times> VmValue list) list \<Rightarrow> bool" where
  "pairedViews bs [] = True"
| "pairedViews bs ((n, xs) # ps) = (writePair bs n xs \<and> n \<notin> set (map fst ps) \<and> pairedViews bs ps)"

lemma declared_absent:
  "pairedViews bs ps \<Longrightarrow> n \<notin> set (map fst ps)
   \<Longrightarrow> declaredVar (map viewOf (concat (map snd ps)) @ vs) n = declaredVar vs n"
  by (induction bs ps rule: pairedViews.induct) (auto simp: writePair_def)

lemma paired_sound:
  assumes "pairedViews bs ps"
    and "\<And>n. n \<in> set (map fst ps) \<Longrightarrow> declaredVar (map viewOf (concat (map snd ps)) @ vs) n = declaredVar all n"
  shows "list_all (instructionSound bs all) (map viewOf (concat (map snd ps)))"
  using assms
proof (induction bs ps rule: pairedViews.induct)
  case (1 bs)
  then show ?case by simp
next
  case (2 bs n xs ps)
  from 2(2) obtain sz i lo hi st off where
    xs: "map viewOf xs = [VarView n sz i lo hi st, WriteView n off]"
    and ok: "0 \<le> lo" "lo \<le> i" "i \<le> hi" "hi < 256 ^ nat sz" "1 \<le> st" "rawPacketHasBytes bs off sz"
      "rawPacketNumberValue bs off sz = i"
    by (auto simp: writePair_def)
  have here: "declaredVar all n = Some (sz, i, hi)"
    using 2(3) [of n] xs by simp
  have "list_all (instructionSound bs all) (map viewOf (concat (map snd ps)))"
  proof (rule 2(1))
    show "pairedViews bs ps" using 2(2) by simp
    fix m
    assume m: "m \<in> set (map fst ps)"
    then have "n \<noteq> m" using 2(2) by auto
    then show "declaredVar (map viewOf (concat (map snd ps)) @ vs) m = declaredVar all m"
      using 2(3) [of m] m xs by simp
  qed
  moreover have "list_all (instructionSound bs all) (map viewOf xs)"
    unfolding xs using ok here by (simp add: instructionSound_def)
  ultimately show ?case by simp
qed

text \<open>The whole body: pairs of different variables, then repairs.\<close>

lemma several_body_sound:
  assumes "pairedViews bs ps" "repairs rest" "n \<in> set (map fst ps)" "xs = concat (map snd ps) @ rest"
  shows "bodySound bs (vmBody xs n)"
proof -
  let ?vs = "map viewOf (concat (map snd ps)) @ map viewOf rest"
  have "list_all (instructionSound bs ?vs) (map viewOf (concat (map snd ps)))"
    by (rule paired_sound [OF assms(1)]) simp
  moreover have "declaredVar ?vs n \<noteq> None"
    using assms(1,3)
    by (induction bs ps rule: pairedViews.induct) (force simp: writePair_def)+
  ultimately show ?thesis
    using repairs_sound [OF assms(2)] by (simp add: bodySound_def assms(4) Let_def)
qed

lemma writePair_literal:
  assumes "0 \<le> lo" "lo \<le> i" "i \<le> hi" "hi < 256 ^ nat sz" "1 \<le> st"
    "rawPacketHasBytes bs off sz" "rawPacketNumberValue bs off sz = i"
  shows "writePair bs n [flowVar n op sz i lo hi st, writeFlowVar n a off]"
    "writePair bs n [flowVar n op sz i lo hi st, writePlainFlowVar n off]"
  using assms by (auto simp: writePair_def)

lemma writePair_spec:
  assumes "rawPacketHasBytes bs (nw_pktOffset spec) (nw_size spec)"
    "rawPacketNumberValue bs (nw_pktOffset spec) (nw_size spec) = nw_initValue spec"
    "0 \<le> nw_initValue spec" "nw_initValue spec \<le> nw_maxLimit spec"
    "nw_maxLimit spec < 256 ^ nat (nw_size spec)" "1 \<le> nw_count spec" "1 \<le> nw_step spec"
    "n = nw_name spec"
  shows "writePair bs n (advancedNumberWriteInstructions spec)"
proof -
  have "0 \<le> (nw_count spec - 1) * nw_step spec" using assms by simp
  then show ?thesis
    unfolding advancedNumberWriteInstructions_def Let_def assms(8)
    using assms by (intro writePair_literal) (auto simp: advancedNumberBounds_def)
qed

section \<open>Choices between the packet and the form\<close>

text \<open>The rest of a choice between the packet and the form: \<open>rawTarget ? f(rawTarget) : d\<close>.\<close>

definition fromTarget :: "'a option \<Rightarrow> ('a \<Rightarrow> 'b) \<Rightarrow> 'b \<Rightarrow> 'b" where
  "fromTarget target f d = (case target of None \<Rightarrow> d | Some t \<Rightarrow> f t)"

text \<open>\<open>rawTarget?.field ?? d\<close> for a property that may be \<open>null\<close> itself.\<close>

definition orElse :: "'a option \<Rightarrow> 'a \<Rightarrow> 'a" where
  "orElse v d = (case v of None \<Rightarrow> d | Some x \<Rightarrow> x)"

lemma fromTarget_simps [simp]: "fromTarget None f d = d" "fromTarget (Some t) f d = f t"
  by (simp_all add: fromTarget_def)

lemma orElse_simps [simp]: "orElse None d = d" "orElse (Some x) d = x"
  by (simp_all add: orElse_def)

named_theorems template_sound \<open>the bodies of the templates are sound for the packets they find their field in\<close>

end
