(* ===== verification/StreamLayout.thy ===== *)
theory StreamLayout
  imports FlowVars
begin

text \<open>
  The stream of the profile workbench (\<open>ProfileWorkbenchStream\<close> of \<open>api.ts\<close>) and the layout of the
  packet that its form describes (\<open>packetLayoutModel.ts\<close>). A stream has several hundred
  properties; the record keeps them by name and type, so that \<open>stream.ipv4_ttl\<close> is
  \<open>numOf stream ''ipv4_ttl''\<close>. A numeric property that a cleared input has set to \<open>NaN\<close> is one
  \<open>finiteOf\<close> denies; the code tests it where it matters, and elsewhere the model is about finite
  numbers. The properties typed \<open>number | string\<close> are the unit counts.
\<close>

section \<open>Streams\<close>

record ProfileWorkbenchStream = RawStream +
  numOf :: "string \<Rightarrow> int"
  finiteOf :: "string \<Rightarrow> bool"
  textOf :: "string \<Rightarrow> string"
  flagOf :: "string \<Rightarrow> bool"
  unitOf :: "string \<Rightarrow> UnitCount"

definition rawOf :: "ProfileWorkbenchStream \<Rightarrow> RawStream option" where
  "rawOf stream = Some (RawStream.truncate stream)"

definition packetType :: "ProfileWorkbenchStream \<Rightarrow> string" where
  "packetType stream = textOf stream ''packet_type''"

text \<open>A property of a stream that may be missing: \<open>stream && ...\<close>, \<open>stream?.x\<close>.\<close>

definition onStream :: "(ProfileWorkbenchStream \<Rightarrow> bool) \<Rightarrow> ProfileWorkbenchStream option \<Rightarrow> bool" where
  "onStream p stream = (case stream of None \<Rightarrow> False | Some s \<Rightarrow> p s)"

lemma onStream_simps [simp]: "onStream p None = False" "onStream p (Some s) = p s"
  by (simp_all add: onStream_def)

text \<open>\<open>packet_binary_base64\<close> as a condition: present and not empty.\<close>

definition hasBinary :: "ProfileWorkbenchStream \<Rightarrow> bool" where
  "hasBinary stream \<longleftrightarrow> packet_binary_base64 stream \<notin> {None, Some []}"

definition startsWith :: "string \<Rightarrow> string \<Rightarrow> bool" where
  "startsWith s prefix \<longleftrightarrow> take (length prefix) s = prefix"

definition endsWith :: "string \<Rightarrow> string \<Rightarrow> bool" where
  "endsWith s suffix \<longleftrightarrow> startsWith (rev s) (rev suffix)"

definition isRawPacketAdvancedStream :: "ProfileWorkbenchStream option \<Rightarrow> bool" where
  "isRawPacketAdvancedStream = onStream (\<lambda>s. hasBinary s \<and> packetType s = ''Ethernet'')"

definition hasIpLayer :: "string \<Rightarrow> bool" where
  "hasIpLayer type' = startsWith type' ''Ethernet/IPv''"

definition ipVersionName :: "string \<Rightarrow> string" where
  "ipVersionName type' =
     (if type' = ''Ethernet'' then ''None'' else if type' = ''Ethernet/ARP'' then ''ARP''
      else if includesText ''/IPv6'' type' then ''IPv6'' else ''IPv4'')"

definition ipEtherTypeText :: "string \<Rightarrow> string" where
  "ipEtherTypeText type' =
     (if type' = ''Ethernet/ARP'' then ''0806''
      else if ipVersionName type' = ''None'' then ''FFFF''
      else if ipVersionName type' = ''IPv6'' then ''86DD'' else ''0800'')"

definition mediaAccessTypeText :: "ProfileWorkbenchStream \<Rightarrow> string" where
  "mediaAccessTypeText s =
     (if flagOf s ''ether_type_override'' then textOf s ''ether_type''
      else if flagOf s ''vlan_enabled''
      then (if flagOf s ''vlan_tpid_override'' then textOf s ''vlan_tpid'' else ''8100'')
      else if flagOf s ''mpls_enabled'' then ''8847'' else ipEtherTypeText (packetType s))"

section \<open>Variable frame lengths\<close>

definition isIcmpPacketType :: "string \<Rightarrow> bool" where
  "isIcmpPacketType type' \<longleftrightarrow> type' = ''Ethernet/IPv4/ICMP'' \<or> type' = ''Ethernet/IPv6/ICMPv6''"

definition supportsVariableFrameLength :: "ProfileWorkbenchStream option \<Rightarrow> bool" where
  "supportsVariableFrameLength = onStream (\<lambda>s.
     \<not> (flagOf s ''vxlan_enabled'' \<or> flagOf s ''gtpu_enabled'' \<or> isIcmpPacketType (packetType s)
        \<or> endsWith (packetType s) ''/GRE'' \<or> endsWith (packetType s) ''/SCTP''))"

definition isVariableFrameLengthStream :: "ProfileWorkbenchStream option \<Rightarrow> bool" where
  "isVariableFrameLengthStream stream \<longleftrightarrow>
     onStream (\<lambda>s. supportsVariableFrameLength stream \<and> textOf s ''frame_length_type'' \<noteq> ''Fixed'') stream"

definition frameLengthOperation :: "string \<Rightarrow> string" where
  "frameLengthOperation frameLengthType =
     (if frameLengthType = ''Increment'' then ''inc''
      else if frameLengthType = ''Decrement'' then ''dec''
      else if frameLengthType = ''Random'' then ''random'' else ''Fixed'')"

section \<open>Layers and their offsets\<close>

definition workbenchMplsLabelCount :: "ProfileWorkbenchStream \<Rightarrow> int" where
  "workbenchMplsLabelCount s =
     (if \<not> flagOf s ''mpls_enabled'' then 0
      else 1 + (if flagOf s ''mpls_label2_enabled'' then 1 else 0)
             + (if flagOf s ''mpls_label2_enabled'' \<and> flagOf s ''mpls_label3_enabled'' then 1 else 0))"

definition workbenchVlanHeaderLength :: "ProfileWorkbenchStream \<Rightarrow> int" where
  "workbenchVlanHeaderLength s =
     (if \<not> flagOf s ''vlan_enabled'' then 0 else if flagOf s ''vlan2_enabled'' then 8 else 4)"

definition workbenchOuterL2HeaderLength :: "ProfileWorkbenchStream \<Rightarrow> int" where
  "workbenchOuterL2HeaderLength s = 14 + workbenchVlanHeaderLength s + workbenchMplsLabelCount s * 4"

definition outerMplsOffset :: "ProfileWorkbenchStream \<Rightarrow> int" where
  "outerMplsOffset s = 14 + workbenchVlanHeaderLength s"

definition outerIpv4Offset :: "ProfileWorkbenchStream \<Rightarrow> int" where
  "outerIpv4Offset s = workbenchOuterL2HeaderLength s"

definition outerL4Offset :: "ProfileWorkbenchStream \<Rightarrow> int" where
  "outerL4Offset s = outerIpv4Offset s + 20"

definition outerIpv6Offset :: "ProfileWorkbenchStream \<Rightarrow> int" where
  "outerIpv6Offset s = workbenchOuterL2HeaderLength s"

definition outerIpv6L4Offset :: "ProfileWorkbenchStream \<Rightarrow> int" where
  "outerIpv6L4Offset s = outerIpv6Offset s + 40"

definition outerIcmpv6Offset :: "ProfileWorkbenchStream \<Rightarrow> int" where
  "outerIcmpv6Offset s = outerIpv6Offset s + 40"

definition outerSctpOffset :: "ProfileWorkbenchStream \<Rightarrow> int" where
  "outerSctpOffset s = (if packetType s = ''Ethernet/IPv6/SCTP'' then outerIpv6L4Offset s else outerL4Offset s)"

definition outerUdpPayloadOffset :: "ProfileWorkbenchStream \<Rightarrow> int" where
  "outerUdpPayloadOffset s =
     (if startsWith (packetType s) ''Ethernet/IPv6'' then outerIpv6L4Offset s else outerL4Offset s) + 8"

definition outerIpv6ChecksumInstruction :: "ProfileWorkbenchStream \<Rightarrow> int \<Rightarrow> VmValue" where
  "outerIpv6ChecksumInstruction s l4Type = fixChecksumHw (outerIpv6Offset s) 40 l4Type"

definition outerUdpChecksumInstruction :: "ProfileWorkbenchStream \<Rightarrow> VmValue" where
  "outerUdpChecksumInstruction s =
     (if startsWith (packetType s) ''Ethernet/IPv6'' then outerIpv6ChecksumInstruction s 11
      else fixChecksumHw (outerIpv4Offset s) 20 11)"

definition outerTcpOffset :: "ProfileWorkbenchStream \<Rightarrow> int" where
  "outerTcpOffset s = (if packetType s = ''Ethernet/IPv6/TCP'' then outerIpv6L4Offset s else outerL4Offset s)"

definition outerTcpChecksumInstruction :: "ProfileWorkbenchStream \<Rightarrow> VmValue" where
  "outerTcpChecksumInstruction s =
     (if packetType s = ''Ethernet/IPv6/TCP'' then outerIpv6ChecksumInstruction s 13
      else fixChecksumHw (outerIpv4Offset s) 20 13)"

definition outerIpv4ChecksumL4Type :: "ProfileWorkbenchStream \<Rightarrow> int" where
  "outerIpv4ChecksumL4Type s =
     (if packetType s = ''Ethernet/IPv4/UDP'' then 11 else if packetType s = ''Ethernet/IPv4/TCP'' then 13 else 17)"

definition outerIpv4ChecksumRepairInstruction :: "ProfileWorkbenchStream \<Rightarrow> VmValue" where
  "outerIpv4ChecksumRepairInstruction s =
     (if packetType s = ''Ethernet/IPv4/UDP'' \<or> packetType s = ''Ethernet/IPv4/TCP''
      then fixChecksumHw (outerIpv4Offset s) 20 (outerIpv4ChecksumL4Type s)
      else fixChecksumIpv4 (outerIpv4Offset s))"

definition packetLengthChecksumInstruction :: "ProfileWorkbenchStream \<Rightarrow> VmValue option" where
  "packetLengthChecksumInstruction s =
     (let t = packetType s in
      if \<not> hasIpLayer t then None
      else if t \<in> {''Ethernet/IPv4'', ''Ethernet/IPv4/ICMP'', ''Ethernet/IPv4/GRE'', ''Ethernet/IPv4/SCTP''}
      then Some (fixChecksumIpv4 (outerIpv4Offset s))
      else if t = ''Ethernet/IPv6/ICMPv6'' then Some (fixChecksumIcmpv6 (outerIpv6Offset s) 40)
      else if t = ''Ethernet/IPv6/UDP'' then Some (outerIpv6ChecksumInstruction s 11)
      else if t = ''Ethernet/IPv6/TCP'' then Some (outerIpv6ChecksumInstruction s 13)
      else if t = ''Ethernet/IPv4/UDP'' \<or> t = ''Ethernet/IPv4/TCP''
      then Some (outerIpv4ChecksumRepairInstruction s)
      else None)"

definition buildPacketLengthVmBody :: "ProfileWorkbenchStream \<Rightarrow> AdvancedVmBody" where
  "buildPacketLengthVmBody s =
     (let operation = frameLengthOperation (textOf s ''frame_length_type'');
          minFrameLength = (if finiteOf s ''frame_length_min'' then numOf s ''frame_length_min'' else 64);
          maxFrameLength = (if finiteOf s ''frame_length_max'' then numOf s ''frame_length_max''
                            else max minFrameLength 1518);
          l2Length = workbenchOuterL2HeaderLength s;
          isIpv6 = startsWith (packetType s) ''Ethernet/IPv6'';
          ipOffset = (if isIpv6 then outerIpv6Offset s else outerIpv4Offset s);
          l3HeaderLength = (if isIpv6 then 40 else 20)
      in vmBody
           ([flowVar ''pkt_len'' (if operation = ''Fixed'' then ''inc'' else operation) 2 (minFrameLength - 4)
               (minFrameLength - 4) (maxFrameLength - 4) 1,
             VmObject [(''name'', VmText ''pkt_len''), (''type'', VmText ''trim_pkt_size'')]]
            @ (if hasIpLayer (packetType s)
               then [writeFlowVar ''pkt_len'' (if isIpv6 then - (l2Length + l3HeaderLength) else - l2Length)
                       (ipOffset + (if isIpv6 then 4 else 2))]
                    @ (if endsWith (packetType s) ''/UDP''
                       then [writeFlowVar ''pkt_len'' (- (l2Length + l3HeaderLength)) (ipOffset + l3HeaderLength + 4)]
                       else [])
                    @ optionalInstruction (packetLengthChecksumInstruction s)
               else []))
           ''pkt_len'')"

lemma outerL2_range [in_range]: "14 \<le> workbenchOuterL2HeaderLength s" "workbenchOuterL2HeaderLength s \<le> 34"
  by (simp_all add: workbenchOuterL2HeaderLength_def workbenchVlanHeaderLength_def workbenchMplsLabelCount_def)

lemma streamBytes_hasBinary: "streamBytes (rawOf s) \<noteq> [] \<Longrightarrow> hasBinary s"
  by (cases "packet_binary_base64 s")
    (auto simp: streamBytes_def rawOf_def hasBinary_def RawStream.truncate_def rawPacketBytesFromBase64_def)

section \<open>Layer checksums leave the packet alone\<close>

lemma layout_repairs [simp]:
  "viewOf (outerIpv6ChecksumInstruction s l) = OtherView" "viewOf (outerUdpChecksumInstruction s) = OtherView"
  "viewOf (outerTcpChecksumInstruction s) = OtherView" "viewOf (outerIpv4ChecksumRepairInstruction s) = OtherView"
  by (simp_all add: outerIpv6ChecksumInstruction_def outerUdpChecksumInstruction_def
      outerTcpChecksumInstruction_def outerIpv4ChecksumRepairInstruction_def)

text \<open>The counts and steps of a form that the panels accept.\<close>

definition countsPositive :: "ProfileWorkbenchStream \<Rightarrow> bool" where
  "countsPositive s \<longleftrightarrow>
     (\<forall>f. endsWith f ''_count'' \<or> endsWith f ''_step'' \<longrightarrow> 1 \<le> numOf s f \<and> finiteOf s f)"

lemma countsPositiveD [simp]:
  "countsPositive s \<Longrightarrow> endsWith f ''_count'' \<or> endsWith f ''_step'' \<Longrightarrow> 1 \<le> numOf s f"
  "countsPositive s \<Longrightarrow> endsWith f ''_count'' \<or> endsWith f ''_step'' \<Longrightarrow> finiteOf s f"
  unfolding countsPositive_def by blast+

lemma countsPositive_pos [simp]:
  assumes "countsPositive s" "endsWith f ''_count'' \<or> endsWith f ''_step''"
  shows "0 < numOf s f"
  using countsPositiveD(1) [OF assms] by linarith

lemmas suffix_text [simp] = endsWith_def startsWith_def

end
