(* ===== verification/VmSuffixes.thy ===== *)
theory VmSuffixes
  imports StreamLayout
begin

text \<open>
  How a template counts an address (\<open>advancedVmValueModel.ts\<close>, \<open>advancedVmIpv6AddressModel.ts\<close>):
  a field engine variable has 1, 2, 4 or 8 bytes, so only the end of an address is varied, as
  few bytes as the count of addresses needs. The theorems say that the suffix chosen for an
  address printed from a packet is the number that stands in the packet there.
\<close>

section \<open>Words and addresses\<close>

definition drop0xPrefix :: "string \<Rightarrow> string" where
  "drop0xPrefix s = (if take 2 s = ''0x'' \<or> take 2 s = ''0X'' then drop 2 s else s)"

definition parseHexWord :: "string \<Rightarrow> int" where
  "parseHexWord value =
     (case jsParseInt 16 (drop0xPrefix value) of None \<Rightarrow> 0 | Some parsed \<Rightarrow> js_and parsed 0xFFFF)"

definition octetOk :: "int option \<Rightarrow> bool" where
  "octetOk part \<longleftrightarrow> (case part of None \<Rightarrow> False | Some p \<Rightarrow> p \<ge> 0 \<and> p \<le> 255)"

definition ipv4Parts :: "string \<Rightarrow> int list" where
  "ipv4Parts address =
     (let parts = map (jsParseInt 10) (splitOn (CHR ''.'') address)
      in if length parts = 4 \<and> list_all octetOk parts then map the parts else [0, 0, 0, 0])"

definition macParts :: "string \<Rightarrow> int list" where
  "macParts address =
     (let parts = map (jsParseInt 16) (splitOn (CHR '':'') address)
      in if length parts = 6 \<and> list_all octetOk parts then map the parts else [0, 0, 0, 0, 0, 0])"

record FieldEngineSuffix =
  sfx_initValue :: int
  sfx_size :: int

text \<open>\<open>(((a << 24) >>> 0) | (b << 16) | (c << 8) | d) >>> 0\<close>.\<close>

definition low32 :: "int \<Rightarrow> int \<Rightarrow> int \<Rightarrow> int \<Rightarrow> int" where
  "low32 a b c d = js_ushr (js_or (js_or (js_or (js_ushr (js_shl a 24) 0) (js_shl b 16)) (js_shl c 8)) d) 0"

definition suffixFor :: "int \<Rightarrow> int \<Rightarrow> int \<Rightarrow> int \<Rightarrow> int \<Rightarrow> FieldEngineSuffix" where
  "suffixFor a b c d count =
     (let low8 = d; low16 = js_or (js_shl c 8) d in
      if low8 + count < 256 then \<lparr>sfx_initValue = low8, sfx_size = 1\<rparr>
      else if low16 + count < 65536 then \<lparr>sfx_initValue = low16, sfx_size = 2\<rparr>
      else \<lparr>sfx_initValue = low32 a b c d, sfx_size = 4\<rparr>)"

definition ipv4FieldEngineSuffix :: "string \<Rightarrow> int \<Rightarrow> FieldEngineSuffix" where
  "ipv4FieldEngineSuffix address count =
     (let parts = ipv4Parts address in suffixFor (parts ! 0) (parts ! 1) (parts ! 2) (parts ! 3) count)"

definition macFieldEngineSuffix :: "string \<Rightarrow> int \<Rightarrow> FieldEngineSuffix" where
  "macFieldEngineSuffix address count =
     (let parts = macParts address in suffixFor (parts ! 2) (parts ! 3) (parts ! 4) (parts ! 5) count)"

definition fieldEngineMaxForSize :: "int \<Rightarrow> int" where
  "fieldEngineMaxForSize sz = (if sz = 1 then 255 else if sz = 2 then 65535 else 4294967295)"

section \<open>Names and lists of the forms\<close>

definition dropFinalDot :: "string \<Rightarrow> string" where
  "dropFinalDot name = (if endsWith name ''.'' then butlast name else name)"

definition dnsNameWireLength :: "string \<Rightarrow> int" where
  "dnsNameWireLength name =
     foldl (\<lambda>total label. total + 1 + int (length label)) 1 (splitOn (CHR ''.'') (dropFinalDot name))"

definition dnsQueryNameFirstLabelByte :: "string \<Rightarrow> int option" where
  "dnsQueryNameFirstLabelByte name =
     (case find (\<lambda>label. length label > 0) (splitOn (CHR ''.'') (dropFinalDot name)) of
        None \<Rightarrow> None
      | Some label \<Rightarrow> Some (js_and (codeOf (hd label)) 0xff))"

definition dhcpParameterRequests :: "string \<Rightarrow> int list" where
  "dhcpParameterRequests value =
     map the (filter octetOk (map (\<lambda>part. jsParseInt 10 (jsTrim part)) (splitOn (CHR '','') value)))"

definition dhcpParameterRequestListLength :: "string \<Rightarrow> int" where
  "dhcpParameterRequestListLength value = int (length (dhcpParameterRequests value))"

definition dhcpParameterRequestFirstValue :: "string \<Rightarrow> int" where
  "dhcpParameterRequestFirstValue value =
     (case dhcpParameterRequests value of [] \<Rightarrow> 0 | part # rest \<Rightarrow> part)"

section \<open>IPv6 addresses\<close>

definition parseHextets :: "string \<Rightarrow> int option list" where
  "parseHextets t = (if t = [] then [] else map (jsParseInt 16) (splitOn (CHR '':'') t))"

definition hextetOk :: "int option \<Rightarrow> bool" where
  "hextetOk part \<longleftrightarrow> (case part of None \<Rightarrow> False | Some p \<Rightarrow> 0 \<le> p \<and> p \<le> 0xffff)"

text \<open>An IPv4 tail is replaced with two groups.\<close>

definition ipv4TailGroups :: "string \<Rightarrow> string option" where
  "ipv4TailGroups candidate =
     (let parts = splitOn (CHR '':'') candidate; ipv4Part = last parts; b = ipv4Parts ipv4Part
      in if list_all (\<lambda>part. part = 0) b \<and> ipv4Part \<noteq> ''0.0.0.0'' then None
         else Some (joinWith '':'' (butlast parts) @ '':'' @ hexText (js_or (js_shl (b ! 0) 8) (b ! 1))
                @ '':'' @ hexText (js_or (js_shl (b ! 2) 8) (b ! 3))))"

definition hextetsToBigInt :: "int list \<Rightarrow> int" where
  "hextetsToBigInt hextets = foldl (\<lambda>result part. push_bit 16 result OR part) 0 hextets"

definition candidateToBigInt :: "string \<Rightarrow> int option" where
  "candidateToBigInt candidate =
     (let compressionParts = splitStr ''::'' candidate in
      if length compressionParts > 2 then None
      else
        let headGroups = parseHextets (compressionParts ! 0);
            tailGroups = parseHextets (if length compressionParts = 2 then compressionParts ! 1 else [])
        in if list_ex (\<lambda>part. \<not> hextetOk part) (headGroups @ tailGroups) then None
           else if length compressionParts = 1 \<and> length headGroups \<noteq> 8 then None
           else if length compressionParts = 2 \<and> length headGroups + length tailGroups > 7 then None
           else
             let hextets = (if length compressionParts = 2
                   then map the headGroups @ replicate (8 - length headGroups - length tailGroups) 0
                          @ map the tailGroups
                   else map the headGroups)
             in if length hextets \<noteq> 8 then None else Some (hextetsToBigInt hextets))"

definition ipv6AddressToBigInt :: "string \<Rightarrow> int option" where
  "ipv6AddressToBigInt value =
     (let normalized = takeWhile (\<lambda>c. c \<noteq> CHR ''%'') (jsTrim value) in
      if normalized = [] then None
      else case (if CHR ''.'' \<in> set normalized then ipv4TailGroups normalized else Some normalized) of
             None \<Rightarrow> None
           | Some candidate \<Rightarrow> candidateToBigInt candidate)"

record Ipv6FieldEngineSuffix = FieldEngineSuffix +
  sfx_maxValue :: int

text \<open>The loop over the candidate sizes.\<close>

fun suffixCandidate :: "int list \<Rightarrow> int \<Rightarrow> int \<Rightarrow> Ipv6FieldEngineSuffix option" where
  "suffixCandidate [] value count = None"
| "suffixCandidate (sz # sizes) value count =
     (let initValue = value AND (256 ^ nat sz - 1) in
      if sz \<noteq> 8 \<and> initValue + count \<ge> 256 ^ nat sz then suffixCandidate sizes value count
      else
        let maxValue = initValue + count - 1 in
        if initValue > MAX_SAFE_INTEGER \<or> maxValue > MAX_SAFE_INTEGER then None
        else Some \<lparr>sfx_initValue = initValue, sfx_size = sz, sfx_maxValue = maxValue\<rparr>)"

definition ipv6FieldEngineSuffix :: "string \<Rightarrow> int \<Rightarrow> Ipv6FieldEngineSuffix option" where
  "ipv6FieldEngineSuffix address count =
     (case ipv6AddressToBigInt address of
        None \<Rightarrow> None
      | Some value \<Rightarrow> suffixCandidate [1, 2, 4, 8] value (max 2 (min 100000000 count)))"

definition ipv6AddressFlowVarInstructions :: "string \<Rightarrow> int \<Rightarrow> int \<Rightarrow> string \<Rightarrow> int \<Rightarrow> VmValue list option" where
  "ipv6AddressFlowVarInstructions address baseOffset count name step =
     (case ipv6FieldEngineSuffix address count of
        None \<Rightarrow> None
      | Some suffix \<Rightarrow>
          Some [flowVar name ''inc'' (sfx_size suffix) (sfx_initValue suffix) (sfx_initValue suffix)
                  (sfx_maxValue suffix) step,
                writeFlowVar name 0 (baseOffset + 16 - sfx_size suffix)])"

definition buildIpv6AddressIncVmBody ::
  "string \<Rightarrow> int \<Rightarrow> VmValue option \<Rightarrow> int \<Rightarrow> string \<Rightarrow> int \<Rightarrow> AdvancedVmBody" where
  "buildIpv6AddressIncVmBody address baseOffset checksumInstruction count name step =
     (case ipv6FieldEngineSuffix address count of
        None \<Rightarrow> advancedVmDefaultBody
      | Some suffix \<Rightarrow>
          vmBody
            ([flowVar name ''inc'' (sfx_size suffix) (sfx_initValue suffix) (sfx_initValue suffix)
                (sfx_maxValue suffix) step,
              writeFlowVar name 0 (baseOffset + 16 - sfx_size suffix)]
             @ optionalInstruction checksumInstruction)
            name)"

definition isSafeIpv6AddressVmTarget ::
  "ProfileWorkbenchStream option \<Rightarrow> string \<Rightarrow> UnitCount \<Rightarrow> bool" where
  "isSafeIpv6AddressVmTarget stream address count \<longleftrightarrow>
     onStream (\<lambda>s. ipv6FieldEngineSuffix address (largeUnitCountNumber count 16) \<noteq> None) stream"

section \<open>Numbers at the end of a field\<close>

lemma numberFrom_acc: "numberFrom bs off n v = v * 256 ^ n + numberFrom bs off n 0"
proof (induction n arbitrary: off v)
  case 0
  then show ?case by simp
next
  case (Suc n)
  show ?case
    using Suc [of "off + 1" "v * 256 + byteAt bs off"] Suc [of "off + 1" "byteAt bs off"]
    by (simp add: algebra_simps)
qed

lemma numberFrom_append:
  "numberFrom bs off (m + k) v = numberFrom bs (off + int m) k (numberFrom bs off m v)"
proof (induction m arbitrary: off v)
  case 0
  then show ?case by simp
next
  case (Suc m)
  show ?case using Suc [of "off + 1"] by (simp add: add.assoc)
qed

lemma number_suffix:
  assumes "is_bytes bs" "0 \<le> k" "k \<le> n"
  shows "rawPacketNumberValue bs off n mod 256 ^ nat k = rawPacketNumberValue bs (off + n - k) k"
proof -
  have n: "nat n = nat (n - k) + nat k" using assms by simp
  have "rawPacketNumberValue bs off n
      = rawPacketNumberValue bs off (n - k) * 256 ^ nat k + rawPacketNumberValue bs (off + n - k) k"
    using assms numberFrom_append [of bs off "nat (n - k)" "nat k" 0]
      numberFrom_acc [of bs "off + (n - k)" "nat k" "numberFrom bs off (nat (n - k)) 0"]
    unfolding rawPacketNumberValue_def n by (simp add: algebra_simps)
  then show ?thesis
    using rawPacketNumberValue_range [OF assms(1), of "off + n - k" k] by simp
qed

lemma rawPacketNumberValue_4:
  "rawPacketNumberValue bs off 4
   = ((byteAt bs off * 256 + byteAt bs (off + 1)) * 256 + byteAt bs (off + 2)) * 256 + byteAt bs (off + 3)"
  by (simp add: rawPacketNumberValue_def numeral_eq_Suc add.assoc)

lemma low32_value:
  assumes "0 \<le> a" "a < 256" "0 \<le> b" "b < 256" "0 \<le> c" "c < 256" "0 \<le> d" "d < 256"
  shows "low32 a b c d = ((a * 256 + b) * 256 + c) * 256 + d"
proof -
  let ?x = "((a * 256 + b) * 256 + c) * 256 + d"
  have c: "c * 256 OR d = c * 256 + d"
    using assms or_disjoint_add [of d 8 c] by simp
  have b: "b * 65536 OR (c * 256 + d) = b * 65536 + (c * 256 + d)"
    using assms or_disjoint_add [of "c * 256 + d" 16 b] by simp
  have a: "a * 16777216 OR (b * 65536 + (c * 256 + d)) = a * 16777216 + (b * 65536 + (c * 256 + d))"
    using assms or_disjoint_add [of "b * 65536 + (c * 256 + d)" 24 a] by simp
  have or: "a * 16777216 OR b * 65536 OR c * 256 OR d = ?x"
    unfolding c b a by simp
  have "low32 a b c d = take_bit 32 (a * 16777216 OR b * 65536 OR c * 256 OR d)"
    unfolding low32_def js_ops_int
    by (rule bit_eqI)
      (auto simp: bit_take_bit_iff bit_or_iff signed_low push_bit_eq_mult)
  also have "\<dots> = ?x"
    using assms by (simp add: or take_bit_32_id)
  finally show ?thesis .
qed

section \<open>The suffix of an address of the packet\<close>

lemma map_the_Some [simp]: "map the (map Some xs) = xs"
  by (simp add: comp_def)

lemma mapped_octets:
  assumes "is_bytes xs" "\<And>b. b \<in> set xs \<Longrightarrow> parse (f b) = Some b"
  shows "map parse (map f xs) = map Some xs" "list_all octetOk (map parse (map f xs))"
  using assms by (auto simp: list_all_iff octetOk_def is_bytes_iff)

lemma ipv4Parts_format:
  assumes "is_bytes bs" "rawPacketHasBytes bs off 4"
  shows "ipv4Parts (formatPacketIpv4 bs off)
    = [byteAt bs off, byteAt bs (off + 1), byteAt bs (off + 2), byteAt bs (off + 3)]"
proof -
  let ?sl = "jsSlice bs off (off + 4)"
  have sl: "is_bytes ?sl" "length ?sl = 4"
    using assms by (simp_all add: is_bytes_jsSlice length_slice_hasBytes)
  have hex: "\<forall>w\<in>set (map decText ?sl). list_all isHexDigit w"
    using sl(1) by (auto simp: is_bytes_iff dec_text_hex)
  have split: "splitOn (CHR ''.'') (formatPacketIpv4 bs off) = map decText ?sl"
    unfolding formatPacketIpv4_def
  proof (rule splitOn_joinWith)
    show "map decText ?sl \<noteq> []" using sl(2) by auto
    show "\<forall>w\<in>set (map decText ?sl). CHR ''.'' \<notin> set w"
      using hex hex_not_char(5) unfolding list_all_iff by blast
  qed
  have "jsParseInt 10 (decText b) = Some b" if "b \<in> set ?sl" for b
    using sl(1) that by (intro parseInt_decText) (auto simp: is_bytes_iff)
  note parsed = mapped_octets [where f = decText and parse = "jsParseInt 10", OF sl(1) this]
  have "ipv4Parts (formatPacketIpv4 bs off) = ?sl"
    unfolding ipv4Parts_def split Let_def using parsed sl(2) by (simp del: map_map)
  then show ?thesis
    using jsSlice_bytes [of off 4 bs] hasBytesD [OF assms(2)] by (simp add: upt_rec)
qed

lemma macParts_format:
  assumes "is_bytes bs" "rawPacketHasBytes bs off 6"
  shows "macParts (formatPacketMac bs off) = map (\<lambda>k. byteAt bs (off + int k)) [0..<6]"
proof -
  let ?sl = "jsSlice bs off (off + 6)"
  have sl: "is_bytes ?sl" "length ?sl = 6"
    using assms by (simp_all add: is_bytes_jsSlice length_slice_hasBytes)
  have hex: "\<forall>w\<in>set (map hexByte ?sl). list_all isHexDigit w"
    using sl(1) by (auto simp: is_bytes_iff hexByte_digits)
  have split: "splitOn (CHR '':'') (formatPacketMac bs off) = map hexByte ?sl"
    unfolding formatPacketMac_def
  proof (rule splitOn_joinWith)
    show "map hexByte ?sl \<noteq> []" using sl(2) by auto
    show "\<forall>w\<in>set (map hexByte ?sl). CHR '':'' \<notin> set w"
      using hex hex_not_char(3) unfolding list_all_iff by blast
  qed
  have "jsParseInt 16 (hexByte b) = Some b" if "b \<in> set ?sl" for b
  proof -
    have b: "0 \<le> b" "b < 256" using sl(1) that by (auto simp: is_bytes_iff)
    then have "hexByte b \<noteq> []" using hexByte_length [of b] by auto
    with b show ?thesis by (intro parseInt_hexDigits) (simp_all add: hexByte_digits hexByte_value)
  qed
  note parsed = mapped_octets [where f = hexByte and parse = "jsParseInt 16", OF sl(1) this]
  have "macParts (formatPacketMac bs off) = ?sl"
    unfolding macParts_def split Let_def using parsed sl(2) by (simp del: map_map)
  then show ?thesis
    using jsSlice_bytes [of off 6 bs] hasBytesD [OF assms(2)] by simp
qed

lemma fieldEngineMax_less [in_range]: "sz \<in> {1, 2, 4} \<Longrightarrow> fieldEngineMaxForSize sz < 256 ^ nat sz"
  by (auto simp: fieldEngineMaxForSize_def)

text \<open>What a template needs of the suffix chosen for \<open>n\<close> bytes at \<open>off\<close>.\<close>

definition suffixOf :: "bytes \<Rightarrow> int \<Rightarrow> FieldEngineSuffix \<Rightarrow> bool" where
  "suffixOf bs end sfx \<longleftrightarrow>
     sfx_size sfx \<in> {1, 2, 4} \<and> rawPacketHasBytes bs (end - sfx_size sfx) (sfx_size sfx)
     \<and> rawPacketNumberValue bs (end - sfx_size sfx) (sfx_size sfx) = sfx_initValue sfx
     \<and> 0 \<le> sfx_initValue sfx \<and> sfx_initValue sfx \<le> fieldEngineMaxForSize (sfx_size sfx)"

lemma suffixFor_sound:
  assumes "is_bytes bs" "rawPacketHasBytes bs off 4"
  shows "suffixOf bs (off + 4) (suffixFor (byteAt bs off) (byteAt bs (off + 1)) (byteAt bs (off + 2))
    (byteAt bs (off + 3)) count)"
proof -
  note b = byteAt_range [OF assms(1)]
  have w: "js_or (js_shl (byteAt bs (off + 2)) 8) (byteAt bs (off + 3)) = rawPacketNumberValue bs (off + 2) 2"
    by (simp add: rawPacketNumberValue_2 [OF assms(1)] rawPacketWord_def add.assoc)
  have l: "low32 (byteAt bs off) (byteAt bs (off + 1)) (byteAt bs (off + 2)) (byteAt bs (off + 3))
      = rawPacketNumberValue bs off 4"
    by (simp add: low32_value b rawPacketNumberValue_4)
  show ?thesis
    unfolding suffixFor_def w l Let_def
    using hasBytesD [OF assms(2)] b [of "off + 3"] rawPacketNumberValue_range [OF assms(1), of "off + 2" 2]
      rawPacketNumberValue_range [OF assms(1), of off 4]
    by (auto simp: suffixOf_def fieldEngineMaxForSize_def
        rawPacketHasBytes_def rawPacketNumberValue_1 add.commute)
qed

lemma ipv4_suffix_sound:
  assumes "is_bytes bs" "rawPacketHasBytes bs off 4"
  shows "suffixOf bs (off + 4) (ipv4FieldEngineSuffix (formatPacketIpv4 bs off) count)"
  using suffixFor_sound [OF assms] by (simp add: ipv4FieldEngineSuffix_def ipv4Parts_format [OF assms])

lemma mac_suffix_sound:
  assumes "is_bytes bs" "rawPacketHasBytes bs off 6"
  shows "suffixOf bs (off + 6) (macFieldEngineSuffix (formatPacketMac bs off) count)"
proof -
  have "rawPacketHasBytes bs (off + 2) 4"
    using assms(2) by (auto simp: rawPacketHasBytes_def)
  from suffixFor_sound [OF assms(1) this] show ?thesis
    by (simp add: macFieldEngineSuffix_def macParts_format [OF assms] upt_rec add.commute)
qed

text \<open>The body that writes a suffix of the packet.\<close>

lemma suffix_write_sound:
  assumes "suffixOf bs end sfx" "repairs (optionalInstruction c)" "1 \<le> count" "1 \<le> step" "off = end - sfx_size sfx"
  shows "bodySound bs (buildAdvancedNumberWriteVmBody
    \<lparr>nw_checksumInstruction = c, nw_count = count, nw_initValue = sfx_initValue sfx,
     nw_maxLimit = fieldEngineMaxForSize (sfx_size sfx), nw_name = n, nw_pktOffset = off,
     nw_size = sfx_size sfx, nw_step = step\<rparr>)"
  using assms fieldEngineMax_less [of "sfx_size sfx"]
  by (intro number_write_sound) (simp_all add: suffixOf_def)

section \<open>IPv6\<close>

lemma splitStr_absent:
  "sep \<noteq> [] \<Longrightarrow> \<not> includesText sep s \<Longrightarrow> splitStr sep s = [s]"
  by (induction s) (auto simp: consHead_def)

lemma hextets_number:
  assumes "is_bytes bs"
  shows "hextetsToBigInt (map (\<lambda>k. rawPacketWord bs (off + 2 * int k)) [0..<n])
    = rawPacketNumberValue bs off (2 * int n)"
proof (induction n)
  case 0
  then show ?case by (simp add: hextetsToBigInt_def rawPacketNumberValue_def)
next
  case (Suc n)
  let ?w = "rawPacketWord bs (off + 2 * int n)"
  have "rawPacketNumberValue bs off (2 * int (Suc n)) = rawPacketNumberValue bs off (2 * int n) * 65536 + ?w"
  proof -
    have "nat (2 * int (Suc n)) = 2 * n + 2" by simp
    then show ?thesis
      using numberFrom_append [of bs off "2 * n" 2 0]
        numberFrom_acc [of bs "off + 2 * int n" 2 "numberFrom bs off (2 * n) 0"]
        rawPacketNumberValue_2 [OF assms, of "off + 2 * int n"]
      by (simp add: rawPacketNumberValue_def nat_mult_distrib)
  qed
  moreover have "push_bit 16 (rawPacketNumberValue bs off (2 * int n)) OR ?w
      = rawPacketNumberValue bs off (2 * int n) * 65536 + ?w"
    using or_disjoint_add [of ?w 16 "rawPacketNumberValue bs off (2 * int n)"]
      rawPacketWord_range [OF assms, of "off + 2 * int n"] by (simp add: push_bit_eq_mult)
  ultimately show ?case
    using Suc by (simp add: hextetsToBigInt_def)
qed

lemma ipv6_format_value:
  assumes "is_bytes bs" "rawPacketHasBytes bs off 16"
  shows "ipv6AddressToBigInt (formatPacketIpv6 bs off) = Some (rawPacketNumberValue bs off 16)"
proof -
  let ?words = "map (\<lambda>k. rawPacketWord bs (off + 2 * int k)) [0..<8]"
  let ?ws = "map hexGroup ?words"
  let ?s = "formatPacketIpv6 bs off"
  have s: "?s = joinWith '':'' ?ws"
    by (simp add: formatPacketIpv6_def hexGroup_def upt_rec)
  have g: "list_all isHexDigit (hexGroup w)" "length (hexGroup w) = 4" "jsParseInt 16 (hexGroup w) = Some w"
    if "w \<in> set ?words" for w
  proof -
    have w: "0 \<le> w" "w < 65536" using that rawPacketWord_range [OF assms(1)] by auto
    show "list_all isHexDigit (hexGroup w)" "length (hexGroup w) = 4"
      using hexGroup_facts [OF w] by simp_all
    then have "hexGroup w \<noteq> []" by auto
    then show "jsParseInt 16 (hexGroup w) = Some w"
      using hexGroup_facts [OF w] w by (intro parseInt_hexDigits) simp_all
  qed
  have hex: "\<forall>w\<in>set ?ws. list_all isHexDigit w" using g(1) by simp
  have chars: "isHexDigit c \<or> c = CHR '':''" if "c \<in> set ?s" for c
    using joined_chars [OF hex] that by (simp add: s)
  have trim: "jsTrim ?s = ?s"
    using chars by (intro address_trim) auto
  have none: "c \<notin> set ?s" if "c = CHR ''%'' \<or> c = CHR ''.''" for c
    using chars [of c] that by (auto simp: isHexDigit_def codeOf_def)
  have take: "takeWhile (\<lambda>c. c \<noteq> CHR ''%'') ?s = ?s"
    using none [of "CHR ''%''"] by (subst takeWhile_eq_all_conv) auto
  have nonempty: "?s \<noteq> []"
    using g(2) by (auto simp: s upt_rec)
  have nocolon: "\<forall>w\<in>set ?ws. w \<noteq> [] \<and> CHR '':'' \<notin> set w"
  proof
    fix v assume "v \<in> set ?ws"
    then obtain w where "w \<in> set ?words" "v = hexGroup w" by (auto simp del: set_upt)
    then show "v \<noteq> [] \<and> CHR '':'' \<notin> set v"
      using g [of w] hex_not_char(3) unfolding list_all_iff by fastforce
  qed
  then have "splitStr ''::'' ?s = [?s]"
    using no_double_colon [of ?ws] by (intro splitStr_absent) (simp_all add: s)
  moreover have "splitOn (CHR '':'') ?s = ?ws"
    unfolding s using nocolon by (intro splitOn_joinWith) auto
  moreover have "map (jsParseInt 16) ?ws = map Some ?words"
    using g(3) by simp
  moreover have hextets_ok: "\<forall>k. hextetOk (Some (rawPacketWord bs k))"
    using rawPacketWord_range [OF assms(1)] by (simp add: hextetOk_def order_less_imp_le zle_iff_zadd zle_diff1_eq [symmetric] del: zle_diff1_eq)
  ultimately have "candidateToBigInt ?s = Some (hextetsToBigInt ?words)"
    using nonempty
    unfolding candidateToBigInt_def Let_def parseHextets_def
    by (auto simp: list_ex_iff simp del: set_upt map_map)
  then show ?thesis
    using nonempty none [of "CHR ''.''"] hextets_number [OF assms(1), of off 8]
    by (simp add: ipv6AddressToBigInt_def trim take Let_def)
qed

lemma suffixCandidate_sound:
  assumes "suffixCandidate sizes addr count = Some sfx" "2 \<le> count"
    "\<forall>sz\<in>set sizes. 0 < sz \<and> sz \<le> 8"
  shows "sfx_size sfx \<in> set sizes \<and> sfx_initValue sfx = addr mod 256 ^ nat (sfx_size sfx)
    \<and> sfx_maxValue sfx = sfx_initValue sfx + count - 1 \<and> sfx_maxValue sfx < 256 ^ nat (sfx_size sfx)"
  using assms
proof (induction sizes addr count rule: suffixCandidate.induct)
  case (1 addr count)
  then show ?case by simp
next
  case (2 sz sizes addr count)
  let ?i = "addr AND (256 ^ nat sz - 1)"
  have i: "?i = addr mod 256 ^ nat sz"
  proof -
    have "(256 :: int) ^ nat sz = 2 ^ (8 * nat sz)" by (simp add: power_mult)
    then show ?thesis
      by (simp add: mask_eq_exp_minus_1 [symmetric] take_bit_eq_mask [symmetric] take_bit_eq_mod)
  qed
  show ?case
  proof (cases "sz \<noteq> 8 \<and> ?i + count \<ge> 256 ^ nat sz")
    case True
    with 2 show ?thesis by simp
  next
    case False
    with 2 have sfx: "sfx = \<lparr>sfx_initValue = ?i, sfx_size = sz, sfx_maxValue = ?i + count - 1\<rparr>"
      and safe: "?i + count - 1 \<le> MAX_SAFE_INTEGER"
      by (simp_all add: Let_def split: if_splits)
    have "?i + count - 1 < 256 ^ nat sz"
      using False safe by (cases "sz = 8") (auto simp: MAX_SAFE_INTEGER_def)
    then show ?thesis by (simp add: sfx i)
  qed
qed

text \<open>What a template needs of the suffix of an IPv6 address that ends at \<open>end\<close>.\<close>

definition suffixOfIpv6 :: "bytes \<Rightarrow> int \<Rightarrow> Ipv6FieldEngineSuffix \<Rightarrow> bool" where
  "suffixOfIpv6 bs end sfx \<longleftrightarrow>
     rawPacketHasBytes bs (end - sfx_size sfx) (sfx_size sfx)
     \<and> rawPacketNumberValue bs (end - sfx_size sfx) (sfx_size sfx) = sfx_initValue sfx
     \<and> 0 \<le> sfx_initValue sfx \<and> sfx_initValue sfx \<le> sfx_maxValue sfx
     \<and> sfx_maxValue sfx < 256 ^ nat (sfx_size sfx)"

lemma ipv6_suffix_sound:
  assumes "is_bytes bs" "rawPacketHasBytes bs off 16"
    "ipv6FieldEngineSuffix (formatPacketIpv6 bs off) count = Some sfx"
  shows "suffixOfIpv6 bs (off + 16) sfx"
proof -
  let ?v = "rawPacketNumberValue bs off 16"
  have "suffixCandidate [1, 2, 4, 8] ?v (max 2 (min 100000000 count)) = Some sfx"
    using assms(3) by (simp add: ipv6FieldEngineSuffix_def ipv6_format_value [OF assms(1,2)])
  from suffixCandidate_sound [OF this]
  have c: "sfx_size sfx \<in> {1, 2, 4, 8}" "sfx_initValue sfx = ?v mod 256 ^ nat (sfx_size sfx)"
    "sfx_maxValue sfx < 256 ^ nat (sfx_size sfx)" "sfx_initValue sfx \<le> sfx_maxValue sfx"
    by auto
  have "?v mod 256 ^ nat (sfx_size sfx)
      = rawPacketNumberValue bs (off + 16 - sfx_size sfx) (sfx_size sfx)"
    using c(1) by (intro number_suffix [OF assms(1)]) auto
  moreover have "rawPacketHasBytes bs (off + 16 - sfx_size sfx) (sfx_size sfx)"
    using c(1) assms(2) by (auto simp: rawPacketHasBytes_def)
  ultimately show ?thesis
    using c rawPacketNumberValue_range [OF assms(1)] by (simp add: suffixOfIpv6_def)
qed

lemma ipv6_body_sound:
  assumes "is_bytes bs" "rawPacketHasBytes bs off 16" "repairs (optionalInstruction c)" "1 \<le> step"
    "ipv6FieldEngineSuffix (formatPacketIpv6 bs off) count \<noteq> None"
  shows "bodySound bs (buildIpv6AddressIncVmBody (formatPacketIpv6 bs off) off c count n step)"
proof -
  obtain sfx where sfx: "ipv6FieldEngineSuffix (formatPacketIpv6 bs off) count = Some sfx"
    using assms(5) by auto
  show ?thesis
    using ipv6_suffix_sound [OF assms(1,2) sfx] assms(3,4)
    by (auto simp: buildIpv6AddressIncVmBody_def sfx suffixOfIpv6_def
        intro!: number_body_sound)
qed

end
