(* ===== verification/VmLink.thy ===== *)
theory VmLink
  imports VmSuffixes
begin

text \<open>
  The link layer templates: MAC addresses and EtherType (\<open>advancedVmL2Model.ts\<close>), ARP
  (\<open>advancedVmArpModel.ts\<close>), VLAN tags and MPLS labels (\<open>advancedVmModel.ts\<close>). Each builder takes
  the place and the initial value of its field from the dissector when the stream carries a
  packet, and from the form otherwise.
\<close>

section \<open>Ethernet\<close>

definition buildOuterMacAddressIncVmBody :: "ProfileWorkbenchStream \<Rightarrow> MacSide \<Rightarrow> AdvancedVmBody" where
  "buildOuterMacAddressIncVmBody stream side =
     (let rawTarget = rawOuterMacAddressTarget (rawOf stream) side;
          address = fromTarget rawTarget mac_address
            (if side = DstMac then textOf stream ''ether_dst'' else textOf stream ''ether_src'');
          count = (if side = DstMac then numOf stream ''ether_dst_count'' else numOf stream ''ether_src_count'');
          step = (if side = DstMac then numOf stream ''ether_dst_step'' else numOf stream ''ether_src_step'');
          suffix = macFieldEngineSuffix address count;
          variableName = (if side = DstMac then ''mac_dest'' else ''mac_src'');
          baseOffset = fromTarget rawTarget mac_offset (if side = DstMac then 0 else 6)
      in buildAdvancedNumberWriteVmBody
           \<lparr>nw_checksumInstruction = None, nw_count = count, nw_initValue = sfx_initValue suffix,
            nw_maxLimit = fieldEngineMaxForSize (sfx_size suffix), nw_name = variableName,
            nw_pktOffset = baseOffset + 6 - sfx_size suffix, nw_size = sfx_size suffix, nw_step = step\<rparr>)"

definition isOuterEtherTypeStream :: "ProfileWorkbenchStream option \<Rightarrow> bool" where
  "isOuterEtherTypeStream = onStream (\<lambda>s.
     if hasBinary s then rawOuterEtherTypeTarget (rawOf s) \<noteq> None
     else \<not> flagOf s ''vlan_enabled'' \<and> \<not> flagOf s ''mpls_enabled'')"

definition buildOuterEtherTypeIncVmBody :: "ProfileWorkbenchStream \<Rightarrow> AdvancedVmBody" where
  "buildOuterEtherTypeIncVmBody stream =
     (let rawTarget = rawOuterEtherTypeTarget (rawOf stream)
      in buildAdvancedNumberWriteVmBody
           \<lparr>nw_checksumInstruction = None, nw_count = 16,
            nw_initValue = fromTarget rawTarget ety_etherType (parseHexWord (mediaAccessTypeText stream)),
            nw_maxLimit = 65535, nw_name = ''ether_type'',
            nw_pktOffset = fromTarget rawTarget ety_offset 12, nw_size = 2, nw_step = 1\<rparr>)"

definition buildOuterMacDstIncVmBody :: "ProfileWorkbenchStream \<Rightarrow> AdvancedVmBody" where
  "buildOuterMacDstIncVmBody stream = buildOuterMacAddressIncVmBody stream DstMac"

definition buildOuterMacSrcIncVmBody :: "ProfileWorkbenchStream \<Rightarrow> AdvancedVmBody" where
  "buildOuterMacSrcIncVmBody stream = buildOuterMacAddressIncVmBody stream SrcMac"

section \<open>ARP\<close>

definition isArpStream :: "ProfileWorkbenchStream option \<Rightarrow> bool" where
  "isArpStream = onStream (\<lambda>s. packetType s = ''Ethernet/ARP'' \<or> rawArpTarget (rawOf s) \<noteq> None)"

definition buildArpSenderIpIncVmBody :: "ProfileWorkbenchStream \<Rightarrow> AdvancedVmBody" where
  "buildArpSenderIpIncVmBody stream =
     (let rawTarget = rawArpTarget (rawOf stream);
          arpOffset = fromTarget rawTarget arp_senderIpOffset (workbenchOuterL2HeaderLength stream + 14);
          suffix = ipv4FieldEngineSuffix (fromTarget rawTarget arp_senderIp (textOf stream ''arp_sender_ip''))
            (numOf stream ''arp_sender_ip_count'')
      in buildAdvancedNumberWriteVmBody
           \<lparr>nw_checksumInstruction = None, nw_count = numOf stream ''arp_sender_ip_count'',
            nw_initValue = sfx_initValue suffix, nw_maxLimit = fieldEngineMaxForSize (sfx_size suffix),
            nw_name = ''arp_sender_ip'', nw_pktOffset = arpOffset + 4 - sfx_size suffix,
            nw_size = sfx_size suffix, nw_step = numOf stream ''arp_sender_ip_step''\<rparr>)"

definition buildArpTargetIpIncVmBody :: "ProfileWorkbenchStream \<Rightarrow> AdvancedVmBody" where
  "buildArpTargetIpIncVmBody stream =
     (let rawTarget = rawArpTarget (rawOf stream);
          arpOffset = fromTarget rawTarget arp_targetIpOffset (workbenchOuterL2HeaderLength stream + 24);
          suffix = ipv4FieldEngineSuffix (fromTarget rawTarget arp_targetIp (textOf stream ''arp_target_ip''))
            (numOf stream ''arp_target_ip_count'')
      in buildAdvancedNumberWriteVmBody
           \<lparr>nw_checksumInstruction = None, nw_count = numOf stream ''arp_target_ip_count'',
            nw_initValue = sfx_initValue suffix, nw_maxLimit = fieldEngineMaxForSize (sfx_size suffix),
            nw_name = ''arp_target_ip'', nw_pktOffset = arpOffset + 4 - sfx_size suffix,
            nw_size = sfx_size suffix, nw_step = numOf stream ''arp_target_ip_step''\<rparr>)"

definition buildArpSenderMacIncVmBody :: "ProfileWorkbenchStream \<Rightarrow> AdvancedVmBody" where
  "buildArpSenderMacIncVmBody stream =
     (let rawTarget = rawArpTarget (rawOf stream);
          arpOffset = fromTarget rawTarget arp_senderMacOffset (workbenchOuterL2HeaderLength stream + 8);
          suffix = macFieldEngineSuffix (fromTarget rawTarget arp_senderMac (textOf stream ''arp_sender_mac''))
            (numOf stream ''arp_sender_mac_count'')
      in buildAdvancedNumberWriteVmBody
           \<lparr>nw_checksumInstruction = None, nw_count = numOf stream ''arp_sender_mac_count'',
            nw_initValue = sfx_initValue suffix, nw_maxLimit = fieldEngineMaxForSize (sfx_size suffix),
            nw_name = ''arp_sender_mac'', nw_pktOffset = arpOffset + 6 - sfx_size suffix,
            nw_size = sfx_size suffix, nw_step = numOf stream ''arp_sender_mac_step''\<rparr>)"

definition buildArpTargetMacIncVmBody :: "ProfileWorkbenchStream \<Rightarrow> AdvancedVmBody" where
  "buildArpTargetMacIncVmBody stream =
     (let rawTarget = rawArpTarget (rawOf stream);
          arpOffset = fromTarget rawTarget arp_targetMacOffset (workbenchOuterL2HeaderLength stream + 18);
          suffix = macFieldEngineSuffix (fromTarget rawTarget arp_targetMac (textOf stream ''arp_target_mac''))
            (numOf stream ''arp_target_mac_count'')
      in buildAdvancedNumberWriteVmBody
           \<lparr>nw_checksumInstruction = None, nw_count = numOf stream ''arp_target_mac_count'',
            nw_initValue = sfx_initValue suffix, nw_maxLimit = fieldEngineMaxForSize (sfx_size suffix),
            nw_name = ''arp_target_mac'', nw_pktOffset = arpOffset + 6 - sfx_size suffix,
            nw_size = sfx_size suffix, nw_step = numOf stream ''arp_target_mac_step''\<rparr>)"

definition buildArpOperationIncVmBody :: "ProfileWorkbenchStream \<Rightarrow> AdvancedVmBody" where
  "buildArpOperationIncVmBody stream =
     (let rawTarget = rawArpTarget (rawOf stream)
      in buildAdvancedNumberWriteVmBody
           \<lparr>nw_checksumInstruction = None, nw_count = numOf stream ''arp_operation_count'',
            nw_initValue = fromTarget rawTarget arp_operation (numOf stream ''arp_operation''),
            nw_maxLimit = 65535, nw_name = ''arp_operation'',
            nw_pktOffset = fromTarget rawTarget arp_operationOffset (workbenchOuterL2HeaderLength stream + 6),
            nw_size = 2, nw_step = numOf stream ''arp_operation_step''\<rparr>)"

section \<open>VLAN tags\<close>

definition isTaggedVlanStream :: "ProfileWorkbenchStream option \<Rightarrow> bool" where
  "isTaggedVlanStream = onStream (\<lambda>s. rawVlanTagTarget (rawOf s) 1 \<noteq> None \<or> flagOf s ''vlan_enabled'')"

definition isInnerTaggedVlanStream :: "ProfileWorkbenchStream option \<Rightarrow> bool" where
  "isInnerTaggedVlanStream = onStream (\<lambda>s.
     rawVlanTagTarget (rawOf s) 2 \<noteq> None \<or> flagOf s ''vlan_enabled'' \<and> flagOf s ''vlan2_enabled'')"

definition buildVlanIdIncVmBody :: "ProfileWorkbenchStream \<Rightarrow> int \<Rightarrow> AdvancedVmBody" where
  "buildVlanIdIncVmBody stream index =
     (let rawTarget = rawVlanTagTarget (rawOf stream) index;
          variableName = (if index = 1 then ''vlan_id'' else ''vlan2_id'');
          initValue = fromTarget rawTarget vlan_vlanId
            (if index = 1 then numOf stream ''vlan_id'' else numOf stream ''vlan2_id'');
          count = (if index = 1 then numOf stream ''vlan_id_count'' else numOf stream ''vlan2_id_count'');
          step = (if index = 1 then numOf stream ''vlan_id_step'' else numOf stream ''vlan2_id_step'');
          pktOffset = fromTarget rawTarget vlan_tciOffset (14 + 4 * (index - 1))
      in vmBody [flowVar variableName ''inc'' 2 initValue initValue (min 4094 (initValue + count - 1)) step,
                 writeMaskFlowVar variableName 2 pktOffset 0x0FFF 0]
           variableName)"

definition buildInnerVlanIdIncVmBody :: "ProfileWorkbenchStream \<Rightarrow> AdvancedVmBody" where
  "buildInnerVlanIdIncVmBody stream = buildVlanIdIncVmBody stream 2"

definition buildVlanPriorityIncVmBody :: "ProfileWorkbenchStream \<Rightarrow> int \<Rightarrow> AdvancedVmBody" where
  "buildVlanPriorityIncVmBody stream index =
     (let rawTarget = rawVlanTagTarget (rawOf stream) index;
          variableName = (if index = 1 then ''vlan_priority'' else ''vlan2_priority'');
          initValue = fromTarget rawTarget vlan_priority
            (if index = 1 then numOf stream ''vlan_priority'' else numOf stream ''vlan2_priority'');
          count = (if index = 1 then numOf stream ''vlan_priority_count'' else numOf stream ''vlan2_priority_count'');
          step = (if index = 1 then numOf stream ''vlan_priority_step'' else numOf stream ''vlan2_priority_step'');
          pktOffset = fromTarget rawTarget vlan_tciOffset (14 + 4 * (index - 1))
      in vmBody [flowVar variableName ''inc'' 1 initValue initValue (min 7 (initValue + count - 1)) step,
                 writeMaskFlowVar variableName 2 pktOffset 0xE000 13]
           variableName)"

definition buildInnerVlanPriorityIncVmBody :: "ProfileWorkbenchStream \<Rightarrow> AdvancedVmBody" where
  "buildInnerVlanPriorityIncVmBody stream = buildVlanPriorityIncVmBody stream 2"

definition buildVlanCfiVaryVmBody :: "ProfileWorkbenchStream \<Rightarrow> int \<Rightarrow> AdvancedVmBody" where
  "buildVlanCfiVaryVmBody stream index =
     (let rawTarget = rawVlanTagTarget (rawOf stream) index;
          variableName = (if index = 1 then ''vlan_cfi'' else ''vlan2_cfi'');
          initValue = fromTarget rawTarget vlan_cfi
            (if index = 1 then numOf stream ''vlan_cfi'' else numOf stream ''vlan2_cfi'');
          pktOffset = fromTarget rawTarget vlan_tciOffset (14 + 4 * (index - 1))
      in vmBody [flowVar variableName (if initValue = 1 then ''dec'' else ''inc'') 1 initValue 0 1 1,
                 writeMaskFlowVar variableName 2 pktOffset 0x1000 12]
           variableName)"

definition buildInnerVlanCfiVaryVmBody :: "ProfileWorkbenchStream \<Rightarrow> AdvancedVmBody" where
  "buildInnerVlanCfiVaryVmBody stream = buildVlanCfiVaryVmBody stream 2"

section \<open>MPLS labels\<close>

definition mplsLabelFieldEngineSize :: "int \<Rightarrow> int \<Rightarrow> int" where
  "mplsLabelFieldEngineSize label count =
     (if label + count < 256 then 1 else if label + count < 65536 then 2 else 4)"

definition mplsLabelFieldName :: "int \<Rightarrow> string" where
  "mplsLabelFieldName index = (if index = 1 then ''mpls_label'' else ''mpls_label'' @ decText index)"

definition mplsTrafficClassFieldName :: "int \<Rightarrow> string" where
  "mplsTrafficClassFieldName index =
     (if index = 1 then ''mpls_tc'' else ''mpls_label'' @ decText index @ ''_tc'')"

definition mplsTtlFieldName :: "int \<Rightarrow> string" where
  "mplsTtlFieldName index = (if index = 1 then ''mpls_ttl'' else ''mpls_label'' @ decText index @ ''_ttl'')"

definition mplsNumberField :: "ProfileWorkbenchStream \<Rightarrow> string \<Rightarrow> int" where
  "mplsNumberField stream field = (if finiteOf stream field then numOf stream field else 0)"

definition isMplsStream :: "ProfileWorkbenchStream option \<Rightarrow> bool" where
  "isMplsStream = onStream (\<lambda>s. rawMplsLabelTarget (rawOf s) 1 \<noteq> None \<or> flagOf s ''mpls_enabled'')"

definition isSecondMplsStream :: "ProfileWorkbenchStream option \<Rightarrow> bool" where
  "isSecondMplsStream = onStream (\<lambda>s.
     rawMplsLabelTarget (rawOf s) 2 \<noteq> None \<or> flagOf s ''mpls_enabled'' \<and> flagOf s ''mpls_label2_enabled'')"

definition isThirdMplsStream :: "ProfileWorkbenchStream option \<Rightarrow> bool" where
  "isThirdMplsStream = onStream (\<lambda>s.
     rawMplsLabelTarget (rawOf s) 3 \<noteq> None
     \<or> flagOf s ''mpls_enabled'' \<and> flagOf s ''mpls_label2_enabled'' \<and> flagOf s ''mpls_label3_enabled'')"

definition buildMplsLabelIncVmBodyForIndex :: "ProfileWorkbenchStream \<Rightarrow> int \<Rightarrow> AdvancedVmBody" where
  "buildMplsLabelIncVmBodyForIndex stream index =
     (let rawTarget = rawMplsLabelTarget (rawOf stream) index;
          mplsOffset = fromTarget rawTarget mpls_offset (outerMplsOffset stream + 4 * (index - 1));
          variableName = mplsLabelFieldName index;
          label = fromTarget rawTarget mpls_label (mplsNumberField stream variableName);
          count = mplsNumberField stream (variableName @ ''_count'');
          step = mplsNumberField stream (variableName @ ''_step'')
      in vmBody [flowVar variableName ''inc'' (mplsLabelFieldEngineSize label count) label label
                   (label + count - 1) step,
                 writeMaskFlowVar variableName 4 mplsOffset 0xFFFFF000 12]
           variableName)"

definition buildMplsLabelIncVmBody :: "ProfileWorkbenchStream \<Rightarrow> AdvancedVmBody" where
  "buildMplsLabelIncVmBody stream = buildMplsLabelIncVmBodyForIndex stream 1"

definition buildSecondMplsLabelIncVmBody :: "ProfileWorkbenchStream \<Rightarrow> AdvancedVmBody" where
  "buildSecondMplsLabelIncVmBody stream = buildMplsLabelIncVmBodyForIndex stream 2"

definition buildThirdMplsLabelIncVmBody :: "ProfileWorkbenchStream \<Rightarrow> AdvancedVmBody" where
  "buildThirdMplsLabelIncVmBody stream = buildMplsLabelIncVmBodyForIndex stream 3"

definition buildMplsTrafficClassIncVmBodyForIndex :: "ProfileWorkbenchStream \<Rightarrow> int \<Rightarrow> AdvancedVmBody" where
  "buildMplsTrafficClassIncVmBodyForIndex stream index =
     (let rawTarget = rawMplsLabelTarget (rawOf stream) index;
          mplsOffset = fromTarget rawTarget mpls_offset (outerMplsOffset stream + 4 * (index - 1));
          variableName = mplsTrafficClassFieldName index;
          trafficClass = fromTarget rawTarget mpls_trafficClass (mplsNumberField stream variableName);
          count = mplsNumberField stream (variableName @ ''_count'');
          step = mplsNumberField stream (variableName @ ''_step'')
      in vmBody [flowVar variableName ''inc'' 1 trafficClass trafficClass (min 7 (trafficClass + count - 1)) step,
                 writeMaskFlowVar variableName 4 mplsOffset 0x00000E00 9]
           variableName)"

definition buildMplsTrafficClassIncVmBody :: "ProfileWorkbenchStream \<Rightarrow> AdvancedVmBody" where
  "buildMplsTrafficClassIncVmBody stream = buildMplsTrafficClassIncVmBodyForIndex stream 1"

definition buildSecondMplsTrafficClassIncVmBody :: "ProfileWorkbenchStream \<Rightarrow> AdvancedVmBody" where
  "buildSecondMplsTrafficClassIncVmBody stream = buildMplsTrafficClassIncVmBodyForIndex stream 2"

definition buildThirdMplsTrafficClassIncVmBody :: "ProfileWorkbenchStream \<Rightarrow> AdvancedVmBody" where
  "buildThirdMplsTrafficClassIncVmBody stream = buildMplsTrafficClassIncVmBodyForIndex stream 3"

definition buildMplsTtlIncVmBodyForIndex :: "ProfileWorkbenchStream \<Rightarrow> int \<Rightarrow> AdvancedVmBody" where
  "buildMplsTtlIncVmBodyForIndex stream index =
     (let rawTarget = rawMplsLabelTarget (rawOf stream) index;
          mplsOffset = fromTarget rawTarget mpls_offset (outerMplsOffset stream + 4 * (index - 1));
          variableName = mplsTtlFieldName index;
          ttl = fromTarget rawTarget mpls_ttl (mplsNumberField stream variableName);
          count = mplsNumberField stream (variableName @ ''_count'');
          step = mplsNumberField stream (variableName @ ''_step'')
      in vmBody [flowVar variableName ''inc'' 1 ttl ttl (min 255 (ttl + count - 1)) step,
                 writeFlowVar variableName 0 (mplsOffset + 3)]
           variableName)"

definition buildMplsTtlIncVmBody :: "ProfileWorkbenchStream \<Rightarrow> AdvancedVmBody" where
  "buildMplsTtlIncVmBody stream = buildMplsTtlIncVmBodyForIndex stream 1"

definition buildSecondMplsTtlIncVmBody :: "ProfileWorkbenchStream \<Rightarrow> AdvancedVmBody" where
  "buildSecondMplsTtlIncVmBody stream = buildMplsTtlIncVmBodyForIndex stream 2"

definition buildThirdMplsTtlIncVmBody :: "ProfileWorkbenchStream \<Rightarrow> AdvancedVmBody" where
  "buildThirdMplsTtlIncVmBody stream = buildMplsTtlIncVmBodyForIndex stream 3"

section \<open>Sound for the packets they find their field in\<close>

lemma mac_template [template_sound]:
  assumes "rawOuterMacAddressTarget (rawOf s) side \<noteq> None" "countsPositive s"
  shows "bodySound (streamBytes (rawOf s)) (buildOuterMacAddressIncVmBody s side)"
proof -
  obtain t where t: "rawOuterMacAddressTarget (rawOf s) side = Some t" using assms(1) by auto
  have at: "rawPacketHasBytes (streamBytes (rawOf s)) (mac_offset t) 6"
    "mac_address t = formatPacketMac (streamBytes (rawOf s)) (mac_offset t)"
    using t by (auto simp: rawOuterMacAddressTarget_def Let_def split: if_splits)
  have "suffixOf (streamBytes (rawOf s)) (mac_offset t + 6)
      (macFieldEngineSuffix (mac_address t) count)" for count
    unfolding at(2) by (rule mac_suffix_sound [OF is_bytes_stream at(1)])
  then show ?thesis
    unfolding buildOuterMacAddressIncVmBody_def Let_def t fromTarget_simps
    by (rule suffix_write_sound) (use assms(2) in simp_all)
qed

lemma ether_type_template [template_sound]:
  assumes "rawOuterEtherTypeTarget (rawOf s) \<noteq> None"
  shows "bodySound (streamBytes (rawOf s)) (buildOuterEtherTypeIncVmBody s)"
  using assms unfolding buildOuterEtherTypeIncVmBody_def
  by (auto simp: rawOuterEtherTypeTarget_def Let_def in_range split: if_splits intro!: word_write_sound)

lemma arp_template [template_sound]:
  assumes "rawArpTarget (rawOf s) \<noteq> None" "countsPositive s"
  shows "bodySound (streamBytes (rawOf s)) (buildArpSenderIpIncVmBody s)"
    "bodySound (streamBytes (rawOf s)) (buildArpTargetIpIncVmBody s)"
    "bodySound (streamBytes (rawOf s)) (buildArpSenderMacIncVmBody s)"
    "bodySound (streamBytes (rawOf s)) (buildArpTargetMacIncVmBody s)"
    "bodySound (streamBytes (rawOf s)) (buildArpOperationIncVmBody s)"
proof -
  let ?bs = "streamBytes (rawOf s)"
  obtain t where t: "rawArpTarget (rawOf s) = Some t" using assms(1) by auto
  define off where "off = arp_arpOffset t"
  have at: "t = arpAt ?bs off" "rawPacketHasBytes ?bs off 28"
    using rawArpTarget_at [OF t] by (simp_all add: off_def)
  have within: "rawPacketHasBytes ?bs (off + k) n" if "0 \<le> k" "0 < n" "k + n \<le> 28" for k n
    using hasBytes_within [OF at(2), of "off + k" n] that by simp
  note suffix = ipv4_suffix_sound [OF is_bytes_stream within] mac_suffix_sound [OF is_bytes_stream within]
  show "bodySound ?bs (buildArpSenderIpIncVmBody s)"
    unfolding buildArpSenderIpIncVmBody_def Let_def t fromTarget_simps at(1) arpAt_def
    by (rule suffix_write_sound) (use assms(2) suffix(1) [of 14] in simp_all)
  show "bodySound ?bs (buildArpTargetIpIncVmBody s)"
    unfolding buildArpTargetIpIncVmBody_def Let_def t fromTarget_simps at(1) arpAt_def
    by (rule suffix_write_sound) (use assms(2) suffix(1) [of 24] in simp_all)
  show "bodySound ?bs (buildArpSenderMacIncVmBody s)"
    unfolding buildArpSenderMacIncVmBody_def Let_def t fromTarget_simps at(1) arpAt_def
    by (rule suffix_write_sound) (use assms(2) suffix(2) [of 8] in simp_all)
  show "bodySound ?bs (buildArpTargetMacIncVmBody s)"
    unfolding buildArpTargetMacIncVmBody_def Let_def t fromTarget_simps at(1) arpAt_def
    by (rule suffix_write_sound) (use assms(2) suffix(2) [of 18] in simp_all)
  show "bodySound ?bs (buildArpOperationIncVmBody s)"
    unfolding buildArpOperationIncVmBody_def Let_def t fromTarget_simps at(1) arpAt_def
    by (rule word_write_sound) (use assms(2) within [of 6 2] in \<open>simp_all add: in_range\<close>)
qed

lemma vlanTagAt_values:
  assumes "is_bytes bs"
  shows "vlan_vlanId (vlanTagAt bs et off) = rawPacketWord bs off mod 4096"
    "vlan_priority (vlanTagAt bs et off) = rawPacketWord bs off div 8192 mod 8"
    "vlan_cfi (vlanTagAt bs et off) = rawPacketWord bs off div 4096 mod 2"
  using rawPacketWord_range [OF assms, of off]
  by (simp_all add: vlanTagAt_def Let_def js_arith js_ushr_nonneg)

text \<open>A tag: the identifier 4095 is beyond the greatest value the builder allows.\<close>

lemma vlan_template [template_sound]:
  assumes "rawVlanTagTarget (rawOf s) index = Some t" "countsPositive s"
  shows "vlan_vlanId t \<le> 4094 \<Longrightarrow> bodySound (streamBytes (rawOf s)) (buildVlanIdIncVmBody s index)"
    "bodySound (streamBytes (rawOf s)) (buildVlanPriorityIncVmBody s index)"
    "bodySound (streamBytes (rawOf s)) (buildVlanCfiVaryVmBody s index)"
proof -
  let ?bs = "streamBytes (rawOf s)"
  let ?tci = "rawPacketWord ?bs (vlan_tciOffset t)"
  have at: "rawPacketHasBytes ?bs (vlan_tciOffset t) 4"
    "t = vlanTagAt ?bs (vlan_etherType t) (vlan_tciOffset t)"
    using assms(1) by (auto simp: rawVlanTagTarget_def Let_def split: if_splits dest: findVlanTag_at)
  have two: "rawPacketHasBytes ?bs (vlan_tciOffset t) 2"
    using hasBytes_within [OF at(1)] by simp
  have vals: "vlan_vlanId t = ?tci mod 4096" "vlan_priority t = ?tci div 8192 mod 8"
    "vlan_cfi t = ?tci div 4096 mod 2"
    by (subst at(2), simp add: vlanTagAt_values is_bytes_stream)+
  note field = field_body_sound [where rest = "[]" and castSize = 2 and off = "vlan_tciOffset t" and bs = ?bs,
      OF _ two, unfolded rawPacketNumberValue_2 [OF is_bytes_stream]]
  show "bodySound ?bs (buildVlanIdIncVmBody s index)" if "vlan_vlanId t \<le> 4094"
    unfolding buildVlanIdIncVmBody_def Let_def assms(1) fromTarget_simps
    by (rule field [where n = 12]) (use assms(2) vals(1) that in simp_all)
  show "bodySound ?bs (buildVlanPriorityIncVmBody s index)"
    unfolding buildVlanPriorityIncVmBody_def Let_def assms(1) fromTarget_simps
    by (rule field [where n = 3]) (use assms(2) vals(2) in simp_all)
  show "bodySound ?bs (buildVlanCfiVaryVmBody s index)"
    unfolding buildVlanCfiVaryVmBody_def Let_def assms(1) fromTarget_simps
    by (rule field [where n = 1]) (use vals(3) in simp_all)
qed

text \<open>A label: the greatest label the builder counts to is not limited to twenty bits.\<close>

lemma mpls_template [template_sound]:
  assumes "rawMplsLabelTarget (rawOf s) index = Some t" "countsPositive s"
  shows "mpls_label t + numOf s (mplsLabelFieldName index @ ''_count'') \<le> 1048576
      \<Longrightarrow> bodySound (streamBytes (rawOf s)) (buildMplsLabelIncVmBodyForIndex s index)"
    "bodySound (streamBytes (rawOf s)) (buildMplsTrafficClassIncVmBodyForIndex s index)"
    "bodySound (streamBytes (rawOf s)) (buildMplsTtlIncVmBodyForIndex s index)"
proof -
  let ?bs = "streamBytes (rawOf s)"
  let ?w = "rawPacketNumberValue ?bs (mpls_offset t) 4"
  have at: "rawPacketHasBytes ?bs (mpls_offset t) 4" "t = mplsLabelAt ?bs (mpls_offset t)"
    using assms(1) by (auto simp: rawMplsLabelTarget_def Let_def split: if_splits prod.splits dest: findMplsLabel_inside)
  note w = rawPacketNumberValue_range [OF is_bytes_stream, of "rawOf s" "mpls_offset t" 4]
  have vals: "mpls_label t = ?w div 4096 mod 1048576" "mpls_trafficClass t = ?w div 512 mod 8"
    "mpls_ttl t = byteAt ?bs (mpls_offset t + 3)"
  proof -
    show "mpls_label t = ?w div 4096 mod 1048576" "mpls_trafficClass t = ?w div 512 mod 8"
      by (subst at(2), use w in \<open>simp add: mplsLabelAt_def Let_def js_arith js_ushr_nonneg\<close>)+
    have "mpls_ttl t = ?w mod 256 ^ nat 1"
      by (subst at(2)) (simp add: mplsLabelAt_def Let_def js_arith)
    then show "mpls_ttl t = byteAt ?bs (mpls_offset t + 3)"
      using number_suffix [OF is_bytes_stream, of 1 4 "rawOf s" "mpls_offset t"]
      by (simp add: rawPacketNumberValue_1 add.commute)
  qed
  have label_lt: "mpls_label t < 4294967296" using vals(1) by simp
  note ttl = byteAt_range [OF is_bytes_stream, of "rawOf s" "mpls_offset t + 3"]
  have three: "rawPacketHasBytes ?bs (mpls_offset t + 3) 1"
    using hasBytes_within [OF at(1)] by simp
  note field = field_body_sound [where rest = "[]" and castSize = 4 and off = "mpls_offset t" and bs = ?bs,
      OF _ at(1)]
  show "bodySound ?bs (buildMplsLabelIncVmBodyForIndex s index)"
    if "mpls_label t + numOf s (mplsLabelFieldName index @ ''_count'') \<le> 1048576"
    unfolding buildMplsLabelIncVmBodyForIndex_def Let_def assms(1) fromTarget_simps
    by (rule field [where n = 20])
      (use assms(2) vals(1) that in \<open>auto simp: mplsNumberField_def mplsLabelFieldEngineSize_def\<close>)
  show "bodySound ?bs (buildMplsTrafficClassIncVmBodyForIndex s index)"
    unfolding buildMplsTrafficClassIncVmBodyForIndex_def Let_def assms(1) fromTarget_simps
    by (rule field [where n = 3]) (use assms(2) vals(2) in \<open>auto simp: mplsNumberField_def\<close>)
  show "bodySound ?bs (buildMplsTtlIncVmBodyForIndex s index)"
    unfolding buildMplsTtlIncVmBodyForIndex_def Let_def assms(1) fromTarget_simps
    by (rule number_body_sound)
      (use assms(2) vals(3) three ttl in \<open>auto simp: mplsNumberField_def rawPacketNumberValue_1\<close>)
qed

end
