(* ===== verification/VmIpv4.thy ===== *)
theory VmIpv4
  imports VmLink
begin

text \<open>
  The templates of the outer IPv4 header (\<open>advancedVmOuterIpv4Model.ts\<close>), of UDP and TCP ports and
  five-tuples over IPv4 (\<open>advancedVmOuterIpv4TransportModel.ts\<close>) and of the UDP length and
  checksum (\<open>advancedVmUdpHeaderModel.ts\<close>).
\<close>

section \<open>Which streams\<close>

definition isAdvancedOuterIpv4Stream :: "ProfileWorkbenchStream option \<Rightarrow> bool" where
  "isAdvancedOuterIpv4Stream = onStream (\<lambda>s.
     rawOuterIpv4Target (rawOf s) \<noteq> None
     \<or> startsWith (packetType s) ''Ethernet/IPv4'' \<and> \<not> flagOf s ''vxlan_enabled'' \<and> \<not> flagOf s ''gtpu_enabled'')"

definition isAdvancedOuterIpv4UdpStream :: "ProfileWorkbenchStream option \<Rightarrow> bool" where
  "isAdvancedOuterIpv4UdpStream = onStream (\<lambda>s.
     if hasBinary s then rawOuterIpv4L4Target (rawOf s) 17 \<noteq> None
     else packetType s = ''Ethernet/IPv4/UDP'' \<and> \<not> flagOf s ''vxlan_enabled'' \<and> \<not> flagOf s ''gtpu_enabled'')"

definition isAdvancedOuterIpv4TcpStream :: "ProfileWorkbenchStream option \<Rightarrow> bool" where
  "isAdvancedOuterIpv4TcpStream = onStream (\<lambda>s.
     if hasBinary s
     then (case rawOuterIpv4L4Target (rawOf s) 6 of
             None \<Rightarrow> False
           | Some t \<Rightarrow> rawPacketTcpHeaderOffset (l44_bytes t) (l44_offset t) None \<noteq> None)
     else packetType s = ''Ethernet/IPv4/TCP'' \<and> \<not> flagOf s ''vxlan_enabled'' \<and> \<not> flagOf s ''gtpu_enabled'')"

section \<open>The header\<close>

datatype FieldSide = SrcField | DstField

definition rawIpv4ChecksumRepairInstruction :: "Ipv4Target \<Rightarrow> VmValue" where
  "rawIpv4ChecksumRepairInstruction target =
     (if v4_protocol target = 17 \<or> v4_protocol target = 6
      then fixChecksumHw (v4_l3Offset target) (v4_l3Length target) (if v4_protocol target = 17 then 11 else 13)
      else fixChecksumIpv4 (v4_l3Offset target))"

definition buildOuterIpv4AddressVmBody :: "ProfileWorkbenchStream \<Rightarrow> FieldSide \<Rightarrow> string \<Rightarrow> AdvancedVmBody" where
  "buildOuterIpv4AddressVmBody stream field operation =
     (let count = largeUnitCountNumber
            (if field = SrcField then unitOf stream ''ipv4_src_count'' else unitOf stream ''ipv4_dst_count'') 16;
          step = (if field = SrcField then numOf stream ''ipv4_src_step'' else numOf stream ''ipv4_dst_step'');
          variableName = (if field = SrcField then ''ipv4_src'' else ''ipv4_dst'')
      in case rawOuterIpv4Target (rawOf stream) of
           Some rawTarget \<Rightarrow>
             (let baseOffset = v4_l3Offset rawTarget + (if field = DstField then 16 else 12);
                  suffix = ipv4FieldEngineSuffix (formatPacketIpv4 (v4_bytes rawTarget) baseOffset) count;
                  maxLimit = fieldEngineMaxForSize (sfx_size suffix);
                  maxValue = (if operation = ''random'' then maxLimit
                              else min maxLimit (sfx_initValue suffix + count - 1))
              in numberBody variableName operation (sfx_size suffix) (sfx_initValue suffix)
                   (if operation = ''random'' then 0 else sfx_initValue suffix) maxValue step
                   (baseOffset + 4 - sfx_size suffix) [rawIpv4ChecksumRepairInstruction rawTarget])
         | None \<Rightarrow>
             (let address = (if field = SrcField then textOf stream ''ipv4_src'' else textOf stream ''ipv4_dst'');
                  suffix = ipv4FieldEngineSuffix address count;
                  maxValue = min (fieldEngineMaxForSize (sfx_size suffix)) (sfx_initValue suffix + count - 1);
                  baseOffset = outerIpv4Offset stream + (if field = DstField then 16 else 12)
              in numberBody variableName operation (sfx_size suffix) (sfx_initValue suffix)
                   (sfx_initValue suffix) maxValue step
                   (baseOffset + 4 - sfx_size suffix) [outerIpv4ChecksumRepairInstruction stream]))"

definition buildOuterIpv4SrcIncVmBody :: "ProfileWorkbenchStream \<Rightarrow> AdvancedVmBody" where
  "buildOuterIpv4SrcIncVmBody stream = buildOuterIpv4AddressVmBody stream SrcField ''inc''"

definition buildOuterIpv4SrcRandomVmBody :: "ProfileWorkbenchStream \<Rightarrow> AdvancedVmBody" where
  "buildOuterIpv4SrcRandomVmBody stream = buildOuterIpv4AddressVmBody stream SrcField ''random''"

definition buildOuterIpv4DstIncVmBody :: "ProfileWorkbenchStream \<Rightarrow> AdvancedVmBody" where
  "buildOuterIpv4DstIncVmBody stream = buildOuterIpv4AddressVmBody stream DstField ''inc''"

definition buildOuterIpv4DstRandomVmBody :: "ProfileWorkbenchStream \<Rightarrow> AdvancedVmBody" where
  "buildOuterIpv4DstRandomVmBody stream = buildOuterIpv4AddressVmBody stream DstField ''random''"

definition buildOuterIpv4IdIncVmBody :: "ProfileWorkbenchStream \<Rightarrow> AdvancedVmBody" where
  "buildOuterIpv4IdIncVmBody stream =
     (case rawOuterIpv4Target (rawOf stream) of
        Some rawTarget \<Rightarrow>
          buildAdvancedNumberWriteVmBody
            \<lparr>nw_checksumInstruction = Some (rawIpv4ChecksumRepairInstruction rawTarget),
             nw_count = numOf stream ''ipv4_id_count'',
             nw_initValue = rawPacketWord (v4_bytes rawTarget) (v4_l3Offset rawTarget + 4),
             nw_maxLimit = 65535, nw_name = ''ip_id'', nw_pktOffset = v4_l3Offset rawTarget + 4,
             nw_size = 2, nw_step = numOf stream ''ipv4_id_step''\<rparr>
      | None \<Rightarrow>
          numberBody ''ip_id'' ''inc'' 2 (numOf stream ''ipv4_id'') (numOf stream ''ipv4_id'')
            (min 65535 (numOf stream ''ipv4_id'' + numOf stream ''ipv4_id_count'' - 1))
            (numOf stream ''ipv4_id_step'') (outerIpv4Offset stream + 4)
            [outerIpv4ChecksumRepairInstruction stream])"

definition buildOuterIpv4DscpIncVmBody :: "ProfileWorkbenchStream \<Rightarrow> AdvancedVmBody" where
  "buildOuterIpv4DscpIncVmBody stream =
     (case rawOuterIpv4Target (rawOf stream) of
        Some rawTarget \<Rightarrow>
          (let initValue = js_ushr (js_and (byteAt (v4_bytes rawTarget) (v4_l3Offset rawTarget + 1)) 0xfc) 2
           in maskedBody ''ip_dscp'' ''inc'' 1 initValue initValue
                (min 63 (initValue + numOf stream ''ipv4_dscp_count'' - 1)) (numOf stream ''ipv4_dscp_step'')
                1 (v4_l3Offset rawTarget + 1) 0xFC 2 [rawIpv4ChecksumRepairInstruction rawTarget])
      | None \<Rightarrow>
          maskedBody ''ip_dscp'' ''inc'' 1 (numOf stream ''ipv4_dscp'') (numOf stream ''ipv4_dscp'')
            (min 63 (numOf stream ''ipv4_dscp'' + numOf stream ''ipv4_dscp_count'' - 1))
            (numOf stream ''ipv4_dscp_step'') 1 (outerIpv4Offset stream + 1) 0xFC 2
            [outerIpv4ChecksumRepairInstruction stream])"

definition buildOuterIpv4EcnIncVmBody :: "ProfileWorkbenchStream \<Rightarrow> AdvancedVmBody" where
  "buildOuterIpv4EcnIncVmBody stream =
     (case rawOuterIpv4Target (rawOf stream) of
        Some rawTarget \<Rightarrow>
          (let initValue = js_and (byteAt (v4_bytes rawTarget) (v4_l3Offset rawTarget + 1)) 0x03
           in maskedBody ''ip_ecn'' ''inc'' 1 initValue initValue
                (min 3 (initValue + numOf stream ''ipv4_ecn_count'' - 1)) (numOf stream ''ipv4_ecn_step'')
                1 (v4_l3Offset rawTarget + 1) 0x03 0 [rawIpv4ChecksumRepairInstruction rawTarget])
      | None \<Rightarrow>
          maskedBody ''ip_ecn'' ''inc'' 1 (numOf stream ''ipv4_ecn'') (numOf stream ''ipv4_ecn'')
            (min 3 (numOf stream ''ipv4_ecn'' + numOf stream ''ipv4_ecn_count'' - 1))
            (numOf stream ''ipv4_ecn_step'') 1 (outerIpv4Offset stream + 1) 0x03 0
            [outerIpv4ChecksumRepairInstruction stream])"

definition buildOuterIpv4FragmentOffsetIncVmBody :: "ProfileWorkbenchStream \<Rightarrow> AdvancedVmBody" where
  "buildOuterIpv4FragmentOffsetIncVmBody stream =
     (case rawOuterIpv4Target (rawOf stream) of
        Some rawTarget \<Rightarrow>
          (let initValue = js_and (rawPacketWord (v4_bytes rawTarget) (v4_l3Offset rawTarget + 6)) 0x1fff
           in maskedBody ''ip_fragment_offset'' ''inc'' 2 initValue initValue
                (min 8191 (initValue + numOf stream ''ipv4_fragment_offset_count'' - 1))
                (numOf stream ''ipv4_fragment_offset_step'')
                2 (v4_l3Offset rawTarget + 6) 0x1FFF 0 [rawIpv4ChecksumRepairInstruction rawTarget])
      | None \<Rightarrow>
          maskedBody ''ip_fragment_offset'' ''inc'' 2 (numOf stream ''ipv4_fragment_offset'')
            (numOf stream ''ipv4_fragment_offset'')
            (min 8191 (numOf stream ''ipv4_fragment_offset'' + numOf stream ''ipv4_fragment_offset_count'' - 1))
            (numOf stream ''ipv4_fragment_offset_step'') 2 (outerIpv4Offset stream + 6) 0x1FFF 0
            [outerIpv4ChecksumRepairInstruction stream])"

datatype Ipv4Flag = ReservedFlag | DfFlag | MfFlag

record FlagField =
  flag_initValue :: int
  flag_mask :: int
  flag_shift :: int
  flag_variableName :: string

definition outerIpv4Flag :: "ProfileWorkbenchStream \<Rightarrow> Ipv4Flag \<Rightarrow> FlagField" where
  "outerIpv4Flag stream target =
     (case target of
        DfFlag \<Rightarrow> \<lparr>flag_initValue = (if flagOf stream ''ipv4_flag_df'' then 1 else 0), flag_mask = 0x4000,
                  flag_shift = 14, flag_variableName = ''ip_df''\<rparr>
      | MfFlag \<Rightarrow> \<lparr>flag_initValue = (if flagOf stream ''ipv4_flag_mf'' then 1 else 0), flag_mask = 0x2000,
                  flag_shift = 13, flag_variableName = ''ip_mf''\<rparr>
      | ReservedFlag \<Rightarrow> \<lparr>flag_initValue = 0, flag_mask = 0x8000, flag_shift = 15,
                  flag_variableName = ''ip_reserved''\<rparr>)"

definition buildOuterIpv4FlagVaryVmBody :: "ProfileWorkbenchStream \<Rightarrow> Ipv4Flag \<Rightarrow> AdvancedVmBody" where
  "buildOuterIpv4FlagVaryVmBody stream target =
     (let rawTarget = rawOuterIpv4Target (rawOf stream);
          flag = outerIpv4Flag stream target;
          initValue = fromTarget rawTarget
            (\<lambda>t. js_ushr (js_and (rawPacketWord (v4_bytes t) (v4_l3Offset t + 6)) (flag_mask flag)) (flag_shift flag))
            (flag_initValue flag);
          ipv4Offset = fromTarget rawTarget v4_l3Offset (outerIpv4Offset stream);
          checksumInstruction = fromTarget rawTarget rawIpv4ChecksumRepairInstruction
            (outerIpv4ChecksumRepairInstruction stream)
      in maskedBody (flag_variableName flag) (if initValue = 1 then ''dec'' else ''inc'') 1 initValue 0 1 1
           2 (ipv4Offset + 6) (flag_mask flag) (flag_shift flag) [checksumInstruction])"

definition buildOuterIpv4ReservedFlagVaryVmBody :: "ProfileWorkbenchStream \<Rightarrow> AdvancedVmBody" where
  "buildOuterIpv4ReservedFlagVaryVmBody stream = buildOuterIpv4FlagVaryVmBody stream ReservedFlag"

definition buildOuterIpv4DfFlagVaryVmBody :: "ProfileWorkbenchStream \<Rightarrow> AdvancedVmBody" where
  "buildOuterIpv4DfFlagVaryVmBody stream = buildOuterIpv4FlagVaryVmBody stream DfFlag"

definition buildOuterIpv4MfFlagVaryVmBody :: "ProfileWorkbenchStream \<Rightarrow> AdvancedVmBody" where
  "buildOuterIpv4MfFlagVaryVmBody stream = buildOuterIpv4FlagVaryVmBody stream MfFlag"

definition buildOuterIpv4TtlIncVmBody :: "ProfileWorkbenchStream \<Rightarrow> AdvancedVmBody" where
  "buildOuterIpv4TtlIncVmBody stream =
     (case rawOuterIpv4Target (rawOf stream) of
        Some rawTarget \<Rightarrow>
          buildAdvancedNumberWriteVmBody
            \<lparr>nw_checksumInstruction = Some (rawIpv4ChecksumRepairInstruction rawTarget),
             nw_count = numOf stream ''ipv4_ttl_count'',
             nw_initValue = byteAt (v4_bytes rawTarget) (v4_l3Offset rawTarget + 8),
             nw_maxLimit = 255, nw_name = ''ip_ttl'', nw_pktOffset = v4_l3Offset rawTarget + 8,
             nw_size = 1, nw_step = numOf stream ''ipv4_ttl_step''\<rparr>
      | None \<Rightarrow>
          numberBody ''ip_ttl'' ''inc'' 1 (numOf stream ''ipv4_ttl'') (numOf stream ''ipv4_ttl'')
            (min 255 (numOf stream ''ipv4_ttl'' + numOf stream ''ipv4_ttl_count'' - 1))
            (numOf stream ''ipv4_ttl_step'') (outerIpv4Offset stream + 8)
            [outerIpv4ChecksumRepairInstruction stream])"

section \<open>Ports and five-tuples\<close>

definition buildOuterPortVmBody ::
  "ProfileWorkbenchStream \<Rightarrow> FieldSide \<Rightarrow> string \<Rightarrow> int \<Rightarrow> int \<Rightarrow> int \<Rightarrow> AdvancedVmBody" where
  "buildOuterPortVmBody stream field name protocol l4Type minHeaderLength =
     (let rawTarget = rawOuterTransportTarget (rawOf stream) protocol l4Type minHeaderLength;
          l4Offset = fromTarget rawTarget tr_offset (outerL4Offset stream);
          fieldOffset = l4Offset + (if field = DstField then 2 else 0)
      in buildAdvancedNumberWriteVmBody
           \<lparr>nw_checksumInstruction = Some (fromTarget rawTarget (\<lambda>t. checksumObject (tr_checksumInstruction t))
              (fixChecksumHw (outerIpv4Offset stream) 20 l4Type)),
            nw_count = numOf stream (if field = DstField then ''l4_dst_port_count'' else ''l4_src_port_count''),
            nw_initValue = fromTarget rawTarget (\<lambda>t. rawPacketWord (tr_bytes t) fieldOffset)
              (numOf stream (if field = DstField then ''l4_dst_port'' else ''l4_src_port'')),
            nw_maxLimit = 65535, nw_name = name, nw_pktOffset = fieldOffset, nw_size = 2,
            nw_step = numOf stream (if field = DstField then ''l4_dst_port_step'' else ''l4_src_port_step'')\<rparr>)"

definition buildOuterUdpSrcPortIncVmBody :: "ProfileWorkbenchStream \<Rightarrow> AdvancedVmBody" where
  "buildOuterUdpSrcPortIncVmBody stream = buildOuterPortVmBody stream SrcField ''udp_src'' 17 11 8"

definition buildOuterUdpDstPortIncVmBody :: "ProfileWorkbenchStream \<Rightarrow> AdvancedVmBody" where
  "buildOuterUdpDstPortIncVmBody stream = buildOuterPortVmBody stream DstField ''udp_dst'' 17 11 8"

definition buildOuterTcpSrcPortIncVmBody :: "ProfileWorkbenchStream \<Rightarrow> AdvancedVmBody" where
  "buildOuterTcpSrcPortIncVmBody stream = buildOuterPortVmBody stream SrcField ''tcp_src'' 6 13 20"

definition buildOuterTcpDstPortIncVmBody :: "ProfileWorkbenchStream \<Rightarrow> AdvancedVmBody" where
  "buildOuterTcpDstPortIncVmBody stream = buildOuterPortVmBody stream DstField ''tcp_dst'' 6 13 20"

definition fiveTupleTarget :: "RawStream option \<Rightarrow> int \<Rightarrow> int \<Rightarrow> Ipv4L4Target option" where
  "fiveTupleTarget stream protocol minHeaderLength =
     (case rawOuterIpv4L4Target stream protocol of
        None \<Rightarrow> None
      | Some t \<Rightarrow>
          if rawPacketHasBytes (l44_bytes t) (l44_offset t) minHeaderLength
            \<and> (protocol \<noteq> 6 \<or> rawPacketTcpHeaderOffset (l44_bytes t) (l44_offset t) None \<noteq> None)
          then Some t else None)"

definition buildOuterIpv4TransportFiveTupleVmBody ::
  "ProfileWorkbenchStream \<Rightarrow> string \<Rightarrow> int \<Rightarrow> int \<Rightarrow> int \<Rightarrow> string \<Rightarrow> AdvancedVmBody" where
  "buildOuterIpv4TransportFiveTupleVmBody stream dstPortName l4Type minHeaderLength protocol srcPortName =
     (let rawTarget = fiveTupleTarget (rawOf stream) protocol minHeaderLength;
          ipv4Offset = fromTarget rawTarget l44_l3Offset (outerIpv4Offset stream);
          l4Offset = fromTarget rawTarget l44_offset (outerL4Offset stream);
          ipv4SrcCount = largeUnitCountNumber (unitOf stream ''ipv4_src_count'') 16;
          ipv4DstCount = largeUnitCountNumber (unitOf stream ''ipv4_dst_count'') 16;
          ipv4SrcSuffix = ipv4FieldEngineSuffix
            (fromTarget rawTarget (\<lambda>t. formatPacketIpv4 (l44_bytes t) (ipv4Offset + 12)) (textOf stream ''ipv4_src''))
            ipv4SrcCount;
          ipv4DstSuffix = ipv4FieldEngineSuffix
            (fromTarget rawTarget (\<lambda>t. formatPacketIpv4 (l44_bytes t) (ipv4Offset + 16)) (textOf stream ''ipv4_dst''))
            ipv4DstCount;
          checksumInstruction = fromTarget rawTarget (\<lambda>t. fixChecksumHw (l44_l3Offset t) (l44_l3Length t) l4Type)
            (fixChecksumHw ipv4Offset 20 l4Type)
      in vmBody
           (advancedNumberWriteInstructions
              \<lparr>nw_checksumInstruction = None, nw_count = ipv4SrcCount, nw_initValue = sfx_initValue ipv4SrcSuffix,
               nw_maxLimit = fieldEngineMaxForSize (sfx_size ipv4SrcSuffix), nw_name = ''ipv4_src'',
               nw_pktOffset = ipv4Offset + 16 - sfx_size ipv4SrcSuffix, nw_size = sfx_size ipv4SrcSuffix,
               nw_step = numOf stream ''ipv4_src_step''\<rparr>
            @ advancedNumberWriteInstructions
              \<lparr>nw_checksumInstruction = None, nw_count = ipv4DstCount, nw_initValue = sfx_initValue ipv4DstSuffix,
               nw_maxLimit = fieldEngineMaxForSize (sfx_size ipv4DstSuffix), nw_name = ''ipv4_dst'',
               nw_pktOffset = ipv4Offset + 20 - sfx_size ipv4DstSuffix, nw_size = sfx_size ipv4DstSuffix,
               nw_step = numOf stream ''ipv4_dst_step''\<rparr>
            @ advancedNumberWriteInstructions
              \<lparr>nw_checksumInstruction = None, nw_count = numOf stream ''l4_src_port_count'',
               nw_initValue = fromTarget rawTarget (\<lambda>t. rawPacketWord (l44_bytes t) l4Offset)
                 (numOf stream ''l4_src_port''),
               nw_maxLimit = 65535, nw_name = srcPortName, nw_pktOffset = l4Offset, nw_size = 2,
               nw_step = numOf stream ''l4_src_port_step''\<rparr>
            @ advancedNumberWriteInstructions
              \<lparr>nw_checksumInstruction = None, nw_count = numOf stream ''l4_dst_port_count'',
               nw_initValue = fromTarget rawTarget (\<lambda>t. rawPacketWord (l44_bytes t) (l4Offset + 2))
                 (numOf stream ''l4_dst_port''),
               nw_maxLimit = 65535, nw_name = dstPortName, nw_pktOffset = l4Offset + 2, nw_size = 2,
               nw_step = numOf stream ''l4_dst_port_step''\<rparr>
            @ [checksumInstruction])
           ''ipv4_src'')"

definition buildOuterUdpFiveTupleVmBody :: "ProfileWorkbenchStream \<Rightarrow> AdvancedVmBody" where
  "buildOuterUdpFiveTupleVmBody stream =
     buildOuterIpv4TransportFiveTupleVmBody stream ''udp_dst'' 11 8 17 ''udp_src''"

definition buildOuterTcpFiveTupleVmBody :: "ProfileWorkbenchStream \<Rightarrow> AdvancedVmBody" where
  "buildOuterTcpFiveTupleVmBody stream =
     buildOuterIpv4TransportFiveTupleVmBody stream ''tcp_dst'' 13 20 6 ''tcp_src''"

section \<open>UDP length and checksum\<close>

datatype IpVersion = IPv4Version | IPv6Version

definition udpHeaderOffset :: "ProfileWorkbenchStream \<Rightarrow> IpVersion \<Rightarrow> int" where
  "udpHeaderOffset stream ipVersion =
     fromTarget (rawOuterTransportTarget (rawOf stream) 17 11 8) tr_offset
       (if ipVersion = IPv6Version then outerIpv6L4Offset stream else outerL4Offset stream)"

definition buildOuterUdpLengthIncVmBody :: "ProfileWorkbenchStream \<Rightarrow> IpVersion \<Rightarrow> AdvancedVmBody" where
  "buildOuterUdpLengthIncVmBody stream ipVersion =
     (let rawTarget = rawOuterTransportTarget (rawOf stream) 17 11 8;
          udpOffset = udpHeaderOffset stream ipVersion;
          checksumInstruction = fromTarget rawTarget (\<lambda>t. checksumObject (tr_checksumInstruction t))
            (if ipVersion = IPv6Version then outerIpv6ChecksumInstruction stream 11
             else fixChecksumHw (outerIpv4Offset stream) 20 11);
          initValue = fromTarget rawTarget (\<lambda>t. rawPacketWord (tr_bytes t) (udpOffset + 4)) (numOf stream ''udp_length'')
      in numberBody ''udp_length'' ''inc'' 2 initValue initValue
           (min 65535 (initValue + numOf stream ''udp_length_count'' - 1)) (numOf stream ''udp_length_step'')
           (udpOffset + 4) [checksumInstruction])"

definition buildOuterUdpChecksumIncVmBody :: "ProfileWorkbenchStream \<Rightarrow> IpVersion \<Rightarrow> AdvancedVmBody" where
  "buildOuterUdpChecksumIncVmBody stream ipVersion =
     (let rawTarget = rawOuterTransportTarget (rawOf stream) 17 11 8;
          udpOffset = udpHeaderOffset stream ipVersion;
          initValue = fromTarget rawTarget (\<lambda>t. rawPacketWord (tr_bytes t) (udpOffset + 6))
            (orElse (jsParseInt 16 (textOf stream ''udp_checksum'')) 0)
      in numberBody ''udp_checksum'' ''inc'' 2 initValue initValue
           (min 65535 (initValue + numOf stream ''udp_checksum_count'' - 1)) (numOf stream ''udp_checksum_step'')
           (udpOffset + 6) [])"

definition buildOuterIpv4UdpLengthIncVmBody :: "ProfileWorkbenchStream \<Rightarrow> AdvancedVmBody" where
  "buildOuterIpv4UdpLengthIncVmBody stream = buildOuterUdpLengthIncVmBody stream IPv4Version"

definition buildOuterIpv4UdpChecksumIncVmBody :: "ProfileWorkbenchStream \<Rightarrow> AdvancedVmBody" where
  "buildOuterIpv4UdpChecksumIncVmBody stream = buildOuterUdpChecksumIncVmBody stream IPv4Version"

definition buildOuterIpv6UdpLengthIncVmBody :: "ProfileWorkbenchStream \<Rightarrow> AdvancedVmBody" where
  "buildOuterIpv6UdpLengthIncVmBody stream = buildOuterUdpLengthIncVmBody stream IPv6Version"

definition buildOuterIpv6UdpChecksumIncVmBody :: "ProfileWorkbenchStream \<Rightarrow> AdvancedVmBody" where
  "buildOuterIpv6UdpChecksumIncVmBody stream = buildOuterUdpChecksumIncVmBody stream IPv6Version"

section \<open>Sound for the packets they find their field in\<close>

lemma ipv4_repairs [simp]: "viewOf (rawIpv4ChecksumRepairInstruction t) = OtherView"
  by (simp add: rawIpv4ChecksumRepairInstruction_def)

lemma ipv4_address_template [template_sound]:
  assumes "rawOuterIpv4Target (rawOf s) \<noteq> None" "countsPositive s"
  shows "bodySound (streamBytes (rawOf s)) (buildOuterIpv4AddressVmBody s field operation)"
proof -
  let ?bs = "streamBytes (rawOf s)"
  obtain t where t: "rawOuterIpv4Target (rawOf s) = Some t" using assms(1) by auto
  note at = rawOuterIpv4TargetD [OF t]
  define base where "base = v4_l3Offset t + (if field = DstField then 16 else 12)"
  define count where "count = largeUnitCountNumber
    (if field = SrcField then unitOf s ''ipv4_src_count'' else unitOf s ''ipv4_dst_count'') 16"
  have "rawPacketHasBytes ?bs base 4"
    by (rule hasBytes_within [OF at(2)]) (use at(3) in \<open>simp_all add: base_def\<close>)
  note found = ipv4_suffix_sound [OF is_bytes_stream this, of count]
  define sfx where "sfx = ipv4FieldEngineSuffix (formatPacketIpv4 ?bs base) count"
  have "2 \<le> count" unfolding count_def by (rule largeUnitCount_range) simp_all
  then show ?thesis
    unfolding buildOuterIpv4AddressVmBody_def Let_def t option.case at(1)
      base_def [symmetric] count_def [symmetric] sfx_def [symmetric]
    by (intro numberBody_sound)
      (use assms(2) found [folded sfx_def] fieldEngineMax_less [of "sfx_size sfx"]
        in \<open>simp_all add: suffixOf_def min_less_iff_disj\<close>)
qed

lemma ipv4_number_template [template_sound]:
  assumes "rawOuterIpv4Target (rawOf s) \<noteq> None" "countsPositive s"
  shows "bodySound (streamBytes (rawOf s)) (buildOuterIpv4IdIncVmBody s)"
    "bodySound (streamBytes (rawOf s)) (buildOuterIpv4TtlIncVmBody s)"
proof -
  obtain t where t: "rawOuterIpv4Target (rawOf s) = Some t" using assms(1) by auto
  note at = rawOuterIpv4TargetD [OF t]
  have within: "rawPacketHasBytes (streamBytes (rawOf s)) (v4_l3Offset t + k) n" if "0 \<le> k" "0 < n" "k + n \<le> 20" for k n
    by (rule hasBytes_within [OF at(2)]) (use at(3) that in simp_all)
  show "bodySound (streamBytes (rawOf s)) (buildOuterIpv4IdIncVmBody s)"
    unfolding buildOuterIpv4IdIncVmBody_def t option.case at(1)
    by (rule word_write_sound) (use assms(2) within in \<open>simp_all add: in_range\<close>)
  show "bodySound (streamBytes (rawOf s)) (buildOuterIpv4TtlIncVmBody s)"
    unfolding buildOuterIpv4TtlIncVmBody_def t option.case at(1)
    by (rule byte_write_sound) (use assms(2) within in \<open>simp_all add: in_range\<close>)
qed

lemma ipv4_field_template [template_sound]:
  assumes "rawOuterIpv4Target (rawOf s) \<noteq> None" "countsPositive s"
  shows "bodySound (streamBytes (rawOf s)) (buildOuterIpv4DscpIncVmBody s)"
    "bodySound (streamBytes (rawOf s)) (buildOuterIpv4EcnIncVmBody s)"
    "bodySound (streamBytes (rawOf s)) (buildOuterIpv4FragmentOffsetIncVmBody s)"
    "bodySound (streamBytes (rawOf s)) (buildOuterIpv4FlagVaryVmBody s target)"
proof -
  let ?bs = "streamBytes (rawOf s)"
  obtain t where t: "rawOuterIpv4Target (rawOf s) = Some t" using assms(1) by auto
  note at = rawOuterIpv4TargetD [OF t]
  have within: "rawPacketHasBytes ?bs (v4_l3Offset t + k) n" if "0 \<le> k" "0 < n" "k + n \<le> 20" for k n
    by (rule hasBytes_within [OF at(2)]) (use at(3) that in simp_all)
  note b = byteAt_range [OF is_bytes_stream, of "rawOf s" "v4_l3Offset t + 1"]
  note w = rawPacketWord_range [OF is_bytes_stream, of "rawOf s" "v4_l3Offset t + 6"]
  have dscp: "js_ushr (js_and (byteAt ?bs (v4_l3Offset t + 1)) 0xfc) 2 = byteAt ?bs (v4_l3Offset t + 1) div 4 mod 64"
    using b by (simp add: js_and_field [where n = 6 and k = 2] js_ushr_nonneg)
  show "bodySound ?bs (buildOuterIpv4DscpIncVmBody s)"
    unfolding buildOuterIpv4DscpIncVmBody_def t option.case at(1) Let_def dscp
    by (rule maskedBody_sound [where n = 6]) (use assms(2) within in \<open>simp_all add: rawPacketNumberValue_1\<close>)
  show "bodySound ?bs (buildOuterIpv4EcnIncVmBody s)"
    unfolding buildOuterIpv4EcnIncVmBody_def t option.case at(1) Let_def js_arith
    by (rule maskedBody_sound [where n = 2]) (use assms(2) within in \<open>simp_all add: rawPacketNumberValue_1\<close>)
  show "bodySound ?bs (buildOuterIpv4FragmentOffsetIncVmBody s)"
    unfolding buildOuterIpv4FragmentOffsetIncVmBody_def t option.case at(1) Let_def js_arith
    by (rule maskedBody_sound [where n = 13])
      (use assms(2) within in \<open>simp_all add: rawPacketNumberValue_2 is_bytes_stream\<close>)
  define word where "word = rawPacketWord ?bs (v4_l3Offset t + 6)"
  have flag: "js_ushr (js_and word m) k = word div 2 ^ nat k mod 2" "m = (2 ^ 1 - 1) * 2 ^ nat k" "0 \<le> k"
    if "(m, k) \<in> {(0x4000, 14), (0x2000, 13), (0x8000, 15)}" for m k
    using that w unfolding word_def [symmetric]
    by (auto simp: js_and_field [where n = 1 and k = 14] js_and_field [where n = 1 and k = 13]
        js_and_field [where n = 1 and k = 15] js_ushr_nonneg)
  have mk: "(flag_mask (outerIpv4Flag s target), flag_shift (outerIpv4Flag s target))
      \<in> {(0x4000, 14), (0x2000, 13), (0x8000, 15)}"
    by (cases target) (simp_all add: outerIpv4Flag_def)
  show "bodySound ?bs (buildOuterIpv4FlagVaryVmBody s target)"
    unfolding buildOuterIpv4FlagVaryVmBody_def t fromTarget_simps at(1) Let_def word_def [symmetric] flag(1) [OF mk]
    by (rule maskedBody_sound [where n = 1])
      (use within flag(2,3) [OF mk] in \<open>simp_all add: rawPacketNumberValue_2 is_bytes_stream word_def\<close>)
qed

lemma port_template [template_sound]:
  assumes "rawOuterTransportTarget (rawOf s) protocol ty len \<noteq> None" "4 \<le> len" "countsPositive s"
  shows "bodySound (streamBytes (rawOf s)) (buildOuterPortVmBody s field name protocol ty len)"
proof -
  obtain t where t: "rawOuterTransportTarget (rawOf s) protocol ty len = Some t" using assms(1) by auto
  note at = rawOuterTransportTargetD [OF t]
  show ?thesis
    unfolding buildOuterPortVmBody_def t fromTarget_simps at(1) Let_def
    by (rule word_write_sound)
      (use assms(2,3) in \<open>simp_all add: in_range hasBytes_within [OF at(2)]\<close>)
qed

lemma udp_header_template [template_sound]:
  assumes "rawOuterTransportTarget (rawOf s) 17 11 8 \<noteq> None" "countsPositive s"
  shows "bodySound (streamBytes (rawOf s)) (buildOuterUdpLengthIncVmBody s version)"
    "bodySound (streamBytes (rawOf s)) (buildOuterUdpChecksumIncVmBody s version)"
proof -
  obtain t where t: "rawOuterTransportTarget (rawOf s) 17 11 8 = Some t" using assms(1) by auto
  note at = rawOuterTransportTargetD [OF t]
  show "bodySound (streamBytes (rawOf s)) (buildOuterUdpLengthIncVmBody s version)"
    unfolding buildOuterUdpLengthIncVmBody_def udpHeaderOffset_def t fromTarget_simps at(1) Let_def
    by (rule wordBody_sound)
      (use assms(2) in \<open>simp_all add: in_range hasBytes_within [OF at(2)]\<close>)
  show "bodySound (streamBytes (rawOf s)) (buildOuterUdpChecksumIncVmBody s version)"
    unfolding buildOuterUdpChecksumIncVmBody_def udpHeaderOffset_def t fromTarget_simps at(1) Let_def
    by (rule wordBody_sound)
      (use assms(2) in \<open>simp_all add: in_range hasBytes_within [OF at(2)]\<close>)
qed

lemma writePair_suffix:
  assumes "suffixOf bs end sfx" "1 \<le> count" "1 \<le> step" "off = end - sfx_size sfx"
  shows "writePair bs n (advancedNumberWriteInstructions
    \<lparr>nw_checksumInstruction = c, nw_count = count, nw_initValue = sfx_initValue sfx,
     nw_maxLimit = fieldEngineMaxForSize (sfx_size sfx), nw_name = n, nw_pktOffset = off,
     nw_size = sfx_size sfx, nw_step = step\<rparr>)"
  using assms fieldEngineMax_less [of "sfx_size sfx"]
  by (intro writePair_spec) (simp_all add: suffixOf_def)

lemma writePair_word:
  assumes "is_bytes bs" "rawPacketHasBytes bs off 2" "i = rawPacketWord bs off" "1 \<le> count" "1 \<le> step"
  shows "writePair bs n (advancedNumberWriteInstructions
    \<lparr>nw_checksumInstruction = c, nw_count = count, nw_initValue = i, nw_maxLimit = 65535, nw_name = n,
     nw_pktOffset = off, nw_size = 2, nw_step = step\<rparr>)"
  using assms rawPacketWord_range [OF assms(1), of off]
  by (intro writePair_spec) (simp_all add: rawPacketNumberValue_2)

lemma five_tuple_template [template_sound]:
  assumes "fiveTupleTarget (rawOf s) protocol len \<noteq> None" "4 \<le> len" "countsPositive s"
    "distinct [''ipv4_src'', ''ipv4_dst'', srcName, dstName]"
  shows "bodySound (streamBytes (rawOf s))
    (buildOuterIpv4TransportFiveTupleVmBody s dstName l4Type len protocol srcName)"
proof -
  let ?bs = "streamBytes (rawOf s)"
  obtain t where t: "fiveTupleTarget (rawOf s) protocol len = Some t" using assms(1) by auto
  then have raw: "rawOuterIpv4L4Target (rawOf s) protocol = Some t"
    and l4: "rawPacketHasBytes (l44_bytes t) (l44_offset t) len"
    by (auto simp: fiveTupleTarget_def split: option.splits if_splits)
  note at = rawOuterIpv4L4TargetD [OF raw]
  note l4 = l4 [unfolded at(1)]
  have count: "1 \<le> largeUnitCountNumber c 16" for c
    using largeUnitCount_range(1) [of 16 c] by simp
  have "rawPacketHasBytes ?bs (l44_l3Offset t + 12) 4" "rawPacketHasBytes ?bs (l44_l3Offset t + 16) 4"
    using at(5) by (auto intro: hasBytes_within [OF at(3)])
  note suffix = this [THEN ipv4_suffix_sound [OF is_bytes_stream], unfolded add.assoc, simplified,
      THEN writePair_suffix]
  have "rawPacketHasBytes ?bs (l44_offset t) 2" "rawPacketHasBytes ?bs (l44_offset t + 2) 2"
    using assms(2) by (auto intro: hasBytes_within [OF l4])
  note word = this [THEN writePair_word [OF is_bytes_stream]]
  show ?thesis
    unfolding buildOuterIpv4TransportFiveTupleVmBody_def t fromTarget_simps Let_def at(1)
    by (rule several_body_sound [where ps = "[(''ipv4_src'', _), (''ipv4_dst'', _), (srcName, _), (dstName, _)]"
          and rest = "[fixChecksumHw (l44_l3Offset t) (l44_l3Length t) l4Type]"])
      (use assms(3,4) suffix word count in \<open>simp_all add: add.assoc\<close>)
qed

end
