(* ===== verification/VmIpv6.thy ===== *)
theory VmIpv6
  imports VmIpv4
begin

text \<open>
  The templates of the outer IPv6 header and of UDP and TCP over it (\<open>advancedVmOuterIpv6Model.ts\<close>).
\<close>

section \<open>Which streams\<close>

definition isAdvancedOuterIpv6Stream :: "ProfileWorkbenchStream option \<Rightarrow> bool" where
  "isAdvancedOuterIpv6Stream = onStream (\<lambda>s.
     startsWith (packetType s) ''Ethernet/IPv6'' \<or> rawOuterIpv6Target (rawOf s) \<noteq> None)"

text \<open>A numeric count of the form: \<open>largeUnitCountNumber(stream.x)\<close> with its default for \<open>NaN\<close>.\<close>

definition numericCount :: "ProfileWorkbenchStream \<Rightarrow> string \<Rightarrow> int" where
  "numericCount s f = (if finiteOf s f then largeUnitCountNumber (CountNumber (numOf s f)) 16 else 16)"

definition rawIpv6Suffix :: "bytes \<Rightarrow> int \<Rightarrow> int \<Rightarrow> bool" where
  "rawIpv6Suffix bs off count \<longleftrightarrow> ipv6FieldEngineSuffix (formatPacketIpv6 bs off) count \<noteq> None"

definition safeIpv6Address :: "ProfileWorkbenchStream option \<Rightarrow> string \<Rightarrow> string \<Rightarrow> bool" where
  "safeIpv6Address stream address count =
     onStream (\<lambda>s. ipv6FieldEngineSuffix (textOf s address) (numericCount s count) \<noteq> None) stream"

definition isAdvancedOuterIpv6SrcVmStream :: "ProfileWorkbenchStream option \<Rightarrow> bool" where
  "isAdvancedOuterIpv6SrcVmStream stream \<longleftrightarrow>
     onStream (\<lambda>s. case rawOuterIpv6Target (rawOf s) of
         Some t \<Rightarrow> rawIpv6Suffix (v6_bytes t) (v6_l3Offset t + 8) (numericCount s ''ipv6_src_count'')
       | None \<Rightarrow> isAdvancedOuterIpv6Stream stream \<and> safeIpv6Address stream ''ipv6_src'' ''ipv6_src_count'') stream"

definition isAdvancedOuterIpv6DstVmStream :: "ProfileWorkbenchStream option \<Rightarrow> bool" where
  "isAdvancedOuterIpv6DstVmStream stream \<longleftrightarrow>
     onStream (\<lambda>s. case rawOuterIpv6Target (rawOf s) of
         Some t \<Rightarrow> rawIpv6Suffix (v6_bytes t) (v6_l3Offset t + 24) (numericCount s ''ipv6_dst_count'')
       | None \<Rightarrow> isAdvancedOuterIpv6Stream stream \<and> safeIpv6Address stream ''ipv6_dst'' ''ipv6_dst_count'') stream"

definition isAdvancedOuterIpv6UdpStream :: "ProfileWorkbenchStream option \<Rightarrow> bool" where
  "isAdvancedOuterIpv6UdpStream = onStream (\<lambda>s.
     if hasBinary s then rawOuterIpv6L4Target (rawOf s) 17 \<noteq> None
     else packetType s = ''Ethernet/IPv6/UDP'')"

definition tcpOverIpv6 :: "ProfileWorkbenchStream \<Rightarrow> bool" where
  "tcpOverIpv6 s \<longleftrightarrow>
     (case rawOuterIpv6L4Target (rawOf s) 6 of
        None \<Rightarrow> False
      | Some t \<Rightarrow> rawPacketTcpHeaderOffset (l46_bytes t) (l46_offset t) None \<noteq> None)"

definition isAdvancedOuterIpv6TcpStream :: "ProfileWorkbenchStream option \<Rightarrow> bool" where
  "isAdvancedOuterIpv6TcpStream = onStream (\<lambda>s.
     if hasBinary s then tcpOverIpv6 s
     else packetType s = ''Ethernet/IPv6/TCP'' \<or> tcpOverIpv6 s)"

definition ipv6FiveTupleStream ::
  "int \<Rightarrow> (ProfileWorkbenchStream option \<Rightarrow> bool) \<Rightarrow> ProfileWorkbenchStream option \<Rightarrow> bool" where
  "ipv6FiveTupleStream l4Type onForm stream \<longleftrightarrow>
     onStream (\<lambda>s. case rawOuterIpv6TransportTarget (rawOf s) l4Type of
         Some t \<Rightarrow> rawIpv6Suffix (tr_bytes t) (tr_l3Offset t + 8) (numericCount s ''ipv6_src_count'')
           \<and> rawIpv6Suffix (tr_bytes t) (tr_l3Offset t + 24) (numericCount s ''ipv6_dst_count'')
       | None \<Rightarrow> onForm stream \<and> safeIpv6Address stream ''ipv6_src'' ''ipv6_src_count''
           \<and> safeIpv6Address stream ''ipv6_dst'' ''ipv6_dst_count'') stream"

definition isAdvancedOuterIpv6UdpFiveTupleStream :: "ProfileWorkbenchStream option \<Rightarrow> bool" where
  "isAdvancedOuterIpv6UdpFiveTupleStream = ipv6FiveTupleStream 11 isAdvancedOuterIpv6UdpStream"

definition isAdvancedOuterIpv6TcpFiveTupleStream :: "ProfileWorkbenchStream option \<Rightarrow> bool" where
  "isAdvancedOuterIpv6TcpFiveTupleStream = ipv6FiveTupleStream 13 isAdvancedOuterIpv6TcpStream"

section \<open>Addresses\<close>

definition rawOuterIpv6ChecksumRepairInstruction :: "RawStream option \<Rightarrow> VmValue option" where
  "rawOuterIpv6ChecksumRepairInstruction stream =
     (case rawOuterIpv6L4Target stream 17 of
        Some udpTarget \<Rightarrow> Some (fixChecksumHw (l46_l3Offset udpTarget) 40 11)
      | None \<Rightarrow>
          (case rawOuterIpv6L4Target stream 6 of
             Some tcpTarget \<Rightarrow> Some (fixChecksumHw (l46_l3Offset tcpTarget) 40 13)
           | None \<Rightarrow>
               (case rawOuterIpv6L4Target stream 58 of
                  Some icmpv6Target \<Rightarrow> Some (fixChecksumIcmpv6 (l46_l3Offset icmpv6Target) 40)
                | None \<Rightarrow> None)))"

definition buildOuterIpv6AddressIncVmBody :: "ProfileWorkbenchStream \<Rightarrow> FieldSide \<Rightarrow> AdvancedVmBody" where
  "buildOuterIpv6AddressIncVmBody stream field =
     (let variableName = (if field = DstField then ''ipv6_dest'' else ''ipv6_src'');
          address = textOf stream (if field = DstField then ''ipv6_dst'' else ''ipv6_src'');
          count = numOf stream (if field = DstField then ''ipv6_dst_count'' else ''ipv6_src_count'');
          step = numOf stream (if field = DstField then ''ipv6_dst_step'' else ''ipv6_src_step'');
          delta = (if field = DstField then 24 else 8)
      in case rawOuterIpv6Target (rawOf stream) of
           Some rawTarget \<Rightarrow>
             buildIpv6AddressIncVmBody (formatPacketIpv6 (v6_bytes rawTarget) (v6_l3Offset rawTarget + delta))
               (v6_l3Offset rawTarget + delta) (rawOuterIpv6ChecksumRepairInstruction (rawOf stream))
               count variableName step
         | None \<Rightarrow>
             buildIpv6AddressIncVmBody address (outerIpv6Offset stream + delta) None count variableName step)"

definition buildOuterIpv6SrcIncVmBody :: "ProfileWorkbenchStream \<Rightarrow> AdvancedVmBody" where
  "buildOuterIpv6SrcIncVmBody stream = buildOuterIpv6AddressIncVmBody stream SrcField"

definition buildOuterIpv6DstIncVmBody :: "ProfileWorkbenchStream \<Rightarrow> AdvancedVmBody" where
  "buildOuterIpv6DstIncVmBody stream = buildOuterIpv6AddressIncVmBody stream DstField"

section \<open>Ports and five-tuples\<close>

definition buildOuterIpv6L4PortIncVmBody :: "ProfileWorkbenchStream \<Rightarrow> FieldSide \<Rightarrow> int \<Rightarrow> AdvancedVmBody" where
  "buildOuterIpv6L4PortIncVmBody stream field l4Type =
     (let rawTarget = rawOuterTransportTarget (rawOf stream) (if l4Type = 11 then 17 else 6) l4Type
            (if l4Type = 11 then 8 else 20);
          l4Offset = fromTarget rawTarget tr_offset (outerIpv6L4Offset stream);
          fieldOffset = l4Offset + (if field = DstField then 2 else 0);
          variableName = (if field = DstField then ''l4_dest_port'' else ''l4_src_port'');
          port = numOf stream (if field = DstField then ''l4_dst_port'' else ''l4_src_port'');
          count = numOf stream (if field = DstField then ''l4_dst_port_count'' else ''l4_src_port_count'');
          step = numOf stream (if field = DstField then ''l4_dst_port_step'' else ''l4_src_port_step'');
          initValue = fromTarget rawTarget (\<lambda>t. rawPacketWord (tr_bytes t) fieldOffset) port
      in numberBody variableName ''inc'' 2 initValue initValue (min 65535 (initValue + count - 1)) step fieldOffset
           [fromTarget rawTarget (\<lambda>t. checksumObject (tr_checksumInstruction t))
              (outerIpv6ChecksumInstruction stream l4Type)])"

definition buildOuterIpv6UdpSrcPortIncVmBody :: "ProfileWorkbenchStream \<Rightarrow> AdvancedVmBody" where
  "buildOuterIpv6UdpSrcPortIncVmBody stream = buildOuterIpv6L4PortIncVmBody stream SrcField 11"

definition buildOuterIpv6UdpDstPortIncVmBody :: "ProfileWorkbenchStream \<Rightarrow> AdvancedVmBody" where
  "buildOuterIpv6UdpDstPortIncVmBody stream = buildOuterIpv6L4PortIncVmBody stream DstField 11"

definition buildOuterIpv6TcpSrcPortIncVmBody :: "ProfileWorkbenchStream \<Rightarrow> AdvancedVmBody" where
  "buildOuterIpv6TcpSrcPortIncVmBody stream = buildOuterIpv6L4PortIncVmBody stream SrcField 13"

definition buildOuterIpv6TcpDstPortIncVmBody :: "ProfileWorkbenchStream \<Rightarrow> AdvancedVmBody" where
  "buildOuterIpv6TcpDstPortIncVmBody stream = buildOuterIpv6L4PortIncVmBody stream DstField 13"

definition buildOuterIpv6TransportFiveTupleVmBody :: "ProfileWorkbenchStream \<Rightarrow> int \<Rightarrow> AdvancedVmBody" where
  "buildOuterIpv6TransportFiveTupleVmBody stream l4Type =
     (let rawTarget = rawOuterIpv6TransportTarget (rawOf stream) l4Type;
          ipv6Offset = fromTarget rawTarget tr_l3Offset (outerIpv6Offset stream);
          l4Offset = fromTarget rawTarget tr_offset (outerIpv6L4Offset stream);
          srcInstructions = ipv6AddressFlowVarInstructions
            (fromTarget rawTarget (\<lambda>t. formatPacketIpv6 (tr_bytes t) (tr_l3Offset t + 8)) (textOf stream ''ipv6_src''))
            (ipv6Offset + 8) (numOf stream ''ipv6_src_count'') ''ipv6_src'' (numOf stream ''ipv6_src_step'');
          dstInstructions = ipv6AddressFlowVarInstructions
            (fromTarget rawTarget (\<lambda>t. formatPacketIpv6 (tr_bytes t) (tr_l3Offset t + 24)) (textOf stream ''ipv6_dst''))
            (ipv6Offset + 24) (numOf stream ''ipv6_dst_count'') ''ipv6_dest'' (numOf stream ''ipv6_dst_step'');
          srcPortInitValue = fromTarget rawTarget (\<lambda>t. rawPacketWord (tr_bytes t) l4Offset) (numOf stream ''l4_src_port'');
          dstPortInitValue = fromTarget rawTarget (\<lambda>t. rawPacketWord (tr_bytes t) (l4Offset + 2))
            (numOf stream ''l4_dst_port'')
      in case (srcInstructions, dstInstructions) of
           (Some src, Some dst) \<Rightarrow>
             vmBody
               (src @ dst
                @ [flowVar ''l4_src_port'' ''inc'' 2 srcPortInitValue srcPortInitValue
                     (min 65535 (srcPortInitValue + numOf stream ''l4_src_port_count'' - 1))
                     (numOf stream ''l4_src_port_step''),
                   writeFlowVar ''l4_src_port'' 0 l4Offset,
                   flowVar ''l4_dest_port'' ''inc'' 2 dstPortInitValue dstPortInitValue
                     (min 65535 (dstPortInitValue + numOf stream ''l4_dst_port_count'' - 1))
                     (numOf stream ''l4_dst_port_step''),
                   writeFlowVar ''l4_dest_port'' 0 (l4Offset + 2),
                   fromTarget rawTarget (\<lambda>t. checksumObject (tr_checksumInstruction t))
                     (outerIpv6ChecksumInstruction stream l4Type)])
               ''ipv6_src''
         | _ \<Rightarrow> advancedVmDefaultBody)"

definition buildOuterIpv6UdpFiveTupleVmBody :: "ProfileWorkbenchStream \<Rightarrow> AdvancedVmBody" where
  "buildOuterIpv6UdpFiveTupleVmBody stream = buildOuterIpv6TransportFiveTupleVmBody stream 11"

definition buildOuterIpv6TcpFiveTupleVmBody :: "ProfileWorkbenchStream \<Rightarrow> AdvancedVmBody" where
  "buildOuterIpv6TcpFiveTupleVmBody stream = buildOuterIpv6TransportFiveTupleVmBody stream 13"

section \<open>The other fields of the header\<close>

definition trafficClassOf :: "bytes \<Rightarrow> int \<Rightarrow> int" where
  "trafficClassOf bs off =
     js_or (js_shl (js_and (byteAt bs off) 0x0f) 4) (js_ushr (js_and (byteAt bs (off + 1)) 0xf0) 4)"

definition buildOuterIpv6TrafficClassIncVmBody :: "ProfileWorkbenchStream \<Rightarrow> AdvancedVmBody" where
  "buildOuterIpv6TrafficClassIncVmBody stream =
     (let rawTarget = rawOuterIpv6Target (rawOf stream);
          ipv6Offset = fromTarget rawTarget v6_l3Offset (outerIpv6Offset stream);
          initValue = fromTarget rawTarget (\<lambda>t. trafficClassOf (v6_bytes t) ipv6Offset)
            (numOf stream ''ipv6_traffic_class'')
      in maskedBody ''ipv6_traffic_class'' ''inc'' 1 initValue initValue
           (min 255 (initValue + numOf stream ''ipv6_traffic_class_count'' - 1))
           (numOf stream ''ipv6_traffic_class_step'') 4 ipv6Offset 0x0FF00000 20 [])"

definition buildOuterIpv6FlowLabelIncVmBody :: "ProfileWorkbenchStream \<Rightarrow> AdvancedVmBody" where
  "buildOuterIpv6FlowLabelIncVmBody stream =
     (let rawTarget = rawOuterIpv6Target (rawOf stream);
          ipv6Offset = fromTarget rawTarget v6_l3Offset (outerIpv6Offset stream);
          initValue = fromTarget rawTarget (\<lambda>t. js_and (rawPacketNumberValue (v6_bytes t) ipv6Offset 4) 0x000fffff)
            (numOf stream ''ipv6_flow_label'')
      in maskedBody ''ipv6_flow_label'' ''inc'' 4 initValue initValue
           (min 1048575 (initValue + numOf stream ''ipv6_flow_label_count'' - 1))
           (numOf stream ''ipv6_flow_label_step'') 4 ipv6Offset 0x000FFFFF 0 [])"

definition buildOuterIpv6HopLimitIncVmBody :: "ProfileWorkbenchStream \<Rightarrow> AdvancedVmBody" where
  "buildOuterIpv6HopLimitIncVmBody stream =
     (case rawOuterIpv6Target (rawOf stream) of
        Some rawTarget \<Rightarrow>
          buildAdvancedNumberWriteVmBody
            \<lparr>nw_checksumInstruction = None, nw_count = numOf stream ''ipv6_hop_limit_count'',
             nw_initValue = byteAt (v6_bytes rawTarget) (v6_l3Offset rawTarget + 7), nw_maxLimit = 255,
             nw_name = ''ipv6_hop_limit'', nw_pktOffset = v6_l3Offset rawTarget + 7, nw_size = 1,
             nw_step = numOf stream ''ipv6_hop_limit_step''\<rparr>
      | None \<Rightarrow>
          numberBody ''ipv6_hop_limit'' ''inc'' 1 (numOf stream ''ipv6_hop_limit'') (numOf stream ''ipv6_hop_limit'')
            (min 255 (numOf stream ''ipv6_hop_limit'' + numOf stream ''ipv6_hop_limit_count'' - 1))
            (numOf stream ''ipv6_hop_limit_step'') (outerIpv6Offset stream + 7) [])"

section \<open>Sound for the packets they find their field in\<close>

lemma rawOuterIpv6TargetD:
  assumes "rawOuterIpv6Target s = Some t"
  shows "v6_bytes t = streamBytes s" "rawPacketHasBytes (streamBytes s) (v6_l3Offset t) 40"
  using assms
  by (auto simp: rawOuterIpv6Target_def Let_def split: option.splits dest: rawOuterIpv6Offset_at)

lemma rawOuterIpv6TransportTargetD:
  assumes "rawOuterIpv6TransportTarget s ty = Some t"
  shows "tr_bytes t = streamBytes s" "rawPacketHasBytes (streamBytes s) (tr_offset t) 8"
    "rawPacketHasBytes (streamBytes s) (tr_l3Offset t) 40"
    "viewOf (checksumObject (tr_checksumInstruction t)) = OtherView"
proof -
  from assms obtain u where u: "rawOuterIpv6L4Target s (if ty = 11 then 17 else 6) = Some u"
    "tr_bytes t = l46_bytes u" "tr_l3Offset t = l46_l3Offset u"
    by (auto simp: rawOuterIpv6TransportTarget_def Let_def split: option.splits if_splits)
  show "tr_bytes t = streamBytes s" "rawPacketHasBytes (streamBytes s) (tr_l3Offset t) 40"
    using rawOuterIpv6L4TargetD [OF u(1)] rawOuterIpv6Offset_at(1) by (simp_all add: u(2,3))
  show "rawPacketHasBytes (streamBytes s) (tr_offset t) 8"
    using transport6_target.inside [OF assms] .
qed simp

lemma ipv6_checksum_repairs [simp]:
  "repairs (optionalInstruction (rawOuterIpv6ChecksumRepairInstruction s))"
  by (simp add: rawOuterIpv6ChecksumRepairInstruction_def split: option.split)

lemma ipv6_address_template [template_sound]:
  assumes "rawOuterIpv6Target (rawOf s) = Some t" "countsPositive s"
    "rawIpv6Suffix (v6_bytes t) (v6_l3Offset t + (if field = DstField then 24 else 8))
      (numOf s (if field = DstField then ''ipv6_dst_count'' else ''ipv6_src_count''))"
  shows "bodySound (streamBytes (rawOf s)) (buildOuterIpv6AddressIncVmBody s field)"
proof -
  note at = rawOuterIpv6TargetD [OF assms(1)]
  have "rawPacketHasBytes (streamBytes (rawOf s)) (v6_l3Offset t + (if field = DstField then 24 else 8)) 16"
    by (rule hasBytes_within [OF at(2)]) simp_all
  then show ?thesis
    unfolding buildOuterIpv6AddressIncVmBody_def assms(1) option.case Let_def at(1)
    by (rule ipv6_body_sound [OF is_bytes_stream])
      (use assms(2,3) at(1) in \<open>simp_all add: rawIpv6Suffix_def\<close>)
qed

lemma ipv6_port_template [template_sound]:
  assumes "rawOuterTransportTarget (rawOf s) (if ty = 11 then 17 else 6) ty (if ty = 11 then 8 else 20) \<noteq> None"
    "countsPositive s"
  shows "bodySound (streamBytes (rawOf s)) (buildOuterIpv6L4PortIncVmBody s field ty)"
proof -
  obtain t where t: "rawOuterTransportTarget (rawOf s) (if ty = 11 then 17 else 6) ty (if ty = 11 then 8 else 20) = Some t"
    using assms(1) by auto
  note at = rawOuterTransportTargetD [OF t]
  show ?thesis
    unfolding buildOuterIpv6L4PortIncVmBody_def t fromTarget_simps at(1) Let_def
    by (rule wordBody_sound)
      (use assms(2) in \<open>simp_all add: in_range hasBytes_within [OF at(2)]\<close>)
qed

lemma nibbles_join:
  assumes "0 \<le> b" "b < 256"
  shows "a mod 16 * 16 + b div 16 = (a * 256 + b) div 16 mod (256 :: int)"
proof -
  have "(a * 256 + b) div 16 = a * 16 + b div 16"
    using div_mult_self1 [of 16 b "a * 16"] by (simp add: algebra_simps)
  moreover have "(a * 16 + b div 16) div 16 = a" "(a * 16 + b div 16) mod 16 = b div 16"
    using assms by auto
  ultimately show ?thesis
    using zmod_zmult2_eq [of 16 "a * 16 + b div 16" 16] by simp
qed

lemma traffic_class_value:
  assumes "is_bytes bs"
  shows "trafficClassOf bs off = rawPacketNumberValue bs off 4 div 2 ^ nat 20 mod 2 ^ 8"
proof -
  note b = byteAt_range [OF assms, of off] byteAt_range [OF assms, of "off + 1"]
    byteAt_range [OF assms, of "off + 2"] byteAt_range [OF assms, of "off + 3"]
  have "trafficClassOf bs off = byteAt bs off mod 16 * 16 + byteAt bs (off + 1) div 16"
  proof -
    have "byteAt bs off mod 16 * 2 ^ 4 OR byteAt bs (off + 1) div 16
        = byteAt bs off mod 16 * 2 ^ 4 + byteAt bs (off + 1) div 16"
      using b by (intro or_disjoint_add) auto
    moreover have "byteAt bs (off + 1) div 16 mod 16 = byteAt bs (off + 1) div 16" using b by auto
    moreover have "byteAt bs off mod 16 * 16 + byteAt bs (off + 1) div 16 < 256"
    proof -
      have "byteAt bs off mod 16 \<le> 15" using pos_mod_bound [of 16 "byteAt bs off"] by linarith
      moreover have "byteAt bs (off + 1) div 16 \<le> 15" using b by auto
      ultimately show ?thesis by linarith
    qed
    ultimately show ?thesis
      using b by (simp add: trafficClassOf_def js_arith js_and_field [where n = 4 and k = 4] js_ushr_nonneg
          js_shl_nonneg js_or_int signed_take_bit_31_id)
  qed
  also have "\<dots> = (byteAt bs off * 256 + byteAt bs (off + 1)) div 16 mod 256"
    using b(3,4) nibbles_join [of "byteAt bs (off + 1)" "byteAt bs off"] by simp
  also have "byteAt bs off * 256 + byteAt bs (off + 1) = rawPacketNumberValue bs off 4 div 65536"
  proof -
    have "rawPacketNumberValue bs off 4
        = (byteAt bs (off + 2) * 256 + byteAt bs (off + 3)) + (byteAt bs off * 256 + byteAt bs (off + 1)) * 65536"
      by (simp add: rawPacketNumberValue_4)
    moreover have "(byteAt bs (off + 2) * 256 + byteAt bs (off + 3)) div 65536 = 0"
      using b by (intro div_pos_pos_trivial) auto
    ultimately show ?thesis by simp
  qed
  finally show ?thesis by (simp add: zdiv_zmult2_eq [symmetric])
qed

lemma ipv6_field_template [template_sound]:
  assumes "rawOuterIpv6Target (rawOf s) \<noteq> None" "countsPositive s"
  shows "bodySound (streamBytes (rawOf s)) (buildOuterIpv6TrafficClassIncVmBody s)"
    "bodySound (streamBytes (rawOf s)) (buildOuterIpv6FlowLabelIncVmBody s)"
    "bodySound (streamBytes (rawOf s)) (buildOuterIpv6HopLimitIncVmBody s)"
proof -
  let ?bs = "streamBytes (rawOf s)"
  obtain t where t: "rawOuterIpv6Target (rawOf s) = Some t" using assms(1) by auto
  note at = rawOuterIpv6TargetD [OF t]
  have four: "rawPacketHasBytes ?bs (v6_l3Offset t) 4" "rawPacketHasBytes ?bs (v6_l3Offset t + 7) 1"
    by (auto intro: hasBytes_within [OF at(2)])
  show "bodySound ?bs (buildOuterIpv6TrafficClassIncVmBody s)"
    unfolding buildOuterIpv6TrafficClassIncVmBody_def t fromTarget_simps at(1) Let_def
      traffic_class_value [OF is_bytes_stream]
    by (rule maskedBody_sound [where n = 8]) (use assms(2) four in simp_all)
  show "bodySound ?bs (buildOuterIpv6FlowLabelIncVmBody s)"
    unfolding buildOuterIpv6FlowLabelIncVmBody_def t fromTarget_simps at(1) Let_def js_arith
    by (rule maskedBody_sound [where n = 20]) (use assms(2) four in simp_all)
  show "bodySound ?bs (buildOuterIpv6HopLimitIncVmBody s)"
    unfolding buildOuterIpv6HopLimitIncVmBody_def t option.case at(1)
    by (rule byte_write_sound) (use assms(2) four in \<open>simp_all add: in_range\<close>)
qed

lemma ipv6_suffix_pair:
  assumes "is_bytes bs" "rawPacketHasBytes bs off 16" "1 \<le> step"
    "ipv6AddressFlowVarInstructions (formatPacketIpv6 bs off) off count n step = Some xs"
  shows "writePair bs n xs"
proof -
  obtain sfx where sfx: "ipv6FieldEngineSuffix (formatPacketIpv6 bs off) count = Some sfx"
    and xs: "xs = [flowVar n ''inc'' (sfx_size sfx) (sfx_initValue sfx) (sfx_initValue sfx) (sfx_maxValue sfx) step,
      writeFlowVar n 0 (off + 16 - sfx_size sfx)]"
    using assms(4) by (auto simp: ipv6AddressFlowVarInstructions_def split: option.splits)
  show ?thesis
    unfolding xs using ipv6_suffix_sound [OF assms(1,2) sfx] assms(3)
    by (intro writePair_literal) (simp_all add: suffixOfIpv6_def)
qed

lemma word_pair:
  assumes "is_bytes bs" "rawPacketHasBytes bs off 2" "i = rawPacketWord bs off" "0 < count" "1 \<le> step"
  shows "writePair bs n [flowVar n op 2 i i (min 65535 (i + count - 1)) step, writeFlowVar n a off]"
  using assms rawPacketWord_range [OF assms(1), of off]
  by (intro writePair_literal) (simp_all add: rawPacketNumberValue_2)

lemma ipv6_five_tuple_template [template_sound]:
  assumes "rawOuterIpv6TransportTarget (rawOf s) ty = Some t" "countsPositive s"
    "rawIpv6Suffix (tr_bytes t) (tr_l3Offset t + 8) (numOf s ''ipv6_src_count'')"
    "rawIpv6Suffix (tr_bytes t) (tr_l3Offset t + 24) (numOf s ''ipv6_dst_count'')"
  shows "bodySound (streamBytes (rawOf s)) (buildOuterIpv6TransportFiveTupleVmBody s ty)"
proof -
  let ?bs = "streamBytes (rawOf s)"
  note at = rawOuterIpv6TransportTargetD [OF assms(1)]
  have l3: "rawPacketHasBytes ?bs (tr_l3Offset t + 8) 16" "rawPacketHasBytes ?bs (tr_l3Offset t + 24) 16"
    by (auto intro: hasBytes_within [OF at(3)])
  have l4: "rawPacketHasBytes ?bs (tr_offset t) 2" "rawPacketHasBytes ?bs (tr_offset t + 2) 2"
    by (auto intro: hasBytes_within [OF at(2)])
  obtain src where src: "ipv6AddressFlowVarInstructions (formatPacketIpv6 ?bs (tr_l3Offset t + 8)) (tr_l3Offset t + 8)
      (numOf s ''ipv6_src_count'') ''ipv6_src'' (numOf s ''ipv6_src_step'') = Some src"
    using assms(3) by (auto simp: rawIpv6Suffix_def at(1) ipv6AddressFlowVarInstructions_def)
  obtain dst where dst: "ipv6AddressFlowVarInstructions (formatPacketIpv6 ?bs (tr_l3Offset t + 24)) (tr_l3Offset t + 24)
      (numOf s ''ipv6_dst_count'') ''ipv6_dest'' (numOf s ''ipv6_dst_step'') = Some dst"
    using assms(4) by (auto simp: rawIpv6Suffix_def at(1) ipv6AddressFlowVarInstructions_def)
  note pairs = ipv6_suffix_pair [OF is_bytes_stream l3(1) _ src] ipv6_suffix_pair [OF is_bytes_stream l3(2) _ dst]
    l4 [THEN word_pair [OF is_bytes_stream]]
  show ?thesis
    unfolding buildOuterIpv6TransportFiveTupleVmBody_def assms(1) fromTarget_simps Let_def at(1) src dst
      prod.case option.case
    by (rule several_body_sound [where
          ps = "[(''ipv6_src'', src), (''ipv6_dest'', dst), (''l4_src_port'', [_, _]), (''l4_dest_port'', [_, _])]"
          and rest = "[checksumObject (tr_checksumInstruction t)]"])
      (use assms(2) pairs in \<open>simp_all\<close>)
qed

end
