(* ===== verification/VmTransport.thy ===== *)
theory VmTransport
  imports VmIpv6
begin

text \<open>
  The templates of the TCP header (\<open>advancedVmTcpHeaderModel.ts\<close>), of the TCP options
  (\<open>advancedVmTcpOptionModel.ts\<close>) and of SCTP (\<open>advancedVmSctpModel.ts\<close>), over IPv4 or IPv6.
\<close>

section \<open>The TCP header\<close>

definition rawTcpChecksumInstruction :: "'a TcpTarget_scheme \<Rightarrow> VmValue" where
  "rawTcpChecksumInstruction target = fixChecksumHw (tcp_l3Offset target) (tcp_l3Length target) 13"

definition tcpChecksum :: "ProfileWorkbenchStream \<Rightarrow> TcpTarget option \<Rightarrow> VmValue" where
  "tcpChecksum stream rawTarget = fromTarget rawTarget rawTcpChecksumInstruction (outerTcpChecksumInstruction stream)"

datatype TcpNumber = TcpSequence | TcpAck

definition buildOuterTcpNumberIncVmBody :: "ProfileWorkbenchStream \<Rightarrow> TcpNumber \<Rightarrow> AdvancedVmBody" where
  "buildOuterTcpNumberIncVmBody stream field =
     (let rawTarget = rawOuterTcpFixedHeaderTarget (rawOf stream);
          tcpOffset = fromTarget rawTarget tcp_offset (outerTcpOffset stream);
          variableName = (if field = TcpAck then ''tcp_ack'' else ''tcp_sequence'');
          fieldOffset = (if field = TcpAck then 8 else 4);
          initValue = fromTarget rawTarget (\<lambda>t. rawPacketNumberValue (tcp_bytes t) (tcpOffset + fieldOffset) 4)
            (numOf stream (if field = TcpAck then ''tcp_ack_number'' else ''tcp_sequence_number''));
          count = numOf stream (if field = TcpAck then ''tcp_ack_count'' else ''tcp_sequence_count'');
          step = numOf stream (if field = TcpAck then ''tcp_ack_step'' else ''tcp_sequence_step'')
      in numberBody variableName ''inc'' 4 initValue initValue (min 4294967295 (initValue + count - 1)) step
           (tcpOffset + fieldOffset) [tcpChecksum stream rawTarget])"

definition buildOuterTcpSequenceIncVmBody :: "ProfileWorkbenchStream \<Rightarrow> AdvancedVmBody" where
  "buildOuterTcpSequenceIncVmBody stream = buildOuterTcpNumberIncVmBody stream TcpSequence"

definition buildOuterTcpAckIncVmBody :: "ProfileWorkbenchStream \<Rightarrow> AdvancedVmBody" where
  "buildOuterTcpAckIncVmBody stream = buildOuterTcpNumberIncVmBody stream TcpAck"

definition buildOuterTcpWindowIncVmBody :: "ProfileWorkbenchStream \<Rightarrow> AdvancedVmBody" where
  "buildOuterTcpWindowIncVmBody stream =
     (let rawTarget = rawOuterTcpFixedHeaderTarget (rawOf stream);
          tcpOffset = fromTarget rawTarget tcp_offset (outerTcpOffset stream);
          initValue = fromTarget rawTarget (\<lambda>t. rawPacketWord (tcp_bytes t) (tcpOffset + 14)) (numOf stream ''tcp_window'')
      in numberBody ''tcp_window'' ''inc'' 2 initValue initValue
           (min 65535 (initValue + numOf stream ''tcp_window_count'' - 1)) (numOf stream ''tcp_window_step'')
           (tcpOffset + 14) [tcpChecksum stream rawTarget])"

definition buildOuterTcpUrgentPointerIncVmBody :: "ProfileWorkbenchStream \<Rightarrow> AdvancedVmBody" where
  "buildOuterTcpUrgentPointerIncVmBody stream =
     (let rawTarget = rawOuterTcpFixedHeaderTarget (rawOf stream);
          tcpOffset = fromTarget rawTarget tcp_offset (outerTcpOffset stream);
          initValue = fromTarget rawTarget (\<lambda>t. rawPacketWord (tcp_bytes t) (tcpOffset + 18))
            (numOf stream ''tcp_urgent_pointer'')
      in numberBody ''tcp_urgent_pointer'' ''inc'' 2 initValue initValue
           (min 65535 (initValue + numOf stream ''tcp_urgent_pointer_count'' - 1))
           (numOf stream ''tcp_urgent_pointer_step'') (tcpOffset + 18) [tcpChecksum stream rawTarget])"

definition tcpFlagsValue :: "ProfileWorkbenchStream \<Rightarrow> int" where
  "tcpFlagsValue stream =
     js_or (js_or (js_or (js_or (js_or
       (if flagOf stream ''tcp_flag_urg'' then 0x20 else 0)
       (if flagOf stream ''tcp_flag_ack'' then 0x10 else 0))
       (if flagOf stream ''tcp_flag_psh'' then 0x08 else 0))
       (if flagOf stream ''tcp_flag_rst'' then 0x04 else 0))
       (if flagOf stream ''tcp_flag_syn'' then 0x02 else 0))
       (if flagOf stream ''tcp_flag_fin'' then 0x01 else 0)"

datatype TcpFlagTarget = FlagAck | FlagFin | FlagPsh | FlagRst | FlagSyn | FlagUrg

text \<open>The property of the stream, which is the name of the variable too, and the mask.\<close>

definition tcpFlagTargetFields :: "TcpFlagTarget \<Rightarrow> string \<times> int" where
  "tcpFlagTargetFields flag =
     (case flag of
        FlagAck \<Rightarrow> (''tcp_flag_ack'', 0x10) | FlagFin \<Rightarrow> (''tcp_flag_fin'', 0x01)
      | FlagPsh \<Rightarrow> (''tcp_flag_psh'', 0x08) | FlagRst \<Rightarrow> (''tcp_flag_rst'', 0x04)
      | FlagSyn \<Rightarrow> (''tcp_flag_syn'', 0x02) | FlagUrg \<Rightarrow> (''tcp_flag_urg'', 0x20))"

definition buildOuterTcpFlagsIncVmBody :: "ProfileWorkbenchStream \<Rightarrow> AdvancedVmBody" where
  "buildOuterTcpFlagsIncVmBody stream =
     (let rawTarget = rawOuterTcpFixedHeaderTarget (rawOf stream);
          tcpOffset = fromTarget rawTarget tcp_offset (outerTcpOffset stream);
          initValue = fromTarget rawTarget (\<lambda>t. js_and (byteAt (tcp_bytes t) (tcpOffset + 13)) 0x3F) (tcpFlagsValue stream)
      in maskedBody ''tcp_flags'' ''inc'' 1 initValue initValue
           (min 0x3F (initValue + numOf stream ''tcp_flags_count'' - 1)) (numOf stream ''tcp_flags_step'')
           1 (tcpOffset + 13) 0x3F 0 [tcpChecksum stream rawTarget])"

definition buildOuterTcpReservedBitsIncVmBody :: "ProfileWorkbenchStream \<Rightarrow> AdvancedVmBody" where
  "buildOuterTcpReservedBitsIncVmBody stream =
     (let rawTarget = rawOuterTcpFixedHeaderTarget (rawOf stream);
          tcpOffset = fromTarget rawTarget tcp_offset (outerTcpOffset stream);
          initValue = fromTarget rawTarget (\<lambda>t. js_and (byteAt (tcp_bytes t) (tcpOffset + 12)) 0x0F) 0
      in maskedBody ''tcp_reserved_bits'' ''inc'' 1 initValue 0 0x0F 1
           1 (tcpOffset + 12) 0x0F 0 [tcpChecksum stream rawTarget])"

text \<open>\<open>Math.log2\<close> of a mask with one bit.\<close>

definition log2OfBit :: "int \<Rightarrow> int" where
  "log2OfBit mask' = bitLength mask' - 1"

definition buildOuterTcpFlagVaryVmBody :: "ProfileWorkbenchStream \<Rightarrow> TcpFlagTarget \<Rightarrow> AdvancedVmBody" where
  "buildOuterTcpFlagVaryVmBody stream flag =
     (let (variableName, mask') = tcpFlagTargetFields flag;
          rawTarget = rawOuterTcpFixedHeaderTarget (rawOf stream);
          tcpOffset = fromTarget rawTarget tcp_offset (outerTcpOffset stream);
          initValue = fromTarget rawTarget
            (\<lambda>t. if js_and (byteAt (tcp_bytes t) (tcpOffset + 13)) mask' = 0 then 0 else 1)
            (if flagOf stream variableName then 1 else 0)
      in maskedBody variableName (if initValue = 1 then ''dec'' else ''inc'') 1 initValue 0 1 1
           1 (tcpOffset + 13) mask' (log2OfBit mask') [tcpChecksum stream rawTarget])"

definition buildOuterTcpChecksumIncVmBody :: "ProfileWorkbenchStream \<Rightarrow> AdvancedVmBody" where
  "buildOuterTcpChecksumIncVmBody stream =
     (let rawTarget = rawOuterTcpFixedHeaderTarget (rawOf stream);
          tcpOffset = fromTarget rawTarget tcp_offset (outerTcpOffset stream);
          initValue = fromTarget rawTarget (\<lambda>t. rawPacketWord (tcp_bytes t) (tcpOffset + 16))
            (orElse (jsParseInt 16 (textOf stream ''tcp_checksum'')) 0)
      in numberBody ''tcp_checksum'' ''inc'' 2 initValue initValue
           (min 65535 (initValue + numOf stream ''tcp_checksum_count'' - 1)) (numOf stream ''tcp_checksum_step'')
           (tcpOffset + 16) [])"

section \<open>TCP options\<close>

text \<open>
  The offset of an option's value in the options the form describes: each enabled option moves
  the next one.
\<close>

definition tcpOptionValueOffset :: "ProfileWorkbenchStream \<Rightarrow> RawTcpOptionTargetName \<Rightarrow> int option" where
  "tcpOptionValueOffset stream target =
     (let mss = flagOf stream ''tcp_option_mss_enabled'';
          sack = flagOf stream ''tcp_option_sack_blocks_enabled'';
          timestamp = flagOf stream ''tcp_option_timestamp_enabled'';
          offset = 20 + (if mss then 4 else 0)
            + (if flagOf stream ''tcp_option_sack_permitted_enabled'' then 2 else 0);
          afterSack = offset + (if sack then 10 else 0);
          afterTimestamp = afterSack + (if timestamp then 12 else 0)
      in if mss \<and> target = Mss then Some 22
         else if sack \<and> target = SackLeftEdge then Some (offset + 2)
         else if sack \<and> target = SackRightEdge then Some (offset + 6)
         else if timestamp \<and> target = TimestampValue then Some (afterSack + 4)
         else if timestamp \<and> target = TimestampEcho then Some (afterSack + 8)
         else if flagOf stream ''tcp_option_window_scale_enabled'' \<and> target = WindowScale
         then Some (afterTimestamp + 3)
         else None)"

text \<open>The body for an option that stands in the packet, the same in all builders.\<close>

definition rawTcpOptionBody :: "TcpOptionTarget \<Rightarrow> string \<Rightarrow> AdvancedVmBody" where
  "rawTcpOptionBody rawTarget name =
     buildAdvancedNumberWriteVmBody
       \<lparr>nw_checksumInstruction = Some (rawTcpChecksumInstruction rawTarget), nw_count = 4,
        nw_initValue = tcpopt_value rawTarget, nw_maxLimit = tcpopt_maxLimit rawTarget, nw_name = name,
        nw_pktOffset = tcpopt_valueOffset rawTarget, nw_size = tcpopt_size rawTarget, nw_step = 1\<rparr>"

definition buildOuterTcpOptionMssIncVmBody :: "ProfileWorkbenchStream \<Rightarrow> AdvancedVmBody" where
  "buildOuterTcpOptionMssIncVmBody stream =
     (case rawTcpOptionValueTarget (rawOf stream) Mss of
        Some rawTarget \<Rightarrow> rawTcpOptionBody rawTarget ''tcp_option_mss''
      | None \<Rightarrow>
          numberBody ''tcp_option_mss'' ''inc'' 2 (numOf stream ''tcp_option_mss'') (numOf stream ''tcp_option_mss'')
            (min 65535 (numOf stream ''tcp_option_mss'' + numOf stream ''tcp_option_mss_count'' - 1))
            (numOf stream ''tcp_option_mss_step'')
            (outerTcpOffset stream + orElse (tcpOptionValueOffset stream Mss) 22)
            [outerTcpChecksumInstruction stream])"

definition buildOuterTcpOptionWindowScaleIncVmBody :: "ProfileWorkbenchStream \<Rightarrow> AdvancedVmBody" where
  "buildOuterTcpOptionWindowScaleIncVmBody stream =
     (case rawTcpOptionValueTarget (rawOf stream) WindowScale of
        Some rawTarget \<Rightarrow> rawTcpOptionBody rawTarget ''tcp_option_window_scale''
      | None \<Rightarrow>
          numberBody ''tcp_option_window_scale'' ''inc'' 1 (numOf stream ''tcp_option_window_scale'')
            (numOf stream ''tcp_option_window_scale'')
            (min 255 (numOf stream ''tcp_option_window_scale'' + numOf stream ''tcp_option_window_scale_count'' - 1))
            (numOf stream ''tcp_option_window_scale_step'')
            (outerTcpOffset stream + orElse (tcpOptionValueOffset stream WindowScale) 23)
            [outerTcpChecksumInstruction stream])"

datatype TimestampField = StampValue | StampEcho

definition buildOuterTcpOptionTimestampIncVmBody :: "ProfileWorkbenchStream \<Rightarrow> TimestampField \<Rightarrow> AdvancedVmBody" where
  "buildOuterTcpOptionTimestampIncVmBody stream field =
     (let target = (if field = StampValue then TimestampValue else TimestampEcho);
          variableName = (if field = StampValue then ''tcp_option_timestamp_value'' else ''tcp_option_timestamp_echo'')
      in case rawTcpOptionValueTarget (rawOf stream) target of
           Some rawTarget \<Rightarrow> rawTcpOptionBody rawTarget variableName
         | None \<Rightarrow>
             (let initValue = numOf stream variableName;
                  count = numOf stream (variableName @ ''_count'');
                  step = numOf stream (variableName @ ''_step'')
              in numberBody variableName ''inc'' 4 initValue initValue (min 4294967295 (initValue + count - 1)) step
                   (outerTcpOffset stream
                      + orElse (tcpOptionValueOffset stream target) (if field = StampValue then 24 else 28))
                   [outerTcpChecksumInstruction stream]))"

definition buildOuterTcpOptionTimestampValueIncVmBody :: "ProfileWorkbenchStream \<Rightarrow> AdvancedVmBody" where
  "buildOuterTcpOptionTimestampValueIncVmBody stream = buildOuterTcpOptionTimestampIncVmBody stream StampValue"

definition buildOuterTcpOptionTimestampEchoIncVmBody :: "ProfileWorkbenchStream \<Rightarrow> AdvancedVmBody" where
  "buildOuterTcpOptionTimestampEchoIncVmBody stream = buildOuterTcpOptionTimestampIncVmBody stream StampEcho"

datatype SackEdge = LeftEdge | RightEdge

definition sackEdgeName :: "SackEdge \<Rightarrow> string" where
  "sackEdgeName field = (if field = LeftEdge then ''left_edge'' else ''right_edge'')"

definition sackTargetName :: "SackEdge \<Rightarrow> int \<Rightarrow> RawTcpOptionTargetName" where
  "sackTargetName field blockIndex =
     (if blockIndex = 2 then (if field = LeftEdge then Sack2LeftEdge else Sack2RightEdge)
      else if blockIndex = 3 then (if field = LeftEdge then Sack3LeftEdge else Sack3RightEdge)
      else if blockIndex = 4 then (if field = LeftEdge then Sack4LeftEdge else Sack4RightEdge)
      else (if field = LeftEdge then SackLeftEdge else SackRightEdge))"

definition buildOuterTcpOptionSackIncVmBody :: "ProfileWorkbenchStream \<Rightarrow> SackEdge \<Rightarrow> int \<Rightarrow> AdvancedVmBody" where
  "buildOuterTcpOptionSackIncVmBody stream field blockIndex =
     (let edge = ''tcp_option_sack_'' @ sackEdgeName field;
          variableName = (if blockIndex > 1
            then ''tcp_option_sack'' @ decText blockIndex @ ''_'' @ sackEdgeName field else edge)
      in case rawTcpOptionValueTarget (rawOf stream) (sackTargetName field blockIndex) of
           Some rawTarget \<Rightarrow> rawTcpOptionBody rawTarget variableName
         | None \<Rightarrow>
             (let initValue = numOf stream edge;
                  count = numOf stream (edge @ ''_count'');
                  step = numOf stream (edge @ ''_step'')
              in numberBody variableName ''inc'' 4 initValue initValue (min 4294967295 (initValue + count - 1)) step
                   (outerTcpOffset stream
                      + orElse (tcpOptionValueOffset stream (if field = LeftEdge then SackLeftEdge else SackRightEdge))
                          (if field = LeftEdge then 28 else 32))
                   [outerTcpChecksumInstruction stream]))"

definition buildOuterTcpOptionSackLeftIncVmBody :: "ProfileWorkbenchStream \<Rightarrow> AdvancedVmBody" where
  "buildOuterTcpOptionSackLeftIncVmBody stream = buildOuterTcpOptionSackIncVmBody stream LeftEdge 1"

definition buildOuterTcpOptionSackRightIncVmBody :: "ProfileWorkbenchStream \<Rightarrow> AdvancedVmBody" where
  "buildOuterTcpOptionSackRightIncVmBody stream = buildOuterTcpOptionSackIncVmBody stream RightEdge 1"

definition buildOuterTcpOptionSack2LeftIncVmBody :: "ProfileWorkbenchStream \<Rightarrow> AdvancedVmBody" where
  "buildOuterTcpOptionSack2LeftIncVmBody stream = buildOuterTcpOptionSackIncVmBody stream LeftEdge 2"

definition buildOuterTcpOptionSack2RightIncVmBody :: "ProfileWorkbenchStream \<Rightarrow> AdvancedVmBody" where
  "buildOuterTcpOptionSack2RightIncVmBody stream = buildOuterTcpOptionSackIncVmBody stream RightEdge 2"

definition buildOuterTcpOptionSack3LeftIncVmBody :: "ProfileWorkbenchStream \<Rightarrow> AdvancedVmBody" where
  "buildOuterTcpOptionSack3LeftIncVmBody stream = buildOuterTcpOptionSackIncVmBody stream LeftEdge 3"

definition buildOuterTcpOptionSack3RightIncVmBody :: "ProfileWorkbenchStream \<Rightarrow> AdvancedVmBody" where
  "buildOuterTcpOptionSack3RightIncVmBody stream = buildOuterTcpOptionSackIncVmBody stream RightEdge 3"

definition buildOuterTcpOptionSack4LeftIncVmBody :: "ProfileWorkbenchStream \<Rightarrow> AdvancedVmBody" where
  "buildOuterTcpOptionSack4LeftIncVmBody stream = buildOuterTcpOptionSackIncVmBody stream LeftEdge 4"

definition buildOuterTcpOptionSack4RightIncVmBody :: "ProfileWorkbenchStream \<Rightarrow> AdvancedVmBody" where
  "buildOuterTcpOptionSack4RightIncVmBody stream = buildOuterTcpOptionSackIncVmBody stream RightEdge 4"

definition isAdvancedOuterTcpStream :: "ProfileWorkbenchStream option \<Rightarrow> bool" where
  "isAdvancedOuterTcpStream stream \<longleftrightarrow> isAdvancedOuterIpv4TcpStream stream \<or> isAdvancedOuterIpv6TcpStream stream"

definition isAdvancedRawTcpOptionStream :: "ProfileWorkbenchStream option \<Rightarrow> RawTcpOptionTargetName \<Rightarrow> bool" where
  "isAdvancedRawTcpOptionStream stream target =
     onStream (\<lambda>s. rawTcpOptionValueTarget (rawOf s) target \<noteq> None) stream"

definition formTcpOption :: "ProfileWorkbenchStream option \<Rightarrow> string \<Rightarrow> bool" where
  "formTcpOption stream enabled \<longleftrightarrow> isAdvancedOuterTcpStream stream \<and> onStream (\<lambda>s. flagOf s enabled) stream"

definition isAdvancedOuterTcpMssStream :: "ProfileWorkbenchStream option \<Rightarrow> bool" where
  "isAdvancedOuterTcpMssStream stream \<longleftrightarrow>
     formTcpOption stream ''tcp_option_mss_enabled'' \<or> isAdvancedRawTcpOptionStream stream Mss"

definition isAdvancedOuterTcpWindowScaleStream :: "ProfileWorkbenchStream option \<Rightarrow> bool" where
  "isAdvancedOuterTcpWindowScaleStream stream \<longleftrightarrow>
     formTcpOption stream ''tcp_option_window_scale_enabled'' \<or> isAdvancedRawTcpOptionStream stream WindowScale"

definition isAdvancedOuterTcpSackBlockStream :: "ProfileWorkbenchStream option \<Rightarrow> bool" where
  "isAdvancedOuterTcpSackBlockStream stream \<longleftrightarrow>
     formTcpOption stream ''tcp_option_sack_blocks_enabled''
     \<or> isAdvancedRawTcpOptionStream stream SackLeftEdge \<or> isAdvancedRawTcpOptionStream stream SackRightEdge"

definition isAdvancedRawTcpSackSecondBlockStream :: "ProfileWorkbenchStream option \<Rightarrow> bool" where
  "isAdvancedRawTcpSackSecondBlockStream stream \<longleftrightarrow>
     isAdvancedRawTcpOptionStream stream Sack2LeftEdge \<or> isAdvancedRawTcpOptionStream stream Sack2RightEdge"

definition isAdvancedRawTcpSackThirdBlockStream :: "ProfileWorkbenchStream option \<Rightarrow> bool" where
  "isAdvancedRawTcpSackThirdBlockStream stream \<longleftrightarrow>
     isAdvancedRawTcpOptionStream stream Sack3LeftEdge \<or> isAdvancedRawTcpOptionStream stream Sack3RightEdge"

definition isAdvancedRawTcpSackFourthBlockStream :: "ProfileWorkbenchStream option \<Rightarrow> bool" where
  "isAdvancedRawTcpSackFourthBlockStream stream \<longleftrightarrow>
     isAdvancedRawTcpOptionStream stream Sack4LeftEdge \<or> isAdvancedRawTcpOptionStream stream Sack4RightEdge"

definition isAdvancedOuterTcpTimestampStream :: "ProfileWorkbenchStream option \<Rightarrow> bool" where
  "isAdvancedOuterTcpTimestampStream stream \<longleftrightarrow>
     formTcpOption stream ''tcp_option_timestamp_enabled''
     \<or> isAdvancedRawTcpOptionStream stream TimestampValue \<or> isAdvancedRawTcpOptionStream stream TimestampEcho"

section \<open>SCTP\<close>

definition isSctpForm :: "ProfileWorkbenchStream \<Rightarrow> bool" where
  "isSctpForm s \<longleftrightarrow> packetType s = ''Ethernet/IPv4/SCTP'' \<or> packetType s = ''Ethernet/IPv6/SCTP''"

definition isAdvancedOuterSctpStream :: "ProfileWorkbenchStream option \<Rightarrow> bool" where
  "isAdvancedOuterSctpStream = onStream (\<lambda>s.
     if hasBinary s then rawOuterSctpTarget (rawOf s) 12 \<noteq> None else isSctpForm s)"

record SctpFlags =
  sctp_flags :: int
  sctp_flagsOffset :: int

definition sctpDataFlagsTarget :: "ProfileWorkbenchStream \<Rightarrow> SctpFlags option" where
  "sctpDataFlagsTarget stream =
     (case rawOuterSctpTarget (rawOf stream) 14 of
        Some rawTarget \<Rightarrow>
          if byteOr (-1) (sctp_bytes rawTarget) (sctp_offset rawTarget + 12) \<noteq> 0 then None
          else Some \<lparr>sctp_flags = byteAt (sctp_bytes rawTarget) (sctp_offset rawTarget + 13),
                     sctp_flagsOffset = sctp_offset rawTarget + 13\<rparr>
      | None \<Rightarrow>
          if isSctpForm stream
          then Some \<lparr>sctp_flags = numOf stream ''sctp_data_flags'', sctp_flagsOffset = outerSctpOffset stream + 13\<rparr>
          else None)"

definition isAdvancedOuterSctpDataStream :: "ProfileWorkbenchStream option \<Rightarrow> bool" where
  "isAdvancedOuterSctpDataStream = onStream (\<lambda>s. sctpDataFlagsTarget s \<noteq> None)"

datatype SctpAdvancedField =
  SctpSourcePort | SctpDestinationPort | SctpVerificationTag | SctpDataFlags | SctpTsn | SctpStreamId
| SctpStreamSequence | SctpPayloadProtocolId

record SctpAdvancedFieldSpec =
  spec_value :: int
  spec_count :: int
  spec_step :: int
  spec_size :: int
  spec_maxLimit :: int
  spec_offsetWithinSctp :: int

definition formField :: "ProfileWorkbenchStream \<Rightarrow> string \<Rightarrow> int \<Rightarrow> int \<Rightarrow> int \<Rightarrow> SctpAdvancedFieldSpec" where
  "formField stream name sz maxLimit offset =
     \<lparr>spec_value = numOf stream name, spec_count = numOf stream (name @ ''_count''),
      spec_step = numOf stream (name @ ''_step''), spec_size = sz, spec_maxLimit = maxLimit,
      spec_offsetWithinSctp = offset\<rparr>"

definition sctpAdvancedFieldSpec :: "ProfileWorkbenchStream \<Rightarrow> SctpAdvancedField \<Rightarrow> SctpAdvancedFieldSpec" where
  "sctpAdvancedFieldSpec stream field =
     (case field of
        SctpSourcePort \<Rightarrow> formField stream ''l4_src_port'' 2 65535 0
      | SctpDestinationPort \<Rightarrow> formField stream ''l4_dst_port'' 2 65535 2
      | SctpVerificationTag \<Rightarrow> formField stream ''sctp_verification_tag'' 4 4294967295 4
      | SctpDataFlags \<Rightarrow> formField stream ''sctp_data_flags'' 1 255 13
      | SctpTsn \<Rightarrow> formField stream ''sctp_tsn'' 4 4294967295 16
      | SctpStreamId \<Rightarrow> formField stream ''sctp_stream_id'' 2 65535 20
      | SctpStreamSequence \<Rightarrow> formField stream ''sctp_stream_sequence'' 2 65535 22
      | SctpPayloadProtocolId \<Rightarrow> formField stream ''sctp_payload_protocol_id'' 4 4294967295 24)"

definition sctpFieldName :: "SctpAdvancedField \<Rightarrow> string" where
  "sctpFieldName field =
     (case field of
        SctpSourcePort \<Rightarrow> ''source_port'' | SctpDestinationPort \<Rightarrow> ''destination_port''
      | SctpVerificationTag \<Rightarrow> ''verification_tag'' | SctpDataFlags \<Rightarrow> ''data_flags'' | SctpTsn \<Rightarrow> ''tsn''
      | SctpStreamId \<Rightarrow> ''stream_id'' | SctpStreamSequence \<Rightarrow> ''stream_sequence''
      | SctpPayloadProtocolId \<Rightarrow> ''payload_protocol_id'')"

text \<open>The packet's own field, when it is in the common header or the packet starts with a DATA chunk.\<close>

definition sctpRawTarget :: "ProfileWorkbenchStream \<Rightarrow> SctpAdvancedField \<Rightarrow> SctpTarget option" where
  "sctpRawTarget stream field =
     (let spec = sctpAdvancedFieldSpec stream field in
      case rawOuterSctpTarget (rawOf stream) (spec_offsetWithinSctp spec + spec_size spec) of
        None \<Rightarrow> None
      | Some t \<Rightarrow>
          if field \<in> {SctpSourcePort, SctpDestinationPort, SctpVerificationTag}
            \<or> rawPacketHasBytes (sctp_bytes t) (sctp_offset t + 12) 1 \<and> byteAt (sctp_bytes t) (sctp_offset t + 12) = 0
          then Some t else None)"

definition buildSctpNumberIncVmBody :: "ProfileWorkbenchStream \<Rightarrow> SctpAdvancedField \<Rightarrow> AdvancedVmBody" where
  "buildSctpNumberIncVmBody stream field =
     (let spec = sctpAdvancedFieldSpec stream field;
          variableName = ''sctp_'' @ sctpFieldName field;
          rawTarget = sctpRawTarget stream field;
          initValue = fromTarget rawTarget
            (\<lambda>t. rawPacketNumberValue (sctp_bytes t) (sctp_offset t + spec_offsetWithinSctp spec) (spec_size spec))
            (spec_value spec);
          pktOffset = fromTarget rawTarget sctp_offset (outerSctpOffset stream) + spec_offsetWithinSctp spec
      in numberBody variableName ''inc'' (spec_size spec) initValue initValue
           (min (spec_maxLimit spec) (initValue + spec_count spec - 1)) (spec_step spec) pktOffset [])"

definition buildSctpSourcePortIncVmBody :: "ProfileWorkbenchStream \<Rightarrow> AdvancedVmBody" where
  "buildSctpSourcePortIncVmBody stream = buildSctpNumberIncVmBody stream SctpSourcePort"

definition buildSctpDestinationPortIncVmBody :: "ProfileWorkbenchStream \<Rightarrow> AdvancedVmBody" where
  "buildSctpDestinationPortIncVmBody stream = buildSctpNumberIncVmBody stream SctpDestinationPort"

definition buildSctpVerificationTagIncVmBody :: "ProfileWorkbenchStream \<Rightarrow> AdvancedVmBody" where
  "buildSctpVerificationTagIncVmBody stream = buildSctpNumberIncVmBody stream SctpVerificationTag"

definition buildSctpDataFlagsIncVmBody :: "ProfileWorkbenchStream \<Rightarrow> AdvancedVmBody" where
  "buildSctpDataFlagsIncVmBody stream = buildSctpNumberIncVmBody stream SctpDataFlags"

definition buildSctpTsnIncVmBody :: "ProfileWorkbenchStream \<Rightarrow> AdvancedVmBody" where
  "buildSctpTsnIncVmBody stream = buildSctpNumberIncVmBody stream SctpTsn"

definition buildSctpStreamIdIncVmBody :: "ProfileWorkbenchStream \<Rightarrow> AdvancedVmBody" where
  "buildSctpStreamIdIncVmBody stream = buildSctpNumberIncVmBody stream SctpStreamId"

definition buildSctpStreamSequenceIncVmBody :: "ProfileWorkbenchStream \<Rightarrow> AdvancedVmBody" where
  "buildSctpStreamSequenceIncVmBody stream = buildSctpNumberIncVmBody stream SctpStreamSequence"

definition buildSctpPayloadProtocolIdIncVmBody :: "ProfileWorkbenchStream \<Rightarrow> AdvancedVmBody" where
  "buildSctpPayloadProtocolIdIncVmBody stream = buildSctpNumberIncVmBody stream SctpPayloadProtocolId"

datatype SctpDataFlagMaskedField =
  SctpReserved | SctpImmediateSack | SctpUnordered | SctpBeginning | SctpEnding

definition sctpFlagSpec :: "SctpDataFlagMaskedField \<Rightarrow> int \<times> string \<times> int" where
  "sctpFlagSpec field =
     (case field of
        SctpBeginning \<Rightarrow> (0x02, ''sctp_data_beginning_fragment'', 1)
      | SctpEnding \<Rightarrow> (0x01, ''sctp_data_ending_fragment'', 0)
      | SctpImmediateSack \<Rightarrow> (0x08, ''sctp_data_immediate_sack'', 3)
      | SctpReserved \<Rightarrow> (0xf0, ''sctp_data_reserved_flags'', 4)
      | SctpUnordered \<Rightarrow> (0x04, ''sctp_data_unordered'', 2))"

definition buildSctpDataFlagMaskedVmBody :: "ProfileWorkbenchStream \<Rightarrow> SctpDataFlagMaskedField \<Rightarrow> AdvancedVmBody" where
  "buildSctpDataFlagMaskedVmBody stream field =
     (case sctpDataFlagsTarget stream of
        None \<Rightarrow> advancedVmDefaultBody
      | Some target \<Rightarrow>
          (let (mask', name, shift) = sctpFlagSpec field;
               initValue = js_ushr (js_ushr (js_and (sctp_flags target) mask') shift) 0;
               maxValue = js_ushr mask' shift
           in maskedBody name (if maxValue = 1 \<and> initValue = 1 then ''dec'' else ''inc'') 1 initValue
                (if maxValue = 1 then 0 else initValue)
                (if maxValue = 1 then 1 else min maxValue (initValue + 3)) 1
                1 (sctp_flagsOffset target) mask' shift []))"

definition buildSctpDataReservedFlagsIncVmBody :: "ProfileWorkbenchStream \<Rightarrow> AdvancedVmBody" where
  "buildSctpDataReservedFlagsIncVmBody stream = buildSctpDataFlagMaskedVmBody stream SctpReserved"

definition buildSctpDataImmediateSackFlagVmBody :: "ProfileWorkbenchStream \<Rightarrow> AdvancedVmBody" where
  "buildSctpDataImmediateSackFlagVmBody stream = buildSctpDataFlagMaskedVmBody stream SctpImmediateSack"

definition buildSctpDataUnorderedFlagVmBody :: "ProfileWorkbenchStream \<Rightarrow> AdvancedVmBody" where
  "buildSctpDataUnorderedFlagVmBody stream = buildSctpDataFlagMaskedVmBody stream SctpUnordered"

definition buildSctpDataBeginningFragmentFlagVmBody :: "ProfileWorkbenchStream \<Rightarrow> AdvancedVmBody" where
  "buildSctpDataBeginningFragmentFlagVmBody stream = buildSctpDataFlagMaskedVmBody stream SctpBeginning"

definition buildSctpDataEndingFragmentFlagVmBody :: "ProfileWorkbenchStream \<Rightarrow> AdvancedVmBody" where
  "buildSctpDataEndingFragmentFlagVmBody stream = buildSctpDataFlagMaskedVmBody stream SctpEnding"

section \<open>Sound for the packets they find their field in\<close>

lemma tcp_fixed_bytes:
  "rawOuterTcpFixedHeaderTarget s = Some t \<Longrightarrow> tcp_bytes t = streamBytes s"
  by (auto simp: rawOuterTcpFixedHeaderTarget_def split: option.splits dest: rawOuterTcpTarget_bytes)

lemma tcp_checksum_repairs [simp]:
  "viewOf (rawTcpChecksumInstruction t) = OtherView" "viewOf (tcpChecksum s u) = OtherView"
  by (simp_all add: tcpChecksum_def rawTcpChecksumInstruction_def fromTarget_def split: option.split)

lemma tcp_number_template [template_sound]:
  assumes "rawOuterTcpFixedHeaderTarget (rawOf s) \<noteq> None" "countsPositive s"
  shows "bodySound (streamBytes (rawOf s)) (buildOuterTcpNumberIncVmBody s field)"
    "bodySound (streamBytes (rawOf s)) (buildOuterTcpWindowIncVmBody s)"
    "bodySound (streamBytes (rawOf s)) (buildOuterTcpUrgentPointerIncVmBody s)"
    "bodySound (streamBytes (rawOf s)) (buildOuterTcpChecksumIncVmBody s)"
proof -
  let ?bs = "streamBytes (rawOf s)"
  obtain t where t: "rawOuterTcpFixedHeaderTarget (rawOf s) = Some t" using assms(1) by auto
  note at = tcp_fixed_bytes [OF t]
  have within: "rawPacketHasBytes ?bs (tcp_offset t + k) n" if "0 \<le> k" "0 < n" "k + n \<le> 20" for k n
    by (rule hasBytes_within [OF tcp_target.inside [OF t]]) (use that in simp_all)
  show "bodySound ?bs (buildOuterTcpNumberIncVmBody s field)"
    unfolding buildOuterTcpNumberIncVmBody_def t fromTarget_simps at Let_def
    by (rule longBody_sound) (use assms(2) within in \<open>simp_all add: in_range\<close>)
  show "bodySound ?bs (buildOuterTcpWindowIncVmBody s)"
    unfolding buildOuterTcpWindowIncVmBody_def t fromTarget_simps at Let_def
    by (rule wordBody_sound) (use assms(2) within in \<open>simp_all add: in_range\<close>)
  show "bodySound ?bs (buildOuterTcpUrgentPointerIncVmBody s)"
    unfolding buildOuterTcpUrgentPointerIncVmBody_def t fromTarget_simps at Let_def
    by (rule wordBody_sound) (use assms(2) within in \<open>simp_all add: in_range\<close>)
  show "bodySound ?bs (buildOuterTcpChecksumIncVmBody s)"
    unfolding buildOuterTcpChecksumIncVmBody_def t fromTarget_simps at Let_def
    by (rule wordBody_sound) (use assms(2) within in \<open>simp_all add: in_range\<close>)
qed

lemma tcp_flag_fields:
  assumes "tcpFlagTargetFields flag = (v, m)"
  shows "m = (2 ^ 1 - 1) * 2 ^ nat (log2OfBit m)" "0 \<le> log2OfBit m" "m < 2147483648" "0 < m"
  using assms
  by (cases flag; simp add: tcpFlagTargetFields_def log2OfBit_def bitLength.simps)+

lemma one_bit:
  assumes "m = (2 ^ 1 - 1) * 2 ^ k" "0 < m" "m < 2147483648"
  shows "(if js_and b m = 0 then 0 else 1) = b div 2 ^ k mod 2"
proof -
  have "js_and b m = b div 2 ^ k mod 2 * 2 ^ k"
    using js_and_field [of m 1 k b] assms by simp
  moreover have "b div 2 ^ k mod 2 = 0 \<or> b div 2 ^ k mod 2 = 1" by presburger
  ultimately show ?thesis by auto
qed

lemma tcp_field_template [template_sound]:
  assumes "rawOuterTcpFixedHeaderTarget (rawOf s) \<noteq> None" "countsPositive s"
  shows "bodySound (streamBytes (rawOf s)) (buildOuterTcpFlagsIncVmBody s)"
    "bodySound (streamBytes (rawOf s)) (buildOuterTcpReservedBitsIncVmBody s)"
    "bodySound (streamBytes (rawOf s)) (buildOuterTcpFlagVaryVmBody s flag)"
proof -
  let ?bs = "streamBytes (rawOf s)"
  obtain t where t: "rawOuterTcpFixedHeaderTarget (rawOf s) = Some t" using assms(1) by auto
  note at = tcp_fixed_bytes [OF t]
  have within: "rawPacketHasBytes ?bs (tcp_offset t + k) 1" if "0 \<le> k" "k < 20" for k
    by (rule hasBytes_within [OF tcp_target.inside [OF t]]) (use that in simp_all)
  show "bodySound ?bs (buildOuterTcpFlagsIncVmBody s)"
    unfolding buildOuterTcpFlagsIncVmBody_def t fromTarget_simps at Let_def js_arith
    by (rule maskedBody_sound [where n = 6]) (use assms(2) within in \<open>simp_all add: rawPacketNumberValue_1\<close>)
  show "bodySound ?bs (buildOuterTcpReservedBitsIncVmBody s)"
    unfolding buildOuterTcpReservedBitsIncVmBody_def t fromTarget_simps at Let_def js_arith
    by (rule maskedBody_sound [where n = 4])
      (use assms(2) within pos_mod_bound [of 16 "byteAt ?bs (tcp_offset t + 12)"]
        in \<open>simp_all add: rawPacketNumberValue_1\<close>)
  obtain v m where f: "tcpFlagTargetFields flag = (v, m)" by fastforce
  note m = tcp_flag_fields [OF f]
  have bit: "(if js_and b m = 0 then 0 else 1) = b div 2 ^ nat (log2OfBit m) mod 2 ^ 1" for b
    using one_bit [OF m(1,4,3), of b] by simp
  show "bodySound ?bs (buildOuterTcpFlagVaryVmBody s flag)"
    unfolding buildOuterTcpFlagVaryVmBody_def t fromTarget_simps at Let_def f prod.case bit
    by (rule maskedBody_sound [where n = 1, OF _ _ m(2) m(1)]) (use within in \<open>simp_all add: rawPacketNumberValue_1\<close>)
qed

lemma tcp_option_body:
  assumes "rawTcpOptionValueTarget (rawOf s) target = Some t"
  shows "bodySound (streamBytes (rawOf s)) (rawTcpOptionBody t name)"
proof -
  note at = rawTcpOptionValueTargetD [OF assms]
  show ?thesis
    unfolding rawTcpOptionBody_def
    by (rule number_write_sound) (use at in \<open>auto simp: in_range\<close>)
qed

lemma tcp_option_template [template_sound]:
  "rawTcpOptionValueTarget (rawOf s) Mss \<noteq> None
    \<Longrightarrow> bodySound (streamBytes (rawOf s)) (buildOuterTcpOptionMssIncVmBody s)"
  "rawTcpOptionValueTarget (rawOf s) WindowScale \<noteq> None
    \<Longrightarrow> bodySound (streamBytes (rawOf s)) (buildOuterTcpOptionWindowScaleIncVmBody s)"
  "rawTcpOptionValueTarget (rawOf s) (if stamp = StampValue then TimestampValue else TimestampEcho) \<noteq> None
    \<Longrightarrow> bodySound (streamBytes (rawOf s)) (buildOuterTcpOptionTimestampIncVmBody s stamp)"
  "rawTcpOptionValueTarget (rawOf s) (sackTargetName edge block) \<noteq> None
    \<Longrightarrow> bodySound (streamBytes (rawOf s)) (buildOuterTcpOptionSackIncVmBody s edge block)"
  using tcp_option_body
  by (auto simp: buildOuterTcpOptionMssIncVmBody_def buildOuterTcpOptionWindowScaleIncVmBody_def
      buildOuterTcpOptionTimestampIncVmBody_def buildOuterTcpOptionSackIncVmBody_def Let_def
      simp del: suffix_text)

lemma sctp_spec:
  "spec_size (sctpAdvancedFieldSpec s field) \<in> {1, 2, 4}"
  "spec_maxLimit (sctpAdvancedFieldSpec s field) = 256 ^ nat (spec_size (sctpAdvancedFieldSpec s field)) - 1"
  "0 \<le> spec_offsetWithinSctp (sctpAdvancedFieldSpec s field)"
  "countsPositive s \<Longrightarrow> 0 < spec_count (sctpAdvancedFieldSpec s field)"
  "countsPositive s \<Longrightarrow> 1 \<le> spec_step (sctpAdvancedFieldSpec s field)"
  by (cases field; simp add: sctpAdvancedFieldSpec_def formField_def)+

lemma rawOuterSctpTarget_bytes: "rawOuterSctpTarget s n = Some t \<Longrightarrow> sctp_bytes t = streamBytes s"
  by (auto simp: rawOuterSctpTarget_def Let_def split: option.splits if_splits
      dest: rawOuterIpv4L4TargetD(1) rawOuterIpv6L4TargetD(1))

lemma sctp_number_template [template_sound]:
  assumes "sctpRawTarget s field \<noteq> None" "countsPositive s"
  shows "bodySound (streamBytes (rawOf s)) (buildSctpNumberIncVmBody s field)"
proof -
  let ?bs = "streamBytes (rawOf s)"
  define spec where "spec = sctpAdvancedFieldSpec s field"
  note spec = sctp_spec [of s field, folded spec_def]
  obtain t where t: "sctpRawTarget s field = Some t" using assms(1) by auto
  then have raw: "rawOuterSctpTarget (rawOf s) (spec_offsetWithinSctp spec + spec_size spec) = Some t"
    by (auto simp: sctpRawTarget_def spec_def Let_def split: option.splits if_splits)
  note at = rawOuterSctpTarget_bytes [OF raw]
  have inside: "rawPacketHasBytes ?bs (sctp_offset t + spec_offsetWithinSctp spec) (spec_size spec)"
    by (rule hasBytes_within [OF sctp_target.inside [OF raw]]) (use spec(1,3) in auto)
  have "rawPacketNumberValue ?bs off n < 256 ^ nat n" "0 \<le> rawPacketNumberValue ?bs off n" for off n
    by (simp_all add: in_range)
  then show ?thesis
    unfolding buildSctpNumberIncVmBody_def t fromTarget_simps at Let_def spec_def [symmetric]
    by (intro numberBody_sound)
      (use spec(2) spec(4,5) [OF assms(2)] inside in \<open>simp_all add: min_less_iff_disj zle_diff1_eq\<close>)
qed

lemma sctp_flag_spec:
  assumes "sctpFlagSpec field = (m, name, shift)"
  shows "m = (2 ^ nat (bitLength (js_ushr m shift)) - 1) * 2 ^ nat shift" "0 \<le> shift" "shift < 32"
    "0 < m" "m < 256" "js_ushr m shift = 2 ^ nat (bitLength (js_ushr m shift)) - 1"
    "js_ushr m shift < 256"
  using assms
  by (cases field; simp add: sctpFlagSpec_def js_ushr_nonneg bitLength.simps)+

lemma sctp_flag_template [template_sound]:
  assumes "rawOuterSctpTarget (rawOf s) 14 \<noteq> None" "sctpDataFlagsTarget s \<noteq> None"
  shows "bodySound (streamBytes (rawOf s)) (buildSctpDataFlagMaskedVmBody s field)"
proof -
  let ?bs = "streamBytes (rawOf s)"
  obtain t where t: "rawOuterSctpTarget (rawOf s) 14 = Some t" using assms(1) by auto
  note at = rawOuterSctpTarget_bytes [OF t]
  define off where "off = sctp_offset t + 13"
  have target: "sctpDataFlagsTarget s = Some \<lparr>sctp_flags = byteAt ?bs off, sctp_flagsOffset = off\<rparr>"
    using assms(2) by (auto simp: sctpDataFlagsTarget_def t at off_def split: if_splits)
  have inside: "rawPacketHasBytes ?bs off 1"
    unfolding off_def by (rule hasBytes_within [OF sctp_target.inside [OF t]]) simp_all
  obtain m name shift where f: "sctpFlagSpec field = (m, name, shift)"
    by (cases "sctpFlagSpec field") auto
  note m = sctp_flag_spec [OF f]
  define n where "n = nat (bitLength (js_ushr m shift))"
  define hi where "hi = js_ushr m shift"
  define val where "val = byteAt ?bs off div 2 ^ nat shift mod 2 ^ n"
  have hi: "hi = 2 ^ n - 1" using m(6) by (simp add: hi_def n_def)
  have val: "0 \<le> val" "val \<le> hi" "val = js_ushr (js_ushr (js_and (byteAt ?bs off) m) shift) 0"
  proof -
    show "0 \<le> val" "val \<le> hi" by (simp_all add: val_def hi zle_diff1_eq)
    have b: "js_and (byteAt ?bs off) m = val * 2 ^ nat shift"
      using js_and_field [of m n "nat shift" "byteAt ?bs off"] m by (simp add: n_def val_def)
    have "0 \<le> js_and (byteAt ?bs off) m" "js_and (byteAt ?bs off) m < 256"
      using js_and_nonneg [of m "byteAt ?bs off"] AND_upper2 [of m "byteAt ?bs off"] m by simp_all
    then have "js_ushr (js_and (byteAt ?bs off) m) shift = val"
      using m(2,3) by (simp add: js_ushr_nonneg b)
    moreover have "val < 4294967296"
      using \<open>js_and (byteAt ?bs off) m < 256\<close> unfolding b using \<open>0 \<le> val\<close>
      by (smt (verit) mult_le_cancel_left1 one_le_power)
    ultimately show "val = js_ushr (js_ushr (js_and (byteAt ?bs off) m) shift) 0"
      using \<open>0 \<le> val\<close> by (simp add: js_ushr_nonneg)
  qed
  have "hi < 256" using m(7) by (simp add: hi_def)
  then show ?thesis
    unfolding buildSctpDataFlagMaskedVmBody_def target option.case f Let_def prod.case SctpFlags.select_convs
      val(3) [symmetric] hi_def [symmetric]
    by (intro maskedBody_sound [where n = n])
      (use m(1,2) inside val(1,2) hi in \<open>auto simp: rawPacketNumberValue_1 val_def n_def min_less_iff_disj\<close>)
qed

end
