(* ===== verification/VmInner.thy ===== *)
theory VmInner
  imports VmTransport GtpuGre
begin

text \<open>
  What the templates for the inner packet of a tunnel share: the five-tuple of a form and the
  fields of an inner IPv4 header (\<open>advancedVmInnerIpv4Model.ts\<close>), of an inner IPv6 header
  (\<open>advancedVmInnerIpv6Model.ts\<close>), and the bodies that \<open>advancedVmModel.ts\<close> repeats for VXLAN and
  GTP-U, whose form properties differ in their prefix only.
\<close>

section \<open>A five-tuple of the form\<close>

text \<open>An address or a port with its count and its step.\<close>

type_synonym CountedAddress = "string \<times> int \<times> int"
type_synonym CountedPort = "int \<times> int \<times> int"

definition buildStructuredInnerIpv4UdpFiveTupleVmBody ::
  "VmValue \<Rightarrow> CountedAddress \<Rightarrow> CountedPort \<Rightarrow> int \<Rightarrow> int \<Rightarrow> string \<Rightarrow> CountedAddress \<Rightarrow> CountedPort \<Rightarrow> AdvancedVmBody" where
  "buildStructuredInnerIpv4UdpFiveTupleVmBody checksumInstruction dst dstPort innerIpv4Offset innerUdpOffset' prefix
     src srcPort =
     (let (srcAddress, srcAddressCount, srcAddressStep) = src;
          (dstAddress, dstAddressCount, dstAddressStep) = dst;
          (srcPortValue, srcPortCount, srcPortStep) = srcPort;
          (dstPortValue, dstPortCount, dstPortStep) = dstPort;
          srcSuffix = ipv4FieldEngineSuffix srcAddress srcAddressCount;
          dstSuffix = ipv4FieldEngineSuffix dstAddress dstAddressCount
      in vmBody
           (advancedNumberWriteInstructions
              \<lparr>nw_checksumInstruction = None, nw_count = srcAddressCount, nw_initValue = sfx_initValue srcSuffix,
               nw_maxLimit = fieldEngineMaxForSize (sfx_size srcSuffix), nw_name = prefix @ ''_ipv4_src'',
               nw_pktOffset = innerIpv4Offset + 16 - sfx_size srcSuffix, nw_size = sfx_size srcSuffix,
               nw_step = srcAddressStep\<rparr>
            @ advancedNumberWriteInstructions
              \<lparr>nw_checksumInstruction = None, nw_count = dstAddressCount, nw_initValue = sfx_initValue dstSuffix,
               nw_maxLimit = fieldEngineMaxForSize (sfx_size dstSuffix), nw_name = prefix @ ''_ipv4_dst'',
               nw_pktOffset = innerIpv4Offset + 20 - sfx_size dstSuffix, nw_size = sfx_size dstSuffix,
               nw_step = dstAddressStep\<rparr>
            @ advancedNumberWriteInstructions
              \<lparr>nw_checksumInstruction = None, nw_count = srcPortCount, nw_initValue = srcPortValue,
               nw_maxLimit = 65535, nw_name = prefix @ ''_udp_src'', nw_pktOffset = innerUdpOffset',
               nw_size = 2, nw_step = srcPortStep\<rparr>
            @ advancedNumberWriteInstructions
              \<lparr>nw_checksumInstruction = None, nw_count = dstPortCount, nw_initValue = dstPortValue,
               nw_maxLimit = 65535, nw_name = prefix @ ''_udp_dst'', nw_pktOffset = innerUdpOffset' + 2,
               nw_size = 2, nw_step = dstPortStep\<rparr>
            @ [checksumInstruction])
           (prefix @ ''_ipv4_src''))"

section \<open>Fields of an inner header of the packet\<close>

definition buildRawInnerIpv4IdIncVmBody ::
  "bytes \<Rightarrow> VmValue option \<Rightarrow> int \<Rightarrow> int \<Rightarrow> int \<Rightarrow> string \<Rightarrow> AdvancedVmBody" where
  "buildRawInnerIpv4IdIncVmBody bs checksumInstruction count innerIpOffset step variableName =
     buildAdvancedNumberWriteVmBody
       \<lparr>nw_checksumInstruction = checksumInstruction, nw_count = count,
        nw_initValue = rawPacketWord bs (innerIpOffset + 4), nw_maxLimit = 65535, nw_name = variableName,
        nw_pktOffset = innerIpOffset + 4, nw_size = 2, nw_step = step\<rparr>"

definition buildRawInnerIpv4DscpIncVmBody ::
  "bytes \<Rightarrow> VmValue option \<Rightarrow> int \<Rightarrow> int \<Rightarrow> int \<Rightarrow> string \<Rightarrow> AdvancedVmBody" where
  "buildRawInnerIpv4DscpIncVmBody bs checksumInstruction count innerIpOffset step variableName =
     (let initValue = js_ushr (js_and (byteAt bs (innerIpOffset + 1)) 0xfc) 2
      in maskedBody variableName ''inc'' 1 initValue initValue (min 63 (initValue + count - 1)) step
           1 (innerIpOffset + 1) 0xfc 2 (optionalInstruction checksumInstruction))"

definition buildRawInnerIpv4EcnIncVmBody ::
  "bytes \<Rightarrow> VmValue option \<Rightarrow> int \<Rightarrow> int \<Rightarrow> int \<Rightarrow> string \<Rightarrow> AdvancedVmBody" where
  "buildRawInnerIpv4EcnIncVmBody bs checksumInstruction count innerIpOffset step variableName =
     (let initValue = js_and (byteAt bs (innerIpOffset + 1)) 0x03
      in maskedBody variableName ''inc'' 1 initValue initValue (min 3 (initValue + count - 1)) step
           1 (innerIpOffset + 1) 0x03 0 (optionalInstruction checksumInstruction))"

definition buildRawInnerIpv4FragmentOffsetIncVmBody ::
  "bytes \<Rightarrow> VmValue option \<Rightarrow> int \<Rightarrow> int \<Rightarrow> int \<Rightarrow> string \<Rightarrow> AdvancedVmBody" where
  "buildRawInnerIpv4FragmentOffsetIncVmBody bs checksumInstruction count innerIpOffset step variableName =
     (let initValue = js_and (rawPacketWord bs (innerIpOffset + 6)) 0x1fff
      in maskedBody variableName ''inc'' 2 initValue initValue (min 8191 (initValue + count - 1)) step
           2 (innerIpOffset + 6) 0x1fff 0 (optionalInstruction checksumInstruction))"

definition innerIpv4Flag :: "Ipv4Flag \<Rightarrow> int \<times> int \<times> string" where
  "innerIpv4Flag target =
     (case target of DfFlag \<Rightarrow> (0x4000, 14, ''_df'') | MfFlag \<Rightarrow> (0x2000, 13, ''_mf'')
      | ReservedFlag \<Rightarrow> (0x8000, 15, ''_reserved''))"

definition buildRawInnerIpv4FlagVaryVmBody ::
  "bytes \<Rightarrow> VmValue option \<Rightarrow> int \<Rightarrow> Ipv4Flag \<Rightarrow> string \<Rightarrow> AdvancedVmBody" where
  "buildRawInnerIpv4FlagVaryVmBody bs checksumInstruction innerIpOffset target variablePrefix =
     (let (mask', shift, suffix) = innerIpv4Flag target;
          initValue = js_ushr (js_and (rawPacketWord bs (innerIpOffset + 6)) mask') shift
      in maskedBody (variablePrefix @ suffix) (if initValue = 1 then ''dec'' else ''inc'') 1 initValue 0 1 1
           2 (innerIpOffset + 6) mask' shift (optionalInstruction checksumInstruction))"

definition buildRawInnerIpv6TrafficClassIncVmBody :: "bytes \<Rightarrow> int \<Rightarrow> string \<Rightarrow> int \<Rightarrow> int \<Rightarrow> AdvancedVmBody" where
  "buildRawInnerIpv6TrafficClassIncVmBody bs innerIpOffset variableName count step =
     (let initValue = trafficClassOf bs innerIpOffset
      in maskedBody variableName ''inc'' 1 initValue initValue (min 255 (initValue + count - 1)) step
           4 innerIpOffset 0x0ff00000 20 [])"

definition buildRawInnerIpv6FlowLabelIncVmBody :: "bytes \<Rightarrow> int \<Rightarrow> string \<Rightarrow> int \<Rightarrow> int \<Rightarrow> AdvancedVmBody" where
  "buildRawInnerIpv6FlowLabelIncVmBody bs innerIpOffset variableName count step =
     (let initValue = js_and (rawPacketNumberValue bs innerIpOffset 4) 0x000fffff
      in maskedBody variableName ''inc'' 4 initValue initValue (min 1048575 (initValue + count - 1)) step
           4 innerIpOffset 0x000fffff 0 [])"

section \<open>What VXLAN and GTP-U repeat\<close>

text \<open>The inner IP header, its offset and its length: the properties present when \<open>"innerIpOffset" in rawTarget\<close>.\<close>

definition innerIpHeader :: "InnerIp \<Rightarrow> (int \<times> int) option" where
  "innerIpHeader inner =
     (case inner of
        NoInnerIp \<Rightarrow> None
      | IsInnerIpv4 i \<Rightarrow> Some (in4_innerIpOffset i, in4_innerIpHeaderLength i)
      | IsInnerIpv6 i \<Rightarrow> Some (in6_innerIpOffset i, in6_innerIpHeaderLength i))"

definition innerV4 :: "InnerIp \<Rightarrow> InnerIpv4 option" where
  "innerV4 inner = (case inner of IsInnerIpv4 i \<Rightarrow> Some i | _ \<Rightarrow> None)"

definition innerV6 :: "InnerIp \<Rightarrow> InnerIpv6 option" where
  "innerV6 inner = (case inner of IsInnerIpv6 i \<Rightarrow> Some i | _ \<Rightarrow> None)"

definition innerUdpSrcPort :: "InnerIp \<Rightarrow> int option" where
  "innerUdpSrcPort inner =
     (case inner of NoInnerIp \<Rightarrow> None | IsInnerIpv4 i \<Rightarrow> in4_innerUdpSrcPort i | IsInnerIpv6 i \<Rightarrow> in6_innerUdpSrcPort i)"

definition innerUdpDstPort :: "InnerIp \<Rightarrow> int option" where
  "innerUdpDstPort inner =
     (case inner of NoInnerIp \<Rightarrow> None | IsInnerIpv4 i \<Rightarrow> in4_innerUdpDstPort i | IsInnerIpv6 i \<Rightarrow> in6_innerUdpDstPort i)"

definition innerHwChecksum :: "InnerIp option \<Rightarrow> int \<Rightarrow> VmValue \<Rightarrow> VmValue" where
  "innerHwChecksum inner l4Type onForm =
     (case Option.bind inner innerIpHeader of
        Some (offset, len) \<Rightarrow> fixChecksumHw offset len l4Type
      | None \<Rightarrow> onForm)"

definition innerIpv4Checksum :: "InnerIp option \<Rightarrow> VmValue \<Rightarrow> VmValue" where
  "innerIpv4Checksum inner onForm =
     (case inner of
        None \<Rightarrow> onForm
      | Some i \<Rightarrow>
          if innerUdpOffset i \<noteq> None then innerHwChecksum inner 11 onForm
          else if innerTcpOffset i \<noteq> None then innerHwChecksum inner 13 onForm
          else (case innerIpHeader i of Some (offset, len) \<Rightarrow> fixChecksumIpv4 offset | None \<Rightarrow> onForm))"

text \<open>The name of a side in the properties of the form.\<close>

definition sideName :: "FieldSide \<Rightarrow> string" where
  "sideName field = (if field = SrcField then ''src'' else ''dst'')"

definition innerIpv4AddressBody ::
  "ProfileWorkbenchStream \<Rightarrow> string \<Rightarrow> InnerIpv4 option \<Rightarrow> int \<Rightarrow> VmValue \<Rightarrow> FieldSide \<Rightarrow> AdvancedVmBody" where
  "innerIpv4AddressBody stream prefix rawTarget formOffset checksumInstruction field =
     (let name = prefix @ ''_ipv4_'' @ sideName field;
          address = fromTarget rawTarget (if field = SrcField then in4_innerIpv4Src else in4_innerIpv4Dst)
            (textOf stream name);
          count = numOf stream (name @ ''_count'');
          step = numOf stream (name @ ''_step'');
          suffix = ipv4FieldEngineSuffix address count;
          baseOffset = fromTarget rawTarget
            (if field = SrcField then in4_innerIpv4SrcOffset else in4_innerIpv4DstOffset)
            (formOffset + (if field = DstField then 16 else 12))
      in buildAdvancedNumberWriteVmBody
           \<lparr>nw_checksumInstruction = Some checksumInstruction, nw_count = count,
            nw_initValue = sfx_initValue suffix, nw_maxLimit = fieldEngineMaxForSize (sfx_size suffix),
            nw_name = name, nw_pktOffset = baseOffset + 4 - sfx_size suffix, nw_size = sfx_size suffix,
            nw_step = step\<rparr>)"

definition innerIpv4TtlBody ::
  "ProfileWorkbenchStream \<Rightarrow> string \<Rightarrow> InnerIpv4 option \<Rightarrow> int \<Rightarrow> VmValue \<Rightarrow> AdvancedVmBody" where
  "innerIpv4TtlBody stream prefix rawTarget formOffset checksumInstruction =
     (let name = prefix @ ''_ipv4_ttl''
      in buildAdvancedNumberWriteVmBody
           \<lparr>nw_checksumInstruction = Some checksumInstruction, nw_count = numOf stream (name @ ''_count''),
            nw_initValue = fromTarget rawTarget in4_innerIpv4Ttl (numOf stream name), nw_maxLimit = 255,
            nw_name = name, nw_pktOffset = fromTarget rawTarget in4_innerIpv4TtlOffset (formOffset + 8),
            nw_size = 1, nw_step = numOf stream (name @ ''_step'')\<rparr>)"

definition innerIpv6AddressBody ::
  "ProfileWorkbenchStream \<Rightarrow> string \<Rightarrow> InnerIpv6 option \<Rightarrow> int \<Rightarrow> VmValue \<Rightarrow> FieldSide \<Rightarrow> AdvancedVmBody" where
  "innerIpv6AddressBody stream prefix rawTarget formOffset checksumInstruction field =
     (let name = prefix @ ''_ipv6_'' @ sideName field;
          address = fromTarget rawTarget (if field = SrcField then in6_innerIpv6Src else in6_innerIpv6Dst)
            (textOf stream name);
          baseOffset = fromTarget rawTarget
            (if field = SrcField then in6_innerIpv6SrcOffset else in6_innerIpv6DstOffset)
            (formOffset + (if field = DstField then 24 else 8))
      in buildIpv6AddressIncVmBody address baseOffset (Some checksumInstruction) (numOf stream (name @ ''_count''))
           name (numOf stream (name @ ''_step'')))"

definition innerIpv6HopLimitBody :: "ProfileWorkbenchStream \<Rightarrow> string \<Rightarrow> InnerIpv6 option \<Rightarrow> int \<Rightarrow> AdvancedVmBody" where
  "innerIpv6HopLimitBody stream prefix rawTarget formOffset =
     (let name = prefix @ ''_ipv6_hop_limit''
      in buildAdvancedNumberWriteVmBody
           \<lparr>nw_checksumInstruction = None, nw_count = numOf stream (name @ ''_count''),
            nw_initValue = fromTarget rawTarget in6_innerIpv6HopLimit (numOf stream name), nw_maxLimit = 255,
            nw_name = name, nw_pktOffset = fromTarget rawTarget in6_innerIpv6HopLimitOffset (formOffset + 7),
            nw_size = 1, nw_step = numOf stream (name @ ''_step'')\<rparr>)"

definition innerUdpPortBody ::
  "ProfileWorkbenchStream \<Rightarrow> string \<Rightarrow> InnerIp option \<Rightarrow> int \<Rightarrow> VmValue \<Rightarrow> FieldSide \<Rightarrow> AdvancedVmBody" where
  "innerUdpPortBody stream prefix rawTarget formOffset checksumInstruction field =
     (let port = prefix @ ''_l4_'' @ sideName field @ ''_port'';
          initValue = fromTarget rawTarget
            (\<lambda>t. orElse (if field = SrcField then innerUdpSrcPort t else innerUdpDstPort t) 0) (numOf stream port);
          innerL3Length = (if textOf stream (prefix @ ''_ip_version'') = ''IPv6'' then 40 else 20);
          udpFieldOffset = orElse (Option.bind rawTarget innerUdpOffset) (formOffset + innerL3Length)
            + (if field = DstField then 2 else 0)
      in buildAdvancedNumberWriteVmBody
           \<lparr>nw_checksumInstruction = Some checksumInstruction, nw_count = numOf stream (port @ ''_count''),
            nw_initValue = initValue, nw_maxLimit = 65535, nw_name = prefix @ ''_udp_'' @ sideName field,
            nw_pktOffset = udpFieldOffset, nw_size = 2, nw_step = numOf stream (port @ ''_step'')\<rparr>)"

definition innerTcpPortBody ::
  "ProfileWorkbenchStream \<Rightarrow> string \<Rightarrow> bytes \<Rightarrow> int \<Rightarrow> VmValue \<Rightarrow> FieldSide \<Rightarrow> AdvancedVmBody" where
  "innerTcpPortBody stream prefix bs tcpOffset checksumInstruction field =
     (let port = prefix @ ''_l4_'' @ sideName field @ ''_port'';
          fieldOffset = tcpOffset + (if field = DstField then 2 else 0)
      in buildAdvancedNumberWriteVmBody
           \<lparr>nw_checksumInstruction = Some checksumInstruction, nw_count = numOf stream (port @ ''_count''),
            nw_initValue = rawPacketWord bs fieldOffset, nw_maxLimit = 65535,
            nw_name = prefix @ ''_tcp_'' @ sideName field, nw_pktOffset = fieldOffset, nw_size = 2,
            nw_step = numOf stream (port @ ''_step'')\<rparr>)"

text \<open>The five-tuple of an inner packet: plain writes, the addresses as whole numbers.\<close>

definition rawInnerFiveTupleBody ::
  "ProfileWorkbenchStream \<Rightarrow> string \<Rightarrow> (int \<Rightarrow> int) \<Rightarrow> bytes \<Rightarrow> InnerIpv4 \<Rightarrow> int \<Rightarrow> VmValue \<Rightarrow> AdvancedVmBody" where
  "rawInnerFiveTupleBody stream prefix limit bs i udpOffset checksumInstruction =
     (let src = rawPacketNumberValue bs (in4_innerIpv4SrcOffset i) 4;
          dst = rawPacketNumberValue bs (in4_innerIpv4DstOffset i) 4;
          srcPort = orElse (in4_innerUdpSrcPort i) 0;
          dstPort = orElse (in4_innerUdpDstPort i) 0
      in vmBody
           [flowVar (prefix @ ''_ipv4_src'') ''inc'' 4 src src
              (limit (src + numOf stream (prefix @ ''_ipv4_src_count'') - 1)) (numOf stream (prefix @ ''_ipv4_src_step'')),
            writePlainFlowVar (prefix @ ''_ipv4_src'') (in4_innerIpv4SrcOffset i),
            flowVar (prefix @ ''_ipv4_dst'') ''inc'' 4 dst dst
              (limit (dst + numOf stream (prefix @ ''_ipv4_dst_count'') - 1)) (numOf stream (prefix @ ''_ipv4_dst_step'')),
            writePlainFlowVar (prefix @ ''_ipv4_dst'') (in4_innerIpv4DstOffset i),
            flowVar (prefix @ ''_udp_src'') ''inc'' 2 srcPort srcPort
              (min 65535 (srcPort + numOf stream (prefix @ ''_l4_src_port_count'') - 1))
              (numOf stream (prefix @ ''_l4_src_port_step'')),
            writePlainFlowVar (prefix @ ''_udp_src'') udpOffset,
            flowVar (prefix @ ''_udp_dst'') ''inc'' 2 dstPort dstPort
              (min 65535 (dstPort + numOf stream (prefix @ ''_l4_dst_port_count'') - 1))
              (numOf stream (prefix @ ''_l4_dst_port_step'')),
            writePlainFlowVar (prefix @ ''_udp_dst'') (udpOffset + 2),
            checksumInstruction]
           (prefix @ ''_ipv4_src''))"

definition structuredInnerFiveTupleBody ::
  "ProfileWorkbenchStream \<Rightarrow> string \<Rightarrow> int \<Rightarrow> VmValue \<Rightarrow> AdvancedVmBody" where
  "structuredInnerFiveTupleBody stream prefix innerIpv4Offset checksumInstruction =
     (let counted = (\<lambda>f. (numOf stream (prefix @ f @ ''_count''), numOf stream (prefix @ f @ ''_step'')))
      in buildStructuredInnerIpv4UdpFiveTupleVmBody checksumInstruction
           (textOf stream (prefix @ ''_ipv4_dst''), counted ''_ipv4_dst'')
           (numOf stream (prefix @ ''_l4_dst_port''), counted ''_l4_dst_port'')
           innerIpv4Offset (innerIpv4Offset + 20) prefix
           (textOf stream (prefix @ ''_ipv4_src''), counted ''_ipv4_src'')
           (numOf stream (prefix @ ''_l4_src_port''), counted ''_l4_src_port''))"

text \<open>The condition on the address of an inner IPv6 packet.\<close>

definition innerIpv6AddressStream ::
  "ProfileWorkbenchStream option \<Rightarrow> string \<Rightarrow> (ProfileWorkbenchStream \<Rightarrow> InnerIpv6 option)
   \<Rightarrow> (ProfileWorkbenchStream \<Rightarrow> bool) \<Rightarrow> bool \<Rightarrow> FieldSide \<Rightarrow> bool" where
  "innerIpv6AddressStream stream prefix addressTarget isRawIpv6 onForm field =
     (let name = prefix @ ''_ipv6_'' @ sideName field
      in onStream (\<lambda>s. case addressTarget s of
             Some i \<Rightarrow>
               ipv6FieldEngineSuffix (if field = SrcField then in6_innerIpv6Src i else in6_innerIpv6Dst i)
                 (numericCount s (name @ ''_count'')) \<noteq> None
           | None \<Rightarrow> \<not> isRawIpv6 s \<and> onForm \<and> safeIpv6Address stream name (name @ ''_count'')) stream)"

section \<open>Sound for the packets they find their field in\<close>

lemma inner_field_template:
  assumes "is_bytes bs" "rawPacketHasBytes bs off 20" "repairs (optionalInstruction c)" "1 \<le> count" "1 \<le> step"
  shows "bodySound bs (buildRawInnerIpv4IdIncVmBody bs c count off step name)"
    "bodySound bs (buildRawInnerIpv4DscpIncVmBody bs c count off step name)"
    "bodySound bs (buildRawInnerIpv4EcnIncVmBody bs c count off step name)"
    "bodySound bs (buildRawInnerIpv4FragmentOffsetIncVmBody bs c count off step name)"
    "bodySound bs (buildRawInnerIpv4FlagVaryVmBody bs c off flag name)"
proof -
  have within: "rawPacketHasBytes bs (off + k) n" if "0 \<le> k" "0 < n" "k + n \<le> 20" for k n
    by (rule hasBytes_within [OF assms(2)]) (use that in simp_all)
  note b = byteAt_range [OF assms(1), of "off + 1"]
  note w = rawPacketWord_range [OF assms(1), of "off + 6"]
  have dscp: "js_ushr (js_and (byteAt bs (off + 1)) 0xfc) 2 = byteAt bs (off + 1) div 4 mod 64"
    using b by (simp add: js_and_field [where n = 6 and k = 2] js_ushr_nonneg)
  show "bodySound bs (buildRawInnerIpv4IdIncVmBody bs c count off step name)"
    unfolding buildRawInnerIpv4IdIncVmBody_def
    by (rule word_write_sound [OF assms(1,3)]) (use assms within in simp_all)
  show "bodySound bs (buildRawInnerIpv4DscpIncVmBody bs c count off step name)"
    unfolding buildRawInnerIpv4DscpIncVmBody_def Let_def dscp
    by (rule maskedBody_sound [where n = 6]) (use assms within in \<open>simp_all add: rawPacketNumberValue_1\<close>)
  show "bodySound bs (buildRawInnerIpv4EcnIncVmBody bs c count off step name)"
    unfolding buildRawInnerIpv4EcnIncVmBody_def Let_def js_arith
    by (rule maskedBody_sound [where n = 2]) (use assms within in \<open>simp_all add: rawPacketNumberValue_1\<close>)
  show "bodySound bs (buildRawInnerIpv4FragmentOffsetIncVmBody bs c count off step name)"
    unfolding buildRawInnerIpv4FragmentOffsetIncVmBody_def Let_def js_arith
    by (rule maskedBody_sound [where n = 13]) (use assms within in \<open>simp_all add: rawPacketNumberValue_2\<close>)
  obtain m k suffix where f: "innerIpv4Flag flag = (m, k, suffix)"
    and mk: "(m, k) \<in> {(0x4000, 14), (0x2000, 13), (0x8000, 15)}"
    by (cases flag) (simp_all add: innerIpv4Flag_def)
  have bit: "js_ushr (js_and (rawPacketWord bs (off + 6)) m) k = rawPacketWord bs (off + 6) div 2 ^ nat k mod 2 ^ 1"
    "m = (2 ^ 1 - 1) * 2 ^ nat k" "0 \<le> k"
    using mk w
    by (auto simp: js_and_field [where n = 1 and k = 14] js_and_field [where n = 1 and k = 13]
        js_and_field [where n = 1 and k = 15] js_ushr_nonneg)
  show "bodySound bs (buildRawInnerIpv4FlagVaryVmBody bs c off flag name)"
    unfolding buildRawInnerIpv4FlagVaryVmBody_def Let_def f prod.case bit(1)
    by (rule maskedBody_sound [where n = 1, OF assms(3) _ bit(3,2)])
      (use assms within in \<open>simp_all add: rawPacketNumberValue_2\<close>)
qed

lemma inner6_field_template:
  assumes "is_bytes bs" "rawPacketHasBytes bs off 40" "1 \<le> count" "1 \<le> step"
  shows "bodySound bs (buildRawInnerIpv6TrafficClassIncVmBody bs off name count step)"
    "bodySound bs (buildRawInnerIpv6FlowLabelIncVmBody bs off name count step)"
proof -
  have four: "rawPacketHasBytes bs off 4" by (rule hasBytes_within [OF assms(2)]) simp_all
  show "bodySound bs (buildRawInnerIpv6TrafficClassIncVmBody bs off name count step)"
    unfolding buildRawInnerIpv6TrafficClassIncVmBody_def Let_def traffic_class_value [OF assms(1)]
    by (rule maskedBody_sound [where n = 8]) (use assms four in simp_all)
  show "bodySound bs (buildRawInnerIpv6FlowLabelIncVmBody bs off name count step)"
    unfolding buildRawInnerIpv6FlowLabelIncVmBody_def Let_def js_arith
    by (rule maskedBody_sound [where n = 20]) (use assms four in simp_all)
qed

text \<open>What an inner target says is what stands in the packet.\<close>

definition innerReads :: "bytes \<Rightarrow> InnerIp \<Rightarrow> bool" where
  "innerReads bs inner \<longleftrightarrow>
     (case inner of
        NoInnerIp \<Rightarrow> True
      | IsInnerIpv4 i \<Rightarrow>
          rawPacketHasBytes bs (in4_innerIpOffset i) 20
          \<and> in4_innerIpv4SrcOffset i = in4_innerIpOffset i + 12
          \<and> in4_innerIpv4Src i = formatPacketIpv4 bs (in4_innerIpv4SrcOffset i)
          \<and> in4_innerIpv4DstOffset i = in4_innerIpOffset i + 16
          \<and> in4_innerIpv4Dst i = formatPacketIpv4 bs (in4_innerIpv4DstOffset i)
          \<and> in4_innerIpv4TtlOffset i = in4_innerIpOffset i + 8
          \<and> in4_innerIpv4Ttl i = byteAt bs (in4_innerIpv4TtlOffset i)
      | IsInnerIpv6 i \<Rightarrow>
          rawPacketHasBytes bs (in6_innerIpOffset i) 40
          \<and> in6_innerIpv6SrcOffset i = in6_innerIpOffset i + 8
          \<and> in6_innerIpv6Src i = formatPacketIpv6 bs (in6_innerIpv6SrcOffset i)
          \<and> in6_innerIpv6DstOffset i = in6_innerIpOffset i + 24
          \<and> in6_innerIpv6Dst i = formatPacketIpv6 bs (in6_innerIpv6DstOffset i)
          \<and> in6_innerIpv6HopLimitOffset i = in6_innerIpOffset i + 7
          \<and> in6_innerIpv6HopLimit i = byteAt bs (in6_innerIpv6HopLimitOffset i))
     \<and> (\<forall>p. innerUdpOffset inner = Some p \<longrightarrow>
           rawPacketHasBytes bs p 8 \<and> innerUdpSrcPort inner = Some (rawPacketWord bs p)
           \<and> innerUdpDstPort inner = Some (rawPacketWord bs (p + 2)))
     \<and> (\<forall>p. innerTcpOffset inner = Some p \<longrightarrow> rawPacketHasBytes bs p 20)"

lemma innerReads_none [simp]: "innerReads bs NoInnerIp"
  by (simp add: innerReads_def innerUdpOffset_def innerTcpOffset_def)

lemma innerIpv4At_reads:
  assumes "rawPacketHasBytes bs ip 20"
  shows "innerReads bs (IsInnerIpv4 (innerIpv4At bs ip len to))"
  using assms
  by (auto simp: innerReads_def innerIpv4At_def innerUdpOffset_def innerTcpOffset_def innerUdpSrcPort_def
      innerUdpDstPort_def Let_def rawPacketTcpHeaderOffset_def split: if_splits option.splits)

lemma innerIpv6At_reads:
  assumes "rawPacketHasBytes bs ip 40"
  shows "innerReads bs (IsInnerIpv6 (innerIpv6At bs ip to))"
  using assms
  by (auto simp: innerReads_def innerIpv6At_def innerUdpOffset_def innerTcpOffset_def innerUdpSrcPort_def
      innerUdpDstPort_def Let_def rawPacketTcpHeaderOffset_def split: if_splits option.splits)

lemma vxlanInner_reads: "innerReads bs (vxlanInner bs off to)"
  by (simp add: vxlanInner_def Let_def innerIpv4At_reads innerIpv6At_reads split: option.split)

lemma gtpuInner_reads: "innerReads bs (gtpuInner bs off to)"
  by (simp add: gtpuInner_def innerIpv4At_reads innerIpv6At_reads)

lemma inner_address_template:
  assumes "is_bytes bs" "innerReads bs (IsInnerIpv4 i)" "countsPositive s" "viewOf c = OtherView"
  shows "bodySound bs (innerIpv4AddressBody s prefix (Some i) form c field)"
    "bodySound bs (innerIpv4TtlBody s prefix (Some i) form c)"
proof -
  note r = assms(2) [unfolded innerReads_def, simplified]
  define base where "base = (if field = SrcField then in4_innerIpv4SrcOffset i else in4_innerIpv4DstOffset i)"
  have base: "rawPacketHasBytes bs base 4" "rawPacketHasBytes bs (in4_innerIpv4TtlOffset i) 1"
    using r by (auto simp: base_def intro!: hasBytes_within [of bs "in4_innerIpOffset i" 20])
  have "(if field = SrcField then in4_innerIpv4Src else in4_innerIpv4Dst) i = formatPacketIpv4 bs base"
    "(if field = SrcField then in4_innerIpv4SrcOffset else in4_innerIpv4DstOffset) i = base"
    using r by (simp_all add: base_def)
  then show "bodySound bs (innerIpv4AddressBody s prefix (Some i) form c field)"
    unfolding innerIpv4AddressBody_def Let_def fromTarget_simps
    by (simp only:) (rule suffix_write_sound [OF ipv4_suffix_sound [OF assms(1) base(1)]],
        use assms(3,4) in simp_all)
  show "bodySound bs (innerIpv4TtlBody s prefix (Some i) form c)"
    unfolding innerIpv4TtlBody_def Let_def fromTarget_simps
    by (rule byte_write_sound [OF assms(1)]) (use base(2) r assms(3,4) in simp_all)
qed

lemma inner6_address_template:
  assumes "is_bytes bs" "innerReads bs (IsInnerIpv6 i)" "countsPositive s" "viewOf c = OtherView"
  shows "ipv6FieldEngineSuffix (if field = SrcField then in6_innerIpv6Src i else in6_innerIpv6Dst i)
        (numOf s (prefix @ ''_ipv6_'' @ sideName field @ ''_count'')) \<noteq> None
      \<Longrightarrow> bodySound bs (innerIpv6AddressBody s prefix (Some i) form c field)"
    "bodySound bs (innerIpv6HopLimitBody s prefix (Some i) form)"
proof -
  note r = assms(2) [unfolded innerReads_def, simplified]
  define base where "base = (if field = SrcField then in6_innerIpv6SrcOffset i else in6_innerIpv6DstOffset i)"
  have base: "rawPacketHasBytes bs base 16" "rawPacketHasBytes bs (in6_innerIpv6HopLimitOffset i) 1"
    using r by (auto simp: base_def intro!: hasBytes_within [of bs "in6_innerIpOffset i" 40])
  have eq: "(if field = SrcField then in6_innerIpv6Src else in6_innerIpv6Dst) i = formatPacketIpv6 bs base"
    "(if field = SrcField then in6_innerIpv6SrcOffset else in6_innerIpv6DstOffset) i = base"
    "(if field = SrcField then in6_innerIpv6Src i else in6_innerIpv6Dst i) = formatPacketIpv6 bs base"
    using r by (simp_all add: base_def)
  show "bodySound bs (innerIpv6AddressBody s prefix (Some i) form c field)"
    if "ipv6FieldEngineSuffix (if field = SrcField then in6_innerIpv6Src i else in6_innerIpv6Dst i)
        (numOf s (prefix @ ''_ipv6_'' @ sideName field @ ''_count'')) \<noteq> None"
    unfolding innerIpv6AddressBody_def Let_def fromTarget_simps eq(1,2)
    by (rule ipv6_body_sound [OF assms(1) base(1)])
      (use assms(3,4) that in \<open>simp_all add: eq(3) del: if_split\<close>)
  show "bodySound bs (innerIpv6HopLimitBody s prefix (Some i) form)"
    unfolding innerIpv6HopLimitBody_def Let_def fromTarget_simps
    by (rule byte_write_sound [OF assms(1)]) (use base(2) r assms(3) in simp_all)
qed

lemma inner_port_template:
  assumes "is_bytes bs" "innerReads bs inner" "countsPositive s" "viewOf c = OtherView"
  shows "innerUdpOffset inner \<noteq> None \<Longrightarrow> bodySound bs (innerUdpPortBody s prefix (Some inner) form c field)"
    "innerTcpOffset inner = Some tcp \<Longrightarrow> bodySound bs (innerTcpPortBody s prefix bs tcp c field)"
proof -
  show "bodySound bs (innerUdpPortBody s prefix (Some inner) form c field)" if udp: "innerUdpOffset inner \<noteq> None"
  proof -
    obtain p where p: "innerUdpOffset inner = Some p" using udp by auto
    then have u: "rawPacketHasBytes bs p 8" "innerUdpSrcPort inner = Some (rawPacketWord bs p)"
      "innerUdpDstPort inner = Some (rawPacketWord bs (p + 2))"
      using assms(2) by (auto simp: innerReads_def)
    show ?thesis
      unfolding innerUdpPortBody_def Let_def fromTarget_simps
      by (rule word_write_sound [OF assms(1)])
        (use u p assms(3,4) in \<open>cases field; simp add: hasBytes_within [OF u(1)]\<close>)+
  qed
  show "bodySound bs (innerTcpPortBody s prefix bs tcp c field)" if "innerTcpOffset inner = Some tcp"
  proof -
    have t: "rawPacketHasBytes bs tcp 20" using assms(2) that by (auto simp: innerReads_def)
    show ?thesis
      unfolding innerTcpPortBody_def Let_def
      by (rule word_write_sound [OF assms(1)])
        (use t assms(3,4) in \<open>auto intro: hasBytes_within [OF t]\<close>)
  qed
qed

end
