(* ===== verification/VmVxlan.thy ===== *)
theory VmVxlan
  imports VmInner
begin

text \<open>
  The VXLAN templates of \<open>advancedVmModel.ts\<close>: the header, and the Ethernet, VLAN, ARP, IPv4, IPv6,
  UDP and TCP fields of the inner packet.
\<close>

section \<open>Which streams\<close>

definition isStructuredOuterIpv4VxlanStream :: "ProfileWorkbenchStream option \<Rightarrow> bool" where
  "isStructuredOuterIpv4VxlanStream = onStream (\<lambda>s.
     packetType s = ''Ethernet/IPv4/UDP'' \<and> flagOf s ''vxlan_enabled'' \<and> \<not> flagOf s ''gtpu_enabled'')"

definition vxlanForm :: "ProfileWorkbenchStream option \<Rightarrow> string \<Rightarrow> bool" where
  "vxlanForm stream version \<longleftrightarrow>
     isStructuredOuterIpv4VxlanStream stream \<and> onStream (\<lambda>s. textOf s ''vxlan_inner_ip_version'' = version) stream"

definition isOuterIpv4VxlanStream :: "ProfileWorkbenchStream option \<Rightarrow> bool" where
  "isOuterIpv4VxlanStream stream \<longleftrightarrow>
     onStream (\<lambda>s. rawVxlanTarget (rawOf s) \<noteq> None) stream \<or> isStructuredOuterIpv4VxlanStream stream"

definition isOuterIpv4VxlanInnerEthernetStream :: "ProfileWorkbenchStream option \<Rightarrow> bool" where
  "isOuterIpv4VxlanInnerEthernetStream stream \<longleftrightarrow>
     onStream (\<lambda>s. rawVxlanInnerEthernetTarget (rawOf s) \<noteq> None) stream \<or> isStructuredOuterIpv4VxlanStream stream"

definition isOuterIpv4VxlanInnerVlanStream :: "ProfileWorkbenchStream option \<Rightarrow> bool" where
  "isOuterIpv4VxlanInnerVlanStream = onStream (\<lambda>s. rawVxlanInnerVlanTagTarget (rawOf s) 1 \<noteq> None)"

definition isOuterIpv4VxlanInnerSecondVlanStream :: "ProfileWorkbenchStream option \<Rightarrow> bool" where
  "isOuterIpv4VxlanInnerSecondVlanStream = onStream (\<lambda>s. rawVxlanInnerVlanTagTarget (rawOf s) 2 \<noteq> None)"

definition isOuterIpv4VxlanInnerArpStream :: "ProfileWorkbenchStream option \<Rightarrow> bool" where
  "isOuterIpv4VxlanInnerArpStream = onStream (\<lambda>s. rawVxlanInnerArpTarget (rawOf s) \<noteq> None)"

definition isOuterIpv4VxlanInnerUdpStream :: "ProfileWorkbenchStream option \<Rightarrow> bool" where
  "isOuterIpv4VxlanInnerUdpStream stream \<longleftrightarrow>
     onStream (\<lambda>s. rawVxlanInnerIpv4UdpTarget (rawOf s) \<noteq> None \<or> rawVxlanInnerIpv6UdpTarget (rawOf s) \<noteq> None) stream
     \<or> isStructuredOuterIpv4VxlanStream stream"

definition isOuterIpv4VxlanInnerTcpStream :: "ProfileWorkbenchStream option \<Rightarrow> bool" where
  "isOuterIpv4VxlanInnerTcpStream = onStream (\<lambda>s.
     rawVxlanInnerIpv4TcpTarget (rawOf s) \<noteq> None \<or> rawVxlanInnerIpv6TcpTarget (rawOf s) \<noteq> None)"

definition isOuterIpv4VxlanInnerIpv4Stream :: "ProfileWorkbenchStream option \<Rightarrow> bool" where
  "isOuterIpv4VxlanInnerIpv4Stream stream \<longleftrightarrow>
     onStream (\<lambda>s. rawVxlanInnerIpv4UdpTarget (rawOf s) \<noteq> None) stream \<or> vxlanForm stream ''IPv4''"

definition isOuterIpv4VxlanInnerRawIpv4Stream :: "ProfileWorkbenchStream option \<Rightarrow> bool" where
  "isOuterIpv4VxlanInnerRawIpv4Stream = onStream (\<lambda>s. rawVxlanInnerIpv4Target (rawOf s) \<noteq> None)"

definition isOuterIpv4VxlanInnerIpv4AddressStream :: "ProfileWorkbenchStream option \<Rightarrow> bool" where
  "isOuterIpv4VxlanInnerIpv4AddressStream stream \<longleftrightarrow>
     onStream (\<lambda>s. rawVxlanInnerIpv4AddressTarget (rawOf s) \<noteq> None) stream \<or> vxlanForm stream ''IPv4''"

definition isOuterIpv4VxlanInnerIpv4TtlStream :: "ProfileWorkbenchStream option \<Rightarrow> bool" where
  "isOuterIpv4VxlanInnerIpv4TtlStream stream \<longleftrightarrow>
     onStream (\<lambda>s. rawVxlanInnerIpv4Target (rawOf s) \<noteq> None) stream \<or> vxlanForm stream ''IPv4''"

definition isOuterIpv4VxlanInnerIpv6Stream :: "ProfileWorkbenchStream option \<Rightarrow> bool" where
  "isOuterIpv4VxlanInnerIpv6Stream stream \<longleftrightarrow>
     onStream (\<lambda>s. rawVxlanInnerIpv6Target (rawOf s) \<noteq> None) stream \<or> vxlanForm stream ''IPv6''"

definition isOuterIpv4VxlanInnerRawIpv6Stream :: "ProfileWorkbenchStream option \<Rightarrow> bool" where
  "isOuterIpv4VxlanInnerRawIpv6Stream = onStream (\<lambda>s. rawVxlanInnerIpv6Target (rawOf s) \<noteq> None)"

definition vxlanInnerV6 :: "VxlanTarget option \<Rightarrow> InnerIpv6 option" where
  "vxlanInnerV6 rawTarget = Option.bind rawTarget (\<lambda>t. innerV6 (vx_inner t))"

definition vxlanInnerV4 :: "VxlanTarget option \<Rightarrow> InnerIpv4 option" where
  "vxlanInnerV4 rawTarget = Option.bind rawTarget (\<lambda>t. innerV4 (vx_inner t))"

definition vxlanInnerIpv6VmStream :: "ProfileWorkbenchStream option \<Rightarrow> FieldSide \<Rightarrow> bool" where
  "vxlanInnerIpv6VmStream stream field =
     innerIpv6AddressStream stream ''vxlan_inner'' (\<lambda>s. vxlanInnerV6 (rawVxlanInnerIpv6AddressTarget (rawOf s)))
       (\<lambda>s. rawVxlanInnerIpv6Target (rawOf s) \<noteq> None) (isOuterIpv4VxlanInnerIpv6Stream stream) field"

definition isOuterIpv4VxlanInnerIpv6SrcVmStream :: "ProfileWorkbenchStream option \<Rightarrow> bool" where
  "isOuterIpv4VxlanInnerIpv6SrcVmStream stream = vxlanInnerIpv6VmStream stream SrcField"

definition isOuterIpv4VxlanInnerIpv6DstVmStream :: "ProfileWorkbenchStream option \<Rightarrow> bool" where
  "isOuterIpv4VxlanInnerIpv6DstVmStream stream = vxlanInnerIpv6VmStream stream DstField"

section \<open>The VXLAN header\<close>

definition vxlanVniOffset :: "ProfileWorkbenchStream \<Rightarrow> VxlanTarget option \<Rightarrow> int" where
  "vxlanVniOffset stream rawTarget = fromTarget rawTarget vx_vniOffset (outerUdpPayloadOffset stream + 4)"

definition vxlanFlagsOffset :: "ProfileWorkbenchStream \<Rightarrow> VxlanTarget option \<Rightarrow> int" where
  "vxlanFlagsOffset stream rawTarget = fromTarget rawTarget vx_vxlanOffset (vxlanVniOffset stream rawTarget - 4)"

definition buildVxlanVniIncVmBody :: "ProfileWorkbenchStream \<Rightarrow> AdvancedVmBody" where
  "buildVxlanVniIncVmBody stream =
     (let rawTarget = rawVxlanTarget (rawOf stream);
          initValue = fromTarget rawTarget vx_vni (numOf stream ''vxlan_vni'');
          bounds = advancedNumberBounds initValue (numOf stream ''vxlan_vni_count'') (numOf stream ''vxlan_vni_step'')
            16777215 ''inc''
      in maskedBody ''vxlan_vni'' ''inc'' 4 initValue (bounds_min bounds) (bounds_max bounds)
           (numOf stream ''vxlan_vni_step'') 4 (vxlanVniOffset stream rawTarget) 0xFFFFFF00 8 [])"

definition buildVxlanIFlagVaryVmBody :: "ProfileWorkbenchStream \<Rightarrow> AdvancedVmBody" where
  "buildVxlanIFlagVaryVmBody stream =
     (let rawTarget = rawVxlanTarget (rawOf stream);
          flags = fromTarget rawTarget (\<lambda>t. byteAt (vx_bytes t) (vx_vxlanOffset t)) 0x08;
          initValue = js_ushr (js_and flags 0x08) 3
      in maskedBody ''vxlan_i_flag'' (if initValue = 1 then ''dec'' else ''inc'') 1 initValue 0 1 1
           1 (vxlanFlagsOffset stream rawTarget) 0x08 3 [])"

section \<open>The inner IPv4 packet\<close>

definition vxlanInnerIpv4Offset :: "ProfileWorkbenchStream \<Rightarrow> VxlanTarget option \<Rightarrow> int" where
  "vxlanInnerIpv4Offset stream rawTarget =
     (case Option.bind rawTarget (\<lambda>t. innerIpHeader (vx_inner t)) of
        Some (offset, len) \<Rightarrow> offset
      | None \<Rightarrow> workbenchOuterL2HeaderLength stream + 50)"

definition vxlanInnerChecksumInstruction :: "ProfileWorkbenchStream \<Rightarrow> VxlanTarget option \<Rightarrow> int \<Rightarrow> VmValue" where
  "vxlanInnerChecksumInstruction stream rawTarget l4Type =
     innerHwChecksum (map_option vx_inner rawTarget) l4Type
       (fixChecksumHw (vxlanInnerIpv4Offset stream (rawVxlanTarget (rawOf stream)))
          (if textOf stream ''vxlan_inner_ip_version'' = ''IPv6'' then 40 else 20) l4Type)"

definition vxlanInnerIpv4ChecksumInstruction :: "ProfileWorkbenchStream \<Rightarrow> VxlanTarget option \<Rightarrow> VmValue" where
  "vxlanInnerIpv4ChecksumInstruction stream rawTarget =
     innerIpv4Checksum (map_option vx_inner rawTarget) (vxlanInnerChecksumInstruction stream None 11)"

definition buildVxlanInnerFiveTupleVmBody :: "ProfileWorkbenchStream \<Rightarrow> AdvancedVmBody" where
  "buildVxlanInnerFiveTupleVmBody stream =
     (let rawTarget = rawVxlanInnerIpv4UdpTarget (rawOf stream);
          checksumInstruction = vxlanInnerChecksumInstruction stream rawTarget 11
      in case (rawTarget, vxlanInnerV4 rawTarget, Option.bind rawTarget (\<lambda>t. innerUdpOffset (vx_inner t))) of
           (Some t, Some i, Some udpOffset) \<Rightarrow>
             rawInnerFiveTupleBody stream ''vxlan_inner'' (\<lambda>v. v) (vx_bytes t) i udpOffset checksumInstruction
         | _ \<Rightarrow>
             structuredInnerFiveTupleBody stream ''vxlan_inner''
               (fromTarget (vxlanInnerV4 rawTarget) in4_innerIpOffset
                  (vxlanInnerIpv4Offset stream (rawVxlanTarget (rawOf stream))))
               checksumInstruction)"

definition buildVxlanInnerIpv4AddressIncVmBody :: "ProfileWorkbenchStream \<Rightarrow> FieldSide \<Rightarrow> AdvancedVmBody" where
  "buildVxlanInnerIpv4AddressIncVmBody stream field =
     (let rawTarget = rawVxlanInnerIpv4AddressTarget (rawOf stream)
      in innerIpv4AddressBody stream ''vxlan_inner'' (vxlanInnerV4 rawTarget)
           (vxlanInnerIpv4Offset stream (rawVxlanTarget (rawOf stream)))
           (vxlanInnerIpv4ChecksumInstruction stream rawTarget) field)"

definition buildVxlanInnerIpv4SrcIncVmBody :: "ProfileWorkbenchStream \<Rightarrow> AdvancedVmBody" where
  "buildVxlanInnerIpv4SrcIncVmBody stream = buildVxlanInnerIpv4AddressIncVmBody stream SrcField"

definition buildVxlanInnerIpv4DstIncVmBody :: "ProfileWorkbenchStream \<Rightarrow> AdvancedVmBody" where
  "buildVxlanInnerIpv4DstIncVmBody stream = buildVxlanInnerIpv4AddressIncVmBody stream DstField"

definition buildVxlanInnerIpv4TtlIncVmBody :: "ProfileWorkbenchStream \<Rightarrow> AdvancedVmBody" where
  "buildVxlanInnerIpv4TtlIncVmBody stream =
     (let rawTarget = rawVxlanInnerIpv4Target (rawOf stream)
      in innerIpv4TtlBody stream ''vxlan_inner'' (vxlanInnerV4 rawTarget)
           (vxlanInnerIpv4Offset stream (rawVxlanTarget (rawOf stream)))
           (vxlanInnerIpv4ChecksumInstruction stream rawTarget))"

text \<open>The builders that only work on a packet: the bytes, the checksum instruction and the header offset.\<close>

definition onVxlanInnerIpv4 ::
  "ProfileWorkbenchStream \<Rightarrow> (bytes \<Rightarrow> VmValue option \<Rightarrow> int \<Rightarrow> AdvancedVmBody) \<Rightarrow> AdvancedVmBody" where
  "onVxlanInnerIpv4 stream build =
     (let rawTarget = rawVxlanInnerIpv4Target (rawOf stream)
      in case (rawTarget, vxlanInnerV4 rawTarget) of
           (Some t, Some i) \<Rightarrow>
             build (vx_bytes t) (Some (vxlanInnerIpv4ChecksumInstruction stream rawTarget)) (in4_innerIpOffset i)
         | _ \<Rightarrow> advancedVmDefaultBody)"

definition buildVxlanInnerIpv4IdIncVmBody :: "ProfileWorkbenchStream \<Rightarrow> AdvancedVmBody" where
  "buildVxlanInnerIpv4IdIncVmBody stream = onVxlanInnerIpv4 stream (\<lambda>bs checksum offset.
     buildRawInnerIpv4IdIncVmBody bs checksum (numOf stream ''ipv4_id_count'') offset
       (numOf stream ''ipv4_id_step'') ''vxlan_inner_ipv4_id'')"

definition buildVxlanInnerIpv4DscpIncVmBody :: "ProfileWorkbenchStream \<Rightarrow> AdvancedVmBody" where
  "buildVxlanInnerIpv4DscpIncVmBody stream = onVxlanInnerIpv4 stream (\<lambda>bs checksum offset.
     buildRawInnerIpv4DscpIncVmBody bs checksum (numOf stream ''ipv4_dscp_count'') offset
       (numOf stream ''ipv4_dscp_step'') ''vxlan_inner_ipv4_dscp'')"

definition buildVxlanInnerIpv4EcnIncVmBody :: "ProfileWorkbenchStream \<Rightarrow> AdvancedVmBody" where
  "buildVxlanInnerIpv4EcnIncVmBody stream = onVxlanInnerIpv4 stream (\<lambda>bs checksum offset.
     buildRawInnerIpv4EcnIncVmBody bs checksum (numOf stream ''ipv4_ecn_count'') offset
       (numOf stream ''ipv4_ecn_step'') ''vxlan_inner_ipv4_ecn'')"

definition buildVxlanInnerIpv4FragmentOffsetIncVmBody :: "ProfileWorkbenchStream \<Rightarrow> AdvancedVmBody" where
  "buildVxlanInnerIpv4FragmentOffsetIncVmBody stream = onVxlanInnerIpv4 stream (\<lambda>bs checksum offset.
     buildRawInnerIpv4FragmentOffsetIncVmBody bs checksum (numOf stream ''ipv4_fragment_offset_count'') offset
       (numOf stream ''ipv4_fragment_offset_step'') ''vxlan_inner_ipv4_fragment_offset'')"

definition buildVxlanInnerIpv4FlagVaryVmBody :: "ProfileWorkbenchStream \<Rightarrow> Ipv4Flag \<Rightarrow> AdvancedVmBody" where
  "buildVxlanInnerIpv4FlagVaryVmBody stream target = onVxlanInnerIpv4 stream (\<lambda>bs checksum offset.
     buildRawInnerIpv4FlagVaryVmBody bs checksum offset target ''vxlan_inner_ipv4'')"

definition buildVxlanInnerIpv4ReservedFlagVaryVmBody :: "ProfileWorkbenchStream \<Rightarrow> AdvancedVmBody" where
  "buildVxlanInnerIpv4ReservedFlagVaryVmBody stream = buildVxlanInnerIpv4FlagVaryVmBody stream ReservedFlag"

definition buildVxlanInnerIpv4DfFlagVaryVmBody :: "ProfileWorkbenchStream \<Rightarrow> AdvancedVmBody" where
  "buildVxlanInnerIpv4DfFlagVaryVmBody stream = buildVxlanInnerIpv4FlagVaryVmBody stream DfFlag"

definition buildVxlanInnerIpv4MfFlagVaryVmBody :: "ProfileWorkbenchStream \<Rightarrow> AdvancedVmBody" where
  "buildVxlanInnerIpv4MfFlagVaryVmBody stream = buildVxlanInnerIpv4FlagVaryVmBody stream MfFlag"

section \<open>The inner Ethernet frame\<close>

definition vxlanEthernetOffset :: "ProfileWorkbenchStream \<Rightarrow> VxlanTarget option \<Rightarrow> int" where
  "vxlanEthernetOffset stream rawTarget =
     fromTarget rawTarget vx_innerEthernetOffset (workbenchOuterL2HeaderLength stream + 36)"

definition buildVxlanInnerMacAddressIncVmBody :: "ProfileWorkbenchStream \<Rightarrow> FieldSide \<Rightarrow> AdvancedVmBody" where
  "buildVxlanInnerMacAddressIncVmBody stream field =
     (let rawTarget = rawVxlanInnerEthernetTarget (rawOf stream);
          delta = (if field = SrcField then 6 else 0);
          address = fromTarget rawTarget (\<lambda>t. formatPacketMac (vx_bytes t) (vx_innerEthernetOffset t + delta))
            (textOf stream (if field = SrcField then ''vxlan_inner_ether_src'' else ''vxlan_inner_ether_dst''));
          suffix = macFieldEngineSuffix address 16;
          baseOffset = vxlanEthernetOffset stream rawTarget + delta
      in buildAdvancedNumberWriteVmBody
           \<lparr>nw_checksumInstruction = None, nw_count = 16, nw_initValue = sfx_initValue suffix,
            nw_maxLimit = fieldEngineMaxForSize (sfx_size suffix),
            nw_name = ''vxlan_inner_mac_'' @ sideName field,
            nw_pktOffset = baseOffset + 6 - sfx_size suffix, nw_size = sfx_size suffix, nw_step = 1\<rparr>)"

definition buildVxlanInnerMacDstIncVmBody :: "ProfileWorkbenchStream \<Rightarrow> AdvancedVmBody" where
  "buildVxlanInnerMacDstIncVmBody stream = buildVxlanInnerMacAddressIncVmBody stream DstField"

definition buildVxlanInnerMacSrcIncVmBody :: "ProfileWorkbenchStream \<Rightarrow> AdvancedVmBody" where
  "buildVxlanInnerMacSrcIncVmBody stream = buildVxlanInnerMacAddressIncVmBody stream SrcField"

definition buildVxlanInnerEtherTypeIncVmBody :: "ProfileWorkbenchStream \<Rightarrow> AdvancedVmBody" where
  "buildVxlanInnerEtherTypeIncVmBody stream =
     (let rawTarget = rawVxlanInnerEthernetTarget (rawOf stream);
          initValue = fromTarget rawTarget (\<lambda>t. rawPacketWord (vx_bytes t) (vx_innerEthernetOffset t + 12))
            (if textOf stream ''vxlan_inner_ip_version'' = ''IPv6'' then 0x86dd else 0x0800)
      in buildAdvancedNumberWriteVmBody
           \<lparr>nw_checksumInstruction = None, nw_count = 16, nw_initValue = initValue, nw_maxLimit = 65535,
            nw_name = ''vxlan_inner_ether_type'', nw_pktOffset = vxlanEthernetOffset stream rawTarget + 12,
            nw_size = 2, nw_step = 1\<rparr>)"

definition buildVxlanInnerVlanIdIncVmBody :: "ProfileWorkbenchStream \<Rightarrow> int \<Rightarrow> AdvancedVmBody" where
  "buildVxlanInnerVlanIdIncVmBody stream index =
     (case rawVxlanInnerVlanTagTarget (rawOf stream) index of
        None \<Rightarrow> advancedVmDefaultBody
      | Some (target, tag) \<Rightarrow>
          maskedBody (if index = 1 then ''vxlan_inner_vlan_id'' else ''vxlan_inner_vlan2_id'') ''inc'' 2
            (vlan_vlanId tag) (vlan_vlanId tag) (min 4094 (vlan_vlanId tag + 15)) 1
            2 (vlan_tciOffset tag) 0x0fff 0 [])"

definition buildVxlanInnerSecondVlanIdIncVmBody :: "ProfileWorkbenchStream \<Rightarrow> AdvancedVmBody" where
  "buildVxlanInnerSecondVlanIdIncVmBody stream = buildVxlanInnerVlanIdIncVmBody stream 2"

definition buildVxlanInnerVlanPriorityIncVmBody :: "ProfileWorkbenchStream \<Rightarrow> int \<Rightarrow> AdvancedVmBody" where
  "buildVxlanInnerVlanPriorityIncVmBody stream index =
     (case rawVxlanInnerVlanTagTarget (rawOf stream) index of
        None \<Rightarrow> advancedVmDefaultBody
      | Some (target, tag) \<Rightarrow>
          maskedBody (if index = 1 then ''vxlan_inner_vlan_priority'' else ''vxlan_inner_vlan2_priority'') ''inc'' 1
            (vlan_priority tag) (vlan_priority tag) (min 7 (vlan_priority tag + 3)) 1
            2 (vlan_tciOffset tag) 0xe000 13 [])"

definition buildVxlanInnerSecondVlanPriorityIncVmBody :: "ProfileWorkbenchStream \<Rightarrow> AdvancedVmBody" where
  "buildVxlanInnerSecondVlanPriorityIncVmBody stream = buildVxlanInnerVlanPriorityIncVmBody stream 2"

definition buildVxlanInnerVlanCfiVaryVmBody :: "ProfileWorkbenchStream \<Rightarrow> int \<Rightarrow> AdvancedVmBody" where
  "buildVxlanInnerVlanCfiVaryVmBody stream index =
     (case rawVxlanInnerVlanTagTarget (rawOf stream) index of
        None \<Rightarrow> advancedVmDefaultBody
      | Some (target, tag) \<Rightarrow>
          maskedBody (if index = 1 then ''vxlan_inner_vlan_cfi'' else ''vxlan_inner_vlan2_cfi'')
            (if vlan_cfi tag = 1 then ''dec'' else ''inc'') 1 (vlan_cfi tag) 0 1 1
            2 (vlan_tciOffset tag) 0x1000 12 [])"

definition buildVxlanInnerSecondVlanCfiVaryVmBody :: "ProfileWorkbenchStream \<Rightarrow> AdvancedVmBody" where
  "buildVxlanInnerSecondVlanCfiVaryVmBody stream = buildVxlanInnerVlanCfiVaryVmBody stream 2"

definition buildVxlanInnerArpOperationIncVmBody :: "ProfileWorkbenchStream \<Rightarrow> AdvancedVmBody" where
  "buildVxlanInnerArpOperationIncVmBody stream =
     (case rawVxlanInnerArpTarget (rawOf stream) of
        None \<Rightarrow> advancedVmDefaultBody
      | Some (target, arp) \<Rightarrow>
          buildAdvancedNumberWriteVmBody
            \<lparr>nw_checksumInstruction = None, nw_count = numOf stream ''arp_operation_count'',
             nw_initValue = arp_operation arp, nw_maxLimit = 65535, nw_name = ''vxlan_inner_arp_operation'',
             nw_pktOffset = arp_operationOffset arp, nw_size = 2, nw_step = numOf stream ''arp_operation_step''\<rparr>)"

text \<open>The four addresses of the inner ARP packet differ in the property that is read.\<close>

definition vxlanInnerArpAddressBody ::
  "ProfileWorkbenchStream \<Rightarrow> (ArpTarget \<Rightarrow> int \<Rightarrow> FieldEngineSuffix) \<Rightarrow> (ArpTarget \<Rightarrow> int) \<Rightarrow> int \<Rightarrow> string \<Rightarrow> AdvancedVmBody" where
  "vxlanInnerArpAddressBody stream suffixOf' offset width property =
     (case rawVxlanInnerArpTarget (rawOf stream) of
        None \<Rightarrow> advancedVmDefaultBody
      | Some (target, arp) \<Rightarrow>
          (let count = numOf stream (property @ ''_count''); suffix = suffixOf' arp count
           in buildAdvancedNumberWriteVmBody
                \<lparr>nw_checksumInstruction = None, nw_count = count, nw_initValue = sfx_initValue suffix,
                 nw_maxLimit = fieldEngineMaxForSize (sfx_size suffix), nw_name = ''vxlan_inner_'' @ property,
                 nw_pktOffset = offset arp + width - sfx_size suffix, nw_size = sfx_size suffix,
                 nw_step = numOf stream (property @ ''_step'')\<rparr>))"

definition buildVxlanInnerArpSenderIpIncVmBody :: "ProfileWorkbenchStream \<Rightarrow> AdvancedVmBody" where
  "buildVxlanInnerArpSenderIpIncVmBody stream =
     vxlanInnerArpAddressBody stream (\<lambda>arp. ipv4FieldEngineSuffix (arp_senderIp arp)) arp_senderIpOffset 4 ''arp_sender_ip''"

definition buildVxlanInnerArpTargetIpIncVmBody :: "ProfileWorkbenchStream \<Rightarrow> AdvancedVmBody" where
  "buildVxlanInnerArpTargetIpIncVmBody stream =
     vxlanInnerArpAddressBody stream (\<lambda>arp. ipv4FieldEngineSuffix (arp_targetIp arp)) arp_targetIpOffset 4 ''arp_target_ip''"

definition buildVxlanInnerArpSenderMacIncVmBody :: "ProfileWorkbenchStream \<Rightarrow> AdvancedVmBody" where
  "buildVxlanInnerArpSenderMacIncVmBody stream =
     vxlanInnerArpAddressBody stream (\<lambda>arp. macFieldEngineSuffix (arp_senderMac arp)) arp_senderMacOffset 6 ''arp_sender_mac''"

definition buildVxlanInnerArpTargetMacIncVmBody :: "ProfileWorkbenchStream \<Rightarrow> AdvancedVmBody" where
  "buildVxlanInnerArpTargetMacIncVmBody stream =
     vxlanInnerArpAddressBody stream (\<lambda>arp. macFieldEngineSuffix (arp_targetMac arp)) arp_targetMacOffset 6 ''arp_target_mac''"

section \<open>The inner IPv6 packet and the inner ports\<close>

definition buildVxlanInnerIpv6AddressIncVmBody :: "ProfileWorkbenchStream \<Rightarrow> FieldSide \<Rightarrow> AdvancedVmBody" where
  "buildVxlanInnerIpv6AddressIncVmBody stream field =
     (let rawTarget = rawVxlanInnerIpv6AddressTarget (rawOf stream);
          overTcp = Option.bind rawTarget (\<lambda>t. innerTcpOffset (vx_inner t)) \<noteq> None
      in innerIpv6AddressBody stream ''vxlan_inner'' (vxlanInnerV6 rawTarget)
           (vxlanInnerIpv4Offset stream (rawVxlanTarget (rawOf stream)))
           (vxlanInnerChecksumInstruction stream rawTarget (if overTcp then 13 else 11)) field)"

definition buildVxlanInnerIpv6SrcIncVmBody :: "ProfileWorkbenchStream \<Rightarrow> AdvancedVmBody" where
  "buildVxlanInnerIpv6SrcIncVmBody stream = buildVxlanInnerIpv6AddressIncVmBody stream SrcField"

definition buildVxlanInnerIpv6DstIncVmBody :: "ProfileWorkbenchStream \<Rightarrow> AdvancedVmBody" where
  "buildVxlanInnerIpv6DstIncVmBody stream = buildVxlanInnerIpv6AddressIncVmBody stream DstField"

definition buildVxlanInnerIpv6HopLimitIncVmBody :: "ProfileWorkbenchStream \<Rightarrow> AdvancedVmBody" where
  "buildVxlanInnerIpv6HopLimitIncVmBody stream =
     innerIpv6HopLimitBody stream ''vxlan_inner'' (vxlanInnerV6 (rawVxlanInnerIpv6Target (rawOf stream)))
       (vxlanInnerIpv4Offset stream (rawVxlanTarget (rawOf stream)))"

definition onVxlanInnerIpv6 :: "ProfileWorkbenchStream \<Rightarrow> (bytes \<Rightarrow> int \<Rightarrow> AdvancedVmBody) \<Rightarrow> AdvancedVmBody" where
  "onVxlanInnerIpv6 stream build =
     (let rawTarget = rawVxlanInnerIpv6Target (rawOf stream)
      in case (rawTarget, vxlanInnerV6 rawTarget) of
           (Some t, Some i) \<Rightarrow> build (vx_bytes t) (in6_innerIpOffset i)
         | _ \<Rightarrow> advancedVmDefaultBody)"

definition buildVxlanInnerIpv6TrafficClassIncVmBody :: "ProfileWorkbenchStream \<Rightarrow> AdvancedVmBody" where
  "buildVxlanInnerIpv6TrafficClassIncVmBody stream = onVxlanInnerIpv6 stream (\<lambda>bs offset.
     buildRawInnerIpv6TrafficClassIncVmBody bs offset ''vxlan_inner_ipv6_traffic_class''
       (numOf stream ''ipv6_traffic_class_count'') (numOf stream ''ipv6_traffic_class_step''))"

definition buildVxlanInnerIpv6FlowLabelIncVmBody :: "ProfileWorkbenchStream \<Rightarrow> AdvancedVmBody" where
  "buildVxlanInnerIpv6FlowLabelIncVmBody stream = onVxlanInnerIpv6 stream (\<lambda>bs offset.
     buildRawInnerIpv6FlowLabelIncVmBody bs offset ''vxlan_inner_ipv6_flow_label''
       (numOf stream ''ipv6_flow_label_count'') (numOf stream ''ipv6_flow_label_step''))"

definition firstTarget :: "'a option \<Rightarrow> 'a option \<Rightarrow> 'a option" where
  "firstTarget a b = (case a of None \<Rightarrow> b | Some x \<Rightarrow> Some x)"

definition buildVxlanInnerUdpPortIncVmBody :: "ProfileWorkbenchStream \<Rightarrow> FieldSide \<Rightarrow> AdvancedVmBody" where
  "buildVxlanInnerUdpPortIncVmBody stream field =
     (let rawTarget = firstTarget (rawVxlanInnerIpv4UdpTarget (rawOf stream)) (rawVxlanInnerIpv6UdpTarget (rawOf stream))
      in innerUdpPortBody stream ''vxlan_inner'' (map_option vx_inner rawTarget)
           (vxlanInnerIpv4Offset stream (rawVxlanTarget (rawOf stream)))
           (vxlanInnerChecksumInstruction stream rawTarget 11) field)"

definition buildVxlanInnerUdpSrcPortIncVmBody :: "ProfileWorkbenchStream \<Rightarrow> AdvancedVmBody" where
  "buildVxlanInnerUdpSrcPortIncVmBody stream = buildVxlanInnerUdpPortIncVmBody stream SrcField"

definition buildVxlanInnerUdpDstPortIncVmBody :: "ProfileWorkbenchStream \<Rightarrow> AdvancedVmBody" where
  "buildVxlanInnerUdpDstPortIncVmBody stream = buildVxlanInnerUdpPortIncVmBody stream DstField"

definition buildVxlanInnerTcpPortIncVmBody :: "ProfileWorkbenchStream \<Rightarrow> FieldSide \<Rightarrow> AdvancedVmBody" where
  "buildVxlanInnerTcpPortIncVmBody stream field =
     (let rawTarget = firstTarget (rawVxlanInnerIpv4TcpTarget (rawOf stream)) (rawVxlanInnerIpv6TcpTarget (rawOf stream))
      in case (rawTarget, Option.bind rawTarget (\<lambda>t. innerTcpOffset (vx_inner t))) of
           (Some t, Some tcpOffset) \<Rightarrow>
             innerTcpPortBody stream ''vxlan_inner'' (vx_bytes t) tcpOffset
               (vxlanInnerChecksumInstruction stream rawTarget 13) field
         | _ \<Rightarrow> advancedVmDefaultBody)"

definition buildVxlanInnerTcpSrcPortIncVmBody :: "ProfileWorkbenchStream \<Rightarrow> AdvancedVmBody" where
  "buildVxlanInnerTcpSrcPortIncVmBody stream = buildVxlanInnerTcpPortIncVmBody stream SrcField"

definition buildVxlanInnerTcpDstPortIncVmBody :: "ProfileWorkbenchStream \<Rightarrow> AdvancedVmBody" where
  "buildVxlanInnerTcpDstPortIncVmBody stream = buildVxlanInnerTcpPortIncVmBody stream DstField"

section \<open>Sound for the packets they find their field in\<close>

lemma inner_checksum_repairs [simp]:
  "viewOf d = OtherView \<Longrightarrow> viewOf (innerHwChecksum u l d) = OtherView"
  "viewOf d = OtherView \<Longrightarrow> viewOf (innerIpv4Checksum u d) = OtherView"
  by (auto simp: innerIpv4Checksum_def innerHwChecksum_def split: option.splits)

lemma vxlan_repairs [simp]:
  "viewOf (vxlanInnerChecksumInstruction s u l) = OtherView"
  "viewOf (vxlanInnerIpv4ChecksumInstruction s u) = OtherView"
  by (simp_all add: vxlanInnerChecksumInstruction_def vxlanInnerIpv4ChecksumInstruction_def)

lemma rawVxlanTarget_reads: "rawVxlanTarget s = Some t \<Longrightarrow> innerReads (streamBytes s) (vx_inner t)"
  using rawVxlanTargetD(6) [of s t] vxlanInner_reads by auto

lemma innerV4_Some: "innerV4 inner = Some i \<longleftrightarrow> inner = IsInnerIpv4 i"
  by (cases inner) (auto simp: innerV4_def)

lemma innerV6_Some: "innerV6 inner = Some i \<longleftrightarrow> inner = IsInnerIpv6 i"
  by (cases inner) (auto simp: innerV6_def)

lemma innerIsIpv4_V4: "innerIsIpv4 inner \<longleftrightarrow> (\<exists>i. inner = IsInnerIpv4 i)"
  by (cases inner) (auto simp: innerIsIpv4_def)

lemma innerIsIpv6_V6: "innerIsIpv6 inner \<longleftrightarrow> (\<exists>i. inner = IsInnerIpv6 i)"
  by (cases inner) (auto simp: innerIsIpv6_def)

lemma vxlan_header_template [template_sound]:
  assumes "rawVxlanTarget (rawOf s) \<noteq> None" "countsPositive s"
  shows "bodySound (streamBytes (rawOf s)) (buildVxlanIFlagVaryVmBody s)"
    "bodySound (streamBytes (rawOf s)) (buildVxlanVniIncVmBody s)"
proof -
  let ?bs = "streamBytes (rawOf s)"
  obtain t where t: "rawVxlanTarget (rawOf s) = Some t" using assms(1) by auto
  note at = rawVxlanTargetD [OF t]
  note b = byteAt_range [OF is_bytes_stream, of "rawOf s" "vx_vxlanOffset t"]
  have flag: "js_ushr (js_and (byteAt ?bs (vx_vxlanOffset t)) 0x08) 3 = byteAt ?bs (vx_vxlanOffset t) div 8 mod 2"
    using b by (simp add: js_and_field [where n = 1 and k = 3] js_ushr_nonneg)
  have one: "rawPacketHasBytes ?bs (vx_vxlanOffset t) 1" "rawPacketHasBytes ?bs (vx_vniOffset t) 4"
    by (auto simp: at(3) intro: hasBytes_within [OF at(2)])
  show "bodySound ?bs (buildVxlanIFlagVaryVmBody s)"
    unfolding buildVxlanIFlagVaryVmBody_def Let_def t fromTarget_simps at(1) flag vxlanFlagsOffset_def
    by (rule maskedBody_sound [where n = 1]) (use one in \<open>simp_all add: rawPacketNumberValue_1\<close>)
  have vni: "rawPacketNumberValue ?bs (vx_vniOffset t) 4 div 2 ^ nat 8 mod 2 ^ 24 = vx_vni t"
  proof -
    have "rawPacketNumberValue ?bs (vx_vniOffset t) 4
        = vx_vni t * 256 + byteAt ?bs (vx_vniOffset t + 3)"
      using numberFrom_append [of ?bs "vx_vniOffset t" 3 1 0]
        numberFrom_acc [of ?bs "vx_vniOffset t + 3" 1 "vx_vni t"]
      by (simp add: rawPacketNumberValue_def at(3,5))
    then show ?thesis
      using byteAt_range [OF is_bytes_stream, of "rawOf s" "vx_vniOffset t + 3"]
        rawPacketNumberValue_range [OF is_bytes_stream, of "rawOf s" "vx_vxlanOffset t + 4" 3]
      by (simp add: at(5))
  qed
  have vni_range: "0 \<le> vx_vni t" "vx_vni t < 16777216"
    using rawPacketNumberValue_range [OF is_bytes_stream, of "rawOf s" "vx_vxlanOffset t + 4" 3]
    by (simp_all add: at(5))
  have grow: "0 \<le> (numOf s ''vxlan_vni_count'' - 1) * numOf s ''vxlan_vni_step''"
    using assms(2) by (intro mult_nonneg_nonneg) (simp_all add: order_less_imp_le)
  show "bodySound ?bs (buildVxlanVniIncVmBody s)"
    unfolding buildVxlanVniIncVmBody_def Let_def t fromTarget_simps vxlanVniOffset_def advancedNumberBounds_def
    by (rule maskedBody_sound [where n = 24])
      (use one(2) vni vni_range assms(2) grow in \<open>simp_all\<close>)
qed

lemma writePair_count:
  assumes "rawPacketHasBytes bs off sz" "rawPacketNumberValue bs off sz = i" "is_bytes bs" "0 \<le> sz"
    "0 < count" "1 \<le> step" "limit (i + count - 1) < 256 ^ nat sz" "i \<le> limit (i + count - 1)"
  shows "writePair bs n [flowVar n op sz i i (limit (i + count - 1)) step, writePlainFlowVar n off]"
  using assms rawPacketNumberValue_range [OF assms(3), of off sz]
  by (intro writePair_literal) simp_all

text \<open>
  The five-tuple of an inner packet. A limit on the addresses keeps them in 32 bits; without
  one, the count must.
\<close>

lemma inner_five_tuple:
  assumes "is_bytes bs" "innerReads bs (IsInnerIpv4 i)" "in4_innerUdpOffset i = Some p" "countsPositive s"
    "viewOf c = OtherView"
    "\<And>off count. 0 < count \<Longrightarrow> off \<in> {(''_ipv4_src_count'', in4_innerIpv4SrcOffset i), (''_ipv4_dst_count'', in4_innerIpv4DstOffset i)}
      \<Longrightarrow> count = numOf s (prefix @ fst off) \<Longrightarrow>
        limit (rawPacketNumberValue bs (snd off) 4 + count - 1) < 4294967296
        \<and> rawPacketNumberValue bs (snd off) 4 \<le> limit (rawPacketNumberValue bs (snd off) 4 + count - 1)"
  shows "bodySound bs (rawInnerFiveTupleBody s prefix limit bs i p c)"
proof -
  note r = assms(2) [unfolded innerReads_def, simplified]
  have u: "rawPacketHasBytes bs p 8" "in4_innerUdpSrcPort i = Some (rawPacketWord bs p)"
    "in4_innerUdpDstPort i = Some (rawPacketWord bs (p + 2))"
    using r assms(3) by (auto simp: innerUdpOffset_def innerUdpSrcPort_def innerUdpDstPort_def)
  have four: "rawPacketHasBytes bs (in4_innerIpv4SrcOffset i) 4" "rawPacketHasBytes bs (in4_innerIpv4DstOffset i) 4"
    using r by (auto intro: hasBytes_within [of bs "in4_innerIpOffset i" 20])
  have two: "rawPacketHasBytes bs p 2" "rawPacketHasBytes bs (p + 2) 2"
    by (auto intro: hasBytes_within [OF u(1)])
  have pos: "0 < numOf s (prefix @ ''_ipv4_src_count'')" "0 < numOf s (prefix @ ''_ipv4_dst_count'')"
    using assms(4) by simp_all
  note src = assms(6) [OF pos(1), of "(''_ipv4_src_count'', in4_innerIpv4SrcOffset i)"]
  note dst = assms(6) [OF pos(2), of "(''_ipv4_dst_count'', in4_innerIpv4DstOffset i)"]
  note w = rawPacketWord_range [OF assms(1), of p] rawPacketWord_range [OF assms(1), of "p + 2"]
  show ?thesis
    unfolding rawInnerFiveTupleBody_def Let_def u(2,3) orElse_simps
    by (rule several_body_sound [where
          ps = "[(prefix @ ''_ipv4_src'', [_, _]), (prefix @ ''_ipv4_dst'', [_, _]),
                 (prefix @ ''_udp_src'', [_, _]), (prefix @ ''_udp_dst'', [_, _])]" and rest = "[c]"])
      (use src dst four two w assms(1,4,5) in
        \<open>simp_all add: writePair_count writePair_count [where limit = "min 65535"] rawPacketNumberValue_2\<close>)
qed

lemma vxlan_five_tuple_template [template_sound]:
  assumes "rawVxlanInnerIpv4UdpTarget (rawOf s) = Some t" "vx_inner t = IsInnerIpv4 i" "countsPositive s"
    "rawPacketNumberValue (streamBytes (rawOf s)) (in4_innerIpv4SrcOffset i) 4
       + numOf s ''vxlan_inner_ipv4_src_count'' \<le> 4294967296"
    "rawPacketNumberValue (streamBytes (rawOf s)) (in4_innerIpv4DstOffset i) 4
       + numOf s ''vxlan_inner_ipv4_dst_count'' \<le> 4294967296"
  shows "bodySound (streamBytes (rawOf s)) (buildVxlanInnerFiveTupleVmBody s)"
proof -
  have raw: "rawVxlanTarget (rawOf s) = Some t" "innerUdpOffset (vx_inner t) \<noteq> None"
    using assms(1) by (auto simp: rawVxlanInnerIpv4UdpTarget_def dest: keepIfD)
  then obtain p where p: "in4_innerUdpOffset i = Some p"
    by (auto simp: assms(2) innerUdpOffset_def)
  have five: "bodySound (streamBytes (rawOf s)) (rawInnerFiveTupleBody s ''vxlan_inner'' (\<lambda>v. v)
      (streamBytes (rawOf s)) i p (vxlanInnerChecksumInstruction s (Some t) 11))"
    by (rule inner_five_tuple)
      (use rawVxlanTarget_reads [OF raw(1)] p assms in \<open>auto simp: is_bytes_stream\<close>)
  show ?thesis
    using five p
    by (simp add: buildVxlanInnerFiveTupleVmBody_def assms(1,2) vxlanInnerV4_def innerV4_def innerUdpOffset_def
        rawVxlanTargetD(1) [OF raw(1)])
qed

lemma vxlan_filters:
  "rawVxlanInnerIpv4Target s = Some t \<Longrightarrow> rawVxlanTarget s = Some t \<and> (\<exists>i. vx_inner t = IsInnerIpv4 i)"
  "rawVxlanInnerIpv4AddressTarget s = Some t \<Longrightarrow> rawVxlanTarget s = Some t \<and> (\<exists>i. vx_inner t = IsInnerIpv4 i)"
  "rawVxlanInnerIpv6Target s = Some t \<Longrightarrow> rawVxlanTarget s = Some t \<and> (\<exists>i. vx_inner t = IsInnerIpv6 i)"
  "rawVxlanInnerIpv6AddressTarget s = Some t \<Longrightarrow> rawVxlanTarget s = Some t \<and> (\<exists>i. vx_inner t = IsInnerIpv6 i)"
  "firstTarget (rawVxlanInnerIpv4UdpTarget s) (rawVxlanInnerIpv6UdpTarget s) = Some t
    \<Longrightarrow> rawVxlanTarget s = Some t \<and> innerUdpOffset (vx_inner t) \<noteq> None"
  "firstTarget (rawVxlanInnerIpv4TcpTarget s) (rawVxlanInnerIpv6TcpTarget s) = Some t
    \<Longrightarrow> rawVxlanTarget s = Some t \<and> innerTcpOffset (vx_inner t) \<noteq> None"
  by (auto simp: rawVxlanInnerIpv4Target_def rawVxlanInnerIpv4AddressTarget_def rawVxlanInnerIpv6Target_def
      rawVxlanInnerIpv6AddressTarget_def rawVxlanInnerIpv6UdpTarget_def rawVxlanInnerIpv6TcpTarget_def
      rawVxlanInnerIpv4UdpTarget_def rawVxlanInnerIpv4TcpTarget_def firstTarget_def innerIsIpv4_V4 innerIsIpv6_V6
      split: option.splits dest!: keepIfD)

lemma vxlan_inner4_template [template_sound]:
  assumes "countsPositive s"
  shows "rawVxlanInnerIpv4AddressTarget (rawOf s) = Some t
      \<Longrightarrow> bodySound (streamBytes (rawOf s)) (buildVxlanInnerIpv4AddressIncVmBody s field)"
    "rawVxlanInnerIpv4Target (rawOf s) = Some t
      \<Longrightarrow> bodySound (streamBytes (rawOf s)) (buildVxlanInnerIpv4TtlIncVmBody s)"
proof -
  have inner: "innerReads (streamBytes (rawOf s)) (IsInnerIpv4 i)"
    if "rawVxlanTarget (rawOf s) = Some t" "vx_inner t = IsInnerIpv4 i" for i
    using rawVxlanTarget_reads [OF that(1)] that(2) by simp
  show "bodySound (streamBytes (rawOf s)) (buildVxlanInnerIpv4AddressIncVmBody s field)"
    if "rawVxlanInnerIpv4AddressTarget (rawOf s) = Some t"
    using vxlan_filters(2) [OF that] inner inner_address_template(1) [OF is_bytes_stream _ assms]
    by (auto simp: buildVxlanInnerIpv4AddressIncVmBody_def Let_def that vxlanInnerV4_def innerV4_def)
  show "bodySound (streamBytes (rawOf s)) (buildVxlanInnerIpv4TtlIncVmBody s)"
    if "rawVxlanInnerIpv4Target (rawOf s) = Some t"
    using vxlan_filters(1) [OF that] inner inner_address_template(2) [OF is_bytes_stream _ assms]
    by (auto simp: buildVxlanInnerIpv4TtlIncVmBody_def Let_def that vxlanInnerV4_def innerV4_def)
qed

lemma onVxlanInnerIpv4_sound:
  assumes "rawVxlanInnerIpv4Target (rawOf s) \<noteq> None"
    "\<And>c off. rawPacketHasBytes (streamBytes (rawOf s)) off 20 \<Longrightarrow> viewOf c = OtherView
      \<Longrightarrow> bodySound (streamBytes (rawOf s)) (build (streamBytes (rawOf s)) (Some c) off)"
  shows "bodySound (streamBytes (rawOf s)) (onVxlanInnerIpv4 s build)"
proof -
  obtain t i where t: "rawVxlanInnerIpv4Target (rawOf s) = Some t" "rawVxlanTarget (rawOf s) = Some t"
    "vx_inner t = IsInnerIpv4 i"
    using assms(1) vxlan_filters(1) by (metis option.exhaust)
  have "rawPacketHasBytes (streamBytes (rawOf s)) (in4_innerIpOffset i) 20"
    using rawVxlanTarget_reads [OF t(2)] by (simp add: t(3) innerReads_def)
  then show ?thesis
    using assms(2) by (simp add: onVxlanInnerIpv4_def t vxlanInnerV4_def innerV4_def rawVxlanTargetD(1) [OF t(2)])
qed

lemma vxlan_inner4_field_template [template_sound]:
  assumes "rawVxlanInnerIpv4Target (rawOf s) \<noteq> None" "countsPositive s"
  shows "bodySound (streamBytes (rawOf s)) (buildVxlanInnerIpv4IdIncVmBody s)"
    "bodySound (streamBytes (rawOf s)) (buildVxlanInnerIpv4DscpIncVmBody s)"
    "bodySound (streamBytes (rawOf s)) (buildVxlanInnerIpv4EcnIncVmBody s)"
    "bodySound (streamBytes (rawOf s)) (buildVxlanInnerIpv4FragmentOffsetIncVmBody s)"
    "bodySound (streamBytes (rawOf s)) (buildVxlanInnerIpv4FlagVaryVmBody s target)"
  unfolding buildVxlanInnerIpv4IdIncVmBody_def buildVxlanInnerIpv4DscpIncVmBody_def
    buildVxlanInnerIpv4EcnIncVmBody_def buildVxlanInnerIpv4FragmentOffsetIncVmBody_def
    buildVxlanInnerIpv4FlagVaryVmBody_def
  using assms(2)
  by (intro onVxlanInnerIpv4_sound [OF assms(1)] inner_field_template [where count = 1 and step = 1]
      inner_field_template; simp add: is_bytes_stream)+

lemma vxlan_inner6_template [template_sound]:
  assumes "rawVxlanInnerIpv6Target (rawOf s) \<noteq> None" "countsPositive s"
  shows "bodySound (streamBytes (rawOf s)) (buildVxlanInnerIpv6HopLimitIncVmBody s)"
    "bodySound (streamBytes (rawOf s)) (buildVxlanInnerIpv6TrafficClassIncVmBody s)"
    "bodySound (streamBytes (rawOf s)) (buildVxlanInnerIpv6FlowLabelIncVmBody s)"
proof -
  obtain t i where t: "rawVxlanInnerIpv6Target (rawOf s) = Some t" "rawVxlanTarget (rawOf s) = Some t"
    "vx_inner t = IsInnerIpv6 i"
    using assms(1) vxlan_filters(3) by (metis option.exhaust)
  note reads = rawVxlanTarget_reads [OF t(2), unfolded t(3)]
  then have six: "rawPacketHasBytes (streamBytes (rawOf s)) (in6_innerIpOffset i) 40"
    by (simp add: innerReads_def)
  note six = inner6_field_template [OF is_bytes_stream six]
  show "bodySound (streamBytes (rawOf s)) (buildVxlanInnerIpv6HopLimitIncVmBody s)"
    using inner6_address_template(2) [OF is_bytes_stream reads assms(2), of "fixChecksumIpv4 0"]
    by (simp add: buildVxlanInnerIpv6HopLimitIncVmBody_def vxlanInnerV6_def innerV6_def t)
  show "bodySound (streamBytes (rawOf s)) (buildVxlanInnerIpv6TrafficClassIncVmBody s)"
    "bodySound (streamBytes (rawOf s)) (buildVxlanInnerIpv6FlowLabelIncVmBody s)"
    using six assms(2)
    by (simp_all add: buildVxlanInnerIpv6TrafficClassIncVmBody_def buildVxlanInnerIpv6FlowLabelIncVmBody_def
        onVxlanInnerIpv6_def vxlanInnerV6_def innerV6_def t rawVxlanTargetD(1) [OF t(2)])
qed

lemma vxlan_inner6_address_template [template_sound]:
  assumes "rawVxlanInnerIpv6AddressTarget (rawOf s) = Some t" "vx_inner t = IsInnerIpv6 i" "countsPositive s"
    "ipv6FieldEngineSuffix (if field = SrcField then in6_innerIpv6Src i else in6_innerIpv6Dst i)
      (numOf s (''vxlan_inner_ipv6_'' @ sideName field @ ''_count'')) \<noteq> None"
  shows "bodySound (streamBytes (rawOf s)) (buildVxlanInnerIpv6AddressIncVmBody s field)"
proof -
  have raw: "rawVxlanTarget (rawOf s) = Some t" using vxlan_filters(4) [OF assms(1)] by simp
  note inner6_address_template(1) [OF is_bytes_stream rawVxlanTarget_reads [OF raw, unfolded assms(2)] assms(3),
      where prefix = "''vxlan_inner''" and field = field]
  then show ?thesis
    using assms(4)
    unfolding buildVxlanInnerIpv6AddressIncVmBody_def Let_def assms(1)
    by (simp add: vxlanInnerV6_def innerV6_def assms(2))
qed

lemma vxlan_port_template [template_sound]:
  assumes "countsPositive s"
  shows "firstTarget (rawVxlanInnerIpv4UdpTarget (rawOf s)) (rawVxlanInnerIpv6UdpTarget (rawOf s)) = Some t
      \<Longrightarrow> bodySound (streamBytes (rawOf s)) (buildVxlanInnerUdpPortIncVmBody s field)"
    "firstTarget (rawVxlanInnerIpv4TcpTarget (rawOf s)) (rawVxlanInnerIpv6TcpTarget (rawOf s)) = Some t
      \<Longrightarrow> bodySound (streamBytes (rawOf s)) (buildVxlanInnerTcpPortIncVmBody s field)"
proof -
  note port = inner_port_template [OF is_bytes_stream rawVxlanTarget_reads assms]
  show "bodySound (streamBytes (rawOf s)) (buildVxlanInnerUdpPortIncVmBody s field)"
    if "firstTarget (rawVxlanInnerIpv4UdpTarget (rawOf s)) (rawVxlanInnerIpv6UdpTarget (rawOf s)) = Some t"
    using vxlan_filters(5) [OF that] port(1)
    by (simp add: buildVxlanInnerUdpPortIncVmBody_def Let_def that)
  show "bodySound (streamBytes (rawOf s)) (buildVxlanInnerTcpPortIncVmBody s field)"
    if "firstTarget (rawVxlanInnerIpv4TcpTarget (rawOf s)) (rawVxlanInnerIpv6TcpTarget (rawOf s)) = Some t"
    using vxlan_filters(6) [OF that] port(2)
    by (auto simp: buildVxlanInnerTcpPortIncVmBody_def Let_def that rawVxlanTargetD(1))
qed

lemma vxlan_ethernet_template [template_sound]:
  assumes "rawVxlanInnerEthernetTarget (rawOf s) \<noteq> None"
  shows "bodySound (streamBytes (rawOf s)) (buildVxlanInnerMacAddressIncVmBody s field)"
    "bodySound (streamBytes (rawOf s)) (buildVxlanInnerEtherTypeIncVmBody s)"
proof -
  let ?bs = "streamBytes (rawOf s)"
  obtain t where t: "rawVxlanInnerEthernetTarget (rawOf s) = Some t" using assms by auto
  have bs: "vx_bytes t = ?bs" "rawPacketHasBytes ?bs (vx_innerEthernetOffset t) 14"
    using t by (auto simp: rawVxlanInnerEthernetTarget_def dest!: keepIfD dest: rawVxlanTargetD(1))
  have six: "rawPacketHasBytes ?bs (vx_innerEthernetOffset t + (if field = SrcField then 6 else 0)) 6"
    "rawPacketHasBytes ?bs (vx_innerEthernetOffset t + 12) 2"
    by (auto intro: hasBytes_within [OF bs(2)])
  show "bodySound ?bs (buildVxlanInnerMacAddressIncVmBody s field)"
    unfolding buildVxlanInnerMacAddressIncVmBody_def Let_def t fromTarget_simps bs(1) vxlanEthernetOffset_def
    by (rule suffix_write_sound [OF mac_suffix_sound [OF is_bytes_stream six(1)]]) simp_all
  show "bodySound ?bs (buildVxlanInnerEtherTypeIncVmBody s)"
    unfolding buildVxlanInnerEtherTypeIncVmBody_def Let_def t fromTarget_simps bs(1) vxlanEthernetOffset_def
    by (rule word_write_sound) (use six in \<open>simp_all add: is_bytes_stream\<close>)
qed

lemma vxlan_vlan_template [template_sound]:
  assumes "rawVxlanInnerVlanTagTarget (rawOf s) index = Some (target, tag)"
  shows "vlan_vlanId tag \<le> 4094 \<Longrightarrow> bodySound (streamBytes (rawOf s)) (buildVxlanInnerVlanIdIncVmBody s index)"
    "bodySound (streamBytes (rawOf s)) (buildVxlanInnerVlanPriorityIncVmBody s index)"
    "bodySound (streamBytes (rawOf s)) (buildVxlanInnerVlanCfiVaryVmBody s index)"
proof -
  let ?bs = "streamBytes (rawOf s)"
  let ?tci = "rawPacketWord ?bs (vlan_tciOffset tag)"
  have at: "rawPacketHasBytes ?bs (vlan_tciOffset tag) 4"
    "tag = vlanTagAt ?bs (vlan_etherType tag) (vlan_tciOffset tag)"
    using assms
    by (auto simp: rawVxlanInnerVlanTagTarget_def rawVxlanInnerEthernetTarget_def Let_def
        split: option.splits if_splits dest!: keepIfD findVlanTag_at dest: rawVxlanTargetD(1))
  have two: "rawPacketHasBytes ?bs (vlan_tciOffset tag) 2"
    using hasBytes_within [OF at(1)] by simp
  have vals: "vlan_vlanId tag = ?tci mod 4096" "vlan_priority tag = ?tci div 8192 mod 8"
    "vlan_cfi tag = ?tci div 4096 mod 2"
    by (subst at(2), simp add: vlanTagAt_values is_bytes_stream)+
  note field = maskedBody_sound [where rest = "[]" and castSize = 2 and off = "vlan_tciOffset tag" and bs = ?bs,
      OF _ two, unfolded rawPacketNumberValue_2 [OF is_bytes_stream]]
  show "bodySound ?bs (buildVxlanInnerVlanIdIncVmBody s index)" if "vlan_vlanId tag \<le> 4094"
    unfolding buildVxlanInnerVlanIdIncVmBody_def assms option.case prod.case
    by (rule field [where n = 12]) (use vals(1) that in simp_all)
  show "bodySound ?bs (buildVxlanInnerVlanPriorityIncVmBody s index)"
    unfolding buildVxlanInnerVlanPriorityIncVmBody_def assms option.case prod.case
    by (rule field [where n = 3]) (use vals(2) in simp_all)
  show "bodySound ?bs (buildVxlanInnerVlanCfiVaryVmBody s index)"
    unfolding buildVxlanInnerVlanCfiVaryVmBody_def assms option.case prod.case
    by (rule field [where n = 1]) (use vals(3) in simp_all)
qed

lemma vxlan_arp_template [template_sound]:
  assumes "rawVxlanInnerArpTarget (rawOf s) \<noteq> None" "countsPositive s"
  shows "bodySound (streamBytes (rawOf s)) (buildVxlanInnerArpOperationIncVmBody s)"
    "bodySound (streamBytes (rawOf s)) (buildVxlanInnerArpSenderIpIncVmBody s)"
    "bodySound (streamBytes (rawOf s)) (buildVxlanInnerArpTargetIpIncVmBody s)"
    "bodySound (streamBytes (rawOf s)) (buildVxlanInnerArpSenderMacIncVmBody s)"
    "bodySound (streamBytes (rawOf s)) (buildVxlanInnerArpTargetMacIncVmBody s)"
proof -
  let ?bs = "streamBytes (rawOf s)"
  obtain target arp where t: "rawVxlanInnerArpTarget (rawOf s) = Some (target, arp)" using assms(1) by auto
  define off where "off = arp_arpOffset arp"
  have at: "arp = arpAt ?bs off" "rawPacketHasBytes ?bs off 28"
    using t by (auto simp: rawVxlanInnerArpTarget_def rawVxlanInnerEthernetTarget_def Let_def off_def
        split: option.splits if_splits dest!: keepIfD dest: rawVxlanTargetD(1))
  have within: "rawPacketHasBytes ?bs (off + k) n" if "0 \<le> k" "0 < n" "k + n \<le> 28" for k n
    using hasBytes_within [OF at(2), of "off + k" n] that by simp
  show "bodySound ?bs (buildVxlanInnerArpOperationIncVmBody s)"
    unfolding buildVxlanInnerArpOperationIncVmBody_def t option.case prod.case at(1) arpAt_def
    by (rule word_write_sound) (use assms(2) within [of 6 2] in \<open>simp_all add: in_range\<close>)
  have address: "bodySound ?bs (vxlanInnerArpAddressBody s f offset width property)"
    if "suffixOf ?bs (offset arp + width) (f arp (numOf s (property @ ''_count'')))" for f offset width property
    unfolding vxlanInnerArpAddressBody_def t option.case prod.case Let_def
    by (rule suffix_write_sound [OF that]) (use assms(2) in simp_all)
  note suffix = ipv4_suffix_sound [OF is_bytes_stream within] mac_suffix_sound [OF is_bytes_stream within]
  show "bodySound ?bs (buildVxlanInnerArpSenderIpIncVmBody s)"
    unfolding buildVxlanInnerArpSenderIpIncVmBody_def
    by (rule address) (use suffix(1) [of 14] in \<open>simp add: at(1) arpAt_def\<close>)
  show "bodySound ?bs (buildVxlanInnerArpTargetIpIncVmBody s)"
    unfolding buildVxlanInnerArpTargetIpIncVmBody_def
    by (rule address) (use suffix(1) [of 24] in \<open>simp add: at(1) arpAt_def\<close>)
  show "bodySound ?bs (buildVxlanInnerArpSenderMacIncVmBody s)"
    unfolding buildVxlanInnerArpSenderMacIncVmBody_def
    by (rule address) (use suffix(2) [of 8] in \<open>simp add: at(1) arpAt_def\<close>)
  show "bodySound ?bs (buildVxlanInnerArpTargetMacIncVmBody s)"
    unfolding buildVxlanInnerArpTargetMacIncVmBody_def
    by (rule address) (use suffix(2) [of 18] in \<open>simp add: at(1) arpAt_def\<close>)
qed

end
