(* ===== verification/VmGtpu.thy ===== *)
theory VmGtpu
  imports VmVxlan
begin

text \<open>
  The GTP-U templates of \<open>advancedVmModel.ts\<close>: the header with its optional fields, and the IPv4,
  IPv6, UDP and TCP fields of the inner packet.
\<close>

section \<open>Which streams\<close>

definition isStructuredOuterIpv4GtpuStream :: "ProfileWorkbenchStream option \<Rightarrow> bool" where
  "isStructuredOuterIpv4GtpuStream = onStream (\<lambda>s.
     packetType s = ''Ethernet/IPv4/UDP'' \<and> \<not> flagOf s ''vxlan_enabled''
     \<and> (flagOf s ''gtpu_enabled''
        \<or> \<not> flagOf s ''gtpu_enabled'' \<and> (numOf s ''l4_src_port'' = 2152 \<or> numOf s ''l4_dst_port'' = 2152)))"

text \<open>\<open>isStructuredOuterIpv4GtpuStream(stream) && stream?.gtpu_enabled && ...\<close>.\<close>

definition gtpuForm :: "ProfileWorkbenchStream option \<Rightarrow> (ProfileWorkbenchStream \<Rightarrow> bool) \<Rightarrow> bool" where
  "gtpuForm stream p \<longleftrightarrow>
     isStructuredOuterIpv4GtpuStream stream \<and> onStream (\<lambda>s. flagOf s ''gtpu_enabled'' \<and> p s) stream"

definition isOuterIpv4GtpuStream :: "ProfileWorkbenchStream option \<Rightarrow> bool" where
  "isOuterIpv4GtpuStream stream \<longleftrightarrow>
     onStream (\<lambda>s. rawGtpuTarget (rawOf s) \<noteq> None) stream \<or> isStructuredOuterIpv4GtpuStream stream"

definition isOuterIpv4GtpuInnerUdpStream :: "ProfileWorkbenchStream option \<Rightarrow> bool" where
  "isOuterIpv4GtpuInnerUdpStream stream \<longleftrightarrow>
     onStream (\<lambda>s. rawGtpuInnerIpv4UdpTarget (rawOf s) \<noteq> None \<or> rawGtpuInnerIpv6UdpTarget (rawOf s) \<noteq> None) stream
     \<or> gtpuForm stream (\<lambda>s. True)"

definition isOuterIpv4GtpuInnerTcpStream :: "ProfileWorkbenchStream option \<Rightarrow> bool" where
  "isOuterIpv4GtpuInnerTcpStream = onStream (\<lambda>s.
     rawGtpuInnerIpv4TcpTarget (rawOf s) \<noteq> None \<or> rawGtpuInnerIpv6TcpTarget (rawOf s) \<noteq> None)"

definition gtpuFormVersion :: "ProfileWorkbenchStream option \<Rightarrow> string \<Rightarrow> bool" where
  "gtpuFormVersion stream version = gtpuForm stream (\<lambda>s. textOf s ''gtpu_inner_ip_version'' = version)"

definition isOuterIpv4GtpuInnerIpv4Stream :: "ProfileWorkbenchStream option \<Rightarrow> bool" where
  "isOuterIpv4GtpuInnerIpv4Stream stream \<longleftrightarrow>
     onStream (\<lambda>s. rawGtpuInnerIpv4UdpTarget (rawOf s) \<noteq> None) stream \<or> gtpuFormVersion stream ''IPv4''"

definition isOuterIpv4GtpuInnerIpv4AddressStream :: "ProfileWorkbenchStream option \<Rightarrow> bool" where
  "isOuterIpv4GtpuInnerIpv4AddressStream stream \<longleftrightarrow>
     onStream (\<lambda>s. rawGtpuInnerIpv4AddressTarget (rawOf s) \<noteq> None) stream \<or> gtpuFormVersion stream ''IPv4''"

definition isOuterIpv4GtpuInnerIpv4TtlStream :: "ProfileWorkbenchStream option \<Rightarrow> bool" where
  "isOuterIpv4GtpuInnerIpv4TtlStream stream \<longleftrightarrow>
     onStream (\<lambda>s. rawGtpuInnerIpv4Target (rawOf s) \<noteq> None) stream \<or> gtpuFormVersion stream ''IPv4''"

definition isOuterIpv4GtpuInnerRawIpv4Stream :: "ProfileWorkbenchStream option \<Rightarrow> bool" where
  "isOuterIpv4GtpuInnerRawIpv4Stream = onStream (\<lambda>s. rawGtpuInnerIpv4Target (rawOf s) \<noteq> None)"

definition isOuterIpv4GtpuInnerIpv6Stream :: "ProfileWorkbenchStream option \<Rightarrow> bool" where
  "isOuterIpv4GtpuInnerIpv6Stream stream \<longleftrightarrow>
     onStream (\<lambda>s. rawGtpuInnerIpv6Target (rawOf s) \<noteq> None) stream \<or> gtpuFormVersion stream ''IPv6''"

definition isOuterIpv4GtpuInnerRawIpv6Stream :: "ProfileWorkbenchStream option \<Rightarrow> bool" where
  "isOuterIpv4GtpuInnerRawIpv6Stream = onStream (\<lambda>s. rawGtpuInnerIpv6Target (rawOf s) \<noteq> None)"

definition gtpuInnerV6 :: "GtpuTarget option \<Rightarrow> InnerIpv6 option" where
  "gtpuInnerV6 rawTarget = Option.bind rawTarget (\<lambda>t. innerV6 (gu_inner t))"

definition gtpuInnerV4 :: "GtpuTarget option \<Rightarrow> InnerIpv4 option" where
  "gtpuInnerV4 rawTarget = Option.bind rawTarget (\<lambda>t. innerV4 (gu_inner t))"

definition gtpuInnerIpv6VmStream :: "ProfileWorkbenchStream option \<Rightarrow> FieldSide \<Rightarrow> bool" where
  "gtpuInnerIpv6VmStream stream field =
     innerIpv6AddressStream stream ''gtpu_inner'' (\<lambda>s. gtpuInnerV6 (rawGtpuInnerIpv6AddressTarget (rawOf s)))
       (\<lambda>s. rawGtpuInnerIpv6Target (rawOf s) \<noteq> None) (isOuterIpv4GtpuInnerIpv6Stream stream) field"

definition isOuterIpv4GtpuInnerIpv6SrcVmStream :: "ProfileWorkbenchStream option \<Rightarrow> bool" where
  "isOuterIpv4GtpuInnerIpv6SrcVmStream stream = gtpuInnerIpv6VmStream stream SrcField"

definition isOuterIpv4GtpuInnerIpv6DstVmStream :: "ProfileWorkbenchStream option \<Rightarrow> bool" where
  "isOuterIpv4GtpuInnerIpv6DstVmStream stream = gtpuInnerIpv6VmStream stream DstField"

text \<open>The optional fields: in the packet, or enabled in the form.\<close>

definition gtpuOptionStream ::
  "ProfileWorkbenchStream option \<Rightarrow> (GtpuTarget \<Rightarrow> int option) \<Rightarrow> string \<Rightarrow> bool" where
  "gtpuOptionStream stream offset enabled \<longleftrightarrow>
     onStream (\<lambda>s. Option.bind (rawGtpuTarget (rawOf s)) offset \<noteq> None) stream
     \<or> gtpuForm stream (\<lambda>s. flagOf s enabled)"

definition isOuterIpv4GtpuSequenceStream :: "ProfileWorkbenchStream option \<Rightarrow> bool" where
  "isOuterIpv4GtpuSequenceStream stream = gtpuOptionStream stream gu_sequenceOffset ''gtpu_sequence_enabled''"

definition isOuterIpv4GtpuNpduStream :: "ProfileWorkbenchStream option \<Rightarrow> bool" where
  "isOuterIpv4GtpuNpduStream stream = gtpuOptionStream stream gu_npduOffset ''gtpu_npdu_enabled''"

definition isOuterIpv4GtpuExtensionStream :: "ProfileWorkbenchStream option \<Rightarrow> bool" where
  "isOuterIpv4GtpuExtensionStream stream =
     gtpuOptionStream stream gu_extensionUdpPortOffset ''gtpu_extension_enabled''"

section \<open>The GTP-U header\<close>

definition gtpuTeidOffset :: "ProfileWorkbenchStream \<Rightarrow> GtpuTarget option \<Rightarrow> int" where
  "gtpuTeidOffset stream rawTarget =
     fromTarget rawTarget gu_teidOffset (workbenchOuterL2HeaderLength stream + 32)"

definition gtpuMessageTypeOffset :: "ProfileWorkbenchStream \<Rightarrow> GtpuTarget option \<Rightarrow> int" where
  "gtpuMessageTypeOffset stream rawTarget =
     fromTarget rawTarget (\<lambda>t. gu_gtpuOffset t + 1) (gtpuTeidOffset stream rawTarget - 3)"

definition gtpuOptionalHeaderLength :: "ProfileWorkbenchStream \<Rightarrow> int" where
  "gtpuOptionalHeaderLength stream =
     (if flagOf stream ''gtpu_sequence_enabled'' \<or> flagOf stream ''gtpu_npdu_enabled''
         \<or> flagOf stream ''gtpu_extension_enabled'' then 4 else 0)"

definition gtpuOptionalHeaderOffset :: "ProfileWorkbenchStream \<Rightarrow> GtpuTarget option \<Rightarrow> int" where
  "gtpuOptionalHeaderOffset stream rawTarget =
     orElse (Option.bind rawTarget gu_sequenceOffset) (gtpuTeidOffset stream rawTarget + 4)"

definition gtpuExtensionHeaderOffset :: "ProfileWorkbenchStream \<Rightarrow> GtpuTarget option \<Rightarrow> int" where
  "gtpuExtensionHeaderOffset stream rawTarget =
     fromTarget (Option.bind rawTarget gu_extensionUdpPortOffset) (\<lambda>off. off - 1)
       (gtpuOptionalHeaderOffset stream rawTarget + gtpuOptionalHeaderLength stream)"

definition buildGtpuSequenceIncVmBody :: "ProfileWorkbenchStream \<Rightarrow> AdvancedVmBody" where
  "buildGtpuSequenceIncVmBody stream =
     (let rawTarget = rawGtpuTarget (rawOf stream)
      in buildAdvancedNumberWriteVmBody
           \<lparr>nw_checksumInstruction = None, nw_count = numOf stream ''gtpu_sequence_count'',
            nw_initValue = orElse (Option.bind rawTarget gu_sequence) (numOf stream ''gtpu_sequence''),
            nw_maxLimit = 65535, nw_name = ''gtpu_sequence'',
            nw_pktOffset = orElse (Option.bind rawTarget gu_sequenceOffset) (gtpuOptionalHeaderOffset stream rawTarget),
            nw_size = 2, nw_step = numOf stream ''gtpu_sequence_step''\<rparr>)"

definition buildGtpuNpduIncVmBody :: "ProfileWorkbenchStream \<Rightarrow> AdvancedVmBody" where
  "buildGtpuNpduIncVmBody stream =
     (let rawTarget = rawGtpuTarget (rawOf stream)
      in buildAdvancedNumberWriteVmBody
           \<lparr>nw_checksumInstruction = None, nw_count = numOf stream ''gtpu_npdu_count'',
            nw_initValue = orElse (Option.bind rawTarget gu_npdu) (numOf stream ''gtpu_npdu''),
            nw_maxLimit = 255, nw_name = ''gtpu_npdu'',
            nw_pktOffset = orElse (Option.bind rawTarget gu_npduOffset) (gtpuOptionalHeaderOffset stream rawTarget + 2),
            nw_size = 1, nw_step = numOf stream ''gtpu_npdu_step''\<rparr>)"

definition buildGtpuExtensionUdpPortIncVmBody :: "ProfileWorkbenchStream \<Rightarrow> AdvancedVmBody" where
  "buildGtpuExtensionUdpPortIncVmBody stream =
     (let rawTarget = rawGtpuTarget (rawOf stream)
      in buildAdvancedNumberWriteVmBody
           \<lparr>nw_checksumInstruction = None, nw_count = numOf stream ''gtpu_extension_udp_port_count'',
            nw_initValue = orElse (Option.bind rawTarget gu_extensionUdpPort) (numOf stream ''gtpu_extension_udp_port''),
            nw_maxLimit = 65535, nw_name = ''gtpu_extension_udp_port'',
            nw_pktOffset = orElse (Option.bind rawTarget gu_extensionUdpPortOffset)
              (gtpuExtensionHeaderOffset stream rawTarget + 1),
            nw_size = 2, nw_step = numOf stream ''gtpu_extension_udp_port_step''\<rparr>)"

text \<open>The form's own instruction names the layer type 17.\<close>

definition gtpuFormChecksum :: "ProfileWorkbenchStream \<Rightarrow> VmValue" where
  "gtpuFormChecksum stream = fixChecksumHw (workbenchOuterL2HeaderLength stream) 20 17"

definition buildGtpuMessageTypeIncVmBody :: "ProfileWorkbenchStream \<Rightarrow> AdvancedVmBody" where
  "buildGtpuMessageTypeIncVmBody stream =
     (let rawTarget = rawGtpuTarget (rawOf stream)
      in buildAdvancedNumberWriteVmBody
           \<lparr>nw_checksumInstruction = Some (fromTarget rawTarget (\<lambda>t. checksumObject (gu_checksumInstruction t))
              (gtpuFormChecksum stream)),
            nw_count = 4, nw_initValue = fromTarget rawTarget gu_messageType (numOf stream ''gtpu_message_type''),
            nw_maxLimit = 255, nw_name = ''gtpu_message_type'',
            nw_pktOffset = gtpuMessageTypeOffset stream rawTarget, nw_size = 1, nw_step = 1\<rparr>)"

definition buildGtpuTeidVmBody :: "ProfileWorkbenchStream \<Rightarrow> AdvancedVmBody" where
  "buildGtpuTeidVmBody stream =
     (let rawTarget = rawGtpuTarget (rawOf stream)
      in case rawTarget of
           Some t \<Rightarrow>
             buildAdvancedNumberWriteVmBody
               \<lparr>nw_checksumInstruction = Some (checksumObject (gu_checksumInstruction t)),
                nw_count = numOf stream ''gtpu_teid_count'', nw_initValue = gu_teid t, nw_maxLimit = 4294967295,
                nw_name = ''gtpu_teid'', nw_pktOffset = gtpuTeidOffset stream rawTarget, nw_size = 4,
                nw_step = numOf stream ''gtpu_teid_step''\<rparr>
         | None \<Rightarrow>
             vmBody [flowVar ''gtpu_teid'' ''inc'' 4 1 1 4096 1,
                     writePlainFlowVar ''gtpu_teid'' (gtpuTeidOffset stream (rawGtpuTarget (rawOf stream))),
                     gtpuFormChecksum stream]
               ''gtpu_teid'')"

section \<open>The inner IPv4 packet\<close>

definition gtpuInnerIpv4Offset :: "ProfileWorkbenchStream \<Rightarrow> GtpuTarget option \<Rightarrow> int" where
  "gtpuInnerIpv4Offset stream rawTarget =
     (case Option.bind rawTarget (\<lambda>t. innerIpHeader (gu_inner t)) of
        Some (offset, len) \<Rightarrow> offset
      | None \<Rightarrow>
          workbenchOuterL2HeaderLength stream + 36 + gtpuOptionalHeaderLength stream
            + (if flagOf stream ''gtpu_extension_enabled'' then 4 else 0))"

definition gtpuInnerChecksumInstruction :: "ProfileWorkbenchStream \<Rightarrow> GtpuTarget option \<Rightarrow> int \<Rightarrow> VmValue" where
  "gtpuInnerChecksumInstruction stream rawTarget l4Type =
     innerHwChecksum (map_option gu_inner rawTarget) l4Type
       (fixChecksumHw (gtpuInnerIpv4Offset stream (rawGtpuTarget (rawOf stream)))
          (if textOf stream ''gtpu_inner_ip_version'' = ''IPv6'' then 40 else 20) l4Type)"

definition gtpuInnerIpv4ChecksumInstruction :: "ProfileWorkbenchStream \<Rightarrow> GtpuTarget option \<Rightarrow> VmValue" where
  "gtpuInnerIpv4ChecksumInstruction stream rawTarget =
     innerIpv4Checksum (map_option gu_inner rawTarget) (gtpuInnerChecksumInstruction stream None 11)"

definition buildGtpuInnerFiveTupleVmBody :: "ProfileWorkbenchStream \<Rightarrow> AdvancedVmBody" where
  "buildGtpuInnerFiveTupleVmBody stream =
     (let rawTarget = rawGtpuInnerIpv4UdpTarget (rawOf stream);
          checksumInstruction = gtpuInnerChecksumInstruction stream rawTarget 11
      in case (rawTarget, gtpuInnerV4 rawTarget, Option.bind rawTarget (\<lambda>t. innerUdpOffset (gu_inner t))) of
           (Some t, Some i, Some udpOffset) \<Rightarrow>
             rawInnerFiveTupleBody stream ''gtpu_inner'' (min 4294967295) (gu_bytes t) i udpOffset checksumInstruction
         | _ \<Rightarrow>
             structuredInnerFiveTupleBody stream ''gtpu_inner''
               (fromTarget (gtpuInnerV4 rawTarget) in4_innerIpOffset
                  (gtpuInnerIpv4Offset stream (rawGtpuTarget (rawOf stream))))
               checksumInstruction)"

definition buildGtpuInnerIpv4AddressIncVmBody :: "ProfileWorkbenchStream \<Rightarrow> FieldSide \<Rightarrow> AdvancedVmBody" where
  "buildGtpuInnerIpv4AddressIncVmBody stream field =
     (let rawTarget = rawGtpuInnerIpv4AddressTarget (rawOf stream)
      in innerIpv4AddressBody stream ''gtpu_inner'' (gtpuInnerV4 rawTarget)
           (gtpuInnerIpv4Offset stream (rawGtpuTarget (rawOf stream)))
           (gtpuInnerIpv4ChecksumInstruction stream rawTarget) field)"

definition buildGtpuInnerIpv4SrcIncVmBody :: "ProfileWorkbenchStream \<Rightarrow> AdvancedVmBody" where
  "buildGtpuInnerIpv4SrcIncVmBody stream = buildGtpuInnerIpv4AddressIncVmBody stream SrcField"

definition buildGtpuInnerIpv4DstIncVmBody :: "ProfileWorkbenchStream \<Rightarrow> AdvancedVmBody" where
  "buildGtpuInnerIpv4DstIncVmBody stream = buildGtpuInnerIpv4AddressIncVmBody stream DstField"

definition buildGtpuInnerIpv4TtlIncVmBody :: "ProfileWorkbenchStream \<Rightarrow> AdvancedVmBody" where
  "buildGtpuInnerIpv4TtlIncVmBody stream =
     (let rawTarget = rawGtpuInnerIpv4Target (rawOf stream)
      in innerIpv4TtlBody stream ''gtpu_inner'' (gtpuInnerV4 rawTarget)
           (gtpuInnerIpv4Offset stream (rawGtpuTarget (rawOf stream)))
           (gtpuInnerIpv4ChecksumInstruction stream rawTarget))"

text \<open>The builders that only work on a packet: the bytes, the checksum instruction and the header offset.\<close>

definition onGtpuInnerIpv4 ::
  "ProfileWorkbenchStream \<Rightarrow> (bytes \<Rightarrow> VmValue option \<Rightarrow> int \<Rightarrow> AdvancedVmBody) \<Rightarrow> AdvancedVmBody" where
  "onGtpuInnerIpv4 stream build =
     (let rawTarget = rawGtpuInnerIpv4Target (rawOf stream)
      in case (rawTarget, gtpuInnerV4 rawTarget) of
           (Some t, Some i) \<Rightarrow>
             build (gu_bytes t) (Some (gtpuInnerIpv4ChecksumInstruction stream rawTarget)) (in4_innerIpOffset i)
         | _ \<Rightarrow> advancedVmDefaultBody)"

definition buildGtpuInnerIpv4IdIncVmBody :: "ProfileWorkbenchStream \<Rightarrow> AdvancedVmBody" where
  "buildGtpuInnerIpv4IdIncVmBody stream = onGtpuInnerIpv4 stream (\<lambda>bs checksum offset.
     buildRawInnerIpv4IdIncVmBody bs checksum (numOf stream ''ipv4_id_count'') offset
       (numOf stream ''ipv4_id_step'') ''gtpu_inner_ipv4_id'')"

definition buildGtpuInnerIpv4DscpIncVmBody :: "ProfileWorkbenchStream \<Rightarrow> AdvancedVmBody" where
  "buildGtpuInnerIpv4DscpIncVmBody stream = onGtpuInnerIpv4 stream (\<lambda>bs checksum offset.
     buildRawInnerIpv4DscpIncVmBody bs checksum (numOf stream ''ipv4_dscp_count'') offset
       (numOf stream ''ipv4_dscp_step'') ''gtpu_inner_ipv4_dscp'')"

definition buildGtpuInnerIpv4EcnIncVmBody :: "ProfileWorkbenchStream \<Rightarrow> AdvancedVmBody" where
  "buildGtpuInnerIpv4EcnIncVmBody stream = onGtpuInnerIpv4 stream (\<lambda>bs checksum offset.
     buildRawInnerIpv4EcnIncVmBody bs checksum (numOf stream ''ipv4_ecn_count'') offset
       (numOf stream ''ipv4_ecn_step'') ''gtpu_inner_ipv4_ecn'')"

definition buildGtpuInnerIpv4FragmentOffsetIncVmBody :: "ProfileWorkbenchStream \<Rightarrow> AdvancedVmBody" where
  "buildGtpuInnerIpv4FragmentOffsetIncVmBody stream = onGtpuInnerIpv4 stream (\<lambda>bs checksum offset.
     buildRawInnerIpv4FragmentOffsetIncVmBody bs checksum (numOf stream ''ipv4_fragment_offset_count'') offset
       (numOf stream ''ipv4_fragment_offset_step'') ''gtpu_inner_ipv4_fragment_offset'')"

definition buildGtpuInnerIpv4FlagVaryVmBody :: "ProfileWorkbenchStream \<Rightarrow> Ipv4Flag \<Rightarrow> AdvancedVmBody" where
  "buildGtpuInnerIpv4FlagVaryVmBody stream target = onGtpuInnerIpv4 stream (\<lambda>bs checksum offset.
     buildRawInnerIpv4FlagVaryVmBody bs checksum offset target ''gtpu_inner_ipv4'')"

definition buildGtpuInnerIpv4ReservedFlagVaryVmBody :: "ProfileWorkbenchStream \<Rightarrow> AdvancedVmBody" where
  "buildGtpuInnerIpv4ReservedFlagVaryVmBody stream = buildGtpuInnerIpv4FlagVaryVmBody stream ReservedFlag"

definition buildGtpuInnerIpv4DfFlagVaryVmBody :: "ProfileWorkbenchStream \<Rightarrow> AdvancedVmBody" where
  "buildGtpuInnerIpv4DfFlagVaryVmBody stream = buildGtpuInnerIpv4FlagVaryVmBody stream DfFlag"

definition buildGtpuInnerIpv4MfFlagVaryVmBody :: "ProfileWorkbenchStream \<Rightarrow> AdvancedVmBody" where
  "buildGtpuInnerIpv4MfFlagVaryVmBody stream = buildGtpuInnerIpv4FlagVaryVmBody stream MfFlag"

section \<open>The inner IPv6 packet and the inner ports\<close>

definition buildGtpuInnerIpv6AddressIncVmBody :: "ProfileWorkbenchStream \<Rightarrow> FieldSide \<Rightarrow> AdvancedVmBody" where
  "buildGtpuInnerIpv6AddressIncVmBody stream field =
     (let rawTarget = rawGtpuInnerIpv6AddressTarget (rawOf stream);
          overTcp = Option.bind rawTarget (\<lambda>t. innerTcpOffset (gu_inner t)) \<noteq> None
      in innerIpv6AddressBody stream ''gtpu_inner'' (gtpuInnerV6 rawTarget)
           (gtpuInnerIpv4Offset stream (rawGtpuTarget (rawOf stream)))
           (gtpuInnerChecksumInstruction stream rawTarget (if overTcp then 13 else 11)) field)"

definition buildGtpuInnerIpv6SrcIncVmBody :: "ProfileWorkbenchStream \<Rightarrow> AdvancedVmBody" where
  "buildGtpuInnerIpv6SrcIncVmBody stream = buildGtpuInnerIpv6AddressIncVmBody stream SrcField"

definition buildGtpuInnerIpv6DstIncVmBody :: "ProfileWorkbenchStream \<Rightarrow> AdvancedVmBody" where
  "buildGtpuInnerIpv6DstIncVmBody stream = buildGtpuInnerIpv6AddressIncVmBody stream DstField"

definition buildGtpuInnerIpv6HopLimitIncVmBody :: "ProfileWorkbenchStream \<Rightarrow> AdvancedVmBody" where
  "buildGtpuInnerIpv6HopLimitIncVmBody stream =
     innerIpv6HopLimitBody stream ''gtpu_inner'' (gtpuInnerV6 (rawGtpuInnerIpv6Target (rawOf stream)))
       (gtpuInnerIpv4Offset stream (rawGtpuTarget (rawOf stream)))"

definition onGtpuInnerIpv6 :: "ProfileWorkbenchStream \<Rightarrow> (bytes \<Rightarrow> int \<Rightarrow> AdvancedVmBody) \<Rightarrow> AdvancedVmBody" where
  "onGtpuInnerIpv6 stream build =
     (let rawTarget = rawGtpuInnerIpv6Target (rawOf stream)
      in case (rawTarget, gtpuInnerV6 rawTarget) of
           (Some t, Some i) \<Rightarrow> build (gu_bytes t) (in6_innerIpOffset i)
         | _ \<Rightarrow> advancedVmDefaultBody)"

definition buildGtpuInnerIpv6TrafficClassIncVmBody :: "ProfileWorkbenchStream \<Rightarrow> AdvancedVmBody" where
  "buildGtpuInnerIpv6TrafficClassIncVmBody stream = onGtpuInnerIpv6 stream (\<lambda>bs offset.
     buildRawInnerIpv6TrafficClassIncVmBody bs offset ''gtpu_inner_ipv6_traffic_class''
       (numOf stream ''ipv6_traffic_class_count'') (numOf stream ''ipv6_traffic_class_step''))"

definition buildGtpuInnerIpv6FlowLabelIncVmBody :: "ProfileWorkbenchStream \<Rightarrow> AdvancedVmBody" where
  "buildGtpuInnerIpv6FlowLabelIncVmBody stream = onGtpuInnerIpv6 stream (\<lambda>bs offset.
     buildRawInnerIpv6FlowLabelIncVmBody bs offset ''gtpu_inner_ipv6_flow_label''
       (numOf stream ''ipv6_flow_label_count'') (numOf stream ''ipv6_flow_label_step''))"

definition buildGtpuInnerUdpPortIncVmBody :: "ProfileWorkbenchStream \<Rightarrow> FieldSide \<Rightarrow> AdvancedVmBody" where
  "buildGtpuInnerUdpPortIncVmBody stream field =
     (let rawTarget = firstTarget (rawGtpuInnerIpv4UdpTarget (rawOf stream)) (rawGtpuInnerIpv6UdpTarget (rawOf stream))
      in innerUdpPortBody stream ''gtpu_inner'' (map_option gu_inner rawTarget)
           (gtpuInnerIpv4Offset stream (rawGtpuTarget (rawOf stream)))
           (gtpuInnerChecksumInstruction stream rawTarget 11) field)"

definition buildGtpuInnerUdpSrcPortIncVmBody :: "ProfileWorkbenchStream \<Rightarrow> AdvancedVmBody" where
  "buildGtpuInnerUdpSrcPortIncVmBody stream = buildGtpuInnerUdpPortIncVmBody stream SrcField"

definition buildGtpuInnerUdpDstPortIncVmBody :: "ProfileWorkbenchStream \<Rightarrow> AdvancedVmBody" where
  "buildGtpuInnerUdpDstPortIncVmBody stream = buildGtpuInnerUdpPortIncVmBody stream DstField"

definition buildGtpuInnerTcpPortIncVmBody :: "ProfileWorkbenchStream \<Rightarrow> FieldSide \<Rightarrow> AdvancedVmBody" where
  "buildGtpuInnerTcpPortIncVmBody stream field =
     (let rawTarget = firstTarget (rawGtpuInnerIpv4TcpTarget (rawOf stream)) (rawGtpuInnerIpv6TcpTarget (rawOf stream))
      in case (rawTarget, Option.bind rawTarget (\<lambda>t. innerTcpOffset (gu_inner t))) of
           (Some t, Some tcpOffset) \<Rightarrow>
             innerTcpPortBody stream ''gtpu_inner'' (gu_bytes t) tcpOffset
               (gtpuInnerChecksumInstruction stream rawTarget 13) field
         | _ \<Rightarrow> advancedVmDefaultBody)"

definition buildGtpuInnerTcpSrcPortIncVmBody :: "ProfileWorkbenchStream \<Rightarrow> AdvancedVmBody" where
  "buildGtpuInnerTcpSrcPortIncVmBody stream = buildGtpuInnerTcpPortIncVmBody stream SrcField"

definition buildGtpuInnerTcpDstPortIncVmBody :: "ProfileWorkbenchStream \<Rightarrow> AdvancedVmBody" where
  "buildGtpuInnerTcpDstPortIncVmBody stream = buildGtpuInnerTcpPortIncVmBody stream DstField"

section \<open>Sound for the packets they find their field in\<close>

lemma gtpu_repairs [simp]:
  "viewOf (gtpuInnerChecksumInstruction s u l) = OtherView"
  "viewOf (gtpuInnerIpv4ChecksumInstruction s u) = OtherView" "viewOf (gtpuFormChecksum s) = OtherView"
  by (simp_all add: gtpuInnerChecksumInstruction_def gtpuInnerIpv4ChecksumInstruction_def gtpuFormChecksum_def)

text \<open>What a GTP-U target says is what stands in the packet.\<close>

definition gtpuReads :: "bytes \<Rightarrow> GtpuTarget \<Rightarrow> bool" where
  "gtpuReads bs t \<longleftrightarrow>
     gu_bytes t = bs \<and> rawPacketHasBytes bs (gu_gtpuOffset t) 8 \<and> gu_teidOffset t = gu_gtpuOffset t + 4
     \<and> gu_teid t = rawPacketNumberValue bs (gu_teidOffset t) 4
     \<and> gu_messageType t = byteAt bs (gu_gtpuOffset t + 1)
     \<and> gu_sequence t = map_option (rawPacketWord bs) (gu_sequenceOffset t)
     \<and> gu_npduOffset t = map_option (\<lambda>p. p + 2) (gu_sequenceOffset t)
     \<and> gu_npdu t = map_option (byteAt bs) (gu_npduOffset t)
     \<and> gu_extensionUdpPort t = map_option (rawPacketWord bs) (gu_extensionUdpPortOffset t)
     \<and> innerReads bs (gu_inner t)"

lemma gtpuTargetAt_reads:
  "rawPacketHasBytes bs off 8 \<Longrightarrow> gtpuReads bs (gtpuTargetAt bs instruction off len end)"
  by (simp add: gtpuReads_def gtpuTargetAt_def Let_def gtpuInner_reads split: prod.split)

lemma rawGtpuTarget_reads:
  assumes "rawGtpuTarget s = Some t"
  shows "gtpuReads (streamBytes s) t"
  using assms
  by (auto simp: rawGtpuTarget_def Let_def split: option.splits if_splits
      dest!: rawOuterTransportTargetD(1) intro: gtpuTargetAt_reads)

lemma gtpu_header_template [template_sound]:
  assumes "rawGtpuTarget (rawOf s) = Some t" "countsPositive s"
  shows "bodySound (streamBytes (rawOf s)) (buildGtpuTeidVmBody s)"
    "bodySound (streamBytes (rawOf s)) (buildGtpuMessageTypeIncVmBody s)"
    "gu_sequenceOffset t \<noteq> None \<Longrightarrow> bodySound (streamBytes (rawOf s)) (buildGtpuSequenceIncVmBody s)"
    "gu_npduOffset t \<noteq> None \<Longrightarrow> bodySound (streamBytes (rawOf s)) (buildGtpuNpduIncVmBody s)"
    "gu_extensionUdpPortOffset t \<noteq> None
      \<Longrightarrow> bodySound (streamBytes (rawOf s)) (buildGtpuExtensionUdpPortIncVmBody s)"
proof -
  let ?bs = "streamBytes (rawOf s)"
  note r = rawGtpuTarget_reads [OF assms(1), unfolded gtpuReads_def]
  note sound = rawGtpuTarget_sound [OF assms(1), unfolded gtpuSound_def]
  have head: "rawPacketHasBytes ?bs (gu_gtpuOffset t) 8" using r by simp
  have at: "rawPacketHasBytes ?bs (gu_teidOffset t) 4" "rawPacketHasBytes ?bs (gu_gtpuOffset t + 1) 1"
    using r by (auto intro: hasBytes_within [OF head])
  show "bodySound ?bs (buildGtpuTeidVmBody s)"
    unfolding buildGtpuTeidVmBody_def assms(1) Let_def option.case gtpuTeidOffset_def fromTarget_simps
    by (rule long_write_sound [OF is_bytes_stream]) (use r at assms(2) in simp_all)
  show "bodySound ?bs (buildGtpuMessageTypeIncVmBody s)"
    unfolding buildGtpuMessageTypeIncVmBody_def assms(1) Let_def gtpuMessageTypeOffset_def fromTarget_simps
    by (rule byte_write_sound [OF is_bytes_stream]) (use r at in simp_all)
  show "bodySound ?bs (buildGtpuSequenceIncVmBody s)" if offset: "gu_sequenceOffset t \<noteq> None"
  proof -
    obtain p where p: "gu_sequenceOffset t = Some p" using offset by auto
    then have four: "rawPacketHasBytes ?bs p 4" using sound by simp
    show ?thesis
      unfolding buildGtpuSequenceIncVmBody_def assms(1) Let_def
      by (rule word_write_sound [OF is_bytes_stream])
        (use r p assms(2) in \<open>simp_all add: hasBytes_within [OF four]\<close>)
  qed
  show "bodySound ?bs (buildGtpuNpduIncVmBody s)" if offset: "gu_npduOffset t \<noteq> None"
  proof -
    obtain p where p: "gu_sequenceOffset t = Some p" "gu_npduOffset t = Some (p + 2)" using offset r by auto
    then have four: "rawPacketHasBytes ?bs p 4" using sound by simp
    show ?thesis
      unfolding buildGtpuNpduIncVmBody_def assms(1) Let_def
      by (rule byte_write_sound [OF is_bytes_stream])
        (use r p assms(2) in \<open>simp_all add: hasBytes_within [OF four]\<close>)
  qed
  show "bodySound ?bs (buildGtpuExtensionUdpPortIncVmBody s)" if offset: "gu_extensionUdpPortOffset t \<noteq> None"
  proof -
    obtain p where p: "gu_extensionUdpPortOffset t = Some p" using offset by auto
    then have three: "rawPacketHasBytes ?bs p 3" using sound by simp
    show ?thesis
      unfolding buildGtpuExtensionUdpPortIncVmBody_def assms(1) Let_def
      by (rule word_write_sound [OF is_bytes_stream])
        (use r p assms(2) in \<open>simp_all add: hasBytes_within [OF three]\<close>)
  qed
qed

lemma rawGtpuTarget_inner:
  "rawGtpuTarget s = Some t \<Longrightarrow> innerReads (streamBytes s) (gu_inner t)"
  "rawGtpuTarget s = Some t \<Longrightarrow> gu_bytes t = streamBytes s"
  using rawGtpuTarget_reads by (auto simp: gtpuReads_def)

lemma gtpu_five_tuple_template [template_sound]:
  assumes "rawGtpuInnerIpv4UdpTarget (rawOf s) = Some t" "gu_inner t = IsInnerIpv4 i" "countsPositive s"
  shows "bodySound (streamBytes (rawOf s)) (buildGtpuInnerFiveTupleVmBody s)"
proof -
  have raw: "rawGtpuTarget (rawOf s) = Some t" "innerUdpOffset (gu_inner t) \<noteq> None"
    using assms(1) by (auto simp: rawGtpuInnerIpv4UdpTarget_def dest: keepIfD)
  then obtain p where p: "in4_innerUdpOffset i = Some p"
    by (auto simp: assms(2) innerUdpOffset_def)
  have four: "rawPacketNumberValue (streamBytes (rawOf s)) off 4 < 4294967296" for off
    using rawPacketNumberValue_range(2) [OF is_bytes_stream, of "rawOf s" off 4] by simp
  then have le: "rawPacketNumberValue (streamBytes (rawOf s)) off 4 \<le> 4294967295" for off
    using zle_diff1_eq [of "rawPacketNumberValue (streamBytes (rawOf s)) off 4" 4294967296] by simp
  have five: "bodySound (streamBytes (rawOf s)) (rawInnerFiveTupleBody s ''gtpu_inner'' (min 4294967295)
      (streamBytes (rawOf s)) i p (gtpuInnerChecksumInstruction s (Some t) 11))"
    by (rule inner_five_tuple)
      (use rawGtpuTarget_inner(1) [OF raw(1)] p assms four le in \<open>simp_all add: is_bytes_stream min_less_iff_disj\<close>)
  show ?thesis
    using five p
    by (simp add: buildGtpuInnerFiveTupleVmBody_def assms(1,2) gtpuInnerV4_def innerV4_def innerUdpOffset_def
        rawGtpuTarget_inner(2) [OF raw(1)])
qed

lemma gtpu_filters:
  "rawGtpuInnerIpv4Target s = Some t \<Longrightarrow> rawGtpuTarget s = Some t \<and> (\<exists>i. gu_inner t = IsInnerIpv4 i)"
  "rawGtpuInnerIpv4AddressTarget s = Some t \<Longrightarrow> rawGtpuTarget s = Some t \<and> (\<exists>i. gu_inner t = IsInnerIpv4 i)"
  "rawGtpuInnerIpv6Target s = Some t \<Longrightarrow> rawGtpuTarget s = Some t \<and> (\<exists>i. gu_inner t = IsInnerIpv6 i)"
  "rawGtpuInnerIpv6AddressTarget s = Some t \<Longrightarrow> rawGtpuTarget s = Some t \<and> (\<exists>i. gu_inner t = IsInnerIpv6 i)"
  "firstTarget (rawGtpuInnerIpv4UdpTarget s) (rawGtpuInnerIpv6UdpTarget s) = Some t
    \<Longrightarrow> rawGtpuTarget s = Some t \<and> innerUdpOffset (gu_inner t) \<noteq> None"
  "firstTarget (rawGtpuInnerIpv4TcpTarget s) (rawGtpuInnerIpv6TcpTarget s) = Some t
    \<Longrightarrow> rawGtpuTarget s = Some t \<and> innerTcpOffset (gu_inner t) \<noteq> None"
  by (auto simp: rawGtpuInnerIpv4Target_def rawGtpuInnerIpv4AddressTarget_def rawGtpuInnerIpv6Target_def
      rawGtpuInnerIpv6AddressTarget_def rawGtpuInnerIpv6UdpTarget_def rawGtpuInnerIpv6TcpTarget_def
      rawGtpuInnerIpv4UdpTarget_def rawGtpuInnerIpv4TcpTarget_def firstTarget_def innerIsIpv4_V4 innerIsIpv6_V6
      split: option.splits dest!: keepIfD)

lemma gtpu_inner4_template [template_sound]:
  assumes "countsPositive s"
  shows "rawGtpuInnerIpv4AddressTarget (rawOf s) = Some t
      \<Longrightarrow> bodySound (streamBytes (rawOf s)) (buildGtpuInnerIpv4AddressIncVmBody s field)"
    "rawGtpuInnerIpv4Target (rawOf s) = Some t
      \<Longrightarrow> bodySound (streamBytes (rawOf s)) (buildGtpuInnerIpv4TtlIncVmBody s)"
proof -
  have inner: "innerReads (streamBytes (rawOf s)) (IsInnerIpv4 i)"
    if "rawGtpuTarget (rawOf s) = Some t" "gu_inner t = IsInnerIpv4 i" for i
    using rawGtpuTarget_inner(1) [OF that(1)] that(2) by simp
  show "bodySound (streamBytes (rawOf s)) (buildGtpuInnerIpv4AddressIncVmBody s field)"
    if "rawGtpuInnerIpv4AddressTarget (rawOf s) = Some t"
    using gtpu_filters(2) [OF that] inner inner_address_template(1) [OF is_bytes_stream _ assms]
    by (auto simp: buildGtpuInnerIpv4AddressIncVmBody_def Let_def that gtpuInnerV4_def innerV4_def)
  show "bodySound (streamBytes (rawOf s)) (buildGtpuInnerIpv4TtlIncVmBody s)"
    if "rawGtpuInnerIpv4Target (rawOf s) = Some t"
    using gtpu_filters(1) [OF that] inner inner_address_template(2) [OF is_bytes_stream _ assms]
    by (auto simp: buildGtpuInnerIpv4TtlIncVmBody_def Let_def that gtpuInnerV4_def innerV4_def)
qed

lemma onGtpuInnerIpv4_sound:
  assumes "rawGtpuInnerIpv4Target (rawOf s) \<noteq> None"
    "\<And>c off. rawPacketHasBytes (streamBytes (rawOf s)) off 20 \<Longrightarrow> viewOf c = OtherView
      \<Longrightarrow> bodySound (streamBytes (rawOf s)) (build (streamBytes (rawOf s)) (Some c) off)"
  shows "bodySound (streamBytes (rawOf s)) (onGtpuInnerIpv4 s build)"
proof -
  obtain t i where t: "rawGtpuInnerIpv4Target (rawOf s) = Some t" "rawGtpuTarget (rawOf s) = Some t"
    "gu_inner t = IsInnerIpv4 i"
    using assms(1) gtpu_filters(1) by (metis option.exhaust)
  have "rawPacketHasBytes (streamBytes (rawOf s)) (in4_innerIpOffset i) 20"
    using rawGtpuTarget_inner(1) [OF t(2)] by (simp add: t(3) innerReads_def)
  then show ?thesis
    using assms(2) by (simp add: onGtpuInnerIpv4_def t gtpuInnerV4_def innerV4_def rawGtpuTarget_inner(2) [OF t(2)])
qed

lemma gtpu_inner4_field_template [template_sound]:
  assumes "rawGtpuInnerIpv4Target (rawOf s) \<noteq> None" "countsPositive s"
  shows "bodySound (streamBytes (rawOf s)) (buildGtpuInnerIpv4IdIncVmBody s)"
    "bodySound (streamBytes (rawOf s)) (buildGtpuInnerIpv4DscpIncVmBody s)"
    "bodySound (streamBytes (rawOf s)) (buildGtpuInnerIpv4EcnIncVmBody s)"
    "bodySound (streamBytes (rawOf s)) (buildGtpuInnerIpv4FragmentOffsetIncVmBody s)"
    "bodySound (streamBytes (rawOf s)) (buildGtpuInnerIpv4FlagVaryVmBody s target)"
  unfolding buildGtpuInnerIpv4IdIncVmBody_def buildGtpuInnerIpv4DscpIncVmBody_def
    buildGtpuInnerIpv4EcnIncVmBody_def buildGtpuInnerIpv4FragmentOffsetIncVmBody_def
    buildGtpuInnerIpv4FlagVaryVmBody_def
  using assms(2)
  by (intro onGtpuInnerIpv4_sound [OF assms(1)] inner_field_template [where count = 1 and step = 1]
      inner_field_template; simp add: is_bytes_stream)+

lemma gtpu_inner6_template [template_sound]:
  assumes "rawGtpuInnerIpv6Target (rawOf s) \<noteq> None" "countsPositive s"
  shows "bodySound (streamBytes (rawOf s)) (buildGtpuInnerIpv6HopLimitIncVmBody s)"
    "bodySound (streamBytes (rawOf s)) (buildGtpuInnerIpv6TrafficClassIncVmBody s)"
    "bodySound (streamBytes (rawOf s)) (buildGtpuInnerIpv6FlowLabelIncVmBody s)"
proof -
  obtain t i where t: "rawGtpuInnerIpv6Target (rawOf s) = Some t" "rawGtpuTarget (rawOf s) = Some t"
    "gu_inner t = IsInnerIpv6 i"
    using assms(1) gtpu_filters(3) by (metis option.exhaust)
  note reads = rawGtpuTarget_inner(1) [OF t(2), unfolded t(3)]
  then have six: "rawPacketHasBytes (streamBytes (rawOf s)) (in6_innerIpOffset i) 40"
    by (simp add: innerReads_def)
  note six = inner6_field_template [OF is_bytes_stream six]
  show "bodySound (streamBytes (rawOf s)) (buildGtpuInnerIpv6HopLimitIncVmBody s)"
    using inner6_address_template(2) [OF is_bytes_stream reads assms(2), of "fixChecksumIpv4 0"]
    by (simp add: buildGtpuInnerIpv6HopLimitIncVmBody_def gtpuInnerV6_def innerV6_def t)
  show "bodySound (streamBytes (rawOf s)) (buildGtpuInnerIpv6TrafficClassIncVmBody s)"
    "bodySound (streamBytes (rawOf s)) (buildGtpuInnerIpv6FlowLabelIncVmBody s)"
    using six assms(2)
    by (simp_all add: buildGtpuInnerIpv6TrafficClassIncVmBody_def buildGtpuInnerIpv6FlowLabelIncVmBody_def
        onGtpuInnerIpv6_def gtpuInnerV6_def innerV6_def t rawGtpuTarget_inner(2) [OF t(2)])
qed

lemma gtpu_inner6_address_template [template_sound]:
  assumes "rawGtpuInnerIpv6AddressTarget (rawOf s) = Some t" "gu_inner t = IsInnerIpv6 i" "countsPositive s"
    "ipv6FieldEngineSuffix (if field = SrcField then in6_innerIpv6Src i else in6_innerIpv6Dst i)
      (numOf s (''gtpu_inner_ipv6_'' @ sideName field @ ''_count'')) \<noteq> None"
  shows "bodySound (streamBytes (rawOf s)) (buildGtpuInnerIpv6AddressIncVmBody s field)"
proof -
  have raw: "rawGtpuTarget (rawOf s) = Some t" using gtpu_filters(4) [OF assms(1)] by simp
  note inner6_address_template(1) [OF is_bytes_stream rawGtpuTarget_inner(1) [OF raw, unfolded assms(2)] assms(3),
      where prefix = "''gtpu_inner''" and field = field]
  then show ?thesis
    using assms(4)
    unfolding buildGtpuInnerIpv6AddressIncVmBody_def Let_def assms(1)
    by (simp add: gtpuInnerV6_def innerV6_def assms(2))
qed

lemma gtpu_port_template [template_sound]:
  assumes "countsPositive s"
  shows "firstTarget (rawGtpuInnerIpv4UdpTarget (rawOf s)) (rawGtpuInnerIpv6UdpTarget (rawOf s)) = Some t
      \<Longrightarrow> bodySound (streamBytes (rawOf s)) (buildGtpuInnerUdpPortIncVmBody s field)"
    "firstTarget (rawGtpuInnerIpv4TcpTarget (rawOf s)) (rawGtpuInnerIpv6TcpTarget (rawOf s)) = Some t
      \<Longrightarrow> bodySound (streamBytes (rawOf s)) (buildGtpuInnerTcpPortIncVmBody s field)"
proof -
  note port = inner_port_template [OF is_bytes_stream rawGtpuTarget_inner(1) assms]
  show "bodySound (streamBytes (rawOf s)) (buildGtpuInnerUdpPortIncVmBody s field)"
    if "firstTarget (rawGtpuInnerIpv4UdpTarget (rawOf s)) (rawGtpuInnerIpv6UdpTarget (rawOf s)) = Some t"
    using gtpu_filters(5) [OF that] port(1)
    by (simp add: buildGtpuInnerUdpPortIncVmBody_def Let_def that)
  show "bodySound (streamBytes (rawOf s)) (buildGtpuInnerTcpPortIncVmBody s field)"
    if "firstTarget (rawGtpuInnerIpv4TcpTarget (rawOf s)) (rawGtpuInnerIpv6TcpTarget (rawOf s)) = Some t"
    using gtpu_filters(6) [OF that] port(2)
    by (auto simp: buildGtpuInnerTcpPortIncVmBody_def Let_def that rawGtpuTarget_inner(2))
qed

end
