(* ===== verification/VmGre.thy ===== *)
theory VmGre
  imports VmGtpu
begin

text \<open>
  The GRE templates of \<open>advancedVmModel.ts\<close>: the header with its key and sequence words, and the
  IPv4, IPv6, UDP and TCP fields of the inner packet, for headers without a GRE checksum.
\<close>

section \<open>Which streams\<close>

definition greForm :: "ProfileWorkbenchStream \<Rightarrow> bool" where
  "greForm s \<longleftrightarrow>
     packetType s = ''Ethernet/IPv4/GRE'' \<and> \<not> flagOf s ''vxlan_enabled'' \<and> \<not> flagOf s ''gtpu_enabled''
     \<and> \<not> flagOf s ''gre_checksum_present''"

definition isGreStreamWithoutGreChecksum :: "ProfileWorkbenchStream option \<Rightarrow> bool" where
  "isGreStreamWithoutGreChecksum = onStream (\<lambda>s.
     (case rawOuterGreTarget (rawOf s) of None \<Rightarrow> False | Some t \<Rightarrow> \<not> gre_checksumPresent t) \<or> greForm s)"

definition isGreKeyStreamWithoutGreChecksum :: "ProfileWorkbenchStream option \<Rightarrow> bool" where
  "isGreKeyStreamWithoutGreChecksum stream \<longleftrightarrow>
     onStream (\<lambda>s. rawGreOptionTarget (rawOf s) GreKey \<noteq> None) stream
     \<or> isGreStreamWithoutGreChecksum stream \<and> onStream (\<lambda>s. flagOf s ''gre_key_present'') stream"

definition isGreSequenceStreamWithoutGreChecksum :: "ProfileWorkbenchStream option \<Rightarrow> bool" where
  "isGreSequenceStreamWithoutGreChecksum stream \<longleftrightarrow>
     onStream (\<lambda>s. rawGreOptionTarget (rawOf s) GreSequence \<noteq> None) stream
     \<or> isGreStreamWithoutGreChecksum stream \<and> onStream (\<lambda>s. flagOf s ''gre_sequence_present'') stream"

definition greFormVersion :: "ProfileWorkbenchStream option \<Rightarrow> string \<Rightarrow> string \<Rightarrow> bool" where
  "greFormVersion stream protocolType version \<longleftrightarrow>
     isGreStreamWithoutGreChecksum stream
     \<and> onStream (\<lambda>s. textOf s ''gre_protocol_type'' = protocolType \<and> textOf s ''gre_inner_ip_version'' = version) stream"

text \<open>A packet with a GRE header decides; otherwise the form does.\<close>

definition greInnerStream ::
  "ProfileWorkbenchStream option \<Rightarrow> (RawStream option \<Rightarrow> bool) \<Rightarrow> string \<Rightarrow> string \<Rightarrow> bool" where
  "greInnerStream stream found protocolType version =
     (if onStream (\<lambda>s. rawOuterGreTarget (rawOf s) \<noteq> None) stream then onStream (\<lambda>s. found (rawOf s)) stream
      else greFormVersion stream protocolType version)"

definition isIpv4GreStreamWithoutGreChecksum :: "ProfileWorkbenchStream option \<Rightarrow> bool" where
  "isIpv4GreStreamWithoutGreChecksum stream =
     greInnerStream stream (\<lambda>r. rawGreInnerIpv4Target r True \<noteq> None) ''0800'' ''IPv4''"

definition isIpv4GreAddressStreamWithoutGreChecksum :: "ProfileWorkbenchStream option \<Rightarrow> bool" where
  "isIpv4GreAddressStreamWithoutGreChecksum stream =
     greInnerStream stream (\<lambda>r. rawGreInnerIpv4AddressTarget r \<noteq> None) ''0800'' ''IPv4''"

definition isIpv4GreTtlStreamWithoutGreChecksum :: "ProfileWorkbenchStream option \<Rightarrow> bool" where
  "isIpv4GreTtlStreamWithoutGreChecksum stream =
     greInnerStream stream (\<lambda>r. rawGreInnerIpv4Target r False \<noteq> None) ''0800'' ''IPv4''"

definition isRawIpv4GreStreamWithoutGreChecksum :: "ProfileWorkbenchStream option \<Rightarrow> bool" where
  "isRawIpv4GreStreamWithoutGreChecksum = onStream (\<lambda>s. rawGreInnerIpv4Target (rawOf s) False \<noteq> None)"

definition isIpv6GreStreamWithoutGreChecksum :: "ProfileWorkbenchStream option \<Rightarrow> bool" where
  "isIpv6GreStreamWithoutGreChecksum stream =
     greInnerStream stream (\<lambda>r. rawGreInnerIpv6Target r False \<noteq> None) ''86DD'' ''IPv6''"

definition isRawIpv6GreStreamWithoutGreChecksum :: "ProfileWorkbenchStream option \<Rightarrow> bool" where
  "isRawIpv6GreStreamWithoutGreChecksum = onStream (\<lambda>s. rawGreInnerIpv6Target (rawOf s) False \<noteq> None)"

text \<open>\<open>rawGreInnerIpv6UdpTarget(stream) ?? rawGreInnerIpv6TcpTarget(stream)\<close>, without the port fields.\<close>

definition greInnerIpv6L4 :: "RawStream option \<Rightarrow> GreInnerIpv6Target option" where
  "greInnerIpv6L4 r =
     firstTarget (map_option GreInnerIpv6Target.truncate (rawGreInnerIpv6UdpTarget r))
       (map_option fst (rawGreInnerIpv6TcpTarget r))"

definition greInnerIpv6VmStream :: "ProfileWorkbenchStream option \<Rightarrow> FieldSide \<Rightarrow> bool" where
  "greInnerIpv6VmStream stream field =
     (let name = ''gre_inner_ipv6_'' @ sideName field
      in onStream (\<lambda>s. case greInnerIpv6L4 (rawOf s) of
             Some t \<Rightarrow>
               ipv6FieldEngineSuffix (if field = SrcField then grein6_innerIpv6Src t else grein6_innerIpv6Dst t)
                 (numericCount s (name @ ''_count'')) \<noteq> None
           | None \<Rightarrow>
               rawGreInnerIpv6Target (rawOf s) False = None \<and> isIpv6GreStreamWithoutGreChecksum stream
               \<and> safeIpv6Address stream name (name @ ''_count'')) stream)"

definition isIpv6GreSrcVmStreamWithoutGreChecksum :: "ProfileWorkbenchStream option \<Rightarrow> bool" where
  "isIpv6GreSrcVmStreamWithoutGreChecksum stream = greInnerIpv6VmStream stream SrcField"

definition isIpv6GreDstVmStreamWithoutGreChecksum :: "ProfileWorkbenchStream option \<Rightarrow> bool" where
  "isIpv6GreDstVmStreamWithoutGreChecksum stream = greInnerIpv6VmStream stream DstField"

definition isGreInnerUdpStreamWithoutGreChecksum :: "ProfileWorkbenchStream option \<Rightarrow> bool" where
  "isGreInnerUdpStreamWithoutGreChecksum stream =
     (if onStream (\<lambda>s. rawGreInnerIpv4Target (rawOf s) False \<noteq> None \<or> rawGreInnerIpv6Target (rawOf s) False \<noteq> None) stream
      then onStream (\<lambda>s. rawGreInnerIpv4UdpTarget (rawOf s) \<noteq> None \<or> rawGreInnerIpv6UdpTarget (rawOf s) \<noteq> None) stream
      else isIpv4GreStreamWithoutGreChecksum stream \<or> isIpv6GreStreamWithoutGreChecksum stream)"

definition isGreInnerTcpStreamWithoutGreChecksum :: "ProfileWorkbenchStream option \<Rightarrow> bool" where
  "isGreInnerTcpStreamWithoutGreChecksum = onStream (\<lambda>s.
     rawGreInnerIpv4TcpTarget (rawOf s) \<noteq> None \<or> rawGreInnerIpv6TcpTarget (rawOf s) \<noteq> None)"

section \<open>The GRE header\<close>

definition greOptionLength :: "ProfileWorkbenchStream \<Rightarrow> int" where
  "greOptionLength stream =
     (if flagOf stream ''gre_checksum_present'' then 4 else 0) + (if flagOf stream ''gre_key_present'' then 4 else 0)
     + (if flagOf stream ''gre_sequence_present'' then 4 else 0)"

definition greOptionOffset :: "ProfileWorkbenchStream \<Rightarrow> GreField \<Rightarrow> int" where
  "greOptionOffset stream field =
     (let offset = outerIpv4Offset stream + 20 + 4 + (if flagOf stream ''gre_checksum_present'' then 4 else 0)
      in if field = GreKey then offset
         else offset + (if flagOf stream ''gre_key_present'' then 4 else 0))"

definition greInnerIpv4Offset :: "ProfileWorkbenchStream \<Rightarrow> int" where
  "greInnerIpv4Offset stream = workbenchOuterL2HeaderLength stream + 24 + greOptionLength stream"

definition greInnerChecksumInstruction :: "ProfileWorkbenchStream \<Rightarrow> VmValue" where
  "greInnerChecksumInstruction stream =
     fixChecksumHw (greInnerIpv4Offset stream) (if textOf stream ''gre_inner_ip_version'' = ''IPv6'' then 40 else 20) 11"

definition buildGreNumberIncVmBody :: "ProfileWorkbenchStream \<Rightarrow> GreField \<Rightarrow> AdvancedVmBody" where
  "buildGreNumberIncVmBody stream field =
     (let rawTarget = rawGreOptionTarget (rawOf stream) field;
          name = (if field = GreKey then ''gre_key'' else ''gre_sequence'')
      in buildAdvancedNumberWriteVmBody
           \<lparr>nw_checksumInstruction = None, nw_count = numOf stream (name @ ''_count''),
            nw_initValue = fromTarget rawTarget greopt_value (numOf stream name), nw_maxLimit = 4294967295,
            nw_name = name, nw_pktOffset = fromTarget rawTarget greopt_offset (greOptionOffset stream field),
            nw_size = 4, nw_step = numOf stream (name @ ''_step'')\<rparr>)"

definition buildGreProtocolTypeIncVmBody :: "ProfileWorkbenchStream \<Rightarrow> AdvancedVmBody" where
  "buildGreProtocolTypeIncVmBody stream =
     (let rawTarget = rawOuterGreTarget (rawOf stream)
      in buildAdvancedNumberWriteVmBody
           \<lparr>nw_checksumInstruction = None, nw_count = 16,
            nw_initValue = fromTarget rawTarget gre_protocolType (parseHexWord (textOf stream ''gre_protocol_type'')),
            nw_maxLimit = 65535, nw_name = ''gre_protocol_type'',
            nw_pktOffset = fromTarget rawTarget (\<lambda>t. gre_greOffset t + 2) (outerL4Offset stream + 2),
            nw_size = 2, nw_step = 1\<rparr>)"

definition buildGreKeyIncVmBody :: "ProfileWorkbenchStream \<Rightarrow> AdvancedVmBody" where
  "buildGreKeyIncVmBody stream = buildGreNumberIncVmBody stream GreKey"

definition buildGreSequenceIncVmBody :: "ProfileWorkbenchStream \<Rightarrow> AdvancedVmBody" where
  "buildGreSequenceIncVmBody stream = buildGreNumberIncVmBody stream GreSequence"

section \<open>The inner IPv4 packet\<close>

definition greIpv4Checksum :: "GreInnerTarget \<times> GreUpper \<Rightarrow> VmValue" where
  "greIpv4Checksum inner = checksumObject (rawGreInnerIpv4ChecksumInstruction inner)"

definition buildGreInnerFiveTupleVmBody :: "ProfileWorkbenchStream \<Rightarrow> AdvancedVmBody" where
  "buildGreInnerFiveTupleVmBody stream =
     (case rawGreInnerIpv4UdpTarget (rawOf stream) of
        Some (t, UdpAt udpOffset) \<Rightarrow>
          (let bs = gre_bytes t; ip = grein_innerL3Offset t;
               srcCount = numOf stream ''gre_inner_ipv4_src_count'';
               dstCount = numOf stream ''gre_inner_ipv4_dst_count'';
               srcSuffix = ipv4FieldEngineSuffix (formatPacketIpv4 bs (ip + 12)) srcCount;
               dstSuffix = ipv4FieldEngineSuffix (formatPacketIpv4 bs (ip + 16)) dstCount;
               srcPort = rawPacketWord bs udpOffset;
               dstPort = rawPacketWord bs (udpOffset + 2)
           in vmBody
                [flowVar ''gre_inner_ipv4_src'' ''inc'' (sfx_size srcSuffix) (sfx_initValue srcSuffix)
                   (sfx_initValue srcSuffix)
                   (min (fieldEngineMaxForSize (sfx_size srcSuffix)) (sfx_initValue srcSuffix + srcCount - 1))
                   (numOf stream ''gre_inner_ipv4_src_step''),
                 writePlainFlowVar ''gre_inner_ipv4_src'' (ip + 16 - sfx_size srcSuffix),
                 flowVar ''gre_inner_ipv4_dst'' ''inc'' (sfx_size dstSuffix) (sfx_initValue dstSuffix)
                   (sfx_initValue dstSuffix)
                   (min (fieldEngineMaxForSize (sfx_size dstSuffix)) (sfx_initValue dstSuffix + dstCount - 1))
                   (numOf stream ''gre_inner_ipv4_dst_step''),
                 writePlainFlowVar ''gre_inner_ipv4_dst'' (ip + 20 - sfx_size dstSuffix),
                 flowVar ''gre_inner_udp_src'' ''inc'' 2 srcPort srcPort
                   (min 65535 (srcPort + numOf stream ''gre_inner_l4_src_port_count'' - 1))
                   (numOf stream ''gre_inner_l4_src_port_step''),
                 writePlainFlowVar ''gre_inner_udp_src'' udpOffset,
                 flowVar ''gre_inner_udp_dst'' ''inc'' 2 dstPort dstPort
                   (min 65535 (dstPort + numOf stream ''gre_inner_l4_dst_port_count'' - 1))
                   (numOf stream ''gre_inner_l4_dst_port_step''),
                 writePlainFlowVar ''gre_inner_udp_dst'' (udpOffset + 2),
                 greIpv4Checksum (t, UdpAt udpOffset)]
                ''gre_inner_ipv4_src'')
      | _ \<Rightarrow> structuredInnerFiveTupleBody stream ''gre_inner'' (greInnerIpv4Offset stream)
               (greInnerChecksumInstruction stream))"

definition buildGreInnerIpv4AddressIncVmBody :: "ProfileWorkbenchStream \<Rightarrow> FieldSide \<Rightarrow> AdvancedVmBody" where
  "buildGreInnerIpv4AddressIncVmBody stream field =
     (let rawTarget = rawGreInnerIpv4AddressTarget (rawOf stream);
          name = ''gre_inner_ipv4_'' @ sideName field;
          address = fromTarget rawTarget
            (\<lambda>(t, upper). formatPacketIpv4 (gre_bytes t) (grein_innerL3Offset t + (if field = DstField then 16 else 12)))
            (textOf stream name);
          count = numOf stream (name @ ''_count'');
          suffix = ipv4FieldEngineSuffix address count;
          baseOffset = fromTarget rawTarget (\<lambda>(t, upper). grein_innerL3Offset t) (greInnerIpv4Offset stream)
      in buildAdvancedNumberWriteVmBody
           \<lparr>nw_checksumInstruction = Some (fromTarget rawTarget greIpv4Checksum (greInnerChecksumInstruction stream)),
            nw_count = count, nw_initValue = sfx_initValue suffix,
            nw_maxLimit = fieldEngineMaxForSize (sfx_size suffix), nw_name = name,
            nw_pktOffset = baseOffset + (if field = DstField then 20 else 16) - sfx_size suffix,
            nw_size = sfx_size suffix, nw_step = numOf stream (name @ ''_step'')\<rparr>)"

definition buildGreInnerIpv4SrcIncVmBody :: "ProfileWorkbenchStream \<Rightarrow> AdvancedVmBody" where
  "buildGreInnerIpv4SrcIncVmBody stream = buildGreInnerIpv4AddressIncVmBody stream SrcField"

definition buildGreInnerIpv4DstIncVmBody :: "ProfileWorkbenchStream \<Rightarrow> AdvancedVmBody" where
  "buildGreInnerIpv4DstIncVmBody stream = buildGreInnerIpv4AddressIncVmBody stream DstField"

definition buildGreInnerIpv4TtlIncVmBody :: "ProfileWorkbenchStream \<Rightarrow> AdvancedVmBody" where
  "buildGreInnerIpv4TtlIncVmBody stream =
     (let rawTarget = rawGreInnerIpv4Target (rawOf stream) False
      in buildAdvancedNumberWriteVmBody
           \<lparr>nw_checksumInstruction = Some (fromTarget rawTarget (\<lambda>t. greIpv4Checksum (t, NoUpper))
              (greInnerChecksumInstruction stream)),
            nw_count = numOf stream ''gre_inner_ipv4_ttl_count'',
            nw_initValue = fromTarget rawTarget
              (\<lambda>t. byteOr (numOf stream ''gre_inner_ipv4_ttl'') (gre_bytes t) (grein_innerL3Offset t + 8))
              (numOf stream ''gre_inner_ipv4_ttl''),
            nw_maxLimit = 255, nw_name = ''gre_inner_ipv4_ttl'',
            nw_pktOffset = fromTarget rawTarget grein_innerL3Offset (greInnerIpv4Offset stream) + 8,
            nw_size = 1, nw_step = numOf stream ''gre_inner_ipv4_ttl_step''\<rparr>)"

text \<open>The checksum target of the packet-only builders: the address target, or the IPv4 target itself.\<close>

definition onGreInnerIpv4 ::
  "ProfileWorkbenchStream \<Rightarrow> (bytes \<Rightarrow> VmValue option \<Rightarrow> int \<Rightarrow> AdvancedVmBody) \<Rightarrow> AdvancedVmBody" where
  "onGreInnerIpv4 stream build =
     (case rawGreInnerIpv4Target (rawOf stream) False of
        None \<Rightarrow> advancedVmDefaultBody
      | Some t \<Rightarrow>
          build (gre_bytes t)
            (Some (greIpv4Checksum (orElse (rawGreInnerIpv4AddressTarget (rawOf stream)) (t, NoUpper))))
            (grein_innerL3Offset t))"

definition buildGreInnerIpv4IdIncVmBody :: "ProfileWorkbenchStream \<Rightarrow> AdvancedVmBody" where
  "buildGreInnerIpv4IdIncVmBody stream = onGreInnerIpv4 stream (\<lambda>bs checksum offset.
     buildRawInnerIpv4IdIncVmBody bs checksum (numOf stream ''ipv4_id_count'') offset
       (numOf stream ''ipv4_id_step'') ''gre_inner_ipv4_id'')"

definition buildGreInnerIpv4DscpIncVmBody :: "ProfileWorkbenchStream \<Rightarrow> AdvancedVmBody" where
  "buildGreInnerIpv4DscpIncVmBody stream = onGreInnerIpv4 stream (\<lambda>bs checksum offset.
     buildRawInnerIpv4DscpIncVmBody bs checksum (numOf stream ''ipv4_dscp_count'') offset
       (numOf stream ''ipv4_dscp_step'') ''gre_inner_ipv4_dscp'')"

definition buildGreInnerIpv4EcnIncVmBody :: "ProfileWorkbenchStream \<Rightarrow> AdvancedVmBody" where
  "buildGreInnerIpv4EcnIncVmBody stream = onGreInnerIpv4 stream (\<lambda>bs checksum offset.
     buildRawInnerIpv4EcnIncVmBody bs checksum (numOf stream ''ipv4_ecn_count'') offset
       (numOf stream ''ipv4_ecn_step'') ''gre_inner_ipv4_ecn'')"

definition buildGreInnerIpv4FragmentOffsetIncVmBody :: "ProfileWorkbenchStream \<Rightarrow> AdvancedVmBody" where
  "buildGreInnerIpv4FragmentOffsetIncVmBody stream = onGreInnerIpv4 stream (\<lambda>bs checksum offset.
     buildRawInnerIpv4FragmentOffsetIncVmBody bs checksum (numOf stream ''ipv4_fragment_offset_count'') offset
       (numOf stream ''ipv4_fragment_offset_step'') ''gre_inner_ipv4_fragment_offset'')"

definition buildGreInnerIpv4FlagVaryVmBody :: "ProfileWorkbenchStream \<Rightarrow> Ipv4Flag \<Rightarrow> AdvancedVmBody" where
  "buildGreInnerIpv4FlagVaryVmBody stream target = onGreInnerIpv4 stream (\<lambda>bs checksum offset.
     buildRawInnerIpv4FlagVaryVmBody bs checksum offset target ''gre_inner_ipv4'')"

definition buildGreInnerIpv4ReservedFlagVaryVmBody :: "ProfileWorkbenchStream \<Rightarrow> AdvancedVmBody" where
  "buildGreInnerIpv4ReservedFlagVaryVmBody stream = buildGreInnerIpv4FlagVaryVmBody stream ReservedFlag"

definition buildGreInnerIpv4DfFlagVaryVmBody :: "ProfileWorkbenchStream \<Rightarrow> AdvancedVmBody" where
  "buildGreInnerIpv4DfFlagVaryVmBody stream = buildGreInnerIpv4FlagVaryVmBody stream DfFlag"

definition buildGreInnerIpv4MfFlagVaryVmBody :: "ProfileWorkbenchStream \<Rightarrow> AdvancedVmBody" where
  "buildGreInnerIpv4MfFlagVaryVmBody stream = buildGreInnerIpv4FlagVaryVmBody stream MfFlag"

section \<open>The inner IPv6 packet and the inner ports\<close>

definition buildGreInnerIpv6AddressIncVmBody :: "ProfileWorkbenchStream \<Rightarrow> FieldSide \<Rightarrow> AdvancedVmBody" where
  "buildGreInnerIpv6AddressIncVmBody stream field =
     (let rawTarget = greInnerIpv6L4 (rawOf stream);
          name = ''gre_inner_ipv6_'' @ sideName field;
          address = fromTarget rawTarget (if field = SrcField then grein6_innerIpv6Src else grein6_innerIpv6Dst)
            (textOf stream name);
          baseOffset = fromTarget rawTarget
            (if field = SrcField then grein6_innerIpv6SrcOffset else grein6_innerIpv6DstOffset)
            (greInnerIpv4Offset stream + (if field = DstField then 24 else 8));
          checksumInstruction = fromTarget rawTarget
            (\<lambda>t. checksumObject (rawGreInnerChecksumInstruction (GreInnerTarget.truncate t)
                   (if grein_innerProtocol t = 6 then 13 else 11)))
            (greInnerChecksumInstruction stream)
      in buildIpv6AddressIncVmBody address baseOffset (Some checksumInstruction) (numOf stream (name @ ''_count''))
           name (numOf stream (name @ ''_step'')))"

definition buildGreInnerIpv6SrcIncVmBody :: "ProfileWorkbenchStream \<Rightarrow> AdvancedVmBody" where
  "buildGreInnerIpv6SrcIncVmBody stream = buildGreInnerIpv6AddressIncVmBody stream SrcField"

definition buildGreInnerIpv6DstIncVmBody :: "ProfileWorkbenchStream \<Rightarrow> AdvancedVmBody" where
  "buildGreInnerIpv6DstIncVmBody stream = buildGreInnerIpv6AddressIncVmBody stream DstField"

definition buildGreInnerIpv6HopLimitIncVmBody :: "ProfileWorkbenchStream \<Rightarrow> AdvancedVmBody" where
  "buildGreInnerIpv6HopLimitIncVmBody stream =
     (let rawTarget = rawGreInnerIpv6Target (rawOf stream) False
      in buildAdvancedNumberWriteVmBody
           \<lparr>nw_checksumInstruction = None, nw_count = numOf stream ''gre_inner_ipv6_hop_limit_count'',
            nw_initValue = fromTarget rawTarget grein6_innerIpv6HopLimit (numOf stream ''gre_inner_ipv6_hop_limit''),
            nw_maxLimit = 255, nw_name = ''gre_inner_ipv6_hop_limit'',
            nw_pktOffset = fromTarget rawTarget grein6_innerIpv6HopLimitOffset (greInnerIpv4Offset stream + 7),
            nw_size = 1, nw_step = numOf stream ''gre_inner_ipv6_hop_limit_step''\<rparr>)"

definition onGreInnerIpv6 :: "ProfileWorkbenchStream \<Rightarrow> (bytes \<Rightarrow> int \<Rightarrow> AdvancedVmBody) \<Rightarrow> AdvancedVmBody" where
  "onGreInnerIpv6 stream build =
     (case rawGreInnerIpv6Target (rawOf stream) False of
        None \<Rightarrow> advancedVmDefaultBody
      | Some t \<Rightarrow> build (gre_bytes t) (grein_innerL3Offset t))"

definition buildGreInnerIpv6TrafficClassIncVmBody :: "ProfileWorkbenchStream \<Rightarrow> AdvancedVmBody" where
  "buildGreInnerIpv6TrafficClassIncVmBody stream = onGreInnerIpv6 stream (\<lambda>bs offset.
     buildRawInnerIpv6TrafficClassIncVmBody bs offset ''gre_inner_ipv6_traffic_class''
       (numOf stream ''ipv6_traffic_class_count'') (numOf stream ''ipv6_traffic_class_step''))"

definition buildGreInnerIpv6FlowLabelIncVmBody :: "ProfileWorkbenchStream \<Rightarrow> AdvancedVmBody" where
  "buildGreInnerIpv6FlowLabelIncVmBody stream = onGreInnerIpv6 stream (\<lambda>bs offset.
     buildRawInnerIpv6FlowLabelIncVmBody bs offset ''gre_inner_ipv6_flow_label''
       (numOf stream ''ipv6_flow_label_count'') (numOf stream ''ipv6_flow_label_step''))"

text \<open>The UDP header of the inner packet, over IPv4 or else over IPv6; likewise the TCP header.\<close>

definition greInnerUdp :: "RawStream option \<Rightarrow> (GreInnerTarget \<times> int) option" where
  "greInnerUdp r =
     (case rawGreInnerIpv4UdpTarget r of
        Some (t, UdpAt udpOffset) \<Rightarrow> Some (t, udpOffset)
      | _ \<Rightarrow> map_option (\<lambda>t. (GreInnerTarget.truncate t, grein6_udpOffset t)) (rawGreInnerIpv6UdpTarget r))"

definition greInnerTcp :: "RawStream option \<Rightarrow> (GreInnerTarget \<times> int) option" where
  "greInnerTcp r =
     (case rawGreInnerIpv4TcpTarget r of
        Some (t, TcpAt tcpOffset) \<Rightarrow> Some (t, tcpOffset)
      | _ \<Rightarrow> map_option (\<lambda>(t, tcpOffset). (GreInnerTarget.truncate t, tcpOffset)) (rawGreInnerIpv6TcpTarget r))"

definition buildGreInnerUdpPortIncVmBody :: "ProfileWorkbenchStream \<Rightarrow> FieldSide \<Rightarrow> AdvancedVmBody" where
  "buildGreInnerUdpPortIncVmBody stream field =
     (let rawTarget = greInnerUdp (rawOf stream);
          delta = (if field = DstField then 2 else 0);
          port = ''gre_inner_l4_'' @ sideName field @ ''_port'';
          innerL3Length = (if textOf stream ''gre_inner_ip_version'' = ''IPv6'' then 40 else 20)
      in buildAdvancedNumberWriteVmBody
           \<lparr>nw_checksumInstruction = Some (fromTarget rawTarget
              (\<lambda>(t, udpOffset). checksumObject (rawGreInnerChecksumInstruction t 11))
              (greInnerChecksumInstruction stream)),
            nw_count = numOf stream (port @ ''_count''),
            nw_initValue = fromTarget rawTarget (\<lambda>(t, udpOffset). rawPacketWord (gre_bytes t) (udpOffset + delta))
              (numOf stream port),
            nw_maxLimit = 65535, nw_name = ''gre_inner_udp_'' @ sideName field,
            nw_pktOffset = fromTarget rawTarget (\<lambda>(t, udpOffset). udpOffset + delta)
              (greInnerIpv4Offset stream + innerL3Length + delta),
            nw_size = 2, nw_step = numOf stream (port @ ''_step'')\<rparr>)"

definition buildGreInnerUdpSrcPortIncVmBody :: "ProfileWorkbenchStream \<Rightarrow> AdvancedVmBody" where
  "buildGreInnerUdpSrcPortIncVmBody stream = buildGreInnerUdpPortIncVmBody stream SrcField"

definition buildGreInnerUdpDstPortIncVmBody :: "ProfileWorkbenchStream \<Rightarrow> AdvancedVmBody" where
  "buildGreInnerUdpDstPortIncVmBody stream = buildGreInnerUdpPortIncVmBody stream DstField"

definition buildGreInnerTcpPortIncVmBody :: "ProfileWorkbenchStream \<Rightarrow> FieldSide \<Rightarrow> AdvancedVmBody" where
  "buildGreInnerTcpPortIncVmBody stream field =
     (case greInnerTcp (rawOf stream) of
        None \<Rightarrow> advancedVmDefaultBody
      | Some (t, tcpOffset) \<Rightarrow>
          innerTcpPortBody stream ''gre_inner'' (gre_bytes t) tcpOffset
            (checksumObject (rawGreInnerChecksumInstruction t 13)) field)"

definition buildGreInnerTcpSrcPortIncVmBody :: "ProfileWorkbenchStream \<Rightarrow> AdvancedVmBody" where
  "buildGreInnerTcpSrcPortIncVmBody stream = buildGreInnerTcpPortIncVmBody stream SrcField"

definition buildGreInnerTcpDstPortIncVmBody :: "ProfileWorkbenchStream \<Rightarrow> AdvancedVmBody" where
  "buildGreInnerTcpDstPortIncVmBody stream = buildGreInnerTcpPortIncVmBody stream DstField"

section \<open>Sound for the packets they find their field in\<close>

lemma gre_repairs [simp]:
  "viewOf (greInnerChecksumInstruction s) = OtherView" "viewOf (greIpv4Checksum inner) = OtherView"
  by (simp_all add: greInnerChecksumInstruction_def greIpv4Checksum_def)

lemma gre_number_template [template_sound]:
  assumes "rawGreOptionTarget (rawOf s) field = Some t" "countsPositive s"
  shows "bodySound (streamBytes (rawOf s)) (buildGreNumberIncVmBody s field)"
proof -
  have found: "greopt_value t = rawPacketNumberValue (streamBytes (rawOf s)) (greopt_offset t) 4"
    using assms(1)
    by (auto simp: rawGreOptionTarget_def RawGreTarget.defs split: option.splits if_splits
        dest!: rawOuterGreTarget_bytes)
  show ?thesis
    unfolding buildGreNumberIncVmBody_def Let_def assms(1) fromTarget_simps
    by (rule long_write_sound [OF is_bytes_stream])
      (use gre_option_target.inside [OF assms(1)] found assms(2) in simp_all)
qed

lemma gre_protocol_template [template_sound]:
  assumes "rawOuterGreTarget (rawOf s) = Some t"
  shows "bodySound (streamBytes (rawOf s)) (buildGreProtocolTypeIncVmBody s)"
proof -
  have at: "rawPacketHasBytes (streamBytes (rawOf s)) (gre_greOffset t + 2) 2"
    by (rule hasBytes_within [OF gre_target.inside [OF assms]]) simp_all
  obtain l3 off where "rawGreTargetFromOffset (streamBytes (rawOf s)) l3 off = Some t"
    using rawOuterGreTarget_from [OF assms] by blast
  then have "gre_protocolType t = rawPacketWord (streamBytes (rawOf s)) (gre_greOffset t + 2)"
    by (auto simp: rawGreTargetFromOffset_def Let_def split: option.splits if_splits)
  then show ?thesis
    unfolding buildGreProtocolTypeIncVmBody_def Let_def assms fromTarget_simps
    by (intro word_write_sound [OF is_bytes_stream]) (use at in simp_all)
qed

text \<open>The bytes and the room of the inner headers.\<close>

lemma gre_inner4:
  assumes "rawGreInnerIpv4Target s u = Some t"
  shows "gre_bytes t = streamBytes s" "rawPacketHasBytes (streamBytes s) (grein_innerL3Offset t) 20"
  using assms
  by (auto simp: rawGreInnerIpv4Target_def RawGreTarget.defs Let_def split: option.splits if_splits
      dest!: rawOuterGreTarget_bytes)

lemma gre_inner6:
  assumes "rawGreInnerIpv6Target s u = Some t"
  shows "gre_bytes t = streamBytes s"
    "grein6_innerIpv6SrcOffset t = grein_innerL3Offset t + 8"
    "grein6_innerIpv6DstOffset t = grein_innerL3Offset t + 24"
    "grein6_innerIpv6HopLimitOffset t = grein_innerL3Offset t + 7"
    "grein6_innerIpv6Src t = formatPacketIpv6 (streamBytes s) (grein6_innerIpv6SrcOffset t)"
    "grein6_innerIpv6Dst t = formatPacketIpv6 (streamBytes s) (grein6_innerIpv6DstOffset t)"
    "grein6_innerIpv6HopLimit t = byteAt (streamBytes s) (grein6_innerIpv6HopLimitOffset t)"
  using assms
  by (auto simp: rawGreInnerIpv6Target_def RawGreTarget.defs GreInnerTarget.defs Let_def
      split: option.splits if_splits dest!: rawOuterGreTarget_bytes)

lemma gre_address_inner:
  assumes "rawGreInnerIpv4AddressTarget s = Some (t, upper)"
  obtains u where "rawGreInnerIpv4Target s u = Some t"
  using assms
  by (auto simp: rawGreInnerIpv4AddressTarget_def rawGreInnerIpv4UdpTarget_def rawGreInnerIpv4TcpTarget_def Let_def
      split: option.splits if_splits)

lemma gre_inner4_template [template_sound]:
  assumes "countsPositive s"
  shows "rawGreInnerIpv4AddressTarget (rawOf s) = Some inner
      \<Longrightarrow> bodySound (streamBytes (rawOf s)) (buildGreInnerIpv4AddressIncVmBody s field)"
    "rawGreInnerIpv4Target (rawOf s) False = Some t
      \<Longrightarrow> bodySound (streamBytes (rawOf s)) (buildGreInnerIpv4TtlIncVmBody s)"
proof -
  let ?bs = "streamBytes (rawOf s)"
  show "bodySound ?bs (buildGreInnerIpv4AddressIncVmBody s field)"
    if found: "rawGreInnerIpv4AddressTarget (rawOf s) = Some inner"
  proof -
    obtain t' upper u where inner: "inner = (t', upper)" "rawGreInnerIpv4Target (rawOf s) u = Some t'"
      using found by (cases inner) (auto elim: gre_address_inner)
    note g = gre_inner4 [OF inner(2)]
    have four: "rawPacketHasBytes ?bs (grein_innerL3Offset t' + (if field = DstField then 16 else 12)) 4"
      by (auto intro: hasBytes_within [OF g(2)])
    show ?thesis
      unfolding buildGreInnerIpv4AddressIncVmBody_def Let_def found inner(1) fromTarget_simps prod.case g(1)
      by (rule suffix_write_sound [OF ipv4_suffix_sound [OF is_bytes_stream four]]) (use assms in simp_all)
  qed
  show "bodySound ?bs (buildGreInnerIpv4TtlIncVmBody s)" if found: "rawGreInnerIpv4Target (rawOf s) False = Some t"
  proof -
    note g = gre_inner4 [OF found]
    have one: "rawPacketHasBytes ?bs (grein_innerL3Offset t + 8) 1"
      by (rule hasBytes_within [OF g(2)]) simp_all
    have ttl: "byteOr (numOf s f) ?bs (grein_innerL3Offset t + 8) = byteAt ?bs (grein_innerL3Offset t + 8)" for f
      using one by (intro byteOr_inside) (simp_all add: rawPacketHasBytes_def)
    show ?thesis
      unfolding buildGreInnerIpv4TtlIncVmBody_def Let_def found fromTarget_simps g(1) ttl
      by (rule byte_write_sound [OF is_bytes_stream]) (use one assms in simp_all)
  qed
qed

lemma onGreInnerIpv4_sound:
  assumes "rawGreInnerIpv4Target (rawOf s) False \<noteq> None"
    "\<And>c off. rawPacketHasBytes (streamBytes (rawOf s)) off 20 \<Longrightarrow> viewOf c = OtherView
      \<Longrightarrow> bodySound (streamBytes (rawOf s)) (build (streamBytes (rawOf s)) (Some c) off)"
  shows "bodySound (streamBytes (rawOf s)) (onGreInnerIpv4 s build)"
proof -
  obtain t where t: "rawGreInnerIpv4Target (rawOf s) False = Some t" using assms(1) by auto
  show ?thesis
    using assms(2) gre_inner4 [OF t] by (simp add: onGreInnerIpv4_def t)
qed

lemma gre_inner4_field_template [template_sound]:
  assumes "rawGreInnerIpv4Target (rawOf s) False \<noteq> None" "countsPositive s"
  shows "bodySound (streamBytes (rawOf s)) (buildGreInnerIpv4IdIncVmBody s)"
    "bodySound (streamBytes (rawOf s)) (buildGreInnerIpv4DscpIncVmBody s)"
    "bodySound (streamBytes (rawOf s)) (buildGreInnerIpv4EcnIncVmBody s)"
    "bodySound (streamBytes (rawOf s)) (buildGreInnerIpv4FragmentOffsetIncVmBody s)"
    "bodySound (streamBytes (rawOf s)) (buildGreInnerIpv4FlagVaryVmBody s target)"
  unfolding buildGreInnerIpv4IdIncVmBody_def buildGreInnerIpv4DscpIncVmBody_def
    buildGreInnerIpv4EcnIncVmBody_def buildGreInnerIpv4FragmentOffsetIncVmBody_def
    buildGreInnerIpv4FlagVaryVmBody_def
  using assms(2)
  by (intro onGreInnerIpv4_sound [OF assms(1)] inner_field_template [where count = 1 and step = 1]
      inner_field_template; simp add: is_bytes_stream)+

lemma gre_inner6_template [template_sound]:
  assumes "rawGreInnerIpv6Target (rawOf s) False \<noteq> None" "countsPositive s"
  shows "bodySound (streamBytes (rawOf s)) (buildGreInnerIpv6HopLimitIncVmBody s)"
    "bodySound (streamBytes (rawOf s)) (buildGreInnerIpv6TrafficClassIncVmBody s)"
    "bodySound (streamBytes (rawOf s)) (buildGreInnerIpv6FlowLabelIncVmBody s)"
proof -
  let ?bs = "streamBytes (rawOf s)"
  obtain t where t: "rawGreInnerIpv6Target (rawOf s) False = Some t" using assms(1) by auto
  note forty = gre_inner6_target.inside [OF t] and g = gre_inner6 [OF t]
  have one: "rawPacketHasBytes ?bs (grein6_innerIpv6HopLimitOffset t) 1"
    unfolding g(4) by (rule hasBytes_within [OF forty]) simp_all
  show "bodySound ?bs (buildGreInnerIpv6HopLimitIncVmBody s)"
    unfolding buildGreInnerIpv6HopLimitIncVmBody_def Let_def t fromTarget_simps
    by (rule byte_write_sound [OF is_bytes_stream]) (use one g assms(2) in simp_all)
  show "bodySound ?bs (buildGreInnerIpv6TrafficClassIncVmBody s)"
    "bodySound ?bs (buildGreInnerIpv6FlowLabelIncVmBody s)"
    using inner6_field_template [OF is_bytes_stream forty] assms(2)
    by (simp_all add: buildGreInnerIpv6TrafficClassIncVmBody_def buildGreInnerIpv6FlowLabelIncVmBody_def
        onGreInnerIpv6_def t g(1))
qed

text \<open>The upper layers stand in the packet too.\<close>

lemma gre_udp4:
  assumes "rawGreInnerIpv4UdpTarget s = Some (t, upper)"
  obtains p where "upper = UdpAt p" "rawPacketHasBytes (streamBytes s) p 8" "rawGreInnerIpv4Target s True = Some t"
  using assms gre_inner4(1)
  by (fastforce simp: rawGreInnerIpv4UdpTarget_def Let_def split: option.splits if_splits)

lemma greInnerUdp_reads:
  assumes "greInnerUdp s = Some (t, p)"
  shows "gre_bytes t = streamBytes s" "rawPacketHasBytes (streamBytes s) p 8"
proof -
  have "gre_bytes t = streamBytes s \<and> rawPacketHasBytes (streamBytes s) p 8"
  proof (cases "rawGreInnerIpv4UdpTarget s")
    case None
    then show ?thesis
      using assms gre_inner6(1)
      by (fastforce simp: greInnerUdp_def rawGreInnerIpv6UdpTarget_def Let_def GreInnerTarget.defs
          GreInnerIpv6Target.defs split: option.splits if_splits)
  next
    case (Some a)
    then show ?thesis
      using assms gre_inner4(1)
      by (cases a) (auto elim!: gre_udp4 simp: greInnerUdp_def)
  qed
  then show "gre_bytes t = streamBytes s" "rawPacketHasBytes (streamBytes s) p 8" by simp_all
qed

lemma greInnerTcp_reads:
  assumes "greInnerTcp s = Some (t, p)"
  shows "gre_bytes t = streamBytes s" "rawPacketHasBytes (streamBytes s) p 20"
proof -
  have "gre_bytes t = streamBytes s \<and> rawPacketHasBytes (streamBytes s) p 20"
  proof (cases "rawGreInnerIpv4TcpTarget s")
    case None
    then show ?thesis
      using assms gre_inner6(1)
      by (fastforce simp: greInnerTcp_def rawGreInnerIpv6TcpTarget_def Let_def GreInnerTarget.defs
          rawPacketTcpHeaderOffset_def split: option.splits if_splits)
  next
    case (Some a)
    then show ?thesis
      using assms gre_inner4(1)
      by (cases a) (fastforce simp: greInnerTcp_def rawGreInnerIpv4TcpTarget_def Let_def
          rawPacketTcpHeaderOffset_def split: option.splits if_splits GreUpper.splits)
  qed
  then show "gre_bytes t = streamBytes s" "rawPacketHasBytes (streamBytes s) p 20" by simp_all
qed

lemma gre_port_template [template_sound]:
  assumes "countsPositive s"
  shows "greInnerUdp (rawOf s) = Some u \<Longrightarrow> bodySound (streamBytes (rawOf s)) (buildGreInnerUdpPortIncVmBody s field)"
    "greInnerTcp (rawOf s) = Some v \<Longrightarrow> bodySound (streamBytes (rawOf s)) (buildGreInnerTcpPortIncVmBody s field)"
proof -
  let ?bs = "streamBytes (rawOf s)"
  show "bodySound ?bs (buildGreInnerUdpPortIncVmBody s field)" if found: "greInnerUdp (rawOf s) = Some u"
  proof -
    obtain t p where u: "u = (t, p)" by (cases u)
    note g = greInnerUdp_reads [OF found [unfolded u]]
    have two: "rawPacketHasBytes ?bs (p + (if field = DstField then 2 else 0)) 2"
      by (auto intro: hasBytes_within [OF g(2)])
    show ?thesis
      unfolding buildGreInnerUdpPortIncVmBody_def Let_def found u fromTarget_simps prod.case g(1)
      by (rule word_write_sound [OF is_bytes_stream]) (use two assms in simp_all)
  qed
  show "bodySound ?bs (buildGreInnerTcpPortIncVmBody s field)" if found: "greInnerTcp (rawOf s) = Some v"
  proof -
    obtain t p where v: "v = (t, p)" by (cases v)
    note g = greInnerTcp_reads [OF found [unfolded v]]
    show ?thesis
      unfolding buildGreInnerTcpPortIncVmBody_def found v option.case prod.case g(1) innerTcpPortBody_def Let_def
      by (rule word_write_sound [OF is_bytes_stream])
        (use g(2) assms in \<open>auto intro: hasBytes_within [OF g(2)]\<close>)
  qed
qed

lemma gre_inner6_address_template [template_sound]:
  assumes "greInnerIpv6L4 (rawOf s) = Some t" "countsPositive s"
    "ipv6FieldEngineSuffix (if field = SrcField then grein6_innerIpv6Src t else grein6_innerIpv6Dst t)
      (numOf s (''gre_inner_ipv6_'' @ sideName field @ ''_count'')) \<noteq> None"
  shows "bodySound (streamBytes (rawOf s)) (buildGreInnerIpv6AddressIncVmBody s field)"
proof -
  let ?bs = "streamBytes (rawOf s)"
  obtain u t' where t': "rawGreInnerIpv6Target (rawOf s) u = Some t'" "t = t'"
    using assms(1)
    by (auto simp: greInnerIpv6L4_def firstTarget_def rawGreInnerIpv6UdpTarget_def rawGreInnerIpv6TcpTarget_def
        Let_def GreInnerIpv6Target.defs split: option.splits if_splits)
  note g = gre_inner6 [OF t'(1), folded t'(2)] and forty = gre_inner6_target.inside [OF t'(1), folded t'(2)]
  define base where
    "base = (if field = SrcField then grein6_innerIpv6SrcOffset t else grein6_innerIpv6DstOffset t)"
  have base: "rawPacketHasBytes ?bs base 16"
    by (auto simp: base_def g(2,3) intro: hasBytes_within [OF forty])
  have eq: "(if field = SrcField then grein6_innerIpv6Src else grein6_innerIpv6Dst) t = formatPacketIpv6 ?bs base"
    "(if field = SrcField then grein6_innerIpv6SrcOffset else grein6_innerIpv6DstOffset) t = base"
    "(if field = SrcField then grein6_innerIpv6Src t else grein6_innerIpv6Dst t) = formatPacketIpv6 ?bs base"
    using g by (simp_all add: base_def)
  show ?thesis
    unfolding buildGreInnerIpv6AddressIncVmBody_def Let_def assms(1) fromTarget_simps eq(1,2)
    by (rule ipv6_body_sound [OF is_bytes_stream base])
      (use assms(2,3) in \<open>simp_all add: eq(3) del: if_split\<close>)
qed

lemma writePair_tail:
  assumes "suffixOf bs end (ipv4FieldEngineSuffix address count)" "0 < count" "1 \<le> step"
    "off = end - sfx_size (ipv4FieldEngineSuffix address count)"
    "i = sfx_initValue (ipv4FieldEngineSuffix address count)" "sz = sfx_size (ipv4FieldEngineSuffix address count)"
  shows "writePair bs n
    [flowVar n op sz i i (min (fieldEngineMaxForSize sz) (i + count - 1)) step, writePlainFlowVar n off]"
  using assms fieldEngineMax_less [of sz]
  by (intro writePair_literal) (auto simp: suffixOf_def)

lemma gre_five_tuple_template [template_sound]:
  assumes "rawGreInnerIpv4UdpTarget (rawOf s) = Some inner" "countsPositive s"
  shows "bodySound (streamBytes (rawOf s)) (buildGreInnerFiveTupleVmBody s)"
proof -
  let ?bs = "streamBytes (rawOf s)"
  obtain t p where inner: "inner = (t, UdpAt p)" "rawPacketHasBytes ?bs p 8"
    "rawGreInnerIpv4Target (rawOf s) True = Some t"
    using assms(1) by (cases inner) (auto elim!: gre_udp4)
  note g = gre_inner4 [OF inner(3)]
  have four: "rawPacketHasBytes ?bs (grein_innerL3Offset t + 12) 4" "rawPacketHasBytes ?bs (grein_innerL3Offset t + 16) 4"
    by (auto intro: hasBytes_within [OF g(2)])
  have two: "rawPacketHasBytes ?bs p 2" "rawPacketHasBytes ?bs (p + 2) 2"
    by (auto intro: hasBytes_within [OF inner(2)])
  have pos: "0 < numOf s f" "1 \<le> numOf s f" if "endsWith f ''_count'' \<or> endsWith f ''_step''" for f
    using assms(2) that by (blast intro: countsPositive_pos countsPositiveD)+
  note w = rawPacketWord_range [OF is_bytes_stream, of "rawOf s" p]
    rawPacketWord_range [OF is_bytes_stream, of "rawOf s" "p + 2"]
  note src = writePair_tail [OF ipv4_suffix_sound [OF is_bytes_stream four(1)]]
  note dst = writePair_tail [OF ipv4_suffix_sound [OF is_bytes_stream four(2)]]
  show ?thesis
    unfolding buildGreInnerFiveTupleVmBody_def Let_def assms(1) inner(1) option.case prod.case GreUpper.case g(1)
    by (rule several_body_sound [where
          ps = "[(''gre_inner_ipv4_src'', [_, _]), (''gre_inner_ipv4_dst'', [_, _]),
                 (''gre_inner_udp_src'', [_, _]), (''gre_inner_udp_dst'', [_, _])]" and rest = "[greIpv4Checksum _]"])
      (use two w assms(2) in
        \<open>simp_all add: is_bytes_stream src dst writePair_count [where limit = "min 65535"] rawPacketNumberValue_2\<close>)
qed

end
