(* ===== verification/VmExtension.thy ===== *)
theory VmExtension
  imports VmIpv6 Ipv6Extensions
begin

text \<open>
  The templates of \<open>advancedVmModel.ts\<close> on IPv4 options and IPv6 extension headers: router alert,
  option types, jumbo payload, fragment, authentication and routing headers. They work on the
  bytes of a packet only; without their header they give the empty program.
\<close>

section \<open>IPv4 options\<close>

definition buildIpv4RouterAlertIncVmBody :: "ProfileWorkbenchStream \<Rightarrow> AdvancedVmBody" where
  "buildIpv4RouterAlertIncVmBody stream =
     (case ipv4RouterAlertTarget (rawOf stream) of
        None \<Rightarrow> advancedVmDefaultBody
      | Some target \<Rightarrow>
          buildAdvancedNumberWriteVmBody
            \<lparr>nw_checksumInstruction = Some (fixChecksumIpv4 (ra4_ipv4Offset target)), nw_count = 4,
             nw_initValue = ra4_value target, nw_maxLimit = 65535, nw_name = ''ipv4_router_alert'',
             nw_pktOffset = ra4_valueOffset target, nw_size = 2, nw_step = 1\<rparr>)"

datatype Ipv4OptionTypeField = OptionClass | OptionCopied | OptionNumber

record OptionTypeSpec =
  ot_count :: int
  ot_mask :: int
  ot_max :: int
  ot_shift :: int
  ot_variableName :: string

definition ipv4OptionTypeSpec :: "Ipv4OptionTypeField \<Rightarrow> OptionTypeSpec" where
  "ipv4OptionTypeSpec field =
     (case field of
        OptionClass \<Rightarrow> \<lparr>ot_count = 4, ot_mask = 0x60, ot_max = 3, ot_shift = 5, ot_variableName = ''ipv4_option_class''\<rparr>
      | OptionCopied \<Rightarrow> \<lparr>ot_count = 2, ot_mask = 0x80, ot_max = 1, ot_shift = 7, ot_variableName = ''ipv4_option_copied''\<rparr>
      | OptionNumber \<Rightarrow> \<lparr>ot_count = 4, ot_mask = 0x1f, ot_max = 31, ot_shift = 0, ot_variableName = ''ipv4_option_number''\<rparr>)"

definition buildIpv4OptionTypeMaskedVmBody :: "ProfileWorkbenchStream \<Rightarrow> Ipv4OptionTypeField \<Rightarrow> AdvancedVmBody" where
  "buildIpv4OptionTypeMaskedVmBody stream field =
     (case ipv4OptionTypeTarget (rawOf stream) of
        None \<Rightarrow> advancedVmDefaultBody
      | Some target \<Rightarrow>
          let spec = ipv4OptionTypeSpec field;
              initValue = js_ushr (js_and (opt4_optionType target) (ot_mask spec)) (ot_shift spec)
          in maskedBody (ot_variableName spec) (if field = OptionCopied \<and> initValue = 1 then ''dec'' else ''inc'') 1
               initValue (if field = OptionCopied then 0 else initValue)
               (if field = OptionCopied then 1 else min (ot_max spec) (initValue + ot_count spec - 1)) 1 1
               (opt4_typeOffset target) (ot_mask spec) (ot_shift spec) [fixChecksumIpv4 (opt4_ipv4Offset target)])"

definition buildIpv4OptionCopiedFlagVmBody :: "ProfileWorkbenchStream \<Rightarrow> AdvancedVmBody" where
  "buildIpv4OptionCopiedFlagVmBody stream = buildIpv4OptionTypeMaskedVmBody stream OptionCopied"

definition buildIpv4OptionClassIncVmBody :: "ProfileWorkbenchStream \<Rightarrow> AdvancedVmBody" where
  "buildIpv4OptionClassIncVmBody stream = buildIpv4OptionTypeMaskedVmBody stream OptionClass"

definition buildIpv4OptionNumberIncVmBody :: "ProfileWorkbenchStream \<Rightarrow> AdvancedVmBody" where
  "buildIpv4OptionNumberIncVmBody stream = buildIpv4OptionTypeMaskedVmBody stream OptionNumber"

section \<open>IPv6 options\<close>

definition buildIpv6RouterAlertIncVmBody :: "ProfileWorkbenchStream \<Rightarrow> AdvancedVmBody" where
  "buildIpv6RouterAlertIncVmBody stream =
     (case ipv6RouterAlertTarget (rawOf stream) of
        None \<Rightarrow> advancedVmDefaultBody
      | Some target \<Rightarrow>
          buildAdvancedNumberWriteVmBody
            \<lparr>nw_checksumInstruction = None, nw_count = 4, nw_initValue = opt6_value target, nw_maxLimit = 65535,
             nw_name = ''ipv6_router_alert'', nw_pktOffset = opt6_valueOffset target, nw_size = 2, nw_step = 1\<rparr>)"

datatype Ipv6ExtensionOptionTypeField = OptionAction | OptionChange | Option6Number

definition ipv6ExtensionOptionTypeSpec :: "Ipv6ExtensionOptionTypeField \<Rightarrow> OptionTypeSpec" where
  "ipv6ExtensionOptionTypeSpec field =
     (case field of
        OptionAction \<Rightarrow> \<lparr>ot_count = 4, ot_mask = 0xc0, ot_max = 3, ot_shift = 6, ot_variableName = ''ipv6_option_action''\<rparr>
      | OptionChange \<Rightarrow>
          \<lparr>ot_count = 2, ot_mask = 0x20, ot_max = 1, ot_shift = 5, ot_variableName = ''ipv6_option_change_en_route''\<rparr>
      | Option6Number \<Rightarrow> \<lparr>ot_count = 4, ot_mask = 0x1f, ot_max = 31, ot_shift = 0, ot_variableName = ''ipv6_option_number''\<rparr>)"

definition buildIpv6ExtensionOptionTypeMaskedVmBody ::
  "ProfileWorkbenchStream \<Rightarrow> Ipv6ExtensionOptionTypeField \<Rightarrow> AdvancedVmBody" where
  "buildIpv6ExtensionOptionTypeMaskedVmBody stream field =
     (case ipv6ExtensionOptionTypeTarget (rawOf stream) of
        None \<Rightarrow> advancedVmDefaultBody
      | Some target \<Rightarrow>
          let spec = ipv6ExtensionOptionTypeSpec field;
              initValue = js_ushr (js_and (opt6_optionType target) (ot_mask spec)) (ot_shift spec)
          in maskedBody (ot_variableName spec) (if field = OptionChange \<and> initValue = 1 then ''dec'' else ''inc'') 1
               initValue (if field = OptionChange then 0 else initValue)
               (if field = OptionChange then 1 else min (ot_max spec) (initValue + ot_count spec - 1)) 1 1
               (opt6_typeOffset target) (ot_mask spec) (ot_shift spec) [])"

definition buildIpv6ExtensionOptionActionIncVmBody :: "ProfileWorkbenchStream \<Rightarrow> AdvancedVmBody" where
  "buildIpv6ExtensionOptionActionIncVmBody stream = buildIpv6ExtensionOptionTypeMaskedVmBody stream OptionAction"

definition buildIpv6ExtensionOptionChangeFlagVmBody :: "ProfileWorkbenchStream \<Rightarrow> AdvancedVmBody" where
  "buildIpv6ExtensionOptionChangeFlagVmBody stream = buildIpv6ExtensionOptionTypeMaskedVmBody stream OptionChange"

definition buildIpv6ExtensionOptionNumberIncVmBody :: "ProfileWorkbenchStream \<Rightarrow> AdvancedVmBody" where
  "buildIpv6ExtensionOptionNumberIncVmBody stream = buildIpv6ExtensionOptionTypeMaskedVmBody stream Option6Number"

definition buildIpv6JumboPayloadIncVmBody :: "ProfileWorkbenchStream \<Rightarrow> AdvancedVmBody" where
  "buildIpv6JumboPayloadIncVmBody stream =
     (case ipv6JumboPayloadTarget (rawOf stream) of
        None \<Rightarrow> advancedVmDefaultBody
      | Some target \<Rightarrow>
          buildAdvancedNumberWriteVmBody
            \<lparr>nw_checksumInstruction = None, nw_count = 4, nw_initValue = opt6_value target, nw_maxLimit = 4294967295,
             nw_name = ''ipv6_jumbo_payload_length'', nw_pktOffset = opt6_valueOffset target, nw_size = 4, nw_step = 1\<rparr>)"

section \<open>The fragment header\<close>

definition buildIpv6FragmentIdentificationIncVmBody :: "ProfileWorkbenchStream \<Rightarrow> AdvancedVmBody" where
  "buildIpv6FragmentIdentificationIncVmBody stream =
     (case ipv6FragmentHeaderTarget (rawOf stream) of
        None \<Rightarrow> advancedVmDefaultBody
      | Some target \<Rightarrow>
          buildAdvancedNumberWriteVmBody
            \<lparr>nw_checksumInstruction = None, nw_count = 4, nw_initValue = frag_identification target,
             nw_maxLimit = 4294967295, nw_name = ''ipv6_fragment_identification'',
             nw_pktOffset = frag_identificationOffset target, nw_size = 4, nw_step = 1\<rparr>)"

definition buildIpv6FragmentOffsetIncVmBody :: "ProfileWorkbenchStream \<Rightarrow> AdvancedVmBody" where
  "buildIpv6FragmentOffsetIncVmBody stream =
     (case ipv6FragmentHeaderTarget (rawOf stream) of
        None \<Rightarrow> advancedVmDefaultBody
      | Some target \<Rightarrow>
          let bounds = advancedNumberBounds (frag_fragmentOffset target) 4 1 8191 ''inc''
          in maskedBody ''ipv6_fragment_offset'' ''inc'' 2 (frag_fragmentOffset target) (bounds_min bounds)
               (bounds_max bounds) 1 2 (frag_fragmentWordOffset target) 0xfff8 3 [])"

definition buildIpv6FragmentMoreFragmentsVaryVmBody :: "ProfileWorkbenchStream \<Rightarrow> AdvancedVmBody" where
  "buildIpv6FragmentMoreFragmentsVaryVmBody stream =
     (case ipv6FragmentHeaderTarget (rawOf stream) of
        None \<Rightarrow> advancedVmDefaultBody
      | Some target \<Rightarrow>
          maskedBody ''ipv6_fragment_more_fragments'' (if frag_moreFragments target = 1 then ''dec'' else ''inc'') 1
            (frag_moreFragments target) 0 1 1 2 (frag_fragmentWordOffset target) 0x0001 0 [])"

definition buildIpv6FragmentReservedBitsIncVmBody :: "ProfileWorkbenchStream \<Rightarrow> AdvancedVmBody" where
  "buildIpv6FragmentReservedBitsIncVmBody stream =
     (case ipv6FragmentHeaderTarget (rawOf stream) of
        None \<Rightarrow> advancedVmDefaultBody
      | Some target \<Rightarrow>
          let bounds = advancedNumberBounds (frag_reservedBits target) 4 1 3 ''inc''
          in maskedBody ''ipv6_fragment_reserved_bits'' ''inc'' 1 (frag_reservedBits target) (bounds_min bounds)
               (bounds_max bounds) 1 2 (frag_fragmentWordOffset target) 0x0006 1 [])"

section \<open>The authentication and routing headers\<close>

definition buildIpv6AhSpiIncVmBody :: "ProfileWorkbenchStream \<Rightarrow> AdvancedVmBody" where
  "buildIpv6AhSpiIncVmBody stream =
     (case ipv6AhHeaderTarget (rawOf stream) of
        None \<Rightarrow> advancedVmDefaultBody
      | Some target \<Rightarrow>
          buildAdvancedNumberWriteVmBody
            \<lparr>nw_checksumInstruction = None, nw_count = 4, nw_initValue = ah_spi target, nw_maxLimit = 4294967295,
             nw_name = ''ipv6_ah_spi'', nw_pktOffset = ah_spiOffset target, nw_size = 4, nw_step = 1\<rparr>)"

definition buildIpv6AhSequenceIncVmBody :: "ProfileWorkbenchStream \<Rightarrow> AdvancedVmBody" where
  "buildIpv6AhSequenceIncVmBody stream =
     (case ipv6AhHeaderTarget (rawOf stream) of
        None \<Rightarrow> advancedVmDefaultBody
      | Some target \<Rightarrow>
          buildAdvancedNumberWriteVmBody
            \<lparr>nw_checksumInstruction = None, nw_count = 4, nw_initValue = ah_sequence target, nw_maxLimit = 4294967295,
             nw_name = ''ipv6_ah_sequence'', nw_pktOffset = ah_sequenceOffset target, nw_size = 4, nw_step = 1\<rparr>)"

definition buildIpv6RoutingTypeIncVmBody :: "ProfileWorkbenchStream \<Rightarrow> AdvancedVmBody" where
  "buildIpv6RoutingTypeIncVmBody stream =
     (case ipv6RoutingHeaderTarget (rawOf stream) of
        None \<Rightarrow> advancedVmDefaultBody
      | Some target \<Rightarrow>
          buildAdvancedNumberWriteVmBody
            \<lparr>nw_checksumInstruction = None, nw_count = 4, nw_initValue = rt_routingType target, nw_maxLimit = 255,
             nw_name = ''ipv6_routing_type'', nw_pktOffset = rt_routingTypeOffset target, nw_size = 1, nw_step = 1\<rparr>)"

definition buildIpv6RoutingSegmentsLeftIncVmBody :: "ProfileWorkbenchStream \<Rightarrow> AdvancedVmBody" where
  "buildIpv6RoutingSegmentsLeftIncVmBody stream =
     (case ipv6RoutingHeaderTarget (rawOf stream) of
        None \<Rightarrow> advancedVmDefaultBody
      | Some target \<Rightarrow>
          buildAdvancedNumberWriteVmBody
            \<lparr>nw_checksumInstruction = None, nw_count = 4, nw_initValue = rt_segmentsLeft target, nw_maxLimit = 255,
             nw_name = ''ipv6_routing_segments_left'', nw_pktOffset = rt_segmentsLeftOffset target, nw_size = 1,
             nw_step = 1\<rparr>)"

section \<open>Sound for the packets they find their field in\<close>

text \<open>Counting and flipping within the bits of a field of the packet.\<close>

lemma counted_bits_sound:
  assumes "repairs rest" "rawPacketHasBytes bs off castSize" "0 \<le> s" "m = (2 ^ n - 1) * 2 ^ nat s"
    "i = rawPacketNumberValue bs off castSize div 2 ^ nat s mod 2 ^ n" "i \<le> hi" "hi \<le> 2 ^ n - 1" "2 ^ n \<le> (256::int) ^ nat sz"
  shows "bodySound bs (maskedBody v op sz i i hi 1 castSize off m s rest)"
  by (rule maskedBody_sound [where n = n]) (use assms in \<open>auto\<close>)

lemma flipped_bit_sound:
  assumes "repairs rest" "rawPacketHasBytes bs off castSize" "0 \<le> s" "m = 2 ^ nat s"
    "i = rawPacketNumberValue bs off castSize div 2 ^ nat s mod 2"
  shows "bodySound bs (maskedBody v op 1 i 0 1 1 castSize off m s rest)"
  by (rule maskedBody_sound [where n = 1]) (use assms in \<open>auto\<close>)

lemma option_template [template_sound]:
  "ipv4RouterAlertTarget (rawOf s) \<noteq> None
    \<Longrightarrow> bodySound (streamBytes (rawOf s)) (buildIpv4RouterAlertIncVmBody s)"
  "ipv6RouterAlertTarget (rawOf s) \<noteq> None
    \<Longrightarrow> bodySound (streamBytes (rawOf s)) (buildIpv6RouterAlertIncVmBody s)"
  "ipv6JumboPayloadTarget (rawOf s) \<noteq> None
    \<Longrightarrow> bodySound (streamBytes (rawOf s)) (buildIpv6JumboPayloadIncVmBody s)"
proof -
  show "bodySound (streamBytes (rawOf s)) (buildIpv4RouterAlertIncVmBody s)"
    if found: "ipv4RouterAlertTarget (rawOf s) \<noteq> None"
  proof -
    obtain t where t: "ipv4RouterAlertTarget (rawOf s) = Some t" using found by auto
    show ?thesis
      unfolding buildIpv4RouterAlertIncVmBody_def t option.case
      by (rule word_write_sound [OF is_bytes_stream])
        (use router_alert4.inside [OF t] ipv4RouterAlertTargetD(6) [OF t] in simp_all)
  qed
  show "bodySound (streamBytes (rawOf s)) (buildIpv6RouterAlertIncVmBody s)"
    if found: "ipv6RouterAlertTarget (rawOf s) \<noteq> None"
  proof -
    obtain t where t: "ipv6RouterAlertTarget (rawOf s) = Some t" using found by auto
    show ?thesis
      unfolding buildIpv6RouterAlertIncVmBody_def t option.case
      by (rule word_write_sound [OF is_bytes_stream])
        (use router_alert6.inside [OF t] ipv6ExtensionOptionTargetD(4) [OF t [unfolded ipv6RouterAlertTarget_def]]
          in \<open>simp_all add: rawPacketNumberValue_2 is_bytes_stream\<close>)
  qed
  show "bodySound (streamBytes (rawOf s)) (buildIpv6JumboPayloadIncVmBody s)"
    if found: "ipv6JumboPayloadTarget (rawOf s) \<noteq> None"
  proof -
    obtain t where t: "ipv6JumboPayloadTarget (rawOf s) = Some t" using found by auto
    show ?thesis
      unfolding buildIpv6JumboPayloadIncVmBody_def t option.case
      by (rule long_write_sound [OF is_bytes_stream])
        (use jumbo_payload.inside [OF t] ipv6ExtensionOptionTargetD(4) [OF t [unfolded ipv6JumboPayloadTarget_def]]
          in simp_all)
  qed
qed

lemma option_type_value:
  assumes "is_bytes bs" "i = byteAt bs off"
    "(m, s, n) \<in> {(0x60, 5, 2), (0x80, 7, 1), (0x1f, 0, 5), (0xc0, 6, 2), (0x20, 5, 1)}"
  shows "js_ushr (js_and i m) s = byteAt bs off div 2 ^ nat s mod 2 ^ n" "m = (2 ^ n - 1) * 2 ^ nat s" "0 \<le> s"
    "(2::int) ^ n \<le> 256"
  using assms(2,3) byteAt_range [OF assms(1), of off]
  by (auto simp: js_and_field [where n = 2 and k = 5] js_and_field [where n = 1 and k = 7]
      js_and_field [where n = 5 and k = 0] js_and_field [where n = 2 and k = 6]
      js_and_field [where n = 1 and k = 5] js_ushr_nonneg)

lemma option_type_template [template_sound]:
  assumes "ipv4OptionTypeTarget (rawOf s) \<noteq> None"
  shows "bodySound (streamBytes (rawOf s)) (buildIpv4OptionTypeMaskedVmBody s field)"
proof -
  obtain t where t: "ipv4OptionTypeTarget (rawOf s) = Some t" using assms by auto
  have ty: "opt4_optionType t = byteAt (streamBytes (rawOf s)) (opt4_typeOffset t)"
    using t rawOuterIpv4TargetD(1)
    by (fastforce simp: ipv4OptionTypeTarget_def split: option.splits if_splits dest: findOptionType4_at)
  define n where "n = (case field of OptionClass \<Rightarrow> (2::nat) | OptionCopied \<Rightarrow> 1 | OptionNumber \<Rightarrow> 5)"
  have "(ot_mask (ipv4OptionTypeSpec field), ot_shift (ipv4OptionTypeSpec field), n)
      \<in> {(0x60, 5, 2), (0x80, 7, 1), (0x1f, 0, 5), (0xc0, 6, 2), (0x20, 5, 1)}"
    by (cases field) (simp_all add: n_def ipv4OptionTypeSpec_def)
  note v = option_type_value [OF is_bytes_stream ty this]
  show ?thesis
    unfolding buildIpv4OptionTypeMaskedVmBody_def t option.case Let_def v(1)
    by (rule maskedBody_sound [where n = n, OF _ _ v(3,2)])
      (use option_type4.inside [OF t] in
        \<open>cases field; simp add: rawPacketNumberValue_1 n_def ipv4OptionTypeSpec_def min_less_iff_disj\<close>)+
qed

lemma option6_type_template [template_sound]:
  assumes "ipv6ExtensionOptionTypeTarget (rawOf s) \<noteq> None"
  shows "bodySound (streamBytes (rawOf s)) (buildIpv6ExtensionOptionTypeMaskedVmBody s field)"
proof -
  let ?bs = "streamBytes (rawOf s)"
  obtain t where t: "ipv6ExtensionOptionTypeTarget (rawOf s) = Some t" using assms by auto
  obtain l3 where "walkByLength (findOptionType6 16 ?bs) 8 ?bs (byteOr 59 ?bs (l3 + 6)) (l3 + 40) = Some t"
    using t by (auto simp: ipv6ExtensionOptionTypeTarget_def Let_def walkOptionHeaders_by_length split: option.splits)
  then obtain k n where "findOptionType6 16 ?bs (k + 2) (k + n) = Found t" by (rule walkByLength_found)
  then have ty: "opt6_optionType t = byteAt ?bs (opt6_typeOffset t)"
    using findOptionType6_at by blast
  define n where "n = (case field of OptionAction \<Rightarrow> (2::nat) | OptionChange \<Rightarrow> 1 | Option6Number \<Rightarrow> 5)"
  have "(ot_mask (ipv6ExtensionOptionTypeSpec field), ot_shift (ipv6ExtensionOptionTypeSpec field), n)
      \<in> {(0x60, 5, 2), (0x80, 7, 1), (0x1f, 0, 5), (0xc0, 6, 2), (0x20, 5, 1)}"
    by (cases field) (simp_all add: n_def ipv6ExtensionOptionTypeSpec_def)
  note v = option_type_value [OF is_bytes_stream ty this]
  show ?thesis
    unfolding buildIpv6ExtensionOptionTypeMaskedVmBody_def t option.case Let_def v(1)
    by (rule maskedBody_sound [where n = n, OF _ _ v(3,2)])
      (use option_type6.inside [OF t] in
        \<open>cases field; simp add: rawPacketNumberValue_1 n_def ipv6ExtensionOptionTypeSpec_def min_less_iff_disj\<close>)+
qed

lemma fragment_reads:
  assumes "ipv6FragmentHeaderTarget s = Some t"
  defines "w \<equiv> rawPacketNumberValue (streamBytes s) (frag_fragmentWordOffset t) 2"
  shows "frag_fragmentOffset t = w div 2 ^ 3 mod 2 ^ 13" "frag_moreFragments t = w div 2 ^ 0 mod 2"
    "frag_reservedBits t = w div 2 ^ 1 mod 2 ^ 2"
    "frag_identification t = rawPacketNumberValue (streamBytes s) (frag_identificationOffset t) 4"
proof -
  obtain e where e: "rawIpv6ExtensionHeaderTarget s 44 = Some e" "ext_bytes e = streamBytes s"
    using assms(1) rawIpv6ExtensionHeaderTargetD(1)
    by (auto simp: ipv6FragmentHeaderTarget_def split: option.splits)
  have w: "w = rawPacketWord (streamBytes s) (ext_offset e + 2)"
    using assms(1) by (simp add: w_def ipv6FragmentHeaderTarget_def e Let_def)
      (auto simp: rawPacketNumberValue_2 is_bytes_stream)
  have "0 \<le> w" "w < 65536"
    using rawPacketWord_range [OF is_bytes_stream, of s "ext_offset e + 2"] by (simp_all add: w)
  then show "frag_fragmentOffset t = w div 2 ^ 3 mod 2 ^ 13" "frag_moreFragments t = w div 2 ^ 0 mod 2"
    "frag_reservedBits t = w div 2 ^ 1 mod 2 ^ 2"
    using assms(1)
    by (auto simp: ipv6FragmentHeaderTarget_def e Let_def w [symmetric] js_and_field [where n = 13 and k = 3]
        js_and_field [where n = 1 and k = 0] js_and_field [where n = 2 and k = 1] js_ushr_nonneg)
  show "frag_identification t = rawPacketNumberValue (streamBytes s) (frag_identificationOffset t) 4"
    using assms(1) by (auto simp: ipv6FragmentHeaderTarget_def e Let_def)
qed

lemma fragment_template [template_sound]:
  assumes "ipv6FragmentHeaderTarget (rawOf s) \<noteq> None"
  shows "bodySound (streamBytes (rawOf s)) (buildIpv6FragmentIdentificationIncVmBody s)"
    "bodySound (streamBytes (rawOf s)) (buildIpv6FragmentOffsetIncVmBody s)"
    "bodySound (streamBytes (rawOf s)) (buildIpv6FragmentMoreFragmentsVaryVmBody s)"
    "bodySound (streamBytes (rawOf s)) (buildIpv6FragmentReservedBitsIncVmBody s)"
proof -
  obtain t where t: "ipv6FragmentHeaderTarget (rawOf s) = Some t" using assms by auto
  note word = fragment_word.inside [OF t] and r = fragment_reads [OF t]
  show "bodySound (streamBytes (rawOf s)) (buildIpv6FragmentIdentificationIncVmBody s)"
    unfolding buildIpv6FragmentIdentificationIncVmBody_def t option.case
    by (rule long_write_sound [OF is_bytes_stream]) (use fragment_id.inside [OF t] r(4) in simp_all)
  show "bodySound (streamBytes (rawOf s)) (buildIpv6FragmentOffsetIncVmBody s)"
    unfolding buildIpv6FragmentOffsetIncVmBody_def t option.case Let_def
    by (simp add: advancedNumberBounds_def, rule counted_bits_sound [where n = 13])
      (use word r(1) in simp_all)
  show "bodySound (streamBytes (rawOf s)) (buildIpv6FragmentMoreFragmentsVaryVmBody s)"
    unfolding buildIpv6FragmentMoreFragmentsVaryVmBody_def t option.case
    by (rule flipped_bit_sound) (use word r(2) in simp_all)
  show "bodySound (streamBytes (rawOf s)) (buildIpv6FragmentReservedBitsIncVmBody s)"
    unfolding buildIpv6FragmentReservedBitsIncVmBody_def t option.case Let_def
    by (simp add: advancedNumberBounds_def, rule counted_bits_sound [where n = 2])
      (use word r(3) in simp_all)
qed

lemma extension_field_template [template_sound]:
  "ipv6AhHeaderTarget (rawOf s) \<noteq> None \<Longrightarrow> bodySound (streamBytes (rawOf s)) (buildIpv6AhSpiIncVmBody s)"
  "ipv6AhHeaderTarget (rawOf s) \<noteq> None \<Longrightarrow> bodySound (streamBytes (rawOf s)) (buildIpv6AhSequenceIncVmBody s)"
  "ipv6RoutingHeaderTarget (rawOf s) \<noteq> None \<Longrightarrow> bodySound (streamBytes (rawOf s)) (buildIpv6RoutingTypeIncVmBody s)"
  "ipv6RoutingHeaderTarget (rawOf s) \<noteq> None
    \<Longrightarrow> bodySound (streamBytes (rawOf s)) (buildIpv6RoutingSegmentsLeftIncVmBody s)"
proof -
  let ?bs = "streamBytes (rawOf s)"
  have ah: "ah_spi t = rawPacketNumberValue ?bs (ah_spiOffset t) 4"
    "ah_sequence t = rawPacketNumberValue ?bs (ah_sequenceOffset t) 4" if "ipv6AhHeaderTarget (rawOf s) = Some t" for t
    using that rawIpv6ExtensionHeaderTargetD(1)
    by (auto simp: ipv6AhHeaderTarget_def split: option.splits)
  have rt: "rt_routingType t = byteAt ?bs (rt_routingTypeOffset t)"
    "rt_segmentsLeft t = byteAt ?bs (rt_segmentsLeftOffset t)" if "ipv6RoutingHeaderTarget (rawOf s) = Some t" for t
    using that rawIpv6ExtensionHeaderTargetD(1)
    by (auto simp: ipv6RoutingHeaderTarget_def rawPacketNumberValue_1 split: option.splits if_splits)
  show "bodySound ?bs (buildIpv6AhSpiIncVmBody s)" if found: "ipv6AhHeaderTarget (rawOf s) \<noteq> None"
    using found ah ah_spi_target.inside
    by (auto simp: buildIpv6AhSpiIncVmBody_def intro!: long_write_sound is_bytes_stream)
  show "bodySound ?bs (buildIpv6AhSequenceIncVmBody s)" if found: "ipv6AhHeaderTarget (rawOf s) \<noteq> None"
    using found ah ah_sequence_target.inside
    by (auto simp: buildIpv6AhSequenceIncVmBody_def intro!: long_write_sound is_bytes_stream)
  show "bodySound ?bs (buildIpv6RoutingTypeIncVmBody s)" if found: "ipv6RoutingHeaderTarget (rawOf s) \<noteq> None"
    using found rt routing_type.inside
    by (auto simp: buildIpv6RoutingTypeIncVmBody_def intro!: byte_write_sound is_bytes_stream)
  show "bodySound ?bs (buildIpv6RoutingSegmentsLeftIncVmBody s)"
    if found: "ipv6RoutingHeaderTarget (rawOf s) \<noteq> None"
    using found rt segments_left.inside
    by (auto simp: buildIpv6RoutingSegmentsLeftIncVmBody_def intro!: byte_write_sound is_bytes_stream)
qed

end
