(* ===== verification/VmIcmp.thy ===== *)
theory VmIcmp
  imports VmExtension Icmpv6Targets Closing
begin

text \<open>
  The ICMP templates of \<open>advancedVmModel.ts\<close>. For an ICMPv4 echo message the field engine cannot
  repair the checksum, so a second variable counts it down while the field counts up. The ICMPv6
  templates are followed by a repair instruction.
\<close>

section \<open>ICMPv4 echo\<close>

datatype Icmpv4EchoChecksumCoupledField = EchoType | EchoCode | EchoIdentifier | EchoSequence

record CoupledSpec =
  cs_count :: int
  cs_fieldMax :: int
  cs_fieldOffset :: int
  cs_fieldSize :: int
  cs_step :: int
  cs_value :: int
  cs_wordUnit :: int

definition coupledFieldSpec ::
  "ProfileWorkbenchStream \<Rightarrow> Icmpv4EchoTarget \<Rightarrow> Icmpv4EchoChecksumCoupledField \<Rightarrow> CoupledSpec" where
  "coupledFieldSpec stream target field =
     (case field of
        EchoCode \<Rightarrow>
          \<lparr>cs_count = numOf stream ''icmp_code_count'', cs_fieldMax = 255, cs_fieldOffset = echo4_codeOffset target,
           cs_fieldSize = 1, cs_step = numOf stream ''icmp_code_step'', cs_value = echo4_code target, cs_wordUnit = 1\<rparr>
      | EchoIdentifier \<Rightarrow>
          \<lparr>cs_count = numOf stream ''icmp_identifier_count'', cs_fieldMax = 65535,
           cs_fieldOffset = echo4_identifierOffset target, cs_fieldSize = 2,
           cs_step = numOf stream ''icmp_identifier_step'', cs_value = echo4_identifier target, cs_wordUnit = 1\<rparr>
      | EchoSequence \<Rightarrow>
          \<lparr>cs_count = numOf stream ''icmp_sequence_count'', cs_fieldMax = 65535,
           cs_fieldOffset = echo4_sequenceOffset target, cs_fieldSize = 2,
           cs_step = numOf stream ''icmp_sequence_step'', cs_value = echo4_sequence target, cs_wordUnit = 1\<rparr>
      | EchoType \<Rightarrow>
          \<lparr>cs_count = numOf stream ''icmp_type_count'', cs_fieldMax = 255, cs_fieldOffset = echo4_typeOffset target,
           cs_fieldSize = 1, cs_step = numOf stream ''icmp_type_step'', cs_value = echo4_type target,
           cs_wordUnit = 256\<rparr>)"

definition coupledCountField :: "Icmpv4EchoChecksumCoupledField \<Rightarrow> string" where
  "coupledCountField field =
     (case field of EchoType \<Rightarrow> ''icmp_type'' | EchoCode \<Rightarrow> ''icmp_code''
      | EchoIdentifier \<Rightarrow> ''icmp_identifier'' | EchoSequence \<Rightarrow> ''icmp_sequence'')"

record CoupledChecksum = CoupledSpec +
  cs_checksum :: int
  cs_checksumMin :: int
  cs_checksumOffset :: int
  cs_checksumStep :: int

definition icmpv4EchoChecksumCoupledSpec ::
  "ProfileWorkbenchStream \<Rightarrow> Icmpv4EchoChecksumCoupledField \<Rightarrow> CoupledChecksum option" where
  "icmpv4EchoChecksumCoupledSpec stream field =
     (case icmpv4EchoRawTarget (rawOf stream) of
        None \<Rightarrow> None
      | Some target \<Rightarrow>
          let spec = coupledFieldSpec stream target field in
          if \<not> finiteOf stream (coupledCountField field @ ''_count'') \<or> \<not> finiteOf stream (coupledCountField field @ ''_step'')
             \<or> cs_count spec < 2 \<or> cs_step spec < 1
          then None
          else
            let fieldDelta = cs_step spec * (cs_count spec - 1);
                checksumDelta = fieldDelta * cs_wordUnit spec
            in if cs_value spec + fieldDelta > cs_fieldMax spec \<or> checksumDelta > 65535
                  \<or> echo4_checksum target < checksumDelta
               then None
               else Some (CoupledSpec.extend spec
                      \<lparr>cs_checksum = echo4_checksum target,
                       cs_checksumMin = echo4_checksum target - checksumDelta,
                       cs_checksumOffset = echo4_checksumOffset target,
                       cs_checksumStep = cs_step spec * cs_wordUnit spec\<rparr>))"

definition isAdvancedIcmpv4EchoTypeStream :: "ProfileWorkbenchStream option \<Rightarrow> bool" where
  "isAdvancedIcmpv4EchoTypeStream = onStream (\<lambda>s. icmpv4EchoChecksumCoupledSpec s EchoType \<noteq> None)"

definition isAdvancedIcmpv4EchoCodeStream :: "ProfileWorkbenchStream option \<Rightarrow> bool" where
  "isAdvancedIcmpv4EchoCodeStream = onStream (\<lambda>s. icmpv4EchoChecksumCoupledSpec s EchoCode \<noteq> None)"

definition isAdvancedIcmpv4EchoIdentifierStream :: "ProfileWorkbenchStream option \<Rightarrow> bool" where
  "isAdvancedIcmpv4EchoIdentifierStream stream =
     onStream (\<lambda>s. isRawPacketAdvancedStream stream \<and> icmpv4EchoChecksumCoupledSpec s EchoIdentifier \<noteq> None) stream"

definition isAdvancedIcmpv4EchoSequenceStream :: "ProfileWorkbenchStream option \<Rightarrow> bool" where
  "isAdvancedIcmpv4EchoSequenceStream stream =
     onStream (\<lambda>s. isRawPacketAdvancedStream stream \<and> icmpv4EchoChecksumCoupledSpec s EchoSequence \<noteq> None) stream"

text \<open>The field counts up, its checksum counts down.\<close>

definition buildIcmpv4EchoChecksumCoupledVmBody ::
  "ProfileWorkbenchStream \<Rightarrow> Icmpv4EchoChecksumCoupledField \<Rightarrow> AdvancedVmBody" where
  "buildIcmpv4EchoChecksumCoupledVmBody stream field =
     (case icmpv4EchoChecksumCoupledSpec stream field of
        None \<Rightarrow> advancedVmDefaultBody
      | Some spec \<Rightarrow>
          let variableName = coupledCountField field;
              checksumVariableName = variableName @ ''_csum''
          in vmBody
               [flowVar variableName ''inc'' (cs_fieldSize spec) (cs_value spec) (cs_value spec)
                  (cs_value spec + cs_step spec * (cs_count spec - 1)) (cs_step spec),
                writeFlowVar variableName 0 (cs_fieldOffset spec),
                flowVar checksumVariableName ''dec'' 2 (cs_checksum spec) (cs_checksumMin spec) (cs_checksum spec)
                  (cs_checksumStep spec),
                writeFlowVar checksumVariableName 0 (cs_checksumOffset spec)]
               variableName)"

definition buildIcmpv4TypeChecksumCoupledVmBody :: "ProfileWorkbenchStream \<Rightarrow> AdvancedVmBody" where
  "buildIcmpv4TypeChecksumCoupledVmBody stream = buildIcmpv4EchoChecksumCoupledVmBody stream EchoType"

definition buildIcmpv4CodeChecksumCoupledVmBody :: "ProfileWorkbenchStream \<Rightarrow> AdvancedVmBody" where
  "buildIcmpv4CodeChecksumCoupledVmBody stream = buildIcmpv4EchoChecksumCoupledVmBody stream EchoCode"

definition buildIcmpv4IdentifierChecksumCoupledVmBody :: "ProfileWorkbenchStream \<Rightarrow> AdvancedVmBody" where
  "buildIcmpv4IdentifierChecksumCoupledVmBody stream = buildIcmpv4EchoChecksumCoupledVmBody stream EchoIdentifier"

definition buildIcmpv4SequenceChecksumCoupledVmBody :: "ProfileWorkbenchStream \<Rightarrow> AdvancedVmBody" where
  "buildIcmpv4SequenceChecksumCoupledVmBody stream = buildIcmpv4EchoChecksumCoupledVmBody stream EchoSequence"

section \<open>ICMPv6 echo\<close>

definition isIcmpv6EchoStream :: "ProfileWorkbenchStream option \<Rightarrow> bool" where
  "isIcmpv6EchoStream = onStream (\<lambda>s.
     packetType s = ''Ethernet/IPv6/ICMPv6'' \<and> (numOf s ''icmp_type'' = 128 \<or> numOf s ''icmp_type'' = 129)
     \<or> icmpv6EchoRawTarget (rawOf s) \<noteq> None)"

definition isIcmpEchoStream :: "ProfileWorkbenchStream \<Rightarrow> bool" where
  "isIcmpEchoStream stream = isIcmpv6EchoStream (Some stream)"

definition icmpv6NumberSpec ::
  "ProfileWorkbenchStream \<Rightarrow> Icmpv6EchoTarget option \<Rightarrow> Icmpv4EchoChecksumCoupledField \<Rightarrow> int \<times> int \<times> int" where
  "icmpv6NumberSpec stream rawTarget field =
     (case field of
        EchoType \<Rightarrow> (0, 1, fromTarget rawTarget echo6_type (numOf stream ''icmp_type''))
      | EchoCode \<Rightarrow> (1, 1, fromTarget rawTarget echo6_code (numOf stream ''icmp_code''))
      | EchoIdentifier \<Rightarrow> (4, 2, fromTarget rawTarget echo6_identifier (numOf stream ''icmp_identifier''))
      | EchoSequence \<Rightarrow> (6, 2, fromTarget rawTarget echo6_sequence (numOf stream ''icmp_sequence'')))"

definition buildIcmpv6NumberIncVmBody ::
  "ProfileWorkbenchStream \<Rightarrow> Icmpv4EchoChecksumCoupledField \<Rightarrow> AdvancedVmBody" where
  "buildIcmpv6NumberIncVmBody stream field =
     (let rawTarget = icmpv6EchoRawTarget (rawOf stream);
          icmpv6Offset = fromTarget rawTarget l46_offset (outerIcmpv6Offset stream);
          (offset, sz, value') = icmpv6NumberSpec stream rawTarget field;
          variableName = coupledCountField field
      in numberBody variableName ''inc'' sz value' value'
           (min (if sz = 1 then 255 else 65535) (value' + numOf stream (variableName @ ''_count'') - 1))
           (numOf stream (variableName @ ''_step'')) (icmpv6Offset + offset)
           [fixChecksumIcmpv6 (fromTarget rawTarget l46_l3Offset (workbenchOuterL2HeaderLength stream)) 40])"

definition buildIcmpv6TypeIncVmBody :: "ProfileWorkbenchStream \<Rightarrow> AdvancedVmBody" where
  "buildIcmpv6TypeIncVmBody stream = buildIcmpv6NumberIncVmBody stream EchoType"

definition buildIcmpv6CodeIncVmBody :: "ProfileWorkbenchStream \<Rightarrow> AdvancedVmBody" where
  "buildIcmpv6CodeIncVmBody stream = buildIcmpv6NumberIncVmBody stream EchoCode"

definition buildIcmpv6IdentifierIncVmBody :: "ProfileWorkbenchStream \<Rightarrow> AdvancedVmBody" where
  "buildIcmpv6IdentifierIncVmBody stream = buildIcmpv6NumberIncVmBody stream EchoIdentifier"

definition buildIcmpv6SequenceIncVmBody :: "ProfileWorkbenchStream \<Rightarrow> AdvancedVmBody" where
  "buildIcmpv6SequenceIncVmBody stream = buildIcmpv6NumberIncVmBody stream EchoSequence"

section \<open>Neighbour discovery and router advertisement\<close>

definition isAdvancedIcmpv6NdTargetAddressStream :: "ProfileWorkbenchStream option \<Rightarrow> bool" where
  "isAdvancedIcmpv6NdTargetAddressStream = onStream (\<lambda>s. icmpv6NdTargetAddressTarget (rawOf s) \<noteq> None)"

definition isAdvancedIcmpv6NaFlagsStream :: "ProfileWorkbenchStream option \<Rightarrow> bool" where
  "isAdvancedIcmpv6NaFlagsStream = onStream (\<lambda>s. icmpv6NaFlagsTarget (rawOf s) \<noteq> None)"

definition isAdvancedIcmpv6RaFixedStream :: "ProfileWorkbenchStream option \<Rightarrow> bool" where
  "isAdvancedIcmpv6RaFixedStream = onStream (\<lambda>s. icmpv6RaFixedTarget (rawOf s) \<noteq> None)"

definition isAdvancedIcmpv6RaPrefixInfoStream :: "ProfileWorkbenchStream option \<Rightarrow> bool" where
  "isAdvancedIcmpv6RaPrefixInfoStream = onStream (\<lambda>s. icmpv6RaPrefixInfoTarget (rawOf s) \<noteq> None)"

definition isAdvancedIcmpv6LinkLayerOptionMacStream :: "ProfileWorkbenchStream option \<Rightarrow> bool" where
  "isAdvancedIcmpv6LinkLayerOptionMacStream = onStream (\<lambda>s. icmpv6LinkLayerOptionMacTarget (rawOf s) \<noteq> None)"

definition icmpv6RawChecksumInstruction :: "int \<Rightarrow> VmValue" where
  "icmpv6RawChecksumInstruction l3Offset = fixChecksumIcmpv6 l3Offset 40"

definition buildIcmpv6MaskedBitVmBody :: "int \<Rightarrow> int \<Rightarrow> string \<Rightarrow> int \<Rightarrow> int \<Rightarrow> int \<Rightarrow> int \<Rightarrow> AdvancedVmBody" where
  "buildIcmpv6MaskedBitVmBody l3Offset mask' name pktCastSize pktOffset shift value' =
     maskedBody name (if value' = 1 then ''dec'' else ''inc'') 1 value' 0 1 1 pktCastSize pktOffset mask' shift
       [icmpv6RawChecksumInstruction l3Offset]"

definition buildIcmpv6NdTargetAddressIncVmBody :: "ProfileWorkbenchStream \<Rightarrow> AdvancedVmBody" where
  "buildIcmpv6NdTargetAddressIncVmBody stream =
     (case icmpv6NdTargetAddressTarget (rawOf stream) of
        None \<Rightarrow> advancedVmDefaultBody
      | Some target \<Rightarrow>
          buildIpv6AddressIncVmBody (nd_address target) (nd_valueOffset target)
            (Some (icmpv6RawChecksumInstruction (nd_l3Offset target))) 4 ''icmpv6_nd_target'' 1)"

definition buildIcmpv6NaRouterFlagVmBody :: "ProfileWorkbenchStream \<Rightarrow> AdvancedVmBody" where
  "buildIcmpv6NaRouterFlagVmBody stream =
     (case icmpv6NaFlagsTarget (rawOf stream) of
        None \<Rightarrow> advancedVmDefaultBody
      | Some target \<Rightarrow>
          buildIcmpv6MaskedBitVmBody (na_l3Offset target) 0x80000000 ''icmpv6_na_router'' 4 (na_flagsOffset target) 31
            (na_routerFlag target))"

definition buildIcmpv6NaSolicitedFlagVmBody :: "ProfileWorkbenchStream \<Rightarrow> AdvancedVmBody" where
  "buildIcmpv6NaSolicitedFlagVmBody stream =
     (case icmpv6NaFlagsTarget (rawOf stream) of
        None \<Rightarrow> advancedVmDefaultBody
      | Some target \<Rightarrow>
          buildIcmpv6MaskedBitVmBody (na_l3Offset target) 0x40000000 ''icmpv6_na_solicited'' 4 (na_flagsOffset target)
            30 (na_solicitedFlag target))"

definition buildIcmpv6NaOverrideFlagVmBody :: "ProfileWorkbenchStream \<Rightarrow> AdvancedVmBody" where
  "buildIcmpv6NaOverrideFlagVmBody stream =
     (case icmpv6NaFlagsTarget (rawOf stream) of
        None \<Rightarrow> advancedVmDefaultBody
      | Some target \<Rightarrow>
          buildIcmpv6MaskedBitVmBody (na_l3Offset target) 0x20000000 ''icmpv6_na_override'' 4 (na_flagsOffset target)
            29 (na_overrideFlag target))"

definition buildIcmpv6RaManagedFlagVmBody :: "ProfileWorkbenchStream \<Rightarrow> AdvancedVmBody" where
  "buildIcmpv6RaManagedFlagVmBody stream =
     (case icmpv6RaFixedTarget (rawOf stream) of
        None \<Rightarrow> advancedVmDefaultBody
      | Some target \<Rightarrow>
          buildIcmpv6MaskedBitVmBody (ra_l3Offset target) 0x80 ''icmpv6_ra_managed'' 1 (ra_flagsOffset target) 7
            (ra_managedFlag target))"

definition buildIcmpv6RaOtherFlagVmBody :: "ProfileWorkbenchStream \<Rightarrow> AdvancedVmBody" where
  "buildIcmpv6RaOtherFlagVmBody stream =
     (case icmpv6RaFixedTarget (rawOf stream) of
        None \<Rightarrow> advancedVmDefaultBody
      | Some target \<Rightarrow>
          buildIcmpv6MaskedBitVmBody (ra_l3Offset target) 0x40 ''icmpv6_ra_other'' 1 (ra_flagsOffset target) 6
            (ra_otherFlag target))"

definition buildIcmpv6RaCurrentHopLimitIncVmBody :: "ProfileWorkbenchStream \<Rightarrow> AdvancedVmBody" where
  "buildIcmpv6RaCurrentHopLimitIncVmBody stream =
     (case icmpv6RaFixedTarget (rawOf stream) of
        None \<Rightarrow> advancedVmDefaultBody
      | Some target \<Rightarrow>
          buildAdvancedNumberWriteVmBody
            \<lparr>nw_checksumInstruction = Some (icmpv6RawChecksumInstruction (ra_l3Offset target)), nw_count = 4,
             nw_initValue = ra_currentHopLimit target, nw_maxLimit = 255, nw_name = ''icmpv6_ra_current_hop_limit'',
             nw_pktOffset = ra_currentHopLimitOffset target, nw_size = 1, nw_step = 1\<rparr>)"

definition buildIcmpv6RaRouterLifetimeIncVmBody :: "ProfileWorkbenchStream \<Rightarrow> AdvancedVmBody" where
  "buildIcmpv6RaRouterLifetimeIncVmBody stream =
     (case icmpv6RaFixedTarget (rawOf stream) of
        None \<Rightarrow> advancedVmDefaultBody
      | Some target \<Rightarrow>
          buildAdvancedNumberWriteVmBody
            \<lparr>nw_checksumInstruction = Some (icmpv6RawChecksumInstruction (ra_l3Offset target)), nw_count = 4,
             nw_initValue = ra_routerLifetime target, nw_maxLimit = 65535, nw_name = ''icmpv6_ra_router_lifetime'',
             nw_pktOffset = ra_routerLifetimeOffset target, nw_size = 2, nw_step = 1\<rparr>)"

definition buildIcmpv6RaReachableTimeIncVmBody :: "ProfileWorkbenchStream \<Rightarrow> AdvancedVmBody" where
  "buildIcmpv6RaReachableTimeIncVmBody stream =
     (case icmpv6RaFixedTarget (rawOf stream) of
        None \<Rightarrow> advancedVmDefaultBody
      | Some target \<Rightarrow>
          buildAdvancedNumberWriteVmBody
            \<lparr>nw_checksumInstruction = Some (icmpv6RawChecksumInstruction (ra_l3Offset target)), nw_count = 4,
             nw_initValue = ra_reachableTime target, nw_maxLimit = 4294967295, nw_name = ''icmpv6_ra_reachable_time'',
             nw_pktOffset = ra_reachableTimeOffset target, nw_size = 4, nw_step = 1\<rparr>)"

definition buildIcmpv6RaRetransTimerIncVmBody :: "ProfileWorkbenchStream \<Rightarrow> AdvancedVmBody" where
  "buildIcmpv6RaRetransTimerIncVmBody stream =
     (case icmpv6RaFixedTarget (rawOf stream) of
        None \<Rightarrow> advancedVmDefaultBody
      | Some target \<Rightarrow>
          buildAdvancedNumberWriteVmBody
            \<lparr>nw_checksumInstruction = Some (icmpv6RawChecksumInstruction (ra_l3Offset target)), nw_count = 4,
             nw_initValue = ra_retransTimer target, nw_maxLimit = 4294967295, nw_name = ''icmpv6_ra_retrans_timer'',
             nw_pktOffset = ra_retransTimerOffset target, nw_size = 4, nw_step = 1\<rparr>)"

section \<open>Prefix information and link-layer address options\<close>

definition buildIcmpv6RaPrefixOnLinkFlagVmBody :: "ProfileWorkbenchStream \<Rightarrow> AdvancedVmBody" where
  "buildIcmpv6RaPrefixOnLinkFlagVmBody stream =
     (case icmpv6RaPrefixInfoTarget (rawOf stream) of
        None \<Rightarrow> advancedVmDefaultBody
      | Some target \<Rightarrow>
          buildIcmpv6MaskedBitVmBody (pi_l3Offset target) 0x80 ''icmpv6_ra_prefix_on_link'' 1 (pi_flagsOffset target) 7
            (pi_onLinkFlag target))"

definition buildIcmpv6RaPrefixAutonomousFlagVmBody :: "ProfileWorkbenchStream \<Rightarrow> AdvancedVmBody" where
  "buildIcmpv6RaPrefixAutonomousFlagVmBody stream =
     (case icmpv6RaPrefixInfoTarget (rawOf stream) of
        None \<Rightarrow> advancedVmDefaultBody
      | Some target \<Rightarrow>
          buildIcmpv6MaskedBitVmBody (pi_l3Offset target) 0x40 ''icmpv6_ra_prefix_autonomous'' 1
            (pi_flagsOffset target) 6 (pi_autonomousFlag target))"

definition buildIcmpv6RaPrefixLengthIncVmBody :: "ProfileWorkbenchStream \<Rightarrow> AdvancedVmBody" where
  "buildIcmpv6RaPrefixLengthIncVmBody stream =
     (case icmpv6RaPrefixInfoTarget (rawOf stream) of
        None \<Rightarrow> advancedVmDefaultBody
      | Some target \<Rightarrow>
          buildAdvancedNumberWriteVmBody
            \<lparr>nw_checksumInstruction = Some (icmpv6RawChecksumInstruction (pi_l3Offset target)), nw_count = 4,
             nw_initValue = pi_prefixLength target, nw_maxLimit = 128, nw_name = ''icmpv6_ra_prefix_length'',
             nw_pktOffset = pi_prefixLengthOffset target, nw_size = 1, nw_step = 1\<rparr>)"

definition buildIcmpv6RaPrefixValidLifetimeIncVmBody :: "ProfileWorkbenchStream \<Rightarrow> AdvancedVmBody" where
  "buildIcmpv6RaPrefixValidLifetimeIncVmBody stream =
     (case icmpv6RaPrefixInfoTarget (rawOf stream) of
        None \<Rightarrow> advancedVmDefaultBody
      | Some target \<Rightarrow>
          buildAdvancedNumberWriteVmBody
            \<lparr>nw_checksumInstruction = Some (icmpv6RawChecksumInstruction (pi_l3Offset target)), nw_count = 4,
             nw_initValue = pi_validLifetime target, nw_maxLimit = 4294967295,
             nw_name = ''icmpv6_ra_prefix_valid_lifetime'', nw_pktOffset = pi_validLifetimeOffset target, nw_size = 4,
             nw_step = 1\<rparr>)"

definition buildIcmpv6RaPrefixPreferredLifetimeIncVmBody :: "ProfileWorkbenchStream \<Rightarrow> AdvancedVmBody" where
  "buildIcmpv6RaPrefixPreferredLifetimeIncVmBody stream =
     (case icmpv6RaPrefixInfoTarget (rawOf stream) of
        None \<Rightarrow> advancedVmDefaultBody
      | Some target \<Rightarrow>
          buildAdvancedNumberWriteVmBody
            \<lparr>nw_checksumInstruction = Some (icmpv6RawChecksumInstruction (pi_l3Offset target)), nw_count = 4,
             nw_initValue = pi_preferredLifetime target, nw_maxLimit = 4294967295,
             nw_name = ''icmpv6_ra_prefix_preferred_lifetime'', nw_pktOffset = pi_preferredLifetimeOffset target,
             nw_size = 4, nw_step = 1\<rparr>)"

definition buildIcmpv6RaPrefixIncVmBody :: "ProfileWorkbenchStream \<Rightarrow> AdvancedVmBody" where
  "buildIcmpv6RaPrefixIncVmBody stream =
     (case icmpv6RaPrefixInfoTarget (rawOf stream) of
        None \<Rightarrow> advancedVmDefaultBody
      | Some target \<Rightarrow>
          buildIpv6AddressIncVmBody (pi_prefix target) (pi_prefixOffset target)
            (Some (icmpv6RawChecksumInstruction (pi_l3Offset target))) 4 ''icmpv6_ra_prefix'' 1)"

definition buildIcmpv6LinkLayerOptionMacIncVmBody :: "ProfileWorkbenchStream \<Rightarrow> AdvancedVmBody" where
  "buildIcmpv6LinkLayerOptionMacIncVmBody stream =
     (case icmpv6LinkLayerOptionMacTarget (rawOf stream) of
        None \<Rightarrow> advancedVmDefaultBody
      | Some target \<Rightarrow>
          let suffix = macFieldEngineSuffix (ll_mac target) 4
          in buildAdvancedNumberWriteVmBody
               \<lparr>nw_checksumInstruction = Some (icmpv6RawChecksumInstruction (ll_l3Offset target)), nw_count = 4,
                nw_initValue = sfx_initValue suffix, nw_maxLimit = fieldEngineMaxForSize (sfx_size suffix),
                nw_name = (if ll_optionType target = 2 then ''icmpv6_tlla_mac'' else ''icmpv6_slla_mac''),
                nw_pktOffset = ll_valueOffset target + 6 - sfx_size suffix, nw_size = sfx_size suffix,
                nw_step = 1\<rparr>)"

section \<open>The coupled checksum\<close>

text \<open>Moving an amount from one word to another keeps the sum.\<close>

lemma wordSum_sum: "wordSum bs None start n = (\<Sum>i<n. rawPacketWord bs (start + 2 * int i))"
  by (induction n arbitrary: start)
    (simp_all add: wordUnless_def sum.lessThan_Suc_shift algebra_simps del: sum.lessThan_Suc)

lemma wordSum_moved:
  assumes "i < n" "j < n" "i \<noteq> j"
    "\<And>k. k < n \<Longrightarrow> rawPacketWord ys (start + 2 * int k)
       = rawPacketWord bs (start + 2 * int k) + (if k = i then d else if k = j then - d else 0)"
  shows "wordSum ys None start n = wordSum bs None start n"
proof -
  have "(\<Sum>k<n. if k = i then d else if k = j then - d else 0) = (\<Sum>k\<in>{i, j}. if k = i then d else if k = j then - d else 0)"
    using assms(1,2) by (intro sum.mono_neutral_right) auto
  also have "\<dots> = 0" using assms(3) by simp
  finally have "(\<Sum>k<n. if k = i then d else if k = j then - d else 0) = 0" .
  then show ?thesis
    using assms(4) by (simp add: wordSum_sum sum.distrib)
qed

lemma closure_moved:
  assumes "is_bytes bs" "is_bytes ys" "0 \<le> off" "i \<in> {0, 2, 3}" "8 \<le> len"
    "\<And>j. j < off \<or> off + 8 \<le> j \<Longrightarrow> byteAt ys j = byteAt bs j"
    "\<And>k. k < 4 \<Longrightarrow> rawPacketWord ys (off + 2 * int k)
       = rawPacketWord bs (off + 2 * int k) + (if k = i then d else if k = 1 then - d else 0)"
  shows "rawPacketOnesComplementClosure ys off len = rawPacketOnesComplementClosure bs off len"
proof -
  let ?n = "wordsIn len" and ?t = "\<lambda>bs. take (nat (off + len)) bs"
  have n: "4 \<le> ?n" using assms(5) by (simp add: wordsIn_def)
  have "wordSum (?t ys) None off ?n = wordSum (?t bs) None off ?n"
  proof (rule wordSum_moved)
    show "i < ?n" "1 < ?n" "i \<noteq> 1" using assms(4) n by auto
    fix k
    assume k: "k < ?n"
    have word: "rawPacketWord (?t xs) p = rawPacketWord xs p" if "is_bytes xs" "off \<le> p" "p + 2 \<le> off + len" for xs p
      using that assms(3) by (simp add: rawPacketWord_eq is_bytes_take byteAt_take)
    show "rawPacketWord (?t ys) (off + 2 * int k)
        = rawPacketWord (?t bs) (off + 2 * int k) + (if k = i then d else if k = 1 then - d else 0)"
    proof (cases "k < 4")
      case True
      then show ?thesis using assms(1,2,5) assms(7) [OF True] by (simp add: word)
    next
      case False
      then have "k \<noteq> i" "k \<noteq> 1" using assms(4) by auto
      moreover have "byteAt (?t ys) j = byteAt (?t bs) j" if "off + 8 \<le> j" for j
        using that assms(3,6) by (simp add: byteAt_take)
      ultimately show ?thesis
        using False assms(1,2) by (simp add: rawPacketWord_eq is_bytes_take)
    qed
  qed
  then show ?thesis
    using assms by (simp add: closure_take)
qed

text \<open>Writing the \<open>k\<close>-th values of both variables.\<close>

definition coupledPacket :: "bytes \<Rightarrow> CoupledChecksum \<Rightarrow> int \<Rightarrow> bytes" where
  "coupledPacket bs spec k =
     storeBytes (storeBytes bs (cs_fieldOffset spec)
         (packetNumberToBytes (cs_value spec + k * cs_step spec) (cs_fieldSize spec)))
       (cs_checksumOffset spec) (packetNumberToBytes (cs_checksum spec - k * cs_checksumStep spec) 2)"

lemma packetNumberToBytes_small:
  "0 \<le> v \<Longrightarrow> v \<le> 255 \<Longrightarrow> packetNumberToBytes v 1 = [v]"
  "0 \<le> v \<Longrightarrow> v \<le> 65535 \<Longrightarrow> packetNumberToBytes v 2 = [v div 256, v mod 256]"
  by (simp_all add: packetNumberToBytes_def numeral_2_eq_2 js_and_mask8)

lemma word_store_word:
  assumes "is_bytes bs" "rawPacketHasBytes bs p 2" "0 \<le> v" "v \<le> 65535" "even (q - p)"
  shows "rawPacketWord (storeBytes bs p (packetNumberToBytes v 2)) q = (if q = p then v else rawPacketWord bs q)"
proof -
  have apart: "q = p \<or> q + 2 \<le> p \<or> p + 2 \<le> q" using assms(5) by presburger
  have v: "is_bytes (storeBytes bs p [v div 256, v mod 256])"
    using assms by (intro is_bytes_storeBytes) (auto simp: is_bytes_iff)
  have "rawPacketWord (storeBytes bs p [v div 256, v mod 256]) q = (if q = p then v else rawPacketWord bs q)"
    using assms apart hasBytesD [OF assms(2)]
    by (auto simp: rawPacketWord_eq v byteOr_storeBytes nth_Cons' simp del: storeBytes.simps)
  then show ?thesis using assms(3,4) by (simp add: packetNumberToBytes_small)
qed

lemma word_store_byte:
  assumes "is_bytes bs" "rawPacketHasBytes bs p 1" "0 \<le> v" "v \<le> 255"
  shows "rawPacketWord (storeBytes bs p (packetNumberToBytes v 1)) q
    = rawPacketWord bs q + (if q = p then 256 * (v - byteAt bs p) else if q + 1 = p then v - byteAt bs p else 0)"
proof -
  have v: "is_bytes (storeBytes bs p [v])"
    using assms by (intro is_bytes_storeBytes) (auto simp: is_bytes_iff)
  have "rawPacketWord (storeBytes bs p [v]) q
    = rawPacketWord bs q + (if q = p then 256 * (v - byteAt bs p) else if q + 1 = p then v - byteAt bs p else 0)"
    using assms hasBytesD [OF assms(2)]
    by (auto simp: rawPacketWord_eq v byteOr_storeBytes nth_Cons' simp del: storeBytes.simps)
  then show ?thesis using assms(3,4) by (simp add: packetNumberToBytes_small)
qed

text \<open>Where the echo message of a specification stands, and what it says.\<close>

lemma coupled_spec_echo:
  assumes "icmpv4EchoChecksumCoupledSpec s field = Some spec"
  obtains t where "find (echoAccepts (streamBytes (rawOf s))) (collectRawPacketIcmpChecksumTargets (streamBytes (rawOf s))) = Some t"
    "rawPacketHasBytes (streamBytes (rawOf s)) (icmp_icmpOffset t) 8" "8 \<le> icmp_length t"
    "rawPacketOnesComplementClosure (streamBytes (rawOf s)) (icmp_icmpOffset t) (icmp_length t) = 0xffff"
    "cs_checksumOffset spec = icmp_icmpOffset t + 2"
    "cs_checksum spec = rawPacketWord (streamBytes (rawOf s)) (icmp_icmpOffset t + 2)"
    "CoupledSpec.truncate spec = coupledFieldSpec s (echoAt (streamBytes (rawOf s)) t) field"
    "1 \<le> cs_step spec" "2 \<le> cs_count spec" "cs_checksumStep spec = cs_step spec * cs_wordUnit spec"
    "cs_value spec + cs_step spec * (cs_count spec - 1) \<le> cs_fieldMax spec"
    "cs_checksumMin spec = cs_checksum spec - cs_step spec * (cs_count spec - 1) * cs_wordUnit spec"
    "0 \<le> cs_checksumMin spec"
proof -
  let ?bs = "streamBytes (rawOf s)"
  obtain e where e: "icmpv4EchoRawTarget (rawOf s) = Some e"
    using assms by (auto simp: icmpv4EchoChecksumCoupledSpec_def split: option.splits)
  then obtain t where t: "find (echoAccepts ?bs) (collectRawPacketIcmpChecksumTargets ?bs) = Some t" "e = echoAt ?bs t"
    by (auto simp: icmpv4EchoRawTarget_def Let_def)
  have acc: "echoAccepts ?bs t" using t(1) by (auto simp: find_Some_iff)
  have at: "icmp_checksumOffset t = icmp_icmpOffset t + 2"
    using icmpv4EchoRawTargetD(2) [OF e] t(2) by (simp add: echoAt_def Let_def)
  show thesis
    by (rule that [OF t(1)])
      (use assms e t(2) acc at in
        \<open>auto simp: icmpv4EchoChecksumCoupledSpec_def echoAccepts_def Let_def CoupledSpec.defs echoAt_def
           split: if_splits\<close>)
qed

lemma coupled_fields:
  assumes "CoupledSpec.truncate spec = coupledFieldSpec s e field"
  shows "cs_fieldOffset spec = cs_fieldOffset (coupledFieldSpec s e field)"
    "cs_fieldSize spec = cs_fieldSize (coupledFieldSpec s e field)"
    "cs_fieldMax spec = cs_fieldMax (coupledFieldSpec s e field)"
    "cs_value spec = cs_value (coupledFieldSpec s e field)"
    "cs_wordUnit spec = cs_wordUnit (coupledFieldSpec s e field)"
  using assms by (simp_all add: CoupledSpec.defs CoupledSpec.splits coupledFieldSpec_def
      split: Icmpv4EchoChecksumCoupledField.splits)

text \<open>Every value of the field up to its bound goes with a checksum that closes.\<close>

lemma coupled_closes:
  assumes spec: "icmpv4EchoChecksumCoupledSpec s field = Some spec" and k: "0 \<le> k" "k < cs_count spec"
    and t: "find (echoAccepts (streamBytes (rawOf s))) (collectRawPacketIcmpChecksumTargets (streamBytes (rawOf s))) = Some t"
  shows "rawPacketOnesComplementClosure (coupledPacket (streamBytes (rawOf s)) spec k) (icmp_icmpOffset t) (icmp_length t) = 0xffff"
    "cs_value spec + k * cs_step spec \<le> cs_fieldMax spec"
    "cs_checksumMin spec \<le> cs_checksum spec - k * cs_checksumStep spec"
proof -
  let ?bs = "streamBytes (rawOf s)" and ?ys = "coupledPacket (streamBytes (rawOf s)) spec k"
  let ?off = "icmp_icmpOffset t" and ?d = "k * cs_checksumStep spec"
  obtain t' where t': "find (echoAccepts ?bs) (collectRawPacketIcmpChecksumTargets ?bs) = Some t'"
    and e: "rawPacketHasBytes ?bs (icmp_icmpOffset t') 8" "8 \<le> icmp_length t'"
      "rawPacketOnesComplementClosure ?bs (icmp_icmpOffset t') (icmp_length t') = 0xffff"
      "cs_checksumOffset spec = icmp_icmpOffset t' + 2" "cs_checksum spec = rawPacketWord ?bs (icmp_icmpOffset t' + 2)"
      "CoupledSpec.truncate spec = coupledFieldSpec s (echoAt ?bs t') field"
    and st: "1 \<le> cs_step spec" "2 \<le> cs_count spec" "cs_checksumStep spec = cs_step spec * cs_wordUnit spec"
      "cs_value spec + cs_step spec * (cs_count spec - 1) \<le> cs_fieldMax spec"
      "cs_checksumMin spec = cs_checksum spec - cs_step spec * (cs_count spec - 1) * cs_wordUnit spec"
      "0 \<le> cs_checksumMin spec"
    by (rule coupled_spec_echo [OF spec])
  have "t' = t" using t t' by simp
  note e = e [unfolded this]
  note fields = coupled_fields [OF e(6)]
  have unit: "0 \<le> cs_wordUnit spec"
    by (cases field) (simp_all add: fields coupledFieldSpec_def)
  have mono: "k * cs_step spec \<le> cs_step spec * (cs_count spec - 1)"
    using k st(1) by (simp add: mult.commute [of k] mult_left_mono)
  show upto: "cs_value spec + k * cs_step spec \<le> cs_fieldMax spec" using mono st(4) by simp
  have "?d \<le> cs_step spec * (cs_count spec - 1) * cs_wordUnit spec"
    using mult_right_mono [OF mono unit] st(3) by (simp add: mult.assoc)
  then show low: "cs_checksumMin spec \<le> cs_checksum spec - ?d" using st(5) by simp
  have d: "0 \<le> ?d" using k st(1,3) unit by simp
  have c: "0 \<le> cs_checksum spec - ?d" "cs_checksum spec - ?d \<le> 65535"
    using low st(6) d e(5) rawPacketWord_range [OF is_bytes_stream, of "rawOf s" "?off + 2"] by simp_all
  have ks: "0 \<le> k * cs_step spec" using k st(1) by simp
  note room = hasBytesD [OF e(1)]
  note b = byteAt_range [OF is_bytes_stream, of "rawOf s"]
  note w = rawPacketWord_range [OF is_bytes_stream, of "rawOf s"]
  define i :: nat where "i = (case field of EchoIdentifier \<Rightarrow> 2 | EchoSequence \<Rightarrow> 3 | _ \<Rightarrow> 0)"
  have eq: "rawPacketOnesComplementClosure ?ys ?off (icmp_length t) = rawPacketOnesComplementClosure ?bs ?off (icmp_length t)"
  proof (rule closure_moved [where i = i and d = ?d])
    show "is_bytes ?ys"
      by (simp add: coupledPacket_def is_bytes_storeBytes is_bytes_stream packetNumberToBytes_def numberToBytes_facts)
    show "i \<in> {0, 2, 3}" by (cases field) (simp_all add: i_def)
    show "byteAt ?ys j = byteAt ?bs j" if "j < ?off \<or> ?off + 8 \<le> j" for j
      using that room upto ks c b [of ?off]
      by (cases field) (auto simp: coupledPacket_def fields coupledFieldSpec_def echoAt_def Let_def e(4)
          packetNumberToBytes_def numberToBytes_facts byteOr_storeBytes simp del: storeBytes.simps)
    show "rawPacketWord ?ys (?off + 2 * int n) = rawPacketWord ?bs (?off + 2 * int n)
        + (if n = i then ?d else if n = 1 then - ?d else 0)" if "n < 4" for n
    proof -
      let ?xs = "storeBytes ?bs (cs_fieldOffset spec)
        (packetNumberToBytes (cs_value spec + k * cs_step spec) (cs_fieldSize spec))"
      have in8: "rawPacketHasBytes ?bs (?off + m) z" if "0 \<le> m" "0 < z" "m + z \<le> 8" for m z
        by (rule hasBytes_within [OF e(1)]) (use that in simp_all)
      have "length ?xs = length ?bs"
        using room
        by (cases field) (simp_all add: fields coupledFieldSpec_def echoAt_def Let_def packetNumberToBytes_def
            numberToBytes_facts del: storeBytes.simps)
      then have x: "is_bytes ?xs" "rawPacketHasBytes ?xs (?off + 2) 2"
        using in8 [of 2 2] hasBytes_length_cong [of ?xs ?bs]
        by (simp_all add: is_bytes_storeBytes is_bytes_stream packetNumberToBytes_def numberToBytes_facts)
      have field: "rawPacketWord ?xs (?off + 2 * int n) = rawPacketWord ?bs (?off + 2 * int n) + (if n = i then ?d else 0)"
        using that upto ks st(3) in8 [of 0 1] in8 [of 1 1] in8 [of 4 2] in8 [of 6 2] b w
        by (cases field) (auto simp: fields coupledFieldSpec_def echoAt_def Let_def i_def word_store_byte
            word_store_word is_bytes_stream)
      have "rawPacketWord ?ys (?off + 2 * int n)
          = (if n = 1 then cs_checksum spec - ?d else rawPacketWord ?xs (?off + 2 * int n))"
        unfolding coupledPacket_def e(4)
        using word_store_word [OF x c, of "?off + 2 * int n"] that by auto
      then show ?thesis
        unfolding field by (cases field) (auto simp: e(5) i_def)
    qed
  qed (use is_bytes_stream room e(2) in auto)
  then show "rawPacketOnesComplementClosure ?ys ?off (icmp_length t) = 0xffff"
    using e(3) by simp
qed


text \<open>One bit of a field, read with the signed operators of the language.\<close>

lemma js_bit_field:
  assumes "0 \<le> a" "a < 4294967296"
    "(m, s) \<in> {(0x80, 7), (0x40, 6), (0x80000000, 31), (0x40000000, 30), (0x20000000, 29)}"
  shows "js_ushr (js_and a m) s = a div 2 ^ nat s mod 2"
proof -
  have m: "a AND 2147483648 = a div 2 ^ 31 mod 2 * 2 ^ 31"
    using and_shifted_mask [of a 31 1] by (simp add: push_bit_eq_mult)
  have "js_ushr (js_and a 0x80000000) 31 = drop_bit 31 (take_bit 32 (a AND 2147483648))"
    by (simp add: js_ops_int take_bit_signed_take_bit)
  then have top: "js_ushr (js_and a 0x80000000) 31 = a div 2 ^ 31 mod 2"
    by (simp add: m take_bit_int_eq_self drop_bit_eq_div)
  show ?thesis
    using assms top
    by (auto simp: js_and_field [where n = 1 and k = 7] js_and_field [where n = 1 and k = 6]
        js_and_field [where n = 1 and k = 30] js_and_field [where n = 1 and k = 29] js_ushr_nonneg)
qed

lemma icmpv6_mask_sound:
  assumes "rawPacketHasBytes bs off sz" "0 \<le> s" "m = 2 ^ nat s" "v = rawPacketNumberValue bs off sz div 2 ^ nat s mod 2"
  shows "bodySound bs (buildIcmpv6MaskedBitVmBody l3 m name sz off s v)"
  unfolding buildIcmpv6MaskedBitVmBody_def
  by (rule flipped_bit_sound) (use assms in \<open>simp_all add: icmpv6RawChecksumInstruction_def\<close>)


lemma icmpv6_number_template [template_sound]:
  assumes "icmpv6EchoRawTarget (rawOf s) \<noteq> None" "countsPositive s"
  shows "bodySound (streamBytes (rawOf s)) (buildIcmpv6NumberIncVmBody s field)"
proof -
  let ?bs = "streamBytes (rawOf s)"
  obtain e where e: "icmpv6EchoRawTarget (rawOf s) = Some e" using assms(1) by auto
  then obtain t where t: "icmpv6RawTarget (rawOf s) = Some t"
    by (auto simp: icmpv6EchoRawTarget_def split: option.splits)
  have room: "rawPacketHasBytes ?bs (l46_offset t) 8"
    using e icmpv6RawTargetD(1) [OF t] by (auto simp: icmpv6EchoRawTarget_def t Let_def split: if_splits)
  have at: "l46_offset e = l46_offset t" "l46_l3Offset e = l46_l3Offset t"
    "echo6_type e = byteAt ?bs (l46_offset t)" "echo6_code e = byteAt ?bs (l46_offset t + 1)"
    "echo6_identifier e = rawPacketWord ?bs (l46_offset t + 4)"
    "echo6_sequence e = rawPacketWord ?bs (l46_offset t + 6)"
    using e icmpv6RawTargetD(1) [OF t]
    by (auto simp: icmpv6EchoRawTarget_def t Let_def Ipv6L4Target.defs split: if_splits)
  have within: "rawPacketHasBytes ?bs (l46_offset t + k) n" if "0 \<le> k" "0 < n" "k + n \<le> 8" for k n
    by (rule hasBytes_within [OF room]) (use that in simp_all)
  have bounds: "byteAt ?bs k \<le> 255" "rawPacketWord ?bs k \<le> 65535" for k
    using byteAt_range [OF is_bytes_stream, of "rawOf s" k] rawPacketWord_range [OF is_bytes_stream, of "rawOf s" k] by simp_all
  show ?thesis
    unfolding buildIcmpv6NumberIncVmBody_def e icmpv6NumberSpec_def fromTarget_simps at Let_def coupledCountField_def
    by (cases field; simp; intro numberBody_sound;
        use assms(2) bounds within [of 0 1] within [of 1 1] within [of 4 2] within [of 6 2] in
        \<open>simp_all add: rawPacketNumberValue_1 rawPacketNumberValue_2 is_bytes_stream min_less_iff_disj in_range\<close>)
qed

lemma icmpv6_nd_template [template_sound]:
  assumes "icmpv6NdTargetAddressTarget (rawOf s) = Some t" "ipv6FieldEngineSuffix (nd_address t) 4 \<noteq> None"
  shows "bodySound (streamBytes (rawOf s)) (buildIcmpv6NdTargetAddressIncVmBody s)"
proof -
  have at: "nd_address t = formatPacketIpv6 (streamBytes (rawOf s)) (nd_valueOffset t)"
    using assms(1) icmpv6RawTargetD(1)
    by (fastforce simp: icmpv6NdTargetAddressTarget_def Let_def split: option.splits if_splits)
  show ?thesis
    unfolding buildIcmpv6NdTargetAddressIncVmBody_def assms(1) option.case at
    by (rule ipv6_body_sound [OF is_bytes_stream nd_target_address.inside [OF assms(1)]])
      (use assms(2) in \<open>simp_all add: at icmpv6RawChecksumInstruction_def\<close>)
qed

lemma icmpv6_na_template [template_sound]:
  assumes "icmpv6NaFlagsTarget (rawOf s) \<noteq> None"
  shows "bodySound (streamBytes (rawOf s)) (buildIcmpv6NaRouterFlagVmBody s)"
    "bodySound (streamBytes (rawOf s)) (buildIcmpv6NaSolicitedFlagVmBody s)"
    "bodySound (streamBytes (rawOf s)) (buildIcmpv6NaOverrideFlagVmBody s)"
proof -
  let ?bs = "streamBytes (rawOf s)"
  obtain t where t: "icmpv6NaFlagsTarget (rawOf s) = Some t" using assms by auto
  let ?v = "rawPacketNumberValue ?bs (na_flagsOffset t) 4"
  have at: "na_routerFlag t = js_ushr (js_and ?v 0x80000000) 31" "na_solicitedFlag t = js_ushr (js_and ?v 0x40000000) 30"
    "na_overrideFlag t = js_ushr (js_and ?v 0x20000000) 29"
    using t icmpv6RawTargetD(1)
    by (fastforce simp: icmpv6NaFlagsTarget_def Let_def split: option.splits if_splits)+
  have v: "0 \<le> ?v" "?v < 4294967296"
    using rawPacketNumberValue_range [OF is_bytes_stream, of "rawOf s" "na_flagsOffset t" 4] by simp_all
  note sound = icmpv6_mask_sound [OF na_flags.inside [OF t]]
  show "bodySound ?bs (buildIcmpv6NaRouterFlagVmBody s)"
    unfolding buildIcmpv6NaRouterFlagVmBody_def t option.case
    by (rule sound) (simp_all add: at js_bit_field [OF v])
  show "bodySound ?bs (buildIcmpv6NaSolicitedFlagVmBody s)"
    unfolding buildIcmpv6NaSolicitedFlagVmBody_def t option.case
    by (rule sound) (simp_all add: at js_bit_field [OF v])
  show "bodySound ?bs (buildIcmpv6NaOverrideFlagVmBody s)"
    unfolding buildIcmpv6NaOverrideFlagVmBody_def t option.case
    by (rule sound) (simp_all add: at js_bit_field [OF v])
qed

lemma icmpv6_ra_template [template_sound]:
  assumes "icmpv6RaFixedTarget (rawOf s) \<noteq> None"
  shows "bodySound (streamBytes (rawOf s)) (buildIcmpv6RaManagedFlagVmBody s)"
    "bodySound (streamBytes (rawOf s)) (buildIcmpv6RaOtherFlagVmBody s)"
    "bodySound (streamBytes (rawOf s)) (buildIcmpv6RaCurrentHopLimitIncVmBody s)"
    "bodySound (streamBytes (rawOf s)) (buildIcmpv6RaRouterLifetimeIncVmBody s)"
    "bodySound (streamBytes (rawOf s)) (buildIcmpv6RaReachableTimeIncVmBody s)"
    "bodySound (streamBytes (rawOf s)) (buildIcmpv6RaRetransTimerIncVmBody s)"
proof -
  let ?bs = "streamBytes (rawOf s)"
  obtain t where t: "icmpv6RaFixedTarget (rawOf s) = Some t" using assms by auto
  define off where "off = ra_currentHopLimitOffset t"
  have at: "ra_flagsOffset t = off + 1" "ra_routerLifetimeOffset t = off + 2" "ra_reachableTimeOffset t = off + 4"
    "ra_retransTimerOffset t = off + 8" "ra_currentHopLimitOffset t = off"
    "ra_currentHopLimit t = byteAt ?bs off" "ra_routerLifetime t = rawPacketWord ?bs (off + 2)"
    "ra_reachableTime t = rawPacketNumberValue ?bs (off + 4) 4" "ra_retransTimer t = rawPacketNumberValue ?bs (off + 8) 4"
    "ra_managedFlag t = js_ushr (js_and (byteAt ?bs (off + 1)) 0x80) 7"
    "ra_otherFlag t = js_ushr (js_and (byteAt ?bs (off + 1)) 0x40) 6"
    using t icmpv6RawTargetD(1)
    by (fastforce simp: icmpv6RaFixedTarget_def Let_def off_def rawPacketNumberValue_1
        rawPacketNumberValue_2 is_bytes_stream add.assoc split: option.splits if_splits)+
  have within: "rawPacketHasBytes ?bs (off + k) n" if "0 \<le> k" "0 < n" "k + n \<le> 12" for k n
    by (rule hasBytes_within [OF ra_fixed.inside [OF t]]) (use that in \<open>simp_all add: off_def\<close>)
  have v: "0 \<le> byteAt ?bs (off + 1)" "byteAt ?bs (off + 1) < 4294967296"
    using byteAt_range [OF is_bytes_stream, of "rawOf s" "off + 1"] by simp_all
  have c [simp]: "repairs (optionalInstruction (Some (icmpv6RawChecksumInstruction l3)))" for l3
    by (simp add: icmpv6RawChecksumInstruction_def)
  have w: "rawPacketHasBytes ?bs off 1" using within [of 0 1] by simp
  show "bodySound ?bs (buildIcmpv6RaManagedFlagVmBody s)"
    unfolding buildIcmpv6RaManagedFlagVmBody_def t option.case at
    by (rule icmpv6_mask_sound) (simp_all add: within js_bit_field [OF v] rawPacketNumberValue_1)
  show "bodySound ?bs (buildIcmpv6RaOtherFlagVmBody s)"
    unfolding buildIcmpv6RaOtherFlagVmBody_def t option.case at
    by (rule icmpv6_mask_sound) (simp_all add: within js_bit_field [OF v] rawPacketNumberValue_1)
  show "bodySound ?bs (buildIcmpv6RaCurrentHopLimitIncVmBody s)"
    unfolding buildIcmpv6RaCurrentHopLimitIncVmBody_def t option.case at
    by (rule byte_write_sound [OF is_bytes_stream c w]) simp_all
  show "bodySound ?bs (buildIcmpv6RaRouterLifetimeIncVmBody s)"
    unfolding buildIcmpv6RaRouterLifetimeIncVmBody_def t option.case at
    by (rule word_write_sound [OF is_bytes_stream c]) (simp_all add: within)
  show "bodySound ?bs (buildIcmpv6RaReachableTimeIncVmBody s)"
    unfolding buildIcmpv6RaReachableTimeIncVmBody_def t option.case at
    by (rule long_write_sound [OF is_bytes_stream c]) (simp_all add: within)
  show "bodySound ?bs (buildIcmpv6RaRetransTimerIncVmBody s)"
    unfolding buildIcmpv6RaRetransTimerIncVmBody_def t option.case at
    by (rule long_write_sound [OF is_bytes_stream c]) (simp_all add: within)
qed


lemma icmpv6_prefix_template [template_sound]:
  assumes "icmpv6RaPrefixInfoTarget (rawOf s) = Some t"
  shows "bodySound (streamBytes (rawOf s)) (buildIcmpv6RaPrefixOnLinkFlagVmBody s)"
    "bodySound (streamBytes (rawOf s)) (buildIcmpv6RaPrefixAutonomousFlagVmBody s)"
    "bodySound (streamBytes (rawOf s)) (buildIcmpv6RaPrefixValidLifetimeIncVmBody s)"
    "bodySound (streamBytes (rawOf s)) (buildIcmpv6RaPrefixPreferredLifetimeIncVmBody s)"
    "pi_prefixLength t \<le> 128 \<Longrightarrow> bodySound (streamBytes (rawOf s)) (buildIcmpv6RaPrefixLengthIncVmBody s)"
    "ipv6FieldEngineSuffix (pi_prefix t) 4 \<noteq> None
      \<Longrightarrow> bodySound (streamBytes (rawOf s)) (buildIcmpv6RaPrefixIncVmBody s)"
proof -
  let ?bs = "streamBytes (rawOf s)"
  obtain l3 p wanted where t: "t = prefixInfoAt ?bs l3 p" and w: "wanted = (\<lambda>ty len :: int. ty = (3 :: int) \<and> len \<ge> 32)"
    and p: "\<exists>n off. findNdOption n ?bs wanted off = Some p"
    using assms icmpv6RawTargetD(1)
    by (fastforce simp: icmpv6RaPrefixInfoTarget_def Let_def split: option.splits if_splits)
  have room: "rawPacketHasBytes ?bs p (byteAt ?bs (p + 1) * 8)" "32 \<le> byteAt ?bs (p + 1) * 8"
    using p findNdOption_at w by blast+
  have within: "rawPacketHasBytes ?bs (p + k) n" if "0 \<le> k" "0 < n" "k + n \<le> 32" for k n
    by (rule hasBytes_within [OF room(1)]) (use that room(2) in simp_all)
  have v: "0 \<le> byteAt ?bs (p + 3)" "byteAt ?bs (p + 3) < 4294967296"
    using byteAt_range [OF is_bytes_stream, of "rawOf s" "p + 3"] by simp_all
  have c [simp]: "repairs (optionalInstruction (Some (icmpv6RawChecksumInstruction l3)))" for l3
    by (simp add: icmpv6RawChecksumInstruction_def)
  note body = assms option.case t prefixInfoAt_def Let_def RaPrefixInfo.simps
  show "bodySound ?bs (buildIcmpv6RaPrefixOnLinkFlagVmBody s)"
    unfolding buildIcmpv6RaPrefixOnLinkFlagVmBody_def body
    by (rule icmpv6_mask_sound) (simp_all add: within js_bit_field [OF v] rawPacketNumberValue_1)
  show "bodySound ?bs (buildIcmpv6RaPrefixAutonomousFlagVmBody s)"
    unfolding buildIcmpv6RaPrefixAutonomousFlagVmBody_def body
    by (rule icmpv6_mask_sound) (simp_all add: within js_bit_field [OF v] rawPacketNumberValue_1)
  show "bodySound ?bs (buildIcmpv6RaPrefixValidLifetimeIncVmBody s)"
    unfolding buildIcmpv6RaPrefixValidLifetimeIncVmBody_def body
    by (rule long_write_sound [OF is_bytes_stream c]) (simp_all add: within)
  show "bodySound ?bs (buildIcmpv6RaPrefixPreferredLifetimeIncVmBody s)"
    unfolding buildIcmpv6RaPrefixPreferredLifetimeIncVmBody_def body
    by (rule long_write_sound [OF is_bytes_stream c]) (simp_all add: within)
  show "bodySound ?bs (buildIcmpv6RaPrefixLengthIncVmBody s)" if "pi_prefixLength t \<le> 128"
    unfolding buildIcmpv6RaPrefixLengthIncVmBody_def body
    by (rule number_write_sound)
      (use that within [of 2 1] byteAt_range [OF is_bytes_stream, of "rawOf s" "p + 2"] in
        \<open>simp_all add: t prefixInfoAt_def Let_def rawPacketNumberValue_1 icmpv6RawChecksumInstruction_def\<close>)
  show "bodySound ?bs (buildIcmpv6RaPrefixIncVmBody s)" if "ipv6FieldEngineSuffix (pi_prefix t) 4 \<noteq> None"
    unfolding buildIcmpv6RaPrefixIncVmBody_def body
    by (rule ipv6_body_sound [OF is_bytes_stream within])
      (use that in \<open>simp_all add: t prefixInfoAt_def Let_def icmpv6RawChecksumInstruction_def\<close>)
qed

lemma icmpv6_link_layer_template [template_sound]:
  assumes "icmpv6LinkLayerOptionMacTarget (rawOf s) \<noteq> None"
  shows "bodySound (streamBytes (rawOf s)) (buildIcmpv6LinkLayerOptionMacIncVmBody s)"
proof -
  let ?bs = "streamBytes (rawOf s)"
  obtain t where t: "icmpv6LinkLayerOptionMacTarget (rawOf s) = Some t" using assms by auto
  then have mac: "ll_mac t = formatPacketMac ?bs (ll_valueOffset t)"
    using icmpv6RawTargetD(1)
    by (fastforce simp: icmpv6LinkLayerOptionMacTarget_def Let_def split: option.splits if_splits)
  note sfx = mac_suffix_sound [OF is_bytes_stream link_layer_option.inside [OF t], of 4]
  show ?thesis
    unfolding buildIcmpv6LinkLayerOptionMacIncVmBody_def t option.case mac Let_def
    by (rule suffix_write_sound [OF sfx]) (simp_all add: icmpv6RawChecksumInstruction_def)
qed

section \<open>The coupled body\<close>

lemma icmpv4_coupled_template [template_sound]:
  assumes "icmpv4EchoChecksumCoupledSpec s field = Some spec"
  shows "bodySound (streamBytes (rawOf s)) (buildIcmpv4EchoChecksumCoupledVmBody s field)"
proof -
  let ?bs = "streamBytes (rawOf s)"
  obtain t where e: "rawPacketHasBytes ?bs (icmp_icmpOffset t) 8"
      "cs_checksumOffset spec = icmp_icmpOffset t + 2" "cs_checksum spec = rawPacketWord ?bs (icmp_icmpOffset t + 2)"
      "CoupledSpec.truncate spec = coupledFieldSpec s (echoAt ?bs t) field"
    and st: "1 \<le> cs_step spec" "2 \<le> cs_count spec" "cs_checksumStep spec = cs_step spec * cs_wordUnit spec"
      "cs_value spec + cs_step spec * (cs_count spec - 1) \<le> cs_fieldMax spec"
      "cs_checksumMin spec = cs_checksum spec - cs_step spec * (cs_count spec - 1) * cs_wordUnit spec"
      "0 \<le> cs_checksumMin spec"
    by (rule coupled_spec_echo [OF assms])
  note fields = coupled_fields [OF e(4)]
  have within: "rawPacketHasBytes ?bs (icmp_icmpOffset t + k) n" if "0 \<le> k" "0 < n" "k + n \<le> 8" for k n
    by (rule hasBytes_within [OF e(1)]) (use that in simp_all)
  have delta: "0 \<le> cs_step spec * (cs_count spec - 1)" using st(1,2) by simp
  have unit: "1 \<le> cs_wordUnit spec" by (cases field) (simp_all add: fields coupledFieldSpec_def)
  have csum: "0 \<le> cs_checksum spec" "cs_checksum spec < 65536"
    using e(3) rawPacketWord_range [OF is_bytes_stream] by simp_all
  have counted: "cs_checksumMin spec \<le> cs_checksum spec" using st(5) delta unit by simp
  have stepped: "1 \<le> cs_checksumStep spec" using st(1,3) unit mult_mono [of 1 "cs_step spec" 1 "cs_wordUnit spec"] by simp
  have field: "rawPacketHasBytes ?bs (cs_fieldOffset spec) (cs_fieldSize spec)"
    "rawPacketNumberValue ?bs (cs_fieldOffset spec) (cs_fieldSize spec) = cs_value spec" "0 \<le> cs_value spec"
    "cs_fieldMax spec < 256 ^ nat (cs_fieldSize spec)"
    using within [of 0 1] within [of 1 1] within [of 4 2] within [of 6 2]
    by (cases field; simp add: fields coupledFieldSpec_def echoAt_def Let_def rawPacketNumberValue_1
        rawPacketNumberValue_2 is_bytes_stream in_range)+
  let ?n = "coupledCountField field"
  have "writePair ?bs ?n [flowVar ?n ''inc'' (cs_fieldSize spec) (cs_value spec) (cs_value spec)
      (cs_value spec + cs_step spec * (cs_count spec - 1)) (cs_step spec), writeFlowVar ?n 0 (cs_fieldOffset spec)]"
    (is "writePair _ _ ?a")
    by (rule writePair_literal) (use field delta st(1,4) in simp_all)
  moreover have "writePair ?bs (?n @ ''_csum'') [flowVar (?n @ ''_csum'') ''dec'' 2 (cs_checksum spec) (cs_checksumMin spec)
      (cs_checksum spec) (cs_checksumStep spec), writeFlowVar (?n @ ''_csum'') 0 (cs_checksumOffset spec)]"
    (is "writePair _ _ ?b")
    by (rule writePair_literal)
      (use within [of 2 2] csum counted stepped st(6) e(2,3) in \<open>simp_all add: rawPacketNumberValue_2 is_bytes_stream\<close>)
  ultimately show ?thesis
    unfolding buildIcmpv4EchoChecksumCoupledVmBody_def assms option.case Let_def
    by (intro several_body_sound [where ps = "[(?n, ?a), (?n @ ''_csum'', ?b)]" and rest = "[]"]) simp_all
qed

end
