(* ===== verification/VmDnsDhcp.thy ===== *)
theory VmDnsDhcp
  imports VmIpv4 DnsDhcp
begin

text \<open>
  The DNS and DHCP templates of \<open>advancedVmModel.ts\<close>. Each of them takes its field from the message
  in the packet when a dissector finds one, and from the form of the stream otherwise.
\<close>

section \<open>Which streams\<close>

definition udpForm :: "ProfileWorkbenchStream \<Rightarrow> string \<Rightarrow> bool" where
  "udpForm s enabled \<longleftrightarrow> endsWith (packetType s) ''/UDP'' \<and> flagOf s enabled"

definition isAdvancedDnsStream :: "ProfileWorkbenchStream option \<Rightarrow> bool" where
  "isAdvancedDnsStream = onStream (\<lambda>s. rawDnsQueryTarget (rawOf s) \<noteq> None \<or> udpForm s ''dns_enabled'')"

definition isAdvancedDnsQueryNameStream :: "ProfileWorkbenchStream option \<Rightarrow> bool" where
  "isAdvancedDnsQueryNameStream = onStream (\<lambda>s.
     Option.bind (rawDnsQueryTarget (rawOf s)) dns_queryNameFirstByteOffset \<noteq> None
     \<or> udpForm s ''dns_enabled'' \<and> dnsQueryNameFirstLabelByte (textOf s ''dns_query_name'') \<noteq> None)"

definition isAdvancedDnsAnswerStream :: "ProfileWorkbenchStream option \<Rightarrow> bool" where
  "isAdvancedDnsAnswerStream = onStream (\<lambda>s.
     rawDnsAnswerTarget (rawOf s) \<noteq> None \<or> udpForm s ''dns_enabled'' \<and> flagOf s ''dns_answer_enabled'')"

text \<open>\<open>rawTarget.answerIpv4 && rawTarget.answerIpv4Offset !== null\<close>.\<close>

definition hasAnswerIpv4 :: "DnsAnswerTarget \<Rightarrow> bool" where
  "hasAnswerIpv4 t \<longleftrightarrow> ans_answerIpv4 t \<notin> {None, Some []} \<and> ans_answerIpv4Offset t \<noteq> None"

definition isAdvancedDnsAnswerIpv4Stream :: "ProfileWorkbenchStream option \<Rightarrow> bool" where
  "isAdvancedDnsAnswerIpv4Stream = onStream (\<lambda>s.
     (case rawDnsAnswerTarget (rawOf s) of None \<Rightarrow> False | Some t \<Rightarrow> hasAnswerIpv4 t)
     \<or> udpForm s ''dns_enabled'' \<and> flagOf s ''dns_answer_enabled'')"

section \<open>DNS\<close>

datatype DnsAdvancedField =
  DnsAdditionalRrs | DnsAnswers | DnsAuthorityRrs | DnsQuestions | DnsTransactionId | DnsFlags | DnsQueryType
| DnsQueryClass | DnsAnswerTtl | DnsAnswerType | DnsAnswerClass | DnsAnswerIpv4

definition isDnsQueryField :: "DnsAdvancedField \<Rightarrow> bool" where
  "isDnsQueryField field \<longleftrightarrow>
     field \<in> {DnsAdditionalRrs, DnsAnswers, DnsAuthorityRrs, DnsFlags, DnsQueryClass, DnsQueryType, DnsQuestions,
              DnsTransactionId}"

definition isDnsAnswerField :: "DnsAnswerTarget \<Rightarrow> DnsAdvancedField \<Rightarrow> bool" where
  "isDnsAnswerField t field \<longleftrightarrow>
     field \<in> {DnsAnswerClass, DnsAnswerTtl, DnsAnswerType} \<or> field = DnsAnswerIpv4 \<and> hasAnswerIpv4 t"

text \<open>
  The table of the fields: \<open>q\<close> and \<open>a\<close> are the targets in use, \<open>payloadOffset\<close> and \<open>queryNameLength\<close> place the
  field of a form. \<open>word\<close> is an entry of two bytes with the count and step of the form.
\<close>

definition dnsWord :: "VmValue \<Rightarrow> string \<Rightarrow> int \<times> int \<Rightarrow> int \<Rightarrow> int \<Rightarrow> AdvancedNumberWriteSpec" where
  "dnsWord checksumInstruction name counted initValue pktOffset =
     \<lparr>nw_checksumInstruction = Some checksumInstruction, nw_count = fst counted, nw_initValue = initValue,
      nw_maxLimit = 65535, nw_name = name, nw_pktOffset = pktOffset, nw_size = 2, nw_step = snd counted\<rparr>"

definition countedBy :: "ProfileWorkbenchStream \<Rightarrow> string \<Rightarrow> int \<times> int" where
  "countedBy stream name = (numOf stream (name @ ''_count''), numOf stream (name @ ''_step''))"

definition dnsFieldSpec ::
  "ProfileWorkbenchStream \<Rightarrow> DnsQueryTarget option \<Rightarrow> DnsAnswerTarget option \<Rightarrow> int \<Rightarrow> int \<Rightarrow> VmValue
   \<Rightarrow> DnsAdvancedField \<Rightarrow> AdvancedNumberWriteSpec" where
  "dnsFieldSpec stream q a payloadOffset queryNameLength c field =
     (let nameEnd = payloadOffset + 12 + queryNameLength; answer = nameEnd + 4 in
      case field of
        DnsAdditionalRrs \<Rightarrow>
          dnsWord c ''dns_additional_rrs'' (4, 1) (fromTarget q dns_additionalCount 0)
            (fromTarget q dns_additionalCountOffset (payloadOffset + 10))
      | DnsAnswers \<Rightarrow>
          dnsWord c ''dns_answers'' (4, 1)
            (fromTarget q dns_answerCount (if flagOf stream ''dns_answer_enabled'' then 1 else 0))
            (fromTarget q dns_answerCountOffset (payloadOffset + 6))
      | DnsAuthorityRrs \<Rightarrow>
          dnsWord c ''dns_authority_rrs'' (4, 1) (fromTarget q dns_authorityCount 0)
            (fromTarget q dns_authorityCountOffset (payloadOffset + 8))
      | DnsQuestions \<Rightarrow>
          dnsWord c ''dns_questions'' (4, 1) (fromTarget q dns_questionCount 1)
            (fromTarget q dns_questionCountOffset (payloadOffset + 4))
      | DnsTransactionId \<Rightarrow>
          dnsWord c ''dns_transaction_id'' (countedBy stream ''dns_transaction_id'')
            (fromTarget q dns_transactionId (numOf stream ''dns_transaction_id''))
            (fromTarget q dns_transactionIdOffset payloadOffset)
      | DnsFlags \<Rightarrow>
          dnsWord c ''dns_flags'' (countedBy stream ''dns_flags'')
            (fromTarget q dns_flags (parseHexWord (textOf stream ''dns_flags'')))
            (fromTarget q dns_flagsOffset (payloadOffset + 2))
      | DnsQueryType \<Rightarrow>
          dnsWord c ''dns_query_type'' (countedBy stream ''dns_query_type'')
            (fromTarget q dns_queryType (numOf stream ''dns_query_type''))
            (fromTarget q dns_queryTypeOffset nameEnd)
      | DnsQueryClass \<Rightarrow>
          dnsWord c ''dns_query_class'' (countedBy stream ''dns_query_class'')
            (fromTarget q dns_queryClass (numOf stream ''dns_query_class''))
            (fromTarget q dns_queryClassOffset (nameEnd + 2))
      | DnsAnswerType \<Rightarrow>
          dnsWord c ''dns_answer_type'' (4, 1) (fromTarget a ans_answerType 1)
            (fromTarget a ans_answerTypeOffset (answer + 2))
      | DnsAnswerClass \<Rightarrow>
          dnsWord c ''dns_answer_class'' (4, 1) (fromTarget a ans_answerClass 1)
            (fromTarget a ans_answerClassOffset (answer + 4))
      | DnsAnswerTtl \<Rightarrow>
          \<lparr>nw_checksumInstruction = Some c, nw_count = numOf stream ''dns_answer_ttl_count'',
           nw_initValue = fromTarget a ans_answerTtl (numOf stream ''dns_answer_ttl''), nw_maxLimit = 4294967295,
           nw_name = ''dns_answer_ttl'', nw_pktOffset = fromTarget a ans_answerTtlOffset (answer + 6), nw_size = 4,
           nw_step = numOf stream ''dns_answer_ttl_step''\<rparr>
      | DnsAnswerIpv4 \<Rightarrow>
          let suffix = ipv4FieldEngineSuffix
                (fromTarget (Option.bind (rawDnsAnswerTarget (rawOf stream)) ans_answerIpv4) (\<lambda>v. v)
                   (textOf stream ''dns_answer_ipv4''))
                (numOf stream ''dns_answer_ipv4_count'')
          in \<lparr>nw_checksumInstruction = Some c, nw_count = numOf stream ''dns_answer_ipv4_count'',
              nw_initValue = sfx_initValue suffix, nw_maxLimit = fieldEngineMaxForSize (sfx_size suffix),
              nw_name = ''dns_answer_ipv4'',
              nw_pktOffset = (case Option.bind a ans_answerIpv4Offset of
                  Some off \<Rightarrow> off + 4 - sfx_size suffix
                | None \<Rightarrow> answer + 12 + 4 - sfx_size suffix),
              nw_size = sfx_size suffix, nw_step = numOf stream ''dns_answer_ipv4_step''\<rparr>)"

definition buildDnsFieldIncVmBody :: "ProfileWorkbenchStream \<Rightarrow> DnsAdvancedField \<Rightarrow> AdvancedVmBody" where
  "buildDnsFieldIncVmBody stream field =
     (let rawTarget = rawDnsQueryTarget (rawOf stream);
          rawAnswerTarget = rawDnsAnswerTarget (rawOf stream);
          q = (if isDnsQueryField field then rawTarget else None);
          a = (case rawAnswerTarget of None \<Rightarrow> None | Some t \<Rightarrow> if isDnsAnswerField t field then Some t else None);
          payloadOffset = fromTarget q dns_payloadOffset (outerUdpPayloadOffset stream);
          checksumInstruction = fromTarget q (\<lambda>t. checksumObject (dns_checksumInstruction t))
            (fromTarget a (\<lambda>t. checksumObject (ans_checksumInstruction t)) (outerUdpChecksumInstruction stream));
          queryNameLength = fromTarget q dns_queryNameLength (dnsNameWireLength (textOf stream ''dns_query_name''))
      in buildAdvancedNumberWriteVmBody
           (dnsFieldSpec stream q a payloadOffset queryNameLength checksumInstruction field))"

definition buildDnsTransactionIdIncVmBody :: "ProfileWorkbenchStream \<Rightarrow> AdvancedVmBody" where
  "buildDnsTransactionIdIncVmBody stream = buildDnsFieldIncVmBody stream DnsTransactionId"

definition buildDnsFlagsIncVmBody :: "ProfileWorkbenchStream \<Rightarrow> AdvancedVmBody" where
  "buildDnsFlagsIncVmBody stream = buildDnsFieldIncVmBody stream DnsFlags"

definition buildDnsQuestionsIncVmBody :: "ProfileWorkbenchStream \<Rightarrow> AdvancedVmBody" where
  "buildDnsQuestionsIncVmBody stream = buildDnsFieldIncVmBody stream DnsQuestions"

definition buildDnsAnswersIncVmBody :: "ProfileWorkbenchStream \<Rightarrow> AdvancedVmBody" where
  "buildDnsAnswersIncVmBody stream = buildDnsFieldIncVmBody stream DnsAnswers"

definition buildDnsAuthorityRrsIncVmBody :: "ProfileWorkbenchStream \<Rightarrow> AdvancedVmBody" where
  "buildDnsAuthorityRrsIncVmBody stream = buildDnsFieldIncVmBody stream DnsAuthorityRrs"

definition buildDnsAdditionalRrsIncVmBody :: "ProfileWorkbenchStream \<Rightarrow> AdvancedVmBody" where
  "buildDnsAdditionalRrsIncVmBody stream = buildDnsFieldIncVmBody stream DnsAdditionalRrs"

text \<open>The bits of the flags word.\<close>

datatype DnsFlagMaskedField =
  DnsAa | DnsOpcode | DnsRa | DnsRcode | DnsRd | DnsReserved | DnsResponse | DnsTc

definition dnsFlagSpec :: "DnsFlagMaskedField \<Rightarrow> int \<times> string \<times> int" where
  "dnsFlagSpec field =
     (case field of
        DnsAa \<Rightarrow> (0x0400, ''dns_aa'', 10)
      | DnsOpcode \<Rightarrow> (0x7800, ''dns_opcode'', 11)
      | DnsRa \<Rightarrow> (0x0080, ''dns_ra'', 7)
      | DnsRcode \<Rightarrow> (0x000f, ''dns_rcode'', 0)
      | DnsRd \<Rightarrow> (0x0100, ''dns_rd'', 8)
      | DnsReserved \<Rightarrow> (0x0070, ''dns_reserved'', 4)
      | DnsResponse \<Rightarrow> (0x8000, ''dns_response'', 15)
      | DnsTc \<Rightarrow> (0x0200, ''dns_tc'', 9))"

text \<open>The body both masked builders share: a flag is flipped, a longer field counts four values.\<close>

definition flagsMaskedBody :: "int \<Rightarrow> int \<times> string \<times> int \<Rightarrow> int \<Rightarrow> int \<Rightarrow> VmValue \<Rightarrow> AdvancedVmBody" where
  "flagsMaskedBody flags target sz flagsOffset checksumInstruction =
     (case target of (mask', name, shift) \<Rightarrow>
        let initValue = js_ushr (js_ushr (js_and flags mask') shift) 0;
            maxValue = js_ushr mask' shift
        in maskedBody name (if maxValue = 1 \<and> initValue = 1 then ''dec'' else ''inc'') sz initValue
             (if maxValue = 1 then 0 else initValue) (if maxValue = 1 then 1 else min maxValue (initValue + 3)) 1 2
             flagsOffset mask' shift [checksumInstruction])"

definition buildDnsFlagMaskedVmBody :: "ProfileWorkbenchStream \<Rightarrow> DnsFlagMaskedField \<Rightarrow> AdvancedVmBody" where
  "buildDnsFlagMaskedVmBody stream field =
     (let rawTarget = rawDnsQueryTarget (rawOf stream)
      in flagsMaskedBody (fromTarget rawTarget dns_flags (parseHexWord (textOf stream ''dns_flags''))) (dnsFlagSpec field) 1
           (fromTarget rawTarget dns_flagsOffset (outerUdpPayloadOffset stream + 2))
           (fromTarget rawTarget (\<lambda>t. checksumObject (dns_checksumInstruction t)) (outerUdpChecksumInstruction stream)))"

definition buildDnsResponseFlagVmBody :: "ProfileWorkbenchStream \<Rightarrow> AdvancedVmBody" where
  "buildDnsResponseFlagVmBody stream = buildDnsFlagMaskedVmBody stream DnsResponse"

definition buildDnsOpcodeIncVmBody :: "ProfileWorkbenchStream \<Rightarrow> AdvancedVmBody" where
  "buildDnsOpcodeIncVmBody stream = buildDnsFlagMaskedVmBody stream DnsOpcode"

definition buildDnsAuthoritativeAnswerFlagVmBody :: "ProfileWorkbenchStream \<Rightarrow> AdvancedVmBody" where
  "buildDnsAuthoritativeAnswerFlagVmBody stream = buildDnsFlagMaskedVmBody stream DnsAa"

definition buildDnsTruncatedFlagVmBody :: "ProfileWorkbenchStream \<Rightarrow> AdvancedVmBody" where
  "buildDnsTruncatedFlagVmBody stream = buildDnsFlagMaskedVmBody stream DnsTc"

definition buildDnsRecursionDesiredFlagVmBody :: "ProfileWorkbenchStream \<Rightarrow> AdvancedVmBody" where
  "buildDnsRecursionDesiredFlagVmBody stream = buildDnsFlagMaskedVmBody stream DnsRd"

definition buildDnsRecursionAvailableFlagVmBody :: "ProfileWorkbenchStream \<Rightarrow> AdvancedVmBody" where
  "buildDnsRecursionAvailableFlagVmBody stream = buildDnsFlagMaskedVmBody stream DnsRa"

definition buildDnsReservedFlagsIncVmBody :: "ProfileWorkbenchStream \<Rightarrow> AdvancedVmBody" where
  "buildDnsReservedFlagsIncVmBody stream = buildDnsFlagMaskedVmBody stream DnsReserved"

definition buildDnsResponseCodeIncVmBody :: "ProfileWorkbenchStream \<Rightarrow> AdvancedVmBody" where
  "buildDnsResponseCodeIncVmBody stream = buildDnsFlagMaskedVmBody stream DnsRcode"

definition buildDnsQueryTypeIncVmBody :: "ProfileWorkbenchStream \<Rightarrow> AdvancedVmBody" where
  "buildDnsQueryTypeIncVmBody stream = buildDnsFieldIncVmBody stream DnsQueryType"

definition buildDnsQueryClassIncVmBody :: "ProfileWorkbenchStream \<Rightarrow> AdvancedVmBody" where
  "buildDnsQueryClassIncVmBody stream = buildDnsFieldIncVmBody stream DnsQueryClass"

definition buildDnsQueryNameFirstByteIncVmBody :: "ProfileWorkbenchStream \<Rightarrow> AdvancedVmBody" where
  "buildDnsQueryNameFirstByteIncVmBody stream =
     (let rawTarget = rawDnsQueryTarget (rawOf stream);
          rawOffset = Option.bind rawTarget dns_queryNameFirstByteOffset
      in buildAdvancedNumberWriteVmBody
           \<lparr>nw_checksumInstruction = Some (fromTarget rawTarget (\<lambda>t. checksumObject (dns_checksumInstruction t))
              (outerUdpChecksumInstruction stream)),
            nw_count = 4,
            nw_initValue = (case (rawTarget, rawOffset) of
                (Some t, Some off) \<Rightarrow> dns_queryNameFirstByte t
              | _ \<Rightarrow> orElse (dnsQueryNameFirstLabelByte (textOf stream ''dns_query_name'')) 0),
            nw_maxLimit = 255, nw_name = ''dns_query_name_byte'',
            nw_pktOffset = orElse rawOffset (outerUdpPayloadOffset stream + 13), nw_size = 1, nw_step = 1\<rparr>)"

definition buildDnsAnswerTypeIncVmBody :: "ProfileWorkbenchStream \<Rightarrow> AdvancedVmBody" where
  "buildDnsAnswerTypeIncVmBody stream = buildDnsFieldIncVmBody stream DnsAnswerType"

definition buildDnsAnswerClassIncVmBody :: "ProfileWorkbenchStream \<Rightarrow> AdvancedVmBody" where
  "buildDnsAnswerClassIncVmBody stream = buildDnsFieldIncVmBody stream DnsAnswerClass"

definition buildDnsAnswerTtlIncVmBody :: "ProfileWorkbenchStream \<Rightarrow> AdvancedVmBody" where
  "buildDnsAnswerTtlIncVmBody stream = buildDnsFieldIncVmBody stream DnsAnswerTtl"

definition buildDnsAnswerIpv4IncVmBody :: "ProfileWorkbenchStream \<Rightarrow> AdvancedVmBody" where
  "buildDnsAnswerIpv4IncVmBody stream = buildDnsFieldIncVmBody stream DnsAnswerIpv4"

section \<open>Which streams carry a DHCP option\<close>

definition isAdvancedDhcpStream :: "ProfileWorkbenchStream option \<Rightarrow> bool" where
  "isAdvancedDhcpStream = onStream (\<lambda>s. rawDhcpTarget (rawOf s) \<noteq> None \<or> udpForm s ''dhcp_enabled'')"

text \<open>A message in the packet decides by its options, the form by a condition of its own.\<close>

definition dhcpOptionStream ::
  "ProfileWorkbenchStream option \<Rightarrow> (DhcpTarget \<Rightarrow> RawDhcpOptionTarget option) \<Rightarrow> (ProfileWorkbenchStream \<Rightarrow> bool) \<Rightarrow> bool" where
  "dhcpOptionStream stream option onForm =
     onStream (\<lambda>s. case rawDhcpTarget (rawOf s) of
         Some t \<Rightarrow> option t \<noteq> None
       | None \<Rightarrow> isAdvancedDhcpStream stream \<and> onForm s) stream"

definition isAdvancedDhcpMessageTypeStream :: "ProfileWorkbenchStream option \<Rightarrow> bool" where
  "isAdvancedDhcpMessageTypeStream stream = dhcpOptionStream stream dhcp_messageTypeOption (\<lambda>s. True)"

definition isAdvancedDhcpRequestedIpStream :: "ProfileWorkbenchStream option \<Rightarrow> bool" where
  "isAdvancedDhcpRequestedIpStream stream =
     dhcpOptionStream stream dhcp_requestedIpOption (\<lambda>s. textOf s ''dhcp_requested_ip'' \<noteq> ''0.0.0.0'')"

definition isAdvancedDhcpServerIdStream :: "ProfileWorkbenchStream option \<Rightarrow> bool" where
  "isAdvancedDhcpServerIdStream stream =
     dhcpOptionStream stream dhcp_serverIdOption (\<lambda>s. textOf s ''dhcp_server_id'' \<noteq> ''0.0.0.0'')"

definition positiveOf :: "ProfileWorkbenchStream \<Rightarrow> string \<Rightarrow> bool" where
  "positiveOf s f \<longleftrightarrow> finiteOf s f \<and> 0 < numOf s f"

definition isAdvancedDhcpLeaseTimeStream :: "ProfileWorkbenchStream option \<Rightarrow> bool" where
  "isAdvancedDhcpLeaseTimeStream stream =
     dhcpOptionStream stream dhcp_leaseTimeOption (\<lambda>s. positiveOf s ''dhcp_lease_time'')"

definition isAdvancedDhcpRenewalTimeStream :: "ProfileWorkbenchStream option \<Rightarrow> bool" where
  "isAdvancedDhcpRenewalTimeStream stream =
     dhcpOptionStream stream dhcp_renewalTimeOption (\<lambda>s. positiveOf s ''dhcp_renewal_time'')"

definition isAdvancedDhcpRebindingTimeStream :: "ProfileWorkbenchStream option \<Rightarrow> bool" where
  "isAdvancedDhcpRebindingTimeStream stream =
     dhcpOptionStream stream dhcp_rebindingTimeOption (\<lambda>s. positiveOf s ''dhcp_rebinding_time'')"

definition isAdvancedDhcpParameterRequestStream :: "ProfileWorkbenchStream option \<Rightarrow> bool" where
  "isAdvancedDhcpParameterRequestStream stream =
     dhcpOptionStream stream dhcp_parameterRequestOption
       (\<lambda>s. 0 < dhcpParameterRequestListLength (textOf s ''dhcp_parameter_request_list''))"

definition isAdvancedDhcpHostnameStream :: "ProfileWorkbenchStream option \<Rightarrow> bool" where
  "isAdvancedDhcpHostnameStream stream =
     dhcpOptionStream stream dhcp_hostnameOption (\<lambda>s. 0 < length (textOf s ''dhcp_hostname''))"

definition isAdvancedDhcpClientIdentifierStream :: "ProfileWorkbenchStream option \<Rightarrow> bool" where
  "isAdvancedDhcpClientIdentifierStream = onStream (\<lambda>s.
     Option.bind (rawDhcpTarget (rawOf s)) dhcp_clientIdentifierOption \<noteq> None)"

text \<open>The options that the form writes, in their order, and where the value of one of them stands.\<close>

definition dhcpFormOptions :: "ProfileWorkbenchStream \<Rightarrow> (int \<times> int) list" where
  "dhcpFormOptions stream =
     (let requests = dhcpParameterRequestListLength (textOf stream ''dhcp_parameter_request_list'');
          hostname = textOf stream ''dhcp_hostname''
      in [(53, 1)]
         @ (if requests > 0 then [(55, requests)] else [])
         @ (if hostname \<noteq> [] then [(12, int (length hostname))] else [])
         @ (if textOf stream ''dhcp_requested_ip'' \<noteq> ''0.0.0.0'' then [(50, 4)] else [])
         @ (if textOf stream ''dhcp_server_id'' \<noteq> ''0.0.0.0'' then [(54, 4)] else [])
         @ map (\<lambda>(code, f). (code, 4)) (filter (\<lambda>(code, f). positiveOf stream f)
             [(51, ''dhcp_lease_time''), (58, ''dhcp_renewal_time''), (59, ''dhcp_rebinding_time'')]))"

fun optionPlace :: "(int \<times> int) list \<Rightarrow> int \<Rightarrow> int \<Rightarrow> int option" where
  "optionPlace [] code payloadOffset = None"
| "optionPlace ((c, len) # options) code payloadOffset =
     (if c = code then Some (payloadOffset + 2) else optionPlace options code (payloadOffset + (2 + len)))"

definition dhcpOptionValueOffset :: "ProfileWorkbenchStream \<Rightarrow> int \<Rightarrow> int option" where
  "dhcpOptionValueOffset stream code =
     map_option (\<lambda>off. outerUdpPayloadOffset stream + off) (optionPlace (dhcpFormOptions stream) code 240)"

section \<open>DHCP\<close>

definition dhcpPayloadOffset :: "ProfileWorkbenchStream \<Rightarrow> int" where
  "dhcpPayloadOffset stream =
     fromTarget (rawDhcpTarget (rawOf stream)) dhcp_payloadOffset (outerUdpPayloadOffset stream)"

definition dhcpChecksum :: "ProfileWorkbenchStream \<Rightarrow> VmValue" where
  "dhcpChecksum stream =
     fromTarget (rawDhcpTarget (rawOf stream)) (\<lambda>t. checksumObject (dhcp_checksumInstruction t))
       (outerUdpChecksumInstruction stream)"

datatype DhcpNumberField = DhcpOperation | DhcpHops | DhcpSeconds | DhcpMessageType | DhcpXid | DhcpFlags

definition dhcpNumber ::
  "ProfileWorkbenchStream \<Rightarrow> string \<Rightarrow> int \<Rightarrow> int \<Rightarrow> int \<Rightarrow> int \<Rightarrow> AdvancedVmBody" where
  "dhcpNumber stream name sz maxLimit initValue pktOffset =
     buildAdvancedNumberWriteVmBody
       \<lparr>nw_checksumInstruction = Some (dhcpChecksum stream), nw_count = numOf stream (name @ ''_count''),
        nw_initValue = initValue, nw_maxLimit = maxLimit, nw_name = name, nw_pktOffset = pktOffset, nw_size = sz,
        nw_step = numOf stream (name @ ''_step'')\<rparr>"

definition buildDhcpNumberIncVmBody :: "ProfileWorkbenchStream \<Rightarrow> DhcpNumberField \<Rightarrow> AdvancedVmBody" where
  "buildDhcpNumberIncVmBody stream field =
     (let rawTarget = rawDhcpTarget (rawOf stream);
          payloadOffset = dhcpPayloadOffset stream;
          messageType = Option.bind rawTarget dhcp_messageTypeOption
      in case field of
           DhcpOperation \<Rightarrow>
             dhcpNumber stream ''dhcp_operation'' 1 255
               (fromTarget rawTarget dhcp_operation (numOf stream ''dhcp_operation''))
               (fromTarget rawTarget dhcp_operationOffset payloadOffset)
         | DhcpHops \<Rightarrow>
             dhcpNumber stream ''dhcp_hops'' 1 255 (fromTarget rawTarget dhcp_hops (numOf stream ''dhcp_hops''))
               (fromTarget rawTarget dhcp_hopsOffset (payloadOffset + 3))
         | DhcpSeconds \<Rightarrow>
             dhcpNumber stream ''dhcp_seconds'' 2 65535
               (fromTarget rawTarget dhcp_seconds (numOf stream ''dhcp_seconds''))
               (fromTarget rawTarget dhcp_secondsOffset (payloadOffset + 8))
         | DhcpMessageType \<Rightarrow>
             dhcpNumber stream ''dhcp_message_type'' 1 255
               (case (rawTarget, messageType) of
                  (Some t, Some opt) \<Rightarrow> byteAt (dhcp_bytes t) (dopt_offset opt)
                | _ \<Rightarrow> numOf stream ''dhcp_message_type'')
               (fromTarget messageType dopt_offset (payloadOffset + 242))
         | DhcpXid \<Rightarrow>
             dhcpNumber stream ''dhcp_xid'' 4 4294967295 (fromTarget rawTarget dhcp_xid (numOf stream ''dhcp_xid''))
               (fromTarget rawTarget dhcp_xidOffset (payloadOffset + 4))
         | DhcpFlags \<Rightarrow>
             dhcpNumber stream ''dhcp_flags'' 2 65535
               (fromTarget rawTarget dhcp_flags (parseHexWord (textOf stream ''dhcp_flags'')))
               (fromTarget rawTarget dhcp_flagsOffset (payloadOffset + 10)))"

datatype DhcpFlagMaskedField = DhcpBroadcast | DhcpReserved

definition dhcpFlagSpec :: "DhcpFlagMaskedField \<Rightarrow> int \<times> string \<times> int" where
  "dhcpFlagSpec field =
     (case field of DhcpBroadcast \<Rightarrow> (0x8000, ''dhcp_broadcast'', 15) | DhcpReserved \<Rightarrow> (0x7fff, ''dhcp_reserved_flags'', 0))"

definition buildDhcpFlagMaskedVmBody :: "ProfileWorkbenchStream \<Rightarrow> DhcpFlagMaskedField \<Rightarrow> AdvancedVmBody" where
  "buildDhcpFlagMaskedVmBody stream field =
     (let rawTarget = rawDhcpTarget (rawOf stream);
          (mask', name, shift) = dhcpFlagSpec field
      in flagsMaskedBody (fromTarget rawTarget dhcp_flags (parseHexWord (textOf stream ''dhcp_flags'')))
           (mask', name, shift) (if js_ushr mask' shift > 255 then 2 else 1)
           (fromTarget rawTarget dhcp_flagsOffset (dhcpPayloadOffset stream + 10)) (dhcpChecksum stream))"

datatype DhcpBootpIpv4Field = DhcpClientIp | DhcpYourIp | DhcpServerIp | DhcpRelayIp

definition dhcpBootpSource ::
  "ProfileWorkbenchStream \<Rightarrow> DhcpBootpIpv4Field \<Rightarrow> string \<times> string \<times> int" where
  "dhcpBootpSource stream field =
     (let rawTarget = rawDhcpTarget (rawOf stream); payloadOffset = dhcpPayloadOffset stream in
      case field of
        DhcpClientIp \<Rightarrow>
          (''dhcp_client_ip'', fromTarget rawTarget dhcp_clientIp (textOf stream ''dhcp_client_ip''),
           fromTarget rawTarget (\<lambda>t. dhcp_clientIpOffset t - payloadOffset) 12)
      | DhcpYourIp \<Rightarrow>
          (''dhcp_your_ip'', fromTarget rawTarget dhcp_yourIp (textOf stream ''dhcp_your_ip''),
           fromTarget rawTarget (\<lambda>t. dhcp_yourIpOffset t - payloadOffset) 16)
      | DhcpServerIp \<Rightarrow>
          (''dhcp_server_ip'', fromTarget rawTarget dhcp_serverIp (textOf stream ''dhcp_server_ip''),
           fromTarget rawTarget (\<lambda>t. dhcp_serverIpOffset t - payloadOffset) 20)
      | DhcpRelayIp \<Rightarrow>
          (''dhcp_relay_ip'', fromTarget rawTarget dhcp_relayIp (textOf stream ''dhcp_relay_ip''),
           fromTarget rawTarget (\<lambda>t. dhcp_relayIpOffset t - payloadOffset) 24))"

definition dhcpSuffixBody :: "ProfileWorkbenchStream \<Rightarrow> string \<Rightarrow> FieldEngineSuffix \<Rightarrow> int \<Rightarrow> AdvancedVmBody" where
  "dhcpSuffixBody stream name suffix endOffset =
     dhcpNumber stream name (sfx_size suffix) (fieldEngineMaxForSize (sfx_size suffix)) (sfx_initValue suffix)
       (endOffset - sfx_size suffix)"

definition buildDhcpBootpIpv4IncVmBody :: "ProfileWorkbenchStream \<Rightarrow> DhcpBootpIpv4Field \<Rightarrow> AdvancedVmBody" where
  "buildDhcpBootpIpv4IncVmBody stream field =
     (let (name, address, offset) = dhcpBootpSource stream field;
          suffix = ipv4FieldEngineSuffix address (numOf stream (name @ ''_count''))
      in dhcpSuffixBody stream name suffix (dhcpPayloadOffset stream + offset + 4))"

definition buildDhcpClientMacIncVmBody :: "ProfileWorkbenchStream \<Rightarrow> AdvancedVmBody" where
  "buildDhcpClientMacIncVmBody stream =
     (let rawTarget = rawDhcpTarget (rawOf stream);
          baseOffset = fromTarget rawTarget dhcp_clientMacOffset (outerUdpPayloadOffset stream + 28);
          suffix = macFieldEngineSuffix (fromTarget rawTarget dhcp_clientMac (textOf stream ''dhcp_client_mac''))
            (numOf stream ''dhcp_client_mac_count'')
      in dhcpSuffixBody stream ''dhcp_client_mac'' suffix (baseOffset + 6))"

datatype DhcpOptionIpv4Field = DhcpRequestedIp | DhcpServerId

definition buildDhcpOptionIpv4IncVmBody :: "ProfileWorkbenchStream \<Rightarrow> DhcpOptionIpv4Field \<Rightarrow> AdvancedVmBody" where
  "buildDhcpOptionIpv4IncVmBody stream field =
     (let requested = (field = DhcpRequestedIp);
          rawTarget = rawDhcpTarget (rawOf stream);
          rawOption = Option.bind rawTarget (if requested then dhcp_requestedIpOption else dhcp_serverIdOption);
          name = (if requested then ''dhcp_requested_ip'' else ''dhcp_server_id'');
          optionOffset = (case rawOption of
              Some opt \<Rightarrow> Some (dopt_offset opt)
            | None \<Rightarrow> dhcpOptionValueOffset stream (if requested then 50 else 54));
          address = (case (rawTarget, rawOption) of
              (Some t, Some opt) \<Rightarrow> formatPacketIpv4 (dhcp_bytes t) (dopt_offset opt)
            | _ \<Rightarrow> textOf stream name);
          suffix = ipv4FieldEngineSuffix address (numOf stream (name @ ''_count''))
      in dhcpSuffixBody stream name suffix (orElse optionOffset (outerUdpPayloadOffset stream) + 4))"

text \<open>The first byte of an option: of the packet, or else of the form.\<close>

definition dhcpFirstByteBody ::
  "ProfileWorkbenchStream \<Rightarrow> (DhcpTarget \<Rightarrow> RawDhcpOptionTarget option) \<Rightarrow> int \<Rightarrow> int \<Rightarrow> string \<Rightarrow> AdvancedVmBody" where
  "dhcpFirstByteBody stream option formValue formOffset name =
     (let rawTarget = rawDhcpTarget (rawOf stream);
          rawOption = Option.bind rawTarget option
      in buildAdvancedNumberWriteVmBody
           \<lparr>nw_checksumInstruction = Some (dhcpChecksum stream), nw_count = 4,
            nw_initValue = (case (rawTarget, rawOption) of
                (Some t, Some opt) \<Rightarrow> byteAt (dhcp_bytes t) (dopt_offset opt)
              | _ \<Rightarrow> formValue),
            nw_maxLimit = 255, nw_name = name, nw_pktOffset = fromTarget rawOption dopt_offset formOffset,
            nw_size = 1, nw_step = 1\<rparr>)"

definition buildDhcpParameterRequestFirstOptionIncVmBody :: "ProfileWorkbenchStream \<Rightarrow> AdvancedVmBody" where
  "buildDhcpParameterRequestFirstOptionIncVmBody stream =
     dhcpFirstByteBody stream dhcp_parameterRequestOption
       (dhcpParameterRequestFirstValue (textOf stream ''dhcp_parameter_request_list''))
       (orElse (dhcpOptionValueOffset stream 55) (outerUdpPayloadOffset stream + 245)) ''dhcp_parameter_request''"

definition buildDhcpHostnameFirstByteIncVmBody :: "ProfileWorkbenchStream \<Rightarrow> AdvancedVmBody" where
  "buildDhcpHostnameFirstByteIncVmBody stream =
     dhcpFirstByteBody stream dhcp_hostnameOption
       (case textOf stream ''dhcp_hostname'' of [] \<Rightarrow> 0 | c # rest \<Rightarrow> js_and (codeOf c) 0xff)
       (orElse (dhcpOptionValueOffset stream 12) (outerUdpPayloadOffset stream + 245)) ''dhcp_hostname_byte''"

definition buildDhcpClientIdentifierFirstByteIncVmBody :: "ProfileWorkbenchStream \<Rightarrow> AdvancedVmBody" where
  "buildDhcpClientIdentifierFirstByteIncVmBody stream =
     dhcpFirstByteBody stream dhcp_clientIdentifierOption 0 (outerUdpPayloadOffset stream) ''dhcp_client_identifier''"

datatype DhcpTimerField = DhcpLeaseTime | DhcpRenewalTime | DhcpRebindingTime

definition dhcpTimer :: "DhcpTimerField \<Rightarrow> int \<times> string \<times> (DhcpTarget \<Rightarrow> RawDhcpOptionTarget option)" where
  "dhcpTimer field =
     (case field of
        DhcpLeaseTime \<Rightarrow> (51, ''dhcp_lease_time'', dhcp_leaseTimeOption)
      | DhcpRenewalTime \<Rightarrow> (58, ''dhcp_renewal_time'', dhcp_renewalTimeOption)
      | DhcpRebindingTime \<Rightarrow> (59, ''dhcp_rebinding_time'', dhcp_rebindingTimeOption))"

definition buildDhcpTimerIncVmBody :: "ProfileWorkbenchStream \<Rightarrow> DhcpTimerField \<Rightarrow> AdvancedVmBody" where
  "buildDhcpTimerIncVmBody stream field =
     (let (optionCode, name, option) = dhcpTimer field;
          rawTarget = rawDhcpTarget (rawOf stream);
          rawOption = Option.bind rawTarget option;
          optionOffset = (case rawOption of
              Some opt \<Rightarrow> Some (dopt_offset opt)
            | None \<Rightarrow> dhcpOptionValueOffset stream optionCode)
      in dhcpNumber stream name 4 4294967295
           (case (rawTarget, rawOption) of
              (Some t, Some opt) \<Rightarrow> rawPacketNumberValue (dhcp_bytes t) (dopt_offset opt) 4
            | _ \<Rightarrow> numOf stream name)
           (orElse optionOffset (outerUdpPayloadOffset stream)))"


section \<open>Sound for the packets they find their field in\<close>

text \<open>Where the fields of the DNS header and its first question stand.\<close>

lemma dns_query_record:
  assumes "rawDnsQueryTarget s = Some t"
  shows "\<exists>udpOffset instruction queryNameEnd. rawPacketHasBytes (streamBytes s) (udpOffset + 8) 12
      \<and> t = (let bs = streamBytes s; payloadOffset = udpOffset + 8;
              queryNameOffset = payloadOffset + 12 in
           \<lparr>dns_additionalCount = rawPacketWord bs (payloadOffset + 10),
            dns_additionalCountOffset = payloadOffset + 10,
            dns_answerCount = rawPacketWord bs (payloadOffset + 6),
            dns_answerCountOffset = payloadOffset + 6,
            dns_authorityCount = rawPacketWord bs (payloadOffset + 8),
            dns_authorityCountOffset = payloadOffset + 8,
            dns_bytes = bs,
            dns_checksumInstruction = instruction,
            dns_flags = rawPacketWord bs (payloadOffset + 2),
            dns_flagsOffset = payloadOffset + 2,
            dns_payloadOffset = payloadOffset,
            dns_questionCount = rawPacketWord bs (payloadOffset + 4),
            dns_questionCountOffset = payloadOffset + 4,
            dns_queryClass = rawPacketWord bs (queryNameEnd + 2),
            dns_queryClassOffset = queryNameEnd + 2,
            dns_queryNameFirstByte = byteAt bs (queryNameOffset + 1),
            dns_queryNameFirstByteOffset =
              (if byteAt bs queryNameOffset > 0 \<and> rawPacketHasBytes bs (queryNameOffset + 1) 1
               then Some (queryNameOffset + 1) else None),
            dns_queryNameLength = queryNameEnd - queryNameOffset,
            dns_queryType = rawPacketWord bs queryNameEnd,
            dns_queryTypeOffset = queryNameEnd,
            dns_transactionId = rawPacketWord bs payloadOffset,
            dns_transactionIdOffset = payloadOffset,
            dns_udpOffset = udpOffset\<rparr>)"
proof -
  obtain target where r: "rawOuterTransportTarget s 17 11 8 = Some target"
    using assms by (auto simp: rawDnsQueryTarget_def split: option.splits)
  note b = rawOuterTransportTargetD(1) [OF r]
  show ?thesis
    by (rule exI [of _ "tr_offset target"], rule exI [of _ "tr_checksumInstruction target"])
      (use assms in \<open>auto simp: rawDnsQueryTarget_def r Let_def b split: if_split_asm option.split_asm\<close>)
qed

lemma dns_query_reads:
  assumes "rawDnsQueryTarget s = Some t"
  shows "rawPacketHasBytes (streamBytes s) (dns_payloadOffset t) 12"
    "dns_transactionIdOffset t = dns_payloadOffset t" "dns_flagsOffset t = dns_payloadOffset t + 2"
    "dns_questionCountOffset t = dns_payloadOffset t + 4" "dns_answerCountOffset t = dns_payloadOffset t + 6"
    "dns_authorityCountOffset t = dns_payloadOffset t + 8" "dns_additionalCountOffset t = dns_payloadOffset t + 10"
    "dns_queryClassOffset t = dns_queryTypeOffset t + 2"
    "dns_transactionId t = rawPacketWord (streamBytes s) (dns_transactionIdOffset t)"
    "dns_flags t = rawPacketWord (streamBytes s) (dns_flagsOffset t)"
    "dns_questionCount t = rawPacketWord (streamBytes s) (dns_questionCountOffset t)"
    "dns_answerCount t = rawPacketWord (streamBytes s) (dns_answerCountOffset t)"
    "dns_authorityCount t = rawPacketWord (streamBytes s) (dns_authorityCountOffset t)"
    "dns_additionalCount t = rawPacketWord (streamBytes s) (dns_additionalCountOffset t)"
    "dns_queryType t = rawPacketWord (streamBytes s) (dns_queryTypeOffset t)"
    "dns_queryClass t = rawPacketWord (streamBytes s) (dns_queryClassOffset t)"
    "dns_queryNameFirstByteOffset t = Some off
      \<Longrightarrow> rawPacketHasBytes (streamBytes s) off 1 \<and> dns_queryNameFirstByte t = byteAt (streamBytes s) off"
  using dns_query_record [OF assms] by (auto simp: Let_def add_ac split: if_split_asm)


lemma checksum_repairs [simp]: "repairs (optionalInstruction (Some (checksumObject d)))" "repairs [checksumObject d]"
  by simp_all

lemma dns_query_template [template_sound]:
  assumes "rawDnsQueryTarget (rawOf s) \<noteq> None" "countsPositive s" "isDnsQueryField field"
  shows "bodySound (streamBytes (rawOf s)) (buildDnsFieldIncVmBody s field)"
proof -
  let ?bs = "streamBytes (rawOf s)"
  obtain t where t: "rawDnsQueryTarget (rawOf s) = Some t" using assms(1) by auto
  note at = dns_query_reads [OF t]
  have within: "rawPacketHasBytes ?bs (dns_payloadOffset t + k) n" if "0 \<le> k" "0 < n" "k + n \<le> 12" for k n
    by (rule hasBytes_within [OF at(1)]) (use that in simp_all)
  have within4: "rawPacketHasBytes ?bs (dns_queryTypeOffset t + k) n" if "0 \<le> k" "0 < n" "k + n \<le> 4" for k n
    by (rule hasBytes_within [OF dns_query_type.inside [OF t]]) (use that in simp_all)
  show ?thesis
    using assms(3) unfolding buildDnsFieldIncVmBody_def t Let_def dnsFieldSpec_def dnsWord_def countedBy_def
    by (cases field; simp add: isDnsQueryField_def at(9-16))
      (rule word_write_sound [OF is_bytes_stream checksum_repairs(1) _ refl];
        use assms(2) within [of 0 2] within4 [of 0 2] in \<open>simp add: within within4 at(2-8)\<close>)+
qed

lemma flagsMaskedBody_sound:
  assumes "is_bytes bs" "rawPacketHasBytes bs off 2" "v = rawPacketWord bs off" "m = (2 ^ n - 1) * 2 ^ nat s"
    "0 \<le> s" "s \<le> 15" "0 < n" "n \<le> 15" "m < 65536" "2 ^ n \<le> (256 :: int) ^ nat sz" "repairs [c]"
  shows "bodySound bs (flagsMaskedBody v (m, name, s) sz off c)"
proof -
  have v: "0 \<le> v" "v < 65536" using rawPacketWord_range [OF assms(1)] by (simp_all add: assms(3))
  have m: "0 \<le> m" by (simp add: assms(4))
  have part: "0 \<le> v div 2 ^ nat s mod 2 ^ n" "v div 2 ^ nat s mod 2 ^ n < 2 ^ n" by simp_all
  have "v div 2 ^ nat s mod 2 ^ n * 2 ^ nat s \<le> m"
    unfolding assms(4) using part by (intro mult_right_mono) simp_all
  then have "0 \<le> js_and v m" "js_and v m < 65536" "js_and v m div 2 ^ nat s = v div 2 ^ nat s mod 2 ^ n"
    using assms(9) m by (simp_all add: js_and_field [OF assms(4)])
  then have field: "js_ushr (js_and v m) s = v div 2 ^ nat s mod 2 ^ n"
    using assms(5,6) by (simp add: js_ushr_nonneg)
  have "v div 2 ^ nat s mod 2 ^ n < 2 ^ 15"
    by (rule order_less_le_trans [OF part(2) power_increasing]) (use assms(8) in simp_all)
  then have field0: "js_ushr (js_ushr (js_and v m) s) 0 = v div 2 ^ nat s mod 2 ^ n"
    unfolding field by (subst js_ushr_nonneg) simp_all
  have top: "js_ushr m s = 2 ^ n - 1"
    using assms(5,6,9) m by (simp add: js_ushr_nonneg) (simp add: assms(4))
  have one: "(2 :: int) ^ n - 1 = 1 \<longleftrightarrow> n = 1"
    using power_inject_exp [of "2 :: int" n 1] by auto
  have w: "rawPacketNumberValue bs off 2 = v" by (simp add: rawPacketNumberValue_2 assms(1,3))
  show ?thesis
    unfolding flagsMaskedBody_def prod.case Let_def field0 top one
    by (rule maskedBody_sound [where n = n]) (use assms part in \<open>auto simp: w min_def\<close>)
qed

lemma dns_flag_template [template_sound]:
  assumes "rawDnsQueryTarget (rawOf s) \<noteq> None"
  shows "bodySound (streamBytes (rawOf s)) (buildDnsFlagMaskedVmBody s field)"
proof -
  obtain t where t: "rawDnsQueryTarget (rawOf s) = Some t" using assms by auto
  note at = dns_query_reads [OF t]
  have room: "rawPacketHasBytes (streamBytes (rawOf s)) (dns_flagsOffset t) 2"
    unfolding at(3) by (rule hasBytes_within [OF at(1)]) simp_all
  define n :: nat where "n = (case field of DnsOpcode \<Rightarrow> 4 | DnsRcode \<Rightarrow> 4 | DnsReserved \<Rightarrow> 3 | _ \<Rightarrow> 1)"
  obtain m name k where f: "dnsFlagSpec field = (m, name, k)" by (cases "dnsFlagSpec field")
  have spec: "m = (2 ^ n - 1) * 2 ^ nat k" "0 \<le> k" "k \<le> 15" "0 < n" "n \<le> 15" "m < 65536" "2 ^ n \<le> (256 :: int)"
    using f by (cases field; simp add: dnsFlagSpec_def n_def; fail)+
  show ?thesis
    unfolding buildDnsFlagMaskedVmBody_def t Let_def fromTarget_simps f
    by (rule flagsMaskedBody_sound [OF is_bytes_stream room at(10) spec(1)]) (use spec in simp_all)
qed

lemma dns_name_template [template_sound]:
  assumes "Option.bind (rawDnsQueryTarget (rawOf s)) dns_queryNameFirstByteOffset \<noteq> None"
  shows "bodySound (streamBytes (rawOf s)) (buildDnsQueryNameFirstByteIncVmBody s)"
proof -
  obtain t off where t: "rawDnsQueryTarget (rawOf s) = Some t" "dns_queryNameFirstByteOffset t = Some off"
    using assms by (auto simp: bind_eq_Some_conv)
  note at = dns_query_reads(17) [OF t]
  show ?thesis
    unfolding buildDnsQueryNameFirstByteIncVmBody_def t Let_def
    by (simp add: t, rule byte_write_sound [OF is_bytes_stream checksum_repairs(1)]) (use at in simp_all)
qed


text \<open>The answer record.\<close>

lemma dns_answer_reads:
  assumes "rawDnsAnswerTarget s = Some t"
  shows "ans_answerClassOffset t = ans_answerTypeOffset t + 2" "ans_answerTtlOffset t = ans_answerTypeOffset t + 4"
    "ans_answerType t = rawPacketWord (streamBytes s) (ans_answerTypeOffset t)"
    "ans_answerClass t = rawPacketWord (streamBytes s) (ans_answerClassOffset t)"
    "ans_answerTtl t = rawPacketNumberValue (streamBytes s) (ans_answerTtlOffset t) 4"
    "ans_answerIpv4Offset t = Some off
      \<Longrightarrow> rawPacketHasBytes (streamBytes s) off 4 \<and> ans_answerIpv4 t = Some (formatPacketIpv4 (streamBytes s) off)"
proof -
  obtain q where q: "rawDnsQueryTarget s = Some q"
    using assms by (auto simp: rawDnsAnswerTarget_def split: option.splits)
  note b = rawDnsQueryTarget_bytes [OF q]
  show "ans_answerClassOffset t = ans_answerTypeOffset t + 2" "ans_answerTtlOffset t = ans_answerTypeOffset t + 4"
    "ans_answerType t = rawPacketWord (streamBytes s) (ans_answerTypeOffset t)"
    "ans_answerClass t = rawPacketWord (streamBytes s) (ans_answerClassOffset t)"
    "ans_answerTtl t = rawPacketNumberValue (streamBytes s) (ans_answerTtlOffset t) 4"
    using assms by (auto simp: rawDnsAnswerTarget_def q b Let_def split: if_split_asm option.split_asm)
  show "rawPacketHasBytes (streamBytes s) off 4 \<and> ans_answerIpv4 t = Some (formatPacketIpv4 (streamBytes s) off)"
    if "ans_answerIpv4Offset t = Some off"
    using assms that by (auto simp: rawDnsAnswerTarget_def q b Let_def split: if_split_asm option.split_asm)
qed

lemma dns_answer_template [template_sound]:
  assumes "rawDnsAnswerTarget (rawOf s) = Some t" "countsPositive s" "\<not> isDnsQueryField field" "isDnsAnswerField t field"
  shows "bodySound (streamBytes (rawOf s)) (buildDnsFieldIncVmBody s field)"
proof -
  let ?bs = "streamBytes (rawOf s)"
  note at = dns_answer_reads [OF assms(1)]
  have within: "rawPacketHasBytes ?bs (ans_answerTypeOffset t + k) n" if "0 \<le> k" "0 < n" "k + n \<le> 10" for k n
    by (rule hasBytes_within [OF dns_answer.inside [OF assms(1)]]) (use that in simp_all)
  have w: "rawPacketHasBytes ?bs (ans_answerTypeOffset t) 2" using within [of 0 2] by simp
  consider "field = DnsAnswerType" | "field = DnsAnswerClass" | "field = DnsAnswerTtl" | "field = DnsAnswerIpv4"
    using assms(3) by (cases field) (simp_all add: isDnsQueryField_def)
  then show ?thesis
  proof cases
    case 1
    show ?thesis
      unfolding buildDnsFieldIncVmBody_def 1 dnsFieldSpec_def dnsWord_def Let_def
      by (simp add: assms(1) isDnsQueryField_def isDnsAnswerField_def,
          rule word_write_sound [OF is_bytes_stream checksum_repairs(1)]) (use w at(3) in simp_all)
  next
    case 2
    show ?thesis
      unfolding buildDnsFieldIncVmBody_def 2 dnsFieldSpec_def dnsWord_def Let_def
      by (simp add: assms(1) isDnsQueryField_def isDnsAnswerField_def,
          rule word_write_sound [OF is_bytes_stream checksum_repairs(1)]) (use within at(1,4) in simp_all)
  next
    case 3
    show ?thesis
      unfolding buildDnsFieldIncVmBody_def 3 dnsFieldSpec_def Let_def
      by (simp add: assms(1) isDnsQueryField_def isDnsAnswerField_def,
          rule long_write_sound [OF is_bytes_stream checksum_repairs(1)]) (use within at(2,5) assms(2) in simp_all)
  next
    case 4
    then have h: "hasAnswerIpv4 t" using assms(4) by (simp add: isDnsAnswerField_def)
    then obtain off where off: "ans_answerIpv4Offset t = Some off" by (auto simp: hasAnswerIpv4_def)
    note v = at(6) [OF off]
    note sfx = ipv4_suffix_sound [OF is_bytes_stream v [THEN conjunct1], of "numOf s ''dns_answer_ipv4_count''"]
    show ?thesis
      unfolding buildDnsFieldIncVmBody_def 4 dnsFieldSpec_def Let_def
      by (simp add: assms(1) isDnsQueryField_def isDnsAnswerField_def h off v [THEN conjunct2],
          rule suffix_write_sound [OF sfx]) (use assms(2) in simp_all)
  qed
qed


section \<open>DHCP messages\<close>

lemma dhcp_record:
  assumes "rawDhcpTarget s = Some t"
  obtains instruction n udpEnd off p where
    "t = dhcpTargetAt (streamBytes s) instruction p (dhcpOptions n (streamBytes s) udpEnd off (\<lambda>_. None))"
proof -
  obtain target where r: "rawOuterTransportTarget s 17 11 8 = Some target"
    using assms by (auto simp: rawDhcpTarget_def split: option.splits)
  note b = rawOuterTransportTargetD(1) [OF r]
  let ?bs = "streamBytes s" and ?off = "tr_offset target"
  have "t = dhcpTargetAt ?bs (tr_checksumInstruction target) (?off + 8) (dhcpOptions 64 ?bs
      (if rawPacketWord ?bs (?off + 4) = 0 then int (length ?bs) else ?off + rawPacketWord ?bs (?off + 4))
      (?off + 8 + 240) (\<lambda>_. None))"
    using assms by (simp add: rawDhcpTarget_def r b Let_def del: dhcpOptions.simps split: if_split_asm)
  then show thesis by (rule that)
qed

lemma dhcp_bytes_stream: "rawDhcpTarget s = Some t \<Longrightarrow> dhcp_bytes t = streamBytes s"
  by (erule dhcp_record) (simp add: dhcpTargetAt_def)

lemma dhcp_option_at:
  assumes "dhcpOptions n bs udpEnd off (\<lambda>_. None) code = Some opt"
  shows "rawPacketHasBytes bs (dopt_offset opt) (dopt_length opt)"
  using dhcpOptions_sound [OF assms] by simp

text \<open>Every option of the target stands in the packet; those of a fixed length have it.\<close>

lemma dhcp_options_inside:
  assumes t: "rawDhcpTarget s = Some t"
  shows "f \<in> {dhcp_parameterRequestOption, dhcp_hostnameOption, dhcp_clientIdentifierOption, dhcp_messageTypeOption}
      \<Longrightarrow> f t = Some opt \<Longrightarrow> rawPacketHasBytes (streamBytes s) (dopt_offset opt) 1"
    "f \<in> {dhcp_requestedIpOption, dhcp_serverIdOption, dhcp_leaseTimeOption, dhcp_renewalTimeOption,
        dhcp_rebindingTimeOption}
      \<Longrightarrow> f t = Some opt \<Longrightarrow> rawPacketHasBytes (streamBytes s) (dopt_offset opt) 4"
proof -
  obtain i n u off p where r: "t = dhcpTargetAt (streamBytes s) i p (dhcpOptions n (streamBytes s) u off (\<lambda>_. None))"
    by (rule dhcp_record [OF t])
  have variable: "rawPacketHasBytes (streamBytes s) (dopt_offset opt) 1"
    if "variableOption (dhcpOptions n (streamBytes s) u off (\<lambda>_. None)) c = Some opt" for c
    using that dhcp_option_at [of n "streamBytes s" u off c opt]
    by (auto simp: variableOption_def rawPacketHasBytes_def split: option.splits if_splits)
  have fixed: "rawPacketHasBytes (streamBytes s) (dopt_offset opt) z"
    if "optionValue (dhcpOptions n (streamBytes s) u off (\<lambda>_. None)) c z = Some opt" for c z
    using that dhcp_option_at [of n "streamBytes s" u off c opt]
    by (auto simp: optionValue_def split: option.splits if_splits)
  show "rawPacketHasBytes (streamBytes s) (dopt_offset opt) 1"
    if "f \<in> {dhcp_parameterRequestOption, dhcp_hostnameOption, dhcp_clientIdentifierOption, dhcp_messageTypeOption}"
      "f t = Some opt"
    using that variable fixed [of _ 1] by (auto simp: r dhcpTargetAt_def)
  show "rawPacketHasBytes (streamBytes s) (dopt_offset opt) 4"
    if "f \<in> {dhcp_requestedIpOption, dhcp_serverIdOption, dhcp_leaseTimeOption, dhcp_renewalTimeOption,
        dhcp_rebindingTimeOption}" "f t = Some opt"
    using that fixed [of _ 4] by (auto simp: r dhcpTargetAt_def)
qed

lemma dhcp_reads:
  assumes "rawDhcpTarget s = Some t"
  shows "dhcp_operationOffset t = dhcp_payloadOffset t" "dhcp_hopsOffset t = dhcp_payloadOffset t + 3"
    "dhcp_xidOffset t = dhcp_payloadOffset t + 4" "dhcp_secondsOffset t = dhcp_payloadOffset t + 8"
    "dhcp_flagsOffset t = dhcp_payloadOffset t + 10" "dhcp_clientIpOffset t = dhcp_payloadOffset t + 12"
    "dhcp_yourIpOffset t = dhcp_payloadOffset t + 16" "dhcp_serverIpOffset t = dhcp_payloadOffset t + 20"
    "dhcp_relayIpOffset t = dhcp_payloadOffset t + 24" "dhcp_clientMacOffset t = dhcp_payloadOffset t + 28"
    "dhcp_operation t = byteAt (streamBytes s) (dhcp_operationOffset t)"
    "dhcp_hops t = byteAt (streamBytes s) (dhcp_hopsOffset t)"
    "dhcp_xid t = rawPacketNumberValue (streamBytes s) (dhcp_xidOffset t) 4"
    "dhcp_seconds t = rawPacketWord (streamBytes s) (dhcp_secondsOffset t)"
    "dhcp_flags t = rawPacketWord (streamBytes s) (dhcp_flagsOffset t)"
    "dhcp_clientIp t = formatPacketIpv4 (streamBytes s) (dhcp_clientIpOffset t)"
    "dhcp_yourIp t = formatPacketIpv4 (streamBytes s) (dhcp_yourIpOffset t)"
    "dhcp_serverIp t = formatPacketIpv4 (streamBytes s) (dhcp_serverIpOffset t)"
    "dhcp_relayIp t = formatPacketIpv4 (streamBytes s) (dhcp_relayIpOffset t)"
    "dhcp_clientMac t = formatPacketMac (streamBytes s) (dhcp_clientMacOffset t)"
  by (rule dhcp_record [OF assms], simp add: dhcpTargetAt_def)+

text \<open>A number of a message.\<close>

lemma dhcp_repairs: "rawDhcpTarget (rawOf s) = Some t \<Longrightarrow> repairs (optionalInstruction (Some (dhcpChecksum s)))"
  by (simp add: dhcpChecksum_def)

lemma counted_name:
  assumes "countsPositive s"
  shows "1 \<le> numOf s (name @ ''_count'')" "1 \<le> numOf s (name @ ''_step'')"
  by (rule countsPositiveD(1) [OF assms], simp)+

lemma dhcp_number_sound:
  assumes "rawDhcpTarget (rawOf s) = Some t" "countsPositive s"
  shows "rawPacketHasBytes (streamBytes (rawOf s)) off 1 \<Longrightarrow> i = byteAt (streamBytes (rawOf s)) off
      \<Longrightarrow> bodySound (streamBytes (rawOf s)) (dhcpNumber s name 1 255 i off)"
    "rawPacketHasBytes (streamBytes (rawOf s)) off 2 \<Longrightarrow> i = rawPacketWord (streamBytes (rawOf s)) off
      \<Longrightarrow> bodySound (streamBytes (rawOf s)) (dhcpNumber s name 2 65535 i off)"
    "rawPacketHasBytes (streamBytes (rawOf s)) off 4 \<Longrightarrow> i = rawPacketNumberValue (streamBytes (rawOf s)) off 4
      \<Longrightarrow> bodySound (streamBytes (rawOf s)) (dhcpNumber s name 4 4294967295 i off)"
    "suffixOf (streamBytes (rawOf s)) end' sfx \<Longrightarrow> bodySound (streamBytes (rawOf s)) (dhcpSuffixBody s name sfx end')"
  unfolding dhcpNumber_def dhcpSuffixBody_def
  using byte_write_sound word_write_sound long_write_sound suffix_write_sound is_bytes_stream dhcp_repairs [OF assms(1)]
    counted_name [OF assms(2)]
  by simp_all

lemma dhcp_number_template [template_sound]:
  assumes "rawDhcpTarget (rawOf s) = Some t" "countsPositive s"
    "field = DhcpMessageType \<longrightarrow> dhcp_messageTypeOption t \<noteq> None"
  shows "bodySound (streamBytes (rawOf s)) (buildDhcpNumberIncVmBody s field)"
proof -
  let ?bs = "streamBytes (rawOf s)"
  note sound = dhcp_number_sound [OF assms(1,2)] and at = dhcp_reads [OF assms(1)]
  have within: "rawPacketHasBytes ?bs (dhcp_payloadOffset t + k) n" if "0 \<le> k" "0 < n" "k + n \<le> 240" for k n
    by (rule hasBytes_within [OF dhcp_target.inside [OF assms(1)]]) (use that in simp_all)
  have w: "rawPacketHasBytes ?bs (dhcp_payloadOffset t) 1" using within [of 0 1] by simp
  show ?thesis
    using assms(3) dhcp_options_inside(1) [OF assms(1), of dhcp_messageTypeOption]
    by (cases field) (auto simp: buildDhcpNumberIncVmBody_def assms(1) Let_def w within at(1-5) at(11-15)
        dhcp_bytes_stream [OF assms(1)] intro!: sound)
qed

lemma dhcp_flag_template [template_sound]:
  assumes "rawDhcpTarget (rawOf s) = Some t"
  shows "bodySound (streamBytes (rawOf s)) (buildDhcpFlagMaskedVmBody s field)"
proof -
  note at = dhcp_reads [OF assms]
  have room: "rawPacketHasBytes (streamBytes (rawOf s)) (dhcp_flagsOffset t) 2"
    unfolding at(5) by (rule hasBytes_within [OF dhcp_target.inside [OF assms]]) simp_all
  show ?thesis
    by (cases field; simp add: buildDhcpFlagMaskedVmBody_def dhcpFlagSpec_def assms Let_def js_ushr_int dhcpChecksum_def;
        rule flagsMaskedBody_sound [where n = "if field = DhcpBroadcast then 1 else 15", OF is_bytes_stream room at(15)])
      simp_all
qed


lemma dhcp_address_template [template_sound]:
  assumes "rawDhcpTarget (rawOf s) = Some t" "countsPositive s"
  shows "bodySound (streamBytes (rawOf s)) (buildDhcpBootpIpv4IncVmBody s field)"
    "bodySound (streamBytes (rawOf s)) (buildDhcpClientMacIncVmBody s)"
proof -
  let ?bs = "streamBytes (rawOf s)"
  note sound = dhcp_number_sound(4) [OF assms(1,2)] and at = dhcp_reads [OF assms(1)]
  have within: "rawPacketHasBytes ?bs (dhcp_payloadOffset t + k) n" if "0 \<le> k" "0 < n" "k + n \<le> 240" for k n
    by (rule hasBytes_within [OF dhcp_target.inside [OF assms(1)]]) (use that in simp_all)
  have p: "dhcpPayloadOffset s = dhcp_payloadOffset t" by (simp add: dhcpPayloadOffset_def assms(1))
  note sfx = within [of 12 4] within [of 16 4] within [of 20 4] within [of 24 4]
  note sfx = sfx [THEN ipv4_suffix_sound [OF is_bytes_stream]]
  show "bodySound ?bs (buildDhcpBootpIpv4IncVmBody s field)"
    by (cases field; simp add: buildDhcpBootpIpv4IncVmBody_def dhcpBootpSource_def Let_def assms(1) p at;
        rule sound; use sfx in \<open>simp add: add_ac\<close>)
  have "rawPacketHasBytes ?bs (dhcp_clientMacOffset t) 6" by (simp add: at(10) within)
  note mac = mac_suffix_sound [OF is_bytes_stream this]
  show "bodySound ?bs (buildDhcpClientMacIncVmBody s)"
    unfolding buildDhcpClientMacIncVmBody_def Let_def assms(1) fromTarget_simps at(20)
    by (rule sound) (rule mac)
qed

lemma dhcp_option_template [template_sound]:
  assumes "rawDhcpTarget (rawOf s) = Some t" "countsPositive s"
  shows "(if field = DhcpRequestedIp then dhcp_requestedIpOption t else dhcp_serverIdOption t) \<noteq> None
      \<Longrightarrow> bodySound (streamBytes (rawOf s)) (buildDhcpOptionIpv4IncVmBody s field)"
    "snd (snd (dhcpTimer timer)) t \<noteq> None \<Longrightarrow> bodySound (streamBytes (rawOf s)) (buildDhcpTimerIncVmBody s timer)"
proof -
  let ?bs = "streamBytes (rawOf s)"
  note sound = dhcp_number_sound [OF assms(1,2)] and inside = dhcp_options_inside(2) [OF assms(1)]
    and bytes = dhcp_bytes_stream [OF assms(1)]
  show "bodySound ?bs (buildDhcpOptionIpv4IncVmBody s field)"
    if found: "(if field = DhcpRequestedIp then dhcp_requestedIpOption t else dhcp_serverIdOption t) \<noteq> None"
  proof -
    let ?f = "if field = DhcpRequestedIp then dhcp_requestedIpOption else dhcp_serverIdOption"
    obtain opt where opt: "?f t = Some opt" using found by (auto split: if_splits)
    have "rawPacketHasBytes ?bs (dopt_offset opt) 4" by (rule inside [where f = ?f, OF _ opt]) simp
    note sfx = ipv4_suffix_sound [OF is_bytes_stream this]
    show ?thesis
      unfolding buildDhcpOptionIpv4IncVmBody_def Let_def assms(1) Option.bind.simps opt prod.case option.case bytes
        orElse_simps
      by (rule sound(4)) (rule sfx)
  qed
  show "bodySound ?bs (buildDhcpTimerIncVmBody s timer)" if found: "snd (snd (dhcpTimer timer)) t \<noteq> None"
  proof -
    obtain code name f where timer: "dhcpTimer timer = (code, name, f)" by (cases "dhcpTimer timer")
    then obtain opt where opt: "f t = Some opt" using found by auto
    have "f \<in> {dhcp_requestedIpOption, dhcp_serverIdOption, dhcp_leaseTimeOption, dhcp_renewalTimeOption,
        dhcp_rebindingTimeOption}"
      using timer by (cases timer) (simp_all add: dhcpTimer_def)
    note room = inside [OF this opt]
    show ?thesis
      unfolding buildDhcpTimerIncVmBody_def timer Let_def assms(1) Option.bind.simps opt prod.case option.case bytes
        orElse_simps
      by (rule sound(3) [OF room refl])
  qed
qed

lemma dhcp_first_byte_template [template_sound]:
  assumes "rawDhcpTarget (rawOf s) = Some t"
  shows "dhcp_parameterRequestOption t \<noteq> None
      \<Longrightarrow> bodySound (streamBytes (rawOf s)) (buildDhcpParameterRequestFirstOptionIncVmBody s)"
    "dhcp_hostnameOption t \<noteq> None
      \<Longrightarrow> bodySound (streamBytes (rawOf s)) (buildDhcpHostnameFirstByteIncVmBody s)"
    "dhcp_clientIdentifierOption t \<noteq> None
      \<Longrightarrow> bodySound (streamBytes (rawOf s)) (buildDhcpClientIdentifierFirstByteIncVmBody s)"
proof -
  let ?bs = "streamBytes (rawOf s)"
  have body: "bodySound ?bs (dhcpFirstByteBody s f v off name)"
    if f: "f \<in> {dhcp_parameterRequestOption, dhcp_hostnameOption, dhcp_clientIdentifierOption, dhcp_messageTypeOption}"
      and found: "f t \<noteq> None" for f v off name
  proof -
    obtain opt where opt: "f t = Some opt" using found by auto
    show ?thesis
      unfolding dhcpFirstByteBody_def Let_def assms Option.bind.simps opt prod.case option.case fromTarget_simps
        dhcp_bytes_stream [OF assms]
      by (rule byte_write_sound [OF is_bytes_stream dhcp_repairs [OF assms] dhcp_options_inside(1) [OF assms f opt]]) simp_all
  qed
  show "bodySound ?bs (buildDhcpParameterRequestFirstOptionIncVmBody s)" if "dhcp_parameterRequestOption t \<noteq> None"
    unfolding buildDhcpParameterRequestFirstOptionIncVmBody_def by (rule body) (use that in simp_all)
  show "bodySound ?bs (buildDhcpHostnameFirstByteIncVmBody s)" if "dhcp_hostnameOption t \<noteq> None"
    unfolding buildDhcpHostnameFirstByteIncVmBody_def by (rule body) (use that in simp_all)
  show "bodySound ?bs (buildDhcpClientIdentifierFirstByteIncVmBody s)" if "dhcp_clientIdentifierOption t \<noteq> None"
    unfolding buildDhcpClientIdentifierFirstByteIncVmBody_def by (rule body) (use that in simp_all)
qed

end
