(* ===== verification/VmTable.thy ===== *)
theory VmTable
  imports VmTransport VmGre VmIcmp VmDnsDhcp
begin

text \<open>
  The table of the field engine templates (\<open>advancedVmTemplates.ts\<close>): for each the texts of the editor, the
  condition on the stream and the builder of the body, in the order of the source.
\<close>

section \<open>Templates\<close>

record AdvancedVmTemplate =
  tpl_name :: string
  tpl_label :: string
  tpl_description :: string
  tpl_requires :: string
  tpl_body :: "AdvancedVmBody option"
  tpl_buildBody :: "(ProfileWorkbenchStream \<Rightarrow> AdvancedVmBody) option"
  tpl_hideWhenUnsupportedWithoutRaw :: bool
  tpl_supports :: "(ProfileWorkbenchStream \<Rightarrow> bool) option"

text \<open>The four shapes of the literals: a fixed body, a builder for every stream, a builder with a condition, a builder
  whose template is hidden where the condition does not hold.\<close>

definition fixedTemplate :: "string \<Rightarrow> string \<Rightarrow> string \<Rightarrow> string \<Rightarrow> AdvancedVmBody \<Rightarrow> AdvancedVmTemplate" where
  "fixedTemplate name label description requires body =
     \<lparr>tpl_name = name, tpl_label = label, tpl_description = description, tpl_requires = requires,
      tpl_body = Some body, tpl_buildBody = None, tpl_hideWhenUnsupportedWithoutRaw = False, tpl_supports = None\<rparr>"

definition freeTemplate ::
  "string \<Rightarrow> string \<Rightarrow> string \<Rightarrow> string \<Rightarrow> (ProfileWorkbenchStream \<Rightarrow> AdvancedVmBody) \<Rightarrow> AdvancedVmTemplate" where
  "freeTemplate name label description requires build =
     \<lparr>tpl_name = name, tpl_label = label, tpl_description = description, tpl_requires = requires,
      tpl_body = None, tpl_buildBody = Some build, tpl_hideWhenUnsupportedWithoutRaw = False, tpl_supports = None\<rparr>"

definition fieldTemplate ::
  "string \<Rightarrow> string \<Rightarrow> string \<Rightarrow> string \<Rightarrow> (ProfileWorkbenchStream \<Rightarrow> bool)
   \<Rightarrow> (ProfileWorkbenchStream \<Rightarrow> AdvancedVmBody) \<Rightarrow> AdvancedVmTemplate" where
  "fieldTemplate name label description requires supports build =
     \<lparr>tpl_name = name, tpl_label = label, tpl_description = description, tpl_requires = requires,
      tpl_body = None, tpl_buildBody = Some build, tpl_hideWhenUnsupportedWithoutRaw = False,
      tpl_supports = Some supports\<rparr>"

definition hiddenTemplate ::
  "string \<Rightarrow> string \<Rightarrow> string \<Rightarrow> string \<Rightarrow> (ProfileWorkbenchStream \<Rightarrow> bool)
   \<Rightarrow> (ProfileWorkbenchStream \<Rightarrow> AdvancedVmBody) \<Rightarrow> AdvancedVmTemplate" where
  "hiddenTemplate name label description requires supports build =
     (fieldTemplate name label description requires supports build)\<lparr>tpl_hideWhenUnsupportedWithoutRaw := True\<rparr>"

section \<open>The table\<close>

definition generalTemplates :: "AdvancedVmTemplate list" where
  "generalTemplates =
     [fixedTemplate ''empty'' ''Empty VM''
        ''Replace the editor with an empty Field Engine body.''
        ''Any stream''
        advancedVmDefaultBody,
      fieldTemplate ''packet-length'' ''Packet length''
        ''Vary packet size with trim_pkt_size and update matching IP/UDP length fields.''
        ''Frame length mode Increment, Decrement, or Random''
        (isVariableFrameLengthStream \<circ> Some) buildPacketLengthVmBody,
      freeTemplate ''mac-dst-inc'' ''MAC dst inc''
        ''Increment the outer Ethernet destination MAC address.''
        ''Any Ethernet stream''
        buildOuterMacDstIncVmBody,
      freeTemplate ''mac-src-inc'' ''MAC src inc''
        ''Increment the outer Ethernet source MAC address.''
        ''Any Ethernet stream''
        buildOuterMacSrcIncVmBody,
      fieldTemplate ''ether-type-inc'' ''EtherType inc''
        ''Increment the outer Ethernet EtherType field.''
        ''Untagged Ethernet stream or raw/imported packet whose outer EtherType is not a VLAN TPID''
        (isOuterEtherTypeStream \<circ> Some) buildOuterEtherTypeIncVmBody,
      fieldTemplate ''arp-operation-inc'' ''ARP operation inc''
        ''Increment the ARP operation field.''
        ''Ethernet[/VLAN/MPLS]/ARP stream''
        (isArpStream \<circ> Some) buildArpOperationIncVmBody,
      fieldTemplate ''arp-sender-ip-inc'' ''ARP sender IP inc''
        ''Increment the ARP sender protocol address.''
        ''Ethernet[/VLAN/MPLS]/ARP stream''
        (isArpStream \<circ> Some) buildArpSenderIpIncVmBody,
      fieldTemplate ''arp-target-ip-inc'' ''ARP target IP inc''
        ''Increment the ARP target protocol address.''
        ''Ethernet[/VLAN/MPLS]/ARP stream''
        (isArpStream \<circ> Some) buildArpTargetIpIncVmBody,
      fieldTemplate ''arp-sender-mac-inc'' ''ARP sender MAC inc''
        ''Increment the last byte of the ARP sender hardware address.''
        ''Ethernet[/VLAN/MPLS]/ARP stream''
        (isArpStream \<circ> Some) buildArpSenderMacIncVmBody,
      fieldTemplate ''arp-target-mac-inc'' ''ARP target MAC inc''
        ''Increment the last byte of the ARP target hardware address.''
        ''Ethernet[/VLAN/MPLS]/ARP stream''
        (isArpStream \<circ> Some) buildArpTargetMacIncVmBody]"

definition ipv4Templates :: "AdvancedVmTemplate list" where
  "ipv4Templates =
     [fieldTemplate ''ipv4-src-inc'' ''IPv4 src inc''
        ''Increment the IPv4 source address and repair IPv4/L4 checksums.''
        ''Ethernet[/VLAN/MPLS]/IPv4 stream without VXLAN/GTP-U''
        (isAdvancedOuterIpv4Stream \<circ> Some) buildOuterIpv4SrcIncVmBody,
      fieldTemplate ''ipv4-src-random'' ''IPv4 src random''
        ''Randomize the IPv4 source address suffix and repair IPv4/L4 checksums.''
        ''Ethernet[/VLAN/MPLS]/IPv4 stream without VXLAN/GTP-U''
        (isAdvancedOuterIpv4Stream \<circ> Some) buildOuterIpv4SrcRandomVmBody,
      fieldTemplate ''ipv4-dst-inc'' ''IPv4 dst inc''
        ''Increment the IPv4 destination address and repair IPv4/L4 checksums.''
        ''Ethernet[/VLAN/MPLS]/IPv4 stream without VXLAN/GTP-U''
        (isAdvancedOuterIpv4Stream \<circ> Some) buildOuterIpv4DstIncVmBody,
      fieldTemplate ''ipv4-dst-random'' ''IPv4 dst random''
        ''Randomize the IPv4 destination address and repair IPv4/L4 checksums.''
        ''Ethernet[/VLAN/MPLS]/IPv4 stream without VXLAN/GTP-U''
        (isAdvancedOuterIpv4Stream \<circ> Some) buildOuterIpv4DstRandomVmBody,
      fieldTemplate ''ipv4-id-inc'' ''IPv4 ID inc''
        ''Increment the IPv4 identification field and repair checksums.''
        ''Ethernet[/VLAN/MPLS]/IPv4 stream without VXLAN/GTP-U''
        (isAdvancedOuterIpv4Stream \<circ> Some) buildOuterIpv4IdIncVmBody,
      fieldTemplate ''ipv4-dscp-inc'' ''IPv4 DSCP inc''
        ''Increment IPv4 DSCP with a masked TOS-byte write and repair checksums.''
        ''Ethernet[/VLAN/MPLS]/IPv4 stream without VXLAN/GTP-U''
        (isAdvancedOuterIpv4Stream \<circ> Some) buildOuterIpv4DscpIncVmBody,
      fieldTemplate ''ipv4-ecn-inc'' ''IPv4 ECN inc''
        ''Increment IPv4 ECN with a masked TOS-byte write and repair checksums.''
        ''Ethernet[/VLAN/MPLS]/IPv4 stream without VXLAN/GTP-U''
        (isAdvancedOuterIpv4Stream \<circ> Some) buildOuterIpv4EcnIncVmBody,
      fieldTemplate ''ipv4-fragment-offset-inc'' ''IPv4 fragment offset inc''
        ''Increment the IPv4 fragment offset bits while preserving flags and repair checksums.''
        ''Ethernet[/VLAN/MPLS]/IPv4 stream without VXLAN/GTP-U''
        (isAdvancedOuterIpv4Stream \<circ> Some) buildOuterIpv4FragmentOffsetIncVmBody,
      fieldTemplate ''ipv4-reserved-flag-vary'' ''IPv4 reserved flag vary''
        ''Vary the IPv4 reserved fragment flag while preserving DF/MF/offset bits and repair checksums.''
        ''Ethernet[/VLAN/MPLS]/IPv4 stream without VXLAN/GTP-U''
        (isAdvancedOuterIpv4Stream \<circ> Some) buildOuterIpv4ReservedFlagVaryVmBody,
      fieldTemplate ''ipv4-df-flag-vary'' ''IPv4 DF flag vary''
        ''Vary the IPv4 Don't Fragment flag while preserving sibling fragment bits and repair checksums.''
        ''Ethernet[/VLAN/MPLS]/IPv4 stream without VXLAN/GTP-U''
        (isAdvancedOuterIpv4Stream \<circ> Some) buildOuterIpv4DfFlagVaryVmBody,
      fieldTemplate ''ipv4-mf-flag-vary'' ''IPv4 MF flag vary''
        ''Vary the IPv4 More Fragments flag while preserving sibling fragment bits and repair checksums.''
        ''Ethernet[/VLAN/MPLS]/IPv4 stream without VXLAN/GTP-U''
        (isAdvancedOuterIpv4Stream \<circ> Some) buildOuterIpv4MfFlagVaryVmBody,
      fieldTemplate ''ipv4-router-alert-inc'' ''IPv4 Router Alert inc''
        ''Increment the value field of an existing IPv4 Router Alert option and repair the IPv4 header checksum.''
        ''Advanced/raw Ethernet[/VLAN/MPLS]/IPv4 packet containing Router Alert option''
        (isAdvancedIpv4RouterAlertStream \<circ> rawOf) buildIpv4RouterAlertIncVmBody,
      fieldTemplate ''ipv4-option-copied-flag-vary'' ''IPv4 option copied flag vary''
        ''Vary the copied flag of the first IPv4 option with a masked write and repair the IPv4 header checksum.''
        ''Advanced/raw Ethernet[/VLAN/MPLS]/IPv4 packet containing an IPv4 option''
        (isAdvancedIpv4OptionTypeStream \<circ> rawOf) buildIpv4OptionCopiedFlagVmBody,
      fieldTemplate ''ipv4-option-class-inc'' ''IPv4 option class inc''
        ''Increment the class bits of the first IPv4 option with a masked write and repair the IPv4 header checksum.''
        ''Advanced/raw Ethernet[/VLAN/MPLS]/IPv4 packet containing an IPv4 option''
        (isAdvancedIpv4OptionTypeStream \<circ> rawOf) buildIpv4OptionClassIncVmBody,
      fieldTemplate ''ipv4-option-number-inc'' ''IPv4 option number inc''
        ''Increment the option-number bits of the first IPv4 option with a masked write and repair the IPv4 header checksum.''
        ''Advanced/raw Ethernet[/VLAN/MPLS]/IPv4 packet containing an IPv4 option''
        (isAdvancedIpv4OptionTypeStream \<circ> rawOf) buildIpv4OptionNumberIncVmBody,
      fieldTemplate ''ipv4-ttl-inc'' ''IPv4 TTL inc''
        ''Increment the IPv4 TTL byte and repair checksums.''
        ''Ethernet[/VLAN/MPLS]/IPv4 stream without VXLAN/GTP-U''
        (isAdvancedOuterIpv4Stream \<circ> Some) buildOuterIpv4TtlIncVmBody]"

definition ipv6Templates :: "AdvancedVmTemplate list" where
  "ipv6Templates =
     [fieldTemplate ''ipv6-src-inc'' ''IPv6 src inc''
        ''Increment the backend-selected suffix of the outer IPv6 source address.''
        ''Ethernet[/VLAN/MPLS]/IPv6 stream with a safely representable IPv6 suffix''
        (isAdvancedOuterIpv6SrcVmStream \<circ> Some) buildOuterIpv6SrcIncVmBody,
      fieldTemplate ''ipv6-dst-inc'' ''IPv6 dst inc''
        ''Increment the backend-selected suffix of the outer IPv6 destination address.''
        ''Ethernet[/VLAN/MPLS]/IPv6 stream with a safely representable IPv6 suffix''
        (isAdvancedOuterIpv6DstVmStream \<circ> Some) buildOuterIpv6DstIncVmBody,
      fieldTemplate ''ipv6-traffic-class-inc'' ''IPv6 traffic class inc''
        ''Increment the outer IPv6 traffic class with a masked VM write.''
        ''Ethernet[/VLAN/MPLS]/IPv6 stream''
        (isAdvancedOuterIpv6Stream \<circ> Some) buildOuterIpv6TrafficClassIncVmBody,
      fieldTemplate ''ipv6-flow-label-inc'' ''IPv6 flow label inc''
        ''Increment the outer IPv6 flow label with a masked VM write.''
        ''Ethernet[/VLAN/MPLS]/IPv6 stream''
        (isAdvancedOuterIpv6Stream \<circ> Some) buildOuterIpv6FlowLabelIncVmBody,
      fieldTemplate ''ipv6-router-alert-inc'' ''IPv6 Router Alert inc''
        ''Increment the value field of an existing IPv6 extension Router Alert option.''
        ''Advanced/raw Ethernet[/VLAN/MPLS]/IPv6 packet containing Router Alert option''
        (isAdvancedIpv6RouterAlertStream \<circ> rawOf) buildIpv6RouterAlertIncVmBody,
      fieldTemplate ''ipv6-option-action-inc'' ''IPv6 option action inc''
        ''Increment the action bits of the first IPv6 extension option with a masked write.''
        ''Advanced/raw Ethernet[/VLAN/MPLS]/IPv6 packet containing an IPv6 extension option''
        (isAdvancedIpv6ExtensionOptionTypeStream \<circ> rawOf) buildIpv6ExtensionOptionActionIncVmBody,
      fieldTemplate ''ipv6-option-change-en-route-vary'' ''IPv6 option change-en-route vary''
        ''Vary the change-en-route bit of the first IPv6 extension option with a masked write.''
        ''Advanced/raw Ethernet[/VLAN/MPLS]/IPv6 packet containing an IPv6 extension option''
        (isAdvancedIpv6ExtensionOptionTypeStream \<circ> rawOf) buildIpv6ExtensionOptionChangeFlagVmBody,
      fieldTemplate ''ipv6-option-number-inc'' ''IPv6 option number inc''
        ''Increment the option-number bits of the first IPv6 extension option with a masked write.''
        ''Advanced/raw Ethernet[/VLAN/MPLS]/IPv6 packet containing an IPv6 extension option''
        (isAdvancedIpv6ExtensionOptionTypeStream \<circ> rawOf) buildIpv6ExtensionOptionNumberIncVmBody,
      fieldTemplate ''ipv6-jumbo-payload-inc'' ''IPv6 Jumbo Payload inc''
        ''Increment the value field of an existing IPv6 Jumbo Payload option.''
        ''Advanced/raw Ethernet[/VLAN/MPLS]/IPv6 packet containing Jumbo Payload option''
        (isAdvancedIpv6JumboPayloadStream \<circ> rawOf) buildIpv6JumboPayloadIncVmBody,
      fieldTemplate ''ipv6-routing-type-inc'' ''IPv6 routing type inc''
        ''Increment the Routing Type field of an existing IPv6 Routing header.''
        ''Advanced/raw Ethernet[/VLAN/MPLS]/IPv6 packet containing Routing header''
        (isAdvancedIpv6RoutingStream \<circ> rawOf) buildIpv6RoutingTypeIncVmBody,
      fieldTemplate ''ipv6-routing-segments-left-inc'' ''IPv6 routing segments left inc''
        ''Increment the Segments Left field of an existing IPv6 Routing header.''
        ''Advanced/raw Ethernet[/VLAN/MPLS]/IPv6 packet containing Routing header''
        (isAdvancedIpv6RoutingStream \<circ> rawOf) buildIpv6RoutingSegmentsLeftIncVmBody,
      fieldTemplate ''ipv6-fragment-id-inc'' ''IPv6 fragment ID inc''
        ''Increment the Identification field of an existing IPv6 Fragment header.''
        ''Advanced/raw Ethernet[/VLAN/MPLS]/IPv6 packet containing Fragment header''
        (isAdvancedIpv6FragmentStream \<circ> rawOf) buildIpv6FragmentIdentificationIncVmBody,
      fieldTemplate ''ipv6-fragment-offset-inc'' ''IPv6 fragment offset inc''
        ''Increment the IPv6 Fragment offset bits while preserving reserved and more-fragments bits.''
        ''Advanced/raw Ethernet[/VLAN/MPLS]/IPv6 packet containing Fragment header''
        (isAdvancedIpv6FragmentStream \<circ> rawOf) buildIpv6FragmentOffsetIncVmBody,
      fieldTemplate ''ipv6-fragment-reserved-bits-inc'' ''IPv6 fragment reserved bits inc''
        ''Increment the IPv6 Fragment reserved bits while preserving offset and more-fragments bits.''
        ''Advanced/raw Ethernet[/VLAN/MPLS]/IPv6 packet containing Fragment header''
        (isAdvancedIpv6FragmentStream \<circ> rawOf) buildIpv6FragmentReservedBitsIncVmBody,
      fieldTemplate ''ipv6-fragment-more-fragments-vary'' ''IPv6 fragment more fragments vary''
        ''Vary the IPv6 Fragment More Fragments bit while preserving sibling fragment bits.''
        ''Advanced/raw Ethernet[/VLAN/MPLS]/IPv6 packet containing Fragment header''
        (isAdvancedIpv6FragmentStream \<circ> rawOf) buildIpv6FragmentMoreFragmentsVaryVmBody,
      fieldTemplate ''ipv6-ah-spi-inc'' ''IPv6 AH SPI inc''
        ''Increment the SPI field of an existing IPv6 Authentication Header.''
        ''Advanced/raw Ethernet[/VLAN/MPLS]/IPv6 packet containing AH header''
        (isAdvancedIpv6AhStream \<circ> rawOf) buildIpv6AhSpiIncVmBody,
      fieldTemplate ''ipv6-ah-sequence-inc'' ''IPv6 AH sequence inc''
        ''Increment the Sequence Number field of an existing IPv6 Authentication Header.''
        ''Advanced/raw Ethernet[/VLAN/MPLS]/IPv6 packet containing AH header''
        (isAdvancedIpv6AhStream \<circ> rawOf) buildIpv6AhSequenceIncVmBody,
      fieldTemplate ''ipv6-hop-limit-inc'' ''IPv6 hop limit inc''
        ''Increment the outer IPv6 hop limit byte.''
        ''Ethernet[/VLAN/MPLS]/IPv6 stream''
        (isAdvancedOuterIpv6Stream \<circ> Some) buildOuterIpv6HopLimitIncVmBody]"

definition udpTemplates :: "AdvancedVmTemplate list" where
  "udpTemplates =
     [fieldTemplate ''ipv6-udp-src-port-inc'' ''IPv6 UDP src port inc''
        ''Increment the outer UDP source port on an IPv6 packet and repair the UDP checksum.''
        ''Ethernet[/VLAN/MPLS]/IPv6/UDP stream''
        (isAdvancedOuterIpv6UdpStream \<circ> Some) buildOuterIpv6UdpSrcPortIncVmBody,
      fieldTemplate ''ipv6-udp-dst-port-inc'' ''IPv6 UDP dst port inc''
        ''Increment the outer UDP destination port on an IPv6 packet and repair the UDP checksum.''
        ''Ethernet[/VLAN/MPLS]/IPv6/UDP stream''
        (isAdvancedOuterIpv6UdpStream \<circ> Some) buildOuterIpv6UdpDstPortIncVmBody,
      fieldTemplate ''ipv6-udp-length-inc'' ''IPv6 UDP length inc''
        ''Increment the outer UDP length field on an IPv6 packet and repair the UDP checksum.''
        ''Ethernet[/VLAN/MPLS]/IPv6/UDP stream''
        (isAdvancedOuterIpv6UdpStream \<circ> Some) buildOuterIpv6UdpLengthIncVmBody,
      fieldTemplate ''ipv6-udp-checksum-inc'' ''IPv6 UDP checksum inc''
        ''Increment the outer UDP checksum field as the terminal checksum write on an IPv6 packet.''
        ''Ethernet[/VLAN/MPLS]/IPv6/UDP stream''
        (isAdvancedOuterIpv6UdpStream \<circ> Some) buildOuterIpv6UdpChecksumIncVmBody,
      fieldTemplate ''ipv6-udp-5tuple-inc'' ''IPv6 UDP 5-tuple inc''
        ''Increment outer IPv6 source/destination suffixes plus UDP source/destination ports and repair the UDP checksum.''
        ''Ethernet[/VLAN/MPLS]/IPv6/UDP stream with safely representable IPv6 suffixes''
        (isAdvancedOuterIpv6UdpFiveTupleStream \<circ> Some) buildOuterIpv6UdpFiveTupleVmBody,
      fieldTemplate ''udp-src-port-inc'' ''UDP src port inc''
        ''Increment the UDP source port and repair IPv4/UDP checksums.''
        ''Ethernet[/VLAN/MPLS]/IPv4/UDP stream without VXLAN/GTP-U''
        (isAdvancedOuterIpv4UdpStream \<circ> Some) buildOuterUdpSrcPortIncVmBody,
      fieldTemplate ''udp-dst-port-inc'' ''UDP dst port inc''
        ''Increment the UDP destination port and repair IPv4/UDP checksums.''
        ''Ethernet[/VLAN/MPLS]/IPv4/UDP stream without VXLAN/GTP-U''
        (isAdvancedOuterIpv4UdpStream \<circ> Some) buildOuterUdpDstPortIncVmBody,
      fieldTemplate ''udp-length-inc'' ''UDP length inc''
        ''Increment the UDP length field and repair IPv4/UDP checksums.''
        ''Ethernet[/VLAN/MPLS]/IPv4/UDP stream without VXLAN/GTP-U''
        (isAdvancedOuterIpv4UdpStream \<circ> Some) buildOuterIpv4UdpLengthIncVmBody,
      fieldTemplate ''udp-checksum-inc'' ''UDP checksum inc''
        ''Increment the UDP checksum field as the terminal checksum write.''
        ''Ethernet[/VLAN/MPLS]/IPv4/UDP stream without VXLAN/GTP-U''
        (isAdvancedOuterIpv4UdpStream \<circ> Some) buildOuterIpv4UdpChecksumIncVmBody,
      fieldTemplate ''udp-5tuple-inc'' ''UDP 5-tuple inc''
        ''Increment outer IPv4 source/destination plus UDP source/destination ports and repair IPv4/UDP checksums.''
        ''Ethernet[/VLAN/MPLS]/IPv4/UDP stream without VXLAN/GTP-U''
        (isAdvancedOuterIpv4UdpStream \<circ> Some) buildOuterUdpFiveTupleVmBody]"

definition dnsHeaderTemplates :: "AdvancedVmTemplate list" where
  "dnsHeaderTemplates =
     [fieldTemplate ''dns-transaction-id-inc'' ''DNS transaction ID inc''
        ''Increment the DNS transaction ID and repair the outer UDP checksum.''
        ''Ethernet[/VLAN/MPLS]/IPv4 or IPv6 UDP DNS stream''
        (isAdvancedDnsStream \<circ> Some) buildDnsTransactionIdIncVmBody,
      fieldTemplate ''dns-flags-inc'' ''DNS flags inc''
        ''Increment the DNS flags word and repair the outer UDP checksum.''
        ''Ethernet[/VLAN/MPLS]/IPv4 or IPv6 UDP DNS stream''
        (isAdvancedDnsStream \<circ> Some) buildDnsFlagsIncVmBody,
      fieldTemplate ''dns-questions-inc'' ''DNS questions inc''
        ''Increment the DNS question count and repair the outer UDP checksum.''
        ''Ethernet[/VLAN/MPLS]/IPv4 or IPv6 UDP DNS stream''
        (isAdvancedDnsStream \<circ> Some) buildDnsQuestionsIncVmBody,
      fieldTemplate ''dns-answers-inc'' ''DNS answers inc''
        ''Increment the DNS answer count and repair the outer UDP checksum.''
        ''Ethernet[/VLAN/MPLS]/IPv4 or IPv6 UDP DNS stream''
        (isAdvancedDnsStream \<circ> Some) buildDnsAnswersIncVmBody,
      fieldTemplate ''dns-authority-rrs-inc'' ''DNS authority RRs inc''
        ''Increment the DNS authority record count and repair the outer UDP checksum.''
        ''Ethernet[/VLAN/MPLS]/IPv4 or IPv6 UDP DNS stream''
        (isAdvancedDnsStream \<circ> Some) buildDnsAuthorityRrsIncVmBody,
      fieldTemplate ''dns-additional-rrs-inc'' ''DNS additional RRs inc''
        ''Increment the DNS additional record count and repair the outer UDP checksum.''
        ''Ethernet[/VLAN/MPLS]/IPv4 or IPv6 UDP DNS stream''
        (isAdvancedDnsStream \<circ> Some) buildDnsAdditionalRrsIncVmBody,
      fieldTemplate ''dns-response-flag-vary'' ''DNS response flag vary''
        ''Vary the DNS QR response flag while preserving sibling DNS flags.''
        ''Ethernet[/VLAN/MPLS]/IPv4 or IPv6 UDP DNS stream''
        (isAdvancedDnsStream \<circ> Some) buildDnsResponseFlagVmBody,
      fieldTemplate ''dns-opcode-inc'' ''DNS opcode inc''
        ''Increment the DNS opcode bitfield while preserving sibling DNS flags.''
        ''Ethernet[/VLAN/MPLS]/IPv4 or IPv6 UDP DNS stream''
        (isAdvancedDnsStream \<circ> Some) buildDnsOpcodeIncVmBody,
      fieldTemplate ''dns-authoritative-answer-flag-vary'' ''DNS authoritative answer flag vary''
        ''Vary the DNS authoritative-answer flag while preserving sibling DNS flags.''
        ''Ethernet[/VLAN/MPLS]/IPv4 or IPv6 UDP DNS stream''
        (isAdvancedDnsStream \<circ> Some) buildDnsAuthoritativeAnswerFlagVmBody,
      fieldTemplate ''dns-truncated-flag-vary'' ''DNS truncated flag vary''
        ''Vary the DNS truncated flag while preserving sibling DNS flags.''
        ''Ethernet[/VLAN/MPLS]/IPv4 or IPv6 UDP DNS stream''
        (isAdvancedDnsStream \<circ> Some) buildDnsTruncatedFlagVmBody,
      fieldTemplate ''dns-recursion-desired-flag-vary'' ''DNS recursion desired flag vary''
        ''Vary the DNS recursion-desired flag while preserving sibling DNS flags.''
        ''Ethernet[/VLAN/MPLS]/IPv4 or IPv6 UDP DNS stream''
        (isAdvancedDnsStream \<circ> Some) buildDnsRecursionDesiredFlagVmBody,
      fieldTemplate ''dns-recursion-available-flag-vary'' ''DNS recursion available flag vary''
        ''Vary the DNS recursion-available flag while preserving sibling DNS flags.''
        ''Ethernet[/VLAN/MPLS]/IPv4 or IPv6 UDP DNS stream''
        (isAdvancedDnsStream \<circ> Some) buildDnsRecursionAvailableFlagVmBody,
      fieldTemplate ''dns-reserved-flags-inc'' ''DNS reserved flags inc''
        ''Increment the DNS reserved flags bitfield while preserving sibling DNS flags.''
        ''Ethernet[/VLAN/MPLS]/IPv4 or IPv6 UDP DNS stream''
        (isAdvancedDnsStream \<circ> Some) buildDnsReservedFlagsIncVmBody,
      fieldTemplate ''dns-response-code-inc'' ''DNS response code inc''
        ''Increment the DNS response-code bitfield while preserving sibling DNS flags.''
        ''Ethernet[/VLAN/MPLS]/IPv4 or IPv6 UDP DNS stream''
        (isAdvancedDnsStream \<circ> Some) buildDnsResponseCodeIncVmBody]"

definition dnsRecordTemplates :: "AdvancedVmTemplate list" where
  "dnsRecordTemplates =
     [fieldTemplate ''dns-query-type-inc'' ''DNS query type inc''
        ''Increment the DNS question type and repair the outer UDP checksum.''
        ''Ethernet[/VLAN/MPLS]/IPv4 or IPv6 UDP DNS stream''
        (isAdvancedDnsStream \<circ> Some) buildDnsQueryTypeIncVmBody,
      fieldTemplate ''dns-query-class-inc'' ''DNS query class inc''
        ''Increment the DNS question class and repair the outer UDP checksum.''
        ''Ethernet[/VLAN/MPLS]/IPv4 or IPv6 UDP DNS stream''
        (isAdvancedDnsStream \<circ> Some) buildDnsQueryClassIncVmBody,
      fieldTemplate ''dns-query-name-byte-inc'' ''DNS query name first byte inc''
        ''Increment the first DNS question-name label byte and repair the outer UDP checksum.''
        ''DNS stream with a non-empty question name''
        (isAdvancedDnsQueryNameStream \<circ> Some) buildDnsQueryNameFirstByteIncVmBody,
      fieldTemplate ''dns-answer-ttl-inc'' ''DNS answer TTL inc''
        ''Increment the DNS answer TTL and repair the outer UDP checksum.''
        ''DNS stream with answer enabled''
        (isAdvancedDnsAnswerStream \<circ> Some) buildDnsAnswerTtlIncVmBody,
      fieldTemplate ''dns-answer-type-inc'' ''DNS answer type inc''
        ''Increment the first DNS answer type and repair the outer UDP checksum.''
        ''DNS stream with answer enabled''
        (isAdvancedDnsAnswerStream \<circ> Some) buildDnsAnswerTypeIncVmBody,
      fieldTemplate ''dns-answer-class-inc'' ''DNS answer class inc''
        ''Increment the first DNS answer class and repair the outer UDP checksum.''
        ''DNS stream with answer enabled''
        (isAdvancedDnsAnswerStream \<circ> Some) buildDnsAnswerClassIncVmBody,
      fieldTemplate ''dns-answer-ipv4-inc'' ''DNS answer IPv4 inc''
        ''Increment the low DNS answer IPv4 address bytes and repair the outer UDP checksum.''
        ''DNS stream with an IPv4 A answer enabled''
        (isAdvancedDnsAnswerIpv4Stream \<circ> Some) buildDnsAnswerIpv4IncVmBody]"

definition dhcpMessageTemplates :: "AdvancedVmTemplate list" where
  "dhcpMessageTemplates =
     [fieldTemplate ''dhcp-operation-inc'' ''DHCP operation inc''
        ''Increment the DHCP/BOOTP operation byte and repair the outer UDP checksum.''
        ''Ethernet[/VLAN/MPLS]/IPv4 or IPv6 UDP DHCP stream''
        (isAdvancedDhcpStream \<circ> Some) (\<lambda>s. buildDhcpNumberIncVmBody s DhcpOperation),
      fieldTemplate ''dhcp-hops-inc'' ''DHCP hops inc''
        ''Increment the DHCP/BOOTP hops byte and repair the outer UDP checksum.''
        ''Ethernet[/VLAN/MPLS]/IPv4 or IPv6 UDP DHCP stream''
        (isAdvancedDhcpStream \<circ> Some) (\<lambda>s. buildDhcpNumberIncVmBody s DhcpHops),
      fieldTemplate ''dhcp-seconds-inc'' ''DHCP seconds inc''
        ''Increment the DHCP seconds field and repair the outer UDP checksum.''
        ''Ethernet[/VLAN/MPLS]/IPv4 or IPv6 UDP DHCP stream''
        (isAdvancedDhcpStream \<circ> Some) (\<lambda>s. buildDhcpNumberIncVmBody s DhcpSeconds),
      fieldTemplate ''dhcp-xid-inc'' ''DHCP XID inc''
        ''Increment the DHCP transaction ID and repair the outer UDP checksum.''
        ''Ethernet[/VLAN/MPLS]/IPv4 or IPv6 UDP DHCP stream''
        (isAdvancedDhcpStream \<circ> Some) (\<lambda>s. buildDhcpNumberIncVmBody s DhcpXid),
      fieldTemplate ''dhcp-message-type-inc'' ''DHCP message type inc''
        ''Increment the DHCP message type option and repair the outer UDP checksum.''
        ''Ethernet[/VLAN/MPLS]/IPv4 or IPv6 UDP DHCP stream''
        (isAdvancedDhcpMessageTypeStream \<circ> Some) (\<lambda>s. buildDhcpNumberIncVmBody s DhcpMessageType),
      fieldTemplate ''dhcp-flags-inc'' ''DHCP flags inc''
        ''Increment the DHCP flags word and repair the outer UDP checksum.''
        ''Ethernet[/VLAN/MPLS]/IPv4 or IPv6 UDP DHCP stream''
        (isAdvancedDhcpStream \<circ> Some) (\<lambda>s. buildDhcpNumberIncVmBody s DhcpFlags),
      fieldTemplate ''dhcp-broadcast-flag-vary'' ''DHCP broadcast flag vary''
        ''Vary the BOOTP/DHCP broadcast flag while preserving reserved flag bits.''
        ''Ethernet[/VLAN/MPLS]/IPv4 or IPv6 UDP DHCP stream''
        (isAdvancedDhcpStream \<circ> Some) (\<lambda>s. buildDhcpFlagMaskedVmBody s DhcpBroadcast),
      fieldTemplate ''dhcp-reserved-flags-inc'' ''DHCP reserved flags inc''
        ''Increment the BOOTP/DHCP reserved flags while preserving the broadcast flag.''
        ''Ethernet[/VLAN/MPLS]/IPv4 or IPv6 UDP DHCP stream''
        (isAdvancedDhcpStream \<circ> Some) (\<lambda>s. buildDhcpFlagMaskedVmBody s DhcpReserved),
      fieldTemplate ''dhcp-client-ip-inc'' ''DHCP client IP inc''
        ''Increment the BOOTP client IP address and repair the outer UDP checksum.''
        ''Ethernet[/VLAN/MPLS]/IPv4 or IPv6 UDP DHCP stream''
        (isAdvancedDhcpStream \<circ> Some) (\<lambda>s. buildDhcpBootpIpv4IncVmBody s DhcpClientIp),
      fieldTemplate ''dhcp-your-ip-inc'' ''DHCP your IP inc''
        ''Increment the BOOTP your IP address and repair the outer UDP checksum.''
        ''Ethernet[/VLAN/MPLS]/IPv4 or IPv6 UDP DHCP stream''
        (isAdvancedDhcpStream \<circ> Some) (\<lambda>s. buildDhcpBootpIpv4IncVmBody s DhcpYourIp),
      fieldTemplate ''dhcp-server-ip-inc'' ''DHCP server IP inc''
        ''Increment the BOOTP server IP address and repair the outer UDP checksum.''
        ''Ethernet[/VLAN/MPLS]/IPv4 or IPv6 UDP DHCP stream''
        (isAdvancedDhcpStream \<circ> Some) (\<lambda>s. buildDhcpBootpIpv4IncVmBody s DhcpServerIp),
      fieldTemplate ''dhcp-relay-ip-inc'' ''DHCP relay IP inc''
        ''Increment the BOOTP relay IP address and repair the outer UDP checksum.''
        ''Ethernet[/VLAN/MPLS]/IPv4 or IPv6 UDP DHCP stream''
        (isAdvancedDhcpStream \<circ> Some) (\<lambda>s. buildDhcpBootpIpv4IncVmBody s DhcpRelayIp),
      fieldTemplate ''dhcp-client-mac-inc'' ''DHCP client MAC inc''
        ''Increment the DHCP client hardware address and repair the outer UDP checksum.''
        ''Ethernet[/VLAN/MPLS]/IPv4 or IPv6 UDP DHCP stream''
        (isAdvancedDhcpStream \<circ> Some) buildDhcpClientMacIncVmBody]"

definition dhcpOptionTemplates :: "AdvancedVmTemplate list" where
  "dhcpOptionTemplates =
     [fieldTemplate ''dhcp-requested-ip-inc'' ''DHCP requested IP inc''
        ''Increment DHCP option 50 requested IP and repair the outer UDP checksum.''
        ''DHCP stream with requested IP option''
        (isAdvancedDhcpRequestedIpStream \<circ> Some) (\<lambda>s. buildDhcpOptionIpv4IncVmBody s DhcpRequestedIp),
      fieldTemplate ''dhcp-server-id-inc'' ''DHCP server ID inc''
        ''Increment DHCP option 54 server identifier and repair the outer UDP checksum.''
        ''DHCP stream with server ID option''
        (isAdvancedDhcpServerIdStream \<circ> Some) (\<lambda>s. buildDhcpOptionIpv4IncVmBody s DhcpServerId),
      fieldTemplate ''dhcp-parameter-request-inc'' ''DHCP parameter request option inc''
        ''Increment the first DHCP option 55 requested parameter byte and repair the outer UDP checksum.''
        ''DHCP stream with parameter request list option''
        (isAdvancedDhcpParameterRequestStream \<circ> Some) buildDhcpParameterRequestFirstOptionIncVmBody,
      fieldTemplate ''dhcp-hostname-byte-inc'' ''DHCP hostname first byte inc''
        ''Increment the first DHCP option 12 hostname byte and repair the outer UDP checksum.''
        ''DHCP stream with hostname option''
        (isAdvancedDhcpHostnameStream \<circ> Some) buildDhcpHostnameFirstByteIncVmBody,
      fieldTemplate ''dhcp-client-identifier-byte-inc'' ''DHCP client identifier first byte inc''
        ''Increment the first DHCP option 61 client identifier byte and repair the outer UDP checksum.''
        ''Raw/imported DHCP stream with client identifier option''
        (isAdvancedDhcpClientIdentifierStream \<circ> Some) buildDhcpClientIdentifierFirstByteIncVmBody,
      fieldTemplate ''dhcp-lease-time-inc'' ''DHCP lease time inc''
        ''Increment DHCP option 51 lease time and repair the outer UDP checksum.''
        ''DHCP stream with lease time option''
        (isAdvancedDhcpLeaseTimeStream \<circ> Some) (\<lambda>s. buildDhcpTimerIncVmBody s DhcpLeaseTime),
      fieldTemplate ''dhcp-renewal-time-inc'' ''DHCP renewal time inc''
        ''Increment DHCP option 58 renewal time and repair the outer UDP checksum.''
        ''DHCP stream with renewal time option''
        (isAdvancedDhcpRenewalTimeStream \<circ> Some) (\<lambda>s. buildDhcpTimerIncVmBody s DhcpRenewalTime),
      fieldTemplate ''dhcp-rebinding-time-inc'' ''DHCP rebinding time inc''
        ''Increment DHCP option 59 rebinding time and repair the outer UDP checksum.''
        ''DHCP stream with rebinding time option''
        (isAdvancedDhcpRebindingTimeStream \<circ> Some) (\<lambda>s. buildDhcpTimerIncVmBody s DhcpRebindingTime)]"

definition vxlanIpv4Templates :: "AdvancedVmTemplate list" where
  "vxlanIpv4Templates =
     [fieldTemplate ''vxlan-i-flag-vary'' ''VXLAN I flag vary''
        ''Toggle the VXLAN I flag bit while preserving the other VXLAN flag bits.''
        ''Ethernet[/VLAN/MPLS]/IPv4/UDP/VXLAN stream''
        (isOuterIpv4VxlanStream \<circ> Some) buildVxlanIFlagVaryVmBody,
      fieldTemplate ''vxlan-vni-inc'' ''VXLAN VNI inc''
        ''Increment the 24-bit VXLAN VNI field using the current stream VNI, count, and step.''
        ''Ethernet[/VLAN/MPLS]/IPv4/UDP/VXLAN stream''
        (isOuterIpv4VxlanStream \<circ> Some) buildVxlanVniIncVmBody,
      fieldTemplate ''vxlan-inner-ipv4-src-inc'' ''VXLAN inner IPv4 src inc''
        ''Increment the inner IPv4 source address suffix and repair the required inner checksum.''
        ''Ethernet[/VLAN/MPLS]/IPv4/UDP/VXLAN stream with inner IPv4''
        (isOuterIpv4VxlanInnerIpv4AddressStream \<circ> Some) buildVxlanInnerIpv4SrcIncVmBody,
      fieldTemplate ''vxlan-inner-ipv4-dst-inc'' ''VXLAN inner IPv4 dst inc''
        ''Increment the inner IPv4 destination address suffix and repair the required inner checksum.''
        ''Ethernet[/VLAN/MPLS]/IPv4/UDP/VXLAN stream with inner IPv4''
        (isOuterIpv4VxlanInnerIpv4AddressStream \<circ> Some) buildVxlanInnerIpv4DstIncVmBody,
      fieldTemplate ''vxlan-inner-ipv4-ttl-inc'' ''VXLAN inner IPv4 TTL inc''
        ''Increment the inner IPv4 TTL and repair the inner IPv4 checksum.''
        ''Ethernet[/VLAN/MPLS]/IPv4/UDP/VXLAN stream with inner IPv4''
        (isOuterIpv4VxlanInnerIpv4TtlStream \<circ> Some) buildVxlanInnerIpv4TtlIncVmBody,
      fieldTemplate ''vxlan-inner-ipv4-id-inc'' ''VXLAN inner IPv4 ID inc''
        ''Increment the inner IPv4 identification field and repair the inner checksum.''
        ''Raw/imported Ethernet[/VLAN/MPLS]/IPv4/UDP/VXLAN stream with inner IPv4''
        (isOuterIpv4VxlanInnerRawIpv4Stream \<circ> Some) buildVxlanInnerIpv4IdIncVmBody,
      fieldTemplate ''vxlan-inner-ipv4-dscp-inc'' ''VXLAN inner IPv4 DSCP inc''
        ''Increment the inner IPv4 DSCP bits while preserving ECN and repair the inner checksum.''
        ''Raw/imported Ethernet[/VLAN/MPLS]/IPv4/UDP/VXLAN stream with inner IPv4''
        (isOuterIpv4VxlanInnerRawIpv4Stream \<circ> Some) buildVxlanInnerIpv4DscpIncVmBody,
      fieldTemplate ''vxlan-inner-ipv4-ecn-inc'' ''VXLAN inner IPv4 ECN inc''
        ''Increment the inner IPv4 ECN bits while preserving DSCP and repair the inner checksum.''
        ''Raw/imported Ethernet[/VLAN/MPLS]/IPv4/UDP/VXLAN stream with inner IPv4''
        (isOuterIpv4VxlanInnerRawIpv4Stream \<circ> Some) buildVxlanInnerIpv4EcnIncVmBody,
      fieldTemplate ''vxlan-inner-ipv4-fragment-offset-inc'' ''VXLAN inner IPv4 fragment offset inc''
        ''Increment the inner IPv4 fragment offset bits while preserving flags and repair the inner checksum.''
        ''Raw/imported Ethernet[/VLAN/MPLS]/IPv4/UDP/VXLAN stream with inner IPv4''
        (isOuterIpv4VxlanInnerRawIpv4Stream \<circ> Some) buildVxlanInnerIpv4FragmentOffsetIncVmBody,
      fieldTemplate ''vxlan-inner-ipv4-reserved-flag-vary'' ''VXLAN inner IPv4 reserved flag vary''
        ''Vary the inner IPv4 reserved fragment flag while preserving DF/MF/offset bits and repair the inner checksum.''
        ''Raw/imported Ethernet[/VLAN/MPLS]/IPv4/UDP/VXLAN stream with inner IPv4''
        (isOuterIpv4VxlanInnerRawIpv4Stream \<circ> Some) buildVxlanInnerIpv4ReservedFlagVaryVmBody,
      fieldTemplate ''vxlan-inner-ipv4-df-flag-vary'' ''VXLAN inner IPv4 Don't fragment flag vary''
        ''Vary the inner IPv4 Don't Fragment flag while preserving sibling fragment bits and repair the inner checksum.''
        ''Raw/imported Ethernet[/VLAN/MPLS]/IPv4/UDP/VXLAN stream with inner IPv4''
        (isOuterIpv4VxlanInnerRawIpv4Stream \<circ> Some) buildVxlanInnerIpv4DfFlagVaryVmBody,
      fieldTemplate ''vxlan-inner-ipv4-mf-flag-vary'' ''VXLAN inner IPv4 More fragments flag vary''
        ''Vary the inner IPv4 More Fragments flag while preserving sibling fragment bits and repair the inner checksum.''
        ''Raw/imported Ethernet[/VLAN/MPLS]/IPv4/UDP/VXLAN stream with inner IPv4''
        (isOuterIpv4VxlanInnerRawIpv4Stream \<circ> Some) buildVxlanInnerIpv4MfFlagVaryVmBody]"

definition vxlanEthernetTemplates :: "AdvancedVmTemplate list" where
  "vxlanEthernetTemplates =
     [fieldTemplate ''vxlan-inner-mac-dst-inc'' ''VXLAN inner MAC dst inc''
        ''Increment the inner Ethernet destination MAC suffix inside a VXLAN packet.''
        ''Ethernet[/VLAN/MPLS]/IPv4/UDP/VXLAN stream with inner Ethernet''
        (isOuterIpv4VxlanInnerEthernetStream \<circ> Some) buildVxlanInnerMacDstIncVmBody,
      fieldTemplate ''vxlan-inner-mac-src-inc'' ''VXLAN inner MAC src inc''
        ''Increment the inner Ethernet source MAC suffix inside a VXLAN packet.''
        ''Ethernet[/VLAN/MPLS]/IPv4/UDP/VXLAN stream with inner Ethernet''
        (isOuterIpv4VxlanInnerEthernetStream \<circ> Some) buildVxlanInnerMacSrcIncVmBody,
      fieldTemplate ''vxlan-inner-ethertype-inc'' ''VXLAN inner EtherType inc''
        ''Increment the inner Ethernet EtherType field inside a VXLAN packet.''
        ''Ethernet[/VLAN/MPLS]/IPv4/UDP/VXLAN stream with inner Ethernet''
        (isOuterIpv4VxlanInnerEthernetStream \<circ> Some) buildVxlanInnerEtherTypeIncVmBody,
      fieldTemplate ''vxlan-inner-vlan-id-inc'' ''VXLAN inner VLAN ID inc''
        ''Increment the inner 802.1Q VLAN ID inside a VXLAN tenant frame.''
        ''Raw/imported Ethernet[/VLAN/MPLS]/IPv4/UDP/VXLAN stream with inner 802.1Q''
        (isOuterIpv4VxlanInnerVlanStream \<circ> Some) (\<lambda>s. buildVxlanInnerVlanIdIncVmBody s 1),
      fieldTemplate ''vxlan-inner-vlan-priority-inc'' ''VXLAN inner VLAN priority inc''
        ''Increment the inner 802.1Q priority bits while preserving the rest of the TCI field.''
        ''Raw/imported Ethernet[/VLAN/MPLS]/IPv4/UDP/VXLAN stream with inner 802.1Q''
        (isOuterIpv4VxlanInnerVlanStream \<circ> Some) (\<lambda>s. buildVxlanInnerVlanPriorityIncVmBody s 1),
      fieldTemplate ''vxlan-inner-vlan-cfi-vary'' ''VXLAN inner VLAN CFI/DEI vary''
        ''Toggle the inner 802.1Q CFI/DEI bit while preserving the rest of the TCI field.''
        ''Raw/imported Ethernet[/VLAN/MPLS]/IPv4/UDP/VXLAN stream with inner 802.1Q''
        (isOuterIpv4VxlanInnerVlanStream \<circ> Some) (\<lambda>s. buildVxlanInnerVlanCfiVaryVmBody s 1),
      fieldTemplate ''vxlan-inner-vlan2-id-inc'' ''VXLAN inner VLAN second ID inc''
        ''Increment the second inner 802.1Q VLAN ID inside a VXLAN tenant QinQ frame.''
        ''Raw/imported Ethernet[/VLAN/MPLS]/IPv4/UDP/VXLAN stream with two inner 802.1Q tags''
        (isOuterIpv4VxlanInnerSecondVlanStream \<circ> Some) buildVxlanInnerSecondVlanIdIncVmBody,
      fieldTemplate ''vxlan-inner-vlan2-priority-inc'' ''VXLAN inner VLAN second priority inc''
        ''Increment the second inner 802.1Q priority bits while preserving the rest of the TCI field.''
        ''Raw/imported Ethernet[/VLAN/MPLS]/IPv4/UDP/VXLAN stream with two inner 802.1Q tags''
        (isOuterIpv4VxlanInnerSecondVlanStream \<circ> Some) buildVxlanInnerSecondVlanPriorityIncVmBody,
      fieldTemplate ''vxlan-inner-vlan2-cfi-vary'' ''VXLAN inner VLAN second CFI/DEI vary''
        ''Toggle the second inner 802.1Q CFI/DEI bit while preserving the rest of the TCI field.''
        ''Raw/imported Ethernet[/VLAN/MPLS]/IPv4/UDP/VXLAN stream with two inner 802.1Q tags''
        (isOuterIpv4VxlanInnerSecondVlanStream \<circ> Some) buildVxlanInnerSecondVlanCfiVaryVmBody,
      fieldTemplate ''vxlan-inner-arp-operation-inc'' ''VXLAN inner ARP operation inc''
        ''Increment the ARP operation field inside a VXLAN tenant frame.''
        ''Raw/imported Ethernet[/VLAN/MPLS]/IPv4/UDP/VXLAN stream with inner ARP''
        (isOuterIpv4VxlanInnerArpStream \<circ> Some) buildVxlanInnerArpOperationIncVmBody,
      fieldTemplate ''vxlan-inner-arp-sender-ip-inc'' ''VXLAN inner ARP sender IP inc''
        ''Increment the ARP sender protocol address inside a VXLAN tenant frame.''
        ''Raw/imported Ethernet[/VLAN/MPLS]/IPv4/UDP/VXLAN stream with inner ARP''
        (isOuterIpv4VxlanInnerArpStream \<circ> Some) buildVxlanInnerArpSenderIpIncVmBody,
      fieldTemplate ''vxlan-inner-arp-target-ip-inc'' ''VXLAN inner ARP target IP inc''
        ''Increment the ARP target protocol address inside a VXLAN tenant frame.''
        ''Raw/imported Ethernet[/VLAN/MPLS]/IPv4/UDP/VXLAN stream with inner ARP''
        (isOuterIpv4VxlanInnerArpStream \<circ> Some) buildVxlanInnerArpTargetIpIncVmBody,
      fieldTemplate ''vxlan-inner-arp-sender-mac-inc'' ''VXLAN inner ARP sender MAC inc''
        ''Increment the ARP sender hardware address suffix inside a VXLAN tenant frame.''
        ''Raw/imported Ethernet[/VLAN/MPLS]/IPv4/UDP/VXLAN stream with inner ARP''
        (isOuterIpv4VxlanInnerArpStream \<circ> Some) buildVxlanInnerArpSenderMacIncVmBody,
      fieldTemplate ''vxlan-inner-arp-target-mac-inc'' ''VXLAN inner ARP target MAC inc''
        ''Increment the ARP target hardware address suffix inside a VXLAN tenant frame.''
        ''Raw/imported Ethernet[/VLAN/MPLS]/IPv4/UDP/VXLAN stream with inner ARP''
        (isOuterIpv4VxlanInnerArpStream \<circ> Some) buildVxlanInnerArpTargetMacIncVmBody]"

definition vxlanTransportTemplates :: "AdvancedVmTemplate list" where
  "vxlanTransportTemplates =
     [fieldTemplate ''vxlan-inner-ipv6-src-inc'' ''VXLAN inner IPv6 src inc''
        ''Increment the inner IPv6 source address suffix and repair the inner IPv6/UDP checksum.''
        ''Ethernet[/VLAN/MPLS]/IPv4/UDP/VXLAN stream with inner IPv6 and a safely representable suffix''
        (isOuterIpv4VxlanInnerIpv6SrcVmStream \<circ> Some) buildVxlanInnerIpv6SrcIncVmBody,
      fieldTemplate ''vxlan-inner-ipv6-dst-inc'' ''VXLAN inner IPv6 dst inc''
        ''Increment the inner IPv6 destination address suffix and repair the inner IPv6/UDP checksum.''
        ''Ethernet[/VLAN/MPLS]/IPv4/UDP/VXLAN stream with inner IPv6 and a safely representable suffix''
        (isOuterIpv4VxlanInnerIpv6DstVmStream \<circ> Some) buildVxlanInnerIpv6DstIncVmBody,
      fieldTemplate ''vxlan-inner-ipv6-hop-limit-inc'' ''VXLAN inner IPv6 hop limit inc''
        ''Increment the inner IPv6 Hop Limit field.''
        ''Ethernet[/VLAN/MPLS]/IPv4/UDP/VXLAN stream with inner IPv6''
        (isOuterIpv4VxlanInnerIpv6Stream \<circ> Some) buildVxlanInnerIpv6HopLimitIncVmBody,
      fieldTemplate ''vxlan-inner-ipv6-traffic-class-inc'' ''VXLAN inner IPv6 traffic class inc''
        ''Increment the inner IPv6 Traffic Class bits while preserving Version and Flow Label.''
        ''Raw/imported Ethernet[/VLAN/MPLS]/IPv4/UDP/VXLAN stream with inner IPv6''
        (isOuterIpv4VxlanInnerRawIpv6Stream \<circ> Some) buildVxlanInnerIpv6TrafficClassIncVmBody,
      fieldTemplate ''vxlan-inner-ipv6-flow-label-inc'' ''VXLAN inner IPv6 flow label inc''
        ''Increment the inner IPv6 Flow Label bits while preserving Version and Traffic Class.''
        ''Raw/imported Ethernet[/VLAN/MPLS]/IPv4/UDP/VXLAN stream with inner IPv6''
        (isOuterIpv4VxlanInnerRawIpv6Stream \<circ> Some) buildVxlanInnerIpv6FlowLabelIncVmBody,
      fieldTemplate ''vxlan-inner-udp-src-port-inc'' ''VXLAN inner UDP src port inc''
        ''Increment the inner UDP source port and repair the inner UDP checksum.''
        ''Ethernet[/VLAN/MPLS]/IPv4/UDP/VXLAN stream with inner UDP''
        (isOuterIpv4VxlanInnerUdpStream \<circ> Some) buildVxlanInnerUdpSrcPortIncVmBody,
      fieldTemplate ''vxlan-inner-udp-dst-port-inc'' ''VXLAN inner UDP dst port inc''
        ''Increment the inner UDP destination port and repair the inner UDP checksum.''
        ''Ethernet[/VLAN/MPLS]/IPv4/UDP/VXLAN stream with inner UDP''
        (isOuterIpv4VxlanInnerUdpStream \<circ> Some) buildVxlanInnerUdpDstPortIncVmBody,
      fieldTemplate ''vxlan-inner-tcp-src-port-inc'' ''VXLAN inner TCP src port inc''
        ''Increment the inner TCP source port and repair the inner TCP checksum.''
        ''Raw/imported Ethernet[/VLAN/MPLS]/IPv4/UDP/VXLAN stream with inner IP/TCP''
        (isOuterIpv4VxlanInnerTcpStream \<circ> Some) buildVxlanInnerTcpSrcPortIncVmBody,
      fieldTemplate ''vxlan-inner-tcp-dst-port-inc'' ''VXLAN inner TCP dst port inc''
        ''Increment the inner TCP destination port and repair the inner TCP checksum.''
        ''Raw/imported Ethernet[/VLAN/MPLS]/IPv4/UDP/VXLAN stream with inner IP/TCP''
        (isOuterIpv4VxlanInnerTcpStream \<circ> Some) buildVxlanInnerTcpDstPortIncVmBody,
      fieldTemplate ''vxlan-inner-5tuple-inc'' ''VXLAN inner 5-tuple inc''
        ''Increment inner IPv4 source/destination plus inner UDP source/destination ports and repair inner IPv4/UDP checksums.''
        ''Ethernet[/VLAN/MPLS]/IPv4/UDP/VXLAN stream with inner IPv4''
        (isOuterIpv4VxlanInnerIpv4Stream \<circ> Some) buildVxlanInnerFiveTupleVmBody]"

definition greIpv4Templates :: "AdvancedVmTemplate list" where
  "greIpv4Templates =
     [fieldTemplate ''gre-protocol-type-inc'' ''GRE protocol type inc''
        ''Increment the GRE Protocol Type field without adding GRE checksum repair.''
        ''Ethernet[/VLAN/MPLS]/IPv4/GRE stream with no GRE checksum option''
        (isGreStreamWithoutGreChecksum \<circ> Some) buildGreProtocolTypeIncVmBody,
      fieldTemplate ''gre-key-inc'' ''GRE key inc''
        ''Increment the optional GRE Key field without adding GRE checksum repair.''
        ''Ethernet[/VLAN/MPLS]/IPv4/GRE stream with GRE Key present and no GRE checksum option''
        (isGreKeyStreamWithoutGreChecksum \<circ> Some) buildGreKeyIncVmBody,
      fieldTemplate ''gre-sequence-inc'' ''GRE sequence inc''
        ''Increment the optional GRE Sequence Number field without adding GRE checksum repair.''
        ''Ethernet[/VLAN/MPLS]/IPv4/GRE stream with GRE Sequence present and no GRE checksum option''
        (isGreSequenceStreamWithoutGreChecksum \<circ> Some) buildGreSequenceIncVmBody,
      fieldTemplate ''gre-inner-ipv4-src-inc'' ''GRE inner IPv4 src inc''
        ''Increment the GRE inner IPv4 source address suffix and repair the required inner checksum.''
        ''Ethernet[/VLAN/MPLS]/IPv4/GRE stream with inner IPv4 and no GRE checksum option''
        (isIpv4GreAddressStreamWithoutGreChecksum \<circ> Some) buildGreInnerIpv4SrcIncVmBody,
      fieldTemplate ''gre-inner-ipv4-dst-inc'' ''GRE inner IPv4 dst inc''
        ''Increment the GRE inner IPv4 destination address suffix and repair the required inner checksum.''
        ''Ethernet[/VLAN/MPLS]/IPv4/GRE stream with inner IPv4 and no GRE checksum option''
        (isIpv4GreAddressStreamWithoutGreChecksum \<circ> Some) buildGreInnerIpv4DstIncVmBody,
      fieldTemplate ''gre-inner-ipv4-ttl-inc'' ''GRE inner IPv4 TTL inc''
        ''Increment the GRE inner IPv4 TTL and repair the inner IPv4 checksum.''
        ''Ethernet[/VLAN/MPLS]/IPv4/GRE stream with inner IPv4 and no GRE checksum option''
        (isIpv4GreTtlStreamWithoutGreChecksum \<circ> Some) buildGreInnerIpv4TtlIncVmBody,
      fieldTemplate ''gre-inner-ipv4-id-inc'' ''GRE inner IPv4 ID inc''
        ''Increment the GRE inner IPv4 identification field and repair the inner checksum.''
        ''Raw/imported Ethernet[/VLAN/MPLS]/IPv4/GRE stream with inner IPv4 and no GRE checksum option''
        (isRawIpv4GreStreamWithoutGreChecksum \<circ> Some) buildGreInnerIpv4IdIncVmBody,
      fieldTemplate ''gre-inner-ipv4-dscp-inc'' ''GRE inner IPv4 DSCP inc''
        ''Increment the GRE inner IPv4 DSCP bits while preserving ECN and repair the inner checksum.''
        ''Raw/imported Ethernet[/VLAN/MPLS]/IPv4/GRE stream with inner IPv4 and no GRE checksum option''
        (isRawIpv4GreStreamWithoutGreChecksum \<circ> Some) buildGreInnerIpv4DscpIncVmBody,
      fieldTemplate ''gre-inner-ipv4-ecn-inc'' ''GRE inner IPv4 ECN inc''
        ''Increment the GRE inner IPv4 ECN bits while preserving DSCP and repair the inner checksum.''
        ''Raw/imported Ethernet[/VLAN/MPLS]/IPv4/GRE stream with inner IPv4 and no GRE checksum option''
        (isRawIpv4GreStreamWithoutGreChecksum \<circ> Some) buildGreInnerIpv4EcnIncVmBody,
      fieldTemplate ''gre-inner-ipv4-fragment-offset-inc'' ''GRE inner IPv4 fragment offset inc''
        ''Increment the GRE inner IPv4 fragment offset bits while preserving flags and repair the inner checksum.''
        ''Raw/imported Ethernet[/VLAN/MPLS]/IPv4/GRE stream with inner IPv4 and no GRE checksum option''
        (isRawIpv4GreStreamWithoutGreChecksum \<circ> Some) buildGreInnerIpv4FragmentOffsetIncVmBody,
      fieldTemplate ''gre-inner-ipv4-reserved-flag-vary'' ''GRE inner IPv4 reserved flag vary''
        ''Vary the GRE inner IPv4 reserved fragment flag while preserving DF/MF/offset bits and repair the inner checksum.''
        ''Raw/imported Ethernet[/VLAN/MPLS]/IPv4/GRE stream with inner IPv4 and no GRE checksum option''
        (isRawIpv4GreStreamWithoutGreChecksum \<circ> Some) buildGreInnerIpv4ReservedFlagVaryVmBody,
      fieldTemplate ''gre-inner-ipv4-df-flag-vary'' ''GRE inner IPv4 Don't fragment flag vary''
        ''Vary the GRE inner IPv4 Don't Fragment flag while preserving sibling fragment bits and repair the inner checksum.''
        ''Raw/imported Ethernet[/VLAN/MPLS]/IPv4/GRE stream with inner IPv4 and no GRE checksum option''
        (isRawIpv4GreStreamWithoutGreChecksum \<circ> Some) buildGreInnerIpv4DfFlagVaryVmBody,
      fieldTemplate ''gre-inner-ipv4-mf-flag-vary'' ''GRE inner IPv4 More fragments flag vary''
        ''Vary the GRE inner IPv4 More Fragments flag while preserving sibling fragment bits and repair the inner checksum.''
        ''Raw/imported Ethernet[/VLAN/MPLS]/IPv4/GRE stream with inner IPv4 and no GRE checksum option''
        (isRawIpv4GreStreamWithoutGreChecksum \<circ> Some) buildGreInnerIpv4MfFlagVaryVmBody]"

definition greTransportTemplates :: "AdvancedVmTemplate list" where
  "greTransportTemplates =
     [fieldTemplate ''gre-inner-ipv6-src-inc'' ''GRE inner IPv6 src inc''
        ''Increment the GRE inner IPv6 source address suffix and repair the inner IPv6/UDP checksum.''
        ''Ethernet[/VLAN/MPLS]/IPv4/GRE stream with inner IPv6, no GRE checksum option, and a safely representable suffix''
        (isIpv6GreSrcVmStreamWithoutGreChecksum \<circ> Some) buildGreInnerIpv6SrcIncVmBody,
      fieldTemplate ''gre-inner-ipv6-dst-inc'' ''GRE inner IPv6 dst inc''
        ''Increment the GRE inner IPv6 destination address suffix and repair the inner IPv6/UDP checksum.''
        ''Ethernet[/VLAN/MPLS]/IPv4/GRE stream with inner IPv6, no GRE checksum option, and a safely representable suffix''
        (isIpv6GreDstVmStreamWithoutGreChecksum \<circ> Some) buildGreInnerIpv6DstIncVmBody,
      fieldTemplate ''gre-inner-ipv6-hop-limit-inc'' ''GRE inner IPv6 hop limit inc''
        ''Increment the GRE inner IPv6 Hop Limit field.''
        ''Ethernet[/VLAN/MPLS]/IPv4/GRE stream with inner IPv6 and no GRE checksum option''
        (isIpv6GreStreamWithoutGreChecksum \<circ> Some) buildGreInnerIpv6HopLimitIncVmBody,
      fieldTemplate ''gre-inner-ipv6-traffic-class-inc'' ''GRE inner IPv6 traffic class inc''
        ''Increment the GRE inner IPv6 Traffic Class bits while preserving Version and Flow Label.''
        ''Raw/imported Ethernet[/VLAN/MPLS]/IPv4/GRE stream with inner IPv6 and no GRE checksum option''
        (isRawIpv6GreStreamWithoutGreChecksum \<circ> Some) buildGreInnerIpv6TrafficClassIncVmBody,
      fieldTemplate ''gre-inner-ipv6-flow-label-inc'' ''GRE inner IPv6 flow label inc''
        ''Increment the GRE inner IPv6 Flow Label bits while preserving Version and Traffic Class.''
        ''Raw/imported Ethernet[/VLAN/MPLS]/IPv4/GRE stream with inner IPv6 and no GRE checksum option''
        (isRawIpv6GreStreamWithoutGreChecksum \<circ> Some) buildGreInnerIpv6FlowLabelIncVmBody,
      fieldTemplate ''gre-inner-udp-src-port-inc'' ''GRE inner UDP src port inc''
        ''Increment the GRE inner UDP source port and repair the inner UDP checksum.''
        ''Ethernet[/VLAN/MPLS]/IPv4/GRE stream with inner IPv4 or IPv6 and no GRE checksum option''
        (isGreInnerUdpStreamWithoutGreChecksum \<circ> Some) buildGreInnerUdpSrcPortIncVmBody,
      fieldTemplate ''gre-inner-udp-dst-port-inc'' ''GRE inner UDP dst port inc''
        ''Increment the GRE inner UDP destination port and repair the inner UDP checksum.''
        ''Ethernet[/VLAN/MPLS]/IPv4/GRE stream with inner IPv4 or IPv6 and no GRE checksum option''
        (isGreInnerUdpStreamWithoutGreChecksum \<circ> Some) buildGreInnerUdpDstPortIncVmBody,
      fieldTemplate ''gre-inner-tcp-src-port-inc'' ''GRE inner TCP src port inc''
        ''Increment the GRE inner TCP source port and repair the inner TCP checksum.''
        ''Raw/imported Ethernet[/VLAN/MPLS]/IPv4/GRE stream with inner IP/TCP and no GRE checksum option''
        (isGreInnerTcpStreamWithoutGreChecksum \<circ> Some) buildGreInnerTcpSrcPortIncVmBody,
      fieldTemplate ''gre-inner-tcp-dst-port-inc'' ''GRE inner TCP dst port inc''
        ''Increment the GRE inner TCP destination port and repair the inner TCP checksum.''
        ''Raw/imported Ethernet[/VLAN/MPLS]/IPv4/GRE stream with inner IP/TCP and no GRE checksum option''
        (isGreInnerTcpStreamWithoutGreChecksum \<circ> Some) buildGreInnerTcpDstPortIncVmBody,
      fieldTemplate ''gre-inner-5tuple-inc'' ''GRE inner 5-tuple inc''
        ''Increment inner IPv4 source/destination plus inner UDP source/destination ports for GRE/IPv4/UDP, including key/sequence options.''
        ''Ethernet[/VLAN/MPLS]/IPv4/GRE stream without GRE checksum option''
        (isIpv4GreStreamWithoutGreChecksum \<circ> Some) buildGreInnerFiveTupleVmBody]"

definition gtpuIpv4Templates :: "AdvancedVmTemplate list" where
  "gtpuIpv4Templates =
     [fieldTemplate ''gtpu-message-type-inc'' ''GTP-U message type inc''
        ''Increment the GTP-U message type byte and repair outer IPv4/UDP checksums.''
        ''Ethernet[/VLAN/MPLS]/IPv4/UDP stream with UDP source or destination port 2152''
        (isOuterIpv4GtpuStream \<circ> Some) buildGtpuMessageTypeIncVmBody,
      fieldTemplate ''gtpu-sequence-inc'' ''GTP-U sequence inc''
        ''Increment the optional GTP-U sequence number field.''
        ''Ethernet[/VLAN/MPLS]/IPv4/UDP/GTP-U stream with Sequence present''
        (isOuterIpv4GtpuSequenceStream \<circ> Some) buildGtpuSequenceIncVmBody,
      fieldTemplate ''gtpu-npdu-inc'' ''GTP-U N-PDU inc''
        ''Increment the optional GTP-U N-PDU number field.''
        ''Ethernet[/VLAN/MPLS]/IPv4/UDP/GTP-U stream with N-PDU present''
        (isOuterIpv4GtpuNpduStream \<circ> Some) buildGtpuNpduIncVmBody,
      fieldTemplate ''gtpu-extension-udp-port-inc'' ''GTP-U extension UDP port inc''
        ''Increment the GTP-U UDP Port extension header value.''
        ''Ethernet[/VLAN/MPLS]/IPv4/UDP/GTP-U stream with UDP Port extension''
        (isOuterIpv4GtpuExtensionStream \<circ> Some) buildGtpuExtensionUdpPortIncVmBody,
      fieldTemplate ''gtpu-inner-ipv4-src-inc'' ''GTP-U inner IPv4 src inc''
        ''Increment the inner IPv4 source address suffix and repair the required inner checksum.''
        ''Ethernet[/VLAN/MPLS]/IPv4/UDP/GTP-U stream with inner IPv4''
        (isOuterIpv4GtpuInnerIpv4AddressStream \<circ> Some) buildGtpuInnerIpv4SrcIncVmBody,
      fieldTemplate ''gtpu-inner-ipv4-dst-inc'' ''GTP-U inner IPv4 dst inc''
        ''Increment the inner IPv4 destination address suffix and repair the required inner checksum.''
        ''Ethernet[/VLAN/MPLS]/IPv4/UDP/GTP-U stream with inner IPv4''
        (isOuterIpv4GtpuInnerIpv4AddressStream \<circ> Some) buildGtpuInnerIpv4DstIncVmBody,
      fieldTemplate ''gtpu-inner-ipv4-ttl-inc'' ''GTP-U inner IPv4 TTL inc''
        ''Increment the inner IPv4 TTL and repair the inner IPv4 checksum.''
        ''Ethernet[/VLAN/MPLS]/IPv4/UDP/GTP-U stream with inner IPv4''
        (isOuterIpv4GtpuInnerIpv4TtlStream \<circ> Some) buildGtpuInnerIpv4TtlIncVmBody,
      fieldTemplate ''gtpu-inner-ipv4-id-inc'' ''GTP-U inner IPv4 ID inc''
        ''Increment the inner IPv4 identification field and repair the inner checksum.''
        ''Raw/imported Ethernet[/VLAN/MPLS]/IPv4/UDP/GTP-U stream with inner IPv4''
        (isOuterIpv4GtpuInnerRawIpv4Stream \<circ> Some) buildGtpuInnerIpv4IdIncVmBody,
      fieldTemplate ''gtpu-inner-ipv4-dscp-inc'' ''GTP-U inner IPv4 DSCP inc''
        ''Increment the inner IPv4 DSCP bits while preserving ECN and repair the inner checksum.''
        ''Raw/imported Ethernet[/VLAN/MPLS]/IPv4/UDP/GTP-U stream with inner IPv4''
        (isOuterIpv4GtpuInnerRawIpv4Stream \<circ> Some) buildGtpuInnerIpv4DscpIncVmBody,
      fieldTemplate ''gtpu-inner-ipv4-ecn-inc'' ''GTP-U inner IPv4 ECN inc''
        ''Increment the inner IPv4 ECN bits while preserving DSCP and repair the inner checksum.''
        ''Raw/imported Ethernet[/VLAN/MPLS]/IPv4/UDP/GTP-U stream with inner IPv4''
        (isOuterIpv4GtpuInnerRawIpv4Stream \<circ> Some) buildGtpuInnerIpv4EcnIncVmBody,
      fieldTemplate ''gtpu-inner-ipv4-fragment-offset-inc'' ''GTP-U inner IPv4 fragment offset inc''
        ''Increment the inner IPv4 fragment offset bits while preserving flags and repair the inner checksum.''
        ''Raw/imported Ethernet[/VLAN/MPLS]/IPv4/UDP/GTP-U stream with inner IPv4''
        (isOuterIpv4GtpuInnerRawIpv4Stream \<circ> Some) buildGtpuInnerIpv4FragmentOffsetIncVmBody,
      fieldTemplate ''gtpu-inner-ipv4-reserved-flag-vary'' ''GTP-U inner IPv4 reserved flag vary''
        ''Vary the inner IPv4 reserved fragment flag while preserving DF/MF/offset bits and repair the inner checksum.''
        ''Raw/imported Ethernet[/VLAN/MPLS]/IPv4/UDP/GTP-U stream with inner IPv4''
        (isOuterIpv4GtpuInnerRawIpv4Stream \<circ> Some) buildGtpuInnerIpv4ReservedFlagVaryVmBody,
      fieldTemplate ''gtpu-inner-ipv4-df-flag-vary'' ''GTP-U inner IPv4 Don't fragment flag vary''
        ''Vary the inner IPv4 Don't Fragment flag while preserving sibling fragment bits and repair the inner checksum.''
        ''Raw/imported Ethernet[/VLAN/MPLS]/IPv4/UDP/GTP-U stream with inner IPv4''
        (isOuterIpv4GtpuInnerRawIpv4Stream \<circ> Some) buildGtpuInnerIpv4DfFlagVaryVmBody,
      fieldTemplate ''gtpu-inner-ipv4-mf-flag-vary'' ''GTP-U inner IPv4 More fragments flag vary''
        ''Vary the inner IPv4 More Fragments flag while preserving sibling fragment bits and repair the inner checksum.''
        ''Raw/imported Ethernet[/VLAN/MPLS]/IPv4/UDP/GTP-U stream with inner IPv4''
        (isOuterIpv4GtpuInnerRawIpv4Stream \<circ> Some) buildGtpuInnerIpv4MfFlagVaryVmBody]"

definition gtpuTransportTemplates :: "AdvancedVmTemplate list" where
  "gtpuTransportTemplates =
     [fieldTemplate ''gtpu-inner-ipv6-src-inc'' ''GTP-U inner IPv6 src inc''
        ''Increment the inner IPv6 source address suffix and repair the inner IPv6/UDP checksum.''
        ''Ethernet[/VLAN/MPLS]/IPv4/UDP/GTP-U stream with inner IPv6 and a safely representable suffix''
        (isOuterIpv4GtpuInnerIpv6SrcVmStream \<circ> Some) buildGtpuInnerIpv6SrcIncVmBody,
      fieldTemplate ''gtpu-inner-ipv6-dst-inc'' ''GTP-U inner IPv6 dst inc''
        ''Increment the inner IPv6 destination address suffix and repair the inner IPv6/UDP checksum.''
        ''Ethernet[/VLAN/MPLS]/IPv4/UDP/GTP-U stream with inner IPv6 and a safely representable suffix''
        (isOuterIpv4GtpuInnerIpv6DstVmStream \<circ> Some) buildGtpuInnerIpv6DstIncVmBody,
      fieldTemplate ''gtpu-inner-ipv6-hop-limit-inc'' ''GTP-U inner IPv6 hop limit inc''
        ''Increment the inner IPv6 Hop Limit field.''
        ''Ethernet[/VLAN/MPLS]/IPv4/UDP/GTP-U stream with inner IPv6''
        (isOuterIpv4GtpuInnerIpv6Stream \<circ> Some) buildGtpuInnerIpv6HopLimitIncVmBody,
      fieldTemplate ''gtpu-inner-ipv6-traffic-class-inc'' ''GTP-U inner IPv6 traffic class inc''
        ''Increment the inner IPv6 Traffic Class bits while preserving Version and Flow Label.''
        ''Raw/imported Ethernet[/VLAN/MPLS]/IPv4/UDP/GTP-U stream with inner IPv6''
        (isOuterIpv4GtpuInnerRawIpv6Stream \<circ> Some) buildGtpuInnerIpv6TrafficClassIncVmBody,
      fieldTemplate ''gtpu-inner-ipv6-flow-label-inc'' ''GTP-U inner IPv6 flow label inc''
        ''Increment the inner IPv6 Flow Label bits while preserving Version and Traffic Class.''
        ''Raw/imported Ethernet[/VLAN/MPLS]/IPv4/UDP/GTP-U stream with inner IPv6''
        (isOuterIpv4GtpuInnerRawIpv6Stream \<circ> Some) buildGtpuInnerIpv6FlowLabelIncVmBody,
      fieldTemplate ''gtpu-inner-udp-src-port-inc'' ''GTP-U inner UDP src port inc''
        ''Increment the inner UDP source port and repair the inner UDP checksum.''
        ''Ethernet[/VLAN/MPLS]/IPv4/UDP/GTP-U stream''
        (isOuterIpv4GtpuInnerUdpStream \<circ> Some) buildGtpuInnerUdpSrcPortIncVmBody,
      fieldTemplate ''gtpu-inner-udp-dst-port-inc'' ''GTP-U inner UDP dst port inc''
        ''Increment the inner UDP destination port and repair the inner UDP checksum.''
        ''Ethernet[/VLAN/MPLS]/IPv4/UDP/GTP-U stream''
        (isOuterIpv4GtpuInnerUdpStream \<circ> Some) buildGtpuInnerUdpDstPortIncVmBody,
      fieldTemplate ''gtpu-inner-tcp-src-port-inc'' ''GTP-U inner TCP src port inc''
        ''Increment the inner TCP source port and repair the inner TCP checksum.''
        ''Raw/imported Ethernet[/VLAN/MPLS]/IPv4/UDP/GTP-U stream with inner IP/TCP''
        (isOuterIpv4GtpuInnerTcpStream \<circ> Some) buildGtpuInnerTcpSrcPortIncVmBody,
      fieldTemplate ''gtpu-inner-tcp-dst-port-inc'' ''GTP-U inner TCP dst port inc''
        ''Increment the inner TCP destination port and repair the inner TCP checksum.''
        ''Raw/imported Ethernet[/VLAN/MPLS]/IPv4/UDP/GTP-U stream with inner IP/TCP''
        (isOuterIpv4GtpuInnerTcpStream \<circ> Some) buildGtpuInnerTcpDstPortIncVmBody,
      fieldTemplate ''gtpu-inner-5tuple-inc'' ''GTP-U inner 5-tuple inc''
        ''Increment inner IPv4 source/destination plus inner UDP source/destination ports and repair inner IPv4/UDP checksums.''
        ''Ethernet[/VLAN/MPLS]/IPv4/UDP/GTP-U stream with inner IPv4''
        (isOuterIpv4GtpuInnerIpv4Stream \<circ> Some) buildGtpuInnerFiveTupleVmBody,
      fieldTemplate ''gtpu-teid-inc'' ''GTP-U TEID inc''
        ''Increment the GTP-U TEID at the current packet offset and repair outer IPv4/UDP checksums.''
        ''Ethernet[/VLAN/MPLS]/IPv4/UDP stream with UDP source or destination port 2152''
        (isOuterIpv4GtpuStream \<circ> Some) buildGtpuTeidVmBody]"

definition tcpHeaderTemplates :: "AdvancedVmTemplate list" where
  "tcpHeaderTemplates =
     [fieldTemplate ''tcp-src-port-inc'' ''TCP src port inc''
        ''Increment the TCP source port and repair IPv4/TCP checksums.''
        ''Ethernet[/VLAN/MPLS]/IPv4/TCP stream''
        (isAdvancedOuterIpv4TcpStream \<circ> Some) buildOuterTcpSrcPortIncVmBody,
      fieldTemplate ''tcp-dst-port-inc'' ''TCP dst port inc''
        ''Increment the TCP destination port and repair IPv4/TCP checksums.''
        ''Ethernet[/VLAN/MPLS]/IPv4/TCP stream''
        (isAdvancedOuterIpv4TcpStream \<circ> Some) buildOuterTcpDstPortIncVmBody,
      fieldTemplate ''tcp-5tuple-inc'' ''TCP 5-tuple inc''
        ''Increment outer IPv4 source/destination plus TCP source/destination ports and repair IPv4/TCP checksums.''
        ''Ethernet[/VLAN/MPLS]/IPv4/TCP stream''
        (isAdvancedOuterIpv4TcpStream \<circ> Some) buildOuterTcpFiveTupleVmBody,
      fieldTemplate ''tcp-sequence-inc'' ''TCP sequence inc''
        ''Increment the TCP sequence number and repair TCP checksums.''
        ''Ethernet[/VLAN/MPLS]/IPv4 or IPv6 TCP stream''
        (isAdvancedOuterTcpStream \<circ> Some) buildOuterTcpSequenceIncVmBody,
      fieldTemplate ''tcp-ack-inc'' ''TCP acknowledge inc''
        ''Increment the TCP acknowledge number and repair TCP checksums.''
        ''Ethernet[/VLAN/MPLS]/IPv4 or IPv6 TCP stream''
        (isAdvancedOuterTcpStream \<circ> Some) buildOuterTcpAckIncVmBody,
      fieldTemplate ''tcp-window-inc'' ''TCP window inc''
        ''Increment the TCP window field and repair TCP checksums.''
        ''Ethernet[/VLAN/MPLS]/IPv4 or IPv6 TCP stream''
        (isAdvancedOuterTcpStream \<circ> Some) buildOuterTcpWindowIncVmBody,
      fieldTemplate ''tcp-urgent-pointer-inc'' ''TCP urgent pointer inc''
        ''Increment the TCP urgent pointer field and repair TCP checksums.''
        ''Ethernet[/VLAN/MPLS]/IPv4 or IPv6 TCP stream''
        (isAdvancedOuterTcpStream \<circ> Some) buildOuterTcpUrgentPointerIncVmBody,
      fieldTemplate ''tcp-flags-inc'' ''TCP flags inc''
        ''Increment the low TCP flags bits with a masked VM write and repair TCP checksums.''
        ''Ethernet[/VLAN/MPLS]/IPv4 or IPv6 TCP stream''
        (isAdvancedOuterTcpStream \<circ> Some) buildOuterTcpFlagsIncVmBody,
      fieldTemplate ''tcp-reserved-bits-inc'' ''TCP reserved bits inc''
        ''Increment TCP reserved bits while preserving data offset and flags; repair TCP checksums.''
        ''Ethernet[/VLAN/MPLS]/IPv4 or IPv6 TCP stream''
        (isAdvancedOuterTcpStream \<circ> Some) buildOuterTcpReservedBitsIncVmBody,
      fieldTemplate ''tcp-urg-flag-vary'' ''TCP URG flag vary''
        ''Vary the TCP URG flag while preserving sibling flags and repair TCP checksums.''
        ''Ethernet[/VLAN/MPLS]/IPv4 or IPv6 TCP stream''
        (isAdvancedOuterTcpStream \<circ> Some) (\<lambda>s. buildOuterTcpFlagVaryVmBody s FlagUrg),
      fieldTemplate ''tcp-ack-flag-vary'' ''TCP ACK flag vary''
        ''Vary the TCP ACK flag while preserving sibling flags and repair TCP checksums.''
        ''Ethernet[/VLAN/MPLS]/IPv4 or IPv6 TCP stream''
        (isAdvancedOuterTcpStream \<circ> Some) (\<lambda>s. buildOuterTcpFlagVaryVmBody s FlagAck),
      fieldTemplate ''tcp-psh-flag-vary'' ''TCP PSH flag vary''
        ''Vary the TCP PSH flag while preserving sibling flags and repair TCP checksums.''
        ''Ethernet[/VLAN/MPLS]/IPv4 or IPv6 TCP stream''
        (isAdvancedOuterTcpStream \<circ> Some) (\<lambda>s. buildOuterTcpFlagVaryVmBody s FlagPsh),
      fieldTemplate ''tcp-rst-flag-vary'' ''TCP RST flag vary''
        ''Vary the TCP RST flag while preserving sibling flags and repair TCP checksums.''
        ''Ethernet[/VLAN/MPLS]/IPv4 or IPv6 TCP stream''
        (isAdvancedOuterTcpStream \<circ> Some) (\<lambda>s. buildOuterTcpFlagVaryVmBody s FlagRst),
      fieldTemplate ''tcp-syn-flag-vary'' ''TCP SYN flag vary''
        ''Vary the TCP SYN flag while preserving sibling flags and repair TCP checksums.''
        ''Ethernet[/VLAN/MPLS]/IPv4 or IPv6 TCP stream''
        (isAdvancedOuterTcpStream \<circ> Some) (\<lambda>s. buildOuterTcpFlagVaryVmBody s FlagSyn),
      fieldTemplate ''tcp-fin-flag-vary'' ''TCP FIN flag vary''
        ''Vary the TCP FIN flag while preserving sibling flags and repair TCP checksums.''
        ''Ethernet[/VLAN/MPLS]/IPv4 or IPv6 TCP stream''
        (isAdvancedOuterTcpStream \<circ> Some) (\<lambda>s. buildOuterTcpFlagVaryVmBody s FlagFin),
      fieldTemplate ''tcp-checksum-inc'' ''TCP checksum inc''
        ''Increment the TCP checksum field as the terminal checksum write.''
        ''Ethernet[/VLAN/MPLS]/IPv4 or IPv6 TCP stream''
        (isAdvancedOuterTcpStream \<circ> Some) buildOuterTcpChecksumIncVmBody]"

definition tcpOptionTemplates :: "AdvancedVmTemplate list" where
  "tcpOptionTemplates =
     [fieldTemplate ''tcp-option-mss-inc'' ''TCP MSS option inc''
        ''Increment the MSS option value and repair TCP checksums.''
        ''TCP stream with MSS option enabled''
        (isAdvancedOuterTcpMssStream \<circ> Some) buildOuterTcpOptionMssIncVmBody,
      fieldTemplate ''tcp-option-window-scale-inc'' ''TCP window scale option inc''
        ''Increment the Window Scale option value and repair TCP checksums.''
        ''TCP stream with Window Scale option enabled''
        (isAdvancedOuterTcpWindowScaleStream \<circ> Some) buildOuterTcpOptionWindowScaleIncVmBody,
      fieldTemplate ''tcp-option-timestamp-value-inc'' ''TCP timestamp value inc''
        ''Increment the TCP Timestamp value and repair TCP checksums.''
        ''TCP stream with Timestamp option enabled''
        (isAdvancedOuterTcpTimestampStream \<circ> Some) buildOuterTcpOptionTimestampValueIncVmBody,
      fieldTemplate ''tcp-option-timestamp-echo-inc'' ''TCP timestamp echo inc''
        ''Increment the TCP Timestamp echo reply and repair TCP checksums.''
        ''TCP stream with Timestamp option enabled''
        (isAdvancedOuterTcpTimestampStream \<circ> Some) buildOuterTcpOptionTimestampEchoIncVmBody,
      fieldTemplate ''tcp-option-sack-left-inc'' ''TCP SACK left edge inc''
        ''Increment the first SACK left edge and repair TCP checksums.''
        ''TCP stream with SACK block option enabled''
        (isAdvancedOuterTcpSackBlockStream \<circ> Some) buildOuterTcpOptionSackLeftIncVmBody,
      fieldTemplate ''tcp-option-sack-right-inc'' ''TCP SACK right edge inc''
        ''Increment the first SACK right edge and repair TCP checksums.''
        ''TCP stream with SACK block option enabled''
        (isAdvancedOuterTcpSackBlockStream \<circ> Some) buildOuterTcpOptionSackRightIncVmBody,
      fieldTemplate ''tcp-option-sack2-left-inc'' ''TCP SACK 2 left edge inc''
        ''Increment the second raw SACK block left edge and repair TCP checksums.''
        ''Raw/imported TCP stream with a second SACK block''
        (isAdvancedRawTcpSackSecondBlockStream \<circ> Some) buildOuterTcpOptionSack2LeftIncVmBody,
      fieldTemplate ''tcp-option-sack2-right-inc'' ''TCP SACK 2 right edge inc''
        ''Increment the second raw SACK block right edge and repair TCP checksums.''
        ''Raw/imported TCP stream with a second SACK block''
        (isAdvancedRawTcpSackSecondBlockStream \<circ> Some) buildOuterTcpOptionSack2RightIncVmBody,
      fieldTemplate ''tcp-option-sack3-left-inc'' ''TCP SACK 3 left edge inc''
        ''Increment the third raw SACK block left edge and repair TCP checksums.''
        ''Raw/imported TCP stream with a third SACK block''
        (isAdvancedRawTcpSackThirdBlockStream \<circ> Some) buildOuterTcpOptionSack3LeftIncVmBody,
      fieldTemplate ''tcp-option-sack3-right-inc'' ''TCP SACK 3 right edge inc''
        ''Increment the third raw SACK block right edge and repair TCP checksums.''
        ''Raw/imported TCP stream with a third SACK block''
        (isAdvancedRawTcpSackThirdBlockStream \<circ> Some) buildOuterTcpOptionSack3RightIncVmBody,
      fieldTemplate ''tcp-option-sack4-left-inc'' ''TCP SACK 4 left edge inc''
        ''Increment the fourth raw SACK block left edge and repair TCP checksums.''
        ''Raw/imported TCP stream with a fourth SACK block''
        (isAdvancedRawTcpSackFourthBlockStream \<circ> Some) buildOuterTcpOptionSack4LeftIncVmBody,
      fieldTemplate ''tcp-option-sack4-right-inc'' ''TCP SACK 4 right edge inc''
        ''Increment the fourth raw SACK block right edge and repair TCP checksums.''
        ''Raw/imported TCP stream with a fourth SACK block''
        (isAdvancedRawTcpSackFourthBlockStream \<circ> Some) buildOuterTcpOptionSack4RightIncVmBody,
      fieldTemplate ''ipv6-tcp-src-port-inc'' ''IPv6 TCP src port inc''
        ''Increment the outer TCP source port on an IPv6 packet and repair the TCP checksum.''
        ''Ethernet[/VLAN/MPLS]/IPv6/TCP stream''
        (isAdvancedOuterIpv6TcpStream \<circ> Some) buildOuterIpv6TcpSrcPortIncVmBody,
      fieldTemplate ''ipv6-tcp-dst-port-inc'' ''IPv6 TCP dst port inc''
        ''Increment the outer TCP destination port on an IPv6 packet and repair the TCP checksum.''
        ''Ethernet[/VLAN/MPLS]/IPv6/TCP stream''
        (isAdvancedOuterIpv6TcpStream \<circ> Some) buildOuterIpv6TcpDstPortIncVmBody,
      fieldTemplate ''ipv6-tcp-5tuple-inc'' ''IPv6 TCP 5-tuple inc''
        ''Increment outer IPv6 source/destination suffixes plus TCP source/destination ports and repair the TCP checksum.''
        ''Ethernet[/VLAN/MPLS]/IPv6/TCP stream with safely representable IPv6 suffixes''
        (isAdvancedOuterIpv6TcpFiveTupleStream \<circ> Some) buildOuterIpv6TcpFiveTupleVmBody]"

definition sctpTemplates :: "AdvancedVmTemplate list" where
  "sctpTemplates =
     [fieldTemplate ''sctp-src-port-inc'' ''SCTP src port inc''
        ''Increment the SCTP common-header source port.''
        ''Ethernet[/VLAN/MPLS]/IPv4 or IPv6 SCTP stream''
        (isAdvancedOuterSctpStream \<circ> Some) buildSctpSourcePortIncVmBody,
      fieldTemplate ''sctp-dst-port-inc'' ''SCTP dst port inc''
        ''Increment the SCTP common-header destination port.''
        ''Ethernet[/VLAN/MPLS]/IPv4 or IPv6 SCTP stream''
        (isAdvancedOuterSctpStream \<circ> Some) buildSctpDestinationPortIncVmBody,
      fieldTemplate ''sctp-verification-tag-inc'' ''SCTP verification tag inc''
        ''Increment the SCTP common-header verification tag.''
        ''Ethernet[/VLAN/MPLS]/IPv4 or IPv6 SCTP stream''
        (isAdvancedOuterSctpStream \<circ> Some) buildSctpVerificationTagIncVmBody,
      fieldTemplate ''sctp-data-flags-inc'' ''SCTP DATA flags inc''
        ''Increment the SCTP DATA chunk flags byte.''
        ''Ethernet[/VLAN/MPLS]/IPv4 or IPv6 SCTP DATA stream''
        (isAdvancedOuterSctpDataStream \<circ> Some) buildSctpDataFlagsIncVmBody,
      fieldTemplate ''sctp-data-reserved-flags-inc'' ''SCTP DATA reserved flags inc''
        ''Increment the SCTP DATA reserved flags nibble while preserving the DATA flag bits.''
        ''Ethernet[/VLAN/MPLS]/IPv4 or IPv6 SCTP DATA stream''
        (isAdvancedOuterSctpDataStream \<circ> Some) buildSctpDataReservedFlagsIncVmBody,
      fieldTemplate ''sctp-data-immediate-sack-flag-vary'' ''SCTP DATA Immediate SACK flag vary''
        ''Vary the SCTP DATA Immediate SACK flag while preserving sibling DATA flags.''
        ''Ethernet[/VLAN/MPLS]/IPv4 or IPv6 SCTP DATA stream''
        (isAdvancedOuterSctpDataStream \<circ> Some) buildSctpDataImmediateSackFlagVmBody,
      fieldTemplate ''sctp-data-unordered-flag-vary'' ''SCTP DATA Unordered flag vary''
        ''Vary the SCTP DATA Unordered flag while preserving sibling DATA flags.''
        ''Ethernet[/VLAN/MPLS]/IPv4 or IPv6 SCTP DATA stream''
        (isAdvancedOuterSctpDataStream \<circ> Some) buildSctpDataUnorderedFlagVmBody,
      fieldTemplate ''sctp-data-beginning-flag-vary'' ''SCTP DATA Beginning fragment flag vary''
        ''Vary the SCTP DATA Beginning fragment flag while preserving sibling DATA flags.''
        ''Ethernet[/VLAN/MPLS]/IPv4 or IPv6 SCTP DATA stream''
        (isAdvancedOuterSctpDataStream \<circ> Some) buildSctpDataBeginningFragmentFlagVmBody,
      fieldTemplate ''sctp-data-ending-flag-vary'' ''SCTP DATA Ending fragment flag vary''
        ''Vary the SCTP DATA Ending fragment flag while preserving sibling DATA flags.''
        ''Ethernet[/VLAN/MPLS]/IPv4 or IPv6 SCTP DATA stream''
        (isAdvancedOuterSctpDataStream \<circ> Some) buildSctpDataEndingFragmentFlagVmBody,
      fieldTemplate ''sctp-tsn-inc'' ''SCTP TSN inc''
        ''Increment the SCTP DATA chunk transmission sequence number.''
        ''Ethernet[/VLAN/MPLS]/IPv4 or IPv6 SCTP DATA stream''
        (isAdvancedOuterSctpStream \<circ> Some) buildSctpTsnIncVmBody,
      fieldTemplate ''sctp-stream-id-inc'' ''SCTP stream ID inc''
        ''Increment the SCTP DATA chunk stream identifier.''
        ''Ethernet[/VLAN/MPLS]/IPv4 or IPv6 SCTP DATA stream''
        (isAdvancedOuterSctpStream \<circ> Some) buildSctpStreamIdIncVmBody,
      fieldTemplate ''sctp-stream-sequence-inc'' ''SCTP stream sequence inc''
        ''Increment the SCTP DATA chunk stream sequence number.''
        ''Ethernet[/VLAN/MPLS]/IPv4 or IPv6 SCTP DATA stream''
        (isAdvancedOuterSctpStream \<circ> Some) buildSctpStreamSequenceIncVmBody,
      fieldTemplate ''sctp-payload-protocol-id-inc'' ''SCTP payload protocol ID inc''
        ''Increment the SCTP DATA chunk payload protocol identifier.''
        ''Ethernet[/VLAN/MPLS]/IPv4 or IPv6 SCTP DATA stream''
        (isAdvancedOuterSctpStream \<circ> Some) buildSctpPayloadProtocolIdIncVmBody]"

definition icmpTemplates :: "AdvancedVmTemplate list" where
  "icmpTemplates =
     [fieldTemplate ''icmpv4-type-paired-inc'' ''ICMP type inc''
        ''Increment an IPv4 ICMP Echo type byte and update the ICMP checksum field in lockstep.''
        ''Advanced/raw Ethernet[/VLAN/MPLS]/IPv4/ICMP Echo packet with valid checksum and no field/checksum wrap''
        (isAdvancedIcmpv4EchoTypeStream \<circ> Some) buildIcmpv4TypeChecksumCoupledVmBody,
      fieldTemplate ''icmpv4-code-paired-inc'' ''ICMP code inc''
        ''Increment an IPv4 ICMP Echo code byte and update the ICMP checksum field in lockstep.''
        ''Advanced/raw Ethernet[/VLAN/MPLS]/IPv4/ICMP Echo packet with valid checksum and no field/checksum wrap''
        (isAdvancedIcmpv4EchoCodeStream \<circ> Some) buildIcmpv4CodeChecksumCoupledVmBody,
      hiddenTemplate ''icmpv4-identifier-paired-inc'' ''ICMP identifier inc''
        ''Increment an IPv4 ICMP Echo identifier and update the ICMP checksum field in lockstep.''
        ''Advanced/raw Ethernet[/VLAN/MPLS]/IPv4/ICMP Echo packet with valid checksum and no field/checksum wrap''
        (isAdvancedIcmpv4EchoIdentifierStream \<circ> Some) buildIcmpv4IdentifierChecksumCoupledVmBody,
      hiddenTemplate ''icmpv4-sequence-paired-inc'' ''ICMP sequence inc''
        ''Increment an IPv4 ICMP Echo sequence and update the ICMP checksum field in lockstep.''
        ''Advanced/raw Ethernet[/VLAN/MPLS]/IPv4/ICMP Echo packet with valid checksum and no field/checksum wrap''
        (isAdvancedIcmpv4EchoSequenceStream \<circ> Some) buildIcmpv4SequenceChecksumCoupledVmBody,
      fieldTemplate ''icmpv6-type-inc'' ''ICMPv6 type inc''
        ''Increment ICMPv6 Echo type and repair the IPv6 pseudo-header checksum.''
        ''Ethernet[/VLAN/MPLS]/IPv6/ICMPv6 Echo Request/Reply stream''
        (isIcmpv6EchoStream \<circ> Some) buildIcmpv6TypeIncVmBody,
      fieldTemplate ''icmpv6-code-inc'' ''ICMPv6 code inc''
        ''Increment ICMPv6 Echo code and repair the IPv6 pseudo-header checksum.''
        ''Ethernet[/VLAN/MPLS]/IPv6/ICMPv6 Echo Request/Reply stream''
        (isIcmpv6EchoStream \<circ> Some) buildIcmpv6CodeIncVmBody,
      fieldTemplate ''icmpv6-identifier-inc'' ''ICMPv6 identifier inc''
        ''Increment ICMPv6 Echo identifier and repair the IPv6 pseudo-header checksum.''
        ''Ethernet[/VLAN/MPLS]/IPv6/ICMPv6 Echo Request/Reply stream''
        (isIcmpv6EchoStream \<circ> Some) buildIcmpv6IdentifierIncVmBody,
      fieldTemplate ''icmpv6-sequence-inc'' ''ICMPv6 sequence inc''
        ''Increment ICMPv6 Echo sequence and repair the IPv6 pseudo-header checksum.''
        ''Ethernet[/VLAN/MPLS]/IPv6/ICMPv6 Echo Request/Reply stream''
        (isIcmpv6EchoStream \<circ> Some) buildIcmpv6SequenceIncVmBody,
      fieldTemplate ''icmpv6-nd-target-inc'' ''ICMPv6 ND target inc''
        ''Increment the suffix of an existing ICMPv6 Neighbor Discovery target address from raw packet bytes.''
        ''Advanced/raw Ethernet[/VLAN/MPLS]/IPv6/ICMPv6 Neighbor Solicitation or Advertisement packet''
        (isAdvancedIcmpv6NdTargetAddressStream \<circ> Some) buildIcmpv6NdTargetAddressIncVmBody,
      fieldTemplate ''icmpv6-na-router-flag-vary'' ''ICMPv6 NA router flag vary''
        ''Vary the Router flag inside an existing ICMPv6 Neighbor Advertisement without changing sibling flags.''
        ''Advanced/raw Ethernet[/VLAN/MPLS]/IPv6/ICMPv6 Neighbor Advertisement packet''
        (isAdvancedIcmpv6NaFlagsStream \<circ> Some) buildIcmpv6NaRouterFlagVmBody,
      fieldTemplate ''icmpv6-na-solicited-flag-vary'' ''ICMPv6 NA solicited flag vary''
        ''Vary the Solicited flag inside an existing ICMPv6 Neighbor Advertisement without changing sibling flags.''
        ''Advanced/raw Ethernet[/VLAN/MPLS]/IPv6/ICMPv6 Neighbor Advertisement packet''
        (isAdvancedIcmpv6NaFlagsStream \<circ> Some) buildIcmpv6NaSolicitedFlagVmBody,
      fieldTemplate ''icmpv6-na-override-flag-vary'' ''ICMPv6 NA override flag vary''
        ''Vary the Override flag inside an existing ICMPv6 Neighbor Advertisement without changing sibling flags.''
        ''Advanced/raw Ethernet[/VLAN/MPLS]/IPv6/ICMPv6 Neighbor Advertisement packet''
        (isAdvancedIcmpv6NaFlagsStream \<circ> Some) buildIcmpv6NaOverrideFlagVmBody,
      fieldTemplate ''icmpv6-link-layer-mac-inc'' ''ICMPv6 link-layer MAC inc''
        ''Increment the suffix of an existing ICMPv6 Source or Target Link-Layer Address option.''
        ''Advanced/raw Ethernet[/VLAN/MPLS]/IPv6/ICMPv6 RS/RA/NS/NA packet with a link-layer option''
        (isAdvancedIcmpv6LinkLayerOptionMacStream \<circ> Some) buildIcmpv6LinkLayerOptionMacIncVmBody]"

definition routerAdvertisementTemplates :: "AdvancedVmTemplate list" where
  "routerAdvertisementTemplates =
     [fieldTemplate ''icmpv6-ra-managed-flag-vary'' ''ICMPv6 RA managed flag vary''
        ''Vary the Managed address configuration flag inside an existing ICMPv6 Router Advertisement.''
        ''Advanced/raw Ethernet[/VLAN/MPLS]/IPv6/ICMPv6 Router Advertisement packet''
        (isAdvancedIcmpv6RaFixedStream \<circ> Some) buildIcmpv6RaManagedFlagVmBody,
      fieldTemplate ''icmpv6-ra-other-flag-vary'' ''ICMPv6 RA other flag vary''
        ''Vary the Other configuration flag inside an existing ICMPv6 Router Advertisement.''
        ''Advanced/raw Ethernet[/VLAN/MPLS]/IPv6/ICMPv6 Router Advertisement packet''
        (isAdvancedIcmpv6RaFixedStream \<circ> Some) buildIcmpv6RaOtherFlagVmBody,
      fieldTemplate ''icmpv6-ra-router-lifetime-inc'' ''ICMPv6 RA router lifetime inc''
        ''Increment the Router Lifetime field of an existing ICMPv6 Router Advertisement.''
        ''Advanced/raw Ethernet[/VLAN/MPLS]/IPv6/ICMPv6 Router Advertisement packet''
        (isAdvancedIcmpv6RaFixedStream \<circ> Some) buildIcmpv6RaRouterLifetimeIncVmBody,
      fieldTemplate ''icmpv6-ra-current-hop-limit-inc'' ''ICMPv6 RA current hop limit inc''
        ''Increment the Current Hop Limit field of an existing ICMPv6 Router Advertisement.''
        ''Advanced/raw Ethernet[/VLAN/MPLS]/IPv6/ICMPv6 Router Advertisement packet''
        (isAdvancedIcmpv6RaFixedStream \<circ> Some) buildIcmpv6RaCurrentHopLimitIncVmBody,
      fieldTemplate ''icmpv6-ra-reachable-time-inc'' ''ICMPv6 RA reachable time inc''
        ''Increment the Reachable Time field of an existing ICMPv6 Router Advertisement.''
        ''Advanced/raw Ethernet[/VLAN/MPLS]/IPv6/ICMPv6 Router Advertisement packet''
        (isAdvancedIcmpv6RaFixedStream \<circ> Some) buildIcmpv6RaReachableTimeIncVmBody,
      fieldTemplate ''icmpv6-ra-retrans-timer-inc'' ''ICMPv6 RA retrans timer inc''
        ''Increment the Retrans Timer field of an existing ICMPv6 Router Advertisement.''
        ''Advanced/raw Ethernet[/VLAN/MPLS]/IPv6/ICMPv6 Router Advertisement packet''
        (isAdvancedIcmpv6RaFixedStream \<circ> Some) buildIcmpv6RaRetransTimerIncVmBody,
      fieldTemplate ''icmpv6-ra-prefix-on-link-flag-vary'' ''ICMPv6 RA prefix on-link flag vary''
        ''Vary the On-link flag inside an existing ICMPv6 Prefix Information option.''
        ''Advanced/raw Ethernet[/VLAN/MPLS]/IPv6/ICMPv6 Router Advertisement with Prefix Information option''
        (isAdvancedIcmpv6RaPrefixInfoStream \<circ> Some) buildIcmpv6RaPrefixOnLinkFlagVmBody,
      fieldTemplate ''icmpv6-ra-prefix-autonomous-flag-vary'' ''ICMPv6 RA prefix autonomous flag vary''
        ''Vary the Autonomous address-configuration flag inside an existing ICMPv6 Prefix Information option.''
        ''Advanced/raw Ethernet[/VLAN/MPLS]/IPv6/ICMPv6 Router Advertisement with Prefix Information option''
        (isAdvancedIcmpv6RaPrefixInfoStream \<circ> Some) buildIcmpv6RaPrefixAutonomousFlagVmBody,
      fieldTemplate ''icmpv6-ra-prefix-length-inc'' ''ICMPv6 RA prefix length inc''
        ''Increment the Prefix Length field of an existing ICMPv6 Prefix Information option.''
        ''Advanced/raw Ethernet[/VLAN/MPLS]/IPv6/ICMPv6 Router Advertisement with Prefix Information option''
        (isAdvancedIcmpv6RaPrefixInfoStream \<circ> Some) buildIcmpv6RaPrefixLengthIncVmBody,
      fieldTemplate ''icmpv6-ra-prefix-valid-lifetime-inc'' ''ICMPv6 RA prefix valid lifetime inc''
        ''Increment the Valid Lifetime field of an existing ICMPv6 Prefix Information option.''
        ''Advanced/raw Ethernet[/VLAN/MPLS]/IPv6/ICMPv6 Router Advertisement with Prefix Information option''
        (isAdvancedIcmpv6RaPrefixInfoStream \<circ> Some) buildIcmpv6RaPrefixValidLifetimeIncVmBody,
      fieldTemplate ''icmpv6-ra-prefix-preferred-lifetime-inc'' ''ICMPv6 RA prefix preferred lifetime inc''
        ''Increment the Preferred Lifetime field of an existing ICMPv6 Prefix Information option.''
        ''Advanced/raw Ethernet[/VLAN/MPLS]/IPv6/ICMPv6 Router Advertisement with Prefix Information option''
        (isAdvancedIcmpv6RaPrefixInfoStream \<circ> Some) buildIcmpv6RaPrefixPreferredLifetimeIncVmBody,
      fieldTemplate ''icmpv6-ra-prefix-inc'' ''ICMPv6 RA prefix inc''
        ''Increment the suffix of an existing ICMPv6 Prefix Information prefix.''
        ''Advanced/raw Ethernet[/VLAN/MPLS]/IPv6/ICMPv6 Router Advertisement with Prefix Information option''
        (isAdvancedIcmpv6RaPrefixInfoStream \<circ> Some) buildIcmpv6RaPrefixIncVmBody]"

definition tagTemplates :: "AdvancedVmTemplate list" where
  "tagTemplates =
     [fieldTemplate ''vlan-id-inc'' ''VLAN ID inc''
        ''Increment the 802.1Q VLAN ID inside the outer VLAN TCI.''
        ''Tagged VLAN stream''
        (isTaggedVlanStream \<circ> Some) (\<lambda>s. buildVlanIdIncVmBody s 1),
      fieldTemplate ''vlan-priority-inc'' ''VLAN priority inc''
        ''Increment the 802.1Q PCP priority bits inside the outer VLAN TCI.''
        ''Tagged VLAN stream''
        (isTaggedVlanStream \<circ> Some) (\<lambda>s. buildVlanPriorityIncVmBody s 1),
      fieldTemplate ''vlan-cfi-vary'' ''VLAN CFI/DEI vary''
        ''Vary the outer 802.1Q CFI/DEI bit while preserving priority and VLAN ID.''
        ''Tagged VLAN stream''
        (isTaggedVlanStream \<circ> Some) (\<lambda>s. buildVlanCfiVaryVmBody s 1),
      fieldTemplate ''vlan-inner-id-inc'' ''VLAN inner ID inc''
        ''Increment the inner 802.1Q VLAN ID inside the QinQ inner TCI.''
        ''QinQ inner VLAN stream''
        (isInnerTaggedVlanStream \<circ> Some) buildInnerVlanIdIncVmBody,
      fieldTemplate ''vlan-inner-priority-inc'' ''VLAN inner priority inc''
        ''Increment the inner 802.1Q PCP priority bits on a QinQ stream.''
        ''QinQ inner VLAN stream''
        (isInnerTaggedVlanStream \<circ> Some) buildInnerVlanPriorityIncVmBody,
      fieldTemplate ''vlan-inner-cfi-vary'' ''VLAN inner CFI/DEI vary''
        ''Vary the QinQ inner CFI/DEI bit while preserving inner priority and VLAN ID.''
        ''QinQ inner VLAN stream''
        (isInnerTaggedVlanStream \<circ> Some) buildInnerVlanCfiVaryVmBody,
      fieldTemplate ''mpls-label-inc'' ''MPLS label inc''
        ''Increment the top MPLS label field.''
        ''MPLS stream''
        (isMplsStream \<circ> Some) buildMplsLabelIncVmBody,
      fieldTemplate ''mpls-tc-inc'' ''MPLS TC inc''
        ''Increment the top MPLS traffic class bits.''
        ''MPLS stream''
        (isMplsStream \<circ> Some) buildMplsTrafficClassIncVmBody,
      fieldTemplate ''mpls-ttl-inc'' ''MPLS TTL inc''
        ''Increment the top MPLS TTL byte.''
        ''MPLS stream''
        (isMplsStream \<circ> Some) buildMplsTtlIncVmBody,
      fieldTemplate ''mpls-label2-inc'' ''Second MPLS label inc''
        ''Increment the second MPLS label field.''
        ''MPLS stream with second label enabled''
        (isSecondMplsStream \<circ> Some) buildSecondMplsLabelIncVmBody,
      fieldTemplate ''mpls-label2-tc-inc'' ''Second MPLS TC inc''
        ''Increment the second MPLS traffic class bits.''
        ''MPLS stream with second label enabled''
        (isSecondMplsStream \<circ> Some) buildSecondMplsTrafficClassIncVmBody,
      fieldTemplate ''mpls-label2-ttl-inc'' ''Second MPLS TTL inc''
        ''Increment the second MPLS TTL byte.''
        ''MPLS stream with second label enabled''
        (isSecondMplsStream \<circ> Some) buildSecondMplsTtlIncVmBody,
      fieldTemplate ''mpls-label3-inc'' ''Third MPLS label inc''
        ''Increment the third MPLS label field.''
        ''MPLS stream with third label enabled''
        (isThirdMplsStream \<circ> Some) buildThirdMplsLabelIncVmBody,
      fieldTemplate ''mpls-label3-tc-inc'' ''Third MPLS TC inc''
        ''Increment the third MPLS traffic class bits.''
        ''MPLS stream with third label enabled''
        (isThirdMplsStream \<circ> Some) buildThirdMplsTrafficClassIncVmBody,
      fieldTemplate ''mpls-label3-ttl-inc'' ''Third MPLS TTL inc''
        ''Increment the third MPLS TTL byte.''
        ''MPLS stream with third label enabled''
        (isThirdMplsStream \<circ> Some) buildThirdMplsTtlIncVmBody,
      fixedTemplate ''disable-cache'' ''Disable VM cache''
        ''Set VM cache size to zero while leaving instructions empty.''
        ''Any stream''
        [(''cache_size'', VmNumber 0), (''instructions'', VmArray []), (''split_by_var'', VmText [])]]"

definition advancedVmTemplates :: "AdvancedVmTemplate list" where
  "advancedVmTemplates = concat
     [generalTemplates, ipv4Templates, ipv6Templates, udpTemplates, dnsHeaderTemplates, dnsRecordTemplates,
      dhcpMessageTemplates, dhcpOptionTemplates, vxlanIpv4Templates, vxlanEthernetTemplates, vxlanTransportTemplates,
      greIpv4Templates, greTransportTemplates, gtpuIpv4Templates, gtpuTransportTemplates, tcpHeaderTemplates,
      tcpOptionTemplates, sctpTemplates, icmpTemplates, routerAdvertisementTemplates, tagTemplates]"

end
