(* ===== verification/VmJson.thy ===== *)
theory VmJson
  imports FlowVars
begin

text \<open>
  The text of a field engine program: \<open>JSON.stringify\<close> and \<open>JSON.parse\<close> as far as the program uses
  them, and \<open>advancedVmJsonModel.ts\<close> on top of them. The parser follows the grammar of the language
  standard; characters are those of the model, so an escape for a code unit from 256 on is
  refused here.
\<close>

section \<open>Numbers\<close>

text \<open>The value of a positive ratio as a number of the language; very small ones are subnormal.\<close>

fun reducedFraction :: "nat \<Rightarrow> int \<Rightarrow> VmValue" where
  "reducedFraction 0 m = VmNumber m"
| "reducedFraction (Suc s) m = (if even m then reducedFraction s (m div 2) else VmFraction m (int s + 1))"

definition roundedRatio :: "int \<Rightarrow> int \<Rightarrow> int" where
  "roundedRatio a b =
     (let k = a div b; r = a mod b in if 2 * r > b \<or> 2 * r = b \<and> odd k then k + 1 else k)"

definition doubleValue :: "int \<Rightarrow> int \<Rightarrow> VmValue" where
  "doubleValue p q =
     (if q = 1 \<and> p < 2 ^ 53 then VmNumber p
      else let (m, s) = nearestDouble p q in
           if s > 1074 then reducedFraction 1074 (roundedRatio (p * 2 ^ 1074) q)
           else if s \<ge> 0 then reducedFraction (nat s) m
           else if m * 2 ^ nat (- s) \<ge> 2 ^ 1024 then VmInfinity
           else VmNumber (m * 2 ^ nat (- s)))"

text \<open>
  The text of a double: the shortest run of digits that denotes it, and the closest one of that
  length. \<open>decimalPoint p q\<close> is the \<open>n\<close> with \<open>10 ^ (n - 1) \<le> p / q < 10 ^ n\<close>.
\<close>

fun leadingZeros :: "nat \<Rightarrow> int \<Rightarrow> int \<Rightarrow> int" where
  "leadingZeros 0 p q = 0"
| "leadingZeros (Suc fuel) p q = (if p * 10 \<ge> q then 0 else 1 + leadingZeros fuel (p * 10) q)"

definition decimalPoint :: "int \<Rightarrow> int \<Rightarrow> int" where
  "decimalPoint p q = (if p \<ge> q then int (length (decText (p div q))) else - leadingZeros 400 p q)"

definition scaledBy10 :: "int \<Rightarrow> int \<Rightarrow> int \<Rightarrow> int \<times> int" where
  "scaledBy10 p q e = (if e \<ge> 0 then (p * 10 ^ nat e, q) else (p, q * 10 ^ nat (- e)))"

definition denotes :: "int \<Rightarrow> int \<Rightarrow> VmValue \<Rightarrow> bool" where
  "denotes c e v = (let (a, b) = scaledBy10 c 1 e in doubleValue a b = v)"

definition shortestAt :: "int \<Rightarrow> int \<Rightarrow> VmValue \<Rightarrow> int \<Rightarrow> int \<Rightarrow> int option" where
  "shortestAt p q v n k =
     (let (a, b) = scaledBy10 p q (k - n);
          lo = a div b; hi = lo + 1;
          near = (if 2 * (a mod b) > b \<or> 2 * (a mod b) = b \<and> odd lo then [hi, lo] else [lo, hi])
      in List.find (\<lambda>c. 10 ^ nat (k - 1) \<le> c \<and> c < 10 ^ nat k \<and> denotes c (n - k) v) near)"

fun shortestFrom :: "nat \<Rightarrow> int \<Rightarrow> int \<Rightarrow> VmValue \<Rightarrow> int \<Rightarrow> int \<Rightarrow> int \<times> int" where
  "shortestFrom 0 p q v n k = (0, k)"
| "shortestFrom (Suc fuel) p q v n k =
     (case shortestAt p q v n k of Some c \<Rightarrow> (c, k) | None \<Rightarrow> shortestFrom fuel p q v n (k + 1))"

definition exponentText :: "int \<Rightarrow> string" where
  "exponentText e = ''e'' @ (if e < 0 then ''-'' else ''+'') @ decText \<bar>e\<bar>"

text \<open>The double \<open>p / 2 ^ s\<close>.\<close>

definition positiveDoubleText :: "int \<Rightarrow> int \<Rightarrow> string" where
  "positiveDoubleText p s =
     (let q = 2 ^ nat s; n = decimalPoint p q;
          (c, k) = shortestFrom 17 p q (if s = 0 then VmNumber p else VmFraction p s) n 1; digits = decText c
      in if k \<le> n \<and> n \<le> 21 then digits @ replicate (nat (n - k)) CHR ''0''
         else if 0 < n \<and> n \<le> 21 then take (nat n) digits @ ''.'' @ drop (nat n) digits
         else if -6 < n \<and> n \<le> 0 then ''0.'' @ replicate (nat (- n)) CHR ''0'' @ digits
         else if k = 1 then digits @ exponentText (n - 1)
         else take 1 digits @ ''.'' @ drop 1 digits @ exponentText (n - 1))"

definition doubleText :: "int \<Rightarrow> int \<Rightarrow> string" where
  "doubleText p s = (if p < 0 then CHR ''-'' # positiveDoubleText (- p) s else positiveDoubleText p s)"

text \<open>A whole number up to \<open>2 ^ 53\<close> is its own shortest text.\<close>

definition wholeText :: "int \<Rightarrow> string" where
  "wholeText n = (if \<bar>n\<bar> < 2 ^ 53 then decText n else doubleText n 0)"

definition negated :: "VmValue \<Rightarrow> VmValue" where
  "negated v = (case v of VmNumber n \<Rightarrow> VmNumber (- n) | VmFraction m s \<Rightarrow> VmFraction (- m) s | _ \<Rightarrow> v)"


section \<open>JSON.stringify\<close>

definition escapedChar :: "char \<Rightarrow> string" where
  "escapedChar c =
     (if c = CHR 0x22 then [CHR 0x5c, CHR 0x22]
      else if c = CHR 0x5c then [CHR 0x5c, CHR 0x5c]
      else if codeOf c = 8 then [CHR 0x5c, CHR ''b'']
      else if codeOf c = 9 then [CHR 0x5c, CHR ''t'']
      else if codeOf c = 10 then [CHR 0x5c, CHR ''n'']
      else if codeOf c = 12 then [CHR 0x5c, CHR ''f'']
      else if codeOf c = 13 then [CHR 0x5c, CHR ''r'']
      else if codeOf c < 32 then CHR 0x5c # CHR ''u'' # padStart 4 CHR ''0'' (hexText (codeOf c))
      else [c])"

definition quoted :: "string \<Rightarrow> string" where
  "quoted s = CHR 0x22 # concat (map escapedChar s) @ [CHR 0x22]"

text \<open>\<open>JSON.stringify(v, null, gap)\<close>: an empty \<open>gap\<close> writes one line, otherwise every element is on a line
  of its own, indented by one \<open>gap\<close> more than its container.\<close>

definition lineBreak :: "string \<Rightarrow> nat \<Rightarrow> string" where
  "lineBreak gap depth = (if gap = [] then [] else CHR 0x0a # concat (replicate depth gap))"

definition keyText :: "string \<Rightarrow> string \<Rightarrow> string" where
  "keyText gap k = quoted k @ (if gap = [] then '':'' else '': '')"

fun jsonText :: "string \<Rightarrow> nat \<Rightarrow> VmValue \<Rightarrow> string"
  and elementsText :: "string \<Rightarrow> nat \<Rightarrow> VmValue list \<Rightarrow> string"
  and membersText :: "string \<Rightarrow> nat \<Rightarrow> (string \<times> VmValue) list \<Rightarrow> string" where
  "jsonText gap depth (VmNumber n) = wholeText n"
| "jsonText gap depth (VmFraction m s) = doubleText m s"
| "jsonText gap depth VmInfinity = ''null''"
| "jsonText gap depth (VmText s) = quoted s"
| "jsonText gap depth (VmBool b) = (if b then ''true'' else ''false'')"
| "jsonText gap depth VmNull = ''null''"
| "jsonText gap depth (VmArray vs) = CHR ''['' # elementsText gap (Suc depth) vs"
| "jsonText gap depth (VmObject ms) = CHR ''{'' # membersText gap (Suc depth) ms"
| "elementsText gap depth [] = '']''"
| "elementsText gap depth (v # vs) =
     lineBreak gap depth @ jsonText gap depth v
     @ (if vs = [] then lineBreak gap (depth - 1) @ '']'' else '','' @ elementsText gap depth vs)"
| "membersText gap depth [] = ''}''"
| "membersText gap depth ((k, v) # ms) =
     lineBreak gap depth @ keyText gap k @ jsonText gap depth v
     @ (if ms = [] then lineBreak gap (depth - 1) @ ''}'' else '','' @ membersText gap depth ms)"

section \<open>JSON.parse\<close>

text \<open>Keys that are array indices come first, in their order; the others in the order of their creation.\<close>

definition isArrayIndex :: "string \<Rightarrow> bool" where
  "isArrayIndex k \<longleftrightarrow> k \<noteq> [] \<and> list_all isDecDigit k \<and> (take 1 k \<noteq> ''0'' \<or> k = ''0'') \<and> parseRadix 10 k < 4294967295"

fun putProperty :: "VmRecord \<Rightarrow> string \<Rightarrow> VmValue \<Rightarrow> VmRecord" where
  "putProperty [] k v = [(k, v)]"
| "putProperty ((k', v') # r) k v =
     (if k = k' then (k, v) # r
      else if isArrayIndex k \<and> (\<not> isArrayIndex k' \<or> parseRadix 10 k < parseRadix 10 k')
      then (k, v) # (k', v') # r
      else (k', v') # putProperty r k v)"

definition isJsonSpace :: "char \<Rightarrow> bool" where
  "isJsonSpace c \<longleftrightarrow> codeOf c \<in> {9, 10, 13, 32}"

definition skipSpace :: "string \<Rightarrow> string" where
  "skipSpace s = dropWhile isJsonSpace s"

text \<open>A string behind its opening quote: the characters and the rest of the text.\<close>

definition escapeOf :: "char \<Rightarrow> char option" where
  "escapeOf c =
     (if c = CHR 0x22 \<or> c = CHR 0x5c \<or> c = CHR 0x2f then Some c
      else if c = CHR ''b'' then Some (CHR 0x08)
      else if c = CHR ''f'' then Some (CHR 0x0c)
      else if c = CHR ''n'' then Some (CHR 0x0a)
      else if c = CHR ''r'' then Some (CHR 0x0d)
      else if c = CHR ''t'' then Some (CHR 0x09)
      else None)"

definition escapeCode :: "string \<Rightarrow> char option" where
  "escapeCode digits =
     (if length digits = 4 \<and> list_all isHexDigit digits \<and> parseRadix 16 digits < 256
      then Some (char_of (nat (parseRadix 16 digits))) else None)"

function jsonString :: "string \<Rightarrow> string \<Rightarrow> (string \<times> string) option" where
  "jsonString acc [] = None"
| "jsonString acc (c # s) =
     (if c = CHR 0x22 then Some (rev acc, s)
      else if codeOf c < 32 then None
      else if c = CHR 0x5c then
        (case s of
           [] \<Rightarrow> None
         | e # t \<Rightarrow>
             if e = CHR ''u''
             then (case escapeCode (take 4 t) of None \<Rightarrow> None | Some d \<Rightarrow> jsonString (d # acc) (drop 4 t))
             else (case escapeOf e of None \<Rightarrow> None | Some d \<Rightarrow> jsonString (d # acc) t))
      else jsonString (c # acc) s)"
  by pat_completeness auto
termination by (relation "measure (length \<circ> snd)") auto

text \<open>A number: \<open>-?(0|[1-9][0-9]*)(\.[0-9]+)?([eE][+-]?[0-9]+)?\<close>, the longest such prefix.\<close>

definition fractionPart :: "string \<Rightarrow> (string \<times> string) option" where
  "fractionPart s =
     (if take 1 s = ''.'' then
        let digits = takeWhile isDecDigit (drop 1 s)
        in if digits = [] then None else Some (digits, drop (1 + length digits) s)
      else Some ([], s))"

definition exponentOf :: "string \<Rightarrow> (int \<times> string) option" where
  "exponentOf s =
     (if take 1 s = ''e'' \<or> take 1 s = ''E'' then
        let (negative, unsigned) = signOf (drop 1 s); digits = takeWhile isDecDigit unsigned
        in if digits = [] then None
           else Some ((if negative then - parseRadix 10 digits else parseRadix 10 digits),
                      drop (length digits) unsigned)
      else Some (0, s))"

definition decimalValue :: "string \<Rightarrow> string \<Rightarrow> int \<Rightarrow> VmValue" where
  "decimalValue whole fraction e =
     (let m = parseRadix 10 (whole @ fraction); k = e - int (length fraction)
      in if m = 0 then VmNumber 0
         else if k \<ge> 0 then doubleValue (m * 10 ^ nat k) 1 else doubleValue m (10 ^ nat (- k)))"

definition unsignedNumber :: "string \<Rightarrow> (VmValue \<times> string) option" where
  "unsignedNumber s =
     (let whole = (if take 1 s = ''0'' then ''0'' else takeWhile isDecDigit s)
      in if whole = [] then None
         else case fractionPart (drop (length whole) s) of
                None \<Rightarrow> None
              | Some (fraction, t) \<Rightarrow> map_option (\<lambda>(e, u). (decimalValue whole fraction e, u)) (exponentOf t))"

definition jsonNumber :: "string \<Rightarrow> (VmValue \<times> string) option" where
  "jsonNumber s =
     (if take 1 s = ''-'' then map_option (\<lambda>(v, u). (negated v, u)) (unsignedNumber (drop 1 s))
      else unsignedNumber s)"

definition jsonWord :: "string \<Rightarrow> (VmValue \<times> string) option" where
  "jsonWord s =
     (if take 4 s = ''true'' then Some (VmBool True, drop 4 s)
      else if take 5 s = ''false'' then Some (VmBool False, drop 5 s)
      else if take 4 s = ''null'' then Some (VmNull, drop 4 s)
      else jsonNumber s)"

text \<open>
  Values, the elements behind \<open>[\<close> and the members behind \<open>{\<close>, with the rest of the text. The fuel
  bounds the nesting of the calls; every opening bracket costs two.
\<close>

fun jsonValue :: "nat \<Rightarrow> string \<Rightarrow> (VmValue \<times> string) option"
  and jsonElements :: "nat \<Rightarrow> VmValue list \<Rightarrow> string \<Rightarrow> (VmValue \<times> string) option"
  and jsonMembers :: "nat \<Rightarrow> VmRecord \<Rightarrow> string \<Rightarrow> (VmValue \<times> string) option" where
  "jsonValue 0 s = None"
| "jsonValue (Suc n) s =
     (case skipSpace s of
        [] \<Rightarrow> None
      | c # t \<Rightarrow>
          if c = CHR ''['' then
            (if take 1 (skipSpace t) = '']'' then Some (VmArray [], drop 1 (skipSpace t)) else jsonElements n [] t)
          else if c = CHR ''{'' then
            (if take 1 (skipSpace t) = ''}'' then Some (VmObject [], drop 1 (skipSpace t)) else jsonMembers n [] t)
          else if c = CHR 0x22 then map_option (\<lambda>(k, u). (VmText k, u)) (jsonString [] t)
          else jsonWord (c # t))"
| "jsonElements 0 acc s = None"
| "jsonElements (Suc n) acc s =
     (case jsonValue n s of
        None \<Rightarrow> None
      | Some (v, t) \<Rightarrow>
          (case skipSpace t of
             [] \<Rightarrow> None
           | c # u \<Rightarrow>
               if c = CHR '','' then jsonElements n (v # acc) u
               else if c = CHR '']'' then Some (VmArray (rev (v # acc)), u)
               else None))"
| "jsonMembers 0 acc s = None"
| "jsonMembers (Suc n) acc s =
     (if take 1 (skipSpace s) \<noteq> [CHR 0x22] then None
      else case jsonString [] (drop 1 (skipSpace s)) of
             None \<Rightarrow> None
           | Some (k, t) \<Rightarrow>
               if take 1 (skipSpace t) \<noteq> '':'' then None
               else case jsonValue n (drop 1 (skipSpace t)) of
                      None \<Rightarrow> None
                    | Some (v, u) \<Rightarrow>
                        (case skipSpace u of
                           [] \<Rightarrow> None
                         | c # w \<Rightarrow>
                             if c = CHR '','' then jsonMembers n (putProperty acc k v) w
                             else if c = CHR ''}'' then Some (VmObject (putProperty acc k v), w)
                             else None))"

definition jsonParse :: "string \<Rightarrow> VmValue option" where
  "jsonParse s =
     (case jsonValue (2 * length s + 2) s of
        None \<Rightarrow> None
      | Some (v, rest) \<Rightarrow> if skipSpace rest = [] then Some v else None)"

section \<open>Bodies\<close>

text \<open>
  \<open>JSON.parse(JSON.stringify(v))\<close>: the copy is the value, with \<open>null\<close> for an infinite number. That the
  text denotes the copy is \<open>jsonParse_text\<close> below.
\<close>

fun jsonCopy :: "VmValue \<Rightarrow> VmValue" where
  "jsonCopy VmInfinity = VmNull"
| "jsonCopy (VmArray vs) = VmArray (map jsonCopy vs)"
| "jsonCopy (VmObject r) = VmObject (map (\<lambda>(k, v). (k, jsonCopy v)) r)"
| "jsonCopy v = v"

definition cloneAdvancedVmBody :: "AdvancedVmBody \<Rightarrow> AdvancedVmBody" where
  "cloneAdvancedVmBody body = map (\<lambda>(k, v). (k, jsonCopy v)) body"

definition hasProperty :: "VmRecord \<Rightarrow> string \<Rightarrow> bool" where
  "hasProperty r k \<longleftrightarrow> map_of r k \<noteq> None"

definition truthy :: "VmValue option \<Rightarrow> bool" where
  "truthy v = (case v of
     None \<Rightarrow> False
   | Some VmNull \<Rightarrow> False
   | Some (VmBool b) \<Rightarrow> b
   | Some (VmNumber n) \<Rightarrow> n \<noteq> 0
   | Some (VmText t) \<Rightarrow> t \<noteq> []
   | Some _ \<Rightarrow> True)"

definition spread :: "VmRecord \<Rightarrow> VmRecord \<Rightarrow> VmRecord" where
  "spread r r' = foldl (\<lambda>acc (k, v). putProperty acc k v) r r'"

definition mergeAdvancedVmBodies :: "AdvancedVmBody \<Rightarrow> AdvancedVmBody \<Rightarrow> AdvancedVmBody" where
  "mergeAdvancedVmBodies current template =
     (let currentBody = cloneAdvancedVmBody current;
          templateBody = cloneAdvancedVmBody template;
          merged = putProperty (spread (spread [] templateBody) currentBody) ''instructions''
            (VmArray (bodyInstructions currentBody @ bodyInstructions templateBody));
          split = (if \<not> truthy (map_of currentBody ''split_by_var'') \<and> truthy (map_of templateBody ''split_by_var'')
            then putProperty merged ''split_by_var'' (the (map_of templateBody ''split_by_var'')) else merged)
      in if \<not> hasProperty currentBody ''cache_size'' \<and> hasProperty templateBody ''cache_size''
         then putProperty split ''cache_size'' (the (map_of templateBody ''cache_size'')) else split)"

definition formatAdvancedVmJson :: "VmRecord option \<Rightarrow> string" where
  "formatAdvancedVmJson value' =
     (let body = (case value' of Some r \<Rightarrow> if r \<noteq> [] then r else advancedVmDefaultBody | None \<Rightarrow> advancedVmDefaultBody)
      in jsonText ''  '' 0 (VmObject body) @ [CHR 0x0a])"

text \<open>The message of a syntax error is the engine's.\<close>

record ParsedVmJson =
  vj_body :: "VmRecord option"
  vj_bytes :: int
  vj_error :: "string option"

definition ADVANCED_VM_MAX_BYTES :: int where
  "ADVANCED_VM_MAX_BYTES = 1000000"

definition utf8Length :: "string \<Rightarrow> int" where
  "utf8Length s = sum_list (map (\<lambda>c. if codeOf c < 128 then 1 else 2) s)"

definition parseAdvancedVmJson :: "(string \<Rightarrow> string) \<Rightarrow> string \<Rightarrow> ParsedVmJson" where
  "parseAdvancedVmJson syntaxMessage value' =
     (let trimmed = jsTrim value' in
      if trimmed = []
      then \<lparr>vj_body = None, vj_bytes = 0, vj_error = Some ''Advanced VM JSON is empty.''\<rparr>
      else case jsonParse trimmed of
             None \<Rightarrow> \<lparr>vj_body = None, vj_bytes = 0, vj_error = Some (syntaxMessage trimmed)\<rparr>
           | Some (VmObject r) \<Rightarrow>
               let encoded = utf8Length (jsonText [] 0 (VmObject r)) in
               if encoded > ADVANCED_VM_MAX_BYTES
               then \<lparr>vj_body = None, vj_bytes = encoded,
                     vj_error = Some (''Advanced VM exceeds '' @ decText ADVANCED_VM_MAX_BYTES @ '' bytes.'')\<rparr>
               else \<lparr>vj_body = Some r, vj_bytes = encoded, vj_error = None\<rparr>
           | Some v \<Rightarrow> \<lparr>vj_body = None, vj_bytes = 0, vj_error = Some ''Advanced VM JSON must be an object.''\<rparr>)"


section \<open>Reading back a string\<close>

lemma escapeCode_hex:
  assumes "codeOf c < 32"
  shows "escapeCode (padStart 4 CHR ''0'' (hexText (codeOf c))) = Some c"
    "length (padStart 4 CHR ''0'' (hexText (codeOf c))) = 4"
proof -
  have c: "0 \<le> codeOf c" "codeOf c < 256" by (simp_all add: in_range)
  have "length (hexText (codeOf c)) \<le> 4"
    using radixText_length [of 16 "codeOf c" 4] c by simp
  then show l: "length (padStart 4 CHR ''0'' (hexText (codeOf c))) = 4" by (simp add: padStart_length)
  have "parseRadix 16 (padStart 4 CHR ''0'' (hexText (codeOf c))) = codeOf c"
    using parseRadix_radixText [of 16 "codeOf c"] c by simp
  moreover have "list_all isHexDigit (padStart 4 CHR ''0'' (hexText (codeOf c)))"
    by (rule padStart_hex) (rule hexText_digits [OF c(1)])
  ultimately show "escapeCode (padStart 4 CHR ''0'' (hexText (codeOf c))) = Some c"
    using l c(2) by (simp add: escapeCode_def codeOf_nat)
qed

lemma codeOf_escape: "codeOf (CHR 0x5c) = 92" "codeOf (CHR 0x22) = 34"
  by (simp_all add: codeOf_def)

lemma jsonString_escaped:
  "jsonString acc (escapedChar c @ s) = jsonString (c # acc) s"
proof -
  have plain: "jsonString acc (escapedChar c @ s) = jsonString (c # acc) s" if "32 \<le> codeOf c"
    using that codeOf_escape by (auto simp: escapedChar_def escapeOf_def)
  have short: "jsonString acc (escapedChar c @ s) = jsonString (c # acc) s" if "codeOf c \<in> {8, 9, 10, 12, 13}"
  proof -
    have "c \<in> {CHR 0x08, CHR 0x09, CHR 0x0a, CHR 0x0c, CHR 0x0d}"
      using that by (auto simp: char_eq_code codeOf_def)
    then show ?thesis by (auto simp: escapedChar_def escapeOf_def codeOf_def)
  qed
  have hex: "jsonString acc (escapedChar c @ s) = jsonString (c # acc) s"
    if "codeOf c < 32" "codeOf c \<notin> {8, 9, 10, 12, 13}"
  proof -
    have "c \<noteq> CHR 0x22" "c \<noteq> CHR 0x5c" using that(1) by (auto simp: codeOf_def)
    then show ?thesis
      using that escapeCode_hex [OF that(1)] by (simp add: escapedChar_def codeOf_def)
  qed
  show ?thesis using plain short hex by linarith
qed

lemma jsonString_quoted: "jsonString acc (concat (map escapedChar s) @ CHR 0x22 # rest) = Some (rev acc @ s, rest)"
  by (induction s arbitrary: acc) (simp_all add: jsonString_escaped)


section \<open>Reading back a number\<close>

text \<open>What may follow a value: nothing that belongs to a number.\<close>

definition endsValue :: "string \<Rightarrow> bool" where
  "endsValue rest \<longleftrightarrow> (case rest of [] \<Rightarrow> True
     | c # t \<Rightarrow> \<not> isDecDigit c \<and> c \<notin> {CHR ''.'', CHR ''e'', CHR ''E''})"

lemma decText_pos:
  assumes "0 < n"
  shows "take 1 (decText n) \<noteq> ''0''"
proof
  assume zero: "take 1 (decText n) = ''0''"
  define k where "k = length (decText n)"
  obtain t where t: "decText n = CHR ''0'' # t" using zero by (cases "decText n") auto
  have "parseRadix 10 (decText n) = parseRadix 10 t"
    using parseRadix_zeros [of 10 1 t] by (simp add: t)
  then have n: "n = parseRadix 10 t" using parseRadix_radixText [of 10 n] assms by simp
  show False
  proof (cases t)
    case Nil
    then show ?thesis using n assms by (simp add: parseRadix_def)
  next
    case (Cons c u)
    have "\<forall>c\<in>set t. isDecDigit c"
      using decText_digits [of n] assms by (simp add: t list_all_iff)
    then have "n < 10 ^ length t"
      unfolding n
    proof (induction t rule: rev_induct)
      case Nil
      then show ?case by (simp add: parseRadix_def)
    next
      case (snoc c u)
      then have "parseRadix 10 u + 1 \<le> 10 ^ length u" "digitVal c \<le> 9"
        by (simp_all add: isDecDigit_def digitVal_def)
      then show ?case by (simp add: parseRadix_snoc)
    qed
    then have "length (decText n) \<le> length t"
      using radixText_length [of 10 n "length t"] assms Cons by simp
    then show ?thesis by (simp add: t)
  qed
qed

lemma takeWhile_digits:
  assumes "list_all isDecDigit ds" "endsValue rest"
  shows "takeWhile isDecDigit (ds @ rest) = ds"
  using assms by (auto simp: endsValue_def list_all_iff takeWhile_append2 split: list.splits)

lemma unsignedNumber_whole:
  assumes "0 \<le> n" "n < 2 ^ 53" "endsValue rest"
  shows "unsignedNumber (decText n @ rest) = Some (VmNumber n, rest)"
proof -
  have fraction: "fractionPart (drop (length (decText n)) (decText n @ rest)) = Some ([], rest)"
    using assms(3) by (auto simp: fractionPart_def endsValue_def split: list.splits)
  have "exponentOf rest = Some (0, rest)"
    using assms(3) by (auto simp: exponentOf_def endsValue_def split: list.splits)
  moreover have "decimalValue (decText n) [] 0 = VmNumber n"
    using parseRadix_radixText [of 10 n] assms by (simp add: decimalValue_def doubleValue_def)
  moreover have "(if take 1 (decText n @ rest) = ''0'' then ''0'' else takeWhile isDecDigit (decText n @ rest)) = decText n"
  proof (cases "n = 0")
    case True
    have "digitChar 0 = CHR ''0''" by (simp add: char_eq_code codeOf_digitChar) (simp add: codeOf_def)
    then show ?thesis by (simp add: True radixText_def digitsIn.simps)
  next
    case False
    have "take 1 (decText n @ rest) = take 1 (decText n)" by (cases "decText n") auto
    then show ?thesis
      using False decText_pos [of n] assms takeWhile_digits [OF decText_digits] by (simp del: take_append)
  qed
  ultimately show ?thesis
    unfolding unsignedNumber_def Let_def using fraction by simp
qed

lemma jsonNumber_whole:
  assumes "\<bar>n\<bar> < 2 ^ 53" "endsValue rest"
  shows "jsonNumber (decText n @ rest) = Some (VmNumber n, rest)"
proof (cases "n < 0")
  case False
  then have n: "0 \<le> n" "n < 2 ^ 53" using assms(1) by simp_all
  have "take 1 (decText n @ rest) \<noteq> ''-''"
    using decText_digits [OF n(1)] by (cases "decText n") (auto simp: isDecDigit_def codeOf_def)
  then show ?thesis
    using unsignedNumber_whole [OF n assms(2)] by (simp add: jsonNumber_def del: take_append)
next
  case True
  then have n: "0 \<le> - n" "- n < 2 ^ 53" and minus: "decText n = CHR ''-'' # decText (- n)"
    using assms(1) by (simp_all add: radixText_def)
  then show ?thesis
    using unsignedNumber_whole [OF n assms(2)] by (simp add: jsonNumber_def negated_def)
qed


section \<open>Reading back a value\<close>

text \<open>The keys of an object as the language orders them.\<close>

definition keyBefore :: "string \<Rightarrow> string \<Rightarrow> bool" where
  "keyBefore k k' \<longleftrightarrow>
     k \<noteq> k' \<and> \<not> (isArrayIndex k' \<and> (\<not> isArrayIndex k \<or> parseRadix 10 k' < parseRadix 10 k))"

lemma putProperty_last: "list_all (\<lambda>(k', v'). keyBefore k' k) r \<Longrightarrow> putProperty r k v = r @ [(k, v)]"
  by (induction r) (auto simp: keyBefore_def)

text \<open>Values whose text is modelled in full: whole numbers below \<open>2 ^ 53\<close> and no fractions.\<close>

fun jsonPlain :: "VmValue \<Rightarrow> bool" where
  "jsonPlain (VmNumber n) = (\<bar>n\<bar> < 2 ^ 53)"
| "jsonPlain (VmFraction m s) = False"
| "jsonPlain (VmArray vs) = list_all jsonPlain vs"
| "jsonPlain (VmObject r) = (sorted_wrt keyBefore (map fst r) \<and> list_all jsonPlain (map snd r))"
| "jsonPlain v = True"

text \<open>The first character of a value: it is no space, and it does not close a container.\<close>

definition opensValue :: "string \<Rightarrow> bool" where
  "opensValue s \<longleftrightarrow> (case s of [] \<Rightarrow> False | c # t \<Rightarrow> \<not> isJsonSpace c \<and> c \<noteq> CHR '']'' \<and> c \<noteq> CHR ''}'')"

lemma opensValue_literal:
  "opensValue (CHR ''['' # t)" "opensValue (CHR ''{'' # t)" "opensValue (CHR 0x22 # t)" "opensValue ''null''"
  "opensValue ''true''" "opensValue ''false''" "opensValue (CHR ''-'' # t)"
  by (simp_all add: opensValue_def isJsonSpace_def codeOf_def)

lemma opensValue_digits: "list_all isDecDigit s \<Longrightarrow> s \<noteq> [] \<Longrightarrow> opensValue s"
  by (auto simp: opensValue_def isDecDigit_def isJsonSpace_def codeOf_def split: list.splits)

lemma jsonText_first: "jsonPlain v \<Longrightarrow> opensValue (jsonText gap d v)"
proof (cases v)
  case (VmNumber n)
  assume "jsonPlain v"
  then have n: "jsonText gap d v = decText n" by (simp add: VmNumber wholeText_def)
  show ?thesis
  proof (cases "n < 0")
    case True
    then have "decText n = CHR ''-'' # decText (- n)" by (simp add: radixText_def)
    then show ?thesis by (simp only: n opensValue_literal)
  next
    case False
    then show ?thesis unfolding n by (intro opensValue_digits decText_digits) simp_all
  qed
next
  case (VmBool b)
  then show ?thesis by (cases b) (simp_all add: opensValue_literal)
qed (simp_all add: opensValue_literal quoted_def)

lemma skipSpace_break: "list_all isJsonSpace gap \<Longrightarrow> skipSpace (lineBreak gap d @ s) = skipSpace s"
proof -
  assume "list_all isJsonSpace gap"
  then have "\<forall>c\<in>set (lineBreak gap d). isJsonSpace c"
    by (auto simp: lineBreak_def list_all_iff isJsonSpace_def codeOf_def)
  then show ?thesis by (simp add: skipSpace_def dropWhile_append2)
qed

lemma endsValue_after:
  "list_all isJsonSpace gap \<Longrightarrow> endsValue (lineBreak gap d @ CHR '']'' # s)"
  "list_all isJsonSpace gap \<Longrightarrow> endsValue (lineBreak gap d @ CHR ''}'' # s)"
  "endsValue (CHR '','' # s)" 
  by (auto simp: endsValue_def lineBreak_def isDecDigit_def codeOf_def)


lemma skipSpace_opens: "opensValue s \<Longrightarrow> skipSpace (s @ r) = s @ r"
  by (auto simp: opensValue_def skipSpace_def split: list.splits)

lemma skipSpace_quote: "skipSpace (CHR 0x22 # s) = CHR 0x22 # s"
  by (simp add: skipSpace_def isJsonSpace_def codeOf_def)

lemma skipSpace_close:
  "skipSpace (CHR '']'' # s) = CHR '']'' # s" "skipSpace (CHR ''}'' # s) = CHR ''}'' # s"
  "skipSpace (CHR '','' # s) = CHR '','' # s" "skipSpace (CHR '':'' # s) = CHR '':'' # s"
  by (simp_all add: skipSpace_def isJsonSpace_def codeOf_def)

lemma jsonValue_word:
  assumes "s = ''true'' @ rest \<and> v = VmBool True \<or> s = ''false'' @ rest \<and> v = VmBool False \<or> s = ''null'' @ rest \<and> v = VmNull"
  shows "jsonValue (Suc n) s = Some (v, rest)"
  using assms by (auto simp: skipSpace_def isJsonSpace_def codeOf_def jsonWord_def)

lemma jsonValue_number:
  assumes "\<bar>k\<bar> < 2 ^ 53" "endsValue rest"
  shows "jsonValue (Suc n) (decText k @ rest) = Some (VmNumber k, rest)"
proof -
  obtain c t where ct: "decText k = c # t" by (cases "decText k") auto
  have c: "isDecDigit c \<or> c = CHR ''-''"
    using decText_digits [of k] ct by (cases "k < 0") (auto simp: radixText_def)
  then have "c \<notin> {CHR ''['', CHR ''{'', CHR 0x22, CHR ''t'', CHR ''f'', CHR ''n''}" "\<not> isJsonSpace c"
    by (auto simp: isDecDigit_def isJsonSpace_def codeOf_def)
  then show ?thesis
    using jsonNumber_whole [OF assms] by (simp add: ct skipSpace_def jsonWord_def)
qed

lemma take1_opens: "opensValue s \<Longrightarrow> take 1 (s @ r) \<noteq> '']'' \<and> take 1 (s @ r) \<noteq> ''}''"
  by (auto simp: opensValue_def split: list.splits)

lemma skipSpace_elements:
  assumes "list_all isJsonSpace gap" "jsonPlain v"
  shows "skipSpace (elementsText gap d (v # vs) @ rest) = drop (length (lineBreak gap d)) (elementsText gap d (v # vs) @ rest)"
    "take 1 (skipSpace (elementsText gap d (v # vs) @ rest)) \<noteq> '']''"
proof -
  have "skipSpace (elementsText gap d (v # vs) @ rest) = jsonText gap d v @ drop (length (lineBreak gap d) + length (jsonText gap d v)) (elementsText gap d (v # vs) @ rest)"
    using assms by (simp add: skipSpace_break skipSpace_opens jsonText_first)
  then show "skipSpace (elementsText gap d (v # vs) @ rest) = drop (length (lineBreak gap d)) (elementsText gap d (v # vs) @ rest)"
    "take 1 (skipSpace (elementsText gap d (v # vs) @ rest)) \<noteq> '']''"
    using take1_opens [OF jsonText_first [OF assms(2)]] by simp_all
qed

lemma jsonValue_break: "list_all isJsonSpace gap \<Longrightarrow> jsonValue n (lineBreak gap d @ s) = jsonValue n s"
  by (cases n) (simp_all add: skipSpace_break)

lemma jsonValue_space: "isJsonSpace c \<Longrightarrow> jsonValue n (c # s) = jsonValue n s"
  by (cases n) (simp_all add: skipSpace_def)

text \<open>Every value is read back with the rest of the text, given one unit of fuel for every character.\<close>

lemma jsonValue_text:
  assumes "list_all isJsonSpace gap"
  shows "jsonPlain v \<Longrightarrow> endsValue rest \<Longrightarrow> length (jsonText gap d v) \<le> n
      \<Longrightarrow> jsonValue n (jsonText gap d v @ rest) = Some (jsonCopy v, rest)"
    "list_all jsonPlain vs \<Longrightarrow> vs \<noteq> [] \<Longrightarrow> length (elementsText gap d vs) \<le> n
      \<Longrightarrow> jsonElements n acc (elementsText gap d vs @ rest) = Some (VmArray (rev acc @ map jsonCopy vs), rest)"
    "list_all jsonPlain (map snd r) \<Longrightarrow> r \<noteq> [] \<Longrightarrow> sorted_wrt keyBefore (map fst (r0 @ r))
      \<Longrightarrow> length (membersText gap d r) \<le> n
      \<Longrightarrow> jsonMembers n r0 (membersText gap d r @ rest) = Some (VmObject (r0 @ map (\<lambda>(k, v). (k, jsonCopy v)) r), rest)"
  using assms
proof (induction gap d v and gap d vs and gap d r arbitrary: n rest and n acc rest and n r0 rest
    rule: jsonText_elementsText_membersText.induct)
  case (1 gap d k)
  obtain m where n: "n = Suc m" using 1 by (cases n) (auto simp: wholeText_def)
  show ?case using 1 jsonValue_number [of k rest m] by (simp add: n wholeText_def del: jsonValue.simps)
next
  case (2 gap d m s)
  then show ?case by simp
next
  case (3 gap d)
  then show ?case by (cases n) (simp_all add: jsonValue_word del: jsonValue.simps)
next
  case (4 gap d s)
  then obtain m where n: "n = Suc m" by (cases n) (auto simp: quoted_def)
  show ?case by (simp add: n quoted_def skipSpace_quote jsonString_quoted)
next
  case (5 gap d b)
  then obtain m where n: "n = Suc m" by (cases n; cases b) auto
  then show ?case by (cases b) (simp_all add: jsonValue_word del: jsonValue.simps)
next
  case (6 gap d)
  then show ?case by (cases n) (simp_all add: jsonValue_word del: jsonValue.simps)
next
  case (7 gap d vs)
  then obtain m where n: "n = Suc m" by (cases n) auto
  show ?case
  proof (cases vs)
    case Nil
    then show ?thesis by (simp add: n skipSpace_def isJsonSpace_def codeOf_def)
  next
    case (Cons v vs')
    then have "take 1 (skipSpace (elementsText gap (Suc d) vs @ rest)) \<noteq> '']''"
      using skipSpace_elements(2) 7 by simp
    moreover have "jsonElements m [] (elementsText gap (Suc d) vs @ rest) = Some (VmArray (map jsonCopy vs), rest)"
      using 7 n Cons by simp
    moreover have "skipSpace (CHR ''['' # elementsText gap (Suc d) vs @ rest) = CHR ''['' # elementsText gap (Suc d) vs @ rest"
      by (simp add: skipSpace_def isJsonSpace_def codeOf_def)
    ultimately show ?thesis by (simp add: n)
  qed
next
  case (8 gap d r)
  then obtain m where n: "n = Suc m" by (cases n) auto
  show ?case
  proof (cases r)
    case Nil
    then show ?thesis by (simp add: n skipSpace_def isJsonSpace_def codeOf_def)
  next
    case (Cons kv r')
    then have "take 1 (skipSpace (membersText gap (Suc d) r @ rest)) \<noteq> ''}''"
      using 8 by (cases kv) (simp add: skipSpace_break keyText_def quoted_def skipSpace_quote)
    moreover have "jsonMembers m [] (membersText gap (Suc d) r @ rest) = Some (VmObject (map (\<lambda>(k, v). (k, jsonCopy v)) r), rest)"
      using 8 n Cons by simp
    moreover have "skipSpace (CHR ''{'' # membersText gap (Suc d) r @ rest) = CHR ''{'' # membersText gap (Suc d) r @ rest"
      by (simp add: skipSpace_def isJsonSpace_def codeOf_def)
    ultimately show ?thesis by (simp add: n)
  qed
next
  case (9 gap d)
  then show ?case by simp
next
  case (10 gap d v vs)
  then obtain m where n: "n = Suc m" by (cases n) (auto split: if_splits)
  define tail where "tail = (if vs = [] then lineBreak gap (d - 1) @ '']'' else '','' @ elementsText gap d vs)"
  have whole: "elementsText gap d (v # vs) @ rest = lineBreak gap d @ jsonText gap d v @ tail @ rest"
    by (simp add: tail_def)
  have "endsValue (tail @ rest)"
    using endsValue_after 10 by (simp add: tail_def)
  moreover have "length (jsonText gap d v) \<le> m" using 10 n by (simp split: if_splits)
  ultimately have head: "jsonValue m (elementsText gap d (v # vs) @ rest) = Some (jsonCopy v, tail @ rest)"
    unfolding whole using 10 by (simp add: jsonValue_break)
  show ?case
  proof (cases "vs = []")
    case True
    then show ?thesis
      unfolding n jsonElements.simps head
      using 10 by (simp add: tail_def skipSpace_break skipSpace_close)
  next
    case False
    then have "jsonElements m (jsonCopy v # acc) (elementsText gap d vs @ rest)
        = Some (VmArray (rev acc @ map jsonCopy (v # vs)), rest)"
      using 10 n by simp
    then show ?thesis
      unfolding n jsonElements.simps head using False by (simp add: tail_def skipSpace_close)
  qed
next
  case (11 gap d)
  then show ?case by simp
next
  case (12 gap d k v r)
  then obtain m where n: "n = Suc m" by (cases n) (auto simp: keyText_def quoted_def)
  define tail where "tail = (if r = [] then lineBreak gap (d - 1) @ ''}'' else '','' @ membersText gap d r)"
  define sep where "sep = (if gap = [] then '':'' else '': '')"
  have whole: "membersText gap d ((k, v) # r) @ rest
      = lineBreak gap d @ CHR 0x22 # concat (map escapedChar k) @ CHR 0x22 # sep @ jsonText gap d v @ tail @ rest"
    by (simp add: tail_def sep_def keyText_def quoted_def)
  have "endsValue (tail @ rest)"
    using endsValue_after 12 by (simp add: tail_def)
  moreover have "length (jsonText gap d v) \<le> m" using 12 n by (simp split: if_splits)
  ultimately have X: "jsonValue m (jsonText gap d v @ tail @ rest) = Some (jsonCopy v, tail @ rest)"
    using 12 by simp
  have "drop 1 (skipSpace (sep @ jsonText gap d v @ tail @ rest))
      = (if gap = [] then [] else '' '') @ jsonText gap d v @ tail @ rest"
    by (simp add: sep_def skipSpace_close)
  then have item: "jsonValue m (drop 1 (skipSpace (sep @ jsonText gap d v @ tail @ rest))) = Some (jsonCopy v, tail @ rest)"
    using X jsonValue_space [of "CHR '' ''"] by (cases "gap = []") (simp_all add: isJsonSpace_def codeOf_def)
  have colon: "take 1 (skipSpace (sep @ jsonText gap d v @ tail @ rest)) = '':''"
    by (simp add: sep_def skipSpace_close)
  have key: "skipSpace (membersText gap d ((k, v) # r) @ rest)
      = CHR 0x22 # concat (map escapedChar k) @ CHR 0x22 # sep @ jsonText gap d v @ tail @ rest"
    unfolding whole using 12 by (simp add: skipSpace_break skipSpace_quote)
  have put: "putProperty r0 k (jsonCopy v) = r0 @ [(k, jsonCopy v)]"
    using 12 by (intro putProperty_last) (auto simp: sorted_wrt_append list_all_iff)
  have after: "skipSpace (tail @ rest)
      = (if r = [] then CHR ''}'' # rest else CHR '','' # membersText gap d r @ rest)"
    using 12 by (simp add: tail_def skipSpace_break skipSpace_close)
  show ?case
  proof (cases "r = []")
    case True
    then show ?thesis
      unfolding n jsonMembers.simps key
      using after by (simp add: jsonString_quoted colon [unfolded One_nat_def] item [unfolded One_nat_def] put)
  next
    case False
    then have "jsonMembers m (r0 @ [(k, jsonCopy v)]) (membersText gap d r @ rest)
        = Some (VmObject (r0 @ map (\<lambda>(k, v). (k, jsonCopy v)) ((k, v) # r)), rest)"
      using 12 n by simp
    then show ?thesis
      unfolding n jsonMembers.simps key
      using False after by (simp add: jsonString_quoted colon [unfolded One_nat_def] item [unfolded One_nat_def] put)
  qed
qed


text \<open>The text of a value denotes the value, on one line or indented, with space after it.\<close>

lemma jsonParse_text:
  assumes "jsonPlain v" "list_all isJsonSpace gap" "list_all isJsonSpace space"
  shows "jsonParse (jsonText gap 0 v @ space) = Some (jsonCopy v)"
proof -
  have "endsValue space"
    using assms(3) by (auto simp: endsValue_def isJsonSpace_def isDecDigit_def codeOf_def split: list.splits)
  then have "jsonValue (2 * length (jsonText gap 0 v @ space) + 2) (jsonText gap 0 v @ space) = Some (jsonCopy v, space)"
    by (intro jsonValue_text(1)) (use assms in simp_all)
  moreover have "skipSpace space = []"
    using assms(3) by (simp add: skipSpace_def list_all_iff)
  ultimately show ?thesis by (simp add: jsonParse_def)
qed

section \<open>The fuel of the parser\<close>

text \<open>Whatever the parser reads, it reads with one unit of fuel for every character it consumes.\<close>

lemma skipSpace_length: "length (skipSpace s) \<le> length s"
  by (simp add: skipSpace_def length_dropWhile_le)

lemma jsonString_length: "jsonString acc s = Some (k, t) \<Longrightarrow> length t < length s"
proof (induction "length s" arbitrary: acc s rule: less_induct)
  case less
  obtain c u where s: "s = c # u" using less.prems by (cases s) auto
  have rec: "length t < length u'" if "jsonString acc' u' = Some (k, t)" "length u' \<le> length u" for acc' u'
    by (rule less.hyps [OF _ that(1)]) (use that(2) in \<open>simp add: s\<close>)
  show ?case
  proof (cases "c = CHR 0x5c")
    case False
    then show ?thesis using less.prems rec [of "c # acc" u] by (auto simp: s split: if_splits)
  next
    case True
    then obtain e w where u: "u = e # w" using less.prems by (cases u) (auto simp: s split: if_splits)
    then show ?thesis
      using less.prems rec [of _ w] rec [of _ "drop 4 w"] True
      by (fastforce simp: s codeOf_def split: if_splits option.splits)
  qed
qed

lemma length_drop_digits: "length (drop (length (takeWhile P s)) s) \<le> length s"
  by simp

lemma fractionPart_length: "fractionPart s = Some (f, t) \<Longrightarrow> length t \<le> length s"
  by (auto simp: fractionPart_def Let_def split: if_splits)

lemma signOf_length: "length (snd (signOf s)) \<le> length s"
  by (auto simp: signOf_def split: list.splits)

lemma exponentOf_length: "exponentOf s = Some (e, t) \<Longrightarrow> length t \<le> length s"
  using signOf_length [of "drop 1 s"]
  by (auto simp: exponentOf_def Let_def split: if_splits prod.splits)

lemma unsignedNumber_length:
  assumes "unsignedNumber s = Some (v, t)"
  shows "length t < length s"
proof -
  define whole where "whole = (if take 1 s = ''0'' then ''0'' else takeWhile isDecDigit s)"
  have read: "(if whole = [] then None
      else case fractionPart (drop (length whole) s) of
             None \<Rightarrow> None
           | Some (fraction, t) \<Rightarrow> map_option (\<lambda>(e, u). (decimalValue whole fraction e, u)) (exponentOf t)) = Some (v, t)"
    using assms unfolding unsignedNumber_def whole_def [symmetric] Let_def .
  then have w: "whole \<noteq> []" by (simp split: if_splits)
  from read obtain f u where f: "fractionPart (drop (length whole) s) = Some (f, u)"
    by (auto split: option.splits if_splits)
  with read w obtain e where e: "exponentOf u = Some (e, t)" by auto
  have "s \<noteq> []" using w by (auto simp: whole_def)
  then show ?thesis
    using fractionPart_length [OF f] exponentOf_length [OF e] w by (cases whole; cases s) auto
qed

lemma jsonWord_length: "jsonWord s = Some (v, t) \<Longrightarrow> length t < length s"
  using unsignedNumber_length [of s] unsignedNumber_length [of "drop 1 s"]
  by (cases s) (auto simp: jsonWord_def jsonNumber_def split: if_splits dest: less_trans)

text \<open>One unit of fuel for every character that is read is enough.\<close>

definition readsWith :: "(nat \<Rightarrow> (VmValue \<times> string) option) \<Rightarrow> string \<Rightarrow> VmValue \<times> string \<Rightarrow> bool" where
  "readsWith f s vt \<longleftrightarrow>
     length (snd vt) < length s \<and> (\<forall>m. length s \<le> m + length (snd vt) \<longrightarrow> f m = Some vt)"

lemma readsWithI:
  assumes "length t < length s" "\<And>m. length s \<le> Suc m + length t \<Longrightarrow> f (Suc m) = Some (v, t)"
  shows "readsWith f s (v, t)"
  unfolding readsWith_def
proof (intro conjI allI impI)
  show "length (snd (v, t)) < length s" using assms(1) by simp
  fix m
  assume "length s \<le> m + length (snd (v, t))"
  then show "f m = Some (v, t)" using assms by (cases m) auto
qed

lemma fuel_enough:
  "(\<forall>s vt. jsonValue n s = Some vt \<longrightarrow> readsWith (\<lambda>m. jsonValue m s) s vt)
   \<and> (\<forall>acc s vt. jsonElements n acc s = Some vt \<longrightarrow> readsWith (\<lambda>m. jsonElements m acc s) s vt)
   \<and> (\<forall>r s vt. jsonMembers n r s = Some vt \<longrightarrow> readsWith (\<lambda>m. jsonMembers m r s) s vt)"
proof (induction n)
  case 0
  then show ?case by simp
next
  case (Suc n)
  note IH = Suc.IH [THEN conjunct1, rule_format] Suc.IH [THEN conjunct2, THEN conjunct1, rule_format]
    Suc.IH [THEN conjunct2, THEN conjunct2, rule_format]
  have one_value: "readsWith (\<lambda>m. jsonValue m s) s (v, t)" if read: "jsonValue (Suc n) s = Some (v, t)" for s v t
  proof -
    obtain c u where u: "skipSpace s = c # u" using read by (cases "skipSpace s") auto
    have l: "length u < length s" using skipSpace_length [of s] u by simp
    consider "c = CHR ''[''" | "c = CHR ''{''" | "c = CHR 0x22" | "c \<notin> {CHR ''['', CHR ''{'', CHR 0x22}" by blast
    then show ?thesis
    proof cases
      case 1
      show ?thesis
      proof (cases "take 1 (skipSpace u) = '']''")
        case True
        then show ?thesis
          using read 1 u l skipSpace_length [of u] by (intro readsWithI) auto
      next
        case False
        then have "jsonElements n [] u = Some (v, t)" using read 1 u by simp
        from IH(2) [OF this] show ?thesis
          using False 1 u l by (intro readsWithI) (auto simp: readsWith_def)
      qed
    next
      case 2
      show ?thesis
      proof (cases "take 1 (skipSpace u) = ''}''")
        case True
        then show ?thesis
          using read 2 u l skipSpace_length [of u] by (intro readsWithI) auto
      next
        case False
        then have "jsonMembers n [] u = Some (v, t)" using read 2 u by simp
        from IH(3) [OF this] show ?thesis
          using False 2 u l by (intro readsWithI) (auto simp: readsWith_def)
      qed
    next
      case 3
      then show ?thesis
        using read u l jsonString_length [of "[]" u] by (intro readsWithI) force+
    next
      case 4
      then show ?thesis
        using read u l jsonWord_length [of "c # u" v t] skipSpace_length [of s] by (intro readsWithI) auto
    qed
  qed
  have elements: "readsWith (\<lambda>m. jsonElements m acc s) s (v, t)"
    if read: "jsonElements (Suc n) acc s = Some (v, t)" for acc s v t
  proof -
    obtain x u where x: "jsonValue n s = Some (x, u)" using read by (cases "jsonValue n s") auto
    then obtain c w where w: "skipSpace u = c # w" using read by (cases "skipSpace u") auto
    note one = IH(1) [OF x, unfolded readsWith_def]
    have l: "length w < length u" using skipSpace_length [of u] w by simp
    have now: "jsonValue m s = Some (x, u)" if "length s \<le> m + length u" for m using one that by simp
    show ?thesis
    proof (cases "c = CHR '',''")
      case True
      then have "jsonElements n (x # acc) w = Some (v, t)" using read x w by simp
      note more = IH(2) [OF this, unfolded readsWith_def]
      show ?thesis
      proof (rule readsWithI)
        show "length t < length s" using more one l by simp
        fix m
        assume "length s \<le> Suc m + length t"
        then show "jsonElements (Suc m) acc s = Some (v, t)"
          using more one l now [of m] w True by simp
      qed
    next
      case False
      then have t: "t = w" "c = CHR '']''" "v = VmArray (rev acc @ [x])" using read x w by (auto split: if_splits)
      show ?thesis
        by (rule readsWithI) (use one l now w t in auto)
    qed
  qed
  have members: "readsWith (\<lambda>m. jsonMembers m r s) s (v, t)"
    if read: "jsonMembers (Suc n) r s = Some (v, t)" for r s v t
  proof -
    define s1 where "s1 = skipSpace s"
    have q: "take 1 s1 = [CHR 0x22]" using read by (simp add: s1_def split: if_splits)
    then obtain k u where k: "jsonString [] (drop 1 s1) = Some (k, u)"
      using read by (auto simp: s1_def [symmetric] split: option.splits)
    have colon: "take 1 (skipSpace u) = '':''" using read q k by (auto simp: s1_def [symmetric] split: if_splits)
    define z where "z = drop 1 (skipSpace u)"
    obtain x y where x: "jsonValue n z = Some (x, y)"
      using read q k colon by (auto simp: s1_def [symmetric] z_def split: option.splits)
    then obtain c w where w: "skipSpace y = c # w"
      using read q k colon by (cases "skipSpace y") (auto simp: s1_def [symmetric] z_def)
    note one = IH(1) [OF x, unfolded readsWith_def]
    have l: "length w < length y" "length z < length s"
      using skipSpace_length [of y] skipSpace_length [of u] skipSpace_length [of s] jsonString_length [OF k] w
      by (simp_all add: z_def s1_def)
    have now: "jsonValue m z = Some (x, y)" if "length z \<le> m + length y" for m using one that by simp
    have step: "jsonMembers (Suc m) r s =
        (if c = CHR '','' then jsonMembers m (putProperty r k x) w
         else if c = CHR ''}'' then Some (VmObject (putProperty r k x), w) else None)"
      if "length z \<le> m + length y" for m
      using now [OF that] q k colon w by (simp add: s1_def [symmetric] z_def)
    show ?thesis
    proof (cases "c = CHR '',''")
      case True
      then have "jsonMembers n (putProperty r k x) w = Some (v, t)"
        using read q k colon x w by (simp add: s1_def [symmetric] z_def)
      note more = IH(3) [OF this, unfolded readsWith_def]
      show ?thesis
        by (rule readsWithI) (use more one l step True in auto)
    next
      case False
      then have t: "t = w" "c = CHR ''}''" "v = VmObject (putProperty r k x)"
        using read q k colon x w by (auto simp: s1_def [symmetric] z_def split: if_splits)
      show ?thesis
        by (rule readsWithI) (use one l step w t in auto)
    qed
  qed
  show ?case using one_value elements members by auto
qed

end
