(* ===== verification/VmParameters.thy ===== *)
theory VmParameters
  imports VmTable VmJson
begin

text \<open>
  The parameters of a template (\<open>advancedVmParameterModel.ts\<close>): the editor shows the variables of the
  template's body, takes a text for every field of a variable, and builds the body anew from them.
  Numbers are exact; beyond \<open>2 ^ 53\<close> the language would round the sums and quotients below.
\<close>

section \<open>Bodies and drafts\<close>

definition advancedVmTemplateBody :: "AdvancedVmTemplate \<Rightarrow> ProfileWorkbenchStream option \<Rightarrow> AdvancedVmBody" where
  "advancedVmTemplateBody template stream =
     (case (tpl_buildBody template, stream) of
        (Some build, Some s) \<Rightarrow> build s
      | _ \<Rightarrow> (case tpl_body template of Some body \<Rightarrow> body | None \<Rightarrow> advancedVmDefaultBody))"

datatype AdvancedVmFlowVarField = InitValue | MinValue | MaxValue | StepValue

definition flowVarFieldName :: "AdvancedVmFlowVarField \<Rightarrow> string" where
  "flowVarFieldName field = (case field of
     InitValue \<Rightarrow> ''init_value'' | MinValue \<Rightarrow> ''min_value'' | MaxValue \<Rightarrow> ''max_value'' | StepValue \<Rightarrow> ''step'')"

definition advancedVmFlowVarFields :: "AdvancedVmFlowVarField list" where
  "advancedVmFlowVarFields = [InitValue, MinValue, MaxValue, StepValue]"

definition advancedVmFlowVarOperations :: "string list" where
  "advancedVmFlowVarOperations = [''inc'', ''dec'', ''random'']"

type_synonym AdvancedVmTemplateParameterDraft = "(string \<times> string) list"

definition advancedVmTemplateParameterKey :: "string \<Rightarrow> string \<Rightarrow> string \<Rightarrow> string" where
  "advancedVmTemplateParameterKey templateName variableName field =
     templateName @ '':'' @ variableName @ '':'' @ field"

text \<open>An instruction that declares a variable with a name.\<close>

definition namedFlowVar :: "VmValue \<Rightarrow> (string \<times> VmRecord) option" where
  "namedFlowVar instruction =
     (case instruction of
        VmObject r \<Rightarrow>
          (case (map_of r ''type'', map_of r ''name'') of
             (Some (VmText t), Some (VmText name)) \<Rightarrow> if t = ''flow_var'' then Some (name, r) else None
           | _ \<Rightarrow> None)
      | _ \<Rightarrow> None)"

record AdvancedVmFlowVarRow =
  row_name :: string
  row_op :: string
  row_init_value :: VmValue
  row_min_value :: VmValue
  row_max_value :: VmValue
  row_step :: VmValue

definition shownField :: "VmRecord \<Rightarrow> string \<Rightarrow> VmValue" where
  "shownField varRecord field =
     (case map_of varRecord field of
        Some (VmNumber n) \<Rightarrow> VmNumber n
      | Some (VmFraction m s) \<Rightarrow> VmFraction m s
      | Some VmInfinity \<Rightarrow> VmInfinity
      | Some (VmText t) \<Rightarrow> VmText t
      | _ \<Rightarrow> VmText [])"

fun flowVarRowsFrom :: "string list \<Rightarrow> VmValue list \<Rightarrow> AdvancedVmFlowVarRow list" where
  "flowVarRowsFrom seen [] = []"
| "flowVarRowsFrom seen (instruction # instructions) =
     (case namedFlowVar instruction of
        None \<Rightarrow> flowVarRowsFrom seen instructions
      | Some (name, varRecord) \<Rightarrow>
          if name \<in> set seen then flowVarRowsFrom seen instructions
          else \<lparr>row_name = name,
                row_op = (case map_of varRecord ''op'' of Some (VmText op) \<Rightarrow> op | _ \<Rightarrow> ''inc''),
                row_init_value = shownField varRecord ''init_value'', row_min_value = shownField varRecord ''min_value'',
                row_max_value = shownField varRecord ''max_value'', row_step = shownField varRecord ''step''\<rparr>
               # flowVarRowsFrom (name # seen) instructions)"

definition advancedVmFlowVarRows :: "AdvancedVmBody \<Rightarrow> AdvancedVmFlowVarRow list" where
  "advancedVmFlowVarRows body = flowVarRowsFrom [] (bodyInstructions body)"

text \<open>\<open>String(fallback)\<close> for a number or a text.\<close>

definition fallbackText :: "VmValue \<Rightarrow> string" where
  "fallbackText v = (case v of
     VmNumber n \<Rightarrow> wholeText n | VmFraction m s \<Rightarrow> doubleText m s | VmInfinity \<Rightarrow> ''Infinity'' | VmText t \<Rightarrow> t | _ \<Rightarrow> [])"

definition advancedVmTemplateParameterValue ::
  "AdvancedVmTemplateParameterDraft \<Rightarrow> string \<Rightarrow> string \<Rightarrow> string \<Rightarrow> VmValue \<Rightarrow> string" where
  "advancedVmTemplateParameterValue draft templateName variableName field fallback =
     (case map_of draft (advancedVmTemplateParameterKey templateName variableName field) of
        Some v \<Rightarrow> v
      | None \<Rightarrow> fallbackText fallback)"

section \<open>Numbers of a variable\<close>

definition parseAdvancedVmTemplateNumber :: "string \<Rightarrow> int option" where
  "parseAdvancedVmTemplateNumber value' =
     (let trimmed = jsTrim value' in if trimmed = [] then None else truncNumber trimmed)"

definition advancedVmTemplateDraftHas ::
  "AdvancedVmTemplateParameterDraft \<Rightarrow> string \<Rightarrow> string \<Rightarrow> string \<Rightarrow> bool" where
  "advancedVmTemplateDraftHas draft templateName variableName field \<longleftrightarrow>
     map_of draft (advancedVmTemplateParameterKey templateName variableName field) \<noteq> None"

definition advancedVmFlowVarOperation :: "VmValue option \<Rightarrow> string" where
  "advancedVmFlowVarOperation value' =
     (case value' of
        Some (VmText op) \<Rightarrow> if op \<in> set advancedVmFlowVarOperations then op else ''inc''
      | _ \<Rightarrow> ''inc'')"

text \<open>\<open>Math.trunc\<close> cuts towards 0.\<close>

definition truncFraction :: "int \<Rightarrow> int \<Rightarrow> int" where
  "truncFraction m s = (if m < 0 then - (- m div 2 ^ nat s) else m div 2 ^ nat s)"

definition advancedVmFlowVarNumber :: "VmRecord \<Rightarrow> string \<Rightarrow> int option" where
  "advancedVmFlowVarNumber varRecord field =
     (case map_of varRecord field of
        Some (VmNumber n) \<Rightarrow> Some n
      | Some (VmFraction m s) \<Rightarrow> Some (truncFraction m s)
      | Some (VmText t) \<Rightarrow> parseAdvancedVmTemplateNumber t
      | _ \<Rightarrow> None)"

definition advancedVmFlowVarRangeCount :: "VmRecord \<Rightarrow> int" where
  "advancedVmFlowVarRangeCount varRecord =
     (case (advancedVmFlowVarNumber varRecord ''init_value'', advancedVmFlowVarNumber varRecord ''min_value'',
            advancedVmFlowVarNumber varRecord ''max_value'', advancedVmFlowVarNumber varRecord ''step'') of
        (Some initValue, Some minValue, Some maxValue, Some stepValue) \<Rightarrow>
          if stepValue \<le> 0 then 1
          else
            let operation = advancedVmFlowVarOperation (map_of varRecord ''op'');
                distance = (if operation = ''dec'' then initValue - minValue
                  else if operation = ''random'' then maxValue - minValue else maxValue - initValue)
            in if distance \<le> 0 then 1 else max 1 (distance div stepValue + 1)
      | _ \<Rightarrow> 1)"

fun advancedVmFlowVarMaskLimit :: "VmValue list \<Rightarrow> string \<Rightarrow> int option" where
  "advancedVmFlowVarMaskLimit [] variableName = None"
| "advancedVmFlowVarMaskLimit (instruction # instructions) variableName =
     (case instruction of
        VmObject r \<Rightarrow>
          if map_of r ''type'' \<noteq> Some (VmText ''write_mask_flow_var'') \<or> map_of r ''name'' \<noteq> Some (VmText variableName)
          then advancedVmFlowVarMaskLimit instructions variableName
          else
            (case advancedVmFlowVarNumber r ''mask'' of
               None \<Rightarrow> advancedVmFlowVarMaskLimit instructions variableName
             | Some mask' \<Rightarrow>
                 let shift = orElse (advancedVmFlowVarNumber r ''shift'') 0;
                     limit = (if shift \<ge> 1024 then 0 else mask' div 2 ^ nat shift)
                 in if shift < 0 \<or> limit < 0 then advancedVmFlowVarMaskLimit instructions variableName
                    else Some limit)
      | _ \<Rightarrow> advancedVmFlowVarMaskLimit instructions variableName)"

definition advancedVmFlowVarMaxLimit :: "VmRecord \<Rightarrow> VmRecord \<Rightarrow> int option \<Rightarrow> int" where
  "advancedVmFlowVarMaxLimit varRecord fallback maskLimit =
     (case maskLimit of
        Some limit \<Rightarrow> limit
      | None \<Rightarrow>
          let sz = (case advancedVmFlowVarNumber varRecord ''size'' of
                Some n \<Rightarrow> Some n | None \<Rightarrow> advancedVmFlowVarNumber fallback ''size'')
          in if sz = Some 1 then 255
             else if sz = Some 2 then 65535
             else if sz = Some 4 then 4294967295
             else orElse (advancedVmFlowVarNumber fallback ''max_value'')
                    (orElse (advancedVmFlowVarNumber varRecord ''max_value'') MAX_SAFE_INTEGER))"

definition advancedVmFlowVarFieldLabel :: "AdvancedVmFlowVarField \<Rightarrow> string" where
  "advancedVmFlowVarFieldLabel field = (case field of
     InitValue \<Rightarrow> ''init value'' | MinValue \<Rightarrow> ''min value'' | MaxValue \<Rightarrow> ''max value'' | StepValue \<Rightarrow> ''step'')"

record InputAttributes =
  attr_max :: "int option"
  attr_min :: int
  attr_step :: int
  attr_title :: string

definition advancedVmFlowVarInputAttributes ::
  "AdvancedVmBody \<Rightarrow> string \<Rightarrow> AdvancedVmFlowVarField \<Rightarrow> InputAttributes" where
  "advancedVmFlowVarInputAttributes body variableName field =
     (let instructions = bodyInstructions body;
          varRecord = find (\<lambda>(name, r). name = variableName) (List.map_filter namedFlowVar instructions)
      in if field = StepValue
         then \<lparr>attr_max = None, attr_min = 1, attr_step = 1,
               attr_title = ''VM '' @ variableName @ '' step must be greater than 0.''\<rparr>
         else
           let maskLimit = advancedVmFlowVarMaskLimit instructions variableName;
               maxLimit = (case varRecord of
                   Some (name, r) \<Rightarrow> Some (advancedVmFlowVarMaxLimit r r maskLimit)
                 | None \<Rightarrow> maskLimit);
               range = ''VM '' @ variableName @ '' '' @ advancedVmFlowVarFieldLabel field
           in \<lparr>attr_max = maxLimit, attr_min = 0, attr_step = 1,
               attr_title = (case maxLimit of
                   None \<Rightarrow> range @ '' must be 0 or greater.''
                 | Some limit \<Rightarrow> range @ '' range: 0..'' @ wholeText limit @ ''.'')\<rparr>)"

section \<open>The body with the parameters\<close>

definition writtenField ::
  "AdvancedVmTemplateParameterDraft \<Rightarrow> string \<Rightarrow> string \<Rightarrow> VmRecord \<Rightarrow> AdvancedVmFlowVarField \<Rightarrow> VmRecord" where
  "writtenField draft templateName variableName varRecord field =
     (case map_of draft (advancedVmTemplateParameterKey templateName variableName (flowVarFieldName field)) of
        None \<Rightarrow> varRecord
      | Some v \<Rightarrow>
          (case parseAdvancedVmTemplateNumber v of
             None \<Rightarrow> varRecord
           | Some parsed \<Rightarrow> putProperty varRecord (flowVarFieldName field) (VmNumber parsed)))"

definition nextOperation :: "AdvancedVmTemplateParameterDraft \<Rightarrow> string \<Rightarrow> string \<Rightarrow> VmRecord \<Rightarrow> string" where
  "nextOperation draft templateName variableName sourceFlowVar =
     (case map_of draft (advancedVmTemplateParameterKey templateName variableName ''op'') of
        Some op \<Rightarrow>
          if op \<in> set advancedVmFlowVarOperations then op
          else advancedVmFlowVarOperation (map_of sourceFlowVar ''op'')
      | None \<Rightarrow> advancedVmFlowVarOperation (map_of sourceFlowVar ''op''))"

definition autoBoundsNeeded :: "AdvancedVmTemplateParameterDraft \<Rightarrow> string \<Rightarrow> string \<Rightarrow> VmRecord \<Rightarrow> bool" where
  "autoBoundsNeeded draft templateName variableName sourceFlowVar \<longleftrightarrow>
     (let has = advancedVmTemplateDraftHas draft templateName variableName
      in (\<not> has ''min_value'' \<or> \<not> has ''max_value'')
         \<and> (has ''op'' \<and> nextOperation draft templateName variableName sourceFlowVar
                \<noteq> advancedVmFlowVarOperation (map_of sourceFlowVar ''op'')
            \<or> has ''init_value'' \<or> has ''step''))"

definition withAutoBounds ::
  "AdvancedVmTemplateParameterDraft \<Rightarrow> string \<Rightarrow> string \<Rightarrow> int option \<Rightarrow> VmRecord \<Rightarrow> VmRecord \<Rightarrow> VmRecord" where
  "withAutoBounds draft templateName variableName maskLimit sourceFlowVar varRecord =
     (case (advancedVmFlowVarNumber varRecord ''init_value'', advancedVmFlowVarNumber varRecord ''step'') of
        (Some initValue, Some stepValue) \<Rightarrow>
          if stepValue \<le> 0 then varRecord
          else
            let bounds = advancedNumberBounds initValue (advancedVmFlowVarRangeCount sourceFlowVar) stepValue
                  (advancedVmFlowVarMaxLimit varRecord sourceFlowVar maskLimit)
                  (nextOperation draft templateName variableName sourceFlowVar);
                lower = (if advancedVmTemplateDraftHas draft templateName variableName ''min_value'' then varRecord
                  else putProperty varRecord ''min_value'' (VmNumber (bounds_min bounds)))
            in if advancedVmTemplateDraftHas draft templateName variableName ''max_value'' then lower
               else putProperty lower ''max_value'' (VmNumber (bounds_max bounds))
      | _ \<Rightarrow> varRecord)"

definition parameterizedInstruction ::
  "string \<Rightarrow> AdvancedVmTemplateParameterDraft \<Rightarrow> VmValue list \<Rightarrow> VmValue \<Rightarrow> VmValue" where
  "parameterizedInstruction templateName draft instructions instruction =
     (case namedFlowVar instruction of
        None \<Rightarrow> instruction
      | Some (variableName, sourceFlowVar) \<Rightarrow>
          let maskLimit = advancedVmFlowVarMaskLimit instructions variableName;
              varRecord = putProperty sourceFlowVar ''op''
                (VmText (nextOperation draft templateName variableName sourceFlowVar));
              written = foldl (writtenField draft templateName variableName) varRecord advancedVmFlowVarFields
          in VmObject (if autoBoundsNeeded draft templateName variableName sourceFlowVar
               then withAutoBounds draft templateName variableName maskLimit sourceFlowVar written
               else written))"

definition advancedVmParameterizedTemplateBody ::
  "AdvancedVmTemplate \<Rightarrow> ProfileWorkbenchStream option \<Rightarrow> AdvancedVmTemplateParameterDraft \<Rightarrow> AdvancedVmBody" where
  "advancedVmParameterizedTemplateBody template stream draft =
     (let body = cloneAdvancedVmBody (advancedVmTemplateBody template stream) in
      case map_of body ''instructions'' of
        Some (VmArray instructions) \<Rightarrow>
          putProperty body ''instructions''
            (VmArray (map (parameterizedInstruction (tpl_name template) draft instructions) instructions))
      | _ \<Rightarrow> body)"

section \<open>Validation\<close>

definition limitedFieldError :: "string \<Rightarrow> int \<Rightarrow> (AdvancedVmFlowVarField \<times> int option) list \<Rightarrow> string option" where
  "limitedFieldError variableName maskLimit limitedFields =
     map_option (\<lambda>(field, value'). ''VM '' @ variableName @ '' '' @ advancedVmFlowVarFieldLabel field
         @ '' must be between 0 and '' @ wholeText maskLimit @ ''.'')
       (find (\<lambda>(field, value'). case value' of None \<Rightarrow> False | Some v \<Rightarrow> v < 0 \<or> v > maskLimit) limitedFields)"

definition exceeds :: "int option \<Rightarrow> int option \<Rightarrow> bool" where
  "exceeds a b \<longleftrightarrow> (case (a, b) of (Some x, Some y) \<Rightarrow> x > y | _ \<Rightarrow> False)"

definition flowVarError ::
  "string \<Rightarrow> AdvancedVmTemplateParameterDraft \<Rightarrow> VmValue list \<Rightarrow> string \<Rightarrow> VmRecord \<Rightarrow> string option" where
  "flowVarError templateName draft instructions variableName varRecord =
     (let bad = find (\<lambda>field.
            case map_of draft (advancedVmTemplateParameterKey templateName variableName (flowVarFieldName field)) of
              None \<Rightarrow> False
            | Some v \<Rightarrow> parseAdvancedVmTemplateNumber v = None) advancedVmFlowVarFields;
          initValue = advancedVmFlowVarNumber varRecord ''init_value'';
          minValue = advancedVmFlowVarNumber varRecord ''min_value'';
          maxValue = advancedVmFlowVarNumber varRecord ''max_value'';
          stepValue = advancedVmFlowVarNumber varRecord ''step'';
          limited = (case advancedVmFlowVarMaskLimit instructions variableName of
              None \<Rightarrow> None
            | Some maskLimit \<Rightarrow>
                limitedFieldError variableName maskLimit
                  [(InitValue, initValue), (MinValue, minValue), (MaxValue, maxValue)])
      in case bad of
           Some field \<Rightarrow> Some (''VM '' @ variableName @ '' '' @ advancedVmFlowVarFieldLabel field @ '' must be a number.'')
         | None \<Rightarrow>
             if (case stepValue of Some v \<Rightarrow> v \<le> 0 | None \<Rightarrow> False) then Some (''VM '' @ variableName @ '' step must be greater than 0.'')
             else case limited of
                    Some e \<Rightarrow> Some e
                  | None \<Rightarrow>
                      if exceeds minValue maxValue
                      then Some (''VM '' @ variableName @ '' min value must not exceed max value.'')
                      else if exceeds minValue initValue
                      then Some (''VM '' @ variableName @ '' init value must be at least '' @ wholeText (the minValue) @ ''.'')
                      else if exceeds initValue maxValue
                      then Some (''VM '' @ variableName @ '' init value must be at most '' @ wholeText (the maxValue) @ ''.'')
                      else None)"

fun firstFlowVarError ::
  "string \<Rightarrow> AdvancedVmTemplateParameterDraft \<Rightarrow> VmValue list \<Rightarrow> VmValue list \<Rightarrow> string option" where
  "firstFlowVarError templateName draft instructions [] = None"
| "firstFlowVarError templateName draft instructions (instruction # rest) =
     (case Option.bind (namedFlowVar instruction)
         (\<lambda>(name, r). flowVarError templateName draft instructions name r) of
        Some e \<Rightarrow> Some e
      | None \<Rightarrow> firstFlowVarError templateName draft instructions rest)"

definition advancedVmTemplateParameterValidationError ::
  "AdvancedVmTemplate \<Rightarrow> AdvancedVmBody \<Rightarrow> AdvancedVmTemplateParameterDraft \<Rightarrow> string option" where
  "advancedVmTemplateParameterValidationError template body draft =
     firstFlowVarError (tpl_name template) draft (bodyInstructions body) (bodyInstructions body)"


section \<open>The literals of the templates\<close>

definition flowVarRecord :: "string \<Rightarrow> string \<Rightarrow> int \<Rightarrow> int \<Rightarrow> int \<Rightarrow> int \<Rightarrow> int \<Rightarrow> VmRecord" where
  "flowVarRecord n op sz i lo hi st =
     [(''init_value'', VmNumber i), (''max_value'', VmNumber hi), (''min_value'', VmNumber lo), (''name'', VmText n),
      (''op'', VmText op), (''size'', VmNumber sz), (''step'', VmNumber st), (''type'', VmText ''flow_var'')]"

lemma flowVar_object: "flowVar n op sz i lo hi st = VmObject (flowVarRecord n op sz i lo hi st)"
  by (simp add: flowVar_def flowVarRecord_def)

lemma namedFlowVar_literal [simp]:
  "namedFlowVar (flowVar n op sz i lo hi st) = Some (n, flowVarRecord n op sz i lo hi st)"
  "namedFlowVar (writeFlowVar n a off) = None" "namedFlowVar (writePlainFlowVar n off) = None"
  "namedFlowVar (writeMaskFlowVar n c off m s) = None" "namedFlowVar (fixChecksumHw a b l4) = None"
  "namedFlowVar (fixChecksumIpv4 off) = None" "namedFlowVar (fixChecksumIcmpv6 a b) = None"
  by (simp_all add: namedFlowVar_def flowVar_def flowVarRecord_def writeFlowVar_def writePlainFlowVar_def writeMaskFlowVar_def
      fixChecksumHw_def fixChecksumIpv4_def fixChecksumIcmpv6_def)

lemma putProperty_same: "map_of r k = Some v \<Longrightarrow> \<not> isArrayIndex k \<Longrightarrow> putProperty r k v = r"
  by (induction r k v rule: putProperty.induct) (auto split: if_splits)

lemma putProperty_map_of: "map_of (putProperty r k v) = (map_of r)(k \<mapsto> v)"
  by (induction r k v rule: putProperty.induct) (auto simp: fun_eq_iff)

lemma rangeCount_positive: "1 \<le> advancedVmFlowVarRangeCount r"
  by (simp add: advancedVmFlowVarRangeCount_def Let_def split: option.split)

section \<open>What the validation promises\<close>

text \<open>The conditions a variable is checked for.\<close>

definition variableValid :: "int option \<Rightarrow> int \<Rightarrow> int \<Rightarrow> int \<Rightarrow> int \<Rightarrow> bool" where
  "variableValid maskLimit i lo hi st \<longleftrightarrow>
     1 \<le> st \<and> lo \<le> i \<and> i \<le> hi
     \<and> (case maskLimit of None \<Rightarrow> True | Some limit \<Rightarrow> 0 \<le> lo \<and> hi \<le> limit)"

definition draftNumbers :: "AdvancedVmTemplateParameterDraft \<Rightarrow> string \<Rightarrow> string \<Rightarrow> bool" where
  "draftNumbers draft templateName n \<longleftrightarrow>
     (\<forall>field. case map_of draft (advancedVmTemplateParameterKey templateName n (flowVarFieldName field)) of
        None \<Rightarrow> True | Some v \<Rightarrow> parseAdvancedVmTemplateNumber v \<noteq> None)"

lemma flowVarError_none:
  assumes "advancedVmFlowVarNumber r ''init_value'' = Some i" "advancedVmFlowVarNumber r ''min_value'' = Some lo"
    "advancedVmFlowVarNumber r ''max_value'' = Some hi" "advancedVmFlowVarNumber r ''step'' = Some st"
  shows "flowVarError name draft instructions n r = None
    \<longleftrightarrow> draftNumbers draft name n \<and> variableValid (advancedVmFlowVarMaskLimit instructions n) i lo hi st"
proof -
  let ?bad = "\<lambda>field. case map_of draft (advancedVmTemplateParameterKey name n (flowVarFieldName field)) of
      None \<Rightarrow> False | Some v \<Rightarrow> parseAdvancedVmTemplateNumber v = None"
  have all: "field \<in> set advancedVmFlowVarFields" for field
    by (cases field) (simp_all add: advancedVmFlowVarFields_def)
  have "find ?bad advancedVmFlowVarFields = None \<longleftrightarrow> draftNumbers draft name n"
    using all by (auto simp: find_None_iff draftNumbers_def split: option.splits)
  then show ?thesis
    unfolding flowVarError_def Let_def assms
    by (auto simp: variableValid_def exceeds_def limitedFieldError_def not_less split: option.splits)
qed

lemma firstFlowVarError_none:
  "firstFlowVarError name draft instructions rest = None
    \<longleftrightarrow> (\<forall>x\<in>set rest. \<forall>n r. namedFlowVar x = Some (n, r) \<longrightarrow> flowVarError name draft instructions n r = None)"
  by (induction name draft instructions rest rule: firstFlowVarError.induct)
    (auto simp: bind_eq_Some_conv split: option.splits)

text \<open>Bounds from an initial value within its limit are valid.\<close>

lemma bounds_valid:
  fixes op :: string
  assumes "0 \<le> i" "i \<le> limit" "1 \<le> count" "1 \<le> st"
  defines "b \<equiv> advancedNumberBounds i count st limit op"
  shows "0 \<le> bounds_min b" "bounds_min b \<le> i" "i \<le> bounds_max b" "bounds_max b \<le> limit"
proof -
  have "0 \<le> (count - 1) * st" using assms by simp
  then show "0 \<le> bounds_min b" "bounds_min b \<le> i" "i \<le> bounds_max b" "bounds_max b \<le> limit"
    using assms(1,2) by (auto simp: b_def advancedNumberBounds_def)
qed


section \<open>Bodies without edits\<close>

text \<open>A draft that says nothing about a template.\<close>

definition untouched :: "AdvancedVmTemplateParameterDraft \<Rightarrow> string \<Rightarrow> string \<Rightarrow> bool" where
  "untouched draft templateName n \<longleftrightarrow>
     (\<forall>field\<in>insert ''op'' (set (map flowVarFieldName advancedVmFlowVarFields)).
        map_of draft (advancedVmTemplateParameterKey templateName n field) = None)"

lemma untouched_instruction:
  assumes "\<And>n r. namedFlowVar x = Some (n, r)
    \<Longrightarrow> untouched draft name n \<and> (\<exists>op. map_of r ''op'' = Some (VmText op) \<and> op \<in> set advancedVmFlowVarOperations)"
  shows "parameterizedInstruction name draft instructions x = x"
proof (cases "namedFlowVar x")
  case None
  then show ?thesis by (simp add: parameterizedInstruction_def)
next
  case (Some nr)
  then obtain n r where nr: "namedFlowVar x = Some (n, r)" by (cases nr) auto
  then have x: "x = VmObject r"
    by (auto simp: namedFlowVar_def split: VmValue.splits option.splits if_splits)
  have u: "untouched draft name n" using assms [OF nr] by simp
  obtain op where op: "map_of r ''op'' = Some (VmText op)" "op \<in> set advancedVmFlowVarOperations" using assms [OF nr] by auto
  have "nextOperation draft name n r = op"
    using u op by (simp add: nextOperation_def untouched_def advancedVmFlowVarOperation_def)
  moreover have "writtenField draft name n r' field = r'" for r' field
    using u by (cases field) (simp_all add: writtenField_def untouched_def advancedVmFlowVarFields_def)
  moreover have "\<not> autoBoundsNeeded draft name n r"
    using u by (simp add: autoBoundsNeeded_def untouched_def advancedVmTemplateDraftHas_def flowVarFieldName_def
        advancedVmFlowVarFields_def)
  moreover have "putProperty r ''op'' (VmText op) = r"
    by (rule putProperty_same [OF op(1)]) (simp add: isArrayIndex_def isDecDigit_def codeOf_def)
  ultimately show ?thesis
    by (simp add: parameterizedInstruction_def nr advancedVmFlowVarFields_def x [symmetric])
qed

section \<open>An edited initial value\<close>

text \<open>
  A number typed for the initial value alone moves the bounds with it: as many values as before, cut
  to the limit of the field.
\<close>

lemma edited_initial_value:
  assumes "map_of draft (advancedVmTemplateParameterKey name n ''init_value'') = Some text'"
    "parseAdvancedVmTemplateNumber text' = Some v" "op \<in> set advancedVmFlowVarOperations"
    "\<And>field. field \<in> {''op'', ''min_value'', ''max_value'', ''step''}
       \<Longrightarrow> map_of draft (advancedVmTemplateParameterKey name n field) = None" "1 \<le> st"
  shows "parameterizedInstruction name draft instructions (flowVar n op sz i lo hi st)
    = (let r = flowVarRecord n op sz i lo hi st;
           b = advancedNumberBounds v (advancedVmFlowVarRangeCount r) st
             (advancedVmFlowVarMaxLimit (flowVarRecord n op sz v lo hi st) r (advancedVmFlowVarMaskLimit instructions n)) op
       in flowVar n op sz v (bounds_min b) (bounds_max b) st)"
proof -
  let ?r = "flowVarRecord n op sz i lo hi st"
  have keys: "\<not> isArrayIndex ''init_value''" "\<not> isArrayIndex ''min_value''" "\<not> isArrayIndex ''max_value''" "\<not> isArrayIndex ''op''"
    by (simp_all add: isArrayIndex_def isDecDigit_def codeOf_def)
  have has: "advancedVmTemplateDraftHas draft name n ''init_value''" "\<not> advancedVmTemplateDraftHas draft name n ''min_value''"
    "\<not> advancedVmTemplateDraftHas draft name n ''max_value''"
    using assms(1,4) by (simp_all add: advancedVmTemplateDraftHas_def)
  have op: "nextOperation draft name n ?r = op"
    using assms(3,4) by (simp add: nextOperation_def advancedVmFlowVarOperation_def flowVarRecord_def)
  have auto: "autoBoundsNeeded draft name n ?r"
    using has by (simp add: autoBoundsNeeded_def)
  have written: "foldl (writtenField draft name n) ?r advancedVmFlowVarFields = flowVarRecord n op sz v lo hi st"
    using assms(1,2,4) by (simp add: advancedVmFlowVarFields_def writtenField_def flowVarFieldName_def flowVarRecord_def)
  have same: "putProperty ?r ''op'' (VmText op) = ?r"
    by (simp add: flowVarRecord_def keys)
  show ?thesis
    using assms(5) has keys
    unfolding parameterizedInstruction_def namedFlowVar_literal option.case prod.case Let_def op same written
    by (simp add: auto withAutoBounds_def op)
      (simp add: flowVarRecord_def advancedVmFlowVarNumber_def flowVar_def Let_def op [unfolded flowVarRecord_def])
qed

end
