(* ===== verification/VmTargets.thy ===== *)
theory VmTargets
  imports VmParameters TargetMatch
begin

text \<open>
  What the editor offers for a stream: the rows of the templates (\<open>advancedVmTargetModel.ts\<close>) and the
  text a chosen template writes into the editor (\<open>advancedVmTemplateDraftModel.ts\<close>). The callbacks of
  the editor are a list of the calls that are made, in their order.
\<close>

section \<open>What a body does\<close>

definition advancedVmInstructionObjects :: "AdvancedVmBody \<Rightarrow> VmRecord list" where
  "advancedVmInstructionObjects body =
     List.map_filter (\<lambda>i. case i of VmObject r \<Rightarrow> Some r | _ \<Rightarrow> None) (bodyInstructions body)"

text \<open>A set keeps its elements in the order of their insertion.\<close>

definition addNew :: "'a list \<Rightarrow> 'a \<Rightarrow> 'a list" where
  "addNew xs x = (if x \<in> set xs then xs else xs @ [x])"

definition typeOf :: "VmRecord \<Rightarrow> string" where
  "typeOf r = (case map_of r ''type'' of Some (VmText t) \<Rightarrow> t | _ \<Rightarrow> [])"

text \<open>\<open>Math.trunc(Number(v))\<close> where it is finite. The templates write numbers; of an array or an object
  the language would convert the text.\<close>

definition offsetNumber :: "VmValue \<Rightarrow> int option" where
  "offsetNumber v = (case v of
     VmNumber n \<Rightarrow> Some n
   | VmFraction m s \<Rightarrow> Some (truncFraction m s)
   | VmText t \<Rightarrow> if jsTrim t = [] then Some 0 else truncNumber (jsTrim t)
   | VmBool b \<Rightarrow> Some (if b then 1 else 0)
   | _ \<Rightarrow> None)"

definition writeOffsetOf :: "VmRecord \<Rightarrow> int option" where
  "writeOffsetOf r =
     (if \<not> startsWith (typeOf r) ''write'' then None
      else case map_of r ''pkt_offset'' of
             None \<Rightarrow> None
           | Some VmNull \<Rightarrow> None
           | Some v \<Rightarrow> offsetNumber v)"

definition advancedVmTargetWriteOffsetValues :: "AdvancedVmBody \<Rightarrow> int list" where
  "advancedVmTargetWriteOffsetValues body =
     foldl addNew [] (List.map_filter writeOffsetOf (advancedVmInstructionObjects body))"

definition orDash :: "string list \<Rightarrow> string" where
  "orDash ws = (if joinWith '', '' ws = [] then ''-'' else joinWith '', '' ws)"

definition advancedVmTargetWriteOffsets :: "AdvancedVmBody \<Rightarrow> string" where
  "advancedVmTargetWriteOffsets body =
     (let offsets = foldl addNew [] (map wholeText (advancedVmTargetWriteOffsetValues body))
      in if offsets \<noteq> [] then joinWith '', '' offsets else ''-'')"

definition advancedVmTargetChecksumRepair :: "AdvancedVmBody \<Rightarrow> string" where
  "advancedVmTargetChecksumRepair body =
     (let repairs = foldl addNew []
            (filter (\<lambda>t. startsWith t ''fix_'' \<or> includesText ''checksum'' t)
              (map typeOf (advancedVmInstructionObjects body)))
      in if repairs \<noteq> [] then joinWith '', '' repairs else ''-'')"

section \<open>The rows of a stream\<close>

record VmTargetRow = AdvancedVmTargetRow +
  vmt_template :: AdvancedVmTemplate
  vmt_compatible :: bool
  vmt_blockedReason :: string
  vmt_writeOffsets :: string
  vmt_checksumRepair :: string
  vmt_splitBy :: string

definition templateSupports :: "AdvancedVmTemplate \<Rightarrow> ProfileWorkbenchStream \<Rightarrow> bool" where
  "templateSupports template stream = (case tpl_supports template of Some f \<Rightarrow> f stream | None \<Rightarrow> True)"

definition templateTargetRow ::
  "AdvancedVmTemplate \<Rightarrow> ProfileWorkbenchStream \<Rightarrow> AdvancedVmTemplateParameterDraft \<Rightarrow> VmTargetRow" where
  "templateTargetRow template stream draft =
     (let compatible = templateSupports template stream;
          body = (if compatible then advancedVmParameterizedTemplateBody template (Some stream) draft
            else advancedVmTemplateBody template (Some stream));
          parameterError = (if compatible then advancedVmTemplateParameterValidationError template body draft else None);
          split = (case map_of body ''split_by_var'' of Some (VmText t) \<Rightarrow> t | _ \<Rightarrow> [])
      in \<lparr>vmt_name = tpl_name template, vmt_label = tpl_label template,
          vmt_variables = orDash (map row_name (advancedVmFlowVarRows body)),
          vmt_ready = (compatible \<and> (case parameterError of None \<Rightarrow> True | Some e \<Rightarrow> e = [])),
          vmt_writeOffsetValues = advancedVmTargetWriteOffsetValues body,
          vmt_template = template, vmt_compatible = compatible,
          vmt_blockedReason = (if compatible then orElse parameterError [] else tpl_requires template),
          vmt_writeOffsets = advancedVmTargetWriteOffsets body,
          vmt_checksumRepair = advancedVmTargetChecksumRepair body,
          vmt_splitBy = (if split \<noteq> [] then split else ''-'')\<rparr>)"

definition advancedVmTemplateTargetRowsForStream ::
  "AdvancedVmTemplate list \<Rightarrow> ProfileWorkbenchStream \<Rightarrow> AdvancedVmTemplateParameterDraft
   \<Rightarrow> (ProfileWorkbenchStream \<Rightarrow> bool) \<Rightarrow> VmTargetRow list" where
  "advancedVmTemplateTargetRowsForStream templates stream draft rawPacketSupported =
     map (\<lambda>template. templateTargetRow template stream draft)
       (filter (\<lambda>template. templateSupports template stream \<or> \<not> tpl_hideWhenUnsupportedWithoutRaw template
            \<or> rawPacketSupported stream)
         (filter (\<lambda>template. tpl_name template \<noteq> ''empty'') templates))"

datatype AdvancedVmTargetChoiceSource = Structured | Raw

record AdvancedVmTemplateOption =
  topt_disabled :: bool
  topt_label :: string
  topt_name :: string

record AdvancedVmTargetChoiceView =
  choice_rawTargetRows :: "VmTargetRow list"
  choice_readyTargetCount :: int
  choice_selectedTargetRows :: "VmTargetRow list"
  choice_structuredTargetRows :: "VmTargetRow list"
  choice_templateOptions :: "AdvancedVmTemplateOption list"

definition advancedVmTargetChoiceViewModel ::
  "AdvancedVmTargetChoiceSource \<Rightarrow> ProfileWorkbenchStream option \<Rightarrow> AdvancedVmTemplateParameterDraft
   \<Rightarrow> ProfileWorkbenchStream option \<Rightarrow> ProfileWorkbenchStream option \<Rightarrow> AdvancedVmTemplate list
   \<Rightarrow> AdvancedVmTargetChoiceView" where
  "advancedVmTargetChoiceViewModel activeSource activeStream draft rawStream structuredStream templates =
     (let rows = (\<lambda>stream. case stream of
            None \<Rightarrow> []
          | Some s \<Rightarrow> advancedVmTemplateTargetRowsForStream templates s draft (\<lambda>s. isRawPacketAdvancedStream (Some s)));
          structured = rows structuredStream;
          raw = rows rawStream;
          selected = (if activeSource = Raw then raw else structured)
      in \<lparr>choice_rawTargetRows = raw,
          choice_readyTargetCount = int (length (filter vmt_ready selected)),
          choice_selectedTargetRows = selected,
          choice_structuredTargetRows = structured,
          choice_templateOptions = map (\<lambda>template.
            \<lparr>topt_disabled = (case activeStream of None \<Rightarrow> False | Some s \<Rightarrow> \<not> templateSupports template s),
             topt_label = tpl_label template, topt_name = tpl_name template\<rparr>) templates\<rparr>)"

section \<open>The text of a template\<close>

record AdvancedVmTemplateView =
  view_body :: AdvancedVmBody
  view_compatible :: bool
  view_flowVars :: "AdvancedVmFlowVarRow list"
  view_hint :: string
  view_parameterDirty :: bool
  view_parameterError :: "string option"
  view_ready :: bool
  view_selectedTemplate :: AdvancedVmTemplate

definition advancedVmTemplateViewModel ::
  "AdvancedVmTemplate list \<Rightarrow> string \<Rightarrow> ProfileWorkbenchStream option \<Rightarrow> AdvancedVmTemplateParameterDraft
   \<Rightarrow> string + AdvancedVmTemplateView" where
  "advancedVmTemplateViewModel templates templateName stream draft =
     (case (case find (\<lambda>t. tpl_name t = templateName) templates of
              Some t \<Rightarrow> Some t | None \<Rightarrow> List.find (\<lambda>_. True) templates) of
        None \<Rightarrow> Inl ''Advanced VM templates cannot be empty.''
      | Some selectedTemplate \<Rightarrow>
          let body = advancedVmParameterizedTemplateBody selectedTemplate stream draft;
              parameterError = advancedVmTemplateParameterValidationError selectedTemplate body draft;
              compatible = (case stream of None \<Rightarrow> True | Some s \<Rightarrow> templateSupports selectedTemplate s);
              valid = (case parameterError of None \<Rightarrow> True | Some e \<Rightarrow> e = [])
          in Inr \<lparr>view_body = body, view_compatible = compatible, view_flowVars = advancedVmFlowVarRows body,
              view_hint = (if \<not> compatible then ''Template requires '' @ tpl_requires selectedTemplate @ ''.''
                else orElse parameterError (tpl_description selectedTemplate)),
              view_parameterDirty = list_ex (\<lambda>(key, _). startsWith key (tpl_name selectedTemplate @ '':'')) draft,
              view_parameterError = parameterError, view_ready = (compatible \<and> valid),
              view_selectedTemplate = selectedTemplate\<rparr>)"

text \<open>\<open>{ok: false}\<close> is \<open>None\<close>; otherwise the text and the name of the template.\<close>

type_synonym AdvancedVmTemplateDraftResult = "(string \<times> string) option"

definition advancedVmTemplateDraftText :: "AdvancedVmTemplateView \<Rightarrow> AdvancedVmTemplateDraftResult" where
  "advancedVmTemplateDraftText view =
     (if \<not> view_ready view then None
      else Some (formatAdvancedVmJson (Some (view_body view)), tpl_name (view_selectedTemplate view)))"

definition appendedAdvancedVmTemplateDraftText ::
  "AdvancedVmBody option \<Rightarrow> AdvancedVmTemplateView \<Rightarrow> AdvancedVmTemplateDraftResult" where
  "appendedAdvancedVmTemplateDraftText currentBody view =
     (case currentBody of
        None \<Rightarrow> None
      | Some current \<Rightarrow>
          if \<not> view_ready view then None
          else Some (formatAdvancedVmJson (Some (mergeAdvancedVmBodies current (view_body view))),
                     tpl_name (view_selectedTemplate view)))"

definition advancedVmTargetTemplateDraft ::
  "AdvancedVmTemplate option \<Rightarrow> ProfileWorkbenchStream option \<Rightarrow> AdvancedVmTemplateParameterDraft
   \<Rightarrow> AdvancedVmTemplateDraftResult" where
  "advancedVmTargetTemplateDraft template stream draft =
     (case (template, stream) of
        (Some t, Some s) \<Rightarrow>
          (case advancedVmTemplateViewModel [t] (tpl_name t) stream draft of
             Inl e \<Rightarrow> None
           | Inr view \<Rightarrow> advancedVmTemplateDraftText view)
      | _ \<Rightarrow> None)"

definition advancedVmNamedTargetTemplateDraft ::
  "AdvancedVmTemplate list \<Rightarrow> string \<Rightarrow> ProfileWorkbenchStream option \<Rightarrow> AdvancedVmTemplateParameterDraft
   \<Rightarrow> AdvancedVmTemplateDraftResult" where
  "advancedVmNamedTargetTemplateDraft templates templateName stream draft =
     advancedVmTargetTemplateDraft (find (\<lambda>t. tpl_name t = templateName) templates) stream draft"

datatype AdvancedVmTemplateDraftAction = Ignored | Apply string "string option"

definition advancedVmTemplateSeedAction :: "AdvancedVmTemplateView \<Rightarrow> AdvancedVmTemplateDraftAction" where
  "advancedVmTemplateSeedAction view =
     (case advancedVmTemplateDraftText view of None \<Rightarrow> Ignored | Some (text', name) \<Rightarrow> Apply text' None)"

definition advancedVmTemplateAppendAction ::
  "AdvancedVmBody option \<Rightarrow> AdvancedVmTemplateView \<Rightarrow> AdvancedVmTemplateDraftAction" where
  "advancedVmTemplateAppendAction currentBody view =
     (case appendedAdvancedVmTemplateDraftText currentBody view of
        None \<Rightarrow> Ignored | Some (text', name) \<Rightarrow> Apply text' None)"

definition advancedVmNamedTargetTemplateAction ::
  "AdvancedVmTemplate list \<Rightarrow> string \<Rightarrow> ProfileWorkbenchStream option \<Rightarrow> AdvancedVmTemplateParameterDraft
   \<Rightarrow> AdvancedVmTemplateDraftAction" where
  "advancedVmNamedTargetTemplateAction templates templateName stream draft =
     (case advancedVmNamedTargetTemplateDraft templates templateName stream draft of
        None \<Rightarrow> Ignored | Some (text', name) \<Rightarrow> Apply text' (Some name))"

datatype HandlerCall = SetTemplateName string | UpdateDraft string

definition runAdvancedVmTemplateDraftAction :: "AdvancedVmTemplateDraftAction \<Rightarrow> bool \<times> HandlerCall list" where
  "runAdvancedVmTemplateDraftAction action =
     (case action of
        Ignored \<Rightarrow> (False, [])
      | Apply text' templateName \<Rightarrow>
          (True, (case templateName of Some name \<Rightarrow> [SetTemplateName name] | None \<Rightarrow> []) @ [UpdateDraft text']))"

definition runAdvancedVmTemplateSeed :: "AdvancedVmTemplateView \<Rightarrow> bool \<times> HandlerCall list" where
  "runAdvancedVmTemplateSeed view = runAdvancedVmTemplateDraftAction (advancedVmTemplateSeedAction view)"

definition runAdvancedVmTemplateAppend :: "AdvancedVmBody option \<Rightarrow> AdvancedVmTemplateView \<Rightarrow> bool \<times> HandlerCall list" where
  "runAdvancedVmTemplateAppend currentBody view =
     runAdvancedVmTemplateDraftAction (advancedVmTemplateAppendAction currentBody view)"

definition runAdvancedVmNamedTargetTemplate ::
  "AdvancedVmTemplate list \<Rightarrow> string \<Rightarrow> ProfileWorkbenchStream option \<Rightarrow> AdvancedVmTemplateParameterDraft
   \<Rightarrow> bool \<times> HandlerCall list" where
  "runAdvancedVmNamedTargetTemplate templates templateName stream draft =
     runAdvancedVmTemplateDraftAction (advancedVmNamedTargetTemplateAction templates templateName stream draft)"

end
