(* ===== verification/VmOffered.thy ===== *)
theory VmOffered
  imports VmTargets
begin

text \<open>
  What the field engine templates promise for an imported packet: every template the editor offers for it builds a
  body whose variables start at the bytes of the packet, stay within their bounds and are written inside it.
\<close>

section \<open>Imported packets\<close>

definition imported :: "ProfileWorkbenchStream \<Rightarrow> bool" where
  "imported s \<longleftrightarrow> isRawPacketAdvancedStream (Some s) \<and> countsPositive s"

definition templateSound :: "ProfileWorkbenchStream \<Rightarrow> AdvancedVmTemplate \<Rightarrow> bool" where
  "templateSound s template \<longleftrightarrow>
     (case tpl_buildBody template of
        None \<Rightarrow> True
      | Some build \<Rightarrow> templateSupports template s \<longrightarrow> bodySound (streamBytes (rawOf s)) (build s))"

lemma importedD:
  assumes "imported s"
  shows "hasBinary s" "packetType s = ''Ethernet''" "countsPositive s"
  using assms by (auto simp: imported_def isRawPacketAdvancedStream_def)

text \<open>Only the condition and the builder of a template matter here; its texts stay folded.\<close>

lemma templateSound_simps:
  "templateSound s (freeTemplate n l d r build) \<longleftrightarrow> bodySound (streamBytes (rawOf s)) (build s)"
  "templateSound s (fieldTemplate n l d r supports build)
     \<longleftrightarrow> (supports s \<longrightarrow> bodySound (streamBytes (rawOf s)) (build s))"
  "templateSound s (hiddenTemplate n l d r supports build)
     \<longleftrightarrow> (supports s \<longrightarrow> bodySound (streamBytes (rawOf s)) (build s))"
  "templateSound s (fixedTemplate n l d r body) \<longleftrightarrow> True"
  by (simp_all add: templateSound_def templateSupports_def freeTemplate_def fieldTemplate_def hiddenTemplate_def
      fixedTemplate_def)

text \<open>A group is sound if each of its conditions is enough for its builder.\<close>

lemma nil_sound: "list_all (templateSound s) []"
  by simp

lemmas templatesSound_simps = list.pred_inject(2) templateSound_simps

lemma suffix_of_numericCount [simp]:
  assumes "countsPositive s" "endsWith f ''_count''"
  shows "ipv6FieldEngineSuffix a (numericCount s f) = ipv6FieldEngineSuffix a (numOf s f)"
proof -
  have "max 2 (min 100000000 (numericCount s f)) = max 2 (min 100000000 (numOf s f))"
    using countsPositiveD(2) [OF assms(1) disjI1, OF assms(2)]
    by (simp add: numericCount_def largeUnitCountNumber_def boundedCount_def)
  then show ?thesis by (simp only: ipv6FieldEngineSuffix_def)
qed

section \<open>Link layer, IPv4, IPv6\<close>

lemma general_templates_sound:
  assumes "imported s" "textOf s ''frame_length_type'' = ''Fixed''"
    "\<And>side. rawOuterMacAddressTarget (rawOf s) side \<noteq> None"
  shows "list_all (templateSound s) generalTemplates"
proof -
  note s = importedD [OF assms(1)]
  have arp: "rawArpTarget (rawOf s) \<noteq> None" if "isArpStream (Some s)"
    using that s(2) by (simp add: isArpStream_def)
  have ether: "rawOuterEtherTypeTarget (rawOf s) \<noteq> None" if "isOuterEtherTypeStream (Some s)"
    using that s(1) by (simp add: isOuterEtherTypeStream_def)
  have fixed: "\<not> isVariableFrameLengthStream (Some s)"
    using assms(2) by (simp add: isVariableFrameLengthStream_def)
  show ?thesis
    unfolding generalTemplates_def templatesSound_simps comp_def
      buildOuterMacDstIncVmBody_def buildOuterMacSrcIncVmBody_def
    by (intro conjI nil_sound TrueI mac_template arp_template ether_type_template impI
        arp ether s(3) assms(3)) (use fixed in simp_all)
qed

lemma ipv4_templates_sound:
  assumes "imported s"
  shows "list_all (templateSound s) ipv4Templates"
proof -
  note s = importedD [OF assms]
  have outer: "rawOuterIpv4Target (rawOf s) \<noteq> None" if "isAdvancedOuterIpv4Stream (Some s)"
    using that s(2) by (simp add: isAdvancedOuterIpv4Stream_def)
  show ?thesis
    unfolding ipv4Templates_def templatesSound_simps comp_def
      isAdvancedIpv4RouterAlertStream_def isAdvancedIpv4OptionTypeStream_def buildOuterIpv4SrcIncVmBody_def
      buildOuterIpv4SrcRandomVmBody_def buildOuterIpv4DstIncVmBody_def buildOuterIpv4DstRandomVmBody_def
      buildOuterIpv4ReservedFlagVaryVmBody_def buildOuterIpv4DfFlagVaryVmBody_def
      buildOuterIpv4MfFlagVaryVmBody_def buildIpv4OptionCopiedFlagVmBody_def buildIpv4OptionClassIncVmBody_def
      buildIpv4OptionNumberIncVmBody_def
    by (intro conjI impI nil_sound ipv4_address_template ipv4_number_template ipv4_field_template
        option_template option_type_template outer s(3))
qed

lemma ipv6_templates_sound:
  assumes "imported s"
  shows "list_all (templateSound s) ipv6Templates"
proof -
  note s = importedD [OF assms]
  have outer: "rawOuterIpv6Target (rawOf s) \<noteq> None" if "isAdvancedOuterIpv6Stream (Some s)"
    using that s(2) by (simp add: isAdvancedOuterIpv6Stream_def)
  have source: "bodySound (streamBytes (rawOf s)) (buildOuterIpv6AddressIncVmBody s SrcField)"
    if "isAdvancedOuterIpv6SrcVmStream (Some s)"
    using that outer s(3) unfolding isAdvancedOuterIpv6SrcVmStream_def
    by (auto simp: rawIpv6Suffix_def split: option.splits intro!: ipv6_address_template)
  have destination: "bodySound (streamBytes (rawOf s)) (buildOuterIpv6AddressIncVmBody s DstField)"
    if "isAdvancedOuterIpv6DstVmStream (Some s)"
    using that outer s(3) unfolding isAdvancedOuterIpv6DstVmStream_def
    by (auto simp: rawIpv6Suffix_def split: option.splits intro!: ipv6_address_template)
  show ?thesis
    unfolding ipv6Templates_def templatesSound_simps comp_def
      isAdvancedIpv6RouterAlertStream_def isAdvancedIpv6ExtensionOptionTypeStream_def
      isAdvancedIpv6JumboPayloadStream_def isAdvancedIpv6RoutingStream_def isAdvancedIpv6FragmentStream_def
      isAdvancedIpv6AhStream_def buildOuterIpv6SrcIncVmBody_def buildOuterIpv6DstIncVmBody_def
      buildIpv6ExtensionOptionActionIncVmBody_def buildIpv6ExtensionOptionChangeFlagVmBody_def
      buildIpv6ExtensionOptionNumberIncVmBody_def
    by (intro conjI impI nil_sound source destination ipv6_field_template option_template option6_type_template
        fragment_template extension_field_template outer s(3))
qed

section \<open>UDP and TCP\<close>

text \<open>The conditions of the UDP templates ask for the IP payload only, their builders for a whole header; on a packet
  cut inside the header the builder falls back to the offsets of the form.\<close>

definition udpHeaderComplete :: "ProfileWorkbenchStream \<Rightarrow> bool" where
  "udpHeaderComplete s \<longleftrightarrow>
     (\<forall>t. rawOuterIpv4L4Target (rawOf s) 17 = Some t \<longrightarrow> rawPacketHasBytes (l44_bytes t) (l44_offset t) 8)
     \<and> (\<forall>t. rawOuterIpv6L4Target (rawOf s) 17 = Some t \<longrightarrow> rawPacketHasBytes (l46_bytes t) (l46_offset t) 8)"

lemma udp_targets:
  assumes "udpHeaderComplete s"
  shows "rawOuterIpv4L4Target (rawOf s) 17 \<noteq> None \<Longrightarrow> rawOuterTransportTarget (rawOf s) 17 11 8 \<noteq> None"
    "rawOuterIpv6L4Target (rawOf s) 17 \<noteq> None \<Longrightarrow> rawOuterTransportTarget (rawOf s) 17 11 8 \<noteq> None"
    "rawOuterIpv4L4Target (rawOf s) 17 \<noteq> None \<Longrightarrow> fiveTupleTarget (rawOf s) 17 8 \<noteq> None"
    "rawOuterIpv6L4Target (rawOf s) 17 \<noteq> None \<Longrightarrow> rawOuterIpv6TransportTarget (rawOf s) 11 \<noteq> None"
  using assms
  by (auto simp: udpHeaderComplete_def rawOuterTransportTarget_def fiveTupleTarget_def rawOuterIpv6TransportTarget_def
      split: option.splits)

lemma five_tuple6_sound:
  assumes "imported s" "ipv6FiveTupleStream ty onForm (Some s)"
    "onForm (Some s) \<Longrightarrow> rawOuterIpv6TransportTarget (rawOf s) ty \<noteq> None"
  shows "bodySound (streamBytes (rawOf s)) (buildOuterIpv6TransportFiveTupleVmBody s ty)"
  using assms importedD(3) [OF assms(1)] unfolding ipv6FiveTupleStream_def
  by (auto simp: rawIpv6Suffix_def split: option.splits intro!: ipv6_five_tuple_template)

lemma udp_templates_sound:
  assumes "imported s" "udpHeaderComplete s"
  shows "list_all (templateSound s) udpTemplates"
proof -
  note s = importedD [OF assms(1)] and target = udp_targets [OF assms(2)]
  have v4: "rawOuterIpv4L4Target (rawOf s) 17 \<noteq> None" if "isAdvancedOuterIpv4UdpStream (Some s)"
    using that s(1) by (simp add: isAdvancedOuterIpv4UdpStream_def)
  have v6: "rawOuterIpv6L4Target (rawOf s) 17 \<noteq> None" if "isAdvancedOuterIpv6UdpStream (Some s)"
    using that s(1) by (simp add: isAdvancedOuterIpv6UdpStream_def)
  have five6: "bodySound (streamBytes (rawOf s)) (buildOuterIpv6TransportFiveTupleVmBody s 11)"
    if "isAdvancedOuterIpv6UdpFiveTupleStream (Some s)"
    by (rule five_tuple6_sound [OF assms(1) that [unfolded isAdvancedOuterIpv6UdpFiveTupleStream_def]])
      (intro target(4) v6)
  have port6: "bodySound (streamBytes (rawOf s)) (buildOuterIpv6L4PortIncVmBody s field 11)"
    if "isAdvancedOuterIpv6UdpStream (Some s)" for field
    using ipv6_port_template [where ty = 11, OF _ s(3)] target(2) [OF v6 [OF that]] by simp
  show ?thesis
    unfolding udpTemplates_def templatesSound_simps comp_def
      buildOuterIpv6UdpSrcPortIncVmBody_def buildOuterIpv6UdpDstPortIncVmBody_def
      buildOuterIpv6UdpLengthIncVmBody_def buildOuterIpv6UdpChecksumIncVmBody_def
      buildOuterIpv6UdpFiveTupleVmBody_def buildOuterUdpSrcPortIncVmBody_def buildOuterUdpDstPortIncVmBody_def
      buildOuterIpv4UdpLengthIncVmBody_def buildOuterIpv4UdpChecksumIncVmBody_def
      buildOuterUdpFiveTupleVmBody_def
    by (intro conjI impI nil_sound port_template udp_header_template port6 five6 five_tuple_template target v4 v6 s(3))
       (simp_all add: v4 v6 target)
qed

text \<open>A packet is an IPv4 or an IPv6 packet.\<close>

lemma one_network_layer:
  assumes "rawOuterIpv6Offset (streamBytes stream) \<noteq> None"
  shows "rawOuterIpv4Target stream = None"
proof -
  let ?bs = "streamBytes stream"
  obtain ty l3 where tags: "skipVlanTags 4 ?bs (rawPacketWord ?bs 12) 14 = (ty, l3)" by fastforce
  show ?thesis
    using assms
    by (auto simp: rawOuterIpv6Offset_def rawOuterIpv4Target_def outerIpv4L3_def outerIpv6L3_def tags Let_def
        isMplsType_def split: if_splits)
qed

text \<open>The two halves of a timestamp option and of a selective acknowledgement block are found together.\<close>

definition sameOption :: "RawTcpOptionTargetName \<Rightarrow> RawTcpOptionTargetName \<Rightarrow> bool" where
  "sameOption a b \<longleftrightarrow>
     isSackTarget a \<and> isSackTarget b \<and> sackBlockIndex a = sackBlockIndex b
     \<or> a \<in> {TimestampValue, TimestampEcho} \<and> b \<in> {TimestampValue, TimestampEcho}"

lemma sameOptionD:
  assumes "sameOption a b"
  shows "a \<noteq> Mss \<and> b \<noteq> Mss \<and> a \<noteq> WindowScale \<and> b \<noteq> WindowScale"
    "isSackTarget a = isSackTarget b" "isSackTarget a \<Longrightarrow> sackBlockIndex a = sackBlockIndex b"
    "(a = TimestampValue \<or> a = TimestampEcho) = (b = TimestampValue \<or> b = TimestampEcho)"
  using assms by (auto simp: sameOption_def isSackTarget_def)

lemma if_none: "(if c then x else y) = None \<longleftrightarrow> (if c then x = None else y = None)"
  by simp

lemma same_option_found:
  assumes "sameOption a b"
  shows "rawTcpOptionValueTarget stream a = None \<longleftrightarrow> rawTcpOptionValueTarget stream b = None"
proof -
  note same = sameOptionD [OF assms]
  have "findTcpOption n target a off end' = None \<longleftrightarrow> findTcpOption n target b off end' = None"
    for n target off end'
  proof (induction n arbitrary: off)
    case (Suc n)
    show ?case
      by (cases "isSackTarget b")
         (simp_all only: findTcpOption.simps Let_def if_none same(1,2,4) same(3) [unfolded same(2)] Suc.IH
           option.distinct simp_thms if_False if_True)
  qed simp
  then show ?thesis by (simp add: rawTcpOptionValueTarget_def Let_def split: option.split)
qed

text \<open>A condition that also accepts the form: what the form says about an imported packet is left from before the
  import. \<open>plainForm\<close> is a form without such options.\<close>

definition plainForm :: "ProfileWorkbenchStream \<Rightarrow> bool" where
  "plainForm s \<longleftrightarrow>
     (\<forall>f \<in> {''vlan_enabled'', ''mpls_enabled'', ''tcp_option_mss_enabled'', ''tcp_option_window_scale_enabled'',
             ''tcp_option_timestamp_enabled'', ''tcp_option_sack_blocks_enabled'',
             ''gre_key_present'', ''gre_sequence_present''}. \<not> flagOf s f)"

lemma plainFormD [simp]:
  assumes "plainForm s"
  shows "\<not> flagOf s ''vlan_enabled''" "\<not> flagOf s ''mpls_enabled''"
    "\<not> flagOf s ''gre_key_present''" "\<not> flagOf s ''gre_sequence_present''"
    "\<not> formTcpOption (Some s) ''tcp_option_mss_enabled''"
    "\<not> formTcpOption (Some s) ''tcp_option_window_scale_enabled''"
    "\<not> formTcpOption (Some s) ''tcp_option_timestamp_enabled''"
    "\<not> formTcpOption (Some s) ''tcp_option_sack_blocks_enabled''"
  using assms by (simp_all add: plainForm_def formTcpOption_def)

lemma tcp4_targets:
  assumes "imported s" "isAdvancedOuterIpv4TcpStream (Some s)"
  shows "rawOuterTransportTarget (rawOf s) 6 13 20 \<noteq> None" "fiveTupleTarget (rawOf s) 6 20 \<noteq> None"
    "rawOuterTcpFixedHeaderTarget (rawOf s) \<noteq> None"
proof -
  obtain t where t: "rawOuterIpv4L4Target (rawOf s) 6 = Some t"
      "rawPacketTcpHeaderOffset (l44_bytes t) (l44_offset t) None \<noteq> None"
    using assms(2) importedD(1) [OF assms(1)] by (auto simp: isAdvancedOuterIpv4TcpStream_def split: option.splits)
  then have "rawPacketHasBytes (l44_bytes t) (l44_offset t) 20"
    by (auto simp: rawPacketTcpHeaderOffset_def split: if_splits)
  with t show "rawOuterTransportTarget (rawOf s) 6 13 20 \<noteq> None" "fiveTupleTarget (rawOf s) 6 20 \<noteq> None"
    by (simp_all add: rawOuterTransportTarget_def fiveTupleTarget_def)
  show "rawOuterTcpFixedHeaderTarget (rawOf s) \<noteq> None"
    using t by (auto simp: rawOuterTcpFixedHeaderTarget_def rawOuterTcpTarget_def)
qed

lemma tcp6_targets:
  assumes "imported s" "isAdvancedOuterIpv6TcpStream (Some s)"
  shows "rawOuterTransportTarget (rawOf s) 6 13 20 \<noteq> None" "rawOuterIpv6TransportTarget (rawOf s) 13 \<noteq> None"
    "rawOuterTcpFixedHeaderTarget (rawOf s) \<noteq> None"
proof -
  obtain t where t: "rawOuterIpv6L4Target (rawOf s) 6 = Some t"
      "rawPacketTcpHeaderOffset (l46_bytes t) (l46_offset t) None \<noteq> None"
    using assms(2) importedD(1) [OF assms(1)]
    by (auto simp: isAdvancedOuterIpv6TcpStream_def tcpOverIpv6_def split: option.splits)
  then have room: "rawPacketHasBytes (l46_bytes t) (l46_offset t) 20"
    by (auto simp: rawPacketTcpHeaderOffset_def split: if_splits)
  have "rawOuterIpv6Offset (streamBytes (rawOf s)) \<noteq> None"
    using t(1) by (auto simp: rawOuterIpv6L4Target_def Let_def split: option.splits)
  then have "rawOuterIpv4L4Target (rawOf s) 6 = None"
    by (simp add: one_network_layer rawOuterIpv4L4Target_def)
  with t room show "rawOuterTransportTarget (rawOf s) 6 13 20 \<noteq> None" "rawOuterIpv6TransportTarget (rawOf s) 13 \<noteq> None"
    "rawOuterTcpFixedHeaderTarget (rawOf s) \<noteq> None"
    by (auto simp: rawOuterTransportTarget_def rawOuterIpv6TransportTarget_def rawOuterTcpFixedHeaderTarget_def
        rawOuterTcpTarget_def)
qed

lemma tcp_header_templates_sound:
  assumes "imported s"
  shows "list_all (templateSound s) tcpHeaderTemplates"
proof -
  note s = importedD [OF assms(1)] and v4 = tcp4_targets [OF assms] and v6 = tcp6_targets [OF assms]
  have header: "rawOuterTcpFixedHeaderTarget (rawOf s) \<noteq> None" if "isAdvancedOuterTcpStream (Some s)"
    using that v4(3) v6(3) by (auto simp: isAdvancedOuterTcpStream_def)
  show ?thesis
    unfolding tcpHeaderTemplates_def templatesSound_simps comp_def
      buildOuterTcpSrcPortIncVmBody_def buildOuterTcpDstPortIncVmBody_def buildOuterTcpFiveTupleVmBody_def
      buildOuterTcpSequenceIncVmBody_def buildOuterTcpAckIncVmBody_def
    by (intro conjI impI nil_sound port_template tcp_number_template tcp_field_template five_tuple_template v4(1,2) header s(3))
       simp_all
qed

lemma sackTargetName_cases:
  obtains "sackTargetName edge block \<in> {SackLeftEdge, SackRightEdge}" "block \<notin> {2, 3, 4}"
  | "sackTargetName edge block \<in> {Sack2LeftEdge, Sack2RightEdge}" "block = 2"
  | "sackTargetName edge block \<in> {Sack3LeftEdge, Sack3RightEdge}" "block = 3"
  | "sackTargetName edge block \<in> {Sack4LeftEdge, Sack4RightEdge}" "block = 4"
  by (cases edge; cases "block = 2"; cases "block = 3"; cases "block = 4"; simp add: sackTargetName_def)

lemma same_block: "sameOption (sackTargetName edge block) (sackTargetName edge' block)"
proof -
  have "isSackTarget (sackTargetName e block)" for e
    by (rule sackTargetName_cases [of e block]) (auto simp: isSackTarget_def)
  moreover have "sackBlockIndex (sackTargetName e block)
      = (if block = 2 then 1 else if block = 3 then 2 else if block = 4 then 3 else 0)" for e
    by (rule sackTargetName_cases [of e block]) (auto simp: sackBlockIndex_def)
  ultimately show ?thesis unfolding sameOption_def by simp
qed

lemma tcp_option_templates_sound:
  assumes "imported s" "plainForm s"
  shows "list_all (templateSound s) tcpOptionTemplates"
proof -
  note s = importedD [OF assms(1)] and v6 = tcp6_targets [OF assms(1)]
  have half: "rawTcpOptionValueTarget (rawOf s) b \<noteq> None"
    if "isAdvancedRawTcpOptionStream (Some s) a" "sameOption a b" for a b
    using that same_option_found [OF that(2), of "rawOf s"] by (auto simp: isAdvancedRawTcpOptionStream_def)
  have stamp: "bodySound (streamBytes (rawOf s)) (buildOuterTcpOptionTimestampIncVmBody s stamp)"
    if "isAdvancedOuterTcpTimestampStream (Some s)" for stamp
  proof -
    let ?b = "if stamp = StampValue then TimestampValue else TimestampEcho"
    have "isAdvancedRawTcpOptionStream (Some s) TimestampValue \<or> isAdvancedRawTcpOptionStream (Some s) TimestampEcho"
      using that plainFormD(7) [OF assms(2)] unfolding isAdvancedOuterTcpTimestampStream_def by blast
    moreover have "sameOption TimestampValue ?b" "sameOption TimestampEcho ?b" by (simp_all add: sameOption_def)
    ultimately show ?thesis by (intro tcp_option_template(3)) (elim disjE, (erule (1) half)+)
  qed
  have sack: "bodySound (streamBytes (rawOf s)) (buildOuterTcpOptionSackIncVmBody s edge block)"
    if "isAdvancedRawTcpOptionStream (Some s) (sackTargetName LeftEdge block)
        \<or> isAdvancedRawTcpOptionStream (Some s) (sackTargetName RightEdge block)" for edge block
    using that by (intro tcp_option_template(4)) (elim disjE; erule half [OF _ same_block])
  have block: "isAdvancedRawTcpOptionStream (Some s) a \<or> isAdvancedRawTcpOptionStream (Some s) b
      \<Longrightarrow> a = sackTargetName LeftEdge block \<and> b = sackTargetName RightEdge block
      \<Longrightarrow> bodySound (streamBytes (rawOf s)) (buildOuterTcpOptionSackIncVmBody s edge block)" for a b block edge
    using sack by simp
  have port6: "bodySound (streamBytes (rawOf s)) (buildOuterIpv6L4PortIncVmBody s field 13)"
    if "isAdvancedOuterIpv6TcpStream (Some s)" for field
    using ipv6_port_template [where ty = 13, OF _ s(3)] v6(1) [OF that] by simp
  have five6: "bodySound (streamBytes (rawOf s)) (buildOuterIpv6TransportFiveTupleVmBody s 13)"
    if "isAdvancedOuterIpv6TcpFiveTupleStream (Some s)"
    by (rule five_tuple6_sound [OF assms(1) that [unfolded isAdvancedOuterIpv6TcpFiveTupleStream_def]]) (rule v6(2))
  show ?thesis
    unfolding tcpOptionTemplates_def templatesSound_simps comp_def
      isAdvancedOuterTcpMssStream_def isAdvancedOuterTcpWindowScaleStream_def
      isAdvancedOuterTcpSackBlockStream_def isAdvancedRawTcpSackSecondBlockStream_def
      isAdvancedRawTcpSackThirdBlockStream_def isAdvancedRawTcpSackFourthBlockStream_def
      buildOuterTcpOptionTimestampValueIncVmBody_def buildOuterTcpOptionTimestampEchoIncVmBody_def
      buildOuterTcpOptionSackLeftIncVmBody_def buildOuterTcpOptionSackRightIncVmBody_def
      buildOuterTcpOptionSack2LeftIncVmBody_def buildOuterTcpOptionSack2RightIncVmBody_def
      buildOuterTcpOptionSack3LeftIncVmBody_def buildOuterTcpOptionSack3RightIncVmBody_def
      buildOuterTcpOptionSack4LeftIncVmBody_def buildOuterTcpOptionSack4RightIncVmBody_def
      buildOuterIpv6TcpSrcPortIncVmBody_def buildOuterIpv6TcpDstPortIncVmBody_def
      buildOuterIpv6TcpFiveTupleVmBody_def
    by (intro conjI impI nil_sound tcp_option_template(1,2) stamp port6 five6; (erule block)?)
       (use assms(2) in \<open>simp_all add: isAdvancedRawTcpOptionStream_def sackTargetName_def block\<close>)
qed

section \<open>DNS and DHCP\<close>

lemma imported_udpForm [simp]: "imported s \<Longrightarrow> \<not> udpForm s enabled"
  by (simp add: udpForm_def importedD(2))

lemma dns_header_templates_sound:
  assumes "imported s"
  shows "list_all (templateSound s) dnsHeaderTemplates"
proof -
  note s = importedD [OF assms]
  have query: "rawDnsQueryTarget (rawOf s) \<noteq> None" if "isAdvancedDnsStream (Some s)"
    using that assms by (simp add: isAdvancedDnsStream_def)
  show ?thesis
    unfolding dnsHeaderTemplates_def templatesSound_simps comp_def
      buildDnsTransactionIdIncVmBody_def buildDnsFlagsIncVmBody_def buildDnsQuestionsIncVmBody_def
      buildDnsAnswersIncVmBody_def buildDnsAuthorityRrsIncVmBody_def buildDnsAdditionalRrsIncVmBody_def
      buildDnsResponseFlagVmBody_def buildDnsOpcodeIncVmBody_def buildDnsAuthoritativeAnswerFlagVmBody_def
      buildDnsTruncatedFlagVmBody_def buildDnsRecursionDesiredFlagVmBody_def
      buildDnsRecursionAvailableFlagVmBody_def buildDnsReservedFlagsIncVmBody_def
      buildDnsResponseCodeIncVmBody_def
    by (intro conjI impI nil_sound dns_query_template dns_flag_template query s(3)) (simp_all add: isDnsQueryField_def)
qed

lemma dns_record_templates_sound:
  assumes "imported s"
  shows "list_all (templateSound s) dnsRecordTemplates"
proof -
  note s = importedD [OF assms]
  have query: "rawDnsQueryTarget (rawOf s) \<noteq> None" if "isAdvancedDnsStream (Some s)"
    using that assms by (simp add: isAdvancedDnsStream_def)
  have name: "Option.bind (rawDnsQueryTarget (rawOf s)) dns_queryNameFirstByteOffset \<noteq> None"
    if "isAdvancedDnsQueryNameStream (Some s)"
    using that assms by (simp add: isAdvancedDnsQueryNameStream_def)
  have answer: "bodySound (streamBytes (rawOf s)) (buildDnsFieldIncVmBody s field)"
    if offered: "isAdvancedDnsAnswerStream (Some s)" and "field \<in> {DnsAnswerClass, DnsAnswerTtl, DnsAnswerType}" for field
  proof -
    obtain t where "rawDnsAnswerTarget (rawOf s) = Some t"
      using offered assms by (auto simp: isAdvancedDnsAnswerStream_def)
    then show ?thesis
      by (rule dns_answer_template) (use that(2) s(3) in \<open>auto simp: isDnsQueryField_def isDnsAnswerField_def\<close>)
  qed
  have ipv4: "bodySound (streamBytes (rawOf s)) (buildDnsFieldIncVmBody s DnsAnswerIpv4)"
    if offered: "isAdvancedDnsAnswerIpv4Stream (Some s)"
  proof -
    obtain t where "rawDnsAnswerTarget (rawOf s) = Some t" "hasAnswerIpv4 t"
      using offered assms by (auto simp: isAdvancedDnsAnswerIpv4Stream_def split: option.splits)
    then show ?thesis
      by (intro dns_answer_template [where t = t]) (use s(3) in \<open>simp_all add: isDnsQueryField_def isDnsAnswerField_def\<close>)
  qed
  show ?thesis
    unfolding dnsRecordTemplates_def templatesSound_simps comp_def
      buildDnsQueryTypeIncVmBody_def buildDnsQueryClassIncVmBody_def buildDnsAnswerTtlIncVmBody_def
      buildDnsAnswerTypeIncVmBody_def buildDnsAnswerClassIncVmBody_def buildDnsAnswerIpv4IncVmBody_def
    by (intro conjI impI nil_sound)
       (simp_all add: answer ipv4 dns_query_template dns_name_template query name s(3) isDnsQueryField_def)
qed

lemma dhcp_message_templates_sound:
  assumes "imported s"
  shows "list_all (templateSound s) dhcpMessageTemplates"
proof -
  note s = importedD [OF assms]
  have found: "\<exists>t. rawDhcpTarget (rawOf s) = Some t" if "isAdvancedDhcpStream (Some s)"
    using that assms by (simp add: isAdvancedDhcpStream_def)
  have number: "bodySound (streamBytes (rawOf s)) (buildDhcpNumberIncVmBody s field)"
    if "isAdvancedDhcpStream (Some s)" "field \<noteq> DhcpMessageType" for field
    using found [OF that(1)] that(2) s(3) by (auto intro: dhcp_number_template)
  have messageType: "bodySound (streamBytes (rawOf s)) (buildDhcpNumberIncVmBody s DhcpMessageType)"
    if "isAdvancedDhcpMessageTypeStream (Some s)"
    using that found s(3)
    by (auto simp: isAdvancedDhcpMessageTypeStream_def dhcpOptionStream_def split: option.splits
        intro!: dhcp_number_template)
  have flag: "bodySound (streamBytes (rawOf s)) (buildDhcpFlagMaskedVmBody s flag)"
    and bootp: "bodySound (streamBytes (rawOf s)) (buildDhcpBootpIpv4IncVmBody s bootp)"
      "bodySound (streamBytes (rawOf s)) (buildDhcpClientMacIncVmBody s)"
    if "isAdvancedDhcpStream (Some s)" for flag bootp
    using found [OF that] s(3) by (auto intro: dhcp_flag_template dhcp_address_template)
  show ?thesis
    unfolding dhcpMessageTemplates_def templatesSound_simps comp_def
      
    by (intro conjI impI nil_sound; (rule number flag bootp messageType; (assumption | simp)))
qed

lemma dhcp_option_templates_sound:
  assumes "imported s"
  shows "list_all (templateSound s) dhcpOptionTemplates"
proof -
  note s = importedD [OF assms]
  have found: "\<exists>t. rawDhcpTarget (rawOf s) = Some t \<and> option t \<noteq> None"
    if "dhcpOptionStream (Some s) option onForm" for option onForm
    using that assms by (auto simp: dhcpOptionStream_def isAdvancedDhcpStream_def split: option.splits)
  have address: "bodySound (streamBytes (rawOf s)) (buildDhcpOptionIpv4IncVmBody s field)"
    if "dhcpOptionStream (Some s) (if field = DhcpRequestedIp then dhcp_requestedIpOption else dhcp_serverIdOption) p"
    for field p
    using found [OF that] s(3) by (auto intro!: dhcp_option_template(1) split: if_splits)
  have timer: "bodySound (streamBytes (rawOf s)) (buildDhcpTimerIncVmBody s field)"
    if "dhcpOptionStream (Some s) (snd (snd (dhcpTimer field))) p" for field p
    using found [OF that] s(3) by (auto intro!: dhcp_option_template(2))
  show ?thesis
    unfolding dhcpOptionTemplates_def templatesSound_simps comp_def
      isAdvancedDhcpRequestedIpStream_def isAdvancedDhcpServerIdStream_def
      isAdvancedDhcpParameterRequestStream_def isAdvancedDhcpHostnameStream_def
      isAdvancedDhcpLeaseTimeStream_def isAdvancedDhcpRenewalTimeStream_def
      isAdvancedDhcpRebindingTimeStream_def isAdvancedDhcpClientIdentifierStream_def
    apply (intro conjI impI nil_sound)
    subgoal by (rule address) simp
    subgoal by (rule address) simp
    subgoal by (drule found) (auto intro: dhcp_first_byte_template)
    subgoal by (drule found) (auto intro: dhcp_first_byte_template)
    subgoal by (auto simp: bind_eq_Some_conv intro: dhcp_first_byte_template)
    subgoal by (rule timer) (simp add: dhcpTimer_def)
    subgoal by (rule timer) (simp add: dhcpTimer_def)
    subgoal by (rule timer) (simp add: dhcpTimer_def)
    done
qed

section \<open>SCTP\<close>

text \<open>The condition of the SCTP templates asks for the common header only; the fields of the first chunk need a DATA
  chunk behind it.\<close>

definition sctpDataFollows :: "ProfileWorkbenchStream \<Rightarrow> bool" where
  "sctpDataFollows s \<longleftrightarrow>
     (rawOuterSctpTarget (rawOf s) 12 \<noteq> None
        \<longrightarrow> (\<forall>field \<in> {SctpSourcePort, SctpDestinationPort, SctpVerificationTag, SctpDataFlags, SctpTsn, SctpStreamId,
               SctpStreamSequence, SctpPayloadProtocolId}. sctpRawTarget s field \<noteq> None))"

lemma sctp_templates_sound:
  assumes "imported s" "sctpDataFollows s"
  shows "list_all (templateSound s) sctpTemplates"
proof -
  note s = importedD [OF assms(1)]
  have found: "sctpRawTarget s field \<noteq> None" if "isAdvancedOuterSctpStream (Some s)" for field
    using that assms(2) s(1) by (cases field) (simp_all add: isAdvancedOuterSctpStream_def sctpDataFollows_def)
  have flags: "rawOuterSctpTarget (rawOf s) 14 \<noteq> None" "sctpDataFlagsTarget s \<noteq> None"
    if "isAdvancedOuterSctpDataStream (Some s)"
    using that s(2) by (auto simp: isAdvancedOuterSctpDataStream_def sctpDataFlagsTarget_def isSctpForm_def
        split: option.splits)
  have chunkFlags: "sctpRawTarget s SctpDataFlags \<noteq> None" if "isAdvancedOuterSctpDataStream (Some s)"
    using flags [OF that]
    by (auto simp: sctpDataFlagsTarget_def sctpRawTarget_def sctpAdvancedFieldSpec_def formField_def byteOr_def rawPacketHasBytes_def Let_def
        split: option.splits if_splits)
  show ?thesis
    unfolding sctpTemplates_def templatesSound_simps comp_def
      buildSctpSourcePortIncVmBody_def buildSctpDestinationPortIncVmBody_def
      buildSctpVerificationTagIncVmBody_def buildSctpDataFlagsIncVmBody_def
      buildSctpDataReservedFlagsIncVmBody_def buildSctpDataImmediateSackFlagVmBody_def
      buildSctpDataUnorderedFlagVmBody_def buildSctpDataBeginningFragmentFlagVmBody_def
      buildSctpDataEndingFragmentFlagVmBody_def buildSctpTsnIncVmBody_def buildSctpStreamIdIncVmBody_def
      buildSctpStreamSequenceIncVmBody_def buildSctpPayloadProtocolIdIncVmBody_def
    by (intro conjI impI nil_sound sctp_flag_template flags) (simp_all add: sctp_number_template found chunkFlags s(3))
qed

section \<open>ICMP\<close>

definition neighbourSuffix :: "ProfileWorkbenchStream \<Rightarrow> bool" where
  "neighbourSuffix s \<longleftrightarrow>
     (\<forall>t. icmpv6NdTargetAddressTarget (rawOf s) = Some t \<longrightarrow> ipv6FieldEngineSuffix (nd_address t) 4 \<noteq> None)"

lemma icmp_templates_sound:
  assumes "imported s" "neighbourSuffix s"
  shows "list_all (templateSound s) icmpTemplates"
proof -
  note s = importedD [OF assms(1)]
  have coupled: "bodySound (streamBytes (rawOf s)) (buildIcmpv4EchoChecksumCoupledVmBody s field)"
    if "icmpv4EchoChecksumCoupledSpec s field \<noteq> None" for field
    using that by (auto intro: icmpv4_coupled_template)
  have echo: "icmpv6EchoRawTarget (rawOf s) \<noteq> None" if "isIcmpv6EchoStream (Some s)"
    using that s(2) by (simp add: isIcmpv6EchoStream_def)
  have nd: "bodySound (streamBytes (rawOf s)) (buildIcmpv6NdTargetAddressIncVmBody s)"
    if "icmpv6NdTargetAddressTarget (rawOf s) \<noteq> None"
    using that assms(2) by (auto simp: neighbourSuffix_def intro: icmpv6_nd_template)
  show ?thesis
    unfolding icmpTemplates_def templatesSound_simps comp_def
      isAdvancedIcmpv4EchoTypeStream_def isAdvancedIcmpv4EchoCodeStream_def
      isAdvancedIcmpv4EchoIdentifierStream_def isAdvancedIcmpv4EchoSequenceStream_def isIcmpv6EchoStream_def
      isAdvancedIcmpv6NdTargetAddressStream_def isAdvancedIcmpv6NaFlagsStream_def
      isAdvancedIcmpv6LinkLayerOptionMacStream_def buildIcmpv4TypeChecksumCoupledVmBody_def
      buildIcmpv4CodeChecksumCoupledVmBody_def buildIcmpv4IdentifierChecksumCoupledVmBody_def
      buildIcmpv4SequenceChecksumCoupledVmBody_def buildIcmpv6TypeIncVmBody_def buildIcmpv6CodeIncVmBody_def
      buildIcmpv6IdentifierIncVmBody_def buildIcmpv6SequenceIncVmBody_def
    by (intro conjI impI nil_sound coupled icmpv6_number_template echo nd icmpv6_na_template icmpv6_link_layer_template
        s(3)) (simp_all add: isIcmpv6EchoStream_def)
qed

definition prefixFits :: "ProfileWorkbenchStream \<Rightarrow> bool" where
  "prefixFits s \<longleftrightarrow>
     (\<forall>t. icmpv6RaPrefixInfoTarget (rawOf s) = Some t
        \<longrightarrow> pi_prefixLength t \<le> 128 \<and> ipv6FieldEngineSuffix (pi_prefix t) 4 \<noteq> None)"

lemma router_advertisement_templates_sound:
  assumes "imported s" "prefixFits s"
  shows "list_all (templateSound s) routerAdvertisementTemplates"
proof -
  note s = importedD [OF assms(1)]
  have prefix: "bodySound (streamBytes (rawOf s)) (buildIcmpv6RaPrefixOnLinkFlagVmBody s)"
    "bodySound (streamBytes (rawOf s)) (buildIcmpv6RaPrefixAutonomousFlagVmBody s)"
    "bodySound (streamBytes (rawOf s)) (buildIcmpv6RaPrefixValidLifetimeIncVmBody s)"
    "bodySound (streamBytes (rawOf s)) (buildIcmpv6RaPrefixPreferredLifetimeIncVmBody s)"
    "bodySound (streamBytes (rawOf s)) (buildIcmpv6RaPrefixLengthIncVmBody s)"
    "bodySound (streamBytes (rawOf s)) (buildIcmpv6RaPrefixIncVmBody s)"
    if "icmpv6RaPrefixInfoTarget (rawOf s) \<noteq> None"
    using that assms(2) icmpv6_prefix_template [of s] by (auto simp: prefixFits_def)
  show ?thesis
    unfolding routerAdvertisementTemplates_def templatesSound_simps comp_def
      isAdvancedIcmpv6RaFixedStream_def isAdvancedIcmpv6RaPrefixInfoStream_def
    by (simp only: onStream_simps) (intro conjI impI nil_sound icmpv6_ra_template prefix)
qed

section \<open>Tags\<close>

definition tagsFit :: "ProfileWorkbenchStream \<Rightarrow> bool" where
  "tagsFit s \<longleftrightarrow>
     (\<forall>index \<in> {1, 2}. \<forall>t. rawVlanTagTarget (rawOf s) index = Some t \<longrightarrow> vlan_vlanId t \<le> 4094)
     \<and> (\<forall>index \<in> {1, 2, 3}. \<forall>t. rawMplsLabelTarget (rawOf s) index = Some t
          \<longrightarrow> mpls_label t + numOf s (mplsLabelFieldName index @ ''_count'') \<le> 1048576)"

lemma tag_templates_sound:
  assumes "imported s" "plainForm s" "tagsFit s"
  shows "list_all (templateSound s) tagTemplates"
proof -
  note s = importedD [OF assms(1)]
  have vlan: "bodySound (streamBytes (rawOf s)) (buildVlanIdIncVmBody s index)"
    "bodySound (streamBytes (rawOf s)) (buildVlanPriorityIncVmBody s index)"
    "bodySound (streamBytes (rawOf s)) (buildVlanCfiVaryVmBody s index)"
    if "rawVlanTagTarget (rawOf s) index \<noteq> None" "index \<in> {1, 2}" for index
    using that assms(3) vlan_template [OF _ s(3)] by (auto simp: tagsFit_def)
  have mpls: "bodySound (streamBytes (rawOf s)) (buildMplsLabelIncVmBodyForIndex s index)"
    "bodySound (streamBytes (rawOf s)) (buildMplsTrafficClassIncVmBodyForIndex s index)"
    "bodySound (streamBytes (rawOf s)) (buildMplsTtlIncVmBodyForIndex s index)"
    if found: "rawMplsLabelTarget (rawOf s) index \<noteq> None" and "index \<in> {1, 2, 3}" for index
  proof -
    obtain t where t: "rawMplsLabelTarget (rawOf s) index = Some t" using found by auto
    then have "mpls_label t + numOf s (mplsLabelFieldName index @ ''_count'') \<le> 1048576"
      using assms(3) that(2) unfolding tagsFit_def by blast
    then show "bodySound (streamBytes (rawOf s)) (buildMplsLabelIncVmBodyForIndex s index)"
      "bodySound (streamBytes (rawOf s)) (buildMplsTrafficClassIncVmBodyForIndex s index)"
      "bodySound (streamBytes (rawOf s)) (buildMplsTtlIncVmBodyForIndex s index)"
      using mpls_template [OF t s(3)] by simp_all
  qed
  show ?thesis
    unfolding tagTemplates_def templatesSound_simps comp_def
      isTaggedVlanStream_def isInnerTaggedVlanStream_def isMplsStream_def isSecondMplsStream_def
      isThirdMplsStream_def buildInnerVlanIdIncVmBody_def buildInnerVlanPriorityIncVmBody_def
      buildInnerVlanCfiVaryVmBody_def buildMplsLabelIncVmBody_def buildMplsTrafficClassIncVmBody_def
      buildMplsTtlIncVmBody_def buildSecondMplsLabelIncVmBody_def buildSecondMplsTrafficClassIncVmBody_def
      buildSecondMplsTtlIncVmBody_def buildThirdMplsLabelIncVmBody_def buildThirdMplsTrafficClassIncVmBody_def
      buildThirdMplsTtlIncVmBody_def
    by (simp only: onStream_simps plainFormD [OF assms(2)] simp_thms) (intro conjI impI nil_sound vlan mpls; simp)
qed

section \<open>VXLAN and GTP-U\<close>

lemma imported_forms [simp]:
  assumes "imported s"
  shows "\<not> isStructuredOuterIpv4VxlanStream (Some s)" "\<not> vxlanForm (Some s) version"
    "\<not> isStructuredOuterIpv4GtpuStream (Some s)" "\<not> gtpuForm (Some s) p" "\<not> gtpuFormVersion (Some s) version"
    "\<not> greForm s"
  using importedD(2) [OF assms]
  by (simp_all add: isStructuredOuterIpv4VxlanStream_def vxlanForm_def isStructuredOuterIpv4GtpuStream_def gtpuForm_def
      gtpuFormVersion_def greForm_def)

definition vxlanFits :: "ProfileWorkbenchStream \<Rightarrow> bool" where
  "vxlanFits s \<longleftrightarrow>
     (\<forall>index \<in> {1, 2}. \<forall>target tag. rawVxlanInnerVlanTagTarget (rawOf s) index = Some (target, tag)
        \<longrightarrow> vlan_vlanId tag \<le> 4094)
     \<and> (\<forall>t i. rawVxlanInnerIpv4UdpTarget (rawOf s) = Some t \<longrightarrow> vx_inner t = IsInnerIpv4 i
          \<longrightarrow> rawPacketNumberValue (streamBytes (rawOf s)) (in4_innerIpv4SrcOffset i) 4
                + numOf s ''vxlan_inner_ipv4_src_count'' \<le> 4294967296
            \<and> rawPacketNumberValue (streamBytes (rawOf s)) (in4_innerIpv4DstOffset i) 4
                + numOf s ''vxlan_inner_ipv4_dst_count'' \<le> 4294967296)"

lemma firstTarget_found: "a \<noteq> None \<or> b \<noteq> None \<Longrightarrow> \<exists>t. firstTarget a b = Some t"
  by (auto simp: firstTarget_def split: option.split)

lemma innerV6_some: "innerV6 inner = Some i \<longleftrightarrow> inner = IsInnerIpv6 i"
  by (cases inner) (auto simp: innerV6_def)

lemma inner_address_offered:
  assumes "innerIpv6AddressStream (Some s) prefix addressTarget isRawIpv6 onForm field" "countsPositive s"
    "onForm \<Longrightarrow> isRawIpv6 s"
  obtains i where "addressTarget s = Some i"
    "ipv6FieldEngineSuffix (if field = SrcField then in6_innerIpv6Src i else in6_innerIpv6Dst i)
      (numOf s (prefix @ ''_ipv6_'' @ sideName field @ ''_count'')) \<noteq> None"
proof -
  have eq: "(prefix @ ''_ipv6_'' @ sideName field) @ ''_count'' = prefix @ ''_ipv6_'' @ sideName field @ ''_count''"
    by (simp only: append_assoc)
  have ends: "endsWith (prefix @ ''_ipv6_'' @ sideName field @ ''_count'') ''_count''" by simp
  show ?thesis
    using assms(1,3) that unfolding innerIpv6AddressStream_def Let_def onStream_simps eq
      suffix_of_numericCount [OF assms(2) ends]
    by (cases "addressTarget s") auto
qed

lemma vxlan_ipv4_templates_sound:
  assumes "imported s"
  shows "list_all (templateSound s) vxlanIpv4Templates"
proof -
  note s = importedD [OF assms]
  have header: "rawVxlanTarget (rawOf s) \<noteq> None" if "isOuterIpv4VxlanStream (Some s)"
    using that assms by (simp add: isOuterIpv4VxlanStream_def)
  have address: "bodySound (streamBytes (rawOf s)) (buildVxlanInnerIpv4AddressIncVmBody s field)"
    if "isOuterIpv4VxlanInnerIpv4AddressStream (Some s)" for field
    using that assms vxlan_inner4_template(1) [OF s(3)] by (auto simp: isOuterIpv4VxlanInnerIpv4AddressStream_def)
  have ttl: "bodySound (streamBytes (rawOf s)) (buildVxlanInnerIpv4TtlIncVmBody s)"
    if "isOuterIpv4VxlanInnerIpv4TtlStream (Some s)"
    using that assms vxlan_inner4_template(2) [OF s(3)] by (auto simp: isOuterIpv4VxlanInnerIpv4TtlStream_def)
  have inner: "rawVxlanInnerIpv4Target (rawOf s) \<noteq> None" if "isOuterIpv4VxlanInnerRawIpv4Stream (Some s)"
    using that by (simp add: isOuterIpv4VxlanInnerRawIpv4Stream_def)
  show ?thesis
    unfolding vxlanIpv4Templates_def templatesSound_simps comp_def
      buildVxlanInnerIpv4SrcIncVmBody_def buildVxlanInnerIpv4DstIncVmBody_def
      buildVxlanInnerIpv4ReservedFlagVaryVmBody_def buildVxlanInnerIpv4DfFlagVaryVmBody_def
      buildVxlanInnerIpv4MfFlagVaryVmBody_def
    by (intro conjI impI nil_sound vxlan_header_template vxlan_inner4_field_template address ttl header inner s(3))
qed

lemma vxlan_ethernet_templates_sound:
  assumes "imported s" "vxlanFits s"
  shows "list_all (templateSound s) vxlanEthernetTemplates"
proof -
  note s = importedD [OF assms(1)]
  have ethernet: "rawVxlanInnerEthernetTarget (rawOf s) \<noteq> None" if "isOuterIpv4VxlanInnerEthernetStream (Some s)"
    using that assms by (simp add: isOuterIpv4VxlanInnerEthernetStream_def)
  have vlan: "bodySound (streamBytes (rawOf s)) (buildVxlanInnerVlanIdIncVmBody s index)"
    "bodySound (streamBytes (rawOf s)) (buildVxlanInnerVlanPriorityIncVmBody s index)"
    "bodySound (streamBytes (rawOf s)) (buildVxlanInnerVlanCfiVaryVmBody s index)"
    if "rawVxlanInnerVlanTagTarget (rawOf s) index \<noteq> None" "index \<in> {1, 2}" for index
  proof -
    obtain target tag where tag: "rawVxlanInnerVlanTagTarget (rawOf s) index = Some (target, tag)"
      using \<open>rawVxlanInnerVlanTagTarget (rawOf s) index \<noteq> None\<close> by auto
    then have "vlan_vlanId tag \<le> 4094" using assms(2) that(2) unfolding vxlanFits_def by blast
    then show "bodySound (streamBytes (rawOf s)) (buildVxlanInnerVlanIdIncVmBody s index)"
      "bodySound (streamBytes (rawOf s)) (buildVxlanInnerVlanPriorityIncVmBody s index)"
      "bodySound (streamBytes (rawOf s)) (buildVxlanInnerVlanCfiVaryVmBody s index)"
      using vxlan_vlan_template [OF tag] by simp_all
  qed
  show ?thesis
    unfolding vxlanEthernetTemplates_def templatesSound_simps comp_def
      isOuterIpv4VxlanInnerVlanStream_def isOuterIpv4VxlanInnerSecondVlanStream_def
      isOuterIpv4VxlanInnerArpStream_def buildVxlanInnerMacDstIncVmBody_def buildVxlanInnerMacSrcIncVmBody_def
      buildVxlanInnerSecondVlanIdIncVmBody_def buildVxlanInnerSecondVlanPriorityIncVmBody_def
      buildVxlanInnerSecondVlanCfiVaryVmBody_def
    by (simp only: onStream_simps)
       (intro conjI impI nil_sound vxlan_ethernet_template ethernet vlan vxlan_arp_template s(3); simp)
qed

lemma vxlan_transport_templates_sound:
  assumes "imported s" "vxlanFits s"
  shows "list_all (templateSound s) vxlanTransportTemplates"
proof -
  note s = importedD [OF assms(1)]
  have six: "rawVxlanInnerIpv6Target (rawOf s) \<noteq> None"
    if "isOuterIpv4VxlanInnerIpv6Stream (Some s) \<or> isOuterIpv4VxlanInnerRawIpv6Stream (Some s)"
    using that assms by (auto simp: isOuterIpv4VxlanInnerIpv6Stream_def isOuterIpv4VxlanInnerRawIpv6Stream_def)
  have address: "bodySound (streamBytes (rawOf s)) (buildVxlanInnerIpv6AddressIncVmBody s field)"
    if offered: "vxlanInnerIpv6VmStream (Some s) field" for field
  proof -
    obtain i where i: "vxlanInnerV6 (rawVxlanInnerIpv6AddressTarget (rawOf s)) = Some i"
      "ipv6FieldEngineSuffix (if field = SrcField then in6_innerIpv6Src i else in6_innerIpv6Dst i)
        (numOf s (''vxlan_inner'' @ ''_ipv6_'' @ sideName field @ ''_count'')) \<noteq> None"
      by (rule inner_address_offered [OF offered [unfolded vxlanInnerIpv6VmStream_def] s(3)]) (rule six, simp)
    then obtain t where "rawVxlanInnerIpv6AddressTarget (rawOf s) = Some t" "vx_inner t = IsInnerIpv6 i"
      unfolding vxlanInnerV6_def bind_eq_Some_conv innerV6_some by blast
    moreover have "ipv6FieldEngineSuffix (if field = SrcField then in6_innerIpv6Src i else in6_innerIpv6Dst i)
        (numOf s (''vxlan_inner_ipv6_'' @ sideName field @ ''_count'')) \<noteq> None"
      using i(2) by simp
    ultimately show ?thesis by (rule vxlan_inner6_address_template [OF _ _ s(3)])
  qed
  have udp: "bodySound (streamBytes (rawOf s)) (buildVxlanInnerUdpPortIncVmBody s field)"
    if offered: "isOuterIpv4VxlanInnerUdpStream (Some s)" for field
  proof -
    have "rawVxlanInnerIpv4UdpTarget (rawOf s) \<noteq> None \<or> rawVxlanInnerIpv6UdpTarget (rawOf s) \<noteq> None"
      using offered imported_forms(1) [OF assms(1)] by (simp add: isOuterIpv4VxlanInnerUdpStream_def)
    from firstTarget_found [OF this] show ?thesis by (elim exE) (rule vxlan_port_template(1) [OF s(3)])
  qed
  have tcp: "bodySound (streamBytes (rawOf s)) (buildVxlanInnerTcpPortIncVmBody s field)"
    if offered: "isOuterIpv4VxlanInnerTcpStream (Some s)" for field
  proof -
    have "rawVxlanInnerIpv4TcpTarget (rawOf s) \<noteq> None \<or> rawVxlanInnerIpv6TcpTarget (rawOf s) \<noteq> None"
      using offered by (simp add: isOuterIpv4VxlanInnerTcpStream_def)
    from firstTarget_found [OF this] show ?thesis by (elim exE) (rule vxlan_port_template(2) [OF s(3)])
  qed
  have five: "bodySound (streamBytes (rawOf s)) (buildVxlanInnerFiveTupleVmBody s)"
    if offered: "isOuterIpv4VxlanInnerIpv4Stream (Some s)"
  proof -
    obtain t where t: "rawVxlanInnerIpv4UdpTarget (rawOf s) = Some t"
      using offered assms(1) by (auto simp: isOuterIpv4VxlanInnerIpv4Stream_def)
    then obtain i where i: "vx_inner t = IsInnerIpv4 i"
      by (auto simp: rawVxlanInnerIpv4UdpTarget_def innerIsIpv4_V4 dest!: keepIfD)
    show ?thesis
      using assms(2) t i unfolding vxlanFits_def by (intro vxlan_five_tuple_template [OF t i s(3)]) blast+
  qed
  show ?thesis
    unfolding vxlanTransportTemplates_def templatesSound_simps comp_def
      isOuterIpv4VxlanInnerIpv6SrcVmStream_def isOuterIpv4VxlanInnerIpv6DstVmStream_def
      buildVxlanInnerIpv6SrcIncVmBody_def buildVxlanInnerIpv6DstIncVmBody_def
      buildVxlanInnerUdpSrcPortIncVmBody_def buildVxlanInnerUdpDstPortIncVmBody_def
      buildVxlanInnerTcpSrcPortIncVmBody_def buildVxlanInnerTcpDstPortIncVmBody_def
    by (intro conjI impI nil_sound vxlan_inner6_template address udp tcp five six s(3); simp)
qed

lemma gtpu_ipv4_templates_sound:
  assumes "imported s"
  shows "list_all (templateSound s) gtpuIpv4Templates"
proof -
  note s = importedD [OF assms]
  have header: "\<exists>t. rawGtpuTarget (rawOf s) = Some t" if "isOuterIpv4GtpuStream (Some s)"
    using that assms by (simp add: isOuterIpv4GtpuStream_def)
  have messageType: "bodySound (streamBytes (rawOf s)) (buildGtpuMessageTypeIncVmBody s)"
    if "isOuterIpv4GtpuStream (Some s)"
    using header [OF that] gtpu_header_template [OF _ s(3)] by blast
  have options: "gtpuOptionStream (Some s) offset enabled
      \<Longrightarrow> \<exists>t. rawGtpuTarget (rawOf s) = Some t \<and> offset t \<noteq> None" for offset enabled
    using assms by (auto simp: gtpuOptionStream_def bind_eq_Some_conv)
  have sequence: "bodySound (streamBytes (rawOf s)) (buildGtpuSequenceIncVmBody s)"
    if "gtpuOptionStream (Some s) gu_sequenceOffset enabled" for enabled
    using options [OF that] gtpu_header_template(3) [OF _ s(3)] by blast
  have npdu: "bodySound (streamBytes (rawOf s)) (buildGtpuNpduIncVmBody s)"
    if "gtpuOptionStream (Some s) gu_npduOffset enabled" for enabled
    using options [OF that] gtpu_header_template(4) [OF _ s(3)] by blast
  have extension: "bodySound (streamBytes (rawOf s)) (buildGtpuExtensionUdpPortIncVmBody s)"
    if "gtpuOptionStream (Some s) gu_extensionUdpPortOffset enabled" for enabled
    using options [OF that] gtpu_header_template(5) [OF _ s(3)] by blast
  have address: "bodySound (streamBytes (rawOf s)) (buildGtpuInnerIpv4AddressIncVmBody s field)"
    if "isOuterIpv4GtpuInnerIpv4AddressStream (Some s)" for field
    using that assms gtpu_inner4_template(1) [OF s(3)] by (auto simp: isOuterIpv4GtpuInnerIpv4AddressStream_def)
  have ttl: "bodySound (streamBytes (rawOf s)) (buildGtpuInnerIpv4TtlIncVmBody s)"
    if "isOuterIpv4GtpuInnerIpv4TtlStream (Some s)"
    using that assms gtpu_inner4_template(2) [OF s(3)] by (auto simp: isOuterIpv4GtpuInnerIpv4TtlStream_def)
  have inner: "rawGtpuInnerIpv4Target (rawOf s) \<noteq> None" if "isOuterIpv4GtpuInnerRawIpv4Stream (Some s)"
    using that by (simp add: isOuterIpv4GtpuInnerRawIpv4Stream_def)
  show ?thesis
    unfolding gtpuIpv4Templates_def templatesSound_simps comp_def
      isOuterIpv4GtpuSequenceStream_def isOuterIpv4GtpuNpduStream_def isOuterIpv4GtpuExtensionStream_def
      buildGtpuInnerIpv4SrcIncVmBody_def buildGtpuInnerIpv4DstIncVmBody_def
      buildGtpuInnerIpv4ReservedFlagVaryVmBody_def buildGtpuInnerIpv4DfFlagVaryVmBody_def
      buildGtpuInnerIpv4MfFlagVaryVmBody_def
    by (intro conjI impI nil_sound messageType gtpu_inner4_field_template address ttl inner s(3);
        (erule sequence npdu extension)?)
qed

lemma gtpu_transport_templates_sound:
  assumes "imported s"
  shows "list_all (templateSound s) gtpuTransportTemplates"
proof -
  note s = importedD [OF assms]
  have six: "rawGtpuInnerIpv6Target (rawOf s) \<noteq> None"
    if "isOuterIpv4GtpuInnerIpv6Stream (Some s) \<or> isOuterIpv4GtpuInnerRawIpv6Stream (Some s)"
    using that assms by (auto simp: isOuterIpv4GtpuInnerIpv6Stream_def isOuterIpv4GtpuInnerRawIpv6Stream_def)
  have address: "bodySound (streamBytes (rawOf s)) (buildGtpuInnerIpv6AddressIncVmBody s field)"
    if offered: "gtpuInnerIpv6VmStream (Some s) field" for field
  proof -
    obtain i where i: "gtpuInnerV6 (rawGtpuInnerIpv6AddressTarget (rawOf s)) = Some i"
      "ipv6FieldEngineSuffix (if field = SrcField then in6_innerIpv6Src i else in6_innerIpv6Dst i)
        (numOf s (''gtpu_inner'' @ ''_ipv6_'' @ sideName field @ ''_count'')) \<noteq> None"
      by (rule inner_address_offered [OF offered [unfolded gtpuInnerIpv6VmStream_def] s(3)]) (rule six, simp)
    then obtain t where "rawGtpuInnerIpv6AddressTarget (rawOf s) = Some t" "gu_inner t = IsInnerIpv6 i"
      unfolding gtpuInnerV6_def bind_eq_Some_conv innerV6_some by blast
    moreover have "ipv6FieldEngineSuffix (if field = SrcField then in6_innerIpv6Src i else in6_innerIpv6Dst i)
        (numOf s (''gtpu_inner_ipv6_'' @ sideName field @ ''_count'')) \<noteq> None"
      using i(2) by simp
    ultimately show ?thesis by (rule gtpu_inner6_address_template [OF _ _ s(3)])
  qed
  have udp: "bodySound (streamBytes (rawOf s)) (buildGtpuInnerUdpPortIncVmBody s field)"
    if offered: "isOuterIpv4GtpuInnerUdpStream (Some s)" for field
  proof -
    have "rawGtpuInnerIpv4UdpTarget (rawOf s) \<noteq> None \<or> rawGtpuInnerIpv6UdpTarget (rawOf s) \<noteq> None"
      using offered imported_forms(4) [OF assms] by (simp add: isOuterIpv4GtpuInnerUdpStream_def)
    from firstTarget_found [OF this] show ?thesis by (elim exE) (rule gtpu_port_template(1) [OF s(3)])
  qed
  have tcp: "bodySound (streamBytes (rawOf s)) (buildGtpuInnerTcpPortIncVmBody s field)"
    if offered: "isOuterIpv4GtpuInnerTcpStream (Some s)" for field
  proof -
    have "rawGtpuInnerIpv4TcpTarget (rawOf s) \<noteq> None \<or> rawGtpuInnerIpv6TcpTarget (rawOf s) \<noteq> None"
      using offered by (simp add: isOuterIpv4GtpuInnerTcpStream_def)
    from firstTarget_found [OF this] show ?thesis by (elim exE) (rule gtpu_port_template(2) [OF s(3)])
  qed
  have five: "bodySound (streamBytes (rawOf s)) (buildGtpuInnerFiveTupleVmBody s)"
    if offered: "isOuterIpv4GtpuInnerIpv4Stream (Some s)"
  proof -
    obtain t where t: "rawGtpuInnerIpv4UdpTarget (rawOf s) = Some t"
      using offered assms(1) by (auto simp: isOuterIpv4GtpuInnerIpv4Stream_def)
    then obtain i where i: "gu_inner t = IsInnerIpv4 i"
      by (auto simp: rawGtpuInnerIpv4UdpTarget_def innerIsIpv4_V4 dest!: keepIfD)
    show ?thesis by (rule gtpu_five_tuple_template [OF t i s(3)])
  qed
  have teid: "bodySound (streamBytes (rawOf s)) (buildGtpuTeidVmBody s)" if "isOuterIpv4GtpuStream (Some s)"
    using that assms gtpu_header_template(1) [OF _ s(3)] by (auto simp: isOuterIpv4GtpuStream_def)
  show ?thesis
    unfolding gtpuTransportTemplates_def templatesSound_simps comp_def
      isOuterIpv4GtpuInnerIpv6SrcVmStream_def isOuterIpv4GtpuInnerIpv6DstVmStream_def
      buildGtpuInnerIpv6SrcIncVmBody_def buildGtpuInnerIpv6DstIncVmBody_def
      buildGtpuInnerUdpSrcPortIncVmBody_def buildGtpuInnerUdpDstPortIncVmBody_def
      buildGtpuInnerTcpSrcPortIncVmBody_def buildGtpuInnerTcpDstPortIncVmBody_def
    by (intro conjI impI nil_sound gtpu_inner6_template address udp tcp five teid six s(3); simp)
qed

section \<open>GRE\<close>

text \<open>As for UDP, the condition of the five-tuple asks for a UDP payload, its builder for a whole header.\<close>

definition greUdpComplete :: "ProfileWorkbenchStream \<Rightarrow> bool" where
  "greUdpComplete s \<longleftrightarrow>
     (rawGreInnerIpv4Target (rawOf s) True \<noteq> None \<longrightarrow> rawGreInnerIpv4UdpTarget (rawOf s) \<noteq> None)"

lemma imported_gre_form [simp]:
  assumes "imported s" "rawOuterGreTarget (rawOf s) = None"
  shows "\<not> isGreStreamWithoutGreChecksum (Some s)"
  using assms by (simp add: isGreStreamWithoutGreChecksum_def)

lemma gre_inner_offered:
  assumes "imported s" "greInnerStream (Some s) found protocolType version"
  shows "found (rawOf s)"
  using assms by (auto simp: greInnerStream_def greFormVersion_def split: if_splits)

lemma greInnerIpv4_udp: "rawGreInnerIpv4Target r False = None \<Longrightarrow> rawGreInnerIpv4Target r True = None"
  by (auto simp: rawGreInnerIpv4Target_def Let_def split: option.splits if_splits)

lemma greInnerUdp_found:
  "rawGreInnerIpv4UdpTarget r \<noteq> None \<or> rawGreInnerIpv6UdpTarget r \<noteq> None \<Longrightarrow> \<exists>u. greInnerUdp r = Some u"
  by (auto simp: greInnerUdp_def rawGreInnerIpv4UdpTarget_def Let_def split: option.splits if_splits)

lemma greInnerTcp_found:
  "rawGreInnerIpv4TcpTarget r \<noteq> None \<or> rawGreInnerIpv6TcpTarget r \<noteq> None \<Longrightarrow> \<exists>u. greInnerTcp r = Some u"
  by (auto simp: greInnerTcp_def rawGreInnerIpv4TcpTarget_def split: option.splits if_splits)

lemma gre_ipv4_templates_sound:
  assumes "imported s" "plainForm s"
  shows "list_all (templateSound s) greIpv4Templates"
proof -
  note s = importedD [OF assms(1)] and four = gre_inner4_template [OF importedD(3) [OF assms(1)]]
  have protocol: "bodySound (streamBytes (rawOf s)) (buildGreProtocolTypeIncVmBody s)"
    if "isGreStreamWithoutGreChecksum (Some s)"
    using that imported_forms(6) [OF assms(1)]
    by (auto simp: isGreStreamWithoutGreChecksum_def split: option.splits intro: gre_protocol_template)
  have key: "bodySound (streamBytes (rawOf s)) (buildGreNumberIncVmBody s GreKey)"
    if "isGreKeyStreamWithoutGreChecksum (Some s)"
    using that assms(2) gre_number_template [OF _ s(3)] by (auto simp: isGreKeyStreamWithoutGreChecksum_def)
  have sequence: "bodySound (streamBytes (rawOf s)) (buildGreNumberIncVmBody s GreSequence)"
    if "isGreSequenceStreamWithoutGreChecksum (Some s)"
    using that assms(2) gre_number_template [OF _ s(3)] by (auto simp: isGreSequenceStreamWithoutGreChecksum_def)
  have address: "bodySound (streamBytes (rawOf s)) (buildGreInnerIpv4AddressIncVmBody s field)"
    if "isIpv4GreAddressStreamWithoutGreChecksum (Some s)" for field
    using gre_inner_offered [OF assms(1) that [unfolded isIpv4GreAddressStreamWithoutGreChecksum_def]] four(1) by auto
  have ttl: "bodySound (streamBytes (rawOf s)) (buildGreInnerIpv4TtlIncVmBody s)"
    if "isIpv4GreTtlStreamWithoutGreChecksum (Some s)"
    using gre_inner_offered [OF assms(1) that [unfolded isIpv4GreTtlStreamWithoutGreChecksum_def]] four(2) by auto
  have inner: "rawGreInnerIpv4Target (rawOf s) False \<noteq> None" if "isRawIpv4GreStreamWithoutGreChecksum (Some s)"
    using that by (simp add: isRawIpv4GreStreamWithoutGreChecksum_def)
  show ?thesis
    unfolding greIpv4Templates_def templatesSound_simps comp_def
      buildGreKeyIncVmBody_def buildGreSequenceIncVmBody_def buildGreInnerIpv4SrcIncVmBody_def
      buildGreInnerIpv4DstIncVmBody_def buildGreInnerIpv4ReservedFlagVaryVmBody_def
      buildGreInnerIpv4DfFlagVaryVmBody_def buildGreInnerIpv4MfFlagVaryVmBody_def
    by (intro conjI impI nil_sound protocol key sequence address ttl gre_inner4_field_template inner s(3))
qed

lemma gre_transport_templates_sound:
  assumes "imported s" "greUdpComplete s"
  shows "list_all (templateSound s) greTransportTemplates"
proof -
  note s = importedD [OF assms(1)] and port = gre_port_template [OF importedD(3) [OF assms(1)]]
    and offered = gre_inner_offered [OF assms(1)]
  have six: "rawGreInnerIpv6Target (rawOf s) False \<noteq> None"
    if "isIpv6GreStreamWithoutGreChecksum (Some s) \<or> isRawIpv6GreStreamWithoutGreChecksum (Some s)"
    using that offered by (auto simp: isIpv6GreStreamWithoutGreChecksum_def isRawIpv6GreStreamWithoutGreChecksum_def)
  have address: "bodySound (streamBytes (rawOf s)) (buildGreInnerIpv6AddressIncVmBody s field)"
    if offered: "greInnerIpv6VmStream (Some s) field" for field
  proof -
    have eq: "(''gre_inner_ipv6_'' @ sideName field) @ ''_count'' = ''gre_inner_ipv6_'' @ sideName field @ ''_count''"
      by (simp only: append_assoc)
    have ends: "endsWith (''gre_inner_ipv6_'' @ sideName field @ ''_count'') ''_count''" by simp
    show ?thesis
      using offered six gre_inner6_address_template [OF _ s(3)]
      unfolding greInnerIpv6VmStream_def Let_def onStream_simps eq suffix_of_numericCount [OF s(3) ends]
      by (cases "greInnerIpv6L4 (rawOf s)") auto
  qed
  have udp: "bodySound (streamBytes (rawOf s)) (buildGreInnerUdpPortIncVmBody s field)"
    if "isGreInnerUdpStreamWithoutGreChecksum (Some s)" for field
  proof -
    have no4: "\<not> isIpv4GreStreamWithoutGreChecksum (Some s)" if "rawGreInnerIpv4Target (rawOf s) False = None"
      using that offered [where found = "\<lambda>r. rawGreInnerIpv4Target r True \<noteq> None"] greInnerIpv4_udp
      unfolding isIpv4GreStreamWithoutGreChecksum_def by blast
    have "rawGreInnerIpv4UdpTarget (rawOf s) \<noteq> None \<or> rawGreInnerIpv6UdpTarget (rawOf s) \<noteq> None"
      using that no4 six unfolding isGreInnerUdpStreamWithoutGreChecksum_def onStream_simps by (auto split: if_splits)
    then show ?thesis using port(1) greInnerUdp_found by blast
  qed
  have tcp: "bodySound (streamBytes (rawOf s)) (buildGreInnerTcpPortIncVmBody s field)"
    if "isGreInnerTcpStreamWithoutGreChecksum (Some s)" for field
    using that port(2) greInnerTcp_found unfolding isGreInnerTcpStreamWithoutGreChecksum_def onStream_simps by blast
  have five: "bodySound (streamBytes (rawOf s)) (buildGreInnerFiveTupleVmBody s)"
    if "isIpv4GreStreamWithoutGreChecksum (Some s)"
    using offered [OF that [unfolded isIpv4GreStreamWithoutGreChecksum_def]] assms(2) gre_five_tuple_template [OF _ s(3)]
    by (auto simp: greUdpComplete_def)
  show ?thesis
    unfolding greTransportTemplates_def templatesSound_simps comp_def
      isIpv6GreSrcVmStreamWithoutGreChecksum_def isIpv6GreDstVmStreamWithoutGreChecksum_def
      buildGreInnerIpv6SrcIncVmBody_def buildGreInnerIpv6DstIncVmBody_def buildGreInnerUdpSrcPortIncVmBody_def
      buildGreInnerUdpDstPortIncVmBody_def buildGreInnerTcpSrcPortIncVmBody_def
      buildGreInnerTcpDstPortIncVmBody_def
    by (intro conjI impI nil_sound gre_inner6_template address udp tcp five six s(3); simp)
qed

section \<open>The whole table\<close>

text \<open>
  An import whose headers are complete and whose field values leave room to count. Each condition names a gap of the
  table: outside it the template is offered although its builder falls back to the form, or its variable starts
  beyond its greatest value.
\<close>

definition cleanImport :: "ProfileWorkbenchStream \<Rightarrow> bool" where
  "cleanImport s \<longleftrightarrow>
     imported s \<and> plainForm s \<and> textOf s ''frame_length_type'' = ''Fixed''
     \<and> 12 \<le> length (streamBytes (rawOf s))
     \<and> udpHeaderComplete s \<and> greUdpComplete s \<and> sctpDataFollows s
     \<and> tagsFit s \<and> vxlanFits s \<and> prefixFits s \<and> neighbourSuffix s"

theorem clean_templates_sound:
  assumes "cleanImport s"
  shows "list_all (templateSound s) advancedVmTemplates"
proof -
  have mac: "rawOuterMacAddressTarget (rawOf s) side \<noteq> None" for side
    using assms by (simp add: cleanImport_def rawOuterMacAddressTarget_def rawPacketHasBytes_def)
  note c = assms [unfolded cleanImport_def]
  show ?thesis
    unfolding advancedVmTemplates_def
    by (simp only: concat.simps list_all_append append_Nil2)
       (intro conjI general_templates_sound ipv4_templates_sound ipv6_templates_sound udp_templates_sound
          dns_header_templates_sound dns_record_templates_sound dhcp_message_templates_sound
          dhcp_option_templates_sound vxlan_ipv4_templates_sound vxlan_ethernet_templates_sound
          vxlan_transport_templates_sound gre_ipv4_templates_sound gre_transport_templates_sound
          gtpu_ipv4_templates_sound gtpu_transport_templates_sound tcp_header_templates_sound
          tcp_option_templates_sound sctp_templates_sound icmp_templates_sound
          router_advertisement_templates_sound tag_templates_sound nil_sound mac; simp add: c)
qed

end
