(* ===== verification/VmRows.thy ===== *)
theory VmRows
  imports VmOffered
begin

text \<open>
  What a draft of the parameters cannot change: the copy and the edits of a body leave its writes where they are, so
  a ready row writes inside the packet whatever numbers were typed.
\<close>

section \<open>Copies\<close>

lemma map_of_copy: "map_of (map (\<lambda>(k, v). (k, jsonCopy v)) r) k = map_option jsonCopy (map_of r k)"
  by (induction r) auto

lemma property_copy [simp]:
  "numberProperty (map (\<lambda>(k, v). (k, jsonCopy v)) r) k = numberProperty r k"
  "textProperty (map (\<lambda>(k, v). (k, jsonCopy v)) r) k = textProperty r k"
  by (auto simp: numberProperty_def textProperty_def map_of_copy split: option.splits VmValue.splits
      elim: jsonCopy.elims)

lemma number_copy: "(case jsonCopy v of VmNumber n \<Rightarrow> f n | _ \<Rightarrow> d) = (case v of VmNumber n \<Rightarrow> f n | _ \<Rightarrow> d)"
  by (cases v) simp_all

lemma viewOf_copy [simp]: "viewOf (jsonCopy v) = viewOf v"
proof (cases v)
  case (VmObject r)
  then show ?thesis
    by (cases "map_of r ''pkt_offset''")
      (simp_all only: viewOf_def jsonCopy.simps VmValue.case Let_def map_of_copy number_copy property_copy
        option.case option.map)
qed (simp_all add: viewOf_def)

lemma bodyInstructions_clone: "bodyInstructions (cloneAdvancedVmBody body) = map jsonCopy (bodyInstructions body)"
  by (auto simp: bodyInstructions_def cloneAdvancedVmBody_def map_of_copy split: option.splits VmValue.splits
      elim: jsonCopy.elims)

lemma views_clone [simp]: "map viewOf (bodyInstructions (cloneAdvancedVmBody body)) = map viewOf (bodyInstructions body)"
  by (simp add: bodyInstructions_clone)

lemma bodySound_clone [simp]: "bodySound bs (cloneAdvancedVmBody body) = bodySound bs body"
  unfolding bodySound_def views_clone by (simp add: cloneAdvancedVmBody_def)

section \<open>Edits\<close>

text \<open>Two views of one instruction: a variable keeps its name and its size, the rest stays as it is.\<close>

fun sameShape :: "InstructionView \<Rightarrow> InstructionView \<Rightarrow> bool" where
  "sameShape (VarView n sz i lo hi st) (VarView n' sz' i' lo' hi' st') = (n = n' \<and> sz = sz')"
| "sameShape v v' = (v = v')"

lemma sameShape_refl [simp]: "sameShape v v"
  by (cases v) simp_all

definition variableSize :: "InstructionView list \<Rightarrow> string \<Rightarrow> int option" where
  "variableSize vs n = map_option fst (declaredVar vs n)"

definition viewInside :: "bytes \<Rightarrow> (string \<Rightarrow> int option) \<Rightarrow> InstructionView \<Rightarrow> bool" where
  "viewInside bs sizes v =
     (case v of
        WriteView n off \<Rightarrow> (case sizes n of None \<Rightarrow> False | Some sz \<Rightarrow> rawPacketHasBytes bs off sz)
      | MaskView n castSize off m s \<Rightarrow> sizes n \<noteq> None \<and> rawPacketHasBytes bs off castSize
      | UnknownWrite \<Rightarrow> False
      | _ \<Rightarrow> True)"

definition writesInside :: "bytes \<Rightarrow> AdvancedVmBody \<Rightarrow> bool" where
  "writesInside bs body \<longleftrightarrow>
     (let vs = map viewOf (bodyInstructions body) in list_all (viewInside bs (variableSize vs)) vs)"

lemma instruction_inside: "instructionSound bs vs v \<Longrightarrow> viewInside bs (variableSize vs) v"
  by (cases v) (auto simp: instructionSound_def viewInside_def variableSize_def split: option.splits)

lemma bodySound_inside: "bodySound bs body \<Longrightarrow> writesInside bs body"
  unfolding bodySound_def writesInside_def Let_def
  using instruction_inside by (meson list.pred_mono_strong)

lemma variableSize_shape: "list_all2 sameShape vs ws \<Longrightarrow> variableSize vs = variableSize ws"
proof (induction rule: list_all2_induct)
  case (Cons v vs w ws)
  then show ?case by (cases v; cases w) (auto simp: variableSize_def fun_eq_iff)
qed simp

lemma list_all_shape:
  "list_all2 r xs ys \<Longrightarrow> (\<And>x y. r x y \<Longrightarrow> p x = q y) \<Longrightarrow> list_all p xs = list_all q ys"
  by (induction rule: list_all2_induct) auto

lemma writesInside_shape:
  assumes "list_all2 sameShape (map viewOf (bodyInstructions a)) (map viewOf (bodyInstructions b))"
  shows "writesInside bs a \<longleftrightarrow> writesInside bs b"
proof -
  have "viewInside bs sizes v = viewInside bs sizes w" if "sameShape v w" for sizes v w
    using that by (cases v; cases w) (auto simp: viewInside_def)
  then show ?thesis
    unfolding writesInside_def Let_def variableSize_shape [OF assms] by (rule list_all_shape [OF assms])
qed

text \<open>An edit only touches the operation and the four numbers.\<close>

lemma put_others:
  "k \<noteq> f \<Longrightarrow> map_of (putProperty r f v) k = map_of r k"
  by (simp add: putProperty_map_of)

lemma writtenField_others:
  "k \<notin> {''init_value'', ''min_value'', ''max_value'', ''step''}
    \<Longrightarrow> map_of (writtenField draft t n r field) k = map_of r k"
  by (cases field) (auto simp: writtenField_def put_others flowVarFieldName_def split: option.split)

lemma withAutoBounds_others:
  "k \<notin> {''min_value'', ''max_value''} \<Longrightarrow> map_of (withAutoBounds draft t n limit src r) k = map_of r k"
  by (auto simp: withAutoBounds_def put_others Let_def split: option.split)

lemma written_others:
  "k \<notin> {''init_value'', ''min_value'', ''max_value'', ''step''}
    \<Longrightarrow> map_of (foldl (writtenField draft t n) r fs) k = map_of r k"
  by (induction fs arbitrary: r) (simp_all del: insert_iff add: writtenField_others)

lemma namedFlowVar_view:
  assumes "namedFlowVar x = Some (n, r)"
  shows "x = VmObject r" "map_of r ''type'' = Some (VmText ''flow_var'')" "map_of r ''name'' = Some (VmText n)"
  using assms by (auto simp: namedFlowVar_def split: VmValue.splits option.splits if_splits)

lemma parameterized_record:
  assumes "namedFlowVar x = Some (n, r)"
  obtains r' where "parameterizedInstruction t draft instructions x = VmObject r'"
    "map_of r' ''type'' = map_of r ''type''" "map_of r' ''name'' = map_of r ''name''" "map_of r' ''size'' = map_of r ''size''"
proof -
  define written where "written = foldl (writtenField draft t n)
      (putProperty r ''op'' (VmText (nextOperation draft t n r))) advancedVmFlowVarFields"
  define r' where "r' = (if autoBoundsNeeded draft t n r
      then withAutoBounds draft t n (advancedVmFlowVarMaskLimit instructions n) r written else written)"
  have same: "map_of r' k = map_of r k"
    if "k \<notin> {''min_value'', ''max_value''}" "k \<notin> {''init_value'', ''min_value'', ''max_value'', ''step''}" "k \<noteq> ''op''" for k
    unfolding r'_def written_def
    by (cases "autoBoundsNeeded draft t n r")
      (simp_all only: if_True if_False withAutoBounds_others [OF that(1)] written_others [OF that(2)] put_others [OF that(3)])
  have "parameterizedInstruction t draft instructions x = VmObject r'"
    by (simp add: parameterizedInstruction_def assms r'_def written_def Let_def)
  then show ?thesis by (rule that) (rule same; simp)+
qed

lemma parameterized_shape: "sameShape (viewOf x) (viewOf (parameterizedInstruction t draft instructions x))"
proof (cases "namedFlowVar x")
  case None
  then show ?thesis by (simp add: parameterizedInstruction_def)
next
  case (Some nr)
  obtain n r where nr: "nr = (n, r)" by (cases nr)
  note x = namedFlowVar_view [OF Some [unfolded nr]]
  obtain r' where r': "parameterizedInstruction t draft instructions x = VmObject r'"
    "map_of r' ''type'' = map_of r ''type''" "map_of r' ''name'' = map_of r ''name''" "map_of r' ''size'' = map_of r ''size''"
    by (rule parameterized_record [OF Some [unfolded nr]])
  then show ?thesis
    unfolding r'(1) by (simp add: x viewOf_def textProperty_def numberProperty_def Let_def)
qed

lemma parameterized_body:
  "bodyInstructions (advancedVmParameterizedTemplateBody template stream draft)
    = (let is = bodyInstructions (cloneAdvancedVmBody (advancedVmTemplateBody template stream))
       in map (parameterizedInstruction (tpl_name template) draft is) is)"
  by (auto simp: advancedVmParameterizedTemplateBody_def bodyInstructions_def putProperty_map_of Let_def
      split: option.splits VmValue.splits)

lemma parameterized_inside:
  assumes "bodySound bs (advancedVmTemplateBody template stream)"
  shows "writesInside bs (advancedVmParameterizedTemplateBody template stream draft)"
proof -
  let ?body = "cloneAdvancedVmBody (advancedVmTemplateBody template stream)"
  let ?edit = "parameterizedInstruction (tpl_name template) draft (bodyInstructions ?body)"
  have "list_all2 sameShape (map viewOf is) (map viewOf (map ?edit is))" for "is"
    by (induction "is") (simp_all add: parameterized_shape)
  then have "writesInside bs ?body = writesInside bs (advancedVmParameterizedTemplateBody template stream draft)"
    by (intro writesInside_shape) (simp only: parameterized_body Let_def)
  then show ?thesis using assms bodySound_inside by simp
qed

text \<open>Where the row says the body writes is where the packet has bytes.\<close>

lemma write_offset_view:
  assumes "writeOffsetOf r = Some off" "viewOf (VmObject r) \<noteq> UnknownWrite"
  shows "(\<exists>n. viewOf (VmObject r) = WriteView n off) \<or> (\<exists>n c m s. viewOf (VmObject r) = MaskView n c off m s)"
proof -
  have "textProperty r ''type'' = typeOf r" by (simp add: textProperty_def typeOf_def)
  moreover have "take 5 (typeOf r) = ''write''"
    using assms(1) by (simp add: writeOffsetOf_def startsWith_def eval_nat_numeral split: if_splits)
  moreover obtain v where v: "map_of r ''pkt_offset'' = Some v" "offsetNumber v = Some off"
    using assms(1) by (auto simp: writeOffsetOf_def split: if_splits option.splits VmValue.splits)
  moreover have "typeOf r \<noteq> ''flow_var''"
  proof
    assume "typeOf r = ''flow_var''"
    with \<open>take 5 (typeOf r) = ''write''\<close> show False by simp
  qed
  ultimately show ?thesis
    using assms(2) by (cases v) (auto simp: viewOf_def Let_def offsetNumber_def split: if_splits)
qed

lemma addNew_set: "set (foldl addNew xs ys) = set xs \<union> set ys"
  by (induction ys arbitrary: xs) (auto simp: addNew_def)

lemma inside_offsets:
  assumes "writesInside bs body" "off \<in> set (advancedVmTargetWriteOffsetValues body)"
  shows "0 \<le> off \<and> off < int (length bs)"
proof -
  obtain r where r: "VmObject r \<in> set (bodyInstructions body)" "writeOffsetOf r = Some off"
    using assms(2)
    by (auto simp: advancedVmTargetWriteOffsetValues_def addNew_set advancedVmInstructionObjects_def
        List.map_filter_def split: VmValue.splits)
  then have inside: "viewInside bs (variableSize (map viewOf (bodyInstructions body))) (viewOf (VmObject r))"
    using assms(1) by (auto simp: writesInside_def list_all_iff)
  then have "viewOf (VmObject r) \<noteq> UnknownWrite" by (auto simp: viewInside_def)
  then show ?thesis
    using write_offset_view [OF r(2)] inside
    by (auto simp: viewInside_def rawPacketHasBytes_def split: option.splits)
qed

section \<open>Ready rows\<close>

lemma flowVarError_text: "flowVarError t draft instructions n r \<noteq> Some []"
  by (auto simp: flowVarError_def limitedFieldError_def Let_def split: option.splits if_splits)

lemma firstFlowVarError_text: "firstFlowVarError t draft instructions rest \<noteq> Some []"
  by (induction t draft instructions rest rule: firstFlowVarError.induct)
    (auto simp: bind_eq_Some_conv flowVarError_text split: option.splits)

lemma ready_row:
  assumes "vmt_ready (templateTargetRow t s draft)"
  shows "templateSupports t s"
    "vmt_writeOffsetValues (templateTargetRow t s draft)
      = advancedVmTargetWriteOffsetValues (advancedVmParameterizedTemplateBody t (Some s) draft)"
    "advancedVmTemplateParameterValidationError t (advancedVmParameterizedTemplateBody t (Some s) draft) draft = None"
  using assms firstFlowVarError_text
  by (auto simp: templateTargetRow_def Let_def advancedVmTemplateParameterValidationError_def
      split: if_splits option.splits)

text \<open>Each named variable of a ready row is ordered, steps forward and fits the mask of its write.\<close>

definition variablesValid :: "AdvancedVmBody \<Rightarrow> bool" where
  "variablesValid body \<longleftrightarrow>
     (\<forall>x \<in> set (bodyInstructions body). \<forall>n r i lo hi st.
        namedFlowVar x = Some (n, r)
        \<longrightarrow> advancedVmFlowVarNumber r ''init_value'' = Some i \<longrightarrow> advancedVmFlowVarNumber r ''min_value'' = Some lo
        \<longrightarrow> advancedVmFlowVarNumber r ''max_value'' = Some hi \<longrightarrow> advancedVmFlowVarNumber r ''step'' = Some st
        \<longrightarrow> variableValid (advancedVmFlowVarMaskLimit (bodyInstructions body) n) i lo hi st)"

lemma valid_variables:
  assumes "advancedVmTemplateParameterValidationError t body draft = None"
  shows "variablesValid body"
  using assms flowVarError_none
  unfolding advancedVmTemplateParameterValidationError_def firstFlowVarError_none variablesValid_def by blast

text \<open>The two templates without a builder have no instructions.\<close>

lemma table_builders:
  "list_all (\<lambda>t. tpl_buildBody t = None \<longrightarrow> bodyInstructions (advancedVmTemplateBody t stream) = []) advancedVmTemplates"
proof -
  have built: "tpl_buildBody (fieldTemplate n l d r p b) = Some b" "tpl_buildBody (freeTemplate n l d r b) = Some b"
    "tpl_buildBody (hiddenTemplate n l d r p b) = Some b" for n l d r p b
    by (simp_all add: fieldTemplate_def freeTemplate_def hiddenTemplate_def)
  have fixed: "advancedVmTemplateBody (fixedTemplate n l d r b) stream = b" for n l d r b
    by (simp add: fixedTemplate_def advancedVmTemplateBody_def split: option.split)
  show ?thesis
    unfolding advancedVmTemplates_def concat.simps list_all_append append_Nil2
      generalTemplates_def ipv4Templates_def ipv6Templates_def udpTemplates_def dnsHeaderTemplates_def
      dnsRecordTemplates_def dhcpMessageTemplates_def dhcpOptionTemplates_def vxlanIpv4Templates_def
      vxlanEthernetTemplates_def vxlanTransportTemplates_def greIpv4Templates_def greTransportTemplates_def
      gtpuIpv4Templates_def gtpuTransportTemplates_def tcpHeaderTemplates_def tcpOptionTemplates_def
      sctpTemplates_def icmpTemplates_def routerAdvertisementTemplates_def tagTemplates_def
      list.pred_inject built fixed
    by (simp add: bodyInstructions_def advancedVmDefaultBody_def)
qed

theorem clean_row_inside:
  assumes "cleanImport s" "t \<in> set advancedVmTemplates" "templateSupports t s"
  shows "writesInside (streamBytes (rawOf s)) (advancedVmParameterizedTemplateBody t (Some s) draft)"
proof (cases "tpl_buildBody t")
  case None
  then have "bodyInstructions (advancedVmTemplateBody t (Some s)) = []"
    using table_builders assms(2) by (auto simp: list_all_iff)
  then show ?thesis
    by (simp add: writesInside_def parameterized_body bodyInstructions_clone)
next
  case (Some build)
  have "templateSound s t" using clean_templates_sound [OF assms(1)] assms(2) by (simp add: list_all_iff)
  then have "bodySound (streamBytes (rawOf s)) (advancedVmTemplateBody t (Some s))"
    using assms(3) by (simp add: templateSound_def Some advancedVmTemplateBody_def)
  then show ?thesis by (rule parameterized_inside)
qed

end
