(* ===== verification/VmDrafts.thy ===== *)
theory VmDrafts
  imports VmRows
begin

text \<open>
  The text of a body and the body again: printing and reading, copies, and the appending of a template.
\<close>

section \<open>Reading a printed body\<close>

lemma membersText_close: "\<exists>t. membersText gap d ms = t @ ''}''"
proof (induction ms arbitrary: d)
  case (Cons m ms)
  obtain k v where m: "m = (k, v)" by (cases m)
  show ?case
  proof (cases "ms = []")
    case True
    then show ?thesis by (simp add: m)
  next
    case False
    obtain t where "membersText gap d ms = t @ ''}''" using Cons.IH by blast
    with False show ?thesis by (simp add: m)
  qed
qed simp

lemma jsTrim_object: "jsTrim (CHR ''{'' # t @ ''}'' @ [CHR 0x0a]) = CHR ''{'' # t @ ''}''"
  by (simp add: jsTrim_def isJsSpace_def codeOf_def)

lemma json_text_parse:
  assumes "jsonPlain (VmObject body)" "body \<noteq> []"
    "utf8Length (jsonText [] 0 (VmObject (cloneAdvancedVmBody body))) \<le> ADVANCED_VM_MAX_BYTES"
  shows "parseAdvancedVmJson m (formatAdvancedVmJson (Some body))
    = \<lparr>vj_body = Some (cloneAdvancedVmBody body),
       vj_bytes = utf8Length (jsonText [] 0 (VmObject (cloneAdvancedVmBody body))), vj_error = None\<rparr>"
proof -
  obtain t where t: "jsonText ''  '' 0 (VmObject body) = CHR ''{'' # t @ ''}''"
    using membersText_close [of "''  ''" "Suc 0" body] by auto
  have "jsonParse (jsonText ''  '' 0 (VmObject body) @ []) = Some (jsonCopy (VmObject body))"
    by (rule jsonParse_text [OF assms(1)]) (simp_all add: isJsonSpace_def codeOf_def)
  moreover have "jsonCopy (VmObject body) = VmObject (cloneAdvancedVmBody body)"
    by (simp add: cloneAdvancedVmBody_def)
  moreover have "jsTrim (formatAdvancedVmJson (Some body)) = jsonText ''  '' 0 (VmObject body)"
    using assms(2) jsTrim_object [of t] by (simp add: formatAdvancedVmJson_def t del: jsonText.simps)
  ultimately show ?thesis
    using assms(3) by (simp add: parseAdvancedVmJson_def t Let_def del: jsonText.simps jsonCopy.simps)
qed

section \<open>Copies again\<close>

lemma jsonCopy_idem [simp]: "jsonCopy (jsonCopy v) = jsonCopy v"
  by (induction v rule: jsonCopy.induct) auto

lemma clone_fixed: "cloneAdvancedVmBody body = body \<longleftrightarrow> list_all (\<lambda>(k, v). jsonCopy v = v) body"
  by (induction body) (auto simp: cloneAdvancedVmBody_def)

lemma clone_idem [simp]: "cloneAdvancedVmBody (cloneAdvancedVmBody body) = cloneAdvancedVmBody body"
  by (simp add: cloneAdvancedVmBody_def comp_def case_prod_unfold)

lemma put_all: "list_all p r \<Longrightarrow> p (k, v) \<Longrightarrow> list_all p (putProperty r k v)"
  by (induction r k v rule: putProperty.induct) auto

lemma spread_all: "list_all p r \<Longrightarrow> list_all p r' \<Longrightarrow> list_all p (spread r r')"
  unfolding spread_def by (induction r' arbitrary: r) (auto simp: put_all)

lemma map_of_all: "list_all (\<lambda>(k, v). p v) r \<Longrightarrow> map_of r k = Some v \<Longrightarrow> p v"
  by (auto simp: list_all_iff dest: map_of_SomeD)

lemma truthy_some: "truthy v \<Longrightarrow> v \<noteq> None"
  by (cases v) (simp_all add: truthy_def)

lemma merge_fixed: "cloneAdvancedVmBody (mergeAdvancedVmBodies current template) = mergeAdvancedVmBodies current template"
proof -
  have copies: "list_all (\<lambda>(k, v). jsonCopy v = v) (cloneAdvancedVmBody b)" for b
    by (simp add: clone_fixed [symmetric])
  have copied: "jsonCopy (VmArray (bodyInstructions (cloneAdvancedVmBody a) @ bodyInstructions (cloneAdvancedVmBody b)))
      = VmArray (bodyInstructions (cloneAdvancedVmBody a) @ bodyInstructions (cloneAdvancedVmBody b))" for a b
    by (simp add: bodyInstructions_clone)
  have copiedProperty: "jsonCopy (the (map_of (cloneAdvancedVmBody b) k)) = the (map_of (cloneAdvancedVmBody b) k)"
    if "map_of (cloneAdvancedVmBody b) k \<noteq> None" for b k
    using that map_of_all [OF copies] by (metis option.collapse)
  show ?thesis
    unfolding clone_fixed mergeAdvancedVmBodies_def Let_def hasProperty_def
    using copied [of current template] copiedProperty [of template] copies truthy_some
    by (auto intro!: put_all spread_all)
qed

section \<open>Appending a template\<close>

lemma merge_instructions:
  "bodyInstructions (mergeAdvancedVmBodies current template)
    = map jsonCopy (bodyInstructions current @ bodyInstructions template)"
  by (simp add: mergeAdvancedVmBodies_def bodyInstructions_def [of "putProperty r k v" for r k v] putProperty_map_of
      bodyInstructions_clone Let_def)

lemma putProperty_keys: "set (map fst (putProperty r k v)) = insert k (set (map fst r))"
  by (induction r k v rule: putProperty.induct) auto

lemma keyBefore_index:
  "keyBefore k k' \<longleftrightarrow> k \<noteq> k' \<and> (isArrayIndex k' \<longrightarrow> isArrayIndex k \<and> parseRadix 10 k \<le> parseRadix 10 k')"
  by (auto simp: keyBefore_def)

lemma putProperty_sorted: "sorted_wrt keyBefore (map fst r) \<Longrightarrow> sorted_wrt keyBefore (map fst (putProperty r k v))"
proof (induction r k v rule: putProperty.induct)
  case (2 k' v' r k v)
  note keys = putProperty_keys [of r k v]
  have rest: "sorted_wrt keyBefore (map fst r)" "\<And>x. x \<in> fst ` set r \<Longrightarrow> keyBefore k' x" using "2.prems" by auto
  consider "k = k'" | "k \<noteq> k'" "isArrayIndex k" "\<not> isArrayIndex k' \<or> parseRadix 10 k < parseRadix 10 k'"
    | "k \<noteq> k'" "\<not> (isArrayIndex k \<and> (\<not> isArrayIndex k' \<or> parseRadix 10 k < parseRadix 10 k'))" by blast
  then show ?case
  proof cases
    case 2
    have "keyBefore k x" if "x \<in> fst ` set r" for x
      using rest(2) [OF that] 2 by (auto simp: keyBefore_index)
    moreover have "keyBefore k k'" using 2 by (auto simp: keyBefore_index)
    ultimately show ?thesis using 2 rest by auto
  next
    case 3
    have "keyBefore k' k" using 3 by (auto simp: keyBefore_def)
    then have "keyBefore k' x" if "x \<in> set (map fst (putProperty r k v))" for x
      using that rest(2) unfolding keys by auto
    moreover have "putProperty ((k', v') # r) k v = (k', v') # putProperty r k v" using 3 by auto
    ultimately show ?thesis using "2.IH" [OF 3] rest(1) by simp
  qed (use rest in simp_all)
qed simp

lemma spread_sorted: "sorted_wrt keyBefore (map fst r) \<Longrightarrow> sorted_wrt keyBefore (map fst (spread r r'))"
  unfolding spread_def by (induction r' arbitrary: r) (auto simp: putProperty_sorted)

lemma jsonPlain_copy: "jsonPlain v \<Longrightarrow> jsonPlain (jsonCopy v)"
  by (induction v rule: jsonCopy.induct) (auto simp: list_all_iff comp_def case_prod_unfold)

lemma merge_plain:
  assumes "jsonPlain (VmObject current)" "jsonPlain (VmObject template)"
  shows "jsonPlain (VmObject (mergeAdvancedVmBodies current template))"
proof -
  have plain: "list_all (\<lambda>(k, v). jsonPlain v) (cloneAdvancedVmBody b)" if "jsonPlain (VmObject b)" for b
    using that jsonPlain_copy by (auto simp: cloneAdvancedVmBody_def list_all_iff)
  have instructions: "list_all jsonPlain (bodyInstructions b)" if "jsonPlain (VmObject b)" for b
  proof (cases "map_of b ''instructions''")
    case (Some v)
    have "list_all (\<lambda>(k, v). jsonPlain v) b" using that by (simp add: list_all_iff case_prod_unfold)
    from map_of_all [OF this Some] show ?thesis by (cases v) (simp_all add: bodyInstructions_def Some)
  qed (simp add: bodyInstructions_def)
  have "list_all jsonPlain (map jsonCopy (bodyInstructions current @ bodyInstructions template))"
    using instructions assms jsonPlain_copy by (auto simp: list_all_iff)
  moreover have "jsonPlain (the (map_of (cloneAdvancedVmBody template) k))"
    if "map_of (cloneAdvancedVmBody template) k \<noteq> None" for k
    using that map_of_all [OF plain [OF assms(2)]] by (metis option.collapse)
  ultimately have "list_all (\<lambda>(k, v). jsonPlain v) (mergeAdvancedVmBodies current template)"
    unfolding mergeAdvancedVmBodies_def Let_def hasProperty_def
    using plain assms truthy_some by (auto intro!: put_all spread_all simp: bodyInstructions_clone)
  moreover have "sorted_wrt keyBefore (map fst (mergeAdvancedVmBodies current template))"
    unfolding mergeAdvancedVmBodies_def Let_def
    by (auto intro!: putProperty_sorted spread_sorted)
  ultimately show ?thesis by (simp add: list_all_iff case_prod_unfold)
qed

text \<open>A merged body splits by the variable of the current body, or by that of the template where there is none.\<close>

lemma spread_map_of: "distinct (map fst r') \<Longrightarrow> map_of (spread r r') = map_of r ++ map_of r'"
proof (induction r' arbitrary: r)
  case (Cons kv r')
  obtain k v where kv: "kv = (k, v)" by (cases kv)
  have "map_of r' k = None" using Cons.prems by (simp add: kv map_of_eq_None_iff)
  moreover have "map_of (spread (putProperty r k v) r') = (map_of r)(k \<mapsto> v) ++ map_of r'"
    using Cons by (simp add: kv putProperty_map_of)
  ultimately show ?case
    by (auto simp: spread_def kv fun_eq_iff map_add_def split: option.split)
qed (simp add: spread_def)

lemma clone_keys: "map fst (cloneAdvancedVmBody b) = map fst b"
  by (simp add: cloneAdvancedVmBody_def comp_def case_prod_unfold)

lemma clone_text: "textProperty (cloneAdvancedVmBody b) k = textProperty b k"
  by (simp add: cloneAdvancedVmBody_def)

lemma truthy_text: "textProperty b k \<noteq> [] \<Longrightarrow> truthy (map_of b k)"
  by (auto simp: textProperty_def truthy_def split: option.splits VmValue.splits)

lemma merge_split:
  assumes "distinct (map fst current)" "distinct (map fst template)"
  shows "textProperty (mergeAdvancedVmBodies current template) ''split_by_var'' = textProperty current ''split_by_var''
    \<or> textProperty (mergeAdvancedVmBodies current template) ''split_by_var'' = textProperty template ''split_by_var''"
proof -
  let ?c = "cloneAdvancedVmBody current" and ?t = "cloneAdvancedVmBody template"
  have all: "map_of (spread (spread [] ?t) ?c) = map_of ?t ++ map_of ?c"
    using assms by (simp add: spread_map_of clone_keys)
  have others: "map_of (putProperty r k v) ''split_by_var'' = map_of r ''split_by_var''" if "k \<noteq> ''split_by_var''" for r k v
    using that by (simp add: putProperty_map_of)
  define merged where "merged = putProperty (spread (spread [] ?t) ?c) ''instructions''
      (VmArray (bodyInstructions ?c @ bodyInstructions ?t))"
  define taken where "taken \<longleftrightarrow> \<not> truthy (map_of ?c ''split_by_var'') \<and> truthy (map_of ?t ''split_by_var'')"
  define split where "split = (if taken
      then putProperty merged ''split_by_var'' (the (map_of ?t ''split_by_var'')) else merged)"
  have "map_of merged ''split_by_var'' = (map_of ?t ++ map_of ?c) ''split_by_var''"
    unfolding merged_def all by (subst others) (simp_all add: all)
  then have merged: "map_of merged ''split_by_var'' \<in> {map_of ?c ''split_by_var'', map_of ?t ''split_by_var''}"
    by (simp add: map_add_def split: option.split)
  have "map_of split ''split_by_var'' \<in> {map_of ?c ''split_by_var'', map_of ?t ''split_by_var''}"
  proof (cases taken)
    case True
    then have "map_of ?t ''split_by_var'' \<noteq> None" using truthy_some unfolding taken_def by blast
    then show ?thesis by (simp add: split_def True putProperty_map_of)
  qed (use merged in \<open>simp add: split_def\<close>)
  moreover have "mergeAdvancedVmBodies current template
      = (if \<not> hasProperty ?c ''cache_size'' \<and> hasProperty ?t ''cache_size''
         then putProperty split ''cache_size'' (the (map_of ?t ''cache_size'')) else split)"
    unfolding mergeAdvancedVmBodies_def Let_def split_def merged_def taken_def ..
  moreover have "map_of (putProperty split ''cache_size'' v) ''split_by_var'' = map_of split ''split_by_var''" for v
    by (rule others) simp
  ultimately have "map_of (mergeAdvancedVmBodies current template) ''split_by_var''
      \<in> {map_of ?c ''split_by_var'', map_of ?t ''split_by_var''}"
    by (simp only: if_distrib [of map_of] if_distrib [of "\<lambda>f. f ''split_by_var''"] if_cancel)
  then have "textProperty (mergeAdvancedVmBodies current template) ''split_by_var''
      \<in> {textProperty ?c ''split_by_var'', textProperty ?t ''split_by_var''}"
    unfolding textProperty_def by auto
  then show ?thesis by (simp add: clone_text)
qed

lemma declaredVar_append:
  "declaredVar (vs @ ws) n = (case declaredVar vs n of Some x \<Rightarrow> Some x | None \<Rightarrow> declaredVar ws n)"
  by (induction vs n rule: declaredVar.induct) auto

text \<open>Two sound bodies without a common variable are sound together.\<close>

lemma merge_sound:
  assumes "bodySound bs current" "bodySound bs template" "distinct (map fst current)" "distinct (map fst template)"
    "\<And>n. declaredVar (map viewOf (bodyInstructions current)) n = None
       \<or> declaredVar (map viewOf (bodyInstructions template)) n = None"
  shows "bodySound bs (mergeAdvancedVmBodies current template)"
proof -
  let ?vs = "map viewOf (bodyInstructions current)" and ?ws = "map viewOf (bodyInstructions template)"
  have both: "map viewOf (bodyInstructions (mergeAdvancedVmBodies current template)) = ?vs @ ?ws"
    by (simp add: merge_instructions)
  have left: "instructionSound bs (?vs @ ?ws) v" if "instructionSound bs ?vs v" for v
    using that by (cases v) (auto simp: instructionSound_def declaredVar_append split: option.splits)
  have right: "instructionSound bs (?vs @ ?ws) v" if "instructionSound bs ?ws v" for v
  proof -
    have only: "declaredVar (?vs @ ?ws) n = declaredVar ?ws n" if "declaredVar ?ws n \<noteq> None" for n
      using assms(5) [of n] that by (simp add: declaredVar_append)
    show ?thesis using that only by (cases v) (auto simp: instructionSound_def split: option.splits)
  qed
  have "declaredVar (?vs @ ?ws) (textProperty (mergeAdvancedVmBodies current template) ''split_by_var'') \<noteq> None"
    using merge_split [OF assms(3,4)] assms(1,2)
    by (auto simp: bodySound_def Let_def declaredVar_append split: option.splits)
  then show ?thesis
    using assms(1,2) left right by (auto simp: bodySound_def Let_def both list_all_iff)
qed

end
