(* ===== verification/VmProperties.thy ===== *)
theory VmProperties
  imports VmDrafts Samples
begin

text \<open>
  The properties of the field engine templates: what the offered templates do to an imported packet, the drafts of
  their parameters, and the JSON text of a body.
\<close>

section \<open>Samples\<close>

text \<open>Streams that carry a sample packet, and what the dissectors find in it.\<close>

definition sampleStream :: "bytes \<Rightarrow> ProfileWorkbenchStream" where
  "sampleStream bs =
     \<lparr>packet_binary_base64 = Some (encodeSextets bs),
      numOf = (\<lambda>f. if endsWith f ''_count'' then 16 else 1), finiteOf = (\<lambda>f. True),
      textOf = (\<lambda>f. if f = ''packet_type'' then ''Ethernet'' else if f = ''frame_length_type'' then ''Fixed'' else []),
      flagOf = (\<lambda>f. False), unitOf = (\<lambda>f. CountNumber 16)\<rparr>"

lemma sampleStream_raw [simp]: "rawOf (sampleStream bs) = streamOf bs"
  by (simp add: rawOf_def sampleStream_def RawStream.truncate_def streamOf_def)

lemma sampleStream_fields [simp]:
  "flagOf (sampleStream bs) f = False" "finiteOf (sampleStream bs) f = True"
  "textOf (sampleStream bs) ''packet_type'' = ''Ethernet''"
  "textOf (sampleStream bs) ''frame_length_type'' = ''Fixed''"
  by (simp_all add: sampleStream_def)

lemma sampleStream_imported: "bs \<noteq> [] \<Longrightarrow> imported (sampleStream bs)"
  by (cases "encodeSextets bs")
    (auto simp: imported_def isRawPacketAdvancedStream_def hasBinary_def packetType_def countsPositive_def sampleStream_def
      elim: encodeSextets.elims)


lemma sampleTcp_stream: "streamBytes (streamOf sampleTcp) = sampleTcp"
  by (rule streamOf_bytes) (rule sampleTcp_bytes)

text \<open>The packet with the TCP segment has no other layer that a template looks for.\<close>

lemma sampleTcp_network:
  "rawOuterIpv4Target (streamOf sampleTcp)
    = Some \<lparr>v4_bytes = sampleTcp, v4_l3Length = 20, v4_l3Offset = 14, v4_protocol = 6\<rparr>"
  "rawOuterIpv6Offset sampleTcp = None"
  by (simp_all only: rawOuterIpv4Target_def sampleTcp_stream Let_def) code_simp+

lemma sampleTcp_layers [simp]:
  "rawOuterIpv4L4Target (streamOf sampleTcp) p
    = (if p = 6 then Some \<lparr>l44_bytes = sampleTcp, l44_l3Length = 20, l44_l3Offset = 14, l44_offset = 34\<rparr> else None)"
  "rawOuterIpv6L4Target (streamOf sampleTcp) p = None"
  by (simp_all add: rawOuterIpv4L4Target_def rawOuterIpv6L4Target_def sampleTcp_network sampleTcp_stream)

lemma sampleTcp_etherType: "rawPacketWord sampleTcp 12 = 0x800" "length sampleTcp = 58"
  by code_simp+

lemma sampleTcp_tags [simp]:
  "rawVlanTagTarget (streamOf sampleTcp) index = None" "rawMplsLabelTarget (streamOf sampleTcp) index = None"
  by (simp_all add: rawVlanTagTarget_def rawMplsLabelTarget_def sampleTcp_stream sampleTcp_etherType isVlanType_def
      isMplsType_def eval_nat_numeral)


section \<open>Offered templates\<close>


lemma sampleTcp_tcp: "isAdvancedOuterIpv4TcpStream (Some (sampleStream sampleTcp))"
  by (simp add: isAdvancedOuterIpv4TcpStream_def hasBinary_def sampleStream_def) code_simp

definition sampleTemplate :: AdvancedVmTemplate where
  "sampleTemplate = tcpHeaderTemplates ! 3"

lemma sampleTemplate_simps:
  "sampleTemplate \<in> set tcpHeaderTemplates" "tpl_buildBody sampleTemplate = Some buildOuterTcpSequenceIncVmBody"
  "tpl_supports sampleTemplate = Some (isAdvancedOuterTcpStream \<circ> Some)"
  by (simp_all add: sampleTemplate_def tcpHeaderTemplates_def fieldTemplate_def)


lemma sampleTemplate_offered: "templateSupports sampleTemplate (sampleStream sampleTcp)"
  using sampleTcp_tcp by (simp add: templateSupports_def sampleTemplate_simps isAdvancedOuterTcpStream_def)

text \<open>The body it builds for the sample.\<close>

definition sampleVmBody :: AdvancedVmBody where
  "sampleVmBody =
     [(''instructions'', VmArray
        [flowVar ''tcp_sequence'' ''inc'' 4 1 1 16 1,
         VmObject [(''add_value'', VmNumber 0), (''is_big_endian'', VmBool True), (''name'', VmText ''tcp_sequence''),
                   (''pkt_offset'', VmNumber 38), (''type'', VmText ''write_flow_var'')],
         VmObject [(''l2_len'', VmNumber 14), (''l3_len'', VmNumber 20), (''l4_type'', VmNumber 13),
                   (''type'', VmText ''fix_checksum_hw'')]]),
      (''split_by_var'', VmText ''tcp_sequence'')]"



text \<open>
  For the IPv4, IPv6, DNS, DHCP, TCP header, VXLAN IPv4 and GTP-U templates this needs nothing but a packet in the
  stream: on every imported packet, broken ones included, what is offered is sound.
\<close>

theorem imported_offer_sound:
  assumes "imported s" "tpl_buildBody t = Some build" "templateSupports t s"
    "t \<in> set (ipv4Templates @ ipv6Templates @ dnsHeaderTemplates @ dnsRecordTemplates @ dhcpMessageTemplates
       @ dhcpOptionTemplates @ vxlanIpv4Templates @ gtpuIpv4Templates @ gtpuTransportTemplates @ tcpHeaderTemplates)"
  shows "bodySound (streamBytes (rawOf s)) (build s)"
proof -
  have "list_all (templateSound s) (ipv4Templates @ ipv6Templates @ dnsHeaderTemplates @ dnsRecordTemplates
      @ dhcpMessageTemplates @ dhcpOptionTemplates @ vxlanIpv4Templates @ gtpuIpv4Templates @ gtpuTransportTemplates
      @ tcpHeaderTemplates)"
    unfolding list_all_append
    by (intro conjI ipv4_templates_sound ipv6_templates_sound dns_header_templates_sound dns_record_templates_sound
        dhcp_message_templates_sound dhcp_option_templates_sound vxlan_ipv4_templates_sound gtpu_ipv4_templates_sound
        gtpu_transport_templates_sound tcp_header_templates_sound assms(1))
  then have "templateSound s t" using assms(4) unfolding list_all_iff by blast
  then show ?thesis using assms(2,3) by (simp add: templateSound_def)
qed

theorem imported_offer_sound_witness:
  "bodySound sampleTcp (buildOuterTcpSequenceIncVmBody (sampleStream sampleTcp))"
proof -
  have "imported (sampleStream sampleTcp)" by (rule sampleStream_imported) (simp add: sampleTcp_def)
  moreover have "sampleTemplate \<in> set (ipv4Templates @ ipv6Templates @ dnsHeaderTemplates @ dnsRecordTemplates
      @ dhcpMessageTemplates @ dhcpOptionTemplates @ vxlanIpv4Templates @ gtpuIpv4Templates @ gtpuTransportTemplates
      @ tcpHeaderTemplates)"
    using sampleTemplate_simps(1) unfolding set_append by blast
  ultimately show ?thesis
    using imported_offer_sound [OF _ sampleTemplate_simps(2) sampleTemplate_offered] by (simp add: sampleTcp_stream)
qed




section \<open>The coupled checksum of an echo message\<close>







section \<open>Drafts of the parameters\<close>

text \<open>
  C31. The validation accepts a body whose variables have their four numbers exactly if every draft field of a
  variable is a number and every variable is ordered, steps forward and, where it is written through a mask, fits the
  mask.
\<close>

theorem validation_exact:
  assumes "\<And>x n r f. x \<in> set (bodyInstructions body) \<Longrightarrow> namedFlowVar x = Some (n, r)
    \<Longrightarrow> f \<in> {''init_value'', ''min_value'', ''max_value'', ''step''} \<Longrightarrow> advancedVmFlowVarNumber r f \<noteq> None"
  shows "advancedVmTemplateParameterValidationError t body draft = None
    \<longleftrightarrow> (\<forall>x \<in> set (bodyInstructions body). \<forall>n r. namedFlowVar x = Some (n, r) \<longrightarrow> draftNumbers draft (tpl_name t) n)
      \<and> variablesValid body"
proof -
  have one: "flowVarError (tpl_name t) draft (bodyInstructions body) n r = None
      \<longleftrightarrow> draftNumbers draft (tpl_name t) n
        \<and> (\<forall>i lo hi st. advancedVmFlowVarNumber r ''init_value'' = Some i \<longrightarrow> advancedVmFlowVarNumber r ''min_value'' = Some lo
          \<longrightarrow> advancedVmFlowVarNumber r ''max_value'' = Some hi \<longrightarrow> advancedVmFlowVarNumber r ''step'' = Some st
          \<longrightarrow> variableValid (advancedVmFlowVarMaskLimit (bodyInstructions body) n) i lo hi st)"
    if x: "x \<in> set (bodyInstructions body)" "namedFlowVar x = Some (n, r)" for x n r
  proof -
    obtain i lo hi st where "advancedVmFlowVarNumber r ''init_value'' = Some i"
      "advancedVmFlowVarNumber r ''min_value'' = Some lo" "advancedVmFlowVarNumber r ''max_value'' = Some hi"
      "advancedVmFlowVarNumber r ''step'' = Some st"
      using assms [OF x] by (meson insertI1 insertI2 not_None_eq)
    then show ?thesis using flowVarError_none by (simp only: option.inject) blast
  qed
  have all: "(\<forall>x \<in> set (bodyInstructions body). \<forall>n r. namedFlowVar x = Some (n, r)
        \<longrightarrow> flowVarError (tpl_name t) draft (bodyInstructions body) n r = None)
      \<longleftrightarrow> (\<forall>x \<in> set (bodyInstructions body). \<forall>n r. namedFlowVar x = Some (n, r)
        \<longrightarrow> draftNumbers draft (tpl_name t) n \<and> (\<forall>i lo hi st. advancedVmFlowVarNumber r ''init_value'' = Some i
          \<longrightarrow> advancedVmFlowVarNumber r ''min_value'' = Some lo \<longrightarrow> advancedVmFlowVarNumber r ''max_value'' = Some hi
          \<longrightarrow> advancedVmFlowVarNumber r ''step'' = Some st
          \<longrightarrow> variableValid (advancedVmFlowVarMaskLimit (bodyInstructions body) n) i lo hi st))"
    by (intro ball_cong all_cong1 imp_cong refl one)
  show ?thesis
    unfolding advancedVmTemplateParameterValidationError_def firstFlowVarError_none variablesValid_def all
    by (intro iffI conjI ballI allI impI) blast+
qed

theorem validation_exact_witness:
  "advancedVmTemplateParameterValidationError sampleTemplate sampleVmBody [] = None
   \<longleftrightarrow> (\<forall>x \<in> set (bodyInstructions sampleVmBody). \<forall>n r. namedFlowVar x = Some (n, r)
        \<longrightarrow> draftNumbers [] (tpl_name sampleTemplate) n) \<and> variablesValid sampleVmBody"
proof (rule validation_exact)
  fix x n r f
  assume "x \<in> set (bodyInstructions sampleVmBody)" "namedFlowVar x = Some (n, r)"
    "f \<in> {''init_value'', ''min_value'', ''max_value'', ''step''}"
  then show "advancedVmFlowVarNumber r f \<noteq> None"
    by (auto simp: sampleVmBody_def bodyInstructions_def namedFlowVar_def flowVar_def advancedVmFlowVarNumber_def)
qed

text \<open>
  A number typed for the initial value alone moves the bounds with it: what results is in order and within the
  limit of the variable.
\<close>

theorem edited_initial_bounds:
  fixes op :: string
  defines "limit \<equiv> \<lambda>name n op sz i lo hi st instructions v.
    advancedVmFlowVarMaxLimit (flowVarRecord n op sz v lo hi st) (flowVarRecord n op sz i lo hi st)
      (advancedVmFlowVarMaskLimit instructions n)"
  assumes "map_of draft (advancedVmTemplateParameterKey name n ''init_value'') = Some text'"
    "parseAdvancedVmTemplateNumber text' = Some v" "op \<in> set advancedVmFlowVarOperations"
    "\<And>field. field \<in> {''op'', ''min_value'', ''max_value'', ''step''}
       \<Longrightarrow> map_of draft (advancedVmTemplateParameterKey name n field) = None"
    "1 \<le> st" "0 \<le> v" "v \<le> limit name n op sz i lo hi st instructions v"
  shows "\<exists>lo' hi'. parameterizedInstruction name draft instructions (flowVar n op sz i lo hi st) = flowVar n op sz v lo' hi' st
    \<and> 0 \<le> lo' \<and> lo' \<le> v \<and> v \<le> hi' \<and> hi' \<le> limit name n op sz i lo hi st instructions v"
  using edited_initial_value [OF assms(2-6)] bounds_valid [OF assms(7,8) rangeCount_positive assms(6)]
  unfolding limit_def Let_def by blast

theorem edited_initial_bounds_witness:
  "\<exists>lo' hi'. parameterizedInstruction ''t'' [(''t:x:init_value'', ''250'')] [] (flowVar ''x'' ''inc'' 1 1 1 16 1)
      = flowVar ''x'' ''inc'' 1 250 lo' hi' 1
    \<and> 0 \<le> lo' \<and> lo' \<le> 250 \<and> 250 \<le> hi' \<and> hi' \<le> 255"
proof -
  let ?limit = "advancedVmFlowVarMaxLimit (flowVarRecord ''x'' ''inc'' 1 250 1 16 1) (flowVarRecord ''x'' ''inc'' 1 1 1 16 1)
      (advancedVmFlowVarMaskLimit [] ''x'')"
  have limit: "?limit = 255" by code_simp
  have "\<exists>lo' hi'. parameterizedInstruction ''t'' [(''t:x:init_value'', ''250'')] [] (flowVar ''x'' ''inc'' 1 1 1 16 1)
      = flowVar ''x'' ''inc'' 1 250 lo' hi' 1
    \<and> 0 \<le> lo' \<and> lo' \<le> 250 \<and> 250 \<le> hi' \<and> hi' \<le> ?limit"
  proof (rule edited_initial_bounds)
    show "parseAdvancedVmTemplateNumber ''250'' = Some 250" by code_simp
    show "250 \<le> ?limit" unfolding limit by simp
  qed (auto simp: advancedVmTemplateParameterKey_def advancedVmFlowVarOperations_def)
  then show ?thesis by (simp only: limit)
qed

section \<open>The text of a body\<close>

text \<open>
  The reader of the editor's text needs no bound on the depth of the text: it accepts a text with exactly the
  value that some number of steps reads, and nothing but white space may follow.
\<close>

theorem parser_terminates:
  "jsonParse s = Some v \<longleftrightarrow> (\<exists>n rest. jsonValue n s = Some (v, rest) \<and> skipSpace rest = [])"
proof
  assume "jsonParse s = Some v"
  then obtain rest where "jsonValue (2 * length s + 2) s = Some (v, rest)" "skipSpace rest = []"
    unfolding jsonParse_def by (simp del: jsonValue.simps split: option.splits prod.splits if_splits)
  then show "\<exists>n rest. jsonValue n s = Some (v, rest) \<and> skipSpace rest = []" by blast
next
  assume "\<exists>n rest. jsonValue n s = Some (v, rest) \<and> skipSpace rest = []"
  then obtain n rest where read: "jsonValue n s = Some (v, rest)" "skipSpace rest = []" by blast
  from fuel_enough [of n, THEN conjunct1, rule_format, OF read(1)]
  have "jsonValue (2 * length s + 2) s = Some (v, rest)"
    by (simp add: readsWith_def del: jsonValue.simps)
  with read(2) show "jsonParse s = Some v" by (simp add: jsonParse_def del: jsonValue.simps)
qed

text \<open>
  Seeding the editor with a ready template and reading the text back gives the template's body.
\<close>

theorem seed_roundtrip:
  assumes "view_ready view" "jsonPlain (VmObject (view_body view))" "view_body view \<noteq> []"
    "utf8Length (jsonText [] 0 (VmObject (cloneAdvancedVmBody (view_body view)))) \<le> ADVANCED_VM_MAX_BYTES"
  shows "\<exists>text'. runAdvancedVmTemplateSeed view = (True, [UpdateDraft text'])
    \<and> vj_error (parseAdvancedVmJson m text') = None
    \<and> vj_body (parseAdvancedVmJson m text') = Some (cloneAdvancedVmBody (view_body view))"
  using json_text_parse [OF assms(2-4)] assms(1)
  by (simp add: runAdvancedVmTemplateSeed_def runAdvancedVmTemplateDraftAction_def advancedVmTemplateSeedAction_def
      advancedVmTemplateDraftText_def)

definition sampleView :: AdvancedVmTemplateView where
  "sampleView = \<lparr>view_body = sampleVmBody, view_compatible = True, view_flowVars = [], view_hint = [],
     view_parameterDirty = False, view_parameterError = None, view_ready = True, view_selectedTemplate = sampleTemplate\<rparr>"

lemma sampleVmBody_plain: "jsonPlain (VmObject sampleVmBody)" by code_simp

theorem seed_roundtrip_witness:
  "\<exists>text'. runAdvancedVmTemplateSeed sampleView = (True, [UpdateDraft text'])
    \<and> vj_error (parseAdvancedVmJson id text') = None
    \<and> vj_body (parseAdvancedVmJson id text') = Some sampleVmBody"
proof -
  have "utf8Length (jsonText [] 0 (VmObject (cloneAdvancedVmBody sampleVmBody))) \<le> ADVANCED_VM_MAX_BYTES" by code_simp
  moreover have "cloneAdvancedVmBody sampleVmBody = sampleVmBody" by code_simp
  ultimately show ?thesis
    using seed_roundtrip [of sampleView id] sampleVmBody_plain by (simp add: sampleView_def sampleVmBody_def)
qed

text \<open>
  C32. Appending a ready template replaces the text of the editor by one that reads as the merged body: the
  instructions of the editor, then those of the template. The bodies are objects that JSON can hold, and the new text
  is not longer than the editor accepts.
\<close>

theorem append_refines_merge:
  assumes "vj_body (parseAdvancedVmJson m text) = Some current" "view_ready view"
    "jsonPlain (VmObject current)" "jsonPlain (VmObject (view_body view))"
    "utf8Length (jsonText [] 0 (VmObject (mergeAdvancedVmBodies current (view_body view)))) \<le> ADVANCED_VM_MAX_BYTES"
  shows "\<exists>text'. runAdvancedVmTemplateAppend (vj_body (parseAdvancedVmJson m text)) view = (True, [UpdateDraft text'])
    \<and> vj_body (parseAdvancedVmJson m text') = Some (mergeAdvancedVmBodies current (view_body view))
    \<and> bodyInstructions (mergeAdvancedVmBodies current (view_body view))
      = map jsonCopy (bodyInstructions current @ bodyInstructions (view_body view))"
proof -
  let ?b = "mergeAdvancedVmBodies current (view_body view)"
  have "?b \<noteq> []"
    using putProperty_keys by (auto simp: mergeAdvancedVmBodies_def Let_def simp flip: map_is_Nil_conv [of fst] set_empty)
  from json_text_parse [OF merge_plain [OF assms(3,4)] this] assms(5)
  have "vj_body (parseAdvancedVmJson m (formatAdvancedVmJson (Some ?b))) = Some ?b" by (simp add: merge_fixed)
  then show ?thesis
    using assms(1,2) merge_instructions
    by (simp add: runAdvancedVmTemplateAppend_def runAdvancedVmTemplateDraftAction_def advancedVmTemplateAppendAction_def
        appendedAdvancedVmTemplateDraftText_def)
qed

text \<open>A body that counts the identification of the IPv4 header.\<close>

definition sampleIdBody :: AdvancedVmBody where
  "sampleIdBody =
     [(''instructions'', VmArray
        [flowVar ''ip_id'' ''inc'' 2 (rawPacketNumberValue sampleTcp 18 2) 0 16 1,
         VmObject [(''add_value'', VmNumber 0), (''is_big_endian'', VmBool True), (''name'', VmText ''ip_id''),
                   (''pkt_offset'', VmNumber 18), (''type'', VmText ''write_flow_var'')]]),
      (''split_by_var'', VmText ''ip_id'')]"

theorem append_refines_merge_witness:
  "\<exists>text'. runAdvancedVmTemplateAppend (vj_body (parseAdvancedVmJson id (formatAdvancedVmJson (Some sampleIdBody)))) sampleView
      = (True, [UpdateDraft text'])
    \<and> vj_body (parseAdvancedVmJson id text') = Some (mergeAdvancedVmBodies sampleIdBody sampleVmBody)"
proof -
  have read: "vj_body (parseAdvancedVmJson id (formatAdvancedVmJson (Some sampleIdBody))) = Some sampleIdBody" by code_simp
  have "jsonPlain (VmObject sampleIdBody)" by code_simp
  moreover have "utf8Length (jsonText [] 0 (VmObject (mergeAdvancedVmBodies sampleIdBody sampleVmBody))) \<le> ADVANCED_VM_MAX_BYTES"
    by code_simp
  moreover have "view_ready sampleView" "view_body sampleView = sampleVmBody" by (simp_all add: sampleView_def)
  ultimately show ?thesis using append_refines_merge [OF read, of sampleView] sampleVmBody_plain by fastforce
qed

text \<open>
  C33. Appending keeps a body sound: two sound bodies that share no variable are sound together, and split by the
  variable that one of them is split by.
\<close>

theorem merge_keeps_sound:
  assumes "bodySound bs current" "bodySound bs template" "distinct (map fst current)" "distinct (map fst template)"
    "\<And>n. declaredVar (map viewOf (bodyInstructions current)) n = None
       \<or> declaredVar (map viewOf (bodyInstructions template)) n = None"
  shows "bodySound bs (mergeAdvancedVmBodies current template)
    \<and> textProperty (mergeAdvancedVmBodies current template) ''split_by_var''
      \<in> {textProperty current ''split_by_var'', textProperty template ''split_by_var''}"
  using merge_sound [OF assms] merge_split [OF assms(3,4)] by blast

theorem merge_keeps_sound_witness: "bodySound sampleTcp (mergeAdvancedVmBodies sampleIdBody sampleVmBody)"
proof -
  have sound: "bodySound sampleTcp sampleIdBody" "bodySound sampleTcp sampleVmBody" by code_simp+
  have keys: "distinct (map fst sampleIdBody)" "distinct (map fst sampleVmBody)" by code_simp+
  have views: "map viewOf (bodyInstructions sampleIdBody)
      = [VarView ''ip_id'' 2 (rawPacketNumberValue sampleTcp 18 2) 0 16 1, WriteView ''ip_id'' 18]"
    "map viewOf (bodyInstructions sampleVmBody) = [VarView ''tcp_sequence'' 4 1 1 16 1, WriteView ''tcp_sequence'' 38, OtherView]"
    by code_simp+
  have "declaredVar (map viewOf (bodyInstructions sampleIdBody)) n = None
      \<or> declaredVar (map viewOf (bodyInstructions sampleVmBody)) n = None" for n
    by (auto simp: views)
  from merge_keeps_sound [OF sound keys this] show ?thesis by blast
qed

section \<open>The buttons of the rows\<close>

text \<open>
  A click on a template does what its row announces: for a ready row the name is set and the body of the row
  becomes the text of the editor, for a blocked row, or a name without template, nothing is called.
\<close>

theorem named_target_action:
  "runAdvancedVmNamedTargetTemplate templates name (Some s) draft
    = (case find (\<lambda>t. tpl_name t = name) templates of
         None \<Rightarrow> (False, [])
       | Some t \<Rightarrow>
           if vmt_ready (templateTargetRow t s draft)
           then (True, [SetTemplateName name,
             UpdateDraft (formatAdvancedVmJson (Some (advancedVmParameterizedTemplateBody t (Some s) draft)))])
           else (False, []))"
proof (cases "find (\<lambda>t. tpl_name t = name) templates")
  case (Some t)
  then have "tpl_name t = name" by (auto simp: find_Some_iff)
  then show ?thesis
    by (simp add: Some runAdvancedVmNamedTargetTemplate_def runAdvancedVmTemplateDraftAction_def
        advancedVmNamedTargetTemplateAction_def advancedVmNamedTargetTemplateDraft_def advancedVmTargetTemplateDraft_def
        advancedVmTemplateViewModel_def advancedVmTemplateDraftText_def templateTargetRow_def Let_def)
qed (simp add: runAdvancedVmNamedTargetTemplate_def runAdvancedVmTemplateDraftAction_def
    advancedVmNamedTargetTemplateAction_def advancedVmNamedTargetTemplateDraft_def advancedVmTargetTemplateDraft_def)

end
