(* ===== verification/StreamPatch.thy ===== *)
theory StreamPatch
  imports StreamLayout
begin

text \<open>
  The edits of the stream editor (\<open>streamPatchModel.ts\<close>): every control builds an action, the action gives a
  patch of the stream, a partial record that replaces fields. A stream is an object, a function from the names of
  its fields to their values; a patch is a list of fields with their new values. The texts of modes and types are
  values like any other, numbers are whole, and nothing here looks into an object.
\<close>

section \<open>Objects\<close>

datatype FieldValue = FvNumber int | FvNaN | FvText string | FvFlag bool | FvNull | FvUndefined | FvObject

type_synonym EditorStream = "string \<Rightarrow> FieldValue"

type_synonym StreamPatch = "(string \<times> FieldValue) list"

definition fixedMode :: FieldValue where
  "fixedMode = FvText ''Fixed''"

fun fvTruthy :: "FieldValue \<Rightarrow> bool" where
  "fvTruthy (FvNumber n) = (n \<noteq> 0)"
| "fvTruthy (FvText t) = (t \<noteq> [])"
| "fvTruthy (FvFlag b) = b"
| "fvTruthy FvObject = True"
| "fvTruthy v = False"

fun fvText :: "FieldValue \<Rightarrow> string" where
  "fvText (FvText t) = t"
| "fvText v = []"

fun fvFinite :: "FieldValue \<Rightarrow> bool" where
  "fvFinite (FvNumber n) = True"
| "fvFinite v = False"

text \<open>\<open>v ?? d\<close>, \<open>v || d\<close>, \<open>Math.max\<close> and \<open>enabled ? v : d\<close>.\<close>

fun nullish :: "FieldValue \<Rightarrow> FieldValue \<Rightarrow> FieldValue" where
  "nullish FvNull d = d"
| "nullish FvUndefined d = d"
| "nullish v d = v"

definition orValue :: "FieldValue \<Rightarrow> FieldValue \<Rightarrow> FieldValue" where
  "orValue v d = (if fvTruthy v then v else d)"

fun maxValue :: "FieldValue \<Rightarrow> FieldValue \<Rightarrow> FieldValue" where
  "maxValue (FvNumber m) (FvNumber n) = FvNumber (max m n)"
| "maxValue v w = FvNaN"

definition whenOn :: "FieldValue \<Rightarrow> FieldValue \<Rightarrow> FieldValue \<Rightarrow> FieldValue" where
  "whenOn enabled v d = (if fvTruthy enabled then v else d)"

text \<open>The field of a stream that may be missing, \<open>stream?.field\<close>.\<close>

definition streamField :: "EditorStream option \<Rightarrow> string \<Rightarrow> FieldValue" where
  "streamField stream f = (case stream of None \<Rightarrow> FvUndefined | Some s \<Rightarrow> s f)"

text \<open>\<open>{...stream, ...patch}\<close>, and \<open>Object.assign\<close> on patches.\<close>

definition applyFields :: "EditorStream \<Rightarrow> StreamPatch \<Rightarrow> EditorStream" where
  "applyFields stream patch = foldl (\<lambda>s (f, v). s(f := v)) stream patch"

fun putField :: "StreamPatch \<Rightarrow> string \<times> FieldValue \<Rightarrow> StreamPatch" where
  "putField [] fv = [fv]"
| "putField ((g, w) # p) (f, v) = (if g = f then (f, v) # p else (g, w) # putField p (f, v))"

definition assignFields :: "StreamPatch \<Rightarrow> StreamPatch \<Rightarrow> StreamPatch" where
  "assignFields p q = foldl putField p q"

definition patchField :: "StreamPatch \<Rightarrow> string \<Rightarrow> FieldValue" where
  "patchField p f = (case map_of p f of None \<Rightarrow> FvUndefined | Some v \<Rightarrow> v)"

text \<open>The same stream for the functions of \<open>model.ts\<close>.\<close>

definition profileStream :: "EditorStream \<Rightarrow> ProfileWorkbenchStream" where
  "profileStream s =
     \<lparr>packet_binary_base64 = (case s ''packet_binary_base64'' of FvText t \<Rightarrow> Some t | _ \<Rightarrow> None),
      numOf = (\<lambda>f. case s f of FvNumber n \<Rightarrow> n | _ \<Rightarrow> 0), finiteOf = (\<lambda>f. fvFinite (s f)),
      textOf = (\<lambda>f. fvText (s f)), flagOf = (\<lambda>f. fvTruthy (s f)),
      unitOf = (\<lambda>f. case s f of FvNumber n \<Rightarrow> CountNumber n | FvText t \<Rightarrow> CountText t | _ \<Rightarrow> CountNumber 0)\<rparr>"

definition icmpv6ControlMinimumFrameLength :: "EditorStream \<Rightarrow> FieldValue \<Rightarrow> int" where
  "icmpv6ControlMinimumFrameLength stream icmpType =
     (let p = profileStream stream;
          l2HeaderLength = 14 + workbenchVlanHeaderLength p + workbenchMplsLabelCount p * 4;
          option = (\<lambda>f len. if fvTruthy (stream f) then len else 0);
          icmpLength =
            (if icmpType = FvNumber 133 then 8 + option ''icmpv6_rs_include_slla'' 8
             else if icmpType = FvNumber 134
             then 16 + option ''icmpv6_ra_include_slla'' 8 + option ''icmpv6_ra_include_prefix'' 32
             else if icmpType = FvNumber 135 \<or> icmpType = FvNumber 136
             then 24 + option ''icmpv6_nd_include_option'' 8
             else 8)
      in max 64 (l2HeaderLength + 40 + icmpLength + 4))"

section \<open>Packet types\<close>

definition protocolName :: "string \<Rightarrow> string" where
  "protocolName type' =
     (if endsWith type' ''/TCP'' then ''TCP''
      else if endsWith type' ''/UDP'' then ''UDP''
      else if endsWith type' ''/ICMP'' \<or> endsWith type' ''/ICMPv6'' then ''ICMP''
      else if endsWith type' ''/GRE'' then ''GRE''
      else if endsWith type' ''/SCTP'' then ''SCTP''
      else ''None'')"

definition packetTypeFor :: "string \<Rightarrow> string \<Rightarrow> string" where
  "packetTypeFor ipVersion protocol =
     (if ipVersion = ''None'' then ''Ethernet''
      else if ipVersion = ''ARP'' then ''Ethernet/ARP''
      else if protocol = ''None''
      then (if ipVersion = ''IPv4'' then ''Ethernet/IPv4'' else ''Ethernet/IPv6'')
      else if protocol = ''ICMP''
      then (if ipVersion = ''IPv4'' then ''Ethernet/IPv4/ICMP'' else ''Ethernet/IPv6/ICMPv6'')
      else ''Ethernet/'' @ ipVersion @ ''/'' @ protocol)"

section \<open>Sending and frame length\<close>

definition streamModePatch :: "FieldValue \<Rightarrow> EditorStream option \<Rightarrow> StreamPatch" where
  "streamModePatch mode stream =
     [(''mode'', mode)]
     @ (if mode = FvText ''continuous''
        then [(''next_stream_id'', FvNull), (''action_count'', FvNumber 0), (''count'', FvNumber 1)] else [])
     @ (if mode = FvText ''burst'' then [(''count'', FvNumber 1)] else [])
     @ (if mode = FvText ''multi_burst''
        then [(''count'', maxValue (FvNumber 2) (nullish (streamField stream ''count'') (FvNumber 2)))] else [])"

definition afterStreamStopPatch :: StreamPatch where
  "afterStreamStopPatch = [(''next_stream_id'', FvNull), (''action_count'', FvNumber 0)]"

definition afterStreamGotoPatch :: "EditorStream \<Rightarrow> StreamPatch" where
  "afterStreamGotoPatch stream =
     [(''next_stream_id'', nullish (stream ''next_stream_id'') (FvNumber 1)), (''action_count'', stream ''action_count'')]"

definition nextStreamSelectionPatch :: "FieldValue \<Rightarrow> StreamPatch" where
  "nextStreamSelectionPatch nextStreamId = [(''next_stream_id'', nextStreamId)]"

definition loopActionCountEnabledPatch :: "FieldValue \<Rightarrow> EditorStream \<Rightarrow> StreamPatch" where
  "loopActionCountEnabledPatch enabled stream =
     [(''action_count'', whenOn enabled (maxValue (FvNumber 1) (stream ''action_count'')) (FvNumber 0))]"

definition frameLengthValuePatch :: "FieldValue \<Rightarrow> StreamPatch" where
  "frameLengthValuePatch frameLength = [(''frame_length'', frameLength)]"

definition frameLengthMinPatch :: "FieldValue \<Rightarrow> StreamPatch" where
  "frameLengthMinPatch frameLengthMin = [(''frame_length_min'', frameLengthMin)]"

definition frameLengthMaxPatch :: "FieldValue \<Rightarrow> StreamPatch" where
  "frameLengthMaxPatch frameLengthMax = [(''frame_length'', frameLengthMax), (''frame_length_max'', frameLengthMax)]"

definition frameLengthTypePatch :: "FieldValue \<Rightarrow> EditorStream option \<Rightarrow> StreamPatch option" where
  "frameLengthTypePatch frameLengthType stream =
     (if (case stream of None \<Rightarrow> False
           | Some s \<Rightarrow> \<not> supportsVariableFrameLength (Some (profileStream s)) \<and> frameLengthType \<noteq> fixedMode)
      then None
      else Some ([(''frame_length_type'', frameLengthType)]
        @ (case stream of
             Some s \<Rightarrow>
               if frameLengthType = fixedMode then []
               else
                 let minLength = (if fvFinite (s ''frame_length_min'') then s ''frame_length_min'' else FvNumber 64);
                     maxLengthSource =
                       (if fvFinite (s ''frame_length_max'') then s ''frame_length_max'' else s ''frame_length'');
                     maxLength = maxValue maxLengthSource
                       (case minLength of FvNumber n \<Rightarrow> FvNumber (n + 5) | _ \<Rightarrow> FvNaN)
                 in [(''frame_length_min'', minLength), (''frame_length_max'', maxLength), (''frame_length'', maxLength)]
           | None \<Rightarrow> [])))"

definition l4PortOverrideSelectionPatch :: "string \<Rightarrow> FieldValue \<Rightarrow> EditorStream \<Rightarrow> StreamPatch" where
  "l4PortOverrideSelectionPatch selection enabled stream =
     (if selection = ''source''
      then [(''l4_src_port_override'', enabled), (''l4_src_port_mode'', whenOn enabled (stream ''l4_src_port_mode'') fixedMode)]
      else [(''l4_dst_port_override'', enabled), (''l4_dst_port_mode'', whenOn enabled (stream ''l4_dst_port_mode'') fixedMode)])"

definition udpLengthOverrideSelectionPatch :: "FieldValue \<Rightarrow> EditorStream \<Rightarrow> StreamPatch" where
  "udpLengthOverrideSelectionPatch enabled stream =
     [(''udp_length_override'', enabled), (''udp_length_mode'', whenOn enabled (stream ''udp_length_mode'') fixedMode)]"

section \<open>The packet type\<close>

text \<open>The fields a branch resets: overrides off, modes fixed.\<close>

definition l4PortResets :: StreamPatch where
  "l4PortResets =
     [(''l4_src_port_override'', FvFlag False), (''l4_src_port_mode'', fixedMode),
      (''l4_dst_port_override'', FvFlag False), (''l4_dst_port_mode'', fixedMode)]"

definition udpResets :: StreamPatch where
  "udpResets =
     [(''udp_length_override'', FvFlag False), (''udp_length_mode'', fixedMode),
      (''udp_checksum_override'', FvFlag False), (''udp_checksum_mode'', fixedMode)]"

definition icmpResets :: StreamPatch where
  "icmpResets =
     [(''icmp_checksum_override'', FvFlag False), (''icmp_identifier_mode'', fixedMode), (''icmp_sequence_mode'', fixedMode)]"

definition tunnelsOff :: StreamPatch where
  "tunnelsOff = [(''vxlan_enabled'', FvFlag False), (''gtpu_enabled'', FvFlag False)]"

definition sctpResets :: StreamPatch where
  "sctpResets =
     [(''sctp_checksum_override'', FvFlag False), (''sctp_verification_tag_mode'', fixedMode),
      (''sctp_data_flags_mode'', fixedMode), (''sctp_tsn_mode'', fixedMode), (''sctp_stream_id_mode'', fixedMode),
      (''sctp_stream_sequence_mode'', fixedMode), (''sctp_payload_protocol_id_mode'', fixedMode)]"

definition gtpuResets :: StreamPatch where
  "gtpuResets =
     [(''gtpu_teid_mode'', fixedMode), (''gtpu_sequence_enabled'', FvFlag False), (''gtpu_sequence_mode'', fixedMode),
      (''gtpu_npdu_enabled'', FvFlag False), (''gtpu_npdu_mode'', fixedMode), (''gtpu_extension_enabled'', FvFlag False),
      (''gtpu_extension_udp_port_mode'', fixedMode), (''gtpu_inner_ip_version'', FvText ''IPv4''),
      (''gtpu_inner_ipv4_src_mode'', fixedMode), (''gtpu_inner_ipv4_dst_mode'', fixedMode),
      (''gtpu_inner_ipv4_ttl_mode'', fixedMode), (''gtpu_inner_ipv6_src_mode'', fixedMode),
      (''gtpu_inner_ipv6_dst_mode'', fixedMode), (''gtpu_inner_ipv6_hop_limit_mode'', fixedMode),
      (''gtpu_inner_l4_src_port_mode'', fixedMode), (''gtpu_inner_l4_dst_port_mode'', fixedMode)]"

definition vxlanResets :: StreamPatch where
  "vxlanResets =
     [(''vxlan_inner_ip_version'', FvText ''IPv4''), (''vxlan_vni_mode'', fixedMode),
      (''vxlan_inner_ipv4_src_mode'', fixedMode), (''vxlan_inner_ipv4_dst_mode'', fixedMode),
      (''vxlan_inner_ipv4_ttl_mode'', fixedMode), (''vxlan_inner_ipv6_src_mode'', fixedMode),
      (''vxlan_inner_ipv6_dst_mode'', fixedMode), (''vxlan_inner_ipv6_hop_limit_mode'', fixedMode),
      (''vxlan_inner_l4_src_port_mode'', fixedMode), (''vxlan_inner_l4_dst_port_mode'', fixedMode)]"

definition packetTypeFields :: "string \<Rightarrow> EditorStream option \<Rightarrow> StreamPatch" where
  "packetTypeFields packetType' stream =
     (let nextProtocol = protocolName packetType' in
      if packetType' = ''Ethernet/ARP''
      then (''mpls_enabled'', FvFlag False) # tunnelsOff
        @ [(''flow_stats_enabled'', FvFlag False), (''latency_enabled'', FvFlag False)] @ l4PortResets @ udpResets @ icmpResets
      else if packetType' = ''Ethernet''
      then (''mpls_enabled'', FvFlag False) # tunnelsOff @ l4PortResets @ udpResets @ icmpResets
      else if nextProtocol = ''None'' then tunnelsOff @ l4PortResets @ udpResets @ icmpResets
      else if nextProtocol = ''ICMP''
      then tunnelsOff
        @ [(''frame_length_type'', fixedMode),
           (''icmp_type'', FvNumber (if packetType' = ''Ethernet/IPv6/ICMPv6'' then 128 else 8)),
           (''icmp_code'', FvNumber 0)]
        @ l4PortResets @ udpResets @ icmpResets
        @ (if packetType' = ''Ethernet/IPv6/ICMPv6''
           then [(''ipv6_src_mode'', fixedMode), (''ipv6_dst_mode'', fixedMode)] else [])
      else if nextProtocol = ''GRE''
      then tunnelsOff
        @ [(''frame_length_type'', fixedMode),
           (''frame_length'', maxValue (nullish (streamField stream ''frame_length'') (FvNumber 96)) (FvNumber 96))]
        @ l4PortResets @ udpResets @ icmpResets
      else if nextProtocol = ''SCTP''
      then
        let minimumLength = FvNumber (14
              + (case stream of None \<Rightarrow> 0 | Some s \<Rightarrow> workbenchVlanHeaderLength (profileStream s))
              + (case stream of None \<Rightarrow> 0 | Some s \<Rightarrow> workbenchMplsLabelCount (profileStream s)) * 4
              + (if startsWith packetType' ''Ethernet/IPv6'' then 40 else 20) + 28 + 4)
        in tunnelsOff
          @ [(''frame_length_type'', fixedMode),
             (''frame_length'', maxValue (nullish (streamField stream ''frame_length'') minimumLength) minimumLength),
             (''frame_length_min'', maxValue (nullish (streamField stream ''frame_length_min'') minimumLength) minimumLength)]
          @ udpResets @ icmpResets
      else icmpResets)"

definition packetTypePatch :: "string \<Rightarrow> EditorStream option \<Rightarrow> StreamPatch option" where
  "packetTypePatch packetType' stream =
     (if (fvTruthy (streamField stream ''vxlan_enabled'') \<or> fvTruthy (streamField stream ''gtpu_enabled''))
         \<and> packetType' \<noteq> ''Ethernet/IPv4/UDP''
      then None
      else
        let fields = (''packet_type'', FvText packetType') # packetTypeFields packetType' stream;
            sctp = fields @ (if protocolName packetType' \<noteq> ''SCTP'' then sctpResets else []);
            gtpu = sctp @ (if patchField sctp ''gtpu_enabled'' = FvFlag False then gtpuResets else [])
        in Some (gtpu @ (if patchField gtpu ''vxlan_enabled'' = FvFlag False then vxlanResets else [])))"

definition packetTypeForL3Selection :: "string \<Rightarrow> EditorStream \<Rightarrow> string" where
  "packetTypeForL3Selection selection stream = packetTypeFor selection (protocolName (fvText (stream ''packet_type'')))"

definition packetTypeForL4Selection :: "string \<Rightarrow> EditorStream \<Rightarrow> string" where
  "packetTypeForL4Selection selection stream = packetTypeFor (ipVersionName (fvText (stream ''packet_type''))) selection"

section \<open>ICMP\<close>

definition icmpTypePatch :: "FieldValue \<Rightarrow> EditorStream option \<Rightarrow> StreamPatch" where
  "icmpTypePatch icmpType stream =
     (let icmpv6 = streamField stream ''packet_type'' = FvText ''Ethernet/IPv6/ICMPv6'';
          field = streamField stream
      in (''icmp_type'', icmpType)
       # (if icmpv6 \<and> icmpType \<in> {FvNumber 133, FvNumber 134, FvNumber 135, FvNumber 136}
          then
            [(''icmp_code'', FvNumber 0), (''icmp_type_mode'', fixedMode), (''icmp_code_mode'', fixedMode)] @ icmpResets
            @ [(''ipv6_hop_limit'', FvNumber 255), (''ipv6_hop_limit_mode'', fixedMode), (''frame_length_type'', fixedMode),
               (''frame_length'', maxValue (field ''frame_length'')
                 (case stream of None \<Rightarrow> FvNaN | Some s \<Rightarrow> FvNumber (icmpv6ControlMinimumFrameLength s icmpType)))]
            @ (if icmpType = FvNumber 133
               then [(''icmpv6_rs_include_slla'', nullish (field ''icmpv6_rs_include_slla'') (FvFlag True)),
                     (''icmpv6_rs_slla_mac'', orValue (field ''icmpv6_rs_slla_mac'') (field ''ether_src''))]
               else if icmpType = FvNumber 134
               then [(''icmpv6_ra_include_slla'', nullish (field ''icmpv6_ra_include_slla'') (FvFlag True)),
                     (''icmpv6_ra_slla_mac'', orValue (field ''icmpv6_ra_slla_mac'') (field ''ether_src'')),
                     (''icmpv6_ra_include_prefix'', nullish (field ''icmpv6_ra_include_prefix'') (FvFlag True))]
               else [(''icmpv6_nd_include_option'', nullish (field ''icmpv6_nd_include_option'') (FvFlag True)),
                     (''icmpv6_nd_target'', orValue (field ''icmpv6_nd_target'') (field ''ipv6_dst'')),
                     (''icmpv6_nd_option_mac'', orValue (field ''icmpv6_nd_option_mac'') (field ''ether_src''))])
          else if \<not> icmpv6 \<or> icmpType \<notin> {FvNumber 128, FvNumber 129}
          then [(''icmp_type_mode'', fixedMode), (''icmp_code_mode'', fixedMode), (''icmp_identifier_mode'', fixedMode),
                (''icmp_sequence_mode'', fixedMode)]
          else []))"

text \<open>The three options of router messages: the frame grows to what the message needs with the option as it is now.\<close>

definition icmpv6OptionPatch :: "string \<Rightarrow> FieldValue \<Rightarrow> EditorStream \<Rightarrow> StreamPatch" where
  "icmpv6OptionPatch option enabled stream =
     [(''frame_length'', maxValue (stream ''frame_length'')
         (FvNumber (icmpv6ControlMinimumFrameLength (stream(option := enabled)) (stream ''icmp_type'')))),
      (option, enabled)]"

definition icmpv6RsSllaSelectionPatch :: "FieldValue \<Rightarrow> EditorStream \<Rightarrow> StreamPatch" where
  "icmpv6RsSllaSelectionPatch enabled stream = icmpv6OptionPatch ''icmpv6_rs_include_slla'' enabled stream"

definition icmpv6RaSllaSelectionPatch :: "FieldValue \<Rightarrow> EditorStream \<Rightarrow> StreamPatch" where
  "icmpv6RaSllaSelectionPatch enabled stream = icmpv6OptionPatch ''icmpv6_ra_include_slla'' enabled stream"

definition icmpv6RaPrefixSelectionPatch :: "FieldValue \<Rightarrow> EditorStream \<Rightarrow> StreamPatch" where
  "icmpv6RaPrefixSelectionPatch enabled stream = icmpv6OptionPatch ''icmpv6_ra_include_prefix'' enabled stream"

section \<open>Tags and labels\<close>

definition vlanSelectionPatch :: "FieldValue \<Rightarrow> StreamPatch" where
  "vlanSelectionPatch enabled =
     (if fvTruthy enabled then [(''vlan_enabled'', FvFlag True)]
      else [(''vlan_enabled'', FvFlag False), (''vlan_priority_mode'', fixedMode), (''vlan_id_mode'', fixedMode),
            (''vlan2_enabled'', FvFlag False), (''vlan2_priority_mode'', fixedMode), (''vlan2_id_mode'', fixedMode)])"

definition mplsSelectionPatch :: "FieldValue \<Rightarrow> StreamPatch" where
  "mplsSelectionPatch enabled = [(''mpls_enabled'', enabled)]"

text \<open>A field that keeps its value while the control is on, and \<open>d\<close> when it goes off.\<close>

definition keptField :: "FieldValue \<Rightarrow> EditorStream \<Rightarrow> FieldValue \<Rightarrow> string \<Rightarrow> string \<times> FieldValue" where
  "keptField enabled stream d f = (f, whenOn enabled (stream f) d)"

definition mplsSecondLabelSelectionPatch :: "FieldValue \<Rightarrow> EditorStream \<Rightarrow> StreamPatch" where
  "mplsSecondLabelSelectionPatch enabled stream =
     (''mpls_label2_enabled'', enabled)
     # map (keptField enabled stream fixedMode) [''mpls_label2_mode'', ''mpls_label2_tc_mode'', ''mpls_label2_ttl_mode'']
     @ keptField enabled stream (FvFlag False) ''mpls_label3_enabled''
     # map (keptField enabled stream fixedMode) [''mpls_label3_mode'', ''mpls_label3_tc_mode'', ''mpls_label3_ttl_mode'']"

definition mplsThirdLabelSelectionPatch :: "FieldValue \<Rightarrow> EditorStream \<Rightarrow> StreamPatch" where
  "mplsThirdLabelSelectionPatch enabled stream =
     (''mpls_label2_enabled'', FvFlag True) # (''mpls_label3_enabled'', enabled)
     # map (keptField enabled stream fixedMode) [''mpls_label3_mode'', ''mpls_label3_tc_mode'', ''mpls_label3_ttl_mode'']"

definition vlanInnerTagSelectionPatch :: "FieldValue \<Rightarrow> EditorStream \<Rightarrow> StreamPatch" where
  "vlanInnerTagSelectionPatch enabled stream =
     (''vlan2_enabled'', enabled) # map (keptField enabled stream fixedMode) [''vlan2_priority_mode'', ''vlan2_id_mode'']"

section \<open>Payload\<close>

definition payloadSelectionPatch :: "FieldValue \<Rightarrow> StreamPatch" where
  "payloadSelectionPatch enabled = [(''payload_enabled'', enabled)]"

text \<open>\<open>toUpperCase\<close> on the letters a to z: the callers pass hexadecimal texts.\<close>

definition upperText :: "string \<Rightarrow> string" where
  "upperText t = map (\<lambda>c. if 97 \<le> codeOf c \<and> codeOf c \<le> 122 then char_of (nat (codeOf c - 32)) else c) t"

definition payloadPatternImportPatch :: "string \<Rightarrow> StreamPatch" where
  "payloadPatternImportPatch pattern =
     [(''payload_enabled'', FvFlag True), (''payload_type'', FvText ''Fixed Word''),
      (''payload_pattern'', FvText (if pattern = [] then ''00'' else upperText pattern))]"

section \<open>DNS and DHCP\<close>

definition udpApplicationMinimumFrameLength :: "EditorStream \<Rightarrow> int \<Rightarrow> int" where
  "udpApplicationMinimumFrameLength stream payloadLength =
     14 + workbenchVlanHeaderLength (profileStream stream) + workbenchMplsLabelCount (profileStream stream) * 4
     + (if startsWith (fvText (stream ''packet_type'')) ''Ethernet/IPv6'' then 40 else 20) + 8 + payloadLength + 4"

definition minimumFrameLengthPatch :: "EditorStream \<Rightarrow> int \<Rightarrow> StreamPatch" where
  "minimumFrameLengthPatch stream minimumFrameLength =
     map (\<lambda>f. (f, maxValue (stream f) (FvNumber minimumFrameLength))) [''frame_length'', ''frame_length_min'', ''frame_length_max'']"

definition unchangedFields :: "EditorStream \<Rightarrow> string list \<Rightarrow> StreamPatch" where
  "unchangedFields stream fs = map (\<lambda>f. (f, stream f)) fs"

text \<open>A field that the control sets to \<open>v\<close> when it goes on and leaves alone when it goes off.\<close>

definition forcedField :: "FieldValue \<Rightarrow> EditorStream \<Rightarrow> FieldValue \<Rightarrow> string \<Rightarrow> string \<times> FieldValue" where
  "forcedField enabled stream v f = (f, whenOn enabled v (stream f))"

definition dhcpModeFields :: "string list" where
  "dhcpModeFields =
     [''dhcp_operation_mode'', ''dhcp_hops_mode'', ''dhcp_seconds_mode'', ''dhcp_message_type_mode'', ''dhcp_flags_mode'',
      ''dhcp_client_ip_mode'', ''dhcp_your_ip_mode'', ''dhcp_server_ip_mode'', ''dhcp_relay_ip_mode'',
      ''dhcp_client_mac_mode'', ''dhcp_requested_ip_mode'', ''dhcp_server_id_mode'', ''dhcp_xid_mode'']"

definition frameLengthFields :: "string list" where
  "frameLengthFields = [''frame_length'', ''frame_length_min'', ''frame_length_max'']"

definition withMinimumLength :: "FieldValue \<Rightarrow> EditorStream \<Rightarrow> int \<Rightarrow> StreamPatch \<Rightarrow> StreamPatch" where
  "withMinimumLength enabled stream payloadLength patch =
     (if fvTruthy enabled
      then assignFields patch (minimumFrameLengthPatch stream (udpApplicationMinimumFrameLength stream payloadLength))
      else patch)"

definition dnsSelectionPatch :: "FieldValue \<Rightarrow> EditorStream \<Rightarrow> StreamPatch" where
  "dnsSelectionPatch enabled stream =
     (let kept = keptField enabled stream; forced = forcedField enabled stream in
      withMinimumLength enabled stream 29
        ([(''dns_enabled'', enabled)]
         @ map (kept fixedMode)
             [''dns_transaction_id_mode'', ''dns_flags_mode'', ''dns_query_type_mode'', ''dns_query_class_mode'']
         @ [kept (FvFlag False) ''dns_answer_enabled'']
         @ map (kept fixedMode) [''dns_answer_ttl_mode'', ''dns_answer_ipv4_mode'']
         @ [forced (FvFlag False) ''dhcp_enabled'']
         @ map (forced fixedMode) dhcpModeFields
         @ unchangedFields stream frameLengthFields
         @ [forced (FvFlag True) ''l4_dst_port_override'', forced (FvNumber 53) ''l4_dst_port'',
            forced (FvFlag False) ''udp_length_override'', forced fixedMode ''udp_length_mode'',
            forced (FvFlag False) ''udp_checksum_override'']))"

definition dnsAnswerSelectionPatch :: "FieldValue \<Rightarrow> EditorStream \<Rightarrow> StreamPatch" where
  "dnsAnswerSelectionPatch enabled stream =
     (let kept = keptField enabled stream; forced = forcedField enabled stream in
      withMinimumLength enabled stream 45
        ([(''dns_answer_enabled'', enabled),
          (''dns_flags'', if fvTruthy enabled \<and> upperText (fvText (stream ''dns_flags'')) = ''0100''
            then FvText ''8180'' else stream ''dns_flags''),
          forced (FvNumber 1) ''dns_query_type'', forced fixedMode ''dns_query_type_mode'',
          forced fixedMode ''dns_query_class_mode'',
          kept fixedMode ''dns_answer_ttl_mode'', kept fixedMode ''dns_answer_ipv4_mode'']
         @ unchangedFields stream frameLengthFields))"

definition dhcpSelectionPatch :: "FieldValue \<Rightarrow> EditorStream \<Rightarrow> StreamPatch" where
  "dhcpSelectionPatch enabled stream =
     (let kept = keptField enabled stream; forced = forcedField enabled stream in
      withMinimumLength enabled stream 300
        ([(''dhcp_enabled'', enabled)]
         @ map (kept fixedMode) dhcpModeFields
         @ [forced (FvFlag False) ''dns_enabled'']
         @ map (forced fixedMode)
             [''dns_transaction_id_mode'', ''dns_flags_mode'', ''dns_query_type_mode'', ''dns_query_class_mode'']
         @ [forced (FvFlag False) ''dns_answer_enabled'']
         @ map (forced fixedMode) [''dns_answer_ttl_mode'', ''dns_answer_ipv4_mode'']
         @ unchangedFields stream frameLengthFields
         @ [forced (FvFlag True) ''l4_src_port_override'', forced (FvNumber 68) ''l4_src_port'',
            forced (FvFlag True) ''l4_dst_port_override'', forced (FvNumber 67) ''l4_dst_port'',
            forced (FvFlag False) ''udp_length_override'', forced fixedMode ''udp_length_mode'',
            forced (FvFlag False) ''udp_checksum_override'']))"

section \<open>Tunnels\<close>

definition vxlanDefaultFrameLength :: int where
  "vxlanDefaultFrameLength = 128"

definition gtpuDefaultFrameLength :: int where
  "gtpuDefaultFrameLength = 96"

definition gtpuInnerIpv6DefaultFrameLength :: int where
  "gtpuInnerIpv6DefaultFrameLength = 116"

definition tunnelDisabledPatch :: StreamPatch where
  "tunnelDisabledPatch =
     (''gtpu_enabled'', FvFlag False)
     # filter (\<lambda>(f, v). f \<noteq> ''gtpu_inner_ip_version'') gtpuResets @ [(''vxlan_enabled'', FvFlag False)]"

text \<open>A frame as long as the tunnel needs: the fields of the lengths, and the ports of the tunnel.\<close>

definition atLeast :: "EditorStream option \<Rightarrow> int \<Rightarrow> FieldValue" where
  "atLeast stream defaultLength =
     maxValue (nullish (streamField stream ''frame_length'') (FvNumber defaultLength)) (FvNumber defaultLength)"

definition fixedFrame :: "EditorStream option \<Rightarrow> int \<Rightarrow> StreamPatch" where
  "fixedFrame stream defaultLength =
     (let frameLength = atLeast stream defaultLength
      in [(''frame_length_type'', fixedMode), (''frame_length'', frameLength),
          (''frame_length_max'', maxValue (nullish (streamField stream ''frame_length_max'') frameLength) frameLength)])"

definition tunnelPorts :: "int \<Rightarrow> int \<Rightarrow> StreamPatch" where
  "tunnelPorts source destination =
     [(''l4_src_port_override'', FvFlag True), (''l4_src_port'', FvNumber source), (''l4_src_port_mode'', fixedMode),
      (''l4_dst_port_override'', FvFlag True), (''l4_dst_port'', FvNumber destination), (''l4_dst_port_mode'', fixedMode)]
     @ udpResets"

definition vxlanSelectionPatch :: "FieldValue \<Rightarrow> EditorStream option \<Rightarrow> StreamPatch" where
  "vxlanSelectionPatch enabled stream =
     (if \<not> fvTruthy enabled then (''vxlan_enabled'', FvFlag False) # vxlanResets
      else
        [(''vxlan_enabled'', FvFlag True), (''gtpu_enabled'', FvFlag False), (''gtpu_sequence_enabled'', FvFlag False),
         (''gtpu_npdu_enabled'', FvFlag False), (''gtpu_extension_enabled'', FvFlag False),
         (''gtpu_sequence_mode'', fixedMode), (''gtpu_npdu_mode'', fixedMode), (''gtpu_extension_udp_port_mode'', fixedMode),
         (''vxlan_inner_ip_version'', nullish (streamField stream ''vxlan_inner_ip_version'') (FvText ''IPv4'')),
         (''packet_type'', FvText ''Ethernet/IPv4/UDP'')]
        @ fixedFrame stream vxlanDefaultFrameLength @ tunnelPorts 1337 4789)"

definition fixedModes :: "string list \<Rightarrow> StreamPatch" where
  "fixedModes fs = map (\<lambda>f. (f, fixedMode)) fs"

definition vxlanInnerIpVersionPatch :: "FieldValue \<Rightarrow> EditorStream option \<Rightarrow> StreamPatch" where
  "vxlanInnerIpVersionPatch version stream =
     (''vxlan_inner_ip_version'', version) # fixedFrame stream vxlanDefaultFrameLength
     @ fixedModes (if version = FvText ''IPv6''
         then [''vxlan_inner_ipv4_src_mode'', ''vxlan_inner_ipv4_dst_mode'', ''vxlan_inner_ipv4_ttl_mode'']
         else [''vxlan_inner_ipv6_src_mode'', ''vxlan_inner_ipv6_dst_mode'', ''vxlan_inner_ipv6_hop_limit_mode''])"

definition gtpuSelectionPatch :: "FieldValue \<Rightarrow> EditorStream option \<Rightarrow> StreamPatch" where
  "gtpuSelectionPatch enabled stream =
     (if \<not> fvTruthy enabled then (''gtpu_enabled'', FvFlag False) # gtpuResets
      else
        [(''gtpu_enabled'', FvFlag True), (''vxlan_enabled'', FvFlag False),
         (''gtpu_inner_ip_version'', nullish (streamField stream ''gtpu_inner_ip_version'') (FvText ''IPv4'')),
         (''packet_type'', FvText ''Ethernet/IPv4/UDP'')]
        @ fixedFrame stream gtpuDefaultFrameLength @ tunnelPorts 2152 2152
        @ (''dns_enabled'', FvFlag False)
          # fixedModes [''dns_transaction_id_mode'', ''dns_flags_mode'', ''dns_query_type_mode'', ''dns_query_class_mode'']
        @ (''dhcp_enabled'', FvFlag False) # fixedModes dhcpModeFields)"

text \<open>An option of the GTP-U header with its mode.\<close>

definition gtpuOptionPatch :: "string \<Rightarrow> string \<Rightarrow> FieldValue \<Rightarrow> EditorStream \<Rightarrow> StreamPatch" where
  "gtpuOptionPatch option modeField enabled stream = [(option, enabled), keptField enabled stream fixedMode modeField]"

definition gtpuSequenceSelectionPatch :: "FieldValue \<Rightarrow> EditorStream \<Rightarrow> StreamPatch" where
  "gtpuSequenceSelectionPatch = gtpuOptionPatch ''gtpu_sequence_enabled'' ''gtpu_sequence_mode''"

definition gtpuNpduSelectionPatch :: "FieldValue \<Rightarrow> EditorStream \<Rightarrow> StreamPatch" where
  "gtpuNpduSelectionPatch = gtpuOptionPatch ''gtpu_npdu_enabled'' ''gtpu_npdu_mode''"

definition gtpuExtensionSelectionPatch :: "FieldValue \<Rightarrow> EditorStream \<Rightarrow> StreamPatch" where
  "gtpuExtensionSelectionPatch = gtpuOptionPatch ''gtpu_extension_enabled'' ''gtpu_extension_udp_port_mode''"

definition gtpuInnerIpVersionPatch :: "FieldValue \<Rightarrow> EditorStream option \<Rightarrow> StreamPatch" where
  "gtpuInnerIpVersionPatch version stream =
     (''gtpu_inner_ip_version'', version)
     # fixedFrame stream (if version = FvText ''IPv6'' then gtpuInnerIpv6DefaultFrameLength else gtpuDefaultFrameLength)
     @ fixedModes (if version = FvText ''IPv6''
         then [''gtpu_inner_ipv4_src_mode'', ''gtpu_inner_ipv4_dst_mode'', ''gtpu_inner_ipv4_ttl_mode'']
         else [''gtpu_inner_ipv6_src_mode'', ''gtpu_inner_ipv6_dst_mode'', ''gtpu_inner_ipv6_hop_limit_mode''])"

definition greInnerIpVersionPatch :: "FieldValue \<Rightarrow> EditorStream option \<Rightarrow> StreamPatch" where
  "greInnerIpVersionPatch version stream =
     (let isIpv6 = version = FvText ''IPv6'';
          kept = (\<lambda>on f. (f, if on then nullish (streamField stream f) fixedMode else fixedMode))
      in [(''frame_length'', atLeast stream (if isIpv6 then 90 else 64)),
          (''gre_inner_ip_version'', version), (''gre_protocol_type'', FvText (if isIpv6 then ''86DD'' else ''0800''))]
         @ map (kept (\<not> isIpv6)) [''gre_inner_ipv4_src_mode'', ''gre_inner_ipv4_dst_mode'', ''gre_inner_ipv4_ttl_mode'']
         @ map (kept isIpv6) [''gre_inner_ipv6_src_mode'', ''gre_inner_ipv6_dst_mode'', ''gre_inner_ipv6_hop_limit_mode''])"

definition greFrame :: "FieldValue \<Rightarrow> EditorStream \<Rightarrow> string \<times> FieldValue" where
  "greFrame enabled stream =
     (''frame_length'', maxValue (stream ''frame_length'') (FvNumber (if fvTruthy enabled then 100 else 96)))"

definition greChecksumSelectionPatch :: "FieldValue \<Rightarrow> EditorStream \<Rightarrow> StreamPatch" where
  "greChecksumSelectionPatch enabled stream =
     [greFrame enabled stream, (''gre_checksum_present'', enabled), keptField enabled stream (FvFlag False) ''gre_checksum_override'']"

definition greKeySelectionPatch :: "FieldValue \<Rightarrow> EditorStream \<Rightarrow> StreamPatch" where
  "greKeySelectionPatch enabled stream =
     [greFrame enabled stream, (''gre_key_present'', enabled), keptField enabled stream fixedMode ''gre_key_mode'']"

definition greSequenceSelectionPatch :: "FieldValue \<Rightarrow> EditorStream \<Rightarrow> StreamPatch" where
  "greSequenceSelectionPatch enabled stream =
     [greFrame enabled stream, (''gre_sequence_present'', enabled), keptField enabled stream fixedMode ''gre_sequence_mode'']"

definition greChecksumInvalidatingModePatch :: "string \<Rightarrow> FieldValue \<Rightarrow> string option \<Rightarrow> StreamPatch" where
  "greChecksumInvalidatingModePatch field mode presenceField =
     [(''gre_checksum_override'', FvFlag False), (''gre_checksum_present'', FvFlag False), (field, mode)]
     @ (case presenceField of None \<Rightarrow> [] | Some f \<Rightarrow> [(f, FvFlag True)])"

section \<open>Checksums that follow a mode\<close>

definition sctpChecksumCoupledModePatch :: "string \<Rightarrow> FieldValue \<Rightarrow> EditorStream \<Rightarrow> StreamPatch" where
  "sctpChecksumCoupledModePatch field mode stream =
     [(''sctp_checksum_override'', if mode = fixedMode then stream ''sctp_checksum_override'' else FvFlag True),
      (''sctp_checksum'', if mode = fixedMode then stream ''sctp_checksum'' else FvText ''00000000''), (field, mode)]"

definition icmpChecksumCoupledModePatch :: "string \<Rightarrow> FieldValue \<Rightarrow> EditorStream \<Rightarrow> StreamPatch" where
  "icmpChecksumCoupledModePatch field mode stream =
     [(''icmp_checksum_override'', if mode = fixedMode then stream ''icmp_checksum_override'' else FvFlag False), (field, mode)]"

definition tcpOptionSelectionPatch :: "string \<Rightarrow> FieldValue \<Rightarrow> StreamPatch" where
  "tcpOptionSelectionPatch option enabled =
     [(if option = ''mss'' then ''tcp_option_mss_enabled''
       else if option = ''window-scale'' then ''tcp_option_window_scale_enabled''
       else if option = ''sack-permitted'' then ''tcp_option_sack_permitted_enabled''
       else if option = ''sack-block'' then ''tcp_option_sack_blocks_enabled''
       else ''tcp_option_timestamp_enabled'', enabled)]"

section \<open>One field of a group\<close>

text \<open>The functions that choose a field of a group by its name, and what an action carries.\<close>

record PatchAction =
  act_kind :: string
  act_fields :: "(string \<times> FieldValue) list"

definition argOf :: "PatchAction \<Rightarrow> string \<Rightarrow> FieldValue" where
  "argOf action f = (case map_of (act_fields action) f of None \<Rightarrow> FvUndefined | Some v \<Rightarrow> v)"

definition chosenField :: "(string \<times> string) list \<Rightarrow> FieldValue \<Rightarrow> FieldValue \<Rightarrow> StreamPatch option" where
  "chosenField names name v = map_option (\<lambda>f. [(f, v)]) (map_of names (fvText name))"


definition dnsNumericPatch :: "FieldValue \<Rightarrow> FieldValue \<Rightarrow> StreamPatch option" where
  "dnsNumericPatch field value' = chosenField
     [(''transaction-id'', ''dns_transaction_id''),
      (''query-type'', ''dns_query_type''),
      (''query-class'', ''dns_query_class''),
      (''answer-ttl'', ''dns_answer_ttl'')]
     field value'"

definition dnsTextPatch :: "FieldValue \<Rightarrow> FieldValue \<Rightarrow> StreamPatch option" where
  "dnsTextPatch field value' = chosenField
     [(''flags'', ''dns_flags''),
      (''query-name'', ''dns_query_name''),
      (''answer-ipv4'', ''dns_answer_ipv4'')]
     field value'"

definition dnsModePatch :: "PatchAction \<Rightarrow> StreamPatch option" where
  "dnsModePatch action = chosenField
     [(''transaction-id'', ''dns_transaction_id_mode''),
      (''flags'', ''dns_flags_mode''),
      (''query-type'', ''dns_query_type_mode''),
      (''query-class'', ''dns_query_class_mode''),
      (''answer-ttl'', ''dns_answer_ttl_mode''),
      (''answer-ipv4'', ''dns_answer_ipv4_mode'')]
     (argOf action ''field'') (argOf action ''mode'')"

definition dnsCountPatch :: "FieldValue \<Rightarrow> FieldValue \<Rightarrow> StreamPatch option" where
  "dnsCountPatch field count = chosenField
     [(''transaction-id'', ''dns_transaction_id_count''),
      (''flags'', ''dns_flags_count''),
      (''query-type'', ''dns_query_type_count''),
      (''query-class'', ''dns_query_class_count''),
      (''answer-ttl'', ''dns_answer_ttl_count''),
      (''answer-ipv4'', ''dns_answer_ipv4_count'')]
     field count"

definition dnsStepPatch :: "FieldValue \<Rightarrow> FieldValue \<Rightarrow> StreamPatch option" where
  "dnsStepPatch field step = chosenField
     [(''transaction-id'', ''dns_transaction_id_step''),
      (''flags'', ''dns_flags_step''),
      (''query-type'', ''dns_query_type_step''),
      (''query-class'', ''dns_query_class_step''),
      (''answer-ttl'', ''dns_answer_ttl_step''),
      (''answer-ipv4'', ''dns_answer_ipv4_step'')]
     field step"

definition dhcpBootpNumericPatch :: "FieldValue \<Rightarrow> FieldValue \<Rightarrow> StreamPatch option" where
  "dhcpBootpNumericPatch field value' = chosenField
     [(''operation'', ''dhcp_operation''),
      (''hops'', ''dhcp_hops''),
      (''seconds'', ''dhcp_seconds''),
      (''message-type'', ''dhcp_message_type''),
      (''xid'', ''dhcp_xid'')]
     field value'"

definition dhcpBootpTextPatch :: "FieldValue \<Rightarrow> FieldValue \<Rightarrow> StreamPatch option" where
  "dhcpBootpTextPatch field value' = chosenField
     [(''flags'', ''dhcp_flags'')]
     field value'"

definition dhcpBootpModePatch :: "PatchAction \<Rightarrow> StreamPatch option" where
  "dhcpBootpModePatch action = chosenField
     [(''operation'', ''dhcp_operation_mode''),
      (''hops'', ''dhcp_hops_mode''),
      (''seconds'', ''dhcp_seconds_mode''),
      (''message-type'', ''dhcp_message_type_mode''),
      (''xid'', ''dhcp_xid_mode''),
      (''flags'', ''dhcp_flags_mode'')]
     (argOf action ''field'') (argOf action ''mode'')"

definition dhcpBootpCountPatch :: "FieldValue \<Rightarrow> FieldValue \<Rightarrow> StreamPatch option" where
  "dhcpBootpCountPatch field count = chosenField
     [(''operation'', ''dhcp_operation_count''),
      (''hops'', ''dhcp_hops_count''),
      (''seconds'', ''dhcp_seconds_count''),
      (''message-type'', ''dhcp_message_type_count''),
      (''xid'', ''dhcp_xid_count''),
      (''flags'', ''dhcp_flags_count'')]
     field count"

definition dhcpBootpStepPatch :: "FieldValue \<Rightarrow> FieldValue \<Rightarrow> StreamPatch option" where
  "dhcpBootpStepPatch field step = chosenField
     [(''operation'', ''dhcp_operation_step''),
      (''hops'', ''dhcp_hops_step''),
      (''seconds'', ''dhcp_seconds_step''),
      (''message-type'', ''dhcp_message_type_step''),
      (''xid'', ''dhcp_xid_step''),
      (''flags'', ''dhcp_flags_step'')]
     field step"

definition dhcpBootpAddressTextPatch :: "FieldValue \<Rightarrow> FieldValue \<Rightarrow> StreamPatch option" where
  "dhcpBootpAddressTextPatch field value' = chosenField
     [(''client-ip'', ''dhcp_client_ip''),
      (''your-ip'', ''dhcp_your_ip''),
      (''server-ip'', ''dhcp_server_ip''),
      (''relay-ip'', ''dhcp_relay_ip''),
      (''client-mac'', ''dhcp_client_mac'')]
     field value'"

definition dhcpBootpAddressModePatch :: "PatchAction \<Rightarrow> StreamPatch option" where
  "dhcpBootpAddressModePatch action = chosenField
     [(''client-ip'', ''dhcp_client_ip_mode''),
      (''your-ip'', ''dhcp_your_ip_mode''),
      (''server-ip'', ''dhcp_server_ip_mode''),
      (''relay-ip'', ''dhcp_relay_ip_mode''),
      (''client-mac'', ''dhcp_client_mac_mode'')]
     (argOf action ''field'') (argOf action ''mode'')"

definition dhcpBootpAddressCountPatch :: "FieldValue \<Rightarrow> FieldValue \<Rightarrow> StreamPatch option" where
  "dhcpBootpAddressCountPatch field count = chosenField
     [(''client-ip'', ''dhcp_client_ip_count''),
      (''your-ip'', ''dhcp_your_ip_count''),
      (''server-ip'', ''dhcp_server_ip_count''),
      (''relay-ip'', ''dhcp_relay_ip_count''),
      (''client-mac'', ''dhcp_client_mac_count'')]
     field count"

definition dhcpBootpAddressStepPatch :: "FieldValue \<Rightarrow> FieldValue \<Rightarrow> StreamPatch option" where
  "dhcpBootpAddressStepPatch field step = chosenField
     [(''client-ip'', ''dhcp_client_ip_step''),
      (''your-ip'', ''dhcp_your_ip_step''),
      (''server-ip'', ''dhcp_server_ip_step''),
      (''relay-ip'', ''dhcp_relay_ip_step''),
      (''client-mac'', ''dhcp_client_mac_step'')]
     field step"

definition dhcpOptionTextPatch :: "FieldValue \<Rightarrow> FieldValue \<Rightarrow> StreamPatch option" where
  "dhcpOptionTextPatch field value' = chosenField
     [(''hostname'', ''dhcp_hostname''),
      (''parameter-request-list'', ''dhcp_parameter_request_list'')]
     field value'"

definition dhcpOptionTimerNumericPatch :: "FieldValue \<Rightarrow> FieldValue \<Rightarrow> StreamPatch option" where
  "dhcpOptionTimerNumericPatch field value' = chosenField
     [(''lease-time'', ''dhcp_lease_time''),
      (''renewal-time'', ''dhcp_renewal_time''),
      (''rebinding-time'', ''dhcp_rebinding_time'')]
     field value'"

definition dhcpOptionTimerModePatch :: "PatchAction \<Rightarrow> StreamPatch option" where
  "dhcpOptionTimerModePatch action = chosenField
     [(''lease-time'', ''dhcp_lease_time_mode''),
      (''renewal-time'', ''dhcp_renewal_time_mode''),
      (''rebinding-time'', ''dhcp_rebinding_time_mode'')]
     (argOf action ''field'') (argOf action ''mode'')"

definition dhcpOptionTimerCountPatch :: "FieldValue \<Rightarrow> FieldValue \<Rightarrow> StreamPatch option" where
  "dhcpOptionTimerCountPatch field count = chosenField
     [(''lease-time'', ''dhcp_lease_time_count''),
      (''renewal-time'', ''dhcp_renewal_time_count''),
      (''rebinding-time'', ''dhcp_rebinding_time_count'')]
     field count"

definition dhcpOptionTimerStepPatch :: "FieldValue \<Rightarrow> FieldValue \<Rightarrow> StreamPatch option" where
  "dhcpOptionTimerStepPatch field step = chosenField
     [(''lease-time'', ''dhcp_lease_time_step''),
      (''renewal-time'', ''dhcp_renewal_time_step''),
      (''rebinding-time'', ''dhcp_rebinding_time_step'')]
     field step"

definition dhcpOptionAddressTextPatch :: "FieldValue \<Rightarrow> FieldValue \<Rightarrow> StreamPatch option" where
  "dhcpOptionAddressTextPatch field value' = chosenField
     [(''requested-ip'', ''dhcp_requested_ip''),
      (''server-id'', ''dhcp_server_id'')]
     field value'"

definition dhcpOptionAddressModePatch :: "PatchAction \<Rightarrow> StreamPatch option" where
  "dhcpOptionAddressModePatch action = chosenField
     [(''requested-ip'', ''dhcp_requested_ip_mode''),
      (''server-id'', ''dhcp_server_id_mode'')]
     (argOf action ''field'') (argOf action ''mode'')"

definition dhcpOptionAddressCountPatch :: "FieldValue \<Rightarrow> FieldValue \<Rightarrow> StreamPatch option" where
  "dhcpOptionAddressCountPatch field count = chosenField
     [(''requested-ip'', ''dhcp_requested_ip_count''),
      (''server-id'', ''dhcp_server_id_count'')]
     field count"

definition dhcpOptionAddressStepPatch :: "FieldValue \<Rightarrow> FieldValue \<Rightarrow> StreamPatch option" where
  "dhcpOptionAddressStepPatch field step = chosenField
     [(''requested-ip'', ''dhcp_requested_ip_step''),
      (''server-id'', ''dhcp_server_id_step'')]
     field step"

definition sctpNumericPatch :: "FieldValue \<Rightarrow> FieldValue \<Rightarrow> StreamPatch option" where
  "sctpNumericPatch field value' = chosenField
     [(''verification-tag'', ''sctp_verification_tag''),
      (''data-flags'', ''sctp_data_flags''),
      (''tsn'', ''sctp_tsn''),
      (''stream-id'', ''sctp_stream_id''),
      (''stream-sequence'', ''sctp_stream_sequence''),
      (''payload-protocol-id'', ''sctp_payload_protocol_id'')]
     field value'"

definition sctpModePatch :: "PatchAction \<Rightarrow> EditorStream \<Rightarrow> StreamPatch option" where
  "sctpModePatch action stream =
     map_option (\<lambda>f. sctpChecksumCoupledModePatch f (argOf action ''mode'') stream)
       (map_of
        [(''verification-tag'', ''sctp_verification_tag_mode''),
         (''data-flags'', ''sctp_data_flags_mode''),
         (''tsn'', ''sctp_tsn_mode''),
         (''stream-id'', ''sctp_stream_id_mode''),
         (''stream-sequence'', ''sctp_stream_sequence_mode''),
         (''payload-protocol-id'', ''sctp_payload_protocol_id_mode'')]
        (fvText (argOf action ''field'')))"

definition sctpCountPatch :: "FieldValue \<Rightarrow> FieldValue \<Rightarrow> StreamPatch option" where
  "sctpCountPatch field count = chosenField
     [(''verification-tag'', ''sctp_verification_tag_count''),
      (''data-flags'', ''sctp_data_flags_count''),
      (''tsn'', ''sctp_tsn_count''),
      (''stream-id'', ''sctp_stream_id_count''),
      (''stream-sequence'', ''sctp_stream_sequence_count''),
      (''payload-protocol-id'', ''sctp_payload_protocol_id_count'')]
     field count"

definition sctpStepPatch :: "FieldValue \<Rightarrow> FieldValue \<Rightarrow> StreamPatch option" where
  "sctpStepPatch field step = chosenField
     [(''verification-tag'', ''sctp_verification_tag_step''),
      (''data-flags'', ''sctp_data_flags_step''),
      (''tsn'', ''sctp_tsn_step''),
      (''stream-id'', ''sctp_stream_id_step''),
      (''stream-sequence'', ''sctp_stream_sequence_step''),
      (''payload-protocol-id'', ''sctp_payload_protocol_id_step'')]
     field step"

definition tcpCoreNumericPatch :: "FieldValue \<Rightarrow> FieldValue \<Rightarrow> StreamPatch option" where
  "tcpCoreNumericPatch field value' = chosenField
     [(''sequence'', ''tcp_sequence_number''),
      (''acknowledge'', ''tcp_ack_number''),
      (''window'', ''tcp_window''),
      (''urgent-pointer'', ''tcp_urgent_pointer'')]
     field value'"

definition tcpCoreModePatch :: "PatchAction \<Rightarrow> StreamPatch option" where
  "tcpCoreModePatch action = chosenField
     [(''sequence'', ''tcp_sequence_mode''),
      (''acknowledge'', ''tcp_ack_mode''),
      (''window'', ''tcp_window_mode''),
      (''checksum'', ''tcp_checksum_mode''),
      (''urgent-pointer'', ''tcp_urgent_pointer_mode''),
      (''flags'', ''tcp_flags_mode'')]
     (argOf action ''field'') (argOf action ''mode'')"

definition tcpCoreCountPatch :: "FieldValue \<Rightarrow> FieldValue \<Rightarrow> StreamPatch option" where
  "tcpCoreCountPatch field count = chosenField
     [(''sequence'', ''tcp_sequence_count''),
      (''acknowledge'', ''tcp_ack_count''),
      (''window'', ''tcp_window_count''),
      (''checksum'', ''tcp_checksum_count''),
      (''urgent-pointer'', ''tcp_urgent_pointer_count''),
      (''flags'', ''tcp_flags_count'')]
     field count"

definition tcpCoreStepPatch :: "FieldValue \<Rightarrow> FieldValue \<Rightarrow> StreamPatch option" where
  "tcpCoreStepPatch field step = chosenField
     [(''sequence'', ''tcp_sequence_step''),
      (''acknowledge'', ''tcp_ack_step''),
      (''window'', ''tcp_window_step''),
      (''checksum'', ''tcp_checksum_step''),
      (''urgent-pointer'', ''tcp_urgent_pointer_step''),
      (''flags'', ''tcp_flags_step'')]
     field step"

definition tcpFlagPatch :: "FieldValue \<Rightarrow> FieldValue \<Rightarrow> StreamPatch" where
  "tcpFlagPatch flag checked = [(fvText flag, checked)]"

definition tcpOptionNumericPatch :: "FieldValue \<Rightarrow> FieldValue \<Rightarrow> StreamPatch option" where
  "tcpOptionNumericPatch field value' = chosenField
     [(''mss'', ''tcp_option_mss''),
      (''window-scale'', ''tcp_option_window_scale''),
      (''sack-left-edge'', ''tcp_option_sack_left_edge''),
      (''sack-right-edge'', ''tcp_option_sack_right_edge''),
      (''timestamp-value'', ''tcp_option_timestamp_value''),
      (''timestamp-echo'', ''tcp_option_timestamp_echo'')]
     field value'"

definition tcpOptionModePatch :: "PatchAction \<Rightarrow> StreamPatch option" where
  "tcpOptionModePatch action = chosenField
     [(''mss'', ''tcp_option_mss_mode''),
      (''window-scale'', ''tcp_option_window_scale_mode''),
      (''sack-left-edge'', ''tcp_option_sack_left_edge_mode''),
      (''sack-right-edge'', ''tcp_option_sack_right_edge_mode''),
      (''timestamp-value'', ''tcp_option_timestamp_value_mode''),
      (''timestamp-echo'', ''tcp_option_timestamp_echo_mode'')]
     (argOf action ''field'') (argOf action ''mode'')"

definition tcpOptionCountPatch :: "FieldValue \<Rightarrow> FieldValue \<Rightarrow> StreamPatch option" where
  "tcpOptionCountPatch field count = chosenField
     [(''mss'', ''tcp_option_mss_count''),
      (''window-scale'', ''tcp_option_window_scale_count''),
      (''sack-left-edge'', ''tcp_option_sack_left_edge_count''),
      (''sack-right-edge'', ''tcp_option_sack_right_edge_count''),
      (''timestamp-value'', ''tcp_option_timestamp_value_count''),
      (''timestamp-echo'', ''tcp_option_timestamp_echo_count'')]
     field count"

definition tcpOptionStepPatch :: "FieldValue \<Rightarrow> FieldValue \<Rightarrow> StreamPatch option" where
  "tcpOptionStepPatch field step = chosenField
     [(''mss'', ''tcp_option_mss_step''),
      (''window-scale'', ''tcp_option_window_scale_step''),
      (''sack-left-edge'', ''tcp_option_sack_left_edge_step''),
      (''sack-right-edge'', ''tcp_option_sack_right_edge_step''),
      (''timestamp-value'', ''tcp_option_timestamp_value_step''),
      (''timestamp-echo'', ''tcp_option_timestamp_echo_step'')]
     field step"

section \<open>The switch over the actions\<close>

text \<open>Most cases set one field to what the action carries; the others call a function above.\<close>

datatype PatchCase =
    Sets string string
  | Calls "PatchAction \<Rightarrow> EditorStream option \<Rightarrow> StreamPatch option"

fun runPatchCase :: "PatchCase \<Rightarrow> PatchAction \<Rightarrow> EditorStream option \<Rightarrow> StreamPatch option" where
  "runPatchCase (Sets f arg) action stream = Some [(f, argOf action arg)]"
| "runPatchCase (Calls g) action stream = g action stream"

definition sendingCases :: "(string \<times> PatchCase) list" where
  "sendingCases =
     [(''stream-mode'', Calls (\<lambda>a s. Some (streamModePatch (argOf a ''mode'') s))),
      (''stream-enabled'', Sets ''enabled'' ''enabled''),
      (''self-start'', Sets ''self_start'' ''selfStart''),
      (''total-packets'', Sets ''total_pkts'' ''totalPackets''),
      (''burst-count'', Sets ''count'' ''count''),
      (''packets-per-burst'', Sets ''pkts_per_burst'' ''packetsPerBurst''),
      (''rate-type'', Sets ''rate_type'' ''rateType''),
      (''rate-value'', Sets ''rate_value'' ''rateValue''),
      (''after-stream-stop'', Calls (\<lambda>a s. Some (afterStreamStopPatch))),
      (''after-stream-goto'', Calls (\<lambda>a s. Option.bind s (\<lambda>st. Some (afterStreamGotoPatch st)))),
      (''next-stream'', Calls (\<lambda>a s. Some (nextStreamSelectionPatch (argOf a ''nextStreamId'')))),
      (''loop-action-count-enabled'', Calls (\<lambda>a s. Option.bind s (\<lambda>st. Some (loopActionCountEnabledPatch (argOf a ''enabled'') st)))),
      (''loop-action-count'', Sets ''action_count'' ''actionCount''),
      (''isg'', Sets ''isg'' ''isg''),
      (''ibg'', Sets ''ibg'' ''ibg''),
      (''flow-stats-enabled'', Sets ''flow_stats_enabled'' ''enabled''),
      (''pg-id'', Sets ''pg_id'' ''pgId''),
      (''latency-enabled'', Sets ''latency_enabled'' ''enabled''),
      (''stream-name'', Sets ''name'' ''name''),
      (''packet-frame-length'', Calls (\<lambda>a s. Some (frameLengthValuePatch (argOf a ''frameLength'')))),
      (''frame-length-min'', Calls (\<lambda>a s. Some (frameLengthMinPatch (argOf a ''frameLengthMin'')))),
      (''frame-length-max'', Calls (\<lambda>a s. Some (frameLengthMaxPatch (argOf a ''frameLengthMax''))))]"

definition ethernetCases :: "(string \<times> PatchCase) list" where
  "ethernetCases =
     [(''ether-type-override'', Sets ''ether_type_override'' ''override''),
      (''ether-type'', Sets ''ether_type'' ''etherType''),
      (''ether-dst'', Sets ''ether_dst'' ''address''),
      (''ether-dst-mode'', Sets ''ether_dst_mode'' ''mode''),
      (''ether-dst-count'', Sets ''ether_dst_count'' ''count''),
      (''ether-dst-step'', Sets ''ether_dst_step'' ''step''),
      (''ether-src'', Sets ''ether_src'' ''address''),
      (''ether-src-mode'', Sets ''ether_src_mode'' ''mode''),
      (''ether-src-count'', Sets ''ether_src_count'' ''count''),
      (''ether-src-step'', Sets ''ether_src_step'' ''step''),
      (''arp-hardware-type'', Sets ''arp_hardware_type'' ''value''),
      (''arp-protocol-type'', Sets ''arp_protocol_type'' ''value''),
      (''arp-hardware-size'', Sets ''arp_hardware_size'' ''value''),
      (''arp-protocol-size'', Sets ''arp_protocol_size'' ''value''),
      (''arp-operation'', Sets ''arp_operation'' ''value''),
      (''arp-operation-mode'', Sets ''arp_operation_mode'' ''mode''),
      (''arp-operation-count'', Sets ''arp_operation_count'' ''count''),
      (''arp-operation-step'', Sets ''arp_operation_step'' ''step''),
      (''arp-sender-mac'', Sets ''arp_sender_mac'' ''value''),
      (''arp-sender-mac-mode'', Sets ''arp_sender_mac_mode'' ''mode''),
      (''arp-sender-mac-count'', Sets ''arp_sender_mac_count'' ''count''),
      (''arp-sender-mac-step'', Sets ''arp_sender_mac_step'' ''step''),
      (''arp-sender-ip'', Sets ''arp_sender_ip'' ''value''),
      (''arp-sender-ip-mode'', Sets ''arp_sender_ip_mode'' ''mode''),
      (''arp-sender-ip-count'', Sets ''arp_sender_ip_count'' ''count''),
      (''arp-sender-ip-step'', Sets ''arp_sender_ip_step'' ''step''),
      (''arp-target-mac'', Sets ''arp_target_mac'' ''value''),
      (''arp-target-mac-mode'', Sets ''arp_target_mac_mode'' ''mode''),
      (''arp-target-mac-count'', Sets ''arp_target_mac_count'' ''count''),
      (''arp-target-mac-step'', Sets ''arp_target_mac_step'' ''step''),
      (''arp-target-ip'', Sets ''arp_target_ip'' ''value''),
      (''arp-target-ip-mode'', Sets ''arp_target_ip_mode'' ''mode''),
      (''arp-target-ip-count'', Sets ''arp_target_ip_count'' ''count''),
      (''arp-target-ip-step'', Sets ''arp_target_ip_step'' ''step'')]"

definition ipv4Cases :: "(string \<times> PatchCase) list" where
  "ipv4Cases =
     [(''ipv4-dst'', Sets ''ipv4_dst'' ''address''),
      (''ipv4-dst-mode'', Sets ''ipv4_dst_mode'' ''mode''),
      (''ipv4-dst-count'', Sets ''ipv4_dst_count'' ''count''),
      (''ipv4-dst-step'', Sets ''ipv4_dst_step'' ''step''),
      (''ipv4-src'', Sets ''ipv4_src'' ''address''),
      (''ipv4-src-mode'', Sets ''ipv4_src_mode'' ''mode''),
      (''ipv4-src-count'', Sets ''ipv4_src_count'' ''count''),
      (''ipv4-src-step'', Sets ''ipv4_src_step'' ''step''),
      (''ipv4-dscp'', Sets ''ipv4_dscp'' ''dscp''),
      (''ipv4-dscp-mode'', Sets ''ipv4_dscp_mode'' ''mode''),
      (''ipv4-dscp-count'', Sets ''ipv4_dscp_count'' ''count''),
      (''ipv4-dscp-step'', Sets ''ipv4_dscp_step'' ''step''),
      (''ipv4-ecn'', Sets ''ipv4_ecn'' ''ecn''),
      (''ipv4-ecn-mode'', Sets ''ipv4_ecn_mode'' ''mode''),
      (''ipv4-ecn-count'', Sets ''ipv4_ecn_count'' ''count''),
      (''ipv4-ecn-step'', Sets ''ipv4_ecn_step'' ''step''),
      (''ipv4-identification'', Sets ''ipv4_id'' ''identification''),
      (''ipv4-identification-mode'', Sets ''ipv4_id_mode'' ''mode''),
      (''ipv4-identification-count'', Sets ''ipv4_id_count'' ''count''),
      (''ipv4-identification-step'', Sets ''ipv4_id_step'' ''step''),
      (''ipv4-df-flag'', Sets ''ipv4_flag_df'' ''enabled''),
      (''ipv4-mf-flag'', Sets ''ipv4_flag_mf'' ''enabled''),
      (''ipv4-fragment-offset'', Sets ''ipv4_fragment_offset'' ''fragmentOffset''),
      (''ipv4-fragment-offset-mode'', Sets ''ipv4_fragment_offset_mode'' ''mode''),
      (''ipv4-fragment-offset-count'', Sets ''ipv4_fragment_offset_count'' ''count''),
      (''ipv4-fragment-offset-step'', Sets ''ipv4_fragment_offset_step'' ''step''),
      (''ipv4-ttl'', Sets ''ipv4_ttl'' ''ttl''),
      (''ipv4-ttl-mode'', Sets ''ipv4_ttl_mode'' ''mode''),
      (''ipv4-ttl-count'', Sets ''ipv4_ttl_count'' ''count''),
      (''ipv4-ttl-step'', Sets ''ipv4_ttl_step'' ''step''),
      (''ipv4-checksum-override'', Sets ''ipv4_checksum_override'' ''override''),
      (''ipv4-checksum'', Sets ''ipv4_checksum'' ''checksum'')]"

definition ipv6Cases :: "(string \<times> PatchCase) list" where
  "ipv6Cases =
     [(''ipv6-dst'', Sets ''ipv6_dst'' ''address''),
      (''ipv6-dst-mode'', Sets ''ipv6_dst_mode'' ''mode''),
      (''ipv6-dst-count'', Sets ''ipv6_dst_count'' ''count''),
      (''ipv6-dst-step'', Sets ''ipv6_dst_step'' ''step''),
      (''ipv6-src'', Sets ''ipv6_src'' ''address''),
      (''ipv6-src-mode'', Sets ''ipv6_src_mode'' ''mode''),
      (''ipv6-src-count'', Sets ''ipv6_src_count'' ''count''),
      (''ipv6-src-step'', Sets ''ipv6_src_step'' ''step''),
      (''ipv6-traffic-class'', Sets ''ipv6_traffic_class'' ''trafficClass''),
      (''ipv6-traffic-class-mode'', Sets ''ipv6_traffic_class_mode'' ''mode''),
      (''ipv6-traffic-class-count'', Sets ''ipv6_traffic_class_count'' ''count''),
      (''ipv6-traffic-class-step'', Sets ''ipv6_traffic_class_step'' ''step''),
      (''ipv6-flow-label'', Sets ''ipv6_flow_label'' ''flowLabel''),
      (''ipv6-flow-label-mode'', Sets ''ipv6_flow_label_mode'' ''mode''),
      (''ipv6-flow-label-count'', Sets ''ipv6_flow_label_count'' ''count''),
      (''ipv6-flow-label-step'', Sets ''ipv6_flow_label_step'' ''step''),
      (''ipv6-hop-limit'', Sets ''ipv6_hop_limit'' ''hopLimit''),
      (''ipv6-hop-limit-mode'', Sets ''ipv6_hop_limit_mode'' ''mode''),
      (''ipv6-hop-limit-count'', Sets ''ipv6_hop_limit_count'' ''count''),
      (''ipv6-hop-limit-step'', Sets ''ipv6_hop_limit_step'' ''step'')]"

definition vlanCases :: "(string \<times> PatchCase) list" where
  "vlanCases =
     [(''vlan-selection'', Calls (\<lambda>a s. Some (vlanSelectionPatch (argOf a ''enabled'')))),
      (''vlan-tpid-override'', Sets ''vlan_tpid_override'' ''override''),
      (''vlan-tpid'', Sets ''vlan_tpid'' ''tpid''),
      (''vlan-priority'', Sets ''vlan_priority'' ''priority''),
      (''vlan-priority-mode'', Sets ''vlan_priority_mode'' ''mode''),
      (''vlan-priority-count'', Sets ''vlan_priority_count'' ''count''),
      (''vlan-priority-step'', Sets ''vlan_priority_step'' ''step''),
      (''vlan-cfi'', Sets ''vlan_cfi'' ''cfi''),
      (''vlan-id'', Sets ''vlan_id'' ''vlanId''),
      (''vlan-id-mode'', Sets ''vlan_id_mode'' ''mode''),
      (''vlan-id-count'', Sets ''vlan_id_count'' ''count''),
      (''vlan-id-step'', Sets ''vlan_id_step'' ''step''),
      (''vlan-inner-selection'', Calls (\<lambda>a s. Option.bind s (\<lambda>st. Some (vlanInnerTagSelectionPatch (argOf a ''enabled'') st)))),
      (''vlan-inner-tpid-override'', Sets ''vlan2_tpid_override'' ''override''),
      (''vlan-inner-tpid'', Sets ''vlan2_tpid'' ''tpid''),
      (''vlan-inner-priority'', Sets ''vlan2_priority'' ''priority''),
      (''vlan-inner-priority-mode'', Sets ''vlan2_priority_mode'' ''mode''),
      (''vlan-inner-priority-count'', Sets ''vlan2_priority_count'' ''count''),
      (''vlan-inner-priority-step'', Sets ''vlan2_priority_step'' ''step''),
      (''vlan-inner-cfi'', Sets ''vlan2_cfi'' ''cfi''),
      (''vlan-inner-id'', Sets ''vlan2_id'' ''vlanId''),
      (''vlan-inner-id-mode'', Sets ''vlan2_id_mode'' ''mode''),
      (''vlan-inner-id-count'', Sets ''vlan2_id_count'' ''count''),
      (''vlan-inner-id-step'', Sets ''vlan2_id_step'' ''step'')]"

definition mplsCases :: "(string \<times> PatchCase) list" where
  "mplsCases =
     [(''mpls-selection'', Calls (\<lambda>a s. Some (mplsSelectionPatch (argOf a ''enabled'')))),
      (''mpls-label'', Sets ''mpls_label'' ''label''),
      (''mpls-label-mode'', Sets ''mpls_label_mode'' ''mode''),
      (''mpls-label-count'', Sets ''mpls_label_count'' ''count''),
      (''mpls-label-step'', Sets ''mpls_label_step'' ''step''),
      (''mpls-traffic-class'', Sets ''mpls_tc'' ''trafficClass''),
      (''mpls-traffic-class-mode'', Sets ''mpls_tc_mode'' ''mode''),
      (''mpls-traffic-class-count'', Sets ''mpls_tc_count'' ''count''),
      (''mpls-traffic-class-step'', Sets ''mpls_tc_step'' ''step''),
      (''mpls-ttl'', Sets ''mpls_ttl'' ''ttl''),
      (''mpls-ttl-mode'', Sets ''mpls_ttl_mode'' ''mode''),
      (''mpls-ttl-count'', Sets ''mpls_ttl_count'' ''count''),
      (''mpls-ttl-step'', Sets ''mpls_ttl_step'' ''step''),
      (''mpls-second-label-selection'', Calls (\<lambda>a s. Option.bind s (\<lambda>st. Some (mplsSecondLabelSelectionPatch (argOf a ''enabled'') st)))),
      (''mpls-second-label'', Sets ''mpls_label2'' ''label''),
      (''mpls-second-label-mode'', Sets ''mpls_label2_mode'' ''mode''),
      (''mpls-second-label-count'', Sets ''mpls_label2_count'' ''count''),
      (''mpls-second-label-step'', Sets ''mpls_label2_step'' ''step''),
      (''mpls-second-traffic-class'', Sets ''mpls_label2_tc'' ''trafficClass''),
      (''mpls-second-traffic-class-mode'', Sets ''mpls_label2_tc_mode'' ''mode''),
      (''mpls-second-traffic-class-count'', Sets ''mpls_label2_tc_count'' ''count''),
      (''mpls-second-traffic-class-step'', Sets ''mpls_label2_tc_step'' ''step''),
      (''mpls-second-ttl'', Sets ''mpls_label2_ttl'' ''ttl''),
      (''mpls-second-ttl-mode'', Sets ''mpls_label2_ttl_mode'' ''mode''),
      (''mpls-second-ttl-count'', Sets ''mpls_label2_ttl_count'' ''count''),
      (''mpls-second-ttl-step'', Sets ''mpls_label2_ttl_step'' ''step''),
      (''mpls-third-label-selection'', Calls (\<lambda>a s. Option.bind s (\<lambda>st. Some (mplsThirdLabelSelectionPatch (argOf a ''enabled'') st)))),
      (''mpls-third-label'', Sets ''mpls_label3'' ''label''),
      (''mpls-third-label-mode'', Sets ''mpls_label3_mode'' ''mode''),
      (''mpls-third-label-count'', Sets ''mpls_label3_count'' ''count''),
      (''mpls-third-label-step'', Sets ''mpls_label3_step'' ''step''),
      (''mpls-third-traffic-class'', Sets ''mpls_label3_tc'' ''trafficClass''),
      (''mpls-third-traffic-class-mode'', Sets ''mpls_label3_tc_mode'' ''mode''),
      (''mpls-third-traffic-class-count'', Sets ''mpls_label3_tc_count'' ''count''),
      (''mpls-third-traffic-class-step'', Sets ''mpls_label3_tc_step'' ''step''),
      (''mpls-third-ttl'', Sets ''mpls_label3_ttl'' ''ttl''),
      (''mpls-third-ttl-mode'', Sets ''mpls_label3_ttl_mode'' ''mode''),
      (''mpls-third-ttl-count'', Sets ''mpls_label3_ttl_count'' ''count''),
      (''mpls-third-ttl-step'', Sets ''mpls_label3_ttl_step'' ''step'')]"

definition transportCases :: "(string \<times> PatchCase) list" where
  "transportCases =
     [(''tunnel-selection'', Calls (\<lambda>a s.
         Some (if argOf a ''tunnel'' = FvText ''none'' then tunnelDisabledPatch
           else if argOf a ''tunnel'' = FvText ''vxlan'' then vxlanSelectionPatch (FvFlag True) s
           else gtpuSelectionPatch (FvFlag True) s))),
      (''l3-selection'', Calls (\<lambda>a s. Option.bind s (\<lambda>st. packetTypePatch (packetTypeForL3Selection (fvText (argOf a ''selection'')) st) (Some st)))),
      (''l4-selection'', Calls (\<lambda>a s. Option.bind s (\<lambda>st. packetTypePatch (packetTypeForL4Selection (fvText (argOf a ''selection'')) st) (Some st)))),
      (''l4-src-port-override-selection'', Calls (\<lambda>a s. Option.bind s (\<lambda>st. Some (l4PortOverrideSelectionPatch ''source'' (argOf a ''enabled'') st)))),
      (''l4-src-port'', Sets ''l4_src_port'' ''port''),
      (''l4-src-port-mode'', Sets ''l4_src_port_mode'' ''mode''),
      (''l4-src-port-count'', Sets ''l4_src_port_count'' ''count''),
      (''l4-src-port-step'', Sets ''l4_src_port_step'' ''step''),
      (''l4-dst-port-override-selection'', Calls (\<lambda>a s. Option.bind s (\<lambda>st. Some (l4PortOverrideSelectionPatch ''destination'' (argOf a ''enabled'') st)))),
      (''l4-dst-port'', Sets ''l4_dst_port'' ''port''),
      (''l4-dst-port-mode'', Sets ''l4_dst_port_mode'' ''mode''),
      (''l4-dst-port-count'', Sets ''l4_dst_port_count'' ''count''),
      (''l4-dst-port-step'', Sets ''l4_dst_port_step'' ''step''),
      (''udp-length-override-selection'', Calls (\<lambda>a s. Option.bind s (\<lambda>st. Some (udpLengthOverrideSelectionPatch (argOf a ''enabled'') st)))),
      (''udp-length'', Sets ''udp_length'' ''length''),
      (''udp-length-mode'', Sets ''udp_length_mode'' ''mode''),
      (''udp-length-count'', Sets ''udp_length_count'' ''count''),
      (''udp-length-step'', Sets ''udp_length_step'' ''step''),
      (''udp-checksum-override'', Sets ''udp_checksum_override'' ''override''),
      (''udp-checksum'', Sets ''udp_checksum'' ''checksum''),
      (''udp-checksum-mode'', Sets ''udp_checksum_mode'' ''mode''),
      (''udp-checksum-count'', Sets ''udp_checksum_count'' ''count''),
      (''udp-checksum-step'', Sets ''udp_checksum_step'' ''step'')]"

definition applicationCases :: "(string \<times> PatchCase) list" where
  "applicationCases =
     [(''dns-selection'', Calls (\<lambda>a s. Option.bind s (\<lambda>st. Some (dnsSelectionPatch (argOf a ''enabled'') st)))),
      (''dns-answer-selection'', Calls (\<lambda>a s. Option.bind s (\<lambda>st. Some (dnsAnswerSelectionPatch (argOf a ''enabled'') st)))),
      (''dns-number'', Calls (\<lambda>a s. dnsNumericPatch (argOf a ''field'') (argOf a ''value''))),
      (''dns-text'', Calls (\<lambda>a s. dnsTextPatch (argOf a ''field'') (argOf a ''value''))),
      (''dns-mode'', Calls (\<lambda>a s. dnsModePatch a)),
      (''dns-count'', Calls (\<lambda>a s. dnsCountPatch (argOf a ''field'') (argOf a ''count''))),
      (''dns-step'', Calls (\<lambda>a s. dnsStepPatch (argOf a ''field'') (argOf a ''step''))),
      (''dhcp-selection'', Calls (\<lambda>a s. Option.bind s (\<lambda>st. Some (dhcpSelectionPatch (argOf a ''enabled'') st)))),
      (''dhcp-bootp-number'', Calls (\<lambda>a s. dhcpBootpNumericPatch (argOf a ''field'') (argOf a ''value''))),
      (''dhcp-bootp-text'', Calls (\<lambda>a s. dhcpBootpTextPatch (argOf a ''field'') (argOf a ''value''))),
      (''dhcp-bootp-mode'', Calls (\<lambda>a s. dhcpBootpModePatch a)),
      (''dhcp-bootp-count'', Calls (\<lambda>a s. dhcpBootpCountPatch (argOf a ''field'') (argOf a ''count''))),
      (''dhcp-bootp-step'', Calls (\<lambda>a s. dhcpBootpStepPatch (argOf a ''field'') (argOf a ''step''))),
      (''dhcp-bootp-address-text'', Calls (\<lambda>a s. dhcpBootpAddressTextPatch (argOf a ''field'') (argOf a ''value''))),
      (''dhcp-bootp-address-mode'', Calls (\<lambda>a s. dhcpBootpAddressModePatch a)),
      (''dhcp-bootp-address-count'', Calls (\<lambda>a s. dhcpBootpAddressCountPatch (argOf a ''field'') (argOf a ''count''))),
      (''dhcp-bootp-address-step'', Calls (\<lambda>a s. dhcpBootpAddressStepPatch (argOf a ''field'') (argOf a ''step''))),
      (''dhcp-option-text'', Calls (\<lambda>a s. dhcpOptionTextPatch (argOf a ''field'') (argOf a ''value''))),
      (''dhcp-option-timer-number'', Calls (\<lambda>a s. dhcpOptionTimerNumericPatch (argOf a ''field'') (argOf a ''value''))),
      (''dhcp-option-timer-mode'', Calls (\<lambda>a s. dhcpOptionTimerModePatch a)),
      (''dhcp-option-timer-count'', Calls (\<lambda>a s. dhcpOptionTimerCountPatch (argOf a ''field'') (argOf a ''count''))),
      (''dhcp-option-timer-step'', Calls (\<lambda>a s. dhcpOptionTimerStepPatch (argOf a ''field'') (argOf a ''step''))),
      (''dhcp-option-address-text'', Calls (\<lambda>a s. dhcpOptionAddressTextPatch (argOf a ''field'') (argOf a ''value''))),
      (''dhcp-option-address-mode'', Calls (\<lambda>a s. dhcpOptionAddressModePatch a)),
      (''dhcp-option-address-count'', Calls (\<lambda>a s. dhcpOptionAddressCountPatch (argOf a ''field'') (argOf a ''count''))),
      (''dhcp-option-address-step'', Calls (\<lambda>a s. dhcpOptionAddressStepPatch (argOf a ''field'') (argOf a ''step'')))]"

definition segmentCases :: "(string \<times> PatchCase) list" where
  "segmentCases =
     [(''sctp-number'', Calls (\<lambda>a s. sctpNumericPatch (argOf a ''field'') (argOf a ''value''))),
      (''sctp-mode'', Calls (\<lambda>a s. Option.bind s (\<lambda>st. sctpModePatch a st))),
      (''sctp-count'', Calls (\<lambda>a s. sctpCountPatch (argOf a ''field'') (argOf a ''count''))),
      (''sctp-step'', Calls (\<lambda>a s. sctpStepPatch (argOf a ''field'') (argOf a ''step''))),
      (''sctp-checksum-override'', Sets ''sctp_checksum_override'' ''override''),
      (''sctp-checksum'', Sets ''sctp_checksum'' ''checksum''),
      (''tcp-core-number'', Calls (\<lambda>a s. tcpCoreNumericPatch (argOf a ''field'') (argOf a ''value''))),
      (''tcp-core-mode'', Calls (\<lambda>a s. tcpCoreModePatch a)),
      (''tcp-core-count'', Calls (\<lambda>a s. tcpCoreCountPatch (argOf a ''field'') (argOf a ''count''))),
      (''tcp-core-step'', Calls (\<lambda>a s. tcpCoreStepPatch (argOf a ''field'') (argOf a ''step''))),
      (''tcp-checksum-override'', Sets ''tcp_checksum_override'' ''override''),
      (''tcp-checksum'', Sets ''tcp_checksum'' ''checksum''),
      (''tcp-flag'', Calls (\<lambda>a s. Some (tcpFlagPatch (argOf a ''flag'') (argOf a ''checked'')))),
      (''tcp-option-selection'', Calls (\<lambda>a s. Some (tcpOptionSelectionPatch (fvText (argOf a ''option'')) (argOf a ''enabled'')))),
      (''tcp-option-number'', Calls (\<lambda>a s. tcpOptionNumericPatch (argOf a ''field'') (argOf a ''value''))),
      (''tcp-option-mode'', Calls (\<lambda>a s. tcpOptionModePatch a)),
      (''tcp-option-count'', Calls (\<lambda>a s. tcpOptionCountPatch (argOf a ''field'') (argOf a ''count''))),
      (''tcp-option-step'', Calls (\<lambda>a s. tcpOptionStepPatch (argOf a ''field'') (argOf a ''step''))),
      (''payload-selection'', Calls (\<lambda>a s. Some (payloadSelectionPatch (argOf a ''enabled'')))),
      (''payload-type'', Sets ''payload_type'' ''payloadType''),
      (''payload-pattern'', Sets ''payload_pattern'' ''pattern''),
      (''payload-pattern-import'', Calls (\<lambda>a s. Some (payloadPatternImportPatch (fvText (argOf a ''pattern''))))),
      (''advanced-cache-size-type'', Sets ''advanced_cache_size_type'' ''cacheSizeType''),
      (''advanced-cache-value'', Sets ''advanced_cache_value'' ''cacheValue'')]"

definition controlCases :: "(string \<times> PatchCase) list" where
  "controlCases =
     [(''frame-length-type'', Calls (\<lambda>a s. frameLengthTypePatch (argOf a ''frameLengthType'') s)),
      (''packet-type'', Calls (\<lambda>a s. packetTypePatch (fvText (argOf a ''packetType'')) s)),
      (''icmp-type'', Calls (\<lambda>a s. Some (icmpTypePatch (argOf a ''icmpType'') s))),
      (''icmp-type-mode'', Calls (\<lambda>a s. Option.bind s (\<lambda>st. Some (icmpChecksumCoupledModePatch ''icmp_type_mode'' (argOf a ''mode'') st)))),
      (''icmp-type-count'', Sets ''icmp_type_count'' ''count''),
      (''icmp-type-step'', Sets ''icmp_type_step'' ''step''),
      (''icmp-code'', Sets ''icmp_code'' ''code''),
      (''icmp-code-mode'', Calls (\<lambda>a s. Option.bind s (\<lambda>st. Some (icmpChecksumCoupledModePatch ''icmp_code_mode'' (argOf a ''mode'') st)))),
      (''icmp-code-count'', Sets ''icmp_code_count'' ''count''),
      (''icmp-code-step'', Sets ''icmp_code_step'' ''step''),
      (''icmp-identifier'', Sets ''icmp_identifier'' ''identifier''),
      (''icmp-identifier-mode'', Calls (\<lambda>a s. Option.bind s (\<lambda>st. Some (icmpChecksumCoupledModePatch ''icmp_identifier_mode'' (argOf a ''mode'') st)))),
      (''icmp-identifier-count'', Sets ''icmp_identifier_count'' ''count''),
      (''icmp-identifier-step'', Sets ''icmp_identifier_step'' ''step''),
      (''icmp-sequence'', Sets ''icmp_sequence'' ''sequence''),
      (''icmp-sequence-mode'', Calls (\<lambda>a s. Option.bind s (\<lambda>st. Some (icmpChecksumCoupledModePatch ''icmp_sequence_mode'' (argOf a ''mode'') st)))),
      (''icmp-sequence-count'', Sets ''icmp_sequence_count'' ''count''),
      (''icmp-sequence-step'', Sets ''icmp_sequence_step'' ''step''),
      (''icmp-checksum-override'', Sets ''icmp_checksum_override'' ''override''),
      (''icmp-checksum'', Sets ''icmp_checksum'' ''checksum''),
      (''icmpv6-rs-slla-selection'', Calls (\<lambda>a s. Option.bind s (\<lambda>st. Some (icmpv6RsSllaSelectionPatch (argOf a ''enabled'') st)))),
      (''icmpv6-rs-slla-mac'', Sets ''icmpv6_rs_slla_mac'' ''mac''),
      (''icmpv6-ra-current-hop-limit'', Sets ''icmpv6_ra_cur_hop_limit'' ''hopLimit''),
      (''icmpv6-ra-router-lifetime'', Sets ''icmpv6_ra_router_lifetime'' ''lifetime''),
      (''icmpv6-ra-reachable-time'', Sets ''icmpv6_ra_reachable_time'' ''reachableTime''),
      (''icmpv6-ra-retrans-timer'', Sets ''icmpv6_ra_retrans_timer'' ''retransTimer''),
      (''icmpv6-ra-managed-flag'', Sets ''icmpv6_ra_managed'' ''enabled''),
      (''icmpv6-ra-other-flag'', Sets ''icmpv6_ra_other'' ''enabled''),
      (''icmpv6-ra-slla-selection'', Calls (\<lambda>a s. Option.bind s (\<lambda>st. Some (icmpv6RaSllaSelectionPatch (argOf a ''enabled'') st)))),
      (''icmpv6-ra-slla-mac'', Sets ''icmpv6_ra_slla_mac'' ''mac''),
      (''icmpv6-ra-prefix-selection'', Calls (\<lambda>a s. Option.bind s (\<lambda>st. Some (icmpv6RaPrefixSelectionPatch (argOf a ''enabled'') st)))),
      (''icmpv6-ra-prefix'', Sets ''icmpv6_ra_prefix'' ''prefix''),
      (''icmpv6-ra-prefix-length'', Sets ''icmpv6_ra_prefix_length'' ''prefixLength''),
      (''icmpv6-ra-prefix-on-link-flag'', Sets ''icmpv6_ra_prefix_on_link'' ''enabled''),
      (''icmpv6-ra-prefix-autonomous-flag'', Sets ''icmpv6_ra_prefix_autonomous'' ''enabled''),
      (''icmpv6-ra-prefix-valid-lifetime'', Sets ''icmpv6_ra_prefix_valid_lifetime'' ''lifetime''),
      (''icmpv6-ra-prefix-preferred-lifetime'', Sets ''icmpv6_ra_prefix_preferred_lifetime'' ''lifetime''),
      (''icmpv6-nd-target'', Sets ''icmpv6_nd_target'' ''target''),
      (''icmpv6-nd-option-selection'', Sets ''icmpv6_nd_include_option'' ''enabled''),
      (''icmpv6-nd-option-mac'', Sets ''icmpv6_nd_option_mac'' ''mac''),
      (''icmpv6-nd-na-router-flag'', Sets ''icmpv6_nd_na_router'' ''enabled''),
      (''icmpv6-nd-na-solicited-flag'', Sets ''icmpv6_nd_na_solicited'' ''enabled''),
      (''icmpv6-nd-na-override-flag'', Sets ''icmpv6_nd_na_override'' ''enabled'')]"

definition vxlanCases :: "(string \<times> PatchCase) list" where
  "vxlanCases =
     [(''vxlan-selection'', Calls (\<lambda>a s. Some (vxlanSelectionPatch (argOf a ''enabled'') s))),
      (''vxlan-vni'', Sets ''vxlan_vni'' ''vni''),
      (''vxlan-vni-mode'', Sets ''vxlan_vni_mode'' ''mode''),
      (''vxlan-vni-count'', Sets ''vxlan_vni_count'' ''count''),
      (''vxlan-vni-step'', Sets ''vxlan_vni_step'' ''step''),
      (''vxlan-inner-ip-version'', Calls (\<lambda>a s. Some (vxlanInnerIpVersionPatch (argOf a ''version'') s))),
      (''vxlan-inner-ipv6-hop-limit'', Sets ''vxlan_inner_ipv6_hop_limit'' ''hopLimit''),
      (''vxlan-inner-ipv6-hop-limit-mode'', Sets ''vxlan_inner_ipv6_hop_limit_mode'' ''mode''),
      (''vxlan-inner-ipv6-hop-limit-count'', Sets ''vxlan_inner_ipv6_hop_limit_count'' ''count''),
      (''vxlan-inner-ipv6-hop-limit-step'', Sets ''vxlan_inner_ipv6_hop_limit_step'' ''step''),
      (''vxlan-inner-ipv4-ttl'', Sets ''vxlan_inner_ipv4_ttl'' ''ttl''),
      (''vxlan-inner-ipv4-ttl-mode'', Sets ''vxlan_inner_ipv4_ttl_mode'' ''mode''),
      (''vxlan-inner-ipv4-ttl-count'', Sets ''vxlan_inner_ipv4_ttl_count'' ''count''),
      (''vxlan-inner-ipv4-ttl-step'', Sets ''vxlan_inner_ipv4_ttl_step'' ''step''),
      (''vxlan-inner-ether-dst'', Sets ''vxlan_inner_ether_dst'' ''address''),
      (''vxlan-inner-ether-src'', Sets ''vxlan_inner_ether_src'' ''address''),
      (''vxlan-inner-ipv6-src'', Sets ''vxlan_inner_ipv6_src'' ''address''),
      (''vxlan-inner-ipv6-src-mode'', Sets ''vxlan_inner_ipv6_src_mode'' ''mode''),
      (''vxlan-inner-ipv6-src-count'', Sets ''vxlan_inner_ipv6_src_count'' ''count''),
      (''vxlan-inner-ipv6-src-step'', Sets ''vxlan_inner_ipv6_src_step'' ''step''),
      (''vxlan-inner-ipv6-dst'', Sets ''vxlan_inner_ipv6_dst'' ''address''),
      (''vxlan-inner-ipv6-dst-mode'', Sets ''vxlan_inner_ipv6_dst_mode'' ''mode''),
      (''vxlan-inner-ipv6-dst-count'', Sets ''vxlan_inner_ipv6_dst_count'' ''count''),
      (''vxlan-inner-ipv6-dst-step'', Sets ''vxlan_inner_ipv6_dst_step'' ''step''),
      (''vxlan-inner-ipv4-src'', Sets ''vxlan_inner_ipv4_src'' ''address''),
      (''vxlan-inner-ipv4-src-mode'', Sets ''vxlan_inner_ipv4_src_mode'' ''mode''),
      (''vxlan-inner-ipv4-src-count'', Sets ''vxlan_inner_ipv4_src_count'' ''count''),
      (''vxlan-inner-ipv4-src-step'', Sets ''vxlan_inner_ipv4_src_step'' ''step''),
      (''vxlan-inner-ipv4-dst'', Sets ''vxlan_inner_ipv4_dst'' ''address''),
      (''vxlan-inner-ipv4-dst-mode'', Sets ''vxlan_inner_ipv4_dst_mode'' ''mode''),
      (''vxlan-inner-ipv4-dst-count'', Sets ''vxlan_inner_ipv4_dst_count'' ''count''),
      (''vxlan-inner-ipv4-dst-step'', Sets ''vxlan_inner_ipv4_dst_step'' ''step''),
      (''vxlan-inner-l4-src-port'', Sets ''vxlan_inner_l4_src_port'' ''port''),
      (''vxlan-inner-l4-src-port-mode'', Sets ''vxlan_inner_l4_src_port_mode'' ''mode''),
      (''vxlan-inner-l4-src-port-count'', Sets ''vxlan_inner_l4_src_port_count'' ''count''),
      (''vxlan-inner-l4-src-port-step'', Sets ''vxlan_inner_l4_src_port_step'' ''step''),
      (''vxlan-inner-l4-dst-port'', Sets ''vxlan_inner_l4_dst_port'' ''port''),
      (''vxlan-inner-l4-dst-port-mode'', Sets ''vxlan_inner_l4_dst_port_mode'' ''mode''),
      (''vxlan-inner-l4-dst-port-count'', Sets ''vxlan_inner_l4_dst_port_count'' ''count''),
      (''vxlan-inner-l4-dst-port-step'', Sets ''vxlan_inner_l4_dst_port_step'' ''step'')]"

definition gtpuCases :: "(string \<times> PatchCase) list" where
  "gtpuCases =
     [(''gtpu-selection'', Calls (\<lambda>a s. Some (gtpuSelectionPatch (argOf a ''enabled'') s))),
      (''gtpu-message-type'', Sets ''gtpu_message_type'' ''messageType''),
      (''gtpu-teid'', Sets ''gtpu_teid'' ''teid''),
      (''gtpu-teid-mode'', Sets ''gtpu_teid_mode'' ''mode''),
      (''gtpu-teid-count'', Sets ''gtpu_teid_count'' ''count''),
      (''gtpu-teid-step'', Sets ''gtpu_teid_step'' ''step''),
      (''gtpu-sequence-selection'', Calls (\<lambda>a s. Option.bind s (\<lambda>st. Some (gtpuSequenceSelectionPatch (argOf a ''enabled'') st)))),
      (''gtpu-sequence'', Sets ''gtpu_sequence'' ''sequence''),
      (''gtpu-sequence-mode'', Sets ''gtpu_sequence_mode'' ''mode''),
      (''gtpu-sequence-count'', Sets ''gtpu_sequence_count'' ''count''),
      (''gtpu-sequence-step'', Sets ''gtpu_sequence_step'' ''step''),
      (''gtpu-npdu-selection'', Calls (\<lambda>a s. Option.bind s (\<lambda>st. Some (gtpuNpduSelectionPatch (argOf a ''enabled'') st)))),
      (''gtpu-npdu'', Sets ''gtpu_npdu'' ''npdu''),
      (''gtpu-npdu-mode'', Sets ''gtpu_npdu_mode'' ''mode''),
      (''gtpu-npdu-count'', Sets ''gtpu_npdu_count'' ''count''),
      (''gtpu-npdu-step'', Sets ''gtpu_npdu_step'' ''step''),
      (''gtpu-extension-selection'', Calls (\<lambda>a s. Option.bind s (\<lambda>st. Some (gtpuExtensionSelectionPatch (argOf a ''enabled'') st)))),
      (''gtpu-extension-udp-port'', Sets ''gtpu_extension_udp_port'' ''port''),
      (''gtpu-extension-udp-port-mode'', Sets ''gtpu_extension_udp_port_mode'' ''mode''),
      (''gtpu-extension-udp-port-count'', Sets ''gtpu_extension_udp_port_count'' ''count''),
      (''gtpu-extension-udp-port-step'', Sets ''gtpu_extension_udp_port_step'' ''step''),
      (''gtpu-inner-ip-version'', Calls (\<lambda>a s. Some (gtpuInnerIpVersionPatch (argOf a ''version'') s))),
      (''gtpu-inner-ipv4-ttl'', Sets ''gtpu_inner_ipv4_ttl'' ''ttl''),
      (''gtpu-inner-ipv4-ttl-mode'', Sets ''gtpu_inner_ipv4_ttl_mode'' ''mode''),
      (''gtpu-inner-ipv4-ttl-count'', Sets ''gtpu_inner_ipv4_ttl_count'' ''count''),
      (''gtpu-inner-ipv4-ttl-step'', Sets ''gtpu_inner_ipv4_ttl_step'' ''step''),
      (''gtpu-inner-ipv6-hop-limit'', Sets ''gtpu_inner_ipv6_hop_limit'' ''hopLimit''),
      (''gtpu-inner-ipv6-hop-limit-mode'', Sets ''gtpu_inner_ipv6_hop_limit_mode'' ''mode''),
      (''gtpu-inner-ipv6-hop-limit-count'', Sets ''gtpu_inner_ipv6_hop_limit_count'' ''count''),
      (''gtpu-inner-ipv6-hop-limit-step'', Sets ''gtpu_inner_ipv6_hop_limit_step'' ''step''),
      (''gtpu-inner-ipv4-src'', Sets ''gtpu_inner_ipv4_src'' ''address''),
      (''gtpu-inner-ipv4-src-mode'', Sets ''gtpu_inner_ipv4_src_mode'' ''mode''),
      (''gtpu-inner-ipv4-src-count'', Sets ''gtpu_inner_ipv4_src_count'' ''count''),
      (''gtpu-inner-ipv4-src-step'', Sets ''gtpu_inner_ipv4_src_step'' ''step''),
      (''gtpu-inner-ipv4-dst'', Sets ''gtpu_inner_ipv4_dst'' ''address''),
      (''gtpu-inner-ipv4-dst-mode'', Sets ''gtpu_inner_ipv4_dst_mode'' ''mode''),
      (''gtpu-inner-ipv4-dst-count'', Sets ''gtpu_inner_ipv4_dst_count'' ''count''),
      (''gtpu-inner-ipv4-dst-step'', Sets ''gtpu_inner_ipv4_dst_step'' ''step''),
      (''gtpu-inner-ipv6-src'', Sets ''gtpu_inner_ipv6_src'' ''address''),
      (''gtpu-inner-ipv6-src-mode'', Sets ''gtpu_inner_ipv6_src_mode'' ''mode''),
      (''gtpu-inner-ipv6-src-count'', Sets ''gtpu_inner_ipv6_src_count'' ''count''),
      (''gtpu-inner-ipv6-src-step'', Sets ''gtpu_inner_ipv6_src_step'' ''step''),
      (''gtpu-inner-ipv6-dst'', Sets ''gtpu_inner_ipv6_dst'' ''address''),
      (''gtpu-inner-ipv6-dst-mode'', Sets ''gtpu_inner_ipv6_dst_mode'' ''mode''),
      (''gtpu-inner-ipv6-dst-count'', Sets ''gtpu_inner_ipv6_dst_count'' ''count''),
      (''gtpu-inner-ipv6-dst-step'', Sets ''gtpu_inner_ipv6_dst_step'' ''step''),
      (''gtpu-inner-l4-src-port'', Sets ''gtpu_inner_l4_src_port'' ''port''),
      (''gtpu-inner-l4-src-port-mode'', Sets ''gtpu_inner_l4_src_port_mode'' ''mode''),
      (''gtpu-inner-l4-src-port-count'', Sets ''gtpu_inner_l4_src_port_count'' ''count''),
      (''gtpu-inner-l4-src-port-step'', Sets ''gtpu_inner_l4_src_port_step'' ''step''),
      (''gtpu-inner-l4-dst-port'', Sets ''gtpu_inner_l4_dst_port'' ''port''),
      (''gtpu-inner-l4-dst-port-mode'', Sets ''gtpu_inner_l4_dst_port_mode'' ''mode''),
      (''gtpu-inner-l4-dst-port-count'', Sets ''gtpu_inner_l4_dst_port_count'' ''count''),
      (''gtpu-inner-l4-dst-port-step'', Sets ''gtpu_inner_l4_dst_port_step'' ''step'')]"

definition greCases :: "(string \<times> PatchCase) list" where
  "greCases =
     [(''gre-checksum-selection'', Calls (\<lambda>a s. Option.bind s (\<lambda>st. Some (greChecksumSelectionPatch (argOf a ''enabled'') st)))),
      (''gre-checksum-override'', Sets ''gre_checksum_override'' ''enabled''),
      (''gre-checksum'', Sets ''gre_checksum'' ''checksum''),
      (''gre-key-selection'', Calls (\<lambda>a s. Option.bind s (\<lambda>st. Some (greKeySelectionPatch (argOf a ''enabled'') st)))),
      (''gre-key'', Sets ''gre_key'' ''key''),
      (''gre-key-mode'', Calls (\<lambda>a s. Some (greChecksumInvalidatingModePatch ''gre_key_mode'' (argOf a ''mode'') (Some ''gre_key_present'')))),
      (''gre-key-count'', Sets ''gre_key_count'' ''count''),
      (''gre-key-step'', Sets ''gre_key_step'' ''step''),
      (''gre-sequence-selection'', Calls (\<lambda>a s. Option.bind s (\<lambda>st. Some (greSequenceSelectionPatch (argOf a ''enabled'') st)))),
      (''gre-sequence'', Sets ''gre_sequence'' ''sequence''),
      (''gre-sequence-mode'', Calls (\<lambda>a s. Some (greChecksumInvalidatingModePatch ''gre_sequence_mode'' (argOf a ''mode'') (Some ''gre_sequence_present'')))),
      (''gre-sequence-count'', Sets ''gre_sequence_count'' ''count''),
      (''gre-sequence-step'', Sets ''gre_sequence_step'' ''step''),
      (''gre-inner-ipv6-src'', Sets ''gre_inner_ipv6_src'' ''address''),
      (''gre-inner-ipv6-src-mode'', Calls (\<lambda>a s. Some (greChecksumInvalidatingModePatch ''gre_inner_ipv6_src_mode'' (argOf a ''mode'') None))),
      (''gre-inner-ipv6-src-count'', Sets ''gre_inner_ipv6_src_count'' ''count''),
      (''gre-inner-ipv6-src-step'', Sets ''gre_inner_ipv6_src_step'' ''step''),
      (''gre-inner-ipv6-dst'', Sets ''gre_inner_ipv6_dst'' ''address''),
      (''gre-inner-ipv6-dst-mode'', Calls (\<lambda>a s. Some (greChecksumInvalidatingModePatch ''gre_inner_ipv6_dst_mode'' (argOf a ''mode'') None))),
      (''gre-inner-ipv6-dst-count'', Sets ''gre_inner_ipv6_dst_count'' ''count''),
      (''gre-inner-ipv6-dst-step'', Sets ''gre_inner_ipv6_dst_step'' ''step''),
      (''gre-inner-ipv6-hop-limit'', Sets ''gre_inner_ipv6_hop_limit'' ''hopLimit''),
      (''gre-inner-ipv6-hop-limit-mode'', Calls (\<lambda>a s. Some (greChecksumInvalidatingModePatch ''gre_inner_ipv6_hop_limit_mode'' (argOf a ''mode'') None))),
      (''gre-inner-ipv6-hop-limit-count'', Sets ''gre_inner_ipv6_hop_limit_count'' ''count''),
      (''gre-inner-ipv6-hop-limit-step'', Sets ''gre_inner_ipv6_hop_limit_step'' ''step''),
      (''gre-inner-ipv4-src'', Sets ''gre_inner_ipv4_src'' ''address''),
      (''gre-inner-ipv4-src-mode'', Calls (\<lambda>a s. Some (greChecksumInvalidatingModePatch ''gre_inner_ipv4_src_mode'' (argOf a ''mode'') None))),
      (''gre-inner-ipv4-src-count'', Sets ''gre_inner_ipv4_src_count'' ''count''),
      (''gre-inner-ipv4-src-step'', Sets ''gre_inner_ipv4_src_step'' ''step''),
      (''gre-inner-ipv4-dst'', Sets ''gre_inner_ipv4_dst'' ''address''),
      (''gre-inner-ipv4-dst-mode'', Calls (\<lambda>a s. Some (greChecksumInvalidatingModePatch ''gre_inner_ipv4_dst_mode'' (argOf a ''mode'') None))),
      (''gre-inner-ipv4-dst-count'', Sets ''gre_inner_ipv4_dst_count'' ''count''),
      (''gre-inner-ipv4-dst-step'', Sets ''gre_inner_ipv4_dst_step'' ''step''),
      (''gre-inner-ipv4-ttl'', Sets ''gre_inner_ipv4_ttl'' ''ttl''),
      (''gre-inner-ipv4-ttl-mode'', Calls (\<lambda>a s. Some (greChecksumInvalidatingModePatch ''gre_inner_ipv4_ttl_mode'' (argOf a ''mode'') None))),
      (''gre-inner-ipv4-ttl-count'', Sets ''gre_inner_ipv4_ttl_count'' ''count''),
      (''gre-inner-ipv4-ttl-step'', Sets ''gre_inner_ipv4_ttl_step'' ''step''),
      (''gre-inner-l4-src-port'', Sets ''gre_inner_l4_src_port'' ''port''),
      (''gre-inner-l4-src-port-mode'', Calls (\<lambda>a s. Some (greChecksumInvalidatingModePatch ''gre_inner_l4_src_port_mode'' (argOf a ''mode'') None))),
      (''gre-inner-l4-src-port-count'', Sets ''gre_inner_l4_src_port_count'' ''count''),
      (''gre-inner-l4-src-port-step'', Sets ''gre_inner_l4_src_port_step'' ''step''),
      (''gre-inner-l4-dst-port'', Sets ''gre_inner_l4_dst_port'' ''port''),
      (''gre-inner-l4-dst-port-mode'', Calls (\<lambda>a s. Some (greChecksumInvalidatingModePatch ''gre_inner_l4_dst_port_mode'' (argOf a ''mode'') None))),
      (''gre-inner-l4-dst-port-count'', Sets ''gre_inner_l4_dst_port_count'' ''count''),
      (''gre-inner-l4-dst-port-step'', Sets ''gre_inner_l4_dst_port_step'' ''step''),
      (''gre-inner-ip-version'', Calls (\<lambda>a s. Some (greInnerIpVersionPatch (argOf a ''version'') s)))]"

definition selectedStreamPatchCases :: "(string \<times> PatchCase) list" where
  "selectedStreamPatchCases =
     sendingCases @ ethernetCases @ ipv4Cases @ ipv6Cases @ vlanCases @ mplsCases @ transportCases @ applicationCases @ segmentCases @ controlCases @ vxlanCases @ gtpuCases @ greCases"

definition selectedStreamPatch :: "PatchAction \<Rightarrow> EditorStream option \<Rightarrow> StreamPatch option" where
  "selectedStreamPatch action stream =
     (case map_of selectedStreamPatchCases (act_kind action) of
        None \<Rightarrow> None | Some c \<Rightarrow> runPatchCase c action stream)"

section \<open>Running a patch\<close>

datatype PatchCall = ApplyPatch StreamPatch

definition runStreamPatch :: "StreamPatch option \<Rightarrow> bool \<times> PatchCall list" where
  "runStreamPatch patch = (case patch of None \<Rightarrow> (False, []) | Some p \<Rightarrow> (True, [ApplyPatch p]))"

definition runSelectedStreamPatchAction :: "PatchAction \<Rightarrow> EditorStream option \<Rightarrow> bool \<times> PatchCall list" where
  "runSelectedStreamPatchAction action stream = runStreamPatch (selectedStreamPatch action stream)"

definition runSelectedStreamPatch :: "PatchAction \<Rightarrow> EditorStream option \<Rightarrow> bool \<times> PatchCall list" where
  "runSelectedStreamPatch action stream = runSelectedStreamPatchAction action stream"

end
