(* ===== verification/StreamActions.thy ===== *)
theory StreamActions
  imports StreamPatch
begin

text \<open>
  The actions of the controls of the stream editor and the functions the controls call: each builds the action and
  runs the patch that it gives.
\<close>

section \<open>Actions\<close>

definition patchAction :: "string \<Rightarrow> (string \<times> FieldValue) list \<Rightarrow> PatchAction" where
  "patchAction kind props = \<lparr>act_kind = kind, act_fields = props\<rparr>"

definition streamModeAction :: "FieldValue \<Rightarrow> PatchAction" where
  "streamModeAction mode = patchAction ''stream-mode'' [(''mode'', mode)]"

definition streamEnabledAction :: "FieldValue \<Rightarrow> PatchAction" where
  "streamEnabledAction enabled = patchAction ''stream-enabled'' [(''enabled'', enabled)]"

definition selfStartAction :: "FieldValue \<Rightarrow> PatchAction" where
  "selfStartAction selfStart = patchAction ''self-start'' [(''selfStart'', selfStart)]"

definition totalPacketsAction :: "FieldValue \<Rightarrow> PatchAction" where
  "totalPacketsAction totalPackets = patchAction ''total-packets'' [(''totalPackets'', totalPackets)]"

definition burstCountAction :: "FieldValue \<Rightarrow> PatchAction" where
  "burstCountAction count = patchAction ''burst-count'' [(''count'', count)]"

definition packetsPerBurstAction :: "FieldValue \<Rightarrow> PatchAction" where
  "packetsPerBurstAction packetsPerBurst = patchAction ''packets-per-burst'' [(''packetsPerBurst'', packetsPerBurst)]"

definition rateTypeAction :: "FieldValue \<Rightarrow> PatchAction" where
  "rateTypeAction rateType = patchAction ''rate-type'' [(''rateType'', rateType)]"

definition rateValueAction :: "FieldValue \<Rightarrow> PatchAction" where
  "rateValueAction rateValue = patchAction ''rate-value'' [(''rateValue'', rateValue)]"

definition afterStreamStopAction :: "PatchAction" where
  "afterStreamStopAction = patchAction ''after-stream-stop'' []"

definition afterStreamGotoAction :: "PatchAction" where
  "afterStreamGotoAction = patchAction ''after-stream-goto'' []"

definition nextStreamAction :: "FieldValue \<Rightarrow> PatchAction" where
  "nextStreamAction nextStreamId = patchAction ''next-stream'' [(''nextStreamId'', nextStreamId)]"

definition loopActionCountEnabledAction :: "FieldValue \<Rightarrow> PatchAction" where
  "loopActionCountEnabledAction enabled = patchAction ''loop-action-count-enabled'' [(''enabled'', enabled)]"

definition loopActionCountAction :: "FieldValue \<Rightarrow> PatchAction" where
  "loopActionCountAction actionCount = patchAction ''loop-action-count'' [(''actionCount'', actionCount)]"

definition isgAction :: "FieldValue \<Rightarrow> PatchAction" where
  "isgAction isg = patchAction ''isg'' [(''isg'', isg)]"

definition ibgAction :: "FieldValue \<Rightarrow> PatchAction" where
  "ibgAction ibg = patchAction ''ibg'' [(''ibg'', ibg)]"

definition flowStatsEnabledAction :: "FieldValue \<Rightarrow> PatchAction" where
  "flowStatsEnabledAction enabled = patchAction ''flow-stats-enabled'' [(''enabled'', enabled)]"

definition pgIdAction :: "FieldValue \<Rightarrow> PatchAction" where
  "pgIdAction pgId = patchAction ''pg-id'' [(''pgId'', pgId)]"

definition latencyEnabledAction :: "FieldValue \<Rightarrow> PatchAction" where
  "latencyEnabledAction enabled = patchAction ''latency-enabled'' [(''enabled'', enabled)]"

definition streamNameAction :: "FieldValue \<Rightarrow> PatchAction" where
  "streamNameAction name = patchAction ''stream-name'' [(''name'', name)]"

definition packetFrameLengthAction :: "FieldValue \<Rightarrow> PatchAction" where
  "packetFrameLengthAction frameLength = patchAction ''packet-frame-length'' [(''frameLength'', frameLength)]"

definition frameLengthMinAction :: "FieldValue \<Rightarrow> PatchAction" where
  "frameLengthMinAction frameLengthMin = patchAction ''frame-length-min'' [(''frameLengthMin'', frameLengthMin)]"

definition frameLengthMaxAction :: "FieldValue \<Rightarrow> PatchAction" where
  "frameLengthMaxAction frameLengthMax = patchAction ''frame-length-max'' [(''frameLengthMax'', frameLengthMax)]"

definition etherTypeOverrideAction :: "FieldValue \<Rightarrow> PatchAction" where
  "etherTypeOverrideAction override = patchAction ''ether-type-override'' [(''override'', override)]"

definition etherTypeAction :: "FieldValue \<Rightarrow> PatchAction" where
  "etherTypeAction etherType = patchAction ''ether-type'' [(''etherType'', etherType)]"

definition etherDestinationAction :: "FieldValue \<Rightarrow> PatchAction" where
  "etherDestinationAction address = patchAction ''ether-dst'' [(''address'', address)]"

definition etherDestinationModeAction :: "FieldValue \<Rightarrow> PatchAction" where
  "etherDestinationModeAction mode = patchAction ''ether-dst-mode'' [(''mode'', mode)]"

definition etherDestinationCountAction :: "FieldValue \<Rightarrow> PatchAction" where
  "etherDestinationCountAction count = patchAction ''ether-dst-count'' [(''count'', count)]"

definition etherDestinationStepAction :: "FieldValue \<Rightarrow> PatchAction" where
  "etherDestinationStepAction step = patchAction ''ether-dst-step'' [(''step'', step)]"

definition etherSourceAction :: "FieldValue \<Rightarrow> PatchAction" where
  "etherSourceAction address = patchAction ''ether-src'' [(''address'', address)]"

definition etherSourceModeAction :: "FieldValue \<Rightarrow> PatchAction" where
  "etherSourceModeAction mode = patchAction ''ether-src-mode'' [(''mode'', mode)]"

definition etherSourceCountAction :: "FieldValue \<Rightarrow> PatchAction" where
  "etherSourceCountAction count = patchAction ''ether-src-count'' [(''count'', count)]"

definition etherSourceStepAction :: "FieldValue \<Rightarrow> PatchAction" where
  "etherSourceStepAction step = patchAction ''ether-src-step'' [(''step'', step)]"

definition arpHardwareTypeAction :: "FieldValue \<Rightarrow> PatchAction" where
  "arpHardwareTypeAction value' = patchAction ''arp-hardware-type'' [(''value'', value')]"

definition arpProtocolTypeAction :: "FieldValue \<Rightarrow> PatchAction" where
  "arpProtocolTypeAction value' = patchAction ''arp-protocol-type'' [(''value'', value')]"

definition arpHardwareSizeAction :: "FieldValue \<Rightarrow> PatchAction" where
  "arpHardwareSizeAction value' = patchAction ''arp-hardware-size'' [(''value'', value')]"

definition arpProtocolSizeAction :: "FieldValue \<Rightarrow> PatchAction" where
  "arpProtocolSizeAction value' = patchAction ''arp-protocol-size'' [(''value'', value')]"

definition arpOperationAction :: "FieldValue \<Rightarrow> PatchAction" where
  "arpOperationAction value' = patchAction ''arp-operation'' [(''value'', value')]"

definition arpOperationModeAction :: "FieldValue \<Rightarrow> PatchAction" where
  "arpOperationModeAction mode = patchAction ''arp-operation-mode'' [(''mode'', mode)]"

definition arpOperationCountAction :: "FieldValue \<Rightarrow> PatchAction" where
  "arpOperationCountAction count = patchAction ''arp-operation-count'' [(''count'', count)]"

definition arpOperationStepAction :: "FieldValue \<Rightarrow> PatchAction" where
  "arpOperationStepAction step = patchAction ''arp-operation-step'' [(''step'', step)]"

definition arpSenderMacAction :: "FieldValue \<Rightarrow> PatchAction" where
  "arpSenderMacAction value' = patchAction ''arp-sender-mac'' [(''value'', value')]"

definition arpSenderMacModeAction :: "FieldValue \<Rightarrow> PatchAction" where
  "arpSenderMacModeAction mode = patchAction ''arp-sender-mac-mode'' [(''mode'', mode)]"

definition arpSenderMacCountAction :: "FieldValue \<Rightarrow> PatchAction" where
  "arpSenderMacCountAction count = patchAction ''arp-sender-mac-count'' [(''count'', count)]"

definition arpSenderMacStepAction :: "FieldValue \<Rightarrow> PatchAction" where
  "arpSenderMacStepAction step = patchAction ''arp-sender-mac-step'' [(''step'', step)]"

definition arpSenderIpAction :: "FieldValue \<Rightarrow> PatchAction" where
  "arpSenderIpAction value' = patchAction ''arp-sender-ip'' [(''value'', value')]"

definition arpSenderIpModeAction :: "FieldValue \<Rightarrow> PatchAction" where
  "arpSenderIpModeAction mode = patchAction ''arp-sender-ip-mode'' [(''mode'', mode)]"

definition arpSenderIpCountAction :: "FieldValue \<Rightarrow> PatchAction" where
  "arpSenderIpCountAction count = patchAction ''arp-sender-ip-count'' [(''count'', count)]"

definition arpSenderIpStepAction :: "FieldValue \<Rightarrow> PatchAction" where
  "arpSenderIpStepAction step = patchAction ''arp-sender-ip-step'' [(''step'', step)]"

definition arpTargetMacAction :: "FieldValue \<Rightarrow> PatchAction" where
  "arpTargetMacAction value' = patchAction ''arp-target-mac'' [(''value'', value')]"

definition arpTargetMacModeAction :: "FieldValue \<Rightarrow> PatchAction" where
  "arpTargetMacModeAction mode = patchAction ''arp-target-mac-mode'' [(''mode'', mode)]"

definition arpTargetMacCountAction :: "FieldValue \<Rightarrow> PatchAction" where
  "arpTargetMacCountAction count = patchAction ''arp-target-mac-count'' [(''count'', count)]"

definition arpTargetMacStepAction :: "FieldValue \<Rightarrow> PatchAction" where
  "arpTargetMacStepAction step = patchAction ''arp-target-mac-step'' [(''step'', step)]"

definition arpTargetIpAction :: "FieldValue \<Rightarrow> PatchAction" where
  "arpTargetIpAction value' = patchAction ''arp-target-ip'' [(''value'', value')]"

definition arpTargetIpModeAction :: "FieldValue \<Rightarrow> PatchAction" where
  "arpTargetIpModeAction mode = patchAction ''arp-target-ip-mode'' [(''mode'', mode)]"

definition arpTargetIpCountAction :: "FieldValue \<Rightarrow> PatchAction" where
  "arpTargetIpCountAction count = patchAction ''arp-target-ip-count'' [(''count'', count)]"

definition arpTargetIpStepAction :: "FieldValue \<Rightarrow> PatchAction" where
  "arpTargetIpStepAction step = patchAction ''arp-target-ip-step'' [(''step'', step)]"

definition ipv4DestinationAction :: "FieldValue \<Rightarrow> PatchAction" where
  "ipv4DestinationAction address = patchAction ''ipv4-dst'' [(''address'', address)]"

definition ipv4DestinationModeAction :: "FieldValue \<Rightarrow> PatchAction" where
  "ipv4DestinationModeAction mode = patchAction ''ipv4-dst-mode'' [(''mode'', mode)]"

definition ipv4DestinationCountAction :: "FieldValue \<Rightarrow> PatchAction" where
  "ipv4DestinationCountAction count = patchAction ''ipv4-dst-count'' [(''count'', count)]"

definition ipv4DestinationStepAction :: "FieldValue \<Rightarrow> PatchAction" where
  "ipv4DestinationStepAction step = patchAction ''ipv4-dst-step'' [(''step'', step)]"

definition ipv4SourceAction :: "FieldValue \<Rightarrow> PatchAction" where
  "ipv4SourceAction address = patchAction ''ipv4-src'' [(''address'', address)]"

definition ipv4SourceModeAction :: "FieldValue \<Rightarrow> PatchAction" where
  "ipv4SourceModeAction mode = patchAction ''ipv4-src-mode'' [(''mode'', mode)]"

definition ipv4SourceCountAction :: "FieldValue \<Rightarrow> PatchAction" where
  "ipv4SourceCountAction count = patchAction ''ipv4-src-count'' [(''count'', count)]"

definition ipv4SourceStepAction :: "FieldValue \<Rightarrow> PatchAction" where
  "ipv4SourceStepAction step = patchAction ''ipv4-src-step'' [(''step'', step)]"

definition ipv4DscpAction :: "FieldValue \<Rightarrow> PatchAction" where
  "ipv4DscpAction dscp = patchAction ''ipv4-dscp'' [(''dscp'', dscp)]"

definition ipv4DscpModeAction :: "FieldValue \<Rightarrow> PatchAction" where
  "ipv4DscpModeAction mode = patchAction ''ipv4-dscp-mode'' [(''mode'', mode)]"

definition ipv4DscpCountAction :: "FieldValue \<Rightarrow> PatchAction" where
  "ipv4DscpCountAction count = patchAction ''ipv4-dscp-count'' [(''count'', count)]"

definition ipv4DscpStepAction :: "FieldValue \<Rightarrow> PatchAction" where
  "ipv4DscpStepAction step = patchAction ''ipv4-dscp-step'' [(''step'', step)]"

definition ipv4EcnAction :: "FieldValue \<Rightarrow> PatchAction" where
  "ipv4EcnAction ecn = patchAction ''ipv4-ecn'' [(''ecn'', ecn)]"

definition ipv4EcnModeAction :: "FieldValue \<Rightarrow> PatchAction" where
  "ipv4EcnModeAction mode = patchAction ''ipv4-ecn-mode'' [(''mode'', mode)]"

definition ipv4EcnCountAction :: "FieldValue \<Rightarrow> PatchAction" where
  "ipv4EcnCountAction count = patchAction ''ipv4-ecn-count'' [(''count'', count)]"

definition ipv4EcnStepAction :: "FieldValue \<Rightarrow> PatchAction" where
  "ipv4EcnStepAction step = patchAction ''ipv4-ecn-step'' [(''step'', step)]"

definition ipv4IdentificationAction :: "FieldValue \<Rightarrow> PatchAction" where
  "ipv4IdentificationAction identification = patchAction ''ipv4-identification'' [(''identification'', identification)]"

definition ipv4IdentificationModeAction :: "FieldValue \<Rightarrow> PatchAction" where
  "ipv4IdentificationModeAction mode = patchAction ''ipv4-identification-mode'' [(''mode'', mode)]"

definition ipv4IdentificationCountAction :: "FieldValue \<Rightarrow> PatchAction" where
  "ipv4IdentificationCountAction count = patchAction ''ipv4-identification-count'' [(''count'', count)]"

definition ipv4IdentificationStepAction :: "FieldValue \<Rightarrow> PatchAction" where
  "ipv4IdentificationStepAction step = patchAction ''ipv4-identification-step'' [(''step'', step)]"

definition ipv4DfFlagAction :: "FieldValue \<Rightarrow> PatchAction" where
  "ipv4DfFlagAction enabled = patchAction ''ipv4-df-flag'' [(''enabled'', enabled)]"

definition ipv4MfFlagAction :: "FieldValue \<Rightarrow> PatchAction" where
  "ipv4MfFlagAction enabled = patchAction ''ipv4-mf-flag'' [(''enabled'', enabled)]"

definition ipv4FragmentOffsetAction :: "FieldValue \<Rightarrow> PatchAction" where
  "ipv4FragmentOffsetAction fragmentOffset = patchAction ''ipv4-fragment-offset'' [(''fragmentOffset'', fragmentOffset)]"

definition ipv4FragmentOffsetModeAction :: "FieldValue \<Rightarrow> PatchAction" where
  "ipv4FragmentOffsetModeAction mode = patchAction ''ipv4-fragment-offset-mode'' [(''mode'', mode)]"

definition ipv4FragmentOffsetCountAction :: "FieldValue \<Rightarrow> PatchAction" where
  "ipv4FragmentOffsetCountAction count = patchAction ''ipv4-fragment-offset-count'' [(''count'', count)]"

definition ipv4FragmentOffsetStepAction :: "FieldValue \<Rightarrow> PatchAction" where
  "ipv4FragmentOffsetStepAction step = patchAction ''ipv4-fragment-offset-step'' [(''step'', step)]"

definition ipv4TtlAction :: "FieldValue \<Rightarrow> PatchAction" where
  "ipv4TtlAction ttl = patchAction ''ipv4-ttl'' [(''ttl'', ttl)]"

definition ipv4TtlModeAction :: "FieldValue \<Rightarrow> PatchAction" where
  "ipv4TtlModeAction mode = patchAction ''ipv4-ttl-mode'' [(''mode'', mode)]"

definition ipv4TtlCountAction :: "FieldValue \<Rightarrow> PatchAction" where
  "ipv4TtlCountAction count = patchAction ''ipv4-ttl-count'' [(''count'', count)]"

definition ipv4TtlStepAction :: "FieldValue \<Rightarrow> PatchAction" where
  "ipv4TtlStepAction step = patchAction ''ipv4-ttl-step'' [(''step'', step)]"

definition ipv4ChecksumOverrideAction :: "FieldValue \<Rightarrow> PatchAction" where
  "ipv4ChecksumOverrideAction override = patchAction ''ipv4-checksum-override'' [(''override'', override)]"

definition ipv4ChecksumAction :: "FieldValue \<Rightarrow> PatchAction" where
  "ipv4ChecksumAction checksum = patchAction ''ipv4-checksum'' [(''checksum'', checksum)]"

definition ipv6DestinationAction :: "FieldValue \<Rightarrow> PatchAction" where
  "ipv6DestinationAction address = patchAction ''ipv6-dst'' [(''address'', address)]"

definition ipv6DestinationModeAction :: "FieldValue \<Rightarrow> PatchAction" where
  "ipv6DestinationModeAction mode = patchAction ''ipv6-dst-mode'' [(''mode'', mode)]"

definition ipv6DestinationCountAction :: "FieldValue \<Rightarrow> PatchAction" where
  "ipv6DestinationCountAction count = patchAction ''ipv6-dst-count'' [(''count'', count)]"

definition ipv6DestinationStepAction :: "FieldValue \<Rightarrow> PatchAction" where
  "ipv6DestinationStepAction step = patchAction ''ipv6-dst-step'' [(''step'', step)]"

definition ipv6SourceAction :: "FieldValue \<Rightarrow> PatchAction" where
  "ipv6SourceAction address = patchAction ''ipv6-src'' [(''address'', address)]"

definition ipv6SourceModeAction :: "FieldValue \<Rightarrow> PatchAction" where
  "ipv6SourceModeAction mode = patchAction ''ipv6-src-mode'' [(''mode'', mode)]"

definition ipv6SourceCountAction :: "FieldValue \<Rightarrow> PatchAction" where
  "ipv6SourceCountAction count = patchAction ''ipv6-src-count'' [(''count'', count)]"

definition ipv6SourceStepAction :: "FieldValue \<Rightarrow> PatchAction" where
  "ipv6SourceStepAction step = patchAction ''ipv6-src-step'' [(''step'', step)]"

definition ipv6TrafficClassAction :: "FieldValue \<Rightarrow> PatchAction" where
  "ipv6TrafficClassAction trafficClass = patchAction ''ipv6-traffic-class'' [(''trafficClass'', trafficClass)]"

definition ipv6TrafficClassModeAction :: "FieldValue \<Rightarrow> PatchAction" where
  "ipv6TrafficClassModeAction mode = patchAction ''ipv6-traffic-class-mode'' [(''mode'', mode)]"

definition ipv6TrafficClassCountAction :: "FieldValue \<Rightarrow> PatchAction" where
  "ipv6TrafficClassCountAction count = patchAction ''ipv6-traffic-class-count'' [(''count'', count)]"

definition ipv6TrafficClassStepAction :: "FieldValue \<Rightarrow> PatchAction" where
  "ipv6TrafficClassStepAction step = patchAction ''ipv6-traffic-class-step'' [(''step'', step)]"

definition ipv6FlowLabelAction :: "FieldValue \<Rightarrow> PatchAction" where
  "ipv6FlowLabelAction flowLabel = patchAction ''ipv6-flow-label'' [(''flowLabel'', flowLabel)]"

definition ipv6FlowLabelModeAction :: "FieldValue \<Rightarrow> PatchAction" where
  "ipv6FlowLabelModeAction mode = patchAction ''ipv6-flow-label-mode'' [(''mode'', mode)]"

definition ipv6FlowLabelCountAction :: "FieldValue \<Rightarrow> PatchAction" where
  "ipv6FlowLabelCountAction count = patchAction ''ipv6-flow-label-count'' [(''count'', count)]"

definition ipv6FlowLabelStepAction :: "FieldValue \<Rightarrow> PatchAction" where
  "ipv6FlowLabelStepAction step = patchAction ''ipv6-flow-label-step'' [(''step'', step)]"

definition ipv6HopLimitAction :: "FieldValue \<Rightarrow> PatchAction" where
  "ipv6HopLimitAction hopLimit = patchAction ''ipv6-hop-limit'' [(''hopLimit'', hopLimit)]"

definition ipv6HopLimitModeAction :: "FieldValue \<Rightarrow> PatchAction" where
  "ipv6HopLimitModeAction mode = patchAction ''ipv6-hop-limit-mode'' [(''mode'', mode)]"

definition ipv6HopLimitCountAction :: "FieldValue \<Rightarrow> PatchAction" where
  "ipv6HopLimitCountAction count = patchAction ''ipv6-hop-limit-count'' [(''count'', count)]"

definition ipv6HopLimitStepAction :: "FieldValue \<Rightarrow> PatchAction" where
  "ipv6HopLimitStepAction step = patchAction ''ipv6-hop-limit-step'' [(''step'', step)]"

definition frameLengthTypeAction :: "FieldValue \<Rightarrow> PatchAction" where
  "frameLengthTypeAction frameLengthType = patchAction ''frame-length-type'' [(''frameLengthType'', frameLengthType)]"

definition vlanSelectionAction :: "FieldValue \<Rightarrow> PatchAction" where
  "vlanSelectionAction enabled = patchAction ''vlan-selection'' [(''enabled'', enabled)]"

definition vlanTpidOverrideAction :: "FieldValue \<Rightarrow> PatchAction" where
  "vlanTpidOverrideAction override = patchAction ''vlan-tpid-override'' [(''override'', override)]"

definition vlanTpidAction :: "FieldValue \<Rightarrow> PatchAction" where
  "vlanTpidAction tpid = patchAction ''vlan-tpid'' [(''tpid'', tpid)]"

definition vlanPriorityAction :: "FieldValue \<Rightarrow> PatchAction" where
  "vlanPriorityAction priority = patchAction ''vlan-priority'' [(''priority'', priority)]"

definition vlanPriorityModeAction :: "FieldValue \<Rightarrow> PatchAction" where
  "vlanPriorityModeAction mode = patchAction ''vlan-priority-mode'' [(''mode'', mode)]"

definition vlanPriorityCountAction :: "FieldValue \<Rightarrow> PatchAction" where
  "vlanPriorityCountAction count = patchAction ''vlan-priority-count'' [(''count'', count)]"

definition vlanPriorityStepAction :: "FieldValue \<Rightarrow> PatchAction" where
  "vlanPriorityStepAction step = patchAction ''vlan-priority-step'' [(''step'', step)]"

definition vlanCfiAction :: "FieldValue \<Rightarrow> PatchAction" where
  "vlanCfiAction cfi = patchAction ''vlan-cfi'' [(''cfi'', cfi)]"

definition vlanIdAction :: "FieldValue \<Rightarrow> PatchAction" where
  "vlanIdAction vlanId = patchAction ''vlan-id'' [(''vlanId'', vlanId)]"

definition vlanIdModeAction :: "FieldValue \<Rightarrow> PatchAction" where
  "vlanIdModeAction mode = patchAction ''vlan-id-mode'' [(''mode'', mode)]"

definition vlanIdCountAction :: "FieldValue \<Rightarrow> PatchAction" where
  "vlanIdCountAction count = patchAction ''vlan-id-count'' [(''count'', count)]"

definition vlanIdStepAction :: "FieldValue \<Rightarrow> PatchAction" where
  "vlanIdStepAction step = patchAction ''vlan-id-step'' [(''step'', step)]"

definition vlanInnerSelectionAction :: "FieldValue \<Rightarrow> PatchAction" where
  "vlanInnerSelectionAction enabled = patchAction ''vlan-inner-selection'' [(''enabled'', enabled)]"

definition vlanInnerTpidOverrideAction :: "FieldValue \<Rightarrow> PatchAction" where
  "vlanInnerTpidOverrideAction override = patchAction ''vlan-inner-tpid-override'' [(''override'', override)]"

definition vlanInnerTpidAction :: "FieldValue \<Rightarrow> PatchAction" where
  "vlanInnerTpidAction tpid = patchAction ''vlan-inner-tpid'' [(''tpid'', tpid)]"

definition vlanInnerPriorityAction :: "FieldValue \<Rightarrow> PatchAction" where
  "vlanInnerPriorityAction priority = patchAction ''vlan-inner-priority'' [(''priority'', priority)]"

definition vlanInnerPriorityModeAction :: "FieldValue \<Rightarrow> PatchAction" where
  "vlanInnerPriorityModeAction mode = patchAction ''vlan-inner-priority-mode'' [(''mode'', mode)]"

definition vlanInnerPriorityCountAction :: "FieldValue \<Rightarrow> PatchAction" where
  "vlanInnerPriorityCountAction count = patchAction ''vlan-inner-priority-count'' [(''count'', count)]"

definition vlanInnerPriorityStepAction :: "FieldValue \<Rightarrow> PatchAction" where
  "vlanInnerPriorityStepAction step = patchAction ''vlan-inner-priority-step'' [(''step'', step)]"

definition vlanInnerCfiAction :: "FieldValue \<Rightarrow> PatchAction" where
  "vlanInnerCfiAction cfi = patchAction ''vlan-inner-cfi'' [(''cfi'', cfi)]"

definition vlanInnerIdAction :: "FieldValue \<Rightarrow> PatchAction" where
  "vlanInnerIdAction vlanId = patchAction ''vlan-inner-id'' [(''vlanId'', vlanId)]"

definition vlanInnerIdModeAction :: "FieldValue \<Rightarrow> PatchAction" where
  "vlanInnerIdModeAction mode = patchAction ''vlan-inner-id-mode'' [(''mode'', mode)]"

definition vlanInnerIdCountAction :: "FieldValue \<Rightarrow> PatchAction" where
  "vlanInnerIdCountAction count = patchAction ''vlan-inner-id-count'' [(''count'', count)]"

definition vlanInnerIdStepAction :: "FieldValue \<Rightarrow> PatchAction" where
  "vlanInnerIdStepAction step = patchAction ''vlan-inner-id-step'' [(''step'', step)]"

definition mplsSelectionAction :: "FieldValue \<Rightarrow> PatchAction" where
  "mplsSelectionAction enabled = patchAction ''mpls-selection'' [(''enabled'', enabled)]"

definition mplsLabelAction :: "FieldValue \<Rightarrow> PatchAction" where
  "mplsLabelAction label = patchAction ''mpls-label'' [(''label'', label)]"

definition mplsLabelModeAction :: "FieldValue \<Rightarrow> PatchAction" where
  "mplsLabelModeAction mode = patchAction ''mpls-label-mode'' [(''mode'', mode)]"

definition mplsLabelCountAction :: "FieldValue \<Rightarrow> PatchAction" where
  "mplsLabelCountAction count = patchAction ''mpls-label-count'' [(''count'', count)]"

definition mplsLabelStepAction :: "FieldValue \<Rightarrow> PatchAction" where
  "mplsLabelStepAction step = patchAction ''mpls-label-step'' [(''step'', step)]"

definition mplsTrafficClassAction :: "FieldValue \<Rightarrow> PatchAction" where
  "mplsTrafficClassAction trafficClass = patchAction ''mpls-traffic-class'' [(''trafficClass'', trafficClass)]"

definition mplsTrafficClassModeAction :: "FieldValue \<Rightarrow> PatchAction" where
  "mplsTrafficClassModeAction mode = patchAction ''mpls-traffic-class-mode'' [(''mode'', mode)]"

definition mplsTrafficClassCountAction :: "FieldValue \<Rightarrow> PatchAction" where
  "mplsTrafficClassCountAction count = patchAction ''mpls-traffic-class-count'' [(''count'', count)]"

definition mplsTrafficClassStepAction :: "FieldValue \<Rightarrow> PatchAction" where
  "mplsTrafficClassStepAction step = patchAction ''mpls-traffic-class-step'' [(''step'', step)]"

definition mplsTtlAction :: "FieldValue \<Rightarrow> PatchAction" where
  "mplsTtlAction ttl = patchAction ''mpls-ttl'' [(''ttl'', ttl)]"

definition mplsTtlModeAction :: "FieldValue \<Rightarrow> PatchAction" where
  "mplsTtlModeAction mode = patchAction ''mpls-ttl-mode'' [(''mode'', mode)]"

definition mplsTtlCountAction :: "FieldValue \<Rightarrow> PatchAction" where
  "mplsTtlCountAction count = patchAction ''mpls-ttl-count'' [(''count'', count)]"

definition mplsTtlStepAction :: "FieldValue \<Rightarrow> PatchAction" where
  "mplsTtlStepAction step = patchAction ''mpls-ttl-step'' [(''step'', step)]"

definition mplsSecondLabelSelectionAction :: "FieldValue \<Rightarrow> PatchAction" where
  "mplsSecondLabelSelectionAction enabled = patchAction ''mpls-second-label-selection'' [(''enabled'', enabled)]"

definition mplsSecondLabelAction :: "FieldValue \<Rightarrow> PatchAction" where
  "mplsSecondLabelAction label = patchAction ''mpls-second-label'' [(''label'', label)]"

definition mplsSecondLabelModeAction :: "FieldValue \<Rightarrow> PatchAction" where
  "mplsSecondLabelModeAction mode = patchAction ''mpls-second-label-mode'' [(''mode'', mode)]"

definition mplsSecondLabelCountAction :: "FieldValue \<Rightarrow> PatchAction" where
  "mplsSecondLabelCountAction count = patchAction ''mpls-second-label-count'' [(''count'', count)]"

definition mplsSecondLabelStepAction :: "FieldValue \<Rightarrow> PatchAction" where
  "mplsSecondLabelStepAction step = patchAction ''mpls-second-label-step'' [(''step'', step)]"

definition mplsSecondTrafficClassAction :: "FieldValue \<Rightarrow> PatchAction" where
  "mplsSecondTrafficClassAction trafficClass = patchAction ''mpls-second-traffic-class'' [(''trafficClass'', trafficClass)]"

definition mplsSecondTrafficClassModeAction :: "FieldValue \<Rightarrow> PatchAction" where
  "mplsSecondTrafficClassModeAction mode = patchAction ''mpls-second-traffic-class-mode'' [(''mode'', mode)]"

definition mplsSecondTrafficClassCountAction :: "FieldValue \<Rightarrow> PatchAction" where
  "mplsSecondTrafficClassCountAction count = patchAction ''mpls-second-traffic-class-count'' [(''count'', count)]"

definition mplsSecondTrafficClassStepAction :: "FieldValue \<Rightarrow> PatchAction" where
  "mplsSecondTrafficClassStepAction step = patchAction ''mpls-second-traffic-class-step'' [(''step'', step)]"

definition mplsSecondTtlAction :: "FieldValue \<Rightarrow> PatchAction" where
  "mplsSecondTtlAction ttl = patchAction ''mpls-second-ttl'' [(''ttl'', ttl)]"

definition mplsSecondTtlModeAction :: "FieldValue \<Rightarrow> PatchAction" where
  "mplsSecondTtlModeAction mode = patchAction ''mpls-second-ttl-mode'' [(''mode'', mode)]"

definition mplsSecondTtlCountAction :: "FieldValue \<Rightarrow> PatchAction" where
  "mplsSecondTtlCountAction count = patchAction ''mpls-second-ttl-count'' [(''count'', count)]"

definition mplsSecondTtlStepAction :: "FieldValue \<Rightarrow> PatchAction" where
  "mplsSecondTtlStepAction step = patchAction ''mpls-second-ttl-step'' [(''step'', step)]"

definition mplsThirdLabelSelectionAction :: "FieldValue \<Rightarrow> PatchAction" where
  "mplsThirdLabelSelectionAction enabled = patchAction ''mpls-third-label-selection'' [(''enabled'', enabled)]"

definition mplsThirdLabelAction :: "FieldValue \<Rightarrow> PatchAction" where
  "mplsThirdLabelAction label = patchAction ''mpls-third-label'' [(''label'', label)]"

definition mplsThirdLabelModeAction :: "FieldValue \<Rightarrow> PatchAction" where
  "mplsThirdLabelModeAction mode = patchAction ''mpls-third-label-mode'' [(''mode'', mode)]"

definition mplsThirdLabelCountAction :: "FieldValue \<Rightarrow> PatchAction" where
  "mplsThirdLabelCountAction count = patchAction ''mpls-third-label-count'' [(''count'', count)]"

definition mplsThirdLabelStepAction :: "FieldValue \<Rightarrow> PatchAction" where
  "mplsThirdLabelStepAction step = patchAction ''mpls-third-label-step'' [(''step'', step)]"

definition mplsThirdTrafficClassAction :: "FieldValue \<Rightarrow> PatchAction" where
  "mplsThirdTrafficClassAction trafficClass = patchAction ''mpls-third-traffic-class'' [(''trafficClass'', trafficClass)]"

definition mplsThirdTrafficClassModeAction :: "FieldValue \<Rightarrow> PatchAction" where
  "mplsThirdTrafficClassModeAction mode = patchAction ''mpls-third-traffic-class-mode'' [(''mode'', mode)]"

definition mplsThirdTrafficClassCountAction :: "FieldValue \<Rightarrow> PatchAction" where
  "mplsThirdTrafficClassCountAction count = patchAction ''mpls-third-traffic-class-count'' [(''count'', count)]"

definition mplsThirdTrafficClassStepAction :: "FieldValue \<Rightarrow> PatchAction" where
  "mplsThirdTrafficClassStepAction step = patchAction ''mpls-third-traffic-class-step'' [(''step'', step)]"

definition mplsThirdTtlAction :: "FieldValue \<Rightarrow> PatchAction" where
  "mplsThirdTtlAction ttl = patchAction ''mpls-third-ttl'' [(''ttl'', ttl)]"

definition mplsThirdTtlModeAction :: "FieldValue \<Rightarrow> PatchAction" where
  "mplsThirdTtlModeAction mode = patchAction ''mpls-third-ttl-mode'' [(''mode'', mode)]"

definition mplsThirdTtlCountAction :: "FieldValue \<Rightarrow> PatchAction" where
  "mplsThirdTtlCountAction count = patchAction ''mpls-third-ttl-count'' [(''count'', count)]"

definition mplsThirdTtlStepAction :: "FieldValue \<Rightarrow> PatchAction" where
  "mplsThirdTtlStepAction step = patchAction ''mpls-third-ttl-step'' [(''step'', step)]"

definition tunnelSelectionAction :: "FieldValue \<Rightarrow> PatchAction" where
  "tunnelSelectionAction tunnel = patchAction ''tunnel-selection'' [(''tunnel'', tunnel)]"

definition l3SelectionAction :: "FieldValue \<Rightarrow> PatchAction" where
  "l3SelectionAction selection = patchAction ''l3-selection'' [(''selection'', selection)]"

definition l4SelectionAction :: "FieldValue \<Rightarrow> PatchAction" where
  "l4SelectionAction selection = patchAction ''l4-selection'' [(''selection'', selection)]"

definition l4SourcePortOverrideSelectionAction :: "FieldValue \<Rightarrow> PatchAction" where
  "l4SourcePortOverrideSelectionAction enabled = patchAction ''l4-src-port-override-selection'' [(''enabled'', enabled)]"

definition l4SourcePortAction :: "FieldValue \<Rightarrow> PatchAction" where
  "l4SourcePortAction port = patchAction ''l4-src-port'' [(''port'', port)]"

definition l4SourcePortModeAction :: "FieldValue \<Rightarrow> PatchAction" where
  "l4SourcePortModeAction mode = patchAction ''l4-src-port-mode'' [(''mode'', mode)]"

definition l4SourcePortCountAction :: "FieldValue \<Rightarrow> PatchAction" where
  "l4SourcePortCountAction count = patchAction ''l4-src-port-count'' [(''count'', count)]"

definition l4SourcePortStepAction :: "FieldValue \<Rightarrow> PatchAction" where
  "l4SourcePortStepAction step = patchAction ''l4-src-port-step'' [(''step'', step)]"

definition l4DestinationPortOverrideSelectionAction :: "FieldValue \<Rightarrow> PatchAction" where
  "l4DestinationPortOverrideSelectionAction enabled = patchAction ''l4-dst-port-override-selection'' [(''enabled'', enabled)]"

definition l4DestinationPortAction :: "FieldValue \<Rightarrow> PatchAction" where
  "l4DestinationPortAction port = patchAction ''l4-dst-port'' [(''port'', port)]"

definition l4DestinationPortModeAction :: "FieldValue \<Rightarrow> PatchAction" where
  "l4DestinationPortModeAction mode = patchAction ''l4-dst-port-mode'' [(''mode'', mode)]"

definition l4DestinationPortCountAction :: "FieldValue \<Rightarrow> PatchAction" where
  "l4DestinationPortCountAction count = patchAction ''l4-dst-port-count'' [(''count'', count)]"

definition l4DestinationPortStepAction :: "FieldValue \<Rightarrow> PatchAction" where
  "l4DestinationPortStepAction step = patchAction ''l4-dst-port-step'' [(''step'', step)]"

definition udpLengthOverrideSelectionAction :: "FieldValue \<Rightarrow> PatchAction" where
  "udpLengthOverrideSelectionAction enabled = patchAction ''udp-length-override-selection'' [(''enabled'', enabled)]"

definition udpLengthAction :: "FieldValue \<Rightarrow> PatchAction" where
  "udpLengthAction length' = patchAction ''udp-length'' [(''length'', length')]"

definition udpLengthModeAction :: "FieldValue \<Rightarrow> PatchAction" where
  "udpLengthModeAction mode = patchAction ''udp-length-mode'' [(''mode'', mode)]"

definition udpLengthCountAction :: "FieldValue \<Rightarrow> PatchAction" where
  "udpLengthCountAction count = patchAction ''udp-length-count'' [(''count'', count)]"

definition udpLengthStepAction :: "FieldValue \<Rightarrow> PatchAction" where
  "udpLengthStepAction step = patchAction ''udp-length-step'' [(''step'', step)]"

definition udpChecksumOverrideAction :: "FieldValue \<Rightarrow> PatchAction" where
  "udpChecksumOverrideAction override = patchAction ''udp-checksum-override'' [(''override'', override)]"

definition udpChecksumAction :: "FieldValue \<Rightarrow> PatchAction" where
  "udpChecksumAction checksum = patchAction ''udp-checksum'' [(''checksum'', checksum)]"

definition udpChecksumModeAction :: "FieldValue \<Rightarrow> PatchAction" where
  "udpChecksumModeAction mode = patchAction ''udp-checksum-mode'' [(''mode'', mode)]"

definition udpChecksumCountAction :: "FieldValue \<Rightarrow> PatchAction" where
  "udpChecksumCountAction count = patchAction ''udp-checksum-count'' [(''count'', count)]"

definition udpChecksumStepAction :: "FieldValue \<Rightarrow> PatchAction" where
  "udpChecksumStepAction step = patchAction ''udp-checksum-step'' [(''step'', step)]"

definition payloadSelectionAction :: "FieldValue \<Rightarrow> PatchAction" where
  "payloadSelectionAction enabled = patchAction ''payload-selection'' [(''enabled'', enabled)]"

definition payloadTypeAction :: "FieldValue \<Rightarrow> PatchAction" where
  "payloadTypeAction payloadType = patchAction ''payload-type'' [(''payloadType'', payloadType)]"

definition payloadPatternAction :: "FieldValue \<Rightarrow> PatchAction" where
  "payloadPatternAction pattern = patchAction ''payload-pattern'' [(''pattern'', pattern)]"

definition payloadPatternImportAction :: "FieldValue \<Rightarrow> PatchAction" where
  "payloadPatternImportAction pattern = patchAction ''payload-pattern-import'' [(''pattern'', pattern)]"

definition advancedCacheSizeTypeAction :: "FieldValue \<Rightarrow> PatchAction" where
  "advancedCacheSizeTypeAction cacheSizeType = patchAction ''advanced-cache-size-type'' [(''cacheSizeType'', cacheSizeType)]"

definition advancedCacheValueAction :: "FieldValue \<Rightarrow> PatchAction" where
  "advancedCacheValueAction cacheValue = patchAction ''advanced-cache-value'' [(''cacheValue'', cacheValue)]"

definition packetTypeAction :: "FieldValue \<Rightarrow> PatchAction" where
  "packetTypeAction packetType' = patchAction ''packet-type'' [(''packetType'', packetType')]"

definition icmpTypeAction :: "FieldValue \<Rightarrow> PatchAction" where
  "icmpTypeAction icmpType = patchAction ''icmp-type'' [(''icmpType'', icmpType)]"

definition icmpTypeModeAction :: "FieldValue \<Rightarrow> PatchAction" where
  "icmpTypeModeAction mode = patchAction ''icmp-type-mode'' [(''mode'', mode)]"

definition icmpTypeCountAction :: "FieldValue \<Rightarrow> PatchAction" where
  "icmpTypeCountAction count = patchAction ''icmp-type-count'' [(''count'', count)]"

definition icmpTypeStepAction :: "FieldValue \<Rightarrow> PatchAction" where
  "icmpTypeStepAction step = patchAction ''icmp-type-step'' [(''step'', step)]"

definition icmpCodeAction :: "FieldValue \<Rightarrow> PatchAction" where
  "icmpCodeAction code = patchAction ''icmp-code'' [(''code'', code)]"

definition icmpCodeModeAction :: "FieldValue \<Rightarrow> PatchAction" where
  "icmpCodeModeAction mode = patchAction ''icmp-code-mode'' [(''mode'', mode)]"

definition icmpCodeCountAction :: "FieldValue \<Rightarrow> PatchAction" where
  "icmpCodeCountAction count = patchAction ''icmp-code-count'' [(''count'', count)]"

definition icmpCodeStepAction :: "FieldValue \<Rightarrow> PatchAction" where
  "icmpCodeStepAction step = patchAction ''icmp-code-step'' [(''step'', step)]"

definition icmpIdentifierAction :: "FieldValue \<Rightarrow> PatchAction" where
  "icmpIdentifierAction identifier = patchAction ''icmp-identifier'' [(''identifier'', identifier)]"

definition icmpIdentifierModeAction :: "FieldValue \<Rightarrow> PatchAction" where
  "icmpIdentifierModeAction mode = patchAction ''icmp-identifier-mode'' [(''mode'', mode)]"

definition icmpIdentifierCountAction :: "FieldValue \<Rightarrow> PatchAction" where
  "icmpIdentifierCountAction count = patchAction ''icmp-identifier-count'' [(''count'', count)]"

definition icmpIdentifierStepAction :: "FieldValue \<Rightarrow> PatchAction" where
  "icmpIdentifierStepAction step = patchAction ''icmp-identifier-step'' [(''step'', step)]"

definition icmpSequenceAction :: "FieldValue \<Rightarrow> PatchAction" where
  "icmpSequenceAction sequence = patchAction ''icmp-sequence'' [(''sequence'', sequence)]"

definition icmpSequenceModeAction :: "FieldValue \<Rightarrow> PatchAction" where
  "icmpSequenceModeAction mode = patchAction ''icmp-sequence-mode'' [(''mode'', mode)]"

definition icmpSequenceCountAction :: "FieldValue \<Rightarrow> PatchAction" where
  "icmpSequenceCountAction count = patchAction ''icmp-sequence-count'' [(''count'', count)]"

definition icmpSequenceStepAction :: "FieldValue \<Rightarrow> PatchAction" where
  "icmpSequenceStepAction step = patchAction ''icmp-sequence-step'' [(''step'', step)]"

definition icmpChecksumOverrideAction :: "FieldValue \<Rightarrow> PatchAction" where
  "icmpChecksumOverrideAction override = patchAction ''icmp-checksum-override'' [(''override'', override)]"

definition icmpChecksumAction :: "FieldValue \<Rightarrow> PatchAction" where
  "icmpChecksumAction checksum = patchAction ''icmp-checksum'' [(''checksum'', checksum)]"

definition icmpv6RsSllaSelectionAction :: "FieldValue \<Rightarrow> PatchAction" where
  "icmpv6RsSllaSelectionAction enabled = patchAction ''icmpv6-rs-slla-selection'' [(''enabled'', enabled)]"

definition icmpv6RsSllaMacAction :: "FieldValue \<Rightarrow> PatchAction" where
  "icmpv6RsSllaMacAction mac = patchAction ''icmpv6-rs-slla-mac'' [(''mac'', mac)]"

definition icmpv6RaCurrentHopLimitAction :: "FieldValue \<Rightarrow> PatchAction" where
  "icmpv6RaCurrentHopLimitAction hopLimit = patchAction ''icmpv6-ra-current-hop-limit'' [(''hopLimit'', hopLimit)]"

definition icmpv6RaRouterLifetimeAction :: "FieldValue \<Rightarrow> PatchAction" where
  "icmpv6RaRouterLifetimeAction lifetime = patchAction ''icmpv6-ra-router-lifetime'' [(''lifetime'', lifetime)]"

definition icmpv6RaReachableTimeAction :: "FieldValue \<Rightarrow> PatchAction" where
  "icmpv6RaReachableTimeAction reachableTime = patchAction ''icmpv6-ra-reachable-time'' [(''reachableTime'', reachableTime)]"

definition icmpv6RaRetransTimerAction :: "FieldValue \<Rightarrow> PatchAction" where
  "icmpv6RaRetransTimerAction retransTimer = patchAction ''icmpv6-ra-retrans-timer'' [(''retransTimer'', retransTimer)]"

definition icmpv6RaManagedFlagAction :: "FieldValue \<Rightarrow> PatchAction" where
  "icmpv6RaManagedFlagAction enabled = patchAction ''icmpv6-ra-managed-flag'' [(''enabled'', enabled)]"

definition icmpv6RaOtherFlagAction :: "FieldValue \<Rightarrow> PatchAction" where
  "icmpv6RaOtherFlagAction enabled = patchAction ''icmpv6-ra-other-flag'' [(''enabled'', enabled)]"

definition icmpv6RaSllaSelectionAction :: "FieldValue \<Rightarrow> PatchAction" where
  "icmpv6RaSllaSelectionAction enabled = patchAction ''icmpv6-ra-slla-selection'' [(''enabled'', enabled)]"

definition icmpv6RaSllaMacAction :: "FieldValue \<Rightarrow> PatchAction" where
  "icmpv6RaSllaMacAction mac = patchAction ''icmpv6-ra-slla-mac'' [(''mac'', mac)]"

definition icmpv6RaPrefixSelectionAction :: "FieldValue \<Rightarrow> PatchAction" where
  "icmpv6RaPrefixSelectionAction enabled = patchAction ''icmpv6-ra-prefix-selection'' [(''enabled'', enabled)]"

definition icmpv6RaPrefixAction :: "FieldValue \<Rightarrow> PatchAction" where
  "icmpv6RaPrefixAction prefix' = patchAction ''icmpv6-ra-prefix'' [(''prefix'', prefix')]"

definition icmpv6RaPrefixLengthAction :: "FieldValue \<Rightarrow> PatchAction" where
  "icmpv6RaPrefixLengthAction prefixLength = patchAction ''icmpv6-ra-prefix-length'' [(''prefixLength'', prefixLength)]"

definition icmpv6RaPrefixOnLinkFlagAction :: "FieldValue \<Rightarrow> PatchAction" where
  "icmpv6RaPrefixOnLinkFlagAction enabled = patchAction ''icmpv6-ra-prefix-on-link-flag'' [(''enabled'', enabled)]"

definition icmpv6RaPrefixAutonomousFlagAction :: "FieldValue \<Rightarrow> PatchAction" where
  "icmpv6RaPrefixAutonomousFlagAction enabled = patchAction ''icmpv6-ra-prefix-autonomous-flag'' [(''enabled'', enabled)]"

definition icmpv6RaPrefixValidLifetimeAction :: "FieldValue \<Rightarrow> PatchAction" where
  "icmpv6RaPrefixValidLifetimeAction lifetime = patchAction ''icmpv6-ra-prefix-valid-lifetime'' [(''lifetime'', lifetime)]"

definition icmpv6RaPrefixPreferredLifetimeAction :: "FieldValue \<Rightarrow> PatchAction" where
  "icmpv6RaPrefixPreferredLifetimeAction lifetime = patchAction ''icmpv6-ra-prefix-preferred-lifetime'' [(''lifetime'', lifetime)]"

definition icmpv6NdTargetAction :: "FieldValue \<Rightarrow> PatchAction" where
  "icmpv6NdTargetAction target = patchAction ''icmpv6-nd-target'' [(''target'', target)]"

definition icmpv6NdOptionSelectionAction :: "FieldValue \<Rightarrow> PatchAction" where
  "icmpv6NdOptionSelectionAction enabled = patchAction ''icmpv6-nd-option-selection'' [(''enabled'', enabled)]"

definition icmpv6NdOptionMacAction :: "FieldValue \<Rightarrow> PatchAction" where
  "icmpv6NdOptionMacAction mac = patchAction ''icmpv6-nd-option-mac'' [(''mac'', mac)]"

definition icmpv6NdNaRouterFlagAction :: "FieldValue \<Rightarrow> PatchAction" where
  "icmpv6NdNaRouterFlagAction enabled = patchAction ''icmpv6-nd-na-router-flag'' [(''enabled'', enabled)]"

definition icmpv6NdNaSolicitedFlagAction :: "FieldValue \<Rightarrow> PatchAction" where
  "icmpv6NdNaSolicitedFlagAction enabled = patchAction ''icmpv6-nd-na-solicited-flag'' [(''enabled'', enabled)]"

definition icmpv6NdNaOverrideFlagAction :: "FieldValue \<Rightarrow> PatchAction" where
  "icmpv6NdNaOverrideFlagAction enabled = patchAction ''icmpv6-nd-na-override-flag'' [(''enabled'', enabled)]"

definition dnsSelectionAction :: "FieldValue \<Rightarrow> PatchAction" where
  "dnsSelectionAction enabled = patchAction ''dns-selection'' [(''enabled'', enabled)]"

definition dnsAnswerSelectionAction :: "FieldValue \<Rightarrow> PatchAction" where
  "dnsAnswerSelectionAction enabled = patchAction ''dns-answer-selection'' [(''enabled'', enabled)]"

definition dnsNumberAction :: "FieldValue \<Rightarrow> FieldValue \<Rightarrow> PatchAction" where
  "dnsNumberAction field value' = patchAction ''dns-number'' [(''field'', field), (''value'', value')]"

definition dnsTextAction :: "FieldValue \<Rightarrow> FieldValue \<Rightarrow> PatchAction" where
  "dnsTextAction field value' = patchAction ''dns-text'' [(''field'', field), (''value'', value')]"

definition dnsModeAction :: "FieldValue \<Rightarrow> FieldValue \<Rightarrow> PatchAction" where
  "dnsModeAction field mode = patchAction ''dns-mode'' [(''field'', field), (''mode'', mode)]"

definition dnsCountAction :: "FieldValue \<Rightarrow> FieldValue \<Rightarrow> PatchAction" where
  "dnsCountAction field count = patchAction ''dns-count'' [(''count'', count), (''field'', field)]"

definition dnsStepAction :: "FieldValue \<Rightarrow> FieldValue \<Rightarrow> PatchAction" where
  "dnsStepAction field step = patchAction ''dns-step'' [(''field'', field), (''step'', step)]"

definition dhcpSelectionAction :: "FieldValue \<Rightarrow> PatchAction" where
  "dhcpSelectionAction enabled = patchAction ''dhcp-selection'' [(''enabled'', enabled)]"

definition dhcpBootpNumberAction :: "FieldValue \<Rightarrow> FieldValue \<Rightarrow> PatchAction" where
  "dhcpBootpNumberAction field value' = patchAction ''dhcp-bootp-number'' [(''field'', field), (''value'', value')]"

definition dhcpBootpTextAction :: "FieldValue \<Rightarrow> FieldValue \<Rightarrow> PatchAction" where
  "dhcpBootpTextAction field value' = patchAction ''dhcp-bootp-text'' [(''field'', field), (''value'', value')]"

definition dhcpBootpModeAction :: "FieldValue \<Rightarrow> FieldValue \<Rightarrow> PatchAction" where
  "dhcpBootpModeAction field mode = patchAction ''dhcp-bootp-mode'' [(''field'', field), (''mode'', mode)]"

definition dhcpBootpCountAction :: "FieldValue \<Rightarrow> FieldValue \<Rightarrow> PatchAction" where
  "dhcpBootpCountAction field count = patchAction ''dhcp-bootp-count'' [(''count'', count), (''field'', field)]"

definition dhcpBootpStepAction :: "FieldValue \<Rightarrow> FieldValue \<Rightarrow> PatchAction" where
  "dhcpBootpStepAction field step = patchAction ''dhcp-bootp-step'' [(''field'', field), (''step'', step)]"

definition dhcpBootpAddressTextAction :: "FieldValue \<Rightarrow> FieldValue \<Rightarrow> PatchAction" where
  "dhcpBootpAddressTextAction field value' = patchAction ''dhcp-bootp-address-text'' [(''field'', field), (''value'', value')]"

definition dhcpBootpAddressModeAction :: "FieldValue \<Rightarrow> FieldValue \<Rightarrow> PatchAction" where
  "dhcpBootpAddressModeAction field mode = patchAction ''dhcp-bootp-address-mode'' [(''field'', field), (''mode'', mode)]"

definition dhcpBootpAddressCountAction :: "FieldValue \<Rightarrow> FieldValue \<Rightarrow> PatchAction" where
  "dhcpBootpAddressCountAction field count = patchAction ''dhcp-bootp-address-count'' [(''count'', count), (''field'', field)]"

definition dhcpBootpAddressStepAction :: "FieldValue \<Rightarrow> FieldValue \<Rightarrow> PatchAction" where
  "dhcpBootpAddressStepAction field step = patchAction ''dhcp-bootp-address-step'' [(''field'', field), (''step'', step)]"

definition dhcpOptionTextAction :: "FieldValue \<Rightarrow> FieldValue \<Rightarrow> PatchAction" where
  "dhcpOptionTextAction field value' = patchAction ''dhcp-option-text'' [(''field'', field), (''value'', value')]"

definition dhcpOptionTimerNumberAction :: "FieldValue \<Rightarrow> FieldValue \<Rightarrow> PatchAction" where
  "dhcpOptionTimerNumberAction field value' = patchAction ''dhcp-option-timer-number'' [(''field'', field), (''value'', value')]"

definition dhcpOptionTimerModeAction :: "FieldValue \<Rightarrow> FieldValue \<Rightarrow> PatchAction" where
  "dhcpOptionTimerModeAction field mode = patchAction ''dhcp-option-timer-mode'' [(''field'', field), (''mode'', mode)]"

definition dhcpOptionTimerCountAction :: "FieldValue \<Rightarrow> FieldValue \<Rightarrow> PatchAction" where
  "dhcpOptionTimerCountAction field count = patchAction ''dhcp-option-timer-count'' [(''count'', count), (''field'', field)]"

definition dhcpOptionTimerStepAction :: "FieldValue \<Rightarrow> FieldValue \<Rightarrow> PatchAction" where
  "dhcpOptionTimerStepAction field step = patchAction ''dhcp-option-timer-step'' [(''field'', field), (''step'', step)]"

definition dhcpOptionAddressTextAction :: "FieldValue \<Rightarrow> FieldValue \<Rightarrow> PatchAction" where
  "dhcpOptionAddressTextAction field value' = patchAction ''dhcp-option-address-text'' [(''field'', field), (''value'', value')]"

definition dhcpOptionAddressModeAction :: "FieldValue \<Rightarrow> FieldValue \<Rightarrow> PatchAction" where
  "dhcpOptionAddressModeAction field mode = patchAction ''dhcp-option-address-mode'' [(''field'', field), (''mode'', mode)]"

definition dhcpOptionAddressCountAction :: "FieldValue \<Rightarrow> FieldValue \<Rightarrow> PatchAction" where
  "dhcpOptionAddressCountAction field count = patchAction ''dhcp-option-address-count'' [(''count'', count), (''field'', field)]"

definition dhcpOptionAddressStepAction :: "FieldValue \<Rightarrow> FieldValue \<Rightarrow> PatchAction" where
  "dhcpOptionAddressStepAction field step = patchAction ''dhcp-option-address-step'' [(''field'', field), (''step'', step)]"

definition sctpNumberAction :: "FieldValue \<Rightarrow> FieldValue \<Rightarrow> PatchAction" where
  "sctpNumberAction field value' = patchAction ''sctp-number'' [(''field'', field), (''value'', value')]"

definition sctpModeAction :: "FieldValue \<Rightarrow> FieldValue \<Rightarrow> PatchAction" where
  "sctpModeAction field mode = patchAction ''sctp-mode'' [(''field'', field), (''mode'', mode)]"

definition sctpCountAction :: "FieldValue \<Rightarrow> FieldValue \<Rightarrow> PatchAction" where
  "sctpCountAction field count = patchAction ''sctp-count'' [(''count'', count), (''field'', field)]"

definition sctpStepAction :: "FieldValue \<Rightarrow> FieldValue \<Rightarrow> PatchAction" where
  "sctpStepAction field step = patchAction ''sctp-step'' [(''field'', field), (''step'', step)]"

definition sctpChecksumOverrideAction :: "FieldValue \<Rightarrow> PatchAction" where
  "sctpChecksumOverrideAction override = patchAction ''sctp-checksum-override'' [(''override'', override)]"

definition sctpChecksumAction :: "FieldValue \<Rightarrow> PatchAction" where
  "sctpChecksumAction checksum = patchAction ''sctp-checksum'' [(''checksum'', checksum)]"

definition tcpCoreNumberAction :: "FieldValue \<Rightarrow> FieldValue \<Rightarrow> PatchAction" where
  "tcpCoreNumberAction field value' = patchAction ''tcp-core-number'' [(''field'', field), (''value'', value')]"

definition tcpCoreModeAction :: "FieldValue \<Rightarrow> FieldValue \<Rightarrow> PatchAction" where
  "tcpCoreModeAction field mode = patchAction ''tcp-core-mode'' [(''field'', field), (''mode'', mode)]"

definition tcpCoreCountAction :: "FieldValue \<Rightarrow> FieldValue \<Rightarrow> PatchAction" where
  "tcpCoreCountAction field count = patchAction ''tcp-core-count'' [(''count'', count), (''field'', field)]"

definition tcpCoreStepAction :: "FieldValue \<Rightarrow> FieldValue \<Rightarrow> PatchAction" where
  "tcpCoreStepAction field step = patchAction ''tcp-core-step'' [(''field'', field), (''step'', step)]"

definition tcpChecksumOverrideAction :: "FieldValue \<Rightarrow> PatchAction" where
  "tcpChecksumOverrideAction override = patchAction ''tcp-checksum-override'' [(''override'', override)]"

definition tcpChecksumAction :: "FieldValue \<Rightarrow> PatchAction" where
  "tcpChecksumAction checksum = patchAction ''tcp-checksum'' [(''checksum'', checksum)]"

definition tcpFlagAction :: "FieldValue \<Rightarrow> FieldValue \<Rightarrow> PatchAction" where
  "tcpFlagAction flag checked = patchAction ''tcp-flag'' [(''checked'', checked), (''flag'', flag)]"

definition tcpOptionSelectionAction :: "FieldValue \<Rightarrow> FieldValue \<Rightarrow> PatchAction" where
  "tcpOptionSelectionAction opt enabled = patchAction ''tcp-option-selection'' [(''enabled'', enabled), (''option'', opt)]"

definition tcpOptionNumberAction :: "FieldValue \<Rightarrow> FieldValue \<Rightarrow> PatchAction" where
  "tcpOptionNumberAction field value' = patchAction ''tcp-option-number'' [(''field'', field), (''value'', value')]"

definition tcpOptionModeAction :: "FieldValue \<Rightarrow> FieldValue \<Rightarrow> PatchAction" where
  "tcpOptionModeAction field mode = patchAction ''tcp-option-mode'' [(''field'', field), (''mode'', mode)]"

definition tcpOptionCountAction :: "FieldValue \<Rightarrow> FieldValue \<Rightarrow> PatchAction" where
  "tcpOptionCountAction field count = patchAction ''tcp-option-count'' [(''count'', count), (''field'', field)]"

definition tcpOptionStepAction :: "FieldValue \<Rightarrow> FieldValue \<Rightarrow> PatchAction" where
  "tcpOptionStepAction field step = patchAction ''tcp-option-step'' [(''field'', field), (''step'', step)]"

definition vxlanVniAction :: "FieldValue \<Rightarrow> PatchAction" where
  "vxlanVniAction vni = patchAction ''vxlan-vni'' [(''vni'', vni)]"

definition vxlanVniModeAction :: "FieldValue \<Rightarrow> PatchAction" where
  "vxlanVniModeAction mode = patchAction ''vxlan-vni-mode'' [(''mode'', mode)]"

definition vxlanVniCountAction :: "FieldValue \<Rightarrow> PatchAction" where
  "vxlanVniCountAction count = patchAction ''vxlan-vni-count'' [(''count'', count)]"

definition vxlanVniStepAction :: "FieldValue \<Rightarrow> PatchAction" where
  "vxlanVniStepAction step = patchAction ''vxlan-vni-step'' [(''step'', step)]"

definition vxlanInnerIpVersionAction :: "FieldValue \<Rightarrow> PatchAction" where
  "vxlanInnerIpVersionAction version = patchAction ''vxlan-inner-ip-version'' [(''version'', version)]"

definition vxlanInnerIpv6HopLimitAction :: "FieldValue \<Rightarrow> PatchAction" where
  "vxlanInnerIpv6HopLimitAction hopLimit = patchAction ''vxlan-inner-ipv6-hop-limit'' [(''hopLimit'', hopLimit)]"

definition vxlanInnerIpv6HopLimitModeAction :: "FieldValue \<Rightarrow> PatchAction" where
  "vxlanInnerIpv6HopLimitModeAction mode = patchAction ''vxlan-inner-ipv6-hop-limit-mode'' [(''mode'', mode)]"

definition vxlanInnerIpv6HopLimitCountAction :: "FieldValue \<Rightarrow> PatchAction" where
  "vxlanInnerIpv6HopLimitCountAction count = patchAction ''vxlan-inner-ipv6-hop-limit-count'' [(''count'', count)]"

definition vxlanInnerIpv6HopLimitStepAction :: "FieldValue \<Rightarrow> PatchAction" where
  "vxlanInnerIpv6HopLimitStepAction step = patchAction ''vxlan-inner-ipv6-hop-limit-step'' [(''step'', step)]"

definition vxlanInnerIpv4TtlAction :: "FieldValue \<Rightarrow> PatchAction" where
  "vxlanInnerIpv4TtlAction ttl = patchAction ''vxlan-inner-ipv4-ttl'' [(''ttl'', ttl)]"

definition vxlanInnerIpv4TtlModeAction :: "FieldValue \<Rightarrow> PatchAction" where
  "vxlanInnerIpv4TtlModeAction mode = patchAction ''vxlan-inner-ipv4-ttl-mode'' [(''mode'', mode)]"

definition vxlanInnerIpv4TtlCountAction :: "FieldValue \<Rightarrow> PatchAction" where
  "vxlanInnerIpv4TtlCountAction count = patchAction ''vxlan-inner-ipv4-ttl-count'' [(''count'', count)]"

definition vxlanInnerIpv4TtlStepAction :: "FieldValue \<Rightarrow> PatchAction" where
  "vxlanInnerIpv4TtlStepAction step = patchAction ''vxlan-inner-ipv4-ttl-step'' [(''step'', step)]"

definition vxlanInnerEtherDestinationAction :: "FieldValue \<Rightarrow> PatchAction" where
  "vxlanInnerEtherDestinationAction address = patchAction ''vxlan-inner-ether-dst'' [(''address'', address)]"

definition vxlanInnerEtherSourceAction :: "FieldValue \<Rightarrow> PatchAction" where
  "vxlanInnerEtherSourceAction address = patchAction ''vxlan-inner-ether-src'' [(''address'', address)]"

definition vxlanInnerIpv6SourceAction :: "FieldValue \<Rightarrow> PatchAction" where
  "vxlanInnerIpv6SourceAction address = patchAction ''vxlan-inner-ipv6-src'' [(''address'', address)]"

definition vxlanInnerIpv6SourceModeAction :: "FieldValue \<Rightarrow> PatchAction" where
  "vxlanInnerIpv6SourceModeAction mode = patchAction ''vxlan-inner-ipv6-src-mode'' [(''mode'', mode)]"

definition vxlanInnerIpv6SourceCountAction :: "FieldValue \<Rightarrow> PatchAction" where
  "vxlanInnerIpv6SourceCountAction count = patchAction ''vxlan-inner-ipv6-src-count'' [(''count'', count)]"

definition vxlanInnerIpv6SourceStepAction :: "FieldValue \<Rightarrow> PatchAction" where
  "vxlanInnerIpv6SourceStepAction step = patchAction ''vxlan-inner-ipv6-src-step'' [(''step'', step)]"

definition vxlanInnerIpv6DestinationAction :: "FieldValue \<Rightarrow> PatchAction" where
  "vxlanInnerIpv6DestinationAction address = patchAction ''vxlan-inner-ipv6-dst'' [(''address'', address)]"

definition vxlanInnerIpv6DestinationModeAction :: "FieldValue \<Rightarrow> PatchAction" where
  "vxlanInnerIpv6DestinationModeAction mode = patchAction ''vxlan-inner-ipv6-dst-mode'' [(''mode'', mode)]"

definition vxlanInnerIpv6DestinationCountAction :: "FieldValue \<Rightarrow> PatchAction" where
  "vxlanInnerIpv6DestinationCountAction count = patchAction ''vxlan-inner-ipv6-dst-count'' [(''count'', count)]"

definition vxlanInnerIpv6DestinationStepAction :: "FieldValue \<Rightarrow> PatchAction" where
  "vxlanInnerIpv6DestinationStepAction step = patchAction ''vxlan-inner-ipv6-dst-step'' [(''step'', step)]"

definition vxlanInnerIpv4SourceAction :: "FieldValue \<Rightarrow> PatchAction" where
  "vxlanInnerIpv4SourceAction address = patchAction ''vxlan-inner-ipv4-src'' [(''address'', address)]"

definition vxlanInnerIpv4SourceModeAction :: "FieldValue \<Rightarrow> PatchAction" where
  "vxlanInnerIpv4SourceModeAction mode = patchAction ''vxlan-inner-ipv4-src-mode'' [(''mode'', mode)]"

definition vxlanInnerIpv4SourceCountAction :: "FieldValue \<Rightarrow> PatchAction" where
  "vxlanInnerIpv4SourceCountAction count = patchAction ''vxlan-inner-ipv4-src-count'' [(''count'', count)]"

definition vxlanInnerIpv4SourceStepAction :: "FieldValue \<Rightarrow> PatchAction" where
  "vxlanInnerIpv4SourceStepAction step = patchAction ''vxlan-inner-ipv4-src-step'' [(''step'', step)]"

definition vxlanInnerIpv4DestinationAction :: "FieldValue \<Rightarrow> PatchAction" where
  "vxlanInnerIpv4DestinationAction address = patchAction ''vxlan-inner-ipv4-dst'' [(''address'', address)]"

definition vxlanInnerIpv4DestinationModeAction :: "FieldValue \<Rightarrow> PatchAction" where
  "vxlanInnerIpv4DestinationModeAction mode = patchAction ''vxlan-inner-ipv4-dst-mode'' [(''mode'', mode)]"

definition vxlanInnerIpv4DestinationCountAction :: "FieldValue \<Rightarrow> PatchAction" where
  "vxlanInnerIpv4DestinationCountAction count = patchAction ''vxlan-inner-ipv4-dst-count'' [(''count'', count)]"

definition vxlanInnerIpv4DestinationStepAction :: "FieldValue \<Rightarrow> PatchAction" where
  "vxlanInnerIpv4DestinationStepAction step = patchAction ''vxlan-inner-ipv4-dst-step'' [(''step'', step)]"

definition vxlanInnerL4SourcePortAction :: "FieldValue \<Rightarrow> PatchAction" where
  "vxlanInnerL4SourcePortAction port = patchAction ''vxlan-inner-l4-src-port'' [(''port'', port)]"

definition vxlanInnerL4SourcePortModeAction :: "FieldValue \<Rightarrow> PatchAction" where
  "vxlanInnerL4SourcePortModeAction mode = patchAction ''vxlan-inner-l4-src-port-mode'' [(''mode'', mode)]"

definition vxlanInnerL4SourcePortCountAction :: "FieldValue \<Rightarrow> PatchAction" where
  "vxlanInnerL4SourcePortCountAction count = patchAction ''vxlan-inner-l4-src-port-count'' [(''count'', count)]"

definition vxlanInnerL4SourcePortStepAction :: "FieldValue \<Rightarrow> PatchAction" where
  "vxlanInnerL4SourcePortStepAction step = patchAction ''vxlan-inner-l4-src-port-step'' [(''step'', step)]"

definition vxlanInnerL4DestinationPortAction :: "FieldValue \<Rightarrow> PatchAction" where
  "vxlanInnerL4DestinationPortAction port = patchAction ''vxlan-inner-l4-dst-port'' [(''port'', port)]"

definition vxlanInnerL4DestinationPortModeAction :: "FieldValue \<Rightarrow> PatchAction" where
  "vxlanInnerL4DestinationPortModeAction mode = patchAction ''vxlan-inner-l4-dst-port-mode'' [(''mode'', mode)]"

definition vxlanInnerL4DestinationPortCountAction :: "FieldValue \<Rightarrow> PatchAction" where
  "vxlanInnerL4DestinationPortCountAction count = patchAction ''vxlan-inner-l4-dst-port-count'' [(''count'', count)]"

definition vxlanInnerL4DestinationPortStepAction :: "FieldValue \<Rightarrow> PatchAction" where
  "vxlanInnerL4DestinationPortStepAction step = patchAction ''vxlan-inner-l4-dst-port-step'' [(''step'', step)]"

definition gtpuMessageTypeAction :: "FieldValue \<Rightarrow> PatchAction" where
  "gtpuMessageTypeAction messageType = patchAction ''gtpu-message-type'' [(''messageType'', messageType)]"

definition gtpuTeidAction :: "FieldValue \<Rightarrow> PatchAction" where
  "gtpuTeidAction teid = patchAction ''gtpu-teid'' [(''teid'', teid)]"

definition gtpuTeidModeAction :: "FieldValue \<Rightarrow> PatchAction" where
  "gtpuTeidModeAction mode = patchAction ''gtpu-teid-mode'' [(''mode'', mode)]"

definition gtpuTeidCountAction :: "FieldValue \<Rightarrow> PatchAction" where
  "gtpuTeidCountAction count = patchAction ''gtpu-teid-count'' [(''count'', count)]"

definition gtpuTeidStepAction :: "FieldValue \<Rightarrow> PatchAction" where
  "gtpuTeidStepAction step = patchAction ''gtpu-teid-step'' [(''step'', step)]"

definition gtpuSequenceSelectionAction :: "FieldValue \<Rightarrow> PatchAction" where
  "gtpuSequenceSelectionAction enabled = patchAction ''gtpu-sequence-selection'' [(''enabled'', enabled)]"

definition gtpuSequenceAction :: "FieldValue \<Rightarrow> PatchAction" where
  "gtpuSequenceAction sequence = patchAction ''gtpu-sequence'' [(''sequence'', sequence)]"

definition gtpuSequenceModeAction :: "FieldValue \<Rightarrow> PatchAction" where
  "gtpuSequenceModeAction mode = patchAction ''gtpu-sequence-mode'' [(''mode'', mode)]"

definition gtpuSequenceCountAction :: "FieldValue \<Rightarrow> PatchAction" where
  "gtpuSequenceCountAction count = patchAction ''gtpu-sequence-count'' [(''count'', count)]"

definition gtpuSequenceStepAction :: "FieldValue \<Rightarrow> PatchAction" where
  "gtpuSequenceStepAction step = patchAction ''gtpu-sequence-step'' [(''step'', step)]"

definition gtpuNpduSelectionAction :: "FieldValue \<Rightarrow> PatchAction" where
  "gtpuNpduSelectionAction enabled = patchAction ''gtpu-npdu-selection'' [(''enabled'', enabled)]"

definition gtpuNpduAction :: "FieldValue \<Rightarrow> PatchAction" where
  "gtpuNpduAction npdu = patchAction ''gtpu-npdu'' [(''npdu'', npdu)]"

definition gtpuNpduModeAction :: "FieldValue \<Rightarrow> PatchAction" where
  "gtpuNpduModeAction mode = patchAction ''gtpu-npdu-mode'' [(''mode'', mode)]"

definition gtpuNpduCountAction :: "FieldValue \<Rightarrow> PatchAction" where
  "gtpuNpduCountAction count = patchAction ''gtpu-npdu-count'' [(''count'', count)]"

definition gtpuNpduStepAction :: "FieldValue \<Rightarrow> PatchAction" where
  "gtpuNpduStepAction step = patchAction ''gtpu-npdu-step'' [(''step'', step)]"

definition gtpuExtensionSelectionAction :: "FieldValue \<Rightarrow> PatchAction" where
  "gtpuExtensionSelectionAction enabled = patchAction ''gtpu-extension-selection'' [(''enabled'', enabled)]"

definition gtpuExtensionUdpPortAction :: "FieldValue \<Rightarrow> PatchAction" where
  "gtpuExtensionUdpPortAction port = patchAction ''gtpu-extension-udp-port'' [(''port'', port)]"

definition gtpuExtensionUdpPortModeAction :: "FieldValue \<Rightarrow> PatchAction" where
  "gtpuExtensionUdpPortModeAction mode = patchAction ''gtpu-extension-udp-port-mode'' [(''mode'', mode)]"

definition gtpuExtensionUdpPortCountAction :: "FieldValue \<Rightarrow> PatchAction" where
  "gtpuExtensionUdpPortCountAction count = patchAction ''gtpu-extension-udp-port-count'' [(''count'', count)]"

definition gtpuExtensionUdpPortStepAction :: "FieldValue \<Rightarrow> PatchAction" where
  "gtpuExtensionUdpPortStepAction step = patchAction ''gtpu-extension-udp-port-step'' [(''step'', step)]"

definition gtpuInnerIpVersionAction :: "FieldValue \<Rightarrow> PatchAction" where
  "gtpuInnerIpVersionAction version = patchAction ''gtpu-inner-ip-version'' [(''version'', version)]"

definition gtpuInnerIpv4TtlAction :: "FieldValue \<Rightarrow> PatchAction" where
  "gtpuInnerIpv4TtlAction ttl = patchAction ''gtpu-inner-ipv4-ttl'' [(''ttl'', ttl)]"

definition gtpuInnerIpv4TtlModeAction :: "FieldValue \<Rightarrow> PatchAction" where
  "gtpuInnerIpv4TtlModeAction mode = patchAction ''gtpu-inner-ipv4-ttl-mode'' [(''mode'', mode)]"

definition gtpuInnerIpv4TtlCountAction :: "FieldValue \<Rightarrow> PatchAction" where
  "gtpuInnerIpv4TtlCountAction count = patchAction ''gtpu-inner-ipv4-ttl-count'' [(''count'', count)]"

definition gtpuInnerIpv4TtlStepAction :: "FieldValue \<Rightarrow> PatchAction" where
  "gtpuInnerIpv4TtlStepAction step = patchAction ''gtpu-inner-ipv4-ttl-step'' [(''step'', step)]"

definition gtpuInnerIpv6HopLimitAction :: "FieldValue \<Rightarrow> PatchAction" where
  "gtpuInnerIpv6HopLimitAction hopLimit = patchAction ''gtpu-inner-ipv6-hop-limit'' [(''hopLimit'', hopLimit)]"

definition gtpuInnerIpv6HopLimitModeAction :: "FieldValue \<Rightarrow> PatchAction" where
  "gtpuInnerIpv6HopLimitModeAction mode = patchAction ''gtpu-inner-ipv6-hop-limit-mode'' [(''mode'', mode)]"

definition gtpuInnerIpv6HopLimitCountAction :: "FieldValue \<Rightarrow> PatchAction" where
  "gtpuInnerIpv6HopLimitCountAction count = patchAction ''gtpu-inner-ipv6-hop-limit-count'' [(''count'', count)]"

definition gtpuInnerIpv6HopLimitStepAction :: "FieldValue \<Rightarrow> PatchAction" where
  "gtpuInnerIpv6HopLimitStepAction step = patchAction ''gtpu-inner-ipv6-hop-limit-step'' [(''step'', step)]"

definition gtpuInnerIpv4SourceAction :: "FieldValue \<Rightarrow> PatchAction" where
  "gtpuInnerIpv4SourceAction address = patchAction ''gtpu-inner-ipv4-src'' [(''address'', address)]"

definition gtpuInnerIpv4SourceModeAction :: "FieldValue \<Rightarrow> PatchAction" where
  "gtpuInnerIpv4SourceModeAction mode = patchAction ''gtpu-inner-ipv4-src-mode'' [(''mode'', mode)]"

definition gtpuInnerIpv4SourceCountAction :: "FieldValue \<Rightarrow> PatchAction" where
  "gtpuInnerIpv4SourceCountAction count = patchAction ''gtpu-inner-ipv4-src-count'' [(''count'', count)]"

definition gtpuInnerIpv4SourceStepAction :: "FieldValue \<Rightarrow> PatchAction" where
  "gtpuInnerIpv4SourceStepAction step = patchAction ''gtpu-inner-ipv4-src-step'' [(''step'', step)]"

definition gtpuInnerIpv4DestinationAction :: "FieldValue \<Rightarrow> PatchAction" where
  "gtpuInnerIpv4DestinationAction address = patchAction ''gtpu-inner-ipv4-dst'' [(''address'', address)]"

definition gtpuInnerIpv4DestinationModeAction :: "FieldValue \<Rightarrow> PatchAction" where
  "gtpuInnerIpv4DestinationModeAction mode = patchAction ''gtpu-inner-ipv4-dst-mode'' [(''mode'', mode)]"

definition gtpuInnerIpv4DestinationCountAction :: "FieldValue \<Rightarrow> PatchAction" where
  "gtpuInnerIpv4DestinationCountAction count = patchAction ''gtpu-inner-ipv4-dst-count'' [(''count'', count)]"

definition gtpuInnerIpv4DestinationStepAction :: "FieldValue \<Rightarrow> PatchAction" where
  "gtpuInnerIpv4DestinationStepAction step = patchAction ''gtpu-inner-ipv4-dst-step'' [(''step'', step)]"

definition gtpuInnerIpv6SourceAction :: "FieldValue \<Rightarrow> PatchAction" where
  "gtpuInnerIpv6SourceAction address = patchAction ''gtpu-inner-ipv6-src'' [(''address'', address)]"

definition gtpuInnerIpv6SourceModeAction :: "FieldValue \<Rightarrow> PatchAction" where
  "gtpuInnerIpv6SourceModeAction mode = patchAction ''gtpu-inner-ipv6-src-mode'' [(''mode'', mode)]"

definition gtpuInnerIpv6SourceCountAction :: "FieldValue \<Rightarrow> PatchAction" where
  "gtpuInnerIpv6SourceCountAction count = patchAction ''gtpu-inner-ipv6-src-count'' [(''count'', count)]"

definition gtpuInnerIpv6SourceStepAction :: "FieldValue \<Rightarrow> PatchAction" where
  "gtpuInnerIpv6SourceStepAction step = patchAction ''gtpu-inner-ipv6-src-step'' [(''step'', step)]"

definition gtpuInnerIpv6DestinationAction :: "FieldValue \<Rightarrow> PatchAction" where
  "gtpuInnerIpv6DestinationAction address = patchAction ''gtpu-inner-ipv6-dst'' [(''address'', address)]"

definition gtpuInnerIpv6DestinationModeAction :: "FieldValue \<Rightarrow> PatchAction" where
  "gtpuInnerIpv6DestinationModeAction mode = patchAction ''gtpu-inner-ipv6-dst-mode'' [(''mode'', mode)]"

definition gtpuInnerIpv6DestinationCountAction :: "FieldValue \<Rightarrow> PatchAction" where
  "gtpuInnerIpv6DestinationCountAction count = patchAction ''gtpu-inner-ipv6-dst-count'' [(''count'', count)]"

definition gtpuInnerIpv6DestinationStepAction :: "FieldValue \<Rightarrow> PatchAction" where
  "gtpuInnerIpv6DestinationStepAction step = patchAction ''gtpu-inner-ipv6-dst-step'' [(''step'', step)]"

definition gtpuInnerL4SourcePortAction :: "FieldValue \<Rightarrow> PatchAction" where
  "gtpuInnerL4SourcePortAction port = patchAction ''gtpu-inner-l4-src-port'' [(''port'', port)]"

definition gtpuInnerL4SourcePortModeAction :: "FieldValue \<Rightarrow> PatchAction" where
  "gtpuInnerL4SourcePortModeAction mode = patchAction ''gtpu-inner-l4-src-port-mode'' [(''mode'', mode)]"

definition gtpuInnerL4SourcePortCountAction :: "FieldValue \<Rightarrow> PatchAction" where
  "gtpuInnerL4SourcePortCountAction count = patchAction ''gtpu-inner-l4-src-port-count'' [(''count'', count)]"

definition gtpuInnerL4SourcePortStepAction :: "FieldValue \<Rightarrow> PatchAction" where
  "gtpuInnerL4SourcePortStepAction step = patchAction ''gtpu-inner-l4-src-port-step'' [(''step'', step)]"

definition gtpuInnerL4DestinationPortAction :: "FieldValue \<Rightarrow> PatchAction" where
  "gtpuInnerL4DestinationPortAction port = patchAction ''gtpu-inner-l4-dst-port'' [(''port'', port)]"

definition gtpuInnerL4DestinationPortModeAction :: "FieldValue \<Rightarrow> PatchAction" where
  "gtpuInnerL4DestinationPortModeAction mode = patchAction ''gtpu-inner-l4-dst-port-mode'' [(''mode'', mode)]"

definition gtpuInnerL4DestinationPortCountAction :: "FieldValue \<Rightarrow> PatchAction" where
  "gtpuInnerL4DestinationPortCountAction count = patchAction ''gtpu-inner-l4-dst-port-count'' [(''count'', count)]"

definition gtpuInnerL4DestinationPortStepAction :: "FieldValue \<Rightarrow> PatchAction" where
  "gtpuInnerL4DestinationPortStepAction step = patchAction ''gtpu-inner-l4-dst-port-step'' [(''step'', step)]"

definition greInnerIpVersionAction :: "FieldValue \<Rightarrow> PatchAction" where
  "greInnerIpVersionAction version = patchAction ''gre-inner-ip-version'' [(''version'', version)]"

definition greChecksumSelectionAction :: "FieldValue \<Rightarrow> PatchAction" where
  "greChecksumSelectionAction enabled = patchAction ''gre-checksum-selection'' [(''enabled'', enabled)]"

definition greChecksumOverrideAction :: "FieldValue \<Rightarrow> PatchAction" where
  "greChecksumOverrideAction enabled = patchAction ''gre-checksum-override'' [(''enabled'', enabled)]"

definition greChecksumAction :: "FieldValue \<Rightarrow> PatchAction" where
  "greChecksumAction checksum = patchAction ''gre-checksum'' [(''checksum'', checksum)]"

definition greKeySelectionAction :: "FieldValue \<Rightarrow> PatchAction" where
  "greKeySelectionAction enabled = patchAction ''gre-key-selection'' [(''enabled'', enabled)]"

definition greKeyAction :: "FieldValue \<Rightarrow> PatchAction" where
  "greKeyAction key = patchAction ''gre-key'' [(''key'', key)]"

definition greKeyModeAction :: "FieldValue \<Rightarrow> PatchAction" where
  "greKeyModeAction mode = patchAction ''gre-key-mode'' [(''mode'', mode)]"

definition greKeyCountAction :: "FieldValue \<Rightarrow> PatchAction" where
  "greKeyCountAction count = patchAction ''gre-key-count'' [(''count'', count)]"

definition greKeyStepAction :: "FieldValue \<Rightarrow> PatchAction" where
  "greKeyStepAction step = patchAction ''gre-key-step'' [(''step'', step)]"

definition greSequenceSelectionAction :: "FieldValue \<Rightarrow> PatchAction" where
  "greSequenceSelectionAction enabled = patchAction ''gre-sequence-selection'' [(''enabled'', enabled)]"

definition greSequenceAction :: "FieldValue \<Rightarrow> PatchAction" where
  "greSequenceAction sequence = patchAction ''gre-sequence'' [(''sequence'', sequence)]"

definition greSequenceModeAction :: "FieldValue \<Rightarrow> PatchAction" where
  "greSequenceModeAction mode = patchAction ''gre-sequence-mode'' [(''mode'', mode)]"

definition greSequenceCountAction :: "FieldValue \<Rightarrow> PatchAction" where
  "greSequenceCountAction count = patchAction ''gre-sequence-count'' [(''count'', count)]"

definition greSequenceStepAction :: "FieldValue \<Rightarrow> PatchAction" where
  "greSequenceStepAction step = patchAction ''gre-sequence-step'' [(''step'', step)]"

definition greInnerIpv6SourceAction :: "FieldValue \<Rightarrow> PatchAction" where
  "greInnerIpv6SourceAction address = patchAction ''gre-inner-ipv6-src'' [(''address'', address)]"

definition greInnerIpv6SourceModeAction :: "FieldValue \<Rightarrow> PatchAction" where
  "greInnerIpv6SourceModeAction mode = patchAction ''gre-inner-ipv6-src-mode'' [(''mode'', mode)]"

definition greInnerIpv6SourceCountAction :: "FieldValue \<Rightarrow> PatchAction" where
  "greInnerIpv6SourceCountAction count = patchAction ''gre-inner-ipv6-src-count'' [(''count'', count)]"

definition greInnerIpv6SourceStepAction :: "FieldValue \<Rightarrow> PatchAction" where
  "greInnerIpv6SourceStepAction step = patchAction ''gre-inner-ipv6-src-step'' [(''step'', step)]"

definition greInnerIpv6DestinationAction :: "FieldValue \<Rightarrow> PatchAction" where
  "greInnerIpv6DestinationAction address = patchAction ''gre-inner-ipv6-dst'' [(''address'', address)]"

definition greInnerIpv6DestinationModeAction :: "FieldValue \<Rightarrow> PatchAction" where
  "greInnerIpv6DestinationModeAction mode = patchAction ''gre-inner-ipv6-dst-mode'' [(''mode'', mode)]"

definition greInnerIpv6DestinationCountAction :: "FieldValue \<Rightarrow> PatchAction" where
  "greInnerIpv6DestinationCountAction count = patchAction ''gre-inner-ipv6-dst-count'' [(''count'', count)]"

definition greInnerIpv6DestinationStepAction :: "FieldValue \<Rightarrow> PatchAction" where
  "greInnerIpv6DestinationStepAction step = patchAction ''gre-inner-ipv6-dst-step'' [(''step'', step)]"

definition greInnerIpv6HopLimitAction :: "FieldValue \<Rightarrow> PatchAction" where
  "greInnerIpv6HopLimitAction hopLimit = patchAction ''gre-inner-ipv6-hop-limit'' [(''hopLimit'', hopLimit)]"

definition greInnerIpv6HopLimitModeAction :: "FieldValue \<Rightarrow> PatchAction" where
  "greInnerIpv6HopLimitModeAction mode = patchAction ''gre-inner-ipv6-hop-limit-mode'' [(''mode'', mode)]"

definition greInnerIpv6HopLimitCountAction :: "FieldValue \<Rightarrow> PatchAction" where
  "greInnerIpv6HopLimitCountAction count = patchAction ''gre-inner-ipv6-hop-limit-count'' [(''count'', count)]"

definition greInnerIpv6HopLimitStepAction :: "FieldValue \<Rightarrow> PatchAction" where
  "greInnerIpv6HopLimitStepAction step = patchAction ''gre-inner-ipv6-hop-limit-step'' [(''step'', step)]"

definition greInnerIpv4SourceAction :: "FieldValue \<Rightarrow> PatchAction" where
  "greInnerIpv4SourceAction address = patchAction ''gre-inner-ipv4-src'' [(''address'', address)]"

definition greInnerIpv4SourceModeAction :: "FieldValue \<Rightarrow> PatchAction" where
  "greInnerIpv4SourceModeAction mode = patchAction ''gre-inner-ipv4-src-mode'' [(''mode'', mode)]"

definition greInnerIpv4SourceCountAction :: "FieldValue \<Rightarrow> PatchAction" where
  "greInnerIpv4SourceCountAction count = patchAction ''gre-inner-ipv4-src-count'' [(''count'', count)]"

definition greInnerIpv4SourceStepAction :: "FieldValue \<Rightarrow> PatchAction" where
  "greInnerIpv4SourceStepAction step = patchAction ''gre-inner-ipv4-src-step'' [(''step'', step)]"

definition greInnerIpv4DestinationAction :: "FieldValue \<Rightarrow> PatchAction" where
  "greInnerIpv4DestinationAction address = patchAction ''gre-inner-ipv4-dst'' [(''address'', address)]"

definition greInnerIpv4DestinationModeAction :: "FieldValue \<Rightarrow> PatchAction" where
  "greInnerIpv4DestinationModeAction mode = patchAction ''gre-inner-ipv4-dst-mode'' [(''mode'', mode)]"

definition greInnerIpv4DestinationCountAction :: "FieldValue \<Rightarrow> PatchAction" where
  "greInnerIpv4DestinationCountAction count = patchAction ''gre-inner-ipv4-dst-count'' [(''count'', count)]"

definition greInnerIpv4DestinationStepAction :: "FieldValue \<Rightarrow> PatchAction" where
  "greInnerIpv4DestinationStepAction step = patchAction ''gre-inner-ipv4-dst-step'' [(''step'', step)]"

definition greInnerIpv4TtlAction :: "FieldValue \<Rightarrow> PatchAction" where
  "greInnerIpv4TtlAction ttl = patchAction ''gre-inner-ipv4-ttl'' [(''ttl'', ttl)]"

definition greInnerIpv4TtlModeAction :: "FieldValue \<Rightarrow> PatchAction" where
  "greInnerIpv4TtlModeAction mode = patchAction ''gre-inner-ipv4-ttl-mode'' [(''mode'', mode)]"

definition greInnerIpv4TtlCountAction :: "FieldValue \<Rightarrow> PatchAction" where
  "greInnerIpv4TtlCountAction count = patchAction ''gre-inner-ipv4-ttl-count'' [(''count'', count)]"

definition greInnerIpv4TtlStepAction :: "FieldValue \<Rightarrow> PatchAction" where
  "greInnerIpv4TtlStepAction step = patchAction ''gre-inner-ipv4-ttl-step'' [(''step'', step)]"

definition greInnerL4SourcePortAction :: "FieldValue \<Rightarrow> PatchAction" where
  "greInnerL4SourcePortAction port = patchAction ''gre-inner-l4-src-port'' [(''port'', port)]"

definition greInnerL4SourcePortModeAction :: "FieldValue \<Rightarrow> PatchAction" where
  "greInnerL4SourcePortModeAction mode = patchAction ''gre-inner-l4-src-port-mode'' [(''mode'', mode)]"

definition greInnerL4SourcePortCountAction :: "FieldValue \<Rightarrow> PatchAction" where
  "greInnerL4SourcePortCountAction count = patchAction ''gre-inner-l4-src-port-count'' [(''count'', count)]"

definition greInnerL4SourcePortStepAction :: "FieldValue \<Rightarrow> PatchAction" where
  "greInnerL4SourcePortStepAction step = patchAction ''gre-inner-l4-src-port-step'' [(''step'', step)]"

definition greInnerL4DestinationPortAction :: "FieldValue \<Rightarrow> PatchAction" where
  "greInnerL4DestinationPortAction port = patchAction ''gre-inner-l4-dst-port'' [(''port'', port)]"

definition greInnerL4DestinationPortModeAction :: "FieldValue \<Rightarrow> PatchAction" where
  "greInnerL4DestinationPortModeAction mode = patchAction ''gre-inner-l4-dst-port-mode'' [(''mode'', mode)]"

definition greInnerL4DestinationPortCountAction :: "FieldValue \<Rightarrow> PatchAction" where
  "greInnerL4DestinationPortCountAction count = patchAction ''gre-inner-l4-dst-port-count'' [(''count'', count)]"

definition greInnerL4DestinationPortStepAction :: "FieldValue \<Rightarrow> PatchAction" where
  "greInnerL4DestinationPortStepAction step = patchAction ''gre-inner-l4-dst-port-step'' [(''step'', step)]"

section \<open>Handlers\<close>

type_synonym PatchRun = "EditorStream option \<Rightarrow> bool \<times> PatchCall list"

definition runStreamModeChange :: "FieldValue \<Rightarrow> PatchRun" where
  "runStreamModeChange mode = runSelectedStreamPatch (streamModeAction mode)"

definition runStreamEnabledChange :: "FieldValue \<Rightarrow> PatchRun" where
  "runStreamEnabledChange enabled = runSelectedStreamPatch (streamEnabledAction enabled)"

definition runSelfStartChange :: "FieldValue \<Rightarrow> PatchRun" where
  "runSelfStartChange selfStart = runSelectedStreamPatch (selfStartAction selfStart)"

definition runTotalPacketsChange :: "FieldValue \<Rightarrow> PatchRun" where
  "runTotalPacketsChange totalPackets = runSelectedStreamPatch (totalPacketsAction totalPackets)"

definition runBurstCountChange :: "FieldValue \<Rightarrow> PatchRun" where
  "runBurstCountChange count = runSelectedStreamPatch (burstCountAction count)"

definition runPacketsPerBurstChange :: "FieldValue \<Rightarrow> PatchRun" where
  "runPacketsPerBurstChange packetsPerBurst = runSelectedStreamPatch (packetsPerBurstAction packetsPerBurst)"

definition runRateTypeChange :: "FieldValue \<Rightarrow> PatchRun" where
  "runRateTypeChange rateType = runSelectedStreamPatch (rateTypeAction rateType)"

definition runRateValueChange :: "FieldValue \<Rightarrow> PatchRun" where
  "runRateValueChange rateValue = runSelectedStreamPatch (rateValueAction rateValue)"

definition runAfterStreamStopChange :: "PatchRun" where
  "runAfterStreamStopChange = runSelectedStreamPatch afterStreamStopAction"

definition runAfterStreamGotoChange :: "PatchRun" where
  "runAfterStreamGotoChange = runSelectedStreamPatch afterStreamGotoAction"

definition runNextStreamChange :: "FieldValue \<Rightarrow> PatchRun" where
  "runNextStreamChange nextStreamId = runSelectedStreamPatch (nextStreamAction nextStreamId)"

definition runLoopActionCountEnabledChange :: "FieldValue \<Rightarrow> PatchRun" where
  "runLoopActionCountEnabledChange enabled = runSelectedStreamPatch (loopActionCountEnabledAction enabled)"

definition runLoopActionCountChange :: "FieldValue \<Rightarrow> PatchRun" where
  "runLoopActionCountChange actionCount = runSelectedStreamPatch (loopActionCountAction actionCount)"

definition runIsgChange :: "FieldValue \<Rightarrow> PatchRun" where
  "runIsgChange isg = runSelectedStreamPatch (isgAction isg)"

definition runIbgChange :: "FieldValue \<Rightarrow> PatchRun" where
  "runIbgChange ibg = runSelectedStreamPatch (ibgAction ibg)"

definition runFlowStatsEnabledChange :: "FieldValue \<Rightarrow> PatchRun" where
  "runFlowStatsEnabledChange enabled = runSelectedStreamPatch (flowStatsEnabledAction enabled)"

definition runPgIdChange :: "FieldValue \<Rightarrow> PatchRun" where
  "runPgIdChange pgId = runSelectedStreamPatch (pgIdAction pgId)"

definition runLatencyEnabledChange :: "FieldValue \<Rightarrow> PatchRun" where
  "runLatencyEnabledChange enabled = runSelectedStreamPatch (latencyEnabledAction enabled)"

definition runStreamNameChange :: "FieldValue \<Rightarrow> PatchRun" where
  "runStreamNameChange name = runSelectedStreamPatch (streamNameAction name)"

definition runPacketFrameLengthChange :: "FieldValue \<Rightarrow> PatchRun" where
  "runPacketFrameLengthChange frameLength = runSelectedStreamPatch (packetFrameLengthAction frameLength)"

definition runFrameLengthMinChange :: "FieldValue \<Rightarrow> PatchRun" where
  "runFrameLengthMinChange frameLengthMin = runSelectedStreamPatch (frameLengthMinAction frameLengthMin)"

definition runFrameLengthMaxChange :: "FieldValue \<Rightarrow> PatchRun" where
  "runFrameLengthMaxChange frameLengthMax = runSelectedStreamPatch (frameLengthMaxAction frameLengthMax)"

definition runFrameLengthTypeChange :: "FieldValue \<Rightarrow> PatchRun" where
  "runFrameLengthTypeChange frameLengthType = runSelectedStreamPatch (frameLengthTypeAction frameLengthType)"

definition runEtherTypeOverrideChange :: "FieldValue \<Rightarrow> PatchRun" where
  "runEtherTypeOverrideChange override = runSelectedStreamPatch (etherTypeOverrideAction override)"

definition runEtherTypeChange :: "FieldValue \<Rightarrow> PatchRun" where
  "runEtherTypeChange etherType = runSelectedStreamPatch (etherTypeAction etherType)"

definition runEtherDestinationChange :: "FieldValue \<Rightarrow> PatchRun" where
  "runEtherDestinationChange address = runSelectedStreamPatch (etherDestinationAction address)"

definition runEtherDestinationModeChange :: "FieldValue \<Rightarrow> PatchRun" where
  "runEtherDestinationModeChange mode = runSelectedStreamPatch (etherDestinationModeAction mode)"

definition runEtherDestinationCountChange :: "FieldValue \<Rightarrow> PatchRun" where
  "runEtherDestinationCountChange count = runSelectedStreamPatch (etherDestinationCountAction count)"

definition runEtherDestinationStepChange :: "FieldValue \<Rightarrow> PatchRun" where
  "runEtherDestinationStepChange step = runSelectedStreamPatch (etherDestinationStepAction step)"

definition runEtherSourceChange :: "FieldValue \<Rightarrow> PatchRun" where
  "runEtherSourceChange address = runSelectedStreamPatch (etherSourceAction address)"

definition runEtherSourceModeChange :: "FieldValue \<Rightarrow> PatchRun" where
  "runEtherSourceModeChange mode = runSelectedStreamPatch (etherSourceModeAction mode)"

definition runEtherSourceCountChange :: "FieldValue \<Rightarrow> PatchRun" where
  "runEtherSourceCountChange count = runSelectedStreamPatch (etherSourceCountAction count)"

definition runEtherSourceStepChange :: "FieldValue \<Rightarrow> PatchRun" where
  "runEtherSourceStepChange step = runSelectedStreamPatch (etherSourceStepAction step)"

definition runArpHardwareTypeChange :: "FieldValue \<Rightarrow> PatchRun" where
  "runArpHardwareTypeChange value' = runSelectedStreamPatch (arpHardwareTypeAction value')"

definition runArpProtocolTypeChange :: "FieldValue \<Rightarrow> PatchRun" where
  "runArpProtocolTypeChange value' = runSelectedStreamPatch (arpProtocolTypeAction value')"

definition runArpHardwareSizeChange :: "FieldValue \<Rightarrow> PatchRun" where
  "runArpHardwareSizeChange value' = runSelectedStreamPatch (arpHardwareSizeAction value')"

definition runArpProtocolSizeChange :: "FieldValue \<Rightarrow> PatchRun" where
  "runArpProtocolSizeChange value' = runSelectedStreamPatch (arpProtocolSizeAction value')"

definition runArpOperationChange :: "FieldValue \<Rightarrow> PatchRun" where
  "runArpOperationChange value' = runSelectedStreamPatch (arpOperationAction value')"

definition runArpOperationModeChange :: "FieldValue \<Rightarrow> PatchRun" where
  "runArpOperationModeChange mode = runSelectedStreamPatch (arpOperationModeAction mode)"

definition runArpOperationCountChange :: "FieldValue \<Rightarrow> PatchRun" where
  "runArpOperationCountChange count = runSelectedStreamPatch (arpOperationCountAction count)"

definition runArpOperationStepChange :: "FieldValue \<Rightarrow> PatchRun" where
  "runArpOperationStepChange step = runSelectedStreamPatch (arpOperationStepAction step)"

definition runArpSenderMacChange :: "FieldValue \<Rightarrow> PatchRun" where
  "runArpSenderMacChange value' = runSelectedStreamPatch (arpSenderMacAction value')"

definition runArpSenderMacModeChange :: "FieldValue \<Rightarrow> PatchRun" where
  "runArpSenderMacModeChange mode = runSelectedStreamPatch (arpSenderMacModeAction mode)"

definition runArpSenderMacCountChange :: "FieldValue \<Rightarrow> PatchRun" where
  "runArpSenderMacCountChange count = runSelectedStreamPatch (arpSenderMacCountAction count)"

definition runArpSenderMacStepChange :: "FieldValue \<Rightarrow> PatchRun" where
  "runArpSenderMacStepChange step = runSelectedStreamPatch (arpSenderMacStepAction step)"

definition runArpSenderIpChange :: "FieldValue \<Rightarrow> PatchRun" where
  "runArpSenderIpChange value' = runSelectedStreamPatch (arpSenderIpAction value')"

definition runArpSenderIpModeChange :: "FieldValue \<Rightarrow> PatchRun" where
  "runArpSenderIpModeChange mode = runSelectedStreamPatch (arpSenderIpModeAction mode)"

definition runArpSenderIpCountChange :: "FieldValue \<Rightarrow> PatchRun" where
  "runArpSenderIpCountChange count = runSelectedStreamPatch (arpSenderIpCountAction count)"

definition runArpSenderIpStepChange :: "FieldValue \<Rightarrow> PatchRun" where
  "runArpSenderIpStepChange step = runSelectedStreamPatch (arpSenderIpStepAction step)"

definition runArpTargetMacChange :: "FieldValue \<Rightarrow> PatchRun" where
  "runArpTargetMacChange value' = runSelectedStreamPatch (arpTargetMacAction value')"

definition runArpTargetMacModeChange :: "FieldValue \<Rightarrow> PatchRun" where
  "runArpTargetMacModeChange mode = runSelectedStreamPatch (arpTargetMacModeAction mode)"

definition runArpTargetMacCountChange :: "FieldValue \<Rightarrow> PatchRun" where
  "runArpTargetMacCountChange count = runSelectedStreamPatch (arpTargetMacCountAction count)"

definition runArpTargetMacStepChange :: "FieldValue \<Rightarrow> PatchRun" where
  "runArpTargetMacStepChange step = runSelectedStreamPatch (arpTargetMacStepAction step)"

definition runArpTargetIpChange :: "FieldValue \<Rightarrow> PatchRun" where
  "runArpTargetIpChange value' = runSelectedStreamPatch (arpTargetIpAction value')"

definition runArpTargetIpModeChange :: "FieldValue \<Rightarrow> PatchRun" where
  "runArpTargetIpModeChange mode = runSelectedStreamPatch (arpTargetIpModeAction mode)"

definition runArpTargetIpCountChange :: "FieldValue \<Rightarrow> PatchRun" where
  "runArpTargetIpCountChange count = runSelectedStreamPatch (arpTargetIpCountAction count)"

definition runArpTargetIpStepChange :: "FieldValue \<Rightarrow> PatchRun" where
  "runArpTargetIpStepChange step = runSelectedStreamPatch (arpTargetIpStepAction step)"

definition runIpv4DestinationChange :: "FieldValue \<Rightarrow> PatchRun" where
  "runIpv4DestinationChange address = runSelectedStreamPatch (ipv4DestinationAction address)"

definition runIpv4DestinationModeChange :: "FieldValue \<Rightarrow> PatchRun" where
  "runIpv4DestinationModeChange mode = runSelectedStreamPatch (ipv4DestinationModeAction mode)"

definition runIpv4DestinationCountChange :: "FieldValue \<Rightarrow> PatchRun" where
  "runIpv4DestinationCountChange count = runSelectedStreamPatch (ipv4DestinationCountAction count)"

definition runIpv4DestinationStepChange :: "FieldValue \<Rightarrow> PatchRun" where
  "runIpv4DestinationStepChange step = runSelectedStreamPatch (ipv4DestinationStepAction step)"

definition runIpv4SourceChange :: "FieldValue \<Rightarrow> PatchRun" where
  "runIpv4SourceChange address = runSelectedStreamPatch (ipv4SourceAction address)"

definition runIpv4SourceModeChange :: "FieldValue \<Rightarrow> PatchRun" where
  "runIpv4SourceModeChange mode = runSelectedStreamPatch (ipv4SourceModeAction mode)"

definition runIpv4SourceCountChange :: "FieldValue \<Rightarrow> PatchRun" where
  "runIpv4SourceCountChange count = runSelectedStreamPatch (ipv4SourceCountAction count)"

definition runIpv4SourceStepChange :: "FieldValue \<Rightarrow> PatchRun" where
  "runIpv4SourceStepChange step = runSelectedStreamPatch (ipv4SourceStepAction step)"

definition runIpv4DscpChange :: "FieldValue \<Rightarrow> PatchRun" where
  "runIpv4DscpChange dscp = runSelectedStreamPatch (ipv4DscpAction dscp)"

definition runIpv4DscpModeChange :: "FieldValue \<Rightarrow> PatchRun" where
  "runIpv4DscpModeChange mode = runSelectedStreamPatch (ipv4DscpModeAction mode)"

definition runIpv4DscpCountChange :: "FieldValue \<Rightarrow> PatchRun" where
  "runIpv4DscpCountChange count = runSelectedStreamPatch (ipv4DscpCountAction count)"

definition runIpv4DscpStepChange :: "FieldValue \<Rightarrow> PatchRun" where
  "runIpv4DscpStepChange step = runSelectedStreamPatch (ipv4DscpStepAction step)"

definition runIpv4EcnChange :: "FieldValue \<Rightarrow> PatchRun" where
  "runIpv4EcnChange ecn = runSelectedStreamPatch (ipv4EcnAction ecn)"

definition runIpv4EcnModeChange :: "FieldValue \<Rightarrow> PatchRun" where
  "runIpv4EcnModeChange mode = runSelectedStreamPatch (ipv4EcnModeAction mode)"

definition runIpv4EcnCountChange :: "FieldValue \<Rightarrow> PatchRun" where
  "runIpv4EcnCountChange count = runSelectedStreamPatch (ipv4EcnCountAction count)"

definition runIpv4EcnStepChange :: "FieldValue \<Rightarrow> PatchRun" where
  "runIpv4EcnStepChange step = runSelectedStreamPatch (ipv4EcnStepAction step)"

definition runIpv4IdentificationChange :: "FieldValue \<Rightarrow> PatchRun" where
  "runIpv4IdentificationChange identification = runSelectedStreamPatch (ipv4IdentificationAction identification)"

definition runIpv4IdentificationModeChange :: "FieldValue \<Rightarrow> PatchRun" where
  "runIpv4IdentificationModeChange mode = runSelectedStreamPatch (ipv4IdentificationModeAction mode)"

definition runIpv4IdentificationCountChange :: "FieldValue \<Rightarrow> PatchRun" where
  "runIpv4IdentificationCountChange count = runSelectedStreamPatch (ipv4IdentificationCountAction count)"

definition runIpv4IdentificationStepChange :: "FieldValue \<Rightarrow> PatchRun" where
  "runIpv4IdentificationStepChange step = runSelectedStreamPatch (ipv4IdentificationStepAction step)"

definition runIpv4DfFlagChange :: "FieldValue \<Rightarrow> PatchRun" where
  "runIpv4DfFlagChange enabled = runSelectedStreamPatch (ipv4DfFlagAction enabled)"

definition runIpv4MfFlagChange :: "FieldValue \<Rightarrow> PatchRun" where
  "runIpv4MfFlagChange enabled = runSelectedStreamPatch (ipv4MfFlagAction enabled)"

definition runIpv4FragmentOffsetChange :: "FieldValue \<Rightarrow> PatchRun" where
  "runIpv4FragmentOffsetChange fragmentOffset = runSelectedStreamPatch (ipv4FragmentOffsetAction fragmentOffset)"

definition runIpv4FragmentOffsetModeChange :: "FieldValue \<Rightarrow> PatchRun" where
  "runIpv4FragmentOffsetModeChange mode = runSelectedStreamPatch (ipv4FragmentOffsetModeAction mode)"

definition runIpv4FragmentOffsetCountChange :: "FieldValue \<Rightarrow> PatchRun" where
  "runIpv4FragmentOffsetCountChange count = runSelectedStreamPatch (ipv4FragmentOffsetCountAction count)"

definition runIpv4FragmentOffsetStepChange :: "FieldValue \<Rightarrow> PatchRun" where
  "runIpv4FragmentOffsetStepChange step = runSelectedStreamPatch (ipv4FragmentOffsetStepAction step)"

definition runIpv4TtlChange :: "FieldValue \<Rightarrow> PatchRun" where
  "runIpv4TtlChange ttl = runSelectedStreamPatch (ipv4TtlAction ttl)"

definition runIpv4TtlModeChange :: "FieldValue \<Rightarrow> PatchRun" where
  "runIpv4TtlModeChange mode = runSelectedStreamPatch (ipv4TtlModeAction mode)"

definition runIpv4TtlCountChange :: "FieldValue \<Rightarrow> PatchRun" where
  "runIpv4TtlCountChange count = runSelectedStreamPatch (ipv4TtlCountAction count)"

definition runIpv4TtlStepChange :: "FieldValue \<Rightarrow> PatchRun" where
  "runIpv4TtlStepChange step = runSelectedStreamPatch (ipv4TtlStepAction step)"

definition runIpv4ChecksumOverrideChange :: "FieldValue \<Rightarrow> PatchRun" where
  "runIpv4ChecksumOverrideChange override = runSelectedStreamPatch (ipv4ChecksumOverrideAction override)"

definition runIpv4ChecksumChange :: "FieldValue \<Rightarrow> PatchRun" where
  "runIpv4ChecksumChange checksum = runSelectedStreamPatch (ipv4ChecksumAction checksum)"

definition runIpv6DestinationChange :: "FieldValue \<Rightarrow> PatchRun" where
  "runIpv6DestinationChange address = runSelectedStreamPatch (ipv6DestinationAction address)"

definition runIpv6DestinationModeChange :: "FieldValue \<Rightarrow> PatchRun" where
  "runIpv6DestinationModeChange mode = runSelectedStreamPatch (ipv6DestinationModeAction mode)"

definition runIpv6DestinationCountChange :: "FieldValue \<Rightarrow> PatchRun" where
  "runIpv6DestinationCountChange count = runSelectedStreamPatch (ipv6DestinationCountAction count)"

definition runIpv6DestinationStepChange :: "FieldValue \<Rightarrow> PatchRun" where
  "runIpv6DestinationStepChange step = runSelectedStreamPatch (ipv6DestinationStepAction step)"

definition runIpv6SourceChange :: "FieldValue \<Rightarrow> PatchRun" where
  "runIpv6SourceChange address = runSelectedStreamPatch (ipv6SourceAction address)"

definition runIpv6SourceModeChange :: "FieldValue \<Rightarrow> PatchRun" where
  "runIpv6SourceModeChange mode = runSelectedStreamPatch (ipv6SourceModeAction mode)"

definition runIpv6SourceCountChange :: "FieldValue \<Rightarrow> PatchRun" where
  "runIpv6SourceCountChange count = runSelectedStreamPatch (ipv6SourceCountAction count)"

definition runIpv6SourceStepChange :: "FieldValue \<Rightarrow> PatchRun" where
  "runIpv6SourceStepChange step = runSelectedStreamPatch (ipv6SourceStepAction step)"

definition runIpv6TrafficClassChange :: "FieldValue \<Rightarrow> PatchRun" where
  "runIpv6TrafficClassChange trafficClass = runSelectedStreamPatch (ipv6TrafficClassAction trafficClass)"

definition runIpv6TrafficClassModeChange :: "FieldValue \<Rightarrow> PatchRun" where
  "runIpv6TrafficClassModeChange mode = runSelectedStreamPatch (ipv6TrafficClassModeAction mode)"

definition runIpv6TrafficClassCountChange :: "FieldValue \<Rightarrow> PatchRun" where
  "runIpv6TrafficClassCountChange count = runSelectedStreamPatch (ipv6TrafficClassCountAction count)"

definition runIpv6TrafficClassStepChange :: "FieldValue \<Rightarrow> PatchRun" where
  "runIpv6TrafficClassStepChange step = runSelectedStreamPatch (ipv6TrafficClassStepAction step)"

definition runIpv6FlowLabelChange :: "FieldValue \<Rightarrow> PatchRun" where
  "runIpv6FlowLabelChange flowLabel = runSelectedStreamPatch (ipv6FlowLabelAction flowLabel)"

definition runIpv6FlowLabelModeChange :: "FieldValue \<Rightarrow> PatchRun" where
  "runIpv6FlowLabelModeChange mode = runSelectedStreamPatch (ipv6FlowLabelModeAction mode)"

definition runIpv6FlowLabelCountChange :: "FieldValue \<Rightarrow> PatchRun" where
  "runIpv6FlowLabelCountChange count = runSelectedStreamPatch (ipv6FlowLabelCountAction count)"

definition runIpv6FlowLabelStepChange :: "FieldValue \<Rightarrow> PatchRun" where
  "runIpv6FlowLabelStepChange step = runSelectedStreamPatch (ipv6FlowLabelStepAction step)"

definition runIpv6HopLimitChange :: "FieldValue \<Rightarrow> PatchRun" where
  "runIpv6HopLimitChange hopLimit = runSelectedStreamPatch (ipv6HopLimitAction hopLimit)"

definition runIpv6HopLimitModeChange :: "FieldValue \<Rightarrow> PatchRun" where
  "runIpv6HopLimitModeChange mode = runSelectedStreamPatch (ipv6HopLimitModeAction mode)"

definition runIpv6HopLimitCountChange :: "FieldValue \<Rightarrow> PatchRun" where
  "runIpv6HopLimitCountChange count = runSelectedStreamPatch (ipv6HopLimitCountAction count)"

definition runIpv6HopLimitStepChange :: "FieldValue \<Rightarrow> PatchRun" where
  "runIpv6HopLimitStepChange step = runSelectedStreamPatch (ipv6HopLimitStepAction step)"

definition runVlanSelectionChange :: "FieldValue \<Rightarrow> PatchRun" where
  "runVlanSelectionChange enabled = runSelectedStreamPatch (vlanSelectionAction enabled)"

definition runVlanTpidOverrideChange :: "FieldValue \<Rightarrow> PatchRun" where
  "runVlanTpidOverrideChange override = runSelectedStreamPatch (vlanTpidOverrideAction override)"

definition runVlanTpidChange :: "FieldValue \<Rightarrow> PatchRun" where
  "runVlanTpidChange tpid = runSelectedStreamPatch (vlanTpidAction tpid)"

definition runVlanPriorityChange :: "FieldValue \<Rightarrow> PatchRun" where
  "runVlanPriorityChange priority = runSelectedStreamPatch (vlanPriorityAction priority)"

definition runVlanPriorityModeChange :: "FieldValue \<Rightarrow> PatchRun" where
  "runVlanPriorityModeChange mode = runSelectedStreamPatch (vlanPriorityModeAction mode)"

definition runVlanPriorityCountChange :: "FieldValue \<Rightarrow> PatchRun" where
  "runVlanPriorityCountChange count = runSelectedStreamPatch (vlanPriorityCountAction count)"

definition runVlanPriorityStepChange :: "FieldValue \<Rightarrow> PatchRun" where
  "runVlanPriorityStepChange step = runSelectedStreamPatch (vlanPriorityStepAction step)"

definition runVlanCfiChange :: "FieldValue \<Rightarrow> PatchRun" where
  "runVlanCfiChange cfi = runSelectedStreamPatch (vlanCfiAction cfi)"

definition runVlanIdChange :: "FieldValue \<Rightarrow> PatchRun" where
  "runVlanIdChange vlanId = runSelectedStreamPatch (vlanIdAction vlanId)"

definition runVlanIdModeChange :: "FieldValue \<Rightarrow> PatchRun" where
  "runVlanIdModeChange mode = runSelectedStreamPatch (vlanIdModeAction mode)"

definition runVlanIdCountChange :: "FieldValue \<Rightarrow> PatchRun" where
  "runVlanIdCountChange count = runSelectedStreamPatch (vlanIdCountAction count)"

definition runVlanIdStepChange :: "FieldValue \<Rightarrow> PatchRun" where
  "runVlanIdStepChange step = runSelectedStreamPatch (vlanIdStepAction step)"

definition runVlanInnerSelectionChange :: "FieldValue \<Rightarrow> PatchRun" where
  "runVlanInnerSelectionChange enabled = runSelectedStreamPatch (vlanInnerSelectionAction enabled)"

definition runVlanInnerTpidOverrideChange :: "FieldValue \<Rightarrow> PatchRun" where
  "runVlanInnerTpidOverrideChange override = runSelectedStreamPatch (vlanInnerTpidOverrideAction override)"

definition runVlanInnerTpidChange :: "FieldValue \<Rightarrow> PatchRun" where
  "runVlanInnerTpidChange tpid = runSelectedStreamPatch (vlanInnerTpidAction tpid)"

definition runVlanInnerPriorityChange :: "FieldValue \<Rightarrow> PatchRun" where
  "runVlanInnerPriorityChange priority = runSelectedStreamPatch (vlanInnerPriorityAction priority)"

definition runVlanInnerPriorityModeChange :: "FieldValue \<Rightarrow> PatchRun" where
  "runVlanInnerPriorityModeChange mode = runSelectedStreamPatch (vlanInnerPriorityModeAction mode)"

definition runVlanInnerPriorityCountChange :: "FieldValue \<Rightarrow> PatchRun" where
  "runVlanInnerPriorityCountChange count = runSelectedStreamPatch (vlanInnerPriorityCountAction count)"

definition runVlanInnerPriorityStepChange :: "FieldValue \<Rightarrow> PatchRun" where
  "runVlanInnerPriorityStepChange step = runSelectedStreamPatch (vlanInnerPriorityStepAction step)"

definition runVlanInnerCfiChange :: "FieldValue \<Rightarrow> PatchRun" where
  "runVlanInnerCfiChange cfi = runSelectedStreamPatch (vlanInnerCfiAction cfi)"

definition runVlanInnerIdChange :: "FieldValue \<Rightarrow> PatchRun" where
  "runVlanInnerIdChange vlanId = runSelectedStreamPatch (vlanInnerIdAction vlanId)"

definition runVlanInnerIdModeChange :: "FieldValue \<Rightarrow> PatchRun" where
  "runVlanInnerIdModeChange mode = runSelectedStreamPatch (vlanInnerIdModeAction mode)"

definition runVlanInnerIdCountChange :: "FieldValue \<Rightarrow> PatchRun" where
  "runVlanInnerIdCountChange count = runSelectedStreamPatch (vlanInnerIdCountAction count)"

definition runVlanInnerIdStepChange :: "FieldValue \<Rightarrow> PatchRun" where
  "runVlanInnerIdStepChange step = runSelectedStreamPatch (vlanInnerIdStepAction step)"

definition runMplsSelectionChange :: "FieldValue \<Rightarrow> PatchRun" where
  "runMplsSelectionChange enabled = runSelectedStreamPatch (mplsSelectionAction enabled)"

definition runMplsLabelChange :: "FieldValue \<Rightarrow> PatchRun" where
  "runMplsLabelChange label = runSelectedStreamPatch (mplsLabelAction label)"

definition runMplsLabelModeChange :: "FieldValue \<Rightarrow> PatchRun" where
  "runMplsLabelModeChange mode = runSelectedStreamPatch (mplsLabelModeAction mode)"

definition runMplsLabelCountChange :: "FieldValue \<Rightarrow> PatchRun" where
  "runMplsLabelCountChange count = runSelectedStreamPatch (mplsLabelCountAction count)"

definition runMplsLabelStepChange :: "FieldValue \<Rightarrow> PatchRun" where
  "runMplsLabelStepChange step = runSelectedStreamPatch (mplsLabelStepAction step)"

definition runMplsTrafficClassChange :: "FieldValue \<Rightarrow> PatchRun" where
  "runMplsTrafficClassChange trafficClass = runSelectedStreamPatch (mplsTrafficClassAction trafficClass)"

definition runMplsTrafficClassModeChange :: "FieldValue \<Rightarrow> PatchRun" where
  "runMplsTrafficClassModeChange mode = runSelectedStreamPatch (mplsTrafficClassModeAction mode)"

definition runMplsTrafficClassCountChange :: "FieldValue \<Rightarrow> PatchRun" where
  "runMplsTrafficClassCountChange count = runSelectedStreamPatch (mplsTrafficClassCountAction count)"

definition runMplsTrafficClassStepChange :: "FieldValue \<Rightarrow> PatchRun" where
  "runMplsTrafficClassStepChange step = runSelectedStreamPatch (mplsTrafficClassStepAction step)"

definition runMplsTtlChange :: "FieldValue \<Rightarrow> PatchRun" where
  "runMplsTtlChange ttl = runSelectedStreamPatch (mplsTtlAction ttl)"

definition runMplsTtlModeChange :: "FieldValue \<Rightarrow> PatchRun" where
  "runMplsTtlModeChange mode = runSelectedStreamPatch (mplsTtlModeAction mode)"

definition runMplsTtlCountChange :: "FieldValue \<Rightarrow> PatchRun" where
  "runMplsTtlCountChange count = runSelectedStreamPatch (mplsTtlCountAction count)"

definition runMplsTtlStepChange :: "FieldValue \<Rightarrow> PatchRun" where
  "runMplsTtlStepChange step = runSelectedStreamPatch (mplsTtlStepAction step)"

definition runMplsSecondLabelSelectionChange :: "FieldValue \<Rightarrow> PatchRun" where
  "runMplsSecondLabelSelectionChange enabled = runSelectedStreamPatch (mplsSecondLabelSelectionAction enabled)"

definition runMplsSecondLabelChange :: "FieldValue \<Rightarrow> PatchRun" where
  "runMplsSecondLabelChange label = runSelectedStreamPatch (mplsSecondLabelAction label)"

definition runMplsSecondLabelModeChange :: "FieldValue \<Rightarrow> PatchRun" where
  "runMplsSecondLabelModeChange mode = runSelectedStreamPatch (mplsSecondLabelModeAction mode)"

definition runMplsSecondLabelCountChange :: "FieldValue \<Rightarrow> PatchRun" where
  "runMplsSecondLabelCountChange count = runSelectedStreamPatch (mplsSecondLabelCountAction count)"

definition runMplsSecondLabelStepChange :: "FieldValue \<Rightarrow> PatchRun" where
  "runMplsSecondLabelStepChange step = runSelectedStreamPatch (mplsSecondLabelStepAction step)"

definition runMplsSecondTrafficClassChange :: "FieldValue \<Rightarrow> PatchRun" where
  "runMplsSecondTrafficClassChange trafficClass = runSelectedStreamPatch (mplsSecondTrafficClassAction trafficClass)"

definition runMplsSecondTrafficClassModeChange :: "FieldValue \<Rightarrow> PatchRun" where
  "runMplsSecondTrafficClassModeChange mode = runSelectedStreamPatch (mplsSecondTrafficClassModeAction mode)"

definition runMplsSecondTrafficClassCountChange :: "FieldValue \<Rightarrow> PatchRun" where
  "runMplsSecondTrafficClassCountChange count = runSelectedStreamPatch (mplsSecondTrafficClassCountAction count)"

definition runMplsSecondTrafficClassStepChange :: "FieldValue \<Rightarrow> PatchRun" where
  "runMplsSecondTrafficClassStepChange step = runSelectedStreamPatch (mplsSecondTrafficClassStepAction step)"

definition runMplsSecondTtlChange :: "FieldValue \<Rightarrow> PatchRun" where
  "runMplsSecondTtlChange ttl = runSelectedStreamPatch (mplsSecondTtlAction ttl)"

definition runMplsSecondTtlModeChange :: "FieldValue \<Rightarrow> PatchRun" where
  "runMplsSecondTtlModeChange mode = runSelectedStreamPatch (mplsSecondTtlModeAction mode)"

definition runMplsSecondTtlCountChange :: "FieldValue \<Rightarrow> PatchRun" where
  "runMplsSecondTtlCountChange count = runSelectedStreamPatch (mplsSecondTtlCountAction count)"

definition runMplsSecondTtlStepChange :: "FieldValue \<Rightarrow> PatchRun" where
  "runMplsSecondTtlStepChange step = runSelectedStreamPatch (mplsSecondTtlStepAction step)"

definition runMplsThirdLabelSelectionChange :: "FieldValue \<Rightarrow> PatchRun" where
  "runMplsThirdLabelSelectionChange enabled = runSelectedStreamPatch (mplsThirdLabelSelectionAction enabled)"

definition runMplsThirdLabelChange :: "FieldValue \<Rightarrow> PatchRun" where
  "runMplsThirdLabelChange label = runSelectedStreamPatch (mplsThirdLabelAction label)"

definition runMplsThirdLabelModeChange :: "FieldValue \<Rightarrow> PatchRun" where
  "runMplsThirdLabelModeChange mode = runSelectedStreamPatch (mplsThirdLabelModeAction mode)"

definition runMplsThirdLabelCountChange :: "FieldValue \<Rightarrow> PatchRun" where
  "runMplsThirdLabelCountChange count = runSelectedStreamPatch (mplsThirdLabelCountAction count)"

definition runMplsThirdLabelStepChange :: "FieldValue \<Rightarrow> PatchRun" where
  "runMplsThirdLabelStepChange step = runSelectedStreamPatch (mplsThirdLabelStepAction step)"

definition runMplsThirdTrafficClassChange :: "FieldValue \<Rightarrow> PatchRun" where
  "runMplsThirdTrafficClassChange trafficClass = runSelectedStreamPatch (mplsThirdTrafficClassAction trafficClass)"

definition runMplsThirdTrafficClassModeChange :: "FieldValue \<Rightarrow> PatchRun" where
  "runMplsThirdTrafficClassModeChange mode = runSelectedStreamPatch (mplsThirdTrafficClassModeAction mode)"

definition runMplsThirdTrafficClassCountChange :: "FieldValue \<Rightarrow> PatchRun" where
  "runMplsThirdTrafficClassCountChange count = runSelectedStreamPatch (mplsThirdTrafficClassCountAction count)"

definition runMplsThirdTrafficClassStepChange :: "FieldValue \<Rightarrow> PatchRun" where
  "runMplsThirdTrafficClassStepChange step = runSelectedStreamPatch (mplsThirdTrafficClassStepAction step)"

definition runMplsThirdTtlChange :: "FieldValue \<Rightarrow> PatchRun" where
  "runMplsThirdTtlChange ttl = runSelectedStreamPatch (mplsThirdTtlAction ttl)"

definition runMplsThirdTtlModeChange :: "FieldValue \<Rightarrow> PatchRun" where
  "runMplsThirdTtlModeChange mode = runSelectedStreamPatch (mplsThirdTtlModeAction mode)"

definition runMplsThirdTtlCountChange :: "FieldValue \<Rightarrow> PatchRun" where
  "runMplsThirdTtlCountChange count = runSelectedStreamPatch (mplsThirdTtlCountAction count)"

definition runMplsThirdTtlStepChange :: "FieldValue \<Rightarrow> PatchRun" where
  "runMplsThirdTtlStepChange step = runSelectedStreamPatch (mplsThirdTtlStepAction step)"

definition runTunnelSelectionChange :: "FieldValue \<Rightarrow> PatchRun" where
  "runTunnelSelectionChange tunnel = runSelectedStreamPatch (tunnelSelectionAction tunnel)"

definition runL3SelectionChange :: "FieldValue \<Rightarrow> PatchRun" where
  "runL3SelectionChange selection = runSelectedStreamPatch (l3SelectionAction selection)"

definition runL4SelectionChange :: "FieldValue \<Rightarrow> PatchRun" where
  "runL4SelectionChange selection = runSelectedStreamPatch (l4SelectionAction selection)"

definition runL4SourcePortOverrideSelectionChange :: "FieldValue \<Rightarrow> PatchRun" where
  "runL4SourcePortOverrideSelectionChange enabled = runSelectedStreamPatch (l4SourcePortOverrideSelectionAction enabled)"

definition runL4SourcePortChange :: "FieldValue \<Rightarrow> PatchRun" where
  "runL4SourcePortChange port = runSelectedStreamPatch (l4SourcePortAction port)"

definition runL4SourcePortModeChange :: "FieldValue \<Rightarrow> PatchRun" where
  "runL4SourcePortModeChange mode = runSelectedStreamPatch (l4SourcePortModeAction mode)"

definition runL4SourcePortCountChange :: "FieldValue \<Rightarrow> PatchRun" where
  "runL4SourcePortCountChange count = runSelectedStreamPatch (l4SourcePortCountAction count)"

definition runL4SourcePortStepChange :: "FieldValue \<Rightarrow> PatchRun" where
  "runL4SourcePortStepChange step = runSelectedStreamPatch (l4SourcePortStepAction step)"

definition runL4DestinationPortOverrideSelectionChange :: "FieldValue \<Rightarrow> PatchRun" where
  "runL4DestinationPortOverrideSelectionChange enabled = runSelectedStreamPatch (l4DestinationPortOverrideSelectionAction enabled)"

definition runL4DestinationPortChange :: "FieldValue \<Rightarrow> PatchRun" where
  "runL4DestinationPortChange port = runSelectedStreamPatch (l4DestinationPortAction port)"

definition runL4DestinationPortModeChange :: "FieldValue \<Rightarrow> PatchRun" where
  "runL4DestinationPortModeChange mode = runSelectedStreamPatch (l4DestinationPortModeAction mode)"

definition runL4DestinationPortCountChange :: "FieldValue \<Rightarrow> PatchRun" where
  "runL4DestinationPortCountChange count = runSelectedStreamPatch (l4DestinationPortCountAction count)"

definition runL4DestinationPortStepChange :: "FieldValue \<Rightarrow> PatchRun" where
  "runL4DestinationPortStepChange step = runSelectedStreamPatch (l4DestinationPortStepAction step)"

definition runUdpLengthOverrideSelectionChange :: "FieldValue \<Rightarrow> PatchRun" where
  "runUdpLengthOverrideSelectionChange enabled = runSelectedStreamPatch (udpLengthOverrideSelectionAction enabled)"

definition runUdpLengthChange :: "FieldValue \<Rightarrow> PatchRun" where
  "runUdpLengthChange length' = runSelectedStreamPatch (udpLengthAction length')"

definition runUdpLengthModeChange :: "FieldValue \<Rightarrow> PatchRun" where
  "runUdpLengthModeChange mode = runSelectedStreamPatch (udpLengthModeAction mode)"

definition runUdpLengthCountChange :: "FieldValue \<Rightarrow> PatchRun" where
  "runUdpLengthCountChange count = runSelectedStreamPatch (udpLengthCountAction count)"

definition runUdpLengthStepChange :: "FieldValue \<Rightarrow> PatchRun" where
  "runUdpLengthStepChange step = runSelectedStreamPatch (udpLengthStepAction step)"

definition runUdpChecksumOverrideChange :: "FieldValue \<Rightarrow> PatchRun" where
  "runUdpChecksumOverrideChange override = runSelectedStreamPatch (udpChecksumOverrideAction override)"

definition runUdpChecksumChange :: "FieldValue \<Rightarrow> PatchRun" where
  "runUdpChecksumChange checksum = runSelectedStreamPatch (udpChecksumAction checksum)"

definition runUdpChecksumModeChange :: "FieldValue \<Rightarrow> PatchRun" where
  "runUdpChecksumModeChange mode = runSelectedStreamPatch (udpChecksumModeAction mode)"

definition runUdpChecksumCountChange :: "FieldValue \<Rightarrow> PatchRun" where
  "runUdpChecksumCountChange count = runSelectedStreamPatch (udpChecksumCountAction count)"

definition runUdpChecksumStepChange :: "FieldValue \<Rightarrow> PatchRun" where
  "runUdpChecksumStepChange step = runSelectedStreamPatch (udpChecksumStepAction step)"

definition runDnsSelectionChange :: "FieldValue \<Rightarrow> PatchRun" where
  "runDnsSelectionChange enabled = runSelectedStreamPatch (dnsSelectionAction enabled)"

definition runDnsAnswerSelectionChange :: "FieldValue \<Rightarrow> PatchRun" where
  "runDnsAnswerSelectionChange enabled = runSelectedStreamPatch (dnsAnswerSelectionAction enabled)"

definition runDnsNumberChange :: "FieldValue \<Rightarrow> FieldValue \<Rightarrow> PatchRun" where
  "runDnsNumberChange field value' = runSelectedStreamPatch (dnsNumberAction field value')"

definition runDnsTextChange :: "FieldValue \<Rightarrow> FieldValue \<Rightarrow> PatchRun" where
  "runDnsTextChange field value' = runSelectedStreamPatch (dnsTextAction field value')"

definition runDnsModeChange :: "FieldValue \<Rightarrow> FieldValue \<Rightarrow> PatchRun" where
  "runDnsModeChange field mode = runSelectedStreamPatch (patchAction ''dns-mode'' [(''field'', field), (''mode'', mode)])"

definition runDnsCountChange :: "FieldValue \<Rightarrow> FieldValue \<Rightarrow> PatchRun" where
  "runDnsCountChange field count = runSelectedStreamPatch (dnsCountAction field count)"

definition runDnsStepChange :: "FieldValue \<Rightarrow> FieldValue \<Rightarrow> PatchRun" where
  "runDnsStepChange field step = runSelectedStreamPatch (dnsStepAction field step)"

definition runDhcpSelectionChange :: "FieldValue \<Rightarrow> PatchRun" where
  "runDhcpSelectionChange enabled = runSelectedStreamPatch (dhcpSelectionAction enabled)"

definition runDhcpBootpNumberChange :: "FieldValue \<Rightarrow> FieldValue \<Rightarrow> PatchRun" where
  "runDhcpBootpNumberChange field value' = runSelectedStreamPatch (dhcpBootpNumberAction field value')"

definition runDhcpBootpTextChange :: "FieldValue \<Rightarrow> FieldValue \<Rightarrow> PatchRun" where
  "runDhcpBootpTextChange field value' = runSelectedStreamPatch (dhcpBootpTextAction field value')"

definition runDhcpBootpModeChange :: "FieldValue \<Rightarrow> FieldValue \<Rightarrow> PatchRun" where
  "runDhcpBootpModeChange field mode = runSelectedStreamPatch (patchAction ''dhcp-bootp-mode'' [(''field'', field), (''mode'', mode)])"

definition runDhcpBootpCountChange :: "FieldValue \<Rightarrow> FieldValue \<Rightarrow> PatchRun" where
  "runDhcpBootpCountChange field count = runSelectedStreamPatch (dhcpBootpCountAction field count)"

definition runDhcpBootpStepChange :: "FieldValue \<Rightarrow> FieldValue \<Rightarrow> PatchRun" where
  "runDhcpBootpStepChange field step = runSelectedStreamPatch (dhcpBootpStepAction field step)"

definition runDhcpBootpAddressTextChange :: "FieldValue \<Rightarrow> FieldValue \<Rightarrow> PatchRun" where
  "runDhcpBootpAddressTextChange field value' = runSelectedStreamPatch (dhcpBootpAddressTextAction field value')"

definition runDhcpBootpAddressModeChange :: "FieldValue \<Rightarrow> FieldValue \<Rightarrow> PatchRun" where
  "runDhcpBootpAddressModeChange field mode = runSelectedStreamPatch (patchAction ''dhcp-bootp-address-mode'' [(''field'', field), (''mode'', mode)])"

definition runDhcpBootpAddressCountChange :: "FieldValue \<Rightarrow> FieldValue \<Rightarrow> PatchRun" where
  "runDhcpBootpAddressCountChange field count = runSelectedStreamPatch (dhcpBootpAddressCountAction field count)"

definition runDhcpBootpAddressStepChange :: "FieldValue \<Rightarrow> FieldValue \<Rightarrow> PatchRun" where
  "runDhcpBootpAddressStepChange field step = runSelectedStreamPatch (dhcpBootpAddressStepAction field step)"

definition runDhcpOptionTextChange :: "FieldValue \<Rightarrow> FieldValue \<Rightarrow> PatchRun" where
  "runDhcpOptionTextChange field value' = runSelectedStreamPatch (dhcpOptionTextAction field value')"

definition runDhcpOptionTimerNumberChange :: "FieldValue \<Rightarrow> FieldValue \<Rightarrow> PatchRun" where
  "runDhcpOptionTimerNumberChange field value' = runSelectedStreamPatch (dhcpOptionTimerNumberAction field value')"

definition runDhcpOptionTimerModeChange :: "FieldValue \<Rightarrow> FieldValue \<Rightarrow> PatchRun" where
  "runDhcpOptionTimerModeChange field mode = runSelectedStreamPatch (patchAction ''dhcp-option-timer-mode'' [(''field'', field), (''mode'', mode)])"

definition runDhcpOptionTimerCountChange :: "FieldValue \<Rightarrow> FieldValue \<Rightarrow> PatchRun" where
  "runDhcpOptionTimerCountChange field count = runSelectedStreamPatch (dhcpOptionTimerCountAction field count)"

definition runDhcpOptionTimerStepChange :: "FieldValue \<Rightarrow> FieldValue \<Rightarrow> PatchRun" where
  "runDhcpOptionTimerStepChange field step = runSelectedStreamPatch (dhcpOptionTimerStepAction field step)"

definition runDhcpOptionAddressTextChange :: "FieldValue \<Rightarrow> FieldValue \<Rightarrow> PatchRun" where
  "runDhcpOptionAddressTextChange field value' = runSelectedStreamPatch (dhcpOptionAddressTextAction field value')"

definition runDhcpOptionAddressModeChange :: "FieldValue \<Rightarrow> FieldValue \<Rightarrow> PatchRun" where
  "runDhcpOptionAddressModeChange field mode = runSelectedStreamPatch (patchAction ''dhcp-option-address-mode'' [(''field'', field), (''mode'', mode)])"

definition runDhcpOptionAddressCountChange :: "FieldValue \<Rightarrow> FieldValue \<Rightarrow> PatchRun" where
  "runDhcpOptionAddressCountChange field count = runSelectedStreamPatch (dhcpOptionAddressCountAction field count)"

definition runDhcpOptionAddressStepChange :: "FieldValue \<Rightarrow> FieldValue \<Rightarrow> PatchRun" where
  "runDhcpOptionAddressStepChange field step = runSelectedStreamPatch (dhcpOptionAddressStepAction field step)"

definition runSctpNumberChange :: "FieldValue \<Rightarrow> FieldValue \<Rightarrow> PatchRun" where
  "runSctpNumberChange field value' = runSelectedStreamPatch (sctpNumberAction field value')"

definition runSctpModeChange :: "FieldValue \<Rightarrow> FieldValue \<Rightarrow> PatchRun" where
  "runSctpModeChange field mode = runSelectedStreamPatch (patchAction ''sctp-mode'' [(''field'', field), (''mode'', mode)])"

definition runSctpCountChange :: "FieldValue \<Rightarrow> FieldValue \<Rightarrow> PatchRun" where
  "runSctpCountChange field count = runSelectedStreamPatch (sctpCountAction field count)"

definition runSctpStepChange :: "FieldValue \<Rightarrow> FieldValue \<Rightarrow> PatchRun" where
  "runSctpStepChange field step = runSelectedStreamPatch (sctpStepAction field step)"

definition runSctpChecksumOverrideChange :: "FieldValue \<Rightarrow> PatchRun" where
  "runSctpChecksumOverrideChange override = runSelectedStreamPatch (sctpChecksumOverrideAction override)"

definition runSctpChecksumChange :: "FieldValue \<Rightarrow> PatchRun" where
  "runSctpChecksumChange checksum = runSelectedStreamPatch (sctpChecksumAction checksum)"

definition runTcpCoreNumberChange :: "FieldValue \<Rightarrow> FieldValue \<Rightarrow> PatchRun" where
  "runTcpCoreNumberChange field value' = runSelectedStreamPatch (tcpCoreNumberAction field value')"

definition runTcpCoreModeChange :: "FieldValue \<Rightarrow> FieldValue \<Rightarrow> PatchRun" where
  "runTcpCoreModeChange field mode = runSelectedStreamPatch (patchAction ''tcp-core-mode'' [(''field'', field), (''mode'', mode)])"

definition runTcpCoreCountChange :: "FieldValue \<Rightarrow> FieldValue \<Rightarrow> PatchRun" where
  "runTcpCoreCountChange field count = runSelectedStreamPatch (tcpCoreCountAction field count)"

definition runTcpCoreStepChange :: "FieldValue \<Rightarrow> FieldValue \<Rightarrow> PatchRun" where
  "runTcpCoreStepChange field step = runSelectedStreamPatch (tcpCoreStepAction field step)"

definition runTcpChecksumOverrideChange :: "FieldValue \<Rightarrow> PatchRun" where
  "runTcpChecksumOverrideChange override = runSelectedStreamPatch (tcpChecksumOverrideAction override)"

definition runTcpChecksumChange :: "FieldValue \<Rightarrow> PatchRun" where
  "runTcpChecksumChange checksum = runSelectedStreamPatch (tcpChecksumAction checksum)"

definition runTcpFlagChange :: "FieldValue \<Rightarrow> FieldValue \<Rightarrow> PatchRun" where
  "runTcpFlagChange flag checked = runSelectedStreamPatch (tcpFlagAction flag checked)"

definition runTcpOptionSelectionChange :: "FieldValue \<Rightarrow> FieldValue \<Rightarrow> PatchRun" where
  "runTcpOptionSelectionChange opt enabled = runSelectedStreamPatch (tcpOptionSelectionAction opt enabled)"

definition runTcpOptionNumberChange :: "FieldValue \<Rightarrow> FieldValue \<Rightarrow> PatchRun" where
  "runTcpOptionNumberChange field value' = runSelectedStreamPatch (tcpOptionNumberAction field value')"

definition runTcpOptionModeChange :: "FieldValue \<Rightarrow> FieldValue \<Rightarrow> PatchRun" where
  "runTcpOptionModeChange field mode = runSelectedStreamPatch (patchAction ''tcp-option-mode'' [(''field'', field), (''mode'', mode)])"

definition runTcpOptionCountChange :: "FieldValue \<Rightarrow> FieldValue \<Rightarrow> PatchRun" where
  "runTcpOptionCountChange field count = runSelectedStreamPatch (tcpOptionCountAction field count)"

definition runTcpOptionStepChange :: "FieldValue \<Rightarrow> FieldValue \<Rightarrow> PatchRun" where
  "runTcpOptionStepChange field step = runSelectedStreamPatch (tcpOptionStepAction field step)"

definition runPayloadSelectionChange :: "FieldValue \<Rightarrow> PatchRun" where
  "runPayloadSelectionChange enabled = runSelectedStreamPatch (payloadSelectionAction enabled)"

definition runPayloadTypeChange :: "FieldValue \<Rightarrow> PatchRun" where
  "runPayloadTypeChange payloadType = runSelectedStreamPatch (payloadTypeAction payloadType)"

definition runPayloadPatternChange :: "FieldValue \<Rightarrow> PatchRun" where
  "runPayloadPatternChange pattern = runSelectedStreamPatch (payloadPatternAction pattern)"

definition runPayloadPatternImportChange :: "FieldValue \<Rightarrow> PatchRun" where
  "runPayloadPatternImportChange pattern = runSelectedStreamPatch (payloadPatternImportAction pattern)"

definition runAdvancedCacheSizeTypeChange :: "FieldValue \<Rightarrow> PatchRun" where
  "runAdvancedCacheSizeTypeChange cacheSizeType = runSelectedStreamPatch (advancedCacheSizeTypeAction cacheSizeType)"

definition runAdvancedCacheValueChange :: "FieldValue \<Rightarrow> PatchRun" where
  "runAdvancedCacheValueChange cacheValue = runSelectedStreamPatch (advancedCacheValueAction cacheValue)"

definition runPacketTypeChange :: "FieldValue \<Rightarrow> PatchRun" where
  "runPacketTypeChange packetType' = runSelectedStreamPatch (packetTypeAction packetType')"

definition runIcmpTypeChange :: "FieldValue \<Rightarrow> PatchRun" where
  "runIcmpTypeChange icmpType = runSelectedStreamPatch (icmpTypeAction icmpType)"

definition runIcmpTypeModeChange :: "FieldValue \<Rightarrow> PatchRun" where
  "runIcmpTypeModeChange mode = runSelectedStreamPatch (icmpTypeModeAction mode)"

definition runIcmpTypeCountChange :: "FieldValue \<Rightarrow> PatchRun" where
  "runIcmpTypeCountChange count = runSelectedStreamPatch (icmpTypeCountAction count)"

definition runIcmpTypeStepChange :: "FieldValue \<Rightarrow> PatchRun" where
  "runIcmpTypeStepChange step = runSelectedStreamPatch (icmpTypeStepAction step)"

definition runIcmpCodeChange :: "FieldValue \<Rightarrow> PatchRun" where
  "runIcmpCodeChange code = runSelectedStreamPatch (icmpCodeAction code)"

definition runIcmpCodeModeChange :: "FieldValue \<Rightarrow> PatchRun" where
  "runIcmpCodeModeChange mode = runSelectedStreamPatch (icmpCodeModeAction mode)"

definition runIcmpCodeCountChange :: "FieldValue \<Rightarrow> PatchRun" where
  "runIcmpCodeCountChange count = runSelectedStreamPatch (icmpCodeCountAction count)"

definition runIcmpCodeStepChange :: "FieldValue \<Rightarrow> PatchRun" where
  "runIcmpCodeStepChange step = runSelectedStreamPatch (icmpCodeStepAction step)"

definition runIcmpIdentifierChange :: "FieldValue \<Rightarrow> PatchRun" where
  "runIcmpIdentifierChange identifier = runSelectedStreamPatch (icmpIdentifierAction identifier)"

definition runIcmpIdentifierModeChange :: "FieldValue \<Rightarrow> PatchRun" where
  "runIcmpIdentifierModeChange mode = runSelectedStreamPatch (icmpIdentifierModeAction mode)"

definition runIcmpIdentifierCountChange :: "FieldValue \<Rightarrow> PatchRun" where
  "runIcmpIdentifierCountChange count = runSelectedStreamPatch (icmpIdentifierCountAction count)"

definition runIcmpIdentifierStepChange :: "FieldValue \<Rightarrow> PatchRun" where
  "runIcmpIdentifierStepChange step = runSelectedStreamPatch (icmpIdentifierStepAction step)"

definition runIcmpSequenceChange :: "FieldValue \<Rightarrow> PatchRun" where
  "runIcmpSequenceChange sequence = runSelectedStreamPatch (icmpSequenceAction sequence)"

definition runIcmpSequenceModeChange :: "FieldValue \<Rightarrow> PatchRun" where
  "runIcmpSequenceModeChange mode = runSelectedStreamPatch (icmpSequenceModeAction mode)"

definition runIcmpSequenceCountChange :: "FieldValue \<Rightarrow> PatchRun" where
  "runIcmpSequenceCountChange count = runSelectedStreamPatch (icmpSequenceCountAction count)"

definition runIcmpSequenceStepChange :: "FieldValue \<Rightarrow> PatchRun" where
  "runIcmpSequenceStepChange step = runSelectedStreamPatch (icmpSequenceStepAction step)"

definition runIcmpChecksumOverrideChange :: "FieldValue \<Rightarrow> PatchRun" where
  "runIcmpChecksumOverrideChange override = runSelectedStreamPatch (icmpChecksumOverrideAction override)"

definition runIcmpChecksumChange :: "FieldValue \<Rightarrow> PatchRun" where
  "runIcmpChecksumChange checksum = runSelectedStreamPatch (icmpChecksumAction checksum)"

definition runIcmpv6RsSllaSelectionChange :: "FieldValue \<Rightarrow> PatchRun" where
  "runIcmpv6RsSllaSelectionChange enabled = runSelectedStreamPatch (icmpv6RsSllaSelectionAction enabled)"

definition runIcmpv6RsSllaMacChange :: "FieldValue \<Rightarrow> PatchRun" where
  "runIcmpv6RsSllaMacChange mac = runSelectedStreamPatch (icmpv6RsSllaMacAction mac)"

definition runIcmpv6RaCurrentHopLimitChange :: "FieldValue \<Rightarrow> PatchRun" where
  "runIcmpv6RaCurrentHopLimitChange hopLimit = runSelectedStreamPatch (icmpv6RaCurrentHopLimitAction hopLimit)"

definition runIcmpv6RaRouterLifetimeChange :: "FieldValue \<Rightarrow> PatchRun" where
  "runIcmpv6RaRouterLifetimeChange lifetime = runSelectedStreamPatch (icmpv6RaRouterLifetimeAction lifetime)"

definition runIcmpv6RaReachableTimeChange :: "FieldValue \<Rightarrow> PatchRun" where
  "runIcmpv6RaReachableTimeChange reachableTime = runSelectedStreamPatch (icmpv6RaReachableTimeAction reachableTime)"

definition runIcmpv6RaRetransTimerChange :: "FieldValue \<Rightarrow> PatchRun" where
  "runIcmpv6RaRetransTimerChange retransTimer = runSelectedStreamPatch (icmpv6RaRetransTimerAction retransTimer)"

definition runIcmpv6RaManagedFlagChange :: "FieldValue \<Rightarrow> PatchRun" where
  "runIcmpv6RaManagedFlagChange enabled = runSelectedStreamPatch (icmpv6RaManagedFlagAction enabled)"

definition runIcmpv6RaOtherFlagChange :: "FieldValue \<Rightarrow> PatchRun" where
  "runIcmpv6RaOtherFlagChange enabled = runSelectedStreamPatch (icmpv6RaOtherFlagAction enabled)"

definition runIcmpv6RaSllaSelectionChange :: "FieldValue \<Rightarrow> PatchRun" where
  "runIcmpv6RaSllaSelectionChange enabled = runSelectedStreamPatch (icmpv6RaSllaSelectionAction enabled)"

definition runIcmpv6RaSllaMacChange :: "FieldValue \<Rightarrow> PatchRun" where
  "runIcmpv6RaSllaMacChange mac = runSelectedStreamPatch (icmpv6RaSllaMacAction mac)"

definition runIcmpv6RaPrefixSelectionChange :: "FieldValue \<Rightarrow> PatchRun" where
  "runIcmpv6RaPrefixSelectionChange enabled = runSelectedStreamPatch (icmpv6RaPrefixSelectionAction enabled)"

definition runIcmpv6RaPrefixChange :: "FieldValue \<Rightarrow> PatchRun" where
  "runIcmpv6RaPrefixChange prefix' = runSelectedStreamPatch (icmpv6RaPrefixAction prefix')"

definition runIcmpv6RaPrefixLengthChange :: "FieldValue \<Rightarrow> PatchRun" where
  "runIcmpv6RaPrefixLengthChange prefixLength = runSelectedStreamPatch (icmpv6RaPrefixLengthAction prefixLength)"

definition runIcmpv6RaPrefixOnLinkFlagChange :: "FieldValue \<Rightarrow> PatchRun" where
  "runIcmpv6RaPrefixOnLinkFlagChange enabled = runSelectedStreamPatch (icmpv6RaPrefixOnLinkFlagAction enabled)"

definition runIcmpv6RaPrefixAutonomousFlagChange :: "FieldValue \<Rightarrow> PatchRun" where
  "runIcmpv6RaPrefixAutonomousFlagChange enabled = runSelectedStreamPatch (icmpv6RaPrefixAutonomousFlagAction enabled)"

definition runIcmpv6RaPrefixValidLifetimeChange :: "FieldValue \<Rightarrow> PatchRun" where
  "runIcmpv6RaPrefixValidLifetimeChange lifetime = runSelectedStreamPatch (icmpv6RaPrefixValidLifetimeAction lifetime)"

definition runIcmpv6RaPrefixPreferredLifetimeChange :: "FieldValue \<Rightarrow> PatchRun" where
  "runIcmpv6RaPrefixPreferredLifetimeChange lifetime = runSelectedStreamPatch (icmpv6RaPrefixPreferredLifetimeAction lifetime)"

definition runIcmpv6NdTargetChange :: "FieldValue \<Rightarrow> PatchRun" where
  "runIcmpv6NdTargetChange target = runSelectedStreamPatch (icmpv6NdTargetAction target)"

definition runIcmpv6NdOptionSelectionChange :: "FieldValue \<Rightarrow> PatchRun" where
  "runIcmpv6NdOptionSelectionChange enabled = runSelectedStreamPatch (icmpv6NdOptionSelectionAction enabled)"

definition runIcmpv6NdOptionMacChange :: "FieldValue \<Rightarrow> PatchRun" where
  "runIcmpv6NdOptionMacChange mac = runSelectedStreamPatch (icmpv6NdOptionMacAction mac)"

definition runIcmpv6NdNaRouterFlagChange :: "FieldValue \<Rightarrow> PatchRun" where
  "runIcmpv6NdNaRouterFlagChange enabled = runSelectedStreamPatch (icmpv6NdNaRouterFlagAction enabled)"

definition runIcmpv6NdNaSolicitedFlagChange :: "FieldValue \<Rightarrow> PatchRun" where
  "runIcmpv6NdNaSolicitedFlagChange enabled = runSelectedStreamPatch (icmpv6NdNaSolicitedFlagAction enabled)"

definition runIcmpv6NdNaOverrideFlagChange :: "FieldValue \<Rightarrow> PatchRun" where
  "runIcmpv6NdNaOverrideFlagChange enabled = runSelectedStreamPatch (icmpv6NdNaOverrideFlagAction enabled)"

definition runVxlanInnerIpVersionChange :: "FieldValue \<Rightarrow> PatchRun" where
  "runVxlanInnerIpVersionChange version = runSelectedStreamPatch (vxlanInnerIpVersionAction version)"

definition runVxlanVniChange :: "FieldValue \<Rightarrow> PatchRun" where
  "runVxlanVniChange vni = runSelectedStreamPatch (vxlanVniAction vni)"

definition runVxlanVniModeChange :: "FieldValue \<Rightarrow> PatchRun" where
  "runVxlanVniModeChange mode = runSelectedStreamPatch (vxlanVniModeAction mode)"

definition runVxlanVniCountChange :: "FieldValue \<Rightarrow> PatchRun" where
  "runVxlanVniCountChange count = runSelectedStreamPatch (vxlanVniCountAction count)"

definition runVxlanVniStepChange :: "FieldValue \<Rightarrow> PatchRun" where
  "runVxlanVniStepChange step = runSelectedStreamPatch (vxlanVniStepAction step)"

definition runVxlanInnerIpv6HopLimitChange :: "FieldValue \<Rightarrow> PatchRun" where
  "runVxlanInnerIpv6HopLimitChange hopLimit = runSelectedStreamPatch (vxlanInnerIpv6HopLimitAction hopLimit)"

definition runVxlanInnerIpv6HopLimitModeChange :: "FieldValue \<Rightarrow> PatchRun" where
  "runVxlanInnerIpv6HopLimitModeChange mode = runSelectedStreamPatch (vxlanInnerIpv6HopLimitModeAction mode)"

definition runVxlanInnerIpv6HopLimitCountChange :: "FieldValue \<Rightarrow> PatchRun" where
  "runVxlanInnerIpv6HopLimitCountChange count = runSelectedStreamPatch (vxlanInnerIpv6HopLimitCountAction count)"

definition runVxlanInnerIpv6HopLimitStepChange :: "FieldValue \<Rightarrow> PatchRun" where
  "runVxlanInnerIpv6HopLimitStepChange step = runSelectedStreamPatch (vxlanInnerIpv6HopLimitStepAction step)"

definition runVxlanInnerIpv4TtlChange :: "FieldValue \<Rightarrow> PatchRun" where
  "runVxlanInnerIpv4TtlChange ttl = runSelectedStreamPatch (vxlanInnerIpv4TtlAction ttl)"

definition runVxlanInnerIpv4TtlModeChange :: "FieldValue \<Rightarrow> PatchRun" where
  "runVxlanInnerIpv4TtlModeChange mode = runSelectedStreamPatch (vxlanInnerIpv4TtlModeAction mode)"

definition runVxlanInnerIpv4TtlCountChange :: "FieldValue \<Rightarrow> PatchRun" where
  "runVxlanInnerIpv4TtlCountChange count = runSelectedStreamPatch (vxlanInnerIpv4TtlCountAction count)"

definition runVxlanInnerIpv4TtlStepChange :: "FieldValue \<Rightarrow> PatchRun" where
  "runVxlanInnerIpv4TtlStepChange step = runSelectedStreamPatch (vxlanInnerIpv4TtlStepAction step)"

definition runVxlanInnerEtherDestinationChange :: "FieldValue \<Rightarrow> PatchRun" where
  "runVxlanInnerEtherDestinationChange address = runSelectedStreamPatch (vxlanInnerEtherDestinationAction address)"

definition runVxlanInnerEtherSourceChange :: "FieldValue \<Rightarrow> PatchRun" where
  "runVxlanInnerEtherSourceChange address = runSelectedStreamPatch (vxlanInnerEtherSourceAction address)"

definition runVxlanInnerIpv6SourceChange :: "FieldValue \<Rightarrow> PatchRun" where
  "runVxlanInnerIpv6SourceChange address = runSelectedStreamPatch (vxlanInnerIpv6SourceAction address)"

definition runVxlanInnerIpv6SourceModeChange :: "FieldValue \<Rightarrow> PatchRun" where
  "runVxlanInnerIpv6SourceModeChange mode = runSelectedStreamPatch (vxlanInnerIpv6SourceModeAction mode)"

definition runVxlanInnerIpv6SourceCountChange :: "FieldValue \<Rightarrow> PatchRun" where
  "runVxlanInnerIpv6SourceCountChange count = runSelectedStreamPatch (vxlanInnerIpv6SourceCountAction count)"

definition runVxlanInnerIpv6SourceStepChange :: "FieldValue \<Rightarrow> PatchRun" where
  "runVxlanInnerIpv6SourceStepChange step = runSelectedStreamPatch (vxlanInnerIpv6SourceStepAction step)"

definition runVxlanInnerIpv6DestinationChange :: "FieldValue \<Rightarrow> PatchRun" where
  "runVxlanInnerIpv6DestinationChange address = runSelectedStreamPatch (vxlanInnerIpv6DestinationAction address)"

definition runVxlanInnerIpv6DestinationModeChange :: "FieldValue \<Rightarrow> PatchRun" where
  "runVxlanInnerIpv6DestinationModeChange mode = runSelectedStreamPatch (vxlanInnerIpv6DestinationModeAction mode)"

definition runVxlanInnerIpv6DestinationCountChange :: "FieldValue \<Rightarrow> PatchRun" where
  "runVxlanInnerIpv6DestinationCountChange count = runSelectedStreamPatch (vxlanInnerIpv6DestinationCountAction count)"

definition runVxlanInnerIpv6DestinationStepChange :: "FieldValue \<Rightarrow> PatchRun" where
  "runVxlanInnerIpv6DestinationStepChange step = runSelectedStreamPatch (vxlanInnerIpv6DestinationStepAction step)"

definition runVxlanInnerIpv4SourceChange :: "FieldValue \<Rightarrow> PatchRun" where
  "runVxlanInnerIpv4SourceChange address = runSelectedStreamPatch (vxlanInnerIpv4SourceAction address)"

definition runVxlanInnerIpv4SourceModeChange :: "FieldValue \<Rightarrow> PatchRun" where
  "runVxlanInnerIpv4SourceModeChange mode = runSelectedStreamPatch (vxlanInnerIpv4SourceModeAction mode)"

definition runVxlanInnerIpv4SourceCountChange :: "FieldValue \<Rightarrow> PatchRun" where
  "runVxlanInnerIpv4SourceCountChange count = runSelectedStreamPatch (vxlanInnerIpv4SourceCountAction count)"

definition runVxlanInnerIpv4SourceStepChange :: "FieldValue \<Rightarrow> PatchRun" where
  "runVxlanInnerIpv4SourceStepChange step = runSelectedStreamPatch (vxlanInnerIpv4SourceStepAction step)"

definition runVxlanInnerIpv4DestinationChange :: "FieldValue \<Rightarrow> PatchRun" where
  "runVxlanInnerIpv4DestinationChange address = runSelectedStreamPatch (vxlanInnerIpv4DestinationAction address)"

definition runVxlanInnerIpv4DestinationModeChange :: "FieldValue \<Rightarrow> PatchRun" where
  "runVxlanInnerIpv4DestinationModeChange mode = runSelectedStreamPatch (vxlanInnerIpv4DestinationModeAction mode)"

definition runVxlanInnerIpv4DestinationCountChange :: "FieldValue \<Rightarrow> PatchRun" where
  "runVxlanInnerIpv4DestinationCountChange count = runSelectedStreamPatch (vxlanInnerIpv4DestinationCountAction count)"

definition runVxlanInnerIpv4DestinationStepChange :: "FieldValue \<Rightarrow> PatchRun" where
  "runVxlanInnerIpv4DestinationStepChange step = runSelectedStreamPatch (vxlanInnerIpv4DestinationStepAction step)"

definition runVxlanInnerL4SourcePortChange :: "FieldValue \<Rightarrow> PatchRun" where
  "runVxlanInnerL4SourcePortChange port = runSelectedStreamPatch (vxlanInnerL4SourcePortAction port)"

definition runVxlanInnerL4SourcePortModeChange :: "FieldValue \<Rightarrow> PatchRun" where
  "runVxlanInnerL4SourcePortModeChange mode = runSelectedStreamPatch (vxlanInnerL4SourcePortModeAction mode)"

definition runVxlanInnerL4SourcePortCountChange :: "FieldValue \<Rightarrow> PatchRun" where
  "runVxlanInnerL4SourcePortCountChange count = runSelectedStreamPatch (vxlanInnerL4SourcePortCountAction count)"

definition runVxlanInnerL4SourcePortStepChange :: "FieldValue \<Rightarrow> PatchRun" where
  "runVxlanInnerL4SourcePortStepChange step = runSelectedStreamPatch (vxlanInnerL4SourcePortStepAction step)"

definition runVxlanInnerL4DestinationPortChange :: "FieldValue \<Rightarrow> PatchRun" where
  "runVxlanInnerL4DestinationPortChange port = runSelectedStreamPatch (vxlanInnerL4DestinationPortAction port)"

definition runVxlanInnerL4DestinationPortModeChange :: "FieldValue \<Rightarrow> PatchRun" where
  "runVxlanInnerL4DestinationPortModeChange mode = runSelectedStreamPatch (vxlanInnerL4DestinationPortModeAction mode)"

definition runVxlanInnerL4DestinationPortCountChange :: "FieldValue \<Rightarrow> PatchRun" where
  "runVxlanInnerL4DestinationPortCountChange count = runSelectedStreamPatch (vxlanInnerL4DestinationPortCountAction count)"

definition runVxlanInnerL4DestinationPortStepChange :: "FieldValue \<Rightarrow> PatchRun" where
  "runVxlanInnerL4DestinationPortStepChange step = runSelectedStreamPatch (vxlanInnerL4DestinationPortStepAction step)"

definition runGtpuInnerIpVersionChange :: "FieldValue \<Rightarrow> PatchRun" where
  "runGtpuInnerIpVersionChange version = runSelectedStreamPatch (gtpuInnerIpVersionAction version)"

definition runGtpuMessageTypeChange :: "FieldValue \<Rightarrow> PatchRun" where
  "runGtpuMessageTypeChange messageType = runSelectedStreamPatch (gtpuMessageTypeAction messageType)"

definition runGtpuTeidChange :: "FieldValue \<Rightarrow> PatchRun" where
  "runGtpuTeidChange teid = runSelectedStreamPatch (gtpuTeidAction teid)"

definition runGtpuTeidModeChange :: "FieldValue \<Rightarrow> PatchRun" where
  "runGtpuTeidModeChange mode = runSelectedStreamPatch (gtpuTeidModeAction mode)"

definition runGtpuTeidCountChange :: "FieldValue \<Rightarrow> PatchRun" where
  "runGtpuTeidCountChange count = runSelectedStreamPatch (gtpuTeidCountAction count)"

definition runGtpuTeidStepChange :: "FieldValue \<Rightarrow> PatchRun" where
  "runGtpuTeidStepChange step = runSelectedStreamPatch (gtpuTeidStepAction step)"

definition runGtpuSequenceSelectionChange :: "FieldValue \<Rightarrow> PatchRun" where
  "runGtpuSequenceSelectionChange enabled = runSelectedStreamPatch (gtpuSequenceSelectionAction enabled)"

definition runGtpuSequenceChange :: "FieldValue \<Rightarrow> PatchRun" where
  "runGtpuSequenceChange sequence = runSelectedStreamPatch (gtpuSequenceAction sequence)"

definition runGtpuSequenceModeChange :: "FieldValue \<Rightarrow> PatchRun" where
  "runGtpuSequenceModeChange mode = runSelectedStreamPatch (gtpuSequenceModeAction mode)"

definition runGtpuSequenceCountChange :: "FieldValue \<Rightarrow> PatchRun" where
  "runGtpuSequenceCountChange count = runSelectedStreamPatch (gtpuSequenceCountAction count)"

definition runGtpuSequenceStepChange :: "FieldValue \<Rightarrow> PatchRun" where
  "runGtpuSequenceStepChange step = runSelectedStreamPatch (gtpuSequenceStepAction step)"

definition runGtpuNpduSelectionChange :: "FieldValue \<Rightarrow> PatchRun" where
  "runGtpuNpduSelectionChange enabled = runSelectedStreamPatch (gtpuNpduSelectionAction enabled)"

definition runGtpuNpduChange :: "FieldValue \<Rightarrow> PatchRun" where
  "runGtpuNpduChange npdu = runSelectedStreamPatch (gtpuNpduAction npdu)"

definition runGtpuNpduModeChange :: "FieldValue \<Rightarrow> PatchRun" where
  "runGtpuNpduModeChange mode = runSelectedStreamPatch (gtpuNpduModeAction mode)"

definition runGtpuNpduCountChange :: "FieldValue \<Rightarrow> PatchRun" where
  "runGtpuNpduCountChange count = runSelectedStreamPatch (gtpuNpduCountAction count)"

definition runGtpuNpduStepChange :: "FieldValue \<Rightarrow> PatchRun" where
  "runGtpuNpduStepChange step = runSelectedStreamPatch (gtpuNpduStepAction step)"

definition runGtpuExtensionSelectionChange :: "FieldValue \<Rightarrow> PatchRun" where
  "runGtpuExtensionSelectionChange enabled = runSelectedStreamPatch (gtpuExtensionSelectionAction enabled)"

definition runGtpuExtensionUdpPortChange :: "FieldValue \<Rightarrow> PatchRun" where
  "runGtpuExtensionUdpPortChange port = runSelectedStreamPatch (gtpuExtensionUdpPortAction port)"

definition runGtpuExtensionUdpPortModeChange :: "FieldValue \<Rightarrow> PatchRun" where
  "runGtpuExtensionUdpPortModeChange mode = runSelectedStreamPatch (gtpuExtensionUdpPortModeAction mode)"

definition runGtpuExtensionUdpPortCountChange :: "FieldValue \<Rightarrow> PatchRun" where
  "runGtpuExtensionUdpPortCountChange count = runSelectedStreamPatch (gtpuExtensionUdpPortCountAction count)"

definition runGtpuExtensionUdpPortStepChange :: "FieldValue \<Rightarrow> PatchRun" where
  "runGtpuExtensionUdpPortStepChange step = runSelectedStreamPatch (gtpuExtensionUdpPortStepAction step)"

definition runGtpuInnerIpv4TtlChange :: "FieldValue \<Rightarrow> PatchRun" where
  "runGtpuInnerIpv4TtlChange ttl = runSelectedStreamPatch (gtpuInnerIpv4TtlAction ttl)"

definition runGtpuInnerIpv4TtlModeChange :: "FieldValue \<Rightarrow> PatchRun" where
  "runGtpuInnerIpv4TtlModeChange mode = runSelectedStreamPatch (gtpuInnerIpv4TtlModeAction mode)"

definition runGtpuInnerIpv4TtlCountChange :: "FieldValue \<Rightarrow> PatchRun" where
  "runGtpuInnerIpv4TtlCountChange count = runSelectedStreamPatch (gtpuInnerIpv4TtlCountAction count)"

definition runGtpuInnerIpv4TtlStepChange :: "FieldValue \<Rightarrow> PatchRun" where
  "runGtpuInnerIpv4TtlStepChange step = runSelectedStreamPatch (gtpuInnerIpv4TtlStepAction step)"

definition runGtpuInnerIpv6HopLimitChange :: "FieldValue \<Rightarrow> PatchRun" where
  "runGtpuInnerIpv6HopLimitChange hopLimit = runSelectedStreamPatch (gtpuInnerIpv6HopLimitAction hopLimit)"

definition runGtpuInnerIpv6HopLimitModeChange :: "FieldValue \<Rightarrow> PatchRun" where
  "runGtpuInnerIpv6HopLimitModeChange mode = runSelectedStreamPatch (gtpuInnerIpv6HopLimitModeAction mode)"

definition runGtpuInnerIpv6HopLimitCountChange :: "FieldValue \<Rightarrow> PatchRun" where
  "runGtpuInnerIpv6HopLimitCountChange count = runSelectedStreamPatch (gtpuInnerIpv6HopLimitCountAction count)"

definition runGtpuInnerIpv6HopLimitStepChange :: "FieldValue \<Rightarrow> PatchRun" where
  "runGtpuInnerIpv6HopLimitStepChange step = runSelectedStreamPatch (gtpuInnerIpv6HopLimitStepAction step)"

definition runGtpuInnerIpv4SourceChange :: "FieldValue \<Rightarrow> PatchRun" where
  "runGtpuInnerIpv4SourceChange address = runSelectedStreamPatch (gtpuInnerIpv4SourceAction address)"

definition runGtpuInnerIpv4SourceModeChange :: "FieldValue \<Rightarrow> PatchRun" where
  "runGtpuInnerIpv4SourceModeChange mode = runSelectedStreamPatch (gtpuInnerIpv4SourceModeAction mode)"

definition runGtpuInnerIpv4SourceCountChange :: "FieldValue \<Rightarrow> PatchRun" where
  "runGtpuInnerIpv4SourceCountChange count = runSelectedStreamPatch (gtpuInnerIpv4SourceCountAction count)"

definition runGtpuInnerIpv4SourceStepChange :: "FieldValue \<Rightarrow> PatchRun" where
  "runGtpuInnerIpv4SourceStepChange step = runSelectedStreamPatch (gtpuInnerIpv4SourceStepAction step)"

definition runGtpuInnerIpv4DestinationChange :: "FieldValue \<Rightarrow> PatchRun" where
  "runGtpuInnerIpv4DestinationChange address = runSelectedStreamPatch (gtpuInnerIpv4DestinationAction address)"

definition runGtpuInnerIpv4DestinationModeChange :: "FieldValue \<Rightarrow> PatchRun" where
  "runGtpuInnerIpv4DestinationModeChange mode = runSelectedStreamPatch (gtpuInnerIpv4DestinationModeAction mode)"

definition runGtpuInnerIpv4DestinationCountChange :: "FieldValue \<Rightarrow> PatchRun" where
  "runGtpuInnerIpv4DestinationCountChange count = runSelectedStreamPatch (gtpuInnerIpv4DestinationCountAction count)"

definition runGtpuInnerIpv4DestinationStepChange :: "FieldValue \<Rightarrow> PatchRun" where
  "runGtpuInnerIpv4DestinationStepChange step = runSelectedStreamPatch (gtpuInnerIpv4DestinationStepAction step)"

definition runGtpuInnerIpv6SourceChange :: "FieldValue \<Rightarrow> PatchRun" where
  "runGtpuInnerIpv6SourceChange address = runSelectedStreamPatch (gtpuInnerIpv6SourceAction address)"

definition runGtpuInnerIpv6SourceModeChange :: "FieldValue \<Rightarrow> PatchRun" where
  "runGtpuInnerIpv6SourceModeChange mode = runSelectedStreamPatch (gtpuInnerIpv6SourceModeAction mode)"

definition runGtpuInnerIpv6SourceCountChange :: "FieldValue \<Rightarrow> PatchRun" where
  "runGtpuInnerIpv6SourceCountChange count = runSelectedStreamPatch (gtpuInnerIpv6SourceCountAction count)"

definition runGtpuInnerIpv6SourceStepChange :: "FieldValue \<Rightarrow> PatchRun" where
  "runGtpuInnerIpv6SourceStepChange step = runSelectedStreamPatch (gtpuInnerIpv6SourceStepAction step)"

definition runGtpuInnerIpv6DestinationChange :: "FieldValue \<Rightarrow> PatchRun" where
  "runGtpuInnerIpv6DestinationChange address = runSelectedStreamPatch (gtpuInnerIpv6DestinationAction address)"

definition runGtpuInnerIpv6DestinationModeChange :: "FieldValue \<Rightarrow> PatchRun" where
  "runGtpuInnerIpv6DestinationModeChange mode = runSelectedStreamPatch (gtpuInnerIpv6DestinationModeAction mode)"

definition runGtpuInnerIpv6DestinationCountChange :: "FieldValue \<Rightarrow> PatchRun" where
  "runGtpuInnerIpv6DestinationCountChange count = runSelectedStreamPatch (gtpuInnerIpv6DestinationCountAction count)"

definition runGtpuInnerIpv6DestinationStepChange :: "FieldValue \<Rightarrow> PatchRun" where
  "runGtpuInnerIpv6DestinationStepChange step = runSelectedStreamPatch (gtpuInnerIpv6DestinationStepAction step)"

definition runGtpuInnerL4SourcePortChange :: "FieldValue \<Rightarrow> PatchRun" where
  "runGtpuInnerL4SourcePortChange port = runSelectedStreamPatch (gtpuInnerL4SourcePortAction port)"

definition runGtpuInnerL4SourcePortModeChange :: "FieldValue \<Rightarrow> PatchRun" where
  "runGtpuInnerL4SourcePortModeChange mode = runSelectedStreamPatch (gtpuInnerL4SourcePortModeAction mode)"

definition runGtpuInnerL4SourcePortCountChange :: "FieldValue \<Rightarrow> PatchRun" where
  "runGtpuInnerL4SourcePortCountChange count = runSelectedStreamPatch (gtpuInnerL4SourcePortCountAction count)"

definition runGtpuInnerL4SourcePortStepChange :: "FieldValue \<Rightarrow> PatchRun" where
  "runGtpuInnerL4SourcePortStepChange step = runSelectedStreamPatch (gtpuInnerL4SourcePortStepAction step)"

definition runGtpuInnerL4DestinationPortChange :: "FieldValue \<Rightarrow> PatchRun" where
  "runGtpuInnerL4DestinationPortChange port = runSelectedStreamPatch (gtpuInnerL4DestinationPortAction port)"

definition runGtpuInnerL4DestinationPortModeChange :: "FieldValue \<Rightarrow> PatchRun" where
  "runGtpuInnerL4DestinationPortModeChange mode = runSelectedStreamPatch (gtpuInnerL4DestinationPortModeAction mode)"

definition runGtpuInnerL4DestinationPortCountChange :: "FieldValue \<Rightarrow> PatchRun" where
  "runGtpuInnerL4DestinationPortCountChange count = runSelectedStreamPatch (gtpuInnerL4DestinationPortCountAction count)"

definition runGtpuInnerL4DestinationPortStepChange :: "FieldValue \<Rightarrow> PatchRun" where
  "runGtpuInnerL4DestinationPortStepChange step = runSelectedStreamPatch (gtpuInnerL4DestinationPortStepAction step)"

definition runGreInnerIpVersionChange :: "FieldValue \<Rightarrow> PatchRun" where
  "runGreInnerIpVersionChange version = runSelectedStreamPatch (greInnerIpVersionAction version)"

definition runGreChecksumSelectionChange :: "FieldValue \<Rightarrow> PatchRun" where
  "runGreChecksumSelectionChange enabled = runSelectedStreamPatch (greChecksumSelectionAction enabled)"

definition runGreChecksumOverrideChange :: "FieldValue \<Rightarrow> PatchRun" where
  "runGreChecksumOverrideChange enabled = runSelectedStreamPatch (greChecksumOverrideAction enabled)"

definition runGreChecksumChange :: "FieldValue \<Rightarrow> PatchRun" where
  "runGreChecksumChange checksum = runSelectedStreamPatch (greChecksumAction checksum)"

definition runGreKeySelectionChange :: "FieldValue \<Rightarrow> PatchRun" where
  "runGreKeySelectionChange enabled = runSelectedStreamPatch (greKeySelectionAction enabled)"

definition runGreKeyChange :: "FieldValue \<Rightarrow> PatchRun" where
  "runGreKeyChange key = runSelectedStreamPatch (greKeyAction key)"

definition runGreKeyModeChange :: "FieldValue \<Rightarrow> PatchRun" where
  "runGreKeyModeChange mode = runSelectedStreamPatch (greKeyModeAction mode)"

definition runGreKeyCountChange :: "FieldValue \<Rightarrow> PatchRun" where
  "runGreKeyCountChange count = runSelectedStreamPatch (greKeyCountAction count)"

definition runGreKeyStepChange :: "FieldValue \<Rightarrow> PatchRun" where
  "runGreKeyStepChange step = runSelectedStreamPatch (greKeyStepAction step)"

definition runGreSequenceSelectionChange :: "FieldValue \<Rightarrow> PatchRun" where
  "runGreSequenceSelectionChange enabled = runSelectedStreamPatch (greSequenceSelectionAction enabled)"

definition runGreSequenceChange :: "FieldValue \<Rightarrow> PatchRun" where
  "runGreSequenceChange sequence = runSelectedStreamPatch (greSequenceAction sequence)"

definition runGreSequenceModeChange :: "FieldValue \<Rightarrow> PatchRun" where
  "runGreSequenceModeChange mode = runSelectedStreamPatch (greSequenceModeAction mode)"

definition runGreSequenceCountChange :: "FieldValue \<Rightarrow> PatchRun" where
  "runGreSequenceCountChange count = runSelectedStreamPatch (greSequenceCountAction count)"

definition runGreSequenceStepChange :: "FieldValue \<Rightarrow> PatchRun" where
  "runGreSequenceStepChange step = runSelectedStreamPatch (greSequenceStepAction step)"

definition runGreInnerIpv6SourceChange :: "FieldValue \<Rightarrow> PatchRun" where
  "runGreInnerIpv6SourceChange address = runSelectedStreamPatch (greInnerIpv6SourceAction address)"

definition runGreInnerIpv6SourceModeChange :: "FieldValue \<Rightarrow> PatchRun" where
  "runGreInnerIpv6SourceModeChange mode = runSelectedStreamPatch (greInnerIpv6SourceModeAction mode)"

definition runGreInnerIpv6SourceCountChange :: "FieldValue \<Rightarrow> PatchRun" where
  "runGreInnerIpv6SourceCountChange count = runSelectedStreamPatch (greInnerIpv6SourceCountAction count)"

definition runGreInnerIpv6SourceStepChange :: "FieldValue \<Rightarrow> PatchRun" where
  "runGreInnerIpv6SourceStepChange step = runSelectedStreamPatch (greInnerIpv6SourceStepAction step)"

definition runGreInnerIpv6DestinationChange :: "FieldValue \<Rightarrow> PatchRun" where
  "runGreInnerIpv6DestinationChange address = runSelectedStreamPatch (greInnerIpv6DestinationAction address)"

definition runGreInnerIpv6DestinationModeChange :: "FieldValue \<Rightarrow> PatchRun" where
  "runGreInnerIpv6DestinationModeChange mode = runSelectedStreamPatch (greInnerIpv6DestinationModeAction mode)"

definition runGreInnerIpv6DestinationCountChange :: "FieldValue \<Rightarrow> PatchRun" where
  "runGreInnerIpv6DestinationCountChange count = runSelectedStreamPatch (greInnerIpv6DestinationCountAction count)"

definition runGreInnerIpv6DestinationStepChange :: "FieldValue \<Rightarrow> PatchRun" where
  "runGreInnerIpv6DestinationStepChange step = runSelectedStreamPatch (greInnerIpv6DestinationStepAction step)"

definition runGreInnerIpv6HopLimitChange :: "FieldValue \<Rightarrow> PatchRun" where
  "runGreInnerIpv6HopLimitChange hopLimit = runSelectedStreamPatch (greInnerIpv6HopLimitAction hopLimit)"

definition runGreInnerIpv6HopLimitModeChange :: "FieldValue \<Rightarrow> PatchRun" where
  "runGreInnerIpv6HopLimitModeChange mode = runSelectedStreamPatch (greInnerIpv6HopLimitModeAction mode)"

definition runGreInnerIpv6HopLimitCountChange :: "FieldValue \<Rightarrow> PatchRun" where
  "runGreInnerIpv6HopLimitCountChange count = runSelectedStreamPatch (greInnerIpv6HopLimitCountAction count)"

definition runGreInnerIpv6HopLimitStepChange :: "FieldValue \<Rightarrow> PatchRun" where
  "runGreInnerIpv6HopLimitStepChange step = runSelectedStreamPatch (greInnerIpv6HopLimitStepAction step)"

definition runGreInnerIpv4SourceChange :: "FieldValue \<Rightarrow> PatchRun" where
  "runGreInnerIpv4SourceChange address = runSelectedStreamPatch (greInnerIpv4SourceAction address)"

definition runGreInnerIpv4SourceModeChange :: "FieldValue \<Rightarrow> PatchRun" where
  "runGreInnerIpv4SourceModeChange mode = runSelectedStreamPatch (greInnerIpv4SourceModeAction mode)"

definition runGreInnerIpv4SourceCountChange :: "FieldValue \<Rightarrow> PatchRun" where
  "runGreInnerIpv4SourceCountChange count = runSelectedStreamPatch (greInnerIpv4SourceCountAction count)"

definition runGreInnerIpv4SourceStepChange :: "FieldValue \<Rightarrow> PatchRun" where
  "runGreInnerIpv4SourceStepChange step = runSelectedStreamPatch (greInnerIpv4SourceStepAction step)"

definition runGreInnerIpv4DestinationChange :: "FieldValue \<Rightarrow> PatchRun" where
  "runGreInnerIpv4DestinationChange address = runSelectedStreamPatch (greInnerIpv4DestinationAction address)"

definition runGreInnerIpv4DestinationModeChange :: "FieldValue \<Rightarrow> PatchRun" where
  "runGreInnerIpv4DestinationModeChange mode = runSelectedStreamPatch (greInnerIpv4DestinationModeAction mode)"

definition runGreInnerIpv4DestinationCountChange :: "FieldValue \<Rightarrow> PatchRun" where
  "runGreInnerIpv4DestinationCountChange count = runSelectedStreamPatch (greInnerIpv4DestinationCountAction count)"

definition runGreInnerIpv4DestinationStepChange :: "FieldValue \<Rightarrow> PatchRun" where
  "runGreInnerIpv4DestinationStepChange step = runSelectedStreamPatch (greInnerIpv4DestinationStepAction step)"

definition runGreInnerIpv4TtlChange :: "FieldValue \<Rightarrow> PatchRun" where
  "runGreInnerIpv4TtlChange ttl = runSelectedStreamPatch (greInnerIpv4TtlAction ttl)"

definition runGreInnerIpv4TtlModeChange :: "FieldValue \<Rightarrow> PatchRun" where
  "runGreInnerIpv4TtlModeChange mode = runSelectedStreamPatch (greInnerIpv4TtlModeAction mode)"

definition runGreInnerIpv4TtlCountChange :: "FieldValue \<Rightarrow> PatchRun" where
  "runGreInnerIpv4TtlCountChange count = runSelectedStreamPatch (greInnerIpv4TtlCountAction count)"

definition runGreInnerIpv4TtlStepChange :: "FieldValue \<Rightarrow> PatchRun" where
  "runGreInnerIpv4TtlStepChange step = runSelectedStreamPatch (greInnerIpv4TtlStepAction step)"

definition runGreInnerL4SourcePortChange :: "FieldValue \<Rightarrow> PatchRun" where
  "runGreInnerL4SourcePortChange port = runSelectedStreamPatch (greInnerL4SourcePortAction port)"

definition runGreInnerL4SourcePortModeChange :: "FieldValue \<Rightarrow> PatchRun" where
  "runGreInnerL4SourcePortModeChange mode = runSelectedStreamPatch (greInnerL4SourcePortModeAction mode)"

definition runGreInnerL4SourcePortCountChange :: "FieldValue \<Rightarrow> PatchRun" where
  "runGreInnerL4SourcePortCountChange count = runSelectedStreamPatch (greInnerL4SourcePortCountAction count)"

definition runGreInnerL4SourcePortStepChange :: "FieldValue \<Rightarrow> PatchRun" where
  "runGreInnerL4SourcePortStepChange step = runSelectedStreamPatch (greInnerL4SourcePortStepAction step)"

definition runGreInnerL4DestinationPortChange :: "FieldValue \<Rightarrow> PatchRun" where
  "runGreInnerL4DestinationPortChange port = runSelectedStreamPatch (greInnerL4DestinationPortAction port)"

definition runGreInnerL4DestinationPortModeChange :: "FieldValue \<Rightarrow> PatchRun" where
  "runGreInnerL4DestinationPortModeChange mode = runSelectedStreamPatch (greInnerL4DestinationPortModeAction mode)"

definition runGreInnerL4DestinationPortCountChange :: "FieldValue \<Rightarrow> PatchRun" where
  "runGreInnerL4DestinationPortCountChange count = runSelectedStreamPatch (greInnerL4DestinationPortCountAction count)"

definition runGreInnerL4DestinationPortStepChange :: "FieldValue \<Rightarrow> PatchRun" where
  "runGreInnerL4DestinationPortStepChange step = runSelectedStreamPatch (greInnerL4DestinationPortStepAction step)"

end
