(* ===== verification/StreamTypes.thy ===== *)
theory StreamTypes
  imports StreamActions
begin

text \<open>
  The types of the fields of a stream (\<open>api.ts\<close>) and of what the actions carry (\<open>streamPatchModel.ts\<close>). The
  compiler checks them but for the casts to \<open>StreamPatch\<close>; here they are tables.
\<close>

section \<open>Types\<close>

datatype PropertyType =
    NumberType | TextType | FlagType | NumberOrText | ObjectType | OneOf "string list" | FieldTypeOf string
  | Nullable PropertyType | Optional PropertyType

definition ModeType :: PropertyType where
  "ModeType = OneOf [''Fixed'', ''Increment'', ''Decrement'', ''Random'']"

definition HostModeType :: PropertyType where
  "HostModeType = OneOf [''Fixed'', ''Increment Host'', ''Decrement Host'', ''Random Host'']"

section \<open>The fields of a stream\<close>

definition streamFields1 :: "(string \<times> PropertyType) list" where
  "streamFields1 =
     [(''name'', TextType),
      (''packet_type'', OneOf [''Ethernet'', ''Ethernet/ARP'', ''Ethernet/IPv4'', ''Ethernet/IPv6'', ''Ethernet/IPv4/UDP'', ''Ethernet/IPv4/TCP'', ''Ethernet/IPv4/ICMP'', ''Ethernet/IPv4/GRE'', ''Ethernet/IPv4/SCTP'', ''Ethernet/IPv6/UDP'', ''Ethernet/IPv6/TCP'', ''Ethernet/IPv6/ICMPv6'', ''Ethernet/IPv6/GRE'', ''Ethernet/IPv6/SCTP'']),
      (''frame_length_type'', ModeType),
      (''frame_length'', NumberType),
      (''frame_length_min'', NumberType),
      (''frame_length_max'', NumberType),
      (''mode'', OneOf [''continuous'', ''burst'', ''multi_burst'']),
      (''rate_type'', OneOf [''pps'', ''bps L1'', ''bps L2'', ''percentage'']),
      (''rate_value'', NumberType),
      (''enabled'', FlagType),
      (''self_start'', FlagType),
      (''total_pkts'', NumberType),
      (''pkts_per_burst'', NumberType),
      (''count'', NumberType),
      (''next_stream_id'', Nullable NumberType),
      (''action_count'', NumberType),
      (''isg'', NumberType),
      (''ibg'', NumberType),
      (''pg_id'', NumberType),
      (''flow_stats_enabled'', FlagType),
      (''latency_enabled'', FlagType),
      (''ether_dst'', TextType),
      (''ether_src'', TextType),
      (''ether_type_override'', FlagType),
      (''ether_type'', TextType),
      (''ether_dst_mode'', OneOf [''Fixed'', ''Increment'', ''Decrement'', ''TRex Config'']),
      (''ether_dst_count'', NumberType),
      (''ether_dst_step'', NumberType),
      (''ether_src_mode'', OneOf [''Fixed'', ''Increment'', ''Decrement'', ''TRex Config'']),
      (''ether_src_count'', NumberType),
      (''ether_src_step'', NumberType),
      (''arp_hardware_type'', NumberType),
      (''arp_protocol_type'', TextType),
      (''arp_hardware_size'', NumberType),
      (''arp_protocol_size'', NumberType),
      (''arp_operation'', NumberType),
      (''arp_operation_mode'', ModeType),
      (''arp_operation_count'', NumberType),
      (''arp_operation_step'', NumberType),
      (''arp_sender_mac'', TextType),
      (''arp_sender_mac_mode'', ModeType),
      (''arp_sender_mac_count'', NumberType),
      (''arp_sender_mac_step'', NumberType),
      (''arp_sender_ip'', TextType),
      (''arp_sender_ip_mode'', HostModeType),
      (''arp_sender_ip_count'', NumberType),
      (''arp_sender_ip_step'', NumberType),
      (''arp_target_mac'', TextType),
      (''arp_target_mac_mode'', ModeType),
      (''arp_target_mac_count'', NumberType),
      (''arp_target_mac_step'', NumberType),
      (''arp_target_ip'', TextType),
      (''arp_target_ip_mode'', HostModeType),
      (''arp_target_ip_count'', NumberType),
      (''arp_target_ip_step'', NumberType),
      (''vlan_enabled'', FlagType),
      (''vlan_tpid_override'', FlagType),
      (''vlan_tpid'', TextType),
      (''vlan_priority'', NumberType),
      (''vlan_priority_mode'', ModeType),
      (''vlan_priority_count'', NumberType),
      (''vlan_priority_step'', NumberType),
      (''vlan_cfi'', NumberType),
      (''vlan_id'', NumberType),
      (''vlan_id_mode'', ModeType),
      (''vlan_id_count'', NumberType),
      (''vlan_id_step'', NumberType),
      (''vlan2_enabled'', FlagType),
      (''vlan2_tpid_override'', FlagType),
      (''vlan2_tpid'', TextType),
      (''vlan2_priority'', NumberType),
      (''vlan2_priority_mode'', ModeType),
      (''vlan2_priority_count'', NumberType),
      (''vlan2_priority_step'', NumberType),
      (''vlan2_cfi'', NumberType),
      (''vlan2_id'', NumberType),
      (''vlan2_id_mode'', ModeType),
      (''vlan2_id_count'', NumberType),
      (''vlan2_id_step'', NumberType),
      (''mpls_enabled'', FlagType),
      (''mpls_label'', NumberType),
      (''mpls_label_mode'', ModeType),
      (''mpls_label_count'', NumberType),
      (''mpls_label_step'', NumberType),
      (''mpls_tc'', NumberType),
      (''mpls_tc_mode'', ModeType),
      (''mpls_tc_count'', NumberType),
      (''mpls_tc_step'', NumberType),
      (''mpls_ttl'', NumberType),
      (''mpls_ttl_mode'', ModeType),
      (''mpls_ttl_count'', NumberType),
      (''mpls_ttl_step'', NumberType),
      (''mpls_label2_enabled'', FlagType),
      (''mpls_label2'', NumberType),
      (''mpls_label2_mode'', ModeType),
      (''mpls_label2_count'', NumberType),
      (''mpls_label2_step'', NumberType),
      (''mpls_label2_tc'', NumberType),
      (''mpls_label2_tc_mode'', ModeType),
      (''mpls_label2_tc_count'', NumberType),
      (''mpls_label2_tc_step'', NumberType),
      (''mpls_label2_ttl'', NumberType),
      (''mpls_label2_ttl_mode'', ModeType),
      (''mpls_label2_ttl_count'', NumberType),
      (''mpls_label2_ttl_step'', NumberType),
      (''mpls_label3_enabled'', FlagType),
      (''mpls_label3'', NumberType),
      (''mpls_label3_mode'', ModeType),
      (''mpls_label3_count'', NumberType),
      (''mpls_label3_step'', NumberType),
      (''mpls_label3_tc'', NumberType),
      (''mpls_label3_tc_mode'', ModeType),
      (''mpls_label3_tc_count'', NumberType),
      (''mpls_label3_tc_step'', NumberType),
      (''mpls_label3_ttl'', NumberType),
      (''mpls_label3_ttl_mode'', ModeType),
      (''mpls_label3_ttl_count'', NumberType),
      (''mpls_label3_ttl_step'', NumberType),
      (''vxlan_enabled'', FlagType),
      (''vxlan_vni'', NumberType),
      (''vxlan_vni_mode'', ModeType),
      (''vxlan_vni_count'', NumberType),
      (''vxlan_vni_step'', NumberType),
      (''vxlan_inner_ether_dst'', TextType),
      (''vxlan_inner_ether_src'', TextType),
      (''vxlan_inner_ip_version'', OneOf [''IPv4'', ''IPv6''])]"

definition streamFields2 :: "(string \<times> PropertyType) list" where
  "streamFields2 =
     [(''vxlan_inner_ipv4_src'', TextType),
      (''vxlan_inner_ipv4_src_mode'', HostModeType),
      (''vxlan_inner_ipv4_src_count'', NumberType),
      (''vxlan_inner_ipv4_src_step'', NumberType),
      (''vxlan_inner_ipv4_dst'', TextType),
      (''vxlan_inner_ipv4_dst_mode'', HostModeType),
      (''vxlan_inner_ipv4_dst_count'', NumberType),
      (''vxlan_inner_ipv4_dst_step'', NumberType),
      (''vxlan_inner_ipv4_ttl'', NumberType),
      (''vxlan_inner_ipv4_ttl_mode'', ModeType),
      (''vxlan_inner_ipv4_ttl_count'', NumberType),
      (''vxlan_inner_ipv4_ttl_step'', NumberType),
      (''vxlan_inner_ipv6_src'', TextType),
      (''vxlan_inner_ipv6_src_mode'', HostModeType),
      (''vxlan_inner_ipv6_src_count'', NumberType),
      (''vxlan_inner_ipv6_src_step'', NumberType),
      (''vxlan_inner_ipv6_dst'', TextType),
      (''vxlan_inner_ipv6_dst_mode'', HostModeType),
      (''vxlan_inner_ipv6_dst_count'', NumberType),
      (''vxlan_inner_ipv6_dst_step'', NumberType),
      (''vxlan_inner_ipv6_hop_limit'', NumberType),
      (''vxlan_inner_ipv6_hop_limit_mode'', ModeType),
      (''vxlan_inner_ipv6_hop_limit_count'', NumberType),
      (''vxlan_inner_ipv6_hop_limit_step'', NumberType),
      (''vxlan_inner_l4_src_port'', NumberType),
      (''vxlan_inner_l4_src_port_mode'', ModeType),
      (''vxlan_inner_l4_src_port_count'', NumberType),
      (''vxlan_inner_l4_src_port_step'', NumberType),
      (''vxlan_inner_l4_dst_port'', NumberType),
      (''vxlan_inner_l4_dst_port_mode'', ModeType),
      (''vxlan_inner_l4_dst_port_count'', NumberType),
      (''vxlan_inner_l4_dst_port_step'', NumberType),
      (''gtpu_enabled'', FlagType),
      (''gtpu_message_type'', NumberType),
      (''gtpu_teid'', NumberType),
      (''gtpu_teid_mode'', ModeType),
      (''gtpu_teid_count'', NumberType),
      (''gtpu_teid_step'', NumberType),
      (''gtpu_sequence_enabled'', FlagType),
      (''gtpu_sequence'', NumberType),
      (''gtpu_sequence_mode'', ModeType),
      (''gtpu_sequence_count'', NumberType),
      (''gtpu_sequence_step'', NumberType),
      (''gtpu_npdu_enabled'', FlagType),
      (''gtpu_npdu'', NumberType),
      (''gtpu_npdu_mode'', ModeType),
      (''gtpu_npdu_count'', NumberType),
      (''gtpu_npdu_step'', NumberType),
      (''gtpu_extension_enabled'', FlagType),
      (''gtpu_extension_udp_port'', NumberType),
      (''gtpu_extension_udp_port_mode'', ModeType),
      (''gtpu_extension_udp_port_count'', NumberType),
      (''gtpu_extension_udp_port_step'', NumberType),
      (''gtpu_inner_ip_version'', OneOf [''IPv4'', ''IPv6'']),
      (''gtpu_inner_ipv4_src'', TextType),
      (''gtpu_inner_ipv4_src_mode'', HostModeType),
      (''gtpu_inner_ipv4_src_count'', NumberType),
      (''gtpu_inner_ipv4_src_step'', NumberType),
      (''gtpu_inner_ipv4_dst'', TextType),
      (''gtpu_inner_ipv4_dst_mode'', HostModeType),
      (''gtpu_inner_ipv4_dst_count'', NumberType),
      (''gtpu_inner_ipv4_dst_step'', NumberType),
      (''gtpu_inner_ipv4_ttl'', NumberType),
      (''gtpu_inner_ipv4_ttl_mode'', ModeType),
      (''gtpu_inner_ipv4_ttl_count'', NumberType),
      (''gtpu_inner_ipv4_ttl_step'', NumberType),
      (''gtpu_inner_ipv6_src'', TextType),
      (''gtpu_inner_ipv6_src_mode'', HostModeType),
      (''gtpu_inner_ipv6_src_count'', NumberType),
      (''gtpu_inner_ipv6_src_step'', NumberType),
      (''gtpu_inner_ipv6_dst'', TextType),
      (''gtpu_inner_ipv6_dst_mode'', HostModeType),
      (''gtpu_inner_ipv6_dst_count'', NumberType),
      (''gtpu_inner_ipv6_dst_step'', NumberType),
      (''gtpu_inner_ipv6_hop_limit'', NumberType),
      (''gtpu_inner_ipv6_hop_limit_mode'', ModeType),
      (''gtpu_inner_ipv6_hop_limit_count'', NumberType),
      (''gtpu_inner_ipv6_hop_limit_step'', NumberType),
      (''gtpu_inner_l4_src_port'', NumberType),
      (''gtpu_inner_l4_src_port_mode'', ModeType),
      (''gtpu_inner_l4_src_port_count'', NumberType),
      (''gtpu_inner_l4_src_port_step'', NumberType),
      (''gtpu_inner_l4_dst_port'', NumberType),
      (''gtpu_inner_l4_dst_port_mode'', ModeType),
      (''gtpu_inner_l4_dst_port_count'', NumberType),
      (''gtpu_inner_l4_dst_port_step'', NumberType),
      (''gre_checksum_present'', FlagType),
      (''gre_checksum_override'', FlagType),
      (''gre_checksum'', TextType),
      (''gre_key_present'', FlagType),
      (''gre_key'', NumberType),
      (''gre_key_mode'', ModeType),
      (''gre_key_count'', NumberType),
      (''gre_key_step'', NumberType),
      (''gre_sequence_present'', FlagType),
      (''gre_sequence'', NumberType),
      (''gre_sequence_mode'', ModeType),
      (''gre_sequence_count'', NumberType),
      (''gre_sequence_step'', NumberType),
      (''gre_protocol_type'', TextType),
      (''gre_inner_ip_version'', OneOf [''IPv4'', ''IPv6'']),
      (''gre_inner_ipv4_src'', TextType),
      (''gre_inner_ipv4_src_mode'', HostModeType),
      (''gre_inner_ipv4_src_count'', NumberType),
      (''gre_inner_ipv4_src_step'', NumberType),
      (''gre_inner_ipv4_dst'', TextType),
      (''gre_inner_ipv4_dst_mode'', HostModeType),
      (''gre_inner_ipv4_dst_count'', NumberType),
      (''gre_inner_ipv4_dst_step'', NumberType),
      (''gre_inner_ipv4_ttl'', NumberType),
      (''gre_inner_ipv4_ttl_mode'', ModeType),
      (''gre_inner_ipv4_ttl_count'', NumberType),
      (''gre_inner_ipv4_ttl_step'', NumberType),
      (''gre_inner_ipv6_src'', TextType),
      (''gre_inner_ipv6_src_mode'', HostModeType),
      (''gre_inner_ipv6_src_count'', NumberType),
      (''gre_inner_ipv6_src_step'', NumberType),
      (''gre_inner_ipv6_dst'', TextType),
      (''gre_inner_ipv6_dst_mode'', HostModeType),
      (''gre_inner_ipv6_dst_count'', NumberType),
      (''gre_inner_ipv6_dst_step'', NumberType),
      (''gre_inner_ipv6_hop_limit'', NumberType),
      (''gre_inner_ipv6_hop_limit_mode'', ModeType),
      (''gre_inner_ipv6_hop_limit_count'', NumberType),
      (''gre_inner_ipv6_hop_limit_step'', NumberType),
      (''gre_inner_l4_src_port'', NumberType),
      (''gre_inner_l4_src_port_mode'', ModeType),
      (''gre_inner_l4_src_port_count'', NumberType),
      (''gre_inner_l4_src_port_step'', NumberType),
      (''gre_inner_l4_dst_port'', NumberType),
      (''gre_inner_l4_dst_port_mode'', ModeType),
      (''gre_inner_l4_dst_port_count'', NumberType),
      (''gre_inner_l4_dst_port_step'', NumberType),
      (''ipv4_src'', TextType),
      (''ipv4_dst'', TextType),
      (''ipv4_src_mode'', HostModeType),
      (''ipv4_src_count'', NumberOrText),
      (''ipv4_src_step'', NumberType),
      (''ipv4_dst_mode'', HostModeType),
      (''ipv4_dst_count'', NumberOrText)]"

definition streamFields3 :: "(string \<times> PropertyType) list" where
  "streamFields3 =
     [(''ipv4_dst_step'', NumberType),
      (''ipv4_dscp'', NumberType),
      (''ipv4_dscp_mode'', ModeType),
      (''ipv4_dscp_count'', NumberType),
      (''ipv4_dscp_step'', NumberType),
      (''ipv4_ecn'', NumberType),
      (''ipv4_ecn_mode'', ModeType),
      (''ipv4_ecn_count'', NumberType),
      (''ipv4_ecn_step'', NumberType),
      (''ipv4_id'', NumberType),
      (''ipv4_id_mode'', ModeType),
      (''ipv4_id_count'', NumberType),
      (''ipv4_id_step'', NumberType),
      (''ipv4_flag_df'', FlagType),
      (''ipv4_flag_mf'', FlagType),
      (''ipv4_fragment_offset'', NumberType),
      (''ipv4_fragment_offset_mode'', ModeType),
      (''ipv4_fragment_offset_count'', NumberType),
      (''ipv4_fragment_offset_step'', NumberType),
      (''ipv4_ttl'', NumberType),
      (''ipv4_ttl_mode'', ModeType),
      (''ipv4_ttl_count'', NumberType),
      (''ipv4_ttl_step'', NumberType),
      (''ipv4_checksum_override'', FlagType),
      (''ipv4_checksum'', TextType),
      (''ipv6_src'', TextType),
      (''ipv6_dst'', TextType),
      (''ipv6_src_mode'', HostModeType),
      (''ipv6_src_count'', NumberType),
      (''ipv6_src_step'', NumberType),
      (''ipv6_dst_mode'', HostModeType),
      (''ipv6_dst_count'', NumberType),
      (''ipv6_dst_step'', NumberType),
      (''ipv6_traffic_class'', NumberType),
      (''ipv6_traffic_class_mode'', ModeType),
      (''ipv6_traffic_class_count'', NumberType),
      (''ipv6_traffic_class_step'', NumberType),
      (''ipv6_flow_label'', NumberType),
      (''ipv6_flow_label_mode'', ModeType),
      (''ipv6_flow_label_count'', NumberType),
      (''ipv6_flow_label_step'', NumberType),
      (''ipv6_hop_limit'', NumberType),
      (''ipv6_hop_limit_mode'', ModeType),
      (''ipv6_hop_limit_count'', NumberType),
      (''ipv6_hop_limit_step'', NumberType),
      (''l4_src_port_override'', FlagType),
      (''l4_src_port'', NumberType),
      (''l4_src_port_mode'', ModeType),
      (''l4_src_port_count'', NumberType),
      (''l4_src_port_step'', NumberType),
      (''l4_dst_port_override'', FlagType),
      (''l4_dst_port'', NumberType),
      (''l4_dst_port_mode'', ModeType),
      (''l4_dst_port_count'', NumberType),
      (''l4_dst_port_step'', NumberType),
      (''udp_length_override'', FlagType),
      (''udp_length'', NumberType),
      (''udp_length_mode'', ModeType),
      (''udp_length_count'', NumberType),
      (''udp_length_step'', NumberType),
      (''udp_checksum_override'', FlagType),
      (''udp_checksum'', TextType),
      (''udp_checksum_mode'', ModeType),
      (''udp_checksum_count'', NumberType),
      (''udp_checksum_step'', NumberType),
      (''dns_enabled'', FlagType),
      (''dns_transaction_id'', NumberType),
      (''dns_transaction_id_mode'', ModeType),
      (''dns_transaction_id_count'', NumberType),
      (''dns_transaction_id_step'', NumberType),
      (''dns_flags'', TextType),
      (''dns_flags_mode'', ModeType),
      (''dns_flags_count'', NumberType),
      (''dns_flags_step'', NumberType),
      (''dns_query_name'', TextType),
      (''dns_query_type'', NumberType),
      (''dns_query_type_mode'', ModeType),
      (''dns_query_type_count'', NumberType),
      (''dns_query_type_step'', NumberType),
      (''dns_query_class'', NumberType),
      (''dns_query_class_mode'', ModeType),
      (''dns_query_class_count'', NumberType),
      (''dns_query_class_step'', NumberType),
      (''dns_answer_enabled'', FlagType),
      (''dns_answer_ttl'', NumberType),
      (''dns_answer_ttl_mode'', ModeType),
      (''dns_answer_ttl_count'', NumberType),
      (''dns_answer_ttl_step'', NumberType),
      (''dns_answer_ipv4'', TextType),
      (''dns_answer_ipv4_mode'', HostModeType),
      (''dns_answer_ipv4_count'', NumberType),
      (''dns_answer_ipv4_step'', NumberType),
      (''dhcp_enabled'', FlagType),
      (''dhcp_operation'', NumberType),
      (''dhcp_operation_mode'', ModeType),
      (''dhcp_operation_count'', NumberType),
      (''dhcp_operation_step'', NumberType),
      (''dhcp_hops'', NumberType),
      (''dhcp_hops_mode'', ModeType),
      (''dhcp_hops_count'', NumberType),
      (''dhcp_hops_step'', NumberType),
      (''dhcp_seconds'', NumberType),
      (''dhcp_seconds_mode'', ModeType),
      (''dhcp_seconds_count'', NumberType),
      (''dhcp_seconds_step'', NumberType),
      (''dhcp_message_type'', NumberType),
      (''dhcp_message_type_mode'', ModeType),
      (''dhcp_message_type_count'', NumberType),
      (''dhcp_message_type_step'', NumberType),
      (''dhcp_xid'', NumberType),
      (''dhcp_xid_mode'', ModeType),
      (''dhcp_xid_count'', NumberType),
      (''dhcp_xid_step'', NumberType),
      (''dhcp_flags'', TextType),
      (''dhcp_flags_mode'', ModeType),
      (''dhcp_flags_count'', NumberType),
      (''dhcp_flags_step'', NumberType),
      (''dhcp_client_ip'', TextType),
      (''dhcp_client_ip_mode'', HostModeType),
      (''dhcp_client_ip_count'', NumberType),
      (''dhcp_client_ip_step'', NumberType),
      (''dhcp_your_ip'', TextType),
      (''dhcp_your_ip_mode'', HostModeType),
      (''dhcp_your_ip_count'', NumberType),
      (''dhcp_your_ip_step'', NumberType),
      (''dhcp_server_ip'', TextType),
      (''dhcp_server_ip_mode'', HostModeType),
      (''dhcp_server_ip_count'', NumberType),
      (''dhcp_server_ip_step'', NumberType),
      (''dhcp_relay_ip'', TextType),
      (''dhcp_relay_ip_mode'', HostModeType),
      (''dhcp_relay_ip_count'', NumberType),
      (''dhcp_relay_ip_step'', NumberType),
      (''dhcp_client_mac'', TextType),
      (''dhcp_client_mac_mode'', ModeType),
      (''dhcp_client_mac_count'', NumberType),
      (''dhcp_client_mac_step'', NumberType),
      (''dhcp_hostname'', TextType),
      (''dhcp_requested_ip'', TextType),
      (''dhcp_requested_ip_mode'', HostModeType)]"

definition streamFields4 :: "(string \<times> PropertyType) list" where
  "streamFields4 =
     [(''dhcp_requested_ip_count'', NumberType),
      (''dhcp_requested_ip_step'', NumberType),
      (''dhcp_server_id'', TextType),
      (''dhcp_server_id_mode'', HostModeType),
      (''dhcp_server_id_count'', NumberType),
      (''dhcp_server_id_step'', NumberType),
      (''dhcp_parameter_request_list'', TextType),
      (''dhcp_lease_time'', NumberType),
      (''dhcp_lease_time_mode'', ModeType),
      (''dhcp_lease_time_count'', NumberType),
      (''dhcp_lease_time_step'', NumberType),
      (''dhcp_renewal_time'', NumberType),
      (''dhcp_renewal_time_mode'', ModeType),
      (''dhcp_renewal_time_count'', NumberType),
      (''dhcp_renewal_time_step'', NumberType),
      (''dhcp_rebinding_time'', NumberType),
      (''dhcp_rebinding_time_mode'', ModeType),
      (''dhcp_rebinding_time_count'', NumberType),
      (''dhcp_rebinding_time_step'', NumberType),
      (''icmp_type'', NumberType),
      (''icmp_type_mode'', ModeType),
      (''icmp_type_count'', NumberType),
      (''icmp_type_step'', NumberType),
      (''icmp_code'', NumberType),
      (''icmp_code_mode'', ModeType),
      (''icmp_code_count'', NumberType),
      (''icmp_code_step'', NumberType),
      (''icmp_checksum_override'', FlagType),
      (''icmp_checksum'', TextType),
      (''icmp_identifier'', NumberType),
      (''icmp_identifier_mode'', ModeType),
      (''icmp_identifier_count'', NumberType),
      (''icmp_identifier_step'', NumberType),
      (''icmp_sequence'', NumberType),
      (''icmp_sequence_mode'', ModeType),
      (''icmp_sequence_count'', NumberType),
      (''icmp_sequence_step'', NumberType),
      (''icmpv6_nd_target'', TextType),
      (''icmpv6_nd_include_option'', FlagType),
      (''icmpv6_nd_option_mac'', TextType),
      (''icmpv6_nd_na_router'', FlagType),
      (''icmpv6_nd_na_solicited'', FlagType),
      (''icmpv6_nd_na_override'', FlagType),
      (''icmpv6_rs_include_slla'', FlagType),
      (''icmpv6_rs_slla_mac'', TextType),
      (''icmpv6_ra_cur_hop_limit'', NumberType),
      (''icmpv6_ra_managed'', FlagType),
      (''icmpv6_ra_other'', FlagType),
      (''icmpv6_ra_router_lifetime'', NumberType),
      (''icmpv6_ra_reachable_time'', NumberType),
      (''icmpv6_ra_retrans_timer'', NumberType),
      (''icmpv6_ra_include_slla'', FlagType),
      (''icmpv6_ra_slla_mac'', TextType),
      (''icmpv6_ra_include_prefix'', FlagType),
      (''icmpv6_ra_prefix'', TextType),
      (''icmpv6_ra_prefix_length'', NumberType),
      (''icmpv6_ra_prefix_on_link'', FlagType),
      (''icmpv6_ra_prefix_autonomous'', FlagType),
      (''icmpv6_ra_prefix_valid_lifetime'', NumberType),
      (''icmpv6_ra_prefix_preferred_lifetime'', NumberType),
      (''tcp_sequence_number'', NumberType),
      (''tcp_sequence_mode'', ModeType),
      (''tcp_sequence_count'', NumberType),
      (''tcp_sequence_step'', NumberType),
      (''tcp_ack_number'', NumberType),
      (''tcp_ack_mode'', ModeType),
      (''tcp_ack_count'', NumberType),
      (''tcp_ack_step'', NumberType),
      (''tcp_window'', NumberType),
      (''tcp_window_mode'', ModeType),
      (''tcp_window_count'', NumberType),
      (''tcp_window_step'', NumberType),
      (''tcp_checksum_override'', FlagType),
      (''tcp_checksum'', TextType),
      (''tcp_checksum_mode'', ModeType),
      (''tcp_checksum_count'', NumberType),
      (''tcp_checksum_step'', NumberType),
      (''tcp_option_mss_enabled'', FlagType),
      (''tcp_option_mss'', NumberType),
      (''tcp_option_mss_mode'', ModeType),
      (''tcp_option_mss_count'', NumberType),
      (''tcp_option_mss_step'', NumberType),
      (''tcp_option_window_scale_enabled'', FlagType),
      (''tcp_option_window_scale'', NumberType),
      (''tcp_option_window_scale_mode'', ModeType),
      (''tcp_option_window_scale_count'', NumberType),
      (''tcp_option_window_scale_step'', NumberType),
      (''tcp_option_sack_permitted_enabled'', FlagType),
      (''tcp_option_sack_blocks_enabled'', FlagType),
      (''tcp_option_sack_left_edge'', NumberType),
      (''tcp_option_sack_left_edge_mode'', ModeType),
      (''tcp_option_sack_left_edge_count'', NumberType),
      (''tcp_option_sack_left_edge_step'', NumberType),
      (''tcp_option_sack_right_edge'', NumberType),
      (''tcp_option_sack_right_edge_mode'', ModeType),
      (''tcp_option_sack_right_edge_count'', NumberType),
      (''tcp_option_sack_right_edge_step'', NumberType),
      (''tcp_option_timestamp_enabled'', FlagType),
      (''tcp_option_timestamp_value'', NumberType),
      (''tcp_option_timestamp_value_mode'', ModeType),
      (''tcp_option_timestamp_value_count'', NumberType),
      (''tcp_option_timestamp_value_step'', NumberType),
      (''tcp_option_timestamp_echo'', NumberType),
      (''tcp_option_timestamp_echo_mode'', ModeType),
      (''tcp_option_timestamp_echo_count'', NumberType),
      (''tcp_option_timestamp_echo_step'', NumberType),
      (''tcp_urgent_pointer'', NumberType),
      (''tcp_urgent_pointer_mode'', ModeType),
      (''tcp_urgent_pointer_count'', NumberType),
      (''tcp_urgent_pointer_step'', NumberType),
      (''tcp_flags_mode'', ModeType),
      (''tcp_flags_count'', NumberType),
      (''tcp_flags_step'', NumberType),
      (''tcp_flag_urg'', FlagType),
      (''tcp_flag_ack'', FlagType),
      (''tcp_flag_psh'', FlagType),
      (''tcp_flag_rst'', FlagType),
      (''tcp_flag_syn'', FlagType),
      (''tcp_flag_fin'', FlagType),
      (''sctp_verification_tag'', NumberType),
      (''sctp_verification_tag_mode'', ModeType),
      (''sctp_verification_tag_count'', NumberType),
      (''sctp_verification_tag_step'', NumberType),
      (''sctp_checksum_override'', FlagType),
      (''sctp_checksum'', TextType),
      (''sctp_data_flags'', NumberType),
      (''sctp_data_flags_mode'', ModeType),
      (''sctp_data_flags_count'', NumberType),
      (''sctp_data_flags_step'', NumberType),
      (''sctp_tsn'', NumberType),
      (''sctp_tsn_mode'', ModeType),
      (''sctp_tsn_count'', NumberType),
      (''sctp_tsn_step'', NumberType),
      (''sctp_stream_id'', NumberType),
      (''sctp_stream_id_mode'', ModeType),
      (''sctp_stream_id_count'', NumberType),
      (''sctp_stream_id_step'', NumberType),
      (''sctp_stream_sequence'', NumberType),
      (''sctp_stream_sequence_mode'', ModeType),
      (''sctp_stream_sequence_count'', NumberType)]"

definition streamFields5 :: "(string \<times> PropertyType) list" where
  "streamFields5 =
     [(''sctp_stream_sequence_step'', NumberType),
      (''sctp_payload_protocol_id'', NumberType),
      (''sctp_payload_protocol_id_mode'', ModeType),
      (''sctp_payload_protocol_id_count'', NumberType),
      (''sctp_payload_protocol_id_step'', NumberType),
      (''payload_enabled'', FlagType),
      (''payload_type'', OneOf [''Fixed Word'', ''Increment Byte'', ''Decrement Byte'', ''Random'']),
      (''payload_pattern'', TextType),
      (''advanced_cache_size_type'', OneOf [''Auto'', ''Enable'', ''Disable'']),
      (''advanced_cache_value'', NumberType),
      (''packet_binary_base64'', Optional (Nullable TextType)),
      (''advanced_mode'', FlagType),
      (''packet_model'', Optional (Nullable TextType)),
      (''packet_meta_base64'', Optional (Nullable TextType)),
      (''advanced_vm'', Optional (Nullable ObjectType))]"

definition streamFieldTypes :: "(string \<times> PropertyType) list" where
  "streamFieldTypes = streamFields1 @ streamFields2 @ streamFields3 @ streamFields4 @ streamFields5"

section \<open>What the actions carry\<close>

definition actionShapes1 :: "(string \<times> (string \<times> PropertyType) list) list" where
  "actionShapes1 =
     [(''stream-mode'', [(''mode'', FieldTypeOf ''mode'')]),
      (''stream-enabled'', [(''enabled'', FlagType)]),
      (''self-start'', [(''selfStart'', FlagType)]),
      (''total-packets'', [(''totalPackets'', NumberType)]),
      (''burst-count'', [(''count'', NumberType)]),
      (''packets-per-burst'', [(''packetsPerBurst'', NumberType)]),
      (''rate-type'', [(''rateType'', FieldTypeOf ''rate_type'')]),
      (''rate-value'', [(''rateValue'', NumberType)]),
      (''after-stream-stop'', []),
      (''after-stream-goto'', []),
      (''next-stream'', [(''nextStreamId'', NumberType)]),
      (''loop-action-count-enabled'', [(''enabled'', FlagType)]),
      (''loop-action-count'', [(''actionCount'', NumberType)]),
      (''isg'', [(''isg'', NumberType)]),
      (''ibg'', [(''ibg'', NumberType)]),
      (''flow-stats-enabled'', [(''enabled'', FlagType)]),
      (''pg-id'', [(''pgId'', NumberType)]),
      (''latency-enabled'', [(''enabled'', FlagType)]),
      (''stream-name'', [(''name'', TextType)]),
      (''packet-frame-length'', [(''frameLength'', NumberType)]),
      (''frame-length-min'', [(''frameLengthMin'', NumberType)]),
      (''frame-length-max'', [(''frameLengthMax'', NumberType)]),
      (''ether-type-override'', [(''override'', FlagType)]),
      (''ether-type'', [(''etherType'', TextType)]),
      (''ether-dst'', [(''address'', TextType)]),
      (''ether-dst-mode'', [(''mode'', FieldTypeOf ''ether_dst_mode'')]),
      (''ether-dst-count'', [(''count'', NumberType)]),
      (''ether-dst-step'', [(''step'', NumberType)]),
      (''ether-src'', [(''address'', TextType)]),
      (''ether-src-mode'', [(''mode'', FieldTypeOf ''ether_src_mode'')]),
      (''ether-src-count'', [(''count'', NumberType)]),
      (''ether-src-step'', [(''step'', NumberType)]),
      (''arp-hardware-type'', [(''value'', NumberType)]),
      (''arp-protocol-type'', [(''value'', TextType)]),
      (''arp-hardware-size'', [(''value'', NumberType)])]"

definition actionShapes2 :: "(string \<times> (string \<times> PropertyType) list) list" where
  "actionShapes2 =
     [(''arp-protocol-size'', [(''value'', NumberType)]),
      (''arp-operation'', [(''value'', NumberType)]),
      (''arp-operation-mode'', [(''mode'', FieldTypeOf ''arp_operation_mode'')]),
      (''arp-operation-count'', [(''count'', NumberType)]),
      (''arp-operation-step'', [(''step'', NumberType)]),
      (''arp-sender-mac'', [(''value'', TextType)]),
      (''arp-sender-mac-mode'', [(''mode'', FieldTypeOf ''arp_sender_mac_mode'')]),
      (''arp-sender-mac-count'', [(''count'', NumberType)]),
      (''arp-sender-mac-step'', [(''step'', NumberType)]),
      (''arp-sender-ip'', [(''value'', TextType)]),
      (''arp-sender-ip-mode'', [(''mode'', FieldTypeOf ''arp_sender_ip_mode'')]),
      (''arp-sender-ip-count'', [(''count'', NumberType)]),
      (''arp-sender-ip-step'', [(''step'', NumberType)]),
      (''arp-target-mac'', [(''value'', TextType)]),
      (''arp-target-mac-mode'', [(''mode'', FieldTypeOf ''arp_target_mac_mode'')]),
      (''arp-target-mac-count'', [(''count'', NumberType)]),
      (''arp-target-mac-step'', [(''step'', NumberType)]),
      (''arp-target-ip'', [(''value'', TextType)]),
      (''arp-target-ip-mode'', [(''mode'', FieldTypeOf ''arp_target_ip_mode'')]),
      (''arp-target-ip-count'', [(''count'', NumberType)]),
      (''arp-target-ip-step'', [(''step'', NumberType)]),
      (''ipv4-dst'', [(''address'', TextType)]),
      (''ipv4-dst-mode'', [(''mode'', FieldTypeOf ''ipv4_dst_mode'')]),
      (''ipv4-dst-count'', [(''count'', FieldTypeOf ''ipv4_dst_count'')]),
      (''ipv4-dst-step'', [(''step'', NumberType)]),
      (''ipv4-src'', [(''address'', TextType)]),
      (''ipv4-src-mode'', [(''mode'', FieldTypeOf ''ipv4_src_mode'')]),
      (''ipv4-src-count'', [(''count'', FieldTypeOf ''ipv4_src_count'')]),
      (''ipv4-src-step'', [(''step'', NumberType)]),
      (''ipv4-dscp'', [(''dscp'', NumberType)]),
      (''ipv4-dscp-mode'', [(''mode'', FieldTypeOf ''ipv4_dscp_mode'')]),
      (''ipv4-dscp-count'', [(''count'', NumberType)]),
      (''ipv4-dscp-step'', [(''step'', NumberType)]),
      (''ipv4-ecn'', [(''ecn'', NumberType)]),
      (''ipv4-ecn-mode'', [(''mode'', FieldTypeOf ''ipv4_ecn_mode'')])]"

definition actionShapes3 :: "(string \<times> (string \<times> PropertyType) list) list" where
  "actionShapes3 =
     [(''ipv4-ecn-count'', [(''count'', NumberType)]),
      (''ipv4-ecn-step'', [(''step'', NumberType)]),
      (''ipv4-identification'', [(''identification'', NumberType)]),
      (''ipv4-identification-mode'', [(''mode'', FieldTypeOf ''ipv4_id_mode'')]),
      (''ipv4-identification-count'', [(''count'', NumberType)]),
      (''ipv4-identification-step'', [(''step'', NumberType)]),
      (''ipv4-df-flag'', [(''enabled'', FlagType)]),
      (''ipv4-mf-flag'', [(''enabled'', FlagType)]),
      (''ipv4-fragment-offset'', [(''fragmentOffset'', NumberType)]),
      (''ipv4-fragment-offset-mode'', [(''mode'', FieldTypeOf ''ipv4_fragment_offset_mode'')]),
      (''ipv4-fragment-offset-count'', [(''count'', NumberType)]),
      (''ipv4-fragment-offset-step'', [(''step'', NumberType)]),
      (''ipv4-ttl'', [(''ttl'', NumberType)]),
      (''ipv4-ttl-mode'', [(''mode'', FieldTypeOf ''ipv4_ttl_mode'')]),
      (''ipv4-ttl-count'', [(''count'', NumberType)]),
      (''ipv4-ttl-step'', [(''step'', NumberType)]),
      (''ipv4-checksum-override'', [(''override'', FlagType)]),
      (''ipv4-checksum'', [(''checksum'', TextType)]),
      (''ipv6-dst'', [(''address'', TextType)]),
      (''ipv6-dst-mode'', [(''mode'', FieldTypeOf ''ipv6_dst_mode'')]),
      (''ipv6-dst-count'', [(''count'', NumberType)]),
      (''ipv6-dst-step'', [(''step'', NumberType)]),
      (''ipv6-src'', [(''address'', TextType)]),
      (''ipv6-src-mode'', [(''mode'', FieldTypeOf ''ipv6_src_mode'')]),
      (''ipv6-src-count'', [(''count'', NumberType)]),
      (''ipv6-src-step'', [(''step'', NumberType)]),
      (''ipv6-traffic-class'', [(''trafficClass'', NumberType)]),
      (''ipv6-traffic-class-mode'', [(''mode'', FieldTypeOf ''ipv6_traffic_class_mode'')]),
      (''ipv6-traffic-class-count'', [(''count'', NumberType)]),
      (''ipv6-traffic-class-step'', [(''step'', NumberType)]),
      (''ipv6-flow-label'', [(''flowLabel'', NumberType)]),
      (''ipv6-flow-label-mode'', [(''mode'', FieldTypeOf ''ipv6_flow_label_mode'')]),
      (''ipv6-flow-label-count'', [(''count'', NumberType)]),
      (''ipv6-flow-label-step'', [(''step'', NumberType)]),
      (''ipv6-hop-limit'', [(''hopLimit'', NumberType)])]"

definition actionShapes4 :: "(string \<times> (string \<times> PropertyType) list) list" where
  "actionShapes4 =
     [(''ipv6-hop-limit-mode'', [(''mode'', FieldTypeOf ''ipv6_hop_limit_mode'')]),
      (''ipv6-hop-limit-count'', [(''count'', NumberType)]),
      (''ipv6-hop-limit-step'', [(''step'', NumberType)]),
      (''vlan-selection'', [(''enabled'', FlagType)]),
      (''vlan-tpid-override'', [(''override'', FlagType)]),
      (''vlan-tpid'', [(''tpid'', TextType)]),
      (''vlan-priority'', [(''priority'', NumberType)]),
      (''vlan-priority-mode'', [(''mode'', FieldTypeOf ''vlan_priority_mode'')]),
      (''vlan-priority-count'', [(''count'', NumberType)]),
      (''vlan-priority-step'', [(''step'', NumberType)]),
      (''vlan-cfi'', [(''cfi'', NumberType)]),
      (''vlan-id'', [(''vlanId'', NumberType)]),
      (''vlan-id-mode'', [(''mode'', FieldTypeOf ''vlan_id_mode'')]),
      (''vlan-id-count'', [(''count'', NumberType)]),
      (''vlan-id-step'', [(''step'', NumberType)]),
      (''vlan-inner-selection'', [(''enabled'', FlagType)]),
      (''vlan-inner-tpid-override'', [(''override'', FlagType)]),
      (''vlan-inner-tpid'', [(''tpid'', TextType)]),
      (''vlan-inner-priority'', [(''priority'', NumberType)]),
      (''vlan-inner-priority-mode'', [(''mode'', FieldTypeOf ''vlan2_priority_mode'')]),
      (''vlan-inner-priority-count'', [(''count'', NumberType)]),
      (''vlan-inner-priority-step'', [(''step'', NumberType)]),
      (''vlan-inner-cfi'', [(''cfi'', NumberType)]),
      (''vlan-inner-id'', [(''vlanId'', NumberType)]),
      (''vlan-inner-id-mode'', [(''mode'', FieldTypeOf ''vlan2_id_mode'')]),
      (''vlan-inner-id-count'', [(''count'', NumberType)]),
      (''vlan-inner-id-step'', [(''step'', NumberType)]),
      (''mpls-selection'', [(''enabled'', FlagType)]),
      (''mpls-label'', [(''label'', NumberType)]),
      (''mpls-label-mode'', [(''mode'', FieldTypeOf ''mpls_label_mode'')]),
      (''mpls-label-count'', [(''count'', NumberType)]),
      (''mpls-label-step'', [(''step'', NumberType)]),
      (''mpls-traffic-class'', [(''trafficClass'', NumberType)]),
      (''mpls-traffic-class-mode'', [(''mode'', FieldTypeOf ''mpls_tc_mode'')]),
      (''mpls-traffic-class-count'', [(''count'', NumberType)])]"

definition actionShapes5 :: "(string \<times> (string \<times> PropertyType) list) list" where
  "actionShapes5 =
     [(''mpls-traffic-class-step'', [(''step'', NumberType)]),
      (''mpls-ttl'', [(''ttl'', NumberType)]),
      (''mpls-ttl-mode'', [(''mode'', FieldTypeOf ''mpls_ttl_mode'')]),
      (''mpls-ttl-count'', [(''count'', NumberType)]),
      (''mpls-ttl-step'', [(''step'', NumberType)]),
      (''mpls-second-label-selection'', [(''enabled'', FlagType)]),
      (''mpls-second-label'', [(''label'', NumberType)]),
      (''mpls-second-label-mode'', [(''mode'', FieldTypeOf ''mpls_label2_mode'')]),
      (''mpls-second-label-count'', [(''count'', NumberType)]),
      (''mpls-second-label-step'', [(''step'', NumberType)]),
      (''mpls-second-traffic-class'', [(''trafficClass'', NumberType)]),
      (''mpls-second-traffic-class-mode'', [(''mode'', FieldTypeOf ''mpls_label2_tc_mode'')]),
      (''mpls-second-traffic-class-count'', [(''count'', NumberType)]),
      (''mpls-second-traffic-class-step'', [(''step'', NumberType)]),
      (''mpls-second-ttl'', [(''ttl'', NumberType)]),
      (''mpls-second-ttl-mode'', [(''mode'', FieldTypeOf ''mpls_label2_ttl_mode'')]),
      (''mpls-second-ttl-count'', [(''count'', NumberType)]),
      (''mpls-second-ttl-step'', [(''step'', NumberType)]),
      (''mpls-third-label-selection'', [(''enabled'', FlagType)]),
      (''mpls-third-label'', [(''label'', NumberType)]),
      (''mpls-third-label-mode'', [(''mode'', FieldTypeOf ''mpls_label3_mode'')]),
      (''mpls-third-label-count'', [(''count'', NumberType)]),
      (''mpls-third-label-step'', [(''step'', NumberType)]),
      (''mpls-third-traffic-class'', [(''trafficClass'', NumberType)]),
      (''mpls-third-traffic-class-mode'', [(''mode'', FieldTypeOf ''mpls_label3_tc_mode'')]),
      (''mpls-third-traffic-class-count'', [(''count'', NumberType)]),
      (''mpls-third-traffic-class-step'', [(''step'', NumberType)]),
      (''mpls-third-ttl'', [(''ttl'', NumberType)]),
      (''mpls-third-ttl-mode'', [(''mode'', FieldTypeOf ''mpls_label3_ttl_mode'')]),
      (''mpls-third-ttl-count'', [(''count'', NumberType)]),
      (''mpls-third-ttl-step'', [(''step'', NumberType)]),
      (''tunnel-selection'', [(''tunnel'', OneOf [''none'', ''vxlan'', ''gtpu''])]),
      (''l3-selection'', [(''selection'', OneOf [''None'', ''ARP'', ''IPv4'', ''IPv6''])]),
      (''l4-selection'', [(''selection'', OneOf [''None'', ''TCP'', ''UDP'', ''ICMP'', ''GRE'', ''SCTP''])]),
      (''l4-src-port-override-selection'', [(''enabled'', FlagType)])]"

definition actionShapes6 :: "(string \<times> (string \<times> PropertyType) list) list" where
  "actionShapes6 =
     [(''l4-src-port'', [(''port'', NumberType)]),
      (''l4-src-port-mode'', [(''mode'', FieldTypeOf ''l4_src_port_mode'')]),
      (''l4-src-port-count'', [(''count'', NumberType)]),
      (''l4-src-port-step'', [(''step'', NumberType)]),
      (''l4-dst-port-override-selection'', [(''enabled'', FlagType)]),
      (''l4-dst-port'', [(''port'', NumberType)]),
      (''l4-dst-port-mode'', [(''mode'', FieldTypeOf ''l4_dst_port_mode'')]),
      (''l4-dst-port-count'', [(''count'', NumberType)]),
      (''l4-dst-port-step'', [(''step'', NumberType)]),
      (''udp-length-override-selection'', [(''enabled'', FlagType)]),
      (''udp-length'', [(''length'', NumberType)]),
      (''udp-length-mode'', [(''mode'', FieldTypeOf ''udp_length_mode'')]),
      (''udp-length-count'', [(''count'', NumberType)]),
      (''udp-length-step'', [(''step'', NumberType)]),
      (''udp-checksum-override'', [(''override'', FlagType)]),
      (''udp-checksum'', [(''checksum'', TextType)]),
      (''udp-checksum-mode'', [(''mode'', FieldTypeOf ''udp_checksum_mode'')]),
      (''udp-checksum-count'', [(''count'', NumberType)]),
      (''udp-checksum-step'', [(''step'', NumberType)]),
      (''payload-selection'', [(''enabled'', FlagType)]),
      (''payload-type'', [(''payloadType'', FieldTypeOf ''payload_type'')]),
      (''payload-pattern'', [(''pattern'', TextType)]),
      (''payload-pattern-import'', [(''pattern'', TextType)]),
      (''advanced-cache-size-type'', [(''cacheSizeType'', FieldTypeOf ''advanced_cache_size_type'')]),
      (''advanced-cache-value'', [(''cacheValue'', NumberType)]),
      (''dns-selection'', [(''enabled'', FlagType)]),
      (''dns-answer-selection'', [(''enabled'', FlagType)]),
      (''dns-number'', [(''field'', OneOf [''transaction-id'', ''query-type'', ''query-class'', ''answer-ttl'']), (''value'', NumberType)]),
      (''dns-text'', [(''field'', OneOf [''flags'', ''query-name'', ''answer-ipv4'']), (''value'', TextType)]),
      (''dns-count'', [(''count'', NumberType), (''field'', OneOf [''transaction-id'', ''flags'', ''query-type'', ''query-class'', ''answer-ttl'', ''answer-ipv4''])]),
      (''dns-step'', [(''field'', OneOf [''transaction-id'', ''flags'', ''query-type'', ''query-class'', ''answer-ttl'', ''answer-ipv4'']), (''step'', NumberType)]),
      (''dhcp-selection'', [(''enabled'', FlagType)]),
      (''dhcp-bootp-number'', [(''field'', OneOf [''operation'', ''hops'', ''seconds'', ''message-type'', ''xid'']), (''value'', NumberType)])]"

definition actionShapes7 :: "(string \<times> (string \<times> PropertyType) list) list" where
  "actionShapes7 =
     [(''dhcp-bootp-text'', [(''field'', OneOf [''flags'']), (''value'', TextType)]),
      (''dhcp-bootp-count'', [(''count'', NumberType), (''field'', OneOf [''operation'', ''hops'', ''seconds'', ''message-type'', ''xid'', ''flags''])]),
      (''dhcp-bootp-step'', [(''field'', OneOf [''operation'', ''hops'', ''seconds'', ''message-type'', ''xid'', ''flags'']), (''step'', NumberType)]),
      (''dhcp-bootp-address-text'', [(''field'', OneOf [''client-ip'', ''your-ip'', ''server-ip'', ''relay-ip'', ''client-mac'']), (''value'', TextType)]),
      (''dhcp-bootp-address-count'', [(''count'', NumberType), (''field'', OneOf [''client-ip'', ''your-ip'', ''server-ip'', ''relay-ip'', ''client-mac''])]),
      (''dhcp-bootp-address-step'', [(''field'', OneOf [''client-ip'', ''your-ip'', ''server-ip'', ''relay-ip'', ''client-mac'']), (''step'', NumberType)]),
      (''dhcp-option-text'', [(''field'', OneOf [''hostname'', ''parameter-request-list'']), (''value'', TextType)]),
      (''dhcp-option-timer-number'', [(''field'', OneOf [''lease-time'', ''renewal-time'', ''rebinding-time'']), (''value'', NumberType)]),
      (''dhcp-option-timer-count'', [(''count'', NumberType), (''field'', OneOf [''lease-time'', ''renewal-time'', ''rebinding-time''])]),
      (''dhcp-option-timer-step'', [(''field'', OneOf [''lease-time'', ''renewal-time'', ''rebinding-time'']), (''step'', NumberType)]),
      (''dhcp-option-address-text'', [(''field'', OneOf [''requested-ip'', ''server-id'']), (''value'', TextType)]),
      (''dhcp-option-address-count'', [(''count'', NumberType), (''field'', OneOf [''requested-ip'', ''server-id''])]),
      (''dhcp-option-address-step'', [(''field'', OneOf [''requested-ip'', ''server-id'']), (''step'', NumberType)]),
      (''frame-length-type'', [(''frameLengthType'', FieldTypeOf ''frame_length_type'')]),
      (''packet-type'', [(''packetType'', FieldTypeOf ''packet_type'')]),
      (''icmp-type'', [(''icmpType'', NumberType)]),
      (''icmp-type-mode'', [(''mode'', FieldTypeOf ''icmp_type_mode'')]),
      (''icmp-type-count'', [(''count'', NumberType)]),
      (''icmp-type-step'', [(''step'', NumberType)]),
      (''icmp-code'', [(''code'', NumberType)]),
      (''icmp-code-mode'', [(''mode'', FieldTypeOf ''icmp_code_mode'')]),
      (''icmp-code-count'', [(''count'', NumberType)]),
      (''icmp-code-step'', [(''step'', NumberType)]),
      (''icmp-identifier'', [(''identifier'', NumberType)]),
      (''icmp-identifier-mode'', [(''mode'', FieldTypeOf ''icmp_identifier_mode'')]),
      (''icmp-identifier-count'', [(''count'', NumberType)]),
      (''icmp-identifier-step'', [(''step'', NumberType)]),
      (''icmp-sequence'', [(''sequence'', NumberType)]),
      (''icmp-sequence-mode'', [(''mode'', FieldTypeOf ''icmp_sequence_mode'')]),
      (''icmp-sequence-count'', [(''count'', NumberType)])]"

definition actionShapes8 :: "(string \<times> (string \<times> PropertyType) list) list" where
  "actionShapes8 =
     [(''icmp-sequence-step'', [(''step'', NumberType)]),
      (''icmp-checksum-override'', [(''override'', FlagType)]),
      (''icmp-checksum'', [(''checksum'', TextType)]),
      (''icmpv6-rs-slla-selection'', [(''enabled'', FlagType)]),
      (''icmpv6-rs-slla-mac'', [(''mac'', TextType)]),
      (''icmpv6-ra-current-hop-limit'', [(''hopLimit'', NumberType)]),
      (''icmpv6-ra-router-lifetime'', [(''lifetime'', NumberType)]),
      (''icmpv6-ra-reachable-time'', [(''reachableTime'', NumberType)]),
      (''icmpv6-ra-retrans-timer'', [(''retransTimer'', NumberType)]),
      (''icmpv6-ra-managed-flag'', [(''enabled'', FlagType)]),
      (''icmpv6-ra-other-flag'', [(''enabled'', FlagType)]),
      (''icmpv6-ra-slla-selection'', [(''enabled'', FlagType)]),
      (''icmpv6-ra-slla-mac'', [(''mac'', TextType)]),
      (''icmpv6-ra-prefix-selection'', [(''enabled'', FlagType)]),
      (''icmpv6-ra-prefix'', [(''prefix'', TextType)]),
      (''icmpv6-ra-prefix-length'', [(''prefixLength'', NumberType)]),
      (''icmpv6-ra-prefix-on-link-flag'', [(''enabled'', FlagType)]),
      (''icmpv6-ra-prefix-autonomous-flag'', [(''enabled'', FlagType)]),
      (''icmpv6-ra-prefix-valid-lifetime'', [(''lifetime'', NumberType)]),
      (''icmpv6-ra-prefix-preferred-lifetime'', [(''lifetime'', NumberType)]),
      (''icmpv6-nd-target'', [(''target'', TextType)]),
      (''icmpv6-nd-option-selection'', [(''enabled'', FlagType)]),
      (''icmpv6-nd-option-mac'', [(''mac'', TextType)]),
      (''icmpv6-nd-na-router-flag'', [(''enabled'', FlagType)]),
      (''icmpv6-nd-na-solicited-flag'', [(''enabled'', FlagType)]),
      (''icmpv6-nd-na-override-flag'', [(''enabled'', FlagType)]),
      (''vxlan-selection'', [(''enabled'', FlagType)]),
      (''vxlan-vni'', [(''vni'', NumberType)]),
      (''vxlan-vni-mode'', [(''mode'', FieldTypeOf ''vxlan_vni_mode'')]),
      (''vxlan-vni-count'', [(''count'', NumberType)]),
      (''vxlan-vni-step'', [(''step'', NumberType)]),
      (''vxlan-inner-ip-version'', [(''version'', FieldTypeOf ''vxlan_inner_ip_version'')]),
      (''vxlan-inner-ipv6-hop-limit'', [(''hopLimit'', NumberType)]),
      (''vxlan-inner-ipv6-hop-limit-mode'', [(''mode'', FieldTypeOf ''vxlan_inner_ipv6_hop_limit_mode'')]),
      (''vxlan-inner-ipv6-hop-limit-count'', [(''count'', NumberType)])]"

definition actionShapes9 :: "(string \<times> (string \<times> PropertyType) list) list" where
  "actionShapes9 =
     [(''vxlan-inner-ipv6-hop-limit-step'', [(''step'', NumberType)]),
      (''vxlan-inner-ipv4-ttl'', [(''ttl'', NumberType)]),
      (''vxlan-inner-ipv4-ttl-mode'', [(''mode'', FieldTypeOf ''vxlan_inner_ipv4_ttl_mode'')]),
      (''vxlan-inner-ipv4-ttl-count'', [(''count'', NumberType)]),
      (''vxlan-inner-ipv4-ttl-step'', [(''step'', NumberType)]),
      (''vxlan-inner-ether-dst'', [(''address'', TextType)]),
      (''vxlan-inner-ether-src'', [(''address'', TextType)]),
      (''vxlan-inner-ipv6-src'', [(''address'', TextType)]),
      (''vxlan-inner-ipv6-src-mode'', [(''mode'', FieldTypeOf ''vxlan_inner_ipv6_src_mode'')]),
      (''vxlan-inner-ipv6-src-count'', [(''count'', NumberType)]),
      (''vxlan-inner-ipv6-src-step'', [(''step'', NumberType)]),
      (''vxlan-inner-ipv6-dst'', [(''address'', TextType)]),
      (''vxlan-inner-ipv6-dst-mode'', [(''mode'', FieldTypeOf ''vxlan_inner_ipv6_dst_mode'')]),
      (''vxlan-inner-ipv6-dst-count'', [(''count'', NumberType)]),
      (''vxlan-inner-ipv6-dst-step'', [(''step'', NumberType)]),
      (''vxlan-inner-ipv4-src'', [(''address'', TextType)]),
      (''vxlan-inner-ipv4-src-mode'', [(''mode'', FieldTypeOf ''vxlan_inner_ipv4_src_mode'')]),
      (''vxlan-inner-ipv4-src-count'', [(''count'', NumberType)]),
      (''vxlan-inner-ipv4-src-step'', [(''step'', NumberType)]),
      (''vxlan-inner-ipv4-dst'', [(''address'', TextType)]),
      (''vxlan-inner-ipv4-dst-mode'', [(''mode'', FieldTypeOf ''vxlan_inner_ipv4_dst_mode'')]),
      (''vxlan-inner-ipv4-dst-count'', [(''count'', NumberType)]),
      (''vxlan-inner-ipv4-dst-step'', [(''step'', NumberType)]),
      (''vxlan-inner-l4-src-port'', [(''port'', NumberType)]),
      (''vxlan-inner-l4-src-port-mode'', [(''mode'', FieldTypeOf ''vxlan_inner_l4_src_port_mode'')]),
      (''vxlan-inner-l4-src-port-count'', [(''count'', NumberType)]),
      (''vxlan-inner-l4-src-port-step'', [(''step'', NumberType)]),
      (''vxlan-inner-l4-dst-port'', [(''port'', NumberType)]),
      (''vxlan-inner-l4-dst-port-mode'', [(''mode'', FieldTypeOf ''vxlan_inner_l4_dst_port_mode'')]),
      (''vxlan-inner-l4-dst-port-count'', [(''count'', NumberType)]),
      (''vxlan-inner-l4-dst-port-step'', [(''step'', NumberType)]),
      (''gtpu-selection'', [(''enabled'', FlagType)]),
      (''gtpu-message-type'', [(''messageType'', NumberType)]),
      (''gtpu-teid'', [(''teid'', NumberType)]),
      (''gtpu-teid-mode'', [(''mode'', FieldTypeOf ''gtpu_teid_mode'')])]"

definition actionShapes10 :: "(string \<times> (string \<times> PropertyType) list) list" where
  "actionShapes10 =
     [(''gtpu-teid-count'', [(''count'', NumberType)]),
      (''gtpu-teid-step'', [(''step'', NumberType)]),
      (''gtpu-sequence-selection'', [(''enabled'', FlagType)]),
      (''gtpu-sequence'', [(''sequence'', NumberType)]),
      (''gtpu-sequence-mode'', [(''mode'', FieldTypeOf ''gtpu_sequence_mode'')]),
      (''gtpu-sequence-count'', [(''count'', NumberType)]),
      (''gtpu-sequence-step'', [(''step'', NumberType)]),
      (''gtpu-npdu-selection'', [(''enabled'', FlagType)]),
      (''gtpu-npdu'', [(''npdu'', NumberType)]),
      (''gtpu-npdu-mode'', [(''mode'', FieldTypeOf ''gtpu_npdu_mode'')]),
      (''gtpu-npdu-count'', [(''count'', NumberType)]),
      (''gtpu-npdu-step'', [(''step'', NumberType)]),
      (''gtpu-extension-selection'', [(''enabled'', FlagType)]),
      (''gtpu-extension-udp-port'', [(''port'', NumberType)]),
      (''gtpu-extension-udp-port-mode'', [(''mode'', FieldTypeOf ''gtpu_extension_udp_port_mode'')]),
      (''gtpu-extension-udp-port-count'', [(''count'', NumberType)]),
      (''gtpu-extension-udp-port-step'', [(''step'', NumberType)]),
      (''gtpu-inner-ip-version'', [(''version'', FieldTypeOf ''gtpu_inner_ip_version'')]),
      (''gtpu-inner-ipv4-ttl'', [(''ttl'', NumberType)]),
      (''gtpu-inner-ipv4-ttl-mode'', [(''mode'', FieldTypeOf ''gtpu_inner_ipv4_ttl_mode'')]),
      (''gtpu-inner-ipv4-ttl-count'', [(''count'', NumberType)]),
      (''gtpu-inner-ipv4-ttl-step'', [(''step'', NumberType)]),
      (''gtpu-inner-ipv6-hop-limit'', [(''hopLimit'', NumberType)]),
      (''gtpu-inner-ipv6-hop-limit-mode'', [(''mode'', FieldTypeOf ''gtpu_inner_ipv6_hop_limit_mode'')]),
      (''gtpu-inner-ipv6-hop-limit-count'', [(''count'', NumberType)]),
      (''gtpu-inner-ipv6-hop-limit-step'', [(''step'', NumberType)]),
      (''gtpu-inner-ipv4-src'', [(''address'', TextType)]),
      (''gtpu-inner-ipv4-src-mode'', [(''mode'', FieldTypeOf ''gtpu_inner_ipv4_src_mode'')]),
      (''gtpu-inner-ipv4-src-count'', [(''count'', NumberType)]),
      (''gtpu-inner-ipv4-src-step'', [(''step'', NumberType)]),
      (''gtpu-inner-ipv4-dst'', [(''address'', TextType)]),
      (''gtpu-inner-ipv4-dst-mode'', [(''mode'', FieldTypeOf ''gtpu_inner_ipv4_dst_mode'')]),
      (''gtpu-inner-ipv4-dst-count'', [(''count'', NumberType)]),
      (''gtpu-inner-ipv4-dst-step'', [(''step'', NumberType)]),
      (''gtpu-inner-ipv6-src'', [(''address'', TextType)])]"

definition actionShapes11 :: "(string \<times> (string \<times> PropertyType) list) list" where
  "actionShapes11 =
     [(''gtpu-inner-ipv6-src-mode'', [(''mode'', FieldTypeOf ''gtpu_inner_ipv6_src_mode'')]),
      (''gtpu-inner-ipv6-src-count'', [(''count'', NumberType)]),
      (''gtpu-inner-ipv6-src-step'', [(''step'', NumberType)]),
      (''gtpu-inner-ipv6-dst'', [(''address'', TextType)]),
      (''gtpu-inner-ipv6-dst-mode'', [(''mode'', FieldTypeOf ''gtpu_inner_ipv6_dst_mode'')]),
      (''gtpu-inner-ipv6-dst-count'', [(''count'', NumberType)]),
      (''gtpu-inner-ipv6-dst-step'', [(''step'', NumberType)]),
      (''gtpu-inner-l4-src-port'', [(''port'', NumberType)]),
      (''gtpu-inner-l4-src-port-mode'', [(''mode'', FieldTypeOf ''gtpu_inner_l4_src_port_mode'')]),
      (''gtpu-inner-l4-src-port-count'', [(''count'', NumberType)]),
      (''gtpu-inner-l4-src-port-step'', [(''step'', NumberType)]),
      (''gtpu-inner-l4-dst-port'', [(''port'', NumberType)]),
      (''gtpu-inner-l4-dst-port-mode'', [(''mode'', FieldTypeOf ''gtpu_inner_l4_dst_port_mode'')]),
      (''gtpu-inner-l4-dst-port-count'', [(''count'', NumberType)]),
      (''gtpu-inner-l4-dst-port-step'', [(''step'', NumberType)]),
      (''gre-checksum-selection'', [(''enabled'', FlagType)]),
      (''gre-checksum-override'', [(''enabled'', FlagType)]),
      (''gre-checksum'', [(''checksum'', TextType)]),
      (''gre-key-selection'', [(''enabled'', FlagType)]),
      (''gre-key'', [(''key'', NumberType)]),
      (''gre-key-mode'', [(''mode'', FieldTypeOf ''gre_key_mode'')]),
      (''gre-key-count'', [(''count'', NumberType)]),
      (''gre-key-step'', [(''step'', NumberType)]),
      (''gre-sequence-selection'', [(''enabled'', FlagType)]),
      (''gre-sequence'', [(''sequence'', NumberType)]),
      (''gre-sequence-mode'', [(''mode'', FieldTypeOf ''gre_sequence_mode'')]),
      (''gre-sequence-count'', [(''count'', NumberType)]),
      (''gre-sequence-step'', [(''step'', NumberType)]),
      (''gre-inner-ipv6-src'', [(''address'', TextType)]),
      (''gre-inner-ipv6-src-mode'', [(''mode'', FieldTypeOf ''gre_inner_ipv6_src_mode'')]),
      (''gre-inner-ipv6-src-count'', [(''count'', NumberType)]),
      (''gre-inner-ipv6-src-step'', [(''step'', NumberType)]),
      (''gre-inner-ipv6-dst'', [(''address'', TextType)]),
      (''gre-inner-ipv6-dst-mode'', [(''mode'', FieldTypeOf ''gre_inner_ipv6_dst_mode'')]),
      (''gre-inner-ipv6-dst-count'', [(''count'', NumberType)])]"

definition actionShapes12 :: "(string \<times> (string \<times> PropertyType) list) list" where
  "actionShapes12 =
     [(''gre-inner-ipv6-dst-step'', [(''step'', NumberType)]),
      (''gre-inner-ipv6-hop-limit'', [(''hopLimit'', NumberType)]),
      (''gre-inner-ipv6-hop-limit-mode'', [(''mode'', FieldTypeOf ''gre_inner_ipv6_hop_limit_mode'')]),
      (''gre-inner-ipv6-hop-limit-count'', [(''count'', NumberType)]),
      (''gre-inner-ipv6-hop-limit-step'', [(''step'', NumberType)]),
      (''gre-inner-ipv4-src'', [(''address'', TextType)]),
      (''gre-inner-ipv4-src-mode'', [(''mode'', FieldTypeOf ''gre_inner_ipv4_src_mode'')]),
      (''gre-inner-ipv4-src-count'', [(''count'', NumberType)]),
      (''gre-inner-ipv4-src-step'', [(''step'', NumberType)]),
      (''gre-inner-ipv4-dst'', [(''address'', TextType)]),
      (''gre-inner-ipv4-dst-mode'', [(''mode'', FieldTypeOf ''gre_inner_ipv4_dst_mode'')]),
      (''gre-inner-ipv4-dst-count'', [(''count'', NumberType)]),
      (''gre-inner-ipv4-dst-step'', [(''step'', NumberType)]),
      (''gre-inner-ipv4-ttl'', [(''ttl'', NumberType)]),
      (''gre-inner-ipv4-ttl-mode'', [(''mode'', FieldTypeOf ''gre_inner_ipv4_ttl_mode'')]),
      (''gre-inner-ipv4-ttl-count'', [(''count'', NumberType)]),
      (''gre-inner-ipv4-ttl-step'', [(''step'', NumberType)]),
      (''gre-inner-l4-src-port'', [(''port'', NumberType)]),
      (''gre-inner-l4-src-port-mode'', [(''mode'', FieldTypeOf ''gre_inner_l4_src_port_mode'')]),
      (''gre-inner-l4-src-port-count'', [(''count'', NumberType)]),
      (''gre-inner-l4-src-port-step'', [(''step'', NumberType)]),
      (''gre-inner-l4-dst-port'', [(''port'', NumberType)]),
      (''gre-inner-l4-dst-port-mode'', [(''mode'', FieldTypeOf ''gre_inner_l4_dst_port_mode'')]),
      (''gre-inner-l4-dst-port-count'', [(''count'', NumberType)]),
      (''gre-inner-l4-dst-port-step'', [(''step'', NumberType)]),
      (''gre-inner-ip-version'', [(''version'', FieldTypeOf ''gre_inner_ip_version'')]),
      (''sctp-number'', [(''field'', OneOf [''verification-tag'', ''data-flags'', ''tsn'', ''stream-id'', ''stream-sequence'', ''payload-protocol-id'']), (''value'', NumberType)]),
      (''sctp-count'', [(''count'', NumberType), (''field'', OneOf [''verification-tag'', ''data-flags'', ''tsn'', ''stream-id'', ''stream-sequence'', ''payload-protocol-id''])]),
      (''sctp-step'', [(''field'', OneOf [''verification-tag'', ''data-flags'', ''tsn'', ''stream-id'', ''stream-sequence'', ''payload-protocol-id'']), (''step'', NumberType)]),
      (''sctp-checksum-override'', [(''override'', FlagType)]),
      (''sctp-checksum'', [(''checksum'', TextType)]),
      (''tcp-core-number'', [(''field'', OneOf [''sequence'', ''acknowledge'', ''window'', ''urgent-pointer'']), (''value'', NumberType)]),
      (''tcp-core-count'', [(''count'', NumberType), (''field'', OneOf [''sequence'', ''acknowledge'', ''window'', ''urgent-pointer'', ''checksum'', ''flags''])])]"

definition actionShapes13 :: "(string \<times> (string \<times> PropertyType) list) list" where
  "actionShapes13 =
     [(''tcp-core-step'', [(''field'', OneOf [''sequence'', ''acknowledge'', ''window'', ''urgent-pointer'', ''checksum'', ''flags'']), (''step'', NumberType)]),
      (''tcp-checksum-override'', [(''override'', FlagType)]),
      (''tcp-checksum'', [(''checksum'', TextType)]),
      (''tcp-flag'', [(''checked'', FlagType), (''flag'', OneOf [''tcp_flag_ack'', ''tcp_flag_fin'', ''tcp_flag_psh'', ''tcp_flag_rst'', ''tcp_flag_syn'', ''tcp_flag_urg''])]),
      (''tcp-option-selection'', [(''enabled'', FlagType), (''option'', OneOf [''mss'', ''window-scale'', ''sack-permitted'', ''sack-block'', ''timestamp''])]),
      (''tcp-option-number'', [(''field'', OneOf [''mss'', ''window-scale'', ''sack-left-edge'', ''sack-right-edge'', ''timestamp-value'', ''timestamp-echo'']), (''value'', NumberType)]),
      (''tcp-option-count'', [(''count'', NumberType), (''field'', OneOf [''mss'', ''window-scale'', ''sack-left-edge'', ''sack-right-edge'', ''timestamp-value'', ''timestamp-echo''])]),
      (''tcp-option-step'', [(''field'', OneOf [''mss'', ''window-scale'', ''sack-left-edge'', ''sack-right-edge'', ''timestamp-value'', ''timestamp-echo'']), (''step'', NumberType)])]"

definition actionShapes :: "(string \<times> (string \<times> PropertyType) list) list" where
  "actionShapes = actionShapes1 @ actionShapes2 @ actionShapes3 @ actionShapes4 @ actionShapes5 @ actionShapes6 @ actionShapes7 @ actionShapes8 @ actionShapes9 @ actionShapes10 @ actionShapes11 @ actionShapes12 @ actionShapes13"

text \<open>The actions of the modes of a group: the type of the mode depends on the field.\<close>

definition dnsModeShapes :: "(string \<times> PropertyType) list" where
  "dnsModeShapes =
     [(''transaction-id'', FieldTypeOf ''dns_transaction_id_mode''),
      (''flags'', FieldTypeOf ''dns_flags_mode''),
      (''query-type'', FieldTypeOf ''dns_query_type_mode''),
      (''query-class'', FieldTypeOf ''dns_query_class_mode''),
      (''answer-ttl'', FieldTypeOf ''dns_answer_ttl_mode''),
      (''answer-ipv4'', FieldTypeOf ''dns_answer_ipv4_mode'')]"

definition dhcpBootpModeShapes :: "(string \<times> PropertyType) list" where
  "dhcpBootpModeShapes =
     [(''operation'', FieldTypeOf ''dhcp_operation_mode''),
      (''hops'', FieldTypeOf ''dhcp_hops_mode''),
      (''seconds'', FieldTypeOf ''dhcp_seconds_mode''),
      (''message-type'', FieldTypeOf ''dhcp_message_type_mode''),
      (''xid'', FieldTypeOf ''dhcp_xid_mode''),
      (''flags'', FieldTypeOf ''dhcp_flags_mode'')]"

definition dhcpBootpAddressModeShapes :: "(string \<times> PropertyType) list" where
  "dhcpBootpAddressModeShapes =
     [(''client-ip'', FieldTypeOf ''dhcp_client_ip_mode''),
      (''your-ip'', FieldTypeOf ''dhcp_your_ip_mode''),
      (''server-ip'', FieldTypeOf ''dhcp_server_ip_mode''),
      (''relay-ip'', FieldTypeOf ''dhcp_relay_ip_mode''),
      (''client-mac'', FieldTypeOf ''dhcp_client_mac_mode'')]"

definition dhcpOptionTimerModeShapes :: "(string \<times> PropertyType) list" where
  "dhcpOptionTimerModeShapes =
     [(''lease-time'', FieldTypeOf ''dhcp_lease_time_mode''),
      (''renewal-time'', FieldTypeOf ''dhcp_renewal_time_mode''),
      (''rebinding-time'', FieldTypeOf ''dhcp_rebinding_time_mode'')]"

definition dhcpOptionAddressModeShapes :: "(string \<times> PropertyType) list" where
  "dhcpOptionAddressModeShapes =
     [(''requested-ip'', FieldTypeOf ''dhcp_requested_ip_mode''),
      (''server-id'', FieldTypeOf ''dhcp_server_id_mode'')]"

definition sctpModeShapes :: "(string \<times> PropertyType) list" where
  "sctpModeShapes =
     [(''verification-tag'', FieldTypeOf ''sctp_verification_tag_mode''),
      (''data-flags'', FieldTypeOf ''sctp_data_flags_mode''),
      (''tsn'', FieldTypeOf ''sctp_tsn_mode''),
      (''stream-id'', FieldTypeOf ''sctp_stream_id_mode''),
      (''stream-sequence'', FieldTypeOf ''sctp_stream_sequence_mode''),
      (''payload-protocol-id'', FieldTypeOf ''sctp_payload_protocol_id_mode'')]"

definition tcpCoreModeShapes :: "(string \<times> PropertyType) list" where
  "tcpCoreModeShapes =
     [(''sequence'', FieldTypeOf ''tcp_sequence_mode''),
      (''acknowledge'', FieldTypeOf ''tcp_ack_mode''),
      (''window'', FieldTypeOf ''tcp_window_mode''),
      (''checksum'', FieldTypeOf ''tcp_checksum_mode''),
      (''urgent-pointer'', FieldTypeOf ''tcp_urgent_pointer_mode''),
      (''flags'', FieldTypeOf ''tcp_flags_mode'')]"

definition tcpOptionModeShapes :: "(string \<times> PropertyType) list" where
  "tcpOptionModeShapes =
     [(''mss'', FieldTypeOf ''tcp_option_mss_mode''),
      (''window-scale'', FieldTypeOf ''tcp_option_window_scale_mode''),
      (''sack-left-edge'', FieldTypeOf ''tcp_option_sack_left_edge_mode''),
      (''sack-right-edge'', FieldTypeOf ''tcp_option_sack_right_edge_mode''),
      (''timestamp-value'', FieldTypeOf ''tcp_option_timestamp_value_mode''),
      (''timestamp-echo'', FieldTypeOf ''tcp_option_timestamp_echo_mode'')]"

definition modeShapes :: "(string \<times> (string \<times> PropertyType) list) list" where
  "modeShapes =
     [(''dns-mode'', dnsModeShapes),
      (''dhcp-bootp-mode'', dhcpBootpModeShapes),
      (''dhcp-bootp-address-mode'', dhcpBootpAddressModeShapes),
      (''dhcp-option-timer-mode'', dhcpOptionTimerModeShapes),
      (''dhcp-option-address-mode'', dhcpOptionAddressModeShapes),
      (''sctp-mode'', sctpModeShapes),
      (''tcp-core-mode'', tcpCoreModeShapes),
      (''tcp-option-mode'', tcpOptionModeShapes)]"

section \<open>Typed values\<close>

fun hasType :: "FieldValue \<Rightarrow> PropertyType \<Rightarrow> bool" where
  "hasType v NumberType = (case v of FvNumber n \<Rightarrow> True | FvNaN \<Rightarrow> True | _ \<Rightarrow> False)"
| "hasType v TextType = (case v of FvText t \<Rightarrow> True | _ \<Rightarrow> False)"
| "hasType v FlagType = (case v of FvFlag b \<Rightarrow> True | _ \<Rightarrow> False)"
| "hasType v NumberOrText = (case v of FvNumber n \<Rightarrow> True | FvNaN \<Rightarrow> True | FvText t \<Rightarrow> True | _ \<Rightarrow> False)"
| "hasType v ObjectType = (v = FvObject)"
| "hasType v (OneOf ts) = (case v of FvText t \<Rightarrow> t \<in> set ts | _ \<Rightarrow> False)"
| "hasType v (Nullable t) = (v = FvNull \<or> hasType v t)"
| "hasType v (Optional t) = (v = FvUndefined \<or> hasType v t)"
| "hasType v (FieldTypeOf f) = False"

text \<open>\<open>ProfileWorkbenchStream["f"]\<close> stands for the type of the field.\<close>

definition hasShapeType :: "FieldValue \<Rightarrow> PropertyType \<Rightarrow> bool" where
  "hasShapeType v t =
     (case t of FieldTypeOf f \<Rightarrow> (case map_of streamFieldTypes f of None \<Rightarrow> False | Some u \<Rightarrow> hasType v u)
      | _ \<Rightarrow> hasType v t)"

definition typedStream :: "EditorStream \<Rightarrow> bool" where
  "typedStream s \<longleftrightarrow> (\<forall>f t. map_of streamFieldTypes f = Some t \<longrightarrow> hasType (s f) t)"

definition typedPatch :: "StreamPatch \<Rightarrow> bool" where
  "typedPatch p \<longleftrightarrow> list_all (\<lambda>(f, v). case map_of streamFieldTypes f of None \<Rightarrow> False | Some t \<Rightarrow> hasType v t) p"

definition typedAction :: "PatchAction \<Rightarrow> bool" where
  "typedAction a \<longleftrightarrow>
     (case map_of modeShapes (act_kind a) of
        Some modes \<Rightarrow>
          (case argOf a ''field'' of
             FvText f \<Rightarrow> (case map_of modes f of None \<Rightarrow> False | Some t \<Rightarrow> hasShapeType (argOf a ''mode'') t)
           | _ \<Rightarrow> False)
      | None \<Rightarrow>
          (case map_of actionShapes (act_kind a) of
             Some props \<Rightarrow> list_all (\<lambda>(p, t). hasShapeType (argOf a p) t) props
           | None \<Rightarrow> False))"

end
