(* ===== verification/StreamTyped.thy ===== *)
theory StreamTyped
  imports StreamTypes
begin

text \<open>
  Patches keep a stream well typed: every case of the switch gives the fields it sets values of their types.
\<close>

section \<open>Tables with texts as keys\<close>

text \<open>
  Tables with texts as keys. That the keys of a long table differ is seen from numbers computed from them, split by
  their digits in base two.
\<close>

primrec apart :: "nat \<Rightarrow> int list \<Rightarrow> bool" where
  "apart 0 ns \<longleftrightarrow> tl ns = []"
| "apart (Suc d) ns \<longleftrightarrow>
     (if tl ns = [] then True
      else apart d (map (\<lambda>n. n div 2) (filter even ns)) \<and> apart d (map (\<lambda>n. n div 2) (filter odd ns)))"

lemma distinct_halves:
  assumes "distinct (filter even l)" "distinct (filter odd l)"
  shows "distinct (l :: int list)"
  using assms by (induction l) (auto split: if_splits)

lemma apart_distinct: "apart d ns \<Longrightarrow> distinct ns"
proof (induction d arbitrary: ns)
  case 0
  then show ?case by (cases ns) auto
next
  case (Suc d)
  show ?case
  proof (cases "tl ns = []")
    case True
    then show ?thesis by (cases ns) auto
  next
    case False
    then have "distinct (map (\<lambda>n. n div 2) (filter even ns))" "distinct (map (\<lambda>n. n div 2) (filter odd ns))"
      using Suc by simp_all
    then show ?thesis using distinct_halves by (metis distinct_map)
  qed
qed

definition keyNumber :: "string \<Rightarrow> int" where
  "keyNumber k = foldl (\<lambda>h c. 3 * h + of_char c) 0 k"

definition keysApart :: "(string \<times> 'a) list \<Rightarrow> bool" where
  "keysApart table = apart 20 (map (\<lambda>(k, v). keyNumber k) table)"

lemma keysApart_distinct: "keysApart table \<Longrightarrow> distinct (map fst table)"
proof -
  assume "keysApart table"
  then have "distinct (map keyNumber (map fst table))"
    using apart_distinct by (auto simp: keysApart_def comp_def case_prod_unfold)
  then show ?thesis by (simp only: distinct_map)
qed

text \<open>The entries of a part of the table, as equations for \<open>simp\<close>.\<close>

lemma table_part:
  assumes "keysApart table" "set part \<subseteq> set table"
  shows "list_all (\<lambda>e. map_of table (fst e) = Some (snd e)) part"
  using assms by (auto simp: list_all_iff intro!: map_of_is_SomeI keysApart_distinct)

section \<open>Lookups\<close>

lemma field_keys: "keysApart streamFieldTypes" by code_simp

lemma shape_keys: "keysApart actionShapes" by code_simp

lemma field_parts:
  "set streamFields1 \<subseteq> set streamFieldTypes" "set streamFields2 \<subseteq> set streamFieldTypes"
  "set streamFields3 \<subseteq> set streamFieldTypes" "set streamFields4 \<subseteq> set streamFieldTypes"
  "set streamFields5 \<subseteq> set streamFieldTypes"
  by (auto simp: streamFieldTypes_def)

lemmas field_types = field_parts [THEN table_part [OF field_keys], unfolded streamFields1_def streamFields2_def
  streamFields3_def streamFields4_def streamFields5_def list.pred_inject fst_conv snd_conv simp_thms]

lemma shape_parts:
  "set actionShapes1 \<subseteq> set actionShapes" "set actionShapes2 \<subseteq> set actionShapes" "set actionShapes3 \<subseteq> set actionShapes"
  "set actionShapes4 \<subseteq> set actionShapes" "set actionShapes5 \<subseteq> set actionShapes" "set actionShapes6 \<subseteq> set actionShapes"
  "set actionShapes7 \<subseteq> set actionShapes" "set actionShapes8 \<subseteq> set actionShapes" "set actionShapes9 \<subseteq> set actionShapes"
  "set actionShapes10 \<subseteq> set actionShapes" "set actionShapes11 \<subseteq> set actionShapes"
  "set actionShapes12 \<subseteq> set actionShapes" "set actionShapes13 \<subseteq> set actionShapes"
  by (auto simp: actionShapes_def)

lemmas shape_types = shape_parts [THEN table_part [OF shape_keys], unfolded actionShapes1_def actionShapes2_def
  actionShapes3_def actionShapes4_def actionShapes5_def actionShapes6_def actionShapes7_def actionShapes8_def
  actionShapes9_def actionShapes10_def actionShapes11_def actionShapes12_def actionShapes13_def
  list.pred_inject fst_conv snd_conv simp_thms]

text \<open>They stay in the simplifier: adding them to single calls would cost more than using them.\<close>

declare field_types [simp] shape_types [simp]

section \<open>One field\<close>

text \<open>A value of the first type is one of the second.\<close>

definition subType :: "PropertyType \<Rightarrow> PropertyType \<Rightarrow> bool" where
  "subType t u \<longleftrightarrow>
     t = u \<or> (case u of Nullable w \<Rightarrow> t = w | Optional w \<Rightarrow> t = w | NumberOrText \<Rightarrow> t = NumberType \<or> t = TextType
       | TextType \<Rightarrow> (case t of OneOf ts \<Rightarrow> True | _ \<Rightarrow> False) | _ \<Rightarrow> False)"

lemma subType_sound: "subType t u \<Longrightarrow> hasType v t \<Longrightarrow> hasType v u"
  by (cases u; cases v) (auto simp: subType_def split: PropertyType.splits)

definition fitsField :: "PropertyType \<Rightarrow> string \<Rightarrow> bool" where
  "fitsField t f \<longleftrightarrow>
     (case map_of streamFieldTypes f of None \<Rightarrow> False
      | Some u \<Rightarrow> if t = FieldTypeOf f then True else (case t of FieldTypeOf g \<Rightarrow> False | _ \<Rightarrow> subType t u))"

lemma fitsField_typed: "fitsField t f \<Longrightarrow> hasShapeType v t \<Longrightarrow> typedPatch [(f, v)]"
  using subType_sound
  by (auto simp: fitsField_def hasShapeType_def typedPatch_def split: option.splits PropertyType.splits if_splits)

definition setsTyped :: "string \<Rightarrow> PatchCase \<Rightarrow> bool" where
  "setsTyped kind c \<longleftrightarrow>
     map_of modeShapes kind = None
     \<and> (case c of Calls g \<Rightarrow> True
      | Sets f arg \<Rightarrow>
          (case map_of actionShapes kind of None \<Rightarrow> False
           | Some props \<Rightarrow> (case map_of props arg of None \<Rightarrow> False | Some t \<Rightarrow> fitsField t f)))"

section \<open>Values of a patch\<close>

lemma typedPatch_Nil [simp]: "typedPatch []"
  by (simp add: typedPatch_def)

lemma typedPatch_Cons [simp]:
  "typedPatch ((f, v) # p) \<longleftrightarrow>
     (case map_of streamFieldTypes f of None \<Rightarrow> False | Some t \<Rightarrow> hasType v t) \<and> typedPatch p"
  by (simp add: typedPatch_def)

lemma typedPatch_append [simp]: "typedPatch (p @ q) \<longleftrightarrow> typedPatch p \<and> typedPatch q"
  by (simp add: typedPatch_def)

lemma typedPatch_if [simp]: "typedPatch (if c then p else q) \<longleftrightarrow> (if c then typedPatch p else typedPatch q)"
  by simp

lemma literal_typed [simp]:
  "hasType (FvNumber n) NumberType" "hasType FvNaN NumberType" "hasType (FvFlag b) FlagType" "hasType (FvText x) TextType"
  "hasType (FvText x) (OneOf ts) \<longleftrightarrow> x \<in> set ts" "hasType FvNull (Nullable t)" "hasType v t \<Longrightarrow> hasType v (Nullable t)"
  "hasType v t \<Longrightarrow> hasType v NumberType \<Longrightarrow> hasType v NumberOrText"
  by (cases v; simp)+

lemma fixedMode_typed [simp]:
  "hasType fixedMode ModeType" "hasType fixedMode HostModeType" "hasType fixedMode (OneOf (''Fixed'' # ts))"
  by (simp_all add: fixedMode_def ModeType_def HostModeType_def)

lemma maxValue_typed [simp]: "hasType (maxValue v w) NumberType"
  by (cases "(v, w)" rule: maxValue.cases) simp_all

lemma plus_typed [simp]: "hasType (case v of FvNumber n \<Rightarrow> FvNumber (n + k) | _ \<Rightarrow> FvNaN) NumberType"
  by (cases v) simp_all

lemma whenOn_typed [simp]: "hasType v t \<Longrightarrow> hasType w t \<Longrightarrow> hasType (whenOn enabled v w) t"
  by (simp add: whenOn_def)

lemma nullish_typed [simp]: "hasType v t \<Longrightarrow> hasType w t \<Longrightarrow> hasType (nullish v w) t"
  by (cases v) simp_all

lemma orValue_typed [simp]: "hasType v t \<Longrightarrow> hasType w t \<Longrightarrow> hasType (orValue v w) t"
  by (simp add: orValue_def)

lemma streamField_Some [simp]: "streamField (Some s) f = s f"
  by (simp add: streamField_def)

lemma typedStream_field: "typedStream s \<Longrightarrow> map_of streamFieldTypes f = Some t \<Longrightarrow> hasType (s f) t"
  by (simp add: typedStream_def)

lemma applyFields_typed: "typedStream s \<Longrightarrow> typedPatch p \<Longrightarrow> typedStream (applyFields s p)"
  by (induction p arbitrary: s) (auto simp: applyFields_def typedStream_def split: option.splits)

declare hasType.simps [simp del]

lemmas typed_simps = typedStream_field keptField_def forcedField_def

section \<open>The functions\<close>

lemma resets_typed [simp]:
  "typedPatch l4PortResets" "typedPatch udpResets" "typedPatch icmpResets" "typedPatch tunnelsOff" "typedPatch sctpResets"
  "typedPatch gtpuResets" "typedPatch vxlanResets" "typedPatch tunnelDisabledPatch" "typedPatch afterStreamStopPatch"
  "typedPatch (tunnelPorts source destination)" "typedPatch (payloadPatternImportPatch pattern)"
  by (simp_all add: l4PortResets_def udpResets_def icmpResets_def tunnelsOff_def sctpResets_def gtpuResets_def
      vxlanResets_def tunnelDisabledPatch_def afterStreamStopPatch_def tunnelPorts_def payloadPatternImportPatch_def)

lemma sending_typed:
  assumes "typedStream s"
  shows "hasType mode (OneOf [''continuous'', ''burst'', ''multi_burst'']) \<Longrightarrow> typedPatch (streamModePatch mode (Some s))"
    "typedPatch (afterStreamGotoPatch s)" "typedPatch (loopActionCountEnabledPatch enabled s)"
    "hasType v NumberType \<Longrightarrow> typedPatch (nextStreamSelectionPatch v)"
    "hasType v NumberType \<Longrightarrow> typedPatch (frameLengthValuePatch v)"
    "hasType v NumberType \<Longrightarrow> typedPatch (frameLengthMinPatch v)"
    "hasType v NumberType \<Longrightarrow> typedPatch (frameLengthMaxPatch v)"
  using assms
  by (simp_all add: streamModePatch_def afterStreamGotoPatch_def loopActionCountEnabledPatch_def nextStreamSelectionPatch_def
      frameLengthValuePatch_def frameLengthMinPatch_def frameLengthMaxPatch_def typed_simps)

lemma frame_length_type_typed:
  assumes "typedStream s" "hasType v ModeType" "frameLengthTypePatch v (Some s) = Some p"
  shows "typedPatch p"
  using assms by (auto simp: frameLengthTypePatch_def typed_simps Let_def split: if_splits)

lemma override_typed:
  assumes "typedStream s" "hasType enabled FlagType"
  shows "typedPatch (l4PortOverrideSelectionPatch side enabled s)" "typedPatch (udpLengthOverrideSelectionPatch enabled s)"
    "typedPatch (vlanSelectionPatch enabled)" "typedPatch (mplsSelectionPatch enabled)"
    "typedPatch (mplsSecondLabelSelectionPatch enabled s)" "typedPatch (mplsThirdLabelSelectionPatch enabled s)"
    "typedPatch (vlanInnerTagSelectionPatch enabled s)" "typedPatch (payloadSelectionPatch enabled)"
  using assms
  by (simp_all add: l4PortOverrideSelectionPatch_def udpLengthOverrideSelectionPatch_def vlanSelectionPatch_def
      mplsSelectionPatch_def mplsSecondLabelSelectionPatch_def mplsThirdLabelSelectionPatch_def vlanInnerTagSelectionPatch_def
      payloadSelectionPatch_def typed_simps)

definition packetTypes :: "string list" where
  "packetTypes =
     [''Ethernet'', ''Ethernet/ARP'', ''Ethernet/IPv4'', ''Ethernet/IPv6'', ''Ethernet/IPv4/UDP'', ''Ethernet/IPv4/TCP'',
      ''Ethernet/IPv4/ICMP'', ''Ethernet/IPv4/GRE'', ''Ethernet/IPv4/SCTP'', ''Ethernet/IPv6/UDP'', ''Ethernet/IPv6/TCP'',
      ''Ethernet/IPv6/ICMPv6'', ''Ethernet/IPv6/GRE'', ''Ethernet/IPv6/SCTP'']"

lemma packet_type_field: "map_of streamFieldTypes ''packet_type'' = Some (OneOf packetTypes)"
  by (simp add: packetTypes_def)

lemma packet_type_typed:
  assumes "typedStream s" "type' \<in> set packetTypes" "packetTypePatch type' (Some s) = Some p"
  shows "typedPatch p"
proof -
  have fields: "typedPatch (packetTypeFields t (Some s))" for t
    unfolding packetTypeFields_def Let_def using assms(1) by (simp add: typed_simps)
  have own: "typedPatch ((''packet_type'', FvText type') # q) \<longleftrightarrow> typedPatch q"
    "typedPatch ((''packet_type'', FvText ''Ethernet/IPv4/UDP'') # q) \<longleftrightarrow> typedPatch q" for q
    using assms(2) by (simp_all add: packetTypes_def)
  show ?thesis
    using assms(3) by (auto simp: packetTypePatch_def Let_def fields own simp del: typedPatch_Cons split: if_splits)
qed

lemma selected_types:
  assumes "t \<in> set packetTypes"
  shows "l3 \<in> {''None'', ''ARP'', ''IPv4'', ''IPv6''} \<Longrightarrow> packetTypeFor l3 (protocolName t) \<in> set packetTypes"
    "l4 \<in> {''None'', ''TCP'', ''UDP'', ''ICMP'', ''GRE'', ''SCTP''} \<Longrightarrow> packetTypeFor (ipVersionName t) l4 \<in> set packetTypes"
proof -
  have p: "list_all (\<lambda>t. protocolName t \<in> {''None'', ''TCP'', ''UDP'', ''ICMP'', ''GRE'', ''SCTP''}) packetTypes"
    "list_all (\<lambda>t. ipVersionName t \<in> {''None'', ''ARP'', ''IPv4'', ''IPv6''}) packetTypes" by code_simp+
  have all: "list_all (\<lambda>l3. list_all (\<lambda>l4. packetTypeFor l3 l4 \<in> set packetTypes) [''None'', ''TCP'', ''UDP'', ''ICMP'', ''GRE'', ''SCTP''])
      [''None'', ''ARP'', ''IPv4'', ''IPv6'']" by code_simp
  then have all': "packetTypeFor l3 l4 \<in> set packetTypes"
    if "l3 \<in> {''None'', ''ARP'', ''IPv4'', ''IPv6''}" "l4 \<in> {''None'', ''TCP'', ''UDP'', ''ICMP'', ''GRE'', ''SCTP''}" for l3 l4
    using that by (simp only: list_all_iff list.set)
  show "l3 \<in> {''None'', ''ARP'', ''IPv4'', ''IPv6''} \<Longrightarrow> packetTypeFor l3 (protocolName t) \<in> set packetTypes"
    using all' p(1) assms unfolding list_all_iff by blast
  show "l4 \<in> {''None'', ''TCP'', ''UDP'', ''ICMP'', ''GRE'', ''SCTP''} \<Longrightarrow> packetTypeFor (ipVersionName t) l4 \<in> set packetTypes"
    using all' p(2) assms unfolding list_all_iff by blast
qed

lemma icmp_typed:
  assumes "typedStream s"
  shows "hasType v NumberType \<Longrightarrow> typedPatch (icmpTypePatch v (Some s))"
    "hasType enabled FlagType \<Longrightarrow> typedPatch (icmpv6RsSllaSelectionPatch enabled s)"
    "hasType enabled FlagType \<Longrightarrow> typedPatch (icmpv6RaSllaSelectionPatch enabled s)"
    "hasType enabled FlagType \<Longrightarrow> typedPatch (icmpv6RaPrefixSelectionPatch enabled s)"
  using assms
  by (simp_all add: icmpTypePatch_def icmpv6RsSllaSelectionPatch_def icmpv6RaSllaSelectionPatch_def
      icmpv6RaPrefixSelectionPatch_def icmpv6OptionPatch_def typed_simps Let_def)

lemma assign_typed: "typedPatch p \<Longrightarrow> typedPatch q \<Longrightarrow> typedPatch (assignFields p q)"
proof (induction q arbitrary: p)
  case (Cons e q)
  have "typedPatch (putField p e)" if "typedPatch p" "typedPatch [e]" for p e
    using that by (induction p e rule: putField.induct) (auto split: option.splits)
  moreover have "typedPatch [e]" using Cons.prems(2) by (cases e) simp
  ultimately show ?case using Cons by (cases e) (simp add: assignFields_def)
qed (simp add: assignFields_def)

lemma minimum_typed: "typedPatch p \<Longrightarrow> typedPatch (withMinimumLength enabled s n p)"
  unfolding withMinimumLength_def
  by (simp add: assign_typed minimumFrameLengthPatch_def typed_simps)

lemma application_typed:
  assumes "typedStream s" "hasType enabled FlagType"
  shows "typedPatch (dnsSelectionPatch enabled s)" "typedPatch (dnsAnswerSelectionPatch enabled s)"
    "typedPatch (dhcpSelectionPatch enabled s)"
  using assms unfolding dnsSelectionPatch_def dnsAnswerSelectionPatch_def dhcpSelectionPatch_def Let_def
  by (intro minimum_typed; simp add: dhcpModeFields_def frameLengthFields_def unchangedFields_def typed_simps)+

end
