(* ===== verification/StreamCases.thy ===== *)
theory StreamCases
  imports StreamTyped
begin

text \<open>
  The cases of the switch, one after the other: what each gives for a typed action and a typed stream is a typed patch.
\<close>

section \<open>Tunnels and checksums\<close>

lemma fixedFrame_typed [simp]: "typedStream s \<Longrightarrow> typedPatch (fixedFrame (Some s) n)"
  by (simp add: fixedFrame_def atLeast_def Let_def typed_simps)

lemma tunnel_typed:
  assumes "typedStream s"
  shows "typedPatch (vxlanSelectionPatch enabled (Some s))" "typedPatch (gtpuSelectionPatch enabled (Some s))"
  using assms
  by (simp_all add: vxlanSelectionPatch_def gtpuSelectionPatch_def fixedModes_def dhcpModeFields_def typed_simps)

lemma inner_version_typed:
  assumes "typedStream s" "hasType v (OneOf [''IPv4'', ''IPv6''])"
  shows "typedPatch (vxlanInnerIpVersionPatch v (Some s))" "typedPatch (gtpuInnerIpVersionPatch v (Some s))"
    "typedPatch (greInnerIpVersionPatch v (Some s))"
  using assms
  by (simp_all add: vxlanInnerIpVersionPatch_def gtpuInnerIpVersionPatch_def greInnerIpVersionPatch_def fixedModes_def
      atLeast_def Let_def typed_simps)

lemma option_typed:
  assumes "typedStream s" "hasType enabled FlagType"
  shows "typedPatch (gtpuSequenceSelectionPatch enabled s)" "typedPatch (gtpuNpduSelectionPatch enabled s)"
    "typedPatch (gtpuExtensionSelectionPatch enabled s)" "typedPatch (greChecksumSelectionPatch enabled s)"
    "typedPatch (greKeySelectionPatch enabled s)" "typedPatch (greSequenceSelectionPatch enabled s)"
    "typedPatch (tcpOptionSelectionPatch opt enabled)"
  using assms
  by (simp_all add: gtpuSequenceSelectionPatch_def gtpuNpduSelectionPatch_def gtpuExtensionSelectionPatch_def
      gtpuOptionPatch_def greChecksumSelectionPatch_def greKeySelectionPatch_def greSequenceSelectionPatch_def greFrame_def
      tcpOptionSelectionPatch_def typed_simps)

text \<open>A field with the value of its own type.\<close>

definition fieldTyped :: "string \<Rightarrow> FieldValue \<Rightarrow> bool" where
  "fieldTyped f v \<longleftrightarrow> typedPatch [(f, v)]"

lemma coupled_typed:
  assumes "typedStream s" "fieldTyped f v"
  shows "typedPatch (sctpChecksumCoupledModePatch f v s)" "typedPatch (icmpChecksumCoupledModePatch f v s)"
    "typedPatch (greChecksumInvalidatingModePatch f v None)"
    "g \<in> {''gre_key_present'', ''gre_sequence_present''} \<Longrightarrow> typedPatch (greChecksumInvalidatingModePatch f v (Some g))"
  using assms
  by (auto simp: sctpChecksumCoupledModePatch_def icmpChecksumCoupledModePatch_def greChecksumInvalidatingModePatch_def
      fieldTyped_def typed_simps)

section \<open>Chosen fields\<close>

lemma chosen_typed:
  assumes "chosenField names name v = Some p" "list_all (\<lambda>(n, f). fieldTyped f v) names"
  shows "typedPatch p"
proof -
  obtain f where "map_of names (fvText name) = Some f" "p = [(f, v)]" using assms(1) by (auto simp: chosenField_def)
  then show ?thesis using assms(2) by (auto simp: list_all_iff fieldTyped_def dest!: map_of_SomeD)
qed

lemma chosen_number:
  assumes "chosenField names name v = Some p" "hasType v NumberType"
    "list_all (\<lambda>(n, f). map_of streamFieldTypes f = Some NumberType) names"
  shows "typedPatch p"
  using assms(2,3) by (intro chosen_typed [OF assms(1)]) (auto simp: list_all_iff fieldTyped_def split: option.splits)

lemma chosen_text:
  assumes "chosenField names name v = Some p" "hasType v TextType"
    "list_all (\<lambda>(n, f). map_of streamFieldTypes f = Some TextType) names"
  shows "typedPatch p"
  using assms(2,3) by (intro chosen_typed [OF assms(1)]) (auto simp: list_all_iff fieldTyped_def split: option.splits)

text \<open>The mode of a group has the type of the field that the name chooses.\<close>

lemma shape_field: "hasShapeType v (FieldTypeOf f) \<longleftrightarrow> fieldTyped f v"
  by (simp add: hasShapeType_def fieldTyped_def)

lemma mode_chosen:
  assumes "map_of modes n = Some t" "hasShapeType v t" "modes = map (\<lambda>(n, f). (n, FieldTypeOf f)) names"
  shows "\<exists>f. map_of names n = Some f \<and> fieldTyped f v"
  using assms by (auto simp: shape_field map_of_map)

lemma chosen_mode:
  assumes "chosenField names (FvText n) v = Some p" "map_of modes n = Some t" "hasShapeType v t"
    "modes = map (\<lambda>(n, f). (n, FieldTypeOf f)) names"
  shows "typedPatch p"
  using mode_chosen [OF assms(2-4)] assms(1) by (auto simp: chosenField_def fieldTyped_def)

section \<open>Cases\<close>

definition caseTyped :: "string \<Rightarrow> PatchCase \<Rightarrow> bool" where
  "caseTyped k c \<longleftrightarrow>
     (\<forall>a s p. typedStream s \<longrightarrow> typedAction a \<longrightarrow> act_kind a = k \<longrightarrow> runPatchCase c a (Some s) = Some p \<longrightarrow> typedPatch p)"

lemma sets_case:
  assumes "setsTyped k (Sets f arg)"
  shows "caseTyped k (Sets f arg)"
proof -
  obtain props t where t: "map_of modeShapes k = None" "map_of actionShapes k = Some props" "map_of props arg = Some t"
      "fitsField t f"
    using assms by (auto simp: setsTyped_def split: option.splits)
  have "typedPatch [(f, argOf a arg)]" if "typedAction a" "act_kind a = k" for a
  proof -
    have "hasShapeType (argOf a arg) t"
      using that t(1,2) map_of_SomeD [OF t(3)] by (auto simp: typedAction_def list_all_iff)
    then show ?thesis by (rule fitsField_typed [OF t(4)])
  qed
  then show ?thesis by (auto simp: caseTyped_def simp del: typedPatch_Cons)
qed

lemma calls_case:
  assumes "map_of modeShapes k = None" "map_of actionShapes k = Some props"
    "\<And>a s p. typedStream s \<Longrightarrow> list_all (\<lambda>(p, t). hasShapeType (argOf a p) t) props \<Longrightarrow> g a (Some s) = Some p \<Longrightarrow> typedPatch p"
  shows "caseTyped k (Calls g)"
  using assms by (auto simp: caseTyped_def typedAction_def)

lemma mode_case:
  assumes "map_of modeShapes k = Some (map (\<lambda>(n, f). (n, FieldTypeOf f)) names)"
    "\<And>a s n f p. typedStream s \<Longrightarrow> argOf a ''field'' = FvText n \<Longrightarrow> map_of names n = Some f
       \<Longrightarrow> fieldTyped f (argOf a ''mode'') \<Longrightarrow> g a (Some s) = Some p \<Longrightarrow> typedPatch p"
  shows "caseTyped k (Calls g)"
  unfolding caseTyped_def
proof (intro allI impI)
  fix a s p
  assume a: "typedStream s" "typedAction a" "act_kind a = k" "runPatchCase (Calls g) a (Some s) = Some p"
  then obtain n t where n: "argOf a ''field'' = FvText n" "hasShapeType (argOf a ''mode'') t"
      "map_of (map (\<lambda>(n, f). (n, FieldTypeOf f)) names) n = Some t"
    using assms(1) by (auto simp: typedAction_def split: FieldValue.splits option.splits)
  from mode_chosen [OF n(3,2) refl] obtain f where "map_of names n = Some f" "fieldTyped f (argOf a ''mode'')" by blast
  from assms(2) [OF a(1) n(1) this] show "typedPatch p" using a(4) by simp
qed

lemma hasShapeType_simps [simp]:
  "hasShapeType v NumberType = hasType v NumberType" "hasShapeType v TextType = hasType v TextType"
  "hasShapeType v FlagType = hasType v FlagType" "hasShapeType v (OneOf ts) = hasType v (OneOf ts)"
  by (simp_all add: hasShapeType_def)

lemma shape_of_field: "map_of streamFieldTypes f = Some t \<Longrightarrow> hasShapeType v (FieldTypeOf f) = hasType v t"
  by (simp add: hasShapeType_def)

lemma mode_names [simp]: "hasShapeType v ModeType = hasType v ModeType" "hasShapeType v HostModeType = hasType v HostModeType"
  by (simp_all add: ModeType_def HostModeType_def)

lemmas sets_simps = setsTyped_def modeShapes_def fitsField_def subType_def

lemmas calls_typed = sending_typed override_typed icmp_typed application_typed tunnel_typed
  inner_version_typed option_typed coupled_typed

text \<open>The cases that choose a field by its name.\<close>

lemmas number_fields = dnsNumericPatch_def dnsCountPatch_def dnsStepPatch_def dhcpBootpNumericPatch_def
  dhcpBootpCountPatch_def dhcpBootpStepPatch_def dhcpBootpAddressCountPatch_def dhcpBootpAddressStepPatch_def
  dhcpOptionTimerNumericPatch_def dhcpOptionTimerCountPatch_def dhcpOptionTimerStepPatch_def
  dhcpOptionAddressCountPatch_def dhcpOptionAddressStepPatch_def sctpNumericPatch_def sctpCountPatch_def sctpStepPatch_def
  tcpCoreNumericPatch_def tcpCoreCountPatch_def tcpCoreStepPatch_def tcpOptionNumericPatch_def tcpOptionCountPatch_def
  tcpOptionStepPatch_def

lemmas text_fields = dnsTextPatch_def dhcpBootpTextPatch_def dhcpBootpAddressTextPatch_def dhcpOptionTextPatch_def
  dhcpOptionAddressTextPatch_def

lemmas mode_fields = dnsModePatch_def dhcpBootpModePatch_def dhcpBootpAddressModePatch_def dhcpOptionTimerModePatch_def
  dhcpOptionAddressModePatch_def tcpCoreModePatch_def tcpOptionModePatch_def

lemmas mode_tables = modeShapes_def dnsModeShapes_def dhcpBootpModeShapes_def dhcpBootpAddressModeShapes_def
  dhcpOptionTimerModeShapes_def dhcpOptionAddressModeShapes_def sctpModeShapes_def tcpCoreModeShapes_def tcpOptionModeShapes_def

lemma number_case:
  assumes "map_of modeShapes k = None" "map_of actionShapes k = Some props" "(arg, NumberType) \<in> set props"
    "list_all (\<lambda>(n, f). map_of streamFieldTypes f = Some NumberType) names"
  shows "caseTyped k (Calls (\<lambda>a s. chosenField names (argOf a ''field'') (argOf a arg)))"
  using assms(3,4) by (intro calls_case [OF assms(1,2)]) (force simp: list_all_iff intro: chosen_number)

lemma text_case:
  assumes "map_of modeShapes k = None" "map_of actionShapes k = Some props" "(arg, TextType) \<in> set props"
    "list_all (\<lambda>(n, f). map_of streamFieldTypes f = Some TextType) names"
  shows "caseTyped k (Calls (\<lambda>a s. chosenField names (argOf a ''field'') (argOf a arg)))"
  using assms(3,4) by (intro calls_case [OF assms(1,2)]) (force simp: list_all_iff intro: chosen_text)

lemma chosen_mode_case:
  assumes "map_of modeShapes k = Some (map (\<lambda>(n, f). (n, FieldTypeOf f)) names)"
  shows "caseTyped k (Calls (\<lambda>a s. chosenField names (argOf a ''field'') (argOf a ''mode'')))"
  by (rule mode_case [OF assms]) (auto simp: chosenField_def fieldTyped_def)

text \<open>The other cases that need more than their arguments.\<close>

lemma sctp_mode_case: "caseTyped ''sctp-mode'' (Calls (\<lambda>a s. Option.bind s (\<lambda>st. sctpModePatch a st)))"
  by (rule mode_case [where names = "map (\<lambda>(n, t). (n, case t of FieldTypeOf f \<Rightarrow> f)) sctpModeShapes"],
      (simp add: mode_tables; fail))
    (auto simp: sctpModePatch_def sctpModeShapes_def split: if_splits intro: coupled_typed)

lemma frame_length_type_case:
  "caseTyped ''frame-length-type'' (Calls (\<lambda>a s. frameLengthTypePatch (argOf a ''frameLengthType'') s))"
  by (rule calls_case, simp add: modeShapes_def, simp)
    (auto simp: shape_of_field intro: frame_length_type_typed)

lemma fvText_typed: "hasType v (OneOf ts) \<Longrightarrow> fvText v \<in> set ts"
  by (cases v) (simp_all add: hasType.simps)

lemma typed_packet_type: "typedStream s \<Longrightarrow> fvText (s ''packet_type'') \<in> set packetTypes"
  by (rule fvText_typed [OF typedStream_field [OF _ packet_type_field]])

lemma selection_types:
  assumes "typedStream s"
  shows "hasType v (OneOf [''None'', ''ARP'', ''IPv4'', ''IPv6'']) \<Longrightarrow> packetTypeForL3Selection (fvText v) s \<in> set packetTypes"
    "hasType v (OneOf [''None'', ''TCP'', ''UDP'', ''ICMP'', ''GRE'', ''SCTP''])
     \<Longrightarrow> packetTypeForL4Selection (fvText v) s \<in> set packetTypes"
proof -
  note t = typed_packet_type [OF assms]
  show "packetTypeForL3Selection (fvText v) s \<in> set packetTypes" if "hasType v (OneOf [''None'', ''ARP'', ''IPv4'', ''IPv6''])"
    unfolding packetTypeForL3Selection_def
    by (rule selected_types(1) [OF t]) (use fvText_typed [OF that] in \<open>simp only: list.set\<close>)
  show "packetTypeForL4Selection (fvText v) s \<in> set packetTypes"
    if "hasType v (OneOf [''None'', ''TCP'', ''UDP'', ''ICMP'', ''GRE'', ''SCTP''])"
    unfolding packetTypeForL4Selection_def
    by (rule selected_types(2) [OF t]) (use fvText_typed [OF that] in \<open>simp only: list.set\<close>)
qed

lemma packet_type_cases:
  "caseTyped ''packet-type'' (Calls (\<lambda>a s. packetTypePatch (fvText (argOf a ''packetType'')) s))"
  "caseTyped ''l3-selection'' (Calls (\<lambda>a s. Option.bind s (\<lambda>st.
     packetTypePatch (packetTypeForL3Selection (fvText (argOf a ''selection'')) st) (Some st))))"
  "caseTyped ''l4-selection'' (Calls (\<lambda>a s. Option.bind s (\<lambda>st.
     packetTypePatch (packetTypeForL4Selection (fvText (argOf a ''selection'')) st) (Some st))))"
  by (rule calls_case, simp add: modeShapes_def, simp,
      (auto simp: shape_of_field [OF packet_type_field] intro: packet_type_typed selection_types dest: fvText_typed; fail))+

lemma tcp_flag_case: "caseTyped ''tcp-flag'' (Calls (\<lambda>a s. Some (tcpFlagPatch (argOf a ''flag'') (argOf a ''checked''))))"
  by (rule calls_case, simp add: modeShapes_def, simp)
    (auto simp: tcpFlagPatch_def dest!: fvText_typed)

lemmas other_cases = sctp_mode_case [simplified] frame_length_type_case packet_type_cases tcp_flag_case

section \<open>The groups\<close>

lemma sending_cases: "list_all (\<lambda>(k, c). caseTyped k c) sendingCases"
  unfolding sendingCases_def list.pred_inject prod.case
  by (intro conjI list.pred_inject(1))
    ((rule sets_case, (simp add: sets_simps; fail)) | (rule other_cases)
     | (rule calls_case, simp add: modeShapes_def, simp,
      (auto simp: shape_of_field fieldTyped_def intro: calls_typed; fail)))+

lemma ethernet_cases: "list_all (\<lambda>(k, c). caseTyped k c) ethernetCases"
  unfolding ethernetCases_def list.pred_inject prod.case
  by (intro conjI list.pred_inject(1))
    ((rule sets_case, (simp add: sets_simps; fail)) | (rule other_cases)
     | (rule calls_case, simp add: modeShapes_def, simp,
      (auto simp: shape_of_field fieldTyped_def intro: calls_typed; fail)))+

lemma ipv4_cases: "list_all (\<lambda>(k, c). caseTyped k c) ipv4Cases"
  unfolding ipv4Cases_def list.pred_inject prod.case
  by (intro conjI list.pred_inject(1))
    ((rule sets_case, (simp add: sets_simps; fail)) | (rule other_cases)
     | (rule calls_case, simp add: modeShapes_def, simp,
      (auto simp: shape_of_field fieldTyped_def intro: calls_typed; fail)))+

lemma ipv6_cases: "list_all (\<lambda>(k, c). caseTyped k c) ipv6Cases"
  unfolding ipv6Cases_def list.pred_inject prod.case
  by (intro conjI list.pred_inject(1))
    ((rule sets_case, (simp add: sets_simps; fail)) | (rule other_cases)
     | (rule calls_case, simp add: modeShapes_def, simp,
      (auto simp: shape_of_field fieldTyped_def intro: calls_typed; fail)))+

lemma vlan_cases: "list_all (\<lambda>(k, c). caseTyped k c) vlanCases"
  unfolding vlanCases_def list.pred_inject prod.case
  by (intro conjI list.pred_inject(1))
    ((rule sets_case, (simp add: sets_simps; fail)) | (rule other_cases)
     | (rule calls_case, simp add: modeShapes_def, simp,
      (auto simp: shape_of_field fieldTyped_def intro: calls_typed; fail)))+

lemma mpls_cases: "list_all (\<lambda>(k, c). caseTyped k c) mplsCases"
  unfolding mplsCases_def list.pred_inject prod.case
  by (intro conjI list.pred_inject(1))
    ((rule sets_case, (simp add: sets_simps; fail)) | (rule other_cases)
     | (rule calls_case, simp add: modeShapes_def, simp,
      (auto simp: shape_of_field fieldTyped_def intro: calls_typed; fail)))+

lemma transport_cases: "list_all (\<lambda>(k, c). caseTyped k c) transportCases"
  unfolding transportCases_def list.pred_inject prod.case
  by (intro conjI list.pred_inject(1))
    ((rule sets_case, (simp add: sets_simps; fail)) | (rule other_cases)
     | (rule calls_case, simp add: modeShapes_def, simp,
      (auto simp: shape_of_field fieldTyped_def intro: calls_typed; fail)))+

lemma application_cases: "list_all (\<lambda>(k, c). caseTyped k c) applicationCases"
  unfolding applicationCases_def list.pred_inject prod.case number_fields text_fields mode_fields
  by (intro conjI list.pred_inject(1))
    ((rule sets_case, (simp add: sets_simps; fail)) | (rule other_cases)
     | (rule number_case, simp add: modeShapes_def, simp, simp, (simp; fail))
     | (rule text_case, simp add: modeShapes_def, simp, simp, (simp; fail))
     | (rule chosen_mode_case, (simp add: mode_tables; fail))
     | (rule calls_case, simp add: modeShapes_def, simp,
      (auto simp: shape_of_field fieldTyped_def intro: calls_typed; fail)))+

lemma segment_cases: "list_all (\<lambda>(k, c). caseTyped k c) segmentCases"
  unfolding segmentCases_def list.pred_inject prod.case number_fields text_fields mode_fields
  by (intro conjI list.pred_inject(1))
    ((rule sets_case, (simp add: sets_simps; fail)) | (rule other_cases)
     | (rule number_case, simp add: modeShapes_def, simp, simp, (simp; fail))
     | (rule text_case, simp add: modeShapes_def, simp, simp, (simp; fail))
     | (rule chosen_mode_case, (simp add: mode_tables; fail))
     | (rule calls_case, simp add: modeShapes_def, simp,
      (auto simp: shape_of_field fieldTyped_def intro: calls_typed; fail)))+

lemma control_cases: "list_all (\<lambda>(k, c). caseTyped k c) controlCases"
  unfolding controlCases_def list.pred_inject prod.case
  by (intro conjI list.pred_inject(1))
    ((rule sets_case, (simp add: sets_simps; fail)) | (rule other_cases)
     | (rule calls_case, simp add: modeShapes_def, simp,
      (auto simp: shape_of_field fieldTyped_def intro: calls_typed; fail)))+

lemma vxlan_cases: "list_all (\<lambda>(k, c). caseTyped k c) vxlanCases"
  unfolding vxlanCases_def list.pred_inject prod.case
  by (intro conjI list.pred_inject(1))
    ((rule sets_case, (simp add: sets_simps; fail)) | (rule other_cases)
     | (rule calls_case, simp add: modeShapes_def, simp,
      (auto simp: shape_of_field fieldTyped_def intro: calls_typed; fail)))+

lemma gtpu_cases: "list_all (\<lambda>(k, c). caseTyped k c) gtpuCases"
  unfolding gtpuCases_def list.pred_inject prod.case
  by (intro conjI list.pred_inject(1))
    ((rule sets_case, (simp add: sets_simps; fail)) | (rule other_cases)
     | (rule calls_case, simp add: modeShapes_def, simp,
      (auto simp: shape_of_field fieldTyped_def intro: calls_typed; fail)))+

lemma gre_cases: "list_all (\<lambda>(k, c). caseTyped k c) greCases"
  unfolding greCases_def list.pred_inject prod.case
  by (intro conjI list.pred_inject(1))
    ((rule sets_case, (simp add: sets_simps; fail)) | (rule other_cases)
     | (rule calls_case, simp add: modeShapes_def, simp,
      (auto simp: shape_of_field fieldTyped_def intro: calls_typed; fail)))+

text \<open>The whole switch.\<close>

lemma all_cases: "(k, c) \<in> set selectedStreamPatchCases \<Longrightarrow> caseTyped k c"
  using sending_cases ethernet_cases ipv4_cases ipv6_cases vlan_cases mpls_cases transport_cases application_cases
    segment_cases control_cases vxlan_cases gtpu_cases gre_cases
  unfolding selectedStreamPatchCases_def list_all_iff by auto

lemma selected_typed:
  assumes "typedStream s" "typedAction a" "selectedStreamPatch a (Some s) = Some p"
  shows "typedPatch p"
proof -
  obtain c where c: "map_of selectedStreamPatchCases (act_kind a) = Some c" "runPatchCase c a (Some s) = Some p"
    using assms(3) by (auto simp: selectedStreamPatch_def split: option.splits)
  from all_cases [OF map_of_SomeD [OF c(1)]] show ?thesis using assms(1,2) c(2) by (simp add: caseTyped_def)
qed

end
