(* ===== verification/StreamEditing.thy ===== *)
theory StreamEditing
  imports StreamCases
begin

text \<open>
  What the page does with a patch (\<open>handleStreamChange\<close> of \<open>App.tsx\<close>): the stream at the index takes the fields
  over, and an imported packet is dropped when a field that its bytes depend on is edited.
\<close>

section \<open>Fields of the bytes\<close>

definition invalidatingFields1 :: "string list" where
  "invalidatingFields1 =
     [''packet_type'', ''frame_length_type'', ''frame_length'', ''frame_length_min'', ''frame_length_max'',
      ''ether_dst'', ''ether_src'', ''ether_type_override'', ''ether_type'', ''ether_dst_mode'',
      ''ether_dst_count'', ''ether_dst_step'', ''ether_src_mode'', ''ether_src_count'', ''ether_src_step'',
      ''arp_hardware_type'', ''arp_protocol_type'', ''arp_hardware_size'', ''arp_protocol_size'',
      ''arp_operation'', ''arp_operation_mode'', ''arp_operation_count'', ''arp_operation_step'',
      ''arp_sender_mac'', ''arp_sender_mac_mode'', ''arp_sender_mac_count'', ''arp_sender_mac_step'',
      ''arp_sender_ip'', ''arp_sender_ip_mode'', ''arp_sender_ip_count'', ''arp_sender_ip_step'',
      ''arp_target_mac'', ''arp_target_mac_mode'', ''arp_target_mac_count'', ''arp_target_mac_step'',
      ''arp_target_ip'', ''arp_target_ip_mode'', ''arp_target_ip_count'', ''arp_target_ip_step'',
      ''vlan_enabled'', ''vlan_tpid_override'', ''vlan_tpid'', ''vlan_priority'', ''vlan_priority_mode'',
      ''vlan_priority_count'', ''vlan_priority_step'', ''vlan_cfi'', ''vlan_id'', ''vlan_id_mode'',
      ''vlan_id_count'', ''vlan_id_step'', ''vlan2_enabled'', ''vlan2_tpid_override'', ''vlan2_tpid'',
      ''vlan2_priority'', ''vlan2_priority_mode'', ''vlan2_priority_count'', ''vlan2_priority_step'',
      ''vlan2_cfi'', ''vlan2_id'', ''vlan2_id_mode'', ''vlan2_id_count'', ''vlan2_id_step'', ''mpls_enabled'',
      ''mpls_label'', ''mpls_label_mode'', ''mpls_label_count'', ''mpls_label_step'', ''mpls_tc'',
      ''mpls_tc_mode'', ''mpls_tc_count'', ''mpls_tc_step'', ''mpls_ttl'', ''mpls_ttl_mode'',
      ''mpls_ttl_count'', ''mpls_ttl_step'', ''mpls_label2_enabled'', ''mpls_label2'', ''mpls_label2_mode'',
      ''mpls_label2_count'', ''mpls_label2_step'', ''mpls_label2_tc'', ''mpls_label2_tc_mode'',
      ''mpls_label2_tc_count'', ''mpls_label2_tc_step'', ''mpls_label2_ttl'', ''mpls_label2_ttl_mode'',
      ''mpls_label2_ttl_count'', ''mpls_label2_ttl_step'', ''mpls_label3_enabled'', ''mpls_label3'',
      ''mpls_label3_mode'', ''mpls_label3_count'', ''mpls_label3_step'', ''mpls_label3_tc'',
      ''mpls_label3_tc_mode'', ''mpls_label3_tc_count'', ''mpls_label3_tc_step'', ''mpls_label3_ttl'',
      ''mpls_label3_ttl_mode'', ''mpls_label3_ttl_count'', ''mpls_label3_ttl_step'', ''vxlan_enabled'',
      ''vxlan_vni'', ''vxlan_vni_mode'', ''vxlan_vni_count'', ''vxlan_vni_step'', ''vxlan_inner_ether_dst'',
      ''vxlan_inner_ether_src'', ''vxlan_inner_ip_version'', ''vxlan_inner_ipv4_src'',
      ''vxlan_inner_ipv4_src_mode'', ''vxlan_inner_ipv4_src_count'', ''vxlan_inner_ipv4_src_step'',
      ''vxlan_inner_ipv4_dst'', ''vxlan_inner_ipv4_dst_mode'', ''vxlan_inner_ipv4_dst_count'',
      ''vxlan_inner_ipv4_dst_step'', ''vxlan_inner_ipv4_ttl'', ''vxlan_inner_ipv4_ttl_mode'',
      ''vxlan_inner_ipv4_ttl_count'', ''vxlan_inner_ipv4_ttl_step'', ''vxlan_inner_ipv6_src'',
      ''vxlan_inner_ipv6_src_mode'', ''vxlan_inner_ipv6_src_count'', ''vxlan_inner_ipv6_src_step'',
      ''vxlan_inner_ipv6_dst'', ''vxlan_inner_ipv6_dst_mode'', ''vxlan_inner_ipv6_dst_count'',
      ''vxlan_inner_ipv6_dst_step'', ''vxlan_inner_ipv6_hop_limit'', ''vxlan_inner_ipv6_hop_limit_mode'',
      ''vxlan_inner_ipv6_hop_limit_count'', ''vxlan_inner_ipv6_hop_limit_step'', ''vxlan_inner_l4_src_port'',
      ''vxlan_inner_l4_src_port_mode'', ''vxlan_inner_l4_src_port_count'', ''vxlan_inner_l4_src_port_step'',
      ''vxlan_inner_l4_dst_port'', ''vxlan_inner_l4_dst_port_mode'']"

definition invalidatingFields2 :: "string list" where
  "invalidatingFields2 =
     [''vxlan_inner_l4_dst_port_count'', ''vxlan_inner_l4_dst_port_step'', ''gtpu_enabled'',
      ''gtpu_message_type'', ''gtpu_teid'', ''gtpu_teid_mode'', ''gtpu_teid_count'', ''gtpu_teid_step'',
      ''gtpu_sequence_enabled'', ''gtpu_sequence'', ''gtpu_sequence_mode'', ''gtpu_sequence_count'',
      ''gtpu_sequence_step'', ''gtpu_npdu_enabled'', ''gtpu_npdu'', ''gtpu_npdu_mode'', ''gtpu_npdu_count'',
      ''gtpu_npdu_step'', ''gtpu_extension_enabled'', ''gtpu_extension_udp_port'',
      ''gtpu_extension_udp_port_mode'', ''gtpu_extension_udp_port_count'', ''gtpu_extension_udp_port_step'',
      ''gtpu_inner_ip_version'', ''gtpu_inner_ipv4_src'', ''gtpu_inner_ipv4_src_mode'',
      ''gtpu_inner_ipv4_src_count'', ''gtpu_inner_ipv4_src_step'', ''gtpu_inner_ipv4_dst'',
      ''gtpu_inner_ipv4_dst_mode'', ''gtpu_inner_ipv4_dst_count'', ''gtpu_inner_ipv4_dst_step'',
      ''gtpu_inner_ipv4_ttl'', ''gtpu_inner_ipv4_ttl_mode'', ''gtpu_inner_ipv4_ttl_count'',
      ''gtpu_inner_ipv4_ttl_step'', ''gtpu_inner_ipv6_src'', ''gtpu_inner_ipv6_src_mode'',
      ''gtpu_inner_ipv6_src_count'', ''gtpu_inner_ipv6_src_step'', ''gtpu_inner_ipv6_dst'',
      ''gtpu_inner_ipv6_dst_mode'', ''gtpu_inner_ipv6_dst_count'', ''gtpu_inner_ipv6_dst_step'',
      ''gtpu_inner_ipv6_hop_limit'', ''gtpu_inner_ipv6_hop_limit_mode'', ''gtpu_inner_ipv6_hop_limit_count'',
      ''gtpu_inner_ipv6_hop_limit_step'', ''gtpu_inner_l4_src_port'', ''gtpu_inner_l4_src_port_mode'',
      ''gtpu_inner_l4_src_port_count'', ''gtpu_inner_l4_src_port_step'', ''gtpu_inner_l4_dst_port'',
      ''gtpu_inner_l4_dst_port_mode'', ''gtpu_inner_l4_dst_port_count'', ''gtpu_inner_l4_dst_port_step'',
      ''gre_checksum_present'', ''gre_checksum_override'', ''gre_checksum'', ''gre_key_present'', ''gre_key'',
      ''gre_key_mode'', ''gre_key_count'', ''gre_key_step'', ''gre_sequence_present'', ''gre_sequence'',
      ''gre_sequence_mode'', ''gre_sequence_count'', ''gre_sequence_step'', ''gre_protocol_type'',
      ''gre_inner_ip_version'', ''gre_inner_ipv4_src'', ''gre_inner_ipv4_src_mode'',
      ''gre_inner_ipv4_src_count'', ''gre_inner_ipv4_src_step'', ''gre_inner_ipv4_dst'',
      ''gre_inner_ipv4_dst_mode'', ''gre_inner_ipv4_dst_count'', ''gre_inner_ipv4_dst_step'',
      ''gre_inner_ipv4_ttl'', ''gre_inner_ipv4_ttl_mode'', ''gre_inner_ipv4_ttl_count'',
      ''gre_inner_ipv4_ttl_step'', ''gre_inner_ipv6_src'', ''gre_inner_ipv6_src_mode'',
      ''gre_inner_ipv6_src_count'', ''gre_inner_ipv6_src_step'', ''gre_inner_ipv6_dst'',
      ''gre_inner_ipv6_dst_mode'', ''gre_inner_ipv6_dst_count'', ''gre_inner_ipv6_dst_step'',
      ''gre_inner_ipv6_hop_limit'', ''gre_inner_ipv6_hop_limit_mode'', ''gre_inner_ipv6_hop_limit_count'',
      ''gre_inner_ipv6_hop_limit_step'', ''gre_inner_l4_src_port'', ''gre_inner_l4_src_port_mode'',
      ''gre_inner_l4_src_port_count'', ''gre_inner_l4_src_port_step'', ''gre_inner_l4_dst_port'',
      ''gre_inner_l4_dst_port_mode'', ''gre_inner_l4_dst_port_count'', ''gre_inner_l4_dst_port_step'',
      ''ipv4_src'', ''ipv4_dst'', ''ipv4_src_mode'', ''ipv4_src_count'', ''ipv4_src_step'', ''ipv4_dst_mode'',
      ''ipv4_dst_count'', ''ipv4_dst_step'', ''ipv4_dscp'', ''ipv4_dscp_mode'', ''ipv4_dscp_count'',
      ''ipv4_dscp_step'', ''ipv4_ecn'', ''ipv4_ecn_mode'', ''ipv4_ecn_count'', ''ipv4_ecn_step'', ''ipv4_id'',
      ''ipv4_id_mode'', ''ipv4_id_count'', ''ipv4_id_step'', ''ipv4_flag_df'', ''ipv4_flag_mf'',
      ''ipv4_fragment_offset'', ''ipv4_fragment_offset_mode'', ''ipv4_fragment_offset_count'',
      ''ipv4_fragment_offset_step'', ''ipv4_ttl'', ''ipv4_ttl_mode'', ''ipv4_ttl_count'', ''ipv4_ttl_step'',
      ''ipv4_checksum_override'', ''ipv4_checksum'', ''ipv6_src'', ''ipv6_dst'', ''ipv6_src_mode'',
      ''ipv6_src_count'', ''ipv6_src_step'']"

definition invalidatingFields3 :: "string list" where
  "invalidatingFields3 =
     [''ipv6_dst_mode'', ''ipv6_dst_count'', ''ipv6_dst_step'', ''ipv6_traffic_class'',
      ''ipv6_traffic_class_mode'', ''ipv6_traffic_class_count'', ''ipv6_traffic_class_step'',
      ''ipv6_flow_label'', ''ipv6_flow_label_mode'', ''ipv6_flow_label_count'', ''ipv6_flow_label_step'',
      ''ipv6_hop_limit'', ''ipv6_hop_limit_mode'', ''ipv6_hop_limit_count'', ''ipv6_hop_limit_step'',
      ''l4_src_port_override'', ''l4_src_port'', ''l4_dst_port_override'', ''l4_dst_port'',
      ''udp_length_override'', ''udp_length'', ''udp_length_mode'', ''udp_length_count'', ''udp_length_step'',
      ''udp_checksum_override'', ''udp_checksum'', ''udp_checksum_mode'', ''udp_checksum_count'',
      ''udp_checksum_step'', ''dns_enabled'', ''dns_transaction_id'', ''dns_transaction_id_mode'',
      ''dns_transaction_id_count'', ''dns_transaction_id_step'', ''dns_flags'', ''dns_flags_mode'',
      ''dns_flags_count'', ''dns_flags_step'', ''dns_query_name'', ''dns_query_type'',
      ''dns_query_type_mode'', ''dns_query_type_count'', ''dns_query_type_step'', ''dns_query_class'',
      ''dns_query_class_mode'', ''dns_query_class_count'', ''dns_query_class_step'', ''dns_answer_enabled'',
      ''dns_answer_ttl'', ''dns_answer_ttl_mode'', ''dns_answer_ttl_count'', ''dns_answer_ttl_step'',
      ''dns_answer_ipv4'', ''dns_answer_ipv4_mode'', ''dns_answer_ipv4_count'', ''dns_answer_ipv4_step'',
      ''dhcp_enabled'', ''dhcp_operation'', ''dhcp_operation_mode'', ''dhcp_operation_count'',
      ''dhcp_operation_step'', ''dhcp_hops'', ''dhcp_hops_mode'', ''dhcp_hops_count'', ''dhcp_hops_step'',
      ''dhcp_seconds'', ''dhcp_seconds_mode'', ''dhcp_seconds_count'', ''dhcp_seconds_step'',
      ''dhcp_message_type'', ''dhcp_message_type_mode'', ''dhcp_message_type_count'',
      ''dhcp_message_type_step'', ''dhcp_xid'', ''dhcp_xid_mode'', ''dhcp_xid_count'', ''dhcp_xid_step'',
      ''dhcp_flags'', ''dhcp_flags_mode'', ''dhcp_flags_count'', ''dhcp_flags_step'', ''dhcp_client_ip'',
      ''dhcp_client_ip_mode'', ''dhcp_client_ip_count'', ''dhcp_client_ip_step'', ''dhcp_your_ip'',
      ''dhcp_your_ip_mode'', ''dhcp_your_ip_count'', ''dhcp_your_ip_step'', ''dhcp_server_ip'',
      ''dhcp_server_ip_mode'', ''dhcp_server_ip_count'', ''dhcp_server_ip_step'', ''dhcp_relay_ip'',
      ''dhcp_relay_ip_mode'', ''dhcp_relay_ip_count'', ''dhcp_relay_ip_step'', ''dhcp_client_mac'',
      ''dhcp_client_mac_mode'', ''dhcp_client_mac_count'', ''dhcp_client_mac_step'', ''dhcp_hostname'',
      ''dhcp_requested_ip'', ''dhcp_requested_ip_mode'', ''dhcp_requested_ip_count'',
      ''dhcp_requested_ip_step'', ''dhcp_server_id'', ''dhcp_server_id_mode'', ''dhcp_server_id_count'',
      ''dhcp_server_id_step'', ''dhcp_parameter_request_list'', ''dhcp_lease_time'', ''dhcp_lease_time_mode'',
      ''dhcp_lease_time_count'', ''dhcp_lease_time_step'', ''dhcp_renewal_time'', ''dhcp_renewal_time_mode'',
      ''dhcp_renewal_time_count'', ''dhcp_renewal_time_step'', ''dhcp_rebinding_time'',
      ''dhcp_rebinding_time_mode'', ''dhcp_rebinding_time_count'', ''dhcp_rebinding_time_step'',
      ''icmp_type'', ''icmp_type_mode'', ''icmp_type_count'', ''icmp_type_step'', ''icmp_code'',
      ''icmp_code_mode'', ''icmp_code_count'', ''icmp_code_step'', ''icmp_checksum_override'',
      ''icmp_checksum'', ''icmp_identifier'', ''icmp_identifier_mode'', ''icmp_identifier_count'',
      ''icmp_identifier_step'', ''icmp_sequence'', ''icmp_sequence_mode'', ''icmp_sequence_count'']"

definition invalidatingFields4 :: "string list" where
  "invalidatingFields4 =
     [''icmp_sequence_step'', ''icmpv6_nd_target'', ''icmpv6_nd_include_option'', ''icmpv6_nd_option_mac'',
      ''icmpv6_nd_na_router'', ''icmpv6_nd_na_solicited'', ''icmpv6_nd_na_override'',
      ''icmpv6_rs_include_slla'', ''icmpv6_rs_slla_mac'', ''icmpv6_ra_cur_hop_limit'', ''icmpv6_ra_managed'',
      ''icmpv6_ra_other'', ''icmpv6_ra_router_lifetime'', ''icmpv6_ra_reachable_time'',
      ''icmpv6_ra_retrans_timer'', ''icmpv6_ra_include_slla'', ''icmpv6_ra_slla_mac'',
      ''icmpv6_ra_include_prefix'', ''icmpv6_ra_prefix'', ''icmpv6_ra_prefix_length'',
      ''icmpv6_ra_prefix_on_link'', ''icmpv6_ra_prefix_autonomous'', ''icmpv6_ra_prefix_valid_lifetime'',
      ''icmpv6_ra_prefix_preferred_lifetime'', ''tcp_sequence_number'', ''tcp_sequence_mode'',
      ''tcp_sequence_count'', ''tcp_sequence_step'', ''tcp_ack_number'', ''tcp_ack_mode'', ''tcp_ack_count'',
      ''tcp_ack_step'', ''tcp_window'', ''tcp_window_mode'', ''tcp_window_count'', ''tcp_window_step'',
      ''tcp_checksum_override'', ''tcp_checksum'', ''tcp_checksum_mode'', ''tcp_checksum_count'',
      ''tcp_checksum_step'', ''tcp_option_mss_enabled'', ''tcp_option_mss'', ''tcp_option_mss_mode'',
      ''tcp_option_mss_count'', ''tcp_option_mss_step'', ''tcp_option_window_scale_enabled'',
      ''tcp_option_window_scale'', ''tcp_option_window_scale_mode'', ''tcp_option_window_scale_count'',
      ''tcp_option_window_scale_step'', ''tcp_option_sack_permitted_enabled'',
      ''tcp_option_sack_blocks_enabled'', ''tcp_option_sack_left_edge'', ''tcp_option_sack_left_edge_mode'',
      ''tcp_option_sack_left_edge_count'', ''tcp_option_sack_left_edge_step'', ''tcp_option_sack_right_edge'',
      ''tcp_option_sack_right_edge_mode'', ''tcp_option_sack_right_edge_count'',
      ''tcp_option_sack_right_edge_step'', ''tcp_option_timestamp_enabled'', ''tcp_option_timestamp_value'',
      ''tcp_option_timestamp_value_mode'', ''tcp_option_timestamp_value_count'',
      ''tcp_option_timestamp_value_step'', ''tcp_option_timestamp_echo'', ''tcp_option_timestamp_echo_mode'',
      ''tcp_option_timestamp_echo_count'', ''tcp_option_timestamp_echo_step'', ''tcp_urgent_pointer'',
      ''tcp_urgent_pointer_mode'', ''tcp_urgent_pointer_count'', ''tcp_urgent_pointer_step'',
      ''tcp_flags_mode'', ''tcp_flags_count'', ''tcp_flags_step'', ''tcp_flag_urg'', ''tcp_flag_ack'',
      ''tcp_flag_psh'', ''tcp_flag_rst'', ''tcp_flag_syn'', ''tcp_flag_fin'', ''sctp_verification_tag'',
      ''sctp_verification_tag_mode'', ''sctp_verification_tag_count'', ''sctp_verification_tag_step'',
      ''sctp_checksum_override'', ''sctp_checksum'', ''sctp_data_flags'', ''sctp_data_flags_mode'',
      ''sctp_data_flags_count'', ''sctp_data_flags_step'', ''sctp_tsn'', ''sctp_tsn_mode'',
      ''sctp_tsn_count'', ''sctp_tsn_step'', ''sctp_stream_id'', ''sctp_stream_id_mode'',
      ''sctp_stream_id_count'', ''sctp_stream_id_step'', ''sctp_stream_sequence'',
      ''sctp_stream_sequence_mode'', ''sctp_stream_sequence_count'', ''sctp_stream_sequence_step'',
      ''sctp_payload_protocol_id'', ''sctp_payload_protocol_id_mode'', ''sctp_payload_protocol_id_count'',
      ''sctp_payload_protocol_id_step'', ''payload_enabled'', ''payload_type'', ''payload_pattern'']"

definition packetBinaryInvalidatingFields :: "string list" where
  "packetBinaryInvalidatingFields = invalidatingFields1 @ invalidatingFields2 @ invalidatingFields3 @ invalidatingFields4"

section \<open>Changing a stream\<close>

definition droppedImport :: StreamPatch where
  "droppedImport =
     [(''packet_binary_base64'', FvNull), (''advanced_mode'', FvFlag False), (''packet_model'', FvNull),
      (''packet_meta_base64'', FvNull), (''advanced_vm'', FvNull)]"

definition patchHas :: "StreamPatch \<Rightarrow> string \<Rightarrow> bool" where
  "patchHas patch f \<longleftrightarrow> map_of patch f \<noteq> None"

definition clearsImportedPacket :: "StreamPatch \<Rightarrow> bool" where
  "clearsImportedPacket patch \<longleftrightarrow>
     \<not> (case patchField patch ''packet_binary_base64'' of FvText t \<Rightarrow> t \<noteq> [] | _ \<Rightarrow> False)
     \<and> list_ex (patchHas patch) packetBinaryInvalidatingFields"

definition normalizedPatch :: "StreamPatch \<Rightarrow> StreamPatch" where
  "normalizedPatch patch = (if clearsImportedPacket patch then assignFields patch droppedImport else patch)"

record 'p Workbench =
  wb_previews :: "'p list"
  wb_dirty :: bool
  wb_streams :: "EditorStream list"

definition handleStreamChange :: "nat \<Rightarrow> StreamPatch \<Rightarrow> ('p, 'z) Workbench_scheme \<Rightarrow> ('p, 'z) Workbench_scheme" where
  "handleStreamChange index patch wb =
     wb\<lparr>wb_previews := [], wb_dirty := True,
        wb_streams := map (\<lambda>(i, s). if i = index then applyFields s (normalizedPatch patch) else s)
          (enumerate 0 (wb_streams wb))\<rparr>"

text \<open>The handlers of the selected stream, and a control that is used.\<close>

definition selectedStreamPatchHandlersForIndex :: "nat \<Rightarrow> PatchCall \<Rightarrow> ('p, 'z) Workbench_scheme \<Rightarrow> ('p, 'z) Workbench_scheme" where
  "selectedStreamPatchHandlersForIndex index call wb = (case call of ApplyPatch patch \<Rightarrow> handleStreamChange index patch wb)"

definition streamAt :: "nat \<Rightarrow> ('p, 'z) Workbench_scheme \<Rightarrow> EditorStream option" where
  "streamAt index wb = (if index < length (wb_streams wb) then Some (wb_streams wb ! index) else None)"

definition useControl :: "nat \<times> PatchAction \<Rightarrow> ('p, 'z) Workbench_scheme \<Rightarrow> ('p, 'z) Workbench_scheme" where
  "useControl use wb =
     (case use of (index, action) \<Rightarrow>
        fold (selectedStreamPatchHandlersForIndex index) (snd (runSelectedStreamPatch action (streamAt index wb))) wb)"

lemma wb_streams_change:
  "wb_streams (handleStreamChange index patch wb)
    = (if index < length (wb_streams wb)
       then (wb_streams wb)[index := applyFields (wb_streams wb ! index) (normalizedPatch patch)] else wb_streams wb)"
  by (rule nth_equalityI) (auto simp: handleStreamChange_def nth_enumerate_eq)

lemma useControl_cases:
  "useControl (index, action) wb
    = (case selectedStreamPatch action (streamAt index wb) of None \<Rightarrow> wb | Some p \<Rightarrow> handleStreamChange index p wb)"
  by (simp add: useControl_def runSelectedStreamPatch_def runSelectedStreamPatchAction_def runStreamPatch_def
      selectedStreamPatchHandlersForIndex_def split: option.split)

section \<open>Patches and fields\<close>

lemma applyFields_at: "applyFields s p f = (case map_of (rev p) f of Some v \<Rightarrow> v | None \<Rightarrow> s f)"
  by (induction p arbitrary: s) (auto simp: applyFields_def map_add_def split: option.split)

lemma applyFields_other: "map_of p f = None \<Longrightarrow> applyFields s p f = s f"
  by (simp add: applyFields_at map_of_eq_None_iff split: option.split) (metis map_of_eq_None_iff option.distinct(1) set_rev rev_map)

end
