(* ===== verification/StreamSound.thy ===== *)
theory StreamSound
  imports StreamEditing
begin

text \<open>
  What the controls keep of a form: at most one tunnel, and only over IPv4 and UDP; at most one of DNS and DHCP; no
  third MPLS label without a second; a fixed frame length where it cannot vary.
\<close>

section \<open>Sound forms\<close>

definition on :: "EditorStream \<Rightarrow> string \<Rightarrow> bool" where
  "on s f \<longleftrightarrow> fvTruthy (s f)"

definition fixedOnly :: "string \<Rightarrow> bool" where
  "fixedOnly type' \<longleftrightarrow> isIcmpPacketType type' \<or> endsWith type' ''/GRE'' \<or> endsWith type' ''/SCTP''"

definition formSound :: "EditorStream \<Rightarrow> bool" where
  "formSound s \<longleftrightarrow>
     \<not> (on s ''vxlan_enabled'' \<and> on s ''gtpu_enabled'')
     \<and> (on s ''vxlan_enabled'' \<or> on s ''gtpu_enabled'' \<longrightarrow> s ''packet_type'' = FvText ''Ethernet/IPv4/UDP'')
     \<and> (on s ''vxlan_enabled'' \<or> on s ''gtpu_enabled'' \<or> fixedOnly (fvText (s ''packet_type''))
        \<longrightarrow> s ''frame_length_type'' = fixedMode)
     \<and> \<not> (on s ''dns_enabled'' \<and> on s ''dhcp_enabled'')
     \<and> (on s ''mpls_label3_enabled'' \<longrightarrow> on s ''mpls_label2_enabled'')"

definition formFields :: "string list" where
  "formFields = [''vxlan_enabled'', ''gtpu_enabled'', ''packet_type'', ''frame_length_type'', ''dns_enabled'', ''dhcp_enabled'',
     ''mpls_label3_enabled'', ''mpls_label2_enabled'']"

text \<open>Only eight fields matter.\<close>

lemma formSound_cong: "(\<And>f. f \<in> set formFields \<Longrightarrow> s' f = s f) \<Longrightarrow> formSound s' \<longleftrightarrow> formSound s"
  by (simp add: formSound_def on_def formFields_def)

lemma supports_frame:
  "supportsVariableFrameLength (Some (profileStream s))
    \<longleftrightarrow> \<not> (on s ''vxlan_enabled'' \<or> on s ''gtpu_enabled'' \<or> fixedOnly (fvText (s ''packet_type'')))"
  by (auto simp: supportsVariableFrameLength_def profileStream_def packetType_def on_def fixedOnly_def)

definition apartFrom :: "string list \<Rightarrow> StreamPatch \<Rightarrow> bool" where
  "apartFrom fs p \<longleftrightarrow> list_all (\<lambda>(f, v). f \<notin> set fs) p"

lemma apartFrom_at: "apartFrom fs p \<Longrightarrow> f \<in> set fs \<Longrightarrow> applyFields s p f = s f"
  by (rule applyFields_other) (auto simp: apartFrom_def list_all_iff map_of_eq_None_iff)

lemma apartFrom_sound: "apartFrom formFields p \<Longrightarrow> formSound (applyFields s p) \<longleftrightarrow> formSound s"
  by (rule formSound_cong) (rule apartFrom_at)

lemma apartFrom_simps [simp]:
  "apartFrom fs []" "apartFrom fs ((f, v) # p) \<longleftrightarrow> f \<notin> set fs \<and> apartFrom fs p"
  "apartFrom fs (p @ q) \<longleftrightarrow> apartFrom fs p \<and> apartFrom fs q"
  by (auto simp: apartFrom_def)

lemma apartFrom_assign: "apartFrom fs p \<Longrightarrow> apartFrom fs q \<Longrightarrow> apartFrom fs (assignFields p q)"
proof (induction q arbitrary: p)
  case (Cons e q)
  have "apartFrom fs (putField p e)" if "apartFrom fs p" "apartFrom fs [e]" for p e
    using that by (induction p e rule: putField.induct) auto
  moreover have "apartFrom fs [e]" using Cons.prems(2) by (cases e) simp
  ultimately show ?case using Cons by (cases e) (simp add: assignFields_def)
qed (simp add: assignFields_def)

text \<open>The fields of the import as well.\<close>

definition guardedFields :: "string list" where
  "guardedFields = ''packet_binary_base64'' # formFields"

lemma guarded_form: "apartFrom guardedFields p \<Longrightarrow> apartFrom formFields p"
  by (auto simp: apartFrom_def guardedFields_def list_all_iff)

section \<open>Functions that do not touch the form\<close>

lemmas guard_simps = guardedFields_def formFields_def keptField_def forcedField_def fixedModes_def

lemma apart_resets:
  "apartFrom guardedFields l4PortResets" "apartFrom guardedFields udpResets" "apartFrom guardedFields icmpResets"
  "apartFrom guardedFields sctpResets" "apartFrom guardedFields gtpuResets" "apartFrom guardedFields vxlanResets"
  "apartFrom guardedFields afterStreamStopPatch" "apartFrom guardedFields (tunnelPorts m n)"
  "apartFrom guardedFields (payloadPatternImportPatch t)"
  by (simp_all add: l4PortResets_def udpResets_def icmpResets_def sctpResets_def gtpuResets_def vxlanResets_def
      afterStreamStopPatch_def tunnelPorts_def payloadPatternImportPatch_def guard_simps)

lemma apart_simple:
  "apartFrom guardedFields (streamModePatch v st)" "apartFrom guardedFields (afterStreamGotoPatch s)"
  "apartFrom guardedFields (loopActionCountEnabledPatch v s)" "apartFrom guardedFields (nextStreamSelectionPatch v)"
  "apartFrom guardedFields (frameLengthValuePatch v)" "apartFrom guardedFields (frameLengthMinPatch v)"
  "apartFrom guardedFields (frameLengthMaxPatch v)" "apartFrom guardedFields (l4PortOverrideSelectionPatch side v s)"
  "apartFrom guardedFields (udpLengthOverrideSelectionPatch v s)" "apartFrom guardedFields (vlanSelectionPatch v)"
  "apartFrom guardedFields (mplsSelectionPatch v)" "apartFrom guardedFields (vlanInnerTagSelectionPatch v s)"
  "apartFrom guardedFields (payloadSelectionPatch v)" "apartFrom guardedFields (icmpv6RsSllaSelectionPatch v s)"
  "apartFrom guardedFields (icmpv6RaSllaSelectionPatch v s)" "apartFrom guardedFields (icmpv6RaPrefixSelectionPatch v s)"
  by (simp_all add: streamModePatch_def afterStreamGotoPatch_def loopActionCountEnabledPatch_def nextStreamSelectionPatch_def
      frameLengthValuePatch_def frameLengthMinPatch_def frameLengthMaxPatch_def l4PortOverrideSelectionPatch_def
      udpLengthOverrideSelectionPatch_def vlanSelectionPatch_def mplsSelectionPatch_def vlanInnerTagSelectionPatch_def
      payloadSelectionPatch_def icmpv6RsSllaSelectionPatch_def icmpv6RaSllaSelectionPatch_def
      icmpv6RaPrefixSelectionPatch_def icmpv6OptionPatch_def guard_simps)

lemma apart_options:
  "apartFrom guardedFields (gtpuSequenceSelectionPatch v s)" "apartFrom guardedFields (gtpuNpduSelectionPatch v s)"
  "apartFrom guardedFields (gtpuExtensionSelectionPatch v s)" "apartFrom guardedFields (greChecksumSelectionPatch v s)"
  "apartFrom guardedFields (greKeySelectionPatch v s)" "apartFrom guardedFields (greSequenceSelectionPatch v s)"
  "apartFrom guardedFields (tcpOptionSelectionPatch opt v)" "apartFrom guardedFields (greInnerIpVersionPatch v st)"
  "f \<notin> set guardedFields \<Longrightarrow> apartFrom guardedFields (sctpChecksumCoupledModePatch f v s)"
  "f \<notin> set guardedFields \<Longrightarrow> apartFrom guardedFields (icmpChecksumCoupledModePatch f v s)"
  "f \<notin> set guardedFields \<Longrightarrow> apartFrom guardedFields (greChecksumInvalidatingModePatch f v None)"
  "f \<notin> set guardedFields \<Longrightarrow> g \<notin> set guardedFields \<Longrightarrow> apartFrom guardedFields (greChecksumInvalidatingModePatch f v (Some g))"
  by (simp_all add: gtpuSequenceSelectionPatch_def gtpuNpduSelectionPatch_def gtpuExtensionSelectionPatch_def
      gtpuOptionPatch_def greChecksumSelectionPatch_def greKeySelectionPatch_def greSequenceSelectionPatch_def greFrame_def
      tcpOptionSelectionPatch_def greInnerIpVersionPatch_def sctpChecksumCoupledModePatch_def
      icmpChecksumCoupledModePatch_def greChecksumInvalidatingModePatch_def guard_simps Let_def)

lemma apart_answer: "apartFrom guardedFields (dnsAnswerSelectionPatch v s)"
  unfolding dnsAnswerSelectionPatch_def withMinimumLength_def Let_def
  by (auto intro!: apartFrom_assign simp: minimumFrameLengthPatch_def unchangedFields_def frameLengthFields_def guard_simps)

lemma apart_chosen:
  assumes "chosenField names name v = Some p" "list_all (\<lambda>(n, f). f \<notin> set guardedFields) names"
  shows "apartFrom guardedFields p"
proof -
  obtain f where "map_of names (fvText name) = Some f" "p = [(f, v)]" using assms(1) by (auto simp: chosenField_def)
  then show ?thesis using assms(2) by (auto simp: list_all_iff dest!: map_of_SomeD)
qed

section \<open>Functions that change the form\<close>

lemma applyFields_simps [simp]:
  "applyFields s [] = s" "applyFields s ((f, v) # p) = applyFields (s(f := v)) p"
  "applyFields s (p @ q) = applyFields (applyFields s p) q"
  by (simp_all add: applyFields_def)

lemma apart_form_at:
  "apartFrom guardedFields p \<Longrightarrow> f \<in> set formFields \<Longrightarrow> applyFields s p f = s f"
  by (rule apartFrom_at [OF guarded_form])

lemma resets_at:
  assumes "f \<in> set formFields"
  shows "applyFields s l4PortResets f = s f" "applyFields s udpResets f = s f" "applyFields s icmpResets f = s f"
    "applyFields s sctpResets f = s f" "applyFields s gtpuResets f = s f" "applyFields s vxlanResets f = s f"
    "applyFields s (tunnelPorts m n) f = s f"
  by (intro apart_form_at apart_resets assms)+

lemma form_members [simp]:
  "''vxlan_enabled'' \<in> set formFields" "''gtpu_enabled'' \<in> set formFields" "''packet_type'' \<in> set formFields"
  "''frame_length_type'' \<in> set formFields" "''dns_enabled'' \<in> set formFields" "''dhcp_enabled'' \<in> set formFields"
  "''mpls_label3_enabled'' \<in> set formFields" "''mpls_label2_enabled'' \<in> set formFields"
  by (simp_all add: formFields_def)

text \<open>A patch that touches a part of the form only.\<close>

lemma labels_sound:
  assumes "formSound s" "apartFrom (take 6 formFields) p"
    "on (applyFields s p) ''mpls_label3_enabled'' \<longrightarrow> on (applyFields s p) ''mpls_label2_enabled''"
  shows "formSound (applyFields s p)"
proof -
  have "list_all (\<lambda>f. applyFields s p f = s f) (take 6 formFields)"
    using apartFrom_at [OF assms(2)] by (simp add: list_all_iff)
  then have at: "applyFields s p ''vxlan_enabled'' = s ''vxlan_enabled''" "applyFields s p ''gtpu_enabled'' = s ''gtpu_enabled''"
    "applyFields s p ''packet_type'' = s ''packet_type''" "applyFields s p ''frame_length_type'' = s ''frame_length_type''"
    "applyFields s p ''dns_enabled'' = s ''dns_enabled''" "applyFields s p ''dhcp_enabled'' = s ''dhcp_enabled''"
    by (simp_all add: formFields_def)
  show ?thesis using assms(1,3) unfolding formSound_def on_def at by blast
qed

lemma mpls_sound:
  assumes "formSound s"
  shows "formSound (applyFields s (mplsSecondLabelSelectionPatch v s))" "formSound (applyFields s (mplsThirdLabelSelectionPatch v s))"
proof -
  have at: "applyFields s (mplsSecondLabelSelectionPatch v s) ''mpls_label2_enabled'' = v"
    "applyFields s (mplsSecondLabelSelectionPatch v s) ''mpls_label3_enabled''
      = whenOn v (s ''mpls_label3_enabled'') (FvFlag False)"
    "applyFields s (mplsThirdLabelSelectionPatch v s) ''mpls_label2_enabled'' = FvFlag True"
    by (simp_all add: mplsSecondLabelSelectionPatch_def mplsThirdLabelSelectionPatch_def keptField_def)
  have apart: "apartFrom (take 6 formFields) (mplsSecondLabelSelectionPatch v s)"
    "apartFrom (take 6 formFields) (mplsThirdLabelSelectionPatch v s)"
    by (simp_all add: mplsSecondLabelSelectionPatch_def mplsThirdLabelSelectionPatch_def keptField_def formFields_def)
  show "formSound (applyFields s (mplsSecondLabelSelectionPatch v s))"
    by (rule labels_sound [OF assms apart(1)]) (simp add: on_def at whenOn_def)
  show "formSound (applyFields s (mplsThirdLabelSelectionPatch v s))"
    by (rule labels_sound [OF assms apart(2)]) (simp add: on_def at)
qed

lemma fixed_sound:
  assumes "formSound s" "apartFrom (filter (\<lambda>f. f \<noteq> ''frame_length_type'') formFields) p"
    "supportsVariableFrameLength (Some (profileStream s))
     \<or> applyFields s p ''frame_length_type'' = s ''frame_length_type'' \<or> applyFields s p ''frame_length_type'' = fixedMode"
  shows "formSound (applyFields s p)"
proof -
  have "list_all (\<lambda>f. applyFields s p f = s f) (filter (\<lambda>f. f \<noteq> ''frame_length_type'') formFields)"
    using apartFrom_at [OF assms(2)] by (simp add: list_all_iff)
  then have at: "applyFields s p ''vxlan_enabled'' = s ''vxlan_enabled''" "applyFields s p ''gtpu_enabled'' = s ''gtpu_enabled''"
    "applyFields s p ''packet_type'' = s ''packet_type''" "applyFields s p ''dns_enabled'' = s ''dns_enabled''"
    "applyFields s p ''dhcp_enabled'' = s ''dhcp_enabled''" "applyFields s p ''mpls_label3_enabled'' = s ''mpls_label3_enabled''"
    "applyFields s p ''mpls_label2_enabled'' = s ''mpls_label2_enabled''"
    by (simp_all add: formFields_def)
  show ?thesis using assms(1,3) unfolding supports_frame formSound_def on_def at by (elim disjE; simp)
qed

lemma frame_length_type_sound:
  assumes "formSound s" "frameLengthTypePatch v (Some s) = Some p"
  shows "formSound (applyFields s p)"
proof (rule fixed_sound [OF assms(1)])
  have p: "p = [(''frame_length_type'', v)] \<or> (\<exists>a b c. p = [(''frame_length_type'', v), (''frame_length_min'', a),
      (''frame_length_max'', b), (''frame_length'', c)])"
    using assms(2) unfolding frameLengthTypePatch_def Let_def by (simp split: if_splits; blast)
  then show "apartFrom (filter (\<lambda>f. f \<noteq> ''frame_length_type'') formFields) p"
    by (elim disjE exE) (simp_all add: formFields_def)
  have "supportsVariableFrameLength (Some (profileStream s)) \<or> v = fixedMode"
    using assms(2) unfolding frameLengthTypePatch_def by (simp split: if_splits)
  then show "supportsVariableFrameLength (Some (profileStream s))
     \<or> applyFields s p ''frame_length_type'' = s ''frame_length_type'' \<or> applyFields s p ''frame_length_type'' = fixedMode"
    using p by (elim disjE exE) simp_all
qed

lemma icmp_sound:
  assumes "formSound s"
  shows "formSound (applyFields s (icmpTypePatch v (Some s)))"
proof (rule fixed_sound [OF assms])
  show "apartFrom (filter (\<lambda>f. f \<noteq> ''frame_length_type'') formFields) (icmpTypePatch v (Some s))"
    unfolding icmpTypePatch_def Let_def by (simp add: formFields_def icmpResets_def)
  show "supportsVariableFrameLength (Some (profileStream s))
     \<or> applyFields s (icmpTypePatch v (Some s)) ''frame_length_type'' = s ''frame_length_type''
     \<or> applyFields s (icmpTypePatch v (Some s)) ''frame_length_type'' = fixedMode"
    unfolding icmpTypePatch_def Let_def by (simp add: icmpResets_def)
qed

lemma fixedFrame_at:
  "applyFields s (fixedFrame st n) ''frame_length_type'' = fixedMode"
  "f \<in> set formFields \<Longrightarrow> f \<noteq> ''frame_length_type'' \<Longrightarrow> applyFields s (fixedFrame st n) f = s f"
  by (auto simp: fixedFrame_def Let_def formFields_def)

lemma inner_version_sound:
  assumes "formSound s"
  shows "formSound (applyFields s (vxlanInnerIpVersionPatch v st))" "formSound (applyFields s (gtpuInnerIpVersionPatch v st))"
  by (rule fixed_sound [OF assms]; simp add: vxlanInnerIpVersionPatch_def gtpuInnerIpVersionPatch_def fixedModes_def
      fixedFrame_def Let_def formFields_def)+

lemma fixedModes_at: "f \<notin> set fs \<Longrightarrow> applyFields s (fixedModes fs) f = s f"
  by (induction fs arbitrary: s) (auto simp: fixedModes_def)

lemma tunnel_sound:
  assumes "formSound s"
  shows "formSound (applyFields s (vxlanSelectionPatch v st))" "formSound (applyFields s (gtpuSelectionPatch v st))"
    "formSound (applyFields s tunnelDisabledPatch)"
proof -
  show "formSound (applyFields s (vxlanSelectionPatch v st))"
    using assms
    by (auto simp: vxlanSelectionPatch_def formSound_def on_def resets_at fixedFrame_at fixedOnly_def isIcmpPacketType_def
        endsWith_def startsWith_def)
  show "formSound (applyFields s (gtpuSelectionPatch v st))"
    using assms
    by (auto simp: gtpuSelectionPatch_def formSound_def on_def resets_at fixedFrame_at fixedOnly_def isIcmpPacketType_def
        endsWith_def startsWith_def fixedModes_at dhcpModeFields_def)
  show "formSound (applyFields s tunnelDisabledPatch)"
    using assms by (auto simp: tunnelDisabledPatch_def gtpuResets_def formSound_def on_def)
qed

lemma applyFields_local: "s f = s' f \<Longrightarrow> applyFields s p f = applyFields s' p f"
  by (simp add: applyFields_at split: option.split)

lemma withMinimum_at:
  "f \<in> set formFields \<Longrightarrow> applyFields s (withMinimumLength v s' n p) f = applyFields s p f"
proof -
  assume f: "f \<in> set formFields"
  have put: "applyFields s (putField p (g, w)) f = applyFields s p f" if "g \<noteq> f" for p g w
    using that
    by (induction p "(g, w)" arbitrary: s rule: putField.induct) (auto intro: applyFields_local)
  have "applyFields s (assignFields p q) f = applyFields s p f" if "list_all (\<lambda>(g, w). g \<noteq> f) q" for p q
    using that by (induction q arbitrary: p) (auto simp: assignFields_def put)
  then show ?thesis using f by (auto simp: withMinimumLength_def minimumFrameLengthPatch_def formFields_def)
qed

lemma applications_sound:
  assumes "formSound s" "apartFrom (take 4 formFields @ drop 6 formFields) p"
    "\<not> (on (applyFields s p) ''dns_enabled'' \<and> on (applyFields s p) ''dhcp_enabled'')"
  shows "formSound (applyFields s p)"
proof -
  have "list_all (\<lambda>f. applyFields s p f = s f) (take 4 formFields @ drop 6 formFields)"
    using apartFrom_at [OF assms(2)] unfolding list_all_iff by blast
  then have at: "applyFields s p ''vxlan_enabled'' = s ''vxlan_enabled''" "applyFields s p ''gtpu_enabled'' = s ''gtpu_enabled''"
    "applyFields s p ''packet_type'' = s ''packet_type''" "applyFields s p ''frame_length_type'' = s ''frame_length_type''"
    "applyFields s p ''mpls_label3_enabled'' = s ''mpls_label3_enabled''"
    "applyFields s p ''mpls_label2_enabled'' = s ''mpls_label2_enabled''"
    by (simp_all add: formFields_def)
  show ?thesis using assms(1,3) unfolding formSound_def on_def at by blast
qed

lemma application_sound:
  assumes "formSound s"
  shows "formSound (applyFields s (dnsSelectionPatch v s))" "formSound (applyFields s (dhcpSelectionPatch v s))"
proof -
  have at: "applyFields s (dnsSelectionPatch v s) ''dns_enabled'' = v"
    "applyFields s (dnsSelectionPatch v s) ''dhcp_enabled'' = whenOn v (FvFlag False) (s ''dhcp_enabled'')"
    "applyFields s (dhcpSelectionPatch v s) ''dhcp_enabled'' = v"
    "applyFields s (dhcpSelectionPatch v s) ''dns_enabled'' = whenOn v (FvFlag False) (s ''dns_enabled'')"
    by (simp_all add: dnsSelectionPatch_def dhcpSelectionPatch_def withMinimum_at Let_def keptField_def forcedField_def
        dhcpModeFields_def unchangedFields_def frameLengthFields_def)
  have apart: "apartFrom (take 4 formFields @ drop 6 formFields) (dnsSelectionPatch v s)"
    "apartFrom (take 4 formFields @ drop 6 formFields) (dhcpSelectionPatch v s)"
    unfolding dnsSelectionPatch_def dhcpSelectionPatch_def withMinimumLength_def Let_def
    by (simp add: apartFrom_assign minimumFrameLengthPatch_def keptField_def forcedField_def dhcpModeFields_def
        unchangedFields_def frameLengthFields_def formFields_def)+
  show "formSound (applyFields s (dnsSelectionPatch v s))"
    by (rule applications_sound [OF assms apart(1)]) (simp add: on_def at whenOn_def)
  show "formSound (applyFields s (dhcpSelectionPatch v s))"
    by (rule applications_sound [OF assms apart(2)]) (simp add: on_def at whenOn_def)
qed

end
