(* ===== verification/StreamKept.thy ===== *)
theory StreamKept
  imports StreamSound
begin

text \<open>
  Every case of the switch keeps a sound form sound and leaves the import alone, and so does every sequence of uses of
  the controls.
\<close>

section \<open>Packet types\<close>

definition carriesPorts :: "string \<Rightarrow> bool" where
  "carriesPorts type' \<longleftrightarrow> protocolName type' = ''TCP'' \<or> protocolName type' = ''UDP''"

lemma packet_type_fields_at:
  assumes "type' \<in> set packetTypes" "f \<in> set formFields"
  shows "applyFields s (packetTypeFields type' st) f
    = (if f = ''vxlan_enabled'' \<or> f = ''gtpu_enabled'' then (if carriesPorts type' then s f else FvFlag False)
       else if f = ''frame_length_type'' then (if fixedOnly type' then fixedMode else s f) else s f)"
proof -
  have names: "map protocolName packetTypes = [''None'', ''None'', ''None'', ''None'', ''UDP'', ''TCP'', ''ICMP'', ''GRE'', ''SCTP'',
      ''UDP'', ''TCP'', ''ICMP'', ''GRE'', ''SCTP'']" by code_simp
  have fixed: "map fixedOnly packetTypes = [False, False, False, False, False, False, True, True, True,
      False, False, True, True, True]" by code_simp
  have type': "type' \<in> {''Ethernet'', ''Ethernet/ARP'', ''Ethernet/IPv4'', ''Ethernet/IPv6'', ''Ethernet/IPv4/UDP'',
      ''Ethernet/IPv4/TCP'', ''Ethernet/IPv4/ICMP'', ''Ethernet/IPv4/GRE'', ''Ethernet/IPv4/SCTP'', ''Ethernet/IPv6/UDP'',
      ''Ethernet/IPv6/TCP'', ''Ethernet/IPv6/ICMPv6'', ''Ethernet/IPv6/GRE'', ''Ethernet/IPv6/SCTP''}"
    using assms(1) by (simp only: packetTypes_def list.set)
  have ne: "f \<noteq> ''mpls_enabled''" "f \<noteq> ''flow_stats_enabled''" "f \<noteq> ''latency_enabled''" "f \<noteq> ''icmp_type''"
    "f \<noteq> ''icmp_code''" "f \<noteq> ''ipv6_src_mode''" "f \<noteq> ''ipv6_dst_mode''" "f \<noteq> ''frame_length''" "f \<noteq> ''frame_length_min''"
    using assms(2) by (auto simp: formFields_def)
  note ns = names [unfolded packetTypes_def list.map list.inject] and fs = fixed [unfolded packetTypes_def list.map list.inject]
  show ?thesis
    using type' unfolding insert_iff empty_iff simp_thms
    by (elim disjE; hypsubst; simp add: packetTypeFields_def carriesPorts_def ns fs resets_at [OF assms(2)] ne tunnelsOff_def
        Let_def)
qed

lemma packet_type_parts:
  assumes "packetTypePatch type' st = Some p"
  obtains a b c where "p = ((''packet_type'', FvText type') # packetTypeFields type' st) @ a @ b @ c"
    "a \<in> {[], sctpResets}" "b \<in> {[], gtpuResets}" "c \<in> {[], vxlanResets}"
    "fvTruthy (streamField st ''vxlan_enabled'') \<or> fvTruthy (streamField st ''gtpu_enabled'') \<longrightarrow> type' = ''Ethernet/IPv4/UDP''"
proof -
  define fields where "fields = (''packet_type'', FvText type') # packetTypeFields type' st"
  define a where "a = (if protocolName type' \<noteq> ''SCTP'' then sctpResets else [])"
  define b where "b = (if patchField (fields @ a) ''gtpu_enabled'' = FvFlag False then gtpuResets else [])"
  define c where "c = (if patchField ((fields @ a) @ b) ''vxlan_enabled'' = FvFlag False then vxlanResets else [])"
  have all: "(if (fvTruthy (streamField st ''vxlan_enabled'') \<or> fvTruthy (streamField st ''gtpu_enabled''))
         \<and> type' \<noteq> ''Ethernet/IPv4/UDP'' then None else Some (((fields @ a) @ b) @ c)) = Some p"
    using assms unfolding packetTypePatch_def Let_def a_def b_def c_def fields_def .
  then have "p = fields @ a @ b @ c"
      "fvTruthy (streamField st ''vxlan_enabled'') \<or> fvTruthy (streamField st ''gtpu_enabled'') \<longrightarrow> type' = ''Ethernet/IPv4/UDP''"
    by (auto split: if_splits)
  moreover have "a \<in> {[], sctpResets}" "b \<in> {[], gtpuResets}" "c \<in> {[], vxlanResets}"
    by (simp_all add: a_def b_def c_def)
  ultimately show thesis using that unfolding fields_def by blast
qed

lemma packet_type_sound:
  assumes "formSound s" "type' \<in> set packetTypes" "packetTypePatch type' (Some s) = Some p"
  shows "formSound (applyFields s p)"
proof -
  obtain a b c where p: "p = ((''packet_type'', FvText type') # packetTypeFields type' (Some s)) @ a @ b @ c"
      and apart: "a \<in> {[], sctpResets}" "b \<in> {[], gtpuResets}" "c \<in> {[], vxlanResets}"
      and tunnel: "fvTruthy (s ''vxlan_enabled'') \<or> fvTruthy (s ''gtpu_enabled'') \<longrightarrow> type' = ''Ethernet/IPv4/UDP''"
    using packet_type_parts [OF assms(3)] unfolding streamField_Some .
  have at: "applyFields s p f = applyFields (s(''packet_type'' := FvText type')) (packetTypeFields type' (Some s)) f"
    if "f \<in> set formFields" for f
  proof -
    have "applyFields s a f = s f" "applyFields s b f = s f" "applyFields s c f = s f" for s
      using apart resets_at [OF that] by auto
    then show ?thesis by (simp add: p)
  qed
  note v = at [THEN trans, OF _ packet_type_fields_at [OF assms(2)]]
  have vals: "applyFields s p ''packet_type'' = FvText type'"
    "applyFields s p ''vxlan_enabled'' = (if carriesPorts type' then s ''vxlan_enabled'' else FvFlag False)"
    "applyFields s p ''gtpu_enabled'' = (if carriesPorts type' then s ''gtpu_enabled'' else FvFlag False)"
    "applyFields s p ''frame_length_type'' = (if fixedOnly type' then fixedMode else s ''frame_length_type'')"
    "applyFields s p ''dns_enabled'' = s ''dns_enabled''" "applyFields s p ''dhcp_enabled'' = s ''dhcp_enabled''"
    "applyFields s p ''mpls_label3_enabled'' = s ''mpls_label3_enabled''"
    "applyFields s p ''mpls_label2_enabled'' = s ''mpls_label2_enabled''"
    by (subst v; simp)+
  show ?thesis
    using assms(1) tunnel unfolding formSound_def on_def vals by (cases "carriesPorts type'"; cases "fixedOnly type'") simp_all
qed

lemma packet_type_import:
  assumes "packetTypePatch type' st = Some p"
  shows "apartFrom [''packet_binary_base64''] p"
proof -
  have fields: "apartFrom [''packet_binary_base64''] (packetTypeFields type' st)"
    unfolding packetTypeFields_def Let_def
    by (simp add: l4PortResets_def udpResets_def icmpResets_def tunnelsOff_def)
  have resets: "apartFrom [''packet_binary_base64''] sctpResets" "apartFrom [''packet_binary_base64''] gtpuResets"
    "apartFrom [''packet_binary_base64''] vxlanResets"
    by (simp_all add: sctpResets_def gtpuResets_def vxlanResets_def)
  obtain a b c where p: "p = ((''packet_type'', FvText type') # packetTypeFields type' st) @ a @ b @ c"
      and parts: "a \<in> {[], sctpResets}" "b \<in> {[], gtpuResets}" "c \<in> {[], vxlanResets}"
    using packet_type_parts [OF assms] .
  have "apartFrom [''packet_binary_base64''] a" "apartFrom [''packet_binary_base64''] b" "apartFrom [''packet_binary_base64''] c"
    using parts resets by auto
  then show ?thesis using fields by (simp add: p)
qed

section \<open>Cases\<close>

text \<open>A patch that leaves the import alone and a sound form sound.\<close>

definition keptPatch :: "EditorStream \<Rightarrow> StreamPatch \<Rightarrow> bool" where
  "keptPatch s p \<longleftrightarrow> apartFrom [''packet_binary_base64''] p \<and> (formSound s \<longrightarrow> formSound (applyFields s p))"

lemma kept_apart: "apartFrom guardedFields p \<Longrightarrow> keptPatch s p"
  using apartFrom_sound [OF guarded_form] by (auto simp: keptPatch_def apartFrom_def guardedFields_def list_all_iff)

lemma kept_form:
  "frameLengthTypePatch v (Some s) = Some p \<Longrightarrow> keptPatch s p"
  "keptPatch s (mplsSecondLabelSelectionPatch v s)" "keptPatch s (mplsThirdLabelSelectionPatch v s)"
  "keptPatch s (icmpTypePatch v (Some s))" "keptPatch s (vxlanInnerIpVersionPatch v st)" "keptPatch s (gtpuInnerIpVersionPatch v st)"
  "keptPatch s (vxlanSelectionPatch v st)" "keptPatch s (gtpuSelectionPatch v st)" "keptPatch s tunnelDisabledPatch"
  "keptPatch s (dnsSelectionPatch v s)" "keptPatch s (dhcpSelectionPatch v s)"
proof -
  show "keptPatch s p" if "frameLengthTypePatch v (Some s) = Some p"
  proof -
    have "apartFrom [''packet_binary_base64''] p"
      using that unfolding frameLengthTypePatch_def Let_def by (auto split: if_splits)
    then show ?thesis using frame_length_type_sound [OF _ that] by (simp add: keptPatch_def)
  qed
  have resets: "apartFrom [''packet_binary_base64''] p" if "apartFrom guardedFields p" for p
    using that by (auto simp: apartFrom_def guardedFields_def list_all_iff)
  have "apartFrom [''packet_binary_base64''] (mplsSecondLabelSelectionPatch v s)"
    "apartFrom [''packet_binary_base64''] (mplsThirdLabelSelectionPatch v s)"
    "apartFrom [''packet_binary_base64''] (vxlanInnerIpVersionPatch v st)"
    "apartFrom [''packet_binary_base64''] (gtpuInnerIpVersionPatch v st)"
    "apartFrom [''packet_binary_base64''] (vxlanSelectionPatch v st)" "apartFrom [''packet_binary_base64''] (gtpuSelectionPatch v st)"
    "apartFrom [''packet_binary_base64''] tunnelDisabledPatch"
    by (simp_all add: mplsSecondLabelSelectionPatch_def mplsThirdLabelSelectionPatch_def keptField_def
        vxlanInnerIpVersionPatch_def gtpuInnerIpVersionPatch_def vxlanSelectionPatch_def gtpuSelectionPatch_def
        tunnelDisabledPatch_def gtpuResets_def resets apart_resets fixedFrame_def fixedModes_def dhcpModeFields_def Let_def)
  then show "keptPatch s (mplsSecondLabelSelectionPatch v s)" "keptPatch s (mplsThirdLabelSelectionPatch v s)"
    "keptPatch s (vxlanInnerIpVersionPatch v st)" "keptPatch s (gtpuInnerIpVersionPatch v st)"
    "keptPatch s (vxlanSelectionPatch v st)" "keptPatch s (gtpuSelectionPatch v st)" "keptPatch s tunnelDisabledPatch"
    using mpls_sound inner_version_sound tunnel_sound by (simp_all add: keptPatch_def)
  have "apartFrom [''packet_binary_base64''] (icmpTypePatch v (Some s))"
    unfolding icmpTypePatch_def Let_def by (simp add: resets apart_resets)
  then show "keptPatch s (icmpTypePatch v (Some s))" using icmp_sound by (simp add: keptPatch_def)
  have "apartFrom [''packet_binary_base64''] (dnsSelectionPatch v s)" "apartFrom [''packet_binary_base64''] (dhcpSelectionPatch v s)"
    unfolding dnsSelectionPatch_def dhcpSelectionPatch_def withMinimumLength_def Let_def
    by (simp add: apartFrom_assign minimumFrameLengthPatch_def keptField_def forcedField_def dhcpModeFields_def
        unchangedFields_def frameLengthFields_def)+
  then show "keptPatch s (dnsSelectionPatch v s)" "keptPatch s (dhcpSelectionPatch v s)"
    using application_sound by (simp_all add: keptPatch_def)
qed

lemma kept_packet_type:
  "type' \<in> set packetTypes \<Longrightarrow> packetTypePatch type' (Some s) = Some p \<Longrightarrow> keptPatch s p"
  using packet_type_sound packet_type_import by (auto simp: keptPatch_def)

definition caseKept :: "string \<Rightarrow> PatchCase \<Rightarrow> bool" where
  "caseKept k c \<longleftrightarrow>
     (\<forall>a s p. typedStream s \<longrightarrow> typedAction a \<longrightarrow> act_kind a = k \<longrightarrow> runPatchCase c a (Some s) = Some p \<longrightarrow> keptPatch s p)"

lemma sets_kept: "f \<notin> set guardedFields \<Longrightarrow> caseKept k (Sets f arg)"
  by (auto simp: caseKept_def intro!: kept_apart)

lemma calls_kept: "(\<And>a s p. typedStream s \<Longrightarrow> g a (Some s) = Some p \<Longrightarrow> keptPatch s p) \<Longrightarrow> caseKept k (Calls g)"
  by (simp add: caseKept_def)

lemma chosen_kept:
  assumes "list_all (\<lambda>(n, f). f \<notin> set guardedFields) names"
  shows "caseKept k (Calls (\<lambda>a s. chosenField names (v a) (w a)))"
  by (rule calls_kept) (rule kept_apart, rule apart_chosen [OF _ assms])

text \<open>The types of the arguments are needed for the flags of TCP and for the packet type.\<close>

lemma shaped_kept:
  assumes "map_of modeShapes k = None" "map_of actionShapes k = Some props"
    "\<And>a s p. typedStream s \<Longrightarrow> list_all (\<lambda>(p, t). hasShapeType (argOf a p) t) props \<Longrightarrow> g a (Some s) = Some p \<Longrightarrow> keptPatch s p"
  shows "caseKept k (Calls g)"
  using assms by (auto simp: caseKept_def typedAction_def)

lemma packet_type_kept:
  "caseKept ''packet-type'' (Calls (\<lambda>a s. packetTypePatch (fvText (argOf a ''packetType'')) s))"
  "caseKept ''l3-selection'' (Calls (\<lambda>a s. Option.bind s (\<lambda>st.
     packetTypePatch (packetTypeForL3Selection (fvText (argOf a ''selection'')) st) (Some st))))"
  "caseKept ''l4-selection'' (Calls (\<lambda>a s. Option.bind s (\<lambda>st.
     packetTypePatch (packetTypeForL4Selection (fvText (argOf a ''selection'')) st) (Some st))))"
  by (rule shaped_kept, simp add: modeShapes_def, simp,
      (auto simp: shape_of_field [OF packet_type_field] intro: kept_packet_type selection_types dest: fvText_typed; fail))+

lemma tcp_flag_kept: "caseKept ''tcp-flag'' (Calls (\<lambda>a s. Some (tcpFlagPatch (argOf a ''flag'') (argOf a ''checked''))))"
  by (rule shaped_kept, simp add: modeShapes_def, simp)
    (auto simp: tcpFlagPatch_def guardedFields_def formFields_def intro!: kept_apart dest!: fvText_typed)

lemma sctp_mode_kept: "caseKept ''sctp-mode'' (Calls (\<lambda>a s. Option.bind s (sctpModePatch a)))"
  by (rule calls_kept)
    (auto simp: sctpModePatch_def guardedFields_def formFields_def split: if_splits intro!: kept_apart apart_options)

lemmas kept_rules = kept_form apart_simple [THEN kept_apart] apart_resets [THEN kept_apart] apart_answer [THEN kept_apart]
  apart_options [THEN kept_apart]

lemmas special_kept = packet_type_kept tcp_flag_kept sctp_mode_kept

lemma sending_kept: "list_all (\<lambda>(k, c). caseKept k c) sendingCases"
  unfolding sendingCases_def list.pred_inject prod.case
  by (intro conjI list.pred_inject(1))
    ((rule sets_kept, (simp add: guard_simps; fail)) | rule special_kept
     | (rule calls_kept, (auto simp: guard_simps intro: kept_rules; fail)))+

lemma ethernet_kept: "list_all (\<lambda>(k, c). caseKept k c) ethernetCases"
  unfolding ethernetCases_def list.pred_inject prod.case
  by (intro conjI list.pred_inject(1))
    ((rule sets_kept, (simp add: guard_simps; fail)) | rule special_kept
     | (rule calls_kept, (auto simp: guard_simps intro: kept_rules; fail)))+

lemma ipv4_kept: "list_all (\<lambda>(k, c). caseKept k c) ipv4Cases"
  unfolding ipv4Cases_def list.pred_inject prod.case
  by (intro conjI list.pred_inject(1))
    ((rule sets_kept, (simp add: guard_simps; fail)) | rule special_kept
     | (rule calls_kept, (auto simp: guard_simps intro: kept_rules; fail)))+

lemma ipv6_kept: "list_all (\<lambda>(k, c). caseKept k c) ipv6Cases"
  unfolding ipv6Cases_def list.pred_inject prod.case
  by (intro conjI list.pred_inject(1))
    ((rule sets_kept, (simp add: guard_simps; fail)) | rule special_kept
     | (rule calls_kept, (auto simp: guard_simps intro: kept_rules; fail)))+

lemma vlan_kept: "list_all (\<lambda>(k, c). caseKept k c) vlanCases"
  unfolding vlanCases_def list.pred_inject prod.case
  by (intro conjI list.pred_inject(1))
    ((rule sets_kept, (simp add: guard_simps; fail)) | rule special_kept
     | (rule calls_kept, (auto simp: guard_simps intro: kept_rules; fail)))+

lemma mpls_kept: "list_all (\<lambda>(k, c). caseKept k c) mplsCases"
  unfolding mplsCases_def list.pred_inject prod.case
  by (intro conjI list.pred_inject(1))
    ((rule sets_kept, (simp add: guard_simps; fail)) | rule special_kept
     | (rule calls_kept, (auto simp: guard_simps intro: kept_rules; fail)))+

lemma transport_kept: "list_all (\<lambda>(k, c). caseKept k c) transportCases"
  unfolding transportCases_def list.pred_inject prod.case
  by (intro conjI list.pred_inject(1))
    ((rule sets_kept, (simp add: guard_simps; fail)) | rule special_kept
     | (rule calls_kept, (auto simp: guard_simps intro: kept_rules; fail)))+

lemma application_kept: "list_all (\<lambda>(k, c). caseKept k c) applicationCases"
  unfolding applicationCases_def list.pred_inject prod.case number_fields text_fields mode_fields
  by (intro conjI list.pred_inject(1))
    ((rule sets_kept, (simp add: guard_simps; fail)) | rule special_kept | (rule chosen_kept, (simp add: guard_simps; fail))
     | (rule calls_kept, (auto simp: guard_simps intro: kept_rules; fail)))+

lemma segment_kept: "list_all (\<lambda>(k, c). caseKept k c) segmentCases"
  unfolding segmentCases_def list.pred_inject prod.case number_fields text_fields mode_fields
  by (intro conjI list.pred_inject(1))
    ((rule sets_kept, (simp add: guard_simps; fail)) | rule special_kept | (rule chosen_kept, (simp add: guard_simps; fail))
     | (rule calls_kept, (auto simp: guard_simps intro: kept_rules; fail)))+

lemma control_kept: "list_all (\<lambda>(k, c). caseKept k c) controlCases"
  unfolding controlCases_def list.pred_inject prod.case
  by (intro conjI list.pred_inject(1))
    ((rule sets_kept, (simp add: guard_simps; fail)) | rule special_kept
     | (rule calls_kept, (auto simp: guard_simps intro: kept_rules; fail)))+

lemma vxlan_kept: "list_all (\<lambda>(k, c). caseKept k c) vxlanCases"
  unfolding vxlanCases_def list.pred_inject prod.case
  by (intro conjI list.pred_inject(1))
    ((rule sets_kept, (simp add: guard_simps; fail)) | rule special_kept
     | (rule calls_kept, (auto simp: guard_simps intro: kept_rules; fail)))+

lemma gtpu_kept: "list_all (\<lambda>(k, c). caseKept k c) gtpuCases"
  unfolding gtpuCases_def list.pred_inject prod.case
  by (intro conjI list.pred_inject(1))
    ((rule sets_kept, (simp add: guard_simps; fail)) | rule special_kept
     | (rule calls_kept, (auto simp: guard_simps intro: kept_rules; fail)))+

lemma gre_kept: "list_all (\<lambda>(k, c). caseKept k c) greCases"
  unfolding greCases_def list.pred_inject prod.case
  by (intro conjI list.pred_inject(1))
    ((rule sets_kept, (simp add: guard_simps; fail)) | rule special_kept
     | (rule calls_kept, (auto simp: guard_simps intro: kept_rules; fail)))+

lemma all_kept: "(k, c) \<in> set selectedStreamPatchCases \<Longrightarrow> caseKept k c"
  using sending_kept ethernet_kept ipv4_kept ipv6_kept vlan_kept mpls_kept transport_kept application_kept
    segment_kept control_kept vxlan_kept gtpu_kept gre_kept
  unfolding selectedStreamPatchCases_def list_all_iff by auto

lemma selected_kept:
  assumes "typedStream s" "typedAction a" "selectedStreamPatch a (Some s) = Some p"
  shows "keptPatch s p"
proof -
  obtain c where c: "map_of selectedStreamPatchCases (act_kind a) = Some c" "runPatchCase c a (Some s) = Some p"
    using assms(3) by (auto simp: selectedStreamPatch_def split: option.splits)
  from all_kept [OF map_of_SomeD [OF c(1)]] show ?thesis using assms(1,2) c(2) by (simp add: caseKept_def)
qed

section \<open>One use of a control\<close>

lemma dropped_typed: "typedPatch droppedImport"
  by (simp add: droppedImport_def hasType.simps)

lemma normalized_typed: "typedPatch p \<Longrightarrow> typedPatch (normalizedPatch p)"
  by (simp add: normalizedPatch_def assign_typed dropped_typed)

text \<open>\<open>Object.assign\<close> on a patch: a new field is set, and the fields of the second patch only.\<close>

lemma putField_new: "map_of p g = None \<Longrightarrow> putField p (g, w) = p @ [(g, w)]"
  by (induction p "(g, w)" rule: putField.induct) (auto split: if_splits)

lemma putField_other: "g \<noteq> f \<Longrightarrow> applyFields s (putField p (g, w)) f = applyFields s p f"
  by (induction p "(g, w)" arbitrary: s rule: putField.induct) (auto intro: applyFields_local)

lemma assign_other: "list_all (\<lambda>(g, w). g \<noteq> f) q \<Longrightarrow> applyFields s (assignFields p q) f = applyFields s p f"
  by (induction q arbitrary: p) (auto simp: assignFields_def putField_other)

lemma apart_none: "apartFrom [f] p \<Longrightarrow> map_of p f = None"
  by (auto simp: apartFrom_def list_all_iff map_of_eq_None_iff)

lemma dropped_import:
  assumes "apartFrom [''packet_binary_base64''] p"
  shows "applyFields s (assignFields p droppedImport) ''packet_binary_base64'' = FvNull"
proof -
  let ?q = "putField p (''packet_binary_base64'', FvNull)"
  have "assignFields p droppedImport = assignFields ?q (tl droppedImport)" by (simp add: assignFields_def droppedImport_def)
  then have "applyFields s (assignFields p droppedImport) ''packet_binary_base64'' = applyFields s ?q ''packet_binary_base64''"
    using assign_other [of "''packet_binary_base64''" "tl droppedImport"] by (simp add: droppedImport_def)
  then show ?thesis by (simp add: putField_new [OF apart_none [OF assms]])
qed

lemma dropped_form: "f \<in> set formFields \<Longrightarrow> applyFields s (assignFields p droppedImport) f = applyFields s p f"
  by (rule assign_other) (auto simp: droppedImport_def formFields_def)

lemma normalized_form: "formSound (applyFields s (normalizedPatch p)) \<longleftrightarrow> formSound (applyFields s p)"
  by (rule formSound_cong) (simp add: normalizedPatch_def dropped_form)

text \<open>The import and the fields of its bytes.\<close>

definition importKept :: "EditorStream \<Rightarrow> EditorStream \<Rightarrow> bool" where
  "importKept s s' \<longleftrightarrow>
     s' ''packet_binary_base64'' = FvNull
     \<or> s' ''packet_binary_base64'' = s ''packet_binary_base64'' \<and> (\<forall>f \<in> set packetBinaryInvalidatingFields. s' f = s f)"

lemma importKept_trans: "importKept s s' \<Longrightarrow> importKept s' s'' \<Longrightarrow> importKept s s''"
  by (auto simp: importKept_def)

lemma patch_import:
  assumes "apartFrom [''packet_binary_base64''] p"
  shows "importKept s (applyFields s (normalizedPatch p))"
proof (cases "clearsImportedPacket p")
  case True
  then show ?thesis by (simp add: importKept_def normalizedPatch_def dropped_import [OF assms])
next
  case False
  have "patchField p ''packet_binary_base64'' = FvUndefined" using apart_none [OF assms] by (simp add: patchField_def)
  then have "map_of p f = None" if "f \<in> set packetBinaryInvalidatingFields" for f
    using False that by (auto simp: clearsImportedPacket_def list_ex_iff patchHas_def)
  then show ?thesis
    using False apart_none [OF assms] by (simp add: importKept_def normalizedPatch_def applyFields_other)
qed

section \<open>A control on the streams\<close>

lemma use_step:
  assumes "\<forall>s \<in> set (wb_streams wb). typedStream s" "typedAction a" "s \<in> set (wb_streams (useControl (i, a) wb))"
  shows "s \<in> set (wb_streams wb)
    \<or> (\<exists>s0 p. s0 \<in> set (wb_streams wb) \<and> typedPatch p \<and> keptPatch s0 p \<and> s = applyFields s0 (normalizedPatch p))"
proof (cases "selectedStreamPatch a (streamAt i wb)")
  case None
  then show ?thesis using assms(3) by (simp add: useControl_cases)
next
  case (Some p)
  show ?thesis
  proof (cases "i < length (wb_streams wb)")
    case True
    let ?s = "wb_streams wb ! i"
    have s: "?s \<in> set (wb_streams wb)" "selectedStreamPatch a (Some ?s) = Some p"
      using True Some by (simp_all add: streamAt_def)
    have "typedPatch p" "keptPatch ?s p"
      using selected_typed selected_kept assms(1,2) s by blast+
    moreover have "s \<in> insert (applyFields ?s (normalizedPatch p)) (set (wb_streams wb))"
      using assms(3) Some True set_update_subset_insert by (fastforce simp: useControl_cases wb_streams_change)
    ultimately show ?thesis using s(1) by auto
  qed (use assms(3) Some in \<open>simp add: useControl_cases wb_streams_change\<close>)
qed

lemma use_typed:
  assumes "\<forall>s \<in> set (wb_streams wb). typedStream s" "typedAction a"
  shows "\<forall>s \<in> set (wb_streams (useControl (i, a) wb)). typedStream s"
  using use_step [OF assms] assms(1) by (blast intro: applyFields_typed normalized_typed)

lemma uses_typed:
  assumes "\<forall>s \<in> set (wb_streams wb). typedStream s" "\<forall>(i, a) \<in> set uses. typedAction a"
  shows "\<forall>s \<in> set (wb_streams (fold useControl uses wb)). typedStream s"
  using assms
proof (induction uses arbitrary: wb)
  case (Cons u uses)
  obtain i a where u: "u = (i, a)" by force
  then show ?case using Cons.IH [of "useControl u wb"] Cons.prems use_typed by force
qed simp

lemma uses_sound:
  assumes "\<forall>s \<in> set (wb_streams wb). typedStream s \<and> formSound s" "\<forall>(i, a) \<in> set uses. typedAction a"
  shows "\<forall>s \<in> set (wb_streams (fold useControl uses wb)). formSound s"
  using assms
proof (induction uses arbitrary: wb)
  case (Cons u uses)
  obtain i a where u: "u = (i, a)" by force
  have a: "typedAction a" using Cons.prems(2) u by simp
  have typed: "\<forall>s \<in> set (wb_streams wb). typedStream s" using Cons.prems(1) by blast
  have "\<forall>s \<in> set (wb_streams (useControl (i, a) wb)). formSound s"
  proof
    fix s
    assume "s \<in> set (wb_streams (useControl (i, a) wb))"
    from use_step [OF typed a this] show "formSound s"
      using Cons.prems(1) normalized_form by (auto simp: keptPatch_def)
  qed
  then show ?case using Cons.IH [of "useControl u wb"] Cons.prems(2) use_typed [OF typed a, of i] u by simp
qed simp

text \<open>The stream at one place.\<close>

lemma use_length: "length (wb_streams (useControl u wb)) = length (wb_streams wb)"
  by (cases u) (simp add: useControl_cases wb_streams_change split: option.split)

lemma use_import:
  assumes "\<forall>s \<in> set (wb_streams wb). typedStream s" "typedAction a" "j < length (wb_streams wb)"
  shows "importKept (wb_streams wb ! j) (wb_streams (useControl (i, a) wb) ! j)"
proof -
  have same: "importKept s s" for s by (simp add: importKept_def)
  show ?thesis
  proof (cases "i = j \<and> selectedStreamPatch a (streamAt i wb) \<noteq> None")
    case False
    then have "wb_streams (useControl (i, a) wb) ! j = wb_streams wb ! j"
      by (cases "i = j") (auto simp: useControl_cases wb_streams_change split: option.split)
    then show ?thesis by (simp add: same)
  next
    case True
    then obtain p where p: "selectedStreamPatch a (Some (wb_streams wb ! j)) = Some p" "i = j"
      using assms(3) by (auto simp: streamAt_def)
    have "keptPatch (wb_streams wb ! j) p" using selected_kept [OF _ assms(2) p(1)] assms(1,3) by simp
    then show ?thesis
      using p assms(3) patch_import by (simp add: useControl_cases wb_streams_change streamAt_def keptPatch_def)
  qed
qed

lemma uses_import:
  assumes "\<forall>s \<in> set (wb_streams wb). typedStream s" "\<forall>(i, a) \<in> set uses. typedAction a" "j < length (wb_streams wb)"
  shows "importKept (wb_streams wb ! j) (wb_streams (fold useControl uses wb) ! j)"
  using assms
proof (induction uses arbitrary: wb)
  case Nil
  then show ?case by (simp add: importKept_def)
next
  case (Cons u uses)
  obtain i a where u: "u = (i, a)" by force
  have a: "typedAction a" "\<forall>(i, a) \<in> set uses. typedAction a" using Cons.prems(2) u by simp_all
  have j: "j < length (wb_streams (useControl u wb))" using Cons.prems(3) by (simp add: use_length)
  have typed: "\<forall>s \<in> set (wb_streams (useControl u wb)). typedStream s" using use_typed [OF Cons.prems(1) a(1)] u by simp
  from Cons.IH [OF typed a(2) j] use_import [OF Cons.prems(1) a(1) Cons.prems(3), of i] show ?case
    using importKept_trans u by simp
qed

end
