(* ===== verification/StreamChecks.thy ===== *)
theory StreamChecks
  imports StreamEditing VmSuffixes JsCollections
begin

text \<open>
  The checks of a stream before it is rendered or saved (\<open>validateWorkbenchStream\<close> of \<open>App.tsx\<close>): the first check
  that fails gives the message. The array of the numeric checks is a table; whether a text is an IPv6 address is
  decided by the \<open>URL\<close> of the browser, here the parameter \<open>urlHost\<close>, the host name it reads, if any. The streams
  are typed, so that a text is read only from a field that holds one.
\<close>

section \<open>Ranges\<close>

definition WORKBENCH_MAX_COUNTER :: int where
  "WORKBENCH_MAX_COUNTER = 4294967295"

definition WORKBENCH_MAX_PG_ID :: int where
  "WORKBENCH_MAX_PG_ID = 16777215"

definition WORKBENCH_MAX_RATE :: int where
  "WORKBENCH_MAX_RATE = 1000000000000"

definition WORKBENCH_MAX_GAP_SECONDS :: int where
  "WORKBENCH_MAX_GAP_SECONDS = 86400"

definition PAGE_PAYLOAD_PATTERN_MAX_HEX_CHARS :: int where
  "PAGE_PAYLOAD_PATTERN_MAX_HEX_CHARS = 1024"

fun inRange :: "FieldValue \<Rightarrow> int \<Rightarrow> int \<Rightarrow> bool" where
  "inRange (FvNumber n) low high \<longleftrightarrow> low \<le> n \<and> n \<le> high"
| "inRange v low high \<longleftrightarrow> False"

definition integerRangeError :: "string \<Rightarrow> FieldValue \<Rightarrow> int \<Rightarrow> int \<Rightarrow> string option" where
  "integerRangeError label value low high =
     failIf (\<not> inRange value low high)
       (label @ '' must be an integer between '' @ decText low @ '' and '' @ decText high @ ''.'')"

definition numberRangeError :: "string \<Rightarrow> FieldValue \<Rightarrow> int \<Rightarrow> int \<Rightarrow> bool \<Rightarrow> string option" where
  "numberRangeError label value low high exclusiveMin =
     failIf (case value of FvNumber n \<Rightarrow> (if exclusiveMin then n \<le> low else n < low) \<or> n > high | _ \<Rightarrow> True)
       (label @ '' must be '' @ (if exclusiveMin then ''greater than'' else ''at least'') @ '' '' @ decText low
        @ '' and no more than '' @ decText high @ ''.'')"

text \<open>The groups of \<open>/^\s*(\d{1,10}(?:\.\d{1,2})?)\s*([KMG])\s*$/i\<close> of a trimmed text.\<close>

definition pageUnitMatch :: "string \<Rightarrow> (string \<times> int) option" where
  "pageUnitMatch s =
     (let whole = takeWhile isDecDigit s; rest = dropWhile isDecDigit s;
          fraction = (if take 1 rest = ''.'' then takeWhile isDecDigit (drop 1 rest) else []);
          number = (if fraction = [] then whole else whole @ ''.'' @ fraction);
          unit = dropWhile isJsSpace (drop (length number) s)
      in if whole = [] \<or> length whole > 10 \<or> length fraction > 2 \<or> unit = [] then None
         else map_option (Pair number) (unitMultiplier unit))"

definition pageUnitCountValue :: "FieldValue \<Rightarrow> FieldValue" where
  "pageUnitCountValue value =
     (case value of
        FvNumber n \<Rightarrow> FvNumber n
      | FvText t \<Rightarrow>
          (let trimmed = jsTrim t in
           if trimmed = [] then FvNaN
           else case truncNumber trimmed of
                  Some n \<Rightarrow> FvNumber n
                | None \<Rightarrow>
                    (case Option.bind (pageUnitMatch trimmed) (\<lambda>(number, multiplier). unitProduct number multiplier) of
                       Some n \<Rightarrow> FvNumber n
                     | None \<Rightarrow> FvNaN))
      | _ \<Rightarrow> FvNaN)"

definition largeUnitCountRangeError :: "string \<Rightarrow> FieldValue \<Rightarrow> int \<Rightarrow> int \<Rightarrow> string option" where
  "largeUnitCountRangeError label value low high =
     failIf (\<not> inRange (pageUnitCountValue value) low high)
       (label @ '' must be an integer or K/M/G count between '' @ decText low @ '' and '' @ decText high @ ''.'')"

section \<open>Texts\<close>

definition isMacAddress :: "string \<Rightarrow> bool" where
  "isMacAddress t \<longleftrightarrow>
     (let parts = splitOn (CHR '':'') t
      in length parts = 6 \<and> list_all (\<lambda>p. length p = 2 \<and> list_all isHexDigit p) parts)"

definition isHexOf :: "nat \<Rightarrow> string \<Rightarrow> bool" where
  "isHexOf n t \<longleftrightarrow> length t = n \<and> list_all isHexDigit t"

definition ipv4AddressValid :: "string \<Rightarrow> bool" where
  "ipv4AddressValid value \<longleftrightarrow>
     (let parts = splitOn (CHR ''.'') value
      in length parts = 4
         \<and> list_all (\<lambda>part. part \<noteq> [] \<and> list_all isDecDigit part
              \<and> (let octet = parseRadix 10 part in octet \<ge> 0 \<and> octet \<le> 255 \<and> decText octet = part)) parts)"

definition ipv6AddressValid :: "(string \<Rightarrow> string option) \<Rightarrow> string \<Rightarrow> bool" where
  "ipv6AddressValid urlHost value \<longleftrightarrow>
     jsTrim value = value \<and> includesText '':'' value
     \<and> (case urlHost (''http://['' @ value @ '']/'') of
          None \<Rightarrow> False | Some hostname \<Rightarrow> startsWith hostname ''['' \<and> endsWith hostname '']'')"

definition isLabelChar :: "char \<Rightarrow> bool" where
  "isLabelChar c \<longleftrightarrow>
     isDecDigit c \<or> (97 \<le> codeOf c \<and> codeOf c \<le> 122) \<or> (65 \<le> codeOf c \<and> codeOf c \<le> 90) \<or> c = CHR ''_''"

definition isDnsLabel :: "string \<Rightarrow> bool" where
  "isDnsLabel label \<longleftrightarrow>
     label \<noteq> [] \<and> length label \<le> 63 \<and> isLabelChar (hd label) \<and> isLabelChar (last label)
     \<and> list_all (\<lambda>c. isLabelChar c \<or> c = CHR ''-'') label"

definition dnsQueryNameValid :: "string \<Rightarrow> bool" where
  "dnsQueryNameValid value \<longleftrightarrow>
     \<not> (jsTrim value \<noteq> value \<or> value = [] \<or> length value > 253 \<or> CHR 0x00 \<in> set value)
     \<and> list_all isDnsLabel (splitOn (CHR ''.'') (dropFinalDot value))"

definition dhcpHostnameValid :: "string \<Rightarrow> bool" where
  "dhcpHostnameValid value \<longleftrightarrow>
     jsTrim value = value \<and> length value \<le> 63 \<and> CHR 0x00 \<notin> set value
     \<and> list_all (\<lambda>c. isLabelChar c \<or> c = CHR ''.'' \<or> c = CHR ''-'') value"

definition dhcpRequestTokens :: "string \<Rightarrow> string list" where
  "dhcpRequestTokens candidate =
     filter (\<lambda>t. t \<noteq> []) (splitOn (CHR '','') (map (\<lambda>c. if isJsSpace c then CHR '','' else c) candidate))"

definition dhcpParameterRequestListValid :: "string \<Rightarrow> bool" where
  "dhcpParameterRequestListValid value \<longleftrightarrow>
     (let candidate = jsTrim value; tokens = dhcpRequestTokens candidate
      in if candidate = [] then True
         else length tokens \<le> 255
           \<and> list_all (\<lambda>token. 1 \<le> length token \<and> length token \<le> 3 \<and> list_all isDecDigit token
                \<and> 0 \<le> parseRadix 10 token \<and> parseRadix 10 token \<le> 255) tokens)"

section \<open>Numeric checks\<close>

datatype NumericCheck =
    IntegerRange string string int int
  | NumberRange string string int int bool
  | UnitCountRange string string int int
  | RequestList

fun numericCheck :: "string \<Rightarrow> EditorStream \<Rightarrow> NumericCheck \<Rightarrow> string option" where
  "numericCheck prefix stream (IntegerRange label f low high) = integerRangeError (prefix @ '': '' @ label) (stream f) low high"
| "numericCheck prefix stream (NumberRange label f low high exclusiveMin) =
     numberRangeError (prefix @ '': '' @ label) (stream f) low high exclusiveMin"
| "numericCheck prefix stream (UnitCountRange label f low high) =
     largeUnitCountRangeError (prefix @ '': '' @ label) (stream f) low high"
| "numericCheck prefix stream RequestList =
     failIf (\<not> dhcpParameterRequestListValid (fvText (stream ''dhcp_parameter_request_list'')))
       (prefix @ '': DHCP parameter request list must contain option numbers between 0 and 255.'')"

definition numericChecks1 :: "NumericCheck list" where
  "numericChecks1 =
     [IntegerRange ''Length'' ''frame_length'' 64 9216,
      IntegerRange ''Minimum length'' ''frame_length_min'' 64 9216,
      IntegerRange ''Maximum length'' ''frame_length_max'' 64 9216,
      NumberRange ''Rate'' ''rate_value'' 0 WORKBENCH_MAX_RATE True,
      IntegerRange ''Number of Packets'' ''total_pkts'' 1 WORKBENCH_MAX_COUNTER,
      IntegerRange ''Number of Burst'' ''count'' 1 WORKBENCH_MAX_COUNTER,
      IntegerRange ''Packets per Burst'' ''pkts_per_burst'' 1 WORKBENCH_MAX_COUNTER,
      IntegerRange ''Action count'' ''action_count'' 0 WORKBENCH_MAX_COUNTER,
      NumberRange ''ISG'' ''isg'' 0 WORKBENCH_MAX_GAP_SECONDS False,
      NumberRange ''IBG'' ''ibg'' 0 WORKBENCH_MAX_GAP_SECONDS False,
      IntegerRange ''PG ID'' ''pg_id'' 0 WORKBENCH_MAX_PG_ID,
      IntegerRange ''VLAN priority'' ''vlan_priority'' 0 7,
      IntegerRange ''VLAN priority count'' ''vlan_priority_count'' 2 8,
      IntegerRange ''VLAN priority step'' ''vlan_priority_step'' 1 7,
      IntegerRange ''VLAN CFI/DEI'' ''vlan_cfi'' 0 1,
      IntegerRange ''VLAN ID'' ''vlan_id'' 0 4094,
      IntegerRange ''VLAN ID count'' ''vlan_id_count'' 2 4095,
      IntegerRange ''VLAN ID step'' ''vlan_id_step'' 1 4094,
      IntegerRange ''MPLS label'' ''mpls_label'' 0 1048575,
      IntegerRange ''MPLS label count'' ''mpls_label_count'' 2 1048576,
      IntegerRange ''MPLS label step'' ''mpls_label_step'' 1 1048575,
      IntegerRange ''MPLS traffic class'' ''mpls_tc'' 0 7,
      IntegerRange ''MPLS traffic class count'' ''mpls_tc_count'' 2 8,
      IntegerRange ''MPLS traffic class step'' ''mpls_tc_step'' 1 7,
      IntegerRange ''MPLS TTL'' ''mpls_ttl'' 0 255,
      IntegerRange ''MPLS TTL count'' ''mpls_ttl_count'' 2 256,
      IntegerRange ''MPLS TTL step'' ''mpls_ttl_step'' 1 255,
      IntegerRange ''MPLS label 2'' ''mpls_label2'' 0 1048575,
      IntegerRange ''MPLS label 2 count'' ''mpls_label2_count'' 2 1048576,
      IntegerRange ''MPLS label 2 step'' ''mpls_label2_step'' 1 1048575,
      IntegerRange ''MPLS label 2 traffic class'' ''mpls_label2_tc'' 0 7,
      IntegerRange ''MPLS label 2 traffic class count'' ''mpls_label2_tc_count'' 2 8,
      IntegerRange ''MPLS label 2 traffic class step'' ''mpls_label2_tc_step'' 1 7,
      IntegerRange ''MPLS label 2 TTL'' ''mpls_label2_ttl'' 0 255,
      IntegerRange ''MPLS label 2 TTL count'' ''mpls_label2_ttl_count'' 2 256,
      IntegerRange ''MPLS label 2 TTL step'' ''mpls_label2_ttl_step'' 1 255,
      IntegerRange ''MPLS label 3'' ''mpls_label3'' 0 1048575,
      IntegerRange ''MPLS label 3 count'' ''mpls_label3_count'' 2 1048576,
      IntegerRange ''MPLS label 3 step'' ''mpls_label3_step'' 1 1048575,
      IntegerRange ''MPLS label 3 traffic class'' ''mpls_label3_tc'' 0 7,
      IntegerRange ''MPLS label 3 traffic class count'' ''mpls_label3_tc_count'' 2 8,
      IntegerRange ''MPLS label 3 traffic class step'' ''mpls_label3_tc_step'' 1 7,
      IntegerRange ''MPLS label 3 TTL'' ''mpls_label3_ttl'' 0 255,
      IntegerRange ''MPLS label 3 TTL count'' ''mpls_label3_ttl_count'' 2 256,
      IntegerRange ''MPLS label 3 TTL step'' ''mpls_label3_ttl_step'' 1 255,
      IntegerRange ''VXLAN VNI'' ''vxlan_vni'' 0 16777215,
      IntegerRange ''VXLAN VNI count'' ''vxlan_vni_count'' 2 16777216,
      IntegerRange ''VXLAN VNI step'' ''vxlan_vni_step'' 1 16777215,
      IntegerRange ''VXLAN inner IPv4 source count'' ''vxlan_inner_ipv4_src_count'' 2 100000000,
      IntegerRange ''VXLAN inner IPv4 source step'' ''vxlan_inner_ipv4_src_step'' 1 100000000,
      IntegerRange ''VXLAN inner IPv4 destination count'' ''vxlan_inner_ipv4_dst_count'' 2 100000000,
      IntegerRange ''VXLAN inner IPv4 destination step'' ''vxlan_inner_ipv4_dst_step'' 1 100000000,
      IntegerRange ''VXLAN inner IPv4 TTL'' ''vxlan_inner_ipv4_ttl'' 0 255,
      IntegerRange ''VXLAN inner IPv4 TTL count'' ''vxlan_inner_ipv4_ttl_count'' 2 256,
      IntegerRange ''VXLAN inner IPv4 TTL step'' ''vxlan_inner_ipv4_ttl_step'' 1 255,
      IntegerRange ''VXLAN inner IPv6 source count'' ''vxlan_inner_ipv6_src_count'' 2 100000000,
      IntegerRange ''VXLAN inner IPv6 source step'' ''vxlan_inner_ipv6_src_step'' 1 100000000,
      IntegerRange ''VXLAN inner IPv6 destination count'' ''vxlan_inner_ipv6_dst_count'' 2 100000000,
      IntegerRange ''VXLAN inner IPv6 destination step'' ''vxlan_inner_ipv6_dst_step'' 1 100000000,
      IntegerRange ''VXLAN inner IPv6 hop limit'' ''vxlan_inner_ipv6_hop_limit'' 0 255,
      IntegerRange ''VXLAN inner IPv6 hop limit count'' ''vxlan_inner_ipv6_hop_limit_count'' 2 256,
      IntegerRange ''VXLAN inner IPv6 hop limit step'' ''vxlan_inner_ipv6_hop_limit_step'' 1 255,
      IntegerRange ''VXLAN inner source port'' ''vxlan_inner_l4_src_port'' 0 65535,
      IntegerRange ''VXLAN inner source port count'' ''vxlan_inner_l4_src_port_count'' 2 65536,
      IntegerRange ''VXLAN inner source port step'' ''vxlan_inner_l4_src_port_step'' 1 65535,
      IntegerRange ''VXLAN inner destination port'' ''vxlan_inner_l4_dst_port'' 0 65535,
      IntegerRange ''VXLAN inner destination port count'' ''vxlan_inner_l4_dst_port_count'' 2 65536,
      IntegerRange ''VXLAN inner destination port step'' ''vxlan_inner_l4_dst_port_step'' 1 65535,
      IntegerRange ''GTP-U message type'' ''gtpu_message_type'' 0 255,
      IntegerRange ''GTP-U TEID'' ''gtpu_teid'' 0 WORKBENCH_MAX_COUNTER,
      IntegerRange ''GTP-U TEID count'' ''gtpu_teid_count'' 2 4294967296,
      IntegerRange ''GTP-U TEID step'' ''gtpu_teid_step'' 1 WORKBENCH_MAX_COUNTER,
      IntegerRange ''GTP-U sequence'' ''gtpu_sequence'' 0 65535,
      IntegerRange ''GTP-U sequence count'' ''gtpu_sequence_count'' 2 65536,
      IntegerRange ''GTP-U sequence step'' ''gtpu_sequence_step'' 1 65535,
      IntegerRange ''GTP-U N-PDU number'' ''gtpu_npdu'' 0 255,
      IntegerRange ''GTP-U N-PDU count'' ''gtpu_npdu_count'' 2 256,
      IntegerRange ''GTP-U N-PDU step'' ''gtpu_npdu_step'' 1 255,
      IntegerRange ''GTP-U extension UDP port'' ''gtpu_extension_udp_port'' 0 65535,
      IntegerRange ''GTP-U extension UDP port count'' ''gtpu_extension_udp_port_count'' 2 65536,
      IntegerRange ''GTP-U extension UDP port step'' ''gtpu_extension_udp_port_step'' 1 65535,
      IntegerRange ''GTP-U inner IPv4 source count'' ''gtpu_inner_ipv4_src_count'' 2 100000000,
      IntegerRange ''GTP-U inner IPv4 source step'' ''gtpu_inner_ipv4_src_step'' 1 100000000,
      IntegerRange ''GTP-U inner IPv4 destination count'' ''gtpu_inner_ipv4_dst_count'' 2 100000000,
      IntegerRange ''GTP-U inner IPv4 destination step'' ''gtpu_inner_ipv4_dst_step'' 1 100000000,
      IntegerRange ''GTP-U inner IPv4 TTL'' ''gtpu_inner_ipv4_ttl'' 0 255,
      IntegerRange ''GTP-U inner IPv4 TTL count'' ''gtpu_inner_ipv4_ttl_count'' 2 256,
      IntegerRange ''GTP-U inner IPv4 TTL step'' ''gtpu_inner_ipv4_ttl_step'' 1 255,
      IntegerRange ''GTP-U inner IPv6 source count'' ''gtpu_inner_ipv6_src_count'' 2 100000000,
      IntegerRange ''GTP-U inner IPv6 source step'' ''gtpu_inner_ipv6_src_step'' 1 100000000,
      IntegerRange ''GTP-U inner IPv6 destination count'' ''gtpu_inner_ipv6_dst_count'' 2 100000000,
      IntegerRange ''GTP-U inner IPv6 destination step'' ''gtpu_inner_ipv6_dst_step'' 1 100000000,
      IntegerRange ''GTP-U inner IPv6 hop limit'' ''gtpu_inner_ipv6_hop_limit'' 0 255,
      IntegerRange ''GTP-U inner IPv6 hop limit count'' ''gtpu_inner_ipv6_hop_limit_count'' 2 256,
      IntegerRange ''GTP-U inner IPv6 hop limit step'' ''gtpu_inner_ipv6_hop_limit_step'' 1 255,
      IntegerRange ''GTP-U inner source port'' ''gtpu_inner_l4_src_port'' 0 65535,
      IntegerRange ''GTP-U inner source port count'' ''gtpu_inner_l4_src_port_count'' 2 65536,
      IntegerRange ''GTP-U inner source port step'' ''gtpu_inner_l4_src_port_step'' 1 65535,
      IntegerRange ''GTP-U inner destination port'' ''gtpu_inner_l4_dst_port'' 0 65535,
      IntegerRange ''GTP-U inner destination port count'' ''gtpu_inner_l4_dst_port_count'' 2 65536,
      IntegerRange ''GTP-U inner destination port step'' ''gtpu_inner_l4_dst_port_step'' 1 65535,
      IntegerRange ''GRE key'' ''gre_key'' 0 WORKBENCH_MAX_COUNTER,
      IntegerRange ''GRE key count'' ''gre_key_count'' 2 4294967296,
      IntegerRange ''GRE key step'' ''gre_key_step'' 1 WORKBENCH_MAX_COUNTER,
      IntegerRange ''GRE sequence'' ''gre_sequence'' 0 WORKBENCH_MAX_COUNTER,
      IntegerRange ''GRE sequence count'' ''gre_sequence_count'' 2 4294967296,
      IntegerRange ''GRE sequence step'' ''gre_sequence_step'' 1 WORKBENCH_MAX_COUNTER,
      IntegerRange ''GRE inner IPv4 source count'' ''gre_inner_ipv4_src_count'' 2 100000000,
      IntegerRange ''GRE inner IPv4 source step'' ''gre_inner_ipv4_src_step'' 1 100000000,
      IntegerRange ''GRE inner IPv4 destination count'' ''gre_inner_ipv4_dst_count'' 2 100000000]"

definition numericChecks2 :: "NumericCheck list" where
  "numericChecks2 =
     [IntegerRange ''GRE inner IPv4 destination step'' ''gre_inner_ipv4_dst_step'' 1 100000000,
      IntegerRange ''GRE inner IPv4 TTL'' ''gre_inner_ipv4_ttl'' 0 255,
      IntegerRange ''GRE inner IPv4 TTL count'' ''gre_inner_ipv4_ttl_count'' 2 256,
      IntegerRange ''GRE inner IPv4 TTL step'' ''gre_inner_ipv4_ttl_step'' 1 255,
      IntegerRange ''GRE inner IPv6 source count'' ''gre_inner_ipv6_src_count'' 2 100000000,
      IntegerRange ''GRE inner IPv6 source step'' ''gre_inner_ipv6_src_step'' 1 100000000,
      IntegerRange ''GRE inner IPv6 destination count'' ''gre_inner_ipv6_dst_count'' 2 100000000,
      IntegerRange ''GRE inner IPv6 destination step'' ''gre_inner_ipv6_dst_step'' 1 100000000,
      IntegerRange ''GRE inner IPv6 hop limit'' ''gre_inner_ipv6_hop_limit'' 0 255,
      IntegerRange ''GRE inner IPv6 hop limit count'' ''gre_inner_ipv6_hop_limit_count'' 2 256,
      IntegerRange ''GRE inner IPv6 hop limit step'' ''gre_inner_ipv6_hop_limit_step'' 1 255,
      IntegerRange ''GRE inner source port'' ''gre_inner_l4_src_port'' 0 65535,
      IntegerRange ''GRE inner source port count'' ''gre_inner_l4_src_port_count'' 2 65536,
      IntegerRange ''GRE inner source port step'' ''gre_inner_l4_src_port_step'' 1 65535,
      IntegerRange ''GRE inner destination port'' ''gre_inner_l4_dst_port'' 0 65535,
      IntegerRange ''GRE inner destination port count'' ''gre_inner_l4_dst_port_count'' 2 65536,
      IntegerRange ''GRE inner destination port step'' ''gre_inner_l4_dst_port_step'' 1 65535,
      IntegerRange ''Ethernet destination count'' ''ether_dst_count'' 1 9999,
      IntegerRange ''Ethernet destination step'' ''ether_dst_step'' 1 999,
      IntegerRange ''Ethernet source count'' ''ether_src_count'' 1 9999,
      IntegerRange ''Ethernet source step'' ''ether_src_step'' 1 999,
      IntegerRange ''VLAN inner priority'' ''vlan2_priority'' 0 7,
      IntegerRange ''VLAN inner priority count'' ''vlan2_priority_count'' 2 8,
      IntegerRange ''VLAN inner priority step'' ''vlan2_priority_step'' 1 7,
      IntegerRange ''VLAN inner CFI DEI'' ''vlan2_cfi'' 0 1,
      IntegerRange ''VLAN inner ID'' ''vlan2_id'' 0 4094,
      IntegerRange ''VLAN inner ID count'' ''vlan2_id_count'' 2 4095,
      IntegerRange ''VLAN inner ID step'' ''vlan2_id_step'' 1 4094,
      IntegerRange ''ARP hardware type'' ''arp_hardware_type'' 0 65535,
      IntegerRange ''ARP hardware size'' ''arp_hardware_size'' 0 255,
      IntegerRange ''ARP protocol size'' ''arp_protocol_size'' 0 255,
      IntegerRange ''ARP operation'' ''arp_operation'' 0 65535,
      IntegerRange ''ARP operation count'' ''arp_operation_count'' 2 65536,
      IntegerRange ''ARP operation step'' ''arp_operation_step'' 1 65535,
      IntegerRange ''ARP sender MAC count'' ''arp_sender_mac_count'' 2 100000000,
      IntegerRange ''ARP sender MAC step'' ''arp_sender_mac_step'' 1 100000000,
      IntegerRange ''ARP sender IP count'' ''arp_sender_ip_count'' 2 100000000,
      IntegerRange ''ARP sender IP step'' ''arp_sender_ip_step'' 1 100000000,
      IntegerRange ''ARP target MAC count'' ''arp_target_mac_count'' 2 100000000,
      IntegerRange ''ARP target MAC step'' ''arp_target_mac_step'' 1 100000000,
      IntegerRange ''ARP target IP count'' ''arp_target_ip_count'' 2 100000000,
      IntegerRange ''ARP target IP step'' ''arp_target_ip_step'' 1 100000000,
      UnitCountRange ''IPv4 source count'' ''ipv4_src_count'' 2 100000000,
      IntegerRange ''IPv4 source step'' ''ipv4_src_step'' 1 100000000,
      UnitCountRange ''IPv4 destination count'' ''ipv4_dst_count'' 2 100000000,
      IntegerRange ''IPv4 destination step'' ''ipv4_dst_step'' 1 100000000,
      IntegerRange ''IPv4 DSCP'' ''ipv4_dscp'' 0 63,
      IntegerRange ''IPv4 DSCP count'' ''ipv4_dscp_count'' 2 64,
      IntegerRange ''IPv4 DSCP step'' ''ipv4_dscp_step'' 1 63,
      IntegerRange ''IPv4 ECN'' ''ipv4_ecn'' 0 3,
      IntegerRange ''IPv4 ECN count'' ''ipv4_ecn_count'' 2 4,
      IntegerRange ''IPv4 ECN step'' ''ipv4_ecn_step'' 1 3,
      IntegerRange ''IPv4 identification'' ''ipv4_id'' 0 65535,
      IntegerRange ''IPv4 identification count'' ''ipv4_id_count'' 2 65536,
      IntegerRange ''IPv4 identification step'' ''ipv4_id_step'' 1 65535,
      IntegerRange ''IPv4 fragment offset'' ''ipv4_fragment_offset'' 0 8191,
      IntegerRange ''IPv4 fragment offset count'' ''ipv4_fragment_offset_count'' 2 8192,
      IntegerRange ''IPv4 fragment offset step'' ''ipv4_fragment_offset_step'' 1 8191,
      IntegerRange ''IPv4 TTL'' ''ipv4_ttl'' 0 255,
      IntegerRange ''IPv4 TTL count'' ''ipv4_ttl_count'' 2 256,
      IntegerRange ''IPv4 TTL step'' ''ipv4_ttl_step'' 1 255,
      IntegerRange ''IPv6 source count'' ''ipv6_src_count'' 2 100000000,
      IntegerRange ''IPv6 source step'' ''ipv6_src_step'' 1 100000000,
      IntegerRange ''IPv6 destination count'' ''ipv6_dst_count'' 2 100000000,
      IntegerRange ''IPv6 destination step'' ''ipv6_dst_step'' 1 100000000,
      IntegerRange ''IPv6 traffic class'' ''ipv6_traffic_class'' 0 255,
      IntegerRange ''IPv6 traffic class count'' ''ipv6_traffic_class_count'' 2 256,
      IntegerRange ''IPv6 traffic class step'' ''ipv6_traffic_class_step'' 1 255,
      IntegerRange ''IPv6 flow label'' ''ipv6_flow_label'' 0 1048575,
      IntegerRange ''IPv6 flow label count'' ''ipv6_flow_label_count'' 2 1048576,
      IntegerRange ''IPv6 flow label step'' ''ipv6_flow_label_step'' 1 1048575,
      IntegerRange ''IPv6 hop limit'' ''ipv6_hop_limit'' 0 255,
      IntegerRange ''IPv6 hop limit count'' ''ipv6_hop_limit_count'' 2 256,
      IntegerRange ''IPv6 hop limit step'' ''ipv6_hop_limit_step'' 1 255,
      IntegerRange ''L4 source port'' ''l4_src_port'' 0 65535,
      IntegerRange ''L4 destination port'' ''l4_dst_port'' 0 65535,
      IntegerRange ''UDP length'' ''udp_length'' 8 65535,
      IntegerRange ''UDP length count'' ''udp_length_count'' 2 65528,
      IntegerRange ''UDP length step'' ''udp_length_step'' 1 65527,
      IntegerRange ''UDP checksum count'' ''udp_checksum_count'' 2 65536,
      IntegerRange ''UDP checksum step'' ''udp_checksum_step'' 1 65535,
      IntegerRange ''DNS transaction ID'' ''dns_transaction_id'' 0 65535,
      IntegerRange ''DNS transaction ID count'' ''dns_transaction_id_count'' 2 65536,
      IntegerRange ''DNS transaction ID step'' ''dns_transaction_id_step'' 1 65535,
      IntegerRange ''DNS flags count'' ''dns_flags_count'' 2 65536,
      IntegerRange ''DNS flags step'' ''dns_flags_step'' 1 65535,
      IntegerRange ''DNS query type'' ''dns_query_type'' 0 65535,
      IntegerRange ''DNS query type count'' ''dns_query_type_count'' 2 65536,
      IntegerRange ''DNS query type step'' ''dns_query_type_step'' 1 65535,
      IntegerRange ''DNS query class'' ''dns_query_class'' 0 65535,
      IntegerRange ''DNS query class count'' ''dns_query_class_count'' 2 65536,
      IntegerRange ''DNS query class step'' ''dns_query_class_step'' 1 65535,
      IntegerRange ''DNS answer TTL'' ''dns_answer_ttl'' 0 WORKBENCH_MAX_COUNTER,
      IntegerRange ''DNS answer TTL count'' ''dns_answer_ttl_count'' 2 4294967296,
      IntegerRange ''DNS answer TTL step'' ''dns_answer_ttl_step'' 1 WORKBENCH_MAX_COUNTER,
      IntegerRange ''DNS answer IPv4 count'' ''dns_answer_ipv4_count'' 2 100000000,
      IntegerRange ''DNS answer IPv4 step'' ''dns_answer_ipv4_step'' 1 100000000,
      IntegerRange ''DHCP operation'' ''dhcp_operation'' 1 255,
      IntegerRange ''DHCP operation count'' ''dhcp_operation_count'' 2 256,
      IntegerRange ''DHCP operation step'' ''dhcp_operation_step'' 1 255,
      IntegerRange ''DHCP hops'' ''dhcp_hops'' 0 255,
      IntegerRange ''DHCP hops count'' ''dhcp_hops_count'' 2 256,
      IntegerRange ''DHCP hops step'' ''dhcp_hops_step'' 1 255,
      IntegerRange ''DHCP seconds'' ''dhcp_seconds'' 0 65535,
      IntegerRange ''DHCP seconds count'' ''dhcp_seconds_count'' 2 65536,
      IntegerRange ''DHCP seconds step'' ''dhcp_seconds_step'' 1 65535,
      IntegerRange ''DHCP message type'' ''dhcp_message_type'' 1 255,
      IntegerRange ''DHCP message type count'' ''dhcp_message_type_count'' 2 255,
      IntegerRange ''DHCP message type step'' ''dhcp_message_type_step'' 1 254,
      IntegerRange ''DHCP XID'' ''dhcp_xid'' 0 WORKBENCH_MAX_COUNTER]"

definition numericChecks3 :: "NumericCheck list" where
  "numericChecks3 =
     [IntegerRange ''DHCP XID count'' ''dhcp_xid_count'' 2 4294967296,
      IntegerRange ''DHCP XID step'' ''dhcp_xid_step'' 1 WORKBENCH_MAX_COUNTER,
      IntegerRange ''DHCP flags count'' ''dhcp_flags_count'' 2 65536,
      IntegerRange ''DHCP flags step'' ''dhcp_flags_step'' 1 65535,
      IntegerRange ''DHCP client IP count'' ''dhcp_client_ip_count'' 2 100000000,
      IntegerRange ''DHCP client IP step'' ''dhcp_client_ip_step'' 1 100000000,
      IntegerRange ''DHCP your IP count'' ''dhcp_your_ip_count'' 2 100000000,
      IntegerRange ''DHCP your IP step'' ''dhcp_your_ip_step'' 1 100000000,
      IntegerRange ''DHCP server IP count'' ''dhcp_server_ip_count'' 2 100000000,
      IntegerRange ''DHCP server IP step'' ''dhcp_server_ip_step'' 1 100000000,
      IntegerRange ''DHCP relay IP count'' ''dhcp_relay_ip_count'' 2 100000000,
      IntegerRange ''DHCP relay IP step'' ''dhcp_relay_ip_step'' 1 100000000,
      IntegerRange ''DHCP client MAC count'' ''dhcp_client_mac_count'' 2 100000000,
      IntegerRange ''DHCP client MAC step'' ''dhcp_client_mac_step'' 1 100000000,
      IntegerRange ''DHCP requested IP count'' ''dhcp_requested_ip_count'' 2 100000000,
      IntegerRange ''DHCP requested IP step'' ''dhcp_requested_ip_step'' 1 100000000,
      IntegerRange ''DHCP server ID count'' ''dhcp_server_id_count'' 2 100000000,
      IntegerRange ''DHCP server ID step'' ''dhcp_server_id_step'' 1 100000000,
      RequestList,
      IntegerRange ''DHCP lease time'' ''dhcp_lease_time'' 0 WORKBENCH_MAX_COUNTER,
      IntegerRange ''DHCP lease time count'' ''dhcp_lease_time_count'' 2 4294967296,
      IntegerRange ''DHCP lease time step'' ''dhcp_lease_time_step'' 1 WORKBENCH_MAX_COUNTER,
      IntegerRange ''DHCP renewal time'' ''dhcp_renewal_time'' 0 WORKBENCH_MAX_COUNTER,
      IntegerRange ''DHCP renewal time count'' ''dhcp_renewal_time_count'' 2 4294967296,
      IntegerRange ''DHCP renewal time step'' ''dhcp_renewal_time_step'' 1 WORKBENCH_MAX_COUNTER,
      IntegerRange ''DHCP rebinding time'' ''dhcp_rebinding_time'' 0 WORKBENCH_MAX_COUNTER,
      IntegerRange ''DHCP rebinding time count'' ''dhcp_rebinding_time_count'' 2 4294967296,
      IntegerRange ''DHCP rebinding time step'' ''dhcp_rebinding_time_step'' 1 WORKBENCH_MAX_COUNTER,
      IntegerRange ''ICMP type'' ''icmp_type'' 0 255,
      IntegerRange ''ICMP type count'' ''icmp_type_count'' 2 256,
      IntegerRange ''ICMP type step'' ''icmp_type_step'' 1 255,
      IntegerRange ''ICMP code'' ''icmp_code'' 0 255,
      IntegerRange ''ICMP code count'' ''icmp_code_count'' 2 256,
      IntegerRange ''ICMP code step'' ''icmp_code_step'' 1 255,
      IntegerRange ''ICMP identifier'' ''icmp_identifier'' 0 65535,
      IntegerRange ''ICMP identifier count'' ''icmp_identifier_count'' 2 65536,
      IntegerRange ''ICMP identifier step'' ''icmp_identifier_step'' 1 65535,
      IntegerRange ''ICMP sequence'' ''icmp_sequence'' 0 65535,
      IntegerRange ''ICMP sequence count'' ''icmp_sequence_count'' 2 65536,
      IntegerRange ''ICMP sequence step'' ''icmp_sequence_step'' 1 65535,
      IntegerRange ''ICMPv6 RA current hop limit'' ''icmpv6_ra_cur_hop_limit'' 0 255,
      IntegerRange ''ICMPv6 RA router lifetime'' ''icmpv6_ra_router_lifetime'' 0 65535,
      IntegerRange ''ICMPv6 RA reachable time'' ''icmpv6_ra_reachable_time'' 0 WORKBENCH_MAX_COUNTER,
      IntegerRange ''ICMPv6 RA retrans timer'' ''icmpv6_ra_retrans_timer'' 0 WORKBENCH_MAX_COUNTER,
      IntegerRange ''ICMPv6 RA prefix length'' ''icmpv6_ra_prefix_length'' 0 128,
      IntegerRange ''ICMPv6 RA prefix valid lifetime'' ''icmpv6_ra_prefix_valid_lifetime'' 0 WORKBENCH_MAX_COUNTER,
      IntegerRange ''ICMPv6 RA prefix preferred lifetime'' ''icmpv6_ra_prefix_preferred_lifetime'' 0 WORKBENCH_MAX_COUNTER,
      IntegerRange ''TCP sequence number'' ''tcp_sequence_number'' 0 WORKBENCH_MAX_COUNTER,
      IntegerRange ''TCP sequence count'' ''tcp_sequence_count'' 2 4294967296,
      IntegerRange ''TCP sequence step'' ''tcp_sequence_step'' 1 WORKBENCH_MAX_COUNTER,
      IntegerRange ''TCP acknowledge number'' ''tcp_ack_number'' 0 WORKBENCH_MAX_COUNTER,
      IntegerRange ''TCP acknowledge count'' ''tcp_ack_count'' 2 4294967296,
      IntegerRange ''TCP acknowledge step'' ''tcp_ack_step'' 1 WORKBENCH_MAX_COUNTER,
      IntegerRange ''TCP window'' ''tcp_window'' 0 65535,
      IntegerRange ''TCP window count'' ''tcp_window_count'' 2 65536,
      IntegerRange ''TCP window step'' ''tcp_window_step'' 1 65535,
      IntegerRange ''TCP checksum count'' ''tcp_checksum_count'' 2 65536,
      IntegerRange ''TCP checksum step'' ''tcp_checksum_step'' 1 65535,
      IntegerRange ''TCP option MSS'' ''tcp_option_mss'' 0 65535,
      IntegerRange ''TCP option MSS count'' ''tcp_option_mss_count'' 2 65536,
      IntegerRange ''TCP option MSS step'' ''tcp_option_mss_step'' 1 65535,
      IntegerRange ''TCP option Window Scale'' ''tcp_option_window_scale'' 0 14,
      IntegerRange ''TCP option Window Scale count'' ''tcp_option_window_scale_count'' 2 256,
      IntegerRange ''TCP option Window Scale step'' ''tcp_option_window_scale_step'' 1 255,
      IntegerRange ''TCP option SACK left edge'' ''tcp_option_sack_left_edge'' 0 WORKBENCH_MAX_COUNTER,
      IntegerRange ''TCP option SACK left edge count'' ''tcp_option_sack_left_edge_count'' 2 (WORKBENCH_MAX_COUNTER + 1),
      IntegerRange ''TCP option SACK left edge step'' ''tcp_option_sack_left_edge_step'' 1 WORKBENCH_MAX_COUNTER,
      IntegerRange ''TCP option SACK right edge'' ''tcp_option_sack_right_edge'' 0 WORKBENCH_MAX_COUNTER,
      IntegerRange ''TCP option SACK right edge count'' ''tcp_option_sack_right_edge_count'' 2 (WORKBENCH_MAX_COUNTER + 1),
      IntegerRange ''TCP option SACK right edge step'' ''tcp_option_sack_right_edge_step'' 1 WORKBENCH_MAX_COUNTER,
      IntegerRange ''TCP option timestamp value'' ''tcp_option_timestamp_value'' 0 WORKBENCH_MAX_COUNTER,
      IntegerRange ''TCP option timestamp value count'' ''tcp_option_timestamp_value_count'' 2 (WORKBENCH_MAX_COUNTER + 1),
      IntegerRange ''TCP option timestamp value step'' ''tcp_option_timestamp_value_step'' 1 WORKBENCH_MAX_COUNTER,
      IntegerRange ''TCP option timestamp echo'' ''tcp_option_timestamp_echo'' 0 WORKBENCH_MAX_COUNTER,
      IntegerRange ''TCP option timestamp echo count'' ''tcp_option_timestamp_echo_count'' 2 (WORKBENCH_MAX_COUNTER + 1),
      IntegerRange ''TCP option timestamp echo step'' ''tcp_option_timestamp_echo_step'' 1 WORKBENCH_MAX_COUNTER,
      IntegerRange ''TCP urgent pointer'' ''tcp_urgent_pointer'' 0 65535,
      IntegerRange ''TCP urgent pointer count'' ''tcp_urgent_pointer_count'' 2 65536,
      IntegerRange ''TCP urgent pointer step'' ''tcp_urgent_pointer_step'' 1 65535,
      IntegerRange ''TCP flags count'' ''tcp_flags_count'' 2 64,
      IntegerRange ''TCP flags step'' ''tcp_flags_step'' 1 63,
      IntegerRange ''SCTP verification tag'' ''sctp_verification_tag'' 0 WORKBENCH_MAX_COUNTER,
      IntegerRange ''SCTP verification tag count'' ''sctp_verification_tag_count'' 2 4294967296,
      IntegerRange ''SCTP verification tag step'' ''sctp_verification_tag_step'' 1 WORKBENCH_MAX_COUNTER,
      IntegerRange ''SCTP data flags'' ''sctp_data_flags'' 0 255,
      IntegerRange ''SCTP data flags count'' ''sctp_data_flags_count'' 2 256,
      IntegerRange ''SCTP data flags step'' ''sctp_data_flags_step'' 1 255,
      IntegerRange ''SCTP TSN'' ''sctp_tsn'' 0 WORKBENCH_MAX_COUNTER,
      IntegerRange ''SCTP TSN count'' ''sctp_tsn_count'' 2 4294967296,
      IntegerRange ''SCTP TSN step'' ''sctp_tsn_step'' 1 WORKBENCH_MAX_COUNTER,
      IntegerRange ''SCTP stream ID'' ''sctp_stream_id'' 0 65535,
      IntegerRange ''SCTP stream ID count'' ''sctp_stream_id_count'' 2 65536,
      IntegerRange ''SCTP stream ID step'' ''sctp_stream_id_step'' 1 65535,
      IntegerRange ''SCTP stream sequence'' ''sctp_stream_sequence'' 0 65535,
      IntegerRange ''SCTP stream sequence count'' ''sctp_stream_sequence_count'' 2 65536,
      IntegerRange ''SCTP stream sequence step'' ''sctp_stream_sequence_step'' 1 65535,
      IntegerRange ''SCTP payload protocol ID'' ''sctp_payload_protocol_id'' 0 WORKBENCH_MAX_COUNTER,
      IntegerRange ''SCTP payload protocol ID count'' ''sctp_payload_protocol_id_count'' 2 4294967296,
      IntegerRange ''SCTP payload protocol ID step'' ''sctp_payload_protocol_id_step'' 1 WORKBENCH_MAX_COUNTER]"

definition numericChecks :: "NumericCheck list" where
  "numericChecks = numericChecks1 @ numericChecks2 @ numericChecks3"

section \<open>The checks of the layers\<close>

abbreviation fieldOn :: "EditorStream \<Rightarrow> string \<Rightarrow> bool" where
  "fieldOn stream f \<equiv> fvTruthy (stream f)"

abbreviation fieldText :: "EditorStream \<Rightarrow> string \<Rightarrow> string" where
  "fieldText stream f \<equiv> fvText (stream f)"

definition fieldNumber :: "EditorStream \<Rightarrow> string \<Rightarrow> int" where
  "fieldNumber stream f = (case stream f of FvNumber n \<Rightarrow> n | _ \<Rightarrow> 0)"

definition fieldMoves :: "EditorStream \<Rightarrow> string \<Rightarrow> bool" where
  "fieldMoves stream f \<longleftrightarrow> stream f \<noteq> fixedMode"

definition isKind :: "string \<Rightarrow> EditorStream \<Rightarrow> bool" where
  "isKind suffix stream \<longleftrightarrow> endsWith (fieldText stream ''packet_type'') suffix"

definition isIcmpv6Stream :: "EditorStream \<Rightarrow> bool" where
  "isIcmpv6Stream stream \<longleftrightarrow> fieldText stream ''packet_type'' = ''Ethernet/IPv6/ICMPv6''"

definition isIpv4Stream :: "EditorStream \<Rightarrow> bool" where
  "isIpv4Stream stream \<longleftrightarrow> startsWith (fieldText stream ''packet_type'') ''Ethernet/IPv4''"

definition isIpv6Stream :: "EditorStream \<Rightarrow> bool" where
  "isIpv6Stream stream \<longleftrightarrow> startsWith (fieldText stream ''packet_type'') ''Ethernet/IPv6''"

definition pageMplsLabelCount :: "EditorStream \<Rightarrow> int" where
  "pageMplsLabelCount stream =
     (if \<not> fieldOn stream ''mpls_enabled'' then 0
      else 1 + (if fieldOn stream ''mpls_label2_enabled'' then 1 else 0)
        + (if fieldOn stream ''mpls_label2_enabled'' \<and> fieldOn stream ''mpls_label3_enabled'' then 1 else 0))"

definition pageVlanHeaderLength :: "EditorStream \<Rightarrow> int" where
  "pageVlanHeaderLength stream =
     (if \<not> fieldOn stream ''vlan_enabled'' then 0 else if fieldOn stream ''vlan2_enabled'' then 8 else 4)"

definition formL2HeaderLength :: "EditorStream \<Rightarrow> int" where
  "formL2HeaderLength stream = 14 + pageVlanHeaderLength stream + pageMplsLabelCount stream * 4"

definition pageIcmpv6MinimumFrameLength :: "EditorStream \<Rightarrow> int" where
  "pageIcmpv6MinimumFrameLength stream =
     (let option = (\<lambda>f len. if fieldOn stream f then len else 0); icmpType = stream ''icmp_type'';
          icmpLength =
            (if icmpType = FvNumber 133 then 8 + option ''icmpv6_rs_include_slla'' 8
             else if icmpType = FvNumber 134
             then 16 + option ''icmpv6_ra_include_slla'' 8 + option ''icmpv6_ra_include_prefix'' 32
             else if icmpType = FvNumber 135 \<or> icmpType = FvNumber 136
             then 24 + option ''icmpv6_nd_include_option'' 8
             else 8)
      in if \<not> isIcmpv6Stream stream then 64 else max 64 (formL2HeaderLength stream + 40 + icmpLength + 4))"

definition lengthErrors :: "string \<Rightarrow> EditorStream \<Rightarrow> string option list" where
  "lengthErrors prefix stream =
     [failIf (fieldMoves stream ''frame_length_type''
        \<and> fieldNumber stream ''frame_length_max'' - fieldNumber stream ''frame_length_min'' < 5)
        (prefix @ '': Maximum length must be at least 5 bytes greater than minimum length.'')]"

definition icmpErrors :: "(string \<Rightarrow> string option) \<Rightarrow> string \<Rightarrow> EditorStream \<Rightarrow> string option list" where
  "icmpErrors urlHost prefix stream =
     (let isIcmpv6 = isIcmpv6Stream stream;
          isIcmp = (fieldText stream ''packet_type'' = ''Ethernet/IPv4/ICMP'' \<or> isIcmpv6);
          icmpType = stream ''icmp_type'';
          isControl = (isIcmpv6 \<and> icmpType \<in> {FvNumber 133, FvNumber 134, FvNumber 135, FvNumber 136});
          isEcho = (isIcmpv6 \<and> icmpType \<in> {FvNumber 128, FvNumber 129});
          moves = (\<lambda>f. nullish (stream f) fixedMode \<noteq> fixedMode);
          minimum = pageIcmpv6MinimumFrameLength stream
      in [failIf (isIcmp \<and> fieldMoves stream ''frame_length_type'') (prefix @ '': ICMP requires fixed frame length.''),
          failIf (isIcmpv6 \<and> (fieldMoves stream ''ipv6_src_mode'' \<or> fieldMoves stream ''ipv6_dst_mode''))
            (prefix @ '': ICMPv6 requires fixed IPv6 source and destination addresses.''),
          failIf (isIcmp \<and> (moves ''icmp_type_mode'' \<or> moves ''icmp_code_mode'') \<and> \<not> isEcho)
            (prefix @ '': ICMP type/code Field Engine requires ICMPv6 Echo.''),
          failIf (isIcmp \<and> \<not> isEcho \<and> (moves ''icmp_identifier_mode'' \<or> moves ''icmp_sequence_mode''))
            (prefix @ '': ICMP identifier and sequence Field Engine requires ICMPv6 Echo.''),
          failIf (isControl \<and> fieldNumber stream ''frame_length'' < minimum)
            (prefix @ '': ICMPv6 control frame length must be at least '' @ decText minimum @ ''.''),
          failIf (isControl \<and> stream ''icmp_code'' \<noteq> FvNumber 0)
            (prefix @ '': ICMPv6 control message code must be 0.''),
          failIf (isIcmpv6 \<and> icmpType \<in> {FvNumber 135, FvNumber 136}
              \<and> \<not> ipv6AddressValid urlHost (fieldText stream ''icmpv6_nd_target''))
            (prefix @ '': ICMPv6 Neighbor Discovery target address is invalid.''),
          failIf (isIcmpv6 \<and> icmpType = FvNumber 134 \<and> \<not> ipv6AddressValid urlHost (fieldText stream ''icmpv6_ra_prefix''))
            (prefix @ '': ICMPv6 Router Advertisement prefix is invalid.'')])"

definition mplsErrors :: "string \<Rightarrow> EditorStream \<Rightarrow> string option list" where
  "mplsErrors prefix stream =
     [failIf (fieldText stream ''packet_type'' = ''Ethernet/ARP'' \<and> fieldOn stream ''mpls_enabled'')
        (prefix @ '': ARP does not support MPLS in the Stream Builder.''),
      failIf (\<not> isIpv4Stream stream \<and> \<not> isIpv6Stream stream \<and> fieldOn stream ''mpls_enabled'')
        (prefix @ '': MPLS requires an IP packet.'')]"

text \<open>The two addresses of an inner packet.\<close>

definition innerAddressErrors ::
  "(string \<Rightarrow> string option) \<Rightarrow> string \<Rightarrow> string \<Rightarrow> bool \<Rightarrow> EditorStream \<Rightarrow> string option list" where
  "innerAddressErrors urlHost label tunnel ipv6 stream =
     (if ipv6
      then [failIf (\<not> ipv6AddressValid urlHost (fieldText stream (tunnel @ ''_inner_ipv6_src'')))
              (label @ '' inner IPv6 source must be an IPv6 address.''),
            failIf (\<not> ipv6AddressValid urlHost (fieldText stream (tunnel @ ''_inner_ipv6_dst'')))
              (label @ '' inner IPv6 destination must be an IPv6 address.'')]
      else [failIf (\<not> ipv4AddressValid (fieldText stream (tunnel @ ''_inner_ipv4_src'')))
              (label @ '' inner IPv4 source must be an IPv4 address.''),
            failIf (\<not> ipv4AddressValid (fieldText stream (tunnel @ ''_inner_ipv4_dst'')))
              (label @ '' inner IPv4 destination must be an IPv4 address.'')])"

definition minimumVxlanFrameLength :: "EditorStream \<Rightarrow> int" where
  "minimumVxlanFrameLength stream =
     formL2HeaderLength stream + 20 + 8 + 8 + 14
     + (if stream ''vxlan_inner_ip_version'' = FvText ''IPv6'' then 40 else 20) + 8 + 4"

definition vxlanErrors :: "(string \<Rightarrow> string option) \<Rightarrow> string \<Rightarrow> EditorStream \<Rightarrow> string option list" where
  "vxlanErrors urlHost prefix stream =
     (if fieldOn stream ''vxlan_enabled''
      then [failIf (fieldText stream ''packet_type'' \<noteq> ''Ethernet/IPv4/UDP'') (prefix @ '': VXLAN requires Ethernet/IPv4/UDP.''),
            failIf (fieldMoves stream ''frame_length_type'') (prefix @ '': VXLAN requires fixed frame length.''),
            failIf (fieldNumber stream ''frame_length'' < minimumVxlanFrameLength stream)
              (prefix @ '': VXLAN frame length must be at least '' @ decText (minimumVxlanFrameLength stream) @ ''.'')]
        @ innerAddressErrors urlHost (prefix @ '': VXLAN'') ''vxlan''
            (stream ''vxlan_inner_ip_version'' = FvText ''IPv6'') stream
      else [])"

definition minimumGtpuFrameLength :: "EditorStream \<Rightarrow> int" where
  "minimumGtpuFrameLength stream =
     formL2HeaderLength stream + 20 + 8 + 8
     + (if fieldOn stream ''gtpu_sequence_enabled'' \<or> fieldOn stream ''gtpu_npdu_enabled''
           \<or> fieldOn stream ''gtpu_extension_enabled'' then 4 else 0)
     + (if fieldOn stream ''gtpu_extension_enabled'' then 4 else 0)
     + (if stream ''gtpu_inner_ip_version'' = FvText ''IPv6'' then 40 else 20) + 8 + 4"

definition gtpuErrors :: "(string \<Rightarrow> string option) \<Rightarrow> string \<Rightarrow> EditorStream \<Rightarrow> string option list" where
  "gtpuErrors urlHost prefix stream =
     (if fieldOn stream ''gtpu_enabled''
      then [failIf (fieldText stream ''packet_type'' \<noteq> ''Ethernet/IPv4/UDP'') (prefix @ '': GTP-U requires Ethernet/IPv4/UDP.''),
            failIf (fieldMoves stream ''frame_length_type'') (prefix @ '': GTP-U requires fixed frame length.''),
            failIf (stream ''gtpu_message_type'' \<noteq> FvNumber 255)
              (prefix @ '': GTP-U editor currently supports G-PDU message type 255.''),
            failIf (fieldNumber stream ''frame_length'' < minimumGtpuFrameLength stream)
              (prefix @ '': GTP-U frame length must be at least '' @ decText (minimumGtpuFrameLength stream) @ ''.'')]
        @ innerAddressErrors urlHost (prefix @ '': GTP-U'') ''gtpu''
            (stream ''gtpu_inner_ip_version'' = FvText ''IPv6'') stream
      else [])"

definition greProtocolType :: "EditorStream \<Rightarrow> string" where
  "greProtocolType stream = (case stream ''gre_protocol_type'' of FvText t \<Rightarrow> t | _ \<Rightarrow> ''0800'')"

definition greInnerIpv6 :: "EditorStream \<Rightarrow> bool" where
  "greInnerIpv6 stream \<longleftrightarrow>
     stream ''gre_inner_ip_version'' = FvText ''IPv6'' \<or> upperText (greProtocolType stream) = ''86DD''"

definition minimumGreFrameLength :: "EditorStream \<Rightarrow> int" where
  "minimumGreFrameLength stream =
     (let present = (\<lambda>f. if fieldOn stream f then 4 else 0)
      in formL2HeaderLength stream + (if isIpv6Stream stream then 40 else 20)
         + (4 + present ''gre_checksum_present'' + present ''gre_key_present'' + present ''gre_sequence_present'')
         + (if greInnerIpv6 stream then 40 else 20) + 8 + 4)"

definition greInnerModeFields :: "string list" where
  "greInnerModeFields =
     [''gre_inner_ipv4_src_mode'', ''gre_inner_ipv4_dst_mode'', ''gre_inner_ipv4_ttl_mode'', ''gre_inner_ipv6_src_mode'',
      ''gre_inner_ipv6_dst_mode'', ''gre_inner_ipv6_hop_limit_mode'', ''gre_inner_l4_src_port_mode'',
      ''gre_inner_l4_dst_port_mode'']"

definition greErrors :: "(string \<Rightarrow> string option) \<Rightarrow> string \<Rightarrow> EditorStream \<Rightarrow> string option list" where
  "greErrors urlHost prefix stream =
     (if isKind ''/GRE'' stream
      then
        let checksum = fieldOn stream ''gre_checksum_present'' in
        [failIf (fieldMoves stream ''frame_length_type'') (prefix @ '': GRE requires fixed frame length.''),
         failIf (fieldNumber stream ''frame_length'' < minimumGreFrameLength stream)
           (prefix @ '': GRE frame length must be at least '' @ decText (minimumGreFrameLength stream) @ ''.''),
         failIf (\<not> isHexOf 4 (greProtocolType stream)) (prefix @ '': GRE protocol type must be four hex characters.''),
         failIf (upperText (greProtocolType stream) \<notin> {''0800'', ''86DD''})
           (prefix @ '': GRE editor supports inner IPv4 0800 or inner IPv6 86DD.''),
         failIf (checksum \<and> fieldOn stream ''gre_checksum_override'' \<and> \<not> isHexOf 4 (fieldText stream ''gre_checksum''))
           (prefix @ '': GRE checksum must be four hex characters.''),
         failIf (checksum \<and> (fieldMoves stream ''gre_key_mode'' \<or> fieldMoves stream ''gre_sequence_mode''))
           (prefix @ '': GRE key/sequence Field Engine requires GRE checksum absent.''),
         failIf (checksum \<and> list_ex (fieldMoves stream) greInnerModeFields)
           (prefix @ '': GRE inner Field Engine requires GRE checksum absent.''),
         failIf (fieldMoves stream ''gre_key_mode'' \<and> \<not> fieldOn stream ''gre_key_present'')
           (prefix @ '': GRE key Field Engine requires key present.''),
         failIf (fieldMoves stream ''gre_sequence_mode'' \<and> \<not> fieldOn stream ''gre_sequence_present'')
           (prefix @ '': GRE sequence Field Engine requires sequence present.'')]
        @ innerAddressErrors urlHost (prefix @ '': GRE'') ''gre'' (greInnerIpv6 stream) stream
      else [])"

definition minimumSctpFrameLength :: "EditorStream \<Rightarrow> int" where
  "minimumSctpFrameLength stream = formL2HeaderLength stream + (if isIpv6Stream stream then 40 else 20) + 28 + 4"

definition sctpErrors :: "string \<Rightarrow> EditorStream \<Rightarrow> string option list" where
  "sctpErrors prefix stream =
     (if isKind ''/SCTP'' stream
      then [failIf (fieldNumber stream ''frame_length'' < minimumSctpFrameLength stream)
              (prefix @ '': SCTP frame length must be at least '' @ decText (minimumSctpFrameLength stream) @ ''.''),
            failIf (fieldOn stream ''sctp_checksum_override'' \<and> \<not> isHexOf 8 (fieldText stream ''sctp_checksum''))
              (prefix @ '': SCTP checksum must be eight hex characters.'')]
      else [])"

definition addressErrors :: "(string \<Rightarrow> string option) \<Rightarrow> string \<Rightarrow> int \<Rightarrow> EditorStream \<Rightarrow> string option list" where
  "addressErrors urlHost prefix streamCount stream =
     (if isIpv6Stream stream
      then [failIf (\<not> ipv6AddressValid urlHost (fieldText stream ''ipv6_src'')) (prefix @ '': IPv6 source address is invalid.''),
            failIf (\<not> ipv6AddressValid urlHost (fieldText stream ''ipv6_dst''))
              (prefix @ '': IPv6 destination address is invalid.'')]
      else if isIpv4Stream stream
      then [failIf (\<not> ipv4AddressValid (fieldText stream ''ipv4_src'')) (prefix @ '': IPv4 source address is invalid.''),
            failIf (\<not> ipv4AddressValid (fieldText stream ''ipv4_dst'')) (prefix @ '': IPv4 destination address is invalid.'')]
      else [])
     @ [if stream ''next_stream_id'' \<noteq> FvNull
        then integerRangeError (prefix @ '': Next Stream'') (stream ''next_stream_id'') 1 streamCount else None,
        failIf (\<not> isMacAddress (fieldText stream ''ether_dst'')) (prefix @ '': Ethernet destination must be a MAC address.''),
        failIf (\<not> isMacAddress (fieldText stream ''ether_src'')) (prefix @ '': Ethernet source must be a MAC address.''),
        failIf (fieldOn stream ''ether_type_override'' \<and> \<not> isHexOf 4 (fieldText stream ''ether_type''))
          (prefix @ '': Ethernet Type must be four hex characters.'')]"

definition arpErrors :: "string \<Rightarrow> EditorStream \<Rightarrow> string option list" where
  "arpErrors prefix stream =
     (if fieldText stream ''packet_type'' = ''Ethernet/ARP''
      then [failIf (\<not> isHexOf 4 (fieldText stream ''arp_protocol_type''))
              (prefix @ '': ARP protocol type must be a 4 digit hex value.''),
            failIf (stream ''arp_hardware_size'' \<noteq> FvNumber 6 \<or> stream ''arp_protocol_size'' \<noteq> FvNumber 4)
              (prefix @ '': ARP editor currently supports Ethernet/IPv4 addresses with hardware size 6 and protocol size 4.''),
            failIf (\<not> isMacAddress (fieldText stream ''arp_sender_mac'')) (prefix @ '': ARP sender MAC must be a MAC address.''),
            failIf (\<not> isMacAddress (fieldText stream ''arp_target_mac'')) (prefix @ '': ARP target MAC must be a MAC address.''),
            failIf (\<not> ipv4AddressValid (fieldText stream ''arp_sender_ip'')) (prefix @ '': ARP sender IP is invalid.''),
            failIf (\<not> ipv4AddressValid (fieldText stream ''arp_target_ip'')) (prefix @ '': ARP target IP is invalid.'')]
      else [])"

definition overrideErrors :: "string \<Rightarrow> EditorStream \<Rightarrow> string option list" where
  "overrideErrors prefix stream =
     [failIf (fieldOn stream ''vxlan_enabled'' \<and> \<not> isMacAddress (fieldText stream ''vxlan_inner_ether_dst''))
        (prefix @ '': VXLAN inner Ethernet destination must be a MAC address.''),
      failIf (fieldOn stream ''vxlan_enabled'' \<and> \<not> isMacAddress (fieldText stream ''vxlan_inner_ether_src''))
        (prefix @ '': VXLAN inner Ethernet source must be a MAC address.''),
      failIf (fieldOn stream ''vlan_tpid_override'' \<and> \<not> isHexOf 4 (fieldText stream ''vlan_tpid''))
        (prefix @ '': VLAN TPID must be four hex characters.''),
      failIf (fieldOn stream ''vlan2_enabled'' \<and> fieldOn stream ''vlan2_tpid_override''
          \<and> \<not> isHexOf 4 (fieldText stream ''vlan2_tpid''))
        (prefix @ '': VLAN inner TPID must be four hex characters.''),
      failIf (fieldOn stream ''ipv4_checksum_override'' \<and> \<not> isHexOf 4 (fieldText stream ''ipv4_checksum''))
        (prefix @ '': IPv4 checksum must be four hex characters.''),
      failIf (fieldOn stream ''udp_checksum_override'' \<and> \<not> isHexOf 4 (fieldText stream ''udp_checksum''))
        (prefix @ '': UDP checksum must be four hex characters.'')]"

definition dnsErrors :: "string \<Rightarrow> EditorStream \<Rightarrow> string option list" where
  "dnsErrors prefix stream =
     (if fieldOn stream ''dns_enabled''
      then [failIf (\<not> isKind ''/UDP'' stream \<or> fieldOn stream ''vxlan_enabled'' \<or> fieldOn stream ''gtpu_enabled'')
              (prefix @ '': DNS query builder requires a non-tunneled UDP packet.''),
            failIf (\<not> isHexOf 4 (fieldText stream ''dns_flags'')) (prefix @ '': DNS flags must be four hex characters.''),
            failIf (\<not> dnsQueryNameValid (fieldText stream ''dns_query_name'')) (prefix @ '': DNS query name is invalid.''),
            failIf (fieldOn stream ''dns_answer_enabled'' \<and> \<not> ipv4AddressValid (fieldText stream ''dns_answer_ipv4''))
              (prefix @ '': DNS answer IPv4 address is invalid.'')]
      else [])"

definition dhcpErrors :: "string \<Rightarrow> EditorStream \<Rightarrow> string option list" where
  "dhcpErrors prefix stream =
     (if fieldOn stream ''dhcp_enabled''
      then [failIf (fieldText stream ''packet_type'' \<noteq> ''Ethernet/IPv4/UDP'' \<or> fieldOn stream ''vxlan_enabled'')
              (prefix @ '': DHCP message builder requires a non-VXLAN IPv4 UDP packet.''),
            failIf (\<not> isHexOf 4 (fieldText stream ''dhcp_flags'')) (prefix @ '': DHCP flags must be four hex characters.''),
            failIf (\<not> isMacAddress (fieldText stream ''dhcp_client_mac'')) (prefix @ '': DHCP client MAC must be a MAC address.''),
            failIf (\<not> ipv4AddressValid (fieldText stream ''dhcp_client_ip'')) (prefix @ '': DHCP client IP is invalid.''),
            failIf (\<not> ipv4AddressValid (fieldText stream ''dhcp_your_ip'')) (prefix @ '': DHCP your IP is invalid.''),
            failIf (\<not> ipv4AddressValid (fieldText stream ''dhcp_server_ip'')) (prefix @ '': DHCP server IP is invalid.''),
            failIf (\<not> ipv4AddressValid (fieldText stream ''dhcp_relay_ip'')) (prefix @ '': DHCP relay IP is invalid.''),
            failIf (\<not> dhcpHostnameValid (fieldText stream ''dhcp_hostname'')) (prefix @ '': DHCP hostname is invalid.''),
            failIf (\<not> ipv4AddressValid (fieldText stream ''dhcp_requested_ip'')) (prefix @ '': DHCP requested IP is invalid.''),
            failIf (fieldMoves stream ''dhcp_requested_ip_mode'' \<and> stream ''dhcp_requested_ip'' = FvText ''0.0.0.0'')
              (prefix @ '': DHCP requested IP Field Engine requires a non-zero option value.''),
            failIf (\<not> ipv4AddressValid (fieldText stream ''dhcp_server_id'')) (prefix @ '': DHCP server ID is invalid.''),
            failIf (fieldMoves stream ''dhcp_server_id_mode'' \<and> stream ''dhcp_server_id'' = FvText ''0.0.0.0'')
              (prefix @ '': DHCP server ID Field Engine requires a non-zero option value.'')]
      else [])"

definition controlErrors :: "string \<Rightarrow> EditorStream \<Rightarrow> string option list" where
  "controlErrors prefix stream =
     (let isIcmpv6 = isIcmpv6Stream stream in
      [failIf (fieldOn stream ''tcp_checksum_override'' \<and> \<not> isHexOf 4 (fieldText stream ''tcp_checksum''))
         (prefix @ '': TCP checksum must be four hex characters.''),
       failIf (fieldOn stream ''icmp_checksum_override'' \<and> \<not> isHexOf 4 (fieldText stream ''icmp_checksum''))
         (prefix @ '': ICMP checksum must be four hex characters.''),
       failIf (isIcmpv6 \<and> fieldOn stream ''icmpv6_nd_include_option''
           \<and> \<not> isMacAddress (fieldText stream ''icmpv6_nd_option_mac''))
         (prefix @ '': ICMPv6 Neighbor Discovery option MAC must be a MAC address.''),
       failIf (isIcmpv6 \<and> fieldOn stream ''icmpv6_rs_include_slla''
           \<and> \<not> isMacAddress (fieldText stream ''icmpv6_rs_slla_mac''))
         (prefix @ '': ICMPv6 Router Solicitation source link-layer MAC must be a MAC address.''),
       failIf (isIcmpv6 \<and> fieldOn stream ''icmpv6_ra_include_slla''
           \<and> \<not> isMacAddress (fieldText stream ''icmpv6_ra_slla_mac''))
         (prefix @ '': ICMPv6 Router Advertisement source link-layer MAC must be a MAC address.''),
       failIf (isIpv4Stream stream \<and> \<not> ipv4AddressValid (fieldText stream ''ipv4_src''))
         (prefix @ '': IPv4 source must be an IPv4 address.''),
       failIf (isIpv4Stream stream \<and> \<not> ipv4AddressValid (fieldText stream ''ipv4_dst''))
         (prefix @ '': IPv4 destination must be an IPv4 address.'')])"

definition payloadErrors :: "string \<Rightarrow> EditorStream \<Rightarrow> string option list" where
  "payloadErrors prefix stream =
     (if fieldOn stream ''payload_enabled'' \<and> stream ''payload_type'' = FvText ''Fixed Word''
      then
        let payloadPattern = filter (\<lambda>c. \<not> isJsSpace c) (fieldText stream ''payload_pattern'') in
        [failIf (int (length payloadPattern) > PAGE_PAYLOAD_PATTERN_MAX_HEX_CHARS)
           (prefix @ '': Payload pattern cannot exceed '' @ decText PAGE_PAYLOAD_PATTERN_MAX_HEX_CHARS @ '' hex characters.''),
         failIf (payloadPattern \<noteq> [] \<and> (odd (length payloadPattern) \<or> \<not> list_all isHexDigit payloadPattern))
           (prefix @ '': Payload pattern must contain whole hex bytes.'')]
      else [])
     @ [if stream ''advanced_cache_size_type'' = FvText ''Enable''
        then integerRangeError (prefix @ '': Cache size'') (stream ''advanced_cache_value'') 0 999999 else None]"

section \<open>A stream, a list of streams, a profile\<close>

definition nameErrors :: "string \<Rightarrow> EditorStream \<Rightarrow> string option list" where
  "nameErrors prefix stream =
     (let name = fieldText stream ''name'' in
      [failIf (jsTrim name = []) (prefix @ '': Name is required.''),
       failIf (name \<noteq> jsTrim name \<or> CHR 0x00 \<in> set name \<or> length name > 128)
         (prefix @ '': Name must be 1-128 visible characters without leading or trailing spaces.'')])"

definition layerErrors :: "(string \<Rightarrow> string option) \<Rightarrow> string \<Rightarrow> int \<Rightarrow> EditorStream \<Rightarrow> string option list" where
  "layerErrors urlHost prefix streamCount stream =
     lengthErrors prefix stream @ icmpErrors urlHost prefix stream @ mplsErrors prefix stream
     @ vxlanErrors urlHost prefix stream @ gtpuErrors urlHost prefix stream @ greErrors urlHost prefix stream
     @ sctpErrors prefix stream @ addressErrors urlHost prefix streamCount stream @ arpErrors prefix stream
     @ overrideErrors prefix stream @ dnsErrors prefix stream @ dhcpErrors prefix stream
     @ controlErrors prefix stream @ payloadErrors prefix stream"

definition validateWorkbenchStream :: "(string \<Rightarrow> string option) \<Rightarrow> EditorStream option \<Rightarrow> int \<Rightarrow> int \<Rightarrow> string option" where
  "validateWorkbenchStream urlHost stream index streamCount =
     (let prefix = ''Stream '' @ decText (index + 1) in
      case stream of
        None \<Rightarrow> Some (prefix @ '': stream is missing.'')
      | Some s \<Rightarrow>
          firstError (nameErrors prefix s
            @ (if fieldOn s ''advanced_mode''
               then [failIf (\<not> fieldOn s ''packet_binary_base64'') (prefix @ '': Advanced stream requires packet bytes.'')]
               else map (numericCheck prefix s) numericChecks @ layerErrors urlHost prefix streamCount s)))"

definition validateWorkbenchStreams :: "(string \<Rightarrow> string option) \<Rightarrow> EditorStream list \<Rightarrow> string option" where
  "validateWorkbenchStreams urlHost streams =
     (if streams = [] then Some ''At least one stream is required.''
      else firstError (map (\<lambda>(index, stream).
        validateWorkbenchStream urlHost (Some stream) (int index) (int (length streams))) (enumerate 0 streams)))"

definition validateWorkbenchProfile :: "(string \<Rightarrow> string option) \<Rightarrow> string \<Rightarrow> EditorStream list \<Rightarrow> string option" where
  "validateWorkbenchProfile urlHost profileName streams =
     (let trimmedName = jsTrim profileName in
      if trimmedName = [] then Some ''Profile name is required.''
      else if trimmedName \<noteq> profileName \<or> length profileName > 128 \<or> CHR 0x00 \<in> set profileName
      then Some ''Profile name must be 1-128 visible characters without leading or trailing spaces.''
      else validateWorkbenchStreams urlHost streams)"

section \<open>What the checks accept\<close>

fun numericHolds :: "EditorStream \<Rightarrow> NumericCheck \<Rightarrow> bool" where
  "numericHolds s (IntegerRange label f low high) \<longleftrightarrow> inRange (s f) low high"
| "numericHolds s (NumberRange label f low high exclusiveMin) \<longleftrightarrow> inRange (s f) (if exclusiveMin then low + 1 else low) high"
| "numericHolds s (UnitCountRange label f low high) \<longleftrightarrow> inRange (pageUnitCountValue (s f)) low high"
| "numericHolds s RequestList \<longleftrightarrow> dhcpParameterRequestListValid (fvText (s ''dhcp_parameter_request_list''))"

lemma numericCheck_None: "numericCheck prefix s c = None \<longleftrightarrow> numericHolds s c"
proof (cases c)
  case (NumberRange label f low high exclusiveMin)
  then show ?thesis by (cases "s f") (auto simp: numberRangeError_def)
qed (auto simp: integerRangeError_def largeUnitCountRangeError_def)

lemma stream_accepted:
  "validateWorkbenchStream urlHost (Some s) index count = None
   \<longleftrightarrow> list_all (\<lambda>e. e = None) (nameErrors (''Stream '' @ decText (index + 1)) s)
     \<and> (if fvTruthy (s ''advanced_mode'') then fvTruthy (s ''packet_binary_base64'')
        else list_all (numericHolds s) numericChecks
          \<and> list_all (\<lambda>e. e = None) (layerErrors urlHost (''Stream '' @ decText (index + 1)) count s))"
  by (simp add: validateWorkbenchStream_def Let_def firstError_None numericCheck_None list_all_iff ball_Un
      del: numericCheck.simps numericHolds.simps)

section \<open>Widths of the protocol fields\<close>

text \<open>The bits that a number has in its header, and the same for the numbers that a field engine may move.\<close>

definition protocolWidths :: "(string \<times> nat) list" where
  "protocolWidths =
    [(''vlan_priority'', 3), (''vlan_cfi'', 1), (''vlan_id'', 12), (''mpls_label'', 20), (''mpls_tc'', 3),
     (''mpls_ttl'', 8), (''mpls_label2'', 20), (''mpls_label2_tc'', 3), (''mpls_label2_ttl'', 8),
     (''mpls_label3'', 20), (''mpls_label3_tc'', 3), (''mpls_label3_ttl'', 8), (''vxlan_vni'', 24),
     (''vxlan_inner_ipv4_ttl'', 8), (''vxlan_inner_ipv6_hop_limit'', 8), (''vxlan_inner_l4_src_port'', 16),
     (''vxlan_inner_l4_dst_port'', 16), (''gtpu_message_type'', 8), (''gtpu_teid'', 32), (''gtpu_sequence'', 16),
     (''gtpu_npdu'', 8), (''gtpu_extension_udp_port'', 16), (''gtpu_inner_ipv4_ttl'', 8),
     (''gtpu_inner_ipv6_hop_limit'', 8), (''gtpu_inner_l4_src_port'', 16), (''gtpu_inner_l4_dst_port'', 16),
     (''gre_key'', 32), (''gre_sequence'', 32), (''gre_inner_ipv4_ttl'', 8), (''gre_inner_ipv6_hop_limit'', 8),
     (''gre_inner_l4_src_port'', 16), (''gre_inner_l4_dst_port'', 16), (''vlan2_priority'', 3), (''vlan2_cfi'', 1),
     (''vlan2_id'', 12), (''arp_hardware_type'', 16), (''arp_hardware_size'', 8), (''arp_protocol_size'', 8),
     (''arp_operation'', 16), (''ipv4_dscp'', 6), (''ipv4_ecn'', 2), (''ipv4_id'', 16),
     (''ipv4_fragment_offset'', 13), (''ipv4_ttl'', 8), (''ipv6_traffic_class'', 8), (''ipv6_flow_label'', 20),
     (''ipv6_hop_limit'', 8), (''l4_src_port'', 16), (''l4_dst_port'', 16), (''udp_length'', 16),
     (''dns_transaction_id'', 16), (''dns_query_type'', 16), (''dns_query_class'', 16), (''dns_answer_ttl'', 32),
     (''dhcp_operation'', 8), (''dhcp_hops'', 8), (''dhcp_seconds'', 16), (''dhcp_message_type'', 8),
     (''dhcp_xid'', 32), (''dhcp_lease_time'', 32), (''dhcp_renewal_time'', 32), (''dhcp_rebinding_time'', 32),
     (''icmp_type'', 8), (''icmp_code'', 8), (''icmp_identifier'', 16), (''icmp_sequence'', 16),
     (''icmpv6_ra_cur_hop_limit'', 8), (''icmpv6_ra_router_lifetime'', 16), (''icmpv6_ra_reachable_time'', 32),
     (''icmpv6_ra_retrans_timer'', 32), (''icmpv6_ra_prefix_length'', 8), (''icmpv6_ra_prefix_valid_lifetime'', 32),
     (''icmpv6_ra_prefix_preferred_lifetime'', 32), (''tcp_sequence_number'', 32), (''tcp_ack_number'', 32),
     (''tcp_window'', 16), (''tcp_option_mss'', 16), (''tcp_option_window_scale'', 8),
     (''tcp_option_sack_left_edge'', 32), (''tcp_option_sack_right_edge'', 32), (''tcp_option_timestamp_value'', 32),
     (''tcp_option_timestamp_echo'', 32), (''tcp_urgent_pointer'', 16), (''sctp_verification_tag'', 32),
     (''sctp_data_flags'', 8), (''sctp_tsn'', 32), (''sctp_stream_id'', 16), (''sctp_stream_sequence'', 16),
     (''sctp_payload_protocol_id'', 32)]"

definition movingWidths :: "(string \<times> nat) list" where
  "movingWidths =
    [(''vlan_priority'', 3), (''vlan_id'', 12), (''mpls_label'', 20), (''mpls_tc'', 3), (''mpls_ttl'', 8),
     (''mpls_label2'', 20), (''mpls_label2_tc'', 3), (''mpls_label2_ttl'', 8), (''mpls_label3'', 20),
     (''mpls_label3_tc'', 3), (''mpls_label3_ttl'', 8), (''vxlan_vni'', 24), (''vxlan_inner_ipv4_ttl'', 8),
     (''vxlan_inner_ipv6_hop_limit'', 8), (''vxlan_inner_l4_src_port'', 16), (''vxlan_inner_l4_dst_port'', 16),
     (''gtpu_teid'', 32), (''gtpu_sequence'', 16), (''gtpu_npdu'', 8), (''gtpu_extension_udp_port'', 16),
     (''gtpu_inner_ipv4_ttl'', 8), (''gtpu_inner_ipv6_hop_limit'', 8), (''gtpu_inner_l4_src_port'', 16),
     (''gtpu_inner_l4_dst_port'', 16), (''gre_key'', 32), (''gre_sequence'', 32), (''gre_inner_ipv4_ttl'', 8),
     (''gre_inner_ipv6_hop_limit'', 8), (''gre_inner_l4_src_port'', 16), (''gre_inner_l4_dst_port'', 16),
     (''vlan2_priority'', 3), (''vlan2_id'', 12), (''arp_operation'', 16), (''ipv4_dscp'', 6), (''ipv4_ecn'', 2),
     (''ipv4_id'', 16), (''ipv4_fragment_offset'', 13), (''ipv4_ttl'', 8), (''ipv6_traffic_class'', 8),
     (''ipv6_flow_label'', 20), (''ipv6_hop_limit'', 8), (''udp_length'', 16), (''udp_checksum'', 16),
     (''dns_transaction_id'', 16), (''dns_flags'', 16), (''dns_query_type'', 16), (''dns_query_class'', 16),
     (''dns_answer_ttl'', 32), (''dhcp_operation'', 8), (''dhcp_hops'', 8), (''dhcp_seconds'', 16),
     (''dhcp_message_type'', 8), (''dhcp_xid'', 32), (''dhcp_flags'', 16), (''dhcp_lease_time'', 32),
     (''dhcp_renewal_time'', 32), (''dhcp_rebinding_time'', 32), (''icmp_type'', 8), (''icmp_code'', 8),
     (''icmp_identifier'', 16), (''icmp_sequence'', 16), (''tcp_sequence'', 32), (''tcp_ack'', 32),
     (''tcp_window'', 16), (''tcp_checksum'', 16), (''tcp_option_mss'', 16), (''tcp_option_window_scale'', 8),
     (''tcp_option_sack_left_edge'', 32), (''tcp_option_sack_right_edge'', 32), (''tcp_option_timestamp_value'', 32),
     (''tcp_option_timestamp_echo'', 32), (''tcp_urgent_pointer'', 16), (''tcp_flags'', 6),
     (''sctp_verification_tag'', 32), (''sctp_data_flags'', 8), (''sctp_tsn'', 32), (''sctp_stream_id'', 16),
     (''sctp_stream_sequence'', 16), (''sctp_payload_protocol_id'', 32)]"

text \<open>Ranges of the checks that are narrower than the width.\<close>

lemma narrower:
  "inRange v 0 4094 \<Longrightarrow> inRange v 0 4095" "inRange v 8 65535 \<Longrightarrow> inRange v 0 65535" "inRange v 1 255 \<Longrightarrow> inRange v 0 255"
  "inRange v 0 128 \<Longrightarrow> inRange v 0 255" "inRange v 0 14 \<Longrightarrow> inRange v 0 255" "inRange v 2 4095 \<Longrightarrow> inRange v 2 4096"
  "inRange v 1 4094 \<Longrightarrow> inRange v 1 4095" "inRange v 2 65528 \<Longrightarrow> inRange v 2 65536" "inRange v 1 65527 \<Longrightarrow> inRange v 1 65535"
  "inRange v 2 255 \<Longrightarrow> inRange v 2 256" "inRange v 1 254 \<Longrightarrow> inRange v 1 255"
  by (cases v; simp)+

lemma counter_next: "(4294967295 :: int) + 1 = 4294967296"
  by simp

lemma numbers_fit:
  assumes "list_all (numericHolds s) numericChecks"
  shows "list_all (\<lambda>(f, w). inRange (s f) 0 (2 ^ w - 1)) protocolWidths"
    "list_all (\<lambda>(f, w). inRange (s (f @ ''_count'')) 2 (2 ^ w) \<and> inRange (s (f @ ''_step'')) 1 (2 ^ w - 1)) movingWidths"
proof -
  note facts = assms [unfolded numericChecks_def numericChecks1_def numericChecks2_def numericChecks3_def
    WORKBENCH_MAX_COUNTER_def counter_next append.simps list.pred_inject numericHolds.simps]
  show "list_all (\<lambda>(f, w). inRange (s f) 0 (2 ^ w - 1)) protocolWidths"
    by (simp add: protocolWidths_def facts narrower)
  show "list_all (\<lambda>(f, w). inRange (s (f @ ''_count'')) 2 (2 ^ w) \<and> inRange (s (f @ ''_step'')) 1 (2 ^ w - 1)) movingWidths"
    by (simp add: movingWidths_def facts narrower)
qed

section \<open>The least length of an ICMPv6 message\<close>

text \<open>The page and the model of the patches compute it each on their own.\<close>

lemma layers_agree:
  "formL2HeaderLength s = 14 + workbenchVlanHeaderLength (profileStream s) + workbenchMplsLabelCount (profileStream s) * 4"
  by (simp add: formL2HeaderLength_def pageVlanHeaderLength_def pageMplsLabelCount_def workbenchVlanHeaderLength_def
      workbenchMplsLabelCount_def profileStream_def)

lemma minimum_agrees:
  assumes "isIcmpv6Stream s"
  shows "pageIcmpv6MinimumFrameLength s = icmpv6ControlMinimumFrameLength s (s ''icmp_type'')"
  unfolding pageIcmpv6MinimumFrameLength_def icmpv6ControlMinimumFrameLength_def Let_def layers_agree
  by (simp only: assms not_True_eq_False if_False)

end
