(* ===== verification/WorkbenchStreams.thy ===== *)
theory WorkbenchStreams
  imports StreamKept StreamChecks
begin

text \<open>
  The builder page (\<open>App.tsx\<close>): the stream a new row starts from, the completion of streams that the backend sends,
  the handlers that add, duplicate and delete a stream, and the requests that load, import and save streams. The page
  is a machine that takes these events and the uses of controls in any order. A request has one event for its start
  and one for its answer; the command buttons are disabled while the page is busy (\<open>workspaceCommands.ts\<close>), the fields
  are not, and neither is the rendering of the packet.
\<close>

section \<open>A new stream\<close>

definition defaultFields1 :: "int \<Rightarrow> StreamPatch" where
  "defaultFields1 index =
     [(''name'', FvText (''stream-'' @ decText index)),
      (''packet_type'', FvText ''Ethernet/IPv4/UDP''),
      (''frame_length_type'', FvText ''Fixed''),
      (''frame_length'', FvNumber 64),
      (''frame_length_min'', FvNumber 64),
      (''frame_length_max'', FvNumber 1518),
      (''mode'', FvText ''continuous''),
      (''rate_type'', FvText ''pps''),
      (''rate_value'', FvNumber 1000),
      (''enabled'', FvFlag True),
      (''self_start'', FvFlag True),
      (''total_pkts'', FvNumber 1),
      (''pkts_per_burst'', FvNumber 1),
      (''count'', FvNumber 1),
      (''next_stream_id'', FvNull),
      (''action_count'', FvNumber 0),
      (''isg'', FvNumber 0),
      (''ibg'', FvNumber 0),
      (''pg_id'', FvNumber index),
      (''flow_stats_enabled'', FvFlag True),
      (''latency_enabled'', FvFlag False),
      (''ether_dst'', FvText ''00:00:00:00:00:00''),
      (''ether_src'', FvText ''00:00:00:00:00:00''),
      (''ether_type_override'', FvFlag False),
      (''ether_type'', FvText ''0800''),
      (''ether_dst_mode'', FvText ''TRex Config''),
      (''ether_dst_count'', FvNumber 16),
      (''ether_dst_step'', FvNumber 1),
      (''ether_src_mode'', FvText ''TRex Config''),
      (''ether_src_count'', FvNumber 16),
      (''ether_src_step'', FvNumber 1),
      (''arp_hardware_type'', FvNumber 1),
      (''arp_protocol_type'', FvText ''0800''),
      (''arp_hardware_size'', FvNumber 6),
      (''arp_protocol_size'', FvNumber 4),
      (''arp_operation'', FvNumber 1),
      (''arp_operation_mode'', FvText ''Fixed''),
      (''arp_operation_count'', FvNumber 4),
      (''arp_operation_step'', FvNumber 1),
      (''arp_sender_mac'', FvText ''00:00:00:00:00:00''),
      (''arp_sender_mac_mode'', FvText ''Fixed''),
      (''arp_sender_mac_count'', FvNumber 16),
      (''arp_sender_mac_step'', FvNumber 1),
      (''arp_sender_ip'', FvText ''16.0.0.1''),
      (''arp_sender_ip_mode'', FvText ''Fixed''),
      (''arp_sender_ip_count'', FvNumber 16),
      (''arp_sender_ip_step'', FvNumber 1),
      (''arp_target_mac'', FvText ''00:00:00:00:00:00''),
      (''arp_target_mac_mode'', FvText ''Fixed''),
      (''arp_target_mac_count'', FvNumber 16),
      (''arp_target_mac_step'', FvNumber 1),
      (''arp_target_ip'', FvText ''48.0.0.1''),
      (''arp_target_ip_mode'', FvText ''Fixed''),
      (''arp_target_ip_count'', FvNumber 16),
      (''arp_target_ip_step'', FvNumber 1),
      (''vlan_enabled'', FvFlag False),
      (''vlan_tpid_override'', FvFlag False),
      (''vlan_tpid'', FvText ''8100''),
      (''vlan_priority'', FvNumber 0),
      (''vlan_priority_mode'', FvText ''Fixed''),
      (''vlan_priority_count'', FvNumber 4),
      (''vlan_priority_step'', FvNumber 1),
      (''vlan_cfi'', FvNumber 0),
      (''vlan_id'', FvNumber 0),
      (''vlan_id_mode'', FvText ''Fixed''),
      (''vlan_id_count'', FvNumber 16),
      (''vlan_id_step'', FvNumber 1),
      (''vlan2_enabled'', FvFlag False),
      (''vlan2_tpid_override'', FvFlag False),
      (''vlan2_tpid'', FvText ''8100''),
      (''vlan2_priority'', FvNumber 0),
      (''vlan2_priority_mode'', FvText ''Fixed''),
      (''vlan2_priority_count'', FvNumber 4),
      (''vlan2_priority_step'', FvNumber 1),
      (''vlan2_cfi'', FvNumber 0),
      (''vlan2_id'', FvNumber 1),
      (''vlan2_id_mode'', FvText ''Fixed''),
      (''vlan2_id_count'', FvNumber 16),
      (''vlan2_id_step'', FvNumber 1),
      (''mpls_enabled'', FvFlag False),
      (''mpls_label'', FvNumber 17),
      (''mpls_label_mode'', FvText ''Fixed''),
      (''mpls_label_count'', FvNumber 16),
      (''mpls_label_step'', FvNumber 1),
      (''mpls_tc'', FvNumber 0),
      (''mpls_tc_mode'', FvText ''Fixed''),
      (''mpls_tc_count'', FvNumber 4),
      (''mpls_tc_step'', FvNumber 1),
      (''mpls_ttl'', FvNumber 255),
      (''mpls_ttl_mode'', FvText ''Fixed''),
      (''mpls_ttl_count'', FvNumber 16),
      (''mpls_ttl_step'', FvNumber 1),
      (''mpls_label2_enabled'', FvFlag False),
      (''mpls_label2'', FvNumber 18),
      (''mpls_label2_mode'', FvText ''Fixed''),
      (''mpls_label2_count'', FvNumber 16),
      (''mpls_label2_step'', FvNumber 1),
      (''mpls_label2_tc'', FvNumber 0),
      (''mpls_label2_tc_mode'', FvText ''Fixed''),
      (''mpls_label2_tc_count'', FvNumber 4),
      (''mpls_label2_tc_step'', FvNumber 1),
      (''mpls_label2_ttl'', FvNumber 255),
      (''mpls_label2_ttl_mode'', FvText ''Fixed''),
      (''mpls_label2_ttl_count'', FvNumber 16),
      (''mpls_label2_ttl_step'', FvNumber 1),
      (''mpls_label3_enabled'', FvFlag False),
      (''mpls_label3'', FvNumber 19),
      (''mpls_label3_mode'', FvText ''Fixed''),
      (''mpls_label3_count'', FvNumber 16),
      (''mpls_label3_step'', FvNumber 1),
      (''mpls_label3_tc'', FvNumber 0),
      (''mpls_label3_tc_mode'', FvText ''Fixed''),
      (''mpls_label3_tc_count'', FvNumber 4),
      (''mpls_label3_tc_step'', FvNumber 1),
      (''mpls_label3_ttl'', FvNumber 255),
      (''mpls_label3_ttl_mode'', FvText ''Fixed''),
      (''mpls_label3_ttl_count'', FvNumber 16),
      (''mpls_label3_ttl_step'', FvNumber 1),
      (''vxlan_enabled'', FvFlag False),
      (''vxlan_vni'', FvNumber 42)]"

definition defaultFields2 :: "StreamPatch" where
  "defaultFields2 =
     [(''vxlan_vni_mode'', FvText ''Fixed''),
      (''vxlan_vni_count'', FvNumber 16),
      (''vxlan_vni_step'', FvNumber 1),
      (''vxlan_inner_ether_dst'', FvText ''00:00:00:00:00:00''),
      (''vxlan_inner_ether_src'', FvText ''00:00:00:00:00:00''),
      (''vxlan_inner_ip_version'', FvText ''IPv4''),
      (''vxlan_inner_ipv4_src'', FvText ''10.0.0.1''),
      (''vxlan_inner_ipv4_src_mode'', FvText ''Fixed''),
      (''vxlan_inner_ipv4_src_count'', FvNumber 16),
      (''vxlan_inner_ipv4_src_step'', FvNumber 1),
      (''vxlan_inner_ipv4_dst'', FvText ''10.0.0.2''),
      (''vxlan_inner_ipv4_dst_mode'', FvText ''Fixed''),
      (''vxlan_inner_ipv4_dst_count'', FvNumber 16),
      (''vxlan_inner_ipv4_dst_step'', FvNumber 1),
      (''vxlan_inner_ipv4_ttl'', FvNumber 127),
      (''vxlan_inner_ipv4_ttl_mode'', FvText ''Fixed''),
      (''vxlan_inner_ipv4_ttl_count'', FvNumber 16),
      (''vxlan_inner_ipv4_ttl_step'', FvNumber 1),
      (''vxlan_inner_ipv6_src'', FvText ''2001:db8:50::1''),
      (''vxlan_inner_ipv6_src_mode'', FvText ''Fixed''),
      (''vxlan_inner_ipv6_src_count'', FvNumber 16),
      (''vxlan_inner_ipv6_src_step'', FvNumber 1),
      (''vxlan_inner_ipv6_dst'', FvText ''2001:db8:50::2''),
      (''vxlan_inner_ipv6_dst_mode'', FvText ''Fixed''),
      (''vxlan_inner_ipv6_dst_count'', FvNumber 16),
      (''vxlan_inner_ipv6_dst_step'', FvNumber 1),
      (''vxlan_inner_ipv6_hop_limit'', FvNumber 64),
      (''vxlan_inner_ipv6_hop_limit_mode'', FvText ''Fixed''),
      (''vxlan_inner_ipv6_hop_limit_count'', FvNumber 16),
      (''vxlan_inner_ipv6_hop_limit_step'', FvNumber 1),
      (''vxlan_inner_l4_src_port'', FvNumber 1025),
      (''vxlan_inner_l4_src_port_mode'', FvText ''Fixed''),
      (''vxlan_inner_l4_src_port_count'', FvNumber 16),
      (''vxlan_inner_l4_src_port_step'', FvNumber 1),
      (''vxlan_inner_l4_dst_port'', FvNumber 12),
      (''vxlan_inner_l4_dst_port_mode'', FvText ''Fixed''),
      (''vxlan_inner_l4_dst_port_count'', FvNumber 16),
      (''vxlan_inner_l4_dst_port_step'', FvNumber 1),
      (''gtpu_enabled'', FvFlag False),
      (''gtpu_message_type'', FvNumber 255),
      (''gtpu_teid'', FvNumber 305419896),
      (''gtpu_teid_mode'', FvText ''Fixed''),
      (''gtpu_teid_count'', FvNumber 16),
      (''gtpu_teid_step'', FvNumber 1),
      (''gtpu_sequence_enabled'', FvFlag False),
      (''gtpu_sequence'', FvNumber 0),
      (''gtpu_sequence_mode'', FvText ''Fixed''),
      (''gtpu_sequence_count'', FvNumber 16),
      (''gtpu_sequence_step'', FvNumber 1),
      (''gtpu_npdu_enabled'', FvFlag False),
      (''gtpu_npdu'', FvNumber 0),
      (''gtpu_npdu_mode'', FvText ''Fixed''),
      (''gtpu_npdu_count'', FvNumber 16),
      (''gtpu_npdu_step'', FvNumber 1),
      (''gtpu_extension_enabled'', FvFlag False),
      (''gtpu_extension_udp_port'', FvNumber 2152),
      (''gtpu_extension_udp_port_mode'', FvText ''Fixed''),
      (''gtpu_extension_udp_port_count'', FvNumber 16),
      (''gtpu_extension_udp_port_step'', FvNumber 1),
      (''gtpu_inner_ip_version'', FvText ''IPv4''),
      (''gtpu_inner_ipv4_src'', FvText ''10.3.0.1''),
      (''gtpu_inner_ipv4_src_mode'', FvText ''Fixed''),
      (''gtpu_inner_ipv4_src_count'', FvNumber 16),
      (''gtpu_inner_ipv4_src_step'', FvNumber 1),
      (''gtpu_inner_ipv4_dst'', FvText ''10.3.0.2''),
      (''gtpu_inner_ipv4_dst_mode'', FvText ''Fixed''),
      (''gtpu_inner_ipv4_dst_count'', FvNumber 16),
      (''gtpu_inner_ipv4_dst_step'', FvNumber 1),
      (''gtpu_inner_ipv4_ttl'', FvNumber 64),
      (''gtpu_inner_ipv4_ttl_mode'', FvText ''Fixed''),
      (''gtpu_inner_ipv4_ttl_count'', FvNumber 16),
      (''gtpu_inner_ipv4_ttl_step'', FvNumber 1),
      (''gtpu_inner_ipv6_src'', FvText ''2001:db8:30::1''),
      (''gtpu_inner_ipv6_src_mode'', FvText ''Fixed''),
      (''gtpu_inner_ipv6_src_count'', FvNumber 16),
      (''gtpu_inner_ipv6_src_step'', FvNumber 1),
      (''gtpu_inner_ipv6_dst'', FvText ''2001:db8:30::2''),
      (''gtpu_inner_ipv6_dst_mode'', FvText ''Fixed''),
      (''gtpu_inner_ipv6_dst_count'', FvNumber 16),
      (''gtpu_inner_ipv6_dst_step'', FvNumber 1),
      (''gtpu_inner_ipv6_hop_limit'', FvNumber 64),
      (''gtpu_inner_ipv6_hop_limit_mode'', FvText ''Fixed''),
      (''gtpu_inner_ipv6_hop_limit_count'', FvNumber 16),
      (''gtpu_inner_ipv6_hop_limit_step'', FvNumber 1),
      (''gtpu_inner_l4_src_port'', FvNumber 1025),
      (''gtpu_inner_l4_src_port_mode'', FvText ''Fixed''),
      (''gtpu_inner_l4_src_port_count'', FvNumber 16),
      (''gtpu_inner_l4_src_port_step'', FvNumber 1),
      (''gtpu_inner_l4_dst_port'', FvNumber 12),
      (''gtpu_inner_l4_dst_port_mode'', FvText ''Fixed''),
      (''gtpu_inner_l4_dst_port_count'', FvNumber 16),
      (''gtpu_inner_l4_dst_port_step'', FvNumber 1),
      (''gre_checksum_present'', FvFlag False),
      (''gre_checksum_override'', FvFlag False),
      (''gre_checksum'', FvText ''0000''),
      (''gre_key_present'', FvFlag False),
      (''gre_key'', FvNumber 0),
      (''gre_key_mode'', FvText ''Fixed''),
      (''gre_key_count'', FvNumber 16),
      (''gre_key_step'', FvNumber 1),
      (''gre_sequence_present'', FvFlag False),
      (''gre_sequence'', FvNumber 0),
      (''gre_sequence_mode'', FvText ''Fixed''),
      (''gre_sequence_count'', FvNumber 16),
      (''gre_sequence_step'', FvNumber 1),
      (''gre_protocol_type'', FvText ''0800''),
      (''gre_inner_ip_version'', FvText ''IPv4''),
      (''gre_inner_ipv4_src'', FvText ''10.2.0.1''),
      (''gre_inner_ipv4_src_mode'', FvText ''Fixed''),
      (''gre_inner_ipv4_src_count'', FvNumber 16),
      (''gre_inner_ipv4_src_step'', FvNumber 1),
      (''gre_inner_ipv4_dst'', FvText ''10.2.0.2''),
      (''gre_inner_ipv4_dst_mode'', FvText ''Fixed''),
      (''gre_inner_ipv4_dst_count'', FvNumber 16),
      (''gre_inner_ipv4_dst_step'', FvNumber 1),
      (''gre_inner_ipv4_ttl'', FvNumber 64),
      (''gre_inner_ipv4_ttl_mode'', FvText ''Fixed''),
      (''gre_inner_ipv4_ttl_count'', FvNumber 16),
      (''gre_inner_ipv4_ttl_step'', FvNumber 1),
      (''gre_inner_ipv6_src'', FvText ''2001:db8:40::1'')]"

definition defaultFields3 :: "StreamPatch" where
  "defaultFields3 =
     [(''gre_inner_ipv6_src_mode'', FvText ''Fixed''),
      (''gre_inner_ipv6_src_count'', FvNumber 16),
      (''gre_inner_ipv6_src_step'', FvNumber 1),
      (''gre_inner_ipv6_dst'', FvText ''2001:db8:40::2''),
      (''gre_inner_ipv6_dst_mode'', FvText ''Fixed''),
      (''gre_inner_ipv6_dst_count'', FvNumber 16),
      (''gre_inner_ipv6_dst_step'', FvNumber 1),
      (''gre_inner_ipv6_hop_limit'', FvNumber 64),
      (''gre_inner_ipv6_hop_limit_mode'', FvText ''Fixed''),
      (''gre_inner_ipv6_hop_limit_count'', FvNumber 16),
      (''gre_inner_ipv6_hop_limit_step'', FvNumber 1),
      (''gre_inner_l4_src_port'', FvNumber 1025),
      (''gre_inner_l4_src_port_mode'', FvText ''Fixed''),
      (''gre_inner_l4_src_port_count'', FvNumber 16),
      (''gre_inner_l4_src_port_step'', FvNumber 1),
      (''gre_inner_l4_dst_port'', FvNumber 12),
      (''gre_inner_l4_dst_port_mode'', FvText ''Fixed''),
      (''gre_inner_l4_dst_port_count'', FvNumber 16),
      (''gre_inner_l4_dst_port_step'', FvNumber 1),
      (''ipv4_src'', FvText ''16.0.0.1''),
      (''ipv4_dst'', FvText ''48.0.0.1''),
      (''ipv4_src_mode'', FvText ''Fixed''),
      (''ipv4_src_count'', FvNumber 16),
      (''ipv4_src_step'', FvNumber 1),
      (''ipv4_dst_mode'', FvText ''Fixed''),
      (''ipv4_dst_count'', FvNumber 16),
      (''ipv4_dst_step'', FvNumber 1),
      (''ipv4_dscp'', FvNumber 0),
      (''ipv4_dscp_mode'', FvText ''Fixed''),
      (''ipv4_dscp_count'', FvNumber 16),
      (''ipv4_dscp_step'', FvNumber 1),
      (''ipv4_ecn'', FvNumber 0),
      (''ipv4_ecn_mode'', FvText ''Fixed''),
      (''ipv4_ecn_count'', FvNumber 4),
      (''ipv4_ecn_step'', FvNumber 1),
      (''ipv4_id'', FvNumber 1234),
      (''ipv4_id_mode'', FvText ''Fixed''),
      (''ipv4_id_count'', FvNumber 16),
      (''ipv4_id_step'', FvNumber 1),
      (''ipv4_flag_df'', FvFlag False),
      (''ipv4_flag_mf'', FvFlag False),
      (''ipv4_fragment_offset'', FvNumber 0),
      (''ipv4_fragment_offset_mode'', FvText ''Fixed''),
      (''ipv4_fragment_offset_count'', FvNumber 16),
      (''ipv4_fragment_offset_step'', FvNumber 1),
      (''ipv4_ttl'', FvNumber 127),
      (''ipv4_ttl_mode'', FvText ''Fixed''),
      (''ipv4_ttl_count'', FvNumber 16),
      (''ipv4_ttl_step'', FvNumber 1),
      (''ipv4_checksum_override'', FvFlag False),
      (''ipv4_checksum'', FvText ''0000''),
      (''ipv6_src'', FvText ''2001:db8::1''),
      (''ipv6_dst'', FvText ''2001:db8::2''),
      (''ipv6_src_mode'', FvText ''Fixed''),
      (''ipv6_src_count'', FvNumber 16),
      (''ipv6_src_step'', FvNumber 1),
      (''ipv6_dst_mode'', FvText ''Fixed''),
      (''ipv6_dst_count'', FvNumber 16),
      (''ipv6_dst_step'', FvNumber 1),
      (''ipv6_traffic_class'', FvNumber 0),
      (''ipv6_traffic_class_mode'', FvText ''Fixed''),
      (''ipv6_traffic_class_count'', FvNumber 16),
      (''ipv6_traffic_class_step'', FvNumber 1),
      (''ipv6_flow_label'', FvNumber 0),
      (''ipv6_flow_label_mode'', FvText ''Fixed''),
      (''ipv6_flow_label_count'', FvNumber 16),
      (''ipv6_flow_label_step'', FvNumber 1),
      (''ipv6_hop_limit'', FvNumber 127),
      (''ipv6_hop_limit_mode'', FvText ''Fixed''),
      (''ipv6_hop_limit_count'', FvNumber 16),
      (''ipv6_hop_limit_step'', FvNumber 1),
      (''l4_src_port_override'', FvFlag False),
      (''l4_src_port'', FvNumber 1025),
      (''l4_src_port_mode'', FvText ''Fixed''),
      (''l4_src_port_count'', FvNumber 16),
      (''l4_src_port_step'', FvNumber 1),
      (''l4_dst_port_override'', FvFlag False),
      (''l4_dst_port'', FvNumber 12),
      (''l4_dst_port_mode'', FvText ''Fixed''),
      (''l4_dst_port_count'', FvNumber 16),
      (''l4_dst_port_step'', FvNumber 1),
      (''udp_length_override'', FvFlag False),
      (''udp_length'', FvNumber 26),
      (''udp_length_mode'', FvText ''Fixed''),
      (''udp_length_count'', FvNumber 16),
      (''udp_length_step'', FvNumber 1),
      (''udp_checksum_override'', FvFlag False),
      (''udp_checksum'', FvText ''0000''),
      (''udp_checksum_mode'', FvText ''Fixed''),
      (''udp_checksum_count'', FvNumber 16),
      (''udp_checksum_step'', FvNumber 1),
      (''dns_enabled'', FvFlag False),
      (''dns_transaction_id'', FvNumber 4660),
      (''dns_transaction_id_mode'', FvText ''Fixed''),
      (''dns_transaction_id_count'', FvNumber 16),
      (''dns_transaction_id_step'', FvNumber 1),
      (''dns_flags'', FvText ''0100''),
      (''dns_flags_mode'', FvText ''Fixed''),
      (''dns_flags_count'', FvNumber 16),
      (''dns_flags_step'', FvNumber 1),
      (''dns_query_name'', FvText ''example.com''),
      (''dns_query_type'', FvNumber 1),
      (''dns_query_type_mode'', FvText ''Fixed''),
      (''dns_query_type_count'', FvNumber 16),
      (''dns_query_type_step'', FvNumber 1),
      (''dns_query_class'', FvNumber 1),
      (''dns_query_class_mode'', FvText ''Fixed''),
      (''dns_query_class_count'', FvNumber 16),
      (''dns_query_class_step'', FvNumber 1),
      (''dns_answer_enabled'', FvFlag False),
      (''dns_answer_ttl'', FvNumber 60),
      (''dns_answer_ttl_mode'', FvText ''Fixed''),
      (''dns_answer_ttl_count'', FvNumber 16),
      (''dns_answer_ttl_step'', FvNumber 1),
      (''dns_answer_ipv4'', FvText ''192.0.2.1''),
      (''dns_answer_ipv4_mode'', FvText ''Fixed''),
      (''dns_answer_ipv4_count'', FvNumber 16),
      (''dns_answer_ipv4_step'', FvNumber 1),
      (''dhcp_enabled'', FvFlag False),
      (''dhcp_operation'', FvNumber 1)]"

definition defaultFields4 :: "StreamPatch" where
  "defaultFields4 =
     [(''dhcp_operation_mode'', FvText ''Fixed''),
      (''dhcp_operation_count'', FvNumber 2),
      (''dhcp_operation_step'', FvNumber 1),
      (''dhcp_hops'', FvNumber 0),
      (''dhcp_hops_mode'', FvText ''Fixed''),
      (''dhcp_hops_count'', FvNumber 16),
      (''dhcp_hops_step'', FvNumber 1),
      (''dhcp_seconds'', FvNumber 0),
      (''dhcp_seconds_mode'', FvText ''Fixed''),
      (''dhcp_seconds_count'', FvNumber 16),
      (''dhcp_seconds_step'', FvNumber 1),
      (''dhcp_message_type'', FvNumber 1),
      (''dhcp_message_type_mode'', FvText ''Fixed''),
      (''dhcp_message_type_count'', FvNumber 16),
      (''dhcp_message_type_step'', FvNumber 1),
      (''dhcp_xid'', FvNumber 956560166),
      (''dhcp_xid_mode'', FvText ''Fixed''),
      (''dhcp_xid_count'', FvNumber 16),
      (''dhcp_xid_step'', FvNumber 1),
      (''dhcp_flags'', FvText ''8000''),
      (''dhcp_flags_mode'', FvText ''Fixed''),
      (''dhcp_flags_count'', FvNumber 16),
      (''dhcp_flags_step'', FvNumber 1),
      (''dhcp_client_ip'', FvText ''0.0.0.0''),
      (''dhcp_client_ip_mode'', FvText ''Fixed''),
      (''dhcp_client_ip_count'', FvNumber 16),
      (''dhcp_client_ip_step'', FvNumber 1),
      (''dhcp_your_ip'', FvText ''0.0.0.0''),
      (''dhcp_your_ip_mode'', FvText ''Fixed''),
      (''dhcp_your_ip_count'', FvNumber 16),
      (''dhcp_your_ip_step'', FvNumber 1),
      (''dhcp_server_ip'', FvText ''0.0.0.0''),
      (''dhcp_server_ip_mode'', FvText ''Fixed''),
      (''dhcp_server_ip_count'', FvNumber 16),
      (''dhcp_server_ip_step'', FvNumber 1),
      (''dhcp_relay_ip'', FvText ''0.0.0.0''),
      (''dhcp_relay_ip_mode'', FvText ''Fixed''),
      (''dhcp_relay_ip_count'', FvNumber 16),
      (''dhcp_relay_ip_step'', FvNumber 1),
      (''dhcp_client_mac'', FvText ''00:11:22:33:44:55''),
      (''dhcp_client_mac_mode'', FvText ''Fixed''),
      (''dhcp_client_mac_count'', FvNumber 16),
      (''dhcp_client_mac_step'', FvNumber 1),
      (''dhcp_hostname'', FvText ''trex-webui''),
      (''dhcp_requested_ip'', FvText ''0.0.0.0''),
      (''dhcp_requested_ip_mode'', FvText ''Fixed''),
      (''dhcp_requested_ip_count'', FvNumber 16),
      (''dhcp_requested_ip_step'', FvNumber 1),
      (''dhcp_server_id'', FvText ''0.0.0.0''),
      (''dhcp_server_id_mode'', FvText ''Fixed''),
      (''dhcp_server_id_count'', FvNumber 16),
      (''dhcp_server_id_step'', FvNumber 1),
      (''dhcp_parameter_request_list'', FvText ''1,3,6,15,28,51,58,59''),
      (''dhcp_lease_time'', FvNumber 0),
      (''dhcp_lease_time_mode'', FvText ''Fixed''),
      (''dhcp_lease_time_count'', FvNumber 16),
      (''dhcp_lease_time_step'', FvNumber 1),
      (''dhcp_renewal_time'', FvNumber 0),
      (''dhcp_renewal_time_mode'', FvText ''Fixed''),
      (''dhcp_renewal_time_count'', FvNumber 16),
      (''dhcp_renewal_time_step'', FvNumber 1),
      (''dhcp_rebinding_time'', FvNumber 0),
      (''dhcp_rebinding_time_mode'', FvText ''Fixed''),
      (''dhcp_rebinding_time_count'', FvNumber 16),
      (''dhcp_rebinding_time_step'', FvNumber 1),
      (''icmp_type'', FvNumber 8),
      (''icmp_type_mode'', FvText ''Fixed''),
      (''icmp_type_count'', FvNumber 16),
      (''icmp_type_step'', FvNumber 1),
      (''icmp_code'', FvNumber 0),
      (''icmp_code_mode'', FvText ''Fixed''),
      (''icmp_code_count'', FvNumber 16),
      (''icmp_code_step'', FvNumber 1),
      (''icmp_checksum_override'', FvFlag False),
      (''icmp_checksum'', FvText ''0000''),
      (''icmp_identifier'', FvNumber 1),
      (''icmp_identifier_mode'', FvText ''Fixed''),
      (''icmp_identifier_count'', FvNumber 16),
      (''icmp_identifier_step'', FvNumber 1),
      (''icmp_sequence'', FvNumber 1),
      (''icmp_sequence_mode'', FvText ''Fixed''),
      (''icmp_sequence_count'', FvNumber 16),
      (''icmp_sequence_step'', FvNumber 1),
      (''icmpv6_nd_target'', FvText ''2001:db8::2''),
      (''icmpv6_nd_include_option'', FvFlag True),
      (''icmpv6_nd_option_mac'', FvText ''00:00:00:00:00:00''),
      (''icmpv6_nd_na_router'', FvFlag False),
      (''icmpv6_nd_na_solicited'', FvFlag True),
      (''icmpv6_nd_na_override'', FvFlag True),
      (''icmpv6_rs_include_slla'', FvFlag True),
      (''icmpv6_rs_slla_mac'', FvText ''00:00:00:00:00:00''),
      (''icmpv6_ra_cur_hop_limit'', FvNumber 64),
      (''icmpv6_ra_managed'', FvFlag False),
      (''icmpv6_ra_other'', FvFlag False),
      (''icmpv6_ra_router_lifetime'', FvNumber 1800),
      (''icmpv6_ra_reachable_time'', FvNumber 0),
      (''icmpv6_ra_retrans_timer'', FvNumber 0),
      (''icmpv6_ra_include_slla'', FvFlag True),
      (''icmpv6_ra_slla_mac'', FvText ''00:00:00:00:00:00''),
      (''icmpv6_ra_include_prefix'', FvFlag True),
      (''icmpv6_ra_prefix'', FvText ''2001:db8:1::''),
      (''icmpv6_ra_prefix_length'', FvNumber 64),
      (''icmpv6_ra_prefix_on_link'', FvFlag True),
      (''icmpv6_ra_prefix_autonomous'', FvFlag True),
      (''icmpv6_ra_prefix_valid_lifetime'', FvNumber 2592000),
      (''icmpv6_ra_prefix_preferred_lifetime'', FvNumber 604800),
      (''tcp_sequence_number'', FvNumber 1234567),
      (''tcp_sequence_mode'', FvText ''Fixed''),
      (''tcp_sequence_count'', FvNumber 16),
      (''tcp_sequence_step'', FvNumber 1),
      (''tcp_ack_number'', FvNumber 7654321),
      (''tcp_ack_mode'', FvText ''Fixed''),
      (''tcp_ack_count'', FvNumber 16),
      (''tcp_ack_step'', FvNumber 1),
      (''tcp_window'', FvNumber 9999),
      (''tcp_window_mode'', FvText ''Fixed''),
      (''tcp_window_count'', FvNumber 16),
      (''tcp_window_step'', FvNumber 1),
      (''tcp_checksum_override'', FvFlag False),
      (''tcp_checksum'', FvText ''ABCD'')]"

definition defaultFields5 :: "StreamPatch" where
  "defaultFields5 =
     [(''tcp_checksum_mode'', FvText ''Fixed''),
      (''tcp_checksum_count'', FvNumber 16),
      (''tcp_checksum_step'', FvNumber 1),
      (''tcp_option_mss_enabled'', FvFlag False),
      (''tcp_option_mss'', FvNumber 1460),
      (''tcp_option_mss_mode'', FvText ''Fixed''),
      (''tcp_option_mss_count'', FvNumber 16),
      (''tcp_option_mss_step'', FvNumber 1),
      (''tcp_option_window_scale_enabled'', FvFlag False),
      (''tcp_option_window_scale'', FvNumber 7),
      (''tcp_option_window_scale_mode'', FvText ''Fixed''),
      (''tcp_option_window_scale_count'', FvNumber 16),
      (''tcp_option_window_scale_step'', FvNumber 1),
      (''tcp_option_sack_permitted_enabled'', FvFlag False),
      (''tcp_option_sack_blocks_enabled'', FvFlag False),
      (''tcp_option_sack_left_edge'', FvNumber 1000),
      (''tcp_option_sack_left_edge_mode'', FvText ''Fixed''),
      (''tcp_option_sack_left_edge_count'', FvNumber 16),
      (''tcp_option_sack_left_edge_step'', FvNumber 1),
      (''tcp_option_sack_right_edge'', FvNumber 2000),
      (''tcp_option_sack_right_edge_mode'', FvText ''Fixed''),
      (''tcp_option_sack_right_edge_count'', FvNumber 16),
      (''tcp_option_sack_right_edge_step'', FvNumber 1),
      (''tcp_option_timestamp_enabled'', FvFlag False),
      (''tcp_option_timestamp_value'', FvNumber 1),
      (''tcp_option_timestamp_value_mode'', FvText ''Fixed''),
      (''tcp_option_timestamp_value_count'', FvNumber 16),
      (''tcp_option_timestamp_value_step'', FvNumber 1),
      (''tcp_option_timestamp_echo'', FvNumber 0),
      (''tcp_option_timestamp_echo_mode'', FvText ''Fixed''),
      (''tcp_option_timestamp_echo_count'', FvNumber 16),
      (''tcp_option_timestamp_echo_step'', FvNumber 1),
      (''tcp_urgent_pointer'', FvNumber 1111),
      (''tcp_urgent_pointer_mode'', FvText ''Fixed''),
      (''tcp_urgent_pointer_count'', FvNumber 16),
      (''tcp_urgent_pointer_step'', FvNumber 1),
      (''tcp_flags_mode'', FvText ''Fixed''),
      (''tcp_flags_count'', FvNumber 16),
      (''tcp_flags_step'', FvNumber 1),
      (''tcp_flag_urg'', FvFlag False),
      (''tcp_flag_ack'', FvFlag False),
      (''tcp_flag_psh'', FvFlag False),
      (''tcp_flag_rst'', FvFlag False),
      (''tcp_flag_syn'', FvFlag False),
      (''tcp_flag_fin'', FvFlag False),
      (''sctp_verification_tag'', FvNumber 305419896),
      (''sctp_verification_tag_mode'', FvText ''Fixed''),
      (''sctp_verification_tag_count'', FvNumber 16),
      (''sctp_verification_tag_step'', FvNumber 1),
      (''sctp_checksum_override'', FvFlag False),
      (''sctp_checksum'', FvText ''00000000''),
      (''sctp_data_flags'', FvNumber 3),
      (''sctp_data_flags_mode'', FvText ''Fixed''),
      (''sctp_data_flags_count'', FvNumber 16),
      (''sctp_data_flags_step'', FvNumber 1),
      (''sctp_tsn'', FvNumber 1),
      (''sctp_tsn_mode'', FvText ''Fixed''),
      (''sctp_tsn_count'', FvNumber 16),
      (''sctp_tsn_step'', FvNumber 1),
      (''sctp_stream_id'', FvNumber 0),
      (''sctp_stream_id_mode'', FvText ''Fixed''),
      (''sctp_stream_id_count'', FvNumber 16),
      (''sctp_stream_id_step'', FvNumber 1),
      (''sctp_stream_sequence'', FvNumber 0),
      (''sctp_stream_sequence_mode'', FvText ''Fixed''),
      (''sctp_stream_sequence_count'', FvNumber 16),
      (''sctp_stream_sequence_step'', FvNumber 1),
      (''sctp_payload_protocol_id'', FvNumber 0),
      (''sctp_payload_protocol_id_mode'', FvText ''Fixed''),
      (''sctp_payload_protocol_id_count'', FvNumber 16),
      (''sctp_payload_protocol_id_step'', FvNumber 1),
      (''payload_enabled'', FvFlag True),
      (''payload_type'', FvText ''Fixed Word''),
      (''payload_pattern'', FvText ''00''),
      (''advanced_cache_size_type'', FvText ''Auto''),
      (''advanced_cache_value'', FvNumber 5000),
      (''packet_binary_base64'', FvNull),
      (''advanced_mode'', FvFlag False),
      (''packet_model'', FvNull),
      (''packet_meta_base64'', FvNull),
      (''advanced_vm'', FvNull)]"

definition defaultFields :: "int \<Rightarrow> StreamPatch" where
  "defaultFields index = defaultFields1 index @ defaultFields2 @ defaultFields3 @ defaultFields4 @ defaultFields5"

definition defaultWorkbenchStream :: "int \<Rightarrow> EditorStream" where
  "defaultWorkbenchStream index = applyFields (\<lambda>f. FvUndefined) (defaultFields index)"

definition completeWorkbenchStream :: "StreamPatch \<Rightarrow> int \<Rightarrow> EditorStream" where
  "completeWorkbenchStream stream index = applyFields (defaultWorkbenchStream index) stream"

definition completeWorkbenchStreams :: "StreamPatch list \<Rightarrow> EditorStream list" where
  "completeWorkbenchStreams streams =
     map (\<lambda>(index, stream). completeWorkbenchStream stream (int index + 1)) (enumerate 0 streams)"

section \<open>The state of the page\<close>

text \<open>
  The requests under way hold what their closures read: a save, the streams of the render in which it was started.
\<close>

datatype WorkbenchRequest = SaveRequest "EditorStream list" | LoadRequest | ImportRequest | OtherRequest

record 'p Builder = "'p Workbench" +
  wb_selected :: nat
  wb_name :: string
  wb_sourcePath :: "string option"
  wb_busy :: bool
  wb_requests :: "WorkbenchRequest list"

definition initialBuilder :: "'p Builder" where
  "initialBuilder =
     \<lparr>wb_previews = [], wb_dirty = False, wb_streams = [defaultWorkbenchStream 1], wb_selected = 0,
      wb_name = ''profile.yaml'', wb_sourcePath = None, wb_busy = False, wb_requests = []\<rparr>"

section \<open>Adding, duplicating and deleting\<close>

definition handleBuildStream :: "'p Builder \<Rightarrow> 'p Builder" where
  "handleBuildStream wb =
     (let current = wb_streams wb in
      wb\<lparr>wb_dirty := True, wb_selected := length current, wb_previews := [],
         wb_streams := current @ [defaultWorkbenchStream (int (length current) + 1)]\<rparr>)"

definition clonedStream :: "nat \<Rightarrow> EditorStream \<Rightarrow> EditorStream" where
  "clonedStream count selected =
     applyFields selected
       [(''name'', FvText (fvText (selected ''name'') @ ''-copy'')), (''pg_id'', FvNumber (int count + 1)),
        (''next_stream_id'', FvNull), (''action_count'', FvNumber 0)]"

definition handleDuplicateStream :: "'p Builder \<Rightarrow> 'p Builder" where
  "handleDuplicateStream wb =
     (let current = wb_streams wb; selectedIndex = wb_selected wb in
      case streamAt selectedIndex wb of
        None \<Rightarrow> wb\<lparr>wb_dirty := True\<rparr>
      | Some selected \<Rightarrow>
          wb\<lparr>wb_dirty := True, wb_selected := selectedIndex + 1, wb_previews := [],
             wb_streams := take (selectedIndex + 1) current @ [clonedStream (length current) selected]
               @ drop (selectedIndex + 1) current\<rparr>)"

definition renumberedStream :: "int \<Rightarrow> EditorStream \<Rightarrow> EditorStream" where
  "renumberedStream deletedStreamId stream =
     (case stream ''next_stream_id'' of
        FvNumber n \<Rightarrow>
          (if n = deletedStreamId then applyFields stream [(''next_stream_id'', FvNull), (''action_count'', FvNumber 0)]
           else if n > deletedStreamId then applyFields stream [(''next_stream_id'', FvNumber (n - 1))]
           else stream)
      | _ \<Rightarrow> stream)"

definition handleDeleteStream :: "'p Builder \<Rightarrow> 'p Builder" where
  "handleDeleteStream wb =
     (let selectedIndex = wb_selected wb;
          deletedStreamId = int selectedIndex + 1;
          next' = map (\<lambda>(i, stream). renumberedStream deletedStreamId stream)
            (filter (\<lambda>(i, stream). i \<noteq> selectedIndex) (enumerate 0 (wb_streams wb)))
      in wb\<lparr>wb_dirty := True, wb_streams := next', wb_previews := [],
            wb_selected := min selectedIndex (length next' - 1)\<rparr>)"

section \<open>Commands\<close>

datatype ProfileCommandAction =
    ProfileCreate | ProfileDuplicate | ProfileLoad | ProfileDelete | ProfileJson | ProfileYaml

datatype StreamCommandAction =
    StreamBuild | StreamEdit | StreamDuplicate | StreamDelete | StreamImport | StreamPcap | StreamYaml

record ProfileCommandAvailability =
  pca_commandDisabled :: bool
  pca_hasSelectedProfile :: bool
  pca_hasWorkbenchProfileValidationError :: bool
  pca_isProfileWorkbenchBusy :: bool
  pca_streamBuilderEnabled :: bool
  pca_streamCount :: nat

record StreamCommandAvailability =
  sca_commandDisabled :: bool
  sca_hasSelectedStreamValidationError :: bool
  sca_hasWorkbenchProfileValidationError :: bool
  sca_isProfileWorkbenchBusy :: bool
  sca_streamCount :: nat

definition profileCommandDisabled :: "ProfileCommandAction \<Rightarrow> ProfileCommandAvailability \<Rightarrow> bool" where
  "profileCommandDisabled action availability \<longleftrightarrow>
     pca_commandDisabled availability
     \<or> pca_isProfileWorkbenchBusy availability
     \<or> action \<in> {ProfileCreate, ProfileLoad, ProfileJson, ProfileYaml} \<and> \<not> pca_streamBuilderEnabled availability
     \<or> action \<in> {ProfileDuplicate, ProfileLoad, ProfileDelete, ProfileJson} \<and> \<not> pca_hasSelectedProfile availability
     \<or> action = ProfileCreate \<and> pca_streamCount availability = 0
     \<or> action = ProfileYaml \<and> pca_streamCount availability = 0
     \<or> action \<in> {ProfileCreate, ProfileYaml} \<and> pca_hasWorkbenchProfileValidationError availability"

definition streamCommandDisabled :: "StreamCommandAction \<Rightarrow> StreamCommandAvailability \<Rightarrow> bool" where
  "streamCommandDisabled action availability \<longleftrightarrow>
     sca_commandDisabled availability
     \<or> sca_isProfileWorkbenchBusy availability
     \<or> sca_streamCount availability = 0 \<and> action \<notin> {StreamBuild, StreamImport}
     \<or> action = StreamYaml \<and> sca_hasWorkbenchProfileValidationError availability
     \<or> action = StreamPcap \<and> sca_hasSelectedStreamValidationError availability"

text \<open>What the buttons are drawn from: a profile may be selected, and the builder may be switched off.\<close>

definition profileAvailability ::
  "(string \<Rightarrow> string option) \<Rightarrow> bool \<Rightarrow> bool \<Rightarrow> 'p Builder \<Rightarrow> ProfileCommandAvailability" where
  "profileAvailability urlHost hasSelectedProfile streamBuilderEnabled wb =
     \<lparr>pca_commandDisabled = False, pca_hasSelectedProfile = hasSelectedProfile,
      pca_hasWorkbenchProfileValidationError = (validateWorkbenchProfile urlHost (wb_name wb) (wb_streams wb) \<noteq> None),
      pca_isProfileWorkbenchBusy = wb_busy wb, pca_streamBuilderEnabled = streamBuilderEnabled,
      pca_streamCount = length (wb_streams wb)\<rparr>"

definition streamAvailability :: "(string \<Rightarrow> string option) \<Rightarrow> 'p Builder \<Rightarrow> StreamCommandAvailability" where
  "streamAvailability urlHost wb =
     \<lparr>sca_commandDisabled = False,
      sca_hasSelectedStreamValidationError =
        (validateWorkbenchStream urlHost (streamAt (wb_selected wb) wb) (int (wb_selected wb)) (int (length (wb_streams wb)))
          \<noteq> None),
      sca_hasWorkbenchProfileValidationError = (validateWorkbenchProfile urlHost (wb_name wb) (wb_streams wb) \<noteq> None),
      sca_isProfileWorkbenchBusy = wb_busy wb, sca_streamCount = length (wb_streams wb)\<rparr>"

section \<open>Requests\<close>

definition handleBuilderProfileNameChange :: "bool \<Rightarrow> string \<Rightarrow> 'p Builder \<Rightarrow> 'p Builder" where
  "handleBuilderProfileNameChange isPythonProfile value wb =
     (if isPythonProfile then wb\<lparr>wb_name := value\<rparr> else wb\<lparr>wb_name := value, wb_dirty := True\<rparr>)"

definition startRequest :: "WorkbenchRequest \<Rightarrow> 'p Builder \<Rightarrow> 'p Builder" where
  "startRequest request wb = wb\<lparr>wb_busy := True, wb_requests := wb_requests wb @ [request]\<rparr>"

definition endRequest :: "nat \<Rightarrow> 'p Builder \<Rightarrow> 'p Builder" where
  "endRequest k wb = wb\<lparr>wb_busy := False, wb_requests := take k (wb_requests wb) @ drop (Suc k) (wb_requests wb)\<rparr>"

definition handleSaveWorkbenchProfile :: "(string \<Rightarrow> string option) \<Rightarrow> 'p Builder \<Rightarrow> 'p Builder" where
  "handleSaveWorkbenchProfile urlHost wb =
     (if validateWorkbenchProfile urlHost (wb_name wb) (wb_streams wb) \<noteq> None then wb
      else startRequest (SaveRequest (wb_streams wb)) wb)"

text \<open>The answer to a save: the path of the profile if it was stored.\<close>

definition saveAnswered :: "string option \<Rightarrow> 'p list \<Rightarrow> 'p Builder \<Rightarrow> 'p Builder" where
  "saveAnswered relativePath previews wb =
     (case relativePath of
        None \<Rightarrow> wb\<lparr>wb_previews := previews\<rparr>
      | Some path \<Rightarrow> wb\<lparr>wb_previews := previews, wb_sourcePath := Some path, wb_dirty := False\<rparr>)"

text \<open>The streams of a loaded profile, and of an imported capture, which has to be saved.\<close>

definition loadAnswered :: "StreamPatch list \<Rightarrow> string \<Rightarrow> string \<Rightarrow> 'p list \<Rightarrow> 'p Builder \<Rightarrow> 'p Builder" where
  "loadAnswered streams path name previews wb =
     (if streams = [] then wb
      else wb\<lparr>wb_streams := completeWorkbenchStreams streams, wb_sourcePath := Some path, wb_dirty := False,
              wb_previews := previews, wb_name := name, wb_selected := 0\<rparr>)"

definition importAnswered :: "StreamPatch list \<Rightarrow> string \<Rightarrow> 'p list \<Rightarrow> 'p Builder \<Rightarrow> 'p Builder" where
  "importAnswered streams name previews wb =
     (if streams = [] then wb
      else wb\<lparr>wb_streams := completeWorkbenchStreams streams, wb_sourcePath := None, wb_dirty := True,
              wb_previews := previews, wb_selected := 0, wb_name := name\<rparr>)"

section \<open>The machine\<close>

datatype 'p BuilderEvent =
    UseControl nat PatchAction
  | SelectStream nat
  | ChangeProfileName bool string
  | StreamCommand StreamCommandAction
  | ProfileCommand ProfileCommandAction bool bool
  | ImportCapture
  | RenderPreview
  | SaveAnswer nat "string option" "'p list"
  | LoadAnswer nat "StreamPatch list" string string "'p list"
  | ImportAnswer nat "StreamPatch list" string "'p list"
  | OtherAnswer nat "'p list option"
  | RequestFailed nat

definition runStreamCommand :: "(string \<Rightarrow> string option) \<Rightarrow> StreamCommandAction \<Rightarrow> 'p Builder \<Rightarrow> 'p Builder" where
  "runStreamCommand urlHost action wb =
     (if streamCommandDisabled action (streamAvailability urlHost wb) then wb
      else
        case action of
          StreamBuild \<Rightarrow> handleBuildStream wb
        | StreamDuplicate \<Rightarrow> handleDuplicateStream wb
        | StreamDelete \<Rightarrow> handleDeleteStream wb
        | StreamPcap \<Rightarrow> startRequest OtherRequest wb
        | StreamYaml \<Rightarrow> startRequest OtherRequest wb
        | _ \<Rightarrow> wb)"

definition runProfileCommand ::
  "(string \<Rightarrow> string option) \<Rightarrow> ProfileCommandAction \<Rightarrow> bool \<Rightarrow> bool \<Rightarrow> 'p Builder \<Rightarrow> 'p Builder" where
  "runProfileCommand urlHost action hasSelectedProfile streamBuilderEnabled wb =
     (if profileCommandDisabled action (profileAvailability urlHost hasSelectedProfile streamBuilderEnabled wb) then wb
      else
        case action of
          ProfileCreate \<Rightarrow> handleSaveWorkbenchProfile urlHost wb
        | ProfileLoad \<Rightarrow> startRequest LoadRequest wb
        | _ \<Rightarrow> startRequest OtherRequest wb)"

text \<open>The request that an answer answers.\<close>

definition requestAt :: "nat \<Rightarrow> 'p Builder \<Rightarrow> WorkbenchRequest option" where
  "requestAt k wb = (if k < length (wb_requests wb) then Some (wb_requests wb ! k) else None)"

fun builderStep :: "(string \<Rightarrow> string option) \<Rightarrow> 'p BuilderEvent \<Rightarrow> 'p Builder \<Rightarrow> 'p Builder" where
  "builderStep urlHost (UseControl index action) wb = useControl (index, action) wb"
| "builderStep urlHost (SelectStream index) wb = wb\<lparr>wb_selected := index\<rparr>"
| "builderStep urlHost (ChangeProfileName isPythonProfile value) wb = handleBuilderProfileNameChange isPythonProfile value wb"
| "builderStep urlHost (StreamCommand action) wb = runStreamCommand urlHost action wb"
| "builderStep urlHost (ProfileCommand action selected enabled) wb = runProfileCommand urlHost action selected enabled wb"
| "builderStep urlHost ImportCapture wb = startRequest ImportRequest wb"
| "builderStep urlHost RenderPreview wb =
     (if validateWorkbenchStreams urlHost (wb_streams wb) \<noteq> None then wb else startRequest OtherRequest wb)"
| "builderStep urlHost (SaveAnswer k path previews) wb =
     (case requestAt k wb of Some (SaveRequest sent) \<Rightarrow> endRequest k (saveAnswered path previews wb) | _ \<Rightarrow> wb)"
| "builderStep urlHost (LoadAnswer k streams path name previews) wb =
     (if requestAt k wb = Some LoadRequest then endRequest k (loadAnswered streams path name previews wb) else wb)"
| "builderStep urlHost (ImportAnswer k streams name previews) wb =
     (if requestAt k wb = Some ImportRequest then endRequest k (importAnswered streams name previews wb) else wb)"
| "builderStep urlHost (OtherAnswer k previews) wb =
     (if requestAt k wb = Some OtherRequest
      then endRequest k (case previews of None \<Rightarrow> wb | Some ps \<Rightarrow> wb\<lparr>wb_previews := ps\<rparr>) else wb)"
| "builderStep urlHost (RequestFailed k) wb = (if requestAt k wb = None then wb else endRequest k wb)"

text \<open>The streams that a report of a run shows as those of the selected profile.\<close>

definition reportWorkbenchStreams :: "bool \<Rightarrow> string \<Rightarrow> 'p Builder \<Rightarrow> EditorStream list option" where
  "reportWorkbenchStreams isPythonProfile selectedPath wb =
     (if isPythonProfile \<or> wb_dirty wb \<or> wb_sourcePath wb = None \<or> wb_sourcePath wb = Some []
        \<or> wb_sourcePath wb \<noteq> Some selectedPath
      then None else Some (wb_streams wb))"

section \<open>What the backend holds\<close>

text \<open>
  The streams at each path, as far as the answers tell: those loaded from it, and those of the last save to it.
\<close>

definition storedAfter ::
  "'p BuilderEvent \<Rightarrow> 'p Builder \<Rightarrow> (string \<Rightarrow> EditorStream list option) \<Rightarrow> string \<Rightarrow> EditorStream list option" where
  "storedAfter event wb stored =
     (case event of
        SaveAnswer k (Some path) previews \<Rightarrow>
          (case requestAt k wb of Some (SaveRequest sent) \<Rightarrow> stored(path \<mapsto> sent) | _ \<Rightarrow> stored)
      | LoadAnswer k streams path name previews \<Rightarrow>
          (if requestAt k wb = Some LoadRequest \<and> streams \<noteq> []
           then stored(path \<mapsto> completeWorkbenchStreams streams) else stored)
      | _ \<Rightarrow> stored)"

fun storedBy ::
  "(string \<Rightarrow> string option) \<Rightarrow> 'p BuilderEvent list \<Rightarrow> 'p Builder \<Rightarrow> (string \<Rightarrow> EditorStream list option)
     \<Rightarrow> string \<Rightarrow> EditorStream list option" where
  "storedBy urlHost [] wb stored = stored"
| "storedBy urlHost (e # events) wb stored = storedBy urlHost events (builderStep urlHost e wb) (storedAfter e wb stored)"

text \<open>No event changes the streams while a save is under way.\<close>

definition saving :: "'p Builder \<Rightarrow> bool" where
  "saving wb = list_ex (\<lambda>r. case r of SaveRequest sent \<Rightarrow> True | _ \<Rightarrow> False) (wb_requests wb)"

definition changesStreams :: "'p BuilderEvent \<Rightarrow> bool" where
  "changesStreams event =
     (case event of
        UseControl index action \<Rightarrow> True
      | StreamCommand action \<Rightarrow> action \<in> {StreamBuild, StreamDuplicate, StreamDelete}
      | LoadAnswer k streams path name previews \<Rightarrow> True
      | ImportAnswer k streams name previews \<Rightarrow> True
      | _ \<Rightarrow> False)"

fun quietRun :: "(string \<Rightarrow> string option) \<Rightarrow> 'p BuilderEvent list \<Rightarrow> 'p Builder \<Rightarrow> bool" where
  "quietRun urlHost [] wb \<longleftrightarrow> True"
| "quietRun urlHost (e # events) wb \<longleftrightarrow>
     \<not> (saving wb \<and> changesStreams e) \<and> quietRun urlHost events (builderStep urlHost e wb)"

section \<open>The fields of a new stream\<close>

lemma default_keys: "map fst (defaultFields index) = map fst streamFieldTypes"
  by (simp add: defaultFields_def defaultFields1_def defaultFields2_def defaultFields3_def defaultFields4_def
      defaultFields5_def streamFieldTypes_def streamFields1_def streamFields2_def streamFields3_def streamFields4_def
      streamFields5_def)

lemma default_typed: "typedPatch (defaultFields index)"
  by (simp add: defaultFields_def defaultFields1_def defaultFields2_def defaultFields3_def defaultFields4_def
      defaultFields5_def ModeType_def HostModeType_def hasType.simps)

lemma default_distinct: "distinct (map fst (defaultFields index))"
  unfolding default_keys by (rule keysApart_distinct [OF field_keys])

lemma default_at:
  assumes "(f, v) \<in> set (defaultFields index)"
  shows "defaultWorkbenchStream index f = v"
proof -
  have "distinct (map fst (rev (defaultFields index)))" using default_distinct by (simp add: rev_map [symmetric])
  then have "map_of (rev (defaultFields index)) f = Some v" using assms by (auto intro: map_of_is_SomeI)
  then show ?thesis by (simp add: defaultWorkbenchStream_def applyFields_at)
qed

lemma default_part:
  assumes "set part \<subseteq> set (defaultFields index)"
  shows "list_all (\<lambda>e. defaultWorkbenchStream index (fst e) = snd e) part"
  using assms default_at by (fastforce simp: list_all_iff)

lemma default_parts:
  "set (defaultFields1 index) \<subseteq> set (defaultFields index)" "set defaultFields2 \<subseteq> set (defaultFields index)"
  "set defaultFields3 \<subseteq> set (defaultFields index)" "set defaultFields4 \<subseteq> set (defaultFields index)"
  "set defaultFields5 \<subseteq> set (defaultFields index)"
  by (auto simp: defaultFields_def)

lemmas default_fields = default_parts [THEN default_part, unfolded defaultFields1_def defaultFields2_def defaultFields3_def
  defaultFields4_def defaultFields5_def list.pred_inject fst_conv snd_conv simp_thms]

lemma new_stream_typed: "typedStream (defaultWorkbenchStream index)"
  unfolding typedStream_def
proof (intro allI impI)
  fix f t
  assume t: "map_of streamFieldTypes f = Some t"
  then have "f \<in> set (map fst (defaultFields index))" unfolding default_keys by (metis image_set map_of_eq_None_iff option.distinct(1))
  then obtain v where v: "(f, v) \<in> set (defaultFields index)" by auto
  have "list_all (\<lambda>(f, v). case map_of streamFieldTypes f of None \<Rightarrow> False | Some t \<Rightarrow> hasType v t) (defaultFields index)"
    using default_typed by (simp add: typedPatch_def)
  then show "hasType (defaultWorkbenchStream index f) t"
    using v t default_at [OF v] by (force simp: list_all_iff)
qed

lemma new_stream_sound: "formSound (defaultWorkbenchStream index)"
  by (simp add: formSound_def on_def default_fields fixedOnly_def isIcmpPacketType_def endsWith_def startsWith_def)

lemma new_numbers: "0 \<le> index \<Longrightarrow> index \<le> WORKBENCH_MAX_PG_ID \<Longrightarrow> list_all (numericHolds (defaultWorkbenchStream index)) numericChecks1"
  by (simp add: numericChecks1_def default_fields WORKBENCH_MAX_COUNTER_def WORKBENCH_MAX_PG_ID_def WORKBENCH_MAX_RATE_def WORKBENCH_MAX_GAP_SECONDS_def)

lemma new_numbers2: "list_all (numericHolds (defaultWorkbenchStream index)) numericChecks2"
  by (simp add: numericChecks2_def default_fields WORKBENCH_MAX_COUNTER_def pageUnitCountValue_def)

lemma new_request: "dhcpParameterRequestListValid ''1,3,6,15,28,51,58,59''"
  by code_simp

lemma new_numbers3: "list_all (numericHolds (defaultWorkbenchStream index)) numericChecks3"
  by (simp add: numericChecks3_def default_fields WORKBENCH_MAX_COUNTER_def pageUnitCountValue_def new_request)

lemma new_addresses:
  "isMacAddress ''00:00:00:00:00:00''" "ipv4AddressValid ''16.0.0.1''" "ipv4AddressValid ''48.0.0.1''" "isHexOf 4 ''0800''"
  "\<not> isJsSpace (CHR ''0'')" "isHexDigit (CHR ''0'')"
  by code_simp+

lemma new_layers: "list_all (\<lambda>e. e = None) (layerErrors urlHost prefix count (defaultWorkbenchStream index))"
  by (simp add: layerErrors_def lengthErrors_def icmpErrors_def mplsErrors_def vxlanErrors_def gtpuErrors_def greErrors_def
      sctpErrors_def addressErrors_def arpErrors_def overrideErrors_def dnsErrors_def dhcpErrors_def controlErrors_def
      payloadErrors_def default_fields fieldMoves_def fixedMode_def isKind_def isIcmpv6Stream_def isIpv4Stream_def
      isIpv6Stream_def endsWith_def startsWith_def Let_def new_addresses PAGE_PAYLOAD_PATTERN_MAX_HEX_CHARS_def)

lemma new_name:
  assumes "0 \<le> index" "index \<le> WORKBENCH_MAX_PG_ID"
  shows "list_all (\<lambda>e. e = None) (nameErrors prefix (defaultWorkbenchStream index))"
proof -
  have digits: "list_all isDecDigit (decText index)" by (rule decText_digits [OF assms(1)])
  have len: "length (decText index) \<le> 8"
    by (rule radixText_length) (use assms in \<open>simp_all add: WORKBENCH_MAX_PG_ID_def\<close>)
  have plain: "list_all (\<lambda>c. \<not> isJsSpace c \<and> c \<noteq> CHR 0x00) (''stream-'' @ decText index)"
    using digits by (auto simp: list_all_iff isJsSpace_def isDecDigit_def codeOf_def)
  have "jsTrim (''stream-'' @ decText index) = ''stream-'' @ decText index"
    by (rule jsTrim_id) (use plain in \<open>auto simp: list_all_iff\<close>)
  moreover have "CHR 0x00 \<notin> set (''stream-'' @ decText index)"
    using plain unfolding list_all_iff by blast
  ultimately show ?thesis using len by (simp add: nameErrors_def default_fields)
qed

lemma new_stream_accepted:
  assumes "0 \<le> index" "index \<le> WORKBENCH_MAX_PG_ID"
  shows "validateWorkbenchStream urlHost (Some (defaultWorkbenchStream index)) i count = None"
  using new_numbers [OF assms] new_numbers2 [of index] new_numbers3 [of index] new_layers new_name [OF assms]
  by (simp add: stream_accepted numericChecks_def default_fields del: numericHolds.simps)

section \<open>What the events do to the streams\<close>

definition typedEvent :: "'p BuilderEvent \<Rightarrow> bool" where
  "typedEvent event =
     (case event of
        UseControl index action \<Rightarrow> typedAction action
      | LoadAnswer k streams path name previews \<Rightarrow> list_all typedPatch streams
      | ImportAnswer k streams name previews \<Rightarrow> list_all typedPatch streams
      | _ \<Rightarrow> True)"

definition soundEvent :: "'p BuilderEvent \<Rightarrow> bool" where
  "soundEvent event =
     (case event of
        LoadAnswer k streams path name previews \<Rightarrow> list_all formSound (completeWorkbenchStreams streams)
      | ImportAnswer k streams name previews \<Rightarrow> list_all formSound (completeWorkbenchStreams streams)
      | _ \<Rightarrow> True)"

text \<open>
  A stream after an event: one of before, one that a control changed, one with other fields that no form depends on, a
  new one, or one of those received.
\<close>

definition numberPatch :: "StreamPatch \<Rightarrow> bool" where
  "numberPatch p \<longleftrightarrow> typedPatch p \<and> apartFrom formFields p"

definition comesFrom :: "'p BuilderEvent \<Rightarrow> EditorStream list \<Rightarrow> EditorStream \<Rightarrow> bool" where
  "comesFrom event streams s \<longleftrightarrow>
     s \<in> set streams
     \<or> (\<exists>s0 p. s0 \<in> set streams \<and> typedPatch p \<and> keptPatch s0 p \<and> s = applyFields s0 (normalizedPatch p))
     \<or> (\<exists>s0 p. s0 \<in> set streams \<and> numberPatch p \<and> s = applyFields s0 p)
     \<or> (\<exists>index. s = defaultWorkbenchStream index)
     \<or> (case event of
          LoadAnswer k received path name previews \<Rightarrow> s \<in> set (completeWorkbenchStreams received)
        | ImportAnswer k received name previews \<Rightarrow> s \<in> set (completeWorkbenchStreams received)
        | _ \<Rightarrow> False)"

lemma clone_patch:
  "numberPatch [(''name'', FvText t), (''pg_id'', FvNumber n), (''next_stream_id'', FvNull), (''action_count'', FvNumber 0)]"
  by (simp add: numberPatch_def apartFrom_def formFields_def)

lemma renumber_patches:
  "numberPatch [(''next_stream_id'', FvNull), (''action_count'', FvNumber 0)]"
  "numberPatch [(''next_stream_id'', FvNumber n)]"
  by (simp_all add: numberPatch_def apartFrom_def formFields_def)

lemma numberPatch_Nil: "numberPatch []"
  by (simp add: numberPatch_def apartFrom_def)

lemma comes_same: "s \<in> set streams \<Longrightarrow> comesFrom event streams s"
  by (simp add: comesFrom_def)

lemma comes_numbers: "s0 \<in> set streams \<Longrightarrow> numberPatch p \<Longrightarrow> comesFrom event streams (applyFields s0 p)"
  unfolding comesFrom_def by blast

lemma comes_new: "comesFrom event streams (defaultWorkbenchStream index)"
  unfolding comesFrom_def by blast

lemma listed_stream: "(i, s) \<in> set (enumerate n xs) \<Longrightarrow> s \<in> set xs"
  by (induction xs arbitrary: n) auto

lemma clone_comes: "s0 \<in> set streams \<Longrightarrow> comesFrom event streams (clonedStream count s0)"
  unfolding clonedStream_def by (rule comes_numbers [OF _ clone_patch])

lemma renumbered_comes: "s0 \<in> set streams \<Longrightarrow> comesFrom event streams (renumberedStream d s0)"
  unfolding renumberedStream_def
  by (cases "s0 ''next_stream_id''")
    (auto simp only: FieldValue.case split: if_split intro: comes_same comes_numbers renumber_patches)

lemma build_comes: "s \<in> set (wb_streams (handleBuildStream wb)) \<Longrightarrow> comesFrom event (wb_streams wb) s"
  by (auto simp: handleBuildStream_def Let_def intro: comes_same comes_new)

lemma duplicate_comes: "s \<in> set (wb_streams (handleDuplicateStream wb)) \<Longrightarrow> comesFrom event (wb_streams wb) s"
  by (auto simp: handleDuplicateStream_def Let_def streamAt_def intro: comes_same clone_comes
      dest: in_set_takeD in_set_dropD split: if_splits)

lemma delete_comes: "s \<in> set (wb_streams (handleDeleteStream wb)) \<Longrightarrow> comesFrom event (wb_streams wb) s"
  by (auto simp: handleDeleteStream_def Let_def intro: renumbered_comes dest: listed_stream)

lemma command_streams:
  "s \<in> set (wb_streams (runStreamCommand urlHost action wb)) \<Longrightarrow> comesFrom event (wb_streams wb) s"
  by (auto simp: runStreamCommand_def startRequest_def intro: comes_same build_comes duplicate_comes delete_comes
      split: if_splits StreamCommandAction.splits)

lemma streams_same:
  "wb_streams (startRequest r wb) = wb_streams wb" "wb_streams (endRequest k wb) = wb_streams wb"
  "wb_streams (saveAnswered path previews wb) = wb_streams wb"
  "wb_streams (handleSaveWorkbenchProfile urlHost wb) = wb_streams wb"
  "wb_streams (runProfileCommand urlHost command selected enabled wb) = wb_streams wb"
  "wb_streams (handleBuilderProfileNameChange python value wb) = wb_streams wb"
  by (simp_all add: startRequest_def endRequest_def saveAnswered_def handleSaveWorkbenchProfile_def runProfileCommand_def
      handleBuilderProfileNameChange_def split: option.split ProfileCommandAction.split)

lemma step_streams:
  assumes "\<forall>s \<in> set (wb_streams wb). typedStream s" "typedEvent e" "s \<in> set (wb_streams (builderStep urlHost e wb))"
  shows "comesFrom e (wb_streams wb) s"
proof (cases e)
  case (UseControl index action)
  then show ?thesis using use_step [OF assms(1), of action s index] assms(2,3) by (auto simp: typedEvent_def comesFrom_def)
next
  case (StreamCommand action)
  then show ?thesis using command_streams assms(3) by simp
next
  case (LoadAnswer k received path name previews)
  then show ?thesis using assms(3) by (auto simp: comesFrom_def loadAnswered_def streams_same split: if_splits)
next
  case (ImportAnswer k received name previews)
  then show ?thesis using assms(3) by (auto simp: comesFrom_def importAnswered_def streams_same split: if_splits)
qed (use assms(3) in \<open>auto simp: comesFrom_def streams_same split: if_splits option.splits WorkbenchRequest.splits\<close>)

lemma completed_typed: "list_all typedPatch received \<Longrightarrow> s \<in> set (completeWorkbenchStreams received) \<Longrightarrow> typedStream s"
  using new_stream_typed applyFields_typed
  by (auto simp: completeWorkbenchStreams_def completeWorkbenchStream_def list_all_iff dest: listed_stream)

lemma step_typed:
  assumes "\<forall>s \<in> set (wb_streams wb). typedStream s" "typedEvent e"
  shows "\<forall>s \<in> set (wb_streams (builderStep urlHost e wb)). typedStream s"
proof
  fix s
  assume "s \<in> set (wb_streams (builderStep urlHost e wb))"
  from step_streams [OF assms this] show "typedStream s"
    using assms new_stream_typed applyFields_typed normalized_typed completed_typed
    by (cases e) (auto simp: comesFrom_def numberPatch_def typedEvent_def)
qed

lemma number_form: "numberPatch p \<Longrightarrow> formSound (applyFields s p) \<longleftrightarrow> formSound s"
  by (rule apartFrom_sound) (simp add: numberPatch_def)

lemma step_sound:
  assumes "\<forall>s \<in> set (wb_streams wb). typedStream s \<and> formSound s" "typedEvent e" "soundEvent e"
  shows "\<forall>s \<in> set (wb_streams (builderStep urlHost e wb)). formSound s"
proof
  fix s
  have typed: "\<forall>s \<in> set (wb_streams wb). typedStream s" using assms(1) by blast
  assume "s \<in> set (wb_streams (builderStep urlHost e wb))"
  from step_streams [OF typed assms(2) this] show "formSound s"
    using assms(1,3) new_stream_sound number_form normalized_form
    by (cases e) (auto simp: comesFrom_def keptPatch_def soundEvent_def list_all_iff)
qed

lemma sound_event:
  assumes "list_all (\<lambda>e. typedEvent e \<and> soundEvent e) events \<longrightarrow> (\<forall>s \<in> set (wb_streams wb). typedStream s \<and> formSound s)"
  shows "list_all (\<lambda>e. typedEvent e \<and> soundEvent e) (events @ [e])
    \<longrightarrow> (\<forall>s \<in> set (wb_streams (builderStep urlHost e wb)). typedStream s \<and> formSound s)"
  using assms step_sound [of wb e urlHost] step_typed [of wb e urlHost] by auto

interpretation typed_builder: event_machine "builderStep urlHost" initialBuilder
  "\<lambda>events wb. list_all typedEvent events \<longrightarrow> (\<forall>s \<in> set (wb_streams wb). typedStream s)"
  by unfold_locales (use step_typed in \<open>auto simp: initialBuilder_def new_stream_typed\<close>)

interpretation sound_builder: event_machine "builderStep urlHost" initialBuilder
  "\<lambda>events wb. list_all (\<lambda>e. typedEvent e \<and> soundEvent e) events
     \<longrightarrow> (\<forall>s \<in> set (wb_streams wb). typedStream s \<and> formSound s)"
  by unfold_locales (simp add: initialBuilder_def new_stream_typed new_stream_sound, rule sound_event)

section \<open>Deleting a stream\<close>

lemma enumerate_without:
  "map (\<lambda>(i, s). f s) (filter (\<lambda>(i, s). i \<noteq> n + d) (enumerate n xs)) = map f (take d xs @ drop (Suc d) xs)"
proof (induction xs arbitrary: n d)
  case (Cons x xs)
  have all: "map (\<lambda>(i, s). f s) (filter (\<lambda>(i, s). i \<noteq> n) (enumerate (Suc m) xs)) = map f xs" if "n \<le> m" for m
    using that by (induction xs arbitrary: m) auto
  show ?case
  proof (cases d)
    case 0
    then show ?thesis using all [of n] by simp
  next
    case (Suc k)
    then show ?thesis using Cons.IH [of "Suc n" k] by simp
  qed
qed simp

lemma deleted_streams:
  "wb_streams (handleDeleteStream wb)
    = map (renumberedStream (int (wb_selected wb) + 1))
        (take (wb_selected wb) (wb_streams wb) @ drop (Suc (wb_selected wb)) (wb_streams wb))"
  using enumerate_without [of "renumberedStream (int (wb_selected wb) + 1)" 0 "wb_selected wb" "wb_streams wb"]
  by (simp add: handleDeleteStream_def Let_def)

text \<open>The place of the stream at place \<open>i\<close> after stream \<open>d\<close> is gone.\<close>

definition movedTo :: "nat \<Rightarrow> nat \<Rightarrow> nat" where
  "movedTo d i = (if i < d then i else i - 1)"

lemma deleted_at:
  assumes "i < length (wb_streams wb)" "i \<noteq> wb_selected wb" "wb_selected wb < length (wb_streams wb)"
  shows "movedTo (wb_selected wb) i < length (wb_streams (handleDeleteStream wb))"
    "wb_streams (handleDeleteStream wb) ! movedTo (wb_selected wb) i
      = renumberedStream (int (wb_selected wb) + 1) (wb_streams wb ! i)"
  using assms by (auto simp: deleted_streams movedTo_def nth_append)

lemma renumbered_other:
  "f \<noteq> ''next_stream_id'' \<Longrightarrow> f \<noteq> ''action_count'' \<Longrightarrow> renumberedStream d s f = s f"
  by (simp add: renumberedStream_def split: FieldValue.split)

lemma renumbered_goto:
  "s ''next_stream_id'' = FvNumber n
    \<Longrightarrow> renumberedStream d s ''next_stream_id'' = (if n = d then FvNull else FvNumber (if n > d then n - 1 else n))"
  "s ''next_stream_id'' = FvNumber d \<Longrightarrow> renumberedStream d s ''action_count'' = FvNumber 0"
  "s ''next_stream_id'' \<noteq> FvNumber d \<Longrightarrow> renumberedStream d s ''action_count'' = s ''action_count''"
  by (auto simp: renumberedStream_def split: FieldValue.split)

text \<open>The place a stream goes on to.\<close>

definition gotoOf :: "EditorStream \<Rightarrow> nat option" where
  "gotoOf s = (case s ''next_stream_id'' of FvNumber n \<Rightarrow> if 1 \<le> n then Some (nat n - 1) else None | _ \<Rightarrow> None)"

lemma renumbered_target:
  "gotoOf (renumberedStream (int d + 1) s)
    = (case gotoOf s of None \<Rightarrow> None | Some t \<Rightarrow> if t = d then None else Some (movedTo d t))"
proof (cases "s ''next_stream_id''")
  case (FvNumber n)
  then show ?thesis by (auto simp: gotoOf_def renumbered_goto(1) [of s n] movedTo_def)
qed (auto simp: gotoOf_def renumberedStream_def)

section \<open>What is stored\<close>

definition storedInvariant :: "'p Builder \<Rightarrow> (string \<Rightarrow> EditorStream list option) \<Rightarrow> bool" where
  "storedInvariant wb stored \<longleftrightarrow>
     (\<forall>path. \<not> wb_dirty wb \<longrightarrow> wb_sourcePath wb = Some path \<longrightarrow> stored path = Some (wb_streams wb))
     \<and> (\<forall>sent. SaveRequest sent \<in> set (wb_requests wb) \<longrightarrow> sent = wb_streams wb)"

lemma saving_iff: "saving wb \<longleftrightarrow> (\<exists>sent. SaveRequest sent \<in> set (wb_requests wb))"
  by (auto simp: saving_def list_ex_iff split: WorkbenchRequest.splits) (metis WorkbenchRequest.exhaust)

lemma ended_requests: "r \<in> set (wb_requests (endRequest k wb)) \<Longrightarrow> r \<in> set (wb_requests wb)"
  by (auto simp: endRequest_def dest: in_set_takeD in_set_dropD)

lemma control_state:
  "wb_dirty (useControl (i, a) wb) \<or> useControl (i, a) wb = wb"
  "wb_requests (useControl (i, a) wb) = wb_requests wb"
  "wb_sourcePath (useControl (i, a) wb) = wb_sourcePath wb"
  by (auto simp: useControl_cases handleStreamChange_def split: option.split)

lemma command_requests:
  "SaveRequest sent \<in> set (wb_requests (runStreamCommand urlHost action wb)) \<Longrightarrow> SaveRequest sent \<in> set (wb_requests wb)"
  "wb_sourcePath (runStreamCommand urlHost action wb) = wb_sourcePath wb"
  by (auto simp: runStreamCommand_def startRequest_def handleBuildStream_def handleDuplicateStream_def
      handleDeleteStream_def Let_def split: if_splits StreamCommandAction.splits option.splits)

lemma command_dirty:
  "action \<in> {StreamBuild, StreamDuplicate, StreamDelete} \<Longrightarrow>
     wb_dirty (runStreamCommand urlHost action wb) \<or> runStreamCommand urlHost action wb = wb"
  "action \<notin> {StreamBuild, StreamDuplicate, StreamDelete} \<Longrightarrow>
     wb_streams (runStreamCommand urlHost action wb) = wb_streams wb \<and> wb_dirty (runStreamCommand urlHost action wb) = wb_dirty wb"
  by (auto simp: runStreamCommand_def startRequest_def handleBuildStream_def handleDuplicateStream_def
      handleDeleteStream_def Let_def split: StreamCommandAction.splits option.splits)

lemma stored_step:
  assumes inv: "storedInvariant wb stored" and quiet: "\<not> (saving wb \<and> changesStreams e)"
  shows "storedInvariant (builderStep urlHost e wb) (storedAfter e wb stored)"
proof (cases e)
  case (UseControl i a)
  then have "\<not> saving wb" using quiet by (simp add: changesStreams_def)
  then show ?thesis
    using UseControl inv control_state [of i a wb]
    by (cases "useControl (i, a) wb = wb") (auto simp: storedInvariant_def storedAfter_def saving_iff)
next
  case (StreamCommand action)
  show ?thesis
  proof (cases "action \<in> {StreamBuild, StreamDuplicate, StreamDelete}")
    case True
    then have "\<not> saving wb" using StreamCommand quiet by (simp add: changesStreams_def)
    then show ?thesis
      using StreamCommand inv command_requests(1) [of _ urlHost action wb] command_requests(2) [of urlHost action wb] command_dirty(1) [OF True, of urlHost wb]
      by (cases "runStreamCommand urlHost action wb = wb") (auto simp: storedInvariant_def storedAfter_def saving_iff)
  next
    case False
    then show ?thesis
      using StreamCommand inv command_requests(1) [of _ urlHost action wb] command_requests(2) [of urlHost action wb] command_dirty(2) [OF False, of urlHost wb]
      by (auto simp: storedInvariant_def storedAfter_def)
  qed
next
  case (LoadAnswer k received path name previews)
  then have "\<not> saving wb" using quiet by (simp add: changesStreams_def)
  then show ?thesis
    using LoadAnswer inv
    by (auto simp: storedInvariant_def storedAfter_def saving_iff loadAnswered_def endRequest_def
        dest: in_set_takeD in_set_dropD)
next
  case (ImportAnswer k received name previews)
  then have "\<not> saving wb" using quiet by (simp add: changesStreams_def)
  then show ?thesis
    using ImportAnswer inv
    by (auto simp: storedInvariant_def storedAfter_def saving_iff importAnswered_def endRequest_def
        dest: in_set_takeD in_set_dropD)
next
  case (SaveAnswer k path previews)
  then show ?thesis
    using inv
    by (auto simp: storedInvariant_def storedAfter_def saveAnswered_def endRequest_def requestAt_def
        dest: in_set_takeD in_set_dropD split: option.splits WorkbenchRequest.splits if_splits) (metis nth_mem)+
qed (use inv in \<open>auto simp: storedInvariant_def storedAfter_def handleBuilderProfileNameChange_def runProfileCommand_def
    handleSaveWorkbenchProfile_def startRequest_def endRequest_def dest: in_set_takeD in_set_dropD
    split: option.splits ProfileCommandAction.splits\<close>)

lemma stored_run:
  "storedInvariant wb stored \<Longrightarrow> quietRun urlHost events wb
    \<Longrightarrow> storedInvariant (fold (builderStep urlHost) events wb) (storedBy urlHost events wb stored)"
  by (induction events arbitrary: wb stored) (auto intro: stored_step)

section \<open>The choice of an ICMPv6 message\<close>

lemma flag_field: "hasType v FlagType \<Longrightarrow> \<exists>b. v = FvFlag b"
  by (cases v) (auto simp: hasType.simps)

lemma option_flags:
  assumes "typedStream s"
  shows "\<exists>b. s ''icmpv6_rs_include_slla'' = FvFlag b" "\<exists>b. s ''icmpv6_ra_include_slla'' = FvFlag b"
    "\<exists>b. s ''icmpv6_ra_include_prefix'' = FvFlag b" "\<exists>b. s ''icmpv6_nd_include_option'' = FvFlag b"
  by (rule flag_field, rule typedStream_field [OF assms], simp)+

lemma normalized_at:
  "f \<notin> set (map fst droppedImport) \<Longrightarrow> applyFields s (normalizedPatch p) f = applyFields s p f"
proof -
  assume "f \<notin> set (map fst droppedImport)"
  then have "list_all (\<lambda>(g, w). g \<noteq> f) droppedImport" by (force simp: list_all_iff)
  then show ?thesis by (simp add: normalizedPatch_def assign_other)
qed

lemma minimum_reads:
  assumes "\<And>f. f \<in> {''vlan_enabled'', ''vlan2_enabled'', ''mpls_enabled'', ''mpls_label2_enabled'', ''mpls_label3_enabled'',
      ''icmpv6_rs_include_slla'', ''icmpv6_ra_include_slla'', ''icmpv6_ra_include_prefix'', ''icmpv6_nd_include_option''}
    \<Longrightarrow> s' f = s f"
  shows "icmpv6ControlMinimumFrameLength s' v = icmpv6ControlMinimumFrameLength s v"
  by (simp add: icmpv6ControlMinimumFrameLength_def workbenchVlanHeaderLength_def workbenchMplsLabelCount_def
      profileStream_def Let_def assms cong: if_cong)

text \<open>The fields after the choice of a control message.\<close>

definition chosenMessage :: "EditorStream \<Rightarrow> FieldValue \<Rightarrow> EditorStream" where
  "chosenMessage s v = applyFields s (normalizedPatch (icmpTypePatch v (Some s)))"

lemma chosen_fields:
  assumes "typedStream s" "s ''packet_type'' = FvText ''Ethernet/IPv6/ICMPv6''" "s ''frame_length'' = FvNumber n"
    "v \<in> {FvNumber 133, FvNumber 134, FvNumber 135, FvNumber 136}"
  shows "chosenMessage s v ''packet_type'' = FvText ''Ethernet/IPv6/ICMPv6''" "chosenMessage s v ''icmp_type'' = v"
    "chosenMessage s v ''icmp_code'' = FvNumber 0" "chosenMessage s v ''frame_length_type'' = fixedMode"
    "chosenMessage s v ''icmp_type_mode'' = fixedMode" "chosenMessage s v ''icmp_code_mode'' = fixedMode"
    "chosenMessage s v ''icmp_identifier_mode'' = fixedMode" "chosenMessage s v ''icmp_sequence_mode'' = fixedMode"
    "chosenMessage s v ''frame_length'' = FvNumber (max n (icmpv6ControlMinimumFrameLength s v))"
    "f \<in> {''vlan_enabled'', ''vlan2_enabled'', ''mpls_enabled'', ''mpls_label2_enabled'', ''mpls_label3_enabled'',
      ''icmpv6_rs_include_slla'', ''icmpv6_ra_include_slla'', ''icmpv6_ra_include_prefix'', ''icmpv6_nd_include_option''}
    \<Longrightarrow> chosenMessage s v f = s f"
  using option_flags [OF assms(1)] assms(2-)
  unfolding chosenMessage_def
  by (auto simp: normalized_at droppedImport_def icmpTypePatch_def Let_def icmpResets_def)

lemma chosen_minimum:
  assumes "typedStream s" "s ''packet_type'' = FvText ''Ethernet/IPv6/ICMPv6''" "s ''frame_length'' = FvNumber n"
    "v \<in> {FvNumber 133, FvNumber 134, FvNumber 135, FvNumber 136}"
  shows "fieldNumber (chosenMessage s v) ''frame_length'' = max n (pageIcmpv6MinimumFrameLength (chosenMessage s v))"
proof -
  note fields = chosen_fields [OF assms]
  have "isIcmpv6Stream (chosenMessage s v)" by (simp add: isIcmpv6Stream_def fields(1))
  from minimum_agrees [OF this] have "pageIcmpv6MinimumFrameLength (chosenMessage s v) = icmpv6ControlMinimumFrameLength s v"
    using minimum_reads [of "chosenMessage s v" s v] fields(2,10) by simp
  then show ?thesis by (simp add: fieldNumber_def fields(9))
qed

end
