(* ===== verification/EditorProperties.thy ===== *)
theory EditorProperties
  imports WorkbenchStreams
begin

text \<open>
  The properties of the stream editor: what the controls and the commands of the page keep of the streams.
\<close>

section \<open>Samples\<close>








text \<open>A save of the new stream, and its answer.\<close>

definition sampleSave :: "unit BuilderEvent list" where
  "sampleSave = [ProfileCommand ProfileCreate False True, SaveAnswer 0 (Some ''a.yaml'') []]"

lemma initial_accepted: "validateWorkbenchProfile urlHost ''profile.yaml'' [defaultWorkbenchStream 1] = None"
proof -
  have "jsTrim ''profile.yaml'' = ''profile.yaml''" by code_simp
  then show ?thesis
    using new_stream_accepted [of 1 urlHost 0 1]
    by (simp add: validateWorkbenchProfile_def validateWorkbenchStreams_def firstError_None WORKBENCH_MAX_PG_ID_def)
qed

lemma sampleSave_run:
  "fold (builderStep urlHost) sampleSave initialBuilder
    = (initialBuilder :: unit Builder)\<lparr>wb_sourcePath := Some ''a.yaml''\<rparr>"
  "quietRun urlHost sampleSave initialBuilder"
  using initial_accepted [of urlHost]
  by (simp_all add: sampleSave_def initialBuilder_def runProfileCommand_def profileCommandDisabled_def
      profileAvailability_def handleSaveWorkbenchProfile_def startRequest_def requestAt_def saveAnswered_def endRequest_def
      saving_def changesStreams_def)

text \<open>Two new streams, of which the first is selected.\<close>

definition samplePair :: "unit Builder" where
  "samplePair = builderStep (\<lambda>host. None) (SelectStream 0) (handleBuildStream initialBuilder)"



section \<open>Controls and commands\<close>







text \<open>
  C37. The report of a run shows streams that the backend holds: if no event changes the streams while a save is under
  way, the streams that the report shows for the selected profile are those last loaded from or saved to its path.
\<close>

theorem report_streams_stored:
  assumes "quietRun urlHost events initialBuilder"
    "reportWorkbenchStreams isPythonProfile path (fold (builderStep urlHost) events initialBuilder) = Some streams"
  shows "storedBy urlHost events initialBuilder Map.empty path = Some streams"
proof -
  have "storedInvariant initialBuilder Map.empty" by (simp add: storedInvariant_def initialBuilder_def)
  from stored_run [OF this assms(1)] show ?thesis
    using assms(2) by (auto simp: storedInvariant_def reportWorkbenchStreams_def split: if_splits)
qed

theorem report_streams_stored_witness:
  "storedBy (\<lambda>host. None) sampleSave initialBuilder Map.empty ''a.yaml'' = Some [defaultWorkbenchStream 1]"
  by (rule report_streams_stored [where isPythonProfile = False, OF sampleSave_run(2)])
    (unfold reportWorkbenchStreams_def sampleSave_run(1), simp add: initialBuilder_def)

text \<open>
  C38. Deleting the selected stream leaves every other stream where it went on to: its number is adapted to the new
  places, and only a stream that went on to the deleted one goes on nowhere, with no repetitions. No other field of
  any stream changes.
\<close>

theorem delete_keeps_targets:
  assumes "wb_selected wb = d" "d < length (wb_streams wb)" "i < length (wb_streams wb)" "i \<noteq> d"
    "s = wb_streams wb ! i" "s' = wb_streams (handleDeleteStream wb) ! movedTo d i"
  shows "length (wb_streams (handleDeleteStream wb)) = length (wb_streams wb) - 1
    \<and> gotoOf s' = (case gotoOf s of None \<Rightarrow> None | Some t \<Rightarrow> if t = d then None else Some (movedTo d t))
    \<and> s' ''action_count'' = (if gotoOf s = Some d then FvNumber 0 else s ''action_count'')
    \<and> (\<forall>f. f \<notin> {''next_stream_id'', ''action_count''} \<longrightarrow> s' f = s f)"
proof -
  have s': "s' = renumberedStream (int d + 1) s" using deleted_at(2) [of i wb] assms by simp
  have "s' ''action_count'' = (if gotoOf s = Some d then FvNumber 0 else s ''action_count'')"
    unfolding s' by (cases "s ''next_stream_id''") (auto simp: gotoOf_def renumberedStream_def)
  moreover have "length (wb_streams (handleDeleteStream wb)) = length (wb_streams wb) - 1"
    using assms by (simp add: deleted_streams)
  ultimately show ?thesis using renumbered_target renumbered_other by (simp add: s')
qed

theorem delete_keeps_targets_witness:
  "length (wb_streams (handleDeleteStream samplePair)) = 1
   \<and> (wb_streams (handleDeleteStream samplePair) ! 0) ''name'' = FvText (''stream-'' @ decText 2)"
  using delete_keeps_targets [of samplePair 0 1, OF _ _ _ _ refl refl]
  by (simp add: samplePair_def handleBuildStream_def initialBuilder_def movedTo_def default_fields)

section \<open>Checks\<close>

text \<open>
  C39. A stream that the page accepts (and that is not edited as packet bytes) fits its headers: every number of a
  protocol field has the bits of the field, and every number of values and step that a field engine may use stays in
  them.
\<close>

theorem accepted_numbers_fit:
  assumes "validateWorkbenchStream urlHost (Some s) index count = None" "\<not> fvTruthy (s ''advanced_mode'')"
  shows "list_all (\<lambda>(f, w). inRange (s f) 0 (2 ^ w - 1)) protocolWidths
    \<and> list_all (\<lambda>(f, w). inRange (s (f @ ''_count'')) 2 (2 ^ w) \<and> inRange (s (f @ ''_step'')) 1 (2 ^ w - 1)) movingWidths"
  using assms numbers_fit by (simp add: stream_accepted)

theorem accepted_numbers_fit_witness:
  "list_all (\<lambda>(f, w). inRange (defaultWorkbenchStream 7 f) 0 (2 ^ w - 1)) protocolWidths"
  using accepted_numbers_fit [OF new_stream_accepted] by (simp add: WORKBENCH_MAX_PG_ID_def default_fields)



end
