(* ===== verification/Spec2Isabelle.thy ===== *)
theory Spec2Isabelle
  imports TableProperties RunProperties PageProperties VmProperties EditorProperties
begin

text \<open>
  A model of the core of the TRex web interface, the React front end of a traffic generator. The
  sources are under \<open>src/apps/web/src\<close>; \<open>W\<close> stands for its \<open>components/workbench\<close>.

  \<^bold>\<open>The program.\<close> A user edits a packet as bytes, field by field, and places the instructions of a
  field engine on its fields (\<open>W/trafficProfiles/rawPacketModel.ts\<close>), or fills in a form that the backend turns
  into a packet; starts, controls and stops
  traffic in a session that the backend keeps and several pages may see (\<open>App.tsx\<close>,
  \<open>W/trafficRunAuthority.ts\<close>); captures packets (\<open>W/capturePacketBuffer.ts\<close>); and saves a report of
  the run, whose verdict rests on the evidence that the backend persisted (\<open>W/runReport.ts\<close>).

  \<^bold>\<open>The packet.\<close> A packet is a list of integers 0 to 255 (\<open>bytes\<close>, with the invariant \<open>is_bytes\<close>);
  the operators of JavaScript on 32-bit integers are the words of \<open>Prelude\<close>. A read out of range
  gives \<open>undefined\<close> in the code and is guarded there by \<open>rawPacketHasBytes\<close>.
  \<^item> \<open>Prelude\<close>, \<open>JsText\<close>: operators, byte lists, and the texts of JavaScript that the code uses.
  \<^item> \<open>PacketBytes\<close>, \<open>HexText\<close>, \<open>FieldCodec\<close>: base64, the hexadecimal editor, and the texts of a
    field; the locale \<open>field_codec\<close> is the contract of a parser and its printer.
  \<^item> \<open>LinkLayer\<close>, \<open>NetworkLayer\<close>, \<open>Ipv6Extensions\<close>, \<open>TransportLayer\<close>, \<open>Tunnels\<close>, \<open>GtpuGre\<close>,
    \<open>Icmpv6Targets\<close>, \<open>DnsDhcp\<close>: one dissector for each target of the field engine; the locale
    \<open>packet_target\<close> says that what it finds lies in the packet, and every dissector interprets it.
  \<^item> \<open>PacketWalk\<close>, \<open>Collectors\<close>, \<open>GreCollector\<close>: the walks through tunnels that collect checksums
    (locale \<open>checksum_walk\<close>); their recursion ends because each tunnel leaves fewer bytes.
  \<^item> \<open>Checksums\<close>, \<open>Repair\<close>, \<open>RepairPasses\<close>, \<open>RepairCorrect\<close>, \<open>RepairPlain\<close>, \<open>Closing\<close>: the sums, the
    passes of the repair (locale \<open>repair_pass\<close>), and what holds after it. \<open>RepairProperties\<close> has the
    properties, \<open>Samples\<close> the packets of the witnesses.
  \<^item> \<open>FieldRows\<close>, \<open>LayerRows\<close>, \<open>FieldTable\<close>, \<open>FieldEdit\<close>, \<open>TargetMatch\<close>,
    \<open>PacketPreview\<close>: the field table, the edit of a row, the template offered for it, and the text the
    editor starts from. \<open>TableProperties\<close> has the properties.

  \<^bold>\<open>The run.\<close> A session with its groups and its ledger of mutations is a record; a record keyed by
  ports is an association list; how a text is read as a date is a parameter (\<open>date_reader\<close>), for the
  standard leaves other formats than its own to the engine. Records leave out the fields that nothing
  here reads.
  \<^item> \<open>JsCollections\<close>: sets in order of insertion, maps, chains of early returns, and \<open>reduce\<close>.
  \<^item> \<open>RunSession\<close>, \<open>RunEvidence\<close>: the comparisons and the authentication of the starts and stops.
  \<^item> \<open>RunVerified\<close>, \<open>RunStopped\<close>: the abstract specification \<open>verifiedRun\<close>, without loops and early
    returns, and the equivalence of the code with it.
  \<^item> \<open>RunAuthority\<close>, \<open>RunPage\<close>: the page as a state machine over snapshots, answers to commands, saved
    captures and changes of the connection, in any order (\<open>pageReaches\<close>); its invariants are
    interpretations of the locale \<open>event_machine\<close> of \<open>JsCollections\<close>.
  \<^item> \<open>RunSamples\<close> has the sessions of the witnesses, \<open>RunProperties\<close> the properties.

  \<^bold>\<open>The rest of the page.\<close> \<open>CaptureBuffer\<close> (the monitor buffer, also an \<open>event_machine\<close>), \<open>RunReport\<close>
  (capture files, verdicts, conclusion, CSV), \<open>PortControls\<close> and \<open>PayloadPattern\<close>, with their
  properties in \<open>PageProperties\<close>.

  \<^bold>\<open>The field engine.\<close> A template builds a body, the JSON object that TRex runs: variables that count
  and instructions that write them into the packet. The files are \<open>W/trafficProfiles/advancedVm*.ts\<close>.
  \<^item> \<open>JsNumbers\<close>, \<open>FlowVars\<close>, \<open>VmSuffixes\<close>: numbers read from text, the instructions with the bounds of
    a counting variable, and what makes a body sound (\<open>bodySound\<close>); addresses that are longer than
    a variable count by a suffix.
  \<^item> \<open>StreamLayout\<close>: where a form puts its headers (\<open>packetLayoutModel.ts\<close>).
  \<^item> \<open>VmLink\<close>, \<open>VmIpv4\<close>, \<open>VmIpv6\<close>, \<open>VmTransport\<close>, \<open>VmInner\<close>, \<open>VmVxlan\<close>, \<open>VmGtpu\<close>, \<open>VmGre\<close>,
    \<open>VmExtension\<close>, \<open>VmIcmp\<close>, \<open>VmDnsDhcp\<close>: the builders, by layer, each with the condition under which
    it is offered; \<open>VmTable\<close> is the table of the 265 templates.
  \<^item> \<open>VmJson\<close>, \<open>VmParameters\<close>, \<open>VmTargets\<close>: the JSON text of a body, printed and parsed; the drafts of
    the parameters and their validation; the rows and actions of the editor.
  \<^item> \<open>VmOffered\<close> (what an offered template writes), \<open>VmRows\<close> (what a draft cannot change), \<open>VmDrafts\<close>
    (texts that read back); \<open>VmProperties\<close> has the properties.

  \<^bold>\<open>The stream editor.\<close> A control builds an action, the action gives a patch of the stream, and the page
  applies it (\<open>W/trafficProfiles/streamPatchModel.ts\<close>, \<open>api.ts\<close>, \<open>handleStreamChange\<close> of \<open>App.tsx\<close>). A stream
  is a function from the names of its 561 fields to values; numbers are whole.
  \<^item> \<open>StreamPatch\<close>: the patches and the switch over 427 kinds of action, as a table; \<open>StreamActions\<close>: the
    functions the controls call; \<open>StreamTypes\<close>: the declared types of fields and actions.
  \<^item> \<open>StreamTyped\<close>, \<open>StreamCases\<close>: every case gives values of the declared types; \<open>StreamSound\<close>,
    \<open>StreamKept\<close>: every case keeps a form sound and leaves the import alone.
  \<^item> \<open>StreamEditing\<close>: the page applies a patch, and drops an imported packet when a field of its bytes
    is edited.
  \<^item> \<open>StreamChecks\<close>: \<open>validateWorkbenchStream\<close> of \<open>App.tsx\<close>, the 319 numeric checks as a table and the
    checks of the layers in their order; whether a text is an IPv6 address is a parameter (\<open>urlHost\<close>, for the code
    asks the \<open>URL\<close> of the browser).
  \<^item> \<open>WorkbenchStreams\<close>: the builder page as a state machine (\<open>builderStep\<close>): new, duplicated and deleted
    streams, the command buttons (\<open>workspaceCommands.ts\<close>), and the requests that load, import and save, each
    with an event for its start and one for its answer; its invariants interpret \<open>event_machine\<close>. What the
    backend holds is a function of the answers (\<open>storedBy\<close>). \<open>EditorProperties\<close> has the properties.

  \<^bold>\<open>Bounds and fuel.\<close> Loops over packets recurse on a measure or on a fuel that the code itself
  bounds (128 jumps of a DNS name in the field table); the reader of JSON texts has the length of the
  text as fuel, which is enough for every text (\<open>parser_terminates\<close>); no property rests on a result of
  exhausted fuel. Integers are unbounded where the code computes with numbers below \<open>2 ^ 53\<close>, and words
  of 32 bits where it uses bitwise operators.

  \<^bold>\<open>Not modelled.\<close> Whatever computes with or prints floating point numbers (rates, latencies,
  multipliers, counters of the report), the view models of the editor (\<open>workspaceSelectionModel.ts\<close> and
  the tables of \<open>model.ts\<close>), rendering, timers and requests, the scripts, the Python backend and the
  deployment. Characters beyond Latin-1 do not occur in the model of texts.
\<close>

end
